(* ===== verification/Prelude.thy ===== *)
theory Prelude
  imports Main "HOL-Library.Word"
begin

text \<open>
  Vocabulary shared by every component: bytes, C strings, big-endian integers, and the
  outcome of a C routine that may refuse its input (with or without filling in a
  \<open>GError\<close>) or touch memory it does not own.

  \<^item> A byte is a \<open>char\<close>; a buffer is a list of bytes.
  \<^item> A \<open>const gchar *\<close> into a buffer is the suffix of the memory it points at, so
    \<open>buffer + i\<close> is \<open>drop i buffer\<close> and a read through an empty suffix is a read
    out of bounds.
  \<^item> A \<open>gint\<close> length is an \<open>int\<close>, since the code subtracts from lengths and can
    make them negative; \<open>gsize_of_int\<close> is the conversion to \<open>gsize\<close> on a 64-bit
    platform.
\<close>

unbundle bit_operations_syntax

named_theorems codec_simps \<open>equations that run the encoders and decoders on symbolic input\<close>

type_synonym bytes = "char list"
type_synonym u8 = "8 word"
type_synonym u16 = "16 word"
type_synonym u32 = "32 word"

abbreviation NUL :: char where
  "NUL \<equiv> CHR 0x00"

subsection \<open>Outcomes\<close>

datatype memory_fault = Overread | Overflow | Null_dereference

text \<open>The codes of the error domains the decoders use (message texts are only logged).\<close>

datatype gerror =
    SHORT_COMMAND_LENGTH
  | LONG_COMMAND_LENGTH
  | UNEXPECTED_END
  | UNEXPECTED_COMMAND
  | MISSING_NULL
  | UNKNOWN_MACRO_CONTEXT
  | UNKNOWN_SOCKET_FAMILY
  | INVALID_FORMAT
  | UNEXPECTED_MACRO_STAGE
  | UNEXPECTED_REPLY

text \<open>
  \<open>Refused None\<close> is a routine that returns \<open>FALSE\<close> and leaves \<open>*error\<close> unset.
\<close>

datatype 'a result = Ok 'a | Refused "gerror option" | Fault memory_fault

fun bind_result :: "'a result \<Rightarrow> ('a \<Rightarrow> 'b result) \<Rightarrow> 'b result" where
  "bind_result (Ok x) k = k x"
| "bind_result (Refused e) k = Refused e"
| "bind_result (Fault f) k = Fault f"

lemma bind_result_Ok_iff [simp]:
  "bind_result r k = Ok y \<longleftrightarrow> (\<exists>x. r = Ok x \<and> k x = Ok y)"
  by (cases r) auto

lemma bind_result_Fault_iff:
  "bind_result r k = Fault f \<longleftrightarrow> r = Fault f \<or> (\<exists>x. r = Ok x \<and> k x = Fault f)"
  by (cases r) auto

subsection \<open>Lengths\<close>

definition gsize_of_int :: "int \<Rightarrow> int" where
  "gsize_of_int n = (if n < 0 then n + 2 ^ 64 else n)"

lemma gsize_of_int_nonneg [simp]: "0 \<le> n \<Longrightarrow> gsize_of_int n = n"
  by (simp add: gsize_of_int_def)

subsection \<open>C strings\<close>

text \<open>
  \<open>c_string s\<close>: \<open>s\<close> can be the contents of a NUL-terminated string. \<open>cstr p\<close> is
  the string a pointer \<open>p\<close> denotes: the bytes before the first NUL.
\<close>

definition c_string :: "bytes \<Rightarrow> bool" where
  "c_string s \<longleftrightarrow> NUL \<notin> set s"

definition cstr :: "bytes \<Rightarrow> bytes" where
  "cstr p = takeWhile (\<lambda>c. c \<noteq> NUL) p"

lemma c_string_Nil [simp]: "c_string []"
  by (simp add: c_string_def)

lemma c_string_Cons [simp]: "c_string (x # s) \<longleftrightarrow> x \<noteq> NUL \<and> c_string s"
  by (auto simp: c_string_def)

lemma c_string_append [simp]: "c_string (s @ t) \<longleftrightarrow> c_string s \<and> c_string t"
  by (auto simp: c_string_def)

lemma c_string_cstr [simp]: "c_string (cstr p)"
  by (auto simp: c_string_def cstr_def dest: set_takeWhileD)

lemma cstr_Nil [simp]: "cstr [] = []"
  by (simp add: cstr_def)

lemma cstr_Cons [simp]: "cstr (x # p) = (if x = NUL then [] else x # cstr p)"
  by (simp add: cstr_def)

lemma cstr_terminated [simp]: "c_string s \<Longrightarrow> cstr (s @ NUL # r) = s"
  by (induction s) auto

lemma cstr_c_string [simp]: "c_string s \<Longrightarrow> cstr s = s"
  by (induction s) auto

lemma cstr_append_c_string [simp]: "c_string s \<Longrightarrow> cstr (s @ r) = s @ cstr r"
  by (induction s) auto

text \<open>What the decoders take for a name or an address: a C string that is not empty.\<close>

definition wf_string :: "bytes \<Rightarrow> bool" where
  "wf_string s \<longleftrightarrow> c_string s \<and> s \<noteq> []"

text \<open>
  What may follow a packet in the receive buffer without changing how an unterminated
  string at the end of the packet reads: nothing, or a byte that is NUL. The length
  prefix of the next packet starts with NUL whenever that packet is shorter than
  \<open>2 ^ 24\<close> bytes.
\<close>

definition starts_nul :: "bytes \<Rightarrow> bool" where
  "starts_nul r \<longleftrightarrow> r = [] \<or> hd r = NUL"

lemma starts_nul_Nil [simp]: "starts_nul []"
  by (simp add: starts_nul_def)

lemma starts_nul_Cons [simp]: "starts_nul (x # r) \<longleftrightarrow> x = NUL"
  by (simp add: starts_nul_def)

lemma cstr_starts_nul [simp]: "starts_nul r \<Longrightarrow> cstr r = []"
  by (cases r) auto

lemma starts_nul_append_NUL: "starts_nul r \<Longrightarrow> \<exists>r'. r @ [NUL] = NUL # r'"
  by (cases r) auto

text \<open>A received prefix that is long enough contains the first part whole.\<close>

lemma received_prefix:
  assumes "xs @ rest = p @ t" and "length p \<le> length xs"
  obtains q where "xs = p @ q" and "q @ rest = t"
proof -
  have "xs = p @ drop (length p) xs" using assms by (metis append_eq_append_conv_if append_take_drop_id)
  moreover from this assms(1) have "drop (length p) xs @ rest = t" by (metis append.assoc same_append_eq)
  ultimately show thesis by (rule that)
qed

subsection \<open>Big-endian integers\<close>

text \<open>\<open>g_htonl\<close> followed by \<open>memcpy\<close>, and the inverse \<open>memcpy\<close>, \<open>g_ntohl\<close>.\<close>

definition be_value :: "bytes \<Rightarrow> nat" where
  "be_value bs = foldl (\<lambda>n c. n * 256 + of_char c) 0 bs"

definition be32 :: "u32 \<Rightarrow> bytes" where
  "be32 w =
     [char_of (unat w div 2 ^ 24), char_of (unat w div 2 ^ 16), char_of (unat w div 2 ^ 8),
      char_of (unat w)]"

definition of_be32 :: "bytes \<Rightarrow> u32" where
  "of_be32 bs = word_of_nat (be_value bs)"

definition be16 :: "u16 \<Rightarrow> bytes" where
  "be16 w = [char_of (unat w div 2 ^ 8), char_of (unat w)]"

definition of_be16 :: "bytes \<Rightarrow> u16" where
  "of_be16 bs = word_of_nat (be_value bs)"

lemma length_be32 [simp]: "length (be32 w) = 4"
  by (simp add: be32_def)

lemma be32_not_Nil [simp]: "be32 w \<noteq> []" "[] \<noteq> be32 w"
  by (simp_all add: be32_def)

lemma length_be16 [simp]: "length (be16 w) = 2"
  by (simp add: be16_def)

lemma be_digits4:
  fixes n :: nat
  shows "(((n div 2 ^ 24 * 256 + n div 2 ^ 16 mod 256) * 256
           + n div 2 ^ 8 mod 256) * 256) + n mod 256 = n"
proof -
  have "n div 2 ^ 16 = n div 2 ^ 24 * 256 + n div 2 ^ 16 mod 256"
    using div_mult_mod_eq [of "n div 2 ^ 16" 256] by (simp add: div_mult2_eq [symmetric])
  moreover have "n div 2 ^ 8 = n div 2 ^ 16 * 256 + n div 2 ^ 8 mod 256"
    using div_mult_mod_eq [of "n div 2 ^ 8" 256] by (simp add: div_mult2_eq [symmetric])
  moreover have "n = n div 2 ^ 8 * 256 + n mod 256"
    using div_mult_mod_eq [of n 256] by simp
  ultimately show ?thesis by simp
qed

lemma be_value_be32 [simp]: "be_value (be32 w) = unat w"
proof -
  have "unat w < 2 ^ 32" using unsigned_less [of w] by simp
  then have "unat w div 2 ^ 24 < 256" by (simp add: less_mult_imp_div_less)
  with be_digits4 [of "unat w"] show ?thesis
    by (simp add: be_value_def be32_def)
qed

lemma of_be32_be32 [simp]: "of_be32 (be32 w) = w"
  by (simp add: of_be32_def)

lemma of_be16_be16 [simp]: "of_be16 (be16 w) = w"
proof -
  have b: "unat w < 256 * 256" using unsigned_less [of w] by simp
  then have "unat w div 256 < 256" by (simp add: less_mult_imp_div_less)
  then have "unat w div 256 mod 256 * 256 + unat w mod 256 = unat w"
    using div_mult_mod_eq [of "unat w" 256] by simp
  then have "be_value (be16 w) = unat w" by (simp add: be_value_def be16_def)
  then show ?thesis by (simp add: of_be16_def)
qed

lemma char_of_0 [simp]: "char_of (0::nat) = NUL"
  by (simp add: char_of_def)

lemma hd_be32_small:
  assumes "n < 2 ^ 24"
  shows "be32 (word_of_nat n) = NUL # tl (be32 (word_of_nat n))"
proof -
  have "unat (word_of_nat n :: u32) = n"
    using assms by (simp add: unsigned_of_nat take_bit_nat_eq_self)
  with assms show ?thesis by (simp add: be32_def)
qed

lemma take_be32 [simp]: "take 4 (be32 w @ r) = be32 w"
  by simp

lemma drop_be32 [simp]: "drop 4 (be32 w @ r) = r"
  by simp

subsection \<open>Splitting\<close>

text \<open>
  \<open>g_strsplit\<close> with a one-character delimiter and no limit; the empty string gives the
  empty vector.
\<close>

fun split_char :: "char \<Rightarrow> bytes \<Rightarrow> bytes list" where
  "split_char c [] = [[]]"
| "split_char c (x # s) =
     (if x = c then [] # split_char c s
      else (case split_char c s of t # ts \<Rightarrow> (x # t) # ts | [] \<Rightarrow> [[x]]))"

definition g_strsplit :: "bytes \<Rightarrow> char \<Rightarrow> bytes list" where
  "g_strsplit s c = (if s = [] then [] else split_char c s)"

fun join_char :: "char \<Rightarrow> bytes list \<Rightarrow> bytes" where
  "join_char c [] = []"
| "join_char c [t] = t"
| "join_char c (t # u # ts) = t @ c # join_char c (u # ts)"

lemma split_char_not_Nil [simp]: "split_char c s \<noteq> []"
  by (induction s) (auto split: list.splits)

lemma split_char_no_delim: "c \<notin> set t \<Longrightarrow> split_char c t = [t]"
  by (induction t) auto

lemma split_char_append: "c \<notin> set t \<Longrightarrow> split_char c (t @ c # s) = t # split_char c s"
  by (induction t) auto

lemma split_join_char:
  "ts \<noteq> [] \<Longrightarrow> \<forall>t \<in> set ts. c \<notin> set t \<Longrightarrow> split_char c (join_char c ts) = ts"
  by (induction c ts rule: join_char.induct) (auto simp: split_char_no_delim split_char_append)

lemma join_split_char: "join_char c (split_char c s) = s"
proof (induction s)
  case (Cons x s)
  obtain t ts where "split_char c s = t # ts" by (cases "split_char c s") auto
  with Cons show ?case by (cases ts) auto
qed simp

lemma c_string_join_char:
  "c \<noteq> NUL \<Longrightarrow> \<forall>t \<in> set ts. c_string t \<Longrightarrow> c_string (join_char c ts)"
  by (induction c ts rule: join_char.induct) auto

lemma join_char_Nil_iff: "join_char c ts = [] \<longleftrightarrow> ts = [] \<or> ts = [[]]"
  by (induction c ts rule: join_char.induct) auto

subsection \<open>The platform\<close>

text \<open>
  Library routines that are not part of the program: address conversion of the C library,
  and GLib's locale-dependent collation and list sort.
\<close>

record platform =
  inet_ntop4 :: "u32 \<Rightarrow> bytes"
  inet_pton4 :: "bytes \<Rightarrow> u32 option"
  inet_ntop6 :: "128 word \<Rightarrow> bytes"
  inet_pton6 :: "bytes \<Rightarrow> 128 word option"
  g_utf8_collate :: "bytes \<Rightarrow> bytes \<Rightarrow> int"
  g_list_sort :: "(bytes \<Rightarrow> bytes \<Rightarrow> int) \<Rightarrow> bytes list \<Rightarrow> bytes list"

end
