(* ===== verification/Protocol.thy ===== *)
theory Protocol
  imports Prelude
begin

text \<open>
  The protocol's vocabulary (\<open>milter/core/milter-protocol.h\<close>): command, reply, status
  and macro-stage codes, the precedence of statuses (\<open>milter-protocol.c\<close>) and the
  stage/command correspondence of \<open>milter-utils.c\<close>. The enum constants keep their
  names; \<open>command_code\<close> and \<open>reply_code\<close> give the byte each has on the wire.
\<close>

subsection \<open>Enumerations\<close>

datatype milter_command =
    MILTER_COMMAND_ABORT
  | MILTER_COMMAND_BODY
  | MILTER_COMMAND_CONNECT
  | MILTER_COMMAND_DEFINE_MACRO
  | MILTER_COMMAND_END_OF_MESSAGE
  | MILTER_COMMAND_HELO
  | MILTER_COMMAND_QUIT_NEW_CONNECTION
  | MILTER_COMMAND_HEADER
  | MILTER_COMMAND_ENVELOPE_FROM
  | MILTER_COMMAND_END_OF_HEADER
  | MILTER_COMMAND_NEGOTIATE
  | MILTER_COMMAND_QUIT
  | MILTER_COMMAND_ENVELOPE_RECIPIENT
  | MILTER_COMMAND_DATA
  | MILTER_COMMAND_UNKNOWN

primrec command_code :: "milter_command \<Rightarrow> char" where
  "command_code MILTER_COMMAND_ABORT = CHR ''A''"
| "command_code MILTER_COMMAND_BODY = CHR ''B''"
| "command_code MILTER_COMMAND_CONNECT = CHR ''C''"
| "command_code MILTER_COMMAND_DEFINE_MACRO = CHR ''D''"
| "command_code MILTER_COMMAND_END_OF_MESSAGE = CHR ''E''"
| "command_code MILTER_COMMAND_HELO = CHR ''H''"
| "command_code MILTER_COMMAND_QUIT_NEW_CONNECTION = CHR ''K''"
| "command_code MILTER_COMMAND_HEADER = CHR ''L''"
| "command_code MILTER_COMMAND_ENVELOPE_FROM = CHR ''M''"
| "command_code MILTER_COMMAND_END_OF_HEADER = CHR ''N''"
| "command_code MILTER_COMMAND_NEGOTIATE = CHR ''O''"
| "command_code MILTER_COMMAND_QUIT = CHR ''Q''"
| "command_code MILTER_COMMAND_ENVELOPE_RECIPIENT = CHR ''R''"
| "command_code MILTER_COMMAND_DATA = CHR ''T''"
| "command_code MILTER_COMMAND_UNKNOWN = CHR ''U''"

definition all_commands :: "milter_command list" where
  "all_commands =
     [MILTER_COMMAND_ABORT, MILTER_COMMAND_BODY, MILTER_COMMAND_CONNECT,
      MILTER_COMMAND_DEFINE_MACRO, MILTER_COMMAND_END_OF_MESSAGE, MILTER_COMMAND_HELO,
      MILTER_COMMAND_QUIT_NEW_CONNECTION, MILTER_COMMAND_HEADER,
      MILTER_COMMAND_ENVELOPE_FROM, MILTER_COMMAND_END_OF_HEADER,
      MILTER_COMMAND_NEGOTIATE, MILTER_COMMAND_QUIT, MILTER_COMMAND_ENVELOPE_RECIPIENT,
      MILTER_COMMAND_DATA, MILTER_COMMAND_UNKNOWN]"

text \<open>The constant a received byte stands for, as the \<open>switch\<close> statements read it.\<close>

definition command_of_char :: "char \<Rightarrow> milter_command option" where
  "command_of_char c = find (\<lambda>m. command_code m = c) all_commands"

datatype milter_socket_family =
    MILTER_SOCKET_FAMILY_UNKNOWN
  | MILTER_SOCKET_FAMILY_UNIX
  | MILTER_SOCKET_FAMILY_INET
  | MILTER_SOCKET_FAMILY_INET6

primrec family_code :: "milter_socket_family \<Rightarrow> char" where
  "family_code MILTER_SOCKET_FAMILY_UNKNOWN = CHR ''U''"
| "family_code MILTER_SOCKET_FAMILY_UNIX = CHR ''L''"
| "family_code MILTER_SOCKET_FAMILY_INET = CHR ''4''"
| "family_code MILTER_SOCKET_FAMILY_INET6 = CHR ''6''"

definition family_of_char :: "char \<Rightarrow> milter_socket_family option" where
  "family_of_char c = find (\<lambda>f. family_code f = c)
     [MILTER_SOCKET_FAMILY_UNKNOWN, MILTER_SOCKET_FAMILY_UNIX, MILTER_SOCKET_FAMILY_INET,
      MILTER_SOCKET_FAMILY_INET6]"

datatype milter_reply =
    MILTER_REPLY_ADD_RECIPIENT
  | MILTER_REPLY_DELETE_RECIPIENT
  | MILTER_REPLY_ADD_RECIPIENT_WITH_PARAMETERS
  | MILTER_REPLY_SHUTDOWN
  | MILTER_REPLY_ACCEPT
  | MILTER_REPLY_REPLACE_BODY
  | MILTER_REPLY_CONTINUE
  | MILTER_REPLY_DISCARD
  | MILTER_REPLY_CHANGE_FROM
  | MILTER_REPLY_CONNECTION_FAILURE
  | MILTER_REPLY_ADD_HEADER
  | MILTER_REPLY_INSERT_HEADER
  | MILTER_REPLY_SET_SYMBOL_LIST
  | MILTER_REPLY_CHANGE_HEADER
  | MILTER_REPLY_PROGRESS
  | MILTER_REPLY_QUARANTINE
  | MILTER_REPLY_REJECT
  | MILTER_REPLY_SKIP
  | MILTER_REPLY_TEMPORARY_FAILURE
  | MILTER_REPLY_REPLY_CODE

primrec reply_code :: "milter_reply \<Rightarrow> char" where
  "reply_code MILTER_REPLY_ADD_RECIPIENT = CHR ''+''"
| "reply_code MILTER_REPLY_DELETE_RECIPIENT = CHR ''-''"
| "reply_code MILTER_REPLY_ADD_RECIPIENT_WITH_PARAMETERS = CHR ''2''"
| "reply_code MILTER_REPLY_SHUTDOWN = CHR ''4''"
| "reply_code MILTER_REPLY_ACCEPT = CHR ''a''"
| "reply_code MILTER_REPLY_REPLACE_BODY = CHR ''b''"
| "reply_code MILTER_REPLY_CONTINUE = CHR ''c''"
| "reply_code MILTER_REPLY_DISCARD = CHR ''d''"
| "reply_code MILTER_REPLY_CHANGE_FROM = CHR ''e''"
| "reply_code MILTER_REPLY_CONNECTION_FAILURE = CHR ''f''"
| "reply_code MILTER_REPLY_ADD_HEADER = CHR ''h''"
| "reply_code MILTER_REPLY_INSERT_HEADER = CHR ''i''"
| "reply_code MILTER_REPLY_SET_SYMBOL_LIST = CHR ''l''"
| "reply_code MILTER_REPLY_CHANGE_HEADER = CHR ''m''"
| "reply_code MILTER_REPLY_PROGRESS = CHR ''p''"
| "reply_code MILTER_REPLY_QUARANTINE = CHR ''q''"
| "reply_code MILTER_REPLY_REJECT = CHR ''r''"
| "reply_code MILTER_REPLY_SKIP = CHR ''s''"
| "reply_code MILTER_REPLY_TEMPORARY_FAILURE = CHR ''t''"
| "reply_code MILTER_REPLY_REPLY_CODE = CHR ''y''"

definition all_replies :: "milter_reply list" where
  "all_replies =
     [MILTER_REPLY_ADD_RECIPIENT, MILTER_REPLY_DELETE_RECIPIENT,
      MILTER_REPLY_ADD_RECIPIENT_WITH_PARAMETERS, MILTER_REPLY_SHUTDOWN,
      MILTER_REPLY_ACCEPT, MILTER_REPLY_REPLACE_BODY, MILTER_REPLY_CONTINUE,
      MILTER_REPLY_DISCARD, MILTER_REPLY_CHANGE_FROM, MILTER_REPLY_CONNECTION_FAILURE,
      MILTER_REPLY_ADD_HEADER, MILTER_REPLY_INSERT_HEADER, MILTER_REPLY_SET_SYMBOL_LIST,
      MILTER_REPLY_CHANGE_HEADER, MILTER_REPLY_PROGRESS, MILTER_REPLY_QUARANTINE,
      MILTER_REPLY_REJECT, MILTER_REPLY_SKIP, MILTER_REPLY_TEMPORARY_FAILURE,
      MILTER_REPLY_REPLY_CODE]"

definition reply_of_char :: "char \<Rightarrow> milter_reply option" where
  "reply_of_char c = find (\<lambda>r. reply_code r = c) all_replies"

datatype milter_status =
    MILTER_STATUS_DEFAULT
  | MILTER_STATUS_NOT_CHANGE
  | MILTER_STATUS_CONTINUE
  | MILTER_STATUS_REJECT
  | MILTER_STATUS_DISCARD
  | MILTER_STATUS_ACCEPT
  | MILTER_STATUS_TEMPORARY_FAILURE
  | MILTER_STATUS_NO_REPLY
  | MILTER_STATUS_SKIP
  | MILTER_STATUS_ALL_OPTIONS
  | MILTER_STATUS_PROGRESS
  | MILTER_STATUS_ABORT
  | MILTER_STATUS_QUARANTINE
  | MILTER_STATUS_STOP
  | MILTER_STATUS_ERROR

datatype milter_macro_stage =
    MILTER_MACRO_STAGE_CONNECT
  | MILTER_MACRO_STAGE_HELO
  | MILTER_MACRO_STAGE_ENVELOPE_FROM
  | MILTER_MACRO_STAGE_ENVELOPE_RECIPIENT
  | MILTER_MACRO_STAGE_DATA
  | MILTER_MACRO_STAGE_END_OF_MESSAGE
  | MILTER_MACRO_STAGE_END_OF_HEADER

primrec macro_stage_code :: "milter_macro_stage \<Rightarrow> u32" where
  "macro_stage_code MILTER_MACRO_STAGE_CONNECT = 0"
| "macro_stage_code MILTER_MACRO_STAGE_HELO = 1"
| "macro_stage_code MILTER_MACRO_STAGE_ENVELOPE_FROM = 2"
| "macro_stage_code MILTER_MACRO_STAGE_ENVELOPE_RECIPIENT = 3"
| "macro_stage_code MILTER_MACRO_STAGE_DATA = 4"
| "macro_stage_code MILTER_MACRO_STAGE_END_OF_MESSAGE = 5"
| "macro_stage_code MILTER_MACRO_STAGE_END_OF_HEADER = 6"

text \<open>The largest chunk of a body or replace-body packet.\<close>

definition MILTER_CHUNK_SIZE :: nat where
  "MILTER_CHUNK_SIZE = 65535"

text \<open>The statuses that let the mail pass.\<close>

definition milter_status_is_pass :: "milter_status \<Rightarrow> bool" where
  "milter_status_is_pass s \<longleftrightarrow>
     s \<in> {MILTER_STATUS_DEFAULT, MILTER_STATUS_NOT_CHANGE, MILTER_STATUS_CONTINUE}"

subsection \<open>Status precedence\<close>

definition milter_status_compare :: "milter_status \<Rightarrow> milter_status \<Rightarrow> int" where
  "milter_status_compare current_status new_status =
     (if current_status = new_status then 0
      else case current_status of
        MILTER_STATUS_DISCARD \<Rightarrow> 1
      | MILTER_STATUS_REJECT \<Rightarrow>
          if new_status = MILTER_STATUS_DISCARD then -1 else 1
      | MILTER_STATUS_TEMPORARY_FAILURE \<Rightarrow>
          if new_status = MILTER_STATUS_DISCARD \<or> new_status = MILTER_STATUS_REJECT
          then -1 else 1
      | MILTER_STATUS_CONTINUE \<Rightarrow>
          if new_status = MILTER_STATUS_DISCARD \<or> new_status = MILTER_STATUS_REJECT \<or>
             new_status = MILTER_STATUS_TEMPORARY_FAILURE
          then -1 else 1
      | MILTER_STATUS_SKIP \<Rightarrow>
          if new_status = MILTER_STATUS_DISCARD \<or> new_status = MILTER_STATUS_REJECT \<or>
             new_status = MILTER_STATUS_TEMPORARY_FAILURE \<or>
             new_status = MILTER_STATUS_CONTINUE
          then -1 else 1
      | MILTER_STATUS_ACCEPT \<Rightarrow>
          if new_status = MILTER_STATUS_DISCARD \<or> new_status = MILTER_STATUS_REJECT \<or>
             new_status = MILTER_STATUS_TEMPORARY_FAILURE \<or>
             new_status = MILTER_STATUS_SKIP \<or> new_status = MILTER_STATUS_CONTINUE
          then -1 else 1
      | _ \<Rightarrow> -1)"

text \<open>The abstract contract: a rank, highest first, with every other status at rank 0.\<close>

definition status_rank :: "milter_status \<Rightarrow> nat" where
  "status_rank s =
     (case s of
        MILTER_STATUS_DISCARD \<Rightarrow> 6
      | MILTER_STATUS_REJECT \<Rightarrow> 5
      | MILTER_STATUS_TEMPORARY_FAILURE \<Rightarrow> 4
      | MILTER_STATUS_CONTINUE \<Rightarrow> 3
      | MILTER_STATUS_SKIP \<Rightarrow> 2
      | MILTER_STATUS_ACCEPT \<Rightarrow> 1
      | _ \<Rightarrow> 0)"

lemma milter_status_compare_rank:
  "milter_status_compare s t =
     (if s = t then 0 else if status_rank t < status_rank s then 1 else -1)"
  by (cases s; cases t) (simp_all add: milter_status_compare_def status_rank_def)

lemma status_rank_inj:
  "status_rank s = status_rank t \<Longrightarrow> 0 < status_rank s \<Longrightarrow> s = t"
  by (cases s; cases t) (simp_all add: status_rank_def)

subsection \<open>Macro stages\<close>

definition milter_utils_command_to_macro_stage ::
    "milter_command \<Rightarrow> milter_macro_stage option" where
  \<comment> \<open>\<open>None\<close> is the code's \<open>-1\<close>.\<close>
  "milter_utils_command_to_macro_stage command =
     (case command of
        MILTER_COMMAND_CONNECT \<Rightarrow> Some MILTER_MACRO_STAGE_CONNECT
      | MILTER_COMMAND_HELO \<Rightarrow> Some MILTER_MACRO_STAGE_HELO
      | MILTER_COMMAND_ENVELOPE_FROM \<Rightarrow> Some MILTER_MACRO_STAGE_ENVELOPE_FROM
      | MILTER_COMMAND_ENVELOPE_RECIPIENT \<Rightarrow> Some MILTER_MACRO_STAGE_ENVELOPE_RECIPIENT
      | MILTER_COMMAND_DATA \<Rightarrow> Some MILTER_MACRO_STAGE_DATA
      | MILTER_COMMAND_END_OF_MESSAGE \<Rightarrow> Some MILTER_MACRO_STAGE_END_OF_MESSAGE
      | MILTER_COMMAND_END_OF_HEADER \<Rightarrow> Some MILTER_MACRO_STAGE_END_OF_HEADER
      | _ \<Rightarrow> None)"

definition milter_utils_macro_stage_to_command :: "u32 \<Rightarrow> milter_command option" where
  \<comment> \<open>\<open>None\<close> is the code's \<open>'\0'\<close>; the argument is the number read off the wire.\<close>
  "milter_utils_macro_stage_to_command stage =
     (if stage = macro_stage_code MILTER_MACRO_STAGE_CONNECT
      then Some MILTER_COMMAND_CONNECT
      else if stage = macro_stage_code MILTER_MACRO_STAGE_HELO
      then Some MILTER_COMMAND_HELO
      else if stage = macro_stage_code MILTER_MACRO_STAGE_ENVELOPE_FROM
      then Some MILTER_COMMAND_ENVELOPE_FROM
      else if stage = macro_stage_code MILTER_MACRO_STAGE_ENVELOPE_RECIPIENT
      then Some MILTER_COMMAND_ENVELOPE_RECIPIENT
      else if stage = macro_stage_code MILTER_MACRO_STAGE_DATA
      then Some MILTER_COMMAND_DATA
      else if stage = macro_stage_code MILTER_MACRO_STAGE_END_OF_MESSAGE
      then Some MILTER_COMMAND_END_OF_MESSAGE
      else if stage = macro_stage_code MILTER_MACRO_STAGE_END_OF_HEADER
      then Some MILTER_COMMAND_END_OF_HEADER
      else None)"

lemma macro_stage_roundtrip:
  "milter_utils_command_to_macro_stage c = Some s \<Longrightarrow>
   milter_utils_macro_stage_to_command (macro_stage_code s) = Some c"
  by (cases c; cases s)
    (simp_all add: milter_utils_command_to_macro_stage_def
      milter_utils_macro_stage_to_command_def)

subsection \<open>Codes are read back\<close>

lemma command_of_char_code [simp]: "command_of_char (command_code c) = Some c"
  by (cases c) (simp_all add: command_of_char_def all_commands_def)

lemma family_of_char_code [simp]: "family_of_char (family_code f) = Some f"
  by (cases f) (simp_all add: family_of_char_def)

lemma reply_of_char_code [simp]: "reply_of_char (reply_code r) = Some r"
  by (cases r) (simp_all add: reply_of_char_def all_replies_def)

lemma command_of_char_evals [simp]:
  "command_of_char (CHR ''A'') = Some MILTER_COMMAND_ABORT"
  "command_of_char (CHR ''B'') = Some MILTER_COMMAND_BODY"
  "command_of_char (CHR ''C'') = Some MILTER_COMMAND_CONNECT"
  "command_of_char (CHR ''D'') = Some MILTER_COMMAND_DEFINE_MACRO"
  "command_of_char (CHR ''E'') = Some MILTER_COMMAND_END_OF_MESSAGE"
  "command_of_char (CHR ''H'') = Some MILTER_COMMAND_HELO"
  "command_of_char (CHR ''K'') = Some MILTER_COMMAND_QUIT_NEW_CONNECTION"
  "command_of_char (CHR ''L'') = Some MILTER_COMMAND_HEADER"
  "command_of_char (CHR ''M'') = Some MILTER_COMMAND_ENVELOPE_FROM"
  "command_of_char (CHR ''N'') = Some MILTER_COMMAND_END_OF_HEADER"
  "command_of_char (CHR ''O'') = Some MILTER_COMMAND_NEGOTIATE"
  "command_of_char (CHR ''Q'') = Some MILTER_COMMAND_QUIT"
  "command_of_char (CHR ''R'') = Some MILTER_COMMAND_ENVELOPE_RECIPIENT"
  "command_of_char (CHR ''T'') = Some MILTER_COMMAND_DATA"
  "command_of_char (CHR ''U'') = Some MILTER_COMMAND_UNKNOWN"
  by (simp_all add: command_of_char_def all_commands_def)

lemma family_of_char_evals [simp]:
  "family_of_char (CHR ''U'') = Some MILTER_SOCKET_FAMILY_UNKNOWN"
  "family_of_char (CHR ''L'') = Some MILTER_SOCKET_FAMILY_UNIX"
  "family_of_char (CHR ''4'') = Some MILTER_SOCKET_FAMILY_INET"
  "family_of_char (CHR ''6'') = Some MILTER_SOCKET_FAMILY_INET6"
  by (simp_all add: family_of_char_def)

lemma reply_of_char_evals [simp]:
  "reply_of_char (CHR ''+'') = Some MILTER_REPLY_ADD_RECIPIENT"
  "reply_of_char (CHR ''-'') = Some MILTER_REPLY_DELETE_RECIPIENT"
  "reply_of_char (CHR ''2'') = Some MILTER_REPLY_ADD_RECIPIENT_WITH_PARAMETERS"
  "reply_of_char (CHR ''4'') = Some MILTER_REPLY_SHUTDOWN"
  "reply_of_char (CHR ''a'') = Some MILTER_REPLY_ACCEPT"
  "reply_of_char (CHR ''b'') = Some MILTER_REPLY_REPLACE_BODY"
  "reply_of_char (CHR ''c'') = Some MILTER_REPLY_CONTINUE"
  "reply_of_char (CHR ''d'') = Some MILTER_REPLY_DISCARD"
  "reply_of_char (CHR ''e'') = Some MILTER_REPLY_CHANGE_FROM"
  "reply_of_char (CHR ''f'') = Some MILTER_REPLY_CONNECTION_FAILURE"
  "reply_of_char (CHR ''h'') = Some MILTER_REPLY_ADD_HEADER"
  "reply_of_char (CHR ''i'') = Some MILTER_REPLY_INSERT_HEADER"
  "reply_of_char (CHR ''l'') = Some MILTER_REPLY_SET_SYMBOL_LIST"
  "reply_of_char (CHR ''m'') = Some MILTER_REPLY_CHANGE_HEADER"
  "reply_of_char (CHR ''p'') = Some MILTER_REPLY_PROGRESS"
  "reply_of_char (CHR ''q'') = Some MILTER_REPLY_QUARANTINE"
  "reply_of_char (CHR ''r'') = Some MILTER_REPLY_REJECT"
  "reply_of_char (CHR ''s'') = Some MILTER_REPLY_SKIP"
  "reply_of_char (CHR ''t'') = Some MILTER_REPLY_TEMPORARY_FAILURE"
  "reply_of_char (CHR ''y'') = Some MILTER_REPLY_REPLY_CODE"
  by (simp_all add: reply_of_char_def all_replies_def)

lemma command_of_charD: "command_of_char ch = Some c \<Longrightarrow> ch = command_code c"
  by (auto simp: command_of_char_def find_Some_iff)

lemma family_of_charD: "family_of_char ch = Some f \<Longrightarrow> ch = family_code f"
  by (auto simp: family_of_char_def split: if_splits)

lemma reply_of_charD: "reply_of_char ch = Some r \<Longrightarrow> ch = reply_code r"
  by (auto simp: reply_of_char_def find_Some_iff)

lemma command_code_not_NUL [simp]: "command_code c \<noteq> NUL"
  by (cases c) simp_all

lemma reply_not_negotiate [simp]:
  "reply_code r \<noteq> command_code MILTER_COMMAND_NEGOTIATE"
  by (cases r) simp_all

end
