(* ===== verification/Options.thy ===== *)
theory Options
  imports Protocol
begin

text \<open>
  \<open>milter/core/milter-option.c\<close>: the option a milter negotiates, a protocol version
  and two flag words, and the two ways the code puts options together.
\<close>

subsection \<open>Flags\<close>

text \<open>
  The flag constants of \<open>milter-option.h\<close>, and the masks the header derives from them.
\<close>

definition MILTER_ACTION_NONE :: u32 where "MILTER_ACTION_NONE = 0"

definition MILTER_STEP_NONE :: u32 where "MILTER_STEP_NONE = 0"
definition MILTER_STEP_NO_CONNECT :: u32 where "MILTER_STEP_NO_CONNECT = 0x00000001"
definition MILTER_STEP_NO_HELO :: u32 where "MILTER_STEP_NO_HELO = 0x00000002"
definition MILTER_STEP_NO_ENVELOPE_FROM :: u32 where
  "MILTER_STEP_NO_ENVELOPE_FROM = 0x00000004"
definition MILTER_STEP_NO_ENVELOPE_RECIPIENT :: u32 where
  "MILTER_STEP_NO_ENVELOPE_RECIPIENT = 0x00000008"
definition MILTER_STEP_NO_BODY :: u32 where "MILTER_STEP_NO_BODY = 0x00000010"
definition MILTER_STEP_NO_HEADERS :: u32 where "MILTER_STEP_NO_HEADERS = 0x00000020"
definition MILTER_STEP_NO_END_OF_HEADER :: u32 where
  "MILTER_STEP_NO_END_OF_HEADER = 0x00000040"
definition MILTER_STEP_NO_REPLY_HEADER :: u32 where
  "MILTER_STEP_NO_REPLY_HEADER = 0x00000080"
definition MILTER_STEP_NO_UNKNOWN :: u32 where "MILTER_STEP_NO_UNKNOWN = 0x00000100"
definition MILTER_STEP_NO_DATA :: u32 where "MILTER_STEP_NO_DATA = 0x00000200"
definition MILTER_STEP_SKIP :: u32 where "MILTER_STEP_SKIP = 0x00000400"
definition MILTER_STEP_ENVELOPE_RECIPIENT_REJECTED :: u32 where
  "MILTER_STEP_ENVELOPE_RECIPIENT_REJECTED = 0x00000800"
definition MILTER_STEP_NO_REPLY_CONNECT :: u32 where
  "MILTER_STEP_NO_REPLY_CONNECT = 0x00001000"
definition MILTER_STEP_NO_REPLY_HELO :: u32 where
  "MILTER_STEP_NO_REPLY_HELO = 0x00002000"
definition MILTER_STEP_NO_REPLY_ENVELOPE_FROM :: u32 where
  "MILTER_STEP_NO_REPLY_ENVELOPE_FROM = 0x00004000"
definition MILTER_STEP_NO_REPLY_ENVELOPE_RECIPIENT :: u32 where
  "MILTER_STEP_NO_REPLY_ENVELOPE_RECIPIENT = 0x00008000"
definition MILTER_STEP_NO_REPLY_DATA :: u32 where
  "MILTER_STEP_NO_REPLY_DATA = 0x00010000"
definition MILTER_STEP_NO_REPLY_UNKNOWN :: u32 where
  "MILTER_STEP_NO_REPLY_UNKNOWN = 0x00020000"
definition MILTER_STEP_NO_REPLY_END_OF_HEADER :: u32 where
  "MILTER_STEP_NO_REPLY_END_OF_HEADER = 0x00040000"
definition MILTER_STEP_NO_REPLY_BODY :: u32 where
  "MILTER_STEP_NO_REPLY_BODY = 0x00080000"
definition MILTER_STEP_HEADER_VALUE_WITH_LEADING_SPACE :: u32 where
  "MILTER_STEP_HEADER_VALUE_WITH_LEADING_SPACE = 0x00100000"

lemmas step_flag_defs =
  MILTER_STEP_NONE_def MILTER_STEP_NO_CONNECT_def MILTER_STEP_NO_HELO_def
  MILTER_STEP_NO_ENVELOPE_FROM_def MILTER_STEP_NO_ENVELOPE_RECIPIENT_def
  MILTER_STEP_NO_BODY_def MILTER_STEP_NO_HEADERS_def MILTER_STEP_NO_END_OF_HEADER_def
  MILTER_STEP_NO_REPLY_HEADER_def MILTER_STEP_NO_UNKNOWN_def MILTER_STEP_NO_DATA_def
  MILTER_STEP_SKIP_def MILTER_STEP_ENVELOPE_RECIPIENT_REJECTED_def
  MILTER_STEP_NO_REPLY_CONNECT_def MILTER_STEP_NO_REPLY_HELO_def
  MILTER_STEP_NO_REPLY_ENVELOPE_FROM_def MILTER_STEP_NO_REPLY_ENVELOPE_RECIPIENT_def
  MILTER_STEP_NO_REPLY_DATA_def MILTER_STEP_NO_REPLY_UNKNOWN_def
  MILTER_STEP_NO_REPLY_END_OF_HEADER_def MILTER_STEP_NO_REPLY_BODY_def
  MILTER_STEP_HEADER_VALUE_WITH_LEADING_SPACE_def

definition MILTER_STEP_NO_EVENT_MASK :: u32 where
  "MILTER_STEP_NO_EVENT_MASK =
     MILTER_STEP_NO_CONNECT OR MILTER_STEP_NO_HELO OR MILTER_STEP_NO_ENVELOPE_FROM OR
     MILTER_STEP_NO_ENVELOPE_RECIPIENT OR MILTER_STEP_NO_BODY OR MILTER_STEP_NO_HEADERS OR
     MILTER_STEP_NO_END_OF_HEADER OR MILTER_STEP_NO_UNKNOWN OR MILTER_STEP_NO_DATA"

definition MILTER_STEP_NO_REPLY_MASK :: u32 where
  "MILTER_STEP_NO_REPLY_MASK =
     MILTER_STEP_NO_REPLY_CONNECT OR MILTER_STEP_NO_REPLY_HELO OR
     MILTER_STEP_NO_REPLY_ENVELOPE_FROM OR MILTER_STEP_NO_REPLY_ENVELOPE_RECIPIENT OR
     MILTER_STEP_NO_REPLY_DATA OR MILTER_STEP_NO_REPLY_HEADER OR
     MILTER_STEP_NO_REPLY_UNKNOWN OR MILTER_STEP_NO_REPLY_END_OF_HEADER OR
     MILTER_STEP_NO_REPLY_BODY"

definition MILTER_STEP_NO_MASK :: u32 where
  "MILTER_STEP_NO_MASK = MILTER_STEP_NO_EVENT_MASK OR MILTER_STEP_NO_REPLY_MASK"

definition MILTER_STEP_YES_MASK :: u32 where
  "MILTER_STEP_YES_MASK =
     MILTER_STEP_SKIP OR MILTER_STEP_ENVELOPE_RECIPIENT_REJECTED OR
     MILTER_STEP_HEADER_VALUE_WITH_LEADING_SPACE"

text \<open>Every declared flag of each word: the mask of its GObject flags type.\<close>

definition action_flags_mask :: u32 where "action_flags_mask = 0x000001FF"
definition step_flags_mask :: u32 where
  "step_flags_mask = MILTER_STEP_NO_MASK OR MILTER_STEP_YES_MASK"

lemma step_mask_values:
  "MILTER_STEP_NO_EVENT_MASK = 0x37F" "MILTER_STEP_NO_REPLY_MASK = 0xFF080"
  "MILTER_STEP_NO_MASK = 0xFF3FF" "MILTER_STEP_YES_MASK = 0x100C00"
  "step_flags_mask = 0x1FFFFF"
  by (simp_all add: MILTER_STEP_NO_EVENT_MASK_def MILTER_STEP_NO_REPLY_MASK_def
      MILTER_STEP_NO_MASK_def MILTER_STEP_YES_MASK_def step_flags_mask_def step_flag_defs)

lemma no_yes_disjoint: "MILTER_STEP_NO_MASK AND MILTER_STEP_YES_MASK = 0"
  by (simp add: step_mask_values)

subsection \<open>The option object\<close>

record milter_option =
  version :: u32
  action :: u32
  step :: u32

definition milter_option_new_empty :: milter_option where
  "milter_option_new_empty =
     \<lparr>version = 6, action = MILTER_ACTION_NONE, step = MILTER_STEP_NONE\<rparr>"

text \<open>
  \<open>g_object_new\<close> validates each property against its \<open>GParamSpec\<close>: a flags value with
  a bit outside the flags type's mask is rejected with a warning and the property keeps
  the value \<open>milter_option_init\<close> gave it.
\<close>

definition milter_option_new :: "u32 \<Rightarrow> u32 \<Rightarrow> u32 \<Rightarrow> milter_option" where
  "milter_option_new v a s =
     \<lparr>version = v,
      action = (if a AND NOT action_flags_mask = 0 then a else MILTER_ACTION_NONE),
      step = (if s AND NOT step_flags_mask = 0 then s else MILTER_STEP_NONE)\<rparr>"

definition milter_option_copy :: "milter_option \<Rightarrow> milter_option" where
  "milter_option_copy opt = milter_option_new (version opt) (action opt) (step opt)"

definition milter_option_equal :: "milter_option \<Rightarrow> milter_option \<Rightarrow> bool" where
  "milter_option_equal o1 o2 \<longleftrightarrow>
     version o1 = version o2 \<and> action o1 = action o2 \<and> step o1 = step o2"

definition milter_option_set_version :: "milter_option \<Rightarrow> u32 \<Rightarrow> milter_option" where
  "milter_option_set_version opt v = opt\<lparr>version := v\<rparr>"

definition milter_option_set_action :: "milter_option \<Rightarrow> u32 \<Rightarrow> milter_option" where
  "milter_option_set_action opt a = opt\<lparr>action := a\<rparr>"

definition milter_option_add_action :: "milter_option \<Rightarrow> u32 \<Rightarrow> milter_option" where
  "milter_option_add_action opt a = opt\<lparr>action := action opt OR a\<rparr>"

definition milter_option_remove_action :: "milter_option \<Rightarrow> u32 \<Rightarrow> milter_option" where
  "milter_option_remove_action opt a = opt\<lparr>action := action opt AND NOT a\<rparr>"

definition milter_option_get_step_no_event :: "milter_option \<Rightarrow> u32" where
  "milter_option_get_step_no_event opt = step opt AND MILTER_STEP_NO_EVENT_MASK"

definition milter_option_get_step_no_reply :: "milter_option \<Rightarrow> u32" where
  "milter_option_get_step_no_reply opt = step opt AND MILTER_STEP_NO_REPLY_MASK"

definition milter_option_get_step_no :: "milter_option \<Rightarrow> u32" where
  "milter_option_get_step_no opt = step opt AND MILTER_STEP_NO_MASK"

definition milter_option_get_step_yes :: "milter_option \<Rightarrow> u32" where
  "milter_option_get_step_yes opt = step opt AND MILTER_STEP_YES_MASK"

definition milter_option_set_step :: "milter_option \<Rightarrow> u32 \<Rightarrow> milter_option" where
  "milter_option_set_step opt s = opt\<lparr>step := s\<rparr>"

definition milter_option_add_step :: "milter_option \<Rightarrow> u32 \<Rightarrow> milter_option" where
  "milter_option_add_step opt s = opt\<lparr>step := step opt OR s\<rparr>"

definition milter_option_remove_step :: "milter_option \<Rightarrow> u32 \<Rightarrow> milter_option" where
  "milter_option_remove_step opt s = opt\<lparr>step := step opt AND NOT s\<rparr>"

subsection \<open>Combining and merging\<close>

text \<open>
  Both take the destination, which they update, and return whether they did: an older
  destination refuses a newer source.
\<close>

definition milter_option_combine ::
    "milter_option \<Rightarrow> milter_option \<Rightarrow> bool \<times> milter_option" where
  "milter_option_combine dest src =
     (if version dest < version src then (False, dest)
      else (True, dest\<lparr>version := version src, step := step dest AND step src,
                       action := action dest AND action src\<rparr>))"

definition milter_step_flags_merge :: "u32 \<Rightarrow> u32 \<Rightarrow> u32" where
  "milter_step_flags_merge dest src =
     (let dest_no_step_flags =
            (dest AND MILTER_STEP_NO_MASK) AND (src AND MILTER_STEP_NO_MASK);
          dest_yes_step_flags =
            (dest AND MILTER_STEP_YES_MASK) OR (src AND MILTER_STEP_YES_MASK)
      in dest_no_step_flags OR dest_yes_step_flags)"

definition milter_option_merge ::
    "milter_option \<Rightarrow> milter_option \<Rightarrow> bool \<times> milter_option" where
  "milter_option_merge dest src =
     (if version dest < version src then (False, dest)
      else (True, dest\<lparr>step := milter_step_flags_merge (step dest) (step src),
                       action := action dest OR action src\<rparr>))"

subsection \<open>Lemmas\<close>

text \<open>An option whose words hold declared flags only.\<close>

definition wf_option :: "milter_option \<Rightarrow> bool" where
  "wf_option opt \<longleftrightarrow>
     action opt AND NOT action_flags_mask = 0 \<and> step opt AND NOT step_flags_mask = 0"

lemma milter_option_new_wf [simp]: "wf_option (milter_option_new v a s)"
  by (simp add: wf_option_def milter_option_new_def MILTER_ACTION_NONE_def
      MILTER_STEP_NONE_def)

lemma milter_option_new_fields [simp]:
  "wf_option opt \<Longrightarrow> milter_option_new (version opt) (action opt) (step opt) = opt"
  by (simp add: wf_option_def milter_option_new_def)

lemma bit_no_mask_not_yes: "bit MILTER_STEP_NO_MASK n \<Longrightarrow> \<not> bit MILTER_STEP_YES_MASK n"
  using no_yes_disjoint by (metis bit_and_iff bit_0_eq bot_apply bot_bool_def)

lemma bit_milter_step_flags_merge:
  "bit (milter_step_flags_merge d s) n \<longleftrightarrow>
     bit MILTER_STEP_NO_MASK n \<and> bit d n \<and> bit s n \<or>
     bit MILTER_STEP_YES_MASK n \<and> (bit d n \<or> bit s n)"
  by (auto simp: milter_step_flags_merge_def Let_def bit_and_iff bit_or_iff)

lemma milter_step_flags_merge_commute:
  "milter_step_flags_merge a b = milter_step_flags_merge b a"
  by (rule bit_eqI) (auto simp: bit_milter_step_flags_merge)

lemma milter_step_flags_merge_assoc:
  "milter_step_flags_merge (milter_step_flags_merge a b) c =
   milter_step_flags_merge a (milter_step_flags_merge b c)"
  by (rule bit_eqI) (auto simp: bit_milter_step_flags_merge dest: bit_no_mask_not_yes)

text \<open>
  Merging the options of many milters, one reply at a time, as the manager does. A flag
  that switches something off survives when every milter asked for it, a flag that
  switches something on when any did.
\<close>

definition merge_all :: "milter_option \<Rightarrow> milter_option list \<Rightarrow> milter_option" where
  "merge_all = foldl (\<lambda>d s. snd (milter_option_merge d s))"

lemma merge_all_simps [simp]:
  "merge_all d [] = d"
  "merge_all d (s # ss) = merge_all (snd (milter_option_merge d s)) ss"
  by (simp_all add: merge_all_def)

lemma milter_option_merge_version [simp]:
  "version (snd (milter_option_merge d s)) = version d"
  by (simp add: milter_option_merge_def)

lemma merge_all_version [simp]: "version (merge_all d ss) = version d"
  by (induction ss arbitrary: d) simp_all

lemma bit_step_merge_all:
  assumes "ss \<noteq> []" and "\<forall>s \<in> set ss. version s \<le> version d"
  shows "bit (step (merge_all d ss)) n \<longleftrightarrow>
     bit MILTER_STEP_NO_MASK n \<and> bit (step d) n \<and> (\<forall>s \<in> set ss. bit (step s) n) \<or>
     bit MILTER_STEP_YES_MASK n \<and> (bit (step d) n \<or> (\<exists>s \<in> set ss. bit (step s) n))"
  using assms
proof (induction ss arbitrary: d)
  case Nil
  then show ?case by simp
next
  case (Cons s ss)
  let ?d = "snd (milter_option_merge d s)"
  have st: "step ?d = milter_step_flags_merge (step d) (step s)"
    using Cons.prems by (auto simp: milter_option_merge_def dest: leD)
  show ?case
  proof (cases ss)
    case Nil
    then show ?thesis by (auto simp: st bit_milter_step_flags_merge)
  next
    case (Cons t ts)
    have "\<forall>t \<in> set ss. version t \<le> version ?d" using Cons.prems by simp
    with Cons Cons.IH [of ?d] show ?thesis
      by (auto simp: st bit_milter_step_flags_merge dest: bit_no_mask_not_yes)
  qed
qed

lemma action_merge_all:
  assumes "\<forall>s \<in> set ss. version s \<le> version d"
  shows "action (merge_all d ss) = foldr (OR) (map action ss) (action d)"
  using assms
proof (induction ss arbitrary: d)
  case Nil
  then show ?case by simp
next
  case (Cons s ss)
  have *: "foldr (OR) (map action ss) (a OR b) = b OR foldr (OR) (map action ss) a" for a b
    by (induction ss) (simp_all add: or.left_commute or.commute)
  from Cons show ?case by (auto simp: milter_option_merge_def * dest: leD)
qed

end
