(* ===== verification/Encoder.thy ===== *)
theory Encoder
  imports Options
begin

text \<open>
  \<open>milter/core/milter-encoder.c\<close>: the encoder object all packet encoders extend. It holds
  one buffer; an encoding appends to it and \<open>milter_encoder_pack\<close> prepends the length.
\<close>

record milter_encoder =
  enc_buffer :: bytes
  enc_tag :: u32

definition milter_encoder_new :: milter_encoder where
  "milter_encoder_new = \<lparr>enc_buffer = [], enc_tag = 0\<rparr>"

definition milter_encoder_clear_buffer :: "milter_encoder \<Rightarrow> milter_encoder" where
  "milter_encoder_clear_buffer e = e\<lparr>enc_buffer := []\<rparr>"

text \<open>\<open>g_string_append_len\<close> and its kin on the encoder's buffer.\<close>

definition append_bytes :: "bytes \<Rightarrow> milter_encoder \<Rightarrow> milter_encoder" where
  "append_bytes bs e = e\<lparr>enc_buffer := enc_buffer e @ bs\<rparr>"

text \<open>
  The packet handed to the caller is the buffer itself, which keeps the packed bytes.
  The content size is a \<open>guint32\<close>.
\<close>

definition milter_encoder_pack :: "milter_encoder \<Rightarrow> milter_encoder \<times> bytes" where
  "milter_encoder_pack e =
     (let content_string = be32 (word_of_nat (length (enc_buffer e)));
          e' = e\<lparr>enc_buffer := content_string @ enc_buffer e\<rparr>
      in (e', enc_buffer e'))"

text \<open>This one does not clear the buffer first, and neither do its callers.\<close>

definition milter_encoder_encode_negotiate ::
    "milter_encoder \<Rightarrow> milter_option option \<Rightarrow> milter_encoder" where
  "milter_encoder_encode_negotiate e opt =
     (let e = append_bytes [command_code MILTER_COMMAND_NEGOTIATE] e
      in case opt of
           None \<Rightarrow> e
         | Some opt \<Rightarrow>
             append_bytes (be32 (step opt))
               (append_bytes (be32 (action opt)) (append_bytes (be32 (version opt)) e)))"

definition milter_encoder_set_tag :: "milter_encoder \<Rightarrow> u32 \<Rightarrow> milter_encoder" where
  "milter_encoder_set_tag e tag = e\<lparr>enc_tag := tag\<rparr>"

subsection \<open>Framing\<close>

text \<open>A packet on the wire: a 32-bit length and that many bytes.\<close>

definition frame :: "bytes \<Rightarrow> bytes" where
  "frame p = be32 (word_of_nat (length p)) @ p"

definition stream :: "bytes list \<Rightarrow> bytes" where
  "stream ps = concat (map frame ps)"

lemma stream_simps [simp]: "stream [] = []" "stream (p # ps) = frame p @ stream ps"
  by (simp_all add: stream_def)

lemma milter_encoder_pack_frame [codec_simps]:
  "snd (milter_encoder_pack e) = frame (enc_buffer e)"
  by (simp add: milter_encoder_pack_def Let_def frame_def)

lemma milter_encoder_pack_eq:
  "milter_encoder_pack e = (e\<lparr>enc_buffer := frame (enc_buffer e)\<rparr>, frame (enc_buffer e))"
  by (simp add: milter_encoder_pack_def Let_def frame_def)

lemma enc_buffer_append [simp]: "enc_buffer (append_bytes bs e) = enc_buffer e @ bs"
  by (simp add: append_bytes_def)

lemma enc_buffer_clear [simp]: "enc_buffer (milter_encoder_clear_buffer e) = []"
  by (simp add: milter_encoder_clear_buffer_def)

lemma enc_buffer_new [simp]: "enc_buffer milter_encoder_new = []"
  by (simp add: milter_encoder_new_def)

lemma enc_buffer_negotiate [codec_simps]:
  "enc_buffer (milter_encoder_encode_negotiate e opt) =
     enc_buffer e @ command_code MILTER_COMMAND_NEGOTIATE #
       (case opt of None \<Rightarrow> []
        | Some opt \<Rightarrow> be32 (version opt) @ be32 (action opt) @ be32 (step opt))"
  by (simp add: milter_encoder_encode_negotiate_def Let_def split: option.splits)

lemma starts_nul_stream:
  assumes "\<forall>p \<in> set ps. length p < 2 ^ 24"
  shows "starts_nul (stream ps)"
proof (cases ps)
  case Nil
  then show ?thesis by simp
next
  case (Cons p ps')
  with assms hd_be32_small [of "length p"]
  have "be32 (word_of_nat (length p)) = NUL # tl (be32 (word_of_nat (length p)))" by simp
  then have "hd (stream ps) = NUL"
    by (simp add: Cons frame_def) (metis append_Cons list.sel(1))
  then show ?thesis by (simp add: starts_nul_def)
qed

end
