(* ===== verification/Command_Encoder.thy ===== *)
theory Command_Encoder
  imports Encoder
begin

text \<open>
  \<open>milter/core/milter-command-encoder.c\<close>: what an MTA (or the manager, to its child
  milters) sends. Every function returns the encoder it leaves and the packet.

  Strings are \<open>const gchar *\<close> arguments that are not \<open>NULL\<close>. A macro table is an
  association list in the hash table's iteration order; a value may be \<open>NULL\<close>.
\<close>

subsection \<open>Arguments\<close>

text \<open>
  \<open>struct sockaddr\<close> by family; a port is the number its network-order bytes denote.
  \<open>Sockaddr_other\<close> is any other family, \<open>AF_UNSPEC\<close> included.
\<close>

datatype sockaddr =
    Sockaddr_in u16 u32
  | Sockaddr_in6 u16 "128 word"
  | Sockaddr_un bytes
  | Sockaddr_other

type_synonym macro_table = "(bytes \<times> bytes option) list"

subsection \<open>Negotiation\<close>

definition milter_command_encoder_encode_negotiate ::
    "milter_encoder \<Rightarrow> milter_option option \<Rightarrow> milter_encoder \<times> bytes" where
  "milter_command_encoder_encode_negotiate e opt =
     milter_encoder_pack (milter_encoder_encode_negotiate e opt)"

subsection \<open>Macros\<close>

definition compare_macro_key :: "platform \<Rightarrow> bytes \<Rightarrow> bytes \<Rightarrow> int" where
  "compare_macro_key P key1 key2 =
     (let key1 = (if take 1 key1 = ''{'' then drop 1 key1 else key1);
          key2 = (if take 1 key2 = ''{'' then drop 1 key2 else key2)
      in g_utf8_collate P key1 key2)"

definition encode_macro_name :: "bytes \<Rightarrow> bytes" where
  "encode_macro_name key =
     (if take 1 key = ''{'' \<or> length key = 1 then key else ''{'' @ key @ ''}'')"

definition macro_value :: "macro_table \<Rightarrow> bytes \<Rightarrow> bytes" where
  "macro_value macros key =
     (case map_of macros key of Some (Some value) \<Rightarrow> value | _ \<Rightarrow> [])"

definition encode_macro :: "macro_table \<Rightarrow> bytes \<Rightarrow> bytes" where
  "encode_macro macros key =
     (if key = [] then []
      else encode_macro_name key @ [NUL] @ macro_value macros key @ [NUL])"

definition encode_macros :: "platform \<Rightarrow> macro_table \<Rightarrow> bytes" where
  "encode_macros P macros =
     concat (map (encode_macro macros)
       (g_list_sort P (compare_macro_key P) (map fst macros)))"

definition milter_command_encoder_encode_define_macro ::
    "platform \<Rightarrow> milter_encoder \<Rightarrow> milter_command \<Rightarrow> macro_table option \<Rightarrow>
     milter_encoder \<times> bytes" where
  "milter_command_encoder_encode_define_macro P e ctx macros =
     (let e = milter_encoder_clear_buffer e;
          e = append_bytes [command_code MILTER_COMMAND_DEFINE_MACRO] e;
          e = append_bytes [command_code ctx] e;
          e = (case macros of None \<Rightarrow> e | Some ms \<Rightarrow> append_bytes (encode_macros P ms) e)
      in milter_encoder_pack e)"

subsection \<open>Connect\<close>

definition encode_connect_inet :: "platform \<Rightarrow> u16 \<Rightarrow> u32 \<Rightarrow> bytes" where
  "encode_connect_inet P port addr =
     [family_code MILTER_SOCKET_FAMILY_INET] @ be16 port @ inet_ntop4 P addr"

definition encode_connect_inet6 :: "platform \<Rightarrow> u16 \<Rightarrow> 128 word \<Rightarrow> bytes" where
  "encode_connect_inet6 P port addr =
     [family_code MILTER_SOCKET_FAMILY_INET6] @ be16 port @ ''IPv6:'' @ inet_ntop6 P addr"

definition encode_connect_unix :: "bytes \<Rightarrow> bytes" where
  "encode_connect_unix path =
     [family_code MILTER_SOCKET_FAMILY_UNIX] @ be16 0 @ path"

definition encode_connect_unknown :: bytes where
  "encode_connect_unknown = [family_code MILTER_SOCKET_FAMILY_UNKNOWN]"

definition milter_command_encoder_encode_connect ::
    "platform \<Rightarrow> milter_encoder \<Rightarrow> bytes \<Rightarrow> sockaddr \<Rightarrow> milter_encoder \<times> bytes" where
  "milter_command_encoder_encode_connect P e host_name address =
     (let e = milter_encoder_clear_buffer e;
          e = append_bytes [command_code MILTER_COMMAND_CONNECT] e;
          e = append_bytes host_name e;
          e = append_bytes [NUL] e;
          (addr, need_last_null) =
            (case address of
               Sockaddr_in port a \<Rightarrow> (encode_connect_inet P port a, True)
             | Sockaddr_in6 port a \<Rightarrow> (encode_connect_inet6 P port a, True)
             | Sockaddr_un path \<Rightarrow> (encode_connect_unix path, True)
             | Sockaddr_other \<Rightarrow> (encode_connect_unknown, False));
          e = append_bytes addr e;
          e = (if need_last_null then append_bytes [NUL] e else e)
      in milter_encoder_pack e)"

subsection \<open>Envelope, message and session commands\<close>

definition milter_command_encoder_encode_helo ::
    "milter_encoder \<Rightarrow> bytes \<Rightarrow> milter_encoder \<times> bytes" where
  "milter_command_encoder_encode_helo e fqdn =
     (let e = milter_encoder_clear_buffer e;
          e = append_bytes [command_code MILTER_COMMAND_HELO] e;
          e = append_bytes fqdn e;
          e = append_bytes [NUL] e
      in milter_encoder_pack e)"

definition milter_command_encoder_encode_envelope_from ::
    "milter_encoder \<Rightarrow> bytes \<Rightarrow> milter_encoder \<times> bytes" where
  "milter_command_encoder_encode_envelope_from e sender =
     (let e = milter_encoder_clear_buffer e;
          e = append_bytes [command_code MILTER_COMMAND_ENVELOPE_FROM] e;
          e = append_bytes sender e;
          e = append_bytes [NUL] e
      in milter_encoder_pack e)"

definition milter_command_encoder_encode_envelope_recipient ::
    "milter_encoder \<Rightarrow> bytes \<Rightarrow> milter_encoder \<times> bytes" where
  "milter_command_encoder_encode_envelope_recipient e to =
     (let e = milter_encoder_clear_buffer e;
          e = append_bytes [command_code MILTER_COMMAND_ENVELOPE_RECIPIENT] e;
          e = append_bytes to e;
          e = append_bytes [NUL] e
      in milter_encoder_pack e)"

definition milter_command_encoder_encode_data ::
    "milter_encoder \<Rightarrow> milter_encoder \<times> bytes" where
  "milter_command_encoder_encode_data e =
     (let e = milter_encoder_clear_buffer e;
          e = append_bytes [command_code MILTER_COMMAND_DATA] e
      in milter_encoder_pack e)"

definition milter_command_encoder_encode_header ::
    "milter_encoder \<Rightarrow> bytes \<Rightarrow> bytes \<Rightarrow> milter_encoder \<times> bytes" where
  "milter_command_encoder_encode_header e name value =
     (let e = milter_encoder_clear_buffer e;
          e = append_bytes [command_code MILTER_COMMAND_HEADER] e;
          e = append_bytes name e;
          e = append_bytes [NUL] e;
          e = append_bytes value e;
          e = append_bytes [NUL] e
      in milter_encoder_pack e)"

definition milter_command_encoder_encode_end_of_header ::
    "milter_encoder \<Rightarrow> milter_encoder \<times> bytes" where
  "milter_command_encoder_encode_end_of_header e =
     (let e = milter_encoder_clear_buffer e;
          e = append_bytes [command_code MILTER_COMMAND_END_OF_HEADER] e
      in milter_encoder_pack e)"

text \<open>The third component is \<open>*packed_size\<close>, how much of the chunk went in.\<close>

definition milter_command_encoder_encode_body ::
    "milter_encoder \<Rightarrow> bytes \<Rightarrow> milter_encoder \<times> bytes \<times> nat" where
  "milter_command_encoder_encode_body e chunk =
     (let e = milter_encoder_clear_buffer e;
          e = append_bytes [command_code MILTER_COMMAND_BODY] e;
          packed_chunk_size =
            (if length chunk > MILTER_CHUNK_SIZE then MILTER_CHUNK_SIZE else length chunk);
          e = append_bytes (take packed_chunk_size chunk) e;
          (e, packet) = milter_encoder_pack e
      in (e, packet, packed_chunk_size))"

text \<open>\<open>chunk\<close> is \<open>None\<close> for \<open>NULL\<close>; the size is the chunk's length.\<close>

definition milter_command_encoder_encode_end_of_message ::
    "milter_encoder \<Rightarrow> bytes option \<Rightarrow> milter_encoder \<times> bytes" where
  "milter_command_encoder_encode_end_of_message e chunk =
     (let e = milter_encoder_clear_buffer e;
          e = append_bytes [command_code MILTER_COMMAND_END_OF_MESSAGE] e;
          e = (case chunk of
                 None \<Rightarrow> e
               | Some c \<Rightarrow> if length c > 0 then append_bytes c e else e)
      in milter_encoder_pack e)"

definition milter_command_encoder_encode_abort ::
    "milter_encoder \<Rightarrow> milter_encoder \<times> bytes" where
  "milter_command_encoder_encode_abort e =
     (let e = milter_encoder_clear_buffer e;
          e = append_bytes [command_code MILTER_COMMAND_ABORT] e
      in milter_encoder_pack e)"

definition milter_command_encoder_encode_quit ::
    "milter_encoder \<Rightarrow> milter_encoder \<times> bytes" where
  "milter_command_encoder_encode_quit e =
     (let e = milter_encoder_clear_buffer e;
          e = append_bytes [command_code MILTER_COMMAND_QUIT] e
      in milter_encoder_pack e)"

definition milter_command_encoder_encode_unknown ::
    "milter_encoder \<Rightarrow> bytes \<Rightarrow> milter_encoder \<times> bytes" where
  "milter_command_encoder_encode_unknown e command =
     (let e = milter_encoder_clear_buffer e;
          e = append_bytes [command_code MILTER_COMMAND_UNKNOWN] e;
          e = append_bytes command e;
          e = append_bytes [NUL] e
      in milter_encoder_pack e)"

end
