(* ===== verification/Sample_Platform.thy ===== *)
theory Sample_Platform
  imports Prelude "HOL-Library.Multiset"
begin

text \<open>
  A concrete \<open>platform\<close> to instantiate the library routines with: addresses print as their bits, strings compare
  bytewise, and the sort is insertion sort.
\<close>

definition print_bits :: "'a::len word \<Rightarrow> bytes" where
  "print_bits a = map (\<lambda>i. if bit a i then CHR ''1'' else CHR ''0'') [0..<LENGTH('a)]"

definition scan_bits :: "bytes \<Rightarrow> 'a::len word option" where
  "scan_bits s =
     (if length s = LENGTH('a) then Some (horner_sum of_bool 2 (map (\<lambda>c. c = CHR ''1'') s))
      else None)"

fun strcmp :: "bytes \<Rightarrow> bytes \<Rightarrow> int" where
  "strcmp [] [] = 0"
| "strcmp [] (y # ys) = - 1"
| "strcmp (x # xs) [] = 1"
| "strcmp (x # xs) (y # ys) = (if x = y then strcmp xs ys else of_char x - of_char y)"

fun insert_by :: "(bytes \<Rightarrow> bytes \<Rightarrow> int) \<Rightarrow> bytes \<Rightarrow> bytes list \<Rightarrow> bytes list" where
  "insert_by f x [] = [x]"
| "insert_by f x (y # ys) = (if f x y \<le> 0 then x # y # ys else y # insert_by f x ys)"

definition sample_platform :: platform where
  "sample_platform =
     \<lparr>inet_ntop4 = print_bits, inet_pton4 = scan_bits, inet_ntop6 = print_bits,
      inet_pton6 = scan_bits, g_utf8_collate = strcmp,
      g_list_sort = (\<lambda>f xs. foldr (insert_by f) xs [])\<rparr>"

lemma scan_print_bits:
  fixes a :: "'a::len word"
  shows "scan_bits (print_bits a) = Some a"
proof -
  have "map (\<lambda>c. c = CHR ''1'') (print_bits a) = map (bit a) [0..<LENGTH('a)]"
    by (simp add: print_bits_def)
  then have "horner_sum of_bool 2 (map (\<lambda>c. c = CHR ''1'') (print_bits a)) = take_bit LENGTH('a) a"
    by (simp only: horner_sum_bit_eq_take_bit)
  then show ?thesis by (simp add: scan_bits_def) (simp add: print_bits_def)
qed

lemma print_bits_string: "c_string (print_bits a) \<and> print_bits a \<noteq> []"
  by (auto simp: print_bits_def c_string_def)

lemma mset_insert_by: "mset (insert_by f x ys) = add_mset x (mset ys)"
  by (induction ys) auto

lemma mset_foldr_insert_by: "mset (foldr (insert_by f) xs []) = mset xs"
  by (induction xs) (auto simp: mset_insert_by)

lemma strcmp_refl [simp]: "strcmp x x = 0"
  by (induction x) auto

lemma sample_collate_refl [simp]: "g_utf8_collate sample_platform x x = 0"
  by (simp add: sample_platform_def)

end
