(* ===== verification/Macros_Requests.thy ===== *)
theory Macros_Requests
  imports Protocol Sample_Platform "HOL-Library.AList"
begin

text \<open>
  \<open>milter/core/milter-macros-requests.c\<close>: the macro symbols a milter asks for, by
  command. The \<open>symbols_table\<close> hash table is an association list in the table's
  iteration order.
\<close>

type_synonym macros_requests = "(milter_command \<times> bytes list) list"

definition milter_macros_requests_new :: macros_requests where
  "milter_macros_requests_new = []"

definition milter_macros_requests_set_symbols_string_array ::
    "macros_requests \<Rightarrow> milter_command \<Rightarrow> bytes list \<Rightarrow> macros_requests" where
  "milter_macros_requests_set_symbols_string_array requests command strings =
     AList.update command strings requests"

text \<open>The variadic setters collect their arguments into the array.\<close>

definition milter_macros_requests_set_symbols ::
    "macros_requests \<Rightarrow> milter_command \<Rightarrow> bytes list \<Rightarrow> macros_requests" where
  "milter_macros_requests_set_symbols requests command symbols =
     milter_macros_requests_set_symbols_string_array requests command symbols"

definition milter_macros_requests_get_symbols ::
    "macros_requests \<Rightarrow> milter_command \<Rightarrow> bytes list" where
  "milter_macros_requests_get_symbols requests command =
     (case map_of requests command of None \<Rightarrow> [] | Some symbols \<Rightarrow> symbols)"

definition milter_macros_requests_foreach ::
    "macros_requests \<Rightarrow> (milter_command \<Rightarrow> bytes list \<Rightarrow> 'a \<Rightarrow> 'a) \<Rightarrow> 'a \<Rightarrow> 'a" where
  "milter_macros_requests_foreach requests func user_data =
     fold (\<lambda>(key, value). func key value) requests user_data"

text \<open>\<open>g_list_find_custom\<close> with \<open>g_utf8_collate\<close>, then append if it found nothing.\<close>

definition append_symbol :: "platform \<Rightarrow> bytes \<Rightarrow> bytes list \<Rightarrow> bytes list" where
  "append_symbol P symbol copied_symbols =
     (if \<exists>s \<in> set copied_symbols. g_utf8_collate P s symbol = 0 then copied_symbols
      else copied_symbols @ [symbol])"

definition merge_requests ::
    "platform \<Rightarrow> milter_command \<Rightarrow> bytes list \<Rightarrow> macros_requests \<Rightarrow> macros_requests" where
  "merge_requests P key value dest =
     (let dest_symbols = (case map_of dest key of None \<Rightarrow> [] | Some symbols \<Rightarrow> symbols);
          copied_symbols = fold (append_symbol P) value dest_symbols
      in AList.update key copied_symbols dest)"

definition milter_macros_requests_merge ::
    "platform \<Rightarrow> macros_requests \<Rightarrow> macros_requests \<Rightarrow> macros_requests" where
  "milter_macros_requests_merge P dest src =
     milter_macros_requests_foreach src (merge_requests P) dest"

subsection \<open>Lemmas\<close>

lemma get_symbols_set_symbols [simp]:
  "milter_macros_requests_get_symbols
      (milter_macros_requests_set_symbols_string_array rs c ss) c' =
    (if c' = c then ss else milter_macros_requests_get_symbols rs c')"
  by (simp add: milter_macros_requests_get_symbols_def
      milter_macros_requests_set_symbols_string_array_def update_conv')

lemma get_symbols_merge_requests:
  "milter_macros_requests_get_symbols (merge_requests P k v dest) c =
     (if c = k then fold (append_symbol P) v (milter_macros_requests_get_symbols dest c)
      else milter_macros_requests_get_symbols dest c)"
  by (simp add: milter_macros_requests_get_symbols_def merge_requests_def Let_def update_conv')

lemma get_symbols_merge:
  assumes "distinct (map fst src)"
  shows "milter_macros_requests_get_symbols (milter_macros_requests_merge P dest src) c =
     fold (append_symbol P) (milter_macros_requests_get_symbols src c)
       (milter_macros_requests_get_symbols dest c)"
  using assms
proof (induction src arbitrary: dest)
  case Nil
  then show ?case
    by (simp add: milter_macros_requests_merge_def milter_macros_requests_foreach_def
        milter_macros_requests_get_symbols_def)
next
  case (Cons kv src)
  obtain k v where kv: "kv = (k, v)" by (cases kv)
  have m: "milter_macros_requests_merge P dest (kv # src) =
      milter_macros_requests_merge P (merge_requests P k v dest) src"
    by (simp add: milter_macros_requests_merge_def milter_macros_requests_foreach_def kv)
  have "milter_macros_requests_get_symbols src k = []"
    using Cons.prems kv map_of_eq_None_iff [of src k]
    by (simp add: milter_macros_requests_get_symbols_def)
  moreover have "milter_macros_requests_get_symbols (kv # src) c =
      (if c = k then v else milter_macros_requests_get_symbols src c)"
    by (simp add: milter_macros_requests_get_symbols_def kv)
  ultimately show ?case
    using Cons by (simp add: m get_symbols_merge_requests)
qed

lemma fold_append_symbol_prefix: "\<exists>new. fold (append_symbol P) ss ds = ds @ new \<and> set new \<subseteq> set ss"
proof (induction ss arbitrary: ds)
  case Nil
  then show ?case by simp
next
  case (Cons s ss)
  from Cons.IH [of "append_symbol P s ds"] obtain new
    where "fold (append_symbol P) ss (append_symbol P s ds) = append_symbol P s ds @ new"
      "set new \<subseteq> set ss" by blast
  then show ?case by (auto simp: append_symbol_def [of P s ds] split: if_splits)
qed

lemma fold_append_symbol_member:
  assumes "\<And>x. g_utf8_collate P x x = 0" and "s \<in> set ss"
  shows "\<exists>t \<in> set (fold (append_symbol P) ss ds). g_utf8_collate P t s = 0"
  using assms(2)
proof (induction ss arbitrary: ds)
  case Nil
  then show ?case by simp
next
  case (Cons x ss)
  show ?case
  proof (cases "s = x")
    case True
    have "\<exists>t \<in> set (append_symbol P x ds). g_utf8_collate P t x = 0"
      using assms(1) by (auto simp: append_symbol_def)
    moreover obtain new where
      "fold (append_symbol P) ss (append_symbol P x ds) = append_symbol P x ds @ new"
      using fold_append_symbol_prefix by blast
    ultimately show ?thesis using True by auto
  next
    case False
    with Cons show ?thesis by simp
  qed
qed

text \<open>
  Merging the macro requests of one more milter: what was requested so far stays, in
  order, at the front; every symbol the milter asks for is requested afterwards, up to
  collation; only symbols one of the two asked for are; and the order in which the source's
  hash table is walked does not matter.
\<close>

theorem macros_requests_merge_spec:
  assumes "\<And>x. g_utf8_collate P x x = 0" and "distinct (map fst src)" and "mset src' = mset src"
  shows "\<exists>new. milter_macros_requests_get_symbols (milter_macros_requests_merge P dest src) c =
      milter_macros_requests_get_symbols dest c @ new \<and>
      set new \<subseteq> set (milter_macros_requests_get_symbols src c) \<and>
      (\<forall>s \<in> set (milter_macros_requests_get_symbols src c).
         \<exists>t \<in> set (milter_macros_requests_get_symbols (milter_macros_requests_merge P dest src) c).
           g_utf8_collate P t s = 0) \<and>
      milter_macros_requests_get_symbols (milter_macros_requests_merge P dest src') c =
      milter_macros_requests_get_symbols (milter_macros_requests_merge P dest src) c"
proof -
  have d: "distinct (map fst src')" using assms(2,3) by (metis mset_eq_imp_distinct_iff mset_map)
  have "map_of src' = map_of src"
    using map_of_inject_set [OF d assms(2)] assms(3) by (metis set_mset_mset)
  then have "milter_macros_requests_get_symbols src' c = milter_macros_requests_get_symbols src c"
    by (simp add: milter_macros_requests_get_symbols_def)
  then show ?thesis
    using fold_append_symbol_prefix [of P "milter_macros_requests_get_symbols src c"
        "milter_macros_requests_get_symbols dest c"]
      fold_append_symbol_member [of P, OF assms(1)]
    by (simp add: get_symbols_merge [OF assms(2)] get_symbols_merge [OF d])
qed

theorem macros_requests_merge_spec_witness:
  "\<exists>new. milter_macros_requests_get_symbols
      (milter_macros_requests_merge sample_platform [(MILTER_COMMAND_HELO, [''a'', ''b''])]
        [(MILTER_COMMAND_HELO, [''b'', ''c'']), (MILTER_COMMAND_CONNECT, [''d''])])
      MILTER_COMMAND_HELO = [''a'', ''b''] @ new \<and> set new \<subseteq> {''b'', ''c''}"
  using macros_requests_merge_spec [of sample_platform
      "[(MILTER_COMMAND_HELO, [''b'', ''c'']), (MILTER_COMMAND_CONNECT, [''d''])]"
      "[(MILTER_COMMAND_CONNECT, [''d'']), (MILTER_COMMAND_HELO, [''b'', ''c''])]"
      "[(MILTER_COMMAND_HELO, [''a'', ''b''])]" MILTER_COMMAND_HELO]
  by (auto simp: milter_macros_requests_get_symbols_def)

end
