(* ===== verification/Protocol_Agent.thy ===== *)
theory Protocol_Agent
  imports Command_Encoder Macros_Requests
begin

text \<open>
  \<open>milter/core/milter-protocol-agent.c\<close>: the macros a session knows, by the command they
  were announced for, and the cache of those that are visible in the current context.
  Hash tables are association lists; their values are not \<open>NULL\<close>.
\<close>

subsection \<open>The agent\<close>

type_synonym macro_hash = "(bytes \<times> bytes) list"

record protocol_agent =
  agent_macros :: "(milter_command \<times> macro_hash) list"
  available_macros :: "macro_hash option"
  macro_context :: milter_command
  agent_macros_requests :: "macros_requests option"

definition macro_search_order :: "milter_command list" where
  "macro_search_order =
     [MILTER_COMMAND_CONNECT, MILTER_COMMAND_HELO, MILTER_COMMAND_ENVELOPE_FROM,
      MILTER_COMMAND_ENVELOPE_RECIPIENT, MILTER_COMMAND_DATA, MILTER_COMMAND_HEADER,
      MILTER_COMMAND_END_OF_HEADER, MILTER_COMMAND_BODY, MILTER_COMMAND_END_OF_MESSAGE]"

definition milter_protocol_agent_init :: protocol_agent where
  "milter_protocol_agent_init =
     \<lparr>agent_macros = [], available_macros = None, macro_context = MILTER_COMMAND_UNKNOWN,
      agent_macros_requests = None\<rparr>"

definition clear_available_macros :: "protocol_agent \<Rightarrow> protocol_agent" where
  "clear_available_macros a = a\<lparr>available_macros := None\<rparr>"

definition milter_utils_merge_hash_string_string :: "macro_hash \<Rightarrow> macro_hash option \<Rightarrow> macro_hash" where
  "milter_utils_merge_hash_string_string dest src =
     (case src of None \<Rightarrow> dest | Some s \<Rightarrow> fold (\<lambda>(key, value). AList.update key value) s dest)"

fun collect_available_macros ::
    "protocol_agent \<Rightarrow> milter_command list \<Rightarrow> macro_hash \<Rightarrow> macro_hash" where
  "collect_available_macros a [] macros = macros"
| "collect_available_macros a (ctx # order) macros =
     (let macros = milter_utils_merge_hash_string_string macros (map_of (agent_macros a) ctx)
      in if ctx = macro_context a then macros else collect_available_macros a order macros)"

definition milter_protocol_agent_get_available_macros ::
    "protocol_agent \<Rightarrow> protocol_agent \<times> macro_hash" where
  "milter_protocol_agent_get_available_macros a =
     (case available_macros a of
        Some macros \<Rightarrow> (a, macros)
      | None \<Rightarrow>
          let macros = collect_available_macros a macro_search_order []
          in (a\<lparr>available_macros := Some macros\<rparr>, macros))"

text \<open>A name in braces is looked up as it is, then without them.\<close>

definition milter_protocol_agent_get_macro ::
    "protocol_agent \<Rightarrow> bytes option \<Rightarrow> protocol_agent \<times> bytes option" where
  "milter_protocol_agent_get_macro a name =
     (case name of
        None \<Rightarrow> (a, None)
      | Some name \<Rightarrow>
          (let (a, available) = milter_protocol_agent_get_available_macros a
           in (a, case map_of available name of
                    Some value \<Rightarrow> Some value
                  | None \<Rightarrow>
                      if take 1 name = ''{'' \<and> name \<noteq> [] \<and> last name = CHR ''}''
                      then map_of available (take (length name - 2) (drop 1 name))
                      else None)))"

definition milter_protocol_agent_get_macros :: "protocol_agent \<Rightarrow> macro_hash option" where
  "milter_protocol_agent_get_macros a = map_of (agent_macros a) (macro_context a)"

definition milter_protocol_agent_clear_macros ::
    "protocol_agent \<Rightarrow> milter_command \<Rightarrow> protocol_agent" where
  "milter_protocol_agent_clear_macros a ctx =
     clear_available_macros (a\<lparr>agent_macros := AList.delete ctx (agent_macros a)\<rparr>)"

definition milter_protocol_agent_clear_message_related_macros ::
    "protocol_agent \<Rightarrow> protocol_agent" where
  "milter_protocol_agent_clear_message_related_macros a =
     clear_available_macros
       (a\<lparr>agent_macros := fold AList.delete
          [MILTER_COMMAND_ENVELOPE_FROM, MILTER_COMMAND_ENVELOPE_RECIPIENT, MILTER_COMMAND_DATA,
           MILTER_COMMAND_HEADER, MILTER_COMMAND_END_OF_HEADER, MILTER_COMMAND_BODY,
           MILTER_COMMAND_END_OF_MESSAGE] (agent_macros a)\<rparr>)"

definition update_macro :: "bytes \<Rightarrow> bytes option \<Rightarrow> macro_hash \<Rightarrow> macro_hash" where
  "update_macro name value macros =
     (case value of Some v \<Rightarrow> AList.update name v macros | None \<Rightarrow> AList.delete name macros)"

definition ensure_macros :: "protocol_agent \<Rightarrow> milter_command \<Rightarrow> protocol_agent \<times> macro_hash" where
  "ensure_macros a ctx =
     (case map_of (agent_macros a) ctx of
        Some macros \<Rightarrow> (a, macros)
      | None \<Rightarrow> (a\<lparr>agent_macros := AList.update ctx [] (agent_macros a)\<rparr>, []))"

definition milter_protocol_agent_set_macro_context ::
    "protocol_agent \<Rightarrow> milter_command \<Rightarrow> protocol_agent" where
  "milter_protocol_agent_set_macro_context a ctx =
     clear_available_macros (a\<lparr>macro_context := ctx\<rparr>)"

text \<open>The variadic setter updates the table in place, and leaves the cache alone.\<close>

definition milter_protocol_agent_set_macros ::
    "protocol_agent \<Rightarrow> milter_command \<Rightarrow> macro_table \<Rightarrow> protocol_agent" where
  "milter_protocol_agent_set_macros a ctx arguments =
     (let (a, macros) = ensure_macros a ctx;
          macros = fold (\<lambda>(name, value). update_macro name value) arguments macros
      in a\<lparr>agent_macros := AList.update ctx macros (agent_macros a)\<rparr>)"

definition cb_copy_macro :: "bytes \<Rightarrow> bytes option \<Rightarrow> macro_hash \<Rightarrow> macro_hash" where
  "cb_copy_macro key value macros =
     (case value of None \<Rightarrow> macros | Some v \<Rightarrow> AList.update key v macros)"

definition milter_protocol_agent_set_macros_hash_table ::
    "protocol_agent \<Rightarrow> milter_command \<Rightarrow> macro_table \<Rightarrow> protocol_agent" where
  "milter_protocol_agent_set_macros_hash_table a ctx macros =
     clear_available_macros
       (a\<lparr>agent_macros :=
          AList.update ctx (fold (\<lambda>(key, value). cb_copy_macro key value) macros [])
            (agent_macros a)\<rparr>)"

definition milter_protocol_agent_set_macro ::
    "protocol_agent \<Rightarrow> milter_command \<Rightarrow> bytes \<Rightarrow> bytes option \<Rightarrow> protocol_agent" where
  "milter_protocol_agent_set_macro a ctx name value =
     (let (a, macros) = ensure_macros a ctx
      in clear_available_macros
           (a\<lparr>agent_macros := AList.update ctx (update_macro name value macros) (agent_macros a)\<rparr>))"

definition milter_protocol_agent_set_macros_requests ::
    "protocol_agent \<Rightarrow> macros_requests option \<Rightarrow> protocol_agent" where
  "milter_protocol_agent_set_macros_requests a requests = a\<lparr>agent_macros_requests := requests\<rparr>"

definition milter_protocol_agent_get_macros_requests ::
    "protocol_agent \<Rightarrow> macros_requests option" where
  "milter_protocol_agent_get_macros_requests a = agent_macros_requests a"

subsection \<open>What a macro name means\<close>

text \<open>
  The stages up to the current context, and the value the last of them that knows a name
  gives it.
\<close>

fun stages_until :: "milter_command \<Rightarrow> milter_command list \<Rightarrow> milter_command list" where
  "stages_until ctx [] = []"
| "stages_until ctx (c # cs) = (if c = ctx then [c] else c # stages_until ctx cs)"

definition stage_value :: "protocol_agent \<Rightarrow> bytes \<Rightarrow> milter_command \<Rightarrow> bytes option" where
  "stage_value a name ctx =
     (case map_of (agent_macros a) ctx of None \<Rightarrow> None | Some macros \<Rightarrow> map_of macros name)"

definition latest_value :: "protocol_agent \<Rightarrow> bytes \<Rightarrow> bytes option" where
  "latest_value a name =
     (case filter (\<lambda>c. stage_value a name c \<noteq> None)
             (rev (stages_until (macro_context a) macro_search_order)) of
        [] \<Rightarrow> None
      | c # cs \<Rightarrow> stage_value a name c)"

text \<open>The cache is empty or up to date; a table has each name once, as hash tables do.\<close>

definition cache_coherent :: "protocol_agent \<Rightarrow> bool" where
  "cache_coherent a \<longleftrightarrow>
     (case available_macros a of
        None \<Rightarrow> True
      | Some macros \<Rightarrow> macros = collect_available_macros a macro_search_order [])"

definition wf_tables :: "protocol_agent \<Rightarrow> bool" where
  "wf_tables a \<longleftrightarrow> (\<forall>(c, macros) \<in> set (agent_macros a). distinct (map fst macros))"

lemma map_of_fold_update:
  "distinct (map fst s) \<Longrightarrow>
   map_of (fold (\<lambda>(key, value). AList.update key value) s dest) =
     (\<lambda>k. case map_of s k of Some v \<Rightarrow> Some v | None \<Rightarrow> map_of dest k)"
proof (induction s arbitrary: dest)
  case (Cons kv s)
  obtain k v where kv: "kv = (k, v)" by fastforce
  with Cons.prems have "map_of s k = None" by (simp add: map_of_eq_None_iff)
  with Cons show ?case by (auto simp: kv update_conv' fun_eq_iff split: option.splits)
qed simp

lemma stages_until_Nil [simp]: "stages_until ctx order = [] \<longleftrightarrow> order = []"
  by (cases order) auto

definition value_of_stages :: "protocol_agent \<Rightarrow> bytes \<Rightarrow> milter_command list \<Rightarrow> bytes option" where
  "value_of_stages a name cs =
     (case filter (\<lambda>c. stage_value a name c \<noteq> None) (rev cs) of
        [] \<Rightarrow> None | c # ds \<Rightarrow> stage_value a name c)"

lemma value_of_stages_Nil [simp]: "value_of_stages a name [] = None"
  by (simp add: value_of_stages_def)

lemma value_of_stages_Cons:
  "value_of_stages a name (c # cs) =
     (case value_of_stages a name cs of Some v \<Rightarrow> Some v | None \<Rightarrow> stage_value a name c)"
proof (cases "filter (\<lambda>c. stage_value a name c \<noteq> None) (rev cs)")
  case Nil
  then show ?thesis by (auto simp: value_of_stages_def)
next
  case (Cons d ds)
  then have "d \<in> set (filter (\<lambda>c. stage_value a name c \<noteq> None) (rev cs))"
    by (metis list.set_intros(1))
  then obtain v where "stage_value a name d = Some v" by auto
  with Cons show ?thesis by (simp add: value_of_stages_def)
qed

lemma latest_value_stages:
  "latest_value a name = value_of_stages a name (stages_until (macro_context a) macro_search_order)"
  by (simp add: latest_value_def value_of_stages_def)

lemma collect_available_lookup:
  assumes "wf_tables a"
  shows "map_of (collect_available_macros a order macros) name =
     (case value_of_stages a name (stages_until (macro_context a) order) of
        Some v \<Rightarrow> Some v | None \<Rightarrow> map_of macros name)"
proof (induction order arbitrary: macros)
  case (Cons c order)
  let ?m = "milter_utils_merge_hash_string_string macros (map_of (agent_macros a) c)"
  have m: "map_of ?m name =
      (case stage_value a name c of Some v \<Rightarrow> Some v | None \<Rightarrow> map_of macros name)"
  proof (cases "map_of (agent_macros a) c")
    case None
    then show ?thesis by (simp add: milter_utils_merge_hash_string_string_def stage_value_def)
  next
    case (Some t)
    then have "distinct (map fst t)" using assms by (auto simp: wf_tables_def dest: map_of_SomeD)
    with Some show ?thesis
      by (simp add: milter_utils_merge_hash_string_string_def stage_value_def map_of_fold_update)
  qed
  show ?case
  proof (cases "c = macro_context a")
    case True
    then show ?thesis using m
      by (simp add: Let_def value_of_stages_Cons split: option.splits)
  next
    case False
    then show ?thesis using Cons.IH [of ?m] m
      by (simp add: Let_def value_of_stages_Cons split: option.splits)
  qed
qed simp

text \<open>
  A macro has the value that the latest stage up to the current context gave it, under
  its name as written or, failing that, without its braces.
\<close>

theorem get_macro_latest:
  assumes "wf_tables a" and "cache_coherent a"
  shows "snd (milter_protocol_agent_get_macro a (Some name)) =
     (case latest_value a name of
        Some v \<Rightarrow> Some v
      | None \<Rightarrow> (if \<exists>inner. name = ''{'' @ inner @ ''}''
               then latest_value a (take (length name - 2) (drop 1 name)) else None))"
proof -
  have look: "map_of (snd (milter_protocol_agent_get_available_macros a)) n = latest_value a n" for n
    using assms collect_available_lookup [OF assms(1), of macro_search_order "[]" n]
    by (auto simp: milter_protocol_agent_get_available_macros_def cache_coherent_def Let_def
        latest_value_stages split: option.splits)
  have braces: "take 1 name = ''{'' \<and> name \<noteq> [] \<and> last name = CHR ''}'' \<longleftrightarrow>
      (\<exists>inner. name = ''{'' @ inner @ ''}'')"
  proof
    assume *: "take 1 name = ''{'' \<and> name \<noteq> [] \<and> last name = CHR ''}''"
    then obtain r where r: "name = CHR ''{'' # r" by (cases name) auto
    with * have "r \<noteq> []" "last r = CHR ''}''" by (auto split: if_splits)
    then have "r = butlast r @ ''}''" by (metis append_butlast_last_id)
    with r have "name = ''{'' @ butlast r @ ''}''" by simp
    then show "\<exists>inner. name = ''{'' @ inner @ ''}''" ..
  qed auto
  show ?thesis
    unfolding milter_protocol_agent_get_macro_def option.case case_prod_beta Let_def snd_conv
      look braces ..
qed

theorem get_macro_latest_witness:
  "snd (milter_protocol_agent_get_macro
     \<lparr>agent_macros = [(MILTER_COMMAND_HELO, [(''i'', ''1'')]), (MILTER_COMMAND_CONNECT, [(''j'', ''0'')])],
      available_macros = None, macro_context = MILTER_COMMAND_DATA,
      agent_macros_requests = None\<rparr> (Some ''{i}'')) = Some ''1''"
proof -
  let ?a = "\<lparr>agent_macros = [(MILTER_COMMAND_HELO, [(''i'', ''1'')]), (MILTER_COMMAND_CONNECT, [(''j'', ''0'')])],
      available_macros = None, macro_context = MILTER_COMMAND_DATA,
      agent_macros_requests = None\<rparr>"
  have "wf_tables ?a" "cache_coherent ?a" by (simp_all add: wf_tables_def cache_coherent_def)
  from get_macro_latest [OF this, of "''{i}''"] show ?thesis
    by (simp add: latest_value_def macro_search_order_def stage_value_def)
qed

text \<open>
  The variadic setter does not invalidate the cache: once any macro has been read, what
  it sets stays invisible.
\<close>

theorem set_macros_stale:
  "snd (milter_protocol_agent_get_macro
      (milter_protocol_agent_set_macros (fst (milter_protocol_agent_get_macro a (Some n))) ctx ms)
      (Some name)) =
   snd (milter_protocol_agent_get_macro a (Some name))"
  by (cases "available_macros a")
    (auto simp: milter_protocol_agent_get_macro_def milter_protocol_agent_set_macros_def
      milter_protocol_agent_get_available_macros_def ensure_macros_def Let_def
      split: option.splits)

subsection \<open>The cache and the other operations\<close>

lemmas agent_ops = milter_protocol_agent_get_available_macros_def
  milter_protocol_agent_get_macro_def milter_protocol_agent_clear_macros_def
  milter_protocol_agent_clear_message_related_macros_def
  milter_protocol_agent_set_macro_context_def milter_protocol_agent_set_macros_hash_table_def
  milter_protocol_agent_set_macro_def clear_available_macros_def ensure_macros_def

lemma cache_coherent_cleared [simp]: "cache_coherent (clear_available_macros a)"
  by (simp add: cache_coherent_def clear_available_macros_def)

lemma agent_ops_coherent [simp]:
  "cache_coherent (milter_protocol_agent_clear_macros a ctx)"
  "cache_coherent (milter_protocol_agent_clear_message_related_macros a)"
  "cache_coherent (milter_protocol_agent_set_macro_context a ctx)"
  "cache_coherent (milter_protocol_agent_set_macros_hash_table a ctx ms)"
  "cache_coherent (milter_protocol_agent_set_macro a ctx n v)"
  by (simp_all add: milter_protocol_agent_clear_macros_def
      milter_protocol_agent_clear_message_related_macros_def
      milter_protocol_agent_set_macro_context_def milter_protocol_agent_set_macros_hash_table_def
      milter_protocol_agent_set_macro_def case_prod_beta Let_def)

end
