(* ===== verification/Headers.thy ===== *)
theory Headers
  imports Prelude "HOL-Library.Multiset"
begin

text \<open>
  \<open>milter/core/milter-headers.c\<close>: the headers of a message. The list of \<open>MilterHeader\<close>
  objects is a list of records; a returned object that the callers go on to remove or
  change is its position. A name is not \<open>NULL\<close>, a value may be.
\<close>

subsection \<open>The operations\<close>

record milter_header =
  header_name :: bytes
  header_value :: "bytes option"

type_synonym milter_headers = "milter_header list"

definition milter_header_new :: "bytes \<Rightarrow> bytes option \<Rightarrow> milter_header" where
  "milter_header_new name value = \<lparr>header_name = name, header_value = value\<rparr>"

text \<open>\<open>strcmp\<close> matters to the callers only through being 0; so do the comparisons here.\<close>

definition milter_utils_strcmp0_equal :: "bytes option \<Rightarrow> bytes option \<Rightarrow> bool" where
  "milter_utils_strcmp0_equal str1 str2 =
     (case str1 of
        None \<Rightarrow> str2 = None
      | Some s1 \<Rightarrow> (case str2 of None \<Rightarrow> False | Some s2 \<Rightarrow> s1 = s2))"

definition milter_header_equal :: "milter_header \<Rightarrow> milter_header \<Rightarrow> bool" where
  "milter_header_equal header1 header2 =
     (header_name header1 = header_name header2 \<and>
      milter_utils_strcmp0_equal (header_value header1) (header_value header2))"

definition milter_headers_append_header ::
    "milter_headers \<Rightarrow> bytes \<Rightarrow> bytes option \<Rightarrow> milter_headers" where
  "milter_headers_append_header headers name value = headers @ [milter_header_new name value]"

definition milter_headers_copy :: "milter_headers \<Rightarrow> milter_headers" where
  "milter_headers_copy headers =
     foldl (\<lambda>copied h. milter_headers_append_header copied (header_name h) (header_value h)) []
       headers"

definition milter_headers_find :: "milter_headers \<Rightarrow> milter_header \<Rightarrow> milter_header option" where
  "milter_headers_find headers header = find (\<lambda>h. milter_header_equal h header) headers"

definition milter_headers_lookup_by_name :: "milter_headers \<Rightarrow> bytes \<Rightarrow> milter_header option" where
  "milter_headers_lookup_by_name headers name = find (\<lambda>h. header_name h = name) headers"

definition milter_headers_get_nth_header :: "milter_headers \<Rightarrow> nat \<Rightarrow> milter_header option" where
  "milter_headers_get_nth_header headers index =
     (if index < 1 then None
      else if index - 1 < length headers then Some (headers ! (index - 1)) else None)"

text \<open>The loop, counting from \<open>found_count\<close>; \<open>None\<close> is \<open>-1\<close>.\<close>

fun index_in_same_header_name_loop ::
    "milter_headers \<Rightarrow> milter_header \<Rightarrow> nat \<Rightarrow> nat option" where
  "index_in_same_header_name_loop [] target found_count = None"
| "index_in_same_header_name_loop (header # headers) target found_count =
     (if header_name header \<noteq> header_name target
      then index_in_same_header_name_loop headers target found_count
      else if milter_utils_strcmp0_equal (header_value header) (header_value target)
      then Some (found_count + 1)
      else index_in_same_header_name_loop headers target (found_count + 1))"

definition milter_headers_index_in_same_header_name ::
    "milter_headers \<Rightarrow> milter_header \<Rightarrow> nat option" where
  "milter_headers_index_in_same_header_name headers target =
     index_in_same_header_name_loop headers target 0"

fun milter_headers_remove :: "milter_headers \<Rightarrow> milter_header \<Rightarrow> bool \<times> milter_headers" where
  "milter_headers_remove [] header = (False, [])"
| "milter_headers_remove (h # headers) header =
     (if milter_header_equal h header then (True, headers)
      else (case milter_headers_remove headers header of
              (found, headers') \<Rightarrow> (found, h # headers')))"

text \<open>\<open>g_ascii_strcasecmp\<close> being 0.\<close>

definition g_ascii_tolower :: "char \<Rightarrow> char" where
  "g_ascii_tolower c =
     (if 65 \<le> (of_char c :: nat) \<and> (of_char c :: nat) \<le> 90 then char_of ((of_char c :: nat) + 32)
      else c)"

definition g_ascii_strcaseeq :: "bytes \<Rightarrow> bytes \<Rightarrow> bool" where
  "g_ascii_strcaseeq s t \<longleftrightarrow> map g_ascii_tolower s = map g_ascii_tolower t"

definition milter_headers_add_header ::
    "milter_headers \<Rightarrow> bytes \<Rightarrow> bytes option \<Rightarrow> milter_headers" where
  "milter_headers_add_header headers name value =
     takeWhile (\<lambda>h. \<not> g_ascii_strcaseeq (header_name h) name) headers @
     [milter_header_new name value] @
     dropWhile (\<lambda>h. \<not> g_ascii_strcaseeq (header_name h) name) headers"

text \<open>\<open>g_list_insert\<close> appends when the position is beyond the end.\<close>

definition milter_headers_insert_header ::
    "milter_headers \<Rightarrow> nat \<Rightarrow> bytes \<Rightarrow> bytes option \<Rightarrow> milter_headers" where
  "milter_headers_insert_header headers position name value =
     take position headers @ [milter_header_new name value] @ drop position headers"

text \<open>The position of the \<open>index\<close>-th header of a name, counting from 1.\<close>

fun lookup_by_name_with_index_loop :: "milter_headers \<Rightarrow> bytes \<Rightarrow> nat \<Rightarrow> nat \<Rightarrow> nat option" where
  "lookup_by_name_with_index_loop [] name index found_count = None"
| "lookup_by_name_with_index_loop (header # headers) name index found_count =
     (if header_name header \<noteq> name
      then map_option Suc (lookup_by_name_with_index_loop headers name index found_count)
      else if found_count + 1 = index then Some 0
      else map_option Suc (lookup_by_name_with_index_loop headers name index (found_count + 1)))"

definition milter_headers_lookup_by_name_with_index ::
    "milter_headers \<Rightarrow> bytes \<Rightarrow> nat \<Rightarrow> nat option" where
  "milter_headers_lookup_by_name_with_index headers name index =
     lookup_by_name_with_index_loop headers name index 0"

definition milter_headers_delete_header ::
    "milter_headers \<Rightarrow> bytes \<Rightarrow> nat \<Rightarrow> bool \<times> milter_headers" where
  "milter_headers_delete_header headers name index =
     (case milter_headers_lookup_by_name_with_index headers name index of
        None \<Rightarrow> (False, headers)
      | Some i \<Rightarrow> (True, take i headers @ drop (Suc i) headers))"

definition milter_header_change_value :: "milter_header \<Rightarrow> bytes option \<Rightarrow> milter_header" where
  "milter_header_change_value header new_value = header\<lparr>header_value := new_value\<rparr>"

definition milter_headers_change_header ::
    "milter_headers \<Rightarrow> bytes \<Rightarrow> nat \<Rightarrow> bytes option \<Rightarrow> bool \<times> milter_headers" where
  "milter_headers_change_header headers name index value =
     (if value = None then milter_headers_delete_header headers name index
      else (case milter_headers_lookup_by_name_with_index headers name index of
              Some i \<Rightarrow> (True, headers[i := milter_header_change_value (headers ! i) value])
            | None \<Rightarrow> (True, milter_headers_add_header headers name value)))"

definition milter_headers_length :: "milter_headers \<Rightarrow> nat" where
  "milter_headers_length headers = length headers"

subsection \<open>Equality and searching\<close>

lemma milter_utils_strcmp0_equal_iff [simp]: "milter_utils_strcmp0_equal s t \<longleftrightarrow> s = t"
  by (cases s; cases t) (auto simp: milter_utils_strcmp0_equal_def)

lemma milter_header_equal_iff [simp]: "milter_header_equal h1 h2 \<longleftrightarrow> h1 = h2"
  by (auto simp: milter_header_equal_def)

lemma milter_header_new_eta [simp]: "milter_header_new (header_name h) (header_value h) = h"
  by (simp add: milter_header_new_def)

lemma header_name_new [simp]: "header_name (milter_header_new n v) = n"
  by (simp add: milter_header_new_def)

lemma milter_headers_copy_id [simp]: "milter_headers_copy headers = headers"
proof -
  have "foldl (\<lambda>copied h. milter_headers_append_header copied (header_name h) (header_value h)) acc hs
      = acc @ hs" for acc hs
    by (induction hs arbitrary: acc) (simp_all add: milter_headers_append_header_def)
  then show ?thesis by (simp add: milter_headers_copy_def)
qed

lemma milter_headers_find_iff [simp]:
  "milter_headers_find headers h = (if h \<in> set headers then Some h else None)"
  by (induction headers) (auto simp: milter_headers_find_def)

lemma milter_headers_remove_remove1 [simp]:
  "milter_headers_remove headers h = (h \<in> set headers, remove1 h headers)"
  by (induction headers) auto

lemma milter_headers_lookup_by_name_Some:
  "milter_headers_lookup_by_name headers name = Some h \<Longrightarrow> h \<in> set headers \<and> header_name h = name"
  by (auto simp: milter_headers_lookup_by_name_def find_Some_iff)

lemma milter_headers_lookup_by_name_None:
  "milter_headers_lookup_by_name headers name = None \<longleftrightarrow> name \<notin> header_name ` set headers"
  by (auto simp: milter_headers_lookup_by_name_def find_None_iff)

subsection \<open>The headers of one name\<close>

definition named :: "bytes \<Rightarrow> milter_headers \<Rightarrow> milter_headers" where
  "named name headers = filter (\<lambda>h. header_name h = name) headers"

lemma named_simps [simp]:
  "named n [] = []"
  "named n (h # hs) = (if header_name h = n then h # named n hs else named n hs)"
  "named n (hs @ hs') = named n hs @ named n hs'"
  by (simp_all add: named_def)

lemma set_named [simp]: "set (named n hs) = {h \<in> set hs. header_name h = n}"
  by (auto simp: named_def)

lemma index_loop_Some:
  "index_in_same_header_name_loop hs t c = Some k \<Longrightarrow>
     c < k \<and> k - c \<le> length (named (header_name t) hs) \<and>
     named (header_name t) hs ! (k - c - 1) = t"
proof (induction hs t c rule: index_in_same_header_name_loop.induct)
  case (2 h hs t c)
  show ?case
  proof (cases "header_name h = header_name t \<and> header_value h \<noteq> header_value t")
    case True
    with 2 have "c + 1 < k" "k - (c + 1) \<le> length (named (header_name t) hs)"
      "named (header_name t) hs ! (k - (c + 1) - 1) = t" by auto
    with True show ?thesis by (auto simp: nth_Cons')
  next
    case False
    with 2 show ?thesis by (cases "header_name h = header_name t") auto
  qed
qed simp

lemma index_loop_member:
  "t \<in> set hs \<Longrightarrow> \<exists>k. index_in_same_header_name_loop hs t c = Some k"
  by (induction hs arbitrary: c) auto

lemma lookup_loop_Some:
  "lookup_by_name_with_index_loop hs n k c = Some i \<Longrightarrow>
     i < length hs \<and> header_name (hs ! i) = n \<and> c + length (named n (take i hs)) + 1 = k"
proof (induction hs arbitrary: c i)
  case (Cons h hs)
  show ?case
  proof (cases "header_name h = n")
    case True
    show ?thesis
    proof (cases "c + 1 = k")
      case False
      with True Cons.prems obtain j where
        "i = Suc j" "lookup_by_name_with_index_loop hs n k (c + 1) = Some j" by auto
      with Cons.IH [of "c + 1" j] True show ?thesis by simp
    qed (use True Cons.prems in auto)
  next
    case False
    with Cons.prems obtain j where "i = Suc j" "lookup_by_name_with_index_loop hs n k c = Some j"
      by auto
    with Cons.IH [of c j] False show ?thesis by simp
  qed
qed simp

lemma lookup_loop_exists:
  "c < k \<Longrightarrow> k - c \<le> length (named n hs) \<Longrightarrow>
     \<exists>i. lookup_by_name_with_index_loop hs n k c = Some i"
proof (induction hs arbitrary: c)
  case (Cons h hs)
  then show ?case by (cases "c + 1 = k") (auto split: if_splits)
qed simp

text \<open>
  The \<open>k\<close>-th header of a name, in the list and among the headers of that name.
\<close>

lemma lookup_named:
  assumes "0 < k" and "k \<le> length (named n hs)"
  obtains i where "milter_headers_lookup_by_name_with_index hs n k = Some i"
    and "i < length hs" and "hs ! i = named n hs ! (k - 1)"
    and "hs = take i hs @ hs ! i # drop (Suc i) hs"
    and "length (named n (take i hs)) = k - 1"
proof -
  from lookup_loop_exists [of 0 k n hs] assms obtain i
    where i: "lookup_by_name_with_index_loop hs n k 0 = Some i" by auto
  from lookup_loop_Some [OF this] have *: "i < length hs" "header_name (hs ! i) = n"
    "length (named n (take i hs)) + 1 = k" by auto
  have split: "hs = take i hs @ hs ! i # drop (Suc i) hs" using *(1) by (rule id_take_nth_drop)
  have "named n hs = named n (take i hs @ hs ! i # drop (Suc i) hs)"
    by (rule arg_cong [OF split])
  also have "\<dots> = named n (take i hs) @ hs ! i # named n (drop (Suc i) hs)"
    using *(2) by (simp only: named_simps if_True refl simp_thms)
  finally have app: "named n hs = named n (take i hs) @ hs ! i # named n (drop (Suc i) hs)" .
  have len: "length (named n (take i hs)) = k - 1" using *(3) by simp
  have nth: "hs ! i = named n hs ! (k - 1)" by (simp only: app len [symmetric] nth_append_length)
  have look: "milter_headers_lookup_by_name_with_index hs n k = Some i"
    using i by (simp only: milter_headers_lookup_by_name_with_index_def)
  show thesis by (rule that [OF look *(1) nth split len])
qed

text \<open>
  The index a header has among those of its name finds it again: looking it up,
  changing it or deleting it by that index acts on a header with that name and value, and
  on nothing else.
\<close>

theorem header_index_edits:
  assumes "milter_headers_index_in_same_header_name hs t = Some k" and "v \<noteq> None"
  shows "\<exists>as bs. hs = as @ t # bs \<and>
     milter_headers_delete_header hs (header_name t) k = (True, as @ bs) \<and>
     milter_headers_change_header hs (header_name t) k v =
       (True, as @ milter_header_new (header_name t) v # bs)"
proof -
  from index_loop_Some [of hs t 0 k] assms(1)
  have k: "0 < k" "k \<le> length (named (header_name t) hs)" "named (header_name t) hs ! (k - 1) = t"
    by (simp_all add: milter_headers_index_in_same_header_name_def)
  from lookup_named [OF k(1,2)] obtain i
    where i: "milter_headers_lookup_by_name_with_index hs (header_name t) k = Some i"
      "i < length hs" "hs ! i = t" "hs = take i hs @ hs ! i # drop (Suc i) hs"
    using k(3) by metis
  show ?thesis
  proof (intro exI conjI)
    show "hs = take i hs @ t # drop (Suc i) hs" using i(3,4) by simp
    show "milter_headers_delete_header hs (header_name t) k =
        (True, take i hs @ drop (Suc i) hs)"
      using i(1) by (simp add: milter_headers_delete_header_def)
    from assms(2) obtain y where v: "v = Some y" by auto
    have "hs[i := t\<lparr>header_value := v\<rparr>] =
        take i hs @ t\<lparr>header_value := v\<rparr> # drop (Suc i) hs"
      using i(2) by (rule upd_conv_take_nth_drop)
    moreover have "t\<lparr>header_value := v\<rparr> = milter_header_new (header_name t) v"
      by (simp add: milter_header_new_def)
    ultimately show "milter_headers_change_header hs (header_name t) k v =
        (True, take i hs @ milter_header_new (header_name t) v # drop (Suc i) hs)"
      using i(1,3) v by (simp add: milter_headers_change_header_def milter_header_change_value_def)
  qed
qed

theorem header_index_edits_witness:
  "\<exists>as bs. [milter_header_new ''A'' (Some ''1''), milter_header_new ''B'' None,
      milter_header_new ''A'' (Some ''2'')] = as @ milter_header_new ''A'' (Some ''2'') # bs \<and>
     milter_headers_delete_header [milter_header_new ''A'' (Some ''1''), milter_header_new ''B'' None,
      milter_header_new ''A'' (Some ''2'')] ''A'' 2 = (True, as @ bs)"
  using header_index_edits [of "[milter_header_new ''A'' (Some ''1''), milter_header_new ''B'' None,
      milter_header_new ''A'' (Some ''2'')]" "milter_header_new ''A'' (Some ''2'')" 2 "Some ''x''"]
  by (auto simp: milter_headers_index_in_same_header_name_def milter_header_new_def)

end
