(* ===== verification/Message_Result.thy ===== *)
theory Message_Result
  imports Headers Protocol
begin

text \<open>
  \<open>milter/core/milter-message-result.c\<close>: what became of one message at one milter. The
  lists of failed recipients may hold \<open>NULL\<close>: a reply may name a recipient that is no
  longer there. The elapsed time, a double, is not kept.
\<close>

datatype milter_state =
    MILTER_STATE_INVALID | MILTER_STATE_START
  | MILTER_STATE_NEGOTIATE | MILTER_STATE_NEGOTIATE_REPLIED
  | MILTER_STATE_CONNECT | MILTER_STATE_CONNECT_REPLIED
  | MILTER_STATE_HELO | MILTER_STATE_HELO_REPLIED
  | MILTER_STATE_ENVELOPE_FROM | MILTER_STATE_ENVELOPE_FROM_REPLIED
  | MILTER_STATE_ENVELOPE_RECIPIENT | MILTER_STATE_ENVELOPE_RECIPIENT_REPLIED
  | MILTER_STATE_DATA | MILTER_STATE_DATA_REPLIED
  | MILTER_STATE_UNKNOWN | MILTER_STATE_UNKNOWN_REPLIED
  | MILTER_STATE_HEADER | MILTER_STATE_HEADER_REPLIED
  | MILTER_STATE_END_OF_HEADER | MILTER_STATE_END_OF_HEADER_REPLIED
  | MILTER_STATE_BODY | MILTER_STATE_BODY_REPLIED
  | MILTER_STATE_END_OF_MESSAGE | MILTER_STATE_END_OF_MESSAGE_REPLIED
  | MILTER_STATE_QUIT | MILTER_STATE_QUIT_REPLIED
  | MILTER_STATE_ABORT | MILTER_STATE_ABORT_REPLIED
  | MILTER_STATE_FINISHED

record message_result =
  result_from :: "bytes option"
  result_recipients :: "bytes list"
  temporary_failed_recipients :: "bytes option list"
  rejected_recipients :: "bytes option list"
  result_headers :: "milter_headers option"
  result_body_size :: "64 word"
  result_state :: milter_state
  result_status :: milter_status
  added_headers :: "milter_headers option"
  removed_headers :: "milter_headers option"
  result_quarantine :: bool

definition milter_message_result_new :: message_result where
  "milter_message_result_new =
     \<lparr>result_from = None, result_recipients = [], temporary_failed_recipients = [],
      rejected_recipients = [], result_headers = None, result_body_size = 0,
      result_state = MILTER_STATE_INVALID, result_status = MILTER_STATUS_DEFAULT,
      added_headers = None, removed_headers = None, result_quarantine = False\<rparr>"

definition milter_message_result_start :: "message_result \<Rightarrow> message_result" where
  "milter_message_result_start r =
     r\<lparr>result_headers := Some [], added_headers := Some [], removed_headers := Some []\<rparr>"

definition milter_message_result_set_from :: "message_result \<Rightarrow> bytes \<Rightarrow> message_result" where
  "milter_message_result_set_from r sender = r\<lparr>result_from := Some sender\<rparr>"

definition milter_message_result_add_recipient :: "message_result \<Rightarrow> bytes \<Rightarrow> message_result" where
  "milter_message_result_add_recipient r recipient =
     r\<lparr>result_recipients := result_recipients r @ [recipient]\<rparr>"

text \<open>
  The loop goes on from a node it has just unlinked, whose successor is \<open>NULL\<close>: it
  removes one recipient. \<open>strcmp\<close> with \<open>NULL\<close> is undefined.
\<close>

definition milter_message_result_remove_recipient ::
    "message_result \<Rightarrow> bytes option \<Rightarrow> message_result result" where
  "milter_message_result_remove_recipient r recipient =
     (case recipient of
        None \<Rightarrow> if result_recipients r = [] then Ok r else Fault Null_dereference
      | Some x \<Rightarrow> Ok (r\<lparr>result_recipients := remove1 x (result_recipients r)\<rparr>))"

definition milter_message_result_add_temporary_failed_recipient ::
    "message_result \<Rightarrow> bytes option \<Rightarrow> message_result" where
  "milter_message_result_add_temporary_failed_recipient r recipient =
     r\<lparr>temporary_failed_recipients := temporary_failed_recipients r @ [recipient]\<rparr>"

definition milter_message_result_add_rejected_recipient ::
    "message_result \<Rightarrow> bytes option \<Rightarrow> message_result" where
  "milter_message_result_add_rejected_recipient r recipient =
     r\<lparr>rejected_recipients := rejected_recipients r @ [recipient]\<rparr>"

definition milter_message_result_add_body_size :: "message_result \<Rightarrow> 64 word \<Rightarrow> message_result" where
  "milter_message_result_add_body_size r n = r\<lparr>result_body_size := result_body_size r + n\<rparr>"

definition milter_message_result_set_state :: "message_result \<Rightarrow> milter_state \<Rightarrow> message_result" where
  "milter_message_result_set_state r s = r\<lparr>result_state := s\<rparr>"

definition milter_message_result_set_status :: "message_result \<Rightarrow> milter_status \<Rightarrow> message_result" where
  "milter_message_result_set_status r s = r\<lparr>result_status := s\<rparr>"

definition milter_message_result_set_quarantine :: "message_result \<Rightarrow> bool \<Rightarrow> message_result" where
  "milter_message_result_set_quarantine r q = r\<lparr>result_quarantine := q\<rparr>"

end
