(* ===== verification/Decoder.thy ===== *)
theory Decoder
  imports Encoder
begin

text \<open>
  \<open>milter/core/milter-decoder.c\<close>: the framing state machine all packet decoders share,
  and the parsing helpers they call. A concrete decoder contributes one virtual method,
  its \<open>decode\<close>, which the machine calls through the \<open>decode\<close> signal on a complete
  packet; here it is the argument \<open>h\<close>, a function of the whole receive buffer and the
  packet's length.
\<close>

subsection \<open>Parsing helpers\<close>

text \<open>
  The pointer arguments are memory suffixes. Inside a handler the memory is the receive
  buffer and the NUL that \<open>GString\<close> keeps behind it (\<open>milter_decoder_get_buffer\<close>).
\<close>

datatype scan = At nat | Nowhere | Beyond

fun find_character :: "char \<Rightarrow> bytes \<Rightarrow> nat \<Rightarrow> scan" where
  "find_character c p 0 = Nowhere"
| "find_character c [] (Suc n) = Beyond"
| "find_character c (x # p) (Suc n) =
     (if x = c then At 0
      else case find_character c p n of
             At i \<Rightarrow> At (Suc i) | Nowhere \<Rightarrow> Nowhere | Beyond \<Rightarrow> Beyond)"

definition find_null_character :: "bytes \<Rightarrow> int \<Rightarrow> scan" where
  "find_null_character p len = find_character NUL p (nat len)"

text \<open>
  Without a NUL the routine copies \<open>length + 1\<close> bytes for the error message, a \<open>gsize\<close>.
\<close>

definition milter_decoder_decode_null_terminated_value :: "bytes \<Rightarrow> int \<Rightarrow> nat result" where
  "milter_decoder_decode_null_terminated_value p len =
     (case find_null_character p len of
        At n \<Rightarrow> Ok n
      | Nowhere \<Rightarrow>
          if int (length p) < gsize_of_int (len + 1) then Fault Overread
          else Refused (Some MISSING_NULL)
      | Beyond \<Rightarrow> Fault Overread)"

text \<open>
  Reading \<open>n\<close> bytes at \<open>p\<close>. A negative \<open>n\<close> arrives as a huge \<open>gsize\<close>: the error
  messages of \<open>milter_decoder_check_command_length\<close> dump the offending bytes
  (\<open>append_inspected_bytes\<close>).
\<close>

definition read_bytes :: "bytes \<Rightarrow> int \<Rightarrow> bytes result" where
  "read_bytes p n =
     (if int (length p) < gsize_of_int n then Fault Overread else Ok (take (nat n) p))"

definition append_inspected_bytes :: "bytes \<Rightarrow> int \<Rightarrow> unit result" where
  "append_inspected_bytes p n = bind_result (read_bytes p n) (\<lambda>_. Ok ())"

datatype milter_decoder_compare_type =
    MILTER_DECODER_COMPARE_AT_LEAST
  | MILTER_DECODER_COMPARE_EXACT

definition milter_decoder_check_command_length ::
    "bytes \<Rightarrow> int \<Rightarrow> int \<Rightarrow> milter_decoder_compare_type \<Rightarrow> unit result" where
  "milter_decoder_check_command_length p len expected compare_type =
     (if (case compare_type of
            MILTER_DECODER_COMPARE_AT_LEAST \<Rightarrow> len \<ge> expected
          | MILTER_DECODER_COMPARE_EXACT \<Rightarrow> len = expected)
      then Ok ()
      else if len > expected
      then bind_result (append_inspected_bytes p (len - expected))
             (\<lambda>_. Refused (Some LONG_COMMAND_LENGTH))
      else bind_result (append_inspected_bytes p len)
             (\<lambda>_. Refused (Some SHORT_COMMAND_LENGTH)))"

definition milter_decoder_decode_header_content ::
    "bytes \<Rightarrow> int \<Rightarrow> (bytes \<times> bytes) result" where
  "milter_decoder_decode_header_content p len =
     bind_result (milter_decoder_decode_null_terminated_value p len)
       (\<lambda>null_character_point.
          if null_character_point = 0 then Refused None
          else
            let p' = drop (null_character_point + 1) p;
                len' = len - int (null_character_point + 1)
            in bind_result (milter_decoder_decode_null_terminated_value p' len')
                 (\<lambda>_. Ok (cstr p, cstr p')))"

definition milter_decoder_decode_negotiate ::
    "bytes \<Rightarrow> int \<Rightarrow> (milter_option \<times> nat) result" where
  "milter_decoder_decode_negotiate p len =
     bind_result (milter_decoder_check_command_length (drop 1 p) (len - 1) 4
                    MILTER_DECODER_COMPARE_AT_LEAST) (\<lambda>_.
     bind_result (read_bytes (drop 1 p) 4) (\<lambda>v.
     bind_result (milter_decoder_check_command_length (drop 5 p) (len - 5) 4
                    MILTER_DECODER_COMPARE_AT_LEAST) (\<lambda>_.
     bind_result (read_bytes (drop 5 p) 4) (\<lambda>a.
     bind_result (milter_decoder_check_command_length (drop 9 p) (len - 9) 4
                    MILTER_DECODER_COMPARE_AT_LEAST) (\<lambda>_.
     bind_result (read_bytes (drop 9 p) 4) (\<lambda>s.
       Ok (milter_option_new (of_be32 v) (of_be32 a) (of_be32 s), 13)))))))"

subsection \<open>The state machine\<close>

datatype decode_state = IN_START | IN_COMMAND_LENGTH | IN_COMMAND_CONTENT | IN_ERROR

record milter_decoder =
  dec_state :: decode_state
  dec_buffer :: bytes
  dec_command_length :: int
  dec_tag :: u32

definition milter_decoder_new :: milter_decoder where
  "milter_decoder_new =
     \<lparr>dec_state = IN_START, dec_buffer = [], dec_command_length = 0, dec_tag = 0\<rparr>"

definition milter_decoder_set_tag :: "milter_decoder \<Rightarrow> u32 \<Rightarrow> milter_decoder" where
  "milter_decoder_set_tag d tag = d\<lparr>dec_tag := tag\<rparr>"

text \<open>
  \<open>milter_decoder_get_buffer\<close>: the memory behind the pointer it returns.
\<close>

definition milter_decoder_get_buffer :: "bytes \<Rightarrow> bytes" where
  "milter_decoder_get_buffer buffer = buffer @ [NUL]"

text \<open>
  A handler's answer: \<open>Ok (e, s)\<close> is \<open>TRUE\<close> after emitting the signal \<open>s\<close>, with
  \<open>*error\<close> set to \<open>e\<close> if that is not \<open>None\<close>.
\<close>

type_synonym 's handler = "bytes \<Rightarrow> int \<Rightarrow> (gerror option \<times> 's) result"

text \<open>Two bodies that many of the concrete handlers have in common.\<close>

text \<open>
  The body the one-string handlers share: find the NUL, refuse silently when the string
  is empty, emit the string.
\<close>

definition decode_one_string ::
    "(bytes \<Rightarrow> 's) \<Rightarrow> bytes \<Rightarrow> int \<Rightarrow> (gerror option \<times> 's) result" where
  "decode_one_string sig m cl =
     bind_result (milter_decoder_decode_null_terminated_value (drop 1 m) (cl - 1)) (\<lambda>n.
       if n = 0 then Refused None else Ok (None, sig (cstr (drop 1 m))))"

text \<open>The body of the handlers without arguments: the content must be empty.\<close>

definition decode_no_argument ::
    "'s \<Rightarrow> bytes \<Rightarrow> int \<Rightarrow> (gerror option \<times> 's) result" where
  "decode_no_argument sig m cl =
     bind_result (milter_decoder_check_command_length (drop 1 m) (cl - 1) 0
                    MILTER_DECODER_COMPARE_EXACT) (\<lambda>_. Ok (None, sig))"

text \<open>
  A call of \<open>milter_decoder_decode\<close>: the decoder it leaves, its return value,
  \<open>*error\<close>, and the signals emitted on the way; or a crash.
\<close>

datatype 's decode_result =
    Returned milter_decoder bool "gerror option" "'s list"
  | Crashed memory_fault "'s list"

text \<open>\<open>g_set_error\<close> keeps an error that is already set.\<close>

definition set_error :: "gerror option \<Rightarrow> gerror option \<Rightarrow> gerror option" where
  "set_error old new = (case old of None \<Rightarrow> new | Some e \<Rightarrow> Some e)"

text \<open>
  The \<open>while (loop)\<close> of \<open>milter_decoder_decode\<close>. The comparison in
  \<open>IN_COMMAND_CONTENT\<close> is between a \<open>gsize\<close> and a \<open>gint32\<close>, so a negative command
  length compares as a huge one.
\<close>

function decode_loop ::
    "'s handler \<Rightarrow> milter_decoder \<Rightarrow> gerror option \<Rightarrow> 's list \<Rightarrow> 's decode_result" where
  "decode_loop h d err sigs =
     (case dec_state d of
        IN_START \<Rightarrow>
          if dec_buffer d = [] then Returned d True err sigs
          else decode_loop h (d\<lparr>dec_state := IN_COMMAND_LENGTH\<rparr>) err sigs
      | IN_COMMAND_LENGTH \<Rightarrow>
          if length (dec_buffer d) < 4 then Returned d True err sigs
          else decode_loop h
                 (d\<lparr>dec_command_length := sint (of_be32 (take 4 (dec_buffer d))),
                    dec_buffer := drop 4 (dec_buffer d),
                    dec_state := IN_COMMAND_CONTENT\<rparr>) err sigs
      | IN_COMMAND_CONTENT \<Rightarrow>
          if int (length (dec_buffer d)) < gsize_of_int (dec_command_length d)
          then Returned d True err sigs
          else (case h (dec_buffer d) (dec_command_length d) of
                  Ok (e, s) \<Rightarrow>
                    decode_loop h
                      (d\<lparr>dec_state := IN_START,
                         dec_buffer := drop (nat (dec_command_length d)) (dec_buffer d)\<rparr>)
                      (set_error err e) (sigs @ [s])
                | Refused e \<Rightarrow>
                    Returned (d\<lparr>dec_state := IN_ERROR\<rparr>) False (set_error err e) sigs
                | Fault f \<Rightarrow> Crashed f sigs)
      | IN_ERROR \<Rightarrow> Returned d True err sigs)"
  by pat_completeness auto
termination
proof (relation "measure (\<lambda>(h, d, err, sigs). length (dec_buffer d) +
    (case dec_state d of IN_START \<Rightarrow> 1 | IN_COMMAND_LENGTH \<Rightarrow> 0
      | IN_COMMAND_CONTENT \<Rightarrow> 2 | IN_ERROR \<Rightarrow> 0))", goal_cases)
qed auto

declare decode_loop.simps [simp del]

text \<open>
  The guard of the source compares the state with \<open>MILTER_DECODER_ERROR\<close>, which is not
  a state but the error domain, a run-time \<open>GQuark\<close>; no state equals it, so the guard
  never fires.
\<close>

definition milter_decoder_decode ::
    "'s handler \<Rightarrow> milter_decoder \<Rightarrow> bytes \<Rightarrow> 's decode_result" where
  "milter_decoder_decode h d chunk =
     (if chunk = [] then Returned d True None []
      else decode_loop h (d\<lparr>dec_buffer := dec_buffer d @ chunk\<rparr>) None [])"

definition milter_decoder_end_decode ::
    "milter_decoder \<Rightarrow> milter_decoder \<times> bool \<times> gerror option" where
  "milter_decoder_end_decode d =
     (case dec_state d of
        IN_START \<Rightarrow> (d, True, None)
      | IN_COMMAND_LENGTH \<Rightarrow> (d\<lparr>dec_state := IN_ERROR\<rparr>, False, Some UNEXPECTED_END)
      | IN_COMMAND_CONTENT \<Rightarrow> (d\<lparr>dec_state := IN_ERROR\<rparr>, False, Some UNEXPECTED_END)
      | IN_ERROR \<Rightarrow> (d, False, None))"

subsection \<open>A connection's input\<close>

text \<open>
  \<open>milter/core/milter-agent.c\<close>, \<open>cb_reader_flow\<close>: the agent decodes each chunk as it
  arrives. It looks at \<open>decoder_error\<close> only, never at the return value, and emits the
  error when there is one.
\<close>

datatype 's agent_run =
    Agent milter_decoder "'s list" "gerror list"
  | Agent_crashed memory_fault "'s list"

definition cb_reader_flow :: "'s handler \<Rightarrow> milter_decoder \<Rightarrow> bytes \<Rightarrow> 's agent_run" where
  "cb_reader_flow h d data =
     (case milter_decoder_decode h d data of
        Returned d' ok decoder_error sigs \<Rightarrow>
          Agent d' sigs (case decoder_error of None \<Rightarrow> [] | Some e \<Rightarrow> [e])
      | Crashed f sigs \<Rightarrow> Agent_crashed f sigs)"

fun run_reader :: "'s handler \<Rightarrow> milter_decoder \<Rightarrow> bytes list \<Rightarrow> 's agent_run" where
  "run_reader h d [] = Agent d [] []"
| "run_reader h d (chunk # chunks) =
     (case cb_reader_flow h d chunk of
        Agent d' sigs errs \<Rightarrow>
          (case run_reader h d' chunks of
             Agent d'' sigs' errs' \<Rightarrow> Agent d'' (sigs @ sigs') (errs @ errs')
           | Agent_crashed f sigs' \<Rightarrow> Agent_crashed f (sigs @ sigs'))
      | Agent_crashed f sigs \<Rightarrow> Agent_crashed f sigs)"

end
