(* ===== verification/Framing.thy ===== *)
theory Framing
  imports Decoder
begin

text \<open>
  What the framing machine guarantees for every concrete decoder: the interface
  \<open>packet_handler\<close> between the machine and a decoder's virtual \<open>decode\<close> method, the
  chunking theorem proved once inside it, and the machine's own properties that hold for
  any handler.
\<close>

subsection \<open>Lemmas on the helpers\<close>

lemma find_character_terminated:
  "c \<notin> set s \<Longrightarrow> length s < n \<Longrightarrow> find_character c (s @ c # r) n = At (length s)"
proof (induction s arbitrary: n)
  case Nil
  then show ?case by (cases n) auto
next
  case (Cons x s)
  then show ?case by (cases n) auto
qed

lemma find_character_At:
  "find_character c p n = At i \<Longrightarrow>
     i < n \<and> i < length p \<and> p ! i = c \<and> c \<notin> set (take i p)"
proof (induction c p n arbitrary: i rule: find_character.induct)
  case (3 c x p n)
  then show ?case by (cases i) (auto split: if_splits scan.splits)
qed simp_all

lemma find_character_Beyond: "find_character c p n = Beyond \<Longrightarrow> length p < n"
  by (induction c p n rule: find_character.induct) (auto split: if_splits scan.splits)

lemma find_character_Nowhere: "find_character c p n = Nowhere \<Longrightarrow> n \<le> length p"
  by (induction c p n rule: find_character.induct) (auto split: if_splits scan.splits)

lemma terminated_value_Ok [codec_simps]:
  "c_string s \<Longrightarrow> int (length s) < len \<Longrightarrow>
     milter_decoder_decode_null_terminated_value (s @ NUL # r) len = Ok (length s)"
  unfolding milter_decoder_decode_null_terminated_value_def find_null_character_def
    c_string_def
  by (subst find_character_terminated) (simp_all add: nat_less_iff zless_nat_eq_int_zless)

lemma terminated_value_empty:
  "0 < len \<Longrightarrow> milter_decoder_decode_null_terminated_value [] len = Fault Overread"
  by (cases "nat len")
    (simp_all add: milter_decoder_decode_null_terminated_value_def find_null_character_def)

lemma terminated_value_OkD:
  "milter_decoder_decode_null_terminated_value p len = Ok n \<Longrightarrow>
     int n < len \<and> n < length p \<and> p ! n = NUL \<and> c_string (take n p)"
  by (auto simp: milter_decoder_decode_null_terminated_value_def find_null_character_def
      c_string_def split: scan.splits if_splits dest!: find_character_At)

lemma terminated_value_no_fault:
  "- 1 \<le> len \<Longrightarrow> len < int (length p) \<Longrightarrow>
     milter_decoder_decode_null_terminated_value p len \<noteq> Fault f"
  by (auto simp: milter_decoder_decode_null_terminated_value_def find_null_character_def
      split: scan.splits dest!: find_character_Beyond)

lemma terminated_value_cstr:
  "milter_decoder_decode_null_terminated_value p len = Ok n \<Longrightarrow> cstr p = take n p"
proof -
  assume "milter_decoder_decode_null_terminated_value p len = Ok n"
  then have *: "n < length p" "p ! n = NUL" "c_string (take n p)"
    by (auto dest: terminated_value_OkD)
  from *(1,2) have "p = take n p @ NUL # drop (Suc n) p"
    by (metis id_take_nth_drop)
  with *(3) show ?thesis by (metis cstr_terminated)
qed

lemma read_bytes_Ok [codec_simps]:
  "n = int (length s) \<Longrightarrow> read_bytes (s @ r) n = Ok s"
  by (simp add: read_bytes_def)

lemma read_bytes_no_fault: "0 \<le> n \<Longrightarrow> n \<le> int (length p) \<Longrightarrow> read_bytes p n \<noteq> Fault f"
  by (simp add: read_bytes_def)

lemma check_command_length_exact [codec_simps]:
  "milter_decoder_check_command_length p n n MILTER_DECODER_COMPARE_EXACT = Ok ()"
  by (simp add: milter_decoder_check_command_length_def)

lemma check_command_length_at_least [codec_simps]:
  "m \<le> n \<Longrightarrow>
     milter_decoder_check_command_length p n m MILTER_DECODER_COMPARE_AT_LEAST = Ok ()"
  by (simp add: milter_decoder_check_command_length_def)

lemma check_command_length_no_fault:
  "0 \<le> len \<Longrightarrow> 0 \<le> expected \<Longrightarrow> len \<le> int (length p) \<Longrightarrow>
     milter_decoder_check_command_length p len expected ct \<noteq> Fault f"
  by (auto simp: milter_decoder_check_command_length_def append_inspected_bytes_def
      bind_result_Fault_iff read_bytes_def)

text \<open>A negative length makes the error message run off the buffer.\<close>

lemma check_command_length_negative:
  assumes "length p < 2 ^ 63" and "- (2 ^ 31) \<le> len" and "len < 0" and "0 \<le> expected"
  shows "milter_decoder_check_command_length p len expected ct = Fault Overread"
proof -
  have "int (length p) < 2 ^ 63" using assms(1) by simp
  then have "int (length p) < gsize_of_int len" using assms(2,3) by (simp add: gsize_of_int_def)
  with assms(3,4) show ?thesis
    by (cases ct) (simp_all add: milter_decoder_check_command_length_def
        append_inspected_bytes_def read_bytes_def)
qed

subsection \<open>Handlers within their memory\<close>

text \<open>
  A handler works on the memory \<open>m\<close> of a packet of \<open>cl\<close> bytes followed by a byte that
  is NUL: \<open>GString\<close>'s own, or the first of the next packet.
\<close>

definition packet_memory :: "bytes \<Rightarrow> int \<Rightarrow> bool" where
  "packet_memory m cl \<longleftrightarrow> 1 \<le> cl \<and> cl < int (length m) \<and> m ! nat cl = NUL"

lemma packet_memory_get_buffer:
  assumes "p \<noteq> []" and "starts_nul r"
  shows "packet_memory (milter_decoder_get_buffer (p @ r)) (int (length p))"
proof -
  obtain r' where "r @ [NUL] = NUL # r'" using starts_nul_append_NUL [OF assms(2)] by blast
  then have "milter_decoder_get_buffer (p @ r) = p @ NUL # r'"
    by (simp add: milter_decoder_get_buffer_def)
  with assms(1) show ?thesis by (simp add: packet_memory_def Suc_le_eq)
qed

lemma packet_memory_content:
  "packet_memory m cl \<Longrightarrow> 0 \<le> cl - 1 \<and> cl - 1 < int (length (drop 1 m))"
  by (auto simp: packet_memory_def)

lemma content_terminated_no_fault:
  "packet_memory m cl \<Longrightarrow>
     milter_decoder_decode_null_terminated_value (drop 1 m) (cl - 1) \<noteq> Fault f"
  by (intro terminated_value_no_fault) (auto dest: packet_memory_content)

lemma content_check_no_fault:
  "packet_memory m cl \<Longrightarrow> 0 \<le> expected \<Longrightarrow>
     milter_decoder_check_command_length (drop 1 m) (cl - 1) expected ct \<noteq> Fault f"
  by (intro check_command_length_no_fault) (auto dest!: packet_memory_content)

lemma decode_header_content_safe:
  assumes "0 \<le> len" and "len < int (length p)"
  shows "milter_decoder_decode_header_content p len \<noteq> Fault f"
proof -
  have "milter_decoder_decode_null_terminated_value (drop (n + 1) p) (len - int (n + 1)) \<noteq> Fault f"
    if "milter_decoder_decode_null_terminated_value p len = Ok n" for n
    using terminated_value_OkD [OF that] assms by (intro terminated_value_no_fault) auto
  with terminated_value_no_fault [of len p] assms show ?thesis
    by (auto simp: milter_decoder_decode_header_content_def bind_result_Fault_iff Let_def)
qed

lemma decode_negotiate_content_safe:
  assumes "1 \<le> cl" and "cl < int (length m)"
  shows "milter_decoder_decode_negotiate m cl \<noteq> Fault f"
proof -
  have 1: "milter_decoder_check_command_length (drop i m) (cl - int i) 4
      MILTER_DECODER_COMPARE_AT_LEAST \<noteq> Fault f" if "int i \<le> cl" for i
    using assms that by (intro check_command_length_no_fault) auto
  have 2: "int i + 4 \<le> cl" if "milter_decoder_check_command_length (drop i m) (cl - int i) 4
      MILTER_DECODER_COMPARE_AT_LEAST = Ok u" for i u
    using that by (simp add: milter_decoder_check_command_length_def split: if_splits)
  have 3: "read_bytes (drop i m) 4 \<noteq> Fault f" if "int i + 4 \<le> cl" for i
    using that assms by (intro read_bytes_no_fault) auto
  from 1 [of 1] 2 [of 1] 3 [of 1] 1 [of 5] 2 [of 5] 3 [of 5] 1 [of 9] 2 [of 9] 3 [of 9] assms(1)
  show ?thesis
    by (auto simp: milter_decoder_decode_negotiate_def bind_result_Fault_iff)
qed

lemma decode_negotiate_length:
  "milter_decoder_decode_negotiate m cl = Ok (opt, n) \<Longrightarrow> n = 13 \<and> 13 \<le> cl"
  by (auto simp: milter_decoder_decode_negotiate_def milter_decoder_check_command_length_def
      split: if_splits)

subsection \<open>The common bodies\<close>

lemma decode_one_string_valid:
  "wf_string s \<Longrightarrow> n = int (length s) + 2 \<Longrightarrow>
     decode_one_string sig (c # s @ NUL # r) n = Ok (None, sig s)"
  by (simp add: decode_one_string_def terminated_value_Ok wf_string_def)

lemma decode_no_argument_valid: "decode_no_argument sig m 1 = Ok (None, sig)"
  by (simp add: decode_no_argument_def codec_simps)

lemma decode_one_string_safe:
  "packet_memory m cl \<Longrightarrow> decode_one_string sig m cl \<noteq> Fault f"
  by (auto simp: decode_one_string_def bind_result_Fault_iff content_terminated_no_fault [simplified])

lemma decode_no_argument_safe:
  "packet_memory m cl \<Longrightarrow> decode_no_argument sig m cl \<noteq> Fault f"
  by (auto simp: decode_no_argument_def bind_result_Fault_iff content_check_no_fault [simplified])

lemma terminated_value_wf_string:
  "milter_decoder_decode_null_terminated_value p len = Ok n \<Longrightarrow> n \<noteq> 0 \<Longrightarrow> wf_string (cstr p)"
  by (frule terminated_value_cstr, drule terminated_value_OkD) (auto simp: wf_string_def)

lemma decode_one_string_wf:
  "decode_one_string sig m cl = Ok (e, s) \<Longrightarrow> \<exists>t. wf_string t \<and> s = sig t"
  by (auto simp: decode_one_string_def split: if_splits dest: terminated_value_wf_string)

subsection \<open>Where the machine is in a stream\<close>

text \<open>
  \<open>in_step d rest ps\<close>: the decoder \<open>d\<close> has consumed the stream up to somewhere in the
  packets \<open>ps\<close>, and the bytes \<open>rest\<close> are still to arrive. \<open>waiting d\<close>: it can do
  nothing before more bytes arrive.
\<close>

definition in_step :: "milter_decoder \<Rightarrow> bytes \<Rightarrow> bytes list \<Rightarrow> bool" where
  "in_step d rest ps =
     (case dec_state d of
        IN_START \<Rightarrow> dec_buffer d @ rest = stream ps
      | IN_COMMAND_LENGTH \<Rightarrow> dec_buffer d \<noteq> [] \<and> dec_buffer d @ rest = stream ps
      | IN_COMMAND_CONTENT \<Rightarrow>
          (\<exists>p ps'. ps = p # ps' \<and> dec_command_length d = int (length p) \<and>
             dec_buffer d @ rest = p @ stream ps')
      | IN_ERROR \<Rightarrow> False)"

definition waiting :: "milter_decoder \<Rightarrow> bool" where
  "waiting d =
     (case dec_state d of
        IN_START \<Rightarrow> dec_buffer d = []
      | IN_COMMAND_LENGTH \<Rightarrow> length (dec_buffer d) < 4
      | IN_COMMAND_CONTENT \<Rightarrow> int (length (dec_buffer d)) < dec_command_length d
      | IN_ERROR \<Rightarrow> False)"

text \<open>Packets short enough for their length prefix to start with a NUL.\<close>

definition sized :: "bytes list \<Rightarrow> bool" where
  "sized ps \<longleftrightarrow> (\<forall>p \<in> set ps. length p < 2 ^ 24)"

lemma sized_Cons [simp]: "sized (p # ps) \<longleftrightarrow> length p < 2 ^ 24 \<and> sized ps"
  by (simp add: sized_def)

abbreviation enter_length :: "milter_decoder \<Rightarrow> milter_decoder" where
  "enter_length d \<equiv> d\<lparr>dec_state := IN_COMMAND_LENGTH\<rparr>"

abbreviation enter_content :: "milter_decoder \<Rightarrow> milter_decoder" where
  "enter_content d \<equiv>
     d\<lparr>dec_command_length := sint (of_be32 (take 4 (dec_buffer d))),
       dec_buffer := drop 4 (dec_buffer d), dec_state := IN_COMMAND_CONTENT\<rparr>"

abbreviation leave_content :: "milter_decoder \<Rightarrow> milter_decoder" where
  "leave_content d \<equiv>
     d\<lparr>dec_state := IN_START, dec_buffer := drop (nat (dec_command_length d)) (dec_buffer d)\<rparr>"

lemma command_length_of_frame:
  assumes "length p < 2 ^ 24"
  shows "sint (word_of_nat (length p) :: u32) = int (length p)"
proof -
  let ?w = "word_of_nat (length p) :: u32"
  have u: "uint ?w = int (length p)"
    using assms by (simp add: unsigned_of_nat take_bit_nat_eq_self)
  have "sint ?w = signed_take_bit 31 (uint ?w)" by (simp add: sint_uint)
  also have "\<dots> = int (length p)"
    unfolding u using assms by (simp add: signed_take_bit_int_eq_self)
  finally show ?thesis by simp
qed

lemma in_step_enter_length:
  "dec_state d = IN_START \<Longrightarrow> dec_buffer d \<noteq> [] \<Longrightarrow> in_step d rest ps \<Longrightarrow>
     in_step (enter_length d) rest ps"
  by (simp add: in_step_def)

lemma in_step_enter_content:
  fixes d :: milter_decoder
  assumes "dec_state d = IN_COMMAND_LENGTH" and "\<not> length (dec_buffer d) < 4"
    and "in_step d rest ps" and "sized ps"
  shows "in_step (enter_content d) rest ps"
proof -
  from assms(1,3) have b: "dec_buffer d @ rest = stream ps" "dec_buffer d \<noteq> []"
    by (auto simp: in_step_def)
  then obtain p ps' where ps: "ps = p # ps'" by (cases ps) auto
  have "dec_buffer d @ rest = be32 (word_of_nat (length p)) @ p @ stream ps'"
    using b ps by (simp add: frame_def)
  then obtain q where q: "dec_buffer d = be32 (word_of_nat (length p)) @ q"
    and dr: "q @ rest = p @ stream ps'"
    by (rule received_prefix) (use assms(2) in auto)
  then show ?thesis
    using ps assms(4) by (simp add: in_step_def command_length_of_frame)
qed

lemma in_step_leave_content:
  fixes d :: milter_decoder
  assumes "dec_state d = IN_COMMAND_CONTENT" and "in_step d rest ps" and "sized ps"
    and "\<not> int (length (dec_buffer d)) < gsize_of_int (dec_command_length d)"
  obtains p r ps' where "ps = p # ps'" and "dec_buffer d = p @ r"
    and "dec_command_length d = int (length p)" and "starts_nul r"
    and "in_step (leave_content d) rest ps'"
proof -
  from assms(1,2) obtain p ps' where ps: "ps = p # ps'"
    and cl: "dec_command_length d = int (length p)"
    and b: "dec_buffer d @ rest = p @ stream ps'"
    by (auto simp: in_step_def)
  from b obtain r where r: "dec_buffer d = p @ r" "r @ rest = stream ps'"
    by (rule received_prefix) (use assms(4) cl in auto)
  have "starts_nul (r @ rest)"
    using starts_nul_stream [of ps'] assms(3) ps r(2) by (simp add: sized_def)
  then have "starts_nul r" by (cases r) auto
  with ps cl r show ?thesis by (intro that [of p ps' r]) (simp_all add: in_step_def)
qed

lemma in_step_append:
  "in_step d (chunk @ rest) ps \<Longrightarrow> chunk \<noteq> [] \<Longrightarrow>
     in_step (d\<lparr>dec_buffer := dec_buffer d @ chunk\<rparr>) rest ps"
  by (auto simp: in_step_def split: decode_state.splits)

lemma in_step_new: "bs = stream ps \<Longrightarrow> in_step milter_decoder_new bs ps \<and> waiting milter_decoder_new"
  by (simp add: in_step_def waiting_def milter_decoder_new_def)

lemma in_step_idle:
  "in_step d [] [] \<Longrightarrow> waiting d \<Longrightarrow> dec_state d = IN_START \<and> dec_buffer d = []"
  by (auto simp: in_step_def waiting_def split: decode_state.splits)

lemma in_step_drained:
  fixes d :: milter_decoder
  assumes "in_step d [] ps" and "waiting d"
  shows "ps = []"
proof (rule ccontr)
  assume "ps \<noteq> []"
  then obtain p ps' where "ps = p # ps'" by (cases ps) auto
  with assms show False
    by (auto simp: in_step_def waiting_def frame_def split: decode_state.splits)
qed

text \<open>One turn of the loop, by state.\<close>

lemma loop_start:
  "dec_state d = IN_START \<Longrightarrow> dec_buffer d \<noteq> [] \<Longrightarrow>
     decode_loop h d err sigs = decode_loop h (enter_length d) err sigs"
  by (simp add: decode_loop.simps [of h d])

lemma loop_length:
  "dec_state d = IN_COMMAND_LENGTH \<Longrightarrow> \<not> length (dec_buffer d) < 4 \<Longrightarrow>
     decode_loop h d err sigs = decode_loop h (enter_content d) err sigs"
  by (simp add: decode_loop.simps [of h d])

lemma loop_content:
  "dec_state d = IN_COMMAND_CONTENT \<Longrightarrow>
   \<not> int (length (dec_buffer d)) < gsize_of_int (dec_command_length d) \<Longrightarrow>
     decode_loop h d err sigs =
       (case h (dec_buffer d) (dec_command_length d) of
          Ok (e, s) \<Rightarrow> decode_loop h (leave_content d) (set_error err e) (sigs @ [s])
        | Refused e \<Rightarrow> Returned (d\<lparr>dec_state := IN_ERROR\<rparr>) False (set_error err e) sigs
        | Fault f \<Rightarrow> Crashed f sigs)"
  by (simp add: decode_loop.simps [of h d])

lemma loop_waiting:
  "waiting d \<Longrightarrow> decode_loop h d err sigs = Returned d True err sigs"
  by (auto simp: waiting_def decode_loop.simps gsize_of_int_def split: decode_state.splits)

lemma loop_error:
  "dec_state d = IN_ERROR \<Longrightarrow> decode_loop h d err sigs = Returned d True err sigs"
  by (simp add: decode_loop.simps)

lemma set_error_None [simp]: "set_error err None = err"
  by (cases err) (simp_all add: set_error_def)

text \<open>
  The turns the loop takes from a decoder in step: it waits, reads a length, or has a
  whole packet for the handler.
\<close>

lemma loop_induct [consumes 2, case_names wait turn packet]:
  assumes "in_step d rest ps" and "sized ps"
    and wait: "\<And>d ps err sigs. in_step d rest ps \<Longrightarrow> waiting d \<Longrightarrow> sized ps \<Longrightarrow>
        P d ps err sigs"
    and turn: "\<And>d d' ps err sigs. in_step d rest ps \<Longrightarrow> in_step d' rest ps \<Longrightarrow>
        decode_loop h d err sigs = decode_loop h d' err sigs \<Longrightarrow> P d' ps err sigs \<Longrightarrow>
        P d ps err sigs"
    and packet: "\<And>d p ps r err sigs. dec_buffer d = p @ r \<Longrightarrow> starts_nul r \<Longrightarrow>
        dec_command_length d = int (length p) \<Longrightarrow> dec_state d = IN_COMMAND_CONTENT \<Longrightarrow>
        in_step (leave_content d) rest ps \<Longrightarrow> sized (p # ps) \<Longrightarrow>
        (\<And>e s. h (p @ r) (int (length p)) = Ok (e, s) \<Longrightarrow>
           P (leave_content d) ps (set_error err e) (sigs @ [s])) \<Longrightarrow>
        P d (p # ps) err sigs"
  shows "P d ps err sigs"
proof -
  have "h' = h \<Longrightarrow> in_step d rest ps \<Longrightarrow> sized ps \<Longrightarrow> P d ps err sigs" for h'
  proof (induction h' d err sigs arbitrary: ps rule: decode_loop.induct)
    case (1 h' d err sigs)
    show ?case
    proof (cases "waiting d")
      case True
      with "1.prems" wait show ?thesis by blast
    next
      case False
      show ?thesis
      proof (cases "dec_state d")
        case IN_START
        with False have b: "dec_buffer d \<noteq> []" by (simp add: waiting_def)
        have st: "in_step (enter_length d) rest ps"
          by (rule in_step_enter_length [OF IN_START b "1.prems"(2)])
        show ?thesis
          by (rule turn [OF "1.prems"(2) st loop_start [OF IN_START b]
                "1.IH"(1) [OF IN_START b "1.prems"(1) st "1.prems"(3)]])
      next
        case IN_COMMAND_LENGTH
        with False have b: "\<not> length (dec_buffer d) < 4" by (simp add: waiting_def)
        have st: "in_step (enter_content d) rest ps"
          by (rule in_step_enter_content [OF IN_COMMAND_LENGTH b "1.prems"(2,3)])
        show ?thesis
          by (rule turn [OF "1.prems"(2) st loop_length [OF IN_COMMAND_LENGTH b]
                "1.IH"(2) [OF IN_COMMAND_LENGTH b "1.prems"(1) st "1.prems"(3)]])
      next
        case IN_COMMAND_CONTENT
        with False "1.prems"(2) have e: "\<not> int (length (dec_buffer d)) < gsize_of_int (dec_command_length d)"
          by (auto simp: waiting_def in_step_def)
        from in_step_leave_content [OF IN_COMMAND_CONTENT "1.prems"(2,3) e] obtain p r ps'
          where *: "ps = p # ps'" "dec_buffer d = p @ r" "dec_command_length d = int (length p)"
            "starts_nul r" "in_step (leave_content d) rest ps'" by blast
        show ?thesis
          unfolding *(1)
        proof (rule packet [OF *(2,4,3) IN_COMMAND_CONTENT *(5)])
          show "sized (p # ps')" using "1.prems"(3) *(1) by simp
          show "P (leave_content d) ps' (set_error err err') (sigs @ [s])"
            if h: "h (p @ r) (int (length p)) = Ok (err', s)" for err' s
          proof (rule "1.IH"(3) [OF IN_COMMAND_CONTENT e _ refl "1.prems"(1) *(5)])
            show "h' (dec_buffer d) (dec_command_length d) = Ok (err', s)"
              using h "1.prems"(1) *(2,3) by simp
            show "sized ps'" using "1.prems"(3) *(1) by simp
          qed
        qed
      next
        case IN_ERROR
        with "1.prems"(2) show ?thesis by (simp add: in_step_def)
      qed
    qed
  qed
  with assms(1,2) show ?thesis by blast
qed

subsection \<open>The interface to the concrete decoders\<close>

text \<open>
  \<open>valid p s\<close>: the packet body \<open>p\<close> is an encoding of the signal \<open>s\<close>. The handler must
  emit \<open>s\<close> for it whatever the receive buffer holds behind the packet, as long as that
  starts like another packet.
\<close>

locale packet_handler =
  fixes handler :: "'s handler"
    and valid :: "bytes \<Rightarrow> 's \<Rightarrow> bool"
  assumes handler_valid:
    "valid p s \<Longrightarrow> starts_nul r \<Longrightarrow> handler (p @ r) (int (length p)) = Ok (None, s)"
    and valid_length: "valid p s \<Longrightarrow> length p < 2 ^ 24"
begin

lemma valid_sized: "list_all2 valid ps ss \<Longrightarrow> sized ps"
  by (induction rule: list_all2_induct) (auto simp: sized_def dest: valid_length)

text \<open>
  \<open>delivered d rest ps ss d' ps' ss'\<close>: from \<open>d\<close>, which had the packets \<open>ps\<close> before it,
  the signals \<open>ss'\<close> came out, and \<open>d'\<close> has the packets \<open>ps'\<close> before it.
\<close>

definition delivered ::
    "bytes list \<Rightarrow> 's list \<Rightarrow> bytes \<Rightarrow> milter_decoder \<Rightarrow> bytes list \<Rightarrow> 's list \<Rightarrow> bool" where
  "delivered ps ss rest d' ps' ss' \<longleftrightarrow>
     (\<exists>ps1 ss2. ps = ps1 @ ps' \<and> ss = ss' @ ss2 \<and> list_all2 valid ps' ss2) \<and>
     in_step d' rest ps' \<and> waiting d'"

lemma delivered_Nil: "in_step d rest ps \<Longrightarrow> waiting d \<Longrightarrow> list_all2 valid ps ss \<Longrightarrow>
    delivered ps ss rest d ps []"
  by (simp add: delivered_def)

lemma delivered_Cons: "delivered ps ss rest d ps' ss' \<Longrightarrow>
    delivered (p # ps) (s # ss) rest d ps' (s # ss')"
  by (auto simp: delivered_def)

lemma loop_in_step:
  assumes "in_step d rest ps" and "list_all2 valid ps ss"
  shows "\<exists>d' ps' ss'. delivered ps ss rest d' ps' ss' \<and>
     decode_loop handler d err sigs = Returned d' True err (sigs @ ss')"
proof -
  have "\<forall>ss. list_all2 valid ps ss \<longrightarrow> (\<exists>d' ps' ss'. delivered ps ss rest d' ps' ss' \<and>
     decode_loop handler d err sigs = Returned d' True err (sigs @ ss'))"
    using assms(1) valid_sized [OF assms(2)]
  proof (induction rule: loop_induct [where h = handler])
    case (wait d ps err sigs)
    then show ?case
      by (intro allI impI exI [of _ d] exI [of _ ps] exI [of _ "[]"])
        (simp add: delivered_Nil loop_waiting)
  next
    case (turn d d' ps err sigs)
    then show ?case by simp
  next
    case (packet d p ps r err sigs)
    have "\<exists>d' ps' ss'. delivered (p # ps) (s # ss) rest d' ps' ss' \<and>
        decode_loop handler d err sigs = Returned d' True err (sigs @ ss')"
      if v: "valid p s" "list_all2 valid ps ss" for s ss
    proof -
      have h: "handler (p @ r) (int (length p)) = Ok (None, s)"
        by (rule handler_valid [OF v(1) packet(2)])
      have e: "decode_loop handler d err sigs = decode_loop handler (leave_content d) err (sigs @ [s])"
        using h packet(1,3) by (subst loop_content [OF packet(4)]) simp_all
      from packet(7) [OF h] v(2) obtain d' ps' ss' where
        "delivered ps ss rest d' ps' ss'"
        "decode_loop handler (leave_content d) err (sigs @ [s]) =
           Returned d' True err ((sigs @ [s]) @ ss')"
        by (metis set_error_None)
      with e delivered_Cons show ?thesis
        by (intro exI [of _ d'] exI [of _ ps'] exI [of _ "s # ss'"]) simp
    qed
    then show ?case by (auto simp: list_all2_Cons1)
  qed
  with assms(2) show ?thesis by blast
qed

lemma decode_in_step:
  assumes "in_step d (chunk @ rest) ps" and "waiting d" and "list_all2 valid ps ss"
  shows "\<exists>d' ps' ss'. delivered ps ss rest d' ps' ss' \<and>
     milter_decoder_decode handler d chunk = Returned d' True None ss'"
proof (cases "chunk = []")
  case True
  with assms show ?thesis
    by (intro exI [of _ d] exI [of _ ps] exI [of _ "[]"])
      (simp add: delivered_Nil milter_decoder_decode_def)
next
  case False
  from loop_in_step [OF in_step_append [OF assms(1) False] assms(3), of None "[]"] False
  show ?thesis by (simp add: milter_decoder_decode_def)
qed

lemma delivered_trans:
  assumes "list_all2 valid ps ss" and "delivered ps ss rest d' ps' ss'"
    and "\<And>ss. list_all2 valid ps' ss \<Longrightarrow> \<exists>d'' ps'' ss''. delivered ps' ss rest' d'' ps'' ss'' \<and> Q d'' ss''"
  shows "\<exists>d'' ps'' ss''. delivered ps ss rest' d'' ps'' (ss' @ ss'') \<and> Q d'' ss''"
proof -
  from assms(2) obtain ps1 ss2 where *: "ps = ps1 @ ps'" "ss = ss' @ ss2" "list_all2 valid ps' ss2"
    by (auto simp: delivered_def)
  from assms(3) [OF *(3)] obtain d'' ps'' ss'' where
    "delivered ps' ss2 rest' d'' ps'' ss''" "Q d'' ss''" by blast
  with * show ?thesis
    by (intro exI [of _ d''] exI [of _ ps''] exI [of _ ss'']) (auto simp: delivered_def)
qed

lemma run_reader_in_step:
  assumes "in_step d (concat chunks @ rest) ps" and "waiting d" and "list_all2 valid ps ss"
  shows "\<exists>d' ps' ss'. delivered ps ss rest d' ps' ss' \<and>
     run_reader handler d chunks = Agent d' ss' []"
  using assms
proof (induction chunks arbitrary: d ps ss)
  case Nil
  then show ?case
    by (intro exI [of _ d] exI [of _ ps] exI [of _ "[]"]) (simp add: delivered_Nil)
next
  case (Cons chunk chunks)
  from Cons.prems(1) have "in_step d (chunk @ concat chunks @ rest) ps" by simp
  from decode_in_step [OF this Cons.prems(2,3)] obtain d' ps' ss'
    where *: "delivered ps ss (concat chunks @ rest) d' ps' ss'"
      "milter_decoder_decode handler d chunk = Returned d' True None ss'"
    by blast
  then have d': "in_step d' (concat chunks @ rest) ps'" "waiting d'"
    by (simp_all add: delivered_def)
  from delivered_trans [OF Cons.prems(3) *(1),
      where Q = "\<lambda>d'' ss''. run_reader handler d' chunks = Agent d'' ss'' []",
      OF Cons.IH [OF d']] *(2)
  show ?case by (fastforce simp: cb_reader_flow_def)
qed

text \<open>
  The chunking theorem: however the network cuts a stream of valid packets, the decoder
  emits their signals, in order, once each, reports no error and ends idle.
\<close>

theorem chunked_stream:
  assumes "list_all2 valid ps ss" and "concat chunks = stream ps"
  shows "\<exists>d'. run_reader handler milter_decoder_new chunks = Agent d' ss [] \<and>
     dec_state d' = IN_START \<and> dec_buffer d' = []"
proof -
  have "in_step milter_decoder_new (concat chunks @ []) ps" "waiting milter_decoder_new"
    using assms(2) in_step_new by simp_all
  from run_reader_in_step [OF this assms(1)] obtain d' ps' ss' where
    *: "delivered ps ss [] d' ps' ss'"
    "run_reader handler milter_decoder_new chunks = Agent d' ss' []" by blast
  then have "ps' = []" by (auto simp: delivered_def dest: in_step_drained)
  with * show ?thesis by (auto simp: delivered_def dest: in_step_idle)
qed

text \<open>
  A stream cut inside a packet: the packets before it come out, and
  \<open>milter_decoder_end_decode\<close> reports the cut.
\<close>

theorem truncated_stream:
  assumes "list_all2 valid ps ss" and "valid p s"
    and "concat chunks = stream ps @ t" and "frame p = t @ u" and "t \<noteq> []" and "u \<noteq> []"
  shows "\<exists>d'. run_reader handler milter_decoder_new chunks = Agent d' ss [] \<and>
     snd (milter_decoder_end_decode d') = (False, Some UNEXPECTED_END)"
proof -
  have all: "concat chunks @ u = stream (ps @ [p])" using assms(3,4) by (simp add: stream_def)
  have v: "list_all2 valid (ps @ [p]) (ss @ [s])" using assms(1,2) by (simp add: list_all2_appendI)
  from all have "in_step milter_decoder_new (concat chunks @ u) (ps @ [p])"
    "waiting milter_decoder_new" using in_step_new by simp_all
  from run_reader_in_step [OF this v] obtain d' ps' ss' where
    *: "delivered (ps @ [p]) (ss @ [s]) u d' ps' ss'"
    "run_reader handler milter_decoder_new chunks = Agent d' ss' []" by blast
  then obtain ps1 ss2 where d: "ps @ [p] = ps1 @ ps'" "ss @ [s] = ss' @ ss2"
    "list_all2 valid ps' ss2" "in_step d' u ps'" "waiting d'" by (auto simp: delivered_def)
  have lu: "length u < length (frame p)" using assms(4,5) by simp
  have ps': "ps' = [p]"
  proof (cases ps' rule: rev_cases)
    case Nil
    with d(4) assms(6) show ?thesis
      by (auto simp: in_step_def split: decode_state.splits)
  next
    case (snoc qs q)
    with d(1) have q: "q = p" by simp
    have "qs = []"
    proof (rule ccontr)
      assume "qs \<noteq> []"
      then obtain q1 qs' where "qs = q1 # qs'" by (cases qs) auto
      with d(4,5) snoc q lu show False
        by (auto simp: in_step_def waiting_def stream_def frame_def append_eq_append_conv2
            split: decode_state.splits dest!: arg_cong [where f = length])
    qed
    with snoc q show ?thesis by simp
  qed
  with d have "ss' = ss" by (auto simp: list_all2_Cons1)
  moreover have "dec_state d' \<noteq> IN_START" "dec_state d' \<noteq> IN_ERROR"
    using d(4,5) ps' lu by (auto simp: in_step_def waiting_def)
  ultimately show ?thesis
    using *(2) by (auto simp: milter_decoder_end_decode_def split: decode_state.splits)
qed

end

subsection \<open>Memory safety over a stream\<close>

text \<open>
  What a decoder must promise so that no stream of non-empty packets, whatever is in
  them, makes it read out of bounds.
\<close>

locale safe_handler =
  fixes handler :: "'s handler"
  assumes handler_safe:
    "p \<noteq> [] \<Longrightarrow> starts_nul r \<Longrightarrow> handler (p @ r) (int (length p)) \<noteq> Fault Overread"
begin

definition on_track :: "bytes \<Rightarrow> milter_decoder \<Rightarrow> bool" where
  "on_track rest d \<longleftrightarrow> dec_state d = IN_ERROR \<or>
     (\<exists>ps. in_step d rest ps \<and> waiting d \<and> sized ps \<and> [] \<notin> set ps)"

lemma loop_safe:
  assumes "in_step d rest ps" and "sized ps" and "[] \<notin> set ps"
  shows "case decode_loop handler d err sigs of
     Returned d' ok e ss \<Rightarrow> on_track rest d' | Crashed f ss \<Rightarrow> f \<noteq> Overread"
proof -
  have "[] \<notin> set ps \<longrightarrow> (case decode_loop handler d err sigs of
     Returned d' ok e ss \<Rightarrow> on_track rest d' | Crashed f ss \<Rightarrow> f \<noteq> Overread)"
    using assms(1,2)
  proof (induction rule: loop_induct [where h = handler])
    case (wait d ps err sigs)
    then show ?case by (auto simp: loop_waiting on_track_def)
  next
    case (turn d d' ps err sigs)
    then show ?case by simp
  next
    case (packet d p ps r err sigs)
    then show ?case
      using handler_safe [OF _ packet(2), of p]
      by (subst loop_content [OF packet(4)])
        (auto simp: on_track_def split: result.splits)
  qed
  with assms(3) show ?thesis by simp
qed

lemma decode_safe:
  assumes "on_track (chunk @ rest) d"
  shows "case milter_decoder_decode handler d chunk of
     Returned d' ok e ss \<Rightarrow> on_track rest d' | Crashed f ss \<Rightarrow> f \<noteq> Overread"
  using assms unfolding on_track_def [of "chunk @ rest"]
proof (elim disjE exE conjE)
  assume "dec_state d = IN_ERROR"
  then show ?thesis by (simp add: milter_decoder_decode_def loop_error on_track_def)
next
  fix ps assume "in_step d (chunk @ rest) ps" "waiting d" "sized ps" "[] \<notin> set ps"
  then show ?thesis
    using loop_safe [OF in_step_append] by (auto simp: milter_decoder_decode_def on_track_def)
qed

lemma run_reader_safe:
  "on_track (concat chunks @ rest) d \<Longrightarrow>
     run_reader handler d chunks \<noteq> Agent_crashed Overread sigs"
proof (induction chunks arbitrary: d sigs)
  case Nil
  then show ?case by simp
next
  case (Cons chunk chunks)
  then show ?case
    using decode_safe [of chunk "concat chunks @ rest" d]
    by (auto simp: cb_reader_flow_def split: decode_result.splits agent_run.splits)
qed

theorem stream_safe:
  assumes "sized ps" and "[] \<notin> set ps" and "concat chunks @ rest = stream ps"
  shows "run_reader handler milter_decoder_new chunks \<noteq> Agent_crashed Overread sigs"
proof (rule run_reader_safe)
  show "on_track (concat chunks @ rest) milter_decoder_new"
    using assms in_step_new by (auto simp: on_track_def)
qed

end

subsection \<open>Whatever the handler\<close>

lemma decode_in_error:
  "dec_state d = IN_ERROR \<Longrightarrow>
     milter_decoder_decode h d chunk =
       Returned (d\<lparr>dec_buffer := dec_buffer d @ chunk\<rparr>) True None []"
  by (simp add: milter_decoder_decode_def loop_error)

lemma run_reader_in_error:
  "dec_state d = IN_ERROR \<Longrightarrow>
     run_reader h d chunks = Agent (d\<lparr>dec_buffer := dec_buffer d @ concat chunks\<rparr>) [] []"
  by (induction chunks arbitrary: d) (simp_all add: cb_reader_flow_def decode_in_error)

lemma loop_false_in_error:
  "decode_loop h d err sigs = Returned d' False e sigs' \<Longrightarrow> dec_state d' = IN_ERROR"
proof (induction h d err sigs rule: decode_loop.induct)
  case (1 h d err sigs)
  from "1.prems" show ?case
    by (subst (asm) decode_loop.simps)
      (auto split: decode_state.splits if_splits result.splits prod.splits
        dest: "1.IH" [THEN meta_mp] "1.IH")
qed

text \<open>
  After a packet was refused, every later chunk is swallowed: \<open>decode\<close> answers
  \<open>TRUE\<close>, sets no error and emits nothing, while the buffer keeps growing. This is the
  guard of \<open>milter_decoder_decode\<close> that never fires.
\<close>

theorem refused_decoder_swallows:
  assumes "milter_decoder_decode h d chunk = Returned d' False e sigs"
  shows "milter_decoder_decode h d' chunk' =
      Returned (d'\<lparr>dec_buffer := dec_buffer d' @ chunk'\<rparr>) True None [] \<and>
    run_reader h d' chunks = Agent (d'\<lparr>dec_buffer := dec_buffer d' @ concat chunks\<rparr>) [] []"
proof -
  have "dec_state d' = IN_ERROR"
    using assms by (auto simp: milter_decoder_decode_def split: if_splits dest: loop_false_in_error)
  then show ?thesis by (simp add: decode_in_error run_reader_in_error)
qed

theorem refused_decoder_swallows_witness:
  "run_reader (\<lambda>m cl. Refused (Some UNEXPECTED_COMMAND))
      \<lparr>dec_state = IN_ERROR, dec_buffer = ''z'', dec_command_length = 1, dec_tag = 0\<rparr>
      [''ab'', ''c''] =
    (Agent \<lparr>dec_state = IN_ERROR, dec_buffer = ''zabc'', dec_command_length = 1, dec_tag = 0\<rparr>
      [] [] :: unit agent_run)"
proof -
  have "milter_decoder_decode (\<lambda>m cl. Refused (Some UNEXPECTED_COMMAND)) milter_decoder_new
      [NUL, NUL, NUL, CHR 0x01, CHR ''z''] =
    Returned \<lparr>dec_state = IN_ERROR, dec_buffer = ''z'', dec_command_length = 1, dec_tag = 0\<rparr>
      False (Some UNEXPECTED_COMMAND) ([] :: unit list)"
    by code_simp
  from refused_decoder_swallows [OF this, of "[]" "[''ab'', ''c'']"] show ?thesis by simp
qed

text \<open>
  A length prefix with the top bit set is a negative \<open>gint32\<close>, which the comparison with
  the buffer's length takes as a huge \<open>gsize\<close>.
\<close>

lemma loop_negative_content:
  assumes "dec_state d = IN_COMMAND_CONTENT" and "dec_command_length d < 0"
    and "- (2 ^ 31) \<le> dec_command_length d" and "length (dec_buffer d) < 2 ^ 63"
  shows "decode_loop h d err sigs = Returned d True err sigs"
proof -
  have "int (length (dec_buffer d)) < 2 ^ 63" using assms(4) by simp
  then show ?thesis
    using assms(1-3) by (subst decode_loop.simps) (simp add: gsize_of_int_def)
qed

lemma run_reader_negative_content:
  assumes "dec_state d = IN_COMMAND_CONTENT" and "dec_command_length d < 0"
    and "- (2 ^ 31) \<le> dec_command_length d"
    and "length (dec_buffer d) + length (concat chunks) < 2 ^ 63"
  shows "run_reader h d chunks = Agent (d\<lparr>dec_buffer := dec_buffer d @ concat chunks\<rparr>) [] []"
  using assms
proof (induction chunks arbitrary: d)
  case Nil
  then show ?case by simp
next
  case (Cons chunk chunks)
  let ?d = "d\<lparr>dec_buffer := dec_buffer d @ chunk\<rparr>"
  have "milter_decoder_decode h d chunk = Returned ?d True None []"
    using Cons.prems by (cases "chunk = []") (simp_all add: milter_decoder_decode_def loop_negative_content)
  moreover have "run_reader h ?d chunks = Agent (?d\<lparr>dec_buffer := dec_buffer ?d @ concat chunks\<rparr>) [] []"
    using Cons.prems by (intro Cons.IH) simp_all
  ultimately show ?case by (simp add: cb_reader_flow_def)
qed

text \<open>
  A packet that announces \<open>2 ^ 31\<close> bytes or more stalls the connection for good: no
  signal, no error, only a growing buffer, for every handler.
\<close>

theorem negative_length_stalls:
  assumes "sint w < 0" and "length (concat chunks) < 2 ^ 63"
  shows "\<exists>d. run_reader h milter_decoder_new (be32 w # chunks) = Agent d [] [] \<and>
     dec_state d = IN_COMMAND_CONTENT \<and> dec_buffer d = concat chunks"
proof -
  let ?d = "milter_decoder_new\<lparr>dec_command_length := sint w, dec_state := IN_COMMAND_CONTENT\<rparr>"
  have r: "- (2 ^ 31) \<le> sint w" using sint_greater_eq [of w] by simp
  have "milter_decoder_decode h milter_decoder_new (be32 w) = decode_loop h ?d None []"
    by (simp add: milter_decoder_decode_def milter_decoder_new_def decode_loop.simps [of h])
  also have "\<dots> = Returned ?d True None []"
    using assms(1) r by (intro loop_negative_content) (simp_all add: milter_decoder_new_def)
  finally have "cb_reader_flow h milter_decoder_new (be32 w) = Agent ?d [] []"
    by (simp add: cb_reader_flow_def)
  moreover have "run_reader h ?d chunks = Agent (?d\<lparr>dec_buffer := dec_buffer ?d @ concat chunks\<rparr>) [] []"
    using assms r by (intro run_reader_negative_content) (simp_all add: milter_decoder_new_def)
  ultimately show ?thesis by (simp add: milter_decoder_new_def)
qed

theorem negative_length_stalls_witness:
  "\<exists>d. run_reader (\<lambda>m cl. Ok (None, cl)) milter_decoder_new
       [be32 (- 1), ''Q'', ''0123456789''] = Agent d [] [] \<and>
     dec_state d = IN_COMMAND_CONTENT \<and> dec_buffer d = ''Q0123456789''"
  using negative_length_stalls [of "- 1" "[''Q'', ''0123456789'']" "\<lambda>m cl. Ok (None, cl)"]
  by simp

text \<open>Every signal has cost at least the four bytes of a length prefix.\<close>

definition credit :: "milter_decoder \<Rightarrow> nat" where
  "credit d = length (dec_buffer d) + (if dec_state d = IN_COMMAND_CONTENT then 4 else 0)"

lemma loop_credit:
  "case decode_loop h d err sigs of
     Returned d' ok e sigs' \<Rightarrow> credit d' + 4 * length sigs' \<le> credit d + 4 * length sigs
   | Crashed f sigs' \<Rightarrow> 4 * length sigs' \<le> credit d + 4 * length sigs"
proof (induction h d err sigs rule: decode_loop.induct)
  case (1 h d err sigs)
  show ?case
  proof (cases "dec_state d")
    case IN_START
    show ?thesis
    proof (cases "dec_buffer d = []")
      case True
      with IN_START show ?thesis by (simp add: decode_loop.simps [of h d])
    next
      case False
      from IN_START have "credit (enter_length d) = credit d" by (simp add: credit_def)
      with 1(1) [OF IN_START False] show ?thesis
        by (simp only: loop_start [OF IN_START False])
    qed
  next
    case IN_COMMAND_LENGTH
    show ?thesis
    proof (cases "length (dec_buffer d) < 4")
      case True
      with IN_COMMAND_LENGTH show ?thesis by (simp add: decode_loop.simps [of h d])
    next
      case False
      with IN_COMMAND_LENGTH have "credit (enter_content d) = credit d" by (simp add: credit_def)
      with 1(2) [OF IN_COMMAND_LENGTH False] show ?thesis
        by (simp only: loop_length [OF IN_COMMAND_LENGTH False])
    qed
  next
    case IN_COMMAND_CONTENT
    show ?thesis
    proof (cases "int (length (dec_buffer d)) < gsize_of_int (dec_command_length d)")
      case True
      with IN_COMMAND_CONTENT show ?thesis by (simp add: decode_loop.simps [of h d])
    next
      case False
      show ?thesis
      proof (cases "h (dec_buffer d) (dec_command_length d)")
        case (Ok es)
        obtain e s where es: "es = (e, s)" by (cases es)
        from 1(3) [OF IN_COMMAND_CONTENT False Ok es [symmetric]] show ?thesis
          using Ok es
          by (auto simp: loop_content [OF IN_COMMAND_CONTENT False] credit_def IN_COMMAND_CONTENT
              split: decode_result.splits)
      qed (simp_all add: loop_content [OF IN_COMMAND_CONTENT False] credit_def IN_COMMAND_CONTENT)
    qed
  next
    case IN_ERROR
    then show ?thesis by (simp add: loop_error)
  qed
qed

lemma run_reader_credit:
  "case run_reader h d chunks of
     Agent d' sigs errs \<Rightarrow> credit d' + 4 * length sigs \<le> credit d + length (concat chunks)
   | Agent_crashed f sigs \<Rightarrow> 4 * length sigs \<le> credit d + length (concat chunks)"
proof (induction chunks arbitrary: d)
  case Nil
  then show ?case by simp
next
  case (Cons chunk chunks)
  have "case milter_decoder_decode h d chunk of
      Returned d' ok e sigs \<Rightarrow> credit d' + 4 * length sigs \<le> credit d + length chunk
    | Crashed f sigs \<Rightarrow> 4 * length sigs \<le> credit d + length chunk"
    using loop_credit [where h = h and d = "d\<lparr>dec_buffer := dec_buffer d @ chunk\<rparr>" and err = None
        and sigs = "[]"]
    by (auto simp: milter_decoder_decode_def credit_def split: decode_result.splits)
  then show ?case
    using Cons.IH
    by (fastforce simp: cb_reader_flow_def split: decode_result.splits agent_run.splits)
qed

text \<open>
  C36: the work a peer can cause is bounded by what it sends: whatever the handler, a
  connection that has received \<open>n\<close> bytes has emitted at most \<open>n / 4\<close> signals, and the
  bytes still buffered are paid for as well.
\<close>

theorem signals_bounded_by_input:
  "case run_reader h milter_decoder_new chunks of
     Agent d sigs errs \<Rightarrow> length (dec_buffer d) + 4 * length sigs \<le> length (concat chunks)
   | Agent_crashed f sigs \<Rightarrow> 4 * length sigs \<le> length (concat chunks)"
  using run_reader_credit [where h = h and d = milter_decoder_new and chunks = chunks]
  by (auto simp: credit_def milter_decoder_new_def split: agent_run.splits)

text \<open>What every answer of the handler satisfies, every emitted signal satisfies.\<close>

fun signals_of :: "'s agent_run \<Rightarrow> 's list" where
  "signals_of (Agent d sigs errs) = sigs"
| "signals_of (Agent_crashed f sigs) = sigs"

lemma loop_all:
  assumes "\<And>m cl e s. h m cl = Ok (e, s) \<Longrightarrow> Q s" and "\<forall>s \<in> set sigs. Q s"
  shows "case decode_loop h d err sigs of
     Returned d' ok e sigs' \<Rightarrow> \<forall>s \<in> set sigs'. Q s | Crashed f sigs' \<Rightarrow> \<forall>s \<in> set sigs'. Q s"
  using assms
proof (induction h d err sigs rule: decode_loop.induct)
  case (1 h d err sigs)
  show ?case
  proof (cases "dec_state d")
    case IN_START
    with 1 show ?thesis by (subst decode_loop.simps) simp
  next
    case IN_COMMAND_LENGTH
    with 1 show ?thesis by (subst decode_loop.simps) simp
  next
    case IN_COMMAND_CONTENT
    show ?thesis
    proof (cases "int (length (dec_buffer d)) < gsize_of_int (dec_command_length d)")
      case True
      with IN_COMMAND_CONTENT 1 show ?thesis by (simp add: decode_loop.simps [of h d])
    next
      case False
      show ?thesis
      proof (cases "h (dec_buffer d) (dec_command_length d)")
        case (Ok es)
        obtain e s where es: "es = (e, s)" by (cases es)
        from 1(4) [of _ _ e s] Ok es have "Q s" by blast
        then have "\<forall>s \<in> set (sigs @ [s]). Q s" using 1(5) by simp
        with 1(3) [OF IN_COMMAND_CONTENT False Ok es [symmetric] 1(4)] show ?thesis
          using Ok es by (simp add: loop_content [OF IN_COMMAND_CONTENT False])
      qed (use 1(5) in \<open>simp_all add: loop_content [OF IN_COMMAND_CONTENT False]\<close>)
    qed
  next
    case IN_ERROR
    with 1 show ?thesis by (simp add: loop_error)
  qed
qed

lemma run_reader_all:
  assumes "\<And>m cl e s. h m cl = Ok (e, s) \<Longrightarrow> Q s"
  shows "\<forall>s \<in> set (signals_of (run_reader h d chunks)). Q s"
proof (induction chunks arbitrary: d)
  case Nil
  then show ?case by simp
next
  case (Cons chunk chunks)
  have "case milter_decoder_decode h d chunk of
      Returned d' ok e sigs' \<Rightarrow> \<forall>s \<in> set sigs'. Q s | Crashed f sigs' \<Rightarrow> \<forall>s \<in> set sigs'. Q s"
    using loop_all [where h = h and Q = Q and sigs = "[]" and err = None
        and d = "d\<lparr>dec_buffer := dec_buffer d @ chunk\<rparr>", OF assms]
    by (auto simp: milter_decoder_decode_def)
  note step = this
  show ?case
  proof (cases "milter_decoder_decode h d chunk")
    case (Returned d' ok e sigs)
    with step Cons.IH [of d'] show ?thesis
      by (cases "run_reader h d' chunks") (auto simp: cb_reader_flow_def)
  next
    case (Crashed f sigs)
    with step show ?thesis by (simp add: cb_reader_flow_def)
  qed
qed

end
