(* ===== verification/Reply_Decoder.thy ===== *)
theory Reply_Decoder
  imports Framing Macros_Requests
begin

text \<open>
  \<open>milter/core/milter-reply-decoder.c\<close>: what the MTA side reads from a milter. The
  signals are those of \<open>milter-reply-signals.c\<close>.
\<close>

subsection \<open>Signals\<close>

datatype reply_signal =
    Sig_negotiate_reply milter_option "macros_requests option"
  | Sig_continue
  | Sig_reply_code nat bytes "bytes option"
  | Sig_temporary_failure
  | Sig_reject
  | Sig_accept
  | Sig_discard
  | Sig_add_header bytes bytes
  | Sig_insert_header u32 bytes "bytes option"
  | Sig_change_header bytes u32 bytes
  | Sig_delete_header bytes u32
  | Sig_change_from bytes "bytes option"
  | Sig_add_recipient bytes "bytes option"
  | Sig_delete_recipient bytes
  | Sig_replace_body bytes
  | Sig_progress
  | Sig_quarantine bytes
  | Sig_connection_failure
  | Sig_shutdown
  | Sig_skip

type_synonym reply_answer = "(gerror option \<times> reply_signal) result"

subsection \<open>Replies without arguments\<close>

definition decode_reply_continue :: "bytes \<Rightarrow> int \<Rightarrow> reply_answer" where
  "decode_reply_continue = decode_no_argument Sig_continue"

definition decode_reply_temporary_failure :: "bytes \<Rightarrow> int \<Rightarrow> reply_answer" where
  "decode_reply_temporary_failure = decode_no_argument Sig_temporary_failure"

definition decode_reply_reject :: "bytes \<Rightarrow> int \<Rightarrow> reply_answer" where
  "decode_reply_reject = decode_no_argument Sig_reject"

definition decode_reply_accept :: "bytes \<Rightarrow> int \<Rightarrow> reply_answer" where
  "decode_reply_accept = decode_no_argument Sig_accept"

definition decode_reply_discard :: "bytes \<Rightarrow> int \<Rightarrow> reply_answer" where
  "decode_reply_discard = decode_no_argument Sig_discard"

definition decode_reply_progress :: "bytes \<Rightarrow> int \<Rightarrow> reply_answer" where
  "decode_reply_progress = decode_no_argument Sig_progress"

definition decode_reply_connection_failure :: "bytes \<Rightarrow> int \<Rightarrow> reply_answer" where
  "decode_reply_connection_failure = decode_no_argument Sig_connection_failure"

definition decode_reply_shutdown :: "bytes \<Rightarrow> int \<Rightarrow> reply_answer" where
  "decode_reply_shutdown = decode_no_argument Sig_shutdown"

definition decode_reply_skip :: "bytes \<Rightarrow> int \<Rightarrow> reply_answer" where
  "decode_reply_skip = decode_no_argument Sig_skip"

subsection \<open>The reply code\<close>

text \<open>\<open>g_ascii_isdigit\<close>, and \<open>atoi\<close> on one digit.\<close>

definition is_digit :: "char \<Rightarrow> bool" where
  "is_digit c \<longleftrightarrow> 48 \<le> (of_char c :: nat) \<and> (of_char c :: nat) \<le> 57"

definition digit_value :: "char \<Rightarrow> nat" where
  "digit_value c = of_char c - 48"

definition find_space_character :: "bytes \<Rightarrow> int \<Rightarrow> scan" where
  "find_space_character p len = find_character CHR '' '' p (nat len)"

text \<open>\<open>g_strndup\<close> stops at the NUL, \<open>find_space_character\<close> does not.\<close>

definition decode_reply_reply_code :: "bytes \<Rightarrow> int \<Rightarrow> reply_answer" where
  "decode_reply_reply_code m cl =
     (let p = drop 1 m; len = cl - 1 in
      bind_result (milter_decoder_check_command_length p len 3 MILTER_DECODER_COMPARE_AT_LEAST)
        (\<lambda>_. case p of
           c0 # c1 # c2 # p3 \<Rightarrow>
             if c0 \<notin> {CHR ''4'', CHR ''5''} \<or> \<not> is_digit c1 \<or> \<not> is_digit c2
             then Refused (Some LONG_COMMAND_LENGTH)
             else
               let code = digit_value c0 * 100 + digit_value c1 * 10 + digit_value c2 in
               bind_result (milter_decoder_decode_null_terminated_value p len) (\<lambda>n.
                 if n = 0 then Refused None
                 else
                   let (q, len') = (if take 1 p3 = '' '' then (drop 1 p3, len - 3 - 1)
                                    else (p3, len - 3))
                   in (case find_space_character q len' of
                         Nowhere \<Rightarrow> Ok (None, Sig_reply_code code (cstr q) None)
                       | At s \<Rightarrow> Ok (None, Sig_reply_code code (cstr (take s q))
                                              (Some (cstr (drop (s + 1) q))))
                       | Beyond \<Rightarrow> Fault Overread))
         | _ \<Rightarrow> Fault Overread))"

subsection \<open>Headers\<close>

definition decode_reply_add_header :: "bytes \<Rightarrow> int \<Rightarrow> reply_answer" where
  "decode_reply_add_header m cl =
     bind_result (milter_decoder_decode_header_content (drop 1 m) (cl - 1))
       (\<lambda>(name, value). Ok (None, Sig_add_header name value))"

text \<open>An empty value leaves \<open>*value\<close> at \<open>NULL\<close>.\<close>

definition decode_header_content_with_index ::
    "bytes \<Rightarrow> int \<Rightarrow> (u32 \<times> bytes \<times> bytes option) result" where
  "decode_header_content_with_index p len =
     (if gsize_of_int len < 4 then Refused None
      else
        bind_result (read_bytes p 4) (\<lambda>index.
        let p = drop 4 p; len = len - 4 in
        bind_result (milter_decoder_decode_null_terminated_value p len) (\<lambda>n.
          if n = 0 then Refused None
          else
            let p' = drop (n + 1) p; len' = len - int (n + 1) in
            bind_result (milter_decoder_decode_null_terminated_value p' len') (\<lambda>k.
              Ok (of_be32 index, cstr p, if k = 0 then None else Some (cstr p'))))))"

text \<open>Both callers pass \<open>command_length + 1\<close> as the length of what follows the first byte.\<close>

definition decode_reply_insert_header :: "bytes \<Rightarrow> int \<Rightarrow> reply_answer" where
  "decode_reply_insert_header m cl =
     bind_result (decode_header_content_with_index (drop 1 m) (cl + 1))
       (\<lambda>(index, name, value). Ok (None, Sig_insert_header index name value))"

definition decode_reply_change_header :: "bytes \<Rightarrow> int \<Rightarrow> reply_answer" where
  "decode_reply_change_header m cl =
     bind_result (decode_header_content_with_index (drop 1 m) (cl + 1))
       (\<lambda>(index, name, value).
          case value of
            Some v \<Rightarrow> Ok (None, Sig_change_header name index v)
          | None \<Rightarrow> Ok (None, Sig_delete_header name index))"

subsection \<open>Envelope, body and quarantine\<close>

definition decode_two_string :: "bytes \<Rightarrow> int \<Rightarrow> (bytes \<times> bytes option) result" where
  "decode_two_string p len =
     bind_result (milter_decoder_decode_null_terminated_value p len) (\<lambda>n.
       if n = 0 then Refused None
       else
         let p' = drop (n + 1) p; len' = len - int (n + 1) in
         if len' \<le> 0 then Ok (cstr p, None)
         else bind_result (milter_decoder_decode_null_terminated_value p' len') (\<lambda>k.
                if k = 0 then Refused None else Ok (cstr p, Some (cstr p'))))"

definition decode_reply_change_from :: "bytes \<Rightarrow> int \<Rightarrow> reply_answer" where
  "decode_reply_change_from m cl =
     bind_result (decode_two_string (drop 1 m) (cl - 1))
       (\<lambda>(sender, parameters). Ok (None, Sig_change_from sender parameters))"

text \<open>The result of the search for the NUL is not looked at, only its error is left set.\<close>

definition decode_reply_add_recipient :: "bytes \<Rightarrow> int \<Rightarrow> reply_answer" where
  "decode_reply_add_recipient m cl =
     (case milter_decoder_decode_null_terminated_value (drop 1 m) (cl - 1) of
        Ok n \<Rightarrow> Ok (None, Sig_add_recipient (cstr (drop 1 m)) None)
      | Refused e \<Rightarrow> Ok (e, Sig_add_recipient (cstr (drop 1 m)) None)
      | Fault f \<Rightarrow> Fault f)"

definition decode_reply_add_recipient_with_parameters :: "bytes \<Rightarrow> int \<Rightarrow> reply_answer" where
  "decode_reply_add_recipient_with_parameters m cl =
     bind_result (decode_two_string (drop 1 m) (cl - 1))
       (\<lambda>(recipient, parameters). Ok (None, Sig_add_recipient recipient parameters))"

definition decode_reply_delete_recipient :: "bytes \<Rightarrow> int \<Rightarrow> reply_answer" where
  "decode_reply_delete_recipient = decode_one_string Sig_delete_recipient"

definition decode_reply_replace_body :: "bytes \<Rightarrow> int \<Rightarrow> reply_answer" where
  "decode_reply_replace_body m cl =
     bind_result (read_bytes (drop 1 m) (cl - 1)) (\<lambda>chunk. Ok (None, Sig_replace_body chunk))"

definition decode_reply_quarantine :: "bytes \<Rightarrow> int \<Rightarrow> reply_answer" where
  "decode_reply_quarantine = decode_one_string Sig_quarantine"

subsection \<open>Negotiation\<close>

text \<open>The loop: \<open>p\<close> is \<open>buffer + i\<close>, \<open>len\<close> is \<open>length - i\<close>.\<close>

function decode_macros_requests_loop ::
    "bytes \<Rightarrow> int \<Rightarrow> macros_requests \<Rightarrow> macros_requests result" where
  "decode_macros_requests_loop p len requests =
     (if len \<le> 0 then Ok requests
      else case milter_decoder_check_command_length p len 4 MILTER_DECODER_COMPARE_AT_LEAST of
        Ok _ \<Rightarrow>
          bind_result (read_bytes p 4) (\<lambda>stage.
          (case milter_decoder_decode_null_terminated_value (drop 4 p) (len - 4) of
             Ok n \<Rightarrow>
               if n = 0 then Refused None
               else (case milter_utils_macro_stage_to_command (of_be32 stage) of
                       None \<Rightarrow> Refused (Some UNEXPECTED_MACRO_STAGE)
                     | Some command \<Rightarrow>
                         decode_macros_requests_loop (drop (n + 1) (drop 4 p))
                           (len - 4 - int (n + 1))
                           (milter_macros_requests_set_symbols_string_array requests command
                              (g_strsplit (cstr (drop 4 p)) CHR '' '')))
           | Refused e \<Rightarrow> Refused e
           | Fault f \<Rightarrow> Fault f))
      | Refused e \<Rightarrow> Refused e
      | Fault f \<Rightarrow> Fault f)"
  by pat_completeness auto
termination
  by (relation "measure (\<lambda>(p, len, requests). nat len)") auto

declare decode_macros_requests_loop.simps [simp del]

definition decode_macros_requests :: "bytes \<Rightarrow> int \<Rightarrow> macros_requests option result" where
  "decode_macros_requests p len =
     (if len = 0 then Ok None
      else bind_result (decode_macros_requests_loop p len milter_macros_requests_new)
             (\<lambda>requests. Ok (Some requests)))"

definition decode_reply_negotiate :: "bytes \<Rightarrow> int \<Rightarrow> reply_answer" where
  "decode_reply_negotiate m cl =
     bind_result (milter_decoder_decode_negotiate m cl) (\<lambda>(opt, processed_length).
     bind_result (milter_decoder_check_command_length (drop processed_length m)
                    (cl - int processed_length) 0 MILTER_DECODER_COMPARE_AT_LEAST) (\<lambda>_.
     bind_result (decode_macros_requests (drop processed_length m) (cl - int processed_length))
       (\<lambda>macros_requests. Ok (None, Sig_negotiate_reply opt macros_requests))))"

subsection \<open>The dispatcher\<close>

definition decode_reply :: "reply_signal handler" where
  "decode_reply buffer cl =
     (let m = milter_decoder_get_buffer buffer; command = hd m in
      if command = command_code MILTER_COMMAND_NEGOTIATE then decode_reply_negotiate m cl
      else case reply_of_char command of
          Some MILTER_REPLY_CONTINUE \<Rightarrow> decode_reply_continue m cl
        | Some MILTER_REPLY_REPLY_CODE \<Rightarrow> decode_reply_reply_code m cl
        | Some MILTER_REPLY_TEMPORARY_FAILURE \<Rightarrow> decode_reply_temporary_failure m cl
        | Some MILTER_REPLY_REJECT \<Rightarrow> decode_reply_reject m cl
        | Some MILTER_REPLY_ACCEPT \<Rightarrow> decode_reply_accept m cl
        | Some MILTER_REPLY_DISCARD \<Rightarrow> decode_reply_discard m cl
        | Some MILTER_REPLY_ADD_HEADER \<Rightarrow> decode_reply_add_header m cl
        | Some MILTER_REPLY_INSERT_HEADER \<Rightarrow> decode_reply_insert_header m cl
        | Some MILTER_REPLY_CHANGE_HEADER \<Rightarrow> decode_reply_change_header m cl
        | Some MILTER_REPLY_CHANGE_FROM \<Rightarrow> decode_reply_change_from m cl
        | Some MILTER_REPLY_ADD_RECIPIENT \<Rightarrow> decode_reply_add_recipient m cl
        | Some MILTER_REPLY_ADD_RECIPIENT_WITH_PARAMETERS \<Rightarrow> decode_reply_add_recipient_with_parameters m cl
        | Some MILTER_REPLY_DELETE_RECIPIENT \<Rightarrow> decode_reply_delete_recipient m cl
        | Some MILTER_REPLY_REPLACE_BODY \<Rightarrow> decode_reply_replace_body m cl
        | Some MILTER_REPLY_PROGRESS \<Rightarrow> decode_reply_progress m cl
        | Some MILTER_REPLY_QUARANTINE \<Rightarrow> decode_reply_quarantine m cl
        | Some MILTER_REPLY_CONNECTION_FAILURE \<Rightarrow> decode_reply_connection_failure m cl
        | Some MILTER_REPLY_SHUTDOWN \<Rightarrow> decode_reply_shutdown m cl
        | Some MILTER_REPLY_SKIP \<Rightarrow> decode_reply_skip m cl
        | _ \<Rightarrow> Refused (Some UNEXPECTED_COMMAND))"

end
