(* ===== verification/Server_Context.thy ===== *)
theory Server_Context
  imports Protocol_Agent Message_Result Reply_Decoder
begin

text \<open>
  \<open>milter/server/milter-server-context.c\<close>: the side of a connection that plays the MTA
  towards one milter. This theory has its state and the commands; the answers are in
  \<open>Server_Context_Replies\<close>.

  Signals are delivered while they are emitted: an \<^emph>\<open>environment\<close> gives the observer's
  reaction to each event, as a change of the context, beside the handlers that stop a
  command (\<open>stop-on-...\<close>) and whether the agent accepts a write. Log messages and the
  stopwatch \<open>elapsed\<close> are left out; a running timer is kept by its kind.
\<close>

subsection \<open>State\<close>

datatype server_context_state =
    SERVER_CONTEXT_STATE_INVALID
  | SERVER_CONTEXT_STATE_START
  | SERVER_CONTEXT_STATE_DEFINE_MACRO
  | SERVER_CONTEXT_STATE_NEGOTIATE
  | SERVER_CONTEXT_STATE_CONNECT
  | SERVER_CONTEXT_STATE_HELO
  | SERVER_CONTEXT_STATE_ENVELOPE_FROM
  | SERVER_CONTEXT_STATE_ENVELOPE_RECIPIENT
  | SERVER_CONTEXT_STATE_DATA
  | SERVER_CONTEXT_STATE_UNKNOWN
  | SERVER_CONTEXT_STATE_HEADER
  | SERVER_CONTEXT_STATE_END_OF_HEADER
  | SERVER_CONTEXT_STATE_BODY
  | SERVER_CONTEXT_STATE_END_OF_MESSAGE
  | SERVER_CONTEXT_STATE_QUIT
  | SERVER_CONTEXT_STATE_ABORT

text \<open>The constants are numbered in this order, and the code compares them.\<close>

primrec state_number :: "server_context_state \<Rightarrow> nat" where
  "state_number SERVER_CONTEXT_STATE_INVALID = 0"
| "state_number SERVER_CONTEXT_STATE_START = 1"
| "state_number SERVER_CONTEXT_STATE_DEFINE_MACRO = 2"
| "state_number SERVER_CONTEXT_STATE_NEGOTIATE = 3"
| "state_number SERVER_CONTEXT_STATE_CONNECT = 4"
| "state_number SERVER_CONTEXT_STATE_HELO = 5"
| "state_number SERVER_CONTEXT_STATE_ENVELOPE_FROM = 6"
| "state_number SERVER_CONTEXT_STATE_ENVELOPE_RECIPIENT = 7"
| "state_number SERVER_CONTEXT_STATE_DATA = 8"
| "state_number SERVER_CONTEXT_STATE_UNKNOWN = 9"
| "state_number SERVER_CONTEXT_STATE_HEADER = 10"
| "state_number SERVER_CONTEXT_STATE_END_OF_HEADER = 11"
| "state_number SERVER_CONTEXT_STATE_BODY = 12"
| "state_number SERVER_CONTEXT_STATE_END_OF_MESSAGE = 13"
| "state_number SERVER_CONTEXT_STATE_QUIT = 14"
| "state_number SERVER_CONTEXT_STATE_ABORT = 15"

instantiation server_context_state :: linorder
begin

definition less_eq_server_context_state ::
    "server_context_state \<Rightarrow> server_context_state \<Rightarrow> bool" where
  "less_eq_server_context_state s t \<longleftrightarrow> state_number s \<le> state_number t"

definition less_server_context_state ::
    "server_context_state \<Rightarrow> server_context_state \<Rightarrow> bool" where
  "less_server_context_state s t \<longleftrightarrow> state_number s < state_number t"

instance
proof
  show "s = t" if "s \<le> t" "t \<le> s" for s t :: server_context_state
    using that by (cases s; cases t) (simp_all add: less_eq_server_context_state_def)
qed (auto simp: less_eq_server_context_state_def less_server_context_state_def)

end

datatype server_timeout = Writing_timeout | Reading_timeout | End_of_message_timeout

datatype server_error =
    SERVER_CONTEXT_ERROR_CONNECTION_FAILURE
  | SERVER_CONTEXT_ERROR_NO_SPEC
  | SERVER_CONTEXT_ERROR_INVALID_STATE
  | SERVER_CONTEXT_ERROR_BUSY
  | SERVER_CONTEXT_ERROR_IO_ERROR
  | SERVER_CONTEXT_ERROR_NEWER_VERSION_REQUESTED

text \<open>What a context tells its observers.\<close>

datatype server_event =
    Reply reply_signal
  | Stopped
  | Message_processed message_result
  | State_transited server_context_state
  | Server_error server_error
  | Timed_out server_timeout

record server_context =
  ctx_status :: milter_status
  envelope_recipient_status :: milter_status
  ctx_state :: server_context_state
  next_states :: "server_context_state list"
  last_state :: server_context_state
  ctx_option :: "milter_option option"
  ctx_timeout :: "server_timeout option"
  skip_body :: bool
  ctx_body :: bytes
  body_response_queue :: "u32 list"
  process_body_count :: u32
  sent_end_of_message :: bool
  negotiated :: bool
  processing_message :: bool
  quitted :: bool
  current_recipient :: "bytes option"
  ctx_message_result :: "message_result option"
  ctx_agent :: protocol_agent
  ctx_encoder :: milter_encoder
  ctx_shutdown :: bool
  written :: "bytes list"
  emitted :: "server_event list"

definition milter_server_context_init :: server_context where
  "milter_server_context_init =
     \<lparr>ctx_status = MILTER_STATUS_NOT_CHANGE, envelope_recipient_status = MILTER_STATUS_DEFAULT,
      ctx_state = SERVER_CONTEXT_STATE_START, next_states = [],
      last_state = SERVER_CONTEXT_STATE_START, ctx_option = None, ctx_timeout = None,
      skip_body = False, ctx_body = [], body_response_queue = [], process_body_count = 0,
      sent_end_of_message = False, negotiated = False, processing_message = False,
      quitted = False, current_recipient = None, ctx_message_result = None,
      ctx_agent = milter_protocol_agent_init, ctx_encoder = milter_encoder_new,
      ctx_shutdown = False, written = [], emitted = []\<rparr>"

text \<open>A handler of \<open>stop-on-...\<close> sees the arguments of the command.\<close>

datatype stop_request =
    Stop_on_connect bytes sockaddr
  | Stop_on_helo bytes
  | Stop_on_envelope_from bytes
  | Stop_on_envelope_recipient bytes
  | Stop_on_data
  | Stop_on_header bytes "bytes option"
  | Stop_on_end_of_header
  | Stop_on_body bytes
  | Stop_on_end_of_message "bytes option"

record environment =
  env_platform :: platform
  env_observer :: "server_event \<Rightarrow> server_context \<Rightarrow> server_context"
  env_stop :: "stop_request \<Rightarrow> bool"
  env_accepts_write :: "bytes \<Rightarrow> bool"

definition emit :: "environment \<Rightarrow> server_event \<Rightarrow> server_context \<Rightarrow> server_context" where
  "emit env ev c = env_observer env ev (c\<lparr>emitted := emitted c @ [ev]\<rparr>)"

definition emit_error :: "environment \<Rightarrow> server_error \<Rightarrow> server_context \<Rightarrow> server_context" where
  "emit_error env e = emit env (Server_error e)"

subsection \<open>Accessors\<close>

definition disable_timeout :: "server_context \<Rightarrow> server_context" where
  "disable_timeout c = c\<lparr>ctx_timeout := None\<rparr>"

definition milter_server_context_is_processing :: "server_context \<Rightarrow> bool" where
  "milter_server_context_is_processing c \<longleftrightarrow> ctx_timeout c \<noteq> None"

definition milter_server_context_set_status ::
    "server_context \<Rightarrow> milter_status \<Rightarrow> server_context" where
  "milter_server_context_set_status c status = c\<lparr>ctx_status := status\<rparr>"

definition milter_server_context_set_state ::
    "server_context \<Rightarrow> server_context_state \<Rightarrow> server_context" where
  "milter_server_context_set_state c st =
     (let c = (if SERVER_CONTEXT_STATE_NEGOTIATE \<le> st \<and> st \<le> SERVER_CONTEXT_STATE_END_OF_MESSAGE
               then c\<lparr>last_state := st\<rparr> else c)
      in c\<lparr>ctx_state := st\<rparr>)"

definition ensure_message_result :: "server_context \<Rightarrow> server_context" where
  "ensure_message_result c =
     (if ctx_message_result c = None
      then c\<lparr>ctx_message_result := Some (milter_message_result_start milter_message_result_new)\<rparr>
      else c)"

text \<open>Changes the message result that \<open>ensure_message_result\<close> has provided.\<close>

definition update_message_result ::
    "(message_result \<Rightarrow> message_result) \<Rightarrow> server_context \<Rightarrow> server_context" where
  "update_message_result f c = c\<lparr>ctx_message_result := map_option f (ctx_message_result c)\<rparr>"

definition milter_server_context_set_option ::
    "server_context \<Rightarrow> milter_option option \<Rightarrow> server_context" where
  "milter_server_context_set_option c opt = c\<lparr>ctx_option := map_option milter_option_copy opt\<rparr>"

definition milter_server_context_is_enable_step :: "server_context \<Rightarrow> u32 \<Rightarrow> bool" where
  "milter_server_context_is_enable_step c s =
     (case ctx_option c of None \<Rightarrow> True | Some opt \<Rightarrow> step opt AND s \<noteq> 0)"

definition milter_server_context_is_processing_message :: "server_context \<Rightarrow> bool" where
  "milter_server_context_is_processing_message c =
     (if \<not> negotiated c then False else if quitted c then False else processing_message c)"

definition milter_server_context_set_processing_message ::
    "server_context \<Rightarrow> bool \<Rightarrow> server_context" where
  "milter_server_context_set_processing_message c p = c\<lparr>processing_message := p\<rparr>"

definition milter_server_context_is_quitted :: "server_context \<Rightarrow> bool" where
  "milter_server_context_is_quitted c = (if \<not> negotiated c then True else quitted c)"

definition milter_server_context_set_quitted :: "server_context \<Rightarrow> bool \<Rightarrow> server_context" where
  "milter_server_context_set_quitted c q = c\<lparr>quitted := q\<rparr>"

definition milter_server_context_set_message_result ::
    "server_context \<Rightarrow> message_result option \<Rightarrow> server_context" where
  "milter_server_context_set_message_result c r = c\<lparr>ctx_message_result := r\<rparr>"

definition milter_server_context_has_accepted_recipient :: "server_context \<Rightarrow> bool" where
  "milter_server_context_has_accepted_recipient c =
     (case ctx_message_result c of
        None \<Rightarrow> True
      | Some r \<Rightarrow>
          if rejected_recipients r = [] \<and> temporary_failed_recipients r = [] then True
          else result_recipients r \<noteq> [])"

text \<open>Without an option the code follows a \<open>NULL\<close> pointer.\<close>

definition milter_server_context_need_reply ::
    "server_context \<Rightarrow> server_context_state \<Rightarrow> bool result" where
  "milter_server_context_need_reply c st =
     (case ctx_option c of
        None \<Rightarrow> Fault Null_dereference
      | Some opt \<Rightarrow> Ok
         (case st of
            SERVER_CONTEXT_STATE_CONNECT \<Rightarrow> step opt AND MILTER_STEP_NO_REPLY_CONNECT = 0
          | SERVER_CONTEXT_STATE_HELO \<Rightarrow> step opt AND MILTER_STEP_NO_REPLY_HELO = 0
          | SERVER_CONTEXT_STATE_ENVELOPE_FROM \<Rightarrow>
              step opt AND MILTER_STEP_NO_REPLY_ENVELOPE_FROM = 0
          | SERVER_CONTEXT_STATE_ENVELOPE_RECIPIENT \<Rightarrow>
              step opt AND MILTER_STEP_NO_REPLY_ENVELOPE_RECIPIENT = 0
          | SERVER_CONTEXT_STATE_DATA \<Rightarrow> step opt AND MILTER_STEP_NO_REPLY_DATA = 0
          | SERVER_CONTEXT_STATE_HEADER \<Rightarrow> step opt AND MILTER_STEP_NO_REPLY_HEADER = 0
          | SERVER_CONTEXT_STATE_END_OF_HEADER \<Rightarrow>
              step opt AND MILTER_STEP_NO_REPLY_END_OF_HEADER = 0
          | SERVER_CONTEXT_STATE_BODY \<Rightarrow> step opt AND MILTER_STEP_NO_REPLY_BODY = 0
          | SERVER_CONTEXT_STATE_UNKNOWN \<Rightarrow> step opt AND MILTER_STEP_NO_REPLY_UNKNOWN = 0
          | _ \<Rightarrow> True))"

definition milter_server_context_reset_message_related_data ::
    "server_context \<Rightarrow> server_context" where
  "milter_server_context_reset_message_related_data c =
     c\<lparr>ctx_agent := milter_protocol_agent_clear_message_related_macros (ctx_agent c),
       skip_body := False, processing_message := False,
       envelope_recipient_status := MILTER_STATUS_DEFAULT, body_response_queue := [],
       process_body_count := 0, sent_end_of_message := False, ctx_message_result := None\<rparr>"

subsection \<open>Writing a command\<close>

definition filter_macros :: "macro_hash \<Rightarrow> bytes list \<Rightarrow> macro_hash option" where
  "filter_macros macros request_symbols =
     (let filtered_macros =
        fold (\<lambda>symbol filtered. case map_of macros symbol of
                None \<Rightarrow> filtered | Some value \<Rightarrow> AList.update symbol value filtered)
          request_symbols []
      in if filtered_macros = [] then None else Some filtered_macros)"

definition prepend_macro ::
    "environment \<Rightarrow> server_context \<Rightarrow> bytes \<Rightarrow> milter_command \<Rightarrow> server_context \<times> bytes" where
  "prepend_macro env c packed_packet command =
     (let agent = milter_protocol_agent_set_macro_context (ctx_agent c) command;
          macros = milter_protocol_agent_get_macros agent;
          c = c\<lparr>ctx_agent := milter_protocol_agent_set_macro_context agent MILTER_COMMAND_UNKNOWN\<rparr>;
          target_macros =
            (case macros of
               None \<Rightarrow> None
             | Some ms \<Rightarrow>
                 if ms = [] then None
                 else case milter_protocol_agent_get_macros_requests (ctx_agent c) of
                        None \<Rightarrow> Some ms
                      | Some requests \<Rightarrow>
                          let request_symbols = milter_macros_requests_get_symbols requests command
                          in if request_symbols = [] then None
                             else filter_macros ms request_symbols)
      in case target_macros of
           None \<Rightarrow> (c, packed_packet)
         | Some ms \<Rightarrow>
             (let (e, packet) = milter_command_encoder_encode_define_macro (env_platform env)
                    (ctx_encoder c) command (Some (map (apsnd Some) ms))
              in (c\<lparr>ctx_encoder := e\<rparr>, packet @ packed_packet)))"

text \<open>The command whose macros go before the packet that leads to a state.\<close>

definition macro_command :: "server_context_state \<Rightarrow> milter_command option" where
  "macro_command next_state =
     (case next_state of
        SERVER_CONTEXT_STATE_HELO \<Rightarrow> Some MILTER_COMMAND_HELO
      | SERVER_CONTEXT_STATE_CONNECT \<Rightarrow> Some MILTER_COMMAND_CONNECT
      | SERVER_CONTEXT_STATE_ENVELOPE_FROM \<Rightarrow> Some MILTER_COMMAND_ENVELOPE_FROM
      | SERVER_CONTEXT_STATE_ENVELOPE_RECIPIENT \<Rightarrow> Some MILTER_COMMAND_ENVELOPE_RECIPIENT
      | SERVER_CONTEXT_STATE_DATA \<Rightarrow> Some MILTER_COMMAND_DATA
      | SERVER_CONTEXT_STATE_HEADER \<Rightarrow> Some MILTER_COMMAND_HEADER
      | SERVER_CONTEXT_STATE_END_OF_HEADER \<Rightarrow> Some MILTER_COMMAND_END_OF_HEADER
      | SERVER_CONTEXT_STATE_BODY \<Rightarrow> Some MILTER_COMMAND_BODY
      | SERVER_CONTEXT_STATE_END_OF_MESSAGE \<Rightarrow> Some MILTER_COMMAND_END_OF_MESSAGE
      | _ \<Rightarrow> None)"

definition write_packet ::
    "environment \<Rightarrow> server_context \<Rightarrow> bytes \<Rightarrow> server_context_state \<Rightarrow> bool \<times> server_context" where
  "write_packet env c packet next_state =
     (let urgent = (next_state = SERVER_CONTEXT_STATE_ABORT \<or> next_state = SERVER_CONTEXT_STATE_QUIT)
      in if \<not> urgent \<and> milter_server_context_is_processing c
         then (False, emit_error env SERVER_CONTEXT_ERROR_BUSY c)
         else
           let c = (if urgent then c else c\<lparr>ctx_timeout := Some Writing_timeout\<rparr>);
               (c, packed_packet) =
                 (case macro_command next_state of
                    Some command \<Rightarrow> prepend_macro env c packet command
                  | None \<Rightarrow> (c, packet))
           in if env_accepts_write env packed_packet
              then (True, c\<lparr>written := written c @ [packed_packet],
                            next_states := next_states c @ [next_state]\<rparr>)
              else (False, emit_error env SERVER_CONTEXT_ERROR_IO_ERROR (disable_timeout c)))"

subsection \<open>The processed message\<close>

definition replied_state :: "server_context_state \<Rightarrow> milter_state option" where
  "replied_state st =
     (case st of
        SERVER_CONTEXT_STATE_ENVELOPE_FROM \<Rightarrow> Some MILTER_STATE_ENVELOPE_FROM_REPLIED
      | SERVER_CONTEXT_STATE_ENVELOPE_RECIPIENT \<Rightarrow> Some MILTER_STATE_ENVELOPE_RECIPIENT_REPLIED
      | SERVER_CONTEXT_STATE_DATA \<Rightarrow> Some MILTER_STATE_DATA_REPLIED
      | SERVER_CONTEXT_STATE_HEADER \<Rightarrow> Some MILTER_STATE_HEADER_REPLIED
      | SERVER_CONTEXT_STATE_END_OF_HEADER \<Rightarrow> Some MILTER_STATE_END_OF_HEADER_REPLIED
      | SERVER_CONTEXT_STATE_BODY \<Rightarrow> Some MILTER_STATE_BODY_REPLIED
      | SERVER_CONTEXT_STATE_END_OF_MESSAGE \<Rightarrow> Some MILTER_STATE_END_OF_MESSAGE_REPLIED
      | _ \<Rightarrow> None)"

definition emit_message_processed_signal :: "environment \<Rightarrow> server_context \<Rightarrow> server_context" where
  "emit_message_processed_signal env c =
     (case ctx_message_result c of
        None \<Rightarrow> c
      | Some r \<Rightarrow>
          let r = (case replied_state (ctx_state c) of
                     Some s \<Rightarrow> milter_message_result_set_state r s
                   | None \<Rightarrow> r);
              r = milter_message_result_set_status r (ctx_status c);
              c = emit env (Message_processed r) (c\<lparr>ctx_message_result := Some r\<rparr>)
          in c\<lparr>ctx_message_result := None\<rparr>)"

definition stop_on_state ::
    "environment \<Rightarrow> server_context \<Rightarrow> server_context_state \<Rightarrow> server_context" where
  "stop_on_state env c st =
     (let c = milter_server_context_set_state (c\<lparr>ctx_status := MILTER_STATUS_STOP\<rparr>) st;
          c = emit env Stopped c
      in if SERVER_CONTEXT_STATE_ENVELOPE_FROM \<le> ctx_state c \<and>
            ctx_state c \<le> SERVER_CONTEXT_STATE_END_OF_MESSAGE
         then emit_message_processed_signal env c else c)"

end
