(* ===== verification/Server_Context_Commands.thy ===== *)
theory Server_Context_Commands
  imports Server_Context
begin

text \<open>
  The commands of \<open>milter-server-context.c\<close>. Each answers whether it succeeded; a command
  the milter does not want is not sent, and the context pretends that the milter said
  continue (or skip, for a body).
\<close>

subsection \<open>The body\<close>

definition append_body_response_queue :: "server_context \<Rightarrow> server_context" where
  "append_body_response_queue c = c\<lparr>body_response_queue := body_response_queue c @ [0]\<rparr>"

definition increment_process_body_count :: "server_context \<Rightarrow> server_context result" where
  "increment_process_body_count c =
     (if body_response_queue c = [] then Fault Null_dereference
      else Ok (c\<lparr>body_response_queue :=
        butlast (body_response_queue c) @ [last (body_response_queue c) + 1]\<rparr>))"

definition flush_body :: "environment \<Rightarrow> server_context \<Rightarrow> (bool \<times> server_context) result" where
  "flush_body env c =
     (let c = append_body_response_queue c;
          (e, packet, packed_size) = milter_command_encoder_encode_body (ctx_encoder c) (ctx_body c);
          (ok, c) = write_packet env (c\<lparr>ctx_encoder := e\<rparr>) packet SERVER_CONTEXT_STATE_BODY
      in if \<not> ok then Ok (False, c)
         else bind_result (increment_process_body_count (c\<lparr>ctx_body := drop packed_size (ctx_body c)\<rparr>))
                (\<lambda>c. Ok (True, c)))"

definition process_next_state_body ::
    "environment \<Rightarrow> server_context \<Rightarrow> (bool \<times> server_context) result" where
  "process_next_state_body env c =
     (if ctx_body c = [] then Ok (True, c)
      else bind_result (milter_server_context_need_reply c SERVER_CONTEXT_STATE_BODY)
        (\<lambda>need_reply.
           if \<not> need_reply then flush_body env c
           else Ok (True, c\<lparr>ctx_timeout := Some Reading_timeout\<rparr>)))"

subsection \<open>After a flush\<close>

definition process_next_state ::
    "environment \<Rightarrow> server_context \<Rightarrow> server_context_state \<Rightarrow> server_context result" where
  "process_next_state env c next_state =
     (if next_state = SERVER_CONTEXT_STATE_INVALID
      then Ok (emit_error env SERVER_CONTEXT_ERROR_INVALID_STATE c)
      else
        let c = disable_timeout c
        in case next_state of
             SERVER_CONTEXT_STATE_END_OF_MESSAGE \<Rightarrow>
               Ok ((if process_body_count c = 0
                    then milter_server_context_set_state c next_state
                    else c\<lparr>sent_end_of_message := True\<rparr>)
                  \<lparr>ctx_timeout := Some End_of_message_timeout\<rparr>)
           | SERVER_CONTEXT_STATE_BODY \<Rightarrow>
               bind_result (process_next_state_body env (milter_server_context_set_state c next_state))
                 (\<lambda>(ok, c). Ok c)
           | SERVER_CONTEXT_STATE_QUIT \<Rightarrow>
               Ok (milter_server_context_set_state (c\<lparr>ctx_shutdown := True\<rparr>) next_state)
           | SERVER_CONTEXT_STATE_ABORT \<Rightarrow>
               (let c =
                  (if milter_status_is_pass (ctx_status c) \<and>
                      SERVER_CONTEXT_STATE_DEFINE_MACRO \<le> ctx_state c \<and>
                      ctx_state c < SERVER_CONTEXT_STATE_END_OF_MESSAGE
                   then if ctx_state c = SERVER_CONTEXT_STATE_ENVELOPE_RECIPIENT \<and>
                           envelope_recipient_status c \<noteq> MILTER_STATUS_DEFAULT
                        then c\<lparr>ctx_status := envelope_recipient_status c\<rparr>
                        else c\<lparr>ctx_status := MILTER_STATUS_ABORT\<rparr>
                   else c);
                  c = milter_server_context_set_state c next_state;
                  c = emit_message_processed_signal env c
                in Ok (milter_server_context_reset_message_related_data c))
           | _ \<Rightarrow>
               (let c = (if next_state = SERVER_CONTEXT_STATE_ENVELOPE_FROM
                         then c\<lparr>processing_message := True\<rparr> else c);
                    c = milter_server_context_set_state c next_state
                in bind_result (milter_server_context_need_reply c next_state)
                     (\<lambda>need_reply. Ok (if need_reply
                        then c\<lparr>ctx_timeout := Some Reading_timeout\<rparr> else c))))"

fun process_next_states ::
    "environment \<Rightarrow> server_context \<Rightarrow> server_context_state list \<Rightarrow> server_context result" where
  "process_next_states env c [] = Ok c"
| "process_next_states env c (next_state # states) =
     bind_result (process_next_state env c next_state)
       (\<lambda>c. process_next_states env (emit env (State_transited next_state) c) states)"

definition flushed :: "environment \<Rightarrow> server_context \<Rightarrow> server_context result" where
  "flushed env c = process_next_states env (c\<lparr>next_states := []\<rparr>) (next_states c)"

subsection \<open>Session commands\<close>

definition milter_server_context_negotiate ::
    "environment \<Rightarrow> server_context \<Rightarrow> milter_option \<Rightarrow> bool \<times> server_context" where
  "milter_server_context_negotiate env c opt =
     (let c = c\<lparr>ctx_option := Some (milter_option_copy opt)\<rparr>;
          (e, packet) = milter_command_encoder_encode_negotiate (ctx_encoder c) (Some opt)
      in write_packet env (c\<lparr>ctx_encoder := e\<rparr>) packet SERVER_CONTEXT_STATE_NEGOTIATE)"

text \<open>What most commands do when the milter has asked not to get them.\<close>

definition skip_command ::
    "environment \<Rightarrow> server_context \<Rightarrow> server_context_state \<Rightarrow> reply_signal \<Rightarrow> bool \<times> server_context" where
  "skip_command env c st answer =
     (True, emit env (Reply answer) (milter_server_context_set_state c st))"

definition write_encoded ::
    "environment \<Rightarrow> server_context \<Rightarrow> milter_encoder \<times> bytes \<Rightarrow> server_context_state \<Rightarrow>
     bool \<times> server_context" where
  "write_encoded env c encoded st =
     write_packet env (c\<lparr>ctx_encoder := fst encoded\<rparr>) (snd encoded) st"

definition set_context_macro :: "server_context \<Rightarrow> milter_command \<Rightarrow> server_context" where
  "set_context_macro c command =
     c\<lparr>ctx_agent := milter_protocol_agent_set_macro_context (ctx_agent c) command\<rparr>"

definition milter_server_context_helo ::
    "environment \<Rightarrow> server_context \<Rightarrow> bytes \<Rightarrow> bool \<times> server_context" where
  "milter_server_context_helo env c fqdn =
     (if env_stop env (Stop_on_helo fqdn)
      then (True, stop_on_state env c SERVER_CONTEXT_STATE_HELO)
      else if milter_server_context_is_enable_step c MILTER_STEP_NO_HELO
      then skip_command env c SERVER_CONTEXT_STATE_HELO Sig_continue
      else write_encoded env c (milter_command_encoder_encode_helo (ctx_encoder c) fqdn)
             SERVER_CONTEXT_STATE_HELO)"

definition milter_server_context_connect ::
    "environment \<Rightarrow> server_context \<Rightarrow> bytes \<Rightarrow> sockaddr \<Rightarrow> bool \<times> server_context" where
  "milter_server_context_connect env c host_name address =
     (let c = set_context_macro c MILTER_COMMAND_CONNECT
      in if env_stop env (Stop_on_connect host_name address)
         then (True, stop_on_state env c SERVER_CONTEXT_STATE_CONNECT)
         else if milter_server_context_is_enable_step c MILTER_STEP_NO_CONNECT
         then skip_command env c SERVER_CONTEXT_STATE_CONNECT Sig_continue
         else write_encoded env c
                (milter_command_encoder_encode_connect (env_platform env) (ctx_encoder c)
                   host_name address)
                SERVER_CONTEXT_STATE_CONNECT)"

definition milter_server_context_unknown ::
    "environment \<Rightarrow> server_context \<Rightarrow> bytes \<Rightarrow> bool \<times> server_context" where
  "milter_server_context_unknown env c command =
     (if milter_server_context_is_enable_step c MILTER_STEP_NO_UNKNOWN
      then skip_command env c SERVER_CONTEXT_STATE_UNKNOWN Sig_continue
      else write_encoded env c (milter_command_encoder_encode_unknown (ctx_encoder c) command)
             SERVER_CONTEXT_STATE_UNKNOWN)"

definition milter_server_context_quit :: "environment \<Rightarrow> server_context \<Rightarrow> bool \<times> server_context" where
  "milter_server_context_quit env c =
     (let c = c\<lparr>quitted := True\<rparr>
      in write_encoded env c (milter_command_encoder_encode_quit (ctx_encoder c))
           SERVER_CONTEXT_STATE_QUIT)"

definition milter_server_context_abort :: "environment \<Rightarrow> server_context \<Rightarrow> bool \<times> server_context" where
  "milter_server_context_abort env c =
     (let (success, c) = write_encoded env c (milter_command_encoder_encode_abort (ctx_encoder c))
            SERVER_CONTEXT_STATE_ABORT
      in (success, c\<lparr>processing_message := False\<rparr>))"

subsection \<open>Message commands\<close>

definition note_message_state :: "server_context \<Rightarrow> milter_state \<Rightarrow> server_context" where
  "note_message_state c st = update_message_result (\<lambda>r. milter_message_result_set_state r st) c"

definition milter_server_context_envelope_from ::
    "environment \<Rightarrow> server_context \<Rightarrow> bytes \<Rightarrow> bool \<times> server_context" where
  "milter_server_context_envelope_from env c sender =
     (let c = ensure_message_result (c\<lparr>ctx_status := MILTER_STATUS_NOT_CHANGE\<rparr>);
          c = update_message_result (\<lambda>r. milter_message_result_set_from r sender) c;
          c = note_message_state c MILTER_STATE_ENVELOPE_FROM;
          c = set_context_macro c MILTER_COMMAND_ENVELOPE_FROM
      in if env_stop env (Stop_on_envelope_from sender)
         then (True, stop_on_state env c SERVER_CONTEXT_STATE_ENVELOPE_FROM)
         else
           let c = c\<lparr>processing_message := True\<rparr>
           in if milter_server_context_is_enable_step c MILTER_STEP_NO_ENVELOPE_FROM
              then skip_command env c SERVER_CONTEXT_STATE_ENVELOPE_FROM Sig_continue
              else write_encoded env c
                     (milter_command_encoder_encode_envelope_from (ctx_encoder c) sender)
                     SERVER_CONTEXT_STATE_ENVELOPE_FROM)"

definition milter_server_context_envelope_recipient ::
    "environment \<Rightarrow> server_context \<Rightarrow> bytes \<Rightarrow> bool \<times> server_context" where
  "milter_server_context_envelope_recipient env c recipient =
     (let c = ensure_message_result (c\<lparr>current_recipient := Some recipient\<rparr>);
          c = update_message_result (\<lambda>r. milter_message_result_add_recipient r recipient) c;
          c = note_message_state c MILTER_STATE_ENVELOPE_RECIPIENT;
          c = set_context_macro c MILTER_COMMAND_ENVELOPE_RECIPIENT
      in if env_stop env (Stop_on_envelope_recipient recipient)
         then (True, stop_on_state env c SERVER_CONTEXT_STATE_ENVELOPE_RECIPIENT)
         else if milter_server_context_is_enable_step c MILTER_STEP_NO_ENVELOPE_RECIPIENT
         then skip_command env c SERVER_CONTEXT_STATE_ENVELOPE_RECIPIENT Sig_continue
         else write_encoded env c
                (milter_command_encoder_encode_envelope_recipient (ctx_encoder c) recipient)
                SERVER_CONTEXT_STATE_ENVELOPE_RECIPIENT)"

definition milter_server_context_data ::
    "environment \<Rightarrow> server_context \<Rightarrow> (bool \<times> server_context) result" where
  "milter_server_context_data env c =
     (let c = note_message_state (ensure_message_result c) MILTER_STATE_DATA;
          c = set_context_macro c MILTER_COMMAND_DATA
      in if env_stop env Stop_on_data
         then Ok (True, stop_on_state env c SERVER_CONTEXT_STATE_DATA)
         else case ctx_option c of
                None \<Rightarrow> Fault Null_dereference
              | Some opt \<Rightarrow> Ok
                 (if version opt < 4 \<or> milter_server_context_is_enable_step c MILTER_STEP_NO_DATA
                  then skip_command env c SERVER_CONTEXT_STATE_DATA Sig_continue
                  else write_encoded env c (milter_command_encoder_encode_data (ctx_encoder c))
                         SERVER_CONTEXT_STATE_DATA))"

text \<open>\<open>g_string_append\<close> ignores a \<open>NULL\<close> value with a warning.\<close>

definition milter_server_context_header ::
    "environment \<Rightarrow> server_context \<Rightarrow> bytes \<Rightarrow> bytes option \<Rightarrow> bool \<times> server_context" where
  "milter_server_context_header env c name value =
     (let c = ensure_message_result c;
          c = update_message_result (\<lambda>r. r\<lparr>result_headers :=
                map_option (\<lambda>hs. milter_headers_add_header hs name value) (result_headers r)\<rparr>) c;
          c = note_message_state c MILTER_STATE_HEADER;
          c = set_context_macro c MILTER_COMMAND_HEADER
      in if env_stop env (Stop_on_header name value)
         then (True, stop_on_state env c SERVER_CONTEXT_STATE_HEADER)
         else if milter_server_context_is_enable_step c MILTER_STEP_NO_HEADERS
         then skip_command env c SERVER_CONTEXT_STATE_HEADER Sig_continue
         else write_encoded env c
                (milter_command_encoder_encode_header (ctx_encoder c) name
                   (case value of None \<Rightarrow> [] | Some v \<Rightarrow> v))
                SERVER_CONTEXT_STATE_HEADER)"

definition milter_server_context_end_of_header ::
    "environment \<Rightarrow> server_context \<Rightarrow> bool \<times> server_context" where
  "milter_server_context_end_of_header env c =
     (let c = note_message_state (ensure_message_result c) MILTER_STATE_END_OF_HEADER;
          c = set_context_macro c MILTER_COMMAND_END_OF_HEADER
      in if env_stop env Stop_on_end_of_header
         then (True, stop_on_state env c SERVER_CONTEXT_STATE_END_OF_HEADER)
         else if milter_server_context_is_enable_step c MILTER_STEP_NO_END_OF_HEADER
         then skip_command env c SERVER_CONTEXT_STATE_END_OF_HEADER Sig_continue
         else write_encoded env c (milter_command_encoder_encode_end_of_header (ctx_encoder c))
                SERVER_CONTEXT_STATE_END_OF_HEADER)"

definition milter_server_context_body ::
    "environment \<Rightarrow> server_context \<Rightarrow> bytes \<Rightarrow> (bool \<times> server_context) result" where
  "milter_server_context_body env c chunk =
     (let c = ensure_message_result c;
          c = update_message_result
                (\<lambda>r. milter_message_result_add_body_size r (word_of_nat (length chunk))) c;
          c = note_message_state c MILTER_STATE_BODY;
          c = set_context_macro c MILTER_COMMAND_BODY
      in if env_stop env (Stop_on_body chunk)
         then Ok (True, stop_on_state env c SERVER_CONTEXT_STATE_BODY)
         else if milter_server_context_is_enable_step c MILTER_STEP_NO_BODY
         then Ok (skip_command env c SERVER_CONTEXT_STATE_BODY Sig_skip)
         else flush_body env (c\<lparr>ctx_body := ctx_body c @ chunk\<rparr>))"

definition milter_server_context_end_of_message ::
    "environment \<Rightarrow> server_context \<Rightarrow> bytes option \<Rightarrow> bool \<times> server_context" where
  "milter_server_context_end_of_message env c chunk =
     (let c = ensure_message_result c;
          c = update_message_result (\<lambda>r. milter_message_result_add_body_size r
                (case chunk of None \<Rightarrow> 0 | Some b \<Rightarrow> word_of_nat (length b))) c;
          c = note_message_state c MILTER_STATE_END_OF_MESSAGE;
          c = set_context_macro c MILTER_COMMAND_END_OF_MESSAGE
      in if env_stop env (Stop_on_end_of_message chunk)
         then (True, stop_on_state env c SERVER_CONTEXT_STATE_END_OF_MESSAGE)
         else write_encoded env c
                (milter_command_encoder_encode_end_of_message (ctx_encoder c) chunk)
                SERVER_CONTEXT_STATE_END_OF_MESSAGE)"

end
