(* ===== verification/Server_Context_Replies.thy ===== *)
theory Server_Context_Replies
  imports Server_Context_Commands
begin

text \<open>
  The answers of a milter in \<open>milter-server-context.c\<close>: one handler per reply the decoder
  emits, and their dispatch.
\<close>

definition check_reply_after_quit :: "server_context \<Rightarrow> bool" where
  "check_reply_after_quit c \<longleftrightarrow> \<not> quitted c"

definition invalid_state :: "environment \<Rightarrow> server_context \<Rightarrow> server_context" where
  "invalid_state env c = emit_error env SERVER_CONTEXT_ERROR_INVALID_STATE c"

subsection \<open>Negotiation\<close>

definition cb_decoder_negotiate_reply ::
    "environment \<Rightarrow> server_context \<Rightarrow> milter_option \<Rightarrow> macros_requests option \<Rightarrow> server_context" where
  "cb_decoder_negotiate_reply env c opt requests =
     (let st = ctx_state c;
          c = disable_timeout c;
          (ok, c) =
            (case ctx_option c of
               Some own \<Rightarrow>
                 (let (ok, own) = milter_option_combine own opt in (ok, c\<lparr>ctx_option := Some own\<rparr>))
             | None \<Rightarrow> (True, c\<lparr>ctx_option := Some (milter_option_copy opt)\<rparr>))
      in if \<not> ok then emit_error env SERVER_CONTEXT_ERROR_NEWER_VERSION_REQUESTED c
         else if st = SERVER_CONTEXT_STATE_NEGOTIATE
         then if check_reply_after_quit c
              then emit env (Reply (Sig_negotiate_reply opt requests))
                     (c\<lparr>negotiated := True,
                        ctx_agent := milter_protocol_agent_set_macros_requests (ctx_agent c) requests\<rparr>)
              else c
         else invalid_state env c)"

subsection \<open>Continue\<close>

definition clear_process_body_count :: "server_context \<Rightarrow> server_context" where
  "clear_process_body_count c =
     (let c = c\<lparr>body_response_queue := []\<rparr>
      in if sent_end_of_message c
         then milter_server_context_set_state c SERVER_CONTEXT_STATE_END_OF_MESSAGE else c)"

text \<open>A body answer nobody waits for is only logged.\<close>

definition decrement_process_body_count :: "environment \<Rightarrow> server_context \<Rightarrow> server_context" where
  "decrement_process_body_count env c =
     (case body_response_queue c of
        [] \<Rightarrow> c
      | n # queue \<Rightarrow>
          if n - 1 = 0
          then (let c = emit env (Reply Sig_continue) (c\<lparr>body_response_queue := queue\<rparr>)
                in if sent_end_of_message c
                   then milter_server_context_set_state c SERVER_CONTEXT_STATE_END_OF_MESSAGE else c)
          else c\<lparr>body_response_queue := (n - 1) # queue\<rparr>)"

text \<open>The states in which continue, a reply code and the like answer a command.\<close>

definition replying_state :: "server_context_state \<Rightarrow> bool" where
  "replying_state st \<longleftrightarrow>
     SERVER_CONTEXT_STATE_CONNECT \<le> st \<and> st \<le> SERVER_CONTEXT_STATE_END_OF_MESSAGE"

definition cb_decoder_continue :: "environment \<Rightarrow> server_context \<Rightarrow> server_context result" where
  "cb_decoder_continue env c =
     (let c = disable_timeout c
      in if ctx_state c = SERVER_CONTEXT_STATE_BODY
         then if check_reply_after_quit c
              then (let c = decrement_process_body_count env c
                    in if ctx_body c \<noteq> []
                       then bind_result (flush_body env c) (\<lambda>(ok, c). Ok c)
                       else Ok c)
              else Ok c
         else if replying_state (ctx_state c)
         then if check_reply_after_quit c
              then (let c = emit env (Reply Sig_continue) c
                    in Ok (if ctx_state c = SERVER_CONTEXT_STATE_END_OF_MESSAGE
                           then emit_message_processed_signal env c else c))
              else Ok c
         else Ok (invalid_state env c))"

subsection \<open>Refusals\<close>

text \<open>
  A refusal in the recipient state concerns the current recipient, and forgets it.
\<close>

definition note_refusal :: "server_context \<Rightarrow> milter_status \<Rightarrow> server_context result" where
  "note_refusal c status =
     (if ctx_state c = SERVER_CONTEXT_STATE_ENVELOPE_RECIPIENT
      then
        let c = ensure_message_result (c\<lparr>envelope_recipient_status := status\<rparr>);
            c = update_message_result
                  (\<lambda>r. if status = MILTER_STATUS_TEMPORARY_FAILURE
                       then milter_message_result_add_temporary_failed_recipient r (current_recipient c)
                       else milter_message_result_add_rejected_recipient r (current_recipient c)) c
        in bind_result (milter_message_result_remove_recipient (the (ctx_message_result c))
              (current_recipient c))
             (\<lambda>r. Ok (c\<lparr>ctx_message_result := Some r, current_recipient := None\<rparr>))
      else Ok (c\<lparr>ctx_status := status\<rparr>))"

definition after_refusal :: "environment \<Rightarrow> server_context \<Rightarrow> server_context" where
  "after_refusal env c =
     (if SERVER_CONTEXT_STATE_ENVELOPE_FROM \<le> ctx_state c \<and>
         ctx_state c \<le> SERVER_CONTEXT_STATE_END_OF_MESSAGE \<and>
         ctx_state c \<noteq> SERVER_CONTEXT_STATE_ENVELOPE_RECIPIENT
      then emit_message_processed_signal env c else c)"

definition cb_decoder_reply_code ::
    "environment \<Rightarrow> server_context \<Rightarrow> nat \<Rightarrow> bytes \<Rightarrow> bytes option \<Rightarrow> server_context result" where
  "cb_decoder_reply_code env c code extended_code message =
     (let status = (if 400 \<le> code \<and> code < 500 then MILTER_STATUS_TEMPORARY_FAILURE
                    else MILTER_STATUS_REJECT)
      in bind_result (note_refusal c status)
           (\<lambda>c.
              let c = disable_timeout c;
                  st = ctx_state c;
                  c = (if st = SERVER_CONTEXT_STATE_BODY \<and> check_reply_after_quit c
                       then clear_process_body_count c else c)
              in if replying_state st
                 then if check_reply_after_quit c
                      then Ok (after_refusal env
                             (emit env (Reply (Sig_reply_code code extended_code message)) c))
                      else Ok c
                 else Ok (invalid_state env c)))"

definition clear_body_in_body_state :: "server_context \<Rightarrow> server_context" where
  "clear_body_in_body_state c =
     (if ctx_state c = SERVER_CONTEXT_STATE_BODY then clear_process_body_count c else c)"

definition cb_decoder_temporary_failure :: "environment \<Rightarrow> server_context \<Rightarrow> server_context result" where
  "cb_decoder_temporary_failure env c =
     bind_result (note_refusal c MILTER_STATUS_TEMPORARY_FAILURE)
       (\<lambda>c.
          let c = disable_timeout c
          in if \<not> check_reply_after_quit c then Ok c
             else Ok (clear_body_in_body_state
                    (after_refusal env (emit env (Reply Sig_temporary_failure) c))))"

definition cb_decoder_reject :: "environment \<Rightarrow> server_context \<Rightarrow> server_context result" where
  "cb_decoder_reject env c =
     bind_result (note_refusal c MILTER_STATUS_REJECT)
       (\<lambda>c.
          let c = disable_timeout c
          in if \<not> check_reply_after_quit c then Ok c
             else Ok (clear_body_in_body_state (after_refusal env (emit env (Reply Sig_reject) c))))"

subsection \<open>Accept and discard\<close>

definition after_final :: "environment \<Rightarrow> server_context \<Rightarrow> server_context" where
  "after_final env c =
     (if SERVER_CONTEXT_STATE_ENVELOPE_FROM \<le> ctx_state c \<and>
         ctx_state c \<le> SERVER_CONTEXT_STATE_END_OF_MESSAGE
      then emit_message_processed_signal env c else c)"

definition cb_decoder_accept :: "environment \<Rightarrow> server_context \<Rightarrow> server_context" where
  "cb_decoder_accept env c =
     (let c = disable_timeout (c\<lparr>ctx_status := MILTER_STATUS_ACCEPT\<rparr>)
      in if \<not> check_reply_after_quit c then c
         else clear_body_in_body_state (after_final env (emit env (Reply Sig_accept) c)))"

definition cb_decoder_discard :: "environment \<Rightarrow> server_context \<Rightarrow> server_context" where
  "cb_decoder_discard env c =
     (let c = disable_timeout (c\<lparr>ctx_status := MILTER_STATUS_DISCARD\<rparr>)
      in if \<not> check_reply_after_quit c then c
         else clear_body_in_body_state (after_final env (emit env (Reply Sig_discard) c)))"

subsection \<open>Modifications\<close>

text \<open>Only at the end of a message; \<open>note\<close> is what the handler records afterwards.\<close>

definition at_end_of_message ::
    "environment \<Rightarrow> server_context \<Rightarrow> reply_signal \<Rightarrow> (server_context \<Rightarrow> server_context) \<Rightarrow>
     server_context" where
  "at_end_of_message env c answer note =
     (if ctx_state c = SERVER_CONTEXT_STATE_END_OF_MESSAGE
      then if \<not> check_reply_after_quit c then c else note (emit env (Reply answer) c)
      else invalid_state env c)"

definition note_added_header :: "bytes \<Rightarrow> bytes option \<Rightarrow> server_context \<Rightarrow> server_context" where
  "note_added_header name value c =
     update_message_result (\<lambda>r. r\<lparr>added_headers :=
       map_option (\<lambda>hs. milter_headers_add_header hs name value) (added_headers r)\<rparr>)
       (ensure_message_result c)"

definition note_removed_header :: "bytes \<Rightarrow> server_context \<Rightarrow> server_context" where
  "note_removed_header name c =
     update_message_result (\<lambda>r. r\<lparr>removed_headers :=
       map_option (\<lambda>hs. milter_headers_add_header hs name None) (removed_headers r)\<rparr>)
       (ensure_message_result c)"

definition cb_decoder_add_header ::
    "environment \<Rightarrow> server_context \<Rightarrow> bytes \<Rightarrow> bytes \<Rightarrow> server_context" where
  "cb_decoder_add_header env c name value =
     at_end_of_message env c (Sig_add_header name value) (note_added_header name (Some value))"

definition cb_decoder_insert_header ::
    "environment \<Rightarrow> server_context \<Rightarrow> u32 \<Rightarrow> bytes \<Rightarrow> bytes option \<Rightarrow> server_context" where
  "cb_decoder_insert_header env c index name value =
     at_end_of_message env c (Sig_insert_header index name value) (note_added_header name value)"

definition cb_decoder_change_header ::
    "environment \<Rightarrow> server_context \<Rightarrow> bytes \<Rightarrow> u32 \<Rightarrow> bytes \<Rightarrow> server_context" where
  "cb_decoder_change_header env c name index value =
     at_end_of_message env c (Sig_change_header name index value)
       (note_added_header name (Some value))"

definition cb_decoder_delete_header ::
    "environment \<Rightarrow> server_context \<Rightarrow> bytes \<Rightarrow> u32 \<Rightarrow> server_context" where
  "cb_decoder_delete_header env c name index =
     at_end_of_message env c (Sig_delete_header name index) (note_removed_header name)"

definition cb_decoder_change_from ::
    "environment \<Rightarrow> server_context \<Rightarrow> bytes \<Rightarrow> bytes option \<Rightarrow> server_context" where
  "cb_decoder_change_from env c sender parameters =
     at_end_of_message env c (Sig_change_from sender parameters) id"

definition cb_decoder_add_recipient ::
    "environment \<Rightarrow> server_context \<Rightarrow> bytes \<Rightarrow> bytes option \<Rightarrow> server_context" where
  "cb_decoder_add_recipient env c recipient parameters =
     at_end_of_message env c (Sig_add_recipient recipient parameters) id"

definition cb_decoder_delete_recipient ::
    "environment \<Rightarrow> server_context \<Rightarrow> bytes \<Rightarrow> server_context" where
  "cb_decoder_delete_recipient env c recipient =
     at_end_of_message env c (Sig_delete_recipient recipient) id"

definition cb_decoder_replace_body :: "environment \<Rightarrow> server_context \<Rightarrow> bytes \<Rightarrow> server_context" where
  "cb_decoder_replace_body env c body = at_end_of_message env c (Sig_replace_body body) id"

definition cb_decoder_progress :: "environment \<Rightarrow> server_context \<Rightarrow> server_context" where
  "cb_decoder_progress env c =
     (if ctx_state c = SERVER_CONTEXT_STATE_END_OF_MESSAGE
      then if \<not> check_reply_after_quit c then c
           else emit env (Reply Sig_progress) (c\<lparr>ctx_timeout := Some End_of_message_timeout\<rparr>)
      else invalid_state env c)"

definition cb_decoder_quarantine :: "environment \<Rightarrow> server_context \<Rightarrow> bytes \<Rightarrow> server_context" where
  "cb_decoder_quarantine env c reason =
     at_end_of_message env (c\<lparr>ctx_status := MILTER_STATUS_QUARANTINE\<rparr>) (Sig_quarantine reason)
       (\<lambda>c. update_message_result (\<lambda>r. milter_message_result_set_quarantine r True)
              (ensure_message_result c))"

subsection \<open>The rest\<close>

definition cb_decoder_connection_failure :: "environment \<Rightarrow> server_context \<Rightarrow> server_context" where
  "cb_decoder_connection_failure env c =
     (let c = (disable_timeout c)\<lparr>ctx_status := MILTER_STATUS_ERROR\<rparr>
      in if \<not> check_reply_after_quit c then c else emit env (Reply Sig_connection_failure) c)"

definition cb_decoder_shutdown :: "environment \<Rightarrow> server_context \<Rightarrow> server_context" where
  "cb_decoder_shutdown env c =
     (let c = disable_timeout c
      in if \<not> check_reply_after_quit c then c else emit env (Reply Sig_shutdown) c)"

definition cb_decoder_skip :: "environment \<Rightarrow> server_context \<Rightarrow> server_context" where
  "cb_decoder_skip env c =
     (let c = disable_timeout c
      in if ctx_state c = SERVER_CONTEXT_STATE_BODY
         then if \<not> check_reply_after_quit c then c
              else (clear_process_body_count (emit env (Reply Sig_skip) c))\<lparr>skip_body := True\<rparr>
         else invalid_state env c)"

subsection \<open>Dispatch\<close>

text \<open>\<open>decoder_new\<close> connects one handler to each signal of the reply decoder.\<close>

definition handle_reply :: "environment \<Rightarrow> server_context \<Rightarrow> reply_signal \<Rightarrow> server_context result" where
  "handle_reply env c answer =
     (case answer of
        Sig_negotiate_reply opt requests \<Rightarrow> Ok (cb_decoder_negotiate_reply env c opt requests)
      | Sig_continue \<Rightarrow> cb_decoder_continue env c
      | Sig_reply_code code extended_code message \<Rightarrow>
          cb_decoder_reply_code env c code extended_code message
      | Sig_temporary_failure \<Rightarrow> cb_decoder_temporary_failure env c
      | Sig_reject \<Rightarrow> cb_decoder_reject env c
      | Sig_accept \<Rightarrow> Ok (cb_decoder_accept env c)
      | Sig_discard \<Rightarrow> Ok (cb_decoder_discard env c)
      | Sig_add_header name value \<Rightarrow> Ok (cb_decoder_add_header env c name value)
      | Sig_insert_header index name value \<Rightarrow> Ok (cb_decoder_insert_header env c index name value)
      | Sig_change_header name index value \<Rightarrow> Ok (cb_decoder_change_header env c name index value)
      | Sig_delete_header name index \<Rightarrow> Ok (cb_decoder_delete_header env c name index)
      | Sig_change_from sender parameters \<Rightarrow> Ok (cb_decoder_change_from env c sender parameters)
      | Sig_add_recipient recipient parameters \<Rightarrow>
          Ok (cb_decoder_add_recipient env c recipient parameters)
      | Sig_delete_recipient recipient \<Rightarrow> Ok (cb_decoder_delete_recipient env c recipient)
      | Sig_replace_body body \<Rightarrow> Ok (cb_decoder_replace_body env c body)
      | Sig_progress \<Rightarrow> Ok (cb_decoder_progress env c)
      | Sig_quarantine reason \<Rightarrow> Ok (cb_decoder_quarantine env c reason)
      | Sig_connection_failure \<Rightarrow> Ok (cb_decoder_connection_failure env c)
      | Sig_shutdown \<Rightarrow> Ok (cb_decoder_shutdown env c)
      | Sig_skip \<Rightarrow> Ok (cb_decoder_skip env c))"

text \<open>The timers: the observer hears of it and the agent shuts down.\<close>

definition cb_timeout :: "environment \<Rightarrow> server_context \<Rightarrow> server_timeout \<Rightarrow> server_context" where
  "cb_timeout env c t = (emit env (Timed_out t) c)\<lparr>ctx_shutdown := True\<rparr>"

end
