(* ===== verification/Command_Decoder.thy ===== *)
theory Command_Decoder
  imports Framing Command_Encoder
begin

text \<open>
  \<open>milter/core/milter-command-decoder.c\<close>: what a milter receives from the MTA. The
  handlers read the memory \<open>m\<close> behind \<open>milter_decoder_get_buffer\<close> and the command
  length \<open>cl\<close>; the signals they emit are the constructors of \<open>command_signal\<close>.
\<close>

subsection \<open>Signals\<close>

datatype command_signal =
    Sig_negotiate milter_option
  | Sig_define_macro milter_command "bytes \<rightharpoonup> bytes"
  | Sig_connect bytes sockaddr
  | Sig_helo bytes
  | Sig_envelope_from bytes
  | Sig_envelope_recipient bytes
  | Sig_data
  | Sig_header bytes bytes
  | Sig_end_of_header
  | Sig_body bytes
  | Sig_end_of_message "bytes option"
  | Sig_abort
  | Sig_quit
  | Sig_unknown bytes

subsection \<open>Macros\<close>

definition check_macro_context :: "char \<Rightarrow> milter_command result" where
  "check_macro_context c =
     (case command_of_char c of
        Some ctx \<Rightarrow>
          if ctx \<in> {MILTER_COMMAND_CONNECT, MILTER_COMMAND_HELO,
                    MILTER_COMMAND_ENVELOPE_FROM, MILTER_COMMAND_ENVELOPE_RECIPIENT,
                    MILTER_COMMAND_DATA, MILTER_COMMAND_HEADER,
                    MILTER_COMMAND_END_OF_HEADER, MILTER_COMMAND_BODY,
                    MILTER_COMMAND_END_OF_MESSAGE, MILTER_COMMAND_UNKNOWN}
          then Ok ctx
          else Refused (Some UNKNOWN_MACRO_CONTEXT)
      | None \<Rightarrow> Refused (Some UNKNOWN_MACRO_CONTEXT))"

text \<open>\<open>{name}\<close> is stored as \<open>name\<close>.\<close>

definition normalize_macro_key :: "bytes \<Rightarrow> bytes" where
  "normalize_macro_key key =
     (if hd key = CHR ''{'' \<and> last key = CHR ''}'' then butlast (tl key) else key)"

text \<open>
  The loop of \<open>decode_define_macros\<close>: \<open>p\<close> is \<open>buffer + i\<close>, \<open>len\<close> is \<open>length - i\<close>.
\<close>

function decode_define_macros_loop ::
    "bytes \<Rightarrow> int \<Rightarrow> (bytes \<rightharpoonup> bytes) \<Rightarrow> (bytes \<rightharpoonup> bytes) result" where
  "decode_define_macros_loop p len macros =
     (if len \<le> 0 then Ok macros
      else case milter_decoder_decode_null_terminated_value p len of
        Ok n \<Rightarrow>
          if n = 0 then Refused None
          else
            let key = take n p; p' = drop (n + 1) p; len' = len - int (n + 1)
            in (case milter_decoder_decode_null_terminated_value p' len' of
                  Ok k \<Rightarrow>
                    decode_define_macros_loop (drop (k + 1) p') (len' - int (k + 1))
                      (macros(normalize_macro_key key \<mapsto> cstr p'))
                | Refused e \<Rightarrow> Refused e
                | Fault f \<Rightarrow> Fault f)
      | Refused e \<Rightarrow> Refused e
      | Fault f \<Rightarrow> Fault f)"
  by pat_completeness auto
termination
  by (relation "measure (\<lambda>(p, len, macros). nat len)") auto

declare decode_define_macros_loop.simps [simp del]

definition decode_define_macros :: "bytes \<Rightarrow> int \<Rightarrow> (bytes \<rightharpoonup> bytes) result" where
  "decode_define_macros p len = decode_define_macros_loop p len Map.empty"

text \<open>The length that is checked is \<open>strlen(buffer) - 1\<close>, not the command length.\<close>

definition decode_define_macro ::
    "bytes \<Rightarrow> int \<Rightarrow> (gerror option \<times> command_signal) result" where
  "decode_define_macro m cl =
     bind_result (milter_decoder_check_command_length (drop 1 m)
                    (int (length (cstr m)) - 1) 1 MILTER_DECODER_COMPARE_AT_LEAST) (\<lambda>_.
     bind_result (read_bytes (drop 1 m) 1) (\<lambda>c.
     bind_result (check_macro_context (hd c)) (\<lambda>ctx.
     bind_result (decode_define_macros (drop 2 m) (cl - 1 - 1)) (\<lambda>macros.
       Ok (None, Sig_define_macro ctx macros)))))"

subsection \<open>Connect\<close>

definition decode_connect_inet_address ::
    "platform \<Rightarrow> u16 \<Rightarrow> bytes \<Rightarrow> sockaddr result" where
  "decode_connect_inet_address P port p =
     (case inet_pton4 P (cstr p) of
        None \<Rightarrow> Refused (Some INVALID_FORMAT)
      | Some a \<Rightarrow> Ok (Sockaddr_in port a))"

definition decode_connect_inet6_address ::
    "platform \<Rightarrow> u16 \<Rightarrow> bytes \<Rightarrow> sockaddr result" where
  "decode_connect_inet6_address P port p =
     (let address_offset = (if take 5 (cstr p) = ''IPv6:'' then 5 else 0)
      in case inet_pton6 P (drop address_offset (cstr p)) of
           None \<Rightarrow> Refused (Some INVALID_FORMAT)
         | Some a \<Rightarrow> Ok (Sockaddr_in6 port a))"

text \<open>
  \<open>sizeof(sun_path)\<close> is 108 on Linux; the path is copied with \<open>strcpy\<close>.
\<close>

definition sun_path_size :: nat where
  "sun_path_size = 108"

definition decode_connect_unix_address :: "bytes \<Rightarrow> sockaddr result" where
  "decode_connect_unix_address p =
     (if length (cstr p) + 1 > sun_path_size then Fault Overflow
      else Ok (Sockaddr_un (cstr p)))"

definition decode_connect_address ::
    "platform \<Rightarrow> milter_socket_family \<Rightarrow> u16 \<Rightarrow> bytes \<Rightarrow> sockaddr result" where
  "decode_connect_address P family port p =
     (case family of
        MILTER_SOCKET_FAMILY_INET \<Rightarrow> decode_connect_inet_address P port p
      | MILTER_SOCKET_FAMILY_INET6 \<Rightarrow> decode_connect_inet6_address P port p
      | MILTER_SOCKET_FAMILY_UNIX \<Rightarrow> decode_connect_unix_address p
      | MILTER_SOCKET_FAMILY_UNKNOWN \<Rightarrow> Ok Sockaddr_other)"

definition decode_connect_content ::
    "platform \<Rightarrow> bytes \<Rightarrow> int \<Rightarrow> (bytes \<times> sockaddr) result" where
  "decode_connect_content P p len =
     bind_result (milter_decoder_decode_null_terminated_value p len) (\<lambda>n.
       if n = 0 then Refused None
       else
         let host = cstr p; len1 = len - int (n + 1)
         in (case drop (n + 1) p of
               [] \<Rightarrow> Fault Overread
             | family # p2 \<Rightarrow>
                 let len2 = len1 - 1
                 in (case family_of_char family of
                       None \<Rightarrow> Refused (Some UNKNOWN_SOCKET_FAMILY)
                     | Some MILTER_SOCKET_FAMILY_UNKNOWN \<Rightarrow>
                         bind_result (milter_decoder_check_command_length p2 len2 0
                                        MILTER_DECODER_COMPARE_EXACT) (\<lambda>_.
                           Ok (host, Sockaddr_other))
                     | Some fam \<Rightarrow>
                         bind_result (milter_decoder_check_command_length p2 len2 2
                                        MILTER_DECODER_COMPARE_AT_LEAST) (\<lambda>_.
                         bind_result (read_bytes p2 2) (\<lambda>port.
                         bind_result (milter_decoder_decode_null_terminated_value
                                        (drop 2 p2) (len2 - 2)) (\<lambda>n'.
                           if n' = 0 then Refused None
                           else bind_result
                                  (decode_connect_address P fam (of_be16 port) (drop 2 p2))
                                  (\<lambda>a. Ok (host, a))))))))"

definition decode_connect ::
    "platform \<Rightarrow> bytes \<Rightarrow> int \<Rightarrow> (gerror option \<times> command_signal) result" where
  "decode_connect P m cl =
     bind_result (decode_connect_content P (drop 1 m) (cl - 1))
       (\<lambda>(host_name, address). Ok (None, Sig_connect host_name address))"

subsection \<open>The other commands\<close>

definition decode_helo :: "bytes \<Rightarrow> int \<Rightarrow> (gerror option \<times> command_signal) result" where
  "decode_helo = decode_one_string Sig_helo"

definition decode_envelope_from ::
    "bytes \<Rightarrow> int \<Rightarrow> (gerror option \<times> command_signal) result" where
  "decode_envelope_from = decode_one_string Sig_envelope_from"

definition decode_envelope_recipient ::
    "bytes \<Rightarrow> int \<Rightarrow> (gerror option \<times> command_signal) result" where
  "decode_envelope_recipient = decode_one_string Sig_envelope_recipient"

definition decode_data :: "bytes \<Rightarrow> int \<Rightarrow> (gerror option \<times> command_signal) result" where
  "decode_data = decode_no_argument Sig_data"

definition decode_header :: "bytes \<Rightarrow> int \<Rightarrow> (gerror option \<times> command_signal) result" where
  "decode_header m cl =
     bind_result (milter_decoder_decode_header_content (drop 1 m) (cl - 1))
       (\<lambda>(name, value). Ok (None, Sig_header name value))"

definition decode_end_of_header ::
    "bytes \<Rightarrow> int \<Rightarrow> (gerror option \<times> command_signal) result" where
  "decode_end_of_header = decode_no_argument Sig_end_of_header"

text \<open>The chunk is handed on as a pointer and a \<open>guint64\<close> size.\<close>

definition decode_body :: "bytes \<Rightarrow> int \<Rightarrow> (gerror option \<times> command_signal) result" where
  "decode_body m cl =
     bind_result (read_bytes (drop 1 m) (cl - 1)) (\<lambda>chunk. Ok (None, Sig_body chunk))"

definition decode_end_of_message ::
    "bytes \<Rightarrow> int \<Rightarrow> (gerror option \<times> command_signal) result" where
  "decode_end_of_message m cl =
     (if cl > 1
      then bind_result (read_bytes (drop 1 m) (cl - 1))
             (\<lambda>chunk. Ok (None, Sig_end_of_message (Some chunk)))
      else Ok (None, Sig_end_of_message None))"

definition decode_abort :: "bytes \<Rightarrow> int \<Rightarrow> (gerror option \<times> command_signal) result" where
  "decode_abort = decode_no_argument Sig_abort"

definition decode_quit :: "bytes \<Rightarrow> int \<Rightarrow> (gerror option \<times> command_signal) result" where
  "decode_quit = decode_no_argument Sig_quit"

definition decode_unknown :: "bytes \<Rightarrow> int \<Rightarrow> (gerror option \<times> command_signal) result" where
  "decode_unknown = decode_one_string Sig_unknown"

definition decode_negotiate ::
    "bytes \<Rightarrow> int \<Rightarrow> (gerror option \<times> command_signal) result" where
  "decode_negotiate m cl =
     bind_result (milter_decoder_decode_negotiate m cl) (\<lambda>(opt, processed_length).
     bind_result (milter_decoder_check_command_length (drop processed_length m)
                    (cl - int processed_length) 0 MILTER_DECODER_COMPARE_EXACT) (\<lambda>_.
       Ok (None, Sig_negotiate opt)))"

subsection \<open>The dispatcher\<close>

definition decode_command :: "platform \<Rightarrow> command_signal handler" where
  "decode_command P buffer cl =
     (let m = milter_decoder_get_buffer buffer
      in case command_of_char (hd m) of
           Some MILTER_COMMAND_NEGOTIATE \<Rightarrow> decode_negotiate m cl
         | Some MILTER_COMMAND_DEFINE_MACRO \<Rightarrow> decode_define_macro m cl
         | Some MILTER_COMMAND_CONNECT \<Rightarrow> decode_connect P m cl
         | Some MILTER_COMMAND_HELO \<Rightarrow> decode_helo m cl
         | Some MILTER_COMMAND_ENVELOPE_FROM \<Rightarrow> decode_envelope_from m cl
         | Some MILTER_COMMAND_ENVELOPE_RECIPIENT \<Rightarrow> decode_envelope_recipient m cl
         | Some MILTER_COMMAND_DATA \<Rightarrow> decode_data m cl
         | Some MILTER_COMMAND_HEADER \<Rightarrow> decode_header m cl
         | Some MILTER_COMMAND_END_OF_HEADER \<Rightarrow> decode_end_of_header m cl
         | Some MILTER_COMMAND_BODY \<Rightarrow> decode_body m cl
         | Some MILTER_COMMAND_END_OF_MESSAGE \<Rightarrow> decode_end_of_message m cl
         | Some MILTER_COMMAND_ABORT \<Rightarrow> decode_abort m cl
         | Some MILTER_COMMAND_QUIT \<Rightarrow> decode_quit m cl
         | Some MILTER_COMMAND_UNKNOWN \<Rightarrow> decode_unknown m cl
         | _ \<Rightarrow> Refused (Some UNEXPECTED_COMMAND))"

end
