(* ===== verification/Command_Codec.thy ===== *)
theory Command_Codec
  imports Command_Decoder "HOL-Library.Multiset"
begin

text \<open>
  The contract between \<open>milter-command-encoder.c\<close> and \<open>milter-command-decoder.c\<close>: the
  calls an MTA makes on an encoder, the signals a milter must see for them, and the
  interpretation of \<open>packet_handler\<close> that gives the chunking theorem for commands.
\<close>

subsection \<open>Calls on the encoder\<close>

datatype command =
    is_Cmd_negotiate: Cmd_negotiate milter_option
  | Cmd_define_macro milter_command "macro_table option"
  | Cmd_connect bytes sockaddr
  | Cmd_helo bytes
  | Cmd_envelope_from bytes
  | Cmd_envelope_recipient bytes
  | Cmd_data
  | Cmd_header bytes bytes
  | Cmd_end_of_header
  | Cmd_body bytes
  | Cmd_end_of_message "bytes option"
  | Cmd_abort
  | Cmd_quit
  | Cmd_unknown bytes

fun encode_command :: "platform \<Rightarrow> milter_encoder \<Rightarrow> command \<Rightarrow> milter_encoder \<times> bytes" where
  "encode_command P e (Cmd_negotiate opt) =
     milter_command_encoder_encode_negotiate e (Some opt)"
| "encode_command P e (Cmd_define_macro ctx macros) =
     milter_command_encoder_encode_define_macro P e ctx macros"
| "encode_command P e (Cmd_connect host a) = milter_command_encoder_encode_connect P e host a"
| "encode_command P e (Cmd_helo fqdn) = milter_command_encoder_encode_helo e fqdn"
| "encode_command P e (Cmd_envelope_from s) = milter_command_encoder_encode_envelope_from e s"
| "encode_command P e (Cmd_envelope_recipient s) =
     milter_command_encoder_encode_envelope_recipient e s"
| "encode_command P e Cmd_data = milter_command_encoder_encode_data e"
| "encode_command P e (Cmd_header n v) = milter_command_encoder_encode_header e n v"
| "encode_command P e Cmd_end_of_header = milter_command_encoder_encode_end_of_header e"
| "encode_command P e (Cmd_body chunk) =
     (case milter_command_encoder_encode_body e chunk of (e', packet, n) \<Rightarrow> (e', packet))"
| "encode_command P e (Cmd_end_of_message chunk) =
     milter_command_encoder_encode_end_of_message e chunk"
| "encode_command P e Cmd_abort = milter_command_encoder_encode_abort e"
| "encode_command P e Cmd_quit = milter_command_encoder_encode_quit e"
| "encode_command P e (Cmd_unknown s) = milter_command_encoder_encode_unknown e s"

fun encode_commands :: "platform \<Rightarrow> milter_encoder \<Rightarrow> command list \<Rightarrow> bytes list" where
  "encode_commands P e [] = []"
| "encode_commands P e (c # cs) =
     (case encode_command P e c of (e', packet) \<Rightarrow> packet # encode_commands P e' cs)"

subsection \<open>What the other side must see\<close>

definition normalized_macros :: "macro_table \<Rightarrow> bytes \<rightharpoonup> bytes" where
  "normalized_macros macros =
     map_of (map (\<lambda>(k, v). (normalize_macro_key k, case v of None \<Rightarrow> [] | Some v \<Rightarrow> v)) macros)"

fun signal_of_command :: "command \<Rightarrow> command_signal" where
  "signal_of_command (Cmd_negotiate opt) = Sig_negotiate opt"
| "signal_of_command (Cmd_define_macro ctx macros) =
     Sig_define_macro ctx (case macros of None \<Rightarrow> Map.empty | Some ms \<Rightarrow> normalized_macros ms)"
| "signal_of_command (Cmd_connect host a) = Sig_connect host a"
| "signal_of_command (Cmd_helo s) = Sig_helo s"
| "signal_of_command (Cmd_envelope_from s) = Sig_envelope_from s"
| "signal_of_command (Cmd_envelope_recipient s) = Sig_envelope_recipient s"
| "signal_of_command Cmd_data = Sig_data"
| "signal_of_command (Cmd_header n v) = Sig_header n v"
| "signal_of_command Cmd_end_of_header = Sig_end_of_header"
| "signal_of_command (Cmd_body chunk) = Sig_body (take MILTER_CHUNK_SIZE chunk)"
| "signal_of_command (Cmd_end_of_message chunk) =
     Sig_end_of_message (if chunk = Some [] then None else chunk)"
| "signal_of_command Cmd_abort = Sig_abort"
| "signal_of_command Cmd_quit = Sig_quit"
| "signal_of_command (Cmd_unknown s) = Sig_unknown s"

text \<open>
  The laws of the platform: address conversion round-trips and prints non-empty strings;
  sorting permutes.
\<close>

definition platform_laws :: "platform \<Rightarrow> bool" where
  "platform_laws P \<longleftrightarrow>
     (\<forall>a. inet_pton4 P (inet_ntop4 P a) = Some a \<and> inet_ntop4 P a \<noteq> [] \<and>
          c_string (inet_ntop4 P a)) \<and>
     (\<forall>a. inet_pton6 P (inet_ntop6 P a) = Some a \<and> inet_ntop6 P a \<noteq> [] \<and>
          c_string (inet_ntop6 P a)) \<and>
     (\<forall>f xs. mset (g_list_sort P f xs) = mset xs)"

definition wf_macros :: "macro_table \<Rightarrow> bool" where
  "wf_macros macros \<longleftrightarrow>
     (\<forall>(k, v) \<in> set macros. wf_string k \<and> (case v of None \<Rightarrow> True | Some v \<Rightarrow> c_string v)) \<and>
     distinct (map (normalize_macro_key \<circ> fst) macros)"

definition wf_sockaddr :: "sockaddr \<Rightarrow> bool" where
  "wf_sockaddr a \<longleftrightarrow>
     (case a of Sockaddr_un path \<Rightarrow> wf_string path \<and> length path < sun_path_size | _ \<Rightarrow> True)"

fun wf_arguments :: "command \<Rightarrow> bool" where
  "wf_arguments (Cmd_negotiate opt) = wf_option opt"
| "wf_arguments (Cmd_define_macro ctx macros) =
     (check_macro_context (command_code ctx) = Ok ctx \<and>
      (case macros of None \<Rightarrow> True | Some ms \<Rightarrow> wf_macros ms))"
| "wf_arguments (Cmd_connect host a) = (wf_string host \<and> wf_sockaddr a)"
| "wf_arguments (Cmd_helo s) = wf_string s"
| "wf_arguments (Cmd_envelope_from s) = wf_string s"
| "wf_arguments (Cmd_envelope_recipient s) = wf_string s"
| "wf_arguments (Cmd_header n v) = (wf_string n \<and> c_string v)"
| "wf_arguments (Cmd_unknown s) = wf_string s"
| "wf_arguments _ = True"

text \<open>\<open>command_body P c\<close>: the packet a fresh encoder makes, without its length prefix.\<close>

definition command_body :: "platform \<Rightarrow> command \<Rightarrow> bytes" where
  "command_body P c = drop 4 (snd (encode_command P milter_encoder_new c))"

definition wf_command :: "platform \<Rightarrow> command \<Rightarrow> bool" where
  "wf_command P c \<longleftrightarrow> wf_arguments c \<and> length (command_body P c) < 2 ^ 24"

text \<open>Only the first packet of an encoder may be a negotiation.\<close>

definition wf_session :: "platform \<Rightarrow> command list \<Rightarrow> bool" where
  "wf_session P cs \<longleftrightarrow> (\<forall>c \<in> set cs. wf_command P c) \<and> (\<forall>c \<in> set (tl cs). \<not> is_Cmd_negotiate c)"

subsection \<open>Packet bodies\<close>

lemmas command_encoder_defs =
  milter_command_encoder_encode_negotiate_def milter_command_encoder_encode_define_macro_def
  milter_command_encoder_encode_connect_def milter_command_encoder_encode_helo_def
  milter_command_encoder_encode_envelope_from_def
  milter_command_encoder_encode_envelope_recipient_def
  milter_command_encoder_encode_data_def milter_command_encoder_encode_header_def
  milter_command_encoder_encode_end_of_header_def milter_command_encoder_encode_body_def
  milter_command_encoder_encode_end_of_message_def milter_command_encoder_encode_abort_def
  milter_command_encoder_encode_quit_def milter_command_encoder_encode_unknown_def

lemma command_bodies [codec_simps]:
  "command_body P (Cmd_negotiate opt) =
     command_code MILTER_COMMAND_NEGOTIATE #
       be32 (version opt) @ be32 (action opt) @ be32 (step opt)"
  "command_body P (Cmd_define_macro ctx macros) =
     command_code MILTER_COMMAND_DEFINE_MACRO # command_code ctx #
       (case macros of None \<Rightarrow> [] | Some ms \<Rightarrow> encode_macros P ms)"
  "command_body P (Cmd_connect host a) =
     command_code MILTER_COMMAND_CONNECT # host @ NUL #
       (case a of
          Sockaddr_in port ip \<Rightarrow> encode_connect_inet P port ip @ [NUL]
        | Sockaddr_in6 port ip6 \<Rightarrow> encode_connect_inet6 P port ip6 @ [NUL]
        | Sockaddr_un path \<Rightarrow> encode_connect_unix path @ [NUL]
        | Sockaddr_other \<Rightarrow> encode_connect_unknown)"
  "command_body P (Cmd_helo s) = command_code MILTER_COMMAND_HELO # s @ [NUL]"
  "command_body P (Cmd_envelope_from s) = command_code MILTER_COMMAND_ENVELOPE_FROM # s @ [NUL]"
  "command_body P (Cmd_envelope_recipient s) =
     command_code MILTER_COMMAND_ENVELOPE_RECIPIENT # s @ [NUL]"
  "command_body P Cmd_data = [command_code MILTER_COMMAND_DATA]"
  "command_body P (Cmd_header n v) =
     command_code MILTER_COMMAND_HEADER # n @ NUL # v @ [NUL]"
  "command_body P Cmd_end_of_header = [command_code MILTER_COMMAND_END_OF_HEADER]"
  "command_body P (Cmd_body chunk) =
     command_code MILTER_COMMAND_BODY # take MILTER_CHUNK_SIZE chunk"
  "command_body P (Cmd_end_of_message tail) =
     command_code MILTER_COMMAND_END_OF_MESSAGE # (case tail of None \<Rightarrow> [] | Some c \<Rightarrow> c)"
  "command_body P Cmd_abort = [command_code MILTER_COMMAND_ABORT]"
  "command_body P Cmd_quit = [command_code MILTER_COMMAND_QUIT]"
  "command_body P (Cmd_unknown s) = command_code MILTER_COMMAND_UNKNOWN # s @ [NUL]"
  by (simp_all add: command_body_def command_encoder_defs milter_encoder_pack_eq frame_def
      enc_buffer_negotiate Let_def min_def not_less split: option.splits sockaddr.splits)

text \<open>Every encoding starts from a cleared buffer, except the negotiation.\<close>

lemma encode_command_packet:
  "\<not> is_Cmd_negotiate c \<or> enc_buffer e = [] \<Longrightarrow>
     snd (encode_command P e c) = frame (command_body P c)"
  by (cases c) (auto simp: command_bodies command_encoder_defs milter_encoder_pack_eq
      enc_buffer_negotiate Let_def min_def not_less split: option.splits sockaddr.splits)

lemma encode_commands_no_negotiate:
  "\<forall>c \<in> set cs. \<not> is_Cmd_negotiate c \<Longrightarrow>
     concat (encode_commands P e cs) = stream (map (command_body P) cs)"
proof (induction cs arbitrary: e)
  case Nil
  then show ?case by simp
next
  case (Cons c cs)
  then show ?case
    using encode_command_packet [of c e P] by (auto split: prod.splits)
qed

lemma encode_commands_stream:
  assumes "wf_session P cs"
  shows "concat (encode_commands P milter_encoder_new cs) = stream (map (command_body P) cs)"
proof (cases cs)
  case Nil
  then show ?thesis by simp
next
  case (Cons c cs')
  with assms have "\<forall>c \<in> set cs'. \<not> is_Cmd_negotiate c" by (simp add: wf_session_def)
  with Cons encode_commands_no_negotiate encode_command_packet [of c milter_encoder_new P]
  show ?thesis by (auto split: prod.splits)
qed

subsection \<open>Macros through the codec\<close>

lemma normalize_encode_macro_name:
  "key \<noteq> [] \<Longrightarrow> normalize_macro_key (encode_macro_name key) = normalize_macro_key key"
  by (cases key) (auto simp: encode_macro_name_def normalize_macro_key_def)

lemma encode_macro_name_string:
  "wf_string key \<Longrightarrow> c_string (encode_macro_name key) \<and> encode_macro_name key \<noteq> []"
  by (auto simp: encode_macro_name_def wf_string_def)

definition store_macro :: "macro_table \<Rightarrow> bytes \<Rightarrow> (bytes \<rightharpoonup> bytes) \<Rightarrow> (bytes \<rightharpoonup> bytes)" where
  "store_macro macros key m = m(normalize_macro_key key \<mapsto> macro_value macros key)"

lemma decode_define_macros_encoded:
  assumes "\<forall>k \<in> set ks. wf_string k \<and> c_string (macro_value macros k)"
    and "p = concat (map (encode_macro macros) ks)"
  shows "decode_define_macros_loop (p @ r) (int (length p)) m =
     Ok (fold (store_macro macros) ks m)"
  using assms
proof (induction ks arbitrary: p m)
  case Nil
  then show ?case by (simp add: decode_define_macros_loop.simps)
next
  case (Cons k ks)
  let ?n = "encode_macro_name k" and ?v = "macro_value macros k"
  let ?t = "concat (map (encode_macro macros) ks)"
  from Cons.prems(1) have k: "wf_string k" "c_string ?v" by auto
  then have n: "c_string ?n" "?n \<noteq> []" by (simp_all add: encode_macro_name_string)
  from k have "encode_macro macros k = ?n @ NUL # ?v @ [NUL]"
    by (simp add: encode_macro_def wf_string_def)
  then have p: "p = ?n @ NUL # ?v @ NUL # ?t"
    by (simp add: Cons.prems(2))
  have 1: "milter_decoder_decode_null_terminated_value
      (?n @ NUL # ?v @ NUL # ?t @ r) (int (length p)) = Ok (length ?n)"
    by (rule terminated_value_Ok) (simp_all add: n p)
  have 2: "milter_decoder_decode_null_terminated_value
      (?v @ NUL # ?t @ r) (int (length p) - int (length ?n + 1)) = Ok (length ?v)"
    by (rule terminated_value_Ok) (simp_all add: k p)
  have len: "int (length p) - int (length ?n + 1) - int (length ?v + 1) = int (length ?t)"
    by (simp add: p)
  have pos: "\<not> int (length p) \<le> 0" by (simp add: p)
  have key: "normalize_macro_key ?n = normalize_macro_key k"
    using k by (simp add: normalize_encode_macro_name wf_string_def)
  have IH: "decode_define_macros_loop (?t @ r) (int (length ?t))
      (m(normalize_macro_key k \<mapsto> ?v)) = Ok (fold (store_macro macros) ks (m(normalize_macro_key k \<mapsto> ?v)))"
    using Cons.IH [OF _ refl] Cons.prems(1) by simp
  have "decode_define_macros_loop (p @ r) (int (length p)) m =
      decode_define_macros_loop (?t @ r) (int (length ?t)) (m(normalize_macro_key k \<mapsto> ?v))"
    using n k pos
    by (subst decode_define_macros_loop.simps)
      (simp add: p 1 [unfolded p, simplified] 2 [unfolded p, simplified] key)
  with IH show ?case by (simp add: store_macro_def [of macros k m])
qed

lemma fold_store_macro:
  "fold (store_macro macros) ks m =
     m ++ map_of (rev (map (\<lambda>k. (normalize_macro_key k, macro_value macros k)) ks))"
  by (induction ks arbitrary: m) (auto simp: store_macro_def fun_eq_iff map_add_def split: option.splits)

lemma macro_value_member:
  assumes "distinct (map fst macros)" and "(k, v) \<in> set macros"
  shows "macro_value macros k = (case v of None \<Rightarrow> [] | Some v \<Rightarrow> v)"
  using assms by (simp add: macro_value_def split: option.splits)

lemma decode_define_macros_roundtrip:
  assumes "wf_macros macros" and "platform_laws P"
  shows "decode_define_macros (encode_macros P macros @ r) (int (length (encode_macros P macros))) =
     Ok (normalized_macros macros)"
proof -
  let ?ks = "g_list_sort P (compare_macro_key P) (map fst macros)"
  let ?f = "\<lambda>k. (normalize_macro_key k, macro_value macros k)"
  have d: "distinct (map normalize_macro_key (map fst macros))"
    using assms(1) by (simp add: wf_macros_def comp_def)
  then have df: "distinct (map fst macros)" by (metis distinct_map)
  have ms: "mset ?ks = mset (map fst macros)" using assms(2) by (simp add: platform_laws_def)
  then have set: "set ?ks = fst ` set macros" by (metis set_mset_mset set_map)
  have wf: "\<forall>k \<in> set ?ks. wf_string k \<and> c_string (macro_value macros k)"
    using assms(1) macro_value_member [OF df] unfolding set
    by (fastforce simp: wf_macros_def split: option.splits)
  have dk: "distinct (map normalize_macro_key ?ks)"
    using d ms by (metis mset_eq_imp_distinct_iff mset_map)
  have "map_of (rev (map ?f ?ks)) = normalized_macros macros"
    unfolding normalized_macros_def
  proof (subst map_of_inject_set)
    show "distinct (map fst (rev (map ?f ?ks)))"
      using dk by (simp add: comp_def flip: rev_map)
    show "distinct (map fst (map (\<lambda>(k, v). (normalize_macro_key k,
        case v of None \<Rightarrow> [] | Some v \<Rightarrow> v)) macros))"
      using d by (simp add: comp_def case_prod_beta)
    show "set (rev (map ?f ?ks)) = set (map (\<lambda>(k, v). (normalize_macro_key k,
        case v of None \<Rightarrow> [] | Some v \<Rightarrow> v)) macros)"
      using macro_value_member [OF df] by (force simp: set image_iff)
  qed
  then show ?thesis
    using decode_define_macros_encoded [OF wf refl, of r Map.empty]
    by (simp add: decode_define_macros_def encode_macros_def fold_store_macro)
qed

subsection \<open>The decoder on a valid packet\<close>

lemmas command_handlers =
  decode_helo_def decode_envelope_from_def decode_envelope_recipient_def decode_unknown_def
  decode_data_def decode_end_of_header_def decode_abort_def decode_quit_def

lemma get_buffer_Cons: "milter_decoder_get_buffer ((c # p) @ r) = c # p @ r @ [NUL]"
  by (simp add: milter_decoder_get_buffer_def)

lemma decode_header_valid:
  "wf_string n \<Longrightarrow> c_string v \<Longrightarrow>
     decode_header (c # n @ NUL # v @ NUL # r) (int (length n) + int (length v) + 3) =
       Ok (None, Sig_header n v)"
  by (simp add: decode_header_def milter_decoder_decode_header_content_def
      terminated_value_Ok wf_string_def Let_def)

lemma decode_negotiate_valid:
  "wf_option opt \<Longrightarrow>
     decode_negotiate (c # be32 (version opt) @ be32 (action opt) @ be32 (step opt) @ r) 13 =
       Ok (None, Sig_negotiate opt)"
  by (simp add: decode_negotiate_def milter_decoder_decode_negotiate_def codec_simps
      eval_nat_numeral)

lemma decode_define_macro_valid:
  assumes "check_macro_context (command_code ctx) = Ok ctx"
    and "case macros of None \<Rightarrow> True | Some ms \<Rightarrow> wf_macros ms" and "platform_laws P"
    and "body = (case macros of None \<Rightarrow> [] | Some ms \<Rightarrow> encode_macros P ms)"
  shows "decode_define_macro (command_code MILTER_COMMAND_DEFINE_MACRO # command_code ctx # body @ r)
       (int (length body) + 2) =
     Ok (None, Sig_define_macro ctx
       (case macros of None \<Rightarrow> Map.empty | Some ms \<Rightarrow> normalized_macros ms))"
proof -
  have "decode_define_macros (body @ r) (int (length body)) =
      Ok (case macros of None \<Rightarrow> Map.empty | Some ms \<Rightarrow> normalized_macros ms)"
  proof (cases macros)
    case None
    with assms(4) show ?thesis
      by (simp add: decode_define_macros_def decode_define_macros_loop.simps)
  next
    case (Some ms)
    with assms show ?thesis by (simp add: decode_define_macros_roundtrip)
  qed
  then show ?thesis
    using assms(1) by (simp add: decode_define_macro_def codec_simps read_bytes_def)
qed

lemma decode_connect_valid:
  assumes "wf_string host" and "wf_sockaddr a" and "platform_laws P"
    and "body = (case a of
          Sockaddr_in port ip \<Rightarrow> encode_connect_inet P port ip @ [NUL]
        | Sockaddr_in6 port ip6 \<Rightarrow> encode_connect_inet6 P port ip6 @ [NUL]
        | Sockaddr_un path \<Rightarrow> encode_connect_unix path @ [NUL]
        | Sockaddr_other \<Rightarrow> encode_connect_unknown)"
  shows "decode_connect P (c # host @ NUL # body @ r) (int (length host + length body) + 2) =
     Ok (None, Sig_connect host a)"
proof -
  have h: "milter_decoder_decode_null_terminated_value (host @ NUL # body @ r)
      (int (length host + length body) + 1) = Ok (length host)"
    using assms(1) by (intro terminated_value_Ok) (simp_all add: wf_string_def)
  show ?thesis
  proof (cases a)
    case (Sockaddr_in port ip)
    from assms(3) have ip: "c_string (inet_ntop4 P ip)" "inet_ntop4 P ip \<noteq> []"
      "inet_pton4 P (inet_ntop4 P ip) = Some ip" by (auto simp: platform_laws_def)
    have t: "milter_decoder_decode_null_terminated_value (inet_ntop4 P ip @ NUL # r)
        (int (length (inet_ntop4 P ip)) + 1) = Ok (length (inet_ntop4 P ip))"
      by (rule terminated_value_Ok) (simp_all add: ip)
    show ?thesis
      using assms h ip t by (simp add: Sockaddr_in decode_connect_def decode_connect_content_def
          encode_connect_inet_def codec_simps wf_string_def decode_connect_address_def
          decode_connect_inet_address_def)
  next
    case (Sockaddr_in6 port ip)
    from assms(3) have ip: "c_string (inet_ntop6 P ip)" "inet_ntop6 P ip \<noteq> []"
      "inet_pton6 P (inet_ntop6 P ip) = Some ip" by (auto simp: platform_laws_def)
    have t: "milter_decoder_decode_null_terminated_value ((''IPv6:'' @ inet_ntop6 P ip) @ NUL # r)
        (int (length (''IPv6:'' @ inet_ntop6 P ip)) + 1) = Ok (length (''IPv6:'' @ inet_ntop6 P ip))"
      by (rule terminated_value_Ok) (simp_all add: ip)
    show ?thesis
      using assms h ip t by (simp add: Sockaddr_in6 decode_connect_def decode_connect_content_def
          encode_connect_inet6_def codec_simps wf_string_def decode_connect_address_def
          decode_connect_inet6_address_def)
  next
    case (Sockaddr_un path)
    with assms(2) have p: "c_string path" "path \<noteq> []" "length path < sun_path_size"
      by (simp_all add: wf_sockaddr_def wf_string_def)
    have t: "milter_decoder_decode_null_terminated_value (path @ NUL # r)
        (int (length path) + 1) = Ok (length path)"
      by (rule terminated_value_Ok) (simp_all add: p)
    show ?thesis
      using assms h p t by (simp add: Sockaddr_un decode_connect_def decode_connect_content_def
          encode_connect_unix_def codec_simps wf_string_def decode_connect_address_def
          decode_connect_unix_address_def)
  next
    case Sockaddr_other
    show ?thesis
      using assms h by (simp add: Sockaddr_other decode_connect_def decode_connect_content_def
          encode_connect_unknown_def codec_simps wf_string_def)
  qed
qed

text \<open>The relation between packet bodies and signals that the decoder implements.\<close>

definition command_packet :: "platform \<Rightarrow> bytes \<Rightarrow> command_signal \<Rightarrow> bool" where
  "command_packet P p s \<longleftrightarrow>
     platform_laws P \<and> (\<exists>c. wf_command P c \<and> p = command_body P c \<and> s = signal_of_command c)"

lemma decode_command_valid:
  assumes "wf_arguments c" and "platform_laws P"
  shows "decode_command P (command_body P c @ r) (int (length (command_body P c))) =
     Ok (None, signal_of_command c)"
proof (cases c)
  case (Cmd_negotiate opt)
  then show ?thesis
    using assms decode_negotiate_valid [of opt _ "r @ [NUL]"]
    by (simp add: decode_command_def command_bodies milter_decoder_get_buffer_def)
next
  case (Cmd_define_macro ctx macros)
  then show ?thesis
    using assms decode_define_macro_valid [of ctx macros P _ "r @ [NUL]", OF _ _ _ refl]
    by (simp add: decode_command_def command_bodies milter_decoder_get_buffer_def algebra_simps)
next
  case (Cmd_connect host a)
  then show ?thesis
    using assms decode_connect_valid [of host a P _ _ "r @ [NUL]", OF _ _ _ refl]
    by (simp add: decode_command_def command_bodies milter_decoder_get_buffer_def algebra_simps)
next
  case (Cmd_header n v)
  then show ?thesis
    using assms decode_header_valid [of n v _ "r @ [NUL]"]
    by (simp add: decode_command_def command_bodies milter_decoder_get_buffer_def algebra_simps)
next
  case (Cmd_end_of_message tail)
  then show ?thesis
    by (auto simp: decode_command_def command_bodies milter_decoder_get_buffer_def
        decode_end_of_message_def codec_simps split: option.splits)
next
  case (Cmd_body chunk)
  then show ?thesis
    by (simp add: decode_command_def command_bodies milter_decoder_get_buffer_def
        decode_body_def read_bytes_Ok)
qed (use assms in \<open>simp_all add: decode_command_def command_bodies milter_decoder_get_buffer_def
        decode_no_argument_valid decode_one_string_valid command_handlers\<close>)

interpretation commands: packet_handler "decode_command P" "command_packet P" for P
  by unfold_locales (auto simp: command_packet_def wf_command_def decode_command_valid)

subsection \<open>Memory safety\<close>

lemma decode_define_macros_loop_safe:
  "len < int (length p) \<Longrightarrow> decode_define_macros_loop p len macros \<noteq> Fault f"
proof (induction p len macros rule: decode_define_macros_loop.induct)
  case (1 p len macros)
  show ?case
  proof (cases "len \<le> 0")
    case True
    then show ?thesis by (simp add: decode_define_macros_loop.simps)
  next
    case False
    show ?thesis
    proof (cases "milter_decoder_decode_null_terminated_value p len")
      case (Ok n)
      let ?p' = "drop (n + 1) p" and ?len' = "len - int (n + 1)"
      have l: "?len' < int (length ?p')" using terminated_value_OkD [OF Ok] 1(2) by simp
      show ?thesis
      proof (cases "milter_decoder_decode_null_terminated_value ?p' ?len'")
        case Ok': (Ok k)
        have l': "?len' - int (k + 1) < int (length (drop (k + 1) ?p'))"
          using terminated_value_OkD [OF Ok'] l by simp
        have IH: "decode_define_macros_loop (drop (k + 1) ?p') (?len' - int (k + 1))
            (macros(normalize_macro_key (take n p) \<mapsto> cstr ?p')) \<noteq> Fault f" if "n \<noteq> 0"
          using l' by (rule 1(1) [OF False Ok that refl refl refl Ok'])
        show ?thesis
          unfolding decode_define_macros_loop.simps [of p len macros]
          using False IH by (simp only: Ok Ok' Let_def result.case if_False) simp
      next
        case Fault
        with terminated_value_no_fault [OF _ l] terminated_value_OkD [OF Ok] show ?thesis by force
      qed (use False Ok in \<open>subst decode_define_macros_loop.simps, simp add: Let_def del: drop_drop\<close>)
    next
      case Fault
      with terminated_value_no_fault [OF _ 1(2)] False show ?thesis by force
    qed (use False in \<open>subst decode_define_macros_loop.simps, simp\<close>)
  qed
qed

lemma check_macro_context_no_fault: "check_macro_context c \<noteq> Fault f"
  by (simp add: check_macro_context_def split: option.splits)

lemma decode_define_macro_safe:
  assumes "packet_memory m cl" and "hd m \<noteq> NUL"
  shows "decode_define_macro m cl \<noteq> Fault f"
proof -
  have m: "2 \<le> length m" "cl < int (length m)" using assms(1) by (auto simp: packet_memory_def)
  have "length (cstr m) \<le> length m" by (simp add: cstr_def length_takeWhile_le)
  moreover have "1 \<le> length (cstr m)" using m assms(2) by (cases m) auto
  ultimately have "milter_decoder_check_command_length (drop 1 m) (int (length (cstr m)) - 1) 1
      MILTER_DECODER_COMPARE_AT_LEAST \<noteq> Fault f"
    by (intro check_command_length_no_fault) auto
  moreover have "decode_define_macros (drop 2 m) (cl - 1 - 1) \<noteq> Fault f"
    unfolding decode_define_macros_def using m by (intro decode_define_macros_loop_safe) simp
  moreover have "read_bytes (drop 1 m) 1 \<noteq> Fault f"
    using m by (simp add: read_bytes_def)
  ultimately show ?thesis
    by (auto simp: decode_define_macro_def bind_result_Fault_iff check_macro_context_no_fault)
qed

lemma decode_connect_address_safe: "decode_connect_address P family port p \<noteq> Fault Overread"
  by (cases family) (simp_all add: decode_connect_address_def decode_connect_inet_address_def
      decode_connect_inet6_address_def decode_connect_unix_address_def Let_def split: option.splits)

text \<open>The part of \<open>decode_connect_content\<close> behind the family byte.\<close>

lemma decode_connect_port_safe:
  assumes "0 \<le> len" and "len < int (length p)"
  shows "bind_result (milter_decoder_check_command_length p len 2
            MILTER_DECODER_COMPARE_AT_LEAST) (\<lambda>_.
     bind_result (read_bytes p 2) (\<lambda>port.
     bind_result (milter_decoder_decode_null_terminated_value (drop 2 p) (len - 2)) (\<lambda>n'.
       if n' = 0 then Refused None
       else bind_result (decode_connect_address P fam (of_be16 port) (drop 2 p))
              (\<lambda>a. Ok (host, a))))) \<noteq> Fault Overread"
proof -
  have 1: "milter_decoder_check_command_length p len 2 MILTER_DECODER_COMPARE_AT_LEAST \<noteq> Fault f" for f
    using assms by (intro check_command_length_no_fault) auto
  have 2: "2 \<le> len" if "milter_decoder_check_command_length p len 2
      MILTER_DECODER_COMPARE_AT_LEAST = Ok u" for u
    using that by (simp add: milter_decoder_check_command_length_def split: if_splits)
  have 3: "read_bytes p 2 \<noteq> Fault f" if "2 \<le> len" for f
    using that assms by (intro read_bytes_no_fault) auto
  have 4: "milter_decoder_decode_null_terminated_value (drop 2 p) (len - 2) \<noteq> Fault f"
    if "2 \<le> len" for f
    using that assms by (intro terminated_value_no_fault) auto
  from 1 2 3 4 decode_connect_address_safe [of P] show ?thesis
    by (fastforce simp: bind_result_Fault_iff split: if_splits)
qed

lemma family_of_NUL [simp]: "family_of_char NUL = None"
  by (simp add: family_of_char_def)

lemma decode_connect_content_safe:
  assumes "0 \<le> len" and "len < int (length p)" and "p ! nat len = NUL"
  shows "decode_connect_content P p len \<noteq> Fault Overread"
proof (cases "milter_decoder_decode_null_terminated_value p len")
  case (Ok n)
  from terminated_value_OkD [OF Ok] have n: "int n < len" "n + 1 < length p" using assms by auto
  then obtain c p2 where d: "drop (n + 1) p = c # p2" by (cases "drop (n + 1) p") auto
  then have p2: "p2 = drop (n + 2) p" and c: "c = p ! (n + 1)"
    by (metis Suc_1 add_Suc_right drop_Suc list.sel(3) tl_drop, metis d hd_drop_conv_nth list.sel(1) n(2))
  show ?thesis
  proof (cases "family_of_char c")
    case None
    with Ok d show ?thesis by (simp add: decode_connect_content_def Let_def)
  next
    case (Some fam)
    have "int (n + 1) \<noteq> len"
      using assms(3) Some c by (metis family_of_NUL nat_int option.distinct(1))
    with n have l: "0 \<le> len - int (n + 1) - 1" "len - int (n + 1) - 1 < int (length p2)"
      using assms(2) p2 by auto
    have "milter_decoder_check_command_length p2 (len - int (n + 1) - 1) 0
        MILTER_DECODER_COMPARE_EXACT \<noteq> Fault Overread"
      using l by (intro check_command_length_no_fault) auto
    with Some Ok d decode_connect_port_safe [OF l, of P fam "cstr p"] show ?thesis
      by (cases fam) (auto simp: decode_connect_content_def Let_def bind_result_Fault_iff simp del: bind_result.simps(1))
  qed
next
  case Fault
  with terminated_value_no_fault [OF _ assms(2)] assms(1) show ?thesis by force
qed (simp add: decode_connect_content_def)

lemma decode_connect_safe:
  assumes "packet_memory m cl"
  shows "decode_connect P m cl \<noteq> Fault Overread"
proof -
  have "nat cl = Suc (nat (cl - 1))" using assms unfolding packet_memory_def by arith
  then have "decode_connect_content P (drop 1 m) (cl - 1) \<noteq> Fault Overread"
    using assms by (intro decode_connect_content_safe) (auto simp: packet_memory_def)
  then show ?thesis
    by (auto simp: decode_connect_def bind_result_Fault_iff)
qed

lemma decode_negotiate_safe:
  assumes "packet_memory m cl"
  shows "decode_negotiate m cl \<noteq> Fault f"
proof -
  have m: "1 \<le> cl" "cl < int (length m)" using assms by (simp_all add: packet_memory_def)
  have "milter_decoder_check_command_length (drop n m) (cl - int n) 0
      MILTER_DECODER_COMPARE_EXACT \<noteq> Fault f"
    if "milter_decoder_decode_negotiate m cl = Ok (opt, n)" for opt n
    using decode_negotiate_length [OF that] m by (intro check_command_length_no_fault) auto
  with decode_negotiate_content_safe [OF m] show ?thesis
    by (auto simp: decode_negotiate_def bind_result_Fault_iff)
qed

lemma decode_body_safe: "packet_memory m cl \<Longrightarrow> decode_body m cl \<noteq> Fault f"
  by (auto simp: decode_body_def bind_result_Fault_iff packet_memory_def read_bytes_def)

lemma decode_end_of_message_safe: "packet_memory m cl \<Longrightarrow> decode_end_of_message m cl \<noteq> Fault f"
  by (auto simp: decode_end_of_message_def bind_result_Fault_iff packet_memory_def read_bytes_def)

lemma decode_header_safe: "packet_memory m cl \<Longrightarrow> decode_header m cl \<noteq> Fault f"
  using packet_memory_content [of m cl]
  by (auto simp: decode_header_def bind_result_Fault_iff decode_header_content_safe)

lemma decode_command_safe:
  assumes "p \<noteq> []" and "starts_nul r"
  shows "decode_command P (p @ r) (int (length p)) \<noteq> Fault Overread"
proof -
  let ?m = "milter_decoder_get_buffer (p @ r)" and ?cl = "int (length p)"
  note m = packet_memory_get_buffer [OF assms]
  have "hd ?m = CHR ''D'' \<Longrightarrow> decode_define_macro ?m ?cl \<noteq> Fault Overread"
    using decode_define_macro_safe [OF m] by simp
  then show ?thesis
    by (auto simp: decode_command_def Let_def command_handlers decode_negotiate_safe [OF m]
        decode_connect_safe [OF m] decode_header_safe [OF m] decode_body_safe [OF m]
        decode_end_of_message_safe [OF m] decode_one_string_safe [OF m]
        decode_no_argument_safe [OF m] dest!: command_of_charD
        split: option.splits milter_command.splits)
qed

interpretation commands_safe: safe_handler "decode_command P" for P
  by unfold_locales (rule decode_command_safe)

end
