(* ===== verification/Command_Spec.thy ===== *)
theory Command_Spec
  imports Command_Codec Sample_Platform
begin

text \<open>
  The properties of the command codec: the round trip under any chunking, detection of a
  truncated stream, memory safety with its two exceptions, and the shape of what is
  emitted.
\<close>

subsection \<open>The round trip\<close>

lemma sample_platform_laws: "platform_laws sample_platform"
  by (simp add: platform_laws_def sample_platform_def scan_print_bits print_bits_string
      mset_foldr_insert_by)

lemma session_packets:
  assumes "platform_laws P" and "wf_session P cs"
  shows "list_all2 (command_packet P) (map (command_body P) cs) (map signal_of_command cs)"
  using assms by (auto simp: list_all2_map1 list_all2_map2 list_all2_same command_packet_def
      wf_session_def)


definition sample_session :: "command list" where
  "sample_session =
     [Cmd_negotiate \<lparr>version = 6, action = 1, step = 2\<rparr>,
      Cmd_connect ''mx'' (Sockaddr_un ''/s''),
      Cmd_define_macro MILTER_COMMAND_HELO (Some [(''i'', Some ''x''), (''{ab}'', None)]),
      Cmd_helo ''a'', Cmd_body ''hi'', Cmd_quit]"

definition sample_bytes :: bytes where
  "sample_bytes =
     be32 13 @ ''O'' @ be32 6 @ be32 1 @ be32 2 @
     be32 10 @ ''Cmx'' @ [NUL] @ ''L'' @ [NUL, NUL] @ ''/s'' @ [NUL] @
     be32 12 @ ''DH{ab}'' @ [NUL, NUL] @ ''i'' @ [NUL] @ ''x'' @ [NUL] @
     be32 3 @ ''Ha'' @ [NUL] @ be32 3 @ ''Bhi'' @ be32 1 @ ''Q''"

lemmas sample_simps =
  sample_session_def sample_platform_def command_bodies wf_command_def wf_option_def
  wf_string_def wf_macros_def wf_sockaddr_def sun_path_size_def normalize_macro_key_def
  encode_macros_def encode_macro_def encode_macro_name_def macro_value_def
  compare_macro_key_def encode_connect_unix_def MILTER_CHUNK_SIZE_def check_macro_context_def

lemma sample_session_wf: "wf_session sample_platform sample_session"
  by (simp add: wf_session_def sample_simps action_flags_mask_def step_mask_values)

lemma sample_bytes_encoded:
  "concat (encode_commands sample_platform milter_encoder_new sample_session) = sample_bytes"
  unfolding encode_commands_stream [OF sample_session_wf]
  by (simp add: sample_bytes_def frame_def sample_simps be16_def)


subsection \<open>Truncation\<close>

text \<open>
  A connection that ends inside a packet is noticed: the commands before the cut are
  delivered, and \<open>milter_decoder_end_decode\<close> answers \<open>FALSE\<close> with \<open>UNEXPECTED_END\<close>.
\<close>

theorem truncated_command_stream:
  assumes "platform_laws P" and "wf_session P cs" and "wf_command P c"
    and "concat chunks = concat (encode_commands P milter_encoder_new cs) @ t"
    and "frame (command_body P c) = t @ u" and "t \<noteq> []" and "u \<noteq> []"
  shows "\<exists>d. run_reader (decode_command P) milter_decoder_new chunks =
       Agent d (map signal_of_command cs) [] \<and>
     snd (milter_decoder_end_decode d) = (False, Some UNEXPECTED_END)"
proof -
  have "command_packet P (command_body P c) (signal_of_command c)"
    using assms(1,3) by (auto simp: command_packet_def)
  from commands.truncated_stream [OF session_packets [OF assms(1,2)] this _ assms(5-7)] assms(2,4)
  show ?thesis by (simp add: encode_commands_stream)
qed

theorem truncated_command_stream_witness:
  "\<exists>d. run_reader (decode_command sample_platform) milter_decoder_new
       [be32 3, ''Ha'' @ [NUL], be32 5 @ ''Lab''] = Agent d [Sig_helo ''a''] [] \<and>
     snd (milter_decoder_end_decode d) = (False, Some UNEXPECTED_END)"
proof -
  have wf: "wf_session sample_platform [Cmd_helo ''a'']"
    by (simp add: wf_session_def sample_simps)
  have wfc: "wf_command sample_platform (Cmd_header ''ab'' [])" by (simp add: sample_simps)
  have "concat [be32 3, ''Ha'' @ [NUL], be32 5 @ ''Lab''] =
      concat (encode_commands sample_platform milter_encoder_new [Cmd_helo ''a'']) @ be32 5 @ ''Lab''"
    unfolding encode_commands_stream [OF wf] by (simp add: frame_def sample_simps)
  from truncated_command_stream [OF sample_platform_laws wf wfc this, of "[NUL, NUL]"]
  show ?thesis by (simp add: frame_def sample_simps del: run_reader.simps)
qed

subsection \<open>Memory safety\<close>

text \<open>
  C31: no sequence of non-empty packets of less than \<open>2 ^ 24\<close> bytes, whatever bytes are in them and
  however they are cut, makes the command decoder read outside its buffer. (Such a packet's length
  prefix starts with a zero byte, which ends an unterminated string at the end of the packet before
  it; a longer one would be read into.)
\<close>

theorem command_stream_memory_safe:
  assumes "sized ps" and "[] \<notin> set ps" and "concat chunks @ rest = stream ps"
  shows "run_reader (decode_command P) milter_decoder_new chunks \<noteq> Agent_crashed Overread sigs"
  using assms by (rule commands_safe.stream_safe)

theorem command_stream_memory_safe_witness:
  "\<forall>sigs. run_reader (decode_command sample_platform) milter_decoder_new
     [be32 1 @ ''D'', be32 4 @ ''C'', ''xx4''] \<noteq> Agent_crashed Overread sigs"
  by (intro allI, rule command_stream_memory_safe [of "[''D'', ''Cxx4'']" _ "[]"])
    (simp_all add: sized_def frame_def)

text \<open>
  An empty packet does: with a length prefix of zero the dispatcher reads the byte
  behind it, and for the commands without arguments the error message then copies the
  buffer's contents with the length \<open>- 1\<close>. Five bytes from the peer are enough.
\<close>

theorem empty_packet_overreads:
  assumes "c \<in> {MILTER_COMMAND_DATA, MILTER_COMMAND_END_OF_HEADER, MILTER_COMMAND_ABORT,
     MILTER_COMMAND_QUIT}" and "length r < 2 ^ 62"
  shows "run_reader (decode_command P) milter_decoder_new [be32 0 @ command_code c # r] =
     Agent_crashed Overread []"
proof -
  let ?d = "\<lparr>dec_state = IN_COMMAND_CONTENT, dec_buffer = command_code c # r,
      dec_command_length = 0, dec_tag = 0\<rparr>"
  have "milter_decoder_check_command_length (r @ [NUL]) (- 1) 0 MILTER_DECODER_COMPARE_EXACT =
      Fault Overread"
    using assms(2) by (intro check_command_length_negative) simp_all
  then have h: "decode_command P (command_code c # r) 0 = Fault Overread"
    using assms(1) by (auto simp: decode_command_def milter_decoder_get_buffer_def Let_def
        command_handlers decode_no_argument_def)
  have "milter_decoder_decode (decode_command P) milter_decoder_new
      (be32 0 @ command_code c # r) = decode_loop (decode_command P) ?d None []"
    by (simp add: milter_decoder_decode_def milter_decoder_new_def loop_start loop_length)
  also have "\<dots> = Crashed Overread []" by (subst loop_content) (simp_all add: h)
  finally show ?thesis by (simp add: cb_reader_flow_def)
qed

theorem empty_packet_overreads_witness:
  "run_reader (decode_command sample_platform) milter_decoder_new
     [be32 0 @ ''Q''] = Agent_crashed Overread []"
  using empty_packet_overreads [of MILTER_COMMAND_QUIT "[]" sample_platform] by simp

text \<open>
  A connect command with a UNIX domain address of 108 bytes or more is copied with
  \<open>strcpy\<close> past the end of \<open>sun_path\<close>.
\<close>

theorem unix_path_overflows:
  assumes "wf_string host" and "c_string path" and "sun_path_size \<le> length path"
    and "length host + length path < 2 ^ 20"
  shows "run_reader (decode_command P) milter_decoder_new
      [frame (command_body P (Cmd_connect host (Sockaddr_un path)))] = Agent_crashed Overflow []"
proof -
  let ?p = "command_body P (Cmd_connect host (Sockaddr_un path))"
  let ?d = "\<lparr>dec_state = IN_COMMAND_CONTENT, dec_buffer = ?p,
      dec_command_length = int (length ?p), dec_tag = 0\<rparr>"
  have len: "length ?p = length host + length path + 6"
    by (simp add: command_bodies encode_connect_unix_def)
  have 1: "milter_decoder_decode_null_terminated_value
      (host @ NUL # CHR ''L'' # be16 0 @ path @ [NUL, NUL]) (int (length ?p) - 1) = Ok (length host)"
    using assms(1) by (intro terminated_value_Ok) (simp_all add: wf_string_def len)
  have 2: "milter_decoder_decode_null_terminated_value (path @ [NUL, NUL]) (int (length path) + 1) =
      Ok (length path)"
    using assms(2) by (intro terminated_value_Ok) simp_all
  have ne: "path \<noteq> []" using assms(3) by (auto simp: sun_path_size_def)
  have b: "milter_decoder_get_buffer ?p =
      CHR ''C'' # host @ NUL # CHR ''L'' # be16 0 @ path @ [NUL, NUL]"
    by (simp add: milter_decoder_get_buffer_def command_bodies encode_connect_unix_def)
  have h: "decode_command P ?p (int (length ?p)) = Fault Overflow"
    unfolding decode_command_def b
    using assms 1 2 ne by (simp add: decode_connect_def decode_connect_content_def wf_string_def
        codec_simps decode_connect_address_def decode_connect_unix_address_def len
        encode_connect_unix_def)
  have "milter_decoder_decode (decode_command P) milter_decoder_new (frame ?p) =
      decode_loop (decode_command P) ?d None []"
    using command_length_of_frame [of ?p] assms(4)
    by (simp add: milter_decoder_decode_def milter_decoder_new_def loop_start loop_length frame_def len)
  also have "\<dots> = Crashed Overflow []"
    using h by (subst loop_content) simp_all
  finally show ?thesis by (simp add: cb_reader_flow_def)
qed

theorem unix_path_overflows_witness:
  "run_reader (decode_command sample_platform) milter_decoder_new
     [frame (''Ch'' @ [NUL] @ ''L'' @ [NUL, NUL] @ replicate 108 CHR ''/'' @ [NUL])] =
   Agent_crashed Overflow []"
  using unix_path_overflows [of "''h''" "replicate 108 CHR ''/''" sample_platform]
  by (simp add: sample_simps c_string_def be16_def)

subsection \<open>What is emitted\<close>

fun wf_command_signal :: "command_signal \<Rightarrow> bool" where
  "wf_command_signal (Sig_negotiate opt) = wf_option opt"
| "wf_command_signal (Sig_define_macro ctx macros) =
     (check_macro_context (command_code ctx) = Ok ctx \<and>
      (\<forall>k v. macros k = Some v \<longrightarrow> c_string k \<and> c_string v))"
| "wf_command_signal (Sig_connect host a) = (wf_string host \<and> wf_sockaddr a)"
| "wf_command_signal (Sig_helo s) = wf_string s"
| "wf_command_signal (Sig_envelope_from s) = wf_string s"
| "wf_command_signal (Sig_envelope_recipient s) = wf_string s"
| "wf_command_signal (Sig_header n v) = (wf_string n \<and> c_string v)"
| "wf_command_signal (Sig_end_of_message chunk) = (chunk \<noteq> Some [])"
| "wf_command_signal (Sig_unknown s) = wf_string s"
| "wf_command_signal _ = True"

lemma c_string_normalize: "c_string k \<Longrightarrow> c_string (normalize_macro_key k)"
  by (auto simp: normalize_macro_key_def c_string_def dest!: in_set_butlastD dest: list.set_sel(2)
      intro: list.set_sel(2))

lemma decode_define_macros_loop_wf:
  assumes "decode_define_macros_loop p len macros = Ok ms"
    and "\<forall>k v. macros k = Some v \<longrightarrow> c_string k \<and> c_string v"
  shows "\<forall>k v. ms k = Some v \<longrightarrow> c_string k \<and> c_string v"
  using assms
proof (induction p len macros rule: decode_define_macros_loop.induct)
  case (1 p len macros)
  show ?case
  proof (cases "len \<le> 0")
    case True
    with 1(2,3) show ?thesis by (simp add: decode_define_macros_loop.simps)
  next
    case False
    with 1(2) obtain n k where *: "milter_decoder_decode_null_terminated_value p len = Ok n"
      "n \<noteq> 0"
      "milter_decoder_decode_null_terminated_value (drop (n + 1) p) (len - int (n + 1)) = Ok k"
      "decode_define_macros_loop (drop (k + 1) (drop (n + 1) p)) (len - int (n + 1) - int (k + 1))
        (macros(normalize_macro_key (take n p) \<mapsto> cstr (drop (n + 1) p))) = Ok ms"
      unfolding decode_define_macros_loop.simps [of p len]
      by (auto simp: Let_def split: result.splits if_splits)
    have "c_string (normalize_macro_key (take n p))"
      using terminated_value_OkD [OF *(1)] by (simp add: c_string_normalize)
    then have "\<forall>k v. (macros(normalize_macro_key (take n p) \<mapsto> cstr (drop (n + 1) p))) k = Some v
        \<longrightarrow> c_string k \<and> c_string v"
      using 1(3) by simp
    from 1(1) [OF False *(1,2) refl refl refl *(3,4) this] show ?thesis .
  qed
qed

lemma decode_connect_content_wf:
  assumes "decode_connect_content P p len = Ok (host, a)"
  shows "wf_string host \<and> wf_sockaddr a"
  using assms
  by (auto simp: decode_connect_content_def Let_def decode_connect_address_def
      decode_connect_inet_address_def decode_connect_inet6_address_def
      decode_connect_unix_address_def wf_sockaddr_def sun_path_size_def
      split: list.splits option.splits if_splits milter_socket_family.splits
      dest: terminated_value_wf_string simp del: cstr_Cons)

lemma decode_negotiate_wf:
  "decode_negotiate m cl = Ok (e, s) \<Longrightarrow> wf_command_signal s"
  by (auto simp: decode_negotiate_def milter_decoder_decode_negotiate_def)

lemma decode_define_macro_wf:
  assumes "decode_define_macro m cl = Ok (e, s)"
  shows "wf_command_signal s"
proof -
  from assms obtain c ctx ms where *: "check_macro_context c = Ok ctx"
    "decode_define_macros (drop 2 m) (cl - 1 - 1) = Ok ms" "s = Sig_define_macro ctx ms"
    by (auto simp: decode_define_macro_def)
  from *(1) have "c = command_code ctx"
    by (auto simp: check_macro_context_def split: option.splits if_splits dest: command_of_charD)
  with * decode_define_macros_loop_wf [OF *(2) [unfolded decode_define_macros_def]]
  show ?thesis by simp
qed

lemma decode_command_wf:
  assumes "decode_command P m cl = Ok (e, s)"
  shows "wf_command_signal s"
proof -
  let ?m = "milter_decoder_get_buffer m"
  have 1: "wf_command_signal s" if "decode_connect P ?m cl = Ok (e, s)"
    using that decode_connect_content_wf by (auto simp: decode_connect_def)
  have 2: "wf_command_signal s" if "decode_header ?m cl = Ok (e, s)"
    using that by (auto simp: decode_header_def milter_decoder_decode_header_content_def Let_def
        split: if_splits dest: terminated_value_wf_string)
  have 3: "wf_command_signal s" if "decode_end_of_message ?m cl = Ok (e, s)"
    using that by (auto simp: decode_end_of_message_def read_bytes_def split: if_splits)
  from assms 1 2 3 decode_negotiate_wf [of ?m cl e s] decode_define_macro_wf [of ?m cl e s]
  show ?thesis
    unfolding decode_command_def Let_def
    by (auto simp: command_handlers decode_no_argument_def decode_body_def
        split: option.splits milter_command.splits dest!: decode_one_string_wf)
qed

text \<open>
  C35: for every input whatsoever, what a milter sees is well formed: options have declared
  flags only, names and addresses are non-empty C strings (those of macros may be empty), a Unix path
  fits its buffer, macro contexts are legal and an end-of-message chunk is not empty.
\<close>

theorem emitted_commands_well_formed:
  "\<forall>s \<in> set (signals_of (run_reader (decode_command P) d chunks)). wf_command_signal s"
  by (rule run_reader_all) (rule decode_command_wf)

lemma sample_helo_delivered:
  "\<exists>d. run_reader (decode_command sample_platform) milter_decoder_new [be32 4 @ ''Hm'', ''x'' @ [NUL]] =
     Agent d [Sig_helo ''mx''] []"
proof -
  have wf: "wf_session sample_platform [Cmd_helo ''mx'']"
    by (simp add: wf_session_def sample_simps)
  have "concat [be32 4 @ ''Hm'', ''x'' @ [NUL]] =
      stream (map (command_body sample_platform) [Cmd_helo ''mx''])"
    by (simp add: frame_def sample_simps)
  from commands.chunked_stream [OF session_packets [OF sample_platform_laws wf] this]
  show ?thesis by auto
qed

theorem emitted_commands_well_formed_witness: "wf_command_signal (Sig_helo ''mx'')"
  using emitted_commands_well_formed [of sample_platform milter_decoder_new
      "[be32 4 @ ''Hm'', ''x'' @ [NUL]]"] sample_helo_delivered
  by (auto simp del: run_reader.simps)

text \<open>
  A HELO (or MAIL, RCPT, unknown) command with an empty string is refused without an
  error: nobody is told, and everything the peer sends afterwards is lost.
\<close>

theorem empty_string_command_wedges:
  assumes "c \<in> {MILTER_COMMAND_HELO, MILTER_COMMAND_ENVELOPE_FROM,
     MILTER_COMMAND_ENVELOPE_RECIPIENT, MILTER_COMMAND_UNKNOWN}"
  shows "\<exists>d. run_reader (decode_command P) milter_decoder_new
       (frame [command_code c, NUL] # chunks) = Agent d [] [] \<and> dec_state d = IN_ERROR"
proof -
  let ?p = "[command_code c, NUL]"
  let ?d = "\<lparr>dec_state = IN_COMMAND_CONTENT, dec_buffer = ?p,
      dec_command_length = 2, dec_tag = 0\<rparr>"
  have "milter_decoder_decode_null_terminated_value [NUL, NUL] 1 = Ok 0"
    using terminated_value_Ok [of "[]" 1 "[NUL]"] by simp
  then have h: "decode_command P ?p 2 = Refused None"
    using assms by (auto simp: decode_command_def milter_decoder_get_buffer_def Let_def
        command_handlers decode_one_string_def)
  have "milter_decoder_decode (decode_command P) milter_decoder_new (frame ?p) =
      decode_loop (decode_command P) ?d None []"
    using command_length_of_frame [of ?p]
    by (simp add: milter_decoder_decode_def milter_decoder_new_def loop_start loop_length frame_def)
  also have "\<dots> = Returned (?d\<lparr>dec_state := IN_ERROR\<rparr>) False None []"
    by (subst loop_content) (simp_all add: h)
  finally show ?thesis by (simp add: cb_reader_flow_def run_reader_in_error)
qed

theorem empty_string_command_wedges_witness:
  "\<exists>d. run_reader (decode_command sample_platform) milter_decoder_new
     (frame [CHR ''H'', NUL] # [be32 1 @ ''Q'']) = Agent d [] [] \<and> dec_state d = IN_ERROR"
  using empty_string_command_wedges [of MILTER_COMMAND_HELO sample_platform] by simp

end
