(* ===== verification/Server_Context_Spec.thy ===== *)
theory Server_Context_Spec
  imports Server_Context_Replies Command_Spec
begin

text \<open>
  Runs of one server context, and what they guarantee. A run is a sequence of commands of
  the owner, flushes of the writer, decoded answers and timers. The observers of these
  runs are quiet: they call nothing back.
\<close>

subsection \<open>Runs\<close>

definition quiet :: "environment \<Rightarrow> bool" where
  "quiet env \<longleftrightarrow> (\<forall>ev c. env_observer env ev c = c)"

text \<open>
  The commands of \<open>Command_Codec\<close> as calls of the context; macros are handed to the
  protocol agent, and go out with the next command of their context.
\<close>

fun issue :: "environment \<Rightarrow> server_context \<Rightarrow> command \<Rightarrow> (bool \<times> server_context) result" where
  "issue env c (Cmd_negotiate opt) = Ok (milter_server_context_negotiate env c opt)"
| "issue env c (Cmd_define_macro ctx macros) =
     Ok (True, c\<lparr>ctx_agent := milter_protocol_agent_set_macros_hash_table (ctx_agent c) ctx
                   (case macros of None \<Rightarrow> [] | Some ms \<Rightarrow> ms)\<rparr>)"
| "issue env c (Cmd_connect host a) = Ok (milter_server_context_connect env c host a)"
| "issue env c (Cmd_helo s) = Ok (milter_server_context_helo env c s)"
| "issue env c (Cmd_envelope_from s) = Ok (milter_server_context_envelope_from env c s)"
| "issue env c (Cmd_envelope_recipient s) = Ok (milter_server_context_envelope_recipient env c s)"
| "issue env c Cmd_data = milter_server_context_data env c"
| "issue env c (Cmd_header n v) = Ok (milter_server_context_header env c n (Some v))"
| "issue env c Cmd_end_of_header = Ok (milter_server_context_end_of_header env c)"
| "issue env c (Cmd_body chunk) = milter_server_context_body env c chunk"
| "issue env c (Cmd_end_of_message chunk) = Ok (milter_server_context_end_of_message env c chunk)"
| "issue env c Cmd_abort = Ok (milter_server_context_abort env c)"
| "issue env c Cmd_quit = Ok (milter_server_context_quit env c)"
| "issue env c (Cmd_unknown s) = Ok (milter_server_context_unknown env c s)"

datatype server_input =
    Issue command
  | Flush
  | Answer reply_signal
  | Timer server_timeout

fun server_step :: "environment \<Rightarrow> server_context \<Rightarrow> server_input \<Rightarrow> server_context result" where
  "server_step env c (Issue command) = bind_result (issue env c command) (\<lambda>(ok, c). Ok c)"
| "server_step env c Flush = flushed env c"
| "server_step env c (Answer answer) = handle_reply env c answer"
| "server_step env c (Timer t) = Ok (cb_timeout env c t)"

fun server_run :: "environment \<Rightarrow> server_context \<Rightarrow> server_input list \<Rightarrow> server_context result" where
  "server_run env c [] = Ok c"
| "server_run env c (i # inputs) = bind_result (server_step env c i) (\<lambda>c. server_run env c inputs)"

lemma server_run_append:
  "server_run env c (is @ js) = bind_result (server_run env c is) (\<lambda>c. server_run env c js)"
proof (induction "is" arbitrary: c)
  case (Cons i "is")
  then show ?case by (cases "server_step env c i") auto
qed simp

lemma server_run_invariant:
  assumes "server_run env c inputs = Ok c'" and "I c"
    and step: "\<And>c i c'. I c \<Longrightarrow> i \<in> set inputs \<Longrightarrow> server_step env c i = Ok c' \<Longrightarrow> I c'"
  shows "I c'"
  using assms
proof (induction inputs arbitrary: c)
  case Nil
  then show ?case by simp
next
  case (Cons i inputs)
  from Cons.prems(1) obtain d where d: "server_step env c i = Ok d" "server_run env d inputs = Ok c'"
    by auto
  have "I d" by (rule Cons.prems(3) [OF Cons.prems(2) _ d(1)]) simp
  then show ?case by (rule Cons.IH [OF d(2)]) (rule Cons.prems(3), auto)
qed

subsection \<open>Quiet observers\<close>

lemma emit_quiet [simp]:
  "quiet env \<Longrightarrow> emit env ev c = c\<lparr>emitted := emitted c @ [ev]\<rparr>"
  by (simp add: quiet_def emit_def)

lemma emit_error_quiet [simp]:
  "quiet env \<Longrightarrow> emit_error env e c = c\<lparr>emitted := emitted c @ [Server_error e]\<rparr>"
  by (simp add: emit_error_def)

lemmas command_defs = milter_server_context_negotiate_def milter_server_context_connect_def
  milter_server_context_helo_def milter_server_context_envelope_from_def
  milter_server_context_envelope_recipient_def milter_server_context_data_def
  milter_server_context_header_def milter_server_context_end_of_header_def
  milter_server_context_body_def milter_server_context_end_of_message_def
  milter_server_context_abort_def milter_server_context_quit_def
  milter_server_context_unknown_def

lemmas state_order = less_eq_server_context_state_def less_server_context_state_def
  replying_state_def

lemmas command_part_defs = skip_command_def write_encoded_def set_context_macro_def
  note_message_state_def update_message_result_def ensure_message_result_def
  milter_server_context_set_state_def stop_on_state_def

lemmas reply_handler_defs = cb_decoder_negotiate_reply_def cb_decoder_continue_def
  cb_decoder_reply_code_def cb_decoder_temporary_failure_def cb_decoder_reject_def
  cb_decoder_accept_def cb_decoder_discard_def cb_decoder_add_header_def
  cb_decoder_insert_header_def cb_decoder_change_header_def cb_decoder_delete_header_def
  cb_decoder_change_from_def cb_decoder_add_recipient_def cb_decoder_delete_recipient_def
  cb_decoder_replace_body_def cb_decoder_progress_def cb_decoder_quarantine_def
  cb_decoder_connection_failure_def cb_decoder_shutdown_def cb_decoder_skip_def
  at_end_of_message_def note_added_header_def note_removed_header_def

subsection \<open>What writing touches\<close>

definition only_output :: "server_context \<Rightarrow> server_context \<Rightarrow> bool" where
  "only_output c c' \<longleftrightarrow>
     ctx_status c' = ctx_status c \<and>
     envelope_recipient_status c' = envelope_recipient_status c \<and>
     ctx_state c' = ctx_state c \<and>
     last_state c' = last_state c \<and>
     ctx_option c' = ctx_option c \<and>
     skip_body c' = skip_body c \<and>
     ctx_body c' = ctx_body c \<and>
     body_response_queue c' = body_response_queue c \<and>
     process_body_count c' = process_body_count c \<and>
     sent_end_of_message c' = sent_end_of_message c \<and>
     negotiated c' = negotiated c \<and>
     processing_message c' = processing_message c \<and>
     quitted c' = quitted c \<and>
     current_recipient c' = current_recipient c \<and>
     ctx_message_result c' = ctx_message_result c \<and>
     ctx_shutdown c' = ctx_shutdown c"

lemma only_output_fields:
  assumes "only_output c c'"
  shows "ctx_status c' = ctx_status c"
    "envelope_recipient_status c' = envelope_recipient_status c"
    "ctx_state c' = ctx_state c"
    "last_state c' = last_state c"
    "ctx_option c' = ctx_option c"
    "skip_body c' = skip_body c"
    "ctx_body c' = ctx_body c"
    "body_response_queue c' = body_response_queue c"
    "process_body_count c' = process_body_count c"
    "sent_end_of_message c' = sent_end_of_message c"
    "negotiated c' = negotiated c"
    "processing_message c' = processing_message c"
    "quitted c' = quitted c"
    "current_recipient c' = current_recipient c"
    "ctx_message_result c' = ctx_message_result c"
    "ctx_shutdown c' = ctx_shutdown c"
  using assms by (simp_all add: only_output_def)

lemma prepend_macro_output: "only_output c (fst (prepend_macro env c packet command))"
  by (auto simp: only_output_def prepend_macro_def Let_def case_prod_beta split: option.splits)

lemma prepend_macro_fields [simp]:
  "ctx_timeout (fst (prepend_macro env c packet command)) = ctx_timeout c"
  "written (fst (prepend_macro env c packet command)) = written c"
  "next_states (fst (prepend_macro env c packet command)) = next_states c"
  "emitted (fst (prepend_macro env c packet command)) = emitted c"
  by (auto simp: prepend_macro_def Let_def case_prod_beta split: option.splits)

text \<open>What \<open>write_packet\<close> sends, and the context that has packed it.\<close>

definition packed ::
    "environment \<Rightarrow> server_context \<Rightarrow> bytes \<Rightarrow> server_context_state \<Rightarrow> server_context \<times> bytes" where
  "packed env c packet st =
     (case macro_command st of Some command \<Rightarrow> prepend_macro env c packet command
      | None \<Rightarrow> (c, packet))"

definition urgent :: "server_context_state \<Rightarrow> bool" where
  "urgent st \<longleftrightarrow> st = SERVER_CONTEXT_STATE_ABORT \<or> st = SERVER_CONTEXT_STATE_QUIT"

lemma write_packet_eq:
  "write_packet env c packet st =
     (if \<not> urgent st \<and> ctx_timeout c \<noteq> None then (False, emit_error env SERVER_CONTEXT_ERROR_BUSY c)
      else
        let c1 = (if urgent st then c else c\<lparr>ctx_timeout := Some Writing_timeout\<rparr>);
            (c2, bytes) = packed env c1 packet st
        in if env_accepts_write env bytes
           then (True, c2\<lparr>written := written c2 @ [bytes], next_states := next_states c2 @ [st]\<rparr>)
           else (False, emit_error env SERVER_CONTEXT_ERROR_IO_ERROR (disable_timeout c2)))"
  by (simp add: write_packet_def urgent_def packed_def milter_server_context_is_processing_def Let_def)

lemma only_output_packed: "only_output c (fst (packed env c packet st))"
  using prepend_macro_output by (auto simp: packed_def only_output_def split: option.splits)

lemma packed_fields [simp]:
  "ctx_timeout (fst (packed env c packet st)) = ctx_timeout c"
  "written (fst (packed env c packet st)) = written c"
  "next_states (fst (packed env c packet st)) = next_states c"
  "emitted (fst (packed env c packet st)) = emitted c"
  by (auto simp: packed_def split: option.splits)

lemma only_output_trans: "only_output c d \<Longrightarrow> only_output d e \<Longrightarrow> only_output c e"
  by (simp add: only_output_def)

lemmas packed_core [simp] = only_output_fields [OF only_output_packed]

lemma only_output_write_packet:
  assumes "quiet env"
  shows "only_output c (snd (write_packet env c packet st))"
  using assms by (cases "urgent st")
    (simp_all add: write_packet_eq Let_def case_prod_beta only_output_def disable_timeout_def)

lemmas write_packet_core = only_output_fields [OF only_output_write_packet]

subsection \<open>Faults\<close>

lemma flush_body_Ok:
  assumes "quiet env"
  shows "\<exists>ok c'. flush_body env c = Ok (ok, c') \<and> ctx_option c' = ctx_option c"
proof -
  obtain e packet n where b: "milter_command_encoder_encode_body (ctx_encoder c) (ctx_body c) =
      (e, packet, n)" using prod_cases3 by blast
  let ?d = "c\<lparr>body_response_queue := body_response_queue c @ [0], ctx_encoder := e\<rparr>"
  obtain ok d where w: "write_packet env ?d packet SERVER_CONTEXT_STATE_BODY = (ok, d)" by fastforce
  with write_packet_core [OF assms, of ?d packet SERVER_CONTEXT_STATE_BODY]
  have "ctx_option d = ctx_option c" "body_response_queue d = body_response_queue c @ [0]"
    by simp_all
  then show ?thesis
    using b w by (cases ok) (auto simp: flush_body_def append_body_response_queue_def Let_def
        increment_process_body_count_def)
qed

lemma need_reply_Ok:
  "ctx_option c \<noteq> None \<Longrightarrow> \<exists>b. milter_server_context_need_reply c st = Ok b"
  by (auto simp: milter_server_context_need_reply_def)

lemma set_state_fields [simp]:
  "ctx_option (milter_server_context_set_state c st) = ctx_option c"
  "ctx_body (milter_server_context_set_state c st) = ctx_body c"
  "ctx_state (milter_server_context_set_state c st) = st"
  "ctx_timeout (milter_server_context_set_state c st) = ctx_timeout c"
  "written (milter_server_context_set_state c st) = written c"
  "emitted (milter_server_context_set_state c st) = emitted c"
  "next_states (milter_server_context_set_state c st) = next_states c"
  by (simp_all add: milter_server_context_set_state_def Let_def)

lemma emit_message_processed_fields [simp]:
  assumes "quiet env"
  shows "ctx_option (emit_message_processed_signal env c) = ctx_option c"
    "ctx_state (emit_message_processed_signal env c) = ctx_state c"
    "ctx_timeout (emit_message_processed_signal env c) = ctx_timeout c"
    "written (emit_message_processed_signal env c) = written c"
    "ctx_body (emit_message_processed_signal env c) = ctx_body c"
  using assms by (simp_all add: emit_message_processed_signal_def Let_def split: option.splits)

lemma process_next_state_body_Ok:
  assumes "quiet env" and "ctx_option c \<noteq> None"
  shows "\<exists>ok c'. process_next_state_body env c = Ok (ok, c') \<and> ctx_option c' = ctx_option c"
proof -
  obtain b where "milter_server_context_need_reply c SERVER_CONTEXT_STATE_BODY = Ok b"
    using need_reply_Ok [OF assms(2)] by blast
  then show ?thesis using flush_body_Ok [OF assms(1), of c]
    by (cases b) (auto simp: process_next_state_body_def)
qed

lemma process_next_state_Ok:
  assumes "quiet env" and "ctx_option c \<noteq> None"
  shows "\<exists>c'. process_next_state env c st = Ok c' \<and> ctx_option c' = ctx_option c"
proof -
  let ?b = "milter_server_context_set_state (c\<lparr>ctx_timeout := None\<rparr>) SERVER_CONTEXT_STATE_BODY"
  obtain ok d where body: "process_next_state_body env ?b = Ok (ok, d)" "ctx_option d = ctx_option c"
    using process_next_state_body_Ok [OF assms(1), of ?b] assms(2) by auto
  define n where "n d = (SOME b. milter_server_context_need_reply d st = Ok b)" for d
  have nr: "ctx_option d \<noteq> None \<Longrightarrow> milter_server_context_need_reply d st = Ok (n d)" for d
    using need_reply_Ok [of d st] unfolding n_def by (rule someI_ex)
  have f: "ctx_option (c\<lparr>ctx_timeout := None, processing_message := True\<rparr>) = ctx_option c" by simp
  show ?thesis
    using assms body nr
    by (cases st) (simp_all add: process_next_state_def disable_timeout_def Let_def
        milter_server_context_reset_message_related_data_def)
qed

lemma process_next_states_Ok:
  assumes "quiet env" and "ctx_option c \<noteq> None"
  shows "\<exists>c'. process_next_states env c sts = Ok c' \<and> ctx_option c' \<noteq> None"
  using assms(2)
proof (induction sts arbitrary: c)
  case (Cons st sts)
  from process_next_state_Ok [OF assms(1) Cons.prems, of st] obtain d
    where "process_next_state env c st = Ok d" "ctx_option d = ctx_option c" by blast
  with Cons.IH [of "d\<lparr>emitted := emitted d @ [State_transited st]\<rparr>"] assms(1) Cons.prems show ?case by simp
qed simp

text \<open>The answers that refuse a recipient while no recipient is waiting.\<close>

definition refusal :: "reply_signal \<Rightarrow> bool" where
  "refusal answer \<longleftrightarrow>
     (case answer of Sig_reply_code code extended_code message \<Rightarrow> True
      | Sig_temporary_failure \<Rightarrow> True | Sig_reject \<Rightarrow> True | _ \<Rightarrow> False)"

definition stray_refusal :: "server_context \<Rightarrow> server_input \<Rightarrow> bool" where
  "stray_refusal c i \<longleftrightarrow>
     (case i of Answer answer \<Rightarrow> refusal answer | _ \<Rightarrow> False) \<and>
     ctx_state c = SERVER_CONTEXT_STATE_ENVELOPE_RECIPIENT \<and> current_recipient c = None \<and>
     (case ctx_message_result c of None \<Rightarrow> False | Some r \<Rightarrow> result_recipients r \<noteq> [])"

lemma note_refusal_Ok:
  "note_refusal c status = Fault Null_dereference \<and>
     ctx_state c = SERVER_CONTEXT_STATE_ENVELOPE_RECIPIENT \<and> current_recipient c = None \<and>
     (case ctx_message_result c of None \<Rightarrow> False | Some r \<Rightarrow> result_recipients r \<noteq> []) \<or>
   \<not> (ctx_state c = SERVER_CONTEXT_STATE_ENVELOPE_RECIPIENT \<and> current_recipient c = None \<and>
     (case ctx_message_result c of None \<Rightarrow> False | Some r \<Rightarrow> result_recipients r \<noteq> [])) \<and>
   (\<exists>c'. note_refusal c status = Ok c' \<and> ctx_option c' = ctx_option c)"
  by (auto simp: note_refusal_def Let_def ensure_message_result_def update_message_result_def
      milter_message_result_remove_recipient_def milter_message_result_start_def
      milter_message_result_new_def milter_message_result_add_temporary_failed_recipient_def
      milter_message_result_add_rejected_recipient_def split: option.splits)

lemma handle_refusal_Ok:
  assumes "quiet env" and "refusal answer"
  shows "handle_reply env c answer = Fault Null_dereference \<and> stray_refusal c (Answer answer) \<or>
     (\<exists>c'. handle_reply env c answer = Ok c') \<and> \<not> stray_refusal c (Answer answer)"
  using assms note_refusal_Ok [of c MILTER_STATUS_TEMPORARY_FAILURE]
    note_refusal_Ok [of c MILTER_STATUS_REJECT]
  by (cases answer) (auto simp: refusal_def stray_refusal_def handle_reply_def Let_def
      cb_decoder_reply_code_def cb_decoder_temporary_failure_def cb_decoder_reject_def)

lemma handle_other_Ok:
  assumes "quiet env" and "\<not> refusal answer"
  shows "\<exists>c'. handle_reply env c answer = Ok c'"
proof (cases "answer = Sig_continue")
  case True
  obtain ok c' where "flush_body env (decrement_process_body_count env (disable_timeout c)) = Ok (ok, c')"
    using flush_body_Ok [OF assms(1)] by blast
  with True show ?thesis by (simp add: handle_reply_def cb_decoder_continue_def Let_def)
next
  case False
  with assms(2) show ?thesis by (cases answer) (simp_all add: handle_reply_def refusal_def)
qed

lemma issue_Ok:
  assumes "quiet env" and "ctx_option c \<noteq> None"
  shows "\<exists>ok c'. issue env c command = Ok (ok, c')"
proof -
  have data: "\<exists>ok c'. milter_server_context_data env c = Ok (ok, c')"
    using assms(2) by (auto simp: milter_server_context_data_def command_part_defs Let_def
        skip_command_def surjective_pairing [of "write_packet _ _ _ _"])
  have body: "\<exists>ok c'. milter_server_context_body env c chunk = Ok (ok, c')" for chunk
    using flush_body_Ok [OF assms(1)]
    by (simp add: milter_server_context_body_def Let_def skip_command_def) blast
  show ?thesis using data body by (cases command) (auto simp: prod_eq_iff)
qed


subsection \<open>A crash\<close>

definition quiet_environment :: environment where
  "quiet_environment =
     \<lparr>env_platform = sample_platform, env_observer = \<lambda>ev c. c, env_stop = \<lambda>r. False,
      env_accepts_write = \<lambda>packet. True\<rparr>"

lemma quiet_quiet_environment [simp]: "quiet quiet_environment"
  by (simp add: quiet_def quiet_environment_def)


lemma refused_once:
  assumes "quiet env" and "refusal answer" and "ctx_state c = SERVER_CONTEXT_STATE_ENVELOPE_RECIPIENT"
    and "current_recipient c = Some x" and "handle_reply env c answer = Ok d"
  shows "ctx_state d = SERVER_CONTEXT_STATE_ENVELOPE_RECIPIENT \<and> current_recipient d = None \<and>
     (\<exists>r. ctx_message_result d = Some r \<and>
        result_recipients r =
          (case ctx_message_result c of None \<Rightarrow> [] | Some r \<Rightarrow> remove1 x (result_recipients r)))"
  using assms
  by (cases answer) (auto simp: state_order refusal_def handle_reply_def Let_def
      cb_decoder_reply_code_def cb_decoder_temporary_failure_def cb_decoder_reject_def note_refusal_def
      ensure_message_result_def update_message_result_def after_refusal_def
      clear_body_in_body_state_def disable_timeout_def
      milter_message_result_remove_recipient_def milter_message_result_start_def
      milter_message_result_new_def milter_message_result_add_temporary_failed_recipient_def
      milter_message_result_add_rejected_recipient_def split: option.splits if_splits)

text \<open>
  A milter that refuses the same recipient twice crashes the process as soon as another
  recipient of the message is on record.
\<close>

theorem double_refusal_crashes:
  assumes "quiet env" and "refusal a1" and "refusal a2"
    and "ctx_state c = SERVER_CONTEXT_STATE_ENVELOPE_RECIPIENT"
    and "current_recipient c = Some x" and "ctx_message_result c = Some r"
    and "remove1 x (result_recipients r) \<noteq> []"
  shows "server_run env c [Answer a1, Answer a2] = Fault Null_dereference"
proof -
  have "\<not> stray_refusal c (Answer a1)" using assms(5) by (simp add: stray_refusal_def)
  then obtain d where d: "handle_reply env c a1 = Ok d"
    using handle_refusal_Ok [OF assms(1,2), of c] by blast
  from refused_once [OF assms(1,2,4,5) d] assms(6,7) assms(3)
  have "stray_refusal d (Answer a2)" by (auto simp: stray_refusal_def)
  with handle_refusal_Ok [OF assms(1,3), of d] d show ?thesis by simp
qed

theorem double_refusal_crashes_witness:
  "server_run quiet_environment
     (milter_server_context_init
       \<lparr>ctx_state := SERVER_CONTEXT_STATE_ENVELOPE_RECIPIENT, current_recipient := Some ''b'',
        ctx_message_result := Some (milter_message_result_new\<lparr>result_recipients := [''a'', ''b'']\<rparr>)\<rparr>)
     [Answer (Sig_reply_code 550 ''5.7.1'' None), Answer Sig_temporary_failure] =
   Fault Null_dereference"
  by (rule double_refusal_crashes [where x = "''b''" and
        r = "milter_message_result_new\<lparr>result_recipients := [''a'', ''b'']\<rparr>"])
    (simp_all add: refusal_def del: server_run.simps)

subsection \<open>Which answers are passed on\<close>

text \<open>
  The states in which the observers hear of an answer. The final verdicts and the two
  connection answers are passed on in every state.
\<close>

definition answer_allowed :: "server_context_state \<Rightarrow> reply_signal \<Rightarrow> bool" where
  "answer_allowed st answer \<longleftrightarrow>
     (case answer of
        Sig_negotiate_reply opt requests \<Rightarrow> st = SERVER_CONTEXT_STATE_NEGOTIATE
      | Sig_continue \<Rightarrow> replying_state st
      | Sig_reply_code code extended_code message \<Rightarrow> replying_state st
      | Sig_skip \<Rightarrow> st = SERVER_CONTEXT_STATE_BODY
      | Sig_temporary_failure \<Rightarrow> True
      | Sig_reject \<Rightarrow> True
      | Sig_accept \<Rightarrow> True
      | Sig_discard \<Rightarrow> True
      | Sig_connection_failure \<Rightarrow> True
      | Sig_shutdown \<Rightarrow> True
      | _ \<Rightarrow> st = SERVER_CONTEXT_STATE_END_OF_MESSAGE)"

lemma write_packet_emitted:
  assumes "quiet env"
  shows "\<exists>evs. emitted (snd (write_packet env c packet st)) = emitted c @ evs \<and>
     set evs \<subseteq> range Server_error"
  using assms by (cases "urgent st")
    (auto simp: write_packet_eq Let_def case_prod_beta disable_timeout_def)

definition told :: "server_context \<Rightarrow> server_context \<Rightarrow> (server_event \<Rightarrow> bool) \<Rightarrow> bool" where
  "told c d Q \<longleftrightarrow> (\<exists>evs. emitted d = emitted c @ evs \<and> (\<forall>ev \<in> set evs. Q ev))"

lemma toldI: "emitted d = emitted c @ evs \<Longrightarrow> (\<forall>ev \<in> set evs. Q ev) \<Longrightarrow> told c d Q"
  by (auto simp: told_def)

lemma told_same [simp]: "emitted d = emitted c \<Longrightarrow> told c d Q"
  by (simp add: told_def)

lemma told_one: "emitted d = emitted c @ [ev] \<Longrightarrow> Q ev \<Longrightarrow> told c d Q"
  by (simp add: told_def)

lemma told_trans: "told c d Q \<Longrightarrow> told d e Q \<Longrightarrow> told c e Q"
  unfolding told_def by (metis (no_types, lifting) UnE append_assoc set_append)

lemma emit_message_processed_told:
  assumes "quiet env"
  shows "\<exists>evs. emitted (emit_message_processed_signal env c) = emitted c @ evs \<and>
     set evs \<subseteq> range Message_processed"
  using assms by (auto simp: emit_message_processed_signal_def Let_def split: option.splits)

lemma note_refusal_fields:
  "note_refusal c status = Ok d \<Longrightarrow>
     emitted d = emitted c \<and> ctx_state d = ctx_state c \<and> quitted d = quitted c"
  by (auto simp: note_refusal_def Let_def ensure_message_result_def update_message_result_def
      split: if_splits option.splits)

lemma flush_body_told:
  assumes "quiet env" and "flush_body env c = Ok (ok, d)"
  shows "\<exists>evs. emitted d = emitted c @ evs \<and> set evs \<subseteq> range Server_error"
proof -
  obtain e packet n where b: "milter_command_encoder_encode_body (ctx_encoder c) (ctx_body c) =
      (e, packet, n)" using prod_cases3 by blast
  let ?c = "c\<lparr>body_response_queue := body_response_queue c @ [0], ctx_encoder := e\<rparr>"
  have "emitted d = emitted (snd (write_packet env ?c packet SERVER_CONTEXT_STATE_BODY))"
    using assms(2) b by (auto simp: flush_body_def append_body_response_queue_def Let_def
        case_prod_beta increment_process_body_count_def split: if_splits)
  with write_packet_emitted [OF assms(1), of ?c packet SERVER_CONTEXT_STATE_BODY] show ?thesis
    by simp
qed

lemma clear_process_body_count_emitted [simp]:
  "emitted (clear_process_body_count c) = emitted c"
  "emitted (clear_body_in_body_state c) = emitted c"
  by (simp_all add: clear_process_body_count_def clear_body_in_body_state_def Let_def)

lemma after_emitted:
  assumes "quiet env"
  shows "\<exists>evs. emitted (after_refusal env c) = emitted c @ evs \<and> set evs \<subseteq> range Message_processed"
    and "\<exists>evs. emitted (after_final env c) = emitted c @ evs \<and> set evs \<subseteq> range Message_processed"
  using emit_message_processed_told [OF assms, of c]
  by (auto simp: after_refusal_def after_final_def)

definition passed_on :: "server_context \<Rightarrow> reply_signal \<Rightarrow> server_event \<Rightarrow> bool" where
  "passed_on c answer ev \<longleftrightarrow>
     (\<forall>b. ev = Reply b \<longrightarrow> b = answer \<and> \<not> quitted c \<and> answer_allowed (ctx_state c) answer)"

lemma passed_on_other [simp]:
  "passed_on c a (Message_processed r)" "passed_on c a (Server_error e)"
  "passed_on c a (Reply a) \<longleftrightarrow> \<not> quitted c \<and> answer_allowed (ctx_state c) a"
  by (auto simp: passed_on_def)

lemma told_processed:
  "\<exists>evs. emitted d = emitted c @ evs \<and> set evs \<subseteq> range Message_processed \<Longrightarrow> told c d (passed_on b a)"
  "\<exists>evs. emitted d = emitted c @ evs \<and> set evs \<subseteq> range Server_error \<Longrightarrow> told c d (passed_on b a)"
  by (fastforce simp: told_def)+

lemma continue_told:
  assumes "quiet env" and "cb_decoder_continue env c = Ok d"
  shows "told c d (passed_on c Sig_continue)"
proof (cases "ctx_state c = SERVER_CONTEXT_STATE_BODY \<and> \<not> quitted c")
  case True
  let ?e = "decrement_process_body_count env (c\<lparr>ctx_timeout := None\<rparr>)"
  have e: "told c ?e (passed_on c Sig_continue)"
  proof (cases "\<exists>queue. body_response_queue c = 1 # queue")
    case decremented: True
    have "passed_on c Sig_continue (Reply Sig_continue)"
      using True by (simp add: answer_allowed_def state_order)
    with decremented assms(1) show ?thesis
      by (intro told_one [of _ _ "Reply Sig_continue"])
        (auto simp: decrement_process_body_count_def Let_def milter_server_context_set_state_def)
  next
    case decremented: False
    then have "emitted ?e = emitted c"
      by (auto simp: decrement_process_body_count_def split: list.splits)
    then show ?thesis by simp
  qed
  show ?thesis
  proof (cases "ctx_body ?e = []")
    case False
    then obtain ok where "flush_body env ?e = Ok (ok, d)"
      using assms(2) True by (auto simp: cb_decoder_continue_def Let_def disable_timeout_def
          check_reply_after_quit_def)
    from told_processed(2) [OF flush_body_told [OF assms(1) this]] e show ?thesis
      by (blast intro: told_trans)
  qed (use assms(2) True e in \<open>simp add: cb_decoder_continue_def Let_def disable_timeout_def
      check_reply_after_quit_def\<close>)
next
  case False
  let ?e = "c\<lparr>ctx_timeout := None, emitted := emitted c @ [Reply Sig_continue]\<rparr>"
  have "told c ?e (passed_on c Sig_continue)" if "replying_state (ctx_state c)" "\<not> quitted c"
    using that by (intro told_one [of _ _ "Reply Sig_continue"]) (simp_all add: answer_allowed_def)
  moreover have "told ?e (emit_message_processed_signal env ?e) (passed_on c Sig_continue)"
    by (rule told_processed(1)) (rule emit_message_processed_told [OF assms(1)])
  ultimately show ?thesis using assms False
    by (auto simp: cb_decoder_continue_def Let_def disable_timeout_def check_reply_after_quit_def
        invalid_state_def split: if_splits intro: told_trans told_one)
qed

lemma replying_body [simp]: "replying_state SERVER_CONTEXT_STATE_BODY"
  by (simp add: state_order)

lemma reply_code_told:
  assumes "quiet env" and "cb_decoder_reply_code env c code extended_code message = Ok d"
  shows "told c d (passed_on c (Sig_reply_code code extended_code message))"
proof -
  let ?a = "Sig_reply_code code extended_code message"
  obtain e where e: "note_refusal c (if 400 \<le> code \<and> code < 500 then MILTER_STATUS_TEMPORARY_FAILURE
      else MILTER_STATUS_REJECT) = Ok e"
    using assms(2) by (auto simp: cb_decoder_reply_code_def Let_def)
  note f = note_refusal_fields [OF this]
  let ?f = "if ctx_state e = SERVER_CONTEXT_STATE_BODY \<and> \<not> quitted e
    then clear_process_body_count (e\<lparr>ctx_timeout := None\<rparr>) else e\<lparr>ctx_timeout := None\<rparr>"
  have q: "quitted ?f = quitted e" "emitted ?f = emitted e"
    by (simp_all add: clear_process_body_count_def milter_server_context_set_state_def Let_def)
  let ?g = "?f\<lparr>emitted := emitted ?f @ [Reply ?a]\<rparr>"
  have "d = (if replying_state (ctx_state e)
      then if \<not> quitted e then after_refusal env ?g else ?f else invalid_state env ?f)"
    using assms(2) e q assms(1)
    by (cases "ctx_state e = SERVER_CONTEXT_STATE_BODY")
      (simp_all add: cb_decoder_reply_code_def Let_def disable_timeout_def
        check_reply_after_quit_def split: if_splits)
  moreover have "told c ?g (passed_on c ?a)" if "replying_state (ctx_state c)" "\<not> quitted c"
    using that q f by (intro told_one [of _ _ "Reply ?a"]) (simp_all add: answer_allowed_def)
  moreover have "told ?g (after_refusal env ?g) (passed_on c ?a)"
    by (rule told_processed(1)) (rule after_emitted(1) [OF assms(1)])
  ultimately show ?thesis using f q assms(1)
    by (auto simp: invalid_state_def intro: told_trans told_one simp del: emit_quiet)
qed

lemma refusal_told:
  assumes "quiet env" and "note_refusal c status = Ok e" and "answer \<in> {Sig_temporary_failure, Sig_reject}"
    and "d = (if quitted e then e\<lparr>ctx_timeout := None\<rparr>
      else clear_body_in_body_state (after_refusal env
        (e\<lparr>ctx_timeout := None, emitted := emitted e @ [Reply answer]\<rparr>)))"
  shows "told c d (passed_on c answer)"
proof -
  note f = note_refusal_fields [OF assms(2)]
  let ?g = "e\<lparr>ctx_timeout := None, emitted := emitted e @ [Reply answer]\<rparr>"
  have "told c ?g (passed_on c answer)" if "\<not> quitted c"
    using that f assms(3) by (intro told_one [of _ _ "Reply answer"]) (auto simp: answer_allowed_def)
  moreover have "told ?g (after_refusal env ?g) (passed_on c answer)"
    by (rule told_processed(1)) (rule after_emitted(1) [OF assms(1)])
  then have "told ?g (clear_body_in_body_state (after_refusal env ?g)) (passed_on c answer)"
    by (simp add: told_def)
  ultimately show ?thesis using f assms(4) by (cases "quitted e") (auto intro: told_trans)
qed

lemma final_told:
  assumes "quiet env" and "answer \<in> {Sig_accept, Sig_discard}"
    and "d = (if quitted c then c\<lparr>ctx_status := st, ctx_timeout := None\<rparr>
      else clear_body_in_body_state (after_final env
        (c\<lparr>ctx_status := st, ctx_timeout := None, emitted := emitted c @ [Reply answer]\<rparr>)))"
  shows "told c d (passed_on c answer)"
proof -
  let ?g = "c\<lparr>ctx_status := st, ctx_timeout := None, emitted := emitted c @ [Reply answer]\<rparr>"
  have "told c ?g (passed_on c answer)" if "\<not> quitted c"
    using that assms(2) by (intro told_one [of _ _ "Reply answer"]) (auto simp: answer_allowed_def)
  moreover have "told ?g (after_final env ?g) (passed_on c answer)"
    by (rule told_processed(1)) (rule after_emitted(2) [OF assms(1)])
  then have "told ?g (clear_body_in_body_state (after_final env ?g)) (passed_on c answer)"
    by (simp add: told_def)
  ultimately show ?thesis using assms(3) by (cases "quitted c") (auto intro: told_trans)
qed

lemma note_header_emitted [simp]:
  "emitted (note_added_header n v c) = emitted c" "emitted (note_removed_header n c) = emitted c"
  by (simp_all add: note_added_header_def note_removed_header_def update_message_result_def
      ensure_message_result_def)



subsection \<open>One command at a time\<close>

definition in_flight :: "server_context \<Rightarrow> server_context \<Rightarrow> bool" where
  "in_flight c d \<longleftrightarrow>
     written d = written c \<and> ctx_timeout d = ctx_timeout c \<or>
     length (written d) = Suc (length (written c)) \<and> ctx_timeout c = None \<and> ctx_timeout d \<noteq> None"

lemma in_flight_same [simp]:
  "written d = written c \<Longrightarrow> ctx_timeout d = ctx_timeout c \<Longrightarrow> in_flight c d"
  by (simp add: in_flight_def)

lemma in_flight_write:
  assumes "quiet env" and "\<not> urgent st" and "written b = written c" and "ctx_timeout b = ctx_timeout c"
  shows "in_flight c (snd (write_packet env b packet st))"
  using assms by (simp add: write_packet_eq Let_def case_prod_beta in_flight_def disable_timeout_def)

lemma in_flight_stop:
  assumes "quiet env" and "written b = written c" and "ctx_timeout b = ctx_timeout c"
  shows "in_flight c (stop_on_state env b st)"
  using assms by (simp add: stop_on_state_def Let_def)

lemma in_flight_skip:
  assumes "quiet env" and "written b = written c" and "ctx_timeout b = ctx_timeout c"
  shows "in_flight c (snd (skip_command env b st answer))"
  using assms by (simp add: skip_command_def)

lemma in_flight_flush_body:
  assumes "quiet env" and "flush_body env b = Ok (ok, d)" and "written b = written c"
    and "ctx_timeout b = ctx_timeout c"
  shows "in_flight c d"
proof -
  obtain e packet n where b: "milter_command_encoder_encode_body (ctx_encoder b) (ctx_body b) =
      (e, packet, n)" using prod_cases3 by blast
  let ?b = "b\<lparr>body_response_queue := body_response_queue b @ [0], ctx_encoder := e\<rparr>"
  have "in_flight c (snd (write_packet env ?b packet SERVER_CONTEXT_STATE_BODY))"
    by (rule in_flight_write [OF assms(1)]) (simp_all add: urgent_def assms(3,4))
  then show ?thesis
    using assms(2) b by (auto simp: flush_body_def append_body_response_queue_def Let_def
        case_prod_beta increment_process_body_count_def in_flight_def split: if_splits)
qed

lemma command_parts_output [simp]:
  "written (ensure_message_result c) = written c"
  "ctx_timeout (ensure_message_result c) = ctx_timeout c"
  "written (update_message_result f c) = written c"
  "ctx_timeout (update_message_result f c) = ctx_timeout c"
  "written (note_message_state c ms) = written c"
  "ctx_timeout (note_message_state c ms) = ctx_timeout c"
  "written (set_context_macro c command) = written c"
  "ctx_timeout (set_context_macro c command) = ctx_timeout c"
  by (simp_all add: ensure_message_result_def update_message_result_def note_message_state_def
      set_context_macro_def)

lemma in_flight_written:
  assumes "quiet env" and "write_packet env b packet st = (ok, d)" and "\<not> urgent st"
    and "written b = written c" and "ctx_timeout b = ctx_timeout c"
  shows "in_flight c d"
  using in_flight_write [OF assms(1,3,4,5), of packet] assms(2) by simp

lemma issue_in_flight:
  assumes "quiet env" and "issue env c command = Ok (ok, d)" and "command \<notin> {Cmd_abort, Cmd_quit}"
  shows "in_flight c d"
proof -
  note parts = in_flight_written [OF assms(1)] in_flight_stop [OF assms(1)]
  show ?thesis
  proof (cases command)
    case (Cmd_body chunk)
    then show ?thesis using assms
      by (auto simp: milter_server_context_body_def Let_def skip_command_def split: if_splits
          intro: parts in_flight_flush_body)
  qed (use assms in \<open>auto simp: command_defs Let_def write_encoded_def urgent_def
      skip_command_def split: if_splits option.splits prod.splits intro: parts\<close>)
qed

text \<open>
  A command that comes while the timer runs: if it would be written otherwise, it is refused.
\<close>

definition refused_busy :: "bool \<Rightarrow> server_context \<Rightarrow> server_context \<Rightarrow> bool" where
  "refused_busy ok c d \<longleftrightarrow> \<not> ok \<and> written d = written c \<and> ctx_timeout d = ctx_timeout c \<and>
     emitted d = emitted c @ [Server_error SERVER_CONTEXT_ERROR_BUSY]"

lemma write_packet_busy:
  assumes "quiet env" and "\<not> urgent st" and "ctx_timeout b \<noteq> None"
    and "written b = written c" and "ctx_timeout b = ctx_timeout c" and "emitted b = emitted c"
  shows "refused_busy (fst (write_packet env b packet st)) c (snd (write_packet env b packet st))"
  using assms by (simp add: write_packet_eq refused_busy_def)

lemma write_packet_refused:
  assumes "quiet env" and "write_packet env b packet st = (ok, d)" and "\<not> urgent st" and "ctx_timeout b \<noteq> None"
    and "written b = written c" and "ctx_timeout b = ctx_timeout c" and "emitted b = emitted c"
  shows "refused_busy ok c d"
  using write_packet_busy [OF assms(1,3-7), of packet] assms(2) by simp

lemma command_parts_emitted [simp]:
  "emitted (ensure_message_result c) = emitted c"
  "emitted (update_message_result f c) = emitted c"
  "emitted (note_message_state c ms) = emitted c"
  "emitted (set_context_macro c command) = emitted c"
  by (simp_all add: ensure_message_result_def update_message_result_def note_message_state_def
      set_context_macro_def)

lemma flush_body_refused:
  assumes "quiet env" and "flush_body env b = Ok (ok, d)" and "ctx_timeout b \<noteq> None"
    and "written b = written c" and "ctx_timeout b = ctx_timeout c" and "emitted b = emitted c"
  shows "refused_busy ok c d"
proof -
  obtain e packet n where b: "milter_command_encoder_encode_body (ctx_encoder b) (ctx_body b) =
      (e, packet, n)" using prod_cases3 by blast
  let ?b = "b\<lparr>body_response_queue := body_response_queue b @ [0], ctx_encoder := e\<rparr>"
  have "refused_busy (fst (write_packet env ?b packet SERVER_CONTEXT_STATE_BODY)) c
      (snd (write_packet env ?b packet SERVER_CONTEXT_STATE_BODY))"
    by (rule write_packet_busy [OF assms(1)]) (use assms(3-6) in \<open>simp_all add: urgent_def\<close>)
  then show ?thesis
    using assms(2) b by (auto simp: flush_body_def append_body_response_queue_def Let_def
        case_prod_beta refused_busy_def split: if_splits)
qed

text \<open>Whether a command is stopped, skipped or written does not depend on the timer.\<close>

lemma command_parts_option [simp]:
  "ctx_option (ensure_message_result c) = ctx_option c"
  "ctx_option (update_message_result f c) = ctx_option c"
  "ctx_option (note_message_state c ms) = ctx_option c"
  "ctx_option (set_context_macro c command) = ctx_option c"
  by (simp_all add: ensure_message_result_def update_message_result_def note_message_state_def
      set_context_macro_def)

lemma stop_and_skip_written [simp]:
  "quiet env \<Longrightarrow> written (stop_on_state env c st) = written c"
  "quiet env \<Longrightarrow> written (snd (skip_command env c st answer)) = written c"
  by (simp_all add: stop_on_state_def skip_command_def Let_def)

lemma issue_refused:
  assumes "quiet env" and "issue env c command = Ok (ok, d)" and "command \<notin> {Cmd_abort, Cmd_quit}"
    and "ctx_timeout c \<noteq> None"
    and "issue env (c\<lparr>ctx_timeout := None\<rparr>) command = Ok (ok', d')" and "written d' \<noteq> written c"
  shows "refused_busy ok c d"
proof -
  note parts = write_packet_refused [OF assms(1)] flush_body_refused [OF assms(1)]
  note idle = stop_and_skip_written [OF assms(1)]
  show ?thesis
  proof (cases command)
    case (Cmd_body chunk)
    then show ?thesis using assms idle
      by (auto simp: milter_server_context_body_def Let_def skip_command_def
          milter_server_context_is_enable_step_def split: if_splits intro: parts(2))
  qed (use assms idle in \<open>auto simp: command_defs Let_def write_encoded_def urgent_def
      skip_command_def milter_server_context_is_enable_step_def
      split: if_splits option.splits prod.splits intro: parts(1)\<close>)
qed

text \<open>
  C30: the owner of a server context issues commands - no abort and no quit, which may overtake - while
  the writer flushes nothing and the milter answers nothing; the observers do not call the context. At
  most one packet goes out, and none if a command was being processed already. From then on a command
  that would be written otherwise - it is not answered by the context itself - is refused: it returns
  \<open>FALSE\<close>, reports that the context is busy, and writes nothing. (That says nothing of later
  moments: see \<open>body_answer_not_timed\<close> for an answer that is not waited for; and a chunk of the body
  that is refused is kept all the same, see \<open>refused_chunk_kept\<close>.)
\<close>

theorem one_command_in_flight:
  assumes "quiet env" and "server_run env c (map Issue cs) = Ok d"
    and "Cmd_abort \<notin> set cs" and "Cmd_quit \<notin> set cs"
  shows "length (written d) \<le> length (written c) + (if milter_server_context_is_processing c then 0 else 1) \<and>
    (written d \<noteq> written c \<or> milter_server_context_is_processing c \<longrightarrow>
      (\<forall>command ok e ok' e'. command \<notin> {Cmd_abort, Cmd_quit} \<longrightarrow> issue env d command = Ok (ok, e) \<longrightarrow>
         issue env (d\<lparr>ctx_timeout := None\<rparr>) command = Ok (ok', e') \<longrightarrow> written e' \<noteq> written d \<longrightarrow>
         refused_busy ok d e))"
proof -
  let ?bound = "length (written c) + (if milter_server_context_is_processing c then 0 else 1)"
  have "length (written d) + (if ctx_timeout d = None then 1 else 0) \<le> ?bound \<and>
    (ctx_timeout d = None \<longrightarrow> written d = written c \<and> ctx_timeout c = None)"
  proof (rule server_run_invariant [OF assms(2)])
    fix a i b
    assume inv: "length (written a) + (if ctx_timeout a = None then 1 else 0) \<le> ?bound \<and>
        (ctx_timeout a = None \<longrightarrow> written a = written c \<and> ctx_timeout c = None)"
      and i: "i \<in> set (map Issue cs)" and s: "server_step env a i = Ok b"
    from i obtain command where c: "i = Issue command" "command \<in> set cs" by auto
    with s obtain ok where "issue env a command = Ok (ok, b)" by auto
    from issue_in_flight [OF assms(1) this] c(2) assms(3,4) have "in_flight a b" by auto
    with inv show "length (written b) + (if ctx_timeout b = None then 1 else 0) \<le> ?bound \<and>
        (ctx_timeout b = None \<longrightarrow> written b = written c \<and> ctx_timeout c = None)"
      by (auto simp: in_flight_def)
  qed (simp add: milter_server_context_is_processing_def)
  then show ?thesis
    using issue_refused [OF assms(1)] by (auto simp: milter_server_context_is_processing_def)
qed

lemma quiet_environment_writes:
  assumes "ctx_timeout b = None"
  shows "written (snd (write_packet quiet_environment b packet st)) \<noteq> written b"
    and "ctx_option (snd (write_packet quiet_environment b packet st)) = ctx_option b"
proof -
  let ?b = "if urgent st then b else b\<lparr>ctx_timeout := Some Writing_timeout\<rparr>"
  have "only_output ?b (fst (packed quiet_environment ?b packet st))" by (rule only_output_packed)
  moreover have "env_accepts_write quiet_environment p" for p by (simp add: quiet_environment_def)
  ultimately show "written (snd (write_packet quiet_environment b packet st)) \<noteq> written b"
    "ctx_option (snd (write_packet quiet_environment b packet st)) = ctx_option b"
    using assms by (auto simp: write_packet_eq only_output_def Let_def case_prod_beta)
qed

theorem one_command_in_flight_witness:
  "\<exists>d ok e. server_run quiet_environment (milter_server_context_init\<lparr>ctx_option := Some milter_option_new_empty\<rparr>)
       (map Issue [Cmd_helo ''a'']) = Ok d \<and> length (written d) \<le> 1 \<and>
     issue quiet_environment d (Cmd_unknown ''c'') = Ok (ok, e) \<and> refused_busy ok d e"
proof -
  let ?c = "milter_server_context_init\<lparr>ctx_option := Some milter_option_new_empty\<rparr>"
  let ?cs = "[Cmd_helo ''a'']" and ?r = "Cmd_unknown ''c''"
  define w where "w = write_encoded quiet_environment ?c
      (milter_command_encoder_encode_helo (ctx_encoder ?c) ''a'') SERVER_CONTEXT_STATE_HELO"
  have "milter_server_context_helo quiet_environment ?c ''a'' = w"
    by (simp add: milter_server_context_helo_def w_def quiet_environment_def
        milter_server_context_is_enable_step_def milter_option_new_empty_def MILTER_STEP_NONE_def)
  then have d: "server_run quiet_environment ?c (map Issue ?cs) = Ok (snd w)" by (simp add: case_prod_beta)
  have w: "written (snd w) \<noteq> written ?c" "ctx_option (snd w) = Some milter_option_new_empty"
    unfolding w_def write_encoded_def
    using quiet_environment_writes [where b = "?c\<lparr>ctx_encoder := e\<rparr>" for e]
    by (simp_all add: milter_server_context_init_def)
  define v where "v = write_encoded quiet_environment (snd w\<lparr>ctx_timeout := None\<rparr>)
      (milter_command_encoder_encode_unknown (ctx_encoder (snd w)) ''c'') SERVER_CONTEXT_STATE_UNKNOWN"
  have e': "issue quiet_environment (snd w\<lparr>ctx_timeout := None\<rparr>) ?r = Ok v"
    using w(2) by (simp add: milter_server_context_unknown_def v_def
        milter_server_context_is_enable_step_def milter_option_new_empty_def MILTER_STEP_NONE_def)
  have v: "written (snd v) \<noteq> written (snd w)" unfolding v_def write_encoded_def
    using quiet_environment_writes(1) [where b = "snd w\<lparr>ctx_timeout := None, ctx_encoder := e\<rparr>" for e] by simp
  obtain ok e where e: "issue quiet_environment (snd w) ?r = Ok (ok, e)"
    by (cases "milter_server_context_unknown quiet_environment (snd w) ''c''") auto
  from one_command_in_flight [of quiet_environment ?c ?cs "snd w"] d e e' w v show ?thesis
    by (cases v) (auto simp: milter_server_context_is_processing_def milter_server_context_init_def
        simp del: server_run.simps issue.simps dest!: spec [of _ ?r])
qed

text \<open>A chunk of the body that is refused is kept, and goes out with the next one.\<close>

theorem refused_chunk_kept:
  assumes "quiet env" and "ctx_timeout c \<noteq> None" and "\<not> env_stop env (Stop_on_body chunk)"
    and "\<not> milter_server_context_is_enable_step c MILTER_STEP_NO_BODY"
  shows "\<exists>d. milter_server_context_body env c chunk = Ok (False, d) \<and> ctx_body d = ctx_body c @ chunk"
proof -
  let ?b = "set_context_macro (note_message_state (update_message_result
      (\<lambda>r. milter_message_result_add_body_size r (word_of_nat (length chunk))) (ensure_message_result c))
      MILTER_STATE_BODY) MILTER_COMMAND_BODY"
  have b: "ctx_body ?b = ctx_body c" "ctx_timeout ?b = ctx_timeout c" "ctx_option ?b = ctx_option c"
    by (simp_all add: set_context_macro_def note_message_state_def update_message_result_def
        ensure_message_result_def)
  have "\<exists>d. flush_body env (?b\<lparr>ctx_body := ctx_body c @ chunk\<rparr>) = Ok (False, d) \<and> ctx_body d = ctx_body c @ chunk"
    using assms(1,2) b by (auto simp: flush_body_def append_body_response_queue_def write_packet_eq urgent_def
        Let_def split: prod.split)
  then show ?thesis using assms(3,4) b
    by (simp add: milter_server_context_body_def Let_def milter_server_context_is_enable_step_def)
qed

subsection \<open>Waiting for the answer to a body chunk\<close>

lemma write_packet_accepted:
  assumes "quiet env" and "\<And>p. env_accepts_write env p" and "ctx_timeout c = None"
  shows "\<exists>d. write_packet env c packet st = (True, d) \<and> only_output c d \<and>
     next_states d = next_states c @ [st]"
proof -
  obtain ok d where w: "write_packet env c packet st = (ok, d)" by fastforce
  with only_output_write_packet [OF assms(1), of c packet st] have "only_output c d" by simp
  moreover from w have "ok \<and> next_states d = next_states c @ [st]"
    using assms by (auto simp: write_packet_eq Let_def case_prod_beta split: if_splits)
  ultimately show ?thesis using w by simp
qed

text \<open>
  A body chunk that fits in one packet is not timed: when it has been flushed, no timer
  runs, although its answer is awaited, and the next command is not refused as busy.
\<close>

theorem body_answer_not_timed:
  assumes "quiet env" and "\<And>p. env_accepts_write env p" and "\<And>r. \<not> env_stop env r"
    and "ctx_option c = Some opt" and "step opt AND MILTER_STEP_NO_BODY = 0"
    and "step opt AND MILTER_STEP_NO_REPLY_BODY = 0"
    and "ctx_timeout c = None" and "next_states c = []" and "ctx_body c = []"
    and "length chunk \<le> MILTER_CHUNK_SIZE"
  shows "\<exists>d. server_run env c [Issue (Cmd_body chunk), Flush] = Ok d \<and>
     ctx_state d = SERVER_CONTEXT_STATE_BODY \<and>
     body_response_queue d = body_response_queue c @ [1] \<and>
     \<not> milter_server_context_is_processing d"
proof -
  define b where "b = set_context_macro (note_message_state (update_message_result
      (\<lambda>r. milter_message_result_add_body_size r (word_of_nat (length chunk)))
      (ensure_message_result c)) MILTER_STATE_BODY) MILTER_COMMAND_BODY"
  have b: "ctx_option b = Some opt" "ctx_body b = []" "ctx_timeout b = None" "next_states b = []"
    "body_response_queue b = body_response_queue c"
    using assms(4,7,8,9) by (simp_all add: b_def set_context_macro_def note_message_state_def
        update_message_result_def ensure_message_result_def)
  obtain e packet where enc: "milter_command_encoder_encode_body (ctx_encoder b) chunk =
      (e, packet, length chunk)"
    using assms(10) by (simp add: milter_command_encoder_encode_body_def Let_def case_prod_beta)
  define w where "w = b\<lparr>ctx_body := chunk, body_response_queue := body_response_queue c @ [0],
      ctx_encoder := e\<rparr>"
  have "ctx_timeout w = None" by (simp add: w_def b)
  from write_packet_accepted [OF assms(1,2) this, of packet SERVER_CONTEXT_STATE_BODY] obtain d
    where d: "write_packet env w packet SERVER_CONTEXT_STATE_BODY = (True, d)" "only_output w d"
      "next_states d = next_states w @ [SERVER_CONTEXT_STATE_BODY]" by blast
  note core = only_output_fields [OF d(2)]
  have flush: "flush_body env (b\<lparr>ctx_body := chunk\<rparr>) =
      Ok (True, d\<lparr>ctx_body := [], body_response_queue := body_response_queue c @ [1]\<rparr>)"
    using enc d(1) core by (simp add: flush_body_def append_body_response_queue_def Let_def b
        increment_process_body_count_def w_def)
  have "\<not> milter_server_context_is_enable_step b MILTER_STEP_NO_BODY"
    using assms(5) b(1) by (simp add: milter_server_context_is_enable_step_def)
  then have "milter_server_context_body env c chunk = flush_body env (b\<lparr>ctx_body := chunk\<rparr>)"
    using assms(3) b(2) by (simp add: milter_server_context_body_def Let_def flip: b_def)
  with flush show ?thesis using assms(1) d(3)
    by (auto simp: flushed_def w_def b process_next_state_def process_next_state_body_def Let_def
        disable_timeout_def milter_server_context_is_processing_def state_order
        milter_server_context_set_state_def)
qed

theorem body_answer_not_timed_witness:
  "\<exists>d. server_run quiet_environment
       (milter_server_context_init\<lparr>ctx_option := Some milter_option_new_empty\<rparr>)
       [Issue (Cmd_body ''hello''), Flush] = Ok d \<and>
     ctx_state d = SERVER_CONTEXT_STATE_BODY \<and> body_response_queue d = [1] \<and>
     \<not> milter_server_context_is_processing d"
proof -
  have accepts: "env_accepts_write quiet_environment p" for p by (simp add: quiet_environment_def)
  have goes_on: "\<not> env_stop quiet_environment r" for r by (simp add: quiet_environment_def)
  show ?thesis
    using body_answer_not_timed [OF quiet_quiet_environment accepts goes_on,
        of "milter_server_context_init\<lparr>ctx_option := Some milter_option_new_empty\<rparr>"
          milter_option_new_empty "''hello''"]
    by (simp add: milter_server_context_init_def milter_option_new_empty_def MILTER_STEP_NONE_def
        MILTER_CHUNK_SIZE_def del: server_run.simps)
qed

end
