(* ===== verification/Server_Context_Wire.thy ===== *)
theory Server_Context_Wire
  imports Server_Context_Spec "HOL-Library.Sublist"
begin

text \<open>
  What a server context writes, as the milter reads it: whatever happens in a session, its
  bytes are the packets of well-formed commands, so that the milter's decoder
  (\<open>Command_Spec\<close>) understands them, however they are cut.
\<close>

subsection \<open>Well-formed macro tables\<close>

definition hash_size :: "macro_hash \<Rightarrow> nat" where
  "hash_size ms = 2 + sum_list (map (\<lambda>(k, v). length k + length v + 4) ms)"

definition wf_hash :: "macro_hash \<Rightarrow> bool" where
  "wf_hash ms \<longleftrightarrow>
     (\<forall>(k, v) \<in> set ms. wf_string k \<and> c_string v) \<and>
     distinct (map (normalize_macro_key \<circ> fst) ms) \<and> hash_size ms < 2 ^ 24"

definition wf_agent :: "protocol_agent \<Rightarrow> bool" where
  "wf_agent a \<longleftrightarrow> (\<forall>(ctx, ms) \<in> set (agent_macros a). wf_hash ms)"

lemma wf_agent_cong: "agent_macros a = agent_macros b \<Longrightarrow> wf_agent a = wf_agent b"
  by (simp add: wf_agent_def)

lemma wf_agent_init [simp]: "wf_agent milter_protocol_agent_init"
  by (simp add: wf_agent_def milter_protocol_agent_init_def)

lemma wf_agent_macro_context [simp]:
  "wf_agent (milter_protocol_agent_set_macro_context a ctx) = wf_agent a"
  "wf_agent (milter_protocol_agent_set_macros_requests a rs) = wf_agent a"
  by (simp_all add: wf_agent_def milter_protocol_agent_set_macro_context_def
      milter_protocol_agent_set_macros_requests_def clear_available_macros_def)

lemma set_AList_delete: "set (AList.delete k xs) \<subseteq> set xs"
  by (induction xs) auto

lemma wf_agent_clear [simp]:
  assumes "wf_agent a"
  shows "wf_agent (milter_protocol_agent_clear_message_related_macros a)"
proof -
  have "set (agent_macros (milter_protocol_agent_clear_message_related_macros a)) \<subseteq>
      set (agent_macros a)"
    by (simp add: milter_protocol_agent_clear_message_related_macros_def clear_available_macros_def)
      (meson set_AList_delete subset_trans)
  with assms show ?thesis unfolding wf_agent_def by blast
qed

lemma set_AList_update: "set (AList.update k v xs) \<subseteq> insert (k, v) (set xs)"
  by (induction xs) auto

lemma wf_agent_set_macros:
  assumes "wf_agent a" and "wf_hash (fold (\<lambda>(key, value). cb_copy_macro key value) ms [])"
  shows "wf_agent (milter_protocol_agent_set_macros_hash_table a ctx ms)"
  using assms set_AList_update
  by (fastforce simp: wf_agent_def milter_protocol_agent_set_macros_hash_table_def
      clear_available_macros_def)

lemma filter_macros_subset:
  assumes "filter_macros ms symbols = Some fs"
  shows "set fs \<subseteq> set ms" and "distinct (map fst fs)"
proof -
  let ?f = "\<lambda>symbol filtered. case map_of ms symbol of
      None \<Rightarrow> filtered | Some value \<Rightarrow> AList.update symbol value filtered"
  have *: "set (fold ?f symbols acc) \<subseteq> set ms \<and> distinct (map fst (fold ?f symbols acc))"
    if "set acc \<subseteq> set ms" "distinct (map fst acc)" for acc
    using that
  proof (induction symbols arbitrary: acc)
    case (Cons s symbols)
    have "set (?f s acc) \<subseteq> set ms \<and> distinct (map fst (?f s acc))"
      using Cons.prems set_AList_update [of s _ acc]
      by (auto simp: distinct_update split: option.splits dest!: map_of_SomeD)
    then show ?case using Cons.IH by simp
  qed simp
  have "fs = fold ?f symbols []"
    using assms by (simp add: filter_macros_def Let_def split: if_splits)
  with * [of "[]"] show "set fs \<subseteq> set ms" "distinct (map fst fs)" by simp_all
qed

lemma wf_hash_subset:
  assumes "wf_hash ms" and "set fs \<subseteq> set ms" and "distinct (map fst fs)"
  shows "wf_hash fs"
proof -
  let ?w = "\<lambda>(k, v). length k + length v + 4"
  have dk: "distinct (map fst ms)" "inj_on (normalize_macro_key \<circ> fst) (set ms)" "distinct ms"
    using assms(1) by (auto simp: wf_hash_def distinct_map dest: inj_on_imageI2)
  have "distinct fs" using assms(3) by (simp add: distinct_map)
  then have "distinct (map (normalize_macro_key \<circ> fst) fs)"
    using dk(2) assms(2) by (simp add: distinct_map inj_on_subset)
  moreover have "sum_list (map ?w fs) \<le> sum_list (map ?w ms)"
    using \<open>distinct fs\<close> dk(3) assms(2)
    by (simp add: sum_list_distinct_conv_sum_set sum_mono2)
  ultimately show ?thesis using assms(1,2) by (auto simp: wf_hash_def hash_size_def)
qed

lemma wf_define_macro:
  assumes "platform_laws P" and "wf_hash ms" and "check_macro_context (command_code ctx) = Ok ctx"
  shows "wf_command P (Cmd_define_macro ctx (Some (map (apsnd Some) ms)))"
proof -
  let ?t = "map (apsnd Some) ms"
  have keys: "map fst ?t = map fst ms" by (simp add: comp_def)
  have dk: "distinct (map fst ms)"
    using assms(2) by (auto simp: wf_hash_def distinct_map dest: inj_on_imageI2)
  have val: "macro_value ?t k = v" if "(k, v) \<in> set ms" for k v
    using that dk by (simp add: macro_value_def map_of_map apsnd_def map_prod_def)
  have "mset (g_list_sort P (compare_macro_key P) (map fst ms)) = mset (map fst ms)"
    using assms(1) by (simp only: platform_laws_def)
  then have perm: "sum_list (map f (g_list_sort P (compare_macro_key P) (map fst ms))) =
      sum_list (map f (map fst ms))" for f :: "bytes \<Rightarrow> nat"
    by (simp only: sum_mset_sum_list [symmetric] mset_map)
  have "length (encode_macros P ?t) =
      sum_list (map (\<lambda>k. length (encode_macro ?t k)) (g_list_sort P (compare_macro_key P) (map fst ms)))"
    by (simp add: encode_macros_def length_concat keys comp_def)
  also have "\<dots> = sum_list (map (\<lambda>k. length (encode_macro ?t k)) (map fst ms))"
    by (rule perm)
  also have "\<dots> = sum_list (map (\<lambda>kv. length (encode_macro ?t (fst kv))) ms)"
    by (simp add: comp_def)
  also have "\<dots> \<le> sum_list (map (\<lambda>(k, v). length k + length v + 4) ms)"
  proof (rule sum_list_mono)
    fix kv assume "kv \<in> set ms"
    moreover obtain k v where "kv = (k, v)" by fastforce
    ultimately show "length (encode_macro ?t (fst kv)) \<le> (case kv of (k, v) \<Rightarrow> length k + length v + 4)"
      using val [of k v] by (simp add: encode_macro_def encode_macro_name_def)
  qed
  finally have "length (encode_macros P ?t) + 2 \<le> hash_size ms" by (simp add: hash_size_def)
  moreover have "wf_macros ?t"
    using assms(2) by (auto simp: wf_macros_def wf_hash_def comp_def)
  ultimately show ?thesis using assms(2,3)
    by (simp add: wf_command_def command_bodies wf_hash_def)
qed

subsection \<open>What one step adds to the wire\<close>

definition plain :: "command \<Rightarrow> bool" where
  "plain cmd \<longleftrightarrow> (case cmd of Cmd_define_macro ctx ms \<Rightarrow> False | Cmd_body chunk \<Rightarrow> False | _ \<Rightarrow> True)"

text \<open>
  \<open>extends P is c d\<close>: from \<open>c\<close> to \<open>d\<close>, only packets of well-formed commands were
  written, and those that are neither macros nor body chunks are among \<open>is\<close>, in order.
\<close>

definition extends ::
    "platform \<Rightarrow> command list \<Rightarrow> server_context \<Rightarrow> server_context \<Rightarrow> bool" where
  "extends P issued c d \<longleftrightarrow>
     wf_agent (ctx_agent d) \<and>
     (\<exists>cs. concat (written d) = concat (written c) @ stream (map (command_body P) cs) \<and>
        (\<forall>x \<in> set cs. wf_command P x \<and> \<not> is_Cmd_negotiate x) \<and> subseq (filter plain cs) issued)"

lemma extends_same:
  assumes "wf_agent (ctx_agent d)" and "written d = written c"
  shows "extends P issued c d"
  using assms by (auto simp: extends_def intro: exI [of _ "[]"])

lemma stream_append [simp]: "stream (ps @ qs) = stream ps @ stream qs"
  by (simp add: stream_def)

lemma extends_trans:
  assumes "extends P is c d" and "extends P js d e"
  shows "extends P (is @ js) c e"
proof -
  from assms obtain cs ds where
    "concat (written d) = concat (written c) @ stream (map (command_body P) cs)"
    "\<forall>x \<in> set cs. wf_command P x \<and> \<not> is_Cmd_negotiate x" "subseq (filter plain cs) is"
    "concat (written e) = concat (written d) @ stream (map (command_body P) ds)"
    "\<forall>x \<in> set ds. wf_command P x \<and> \<not> is_Cmd_negotiate x" "subseq (filter plain ds) js"
    "wf_agent (ctx_agent e)"
    unfolding extends_def by blast
  then show ?thesis unfolding extends_def
    by (intro conjI exI [of _ "cs @ ds"]) (auto intro: list_emb_append_mono)
qed

lemma prepend_macro_packet:
  assumes "platform_laws (env_platform env)" and "wf_agent (ctx_agent c)"
    and "check_macro_context (command_code command) = Ok command"
  shows "wf_agent (ctx_agent (fst (prepend_macro env c packet command)))"
    and "\<exists>ms. snd (prepend_macro env c packet command) =
       stream (map (command_body (env_platform env)) ms) @ packet \<and>
       (\<forall>x \<in> set ms. wf_command (env_platform env) x \<and> \<not> is_Cmd_negotiate x \<and> \<not> plain x)"
proof -
  show "wf_agent (ctx_agent (fst (prepend_macro env c packet command)))"
    using assms(2) by (auto simp: prepend_macro_def Let_def case_prod_beta split: option.splits)
  have wf: "wf_hash ms" if "map_of (agent_macros (ctx_agent c)) command = Some ms" for ms
    using that assms(2) by (auto simp: wf_agent_def dest: map_of_SomeD)
  have get: "milter_protocol_agent_get_macros
      (milter_protocol_agent_set_macro_context (ctx_agent c) command) =
      map_of (agent_macros (ctx_agent c)) command"
    by (simp add: milter_protocol_agent_get_macros_def
        milter_protocol_agent_set_macro_context_def clear_available_macros_def)
  have one: "\<exists>ms. snd (milter_command_encoder_encode_define_macro (env_platform env) e command
        (Some (map (apsnd Some) fs))) @ packet =
       stream (map (command_body (env_platform env)) ms) @ packet \<and>
       (\<forall>x \<in> set ms. wf_command (env_platform env) x \<and> \<not> is_Cmd_negotiate x \<and> \<not> plain x)"
    if "wf_hash fs" for e fs
    using encode_command_packet [of "Cmd_define_macro command (Some (map (apsnd Some) fs))" e
        "env_platform env"] wf_define_macro [OF assms(1) that assms(3)]
    by (intro exI [of _ "[Cmd_define_macro command (Some (map (apsnd Some) fs))]"])
      (simp add: plain_def)
  have none: "\<exists>ms. packet = stream (map (command_body (env_platform env)) ms) @ packet \<and>
       (\<forall>x \<in> set ms. wf_command (env_platform env) x \<and> \<not> is_Cmd_negotiate x \<and> \<not> plain x)"
    by (intro exI [of _ "[]"]) simp
  have filtered: "wf_hash fs" if "filter_macros ms symbols = Some fs" "wf_hash ms" for fs ms symbols
    using wf_hash_subset [OF that(2) filter_macros_subset [OF that(1)]] .
  show "\<exists>ms. snd (prepend_macro env c packet command) =
       stream (map (command_body (env_platform env)) ms) @ packet \<and>
       (\<forall>x \<in> set ms. wf_command (env_platform env) x \<and> \<not> is_Cmd_negotiate x \<and> \<not> plain x)"
    unfolding prepend_macro_def Let_def get case_prod_beta
    using wf one none filtered by (simp split: option.split)
qed

lemma macro_command_context:
  "macro_command st = Some command \<Longrightarrow> check_macro_context (command_code command) = Ok command"
  by (cases st) (auto simp: macro_command_def check_macro_context_def)

lemma extends_write:
  assumes "platform_laws (env_platform env)" and "quiet env" and "wf_agent (ctx_agent c)"
    and "packet = frame (command_body (env_platform env) cmd)" and "wf_command (env_platform env) cmd"
    and "\<not> is_Cmd_negotiate cmd" and "written c = written b"
  shows "extends (env_platform env) (if plain cmd then [cmd] else []) b (snd (write_packet env c packet st))"
proof -
  let ?P = "env_platform env"
  let ?c = "if urgent st then c else c\<lparr>ctx_timeout := Some Writing_timeout\<rparr>"
  have wf: "wf_agent (ctx_agent ?c)" using assms(3) by simp
  have "wf_agent (ctx_agent (fst (packed env ?c packet st))) \<and>
      (\<exists>ms. snd (packed env ?c packet st) = stream (map (command_body ?P) ms) @ packet \<and>
        (\<forall>x \<in> set ms. wf_command ?P x \<and> \<not> is_Cmd_negotiate x \<and> \<not> plain x))"
  proof (cases "macro_command st")
    case None
    then show ?thesis using wf by (auto simp: packed_def intro: exI [of _ "[]"])
  next
    case (Some command)
    from prepend_macro_packet [OF assms(1) wf macro_command_context [OF Some], of packet] Some
    show ?thesis by (simp add: packed_def)
  qed
  then obtain ms where agent: "wf_agent (ctx_agent (fst (packed env ?c packet st)))"
    and ms: "snd (packed env ?c packet st) = stream (map (command_body ?P) ms) @ packet"
      "\<forall>x \<in> set ms. wf_command ?P x \<and> \<not> is_Cmd_negotiate x \<and> \<not> plain x" by blast
  have sent: "stream (map (command_body ?P) ms) @ packet = stream (map (command_body ?P) (ms @ [cmd]))"
    by (simp add: assms(4))
  have "filter plain ms = []" using ms(2) by (simp add: filter_empty_conv)
  show ?thesis
  proof (cases "\<not> urgent st \<and> ctx_timeout c \<noteq> None")
    case True
    with assms(2,3,7) show ?thesis by (auto simp: write_packet_eq intro: extends_same)
  next
    case busy: False
    let ?d = "fst (packed env ?c packet st)"
    have w: "written ?d = written b" using assms(7) by simp
    have eq: "snd (write_packet env c packet st) =
        (if env_accepts_write env (snd (packed env ?c packet st))
         then ?d\<lparr>written := written ?d @ [snd (packed env ?c packet st)],
                 next_states := next_states ?d @ [st]\<rparr>
         else emit_error env SERVER_CONTEXT_ERROR_IO_ERROR (disable_timeout ?d))"
      using busy unfolding write_packet_eq Let_def case_prod_beta by (simp only: if_False) simp
    show ?thesis
    proof (cases "env_accepts_write env (snd (packed env ?c packet st))")
      case True
      have "extends ?P (if plain cmd then [cmd] else []) b
          (?d\<lparr>written := written ?d @ [snd (packed env ?c packet st)],
              next_states := next_states ?d @ [st]\<rparr>)"
        unfolding extends_def using agent ms assms(5,6) w \<open>filter plain ms = []\<close>
        by (intro conjI exI [of _ "ms @ [cmd]"]) (simp_all add: assms(4) del: packed_fields)
      with True eq show ?thesis by simp
    next
      case False
      with agent w eq assms(2) show ?thesis
        by (auto simp: disable_timeout_def intro!: extends_same)
    qed
  qed
qed

subsection \<open>Every step\<close>

lemma extends_result:
  assumes "extends P is b c" and "ctx_agent d = ctx_agent c" and "written d = written c"
  shows "extends P is b d"
  using assms by (simp add: extends_def)

lemma body_command_wf [simp]: "wf_command P (Cmd_body chunk)"
  by (simp add: wf_command_def command_bodies MILTER_CHUNK_SIZE_def)

lemma extends_flush_body:
  assumes "platform_laws (env_platform env)" and "quiet env" and "wf_agent (ctx_agent c)"
    and "flush_body env c = Ok (ok, d)" and "written c = written b"
  shows "extends (env_platform env) [] b d"
proof -
  obtain e packet n where enc: "milter_command_encoder_encode_body (ctx_encoder c) (ctx_body c) =
      (e, packet, n)" using prod_cases3 by blast
  let ?c = "c\<lparr>body_response_queue := body_response_queue c @ [0], ctx_encoder := e\<rparr>"
  have "packet = frame (command_body (env_platform env) (Cmd_body (ctx_body c)))"
    using encode_command_packet [of "Cmd_body (ctx_body c)" "ctx_encoder c" "env_platform env"] enc
    by simp
  from extends_write [OF assms(1,2) _ this, of ?c b SERVER_CONTEXT_STATE_BODY] assms(3,5)
  have w: "extends (env_platform env) [] b (snd (write_packet env ?c packet SERVER_CONTEXT_STATE_BODY))"
    by (simp add: plain_def)
  show ?thesis
    by (rule extends_result [OF w])
      (use assms(4) enc in \<open>auto simp: flush_body_def append_body_response_queue_def Let_def
        case_prod_beta increment_process_body_count_def split: if_splits\<close>)
qed

lemma written_emit_message_processed [simp]:
  "quiet env \<Longrightarrow> ctx_agent (emit_message_processed_signal env c) = ctx_agent c"
  by (simp add: emit_message_processed_signal_def Let_def split: option.splits)

lemma agent_set_state [simp]: "ctx_agent (milter_server_context_set_state c st) = ctx_agent c"
  by (simp add: milter_server_context_set_state_def Let_def)

lemma extends_process_next_state:
  assumes "platform_laws (env_platform env)" and "quiet env" and "wf_agent (ctx_agent c)"
    and "process_next_state env c st = Ok d"
  shows "extends (env_platform env) [] c d"
proof (cases "st = SERVER_CONTEXT_STATE_BODY")
  case True
  let ?b = "milter_server_context_set_state (c\<lparr>ctx_timeout := None\<rparr>) SERVER_CONTEXT_STATE_BODY"
  from True assms(4) obtain ok where d: "process_next_state_body env ?b = Ok (ok, d)"
    by (auto simp: process_next_state_def disable_timeout_def)
  show ?thesis
  proof (cases "flush_body env ?b = Ok (ok, d)")
    case True
    from extends_flush_body [OF assms(1,2) _ True, of c] assms(3) show ?thesis by simp
  next
    case False
    with d assms(3) show ?thesis
      by (auto simp: process_next_state_body_def split: if_splits intro!: extends_same)
  qed
next
  case False
  then have "ctx_agent d = ctx_agent c \<or>
      ctx_agent d = milter_protocol_agent_clear_message_related_macros (ctx_agent c)"
    and "written d = written c"
    using assms(2,4) by (cases st; auto simp: process_next_state_def disable_timeout_def Let_def
        milter_server_context_reset_message_related_data_def split: if_splits)+
  with assms(3) show ?thesis by (auto intro!: extends_same)
qed

lemma extends_process_next_states:
  assumes "platform_laws (env_platform env)" and "quiet env" and "wf_agent (ctx_agent c)"
    and "process_next_states env c sts = Ok d"
  shows "extends (env_platform env) [] c d"
  using assms(3,4)
proof (induction sts arbitrary: c)
  case Nil
  then show ?case by (simp add: extends_same)
next
  case (Cons st sts)
  then obtain e where e: "process_next_state env c st = Ok e"
    "process_next_states env (emit env (State_transited st) e) sts = Ok d" by auto
  have ce: "extends (env_platform env) [] c e"
    by (rule extends_process_next_state [OF assms(1,2) Cons.prems(1) e(1)])
  then have "wf_agent (ctx_agent (emit env (State_transited st) e))"
    using assms(2) by (simp add: extends_def)
  from Cons.IH [OF this e(2)] have "extends (env_platform env) [] e d"
    using assms(2) by (simp add: extends_def)
  from extends_trans [OF ce this] show ?case by simp
qed

lemma note_refusal_output:
  "note_refusal c status = Ok d \<Longrightarrow> ctx_agent d = ctx_agent c \<and> written d = written c"
  by (auto simp: note_refusal_def Let_def ensure_message_result_def update_message_result_def
      split: if_splits option.splits)

lemma after_output [simp]:
  "quiet env \<Longrightarrow> ctx_agent (after_refusal env c) = ctx_agent c"
  "quiet env \<Longrightarrow> written (after_refusal env c) = written c"
  "quiet env \<Longrightarrow> ctx_agent (after_final env c) = ctx_agent c"
  "quiet env \<Longrightarrow> written (after_final env c) = written c"
  "ctx_agent (clear_process_body_count c) = ctx_agent c"
  "written (clear_process_body_count c) = written c"
  "ctx_agent (clear_body_in_body_state c) = ctx_agent c"
  "written (clear_body_in_body_state c) = written c"
  by (simp_all add: after_refusal_def after_final_def clear_process_body_count_def
      clear_body_in_body_state_def Let_def)

lemma at_end_of_message_output [simp]:
  assumes "quiet env"
  shows "written (at_end_of_message env c a (note_added_header n v)) = written c"
    "ctx_agent (at_end_of_message env c a (note_added_header n v)) = ctx_agent c"
    "written (at_end_of_message env c a (note_removed_header n)) = written c"
    "ctx_agent (at_end_of_message env c a (note_removed_header n)) = ctx_agent c"
    "written (at_end_of_message env c a id) = written c"
    "ctx_agent (at_end_of_message env c a id) = ctx_agent c"
  using assms by (simp_all add: at_end_of_message_def note_added_header_def note_removed_header_def
      update_message_result_def ensure_message_result_def invalid_state_def)

lemma quarantine_output [simp]:
  assumes "quiet env"
  shows "written (cb_decoder_quarantine env c reason) = written c"
    "ctx_agent (cb_decoder_quarantine env c reason) = ctx_agent c"
  using assms by (simp_all add: cb_decoder_quarantine_def at_end_of_message_def
      update_message_result_def ensure_message_result_def invalid_state_def)

lemma negotiate_reply_output [simp]:
  assumes "quiet env"
  shows "written (cb_decoder_negotiate_reply env c opt requests) = written c"
    "agent_macros (ctx_agent (cb_decoder_negotiate_reply env c opt requests)) =
       agent_macros (ctx_agent c)"
  using assms by (simp_all add: cb_decoder_negotiate_reply_def Let_def case_prod_beta
      disable_timeout_def invalid_state_def milter_protocol_agent_set_macros_requests_def
      split: option.split)

lemma verdict_output [simp]:
  assumes "quiet env"
  shows "written (cb_decoder_accept env c) = written c"
    "ctx_agent (cb_decoder_accept env c) = ctx_agent c"
    "written (cb_decoder_discard env c) = written c"
    "ctx_agent (cb_decoder_discard env c) = ctx_agent c"
    "written (cb_decoder_skip env c) = written c"
    "ctx_agent (cb_decoder_skip env c) = ctx_agent c"
    "written (cb_decoder_progress env c) = written c"
    "ctx_agent (cb_decoder_progress env c) = ctx_agent c"
    "written (cb_decoder_connection_failure env c) = written c"
    "ctx_agent (cb_decoder_connection_failure env c) = ctx_agent c"
    "written (cb_decoder_shutdown env c) = written c"
    "ctx_agent (cb_decoder_shutdown env c) = ctx_agent c"
  using assms by (simp_all add: cb_decoder_accept_def cb_decoder_discard_def cb_decoder_skip_def
      cb_decoder_progress_def cb_decoder_connection_failure_def cb_decoder_shutdown_def Let_def
      disable_timeout_def invalid_state_def)

lemma reply_code_output:
  assumes "quiet env" and "cb_decoder_reply_code env c code extended_code message = Ok d"
  shows "written d = written c \<and> ctx_agent d = ctx_agent c"
proof -
  obtain e where e: "note_refusal c (if 400 \<le> code \<and> code < 500
      then MILTER_STATUS_TEMPORARY_FAILURE else MILTER_STATUS_REJECT) = Ok e"
    using assms(2) by (auto simp: cb_decoder_reply_code_def Let_def)
  have "written d = written e \<and> ctx_agent d = ctx_agent e"
    using assms(2) e assms(1)
    by (cases "ctx_state e = SERVER_CONTEXT_STATE_BODY")
      (simp_all add: cb_decoder_reply_code_def Let_def disable_timeout_def invalid_state_def
        split: if_splits, auto)
  with note_refusal_output [OF e] show ?thesis by simp
qed

lemma refusal_output:
  assumes "quiet env" and "handle_reply env c answer = Ok d" and "refusal answer"
  shows "written d = written c \<and> ctx_agent d = ctx_agent c"
proof (cases answer)
  case Sig_reply_code
  with assms(2) reply_code_output [OF assms(1)] show ?thesis by (simp add: handle_reply_def)
next
  case Sig_temporary_failure
  with assms(2) obtain e where e: "note_refusal c MILTER_STATUS_TEMPORARY_FAILURE = Ok e"
    by (auto simp: handle_reply_def cb_decoder_temporary_failure_def)
  from note_refusal_output [OF this] Sig_temporary_failure assms(1,2) e show ?thesis
    by (simp add: handle_reply_def cb_decoder_temporary_failure_def Let_def disable_timeout_def
        split: if_splits) auto
next
  case Sig_reject
  with assms(2) obtain e where e: "note_refusal c MILTER_STATUS_REJECT = Ok e"
    by (auto simp: handle_reply_def cb_decoder_reject_def)
  from note_refusal_output [OF this] Sig_reject assms(1,2) e show ?thesis
    by (simp add: handle_reply_def cb_decoder_reject_def Let_def disable_timeout_def
        split: if_splits) auto
qed (use assms(3) in \<open>simp_all add: refusal_def\<close>)

lemma reply_output:
  assumes "quiet env" and "handle_reply env c answer = Ok d" and "answer \<noteq> Sig_continue"
  shows "written d = written c \<and> agent_macros (ctx_agent d) = agent_macros (ctx_agent c)"
proof (cases "refusal answer")
  case True
  from refusal_output [OF assms(1,2) True] show ?thesis by simp
next
  case False
  note modifications = cb_decoder_add_header_def cb_decoder_insert_header_def
    cb_decoder_change_header_def cb_decoder_delete_header_def cb_decoder_change_from_def
    cb_decoder_add_recipient_def cb_decoder_delete_recipient_def cb_decoder_replace_body_def
  from False assms(2,3) have "refusal answer = False" "answer \<noteq> Sig_continue" by simp_all
  with assms(1) assms(2) [unfolded handle_reply_def modifications] show ?thesis
    by (cases answer) (auto simp: refusal_def)
qed

lemma extends_continue:
  assumes "platform_laws (env_platform env)" and "quiet env" and "wf_agent (ctx_agent c)"
    and "cb_decoder_continue env c = Ok d"
  shows "extends (env_platform env) [] c d"
proof -
  let ?e = "decrement_process_body_count env (c\<lparr>ctx_timeout := None\<rparr>)"
  have e: "written ?e = written c" "ctx_agent ?e = ctx_agent c"
    using assms(2) by (simp_all add: decrement_process_body_count_def Let_def split: list.split)
  show ?thesis
  proof (cases "ctx_state c = SERVER_CONTEXT_STATE_BODY \<and> \<not> quitted c \<and> ctx_body ?e \<noteq> []")
    case True
    with assms(4) obtain ok where "flush_body env ?e = Ok (ok, d)"
      by (auto simp: cb_decoder_continue_def disable_timeout_def Let_def check_reply_after_quit_def)
    from extends_flush_body [OF assms(1,2) _ this e(1)] e(2) assms(3) show ?thesis by simp
  next
    case False
    have "written d = written c \<and> ctx_agent d = ctx_agent c"
    proof (cases "ctx_state c = SERVER_CONTEXT_STATE_BODY \<and> \<not> quitted c")
      case True
      with False have "ctx_body ?e = []" by simp
      with True assms(4) e show ?thesis
        by (simp add: cb_decoder_continue_def disable_timeout_def Let_def check_reply_after_quit_def)
    next
      case False
      with assms(2,4) show ?thesis
        by (auto simp: cb_decoder_continue_def disable_timeout_def Let_def
            check_reply_after_quit_def invalid_state_def split: if_splits)
    qed
    with assms(3) show ?thesis by (intro extends_same) simp_all
  qed
qed

lemma extends_reply:
  assumes "platform_laws (env_platform env)" and "quiet env" and "wf_agent (ctx_agent c)"
    and "handle_reply env c answer = Ok d"
  shows "extends (env_platform env) [] c d"
proof (cases "answer = Sig_continue")
  case True
  with assms(4) have "cb_decoder_continue env c = Ok d" by (simp add: handle_reply_def)
  from extends_continue [OF assms(1,2,3) this] show ?thesis .
next
  case False
  from reply_output [OF assms(2,4) this] wf_agent_cong [of "ctx_agent d" "ctx_agent c"] assms(3)
  show ?thesis by (intro extends_same) simp_all
qed

lemma agent_parts [simp]:
  "ctx_agent (ensure_message_result c) = ctx_agent c"
  "ctx_agent (update_message_result f c) = ctx_agent c"
  "ctx_agent (note_message_state c ms) = ctx_agent c"
  "wf_agent (ctx_agent (set_context_macro c command)) = wf_agent (ctx_agent c)"
  by (simp_all add: ensure_message_result_def update_message_result_def note_message_state_def
      set_context_macro_def)

lemma extends_skip:
  assumes "quiet env" and "skip_command env c st answer = (ok, d)" and "wf_agent (ctx_agent c)"
    and "written c = written b"
  shows "extends P issued b d"
  using assms by (intro extends_same) (auto simp: skip_command_def)

lemma extends_stop:
  assumes "quiet env" and "wf_agent (ctx_agent c)" and "written c = written b"
  shows "extends P issued b (stop_on_state env c st)"
  using assms by (intro extends_same) (simp_all add: stop_on_state_def Let_def)

lemma extends_encoded:
  assumes "platform_laws (env_platform env)" and "quiet env" and "wf_agent (ctx_agent c)"
    and "written c = written b" and "wf_command (env_platform env) cmd" and "\<not> is_Cmd_negotiate cmd"
    and "snd encoded = frame (command_body (env_platform env) cmd)"
  shows "extends (env_platform env) (if plain cmd then [cmd] else []) b
    (snd (write_encoded env c encoded st))"
  unfolding write_encoded_def
  by (rule extends_write [OF assms(1,2) _ assms(7,5,6)]) (simp_all add: assms(3,4))

definition wf_issue :: "platform \<Rightarrow> command \<Rightarrow> bool" where
  "wf_issue P cmd \<longleftrightarrow>
     (case cmd of
        Cmd_negotiate opt \<Rightarrow> False
      | Cmd_define_macro ctx macros \<Rightarrow>
          wf_hash (fold (\<lambda>(key, value). cb_copy_macro key value)
            (case macros of None \<Rightarrow> [] | Some ms \<Rightarrow> ms) [])
      | _ \<Rightarrow> wf_command P cmd)"

lemma extends_command:
  assumes "platform_laws (env_platform env)" and "quiet env" and "wf_issue (env_platform env) cmd"
    and "write_encoded env c encoded st = (ok, d)" and "plain cmd"
    and "encoded = encode_command (env_platform env) (ctx_encoder c) cmd"
    and "wf_agent (ctx_agent c)" and "written c = written b"
  shows "extends (env_platform env) [cmd] b d"
proof -
  have "wf_command (env_platform env) cmd" "\<not> is_Cmd_negotiate cmd"
    using assms(3,5) by (cases cmd; simp add: wf_issue_def plain_def)+
  with extends_encoded [OF assms(1,2,7,8), of cmd encoded st] assms(4,5,6)
    encode_command_packet [of cmd "ctx_encoder c" "env_platform env"]
  show ?thesis by simp
qed

lemma extends_issued: "extends P [] c d \<Longrightarrow> extends P issued c d"
  unfolding extends_def by (metis list_emb_Nil2 list_emb_Nil)

lemma extends_body:
  assumes "platform_laws (env_platform env)" and "quiet env" and "wf_agent (ctx_agent c)"
    and "milter_server_context_body env c chunk = Ok (ok, d)"
  shows "extends (env_platform env) [] c d"
  using assms(3,4)
  by (auto simp: milter_server_context_body_def Let_def split: if_splits
      intro: extends_skip [OF assms(2)] extends_stop [OF assms(2)] extends_flush_body [OF assms(1,2), rotated])

lemma extends_data:
  assumes "platform_laws (env_platform env)" and "quiet env" and "wf_agent (ctx_agent c)"
    and "milter_server_context_data env c = Ok (ok, d)"
  shows "extends (env_platform env) [Cmd_data] c d"
proof -
  have "wf_issue (env_platform env) Cmd_data"
    by (simp add: wf_issue_def wf_command_def command_bodies)
  note part = extends_command [OF assms(1,2) this]
  show ?thesis using assms(3,4)
    by (auto simp: milter_server_context_data_def Let_def plain_def split: if_splits option.splits
        intro: part extends_skip [OF assms(2)] extends_stop [OF assms(2)])
qed

lemma extends_issue:
  assumes "platform_laws (env_platform env)" and "quiet env" and "wf_agent (ctx_agent c)"
    and "wf_issue (env_platform env) cmd" and "issue env c cmd = Ok (ok, d)"
  shows "extends (env_platform env) [cmd] c d"
proof -
  note parts = extends_command [OF assms(1,2)] extends_skip [OF assms(2)] extends_stop [OF assms(2)]
  show ?thesis
  proof (cases cmd)
    case (Cmd_define_macro ctx ms)
    with assms(3-5) wf_agent_set_macros [OF assms(3)] assms(4) show ?thesis
      by (auto simp: wf_issue_def intro!: extends_same)
  next
    case (Cmd_body chunk)
    with extends_body [OF assms(1,2,3)] assms(5) show ?thesis by (simp add: extends_issued)
  next
    case (Cmd_negotiate opt)
    with assms(4) show ?thesis by (simp add: wf_issue_def)
  next
    case Cmd_data
    with extends_data [OF assms(1,2,3)] assms(5) show ?thesis by simp
  next
    case (Cmd_connect host address)
    with parts(1) show ?thesis using assms(3-5)
      by (simp add: milter_server_context_connect_def Let_def plain_def split: if_splits)
        (auto intro: parts(2,3) simp: set_context_macro_def)
  next
    case (Cmd_helo fqdn)
    with assms(3-5) show ?thesis
      by (auto simp: milter_server_context_helo_def plain_def split: if_splits intro: parts)
  next
    case (Cmd_envelope_from sender)
    with assms(3-5) show ?thesis
      by (auto simp: milter_server_context_envelope_from_def Let_def plain_def split: if_splits intro: parts)
  next
    case (Cmd_envelope_recipient recipient)
    with assms(3-5) show ?thesis
      by (auto simp: milter_server_context_envelope_recipient_def Let_def plain_def split: if_splits
          intro: parts)
  next
    case (Cmd_header name v)
    with assms(3-5) show ?thesis
      by (auto simp: milter_server_context_header_def Let_def plain_def split: if_splits intro: parts)
  next
    case Cmd_end_of_header
    with assms(3-5) show ?thesis
      by (auto simp: milter_server_context_end_of_header_def Let_def plain_def split: if_splits
          intro: parts)
  next
    case (Cmd_end_of_message chunk)
    with assms(3-5) show ?thesis
      by (auto simp: milter_server_context_end_of_message_def Let_def plain_def split: if_splits
          intro: parts)
  next
    case Cmd_abort
    with assms(5) obtain e where e: "write_encoded env c
        (milter_command_encoder_encode_abort (ctx_encoder c)) SERVER_CONTEXT_STATE_ABORT = (ok, e)"
      "d = e\<lparr>processing_message := False\<rparr>"
      by (auto simp: milter_server_context_abort_def case_prod_beta prod_eq_iff)
    from parts(1) [OF _ e(1)] assms(3,4) Cmd_abort
    have "extends (env_platform env) [cmd] c e" by (simp add: plain_def)
    then show ?thesis by (rule extends_result) (simp_all add: e(2))
  next
    case Cmd_quit
    with assms(3-5) show ?thesis
      by (auto simp: milter_server_context_quit_def Let_def plain_def intro: parts)
  next
    case (Cmd_unknown s)
    with assms(3-5) show ?thesis
      by (auto simp: milter_server_context_unknown_def plain_def split: if_splits intro: parts)
  qed
qed

subsection \<open>The session\<close>

definition wf_input :: "platform \<Rightarrow> server_input \<Rightarrow> bool" where
  "wf_input P i \<longleftrightarrow> (case i of Issue cmd \<Rightarrow> wf_issue P cmd | _ \<Rightarrow> True)"

definition issued :: "server_input list \<Rightarrow> command list" where
  "issued inputs = concat (map (\<lambda>i. case i of Issue cmd \<Rightarrow> [cmd] | _ \<Rightarrow> []) inputs)"

lemma extends_step:
  assumes "platform_laws (env_platform env)" and "quiet env" and "wf_agent (ctx_agent c)"
    and "wf_input (env_platform env) i" and "server_step env c i = Ok d"
  shows "extends (env_platform env) (issued [i]) c d"
proof (cases i)
  case (Issue cmd)
  with assms(5) obtain ok where "issue env c cmd = Ok (ok, d)" by auto
  from extends_issue [OF assms(1-3) _ this] Issue assms(4) show ?thesis
    by (simp add: wf_input_def issued_def)
next
  case Flush
  with assms(5) have "process_next_states env (c\<lparr>next_states := []\<rparr>) (next_states c) = Ok d"
    by (simp add: flushed_def)
  from extends_process_next_states [OF assms(1,2) _ this] assms(3) Flush show ?thesis
    by (simp add: issued_def extends_def)
next
  case (Answer answer)
  with extends_reply [OF assms(1-3)] assms(5) show ?thesis by (simp add: issued_def)
next
  case (Timer t)
  with assms(2,3,5) show ?thesis by (auto simp: cb_timeout_def intro!: extends_same)
qed

lemma extends_run:
  assumes "platform_laws (env_platform env)" and "quiet env" and "wf_agent (ctx_agent c)"
    and "\<forall>i \<in> set inputs. wf_input (env_platform env) i" and "server_run env c inputs = Ok d"
  shows "extends (env_platform env) (issued inputs) c d"
  using assms(3-5)
proof (induction inputs arbitrary: c)
  case Nil
  then show ?case by (auto intro: extends_same)
next
  case (Cons i inputs)
  then obtain e where e: "server_step env c i = Ok e" "server_run env e inputs = Ok d" by auto
  have ce: "extends (env_platform env) (issued [i]) c e"
    using Cons.prems by (intro extends_step [OF assms(1,2) _ _ e(1)]) simp_all
  then have "wf_agent (ctx_agent e)" by (simp add: extends_def)
  with Cons e(2) have "extends (env_platform env) (issued inputs) e d" by simp
  from extends_trans [OF ce this] show ?case by (simp add: issued_def)
qed

lemma negotiate_written:
  assumes "quiet env" and "milter_server_context_negotiate env milter_server_context_init opt = (ok, c)"
  shows "ctx_agent c = milter_protocol_agent_init" and
    "written c = [] \<or> written c = [frame (command_body (env_platform env) (Cmd_negotiate opt))]"
proof -
  have "snd (milter_command_encoder_encode_negotiate milter_encoder_new (Some opt)) =
      frame (command_body (env_platform env) (Cmd_negotiate opt))"
    using encode_command_packet [of "Cmd_negotiate opt" milter_encoder_new] by (simp add: milter_encoder_new_def)
  with assms show "ctx_agent c = milter_protocol_agent_init" and
    "written c = [] \<or> written c = [frame (command_body (env_platform env) (Cmd_negotiate opt))]"
    by (auto simp: milter_server_context_negotiate_def milter_server_context_init_def write_packet_eq
        Let_def case_prod_beta packed_def macro_command_def urgent_def disable_timeout_def
        split: if_splits)
qed

text \<open>
  C2: the owner of a server context negotiates first, and only then, and issues commands with
  well-formed arguments (as for the round trip of the command codec; the macros set at a time are
  well formed and less than \<open>2 ^ 24\<close> bytes together); its observers do not call the context. As long
  as the session has not crashed - and whichever commands are issued when, whatever the milter answers,
  which timers fire and which writes fail - the bytes that reach the milter are a sequence of
  well-formed packets, so its command decoder never errs on them, however they are cut; and apart from
  the macros and the body chunks the context inserts itself, what the milter sees are commands of the
  owner, in the order they were issued.
\<close>

theorem server_session_decodes:
  assumes "platform_laws (env_platform env)" and "quiet env"
    and "wf_command (env_platform env) (Cmd_negotiate opt)"
    and "\<forall>i \<in> set inputs. wf_input (env_platform env) i"
    and "server_run env milter_server_context_init (Issue (Cmd_negotiate opt) # inputs) = Ok d"
    and "concat chunks = concat (written d)"
  shows "\<exists>cs dec. run_reader (decode_command (env_platform env)) milter_decoder_new chunks =
       Agent dec (map signal_of_command cs) [] \<and>
     dec_state dec = IN_START \<and> dec_buffer dec = [] \<and>
     subseq (filter plain cs) (Cmd_negotiate opt # issued inputs)"
proof -
  let ?P = "env_platform env"
  obtain ok c where c: "milter_server_context_negotiate env milter_server_context_init opt = (ok, c)"
    by fastforce
  with assms(5) have run: "server_run env c inputs = Ok d" by simp
  note w = negotiate_written [OF assms(2) c]
  have "extends ?P (issued inputs) c d"
    by (rule extends_run [OF assms(1,2) _ assms(4) run]) (simp add: w)
  then obtain cs where cs: "concat (written d) = concat (written c) @ stream (map (command_body ?P) cs)"
    "\<forall>x \<in> set cs. wf_command ?P x \<and> \<not> is_Cmd_negotiate x" "subseq (filter plain cs) (issued inputs)"
    unfolding extends_def by blast
  define ds where "ds = (if written c = [] then cs else Cmd_negotiate opt # cs)"
  have "concat chunks = stream (map (command_body ?P) ds)"
    using w(2) cs(1) assms(6) by (auto simp: ds_def)
  moreover have "wf_session ?P ds"
    using cs(2) assms(3) by (cases cs) (auto simp: ds_def wf_session_def)
  moreover have "subseq (filter plain ds) (Cmd_negotiate opt # issued inputs)"
    using cs(3) by (auto simp: ds_def plain_def)
  ultimately show ?thesis
    using commands.chunked_stream [OF session_packets [OF assms(1), of ds], of chunks] by blast
qed

definition sample_dialogue :: "server_input list" where
  "sample_dialogue =
     [Flush, Answer (Sig_negotiate_reply milter_option_new_empty None),
      Issue (Cmd_define_macro MILTER_COMMAND_HELO (Some [(''i'', Some ''x'')])),
      Issue (Cmd_helo ''a''), Issue (Cmd_envelope_from ''b''), Issue Cmd_quit]"

lemma sample_dialogue_runs:
  "\<exists>d. server_run quiet_environment milter_server_context_init
     (Issue (Cmd_negotiate milter_option_new_empty) # sample_dialogue) = Ok d"
proof -
  obtain c where c: "milter_server_context_negotiate quiet_environment milter_server_context_init
      milter_option_new_empty = (True, c)" "next_states c = [SERVER_CONTEXT_STATE_NEGOTIATE]"
    "ctx_option c = Some (milter_option_copy milter_option_new_empty)"
    by (simp add: milter_server_context_negotiate_def write_packet_eq Let_def case_prod_beta urgent_def
        packed_def macro_command_def milter_server_context_init_def quiet_environment_def)
  then show ?thesis
    by (auto simp: sample_dialogue_def case_prod_beta flushed_def process_next_state_def
        milter_server_context_need_reply_def handle_reply_def disable_timeout_def Let_def
        milter_server_context_set_state_def)
qed

lemma sample_dialogue_wf:
  "wf_command sample_platform (Cmd_negotiate milter_option_new_empty)"
  "\<forall>i \<in> set sample_dialogue. wf_input sample_platform i"
  by (simp_all add: sample_dialogue_def wf_input_def wf_issue_def sample_simps wf_hash_def
      hash_size_def cb_copy_macro_def milter_option_new_empty_def MILTER_ACTION_NONE_def MILTER_STEP_NONE_def)

theorem server_session_decodes_witness:
  "\<exists>d cs dec. server_run quiet_environment milter_server_context_init
       (Issue (Cmd_negotiate milter_option_new_empty) # sample_dialogue) = Ok d \<and>
     run_reader (decode_command sample_platform) milter_decoder_new (written d) =
       Agent dec (map signal_of_command cs) [] \<and>
     dec_state dec = IN_START \<and> dec_buffer dec = [] \<and>
     subseq (filter plain cs) (Cmd_negotiate milter_option_new_empty # issued sample_dialogue)"
proof -
  obtain d where d: "server_run quiet_environment milter_server_context_init
      (Issue (Cmd_negotiate milter_option_new_empty) # sample_dialogue) = Ok d"
    using sample_dialogue_runs by blast
  have P: "env_platform quiet_environment = sample_platform" by (simp add: quiet_environment_def)
  from server_session_decodes [OF _ quiet_quiet_environment _ _ d refl, unfolded P]
    sample_platform_laws sample_dialogue_wf d show ?thesis by blast
qed

end
