(* ===== verification/Reply_Encoder.thy ===== *)
theory Reply_Encoder
  imports Encoder Macros_Requests
begin

text \<open>
  \<open>milter/core/milter-reply-encoder.c\<close>: what a milter answers. A string argument that may
  be \<open>NULL\<close> is an option; an encoder that gives up (\<open>*packet = NULL\<close>) leaves the base
  encoder as it was and returns \<open>None\<close>.
\<close>

subsection \<open>Negotiation\<close>

text \<open>
  A symbol list that is empty is \<open>NULL\<close>, and the encoder reads its head all the same.
\<close>

definition encode_macros_request :: "milter_command \<Rightarrow> bytes list \<Rightarrow> bytes result \<Rightarrow> bytes result" where
  "encode_macros_request command symbols buffer =
     bind_result buffer (\<lambda>buffer.
       case milter_utils_command_to_macro_stage command of
         None \<Rightarrow> Ok buffer
       | Some stage \<Rightarrow>
           (case symbols of
              [] \<Rightarrow> Fault Null_dereference
            | symbol # rest \<Rightarrow>
                Ok (buffer @ be32 (macro_stage_code stage) @ symbol @
                    concat (map (\<lambda>s. '' '' @ s) rest) @ [NUL])))"

definition encode_macros_requests :: "macros_requests \<Rightarrow> bytes result" where
  "encode_macros_requests requests =
     milter_macros_requests_foreach requests encode_macros_request (Ok [])"

definition milter_reply_encoder_encode_negotiate ::
    "milter_encoder \<Rightarrow> milter_option option \<Rightarrow> macros_requests option \<Rightarrow>
     (milter_encoder \<times> bytes) result" where
  "milter_reply_encoder_encode_negotiate e opt requests =
     (let e = milter_encoder_encode_negotiate e opt
      in bind_result (case requests of None \<Rightarrow> Ok [] | Some rs \<Rightarrow> encode_macros_requests rs)
           (\<lambda>bs. Ok (milter_encoder_pack (append_bytes bs e))))"

subsection \<open>Replies without arguments\<close>

definition milter_reply_encoder_encode_continue :: "milter_encoder \<Rightarrow> milter_encoder \<times> bytes" where
  "milter_reply_encoder_encode_continue e =
     (let e = milter_encoder_clear_buffer e;
          e = append_bytes [reply_code MILTER_REPLY_CONTINUE] e
      in milter_encoder_pack e)"

definition milter_reply_encoder_encode_temporary_failure :: "milter_encoder \<Rightarrow> milter_encoder \<times> bytes" where
  "milter_reply_encoder_encode_temporary_failure e =
     (let e = milter_encoder_clear_buffer e;
          e = append_bytes [reply_code MILTER_REPLY_TEMPORARY_FAILURE] e
      in milter_encoder_pack e)"

definition milter_reply_encoder_encode_reject :: "milter_encoder \<Rightarrow> milter_encoder \<times> bytes" where
  "milter_reply_encoder_encode_reject e =
     (let e = milter_encoder_clear_buffer e;
          e = append_bytes [reply_code MILTER_REPLY_REJECT] e
      in milter_encoder_pack e)"

definition milter_reply_encoder_encode_accept :: "milter_encoder \<Rightarrow> milter_encoder \<times> bytes" where
  "milter_reply_encoder_encode_accept e =
     (let e = milter_encoder_clear_buffer e;
          e = append_bytes [reply_code MILTER_REPLY_ACCEPT] e
      in milter_encoder_pack e)"

definition milter_reply_encoder_encode_discard :: "milter_encoder \<Rightarrow> milter_encoder \<times> bytes" where
  "milter_reply_encoder_encode_discard e =
     (let e = milter_encoder_clear_buffer e;
          e = append_bytes [reply_code MILTER_REPLY_DISCARD] e
      in milter_encoder_pack e)"

definition milter_reply_encoder_encode_progress :: "milter_encoder \<Rightarrow> milter_encoder \<times> bytes" where
  "milter_reply_encoder_encode_progress e =
     (let e = milter_encoder_clear_buffer e;
          e = append_bytes [reply_code MILTER_REPLY_PROGRESS] e
      in milter_encoder_pack e)"

definition milter_reply_encoder_encode_connection_failure :: "milter_encoder \<Rightarrow> milter_encoder \<times> bytes" where
  "milter_reply_encoder_encode_connection_failure e =
     (let e = milter_encoder_clear_buffer e;
          e = append_bytes [reply_code MILTER_REPLY_CONNECTION_FAILURE] e
      in milter_encoder_pack e)"

definition milter_reply_encoder_encode_shutdown :: "milter_encoder \<Rightarrow> milter_encoder \<times> bytes" where
  "milter_reply_encoder_encode_shutdown e =
     (let e = milter_encoder_clear_buffer e;
          e = append_bytes [reply_code MILTER_REPLY_SHUTDOWN] e
      in milter_encoder_pack e)"

definition milter_reply_encoder_encode_skip :: "milter_encoder \<Rightarrow> milter_encoder \<times> bytes" where
  "milter_reply_encoder_encode_skip e =
     (let e = milter_encoder_clear_buffer e;
          e = append_bytes [reply_code MILTER_REPLY_SKIP] e
      in milter_encoder_pack e)"

subsection \<open>Replies with arguments\<close>

definition milter_reply_encoder_encode_reply_code ::
    "milter_encoder \<Rightarrow> bytes option \<Rightarrow> milter_encoder \<times> bytes option" where
  "milter_reply_encoder_encode_reply_code e code =
     (case code of
        None \<Rightarrow> (e, None)
      | Some code \<Rightarrow>
          let e = milter_encoder_clear_buffer e;
              e = append_bytes [reply_code MILTER_REPLY_REPLY_CODE] e;
              e = append_bytes code e;
              e = append_bytes [NUL] e
          in apsnd Some (milter_encoder_pack e))"

definition encode_reply_header ::
    "milter_encoder \<Rightarrow> milter_reply \<Rightarrow> bytes option \<Rightarrow> bytes option \<Rightarrow> u32 \<Rightarrow>
     milter_encoder \<times> bytes option" where
  "encode_reply_header e reply name value index =
     (case name of
        None \<Rightarrow> (e, None)
      | Some name \<Rightarrow>
          if name = [] then (e, None)
          else
            let e = milter_encoder_clear_buffer e;
                e = append_bytes [reply_code reply] e;
                e = (if reply \<noteq> MILTER_REPLY_ADD_HEADER then append_bytes (be32 index) e else e);
                e = append_bytes name e;
                e = append_bytes [NUL] e;
                e = (case value of None \<Rightarrow> e | Some v \<Rightarrow> append_bytes v e);
                e = append_bytes [NUL] e
            in apsnd Some (milter_encoder_pack e))"

definition milter_reply_encoder_encode_add_header ::
    "milter_encoder \<Rightarrow> bytes option \<Rightarrow> bytes option \<Rightarrow> milter_encoder \<times> bytes option" where
  "milter_reply_encoder_encode_add_header e name value =
     encode_reply_header e MILTER_REPLY_ADD_HEADER name value 0"

definition milter_reply_encoder_encode_insert_header ::
    "milter_encoder \<Rightarrow> u32 \<Rightarrow> bytes option \<Rightarrow> bytes option \<Rightarrow> milter_encoder \<times> bytes option" where
  "milter_reply_encoder_encode_insert_header e index name value =
     encode_reply_header e MILTER_REPLY_INSERT_HEADER name value index"

definition milter_reply_encoder_encode_change_header ::
    "milter_encoder \<Rightarrow> bytes option \<Rightarrow> u32 \<Rightarrow> bytes option \<Rightarrow> milter_encoder \<times> bytes option" where
  "milter_reply_encoder_encode_change_header e name index value =
     encode_reply_header e MILTER_REPLY_CHANGE_HEADER name value index"

definition milter_reply_encoder_encode_delete_header ::
    "milter_encoder \<Rightarrow> bytes option \<Rightarrow> u32 \<Rightarrow> milter_encoder \<times> bytes option" where
  "milter_reply_encoder_encode_delete_header e name index =
     encode_reply_header e MILTER_REPLY_CHANGE_HEADER name None index"

text \<open>
  The test \<open>parameters != '\0'\<close> of the next function compares the pointer, not its first
  byte: empty parameters are encoded as an empty second string.
\<close>

definition milter_reply_encoder_encode_change_from ::
    "milter_encoder \<Rightarrow> bytes option \<Rightarrow> bytes option \<Rightarrow> milter_encoder \<times> bytes option" where
  "milter_reply_encoder_encode_change_from e sender parameters =
     (case sender of
        None \<Rightarrow> (e, None)
      | Some sender \<Rightarrow>
          if sender = [] then (e, None)
          else
            let e = milter_encoder_clear_buffer e;
                e = append_bytes [reply_code MILTER_REPLY_CHANGE_FROM] e;
                e = append_bytes sender e;
                e = append_bytes [NUL] e;
                e = (case parameters of
                       None \<Rightarrow> e
                     | Some p \<Rightarrow> append_bytes [NUL] (append_bytes p e))
            in apsnd Some (milter_encoder_pack e))"

definition milter_reply_encoder_encode_add_recipient ::
    "milter_encoder \<Rightarrow> bytes option \<Rightarrow> bytes option \<Rightarrow> milter_encoder \<times> bytes option" where
  "milter_reply_encoder_encode_add_recipient e recipient parameters =
     (case recipient of
        None \<Rightarrow> (e, None)
      | Some recipient \<Rightarrow>
          if recipient = [] then (e, None)
          else
            let e = milter_encoder_clear_buffer e;
                have_parameter = (parameters \<noteq> None \<and> parameters \<noteq> Some []);
                reply = (if have_parameter then MILTER_REPLY_ADD_RECIPIENT_WITH_PARAMETERS
                         else MILTER_REPLY_ADD_RECIPIENT);
                e = append_bytes [reply_code reply] e;
                e = append_bytes recipient e;
                e = append_bytes [NUL] e;
                e = (if have_parameter
                     then append_bytes [NUL] (append_bytes (the parameters) e)
                     else e)
            in apsnd Some (milter_encoder_pack e))"

definition milter_reply_encoder_encode_delete_recipient ::
    "milter_encoder \<Rightarrow> bytes option \<Rightarrow> milter_encoder \<times> bytes option" where
  "milter_reply_encoder_encode_delete_recipient e recipient =
     (case recipient of
        None \<Rightarrow> (e, None)
      | Some recipient \<Rightarrow>
          if recipient = [] then (e, None)
          else
            let e = milter_encoder_clear_buffer e;
                e = append_bytes [reply_code MILTER_REPLY_DELETE_RECIPIENT] e;
                e = append_bytes recipient e;
                e = append_bytes [NUL] e
            in apsnd Some (milter_encoder_pack e))"

text \<open>
  \<open>body\<close> is \<open>None\<close> for \<open>NULL\<close>; the size is the body's length. The last component is
  \<open>*packed_size\<close>.
\<close>

definition milter_reply_encoder_encode_replace_body ::
    "milter_encoder \<Rightarrow> bytes option \<Rightarrow> milter_encoder \<times> bytes option \<times> nat" where
  "milter_reply_encoder_encode_replace_body e body =
     (case body of
        None \<Rightarrow> (e, None, 0)
      | Some body \<Rightarrow>
          if body = [] then (e, None, 0)
          else
            let e = milter_encoder_clear_buffer e;
                e = append_bytes [reply_code MILTER_REPLY_REPLACE_BODY] e;
                packed_size =
                  (if length body > MILTER_CHUNK_SIZE then MILTER_CHUNK_SIZE else length body);
                e = append_bytes (take packed_size body) e;
                (e, packet) = milter_encoder_pack e
            in (e, Some packet, packed_size))"

definition milter_reply_encoder_encode_quarantine ::
    "milter_encoder \<Rightarrow> bytes option \<Rightarrow> milter_encoder \<times> bytes option" where
  "milter_reply_encoder_encode_quarantine e reason =
     (case reason of
        None \<Rightarrow> (e, None)
      | Some reason \<Rightarrow>
          if reason = [] then (e, None)
          else
            let e = milter_encoder_clear_buffer e;
                e = append_bytes [reply_code MILTER_REPLY_QUARANTINE] e;
                e = append_bytes reason e;
                e = append_bytes [NUL] e
            in apsnd Some (milter_encoder_pack e))"

end
