(* ===== verification/Reply_Codec.thy ===== *)
theory Reply_Codec
  imports Reply_Encoder Reply_Decoder
begin

text \<open>
  The contract between \<open>milter-reply-encoder.c\<close> and \<open>milter-reply-decoder.c\<close>: the
  calls a milter makes on its reply encoder, the signals the other side must see, and the
  interpretation of \<open>packet_handler\<close> for the reply decoder.
\<close>

subsection \<open>Calls on the encoder\<close>

datatype reply_call =
    is_Rep_negotiate: Rep_negotiate milter_option "macros_requests option"
  | Rep_continue
  | Rep_reply_code bytes
  | Rep_temporary_failure
  | Rep_reject
  | Rep_accept
  | Rep_discard
  | Rep_add_header bytes "bytes option"
  | Rep_insert_header u32 bytes "bytes option"
  | Rep_change_header bytes u32 "bytes option"
  | Rep_delete_header bytes u32
  | Rep_change_from bytes "bytes option"
  | Rep_add_recipient bytes "bytes option"
  | Rep_delete_recipient bytes
  | Rep_replace_body bytes
  | Rep_progress
  | Rep_quarantine bytes
  | Rep_connection_failure
  | Rep_shutdown
  | Rep_skip

fun encode_reply_call ::
    "milter_encoder \<Rightarrow> reply_call \<Rightarrow> (milter_encoder \<times> bytes option) result" where
  "encode_reply_call e (Rep_negotiate opt requests) =
     bind_result (milter_reply_encoder_encode_negotiate e (Some opt) requests)
       (\<lambda>r. Ok (apsnd Some r))"
| "encode_reply_call e Rep_continue = Ok (apsnd Some (milter_reply_encoder_encode_continue e))"
| "encode_reply_call e (Rep_reply_code code) =
     Ok (milter_reply_encoder_encode_reply_code e (Some code))"
| "encode_reply_call e Rep_temporary_failure =
     Ok (apsnd Some (milter_reply_encoder_encode_temporary_failure e))"
| "encode_reply_call e Rep_reject = Ok (apsnd Some (milter_reply_encoder_encode_reject e))"
| "encode_reply_call e Rep_accept = Ok (apsnd Some (milter_reply_encoder_encode_accept e))"
| "encode_reply_call e Rep_discard = Ok (apsnd Some (milter_reply_encoder_encode_discard e))"
| "encode_reply_call e (Rep_add_header n v) =
     Ok (milter_reply_encoder_encode_add_header e (Some n) v)"
| "encode_reply_call e (Rep_insert_header i n v) =
     Ok (milter_reply_encoder_encode_insert_header e i (Some n) v)"
| "encode_reply_call e (Rep_change_header n i v) =
     Ok (milter_reply_encoder_encode_change_header e (Some n) i v)"
| "encode_reply_call e (Rep_delete_header n i) =
     Ok (milter_reply_encoder_encode_delete_header e (Some n) i)"
| "encode_reply_call e (Rep_change_from s p) =
     Ok (milter_reply_encoder_encode_change_from e (Some s) p)"
| "encode_reply_call e (Rep_add_recipient r p) =
     Ok (milter_reply_encoder_encode_add_recipient e (Some r) p)"
| "encode_reply_call e (Rep_delete_recipient r) =
     Ok (milter_reply_encoder_encode_delete_recipient e (Some r))"
| "encode_reply_call e (Rep_replace_body body) =
     Ok (case milter_reply_encoder_encode_replace_body e (Some body) of
           (e', packet, n) \<Rightarrow> (e', packet))"
| "encode_reply_call e Rep_progress = Ok (apsnd Some (milter_reply_encoder_encode_progress e))"
| "encode_reply_call e (Rep_quarantine reason) =
     Ok (milter_reply_encoder_encode_quarantine e (Some reason))"
| "encode_reply_call e Rep_connection_failure =
     Ok (apsnd Some (milter_reply_encoder_encode_connection_failure e))"
| "encode_reply_call e Rep_shutdown = Ok (apsnd Some (milter_reply_encoder_encode_shutdown e))"
| "encode_reply_call e Rep_skip = Ok (apsnd Some (milter_reply_encoder_encode_skip e))"

text \<open>The packets of a sequence of calls; a call without a packet writes nothing.\<close>

fun encode_reply_calls :: "milter_encoder \<Rightarrow> reply_call list \<Rightarrow> bytes list result" where
  "encode_reply_calls e [] = Ok []"
| "encode_reply_calls e (r # rs) =
     bind_result (encode_reply_call e r) (\<lambda>(e', packet).
     bind_result (encode_reply_calls e' rs) (\<lambda>packets.
       Ok (case packet of None \<Rightarrow> packets | Some p \<Rightarrow> p # packets)))"

subsection \<open>What the other side must see\<close>

text \<open>Only commands with a macro stage travel.\<close>

definition staged :: "macros_requests \<Rightarrow> macros_requests" where
  "staged requests =
     filter (\<lambda>(command, symbols). milter_utils_command_to_macro_stage command \<noteq> None) requests"

text \<open>A reply line: three digits, a space, the extended code up to the next space, the rest.\<close>

definition reply_line_signal :: "bytes \<Rightarrow> reply_signal" where
  "reply_line_signal line =
     (let code = digit_value (line ! 0) * 100 + digit_value (line ! 1) * 10 + digit_value (line ! 2);
          rest = (if take 1 (drop 3 line) = '' '' then drop 4 line else drop 3 line)
      in if CHR '' '' \<in> set rest
         then Sig_reply_code code (takeWhile (\<lambda>c. c \<noteq> CHR '' '') rest)
                (Some (tl (dropWhile (\<lambda>c. c \<noteq> CHR '' '') rest)))
         else Sig_reply_code code rest None)"

definition nonempty_value :: "bytes option \<Rightarrow> bytes option" where
  "nonempty_value v = (if v = Some [] then None else v)"

fun signal_of_reply :: "reply_call \<Rightarrow> reply_signal" where
  "signal_of_reply (Rep_negotiate opt requests) =
     Sig_negotiate_reply opt
       (case requests of
          None \<Rightarrow> None
        | Some rs \<Rightarrow> if staged rs = [] then None else Some (staged rs))"
| "signal_of_reply Rep_continue = Sig_continue"
| "signal_of_reply (Rep_reply_code line) = reply_line_signal line"
| "signal_of_reply Rep_temporary_failure = Sig_temporary_failure"
| "signal_of_reply Rep_reject = Sig_reject"
| "signal_of_reply Rep_accept = Sig_accept"
| "signal_of_reply Rep_discard = Sig_discard"
| "signal_of_reply (Rep_add_header n v) =
     Sig_add_header n (case v of None \<Rightarrow> [] | Some v \<Rightarrow> v)"
| "signal_of_reply (Rep_insert_header i n v) = Sig_insert_header i n (nonempty_value v)"
| "signal_of_reply (Rep_change_header n i v) =
     (case nonempty_value v of
        None \<Rightarrow> Sig_delete_header n i
      | Some v \<Rightarrow> Sig_change_header n i v)"
| "signal_of_reply (Rep_delete_header n i) = Sig_delete_header n i"
| "signal_of_reply (Rep_change_from s p) = Sig_change_from s p"
| "signal_of_reply (Rep_add_recipient r p) = Sig_add_recipient r (nonempty_value p)"
| "signal_of_reply (Rep_delete_recipient r) = Sig_delete_recipient r"
| "signal_of_reply (Rep_replace_body body) = Sig_replace_body (take MILTER_CHUNK_SIZE body)"
| "signal_of_reply Rep_progress = Sig_progress"
| "signal_of_reply (Rep_quarantine reason) = Sig_quarantine reason"
| "signal_of_reply Rep_connection_failure = Sig_connection_failure"
| "signal_of_reply Rep_shutdown = Sig_shutdown"
| "signal_of_reply Rep_skip = Sig_skip"

definition wf_symbols :: "bytes list \<Rightarrow> bool" where
  "wf_symbols symbols \<longleftrightarrow>
     symbols \<noteq> [] \<and> symbols \<noteq> [[]] \<and> (\<forall>s \<in> set symbols. c_string s \<and> CHR '' '' \<notin> set s)"

definition wf_requests :: "macros_requests \<Rightarrow> bool" where
  "wf_requests requests \<longleftrightarrow>
     distinct (map fst requests) \<and> (\<forall>(command, symbols) \<in> set requests. wf_symbols symbols)"

definition wf_reply_line :: "bytes \<Rightarrow> bool" where
  "wf_reply_line line \<longleftrightarrow>
     c_string line \<and> 3 \<le> length line \<and> line ! 0 \<in> {CHR ''4'', CHR ''5''} \<and>
     is_digit (line ! 1) \<and> is_digit (line ! 2)"

definition optional_string :: "bytes option \<Rightarrow> bool" where
  "optional_string v \<longleftrightarrow> (case v of None \<Rightarrow> True | Some v \<Rightarrow> c_string v)"

fun wf_reply_call :: "reply_call \<Rightarrow> bool" where
  "wf_reply_call (Rep_negotiate opt requests) =
     (wf_option opt \<and> (case requests of None \<Rightarrow> True | Some rs \<Rightarrow> wf_requests rs))"
| "wf_reply_call (Rep_reply_code line) = wf_reply_line line"
| "wf_reply_call (Rep_add_header n v) = (wf_string n \<and> optional_string v)"
| "wf_reply_call (Rep_insert_header i n v) = (wf_string n \<and> optional_string v)"
| "wf_reply_call (Rep_change_header n i v) = (wf_string n \<and> optional_string v)"
| "wf_reply_call (Rep_delete_header n i) = wf_string n"
| "wf_reply_call (Rep_change_from s p) = (wf_string s \<and> optional_string p \<and> p \<noteq> Some [])"
| "wf_reply_call (Rep_add_recipient r p) = (wf_string r \<and> optional_string p)"
| "wf_reply_call (Rep_delete_recipient r) = wf_string r"
| "wf_reply_call (Rep_replace_body body) = (body \<noteq> [])"
| "wf_reply_call (Rep_quarantine reason) = wf_string reason"
| "wf_reply_call _ = True"

subsection \<open>Packet bodies\<close>

definition encode_staged :: "macros_requests \<Rightarrow> bytes" where
  "encode_staged requests =
     concat (map (\<lambda>(command, symbols).
       be32 (macro_stage_code (the (milter_utils_command_to_macro_stage command))) @
       join_char CHR '' '' symbols @ [NUL]) (staged requests))"

lemma join_char_hd: "hd symbols @ concat (map ((@) [c]) (tl symbols)) = join_char c symbols"
  if "symbols \<noteq> []"
  using that by (induction c symbols rule: join_char.induct) auto

lemma fold_encode_macros_request:
  assumes "\<forall>(command, symbols) \<in> set requests. symbols \<noteq> []"
  shows "fold (\<lambda>(key, value). encode_macros_request key value) requests (Ok bs) =
     Ok (bs @ encode_staged requests)"
  using assms
proof (induction requests arbitrary: bs)
  case Nil
  then show ?case by (simp add: encode_staged_def staged_def)
next
  case (Cons kv requests)
  obtain command symbols where kv: "kv = (command, symbols)" by (cases kv)
  with Cons.prems obtain s ss where s: "symbols = s # ss" by (cases symbols) auto
  show ?case
    using Cons join_char_hd [of symbols "CHR '' ''"]
    by (cases "milter_utils_command_to_macro_stage command")
      (simp_all add: kv s encode_macros_request_def encode_staged_def staged_def)
qed

lemma encode_macros_requests_staged:
  "wf_requests requests \<Longrightarrow> encode_macros_requests requests = Ok (encode_staged requests)"
  unfolding encode_macros_requests_def milter_macros_requests_foreach_def
  by (subst fold_encode_macros_request) (auto simp: wf_requests_def wf_symbols_def)

lemmas reply_encoder_defs =
  milter_reply_encoder_encode_negotiate_def milter_reply_encoder_encode_continue_def
  milter_reply_encoder_encode_reply_code_def milter_reply_encoder_encode_temporary_failure_def
  milter_reply_encoder_encode_reject_def milter_reply_encoder_encode_accept_def
  milter_reply_encoder_encode_discard_def encode_reply_header_def
  milter_reply_encoder_encode_add_header_def milter_reply_encoder_encode_insert_header_def
  milter_reply_encoder_encode_change_header_def milter_reply_encoder_encode_delete_header_def
  milter_reply_encoder_encode_change_from_def milter_reply_encoder_encode_add_recipient_def
  milter_reply_encoder_encode_delete_recipient_def milter_reply_encoder_encode_replace_body_def
  milter_reply_encoder_encode_progress_def milter_reply_encoder_encode_quarantine_def
  milter_reply_encoder_encode_connection_failure_def milter_reply_encoder_encode_shutdown_def
  milter_reply_encoder_encode_skip_def

text \<open>The body of each packet, with the arguments of a well-formed call.\<close>

fun reply_bytes :: "reply_call \<Rightarrow> bytes" where
  "reply_bytes (Rep_negotiate opt requests) =
     command_code MILTER_COMMAND_NEGOTIATE #
       be32 (version opt) @ be32 (action opt) @ be32 (step opt) @
       (case requests of None \<Rightarrow> [] | Some rs \<Rightarrow> encode_staged rs)"
| "reply_bytes Rep_continue = [reply_code MILTER_REPLY_CONTINUE]"
| "reply_bytes (Rep_reply_code line) = reply_code MILTER_REPLY_REPLY_CODE # line @ [NUL]"
| "reply_bytes Rep_temporary_failure = [reply_code MILTER_REPLY_TEMPORARY_FAILURE]"
| "reply_bytes Rep_reject = [reply_code MILTER_REPLY_REJECT]"
| "reply_bytes Rep_accept = [reply_code MILTER_REPLY_ACCEPT]"
| "reply_bytes Rep_discard = [reply_code MILTER_REPLY_DISCARD]"
| "reply_bytes (Rep_add_header n v) =
     reply_code MILTER_REPLY_ADD_HEADER # n @ NUL # (case v of None \<Rightarrow> [] | Some v \<Rightarrow> v) @ [NUL]"
| "reply_bytes (Rep_insert_header i n v) =
     reply_code MILTER_REPLY_INSERT_HEADER # be32 i @ n @ NUL #
       (case v of None \<Rightarrow> [] | Some v \<Rightarrow> v) @ [NUL]"
| "reply_bytes (Rep_change_header n i v) =
     reply_code MILTER_REPLY_CHANGE_HEADER # be32 i @ n @ NUL #
       (case v of None \<Rightarrow> [] | Some v \<Rightarrow> v) @ [NUL]"
| "reply_bytes (Rep_delete_header n i) =
     reply_code MILTER_REPLY_CHANGE_HEADER # be32 i @ n @ [NUL, NUL]"
| "reply_bytes (Rep_change_from s p) =
     reply_code MILTER_REPLY_CHANGE_FROM # s @ NUL #
       (case p of None \<Rightarrow> [] | Some p \<Rightarrow> p @ [NUL])"
| "reply_bytes (Rep_add_recipient r p) =
     (case nonempty_value p of
        None \<Rightarrow> reply_code MILTER_REPLY_ADD_RECIPIENT # r @ [NUL]
      | Some p \<Rightarrow>
          reply_code MILTER_REPLY_ADD_RECIPIENT_WITH_PARAMETERS # r @ NUL # p @ [NUL])"
| "reply_bytes (Rep_delete_recipient r) =
     reply_code MILTER_REPLY_DELETE_RECIPIENT # r @ [NUL]"
| "reply_bytes (Rep_replace_body body) =
     reply_code MILTER_REPLY_REPLACE_BODY # take MILTER_CHUNK_SIZE body"
| "reply_bytes Rep_progress = [reply_code MILTER_REPLY_PROGRESS]"
| "reply_bytes (Rep_quarantine reason) = reply_code MILTER_REPLY_QUARANTINE # reason @ [NUL]"
| "reply_bytes Rep_connection_failure = [reply_code MILTER_REPLY_CONNECTION_FAILURE]"
| "reply_bytes Rep_shutdown = [reply_code MILTER_REPLY_SHUTDOWN]"
| "reply_bytes Rep_skip = [reply_code MILTER_REPLY_SKIP]"

lemma encode_reply_call_packet:
  assumes "wf_reply_call r" and "\<not> is_Rep_negotiate r \<or> enc_buffer e = []"
  shows "\<exists>e'. encode_reply_call e r = Ok (e', Some (frame (reply_bytes r)))"
  using assms
  by (cases r) (auto simp: reply_encoder_defs milter_encoder_pack_eq Let_def wf_string_def
      enc_buffer_negotiate encode_macros_requests_staged min_def not_less nonempty_value_def
      split: option.splits)

definition wf_replies :: "reply_call list \<Rightarrow> bool" where
  "wf_replies rs \<longleftrightarrow>
     (\<forall>r \<in> set rs. wf_reply_call r \<and> length (reply_bytes r) < 2 ^ 24) \<and>
     (\<forall>r \<in> set (tl rs). \<not> is_Rep_negotiate r)"

lemma encode_reply_calls_no_negotiate:
  "\<forall>r \<in> set rs. wf_reply_call r \<and> \<not> is_Rep_negotiate r \<Longrightarrow>
     encode_reply_calls e rs = Ok (map (frame \<circ> reply_bytes) rs)"
proof (induction rs arbitrary: e)
  case Nil
  then show ?case by simp
next
  case (Cons r rs)
  then obtain e' where "encode_reply_call e r = Ok (e', Some (frame (reply_bytes r)))"
    using encode_reply_call_packet [of r e] by auto
  with Cons show ?case by simp
qed

lemma encode_reply_calls_stream:
  assumes "wf_replies rs"
  shows "encode_reply_calls milter_encoder_new rs = Ok (map (frame \<circ> reply_bytes) rs)"
proof (cases rs)
  case Nil
  then show ?thesis by simp
next
  case (Cons r rs')
  with assms have "wf_reply_call r" "\<forall>r \<in> set rs'. wf_reply_call r \<and> \<not> is_Rep_negotiate r"
    by (auto simp: wf_replies_def)
  moreover from this(1) obtain e' where
    "encode_reply_call milter_encoder_new r = Ok (e', Some (frame (reply_bytes r)))"
    using encode_reply_call_packet [of r milter_encoder_new] by auto
  ultimately show ?thesis using Cons by (simp add: encode_reply_calls_no_negotiate)
qed

subsection \<open>The decoder on a valid packet\<close>

lemma decode_reply_add_header_valid:
  "wf_string n \<Longrightarrow> c_string v \<Longrightarrow> cl = int (length n) + int (length v) + 3 \<Longrightarrow>
     decode_reply_add_header (c # n @ NUL # v @ NUL # r) cl = Ok (None, Sig_add_header n v)"
  by (simp add: decode_reply_add_header_def milter_decoder_decode_header_content_def
      terminated_value_Ok wf_string_def Let_def)

lemma decode_header_content_with_index_valid:
  assumes "wf_string n" and "c_string v" and "int (length n) + int (length v) + 6 \<le> len"
  shows "decode_header_content_with_index (be32 i @ n @ NUL # v @ NUL # r) len =
     Ok (i, n, nonempty_value (Some v))"
proof -
  have "\<not> gsize_of_int len < 4" using assms(3) by simp
  then show ?thesis
    using assms by (simp add: decode_header_content_with_index_def read_bytes_Ok
        terminated_value_Ok wf_string_def Let_def nonempty_value_def)
qed

lemma decode_reply_insert_header_valid:
  "wf_string n \<Longrightarrow> c_string v \<Longrightarrow> cl = int (length n) + int (length v) + 7 \<Longrightarrow>
     decode_reply_insert_header (c # be32 i @ n @ NUL # v @ NUL # r) cl =
       Ok (None, Sig_insert_header i n (nonempty_value (Some v)))"
  by (simp add: decode_reply_insert_header_def decode_header_content_with_index_valid)

lemma decode_reply_change_header_valid:
  "wf_string n \<Longrightarrow> c_string v \<Longrightarrow> cl = int (length n) + int (length v) + 7 \<Longrightarrow>
     decode_reply_change_header (c # be32 i @ n @ NUL # v @ NUL # r) cl =
       Ok (None, signal_of_reply (Rep_change_header n i (Some v)))"
  by (simp add: decode_reply_change_header_def decode_header_content_with_index_valid
      split: option.splits)

lemma decode_two_string_valid:
  "wf_string s \<Longrightarrow> len = int (length s) + 1 \<Longrightarrow>
     decode_two_string (s @ NUL # r) len = Ok (s, None)"
  "wf_string s \<Longrightarrow> wf_string p \<Longrightarrow> len = int (length s) + int (length p) + 2 \<Longrightarrow>
     decode_two_string (s @ NUL # p @ NUL # r) len = Ok (s, Some p)"
  by (simp_all add: decode_two_string_def terminated_value_Ok wf_string_def Let_def)

lemma decode_reply_add_recipient_valid:
  "wf_string s \<Longrightarrow> cl = int (length s) + 2 \<Longrightarrow>
     decode_reply_add_recipient (c # s @ NUL # r) cl = Ok (None, Sig_add_recipient s None)"
  by (simp add: decode_reply_add_recipient_def terminated_value_Ok wf_string_def)

lemma find_character_absent:
  "c \<notin> set p \<Longrightarrow> n \<le> length p \<Longrightarrow> find_character c (p @ r) n = Nowhere"
proof (induction p arbitrary: n)
  case Nil
  then show ?case by simp
next
  case (Cons x p)
  then show ?case by (cases n) auto
qed

text \<open>The line after the three digits and the optional space.\<close>

lemma find_space_character_line:
  assumes "c_string q"
  shows "(case find_space_character (q @ NUL # r) (int (length q) + 1) of
       Nowhere \<Rightarrow> Ok (None, Sig_reply_code code (cstr (q @ NUL # r)) None)
     | At s \<Rightarrow> Ok (None, Sig_reply_code code (cstr (take s (q @ NUL # r)))
                            (Some (cstr (drop (s + 1) (q @ NUL # r)))))
     | Beyond \<Rightarrow> Fault Overread) =
    Ok (None, if CHR '' '' \<in> set q
      then Sig_reply_code code (takeWhile (\<lambda>c. c \<noteq> CHR '' '') q)
             (Some (tl (dropWhile (\<lambda>c. c \<noteq> CHR '' '') q)))
      else Sig_reply_code code q None)"
proof (cases "CHR '' '' \<in> set q")
  case True
  then obtain a b where q: "q = a @ CHR '' '' # b" and a: "CHR '' '' \<notin> set a"
    by (auto dest: split_list_first)
  have *: "takeWhile (\<lambda>c. c \<noteq> CHR '' '') q = a" "dropWhile (\<lambda>c. c \<noteq> CHR '' '') q = CHR '' '' # b"
    using a by (auto simp: q takeWhile_append dropWhile_append takeWhile_eq_all_conv)
  have "find_character CHR '' '' (a @ CHR '' '' # b @ NUL # r) (Suc (Suc (length a + length b))) =
      At (length a)"
    using a by (intro find_character_terminated) auto
  then have "find_space_character (q @ NUL # r) (int (length q) + 1) = At (length a)"
    by (simp add: find_space_character_def q nat_add_distrib)
  with assms show ?thesis using * by (simp add: q)
next
  case False
  have "find_character CHR '' '' ((q @ [NUL]) @ r) (Suc (length q)) = Nowhere"
    using False by (intro find_character_absent) auto
  then have "find_space_character (q @ NUL # r) (int (length q) + 1) = Nowhere"
    by (simp add: find_space_character_def nat_add_distrib)
  with False assms show ?thesis by simp
qed

lemma decode_reply_reply_code_valid:
  assumes "wf_reply_line line" and "cl = int (length line) + 2"
  shows "decode_reply_reply_code (c # line @ NUL # r) cl = Ok (None, reply_line_signal line)"
proof -
  from assms(1) obtain c0 c1 c2 l where line: "line = c0 # c1 # c2 # l"
    unfolding wf_reply_line_def by (metis Suc_le_length_iff numeral_3_eq_3)
  have t: "milter_decoder_decode_null_terminated_value (line @ NUL # r) (cl - 1) = Ok (length line)"
    using assms by (intro terminated_value_Ok) (simp_all add: wf_reply_line_def)
  have ok: "c0 \<in> {CHR ''4'', CHR ''5''}" "is_digit c1" "is_digit c2"
    using assms(1) by (simp_all add: wf_reply_line_def line)
  show ?thesis
  proof (cases "take 1 l = '' ''")
    case True
    then obtain l' where l: "l = CHR '' '' # l'" by (cases l) auto
    have "c_string l'" using assms(1) by (simp add: wf_reply_line_def line l)
    from find_space_character_line [OF this, where r = r] show ?thesis
      using t ok assms(2)
      by (cases "CHR '' '' \<in> set l'") (simp_all add: decode_reply_reply_code_def
          reply_line_signal_def line l Let_def check_command_length_at_least algebra_simps)
  next
    case False
    then have hd: "take 1 (l @ NUL # r) \<noteq> '' ''" by (cases l) auto
    have "c_string l" using assms(1) by (simp add: wf_reply_line_def line)
    from find_space_character_line [OF this, where r = r] show ?thesis
      using t ok assms(2) False hd
      by (cases "CHR '' '' \<in> set l") (simp_all add: decode_reply_reply_code_def
          reply_line_signal_def line Let_def check_command_length_at_least algebra_simps)
  qed
qed

lemma AList_update_append: "k \<notin> fst ` set xs \<Longrightarrow> AList.update k v xs = xs @ [(k, v)]"
  by (induction xs) auto

lemma decode_macros_requests_staged:
  assumes "wf_requests (acc @ requests)" and "\<forall>kv \<in> set requests. milter_utils_command_to_macro_stage (fst kv) \<noteq> None"
  shows "decode_macros_requests_loop (encode_staged requests @ r)
      (int (length (encode_staged requests))) acc = Ok (acc @ requests)"
  using assms
proof (induction requests arbitrary: acc)
  case Nil
  then show ?case by (simp add: encode_staged_def staged_def decode_macros_requests_loop.simps)
next
  case (Cons kv requests)
  obtain command symbols where kv: "kv = (command, symbols)" by (cases kv)
  from Cons.prems(2) kv obtain stage where
    st: "milter_utils_command_to_macro_stage command = Some stage" by auto
  let ?j = "join_char CHR '' '' symbols" and ?t = "encode_staged requests"
  have w: "wf_symbols symbols" using Cons.prems(1) by (simp add: wf_requests_def kv)
  then have j: "c_string ?j" "?j \<noteq> []"
    by (auto simp: wf_symbols_def join_char_Nil_iff intro!: c_string_join_char)
  have sp: "g_strsplit ?j CHR '' '' = symbols"
    using w by (auto simp: g_strsplit_def wf_symbols_def join_char_Nil_iff intro!: split_join_char)
  have e: "encode_staged (kv # requests) = be32 (macro_stage_code stage) @ ?j @ NUL # ?t"
    by (simp add: encode_staged_def staged_def kv st)
  have n: "milter_decoder_decode_null_terminated_value (?j @ NUL # ?t @ r)
      (int (length (encode_staged (kv # requests))) - 4) = Ok (length ?j)"
    using j by (intro terminated_value_Ok) (simp_all add: e)
  have up: "milter_macros_requests_set_symbols_string_array acc command symbols = acc @ [kv]"
    using Cons.prems(1) by (auto simp: milter_macros_requests_set_symbols_string_array_def kv
        wf_requests_def intro!: AList_update_append)
  have len: "int (length (encode_staged (kv # requests))) - 4 - int (length ?j + 1) = int (length ?t)"
    by (simp add: e)
  have IH: "decode_macros_requests_loop (?t @ r) (int (length ?t)) (acc @ [kv]) = Ok ((acc @ [kv]) @ requests)"
    using Cons.prems by (intro Cons.IH) simp_all
  have "decode_macros_requests_loop (encode_staged (kv # requests) @ r)
      (int (length (encode_staged (kv # requests)))) acc =
      decode_macros_requests_loop (?t @ r) (int (length ?t)) (acc @ [kv])"
    using j n up len
    by (subst decode_macros_requests_loop.simps)
      (simp add: e check_command_length_at_least read_bytes_Ok sp macro_stage_roundtrip [OF st])
  with IH show ?case by simp
qed

lemma decode_reply_negotiate_valid:
  assumes "wf_option opt" and "case requests of None \<Rightarrow> True | Some rs \<Rightarrow> wf_requests rs"
    and "body = (case requests of None \<Rightarrow> [] | Some rs \<Rightarrow> encode_staged rs)"
    and "cl = 13 + int (length body)"
  shows "decode_reply_negotiate
      (c # be32 (version opt) @ be32 (action opt) @ be32 (step opt) @ body @ r) cl =
     Ok (None, signal_of_reply (Rep_negotiate opt requests))"
proof -
  have n: "milter_decoder_decode_negotiate
      (c # be32 (version opt) @ be32 (action opt) @ be32 (step opt) @ body @ r) cl = Ok (opt, 13)"
    using assms(1,4) by (simp add: milter_decoder_decode_negotiate_def codec_simps eval_nat_numeral)
  have "decode_macros_requests (body @ r) (int (length body)) =
      Ok (case requests of None \<Rightarrow> None | Some rs \<Rightarrow> if staged rs = [] then None else Some (staged rs))"
  proof (cases "requests = None \<or> (\<exists>rs. requests = Some rs \<and> staged rs = [])")
    case True
    then have "body = []" using assms(3) by (auto simp: encode_staged_def)
    with True show ?thesis by (auto simp: decode_macros_requests_def)
  next
    case False
    then obtain rs where rs: "requests = Some rs" "staged rs \<noteq> []" by auto
    have st: "staged (staged rs) = staged rs" by (simp add: staged_def)
    then have b: "body = encode_staged (staged rs)" using assms(3) rs by (simp add: encode_staged_def)
    have "length body \<noteq> 0"
      using rs(2) unfolding b encode_staged_def st by (cases "staged rs") (auto split: prod.splits)
    then have ne: "body \<noteq> []" by simp
    have "wf_requests ([] @ staged rs)"
      using assms(2) rs(1) by (auto simp: wf_requests_def staged_def intro!: distinct_map_filter)
    moreover have "\<forall>kv \<in> set (staged rs). milter_utils_command_to_macro_stage (fst kv) \<noteq> None"
      by (auto simp: staged_def)
    ultimately have "decode_macros_requests_loop (body @ r) (int (length body)) [] = Ok (staged rs)"
      unfolding b using decode_macros_requests_staged [of "[]" "staged rs" r] by simp
    with ne rs show ?thesis by (simp add: decode_macros_requests_def milter_macros_requests_new_def)
  qed
  then show ?thesis
    using n assms(4)
    by (simp add: decode_reply_negotiate_def check_command_length_at_least eval_nat_numeral)
qed

lemmas reply_handlers =
  decode_reply_continue_def decode_reply_temporary_failure_def decode_reply_reject_def
  decode_reply_accept_def decode_reply_discard_def decode_reply_delete_recipient_def
  decode_reply_progress_def decode_reply_quarantine_def decode_reply_connection_failure_def
  decode_reply_shutdown_def decode_reply_skip_def

lemmas reply_valid_simps =
  decode_reply_def milter_decoder_get_buffer_def decode_no_argument_valid
  decode_one_string_valid reply_handlers

lemmas header_valid_simps =
  decode_reply_add_header_valid decode_reply_add_header_valid [where v = "[]", simplified]
  decode_reply_insert_header_valid decode_reply_insert_header_valid [where v = "[]", simplified]
  decode_reply_change_header_valid decode_reply_change_header_valid [where v = "[]", simplified]
  optional_string_def nonempty_value_def

lemma decode_reply_valid:
  assumes "wf_reply_call c"
  shows "decode_reply (reply_bytes c @ r) (int (length (reply_bytes c))) =
     Ok (None, signal_of_reply c)"
proof (cases c)
  case (Rep_negotiate opt requests)
  then show ?thesis
    using assms decode_reply_negotiate_valid [of opt requests _ _ _ "r @ [NUL]", OF _ _ refl refl]
    by (simp add: reply_valid_simps)
next
  case (Rep_reply_code line)
  then show ?thesis
    using assms decode_reply_reply_code_valid [of line "2 + int (length line)" _ "r @ [NUL]"]
    by (simp add: reply_valid_simps)
next
  case (Rep_add_header n v)
  then show ?thesis
    using assms by (auto simp: reply_valid_simps header_valid_simps split: option.splits)
next
  case (Rep_insert_header i n v)
  then show ?thesis
    using assms by (auto simp: reply_valid_simps header_valid_simps split: option.splits)
next
  case (Rep_change_header n i v)
  then show ?thesis
    using assms by (auto simp: reply_valid_simps header_valid_simps split: option.splits)
next
  case (Rep_delete_header n i)
  then show ?thesis
    using assms by (simp add: reply_valid_simps header_valid_simps)
next
  case (Rep_change_from s p)
  then show ?thesis
    using assms
    by (auto simp: reply_valid_simps decode_reply_change_from_def decode_two_string_valid
        optional_string_def wf_string_def [of "_ :: bytes"] split: option.splits)
next
  case (Rep_add_recipient s p)
  then show ?thesis
    using assms
    by (auto simp: reply_valid_simps decode_reply_add_recipient_with_parameters_def
        decode_two_string_valid decode_reply_add_recipient_valid nonempty_value_def
        optional_string_def wf_string_def [of "_ :: bytes"] split: option.splits)
next
  case (Rep_replace_body body)
  then show ?thesis by (simp add: reply_valid_simps decode_reply_replace_body_def read_bytes_Ok)
qed (use assms in \<open>simp_all add: reply_valid_simps\<close>)

text \<open>The relation between packet bodies and signals that the decoder implements.\<close>

definition reply_packet :: "bytes \<Rightarrow> reply_signal \<Rightarrow> bool" where
  "reply_packet p s \<longleftrightarrow>
     (\<exists>c. wf_reply_call c \<and> length (reply_bytes c) < 2 ^ 24 \<and> p = reply_bytes c \<and>
          s = signal_of_reply c)"

interpretation replies: packet_handler decode_reply reply_packet
  by unfold_locales (auto simp: reply_packet_def decode_reply_valid)

end
