(* ===== verification/Reply_Spec.thy ===== *)
theory Reply_Spec
  imports Reply_Codec
begin

text \<open>
  The properties of the reply codec: the round trip under any chunking, what the reply
  decoder reads beyond a packet, and two replies that come out as something else.
\<close>

subsection \<open>The round trip\<close>

lemma reply_packets:
  "wf_replies rs \<Longrightarrow> list_all2 reply_packet (map reply_bytes rs) (map signal_of_reply rs)"
  by (auto simp: list_all2_map1 list_all2_map2 list_all2_same reply_packet_def wf_replies_def)


definition sample_replies :: "reply_call list" where
  "sample_replies =
     [Rep_negotiate \<lparr>version = 6, action = 1, step = 2\<rparr>
        (Some [(MILTER_COMMAND_HELO, [''a'', ''b'']), (MILTER_COMMAND_BODY, [''c''])]),
      Rep_reply_code ''451 4.7.1 try later'', Rep_change_header ''S'' 1 (Some []), Rep_skip]"

lemma sample_replies_wf: "wf_replies sample_replies"
  by (simp add: wf_replies_def sample_replies_def wf_requests_def wf_symbols_def wf_option_def
      wf_reply_line_def is_digit_def wf_string_def optional_string_def action_flags_mask_def
      step_mask_values encode_staged_def staged_def milter_utils_command_to_macro_stage_def
      numeral_3_eq_3)


subsection \<open>Reading beyond a packet\<close>

lemma decode_two_string_safe:
  assumes "0 \<le> len" and "len < int (length p)"
  shows "decode_two_string p len \<noteq> Fault f"
proof -
  have "milter_decoder_decode_null_terminated_value (drop (n + 1) p) (len - int (n + 1)) \<noteq> Fault f"
    if "milter_decoder_decode_null_terminated_value p len = Ok n" for n
    using terminated_value_OkD [OF that] assms by (intro terminated_value_no_fault) auto
  with terminated_value_no_fault [of len p] assms show ?thesis
    by (auto simp: decode_two_string_def bind_result_Fault_iff Let_def)
qed

lemma decode_macros_requests_loop_safe:
  "len < int (length p) \<Longrightarrow> decode_macros_requests_loop p len requests \<noteq> Fault f"
proof (induction p len requests rule: decode_macros_requests_loop.induct)
  case (1 p len requests)
  show ?case
  proof (cases "len \<le> 0")
    case True
    then show ?thesis by (simp add: decode_macros_requests_loop.simps)
  next
    case False
    show ?thesis
    proof (cases "4 \<le> len")
      case len4: True
      then have c: "milter_decoder_check_command_length p len 4 MILTER_DECODER_COMPARE_AT_LEAST = Ok ()"
        by (rule check_command_length_at_least)
      have r: "read_bytes p 4 = Ok (take 4 p)" using len4 1(2) by (simp add: read_bytes_def)
      have nf: "milter_decoder_decode_null_terminated_value (drop 4 p) (len - 4) \<noteq> Fault f" for f
        using len4 1(2) by (intro terminated_value_no_fault) auto
      show ?thesis
      proof (cases "milter_decoder_decode_null_terminated_value (drop 4 p) (len - 4)")
        case (Ok n)
        have l: "len - 4 - int (n + 1) < int (length (drop (n + 1) (drop 4 p)))"
          using terminated_value_OkD [OF Ok] 1(2) by simp
        show ?thesis
          unfolding decode_macros_requests_loop.simps [of p len requests]
          using False 1(1) [OF False c Ok _ _ l] c r Ok
          by (auto simp del: drop_drop split: option.splits)
      qed (use False c r nf in \<open>subst decode_macros_requests_loop.simps, simp\<close>)+
    next
      case short: False
      have "milter_decoder_check_command_length p len 4 MILTER_DECODER_COMPARE_AT_LEAST \<noteq> Fault f"
        using False 1(2) by (intro check_command_length_no_fault) auto
      moreover have "milter_decoder_check_command_length p len 4 MILTER_DECODER_COMPARE_AT_LEAST \<noteq> Ok ()"
        using short by (simp add: milter_decoder_check_command_length_def)
      ultimately show ?thesis
        using False by (subst decode_macros_requests_loop.simps) (auto split: result.splits)
    qed
  qed
qed

lemma decode_reply_negotiate_safe:
  assumes "packet_memory m cl"
  shows "decode_reply_negotiate m cl \<noteq> Fault f"
proof -
  have m: "1 \<le> cl" "cl < int (length m)" using assms by (simp_all add: packet_memory_def)
  have "milter_decoder_check_command_length (drop n m) (cl - int n) 0 MILTER_DECODER_COMPARE_AT_LEAST
      \<noteq> Fault f \<and> decode_macros_requests (drop n m) (cl - int n) \<noteq> Fault f"
    if "milter_decoder_decode_negotiate m cl = Ok (opt, n)" for opt n
    using decode_negotiate_length [OF that] m decode_macros_requests_loop_safe [of "cl - int n" "drop n m"]
      check_command_length_no_fault [of "cl - int n" 0 "drop n m"]
    by (auto simp: decode_macros_requests_def bind_result_Fault_iff)
  with decode_negotiate_content_safe [OF m] show ?thesis
    by (auto simp: decode_reply_negotiate_def bind_result_Fault_iff)
qed

lemma find_space_character_safe:
  "len \<le> int (length p) \<Longrightarrow> find_space_character p len \<noteq> Beyond"
  unfolding find_space_character_def
  by (rule notI, drule find_character_Beyond) simp

lemma decode_reply_reply_code_safe:
  assumes "packet_memory m cl"
  shows "decode_reply_reply_code m cl \<noteq> Fault f"
proof -
  let ?p = "drop 1 m" and ?len = "cl - 1"
  have p: "0 \<le> ?len" "?len < int (length ?p)" using packet_memory_content [OF assms] by simp_all
  show ?thesis
  proof (cases "3 \<le> ?len")
    case False
    then have "milter_decoder_check_command_length ?p ?len 3 MILTER_DECODER_COMPARE_AT_LEAST \<noteq> Ok ()"
      by (simp add: milter_decoder_check_command_length_def)
    moreover have "milter_decoder_check_command_length ?p ?len 3 MILTER_DECODER_COMPARE_AT_LEAST \<noteq> Fault f"
      using p by (intro check_command_length_no_fault) auto
    ultimately show ?thesis
      by (auto simp: decode_reply_reply_code_def Let_def bind_result_Fault_iff)
  next
    case True
    with p(2) have "3 \<le> length ?p" by linarith
    moreover have "\<exists>c0 c1 c2 l. xs = c0 # c1 # c2 # l" if "3 \<le> length xs" for xs :: bytes
      using that by (auto simp: Suc_le_length_iff numeral_3_eq_3)
    ultimately obtain c0 c1 c2 p3 where p3: "?p = c0 # c1 # c2 # p3" by blast
    have "length ?p = length p3 + 3" by (subst p3) simp
    with p(2) have l: "?len - 3 \<le> int (length p3)" by linarith
    have s: "find_space_character p3 (?len - 3) \<noteq> Beyond"
      by (rule find_space_character_safe [OF l])
    have "find_space_character (drop 1 p3) (?len - 3 - 1) \<noteq> Beyond" if "take 1 p3 = '' ''"
    proof -
      from that obtain p4 where "p3 = CHR '' '' # p4" by (cases p3) auto
      with l show ?thesis by (intro find_space_character_safe) simp
    qed
    moreover have "milter_decoder_decode_null_terminated_value ?p ?len \<noteq> Fault f"
      using p by (intro terminated_value_no_fault) auto
    ultimately show ?thesis
      unfolding decode_reply_reply_code_def Let_def check_command_length_at_least [OF True]
      using s by (auto simp: bind_result_Fault_iff p3 simp del: drop_Suc_Cons One_nat_def split: scan.splits)
  qed
qed

definition uses_header_index :: "char \<Rightarrow> bool" where
  "uses_header_index c \<longleftrightarrow>
     c \<in> {reply_code MILTER_REPLY_INSERT_HEADER, reply_code MILTER_REPLY_CHANGE_HEADER}"

text \<open>
  On a non-empty packet of any other kind, whatever is in it, the reply decoder stays
  inside its buffer; only the two replies with a header index can read beyond it.
\<close>

theorem reply_decoder_memory_safe:
  assumes "p \<noteq> []" and "starts_nul r" and "\<not> uses_header_index (hd p)"
  shows "decode_reply (p @ r) (int (length p)) \<noteq> Fault f"
proof -
  let ?m = "milter_decoder_get_buffer (p @ r)" and ?cl = "int (length p)"
  note m = packet_memory_get_buffer [OF assms(1,2)]
  note c = packet_memory_content [OF m]
  have hd: "hd ?m = hd p" using assms(1) by (simp add: milter_decoder_get_buffer_def)
  have "read_bytes (drop 1 ?m) (?cl - 1) \<noteq> Fault f" using c by (intro read_bytes_no_fault) auto
  moreover have "milter_decoder_decode_null_terminated_value (drop 1 ?m) (?cl - 1) \<noteq> Fault f"
    by (rule content_terminated_no_fault [OF m])
  moreover have "milter_decoder_decode_header_content (drop 1 ?m) (?cl - 1) \<noteq> Fault f"
    "decode_two_string (drop 1 ?m) (?cl - 1) \<noteq> Fault f"
    using c by (simp_all add: decode_header_content_safe decode_two_string_safe)
  ultimately show ?thesis
    using assms(3) hd
    by (auto simp: decode_reply_def Let_def reply_handlers uses_header_index_def
        decode_reply_negotiate_safe [OF m] decode_reply_reply_code_safe [OF m]
        decode_one_string_safe [OF m] decode_no_argument_safe [OF m]
        decode_reply_add_header_def decode_reply_change_from_def decode_reply_add_recipient_def
        decode_reply_add_recipient_with_parameters_def decode_reply_replace_body_def
        bind_result_Fault_iff dest!: reply_of_charD
        split: option.splits milter_reply.splits result.splits)
qed

theorem reply_decoder_memory_safe_witness:
  "decode_reply (''y45'' @ [NUL, NUL]) 3 \<noteq> Fault Overread"
  using reply_decoder_memory_safe [of "''y45''" "[NUL, NUL]" Overread]
  by (simp add: uses_header_index_def)

text \<open>
  Those two are decoded with a length that is too large by two. A value without its
  NUL is taken all the same, and a name without its NUL makes the decoder look for the
  value behind the end of the buffer.
\<close>

theorem header_index_length_too_large:
  assumes "wf_string n" and "wf_string v"
  shows "decode_reply (reply_code MILTER_REPLY_INSERT_HEADER # be32 i @ n @ NUL # v)
      (int (length n) + int (length v) + 6) = Ok (None, Sig_insert_header i n (Some v)) \<and>
    decode_reply (reply_code MILTER_REPLY_INSERT_HEADER # be32 i @ n)
      (int (length n) + 5) = Fault Overread"
proof -
  have full: "decode_header_content_with_index (be32 i @ n @ NUL # v @ [NUL])
      (int (length n) + int (length v) + 7) = Ok (i, n, Some v)"
    using assms decode_header_content_with_index_valid
      [of n v "int (length n) + int (length v) + 7" i "[]"]
    by (simp add: wf_string_def nonempty_value_def)
  have "milter_decoder_decode_null_terminated_value (n @ [NUL]) (int (length n) + 2) =
      Ok (length n)"
    using assms(1) terminated_value_Ok [of n "int (length n) + 2" "[]"] by (simp add: wf_string_def)
  then have "decode_header_content_with_index (be32 i @ n @ [NUL]) (int (length n) + 6) =
      Fault Overread"
    using assms(1)
    by (simp add: terminated_value_empty decode_header_content_with_index_def read_bytes_Ok Let_def wf_string_def
        add.commute)
  with full show ?thesis
    by (simp add: decode_reply_def milter_decoder_get_buffer_def decode_reply_insert_header_def
        algebra_simps)
qed

theorem header_index_length_too_large_witness:
  "decode_reply (CHR ''i'' # be32 0 @ ''ab'') 7 = Fault Overread"
  using header_index_length_too_large [of "''ab''" "''c''" 0] by (simp add: wf_string_def)

subsection \<open>Replies that do not arrive\<close>

text \<open>
  A change of the sender with empty parameters is encoded with an empty second string,
  which the decoder on the other side refuses without an error: the reply and everything
  after it are lost. The check in the encoder that should have dropped the parameters
  compares the pointer instead of its first byte.
\<close>

theorem change_from_empty_parameters_lost:
  assumes "wf_string s" and "length s < 2 ^ 20"
  shows "\<exists>e packet d.
     milter_reply_encoder_encode_change_from milter_encoder_new (Some s) (Some []) = (e, Some packet) \<and>
     run_reader decode_reply milter_decoder_new (packet # chunks) = Agent d [] [] \<and>
     dec_state d = IN_ERROR"
proof -
  let ?p = "reply_code MILTER_REPLY_CHANGE_FROM # s @ [NUL, NUL]"
  let ?d = "\<lparr>dec_state = IN_COMMAND_CONTENT, dec_buffer = ?p,
      dec_command_length = int (length ?p), dec_tag = 0\<rparr>"
  have 1: "milter_decoder_decode_null_terminated_value (s @ [NUL, NUL, NUL]) (int (length s) + 2) =
      Ok (length s)"
    using assms(1) terminated_value_Ok [of s "int (length s) + 2" "[NUL, NUL]"]
    by (simp add: wf_string_def)
  have 2: "milter_decoder_decode_null_terminated_value [NUL, NUL] 1 = Ok 0"
    using terminated_value_Ok [of "[]" 1 "[NUL]"] by simp
  have h: "decode_reply ?p (int (length ?p)) = Refused None"
    using 1 2 assms(1)
    by (simp add: decode_reply_def milter_decoder_get_buffer_def decode_reply_change_from_def
        decode_two_string_def Let_def wf_string_def algebra_simps)
  have "milter_decoder_decode decode_reply milter_decoder_new (frame ?p) =
      decode_loop decode_reply ?d None []"
    using command_length_of_frame [of ?p] assms(2)
    by (simp add: milter_decoder_decode_def milter_decoder_new_def loop_start loop_length frame_def)
  also have "\<dots> = Returned (?d\<lparr>dec_state := IN_ERROR\<rparr>) False None []"
    using h by (subst loop_content) simp_all
  finally have r: "run_reader decode_reply milter_decoder_new (frame ?p # chunks) =
      Agent (?d\<lparr>dec_state := IN_ERROR, dec_buffer := ?p @ concat chunks\<rparr>) [] []"
    by (simp add: cb_reader_flow_def run_reader_in_error)
  have "\<exists>e. milter_reply_encoder_encode_change_from milter_encoder_new (Some s) (Some []) =
      (e, Some (frame ?p))"
    using assms(1) by (simp add: milter_reply_encoder_encode_change_from_def Let_def
        milter_encoder_pack_eq wf_string_def)
  with r show ?thesis by fastforce
qed

theorem change_from_empty_parameters_lost_witness:
  "\<exists>e packet d.
     milter_reply_encoder_encode_change_from milter_encoder_new (Some ''a@b'') (Some []) = (e, Some packet) \<and>
     run_reader decode_reply milter_decoder_new [packet, be32 1 @ ''c''] = Agent d [] [] \<and>
     dec_state d = IN_ERROR"
  using change_from_empty_parameters_lost [of "''a@b''" "[be32 1 @ ''c'']"]
  by (simp add: wf_string_def)

end
