(* ===== verification/Reply_Code.thy ===== *)
theory Reply_Code
  imports Reply_Spec
begin

text \<open>
  The reply a milter prepares with \<open>milter_client_context_set_reply\<close>
  (\<open>milter/client/milter-client-context.c\<close>), its text form
  (\<open>milter_utils_format_reply_code\<close>), the packet made of it, and what the other side
  reads: the reply line crosses four components.
\<close>

subsection \<open>Extended status codes\<close>

text \<open>
  A pointer into the code is the rest of the string, and \<open>None\<close> is the \<open>NULL\<close> returned
  with \<open>MILTER_CLIENT_CONTEXT_ERROR_INVALID_CODE\<close>. \<open>atoi\<close> reads the digits in front.
\<close>

definition atoi :: "bytes \<Rightarrow> nat" where
  "atoi p = foldl (\<lambda>n c. n * 10 + digit_value c) 0 (takeWhile is_digit p)"

text \<open>The loops; the second component tells whether the dot was found.\<close>

fun parse_class_loop :: "bytes \<Rightarrow> nat \<Rightarrow> (bytes \<times> bool) option" where
  "parse_class_loop [] i = (if i = 0 then None else Some ([], False))"
| "parse_class_loop (c # p) i =
     (if c = CHR ''.'' then (if i = 0 then None else Some (p, True))
      else if i \<ge> 1 then None
      else if \<not> (c = CHR ''2'' \<or> c = CHR ''4'' \<or> c = CHR ''5'') then None
      else parse_class_loop p (Suc i))"

definition extended_code_parse_class :: "bytes \<Rightarrow> nat \<Rightarrow> (bytes \<times> nat) option" where
  "extended_code_parse_class current_point klass =
     map_option (\<lambda>(rest, dot). (rest, if dot then atoi current_point else klass))
       (parse_class_loop current_point 0)"

fun parse_subject_loop :: "bytes \<Rightarrow> nat \<Rightarrow> bytes option" where
  "parse_subject_loop [] i = (if i = 0 then None else Some [])"
| "parse_subject_loop (c # p) i =
     (if c = CHR ''.'' then (if i = 0 then None else Some p)
      else if i \<ge> 3 then None
      else if \<not> is_digit c then None
      else parse_subject_loop p (Suc i))"

definition extended_code_parse_subject :: "bytes \<Rightarrow> bytes option" where
  "extended_code_parse_subject current_point = parse_subject_loop current_point 0"

fun parse_detail_loop :: "bytes \<Rightarrow> nat \<Rightarrow> bytes option" where
  "parse_detail_loop [] i = (if i = 0 then None else Some [])"
| "parse_detail_loop (c # p) i =
     (if i \<ge> 3 then None
      else if \<not> is_digit c then None
      else parse_detail_loop p (Suc i))"

definition extended_code_parse_detail :: "bytes \<Rightarrow> bytes option" where
  "extended_code_parse_detail current_point = parse_detail_loop current_point 0"

text \<open>The class is the only component the caller reads; it starts at 0.\<close>

definition extended_code_parse :: "bytes \<Rightarrow> nat option" where
  "extended_code_parse extended_code =
     (case extended_code_parse_class extended_code 0 of
        None \<Rightarrow> None
      | Some (current_point, klass) \<Rightarrow>
          if current_point = [] then None
          else (case extended_code_parse_subject current_point of
                  None \<Rightarrow> None
                | Some current_point \<Rightarrow>
                    if current_point = [] then None
                    else (case extended_code_parse_detail current_point of
                            None \<Rightarrow> None
                          | Some _ \<Rightarrow> Some klass)))"

subsection \<open>The prepared reply\<close>

record client_reply =
  reply_code_number :: nat
  extended_reply_code :: "bytes option"
  reply_message :: "bytes option"

definition no_reply :: client_reply where
  "no_reply = \<lparr>reply_code_number = 0, extended_reply_code = None, reply_message = None\<rparr>"

definition milter_client_context_set_reply ::
    "client_reply \<Rightarrow> nat \<Rightarrow> bytes option \<Rightarrow> bytes option \<Rightarrow> bool \<times> client_reply" where
  "milter_client_context_set_reply r code extended_code message =
     (if \<not> (400 \<le> code \<and> code < 600) then (False, r)
      else if (case extended_code of
                 None \<Rightarrow> False
               | Some ec \<Rightarrow>
                   (case extended_code_parse ec of
                      None \<Rightarrow> True
                    | Some klass \<Rightarrow> klass \<noteq> code div 100))
      then (False, r)
      else (True, \<lparr>reply_code_number = code, extended_reply_code = extended_code,
                   reply_message = message\<rparr>))"

subsection \<open>The reply line\<close>

text \<open>\<open>%3u\<close>: the decimal digits, padded with spaces to three.\<close>

fun decimal :: "nat \<Rightarrow> bytes" where
  "decimal n = (if n < 10 then [char_of (48 + n)] else decimal (n div 10) @ [char_of (48 + n mod 10)])"

declare decimal.simps [simp del]

definition format_3u :: "nat \<Rightarrow> bytes" where
  "format_3u n = replicate (3 - length (decimal n)) CHR '' '' @ decimal n"

definition strip_cr :: "bytes \<Rightarrow> bytes" where
  "strip_cr message =
     (if message \<noteq> [] \<and> last message = CHR 0x0D then butlast message else message)"

definition format_reply_line :: "nat \<Rightarrow> bytes option \<Rightarrow> bytes \<Rightarrow> bytes" where
  "format_reply_line code extended_code message =
     format_3u code @
     (case extended_code of None \<Rightarrow> [] | Some ec \<Rightarrow> '' '' @ ec) @
     (if message \<noteq> [] then '' '' @ strip_cr message else [])"

fun format_reply_lines :: "nat \<Rightarrow> bytes option \<Rightarrow> bytes list \<Rightarrow> bytes" where
  "format_reply_lines code ec [] = []"
| "format_reply_lines code ec [m] = format_reply_line code ec m"
| "format_reply_lines code ec (m # m' # ms) =
     format_reply_line code ec m @ [CHR 0x0D, CHR 0x0A] @ format_reply_lines code ec (m' # ms)"

definition milter_utils_format_reply_code ::
    "nat \<Rightarrow> bytes option \<Rightarrow> bytes option \<Rightarrow> bytes option" where
  "milter_utils_format_reply_code code extended_code message =
     (if code = 0 then None
      else
        let message = (case message of None \<Rightarrow> [CHR 0x0A] | Some m \<Rightarrow> m)
        in Some (format_reply_lines code extended_code (g_strsplit message CHR 0x0A)))"

definition milter_client_context_format_reply :: "client_reply \<Rightarrow> bytes option" where
  "milter_client_context_format_reply r =
     milter_utils_format_reply_code (reply_code_number r) (extended_reply_code r)
       (reply_message r)"

subsection \<open>The reply packet\<close>

text \<open>The packet of a status; \<open>None\<close> for the statuses that are not answered.\<close>

definition create_reply_packet ::
    "milter_encoder \<Rightarrow> client_reply \<Rightarrow> milter_status \<Rightarrow> milter_encoder \<times> bytes option" where
  "create_reply_packet e r status =
     (case status of
        MILTER_STATUS_CONTINUE \<Rightarrow> apsnd Some (milter_reply_encoder_encode_continue e)
      | MILTER_STATUS_TEMPORARY_FAILURE \<Rightarrow>
          (case milter_client_context_format_reply r of
             Some code \<Rightarrow> milter_reply_encoder_encode_reply_code e (Some code)
           | None \<Rightarrow> apsnd Some (milter_reply_encoder_encode_temporary_failure e))
      | MILTER_STATUS_REJECT \<Rightarrow>
          (case milter_client_context_format_reply r of
             Some code \<Rightarrow> milter_reply_encoder_encode_reply_code e (Some code)
           | None \<Rightarrow> apsnd Some (milter_reply_encoder_encode_reject e))
      | MILTER_STATUS_ACCEPT \<Rightarrow> apsnd Some (milter_reply_encoder_encode_accept e)
      | MILTER_STATUS_DISCARD \<Rightarrow> apsnd Some (milter_reply_encoder_encode_discard e)
      | MILTER_STATUS_SKIP \<Rightarrow> apsnd Some (milter_reply_encoder_encode_skip e)
      | _ \<Rightarrow> (e, None))"

text \<open>
  \<open>reply_on_end_of_message\<close>, the bytes it writes: a quarantine reply goes in front of the
  final one.
\<close>

definition end_of_message_packets ::
    "milter_encoder \<Rightarrow> client_reply \<Rightarrow> bytes option \<Rightarrow> milter_status \<Rightarrow> milter_encoder \<times> bytes option" where
  "end_of_message_packets e r quarantine_reason status =
     (case create_reply_packet e r status of
        (e, None) \<Rightarrow> (e, None)
      | (e, Some packet) \<Rightarrow>
          (case quarantine_reason of
             None \<Rightarrow> (e, Some packet)
           | Some reason \<Rightarrow>
               (case milter_reply_encoder_encode_quarantine e (Some reason) of
                  (e, quarantine) \<Rightarrow>
                    (e, Some ((case quarantine of None \<Rightarrow> [] | Some q \<Rightarrow> q) @ packet)))))"

subsection \<open>The grammar of extended codes\<close>

definition number3 :: "bytes \<Rightarrow> bool" where
  "number3 s \<longleftrightarrow> s \<noteq> [] \<and> length s \<le> 3 \<and> (\<forall>c \<in> set s. is_digit c)"

lemma not_digit_dot [simp]: "\<not> is_digit CHR ''.''"
  by (simp add: is_digit_def)

lemma parse_detail_loop_iff:
  "parse_detail_loop p i = Some q \<longleftrightarrow>
     q = [] \<and> i + length p \<le> 3 \<and> 0 < i + length p \<and> (\<forall>c \<in> set p. is_digit c) \<or>
     q = [] \<and> p = [] \<and> 0 < i"
  by (induction p i rule: parse_detail_loop.induct) auto

lemma parse_subject_loop_dot:
  "parse_subject_loop p i = Some q \<and> q \<noteq> [] \<longleftrightarrow>
     (\<exists>s. p = s @ CHR ''.'' # q \<and> q \<noteq> [] \<and> (i + length s \<le> 3 \<or> s = []) \<and> 0 < i + length s \<and>
          (\<forall>c \<in> set s. is_digit c))"
proof (induction p i rule: parse_subject_loop.induct)
  case (1 i)
  then show ?case by auto
next
  case (2 c p i)
  show ?case
  proof (cases "c = CHR ''.''")
    case True
    then show ?thesis by (auto simp: Cons_eq_append_conv)
  next
    case False
    with 2 show ?thesis by (auto simp: Cons_eq_append_conv)
  qed
qed

lemma parse_class_loop_dot:
  "parse_class_loop p 0 = Some (q, True) \<longleftrightarrow>
     (\<exists>c. p = c # CHR ''.'' # q \<and> c \<in> {CHR ''2'', CHR ''4'', CHR ''5''})"
  by (cases p; cases "tl p") auto

lemma parse_class_loop_no_dot: "parse_class_loop p i = Some (q, False) \<Longrightarrow> q = []"
  by (induction p i rule: parse_class_loop.induct) (auto split: if_splits)

lemma atoi_class: "is_digit c \<Longrightarrow> atoi (c # CHR ''.'' # q) = digit_value c"
  by (simp add: atoi_def)

lemma is_digit_class: "c \<in> {CHR ''2'', CHR ''4'', CHR ''5''} \<Longrightarrow> is_digit c"
  by (auto simp: is_digit_def)

lemma extended_code_parse_iff:
  "extended_code_parse s = Some k \<longleftrightarrow>
     (\<exists>c subject detail. s = c # ''.'' @ subject @ ''.'' @ detail \<and>
        c \<in> {CHR ''2'', CHR ''4'', CHR ''5''} \<and> k = digit_value c \<and>
        number3 subject \<and> number3 detail)"
  (is "?parsed \<longleftrightarrow> ?grammar")
proof
  assume ?parsed
  then obtain q r where p: "parse_class_loop s 0 = Some (q, True)" "k = atoi s"
    "parse_subject_loop q 0 = Some r" "r \<noteq> []" "parse_detail_loop r 0 = Some []"
    by (auto simp: extended_code_parse_def extended_code_parse_class_def
        extended_code_parse_subject_def extended_code_parse_detail_def parse_detail_loop_iff
        split: option.splits if_splits dest: parse_class_loop_no_dot)
  from p(1) obtain c where c: "s = c # CHR ''.'' # q" "c \<in> {CHR ''2'', CHR ''4'', CHR ''5''}"
    by (auto simp: parse_class_loop_dot)
  have "parse_subject_loop q 0 = Some r \<and> r \<noteq> []" using p(3,4) by simp
  then obtain sub where sub: "q = sub @ CHR ''.'' # r" "number3 sub"
    unfolding parse_subject_loop_dot by (auto simp: number3_def)
  have "number3 r" using p(4,5) by (simp add: parse_detail_loop_iff number3_def)
  with c sub p(2) show ?grammar by (auto simp: atoi_class is_digit_class)
next
  assume ?grammar
  then obtain c subject detail where s: "s = c # ''.'' @ subject @ ''.'' @ detail"
    "c \<in> {CHR ''2'', CHR ''4'', CHR ''5''}" "k = digit_value c" "number3 subject" "number3 detail"
    by blast
  have "parse_subject_loop (subject @ CHR ''.'' # detail) 0 = Some detail \<and> detail \<noteq> []"
    unfolding parse_subject_loop_dot using s(4,5) by (auto simp: number3_def)
  moreover have "parse_class_loop s 0 = Some (subject @ CHR ''.'' # detail, True)"
    unfolding parse_class_loop_dot using s by simp
  moreover have "parse_detail_loop detail 0 = Some []"
    using s(5) by (simp add: parse_detail_loop_iff number3_def)
  ultimately show ?parsed
    using s atoi_class [OF is_digit_class [OF s(2)]]
    by (simp add: extended_code_parse_def extended_code_parse_class_def
        extended_code_parse_subject_def extended_code_parse_detail_def)
qed

text \<open>
  The parser of extended status codes accepts exactly \<open>class.subject.detail\<close> with the
  class 2, 4 or 5 and a subject and a detail of one to three digits, and yields the class.
\<close>

theorem extended_code_parse_grammar:
  "extended_code_parse s = Some k \<longleftrightarrow>
     (\<exists>c subject detail. s = c # ''.'' @ subject @ ''.'' @ detail \<and>
        c \<in> {CHR ''2'', CHR ''4'', CHR ''5''} \<and> k = digit_value c \<and>
        number3 subject \<and> number3 detail)"
  by (rule extended_code_parse_iff)

subsection \<open>The line through the codec\<close>

lemma digit_char:
  fixes n :: nat
  assumes "n < 10"
  shows "is_digit (char_of (48 + n))" and "digit_value (char_of (48 + n)) = n"
proof -
  have "(48 + n) mod 256 = 48 + n" using assms by simp
  then have "(of_char (char_of (48 + n) :: char) :: nat) = 48 + n" by (simp only: of_char_of)
  then show "is_digit (char_of (48 + n))" "digit_value (char_of (48 + n)) = n"
    using assms by (simp_all add: is_digit_def digit_value_def)
qed

lemma format_3u_digits:
  fixes n :: nat
  assumes "100 \<le> n" and "n < 1000"
  shows "format_3u n =
     [char_of (48 + n div 100), char_of (48 + n div 10 mod 10), char_of (48 + n mod 10)]"
proof -
  have "n div 10 div 10 = n div 100" by (simp add: div_mult2_eq [symmetric])
  then have "decimal n =
      [char_of (48 + n div 100), char_of (48 + n div 10 mod 10), char_of (48 + n mod 10)]"
    using assms by (subst decimal.simps, subst decimal.simps, subst decimal.simps) auto
  then show ?thesis by (simp add: format_3u_def)
qed

lemma reply_code_first_digit:
  fixes n :: nat
  assumes "400 \<le> n" and "n < 600"
  shows "char_of (48 + n div 100) \<in> {CHR ''4'', CHR ''5''}"
proof -
  have "4 \<le> n div 100" using assms(1) by (simp add: less_eq_div_iff_mult_less_eq)
  moreover have "n div 100 < 6" using assms(2) by (simp add: less_mult_imp_div_less)
  ultimately have "n div 100 = 4 \<or> n div 100 = 5" by linarith
  moreover have "char_of (52 :: nat) = CHR ''4''" "char_of (53 :: nat) = CHR ''5''"
    by (simp_all add: char_of_def bit_0)
  ultimately show ?thesis by auto
qed

lemma format_3u_value:
  fixes n :: nat
  assumes "400 \<le> n" and "n < 600"
  obtains c0 c1 c2 where "format_3u n = [c0, c1, c2]" and "c0 \<in> {CHR ''4'', CHR ''5''}"
    and "is_digit c0" and "is_digit c1" and "is_digit c2"
    and "digit_value c0 * 100 + digit_value c1 * 10 + digit_value c2 = n"
proof (rule that [OF format_3u_digits])
  have b: "n div 100 < 10" "n div 10 mod 10 < 10" "n mod 10 < 10" using assms by simp_all
  show "100 \<le> n" "n < 1000" using assms by simp_all
  show "char_of (48 + n div 100) \<in> {CHR ''4'', CHR ''5''}"
    by (rule reply_code_first_digit [OF assms])
  show "is_digit (char_of (48 + n div 100))" "is_digit (char_of (48 + n div 10 mod 10))"
    "is_digit (char_of (48 + n mod 10))"
    using digit_char(1) [OF b(1)] digit_char(1) [OF b(2)] digit_char(1) [OF b(3)] .
  have "n div 10 div 10 = n div 100" by (simp add: div_mult2_eq [symmetric])
  then have "n div 100 * 10 + n div 10 mod 10 = n div 10"
    using div_mult_mod_eq [of "n div 10" 10] by simp
  moreover have "n div 10 * 10 + n mod 10 = n" by (rule div_mult_mod_eq)
  ultimately have "n div 100 * 100 + n div 10 mod 10 * 10 + n mod 10 = n" by linarith
  then show "digit_value (char_of (48 + n div 100)) * 100 +
      digit_value (char_of (48 + n div 10 mod 10)) * 10 + digit_value (char_of (48 + n mod 10)) = n"
    by (simp only: digit_char(2) [OF b(1)] digit_char(2) [OF b(2)] digit_char(2) [OF b(3)])
qed

lemma is_digit_not: "is_digit c \<Longrightarrow> c \<noteq> NUL \<and> c \<noteq> CHR '' ''"
  by (auto simp: is_digit_def)

lemma reply_line_split:
  fixes n :: nat
  assumes "400 \<le> n" and "n < 600" and "c_string w" and "CHR '' '' \<notin> set w" and "c_string m"
  shows "wf_reply_line (format_3u n @ '' '' @ w @ '' '' @ m)" and
    "reply_line_signal (format_3u n @ '' '' @ w @ '' '' @ m) = Sig_reply_code n w (Some m)"
proof -
  obtain c0 c1 c2 where c: "format_3u n = [c0, c1, c2]" "c0 \<in> {CHR ''4'', CHR ''5''}"
    "is_digit c0" "is_digit c1" "is_digit c2"
    "digit_value c0 * 100 + digit_value c1 * 10 + digit_value c2 = n"
    using format_3u_value [OF assms(1,2)] by blast
  have tw: "takeWhile (\<lambda>c. c \<noteq> CHR '' '') (w @ CHR '' '' # m) = w"
    "dropWhile (\<lambda>c. c \<noteq> CHR '' '') (w @ CHR '' '' # m) = CHR '' '' # m"
    using assms(4) by (auto simp: takeWhile_append dropWhile_append)
  show "wf_reply_line (format_3u n @ '' '' @ w @ '' '' @ m)"
    using c is_digit_not assms(3,5) by (auto simp: wf_reply_line_def numeral_2_eq_2)
  show "reply_line_signal (format_3u n @ '' '' @ w @ '' '' @ m) = Sig_reply_code n w (Some m)"
    unfolding reply_line_signal_def Let_def c(1) using c(6) tw
    by (simp add: numeral_2_eq_2 eval_nat_numeral)
qed

text \<open>A reply with a line, from the status to the signal on the other side.\<close>

lemma reply_line_delivered:
  assumes "milter_client_context_format_reply r = Some line" and "wf_reply_line line"
    and "length line < 2 ^ 20"
    and "status \<in> {MILTER_STATUS_TEMPORARY_FAILURE, MILTER_STATUS_REJECT}"
  shows "\<exists>e packet d. create_reply_packet milter_encoder_new r status = (e, Some packet) \<and>
     run_reader decode_reply milter_decoder_new [packet] = Agent d [reply_line_signal line] [] \<and>
     dec_state d = IN_START \<and> dec_buffer d = []"
proof -
  let ?rep = "Rep_reply_code line"
  have wf: "wf_replies [?rep]" using assms(2,3) by (simp add: wf_replies_def)
  obtain e where e: "milter_reply_encoder_encode_reply_code milter_encoder_new (Some line) =
      (e, Some (frame (reply_bytes ?rep)))"
    using encode_reply_call_packet [of ?rep milter_encoder_new] assms(2) by auto
  have "create_reply_packet milter_encoder_new r status = (e, Some (frame (reply_bytes ?rep)))"
    using assms(1,4) e by (auto simp: create_reply_packet_def)
  moreover have "\<exists>d. run_reader decode_reply milter_decoder_new [frame (reply_bytes ?rep)] =
      Agent d [reply_line_signal line] [] \<and> dec_state d = IN_START \<and> dec_buffer d = []"
    using replies.chunked_stream [OF reply_packets [OF wf], of "[frame (reply_bytes ?rep)]"] by simp
  ultimately show ?thesis by blast
qed

lemma set_reply_True:
  assumes "milter_client_context_set_reply r0 code ec m = (True, r)"
  shows "400 \<le> code" and "code < 600" and
    "r = \<lparr>reply_code_number = code, extended_reply_code = ec, reply_message = m\<rparr>" and
    "\<And>s. ec = Some s \<Longrightarrow> extended_code_parse s = Some (code div 100)"
  using assms by (auto simp: milter_client_context_set_reply_def split: if_splits option.splits)

lemma extended_code_chars:
  assumes "extended_code_parse s = Some k"
  shows "c_string s \<and> CHR '' '' \<notin> set s \<and> CHR 0x0A \<notin> set s \<and> length s \<le> 9"
proof -
  obtain c subject detail where s: "s = c # ''.'' @ subject @ ''.'' @ detail"
    "c \<in> {CHR ''2'', CHR ''4'', CHR ''5''}" "number3 subject" "number3 detail"
    using assms unfolding extended_code_parse_iff by blast
  have d: "c_string t \<and> CHR '' '' \<notin> set t \<and> CHR 0x0A \<notin> set t \<and> length t \<le> 3" if "number3 t" for t
    using that by (auto simp: number3_def c_string_def is_digit_def)
  from s(2) d [OF s(3)] d [OF s(4)] show ?thesis by (auto simp: s(1))
qed

lemma g_strsplit_line: "m \<noteq> [] \<Longrightarrow> c \<notin> set m \<Longrightarrow> g_strsplit m c = [m]"
  by (simp add: g_strsplit_def split_char_no_delim)

text \<open>
  A reply with an extended code and a one-line message that the client context accepts
  arrives unchanged: status code, extended code and message survive formatting, encoding,
  transport and decoding, for a temporary failure and a rejection.
\<close>

theorem set_reply_end_to_end:
  assumes "milter_client_context_set_reply r0 code (Some ec) (Some m) = (True, r)"
    and "c_string m" and "m \<noteq> []" and "CHR 0x0A \<notin> set m" and "last m \<noteq> CHR 0x0D"
    and "length m < 1000000"
    and "status \<in> {MILTER_STATUS_TEMPORARY_FAILURE, MILTER_STATUS_REJECT}"
  shows "\<exists>e packet d. create_reply_packet milter_encoder_new r status = (e, Some packet) \<and>
     run_reader decode_reply milter_decoder_new [packet] =
       Agent d [Sig_reply_code code ec (Some m)] [] \<and>
     dec_state d = IN_START \<and> dec_buffer d = []"
proof -
  note r = set_reply_True [OF assms(1)]
  note ec = extended_code_chars [OF r(4) [OF refl]]
  let ?line = "format_3u code @ '' '' @ ec @ '' '' @ m"
  have "milter_client_context_format_reply r = Some ?line"
    using assms(3,4,5) r(1) by (simp add: milter_client_context_format_reply_def r(3)
        milter_utils_format_reply_code_def g_strsplit_line format_reply_line_def strip_cr_def)
  moreover have "length ?line < 2 ^ 20"
    using assms(6) ec format_3u_digits [of code] r(1,2) by simp
  ultimately show ?thesis
    using reply_line_delivered [OF _ _ _ assms(7), of r ?line] ec
      reply_line_split [OF r(1,2), of ec m] assms(2) by simp
qed

theorem set_reply_end_to_end_witness:
  "\<exists>r e packet d. milter_client_context_set_reply no_reply 451 (Some ''4.7.1'') (Some ''try later'') =
       (True, r) \<and>
     create_reply_packet milter_encoder_new r MILTER_STATUS_TEMPORARY_FAILURE = (e, Some packet) \<and>
     run_reader decode_reply milter_decoder_new [packet] =
       Agent d [Sig_reply_code 451 ''4.7.1'' (Some ''try later'')] [] \<and>
     dec_state d = IN_START \<and> dec_buffer d = []"
proof -
  let ?r = "\<lparr>reply_code_number = 451, extended_reply_code = Some ''4.7.1'',
    reply_message = Some ''try later''\<rparr>"
  have "milter_client_context_set_reply no_reply 451 (Some ''4.7.1'') (Some ''try later'') = (True, ?r)"
    by code_simp
  with set_reply_end_to_end [OF this, of MILTER_STATUS_TEMPORARY_FAILURE] show ?thesis by simp
qed

text \<open>
  A reply with an extended code and no message does not: the default message is a line
  feed, which makes two lines of it, and the other side reads the first line's extended
  code and the second line's number as one extended code.
\<close>

theorem set_reply_without_message_garbled:
  assumes "milter_client_context_set_reply r0 code (Some ec) None = (True, r)"
    and "status \<in> {MILTER_STATUS_TEMPORARY_FAILURE, MILTER_STATUS_REJECT}"
  shows "\<exists>e packet d. create_reply_packet milter_encoder_new r status = (e, Some packet) \<and>
     run_reader decode_reply milter_decoder_new [packet] =
       Agent d [Sig_reply_code code (ec @ [CHR 0x0D, CHR 0x0A] @ format_3u code) (Some ec)] []"
proof -
  note r = set_reply_True [OF assms(1)]
  note ec = extended_code_chars [OF r(4) [OF refl]]
  let ?w = "ec @ [CHR 0x0D, CHR 0x0A] @ format_3u code"
  let ?line = "format_3u code @ '' '' @ ?w @ '' '' @ ec"
  obtain c0 c1 c2 where c: "format_3u code = [c0, c1, c2]" "is_digit c0" "is_digit c1" "is_digit c2"
    using format_3u_value [OF r(1,2)] by blast
  have f: "milter_client_context_format_reply r = Some ?line"
    using r(1) by (simp add: milter_client_context_format_reply_def r(3) g_strsplit_def
        milter_utils_format_reply_code_def format_reply_line_def)
  have l: "length ?line < 2 ^ 20" using ec c by simp
  have w: "c_string ?w" "CHR '' '' \<notin> set ?w" using ec c is_digit_not by auto
  from reply_line_split [OF r(1,2) w] ec have "wf_reply_line ?line"
    "reply_line_signal ?line = Sig_reply_code code ?w (Some ec)" by blast+
  with reply_line_delivered [OF f _ l assms(2)] show ?thesis by fastforce
qed

theorem set_reply_without_message_garbled_witness:
  "\<exists>r e packet d. milter_client_context_set_reply no_reply 550 (Some ''5.7.1'') None = (True, r) \<and>
     create_reply_packet milter_encoder_new r MILTER_STATUS_REJECT = (e, Some packet) \<and>
     run_reader decode_reply milter_decoder_new [packet] =
       Agent d [Sig_reply_code 550 (''5.7.1'' @ [CHR 0x0D, CHR 0x0A] @ ''550'') (Some ''5.7.1'')] []"
proof -
  let ?r = "\<lparr>reply_code_number = 550, extended_reply_code = Some ''5.7.1'', reply_message = None\<rparr>"
  have "milter_client_context_set_reply no_reply 550 (Some ''5.7.1'') None = (True, ?r)"
    by code_simp
  moreover have "format_3u 550 = ''550''" by code_simp
  ultimately show ?thesis
    using set_reply_without_message_garbled [of no_reply 550 "''5.7.1''" ?r MILTER_STATUS_REJECT]
    by simp
qed

end
