(* ===== verification/Client_Context.thy ===== *)
theory Client_Context
  imports Protocol_Agent Message_Result Reply_Code
begin

text \<open>
  \<open>milter/client/milter-client-context.c\<close>: the side of a connection that plays a milter
  towards an MTA. This theory has its state, the way its packets go, and the modifications
  a milter may ask for at the end of a message; the commands are in
  \<open>Client_Context_Commands\<close>, the prepared reply in \<open>Reply_Code\<close>.

  The packets that reached the writer are \<open>client_written\<close>. A writer that has been shut
  down refuses every write with an error; a context without a writer takes every write
  and forgets it. Log messages, private data and the socket address are left out.
\<close>

subsection \<open>State\<close>

datatype client_context_state =
    CLIENT_CONTEXT_STATE_INVALID
  | CLIENT_CONTEXT_STATE_START
  | CLIENT_CONTEXT_STATE_NEGOTIATE
  | CLIENT_CONTEXT_STATE_NEGOTIATE_REPLIED
  | CLIENT_CONTEXT_STATE_CONNECT
  | CLIENT_CONTEXT_STATE_CONNECT_REPLIED
  | CLIENT_CONTEXT_STATE_HELO
  | CLIENT_CONTEXT_STATE_HELO_REPLIED
  | CLIENT_CONTEXT_STATE_ENVELOPE_FROM
  | CLIENT_CONTEXT_STATE_ENVELOPE_FROM_REPLIED
  | CLIENT_CONTEXT_STATE_ENVELOPE_RECIPIENT
  | CLIENT_CONTEXT_STATE_ENVELOPE_RECIPIENT_REPLIED
  | CLIENT_CONTEXT_STATE_DATA
  | CLIENT_CONTEXT_STATE_DATA_REPLIED
  | CLIENT_CONTEXT_STATE_UNKNOWN
  | CLIENT_CONTEXT_STATE_UNKNOWN_REPLIED
  | CLIENT_CONTEXT_STATE_HEADER
  | CLIENT_CONTEXT_STATE_HEADER_REPLIED
  | CLIENT_CONTEXT_STATE_END_OF_HEADER
  | CLIENT_CONTEXT_STATE_END_OF_HEADER_REPLIED
  | CLIENT_CONTEXT_STATE_BODY
  | CLIENT_CONTEXT_STATE_BODY_REPLIED
  | CLIENT_CONTEXT_STATE_END_OF_MESSAGE
  | CLIENT_CONTEXT_STATE_END_OF_MESSAGE_REPLIED
  | CLIENT_CONTEXT_STATE_QUIT
  | CLIENT_CONTEXT_STATE_QUIT_REPLIED
  | CLIENT_CONTEXT_STATE_ABORT
  | CLIENT_CONTEXT_STATE_ABORT_REPLIED
  | CLIENT_CONTEXT_STATE_FINISHED

text \<open>The errors of the context; \<open>INVALID_CODE\<close> belongs to \<open>set_reply\<close>.\<close>

datatype client_error =
    CLIENT_CONTEXT_ERROR_INVALID_CODE
  | CLIENT_CONTEXT_ERROR_INVALID_STATE
  | CLIENT_CONTEXT_ERROR_INVALID_ACTION
  | CLIENT_CONTEXT_ERROR_IO_ERROR
  | CLIENT_CONTEXT_ERROR_NULL
  | CLIENT_CONTEXT_ERROR_EMPTY

datatype client_event =
    Client_error client_error
  | Client_message_processed message_result
  | Client_timed_out
  | Client_macros_defined milter_command macro_table

datatype writer = No_writer | Writer_open | Writer_closed

record client_context =
  client_status :: milter_status
  client_state :: client_context_state
  client_last_state :: client_context_state
  client_option :: "milter_option option"
  prepared_reply :: client_reply
  client_timeout :: bool
  client_quarantine_reason :: "bytes option"
  client_message_result :: "message_result option"
  buffered_packets :: bytes
  buffering :: bool
  packet_buffer_size :: nat
  mail_transaction_shelf :: "bytes \<rightharpoonup> bytes"
  client_agent :: protocol_agent
  client_encoder :: milter_encoder
  client_writer :: writer
  client_written :: "bytes list"
  client_emitted :: "client_event list"
  client_crashed :: bool

definition milter_client_context_init :: client_context where
  "milter_client_context_init =
     \<lparr>client_status = MILTER_STATUS_NOT_CHANGE, client_state = CLIENT_CONTEXT_STATE_START,
      client_last_state = CLIENT_CONTEXT_STATE_START, client_option = None,
      prepared_reply = no_reply, client_timeout = False, client_quarantine_reason = None,
      client_message_result = None, buffered_packets = [], buffering = False,
      packet_buffer_size = 0, mail_transaction_shelf = Map.empty,
      client_agent = milter_protocol_agent_init, client_encoder = milter_encoder_new,
      client_writer = Writer_open, client_written = [], client_emitted = [],
      client_crashed = False\<rparr>"

definition client_emit :: "client_event \<Rightarrow> client_context \<Rightarrow> client_context" where
  "client_emit ev c = c\<lparr>client_emitted := client_emitted c @ [ev]\<rparr>"

definition crash :: "client_context \<Rightarrow> client_context" where
  "crash c = c\<lparr>client_crashed := True\<rparr>"

definition client_disable_timeout :: "client_context \<Rightarrow> client_context" where
  "client_disable_timeout c = c\<lparr>client_timeout := False\<rparr>"

definition client_ensure_message_result :: "client_context \<Rightarrow> client_context" where
  "client_ensure_message_result c =
     (if client_message_result c = None
      then c\<lparr>client_message_result := Some (milter_message_result_start milter_message_result_new)\<rparr>
      else c)"

definition client_dispose_message_result :: "client_context \<Rightarrow> client_context" where
  "client_dispose_message_result c = c\<lparr>client_message_result := None\<rparr>"

definition milter_client_context_set_state ::
    "client_context \<Rightarrow> client_context_state \<Rightarrow> client_context" where
  "milter_client_context_set_state c st =
     (let c = (if st \<in> {CLIENT_CONTEXT_STATE_NEGOTIATE, CLIENT_CONTEXT_STATE_CONNECT,
                  CLIENT_CONTEXT_STATE_HELO, CLIENT_CONTEXT_STATE_ENVELOPE_FROM,
                  CLIENT_CONTEXT_STATE_ENVELOPE_RECIPIENT, CLIENT_CONTEXT_STATE_DATA,
                  CLIENT_CONTEXT_STATE_UNKNOWN, CLIENT_CONTEXT_STATE_HEADER,
                  CLIENT_CONTEXT_STATE_END_OF_HEADER, CLIENT_CONTEXT_STATE_BODY,
                  CLIENT_CONTEXT_STATE_END_OF_MESSAGE}
               then c\<lparr>client_last_state := st\<rparr> else c)
      in c\<lparr>client_state := st\<rparr>)"

definition milter_client_context_set_option ::
    "client_context \<Rightarrow> milter_option option \<Rightarrow> client_context" where
  "milter_client_context_set_option c opt = c\<lparr>client_option := opt\<rparr>"

definition milter_client_context_set_packet_buffer_size ::
    "client_context \<Rightarrow> nat \<Rightarrow> client_context" where
  "milter_client_context_set_packet_buffer_size c n = c\<lparr>packet_buffer_size := n\<rparr>"

definition milter_client_context_set_mail_transaction_shelf_value ::
    "client_context \<Rightarrow> bytes \<Rightarrow> bytes \<Rightarrow> client_context" where
  "milter_client_context_set_mail_transaction_shelf_value c key value =
     c\<lparr>mail_transaction_shelf := (mail_transaction_shelf c)(key \<mapsto> value)\<rparr>"

definition milter_client_context_get_mail_transaction_shelf_value ::
    "client_context \<Rightarrow> bytes \<Rightarrow> bytes option" where
  "milter_client_context_get_mail_transaction_shelf_value c key = mail_transaction_shelf c key"

definition milter_client_context_clear_mail_transaction_shelf :: "client_context \<Rightarrow> client_context" where
  "milter_client_context_clear_mail_transaction_shelf c = c\<lparr>mail_transaction_shelf := Map.empty\<rparr>"

definition milter_client_context_reset_message_related_data :: "client_context \<Rightarrow> client_context" where
  "milter_client_context_reset_message_related_data c =
     client_dispose_message_result
       (milter_client_context_clear_mail_transaction_shelf
         (c\<lparr>client_agent := milter_protocol_agent_clear_message_related_macros (client_agent c)\<rparr>))"

subsection \<open>Writing\<close>

text \<open>The writer, and the agent's own \<open>flush\<close>: both fail once the writer is shut down.\<close>

definition writer_works :: "client_context \<Rightarrow> bool" where
  "writer_works c \<longleftrightarrow> client_writer c \<noteq> Writer_closed"

definition writer_write :: "bytes \<Rightarrow> client_context \<Rightarrow> client_context" where
  "writer_write packet c =
     (if client_writer c = Writer_open then c\<lparr>client_written := client_written c @ [packet]\<rparr> else c)"

text \<open>
  \<open>milter_agent_write_packet\<close> with the context's own \<open>flush\<close> as a parameter, which tells
  whether it succeeded. A failure always comes with an error.
\<close>

definition milter_agent_write_packet ::
    "(client_context \<Rightarrow> bool \<times> client_context) \<Rightarrow> bytes \<Rightarrow> client_context \<Rightarrow> bool \<times> client_context" where
  "milter_agent_write_packet milter_agent_flush packet c =
     (case client_writer c of
        No_writer \<Rightarrow> (True, c)
      | Writer_closed \<Rightarrow> (False, c)
      | Writer_open \<Rightarrow> milter_agent_flush (writer_write packet c))"

text \<open>\<open>None\<close> is the \<open>NULL\<close> packet, which is refused without an error.\<close>

definition write_packet_without_error_handling ::
    "(client_context \<Rightarrow> bool \<times> client_context) \<Rightarrow> client_context \<Rightarrow> bytes option \<Rightarrow>
     bool \<times> client_error option \<times> client_context" where
  "write_packet_without_error_handling milter_agent_flush c packet =
     (case packet of
        None \<Rightarrow> (False, None, c)
      | Some p \<Rightarrow>
          (let c = (client_disable_timeout c)\<lparr>client_timeout := True\<rparr>;
               (ok, c) = milter_agent_write_packet milter_agent_flush p c
           in (ok, if ok then None else Some CLIENT_CONTEXT_ERROR_IO_ERROR, c)))"

text \<open>
  The packets kept back are written as one; the write flushes again, which then finds
  nothing kept back. \<open>milter_agent_flush\<close> is the agent's own flush.
\<close>

definition client_flush :: "client_context \<Rightarrow> bool \<times> client_context" where
  "client_flush c =
     (let flush_agent = (\<lambda>c. (writer_works c, c))
      in if buffering c
         then
           (case write_packet_without_error_handling flush_agent (c\<lparr>buffering := False\<rparr>)
                   (Some (buffered_packets c)) of
              (ok, _, c) \<Rightarrow>
                let c = (if ok then c else client_emit (Client_error CLIENT_CONTEXT_ERROR_IO_ERROR) c);
                    c = c\<lparr>buffered_packets := []\<rparr>
                in if ok then flush_agent c else (False, c))
         else flush_agent c)"

text \<open>A failure without an error makes the error report follow a \<open>NULL\<close> pointer.\<close>

definition client_write_packet :: "client_context \<Rightarrow> bytes option \<Rightarrow> bool \<times> client_context" where
  "client_write_packet c packet =
     (case write_packet_without_error_handling client_flush c packet of
        (True, _, c) \<Rightarrow> (True, c)
      | (False, Some e, c) \<Rightarrow> (False, client_emit (Client_error e) c)
      | (False, None, c) \<Rightarrow> (False, crash c))"

definition write_packet_on_end_of_message ::
    "client_context \<Rightarrow> bytes option \<Rightarrow> bool \<times> client_context" where
  "write_packet_on_end_of_message c packet =
     (let c = c\<lparr>buffered_packets := buffered_packets c @ (case packet of None \<Rightarrow> [] | Some p \<Rightarrow> p),
                buffering := True\<rparr>
      in if packet_buffer_size c < length (buffered_packets c)
         then (case client_flush c of
                 (True, c) \<Rightarrow> (True, c)
               | (False, c) \<Rightarrow> (False, client_emit (Client_error CLIENT_CONTEXT_ERROR_IO_ERROR) c))
         else (True, c))"

subsection \<open>Modifications\<close>

definition MILTER_ACTION_ADD_HEADERS :: u32 where "MILTER_ACTION_ADD_HEADERS = 0x01"
definition MILTER_ACTION_CHANGE_BODY :: u32 where "MILTER_ACTION_CHANGE_BODY = 0x02"
definition MILTER_ACTION_ADD_ENVELOPE_RECIPIENT :: u32 where
  "MILTER_ACTION_ADD_ENVELOPE_RECIPIENT = 0x04"
definition MILTER_ACTION_DELETE_ENVELOPE_RECIPIENT :: u32 where
  "MILTER_ACTION_DELETE_ENVELOPE_RECIPIENT = 0x08"
definition MILTER_ACTION_CHANGE_HEADERS :: u32 where "MILTER_ACTION_CHANGE_HEADERS = 0x10"
definition MILTER_ACTION_CHANGE_ENVELOPE_FROM :: u32 where
  "MILTER_ACTION_CHANGE_ENVELOPE_FROM = 0x40"

definition validate_state :: "client_context_state \<Rightarrow> client_context_state \<Rightarrow> client_error option" where
  "validate_state expected_state actual_state =
     (if expected_state = actual_state then None else Some CLIENT_CONTEXT_ERROR_INVALID_STATE)"

definition validate_action :: "u32 \<Rightarrow> milter_option option \<Rightarrow> client_error option" where
  "validate_action expected_action opt =
     (case opt of
        None \<Rightarrow> Some CLIENT_CONTEXT_ERROR_NULL
      | Some opt \<Rightarrow>
          if action opt AND expected_action = expected_action then None
          else Some CLIENT_CONTEXT_ERROR_INVALID_ACTION)"

text \<open>
  The result of a modification: success, and the error set. The checks come first; the
  encoder is used only behind them.
\<close>

type_synonym modification = "bool \<times> client_error option \<times> client_context"

definition modify ::
    "u32 \<Rightarrow> client_context \<Rightarrow> (milter_encoder \<Rightarrow> milter_encoder \<times> bytes option) \<Rightarrow> modification" where
  "modify expected_action c encode =
     (case validate_state CLIENT_CONTEXT_STATE_END_OF_MESSAGE (client_state c) of
        Some e \<Rightarrow> (False, Some e, c)
      | None \<Rightarrow>
          (case validate_action expected_action (client_option c) of
             Some e \<Rightarrow> (False, Some e, c)
           | None \<Rightarrow>
               (let (e, packet) = encode (client_encoder c);
                    (ok, c) = write_packet_on_end_of_message (c\<lparr>client_encoder := e\<rparr>) packet
                in (ok, None, c))))"

definition milter_client_context_add_header ::
    "client_context \<Rightarrow> bytes option \<Rightarrow> bytes option \<Rightarrow> modification" where
  "milter_client_context_add_header c name value =
     (if name = None \<or> value = None then (False, Some CLIENT_CONTEXT_ERROR_NULL, c)
      else modify MILTER_ACTION_ADD_HEADERS c
             (\<lambda>e. milter_reply_encoder_encode_add_header e name value))"

definition milter_client_context_insert_header ::
    "client_context \<Rightarrow> u32 \<Rightarrow> bytes option \<Rightarrow> bytes option \<Rightarrow> modification" where
  "milter_client_context_insert_header c index name value =
     (if name = None \<or> value = None then (False, Some CLIENT_CONTEXT_ERROR_NULL, c)
      else modify MILTER_ACTION_ADD_HEADERS c
             (\<lambda>e. milter_reply_encoder_encode_insert_header e index name value))"

definition milter_client_context_change_header ::
    "client_context \<Rightarrow> bytes option \<Rightarrow> u32 \<Rightarrow> bytes option \<Rightarrow> modification" where
  "milter_client_context_change_header c name index value =
     (if name = None then (False, Some CLIENT_CONTEXT_ERROR_NULL, c)
      else modify MILTER_ACTION_CHANGE_HEADERS c
             (\<lambda>e. milter_reply_encoder_encode_change_header e name index value))"

definition milter_client_context_delete_header ::
    "client_context \<Rightarrow> bytes option \<Rightarrow> u32 \<Rightarrow> modification" where
  "milter_client_context_delete_header c name index =
     (if name = None then (False, Some CLIENT_CONTEXT_ERROR_NULL, c)
      else modify MILTER_ACTION_CHANGE_HEADERS c
             (\<lambda>e. milter_reply_encoder_encode_delete_header e name index))"

definition milter_client_context_change_from ::
    "client_context \<Rightarrow> bytes option \<Rightarrow> bytes option \<Rightarrow> modification" where
  "milter_client_context_change_from c sender parameters =
     (case sender of
        None \<Rightarrow> (False, Some CLIENT_CONTEXT_ERROR_NULL, c)
      | Some s \<Rightarrow>
          if s = [] then (False, Some CLIENT_CONTEXT_ERROR_EMPTY, c)
          else modify MILTER_ACTION_CHANGE_ENVELOPE_FROM c
                 (\<lambda>e. milter_reply_encoder_encode_change_from e sender parameters))"

definition milter_client_context_add_recipient ::
    "client_context \<Rightarrow> bytes option \<Rightarrow> bytes option \<Rightarrow> modification" where
  "milter_client_context_add_recipient c recipient parameters =
     (case recipient of
        None \<Rightarrow> (False, Some CLIENT_CONTEXT_ERROR_NULL, c)
      | Some r \<Rightarrow>
          if r = [] then (False, Some CLIENT_CONTEXT_ERROR_EMPTY, c)
          else modify MILTER_ACTION_ADD_ENVELOPE_RECIPIENT c
                 (\<lambda>e. milter_reply_encoder_encode_add_recipient e recipient parameters))"

definition milter_client_context_delete_recipient ::
    "client_context \<Rightarrow> bytes option \<Rightarrow> modification" where
  "milter_client_context_delete_recipient c recipient =
     (case recipient of
        None \<Rightarrow> (False, Some CLIENT_CONTEXT_ERROR_NULL, c)
      | Some r \<Rightarrow>
          if r = [] then (False, Some CLIENT_CONTEXT_ERROR_EMPTY, c)
          else modify MILTER_ACTION_DELETE_ENVELOPE_RECIPIENT c
                 (\<lambda>e. milter_reply_encoder_encode_delete_recipient e recipient))"

text \<open>
  The loop of \<open>replace_body\<close>. A packet takes at most \<open>MILTER_CHUNK_SIZE\<close> bytes and at
  least one of a body that is not empty.
\<close>

lemma replace_body_packed_size:
  "b \<noteq> [] \<Longrightarrow> snd (snd (milter_reply_encoder_encode_replace_body e (Some b))) =
     min MILTER_CHUNK_SIZE (length b)"
  by (auto simp: milter_reply_encoder_encode_replace_body_def Let_def min_def case_prod_beta)

function replace_body_loop :: "client_context \<Rightarrow> bytes \<Rightarrow> bool \<times> client_context" where
  "replace_body_loop c body =
     (if body = [] then (True, c)
      else
        let (e, packet, packed_size) =
              milter_reply_encoder_encode_replace_body (client_encoder c) (Some body);
            c = c\<lparr>client_encoder := e\<rparr>
        in if packed_size = 0 then (False, c)
           else case write_packet_on_end_of_message c packet of
                  (False, c) \<Rightarrow> (False, c)
                | (True, c) \<Rightarrow> replace_body_loop c (drop packed_size body))"
  by pat_completeness auto
termination
  by (relation "measure (length \<circ> snd)") (auto simp: Let_def)

declare replace_body_loop.simps [simp del]

definition milter_client_context_replace_body ::
    "client_context \<Rightarrow> bytes \<Rightarrow> modification" where
  "milter_client_context_replace_body c body =
     (case validate_state CLIENT_CONTEXT_STATE_END_OF_MESSAGE (client_state c) of
        Some e \<Rightarrow> (False, Some e, c)
      | None \<Rightarrow>
          (case validate_action MILTER_ACTION_CHANGE_BODY (client_option c) of
             Some e \<Rightarrow> (False, Some e, c)
           | None \<Rightarrow> (case replace_body_loop c body of (ok, c) \<Rightarrow> (ok, None, c))))"

definition milter_client_context_progress :: "client_context \<Rightarrow> bool \<times> client_context" where
  "milter_client_context_progress c =
     (case milter_reply_encoder_encode_progress (client_encoder c) of
        (e, packet) \<Rightarrow> client_write_packet (c\<lparr>client_encoder := e\<rparr>) (Some packet))"

definition milter_client_context_quarantine ::
    "client_context \<Rightarrow> bytes option \<Rightarrow> bool \<times> client_context" where
  "milter_client_context_quarantine c reason = (True, c\<lparr>client_quarantine_reason := reason\<rparr>)"

end
