(* ===== verification/Client_Context_Commands.thy ===== *)
theory Client_Context_Commands
  imports Client_Context Command_Decoder
begin

text \<open>
  The commands of \<open>milter-client-context.c\<close>: what a context does with each signal of its
  decoder, and the response its owner's status leads to.

  The owner - a milter, or the manager's leader - is connected to the context's signals.
  A handler gets the command, a state \<open>'s\<close> of its own and the context, which it may
  change while the signal is emitted: by a modification, or by a response to an earlier
  command. What the observers of the events in \<open>client_emitted\<close> do is left out.
\<close>

subsection \<open>Replies\<close>

definition client_reply_status :: "client_context \<Rightarrow> milter_status \<Rightarrow> bool \<times> client_context" where
  "client_reply_status c status =
     (let (e, packet) = create_reply_packet (client_encoder c) (prepared_reply c) status;
          c = c\<lparr>client_encoder := e\<rparr>
      in if packet = None then (True, c) else client_write_packet c packet)"

text \<open>
  The error of a failed flush is reported by \<open>client_flush\<close>, when packets were kept back,
  and here again.
\<close>

definition reply_on_end_of_message :: "client_context \<Rightarrow> milter_status \<Rightarrow> bool \<times> client_context" where
  "reply_on_end_of_message c status =
     (case client_flush c of
        (False, c) \<Rightarrow> (False, client_emit (Client_error CLIENT_CONTEXT_ERROR_IO_ERROR) c)
      | (True, c) \<Rightarrow>
          (let (e, packet) = create_reply_packet (client_encoder c) (prepared_reply c) status;
               c = c\<lparr>client_encoder := e\<rparr>
           in case packet of
                None \<Rightarrow> (True, c)
              | Some p \<Rightarrow>
                  (case client_quarantine_reason c of
                     None \<Rightarrow> client_write_packet c packet
                   | Some reason \<Rightarrow>
                       (case milter_reply_encoder_encode_quarantine (client_encoder c) (Some reason) of
                          (e, quarantine) \<Rightarrow>
                            client_write_packet (c\<lparr>client_encoder := e\<rparr>)
                              (Some ((case quarantine of None \<Rightarrow> [] | Some q \<Rightarrow> q) @ p))))))"

subsection \<open>Responses\<close>

definition default_status :: "milter_status \<Rightarrow> milter_status \<Rightarrow> milter_status" where
  "default_status d status = (if status = MILTER_STATUS_DEFAULT then d else status)"

definition simple_response ::
    "client_context_state \<Rightarrow> client_context \<Rightarrow> milter_status \<Rightarrow> client_context" where
  "simple_response replied c status =
     (let status = default_status MILTER_STATUS_CONTINUE status;
          c = milter_client_context_set_state (c\<lparr>client_status := status\<rparr>) replied
      in snd (client_reply_status c status))"

text \<open>Encoding an empty list of requested macros crashes.\<close>

definition negotiate_response ::
    "client_context \<Rightarrow> milter_option option \<Rightarrow> macros_requests option \<Rightarrow> milter_status \<Rightarrow> client_context" where
  "negotiate_response c opt macros_requests status =
     (let status = default_status MILTER_STATUS_ALL_OPTIONS status;
          c = milter_client_context_set_state (c\<lparr>client_status := status\<rparr>)
                CLIENT_CONTEXT_STATE_NEGOTIATE_REPLIED;
          c = (if status = MILTER_STATUS_CONTINUE then milter_client_context_set_option c opt else c)
      in if status = MILTER_STATUS_CONTINUE \<or> status = MILTER_STATUS_ALL_OPTIONS
         then (case milter_reply_encoder_encode_negotiate (client_encoder c) (client_option c)
                      macros_requests of
                 Ok (e, packet) \<Rightarrow> snd (client_write_packet (c\<lparr>client_encoder := e\<rparr>) (Some packet))
               | _ \<Rightarrow> crash c)
         else if status = MILTER_STATUS_REJECT
         then (case milter_reply_encoder_encode_reject (client_encoder c) of
                 (e, packet) \<Rightarrow> snd (client_write_packet (c\<lparr>client_encoder := e\<rparr>) (Some packet)))
         else c)"

definition connect_response :: "client_context \<Rightarrow> milter_status \<Rightarrow> client_context" where
  "connect_response = simple_response CLIENT_CONTEXT_STATE_CONNECT_REPLIED"

definition helo_response :: "client_context \<Rightarrow> milter_status \<Rightarrow> client_context" where
  "helo_response = simple_response CLIENT_CONTEXT_STATE_HELO_REPLIED"

definition envelope_from_response :: "client_context \<Rightarrow> milter_status \<Rightarrow> client_context" where
  "envelope_from_response = simple_response CLIENT_CONTEXT_STATE_ENVELOPE_FROM_REPLIED"

definition envelope_recipient_response :: "client_context \<Rightarrow> milter_status \<Rightarrow> client_context" where
  "envelope_recipient_response = simple_response CLIENT_CONTEXT_STATE_ENVELOPE_RECIPIENT_REPLIED"

definition unknown_response :: "client_context \<Rightarrow> milter_status \<Rightarrow> client_context" where
  "unknown_response = simple_response CLIENT_CONTEXT_STATE_UNKNOWN_REPLIED"

definition data_response :: "client_context \<Rightarrow> milter_status \<Rightarrow> client_context" where
  "data_response = simple_response CLIENT_CONTEXT_STATE_DATA_REPLIED"

definition header_response :: "client_context \<Rightarrow> milter_status \<Rightarrow> client_context" where
  "header_response = simple_response CLIENT_CONTEXT_STATE_HEADER_REPLIED"

definition end_of_header_response :: "client_context \<Rightarrow> milter_status \<Rightarrow> client_context" where
  "end_of_header_response = simple_response CLIENT_CONTEXT_STATE_END_OF_HEADER_REPLIED"

definition body_response :: "client_context \<Rightarrow> milter_status \<Rightarrow> client_context" where
  "body_response = simple_response CLIENT_CONTEXT_STATE_BODY_REPLIED"

lemmas simple_responses = connect_response_def helo_response_def envelope_from_response_def
  envelope_recipient_response_def unknown_response_def data_response_def header_response_def
  end_of_header_response_def body_response_def

definition client_replied_state :: "client_context_state \<Rightarrow> milter_state option" where
  "client_replied_state st =
     (case st of
        CLIENT_CONTEXT_STATE_ENVELOPE_FROM \<Rightarrow> Some MILTER_STATE_ENVELOPE_FROM_REPLIED
      | CLIENT_CONTEXT_STATE_ENVELOPE_RECIPIENT \<Rightarrow> Some MILTER_STATE_ENVELOPE_RECIPIENT_REPLIED
      | CLIENT_CONTEXT_STATE_DATA \<Rightarrow> Some MILTER_STATE_DATA_REPLIED
      | CLIENT_CONTEXT_STATE_HEADER \<Rightarrow> Some MILTER_STATE_HEADER_REPLIED
      | CLIENT_CONTEXT_STATE_END_OF_HEADER \<Rightarrow> Some MILTER_STATE_END_OF_HEADER_REPLIED
      | CLIENT_CONTEXT_STATE_BODY \<Rightarrow> Some MILTER_STATE_BODY_REPLIED
      | CLIENT_CONTEXT_STATE_END_OF_MESSAGE \<Rightarrow> Some MILTER_STATE_END_OF_MESSAGE_REPLIED
      | _ \<Rightarrow> None)"

definition client_emit_message_processed_signal :: "client_context \<Rightarrow> client_context" where
  "client_emit_message_processed_signal c =
     (case client_message_result c of
        None \<Rightarrow> c
      | Some r \<Rightarrow>
          let r = (case client_replied_state (client_state c) of
                     None \<Rightarrow> r | Some s \<Rightarrow> milter_message_result_set_state r s);
              r = milter_message_result_set_status r (client_status c)
          in (client_emit (Client_message_processed r) c)\<lparr>client_message_result := None\<rparr>)"

definition end_of_message_response :: "client_context \<Rightarrow> milter_status \<Rightarrow> client_context" where
  "end_of_message_response c status =
     (let status = default_status MILTER_STATUS_CONTINUE status;
          c = milter_client_context_set_state (c\<lparr>client_status := status\<rparr>)
                CLIENT_CONTEXT_STATE_END_OF_MESSAGE_REPLIED;
          c = snd (reply_on_end_of_message c status)
      in client_emit_message_processed_signal c)"

text \<open>The states from the negotiation to the end of the body, in the order of their numbers.\<close>

definition before_end_of_message :: "client_context_state \<Rightarrow> bool" where
  "before_end_of_message st \<longleftrightarrow>
     st \<in> {CLIENT_CONTEXT_STATE_NEGOTIATE, CLIENT_CONTEXT_STATE_NEGOTIATE_REPLIED,
       CLIENT_CONTEXT_STATE_CONNECT, CLIENT_CONTEXT_STATE_CONNECT_REPLIED,
       CLIENT_CONTEXT_STATE_HELO, CLIENT_CONTEXT_STATE_HELO_REPLIED,
       CLIENT_CONTEXT_STATE_ENVELOPE_FROM, CLIENT_CONTEXT_STATE_ENVELOPE_FROM_REPLIED,
       CLIENT_CONTEXT_STATE_ENVELOPE_RECIPIENT, CLIENT_CONTEXT_STATE_ENVELOPE_RECIPIENT_REPLIED,
       CLIENT_CONTEXT_STATE_DATA, CLIENT_CONTEXT_STATE_DATA_REPLIED,
       CLIENT_CONTEXT_STATE_UNKNOWN, CLIENT_CONTEXT_STATE_UNKNOWN_REPLIED,
       CLIENT_CONTEXT_STATE_HEADER, CLIENT_CONTEXT_STATE_HEADER_REPLIED,
       CLIENT_CONTEXT_STATE_END_OF_HEADER, CLIENT_CONTEXT_STATE_END_OF_HEADER_REPLIED,
       CLIENT_CONTEXT_STATE_BODY, CLIENT_CONTEXT_STATE_BODY_REPLIED}"

definition abort_response :: "client_context \<Rightarrow> milter_status \<Rightarrow> client_context" where
  "abort_response c status =
     (let status = (if status = MILTER_STATUS_DEFAULT \<or> status = MILTER_STATUS_NOT_CHANGE
                    then MILTER_STATUS_ABORT else status);
          c = (if milter_status_is_pass (client_status c) \<and>
                  before_end_of_message (client_last_state c)
               then c\<lparr>client_status := status\<rparr> else c)
      in milter_client_context_set_state c CLIENT_CONTEXT_STATE_ABORT_REPLIED)"

definition client_finished :: "client_context \<Rightarrow> client_context" where
  "client_finished c =
     (milter_client_context_set_state c CLIENT_CONTEXT_STATE_FINISHED)
       \<lparr>client_writer := (if client_writer c = No_writer then No_writer else Writer_closed)\<rparr>"

text \<open>\<open>milter_agent_shutdown\<close>: nothing can be written any more.\<close>

definition client_shutdown :: "client_context \<Rightarrow> client_context" where
  "client_shutdown c =
     c\<lparr>client_writer := (if client_writer c = No_writer then No_writer else Writer_closed)\<rparr>"

definition client_cb_timeout :: "client_context \<Rightarrow> client_context" where
  "client_cb_timeout c = client_shutdown (client_emit Client_timed_out c)"

subsection \<open>The owner\<close>

datatype client_command =
    Client_connect bytes sockaddr
  | Client_helo bytes
  | Client_envelope_from bytes
  | Client_envelope_recipient bytes
  | Client_unknown bytes
  | Client_data
  | Client_header bytes bytes
  | Client_end_of_header
  | Client_body bytes
  | Client_end_of_message "bytes option"
  | Client_abort client_context_state

type_synonym 's client_handler =
  "client_command \<Rightarrow> 's \<Rightarrow> client_context \<Rightarrow> milter_status \<times> 's \<times> client_context"

text \<open>
  A handler of \<open>negotiate\<close> may change the option and the macro requests it is given;
  handlers of \<open>define-macro\<close> return nothing.
\<close>

type_synonym 's negotiate_handler =
  "milter_option \<times> macros_requests \<Rightarrow> 's \<Rightarrow> client_context \<Rightarrow>
   milter_status \<times> (milter_option \<times> macros_requests) \<times> 's \<times> client_context"

record 's client_owner =
  command_handlers :: "'s client_handler list"
  negotiate_handlers :: "'s negotiate_handler list"
  macro_handlers :: "(milter_command \<Rightarrow> macro_table \<Rightarrow> 's \<Rightarrow> 's) list"

text \<open>
  \<open>status_accumulator\<close>: the new value, and whether the emission goes on. It starts from
  0, which is \<open>MILTER_STATUS_DEFAULT\<close>, and ends with the class's own handler.
\<close>

definition status_accumulator :: "milter_status \<Rightarrow> milter_status \<Rightarrow> milter_status \<times> bool" where
  "status_accumulator return_accumulator handler_return =
     (let status = (if handler_return \<noteq> MILTER_STATUS_NOT_CHANGE then handler_return
                    else return_accumulator)
      in (status, status \<in> {MILTER_STATUS_DEFAULT, MILTER_STATUS_CONTINUE, MILTER_STATUS_ALL_OPTIONS}))"

definition default_command :: "'s client_handler" where
  "default_command command s c =
     ((case command of Client_abort _ \<Rightarrow> MILTER_STATUS_DEFAULT | _ \<Rightarrow> MILTER_STATUS_NOT_CHANGE), s, c)"

definition default_negotiate :: "'s negotiate_handler" where
  "default_negotiate args s c = (MILTER_STATUS_NOT_CHANGE, args, s, c)"

fun emit_command ::
    "'s client_handler list \<Rightarrow> client_command \<Rightarrow> milter_status \<Rightarrow> 's \<Rightarrow> client_context \<Rightarrow>
     milter_status \<times> 's \<times> client_context" where
  "emit_command [] command acc s c = (acc, s, c)"
| "emit_command (h # hs) command acc s c =
     (case h command s c of (status, s, c) \<Rightarrow>
        (case status_accumulator acc status of (acc, go_on) \<Rightarrow>
           if go_on then emit_command hs command acc s c else (acc, s, c)))"

fun emit_negotiate ::
    "'s negotiate_handler list \<Rightarrow> milter_option \<times> macros_requests \<Rightarrow> milter_status \<Rightarrow> 's \<Rightarrow>
     client_context \<Rightarrow> milter_status \<times> (milter_option \<times> macros_requests) \<times> 's \<times> client_context" where
  "emit_negotiate [] args acc s c = (acc, args, s, c)"
| "emit_negotiate (h # hs) args acc s c =
     (case h args s c of (status, args, s, c) \<Rightarrow>
        (case status_accumulator acc status of (acc, go_on) \<Rightarrow>
           if go_on then emit_negotiate hs args acc s c else (acc, args, s, c)))"

definition ask_owner ::
    "'s client_owner \<Rightarrow> client_command \<Rightarrow> 's \<Rightarrow> client_context \<Rightarrow> milter_status \<times> 's \<times> client_context" where
  "ask_owner owner command s c =
     emit_command (command_handlers owner @ [default_command]) command MILTER_STATUS_DEFAULT s c"

subsection \<open>Commands\<close>

text \<open>What the handlers of the decoder's signals do before they ask the owner.\<close>

definition received :: "client_context_state \<Rightarrow> client_context \<Rightarrow> client_context" where
  "received st c =
     client_disable_timeout (client_ensure_message_result (milter_client_context_set_state c st))"

definition set_macro_context :: "milter_command \<Rightarrow> client_context \<Rightarrow> client_context" where
  "set_macro_context command c =
     c\<lparr>client_agent := milter_protocol_agent_set_macro_context (client_agent c) command\<rparr>"

text \<open>A status of \<open>PROGRESS\<close> means that the owner will respond later.\<close>

definition answer_with ::
    "(client_context \<Rightarrow> milter_status \<Rightarrow> client_context) \<Rightarrow>
     milter_status \<times> 's \<times> client_context \<Rightarrow> 's \<times> client_context" where
  "answer_with response r =
     (case r of (status, s, c) \<Rightarrow>
        if status = MILTER_STATUS_PROGRESS then (s, c) else (s, response c status))"

definition client_cb_decoder_negotiate ::
    "'s client_owner \<Rightarrow> milter_option \<Rightarrow> 's \<times> client_context \<Rightarrow> 's \<times> client_context" where
  "client_cb_decoder_negotiate owner opt sc =
     (let c = received CLIENT_CONTEXT_STATE_NEGOTIATE (snd sc);
          c = milter_client_context_set_option c (Some (milter_option_copy opt))
      in case emit_negotiate (negotiate_handlers owner @ [default_negotiate])
                (opt, milter_macros_requests_new) MILTER_STATUS_DEFAULT (fst sc) c of
           (status, (opt, requests), s, c) \<Rightarrow>
             if status \<noteq> MILTER_STATUS_PROGRESS
             then (s, negotiate_response c (Some opt) (Some requests) status)
             else (s, c))"

definition client_cb_decoder_define_macro ::
    "'s client_owner \<Rightarrow> milter_command \<Rightarrow> macro_table \<Rightarrow> 's \<times> client_context \<Rightarrow> 's \<times> client_context" where
  "client_cb_decoder_define_macro owner command macros sc =
     (let c = client_disable_timeout (snd sc);
          c = c\<lparr>client_agent :=
                 milter_protocol_agent_set_macros_hash_table (client_agent c) command macros\<rparr>
      in (fold (\<lambda>h s. h command macros s) (macro_handlers owner) (fst sc),
          client_emit (Client_macros_defined command macros) c))"

definition client_cb_decoder_connect ::
    "'s client_owner \<Rightarrow> bytes \<Rightarrow> sockaddr \<Rightarrow> 's \<times> client_context \<Rightarrow> 's \<times> client_context" where
  "client_cb_decoder_connect owner host_name address sc =
     answer_with connect_response (ask_owner owner (Client_connect host_name address) (fst sc)
       (set_macro_context MILTER_COMMAND_CONNECT (received CLIENT_CONTEXT_STATE_CONNECT (snd sc))))"

definition client_cb_decoder_helo ::
    "'s client_owner \<Rightarrow> bytes \<Rightarrow> 's \<times> client_context \<Rightarrow> 's \<times> client_context" where
  "client_cb_decoder_helo owner fqdn sc =
     answer_with helo_response (ask_owner owner (Client_helo fqdn) (fst sc)
       (set_macro_context MILTER_COMMAND_HELO (received CLIENT_CONTEXT_STATE_HELO (snd sc))))"

definition client_cb_decoder_envelope_from ::
    "'s client_owner \<Rightarrow> bytes \<Rightarrow> 's \<times> client_context \<Rightarrow> 's \<times> client_context" where
  "client_cb_decoder_envelope_from owner sender sc =
     answer_with envelope_from_response (ask_owner owner (Client_envelope_from sender) (fst sc)
       (set_macro_context MILTER_COMMAND_ENVELOPE_FROM
         (received CLIENT_CONTEXT_STATE_ENVELOPE_FROM (snd sc))))"

definition client_cb_decoder_envelope_recipient ::
    "'s client_owner \<Rightarrow> bytes \<Rightarrow> 's \<times> client_context \<Rightarrow> 's \<times> client_context" where
  "client_cb_decoder_envelope_recipient owner recipient sc =
     answer_with envelope_recipient_response
       (ask_owner owner (Client_envelope_recipient recipient) (fst sc)
         (set_macro_context MILTER_COMMAND_ENVELOPE_RECIPIENT
           (received CLIENT_CONTEXT_STATE_ENVELOPE_RECIPIENT (snd sc))))"

text \<open>An unknown command leaves the macro context as it is.\<close>

definition client_cb_decoder_unknown ::
    "'s client_owner \<Rightarrow> bytes \<Rightarrow> 's \<times> client_context \<Rightarrow> 's \<times> client_context" where
  "client_cb_decoder_unknown owner command sc =
     answer_with unknown_response (ask_owner owner (Client_unknown command) (fst sc)
       (received CLIENT_CONTEXT_STATE_UNKNOWN (snd sc)))"

definition client_cb_decoder_data ::
    "'s client_owner \<Rightarrow> 's \<times> client_context \<Rightarrow> 's \<times> client_context" where
  "client_cb_decoder_data owner sc =
     answer_with data_response (ask_owner owner Client_data (fst sc)
       (set_macro_context MILTER_COMMAND_DATA (received CLIENT_CONTEXT_STATE_DATA (snd sc))))"

definition client_cb_decoder_header ::
    "'s client_owner \<Rightarrow> bytes \<Rightarrow> bytes \<Rightarrow> 's \<times> client_context \<Rightarrow> 's \<times> client_context" where
  "client_cb_decoder_header owner name value sc =
     answer_with header_response (ask_owner owner (Client_header name value) (fst sc)
       (set_macro_context MILTER_COMMAND_HEADER (received CLIENT_CONTEXT_STATE_HEADER (snd sc))))"

definition client_cb_decoder_end_of_header ::
    "'s client_owner \<Rightarrow> 's \<times> client_context \<Rightarrow> 's \<times> client_context" where
  "client_cb_decoder_end_of_header owner sc =
     answer_with end_of_header_response (ask_owner owner Client_end_of_header (fst sc)
       (set_macro_context MILTER_COMMAND_END_OF_HEADER
         (received CLIENT_CONTEXT_STATE_END_OF_HEADER (snd sc))))"

definition client_cb_decoder_body ::
    "'s client_owner \<Rightarrow> bytes \<Rightarrow> 's \<times> client_context \<Rightarrow> 's \<times> client_context" where
  "client_cb_decoder_body owner chunk sc =
     answer_with body_response (ask_owner owner (Client_body chunk) (fst sc)
       (set_macro_context MILTER_COMMAND_BODY (received CLIENT_CONTEXT_STATE_BODY (snd sc))))"

definition client_cb_decoder_end_of_message ::
    "'s client_owner \<Rightarrow> bytes option \<Rightarrow> 's \<times> client_context \<Rightarrow> 's \<times> client_context" where
  "client_cb_decoder_end_of_message owner chunk sc =
     answer_with end_of_message_response (ask_owner owner (Client_end_of_message chunk) (fst sc)
       ((set_macro_context MILTER_COMMAND_END_OF_MESSAGE
          (received CLIENT_CONTEXT_STATE_END_OF_MESSAGE (snd sc)))\<lparr>client_quarantine_reason := None\<rparr>))"

definition client_cb_decoder_quit :: "'s \<times> client_context \<Rightarrow> 's \<times> client_context" where
  "client_cb_decoder_quit sc =
     (fst sc, client_shutdown (milter_client_context_set_state (snd sc) CLIENT_CONTEXT_STATE_QUIT))"

definition client_cb_decoder_abort ::
    "'s client_owner \<Rightarrow> 's \<times> client_context \<Rightarrow> 's \<times> client_context" where
  "client_cb_decoder_abort owner sc =
     (let st = client_state (snd sc);
          c = client_disable_timeout (milter_client_context_set_state (snd sc) CLIENT_CONTEXT_STATE_ABORT)
      in case ask_owner owner (Client_abort st) (fst sc) c of
           (status, s, c) \<Rightarrow>
             answer_with abort_response (status, s, milter_client_context_reset_message_related_data c))"

text \<open>
  \<open>decoder_new\<close> connects one handler per signal. A hash table of macros is handed on as
  a table in some order, \<open>order\<close>.
\<close>

definition client_receive ::
    "((bytes \<rightharpoonup> bytes) \<Rightarrow> macro_table) \<Rightarrow> 's client_owner \<Rightarrow> command_signal \<Rightarrow>
     's \<times> client_context \<Rightarrow> 's \<times> client_context" where
  "client_receive order owner sig =
     (case sig of
        Sig_negotiate opt \<Rightarrow> client_cb_decoder_negotiate owner opt
      | Sig_define_macro command macros \<Rightarrow>
          client_cb_decoder_define_macro owner command (order macros)
      | Sig_connect host_name address \<Rightarrow> client_cb_decoder_connect owner host_name address
      | Sig_helo fqdn \<Rightarrow> client_cb_decoder_helo owner fqdn
      | Sig_envelope_from sender \<Rightarrow> client_cb_decoder_envelope_from owner sender
      | Sig_envelope_recipient recipient \<Rightarrow> client_cb_decoder_envelope_recipient owner recipient
      | Sig_data \<Rightarrow> client_cb_decoder_data owner
      | Sig_header name value \<Rightarrow> client_cb_decoder_header owner name value
      | Sig_end_of_header \<Rightarrow> client_cb_decoder_end_of_header owner
      | Sig_body chunk \<Rightarrow> client_cb_decoder_body owner chunk
      | Sig_end_of_message chunk \<Rightarrow> client_cb_decoder_end_of_message owner chunk
      | Sig_abort \<Rightarrow> client_cb_decoder_abort owner
      | Sig_quit \<Rightarrow> client_cb_decoder_quit
      | Sig_unknown command \<Rightarrow> client_cb_decoder_unknown owner command)"

end
