(* ===== verification/Children.thy ===== *)
theory Children
  imports Server_Context_Commands
begin

text \<open>
  \<open>milter/manager/milter-manager-children.c\<close>: the milters of one session, towards which the
  manager plays a single milter. This theory has the state, the reply statuses and what is
  kept for the end of a message; the flow of commands is in \<open>Children_Flow\<close>.

  A child is named by its position in \<open>milters\<close>. What it does when it is called - sends the
  command, refuses, or calls back at once - is the parameter \<open>env_call\<close>; the observers of
  the children's own signals are \<open>env_observe\<close>, and \<open>env_file\<close> says which operations on the
  temporary body file succeed, \<open>env_establish\<close> which connections can be opened, and \<open>env_launch\<close>
  what became of starting a milter's process. A crash or an endless loop is recorded in
  \<open>children_failure\<close>; what a run does after that has no meaning.
\<close>

subsection \<open>State\<close>

datatype pending_message_request =
    Pending_header bytes "bytes option"
  | Pending_end_of_header
  | Pending_body bytes
  | Pending_end_of_message "bytes option"

datatype children_error =
    MILTER_MANAGER_CHILDREN_ERROR_NO_ALIVE_MILTER
  | MILTER_MANAGER_CHILDREN_ERROR_NO_MESSAGE_PROCESSING_MILTER
  | MILTER_MANAGER_CHILDREN_ERROR_NO_NEGOTIATION
  | Body_file_error
  | Launcher_error
  | Connection_error

text \<open>The signals of the children.\<close>

datatype children_event =
    Children_negotiate_reply milter_option macros_requests
  | Children_continue
  | Children_reject
  | Children_discard
  | Children_accept
  | Children_temporary_failure
  | Children_skip
  | Children_progress
  | Children_reply_code nat "bytes option" "bytes option"
  | Children_add_header bytes "bytes option"
  | Children_insert_header nat bytes "bytes option"
  | Children_change_header bytes nat "bytes option"
  | Children_delete_header bytes nat
  | Children_change_from bytes "bytes option"
  | Children_add_recipient bytes "bytes option"
  | Children_delete_recipient bytes
  | Children_replace_body bytes
  | Children_quarantine bytes
  | Children_connection_failure
  | Children_shutdown
  | Children_abort
  | Children_error children_error
  | Children_finished

text \<open>What the children object asks of a child.\<close>

datatype child_call =
    Call_negotiate milter_option
  | Call_connect bytes sockaddr
  | Call_helo bytes
  | Call_envelope_from bytes
  | Call_envelope_recipient bytes
  | Call_data
  | Call_unknown bytes
  | Call_header bytes "bytes option"
  | Call_end_of_header
  | Call_body bytes
  | Call_end_of_message "bytes option"
  | Call_abort
  | Call_quit

datatype children_failure = Null_pointer | Chunk_overread | Endless_loop | Recursion_limit

record child =
  child_context :: server_context
  child_fallback_status :: milter_status
  child_evaluation_mode :: bool
  child_connected :: bool

record body_file =
  file_content :: bytes
  file_position :: nat

record negotiate_data =
  negotiate_child :: nat
  negotiate_is_retry :: bool
  negotiate_timer :: bool

record children =
  milters :: "child list"
  reply_queue :: "nat list"
  command_waiting_child_queue :: "nat list"
  command_queue :: "milter_command list"
  pending_message_request :: "pending_message_request option"
  try_negotiate :: "negotiate_data list"
  lazy_reply_negotiate :: bool
  children_macros_requests :: macros_requests
  children_option :: "milter_option option"
  initial_yes_steps :: u32
  requested_yes_steps :: u32
  children_negotiated :: bool
  all_expired_as_fallback_on_negotiated :: bool
  children_state :: server_context_state
  processing_state :: server_context_state
  reply_statuses :: "server_context_state \<rightharpoonup> milter_status"
  children_reply_code :: nat
  reply_extended_code :: "bytes option"
  reply_message :: "bytes option"
  original_headers :: "milter_headers option"
  children_headers :: "milter_headers option"
  processing_header_index :: nat
  children_body :: "bytes option"
  children_body_file :: "body_file option"
  end_of_message_chunk :: "bytes option"
  end_of_message_size :: nat
  sending_body :: bool
  sent_body_offset :: nat
  replaced_body_for_each_child :: bool
  replaced_body :: bool
  change_from :: "bytes option"
  change_from_parameters :: "bytes option"
  quarantine_reason :: "bytes option"
  smtp_client_address :: "sockaddr option"
  children_finished :: bool
  emitted_reply_for_message_oriented_command :: bool
  children_failure :: "children_failure option"
  children_emitted :: "children_event list"
  children_calls :: "(nat \<times> child_call) list"

definition milter_manager_children_init :: children where
  "milter_manager_children_init =
     \<lparr>milters = [], reply_queue = [], command_waiting_child_queue = [], command_queue = [],
      pending_message_request = None, try_negotiate = [], lazy_reply_negotiate = False,
      children_macros_requests = milter_macros_requests_new,
      children_option = None, initial_yes_steps = MILTER_STEP_NONE,
      requested_yes_steps = MILTER_STEP_NONE, children_negotiated = False,
      all_expired_as_fallback_on_negotiated = False,
      children_state = SERVER_CONTEXT_STATE_START,
      processing_state = SERVER_CONTEXT_STATE_START, reply_statuses = Map.empty,
      children_reply_code = 0, reply_extended_code = None, reply_message = None,
      original_headers = None, children_headers = None, processing_header_index = 0,
      children_body = None, children_body_file = None, end_of_message_chunk = None,
      end_of_message_size = 0,
      sending_body = False, sent_body_offset = 0, replaced_body_for_each_child = False,
      replaced_body = False, change_from = None, change_from_parameters = None,
      quarantine_reason = None, smtp_client_address = None, children_finished = False,
      emitted_reply_for_message_oriented_command = False, children_failure = None,
      children_emitted = [], children_calls = []\<rparr>"

datatype launch = Launch_skipped | Launch_failed | Launched

datatype file_operation = Open_file | Set_encoding | Write_file bytes | Seek_file | Read_file

text \<open>
  \<open>env_continue\<close> delivers a \<open>continue\<close> emitted on behalf of a child, and \<open>env_pending\<close>
  issues a command that was kept back: both lead back into the handlers of the children
  (see \<open>Children_Flow\<close>).
\<close>

record children_environment =
  env_call :: "nat \<Rightarrow> child_call \<Rightarrow> children \<Rightarrow> bool \<times> children"
  env_observe :: "children_event \<Rightarrow> children \<Rightarrow> children"
  env_file :: "file_operation \<Rightarrow> bool"
  env_chunk_size :: nat
  env_establish :: "nat \<Rightarrow> bool"
  env_privilege :: bool
  env_launch :: "nat \<Rightarrow> launch"
  env_system :: platform
  env_continue :: "nat \<Rightarrow> children \<Rightarrow> children"
  env_pending :: "pending_message_request \<Rightarrow> children \<Rightarrow> bool \<times> children"

definition children_emit ::
    "children_environment \<Rightarrow> children_event \<Rightarrow> children \<Rightarrow> children" where
  "children_emit env ev ch = env_observe env ev (ch\<lparr>children_emitted := children_emitted ch @ [ev]\<rparr>)"

definition call_child ::
    "children_environment \<Rightarrow> nat \<Rightarrow> child_call \<Rightarrow> children \<Rightarrow> bool \<times> children" where
  "call_child env i call ch = env_call env i call (ch\<lparr>children_calls := children_calls ch @ [(i, call)]\<rparr>)"

definition fail :: "children_failure \<Rightarrow> children \<Rightarrow> children" where
  "fail f ch = (if children_failure ch = None then ch\<lparr>children_failure := Some f\<rparr> else ch)"

subsection \<open>The children's contexts\<close>

definition context_of :: "children \<Rightarrow> nat \<Rightarrow> server_context" where
  "context_of ch i = child_context (milters ch ! i)"

definition update_context ::
    "nat \<Rightarrow> (server_context \<Rightarrow> server_context) \<Rightarrow> children \<Rightarrow> children" where
  "update_context i f ch =
     ch\<lparr>milters := (milters ch)[i := (milters ch ! i)\<lparr>child_context := f (context_of ch i)\<rparr>]\<rparr>"

definition all_children :: "children \<Rightarrow> nat list" where
  "all_children ch = [0..<length (milters ch)]"

definition milter_manager_children_add_child :: "children \<Rightarrow> child option \<Rightarrow> children" where
  "milter_manager_children_add_child ch c =
     (case c of None \<Rightarrow> ch | Some c \<Rightarrow> ch\<lparr>milters := milters ch @ [c]\<rparr>)"

definition set_state :: "children \<Rightarrow> server_context_state \<Rightarrow> children" where
  "set_state ch st = ch\<lparr>children_state := st, processing_state := st\<rparr>"

subsection \<open>Discarding\<close>

definition dispose_pending_message_request :: "children \<Rightarrow> children" where
  "dispose_pending_message_request ch = ch\<lparr>pending_message_request := None\<rparr>"

definition dispose_body_related_data :: "children \<Rightarrow> children" where
  "dispose_body_related_data ch =
     ch\<lparr>emitted_reply_for_message_oriented_command := False, children_body := None,
        children_body_file := None\<rparr>"

definition dispose_reply_related_data :: "children \<Rightarrow> children" where
  "dispose_reply_related_data ch =
     ch\<lparr>children_reply_code := 0, reply_extended_code := None, reply_message := None\<rparr>"

definition dispose_message_related_data :: "children \<Rightarrow> children" where
  "dispose_message_related_data ch =
     (dispose_body_related_data (dispose_pending_message_request ch))
       \<lparr>command_waiting_child_queue := [], command_queue := [], original_headers := None,
        children_headers := None, end_of_message_chunk := None, change_from := None,
        change_from_parameters := None, quarantine_reason := None\<rparr>"

subsection \<open>Reply statuses\<close>

definition status_to_signal :: "milter_status \<Rightarrow> children_event" where
  "status_to_signal status =
     (case status of
        MILTER_STATUS_CONTINUE \<Rightarrow> Children_continue
      | MILTER_STATUS_REJECT \<Rightarrow> Children_reject
      | MILTER_STATUS_DISCARD \<Rightarrow> Children_discard
      | MILTER_STATUS_ACCEPT \<Rightarrow> Children_accept
      | MILTER_STATUS_TEMPORARY_FAILURE \<Rightarrow> Children_temporary_failure
      | MILTER_STATUS_SKIP \<Rightarrow> Children_skip
      | MILTER_STATUS_PROGRESS \<Rightarrow> Children_progress
      | _ \<Rightarrow> Children_continue)"

text \<open>A status of number 0 cannot be told from an absent one.\<close>

definition get_reply_status_for_state :: "children \<Rightarrow> server_context_state \<Rightarrow> milter_status" where
  "get_reply_status_for_state ch st =
     (case reply_statuses ch st of
        None \<Rightarrow> MILTER_STATUS_NOT_CHANGE
      | Some status \<Rightarrow>
          if status = MILTER_STATUS_DEFAULT then MILTER_STATUS_NOT_CHANGE else status)"

definition milter_manager_children_is_important_status ::
    "children \<Rightarrow> server_context_state \<Rightarrow> milter_status \<Rightarrow> bool" where
  "milter_manager_children_is_important_status ch st status \<longleftrightarrow>
     milter_status_compare (get_reply_status_for_state ch st) status < 0"

definition milter_manager_children_set_status ::
    "children \<Rightarrow> server_context_state \<Rightarrow> milter_status \<Rightarrow> children" where
  "milter_manager_children_set_status ch st status =
     ch\<lparr>reply_statuses := (reply_statuses ch)(st \<mapsto> status)\<rparr>"

definition compile_reply_status ::
    "children \<Rightarrow> server_context_state \<Rightarrow> milter_status \<Rightarrow> children" where
  "compile_reply_status ch st status =
     (if milter_manager_children_is_important_status ch st status
      then ch\<lparr>reply_statuses := (reply_statuses ch)(st \<mapsto> status)\<rparr> else ch)"

definition init_reply_queue :: "children \<Rightarrow> server_context_state \<Rightarrow> children" where
  "init_reply_queue ch st =
     (set_state ch st)\<lparr>reply_queue := [],
        reply_statuses := (reply_statuses ch)(st \<mapsto> MILTER_STATUS_NOT_CHANGE)\<rparr>"

definition emit_reply_status_of_state ::
    "children_environment \<Rightarrow> children \<Rightarrow> server_context_state \<Rightarrow> children" where
  "emit_reply_status_of_state env ch st =
     (let status = get_reply_status_for_state ch st;
          ch = (if children_reply_code ch div 100 = 4 \<and> status = MILTER_STATUS_TEMPORARY_FAILURE \<or>
                   children_reply_code ch div 100 = 5 \<and> status = MILTER_STATUS_REJECT
                then dispose_reply_related_data
                       (children_emit env (Children_reply_code (children_reply_code ch)
                          (reply_extended_code ch) (reply_message ch)) ch)
                else if status \<noteq> MILTER_STATUS_NOT_CHANGE
                then children_emit env (status_to_signal status) ch
                else ch)
      in if st = SERVER_CONTEXT_STATE_END_OF_MESSAGE then dispose_message_related_data ch else ch)"

definition handle_status :: "children_environment \<Rightarrow> children \<Rightarrow> milter_status \<Rightarrow> children" where
  "handle_status env ch status =
     (if status = MILTER_STATUS_PROGRESS then ch
      else children_emit env (status_to_signal status) ch)"

end
