(* ===== verification/Children_Message.thy ===== *)
theory Children_Message
  imports Children
begin

text \<open>
  What the children of \<open>milter-manager-children.c\<close> do to a message: the modifications they
  ask for at its end, the body that is kept for the next child, and the signals with which
  the manager then reports the difference.
\<close>

subsection \<open>Leaving children\<close>

definition child_quit :: "children_environment \<Rightarrow> children \<Rightarrow> nat \<Rightarrow> children" where
  "child_quit env ch i = snd (call_child env i Call_quit ch)"

definition expire_child :: "children \<Rightarrow> nat \<Rightarrow> children" where
  "expire_child ch i =
     (let ch = update_context i (\<lambda>c. milter_server_context_set_quitted c True) ch
      in ch\<lparr>milters := (milters ch)[i := (milters ch ! i)\<lparr>child_connected := False\<rparr>]\<rparr>)"

definition abort_child :: "children_environment \<Rightarrow> nat \<Rightarrow> bool \<times> children \<Rightarrow> bool \<times> children" where
  "abort_child env i = (\<lambda>(success, ch).
     if milter_server_context_is_processing_message (context_of ch i) \<or>
        ctx_state (context_of ch i) = SERVER_CONTEXT_STATE_ENVELOPE_FROM
     then (case call_child env i Call_abort ch of (ok, ch) \<Rightarrow> (success \<and> ok, ch))
     else (success, ch))"

definition milter_manager_children_abort ::
    "children_environment \<Rightarrow> children \<Rightarrow> bool \<times> children" where
  "milter_manager_children_abort env ch =
     (let ch = set_state ch SERVER_CONTEXT_STATE_ABORT;
          (success, ch) = fold (abort_child env) (all_children ch) (True, ch);
          ch = dispose_message_related_data ch;
          ch = fold (\<lambda>i ch.
                 if milter_server_context_is_quitted (context_of ch i) then ch
                 else update_context i milter_server_context_reset_message_related_data ch)
                 (all_children ch) ch
      in (success, ch))"

definition quit_child :: "children_environment \<Rightarrow> nat \<Rightarrow> bool \<times> children \<Rightarrow> bool \<times> children" where
  "quit_child env i = (\<lambda>(success, ch).
     if milter_server_context_is_quitted (context_of ch i) then (success, ch)
     else if ctx_state (context_of ch i) = SERVER_CONTEXT_STATE_QUIT then (success, ch)
     else (case call_child env i Call_quit ch of (ok, ch) \<Rightarrow> (success \<and> ok, ch)))"

definition milter_manager_children_quit ::
    "children_environment \<Rightarrow> children \<Rightarrow> bool \<times> children" where
  "milter_manager_children_quit env ch =
     (let ch = set_state ch SERVER_CONTEXT_STATE_QUIT;
          (success, ch) = fold (quit_child env) (all_children ch) (True, ch)
      in (success, if \<not> children_finished ch
                   then children_emit env Children_finished (ch\<lparr>children_finished := True\<rparr>)
                   else ch))"

subsection \<open>Header values\<close>

text \<open>Asks for the step flags of the negotiated option; without one, a crash.\<close>

definition need_header_value_leading_space_conversion ::
    "children \<Rightarrow> nat \<Rightarrow> bool \<times> children" where
  "need_header_value_leading_space_conversion ch i =
     (if milter_server_context_is_enable_step (context_of ch i)
           MILTER_STEP_HEADER_VALUE_WITH_LEADING_SPACE
      then (False, ch)
      else case children_option ch of
             None \<Rightarrow> (False, fail Null_pointer ch)
           | Some opt \<Rightarrow> (step opt AND MILTER_STEP_HEADER_VALUE_WITH_LEADING_SPACE \<noteq> 0, ch))"

definition normalize_header_value ::
    "children \<Rightarrow> nat \<Rightarrow> bytes option \<Rightarrow> bytes option \<times> children" where
  "normalize_header_value ch i value =
     (let (convert, ch) = need_header_value_leading_space_conversion ch i
      in (case value of
            None \<Rightarrow> None
          | Some v \<Rightarrow> if convert \<and> take 1 v \<noteq> '' '' then Some (CHR '' '' # v) else Some v, ch))"

subsection \<open>Modifications at the end of a message\<close>

definition is_end_of_message_state ::
    "children_environment \<Rightarrow> children \<Rightarrow> nat \<Rightarrow> bool \<times> children" where
  "is_end_of_message_state env ch i =
     (if ctx_state (context_of ch i) = SERVER_CONTEXT_STATE_END_OF_MESSAGE then (True, ch)
      else (False, child_quit env ch i))"

definition is_evaluation_mode :: "children \<Rightarrow> nat \<Rightarrow> bool" where
  "is_evaluation_mode ch i = child_evaluation_mode (milters ch ! i)"

text \<open>The guards every modification starts with.\<close>

definition at_message_end ::
    "children_environment \<Rightarrow> children \<Rightarrow> nat \<Rightarrow> (children \<Rightarrow> children) \<Rightarrow> children" where
  "at_message_end env ch i f =
     (case is_end_of_message_state env ch i of
        (False, ch) \<Rightarrow> ch
      | (True, ch) \<Rightarrow> if is_evaluation_mode ch i then ch else f ch)"

text \<open>Changes the headers that are kept; when there are none, a \<open>NULL\<close> is dereferenced.\<close>

definition edit_headers :: "(milter_headers \<Rightarrow> milter_headers) \<Rightarrow> children \<Rightarrow> children" where
  "edit_headers f ch =
     (case children_headers ch of
        None \<Rightarrow> fail Null_pointer ch
      | Some hs \<Rightarrow> ch\<lparr>children_headers := Some (f hs)\<rparr>)"

definition cb_add_header ::
    "children_environment \<Rightarrow> children \<Rightarrow> nat \<Rightarrow> bytes \<Rightarrow> bytes option \<Rightarrow> children" where
  "cb_add_header env ch i name value =
     at_message_end env ch i (\<lambda>ch.
       let (v, ch) = normalize_header_value ch i value
       in edit_headers (\<lambda>hs. milter_headers_add_header hs name v) ch)"

definition cb_insert_header ::
    "children_environment \<Rightarrow> children \<Rightarrow> nat \<Rightarrow> u32 \<Rightarrow> bytes \<Rightarrow> bytes option \<Rightarrow> children" where
  "cb_insert_header env ch i index name value =
     at_message_end env ch i (\<lambda>ch.
       let (v, ch) = normalize_header_value ch i value
       in edit_headers (\<lambda>hs. milter_headers_insert_header hs (unat index) name v) ch)"

definition cb_change_header ::
    "children_environment \<Rightarrow> children \<Rightarrow> nat \<Rightarrow> bytes \<Rightarrow> u32 \<Rightarrow> bytes option \<Rightarrow> children" where
  "cb_change_header env ch i name index value =
     at_message_end env ch i (\<lambda>ch.
       let (v, ch) = normalize_header_value ch i value
       in edit_headers (\<lambda>hs. snd (milter_headers_change_header hs name (unat index) v)) ch)"

definition cb_delete_header ::
    "children_environment \<Rightarrow> children \<Rightarrow> nat \<Rightarrow> bytes \<Rightarrow> u32 \<Rightarrow> children" where
  "cb_delete_header env ch i name index =
     at_message_end env ch i
       (edit_headers (\<lambda>hs. snd (milter_headers_delete_header hs name (unat index))))"

definition cb_change_from ::
    "children_environment \<Rightarrow> children \<Rightarrow> nat \<Rightarrow> bytes \<Rightarrow> bytes option \<Rightarrow> children" where
  "cb_change_from env ch i sender parameters =
     at_message_end env ch i
       (\<lambda>ch. ch\<lparr>change_from := Some sender, change_from_parameters := parameters\<rparr>)"

definition cb_add_recipient ::
    "children_environment \<Rightarrow> children \<Rightarrow> nat \<Rightarrow> bytes \<Rightarrow> bytes option \<Rightarrow> children" where
  "cb_add_recipient env ch i recipient parameters =
     at_message_end env ch i (children_emit env (Children_add_recipient recipient parameters))"

definition cb_delete_recipient ::
    "children_environment \<Rightarrow> children \<Rightarrow> nat \<Rightarrow> bytes \<Rightarrow> children" where
  "cb_delete_recipient env ch i recipient =
     at_message_end env ch i (children_emit env (Children_delete_recipient recipient))"

definition cb_quarantine :: "children_environment \<Rightarrow> children \<Rightarrow> nat \<Rightarrow> bytes \<Rightarrow> children" where
  "cb_quarantine env ch i reason =
     at_message_end env ch i (\<lambda>ch. ch\<lparr>quarantine_reason := Some reason\<rparr>)"

definition cb_progress :: "children_environment \<Rightarrow> children \<Rightarrow> nat \<Rightarrow> children" where
  "cb_progress env ch i =
     (case is_end_of_message_state env ch i of
        (False, ch) \<Rightarrow> ch
      | (True, ch) \<Rightarrow> children_emit env Children_progress ch)"

definition cb_connection_failure :: "children_environment \<Rightarrow> children \<Rightarrow> nat \<Rightarrow> children" where
  "cb_connection_failure env ch i = children_emit env Children_connection_failure ch"

definition cb_shutdown :: "children_environment \<Rightarrow> children \<Rightarrow> nat \<Rightarrow> children" where
  "cb_shutdown env ch i = children_emit env Children_shutdown ch"

subsection \<open>The body that is kept\<close>

definition MAX_ON_MEMORY_BODY_SIZE :: nat where "MAX_ON_MEMORY_BODY_SIZE = 5242880"

definition body_error :: "children_environment \<Rightarrow> children \<Rightarrow> children" where
  "body_error env = children_emit env (Children_error Body_file_error)"

definition open_body_file :: "children_environment \<Rightarrow> children \<Rightarrow> bool \<times> children" where
  "open_body_file env ch =
     (if \<not> env_file env Open_file then (False, body_error env ch)
      else
        let ch = ch\<lparr>children_body_file := Some \<lparr>file_content = [], file_position = 0\<rparr>\<rparr>
        in if \<not> env_file env Set_encoding then (False, body_error env ch) else (True, ch))"

definition write_file :: "body_file \<Rightarrow> bytes \<Rightarrow> body_file" where
  "write_file f chunk =
     \<lparr>file_content = take (file_position f) (file_content f) @ chunk @
        drop (file_position f + length chunk) (file_content f),
      file_position = file_position f + length chunk\<rparr>"

definition write_body_to_file ::
    "children_environment \<Rightarrow> children \<Rightarrow> bytes \<Rightarrow> bool \<times> children" where
  "write_body_to_file env ch chunk =
     (let (ok, ch) = (if children_body_file ch = None then open_body_file env ch else (True, ch))
      in if \<not> ok then (False, ch)
         else case children_body_file ch of
                None \<Rightarrow> (True, ch)
              | Some f \<Rightarrow>
                  if chunk = [] then (True, ch)
                  else if \<not> env_file env (Write_file chunk) then (False, body_error env ch)
                  else (True, ch\<lparr>children_body_file := Some (write_file f chunk)\<rparr>))"

definition write_body_to_string ::
    "children_environment \<Rightarrow> children \<Rightarrow> bytes \<Rightarrow> bool \<times> children" where
  "write_body_to_string env ch chunk =
     (let b = (case children_body ch of None \<Rightarrow> chunk | Some b \<Rightarrow> b @ chunk);
          ch = ch\<lparr>children_body := Some b\<rparr>
      in if MAX_ON_MEMORY_BODY_SIZE < length b
         then (case write_body_to_file env ch b of (ok, ch) \<Rightarrow> (ok, ch\<lparr>children_body := None\<rparr>))
         else (True, ch))"

definition write_body :: "children_environment \<Rightarrow> children \<Rightarrow> bytes \<Rightarrow> bool \<times> children" where
  "write_body env ch chunk =
     (if children_body_file ch \<noteq> None then write_body_to_file env ch chunk
      else write_body_to_string env ch chunk)"

definition cb_replace_body :: "children_environment \<Rightarrow> children \<Rightarrow> nat \<Rightarrow> bytes \<Rightarrow> children" where
  "cb_replace_body env ch i chunk =
     at_message_end env ch i (\<lambda>ch.
       let ch = (if replaced_body_for_each_child ch then ch else dispose_body_related_data ch);
           (ok, ch) = write_body env ch chunk
       in if ok then ch\<lparr>replaced_body_for_each_child := True, replaced_body := True\<rparr> else ch)"

text \<open>
  The loop of \<open>emit_replace_body_signal_string\<close> as the chunks it emits. The chunk size
  comes from the configuration; nothing keeps it from being 0.
\<close>

partial_function (option) body_chunks :: "nat \<Rightarrow> bytes \<Rightarrow> nat \<Rightarrow> bytes list option" where
  "body_chunks chunk_size b offset =
     (if offset < length b
      then
        let write_size = min (length b - offset) chunk_size
        in Option.bind (body_chunks chunk_size b (offset + write_size))
             (\<lambda>chunks. Some (take write_size (drop offset b) # chunks))
      else Some [])"

definition emit_chunks :: "children_environment \<Rightarrow> bytes \<Rightarrow> nat \<Rightarrow> children \<Rightarrow> children" where
  "emit_chunks env b offset ch =
     (case body_chunks (env_chunk_size env) b offset of
        None \<Rightarrow> fail Endless_loop ch
      | Some chunks \<Rightarrow> fold (\<lambda>c. children_emit env (Children_replace_body c)) chunks ch)"

definition emit_replace_body_signal_string ::
    "children_environment \<Rightarrow> bytes \<Rightarrow> children \<Rightarrow> bool \<times> children" where
  "emit_replace_body_signal_string env b ch = (True, emit_chunks env b 0 ch)"

text \<open>
  The file is read to its end in the same way. Without a file, GLib complains and answers
  that the read failed, without an error.
\<close>

definition emit_replace_body_signal_file ::
    "children_environment \<Rightarrow> children \<Rightarrow> bool \<times> children" where
  "emit_replace_body_signal_file env ch =
     (case children_body_file ch of
        None \<Rightarrow> (True, ch)
      | Some f \<Rightarrow>
          if \<not> env_file env Seek_file then (False, body_error env ch)
          else if \<not> env_file env Read_file then (False, body_error env ch)
          else (True, emit_chunks env (file_content f) 0
                  (ch\<lparr>children_body_file := Some (f\<lparr>file_position := length (file_content f)\<rparr>)\<rparr>)))"

definition emit_replace_body_signal ::
    "children_environment \<Rightarrow> children \<Rightarrow> bool \<times> children" where
  "emit_replace_body_signal env ch =
     (case children_body ch of
        Some b \<Rightarrow> emit_replace_body_signal_string env b ch
      | None \<Rightarrow> emit_replace_body_signal_file env ch)"

subsection \<open>The difference of the headers\<close>

text \<open>
  One header of the new list, at position \<open>i\<close>: what is emitted, and what is left of the
  original headers. The original index is \<open>None\<close> when the code has \<open>-1\<close>.
\<close>

definition header_signal ::
    "milter_headers \<Rightarrow> milter_headers \<Rightarrow> nat \<Rightarrow> milter_header \<Rightarrow> children_event list \<times> milter_headers" where
  "header_signal original processing i h =
     (if milter_headers_find processing h \<noteq> None
      then ([], snd (milter_headers_remove processing h))
      else case milter_headers_lookup_by_name processing (header_name h) of
             None \<Rightarrow> ([Children_insert_header i (header_name h) (header_value h)], processing)
           | Some found \<Rightarrow>
               (case milter_headers_index_in_same_header_name original found of
                  None \<Rightarrow> ([Children_add_header (header_name h) (header_value h)], processing)
                | Some index \<Rightarrow>
                    ([Children_change_header (header_name h) index (header_value h)],
                     snd (milter_headers_remove processing found))))"

fun header_signals ::
    "milter_headers \<Rightarrow> milter_headers \<Rightarrow> nat \<Rightarrow> milter_headers \<Rightarrow>
     children_event list \<times> milter_headers" where
  "header_signals original processing i [] = ([], processing)"
| "header_signals original processing i (h # hs) =
     (let (evs, processing) = header_signal original processing i h;
          (evs', processing) = header_signals original processing (i + 1) hs
      in (evs @ evs', processing))"

text \<open>An index of \<open>-1\<close> would go out as it is; it is written 0 here and does not occur.\<close>

definition delete_signals :: "milter_headers \<Rightarrow> milter_headers \<Rightarrow> children_event list" where
  "delete_signals original processing =
     map (\<lambda>h. Children_delete_header (header_name h)
              (case milter_headers_index_in_same_header_name original h of None \<Rightarrow> 0 | Some k \<Rightarrow> k))
       (rev processing)"

definition header_difference :: "milter_headers \<Rightarrow> milter_headers \<Rightarrow> children_event list" where
  "header_difference original hs =
     (let (evs, processing) = header_signals original (milter_headers_copy original) 0 hs
      in evs @ delete_signals original processing)"

text \<open>\<open>milter_headers_get_list\<close> of no headers is a crash.\<close>

definition emit_header_signals :: "children_environment \<Rightarrow> milter_headers \<Rightarrow> children \<Rightarrow> children" where
  "emit_header_signals env original ch =
     (case children_headers ch of
        None \<Rightarrow> fail Null_pointer ch
      | Some hs \<Rightarrow> fold (children_emit env) (header_difference original hs) ch)"

definition emit_signals_on_end_of_message :: "children_environment \<Rightarrow> children \<Rightarrow> children" where
  "emit_signals_on_end_of_message env ch =
     (let ch = (if replaced_body ch then snd (emit_replace_body_signal env ch) else ch);
          ch = (case original_headers ch of
                  None \<Rightarrow> ch | Some original \<Rightarrow> emit_header_signals env original ch);
          ch = (case change_from ch of
                  None \<Rightarrow> ch
                | Some sender \<Rightarrow>
                    children_emit env (Children_change_from sender (change_from_parameters ch)) ch)
      in (case quarantine_reason ch of
            None \<Rightarrow> ch | Some reason \<Rightarrow> children_emit env (Children_quarantine reason) ch))"

definition emit_reply_for_message_oriented_command ::
    "children_environment \<Rightarrow> children \<Rightarrow> server_context_state \<Rightarrow> children" where
  "emit_reply_for_message_oriented_command env ch st =
     (if emitted_reply_for_message_oriented_command ch then ch
      else
        let ch = ch\<lparr>emitted_reply_for_message_oriented_command := True\<rparr>;
            ch = (if st = SERVER_CONTEXT_STATE_END_OF_MESSAGE
                  then emit_signals_on_end_of_message env ch else ch)
        in emit_reply_status_of_state env ch st)"

end
