(* ===== verification/Children_Flow.thy ===== *)
theory Children_Flow
  imports Children_Message
begin

text \<open>
  The flow of commands and answers in \<open>milter-manager-children.c\<close>. Up to DATA a command goes
  to all children at once, and the last answer brings the reply of the manager. From the
  headers on, the children are served one after the other: the first one gets the commands
  as they come from the MTA; when it is done with the message, the next one gets what the
  first has made of it.
\<close>

subsection \<open>Queues\<close>

definition get_first_child_in_command_waiting_child_queue :: "children \<Rightarrow> nat option" where
  "get_first_child_in_command_waiting_child_queue ch =
     (case command_waiting_child_queue ch of [] \<Rightarrow> None | i # rest \<Rightarrow> Some i)"

definition abort_all_children :: "children_environment \<Rightarrow> children \<Rightarrow> children" where
  "abort_all_children env ch = snd (milter_manager_children_abort env ch)"

definition state_to_command :: "server_context_state \<Rightarrow> milter_command" where
  "state_to_command st =
     (case st of
        SERVER_CONTEXT_STATE_DATA \<Rightarrow> MILTER_COMMAND_DATA
      | SERVER_CONTEXT_STATE_HEADER \<Rightarrow> MILTER_COMMAND_HEADER
      | SERVER_CONTEXT_STATE_END_OF_HEADER \<Rightarrow> MILTER_COMMAND_END_OF_HEADER
      | SERVER_CONTEXT_STATE_BODY \<Rightarrow> MILTER_COMMAND_BODY
      | SERVER_CONTEXT_STATE_END_OF_MESSAGE \<Rightarrow> MILTER_COMMAND_END_OF_MESSAGE
      | _ \<Rightarrow> MILTER_COMMAND_UNKNOWN)"

text \<open>\<open>None\<close> is \<open>-1\<close>.\<close>

definition fetch_first_command_for_child_in_queue :: "milter_command list \<Rightarrow> milter_command option" where
  "fetch_first_command_for_child_in_queue queue =
     (case queue of [] \<Rightarrow> None | command # rest \<Rightarrow> Some command)"

definition get_next_command :: "children \<Rightarrow> server_context_state \<Rightarrow> milter_command option" where
  "get_next_command ch st =
     (case dropWhile (\<lambda>c. c \<noteq> state_to_command st) (command_queue ch) of
        [] \<Rightarrow> None
      | node # rest \<Rightarrow> fetch_first_command_for_child_in_queue rest)"

definition init_command_waiting_child_queue ::
    "children_environment \<Rightarrow> children \<Rightarrow> milter_command \<Rightarrow> children" where
  "init_command_waiting_child_queue env ch command =
     (let ch = (if command \<in> set (command_queue ch) then ch
                else ch\<lparr>command_queue := command_queue ch @ [command]\<rparr>)
      in if command_waiting_child_queue ch \<noteq> [] then ch
         else fold (\<lambda>i ch.
                if milter_server_context_is_processing_message (context_of ch i)
                then if milter_server_context_has_accepted_recipient (context_of ch i)
                     then ch\<lparr>command_waiting_child_queue := command_waiting_child_queue ch @ [i]\<rparr>
                     else snd (call_child env i Call_abort ch)
                else ch) (all_children ch) ch)"

subsection \<open>Sending to one child\<close>

definition fallback_status_of :: "children \<Rightarrow> nat \<Rightarrow> milter_status" where
  "fallback_status_of ch i = child_fallback_status (milters ch ! i)"

text \<open>A \<open>continue\<close> is pretended when the child does not answer in this state.\<close>

definition child_need_reply :: "children \<Rightarrow> nat \<Rightarrow> server_context_state \<Rightarrow> bool \<times> children" where
  "child_need_reply ch i st =
     (case milter_server_context_need_reply (context_of ch i) st of
        Ok b \<Rightarrow> (b, ch) | _ \<Rightarrow> (True, fail Null_pointer ch))"

definition pretend_continue :: "children_environment \<Rightarrow> children \<Rightarrow> nat \<Rightarrow> children" where
  "pretend_continue env ch i =
     (case child_need_reply ch i (processing_state ch) of
        (need, ch) \<Rightarrow> if need then ch else env_continue env i ch)"

definition send_next_header_to_child ::
    "children_environment \<Rightarrow> children \<Rightarrow> nat \<Rightarrow> milter_status \<times> children" where
  "send_next_header_to_child env ch i =
     (let ch = ch\<lparr>processing_state := SERVER_CONTEXT_STATE_HEADER,
                  processing_header_index := processing_header_index ch + 1\<rparr>
      in case children_headers ch of
           None \<Rightarrow> (MILTER_STATUS_NOT_CHANGE, fail Null_pointer ch)
         | Some hs \<Rightarrow>
             (case milter_headers_get_nth_header hs (processing_header_index ch) of
                None \<Rightarrow> (MILTER_STATUS_NOT_CHANGE, ch)
              | Some h \<Rightarrow>
                  (let (convert, ch) = need_header_value_leading_space_conversion ch i;
                       value = map_option (\<lambda>v. if convert \<and> take 1 v = '' '' then drop 1 v else v)
                                 (header_value h);
                       (ok, ch) = call_child env i (Call_header (header_name h) value) ch
                   in if ok then (MILTER_STATUS_PROGRESS, pretend_continue env ch i)
                      else (fallback_status_of ch i, ch))))"

definition init_child_for_body_string :: "children \<Rightarrow> milter_status \<times> children" where
  "init_child_for_body_string ch = (MILTER_STATUS_NOT_CHANGE, ch\<lparr>sent_body_offset := 0\<rparr>)"

definition init_child_for_body_file ::
    "children_environment \<Rightarrow> children \<Rightarrow> nat \<Rightarrow> milter_status \<times> children" where
  "init_child_for_body_file env ch i =
     (case children_body_file ch of
        None \<Rightarrow> (MILTER_STATUS_NOT_CHANGE, ch)
      | Some f \<Rightarrow>
          if \<not> env_file env Seek_file
          then (let ch = body_error env ch in (fallback_status_of ch i, ch))
          else (MILTER_STATUS_NOT_CHANGE, ch\<lparr>children_body_file := Some (f\<lparr>file_position := 0\<rparr>)\<rparr>))"

definition init_child_for_body ::
    "children_environment \<Rightarrow> children \<Rightarrow> nat \<Rightarrow> milter_status \<times> children" where
  "init_child_for_body env ch i =
     (let ch = ch\<lparr>processing_state := SERVER_CONTEXT_STATE_BODY,
                  replaced_body_for_each_child := False, sending_body := True\<rparr>
      in if children_body ch \<noteq> None then init_child_for_body_string ch
         else init_child_for_body_file env ch i)"

definition send_body_to_child_string ::
    "children_environment \<Rightarrow> children \<Rightarrow> nat \<Rightarrow> bytes \<Rightarrow> milter_status \<times> children" where
  "send_body_to_child_string env ch i b =
     (if length b \<le> sent_body_offset ch then (MILTER_STATUS_NOT_CHANGE, ch)
      else
        let write_size = min (length b - sent_body_offset ch) (env_chunk_size env);
            (ok, ch) = call_child env i (Call_body (take write_size (drop (sent_body_offset ch) b))) ch
        in if ok
           then (MILTER_STATUS_PROGRESS, init_command_waiting_child_queue env
                  (ch\<lparr>sent_body_offset := sent_body_offset ch + write_size\<rparr>) MILTER_COMMAND_BODY)
           else (fallback_status_of ch i, ch))"

text \<open>With a chunk size of 0, a read succeeds without reading anything.\<close>

definition send_body_to_child_file ::
    "children_environment \<Rightarrow> children \<Rightarrow> nat \<Rightarrow> milter_status \<times> children" where
  "send_body_to_child_file env ch i =
     (case children_body_file ch of
        None \<Rightarrow> (MILTER_STATUS_NOT_CHANGE, ch)
      | Some f \<Rightarrow>
          if \<not> env_file env Read_file
          then (let ch = body_error env ch in (fallback_status_of ch i, ch))
          else if 0 < env_chunk_size env \<and> length (file_content f) \<le> file_position f
          then (MILTER_STATUS_NOT_CHANGE, ch)
          else
            let chunk = take (env_chunk_size env) (drop (file_position f) (file_content f));
                ch = ch\<lparr>children_body_file :=
                       Some (f\<lparr>file_position := file_position f + length chunk\<rparr>)\<rparr>;
                (ok, ch) = call_child env i (Call_body chunk) ch
            in (if ok then MILTER_STATUS_PROGRESS else fallback_status_of ch i, ch))"

definition send_body_to_child ::
    "children_environment \<Rightarrow> children \<Rightarrow> nat \<Rightarrow> milter_status \<times> children" where
  "send_body_to_child env ch i =
     (let ch = ch\<lparr>processing_state := SERVER_CONTEXT_STATE_BODY\<rparr>
      in if skip_body (context_of ch i) then (MILTER_STATUS_NOT_CHANGE, ch\<lparr>sending_body := False\<rparr>)
         else
           let (status, ch) =
                 (case children_body ch of
                    Some b \<Rightarrow> send_body_to_child_string env ch i b
                  | None \<Rightarrow> send_body_to_child_file env ch i);
               ch = (if status = MILTER_STATUS_PROGRESS then pretend_continue env ch i else ch)
           in (status, if status \<noteq> MILTER_STATUS_PROGRESS then ch\<lparr>sending_body := False\<rparr> else ch))"

text \<open>
  The chunk of the end of message was copied up to its first NUL byte, but is sent with its
  full size: more than the copy and its terminator is read behind it.
\<close>

definition end_of_message_argument :: "children \<Rightarrow> bytes option \<times> children" where
  "end_of_message_argument ch =
     (case end_of_message_chunk ch of
        None \<Rightarrow> (None, ch)
      | Some s \<Rightarrow>
          (Some (take (end_of_message_size ch) (s @ [NUL])),
           if end_of_message_size ch \<le> length s + 1 then ch else fail Chunk_overread ch))"

definition send_command_to_child ::
    "children_environment \<Rightarrow> children \<Rightarrow> nat \<Rightarrow> milter_command \<Rightarrow> milter_status \<times> children" where
  "send_command_to_child env ch i command =
     (case command of
        MILTER_COMMAND_HEADER \<Rightarrow> send_next_header_to_child env ch i
      | MILTER_COMMAND_END_OF_HEADER \<Rightarrow>
          (let ch = ch\<lparr>processing_state := SERVER_CONTEXT_STATE_END_OF_HEADER\<rparr>;
               fallback = fallback_status_of ch i;
               (ok, ch) = call_child env i Call_end_of_header ch
           in if ok then (MILTER_STATUS_PROGRESS, pretend_continue env ch i) else (fallback, ch))
      | MILTER_COMMAND_BODY \<Rightarrow> send_body_to_child env ch i
      | MILTER_COMMAND_END_OF_MESSAGE \<Rightarrow>
          (let ch = ch\<lparr>processing_header_index := 0,
                       processing_state := SERVER_CONTEXT_STATE_END_OF_MESSAGE\<rparr>;
               fallback = fallback_status_of ch i;
               (chunk, ch) = end_of_message_argument ch;
               (ok, ch) = call_child env i (Call_end_of_message chunk) ch
           in (if ok then MILTER_STATUS_PROGRESS else fallback, ch))
      | _ \<Rightarrow> (fallback_status_of ch i, ch))"

definition send_next_command ::
    "children_environment \<Rightarrow> children \<Rightarrow> nat \<Rightarrow> server_context_state \<Rightarrow> milter_status \<times> children" where
  "send_next_command env ch i st =
     (case get_next_command ch st of
        None \<Rightarrow> (MILTER_STATUS_NOT_CHANGE, ch)
      | Some command \<Rightarrow>
          (let (status, ch) =
             (if command = MILTER_COMMAND_BODY \<and> st \<noteq> SERVER_CONTEXT_STATE_BODY
              then init_child_for_body env ch i else (MILTER_STATUS_NOT_CHANGE, ch))
           in if status \<noteq> MILTER_STATUS_NOT_CHANGE then (status, ch)
              else send_command_to_child env ch i command))"

definition send_first_command_to_next_child ::
    "children_environment \<Rightarrow> children \<Rightarrow> nat \<Rightarrow> milter_status \<times> children" where
  "send_first_command_to_next_child env ch i =
     (let ch = ch\<lparr>processing_header_index := 0,
                  command_waiting_child_queue := remove1 i (command_waiting_child_queue ch)\<rparr>
      in case get_first_child_in_command_waiting_child_queue ch of
           None \<Rightarrow> (MILTER_STATUS_PROGRESS,
                    emit_reply_for_message_oriented_command env ch (children_state ch))
         | Some next_child \<Rightarrow>
             (case fetch_first_command_for_child_in_queue (command_queue ch) of
                None \<Rightarrow> (MILTER_STATUS_PROGRESS, children_emit env Children_continue ch)
              | Some command \<Rightarrow>
                  (MILTER_STATUS_PROGRESS, snd (send_command_to_child env ch next_child command))))"

definition send_command_to_first_waiting_child ::
    "children_environment \<Rightarrow> children \<Rightarrow> milter_command \<Rightarrow> milter_status \<times> children" where
  "send_command_to_first_waiting_child env ch command =
     (case get_first_child_in_command_waiting_child_queue ch of
        None \<Rightarrow> (MILTER_STATUS_NOT_CHANGE, ch)
      | Some i \<Rightarrow> send_command_to_child env ch i command)"

subsection \<open>The last answer\<close>

definition after_last_reply :: "children_environment \<Rightarrow> milter_status \<Rightarrow> children \<Rightarrow> children" where
  "after_last_reply env status ch =
     (let ch = emit_reply_status_of_state env ch (processing_state ch)
      in if status = MILTER_STATUS_DISCARD \<or>
            (status = MILTER_STATUS_REJECT \<or> status = MILTER_STATUS_TEMPORARY_FAILURE) \<and>
            processing_state ch \<noteq> SERVER_CONTEXT_STATE_ENVELOPE_RECIPIENT
         then abort_all_children env ch else ch)"

definition remove_child_from_queue ::
    "children_environment \<Rightarrow> children \<Rightarrow> nat \<Rightarrow> milter_status \<times> children" where
  "remove_child_from_queue env ch i =
     (let ch = ch\<lparr>reply_queue := remove1 i (reply_queue ch)\<rparr>
      in if reply_queue ch \<noteq> [] then (MILTER_STATUS_PROGRESS, ch)
         else
           let status = get_reply_status_for_state ch (processing_state ch)
           in case pending_message_request ch of
                None \<Rightarrow> (status, after_last_reply env status ch)
              | Some request \<Rightarrow>
                  (let (processed, ch) = (if status = MILTER_STATUS_CONTINUE
                                          then env_pending env request ch else (False, ch));
                       status = (if processed then MILTER_STATUS_PROGRESS else status);
                       ch = dispose_pending_message_request ch
                   in if status = MILTER_STATUS_PROGRESS then (status, ch)
                      else (status, after_last_reply env status ch)))"

end
