(* ===== verification/Children_Replies.thy ===== *)
theory Children_Replies
  imports Children_Flow
begin

text \<open>
  The answers of the children in \<open>milter-manager-children.c\<close>, one handler per signal of a
  child's context, and the commands that send to all children at once.
\<close>

subsection \<open>Answers\<close>

definition set_message_processing :: "nat \<Rightarrow> bool \<Rightarrow> children \<Rightarrow> children" where
  "set_message_processing i p =
     update_context i (\<lambda>c. milter_server_context_set_processing_message c p)"

definition removed :: "children_environment \<Rightarrow> nat \<Rightarrow> children \<Rightarrow> children" where
  "removed env i ch = snd (remove_child_from_queue env ch i)"

definition cb_continue :: "children_environment \<Rightarrow> children \<Rightarrow> nat \<Rightarrow> children" where
  "cb_continue env ch i =
     (let st = ctx_state (context_of ch i);
          ch = compile_reply_status ch st MILTER_STATUS_CONTINUE;
          (status, ch) =
            (case st of
               SERVER_CONTEXT_STATE_END_OF_HEADER \<Rightarrow> send_next_command env ch i st
             | SERVER_CONTEXT_STATE_HEADER \<Rightarrow>
                 if children_state ch < st then (MILTER_STATUS_NOT_CHANGE, ch)
                 else (case children_headers ch of
                         None \<Rightarrow> (MILTER_STATUS_NOT_CHANGE, fail Null_pointer ch)
                       | Some hs \<Rightarrow>
                           if processing_header_index ch < milter_headers_length hs
                           then send_next_header_to_child env ch i
                           else send_next_command env ch i st)
             | SERVER_CONTEXT_STATE_BODY \<Rightarrow>
                 if children_state ch < st then (MILTER_STATUS_NOT_CHANGE, ch)
                 else
                   let (status, ch) = (if sending_body ch then send_body_to_child env ch i
                                       else (MILTER_STATUS_NOT_CHANGE, ch))
                   in if status = MILTER_STATUS_NOT_CHANGE then send_next_command env ch i st
                      else (status, ch)
             | SERVER_CONTEXT_STATE_END_OF_MESSAGE \<Rightarrow> send_first_command_to_next_child env ch i
             | _ \<Rightarrow> (MILTER_STATUS_PROGRESS, removed env i ch))
      in handle_status env ch status)"

text \<open>The part temporary failure, reject and discard share.\<close>

definition end_message_for_all ::
    "children_environment \<Rightarrow> children \<Rightarrow> nat \<Rightarrow> server_context_state \<Rightarrow> children" where
  "end_message_for_all env ch i st =
     abort_all_children env
       (emit_reply_for_message_oriented_command env (set_message_processing i False ch) st)"

definition cb_temporary_failure :: "children_environment \<Rightarrow> children \<Rightarrow> nat \<Rightarrow> children" where
  "cb_temporary_failure env ch i =
     (let st = ctx_state (context_of ch i);
          status = (if is_evaluation_mode ch i then MILTER_STATUS_ACCEPT
                    else MILTER_STATUS_TEMPORARY_FAILURE);
          ch = compile_reply_status ch st status
      in case st of
           SERVER_CONTEXT_STATE_CONNECT \<Rightarrow> child_quit env ch i
         | SERVER_CONTEXT_STATE_HELO \<Rightarrow> child_quit env ch i
         | SERVER_CONTEXT_STATE_ENVELOPE_FROM \<Rightarrow> removed env i (set_message_processing i False ch)
         | SERVER_CONTEXT_STATE_DATA \<Rightarrow> removed env i (set_message_processing i False ch)
         | SERVER_CONTEXT_STATE_ENVELOPE_RECIPIENT \<Rightarrow> removed env i ch
         | SERVER_CONTEXT_STATE_HEADER \<Rightarrow> end_message_for_all env ch i st
         | SERVER_CONTEXT_STATE_END_OF_HEADER \<Rightarrow> end_message_for_all env ch i st
         | SERVER_CONTEXT_STATE_BODY \<Rightarrow> end_message_for_all env ch i st
         | SERVER_CONTEXT_STATE_END_OF_MESSAGE \<Rightarrow> end_message_for_all env ch i st
         | _ \<Rightarrow> child_quit env ch i)"

definition cb_reject :: "children_environment \<Rightarrow> children \<Rightarrow> nat \<Rightarrow> children" where
  "cb_reject env ch i =
     (let st = ctx_state (context_of ch i);
          status = (if is_evaluation_mode ch i then MILTER_STATUS_ACCEPT else MILTER_STATUS_REJECT);
          ch = compile_reply_status ch st status
      in case st of
           SERVER_CONTEXT_STATE_CONNECT \<Rightarrow> child_quit env ch i
         | SERVER_CONTEXT_STATE_HELO \<Rightarrow> child_quit env ch i
         | SERVER_CONTEXT_STATE_ENVELOPE_FROM \<Rightarrow> removed env i (set_message_processing i False ch)
         | SERVER_CONTEXT_STATE_DATA \<Rightarrow> removed env i (set_message_processing i False ch)
         | SERVER_CONTEXT_STATE_ENVELOPE_RECIPIENT \<Rightarrow> removed env i ch
         | SERVER_CONTEXT_STATE_HEADER \<Rightarrow> end_message_for_all env ch i st
         | SERVER_CONTEXT_STATE_END_OF_HEADER \<Rightarrow> end_message_for_all env ch i st
         | SERVER_CONTEXT_STATE_BODY \<Rightarrow> end_message_for_all env ch i st
         | SERVER_CONTEXT_STATE_END_OF_MESSAGE \<Rightarrow> end_message_for_all env ch i st
         | _ \<Rightarrow> child_quit env ch i)"

definition cb_reply_code ::
    "children_environment \<Rightarrow> children \<Rightarrow> nat \<Rightarrow> nat \<Rightarrow> bytes option \<Rightarrow> bytes option \<Rightarrow> children" where
  "cb_reply_code env ch i code extended_code message =
     (let ch = (dispose_reply_related_data ch)
                 \<lparr>children_reply_code := code, reply_extended_code := extended_code,
                  reply_message := message\<rparr>
      in if code div 100 = 4 then cb_temporary_failure env ch i else cb_reject env ch i)"

definition cb_accept :: "children_environment \<Rightarrow> children \<Rightarrow> nat \<Rightarrow> children" where
  "cb_accept env ch i =
     (let st = ctx_state (context_of ch i);
          ch = compile_reply_status ch st MILTER_STATUS_ACCEPT;
          next = (\<lambda>ch. snd (send_first_command_to_next_child env (set_message_processing i False ch) i))
      in case st of
           SERVER_CONTEXT_STATE_CONNECT \<Rightarrow> child_quit env ch i
         | SERVER_CONTEXT_STATE_HELO \<Rightarrow> child_quit env ch i
         | SERVER_CONTEXT_STATE_ENVELOPE_FROM \<Rightarrow> removed env i (set_message_processing i False ch)
         | SERVER_CONTEXT_STATE_DATA \<Rightarrow> removed env i (set_message_processing i False ch)
         | SERVER_CONTEXT_STATE_ENVELOPE_RECIPIENT \<Rightarrow> removed env i (set_message_processing i False ch)
         | SERVER_CONTEXT_STATE_HEADER \<Rightarrow> next ch
         | SERVER_CONTEXT_STATE_END_OF_HEADER \<Rightarrow> next ch
         | SERVER_CONTEXT_STATE_BODY \<Rightarrow> next ch
         | SERVER_CONTEXT_STATE_END_OF_MESSAGE \<Rightarrow> next ch
         | _ \<Rightarrow> child_quit env ch i)"

definition cb_discard :: "children_environment \<Rightarrow> children \<Rightarrow> nat \<Rightarrow> children" where
  "cb_discard env ch i =
     (let st = ctx_state (context_of ch i);
          status = (if is_evaluation_mode ch i then MILTER_STATUS_ACCEPT else MILTER_STATUS_DISCARD);
          ch = compile_reply_status ch st status
      in case st of
           SERVER_CONTEXT_STATE_ENVELOPE_FROM \<Rightarrow> removed env i (set_message_processing i False ch)
         | SERVER_CONTEXT_STATE_DATA \<Rightarrow> removed env i (set_message_processing i False ch)
         | SERVER_CONTEXT_STATE_ENVELOPE_RECIPIENT \<Rightarrow> removed env i ch
         | SERVER_CONTEXT_STATE_HEADER \<Rightarrow> end_message_for_all env ch i st
         | SERVER_CONTEXT_STATE_END_OF_HEADER \<Rightarrow> end_message_for_all env ch i st
         | SERVER_CONTEXT_STATE_BODY \<Rightarrow> end_message_for_all env ch i st
         | SERVER_CONTEXT_STATE_END_OF_MESSAGE \<Rightarrow> end_message_for_all env ch i st
         | _ \<Rightarrow> child_quit env ch i)"

definition cb_skip :: "children_environment \<Rightarrow> children \<Rightarrow> nat \<Rightarrow> children" where
  "cb_skip env ch i =
     (let st = ctx_state (context_of ch i);
          ch = compile_reply_status ch st MILTER_STATUS_SKIP
      in if children_state ch < SERVER_CONTEXT_STATE_END_OF_MESSAGE
         then children_emit env Children_continue ch
         else snd (send_next_command env ch i st))"

definition cb_stopped :: "children_environment \<Rightarrow> children \<Rightarrow> nat \<Rightarrow> children" where
  "cb_stopped env ch i =
     (let st = ctx_state (context_of ch i);
          abort = (\<lambda>ch. snd (call_child env i Call_abort ch));
          accept = (\<lambda>ch. compile_reply_status ch st MILTER_STATUS_ACCEPT);
          next = (\<lambda>ch. snd (send_first_command_to_next_child env (abort (accept ch)) i))
      in case st of
           SERVER_CONTEXT_STATE_CONNECT \<Rightarrow> child_quit env (abort (accept ch)) i
         | SERVER_CONTEXT_STATE_HELO \<Rightarrow> child_quit env (abort (accept ch)) i
         | SERVER_CONTEXT_STATE_ENVELOPE_FROM \<Rightarrow> cb_continue env (accept ch) i
         | SERVER_CONTEXT_STATE_ENVELOPE_RECIPIENT \<Rightarrow>
             cb_continue env (update_context i
               (\<lambda>c. milter_server_context_set_status c MILTER_STATUS_NOT_CHANGE) ch) i
         | SERVER_CONTEXT_STATE_DATA \<Rightarrow> next ch
         | SERVER_CONTEXT_STATE_HEADER \<Rightarrow> next ch
         | SERVER_CONTEXT_STATE_END_OF_HEADER \<Rightarrow> next ch
         | SERVER_CONTEXT_STATE_BODY \<Rightarrow> next ch
         | SERVER_CONTEXT_STATE_END_OF_MESSAGE \<Rightarrow> next ch
         | _ \<Rightarrow> child_quit env
                (abort (compile_reply_status ch st MILTER_STATUS_TEMPORARY_FAILURE)) i)"

subsection \<open>Failing children\<close>

text \<open>The three timeouts and an error of a child's context do the same.\<close>

definition child_failed :: "children_environment \<Rightarrow> children \<Rightarrow> nat \<Rightarrow> children" where
  "child_failed env ch i =
     (let ch = compile_reply_status ch (ctx_state (context_of ch i)) (fallback_status_of ch i)
      in removed env i (expire_child ch i))"

definition cb_writing_timeout :: "children_environment \<Rightarrow> children \<Rightarrow> nat \<Rightarrow> children" where
  "cb_writing_timeout env ch i = child_failed env ch i"

definition cb_reading_timeout :: "children_environment \<Rightarrow> children \<Rightarrow> nat \<Rightarrow> children" where
  "cb_reading_timeout env ch i = child_failed env ch i"

definition cb_end_of_message_timeout :: "children_environment \<Rightarrow> children \<Rightarrow> nat \<Rightarrow> children" where
  "cb_end_of_message_timeout env ch i = child_failed env ch i"

definition cb_error :: "children_environment \<Rightarrow> children \<Rightarrow> nat \<Rightarrow> children" where
  "cb_error env ch i = child_failed env ch i"

subsection \<open>Commands to all children\<close>

definition milter_manager_children_check_alive ::
    "children_environment \<Rightarrow> children \<Rightarrow> bool \<times> children" where
  "milter_manager_children_check_alive env ch =
     (if all_expired_as_fallback_on_negotiated ch then (False, ch)
      else if \<exists>i \<in> set (all_children ch). \<not> milter_server_context_is_quitted (context_of ch i)
      then (True, ch)
      else (False, children_emit env
              (Children_error MILTER_MANAGER_CHILDREN_ERROR_NO_ALIVE_MILTER) ch))"

definition milter_manager_children_check_processing_message ::
    "children_environment \<Rightarrow> children \<Rightarrow> bool \<times> children" where
  "milter_manager_children_check_processing_message env ch =
     (if \<exists>i \<in> set (all_children ch). milter_server_context_is_processing_message (context_of ch i)
      then (True, ch)
      else (False, children_emit env
              (Children_error MILTER_MANAGER_CHILDREN_ERROR_NO_MESSAGE_PROCESSING_MILTER) ch))"

text \<open>
  What the six commands share: the children in \<open>targets\<close> are queued, called one after the
  other, and a child that does not answer in this state counts as having continued.
\<close>

definition call_targets ::
    "children_environment \<Rightarrow> server_context_state \<Rightarrow> child_call \<Rightarrow> nat list \<Rightarrow> children \<Rightarrow>
     bool \<times> children" where
  "call_targets env st call targets ch =
     (let (success, ch) =
            fold (\<lambda>i (success, ch). case call_child env i call ch of (ok, ch) \<Rightarrow> (success \<or> ok, ch))
              targets (False, ch);
          ch = fold (\<lambda>i ch. case child_need_reply ch i st of
                              (need, ch) \<Rightarrow> if need then ch else cb_continue env ch i)
                 targets ch
      in (success, ch))"

definition queue_children :: "(server_context \<Rightarrow> bool) \<Rightarrow> children \<Rightarrow> children" where
  "queue_children p ch =
     ch\<lparr>reply_queue := filter (\<lambda>i. p (context_of ch i)) (all_children ch)\<rparr>"

definition alive :: "server_context \<Rightarrow> bool" where
  "alive c \<longleftrightarrow> \<not> milter_server_context_is_quitted c"

definition send_to_alive ::
    "children_environment \<Rightarrow> children \<Rightarrow> server_context_state \<Rightarrow> child_call \<Rightarrow> bool \<times> children" where
  "send_to_alive env ch st call =
     (case milter_manager_children_check_alive env ch of
        (False, ch) \<Rightarrow> (False, ch)
      | (True, ch) \<Rightarrow>
          (let ch = queue_children alive (init_reply_queue ch st)
           in call_targets env st call (reply_queue ch) ch))"

definition milter_manager_children_connect ::
    "children_environment \<Rightarrow> children \<Rightarrow> bytes \<Rightarrow> sockaddr \<Rightarrow> bool \<times> children" where
  "milter_manager_children_connect env ch host_name address =
     send_to_alive env (ch\<lparr>smtp_client_address := Some address\<rparr>) SERVER_CONTEXT_STATE_CONNECT
       (Call_connect host_name address)"

definition milter_manager_children_helo ::
    "children_environment \<Rightarrow> children \<Rightarrow> bytes \<Rightarrow> bool \<times> children" where
  "milter_manager_children_helo env ch fqdn =
     send_to_alive env ch SERVER_CONTEXT_STATE_HELO (Call_helo fqdn)"

definition milter_manager_children_envelope_from ::
    "children_environment \<Rightarrow> children \<Rightarrow> bytes \<Rightarrow> bool \<times> children" where
  "milter_manager_children_envelope_from env ch sender =
     send_to_alive env ch SERVER_CONTEXT_STATE_ENVELOPE_FROM (Call_envelope_from sender)"

definition milter_manager_children_unknown ::
    "children_environment \<Rightarrow> children \<Rightarrow> bytes \<Rightarrow> bool \<times> children" where
  "milter_manager_children_unknown env ch command =
     send_to_alive env ch SERVER_CONTEXT_STATE_UNKNOWN (Call_unknown command)"

definition milter_manager_children_envelope_recipient ::
    "children_environment \<Rightarrow> children \<Rightarrow> bytes \<Rightarrow> bool \<times> children" where
  "milter_manager_children_envelope_recipient env ch recipient =
     (case milter_manager_children_check_processing_message env ch of
        (False, ch) \<Rightarrow> (False, ch)
      | (True, ch) \<Rightarrow>
          (let st = SERVER_CONTEXT_STATE_ENVELOPE_RECIPIENT;
               ch = queue_children milter_server_context_is_processing_message (init_reply_queue ch st)
           in call_targets env st (Call_envelope_recipient recipient) (reply_queue ch) ch))"

text \<open>DATA: a child all of whose recipients were refused is left out, and told so.\<close>

definition queue_for_data :: "children_environment \<Rightarrow> children \<Rightarrow> children" where
  "queue_for_data env ch =
     fold (\<lambda>i ch.
       if milter_server_context_is_processing_message (context_of ch i)
       then if milter_server_context_has_accepted_recipient (context_of ch i)
            then ch\<lparr>reply_queue := reply_queue ch @ [i]\<rparr>
            else snd (call_child env i Call_abort ch)
       else ch) (all_children ch) ch"

definition milter_manager_children_data ::
    "children_environment \<Rightarrow> children \<Rightarrow> bool \<times> children" where
  "milter_manager_children_data env ch =
     (case milter_manager_children_check_processing_message env ch of
        (False, ch) \<Rightarrow> (False, ch)
      | (True, ch) \<Rightarrow>
          (let st = SERVER_CONTEXT_STATE_DATA;
               ch = queue_for_data env (init_reply_queue ch st)
           in call_targets env st Call_data (reply_queue ch) ch))"

subsection \<open>Message commands\<close>

text \<open>Asks for the version of the option.\<close>

definition need_data_command_emulation :: "children \<Rightarrow> bool \<times> children" where
  "need_data_command_emulation ch =
     (if children_state ch = SERVER_CONTEXT_STATE_ENVELOPE_RECIPIENT
      then case children_option ch of
             None \<Rightarrow> (False, fail Null_pointer ch)
           | Some opt \<Rightarrow> (4 \<le> version opt, ch)
      else (False, ch))"

text \<open>
  The frame of the four message commands. An MTA may leave out DATA: the children that know
  the command get it, and the command that came instead waits for their answers. \<open>g_strndup\<close>
  keeps a chunk up to its first NUL byte, and what follows in the copy is NUL bytes.
\<close>

definition strndup :: "bytes \<Rightarrow> bytes" where
  "strndup chunk =
     (let s = takeWhile (\<lambda>c. c \<noteq> NUL) chunk in s @ replicate (length chunk - length s) NUL)"

definition message_command ::
    "children_environment \<Rightarrow> children \<Rightarrow> pending_message_request \<Rightarrow> (children \<Rightarrow> bool \<times> children) \<Rightarrow>
     bool \<times> children" where
  "message_command env ch request proceed =
     (case milter_manager_children_check_processing_message env ch of
        (False, ch) \<Rightarrow> (False, ch)
      | (True, ch) \<Rightarrow>
          (case need_data_command_emulation ch of
             (False, ch) \<Rightarrow> proceed ch
           | (True, ch) \<Rightarrow>
               (case milter_manager_children_data env ch of
                  (False, ch) \<Rightarrow> (False, ch)
                | (True, ch) \<Rightarrow> (True, ch\<lparr>pending_message_request := Some request\<rparr>))))"

definition milter_manager_children_header ::
    "children_environment \<Rightarrow> children \<Rightarrow> bytes \<Rightarrow> bytes option \<Rightarrow> bool \<times> children" where
  "milter_manager_children_header env ch name value =
     message_command env ch (Pending_header name value) (\<lambda>ch.
       let ch = set_state ch SERVER_CONTEXT_STATE_HEADER;
           hs = (case children_headers ch of None \<Rightarrow> [] | Some hs \<Rightarrow> hs);
           ch = ch\<lparr>children_headers := Some (milter_headers_append_header hs name value)\<rparr>;
           ch = init_command_waiting_child_queue env ch MILTER_COMMAND_HEADER;
           (status, ch) = send_command_to_first_waiting_child env ch MILTER_COMMAND_HEADER
       in (status = MILTER_STATUS_PROGRESS, ch))"

definition milter_manager_children_end_of_header ::
    "children_environment \<Rightarrow> children \<Rightarrow> bool \<times> children" where
  "milter_manager_children_end_of_header env ch =
     message_command env ch Pending_end_of_header (\<lambda>ch.
       let ch = set_state ch SERVER_CONTEXT_STATE_END_OF_HEADER;
           ch = init_command_waiting_child_queue env ch MILTER_COMMAND_END_OF_HEADER;
           (status, ch) = send_command_to_first_waiting_child env ch MILTER_COMMAND_END_OF_HEADER
       in (status = MILTER_STATUS_PROGRESS, ch))"

definition milter_manager_children_body ::
    "children_environment \<Rightarrow> children \<Rightarrow> bytes \<Rightarrow> bool \<times> children" where
  "milter_manager_children_body env ch chunk =
     message_command env ch (Pending_body (strndup chunk)) (\<lambda>ch.
       let ch = init_command_waiting_child_queue env ch MILTER_COMMAND_BODY
       in case get_first_child_in_command_waiting_child_queue ch of
            None \<Rightarrow> (False, ch)
          | Some first_child \<Rightarrow>
              (case write_body env ch chunk of
                 (False, ch) \<Rightarrow> (False, ch)
               | (True, ch) \<Rightarrow>
                   (let ch = (set_state ch SERVER_CONTEXT_STATE_BODY)
                          \<lparr>replaced_body_for_each_child := False, sending_body := False\<rparr>
                    in if skip_body (context_of ch first_child)
                       then (True, env_continue env first_child
                              (update_context first_child (\<lambda>c.
                                 milter_server_context_set_state c SERVER_CONTEXT_STATE_BODY) ch))
                       else call_child env first_child (Call_body chunk) ch)))"

text \<open>\<open>g_strdup\<close> copies the chunk up to its first NUL byte; its size is kept as it was.\<close>

definition milter_manager_children_end_of_message ::
    "children_environment \<Rightarrow> children \<Rightarrow> bytes option \<Rightarrow> bool \<times> children" where
  "milter_manager_children_end_of_message env ch chunk =
     message_command env ch (Pending_end_of_message (map_option strndup chunk)) (\<lambda>ch.
       let ch = init_command_waiting_child_queue env ch MILTER_COMMAND_END_OF_MESSAGE;
           hs = (case children_headers ch of None \<Rightarrow> [] | Some hs \<Rightarrow> hs);
           ch = ch\<lparr>processing_header_index := 0, children_headers := Some hs,
                   original_headers := (case original_headers ch of
                       None \<Rightarrow> Some (milter_headers_copy hs) | Some original \<Rightarrow> Some original),
                   end_of_message_chunk := map_option (takeWhile (\<lambda>c. c \<noteq> NUL)) chunk,
                   end_of_message_size := (case chunk of None \<Rightarrow> 0 | Some b \<Rightarrow> length b),
                   children_body_file := (if env_file env Seek_file
                       then map_option (\<lambda>f. f\<lparr>file_position := 0\<rparr>) (children_body_file ch)
                       else children_body_file ch)\<rparr>;
           ch = set_state ch SERVER_CONTEXT_STATE_END_OF_MESSAGE;
           (status, ch) = send_command_to_first_waiting_child env ch MILTER_COMMAND_END_OF_MESSAGE
       in (status = MILTER_STATUS_PROGRESS, ch))"

definition process_pending_message_request ::
    "children_environment \<Rightarrow> pending_message_request \<Rightarrow> children \<Rightarrow> bool \<times> children" where
  "process_pending_message_request env request ch =
     (case request of
        Pending_header name value \<Rightarrow> milter_manager_children_header env ch name value
      | Pending_end_of_header \<Rightarrow> milter_manager_children_end_of_header env ch
      | Pending_body chunk \<Rightarrow> milter_manager_children_body env ch chunk
      | Pending_end_of_message chunk \<Rightarrow> milter_manager_children_end_of_message env ch chunk)"

definition milter_manager_children_is_waiting_reply :: "children \<Rightarrow> bool" where
  "milter_manager_children_is_waiting_reply ch =
     (if children_state ch \<in> {SERVER_CONTEXT_STATE_NEGOTIATE, SERVER_CONTEXT_STATE_CONNECT,
           SERVER_CONTEXT_STATE_HELO, SERVER_CONTEXT_STATE_ENVELOPE_FROM,
           SERVER_CONTEXT_STATE_ENVELOPE_RECIPIENT, SERVER_CONTEXT_STATE_DATA,
           SERVER_CONTEXT_STATE_UNKNOWN}
      then reply_queue ch \<noteq> []
      else if children_state ch \<in> {SERVER_CONTEXT_STATE_HEADER, SERVER_CONTEXT_STATE_END_OF_HEADER,
           SERVER_CONTEXT_STATE_BODY, SERVER_CONTEXT_STATE_END_OF_MESSAGE}
      then case get_first_child_in_command_waiting_child_queue ch of
             None \<Rightarrow> False
           | Some i \<Rightarrow> milter_server_context_is_processing (context_of ch i)
      else False)"

subsection \<open>The connected children\<close>

text \<open>
  A \<open>continue\<close> emitted on behalf of a child and a command that was kept back call the
  handlers again; \<open>n\<close> bounds how deep. The handlers of an expired child are disconnected.
\<close>

primrec connected :: "nat \<Rightarrow> children_environment \<Rightarrow> children_environment" where
  "connected 0 env =
     env\<lparr>env_continue := \<lambda>i. fail Recursion_limit,
         env_pending := \<lambda>request ch. (False, fail Recursion_limit ch)\<rparr>"
| "connected (Suc n) env =
     env\<lparr>env_continue := \<lambda>i ch. if child_connected (milters ch ! i)
           then cb_continue (connected n env) ch i else ch,
         env_pending := process_pending_message_request (connected n env)\<rparr>"

end
