(* ===== verification/Children_Negotiation.thy ===== *)
theory Children_Negotiation
  imports Children_Replies
begin

text \<open>
  Negotiation in \<open>milter-manager-children.c\<close>: connecting to the children, offering them the
  option of the MTA and merging their answers into it. The option the MTA offered, the one
  the children are offered and the one their answers are merged into are the same object.
\<close>

subsection \<open>The end of the negotiation\<close>

definition check_fallback_status_on_negotiate :: "children \<Rightarrow> children" where
  "check_fallback_status_on_negotiate ch =
     (let status =
        fold (\<lambda>i status.
          if negotiated (context_of ch i) then status
          else if milter_status_compare status (fallback_status_of ch i) < 0
          then fallback_status_of ch i else status) (all_children ch) MILTER_STATUS_CONTINUE
      in if status \<in> {MILTER_STATUS_REJECT, MILTER_STATUS_TEMPORARY_FAILURE, MILTER_STATUS_DISCARD}
         then fold (\<lambda>i ch.
                if \<not> negotiated (context_of ch i) then ch
                else expire_child (ch\<lparr>all_expired_as_fallback_on_negotiated := True\<rparr>) i)
                (all_children ch) ch
         else ch)"

definition reply_negotiate :: "children_environment \<Rightarrow> children \<Rightarrow> children" where
  "reply_negotiate env ch =
     (case children_option ch of
        None \<Rightarrow> children_emit env Children_abort ch
      | Some opt \<Rightarrow>
          let opt = milter_option_remove_step opt
                      (MILTER_STEP_NO_EVENT_MASK OR
                       (MILTER_STEP_YES_MASK AND
                        NOT (initial_yes_steps ch AND requested_yes_steps ch)));
              ch = children_emit env (Children_negotiate_reply opt (children_macros_requests ch))
                     (ch\<lparr>children_option := Some opt\<rparr>)
          in check_fallback_status_on_negotiate ch)"

definition remove_queue_in_negotiate :: "children_environment \<Rightarrow> children \<Rightarrow> nat \<Rightarrow> children" where
  "remove_queue_in_negotiate env ch i =
     (let ch = ch\<lparr>reply_queue := remove1 i (reply_queue ch)\<rparr>
      in if \<not> children_finished ch \<and> reply_queue ch = [] then reply_negotiate env ch else ch)"

definition cb_negotiate_reply ::
    "children_environment \<Rightarrow> children \<Rightarrow> nat \<Rightarrow> milter_option \<Rightarrow> macros_requests option \<Rightarrow> children" where
  "cb_negotiate_reply env ch i opt requests =
     (let ch = (case requests of
                  None \<Rightarrow> ch
                | Some rs \<Rightarrow> ch\<lparr>children_macros_requests :=
                    milter_macros_requests_merge (env_system env) (children_macros_requests ch) rs\<rparr>);
          ch = (case children_option ch of
                  Some own \<Rightarrow>
                    ch\<lparr>children_option := Some (snd (milter_option_merge own opt)),
                       requested_yes_steps := requested_yes_steps ch OR milter_option_get_step_yes opt,
                       children_negotiated := True\<rparr>
                | None \<Rightarrow> children_emit env
                    (Children_error MILTER_MANAGER_CHILDREN_ERROR_NO_NEGOTIATION) ch)
      in remove_queue_in_negotiate env ch i)"

text \<open>With no child at all, the idle source of the event loop replies.\<close>

definition cb_idle_reply_negotiate_on_no_child :: "children_environment \<Rightarrow> children \<Rightarrow> children" where
  "cb_idle_reply_negotiate_on_no_child env ch = reply_negotiate env ch"

subsection \<open>Connecting\<close>

definition prepare_retry_establish_connection :: "children \<Rightarrow> nat \<Rightarrow> bool \<Rightarrow> children" where
  "prepare_retry_establish_connection ch i is_retry =
     ch\<lparr>try_negotiate := try_negotiate ch @
        [\<lparr>negotiate_child = i, negotiate_is_retry = is_retry, negotiate_timer = True\<rparr>]\<rparr>"

definition prepare_negotiate :: "children \<Rightarrow> nat \<Rightarrow> bool \<Rightarrow> children" where
  "prepare_negotiate ch i is_retry =
     ch\<lparr>try_negotiate := try_negotiate ch @
        [\<lparr>negotiate_child = i, negotiate_is_retry = is_retry, negotiate_timer = False\<rparr>]\<rparr>"

definition forget_negotiate_data :: "children \<Rightarrow> negotiate_data \<Rightarrow> children" where
  "forget_negotiate_data ch data = ch\<lparr>try_negotiate := remove1 data (try_negotiate ch)\<rparr>"

definition child_establish_connection ::
    "children_environment \<Rightarrow> children \<Rightarrow> nat \<Rightarrow> bool \<Rightarrow> bool \<times> children" where
  "child_establish_connection env ch i is_retry =
     (if \<not> env_establish env i
      then
        let ch = children_emit env (Children_error Connection_error) ch
        in (False, if is_retry then expire_child (remove_queue_in_negotiate env ch i) i
                   else prepare_retry_establish_connection ch i True)
      else (True, prepare_negotiate ch i is_retry))"

definition retry_establish_connection ::
    "children_environment \<Rightarrow> children \<Rightarrow> negotiate_data \<Rightarrow> children" where
  "retry_establish_connection env ch data =
     forget_negotiate_data (snd (child_establish_connection env ch (negotiate_child data) True)) data"

definition clear_try_negotiate_data ::
    "children_environment \<Rightarrow> children \<Rightarrow> negotiate_data \<Rightarrow> children" where
  "clear_try_negotiate_data env ch data =
     forget_negotiate_data
       (expire_child (remove_queue_in_negotiate env ch (negotiate_child data)) (negotiate_child data))
       data"

definition cb_connection_timeout ::
    "children_environment \<Rightarrow> children \<Rightarrow> negotiate_data \<Rightarrow> children" where
  "cb_connection_timeout env ch data = clear_try_negotiate_data env ch data"

definition milter_manager_children_start_child ::
    "children_environment \<Rightarrow> children \<Rightarrow> nat \<Rightarrow> bool \<times> children" where
  "milter_manager_children_start_child env ch i =
     (case env_launch env i of
        Launch_skipped \<Rightarrow> (False, ch)
      | Launch_failed \<Rightarrow> (False, children_emit env (Children_error Launcher_error) ch)
      | Launched \<Rightarrow> (True, ch))"

text \<open>\<open>from_context\<close>: the error is of the domain of the server context.\<close>

definition cb_connection_error ::
    "children_environment \<Rightarrow> children \<Rightarrow> negotiate_data \<Rightarrow> bool \<Rightarrow> children" where
  "cb_connection_error env ch data from_context =
     (if \<not> from_context \<or> negotiate_is_retry data
      then clear_try_negotiate_data env (children_emit env (Children_error Connection_error) ch) data
      else if \<not> env_privilege env then clear_try_negotiate_data env ch data
      else case milter_manager_children_start_child env ch (negotiate_child data) of
             (False, ch) \<Rightarrow> clear_try_negotiate_data env ch data
           | (True, ch) \<Rightarrow>
               forget_negotiate_data
                 (prepare_retry_establish_connection ch (negotiate_child data) True) data)"

definition cb_ready :: "children_environment \<Rightarrow> children \<Rightarrow> negotiate_data \<Rightarrow> children" where
  "cb_ready env ch data =
     (let i = negotiate_child data;
          ch = ch\<lparr>milters := (milters ch)[i := (milters ch ! i)\<lparr>child_connected := True\<rparr>]\<rparr>;
          ch = (case children_option ch of
                  None \<Rightarrow> ch | Some opt \<Rightarrow> snd (call_child env i (Call_negotiate opt) ch))
      in forget_negotiate_data ch data)"

definition MAX_SUPPORTED_MILTER_PROTOCOL_VERSION :: u32 where
  "MAX_SUPPORTED_MILTER_PROTOCOL_VERSION = 6"

definition milter_manager_children_negotiate ::
    "children_environment \<Rightarrow> children \<Rightarrow> milter_option option \<Rightarrow> bool \<times> children" where
  "milter_manager_children_negotiate env ch opt =
     (let ch = (case opt of
                  None \<Rightarrow> ch\<lparr>children_option := None\<rparr>
                | Some opt \<Rightarrow>
                    let opt = (if MAX_SUPPORTED_MILTER_PROTOCOL_VERSION < version opt
                               then milter_option_set_version opt MAX_SUPPORTED_MILTER_PROTOCOL_VERSION
                               else opt)
                    in ch\<lparr>children_option := Some opt,
                          initial_yes_steps := milter_option_get_step_yes opt\<rparr>)
      in if milters ch = []
         then (True, ch\<lparr>children_negotiated := True, lazy_reply_negotiate := True\<rparr>)
         else
           let ch = init_reply_queue ch SERVER_CONTEXT_STATE_NEGOTIATE;
               ch = ch\<lparr>reply_queue := all_children ch\<rparr>
           in (True, fold (\<lambda>i ch.
                 case child_establish_connection env ch i False of
                   (True, ch) \<Rightarrow> ch
                 | (False, ch) \<Rightarrow>
                     if env_privilege env
                     then (case milter_manager_children_start_child env ch i of
                             (True, ch) \<Rightarrow> prepare_retry_establish_connection ch i False
                           | (False, ch) \<Rightarrow> ch)
                     else ch) (all_children ch) ch))"

subsection \<open>Macros\<close>

definition takes_macros :: "server_context \<Rightarrow> milter_command \<Rightarrow> bool" where
  "takes_macros c command =
     (case command of
        MILTER_COMMAND_CONNECT \<Rightarrow> negotiated c
      | MILTER_COMMAND_HELO \<Rightarrow> negotiated c
      | MILTER_COMMAND_ENVELOPE_FROM \<Rightarrow> \<not> milter_server_context_is_quitted c
      | MILTER_COMMAND_UNKNOWN \<Rightarrow> \<not> milter_server_context_is_quitted c
      | MILTER_COMMAND_ENVELOPE_RECIPIENT \<Rightarrow> milter_server_context_is_processing_message c
      | MILTER_COMMAND_DATA \<Rightarrow> milter_server_context_is_processing_message c
      | MILTER_COMMAND_HEADER \<Rightarrow> milter_server_context_is_processing_message c
      | MILTER_COMMAND_END_OF_HEADER \<Rightarrow> milter_server_context_is_processing_message c
      | MILTER_COMMAND_BODY \<Rightarrow> milter_server_context_is_processing_message c
      | MILTER_COMMAND_END_OF_MESSAGE \<Rightarrow> milter_server_context_is_processing_message c
      | _ \<Rightarrow> True)"

definition milter_manager_children_define_macro ::
    "children \<Rightarrow> milter_command \<Rightarrow> macro_table \<Rightarrow> bool \<times> children" where
  "milter_manager_children_define_macro ch command macros =
     (True, fold (\<lambda>i ch.
        if takes_macros (context_of ch i) command
        then update_context i (\<lambda>c. c\<lparr>ctx_agent :=
               milter_protocol_agent_set_macros_hash_table (ctx_agent c) command macros\<rparr>) ch
        else ch) (all_children ch) ch)"

subsection \<open>A child that is gone\<close>

definition cb_finished :: "children_environment \<Rightarrow> children \<Rightarrow> nat \<Rightarrow> children" where
  "cb_finished env ch i =
     (let ch = (if milter_server_context_is_processing (context_of ch i)
                then
                  let fallback = fallback_status_of ch i;
                      st = ctx_state (context_of ch i);
                      ch = update_context i (\<lambda>c. milter_server_context_set_status c fallback) ch
                  in compile_reply_status ch st fallback
                else ch);
          ch = expire_child ch i
      in case processing_state ch of
           SERVER_CONTEXT_STATE_NEGOTIATE \<Rightarrow> remove_queue_in_negotiate env ch i
         | st \<Rightarrow>
             if st \<in> {SERVER_CONTEXT_STATE_HEADER, SERVER_CONTEXT_STATE_END_OF_HEADER,
                  SERVER_CONTEXT_STATE_BODY, SERVER_CONTEXT_STATE_END_OF_MESSAGE}
             then if \<not> emitted_reply_for_message_oriented_command ch \<and>
                     milter_server_context_is_processing (context_of ch i)
                  then snd (send_first_command_to_next_child env ch i) else ch
             else removed env i ch)"

end
