(* ===== verification/Leader.thy ===== *)
theory Leader
  imports Client_Context_Commands Children_Negotiation
begin

text \<open>
  \<open>milter/manager/milter-manager-leader.c\<close>: the leader of a session, which hands the commands
  its client context receives to the children and the children's answers back to the client
  context, and the callbacks of \<open>milter-manager.c\<close> that connect it to the context.

  A leader and its client context are changed together. The children never look at either,
  so the signals a call makes them emit are handled, in order, when the call returns. The
  signal \<open>finished\<close> of the context, which follows a shutdown, is an input of its own. What
  the leader asks of the configuration, and the observers of \<open>connection-check\<close>, are the
  record \<open>leader_configuration\<close>.
\<close>

subsection \<open>State\<close>

datatype leader_state =
    LEADER_STATE_INVALID
  | LEADER_STATE_START
  | LEADER_STATE_NEGOTIATE
  | LEADER_STATE_NEGOTIATE_REPLIED
  | LEADER_STATE_CONNECT
  | LEADER_STATE_CONNECT_REPLIED
  | LEADER_STATE_HELO
  | LEADER_STATE_HELO_REPLIED
  | LEADER_STATE_ENVELOPE_FROM
  | LEADER_STATE_ENVELOPE_FROM_REPLIED
  | LEADER_STATE_ENVELOPE_RECIPIENT
  | LEADER_STATE_ENVELOPE_RECIPIENT_REPLIED
  | LEADER_STATE_DATA
  | LEADER_STATE_DATA_REPLIED
  | LEADER_STATE_UNKNOWN
  | LEADER_STATE_UNKNOWN_REPLIED
  | LEADER_STATE_HEADER
  | LEADER_STATE_HEADER_REPLIED
  | LEADER_STATE_END_OF_HEADER
  | LEADER_STATE_END_OF_HEADER_REPLIED
  | LEADER_STATE_BODY
  | LEADER_STATE_BODY_REPLIED
  | LEADER_STATE_END_OF_MESSAGE
  | LEADER_STATE_END_OF_MESSAGE_REPLIED
  | LEADER_STATE_QUIT
  | LEADER_STATE_QUIT_REPLIED
  | LEADER_STATE_ABORT
  | LEADER_STATE_ABORT_REPLIED

datatype leader_error =
    LEADER_ERROR_INVALID_STATE
  | Leader_client_error client_error
  | Leader_children_error children_error

datatype leader_event =
    Leader_error leader_error
  | Leader_finished

text \<open>
  \<open>leader_attached\<close>: the callbacks of \<open>milter-manager.c\<close> are connected to the client
  context. \<open>leader_crashed\<close>: a \<open>NULL\<close> error was dereferenced.
\<close>

record leader =
  leader_children :: "children option"
  leader_state :: leader_state
  sent_end_of_message :: bool
  leader_processing :: bool
  leader_attached :: bool
  leader_emitted :: "leader_event list"
  leader_crashed :: bool

definition milter_manager_leader_init :: leader where
  "milter_manager_leader_init =
     \<lparr>leader_children = None, leader_state = LEADER_STATE_START, sent_end_of_message = False,
      leader_processing = False, leader_attached = True, leader_emitted = [],
      leader_crashed = False\<rparr>"

text \<open>
  \<open>cfg_children\<close> are the children the configuration has set up for the session,
  \<open>cfg_connection_check\<close> is what the observers of the leader's signal say.
\<close>

record leader_configuration =
  cfg_environment :: children_environment
  cfg_children :: "client_context \<Rightarrow> children"
  fallback_status :: milter_status
  fallback_status_at_disconnect :: milter_status
  cfg_connection_check :: "leader \<Rightarrow> bool"

type_synonym session = "leader \<times> client_context"

definition leader_emit :: "leader_event \<Rightarrow> session \<Rightarrow> session" where
  "leader_emit ev lc = (case lc of (l, c) \<Rightarrow> (l\<lparr>leader_emitted := leader_emitted l @ [ev]\<rparr>, c))"

definition leader_crash :: "session \<Rightarrow> session" where
  "leader_crash lc = (case lc of (l, c) \<Rightarrow> (l\<lparr>leader_crashed := True\<rparr>, c))"

definition set_leader_state :: "leader_state \<Rightarrow> leader \<Rightarrow> leader" where
  "set_leader_state st l = l\<lparr>leader_state := st\<rparr>"

subsection \<open>Replies\<close>

text \<open>The signals of the client context that carry a response.\<close>

datatype response_signal =
    Negotiate_response
  | Connect_response
  | Helo_response
  | Envelope_from_response
  | Envelope_recipient_response
  | Data_response
  | Unknown_response
  | Header_response
  | End_of_header_response
  | Body_response
  | End_of_message_response
  | Error_invalid_state_quit_response
  | Abort_response

definition state_to_response_signal_name :: "leader_state \<Rightarrow> response_signal option" where
  "state_to_response_signal_name st =
     (case st of
        LEADER_STATE_NEGOTIATE \<Rightarrow> Some Negotiate_response
      | LEADER_STATE_CONNECT \<Rightarrow> Some Connect_response
      | LEADER_STATE_HELO \<Rightarrow> Some Helo_response
      | LEADER_STATE_ENVELOPE_FROM \<Rightarrow> Some Envelope_from_response
      | LEADER_STATE_ENVELOPE_RECIPIENT \<Rightarrow> Some Envelope_recipient_response
      | LEADER_STATE_DATA \<Rightarrow> Some Data_response
      | LEADER_STATE_UNKNOWN \<Rightarrow> Some Unknown_response
      | LEADER_STATE_HEADER \<Rightarrow> Some Header_response
      | LEADER_STATE_END_OF_HEADER \<Rightarrow> Some End_of_header_response
      | LEADER_STATE_BODY \<Rightarrow> Some Body_response
      | LEADER_STATE_BODY_REPLIED \<Rightarrow> Some Body_response
      | LEADER_STATE_END_OF_MESSAGE \<Rightarrow> Some End_of_message_response
      | LEADER_STATE_QUIT \<Rightarrow> Some Error_invalid_state_quit_response
      | LEADER_STATE_ABORT \<Rightarrow> Some Abort_response
      | _ \<Rightarrow> None)"

text \<open>No class has a signal \<open>error-invalid-state-quit-response\<close>: its emission does nothing.\<close>

definition emit_response :: "response_signal \<Rightarrow> client_context \<Rightarrow> milter_status \<Rightarrow> client_context" where
  "emit_response sig =
     (case sig of
        Negotiate_response \<Rightarrow> (\<lambda>c. negotiate_response c None None)
      | Connect_response \<Rightarrow> connect_response
      | Helo_response \<Rightarrow> helo_response
      | Envelope_from_response \<Rightarrow> envelope_from_response
      | Envelope_recipient_response \<Rightarrow> envelope_recipient_response
      | Data_response \<Rightarrow> data_response
      | Unknown_response \<Rightarrow> unknown_response
      | Header_response \<Rightarrow> header_response
      | End_of_header_response \<Rightarrow> end_of_header_response
      | Body_response \<Rightarrow> body_response
      | End_of_message_response \<Rightarrow> end_of_message_response
      | Error_invalid_state_quit_response \<Rightarrow> (\<lambda>c _. c)
      | Abort_response \<Rightarrow> abort_response)"

definition next_state :: "leader \<Rightarrow> leader_state \<Rightarrow> leader_state" where
  "next_state l st =
     (case st of
        LEADER_STATE_NEGOTIATE \<Rightarrow> LEADER_STATE_NEGOTIATE_REPLIED
      | LEADER_STATE_CONNECT \<Rightarrow> LEADER_STATE_CONNECT_REPLIED
      | LEADER_STATE_HELO \<Rightarrow> LEADER_STATE_HELO_REPLIED
      | LEADER_STATE_ENVELOPE_FROM \<Rightarrow> LEADER_STATE_ENVELOPE_FROM_REPLIED
      | LEADER_STATE_ENVELOPE_RECIPIENT \<Rightarrow> LEADER_STATE_ENVELOPE_RECIPIENT_REPLIED
      | LEADER_STATE_DATA \<Rightarrow> LEADER_STATE_DATA_REPLIED
      | LEADER_STATE_UNKNOWN \<Rightarrow> LEADER_STATE_UNKNOWN_REPLIED
      | LEADER_STATE_HEADER \<Rightarrow> LEADER_STATE_HEADER_REPLIED
      | LEADER_STATE_END_OF_HEADER \<Rightarrow> LEADER_STATE_END_OF_HEADER_REPLIED
      | LEADER_STATE_BODY \<Rightarrow>
          if \<not> sent_end_of_message l then LEADER_STATE_BODY_REPLIED else LEADER_STATE_END_OF_MESSAGE
      | LEADER_STATE_BODY_REPLIED \<Rightarrow>
          if \<not> sent_end_of_message l then LEADER_STATE_BODY_REPLIED else LEADER_STATE_END_OF_MESSAGE
      | LEADER_STATE_END_OF_MESSAGE \<Rightarrow> LEADER_STATE_END_OF_MESSAGE_REPLIED
      | LEADER_STATE_QUIT \<Rightarrow> LEADER_STATE_QUIT_REPLIED
      | LEADER_STATE_ABORT \<Rightarrow> LEADER_STATE_ABORT_REPLIED
      | _ \<Rightarrow> LEADER_STATE_INVALID)"

definition leader_reply :: "session \<Rightarrow> milter_status \<Rightarrow> session" where
  "leader_reply lc status =
     (case lc of (l, c) \<Rightarrow>
        case state_to_response_signal_name (leader_state l) of
          None \<Rightarrow> leader_emit (Leader_error LEADER_ERROR_INVALID_STATE) (l, c)
        | Some sig \<Rightarrow>
            (set_leader_state (next_state l (leader_state l)) l, emit_response sig c status))"

definition leader_finished :: "leader \<Rightarrow> leader" where
  "leader_finished l = l\<lparr>leader_processing := False\<rparr>"

text \<open>The observer of \<open>finished\<close>, \<open>cb_leader_finished\<close>, disconnects the callbacks.\<close>

definition cb_leader_finished :: "leader \<Rightarrow> leader" where
  "cb_leader_finished l = l\<lparr>leader_attached := False\<rparr>"

definition emit_finished :: "session \<Rightarrow> session" where
  "emit_finished lc =
     (case leader_emit Leader_finished lc of (l, c) \<Rightarrow> (leader_finished (cb_leader_finished l), c))"

subsection \<open>Signals of the children\<close>

definition leader_cb_negotiate_reply :: "session \<Rightarrow> milter_option \<Rightarrow> macros_requests \<Rightarrow> session" where
  "leader_cb_negotiate_reply lc opt macros_requests =
     (case lc of (l, c) \<Rightarrow>
        (l\<lparr>leader_processing := True\<rparr>,
         negotiate_response c (Some opt) (Some macros_requests) MILTER_STATUS_CONTINUE))"

definition leader_cb_reply_code ::
    "session \<Rightarrow> nat \<Rightarrow> bytes option \<Rightarrow> bytes option \<Rightarrow> session" where
  "leader_cb_reply_code lc code extended_code message =
     (case lc of (l, c) \<Rightarrow>
        case milter_client_context_set_reply (prepared_reply c) code extended_code message of
          (False, _) \<Rightarrow>
            leader_emit (Leader_error (Leader_client_error CLIENT_CONTEXT_ERROR_INVALID_CODE)) (l, c)
        | (True, r) \<Rightarrow>
            leader_reply (l, c\<lparr>prepared_reply := r\<rparr>)
              (if code div 100 = 4 then MILTER_STATUS_TEMPORARY_FAILURE else MILTER_STATUS_REJECT))"

text \<open>
  A modification that fails without an error: the handlers that look at the error ignore
  it, those that look at the result follow a \<open>NULL\<close> pointer.
\<close>

definition unless_error :: "leader \<Rightarrow> modification \<Rightarrow> session" where
  "unless_error l m =
     (case m of
        (_, Some e, c) \<Rightarrow> leader_emit (Leader_error (Leader_client_error e)) (l, c)
      | (_, None, c) \<Rightarrow> (l, c))"

definition unless_failed :: "leader \<Rightarrow> modification \<Rightarrow> session" where
  "unless_failed l m =
     (case m of
        (True, _, c) \<Rightarrow> (l, c)
      | (False, Some e, c) \<Rightarrow> leader_emit (Leader_error (Leader_client_error e)) (l, c)
      | (False, None, c) \<Rightarrow> leader_crash (l, c))"

definition leader_cb_add_header :: "session \<Rightarrow> bytes \<Rightarrow> bytes option \<Rightarrow> session" where
  "leader_cb_add_header lc name value =
     (case lc of (l, c) \<Rightarrow> unless_error l (milter_client_context_add_header c (Some name) value))"

definition leader_cb_insert_header :: "session \<Rightarrow> nat \<Rightarrow> bytes \<Rightarrow> bytes option \<Rightarrow> session" where
  "leader_cb_insert_header lc index name value =
     (case lc of (l, c) \<Rightarrow>
        unless_error l (milter_client_context_insert_header c (of_nat index) (Some name) value))"

definition leader_cb_change_header :: "session \<Rightarrow> bytes \<Rightarrow> nat \<Rightarrow> bytes option \<Rightarrow> session" where
  "leader_cb_change_header lc name index value =
     (case lc of (l, c) \<Rightarrow>
        unless_error l (milter_client_context_change_header c (Some name) (of_nat index) value))"

definition leader_cb_delete_header :: "session \<Rightarrow> bytes \<Rightarrow> nat \<Rightarrow> session" where
  "leader_cb_delete_header lc name index =
     (case lc of (l, c) \<Rightarrow>
        unless_failed l (milter_client_context_delete_header c (Some name) (of_nat index)))"

definition leader_cb_change_from :: "session \<Rightarrow> bytes \<Rightarrow> bytes option \<Rightarrow> session" where
  "leader_cb_change_from lc sender parameters =
     (case lc of (l, c) \<Rightarrow>
        unless_failed l (milter_client_context_change_from c (Some sender) parameters))"

definition leader_cb_add_recipient :: "session \<Rightarrow> bytes \<Rightarrow> bytes option \<Rightarrow> session" where
  "leader_cb_add_recipient lc recipient parameters =
     (case lc of (l, c) \<Rightarrow>
        unless_failed l (milter_client_context_add_recipient c (Some recipient) parameters))"

definition leader_cb_delete_recipient :: "session \<Rightarrow> bytes \<Rightarrow> session" where
  "leader_cb_delete_recipient lc recipient =
     (case lc of (l, c) \<Rightarrow>
        unless_failed l (milter_client_context_delete_recipient c (Some recipient)))"

definition leader_cb_replace_body :: "session \<Rightarrow> bytes \<Rightarrow> session" where
  "leader_cb_replace_body lc chunk =
     (case lc of (l, c) \<Rightarrow> unless_failed l (milter_client_context_replace_body c chunk))"

definition leader_cb_progress :: "session \<Rightarrow> session" where
  "leader_cb_progress lc = (case lc of (l, c) \<Rightarrow> (l, snd (milter_client_context_progress c)))"

definition leader_cb_quarantine :: "session \<Rightarrow> bytes \<Rightarrow> session" where
  "leader_cb_quarantine lc reason =
     (case lc of (l, c) \<Rightarrow> (l, snd (milter_client_context_quarantine c (Some reason))))"

definition leader_cb_abort :: "session \<Rightarrow> session" where
  "leader_cb_abort lc = (case lc of (l, c) \<Rightarrow> emit_finished (l, client_shutdown c))"

text \<open>Only the children's own errors are answered.\<close>

definition leader_cb_error :: "leader_configuration \<Rightarrow> session \<Rightarrow> children_error \<Rightarrow> session" where
  "leader_cb_error cfg lc e =
     (let lc = leader_emit (Leader_error (Leader_children_error e)) lc
      in if e \<in> {MILTER_MANAGER_CHILDREN_ERROR_NO_ALIVE_MILTER,
                  MILTER_MANAGER_CHILDREN_ERROR_NO_MESSAGE_PROCESSING_MILTER,
                  MILTER_MANAGER_CHILDREN_ERROR_NO_NEGOTIATION}
         then leader_reply lc (fallback_status cfg) else lc)"

definition setup_children_signals ::
    "leader_configuration \<Rightarrow> children_event \<Rightarrow> session \<Rightarrow> session" where
  "setup_children_signals cfg ev lc =
     (case ev of
        Children_negotiate_reply opt macros_requests \<Rightarrow>
          leader_cb_negotiate_reply lc opt macros_requests
      | Children_continue \<Rightarrow> leader_reply lc MILTER_STATUS_CONTINUE
      | Children_reply_code code extended_code message \<Rightarrow>
          leader_cb_reply_code lc code extended_code message
      | Children_temporary_failure \<Rightarrow> leader_reply lc MILTER_STATUS_TEMPORARY_FAILURE
      | Children_reject \<Rightarrow> leader_reply lc MILTER_STATUS_REJECT
      | Children_accept \<Rightarrow> leader_reply lc MILTER_STATUS_ACCEPT
      | Children_discard \<Rightarrow> leader_reply lc MILTER_STATUS_DISCARD
      | Children_add_header name value \<Rightarrow> leader_cb_add_header lc name value
      | Children_insert_header index name value \<Rightarrow> leader_cb_insert_header lc index name value
      | Children_change_header name index value \<Rightarrow> leader_cb_change_header lc name index value
      | Children_delete_header name index \<Rightarrow> leader_cb_delete_header lc name index
      | Children_change_from sender parameters \<Rightarrow> leader_cb_change_from lc sender parameters
      | Children_add_recipient recipient parameters \<Rightarrow>
          leader_cb_add_recipient lc recipient parameters
      | Children_delete_recipient recipient \<Rightarrow> leader_cb_delete_recipient lc recipient
      | Children_replace_body chunk \<Rightarrow> leader_cb_replace_body lc chunk
      | Children_progress \<Rightarrow> leader_cb_progress lc
      | Children_quarantine reason \<Rightarrow> leader_cb_quarantine lc reason
      | Children_connection_failure \<Rightarrow> lc
      | Children_shutdown \<Rightarrow> lc
      | Children_skip \<Rightarrow> leader_reply lc MILTER_STATUS_SKIP
      | Children_abort \<Rightarrow> leader_cb_abort lc
      | Children_error e \<Rightarrow> leader_cb_error cfg lc e
      | Children_finished \<Rightarrow> emit_finished lc)"

text \<open>Calls the children and handles the signals they have emitted meanwhile.\<close>

definition with_children ::
    "leader_configuration \<Rightarrow> (children \<Rightarrow> 'a \<times> children) \<Rightarrow> children \<Rightarrow> session \<Rightarrow> 'a \<times> session" where
  "with_children cfg call ch lc =
     (case lc of (l, c) \<Rightarrow>
        (case call ch of (r, ch') \<Rightarrow>
           (r, fold (setup_children_signals cfg)
                 (drop (length (children_emitted ch)) (children_emitted ch'))
                 (l\<lparr>leader_children := Some ch'\<rparr>, c))))"

subsection \<open>Commands\<close>

definition milter_manager_leader_negotiate ::
    "leader_configuration \<Rightarrow> session \<Rightarrow> milter_option option \<Rightarrow> milter_status \<times> session" where
  "milter_manager_leader_negotiate cfg lc opt =
     (case lc of (l, c) \<Rightarrow>
        (case with_children cfg (\<lambda>ch. milter_manager_children_negotiate (cfg_environment cfg) ch opt)
                (cfg_children cfg c) (set_leader_state LEADER_STATE_NEGOTIATE l, c) of
           (ok, lc) \<Rightarrow> (if ok then MILTER_STATUS_PROGRESS else fallback_status cfg, lc)))"

text \<open>What the commands after the negotiation share: the children's success decides.\<close>

definition ask_children ::
    "leader_configuration \<Rightarrow> session \<Rightarrow> (children_environment \<Rightarrow> children \<Rightarrow> bool \<times> children) \<Rightarrow>
     milter_status \<times> session" where
  "ask_children cfg lc call =
     (case leader_children (fst lc) of
        None \<Rightarrow> (fallback_status cfg, lc)
      | Some ch \<Rightarrow>
          (case with_children cfg (call (cfg_environment cfg)) ch lc of
             (ok, lc) \<Rightarrow> (if ok then MILTER_STATUS_PROGRESS else fallback_status cfg, lc)))"

definition tell_children ::
    "leader_configuration \<Rightarrow> session \<Rightarrow> (children_environment \<Rightarrow> children \<Rightarrow> bool \<times> children) \<Rightarrow>
     milter_status \<times> session" where
  "tell_children cfg lc call =
     (case leader_children (fst lc) of
        None \<Rightarrow> (fallback_status cfg, lc)
      | Some ch \<Rightarrow>
          (MILTER_STATUS_DEFAULT, snd (with_children cfg (call (cfg_environment cfg)) ch lc)))"

definition enter :: "leader_state \<Rightarrow> session \<Rightarrow> session" where
  "enter st lc = (case lc of (l, c) \<Rightarrow> (set_leader_state st l, c))"

definition milter_manager_leader_connect ::
    "leader_configuration \<Rightarrow> session \<Rightarrow> bytes \<Rightarrow> sockaddr \<Rightarrow> milter_status \<times> session" where
  "milter_manager_leader_connect cfg lc host_name address =
     ask_children cfg (enter LEADER_STATE_CONNECT lc)
       (\<lambda>env ch. milter_manager_children_connect env ch host_name address)"

definition milter_manager_leader_helo ::
    "leader_configuration \<Rightarrow> session \<Rightarrow> bytes \<Rightarrow> milter_status \<times> session" where
  "milter_manager_leader_helo cfg lc fqdn =
     ask_children cfg (enter LEADER_STATE_HELO lc)
       (\<lambda>env ch. milter_manager_children_helo env ch fqdn)"

definition milter_manager_leader_envelope_from ::
    "leader_configuration \<Rightarrow> session \<Rightarrow> bytes \<Rightarrow> milter_status \<times> session" where
  "milter_manager_leader_envelope_from cfg lc sender =
     ask_children cfg (enter LEADER_STATE_ENVELOPE_FROM lc)
       (\<lambda>env ch. milter_manager_children_envelope_from env ch sender)"

definition milter_manager_leader_envelope_recipient ::
    "leader_configuration \<Rightarrow> session \<Rightarrow> bytes \<Rightarrow> milter_status \<times> session" where
  "milter_manager_leader_envelope_recipient cfg lc recipient =
     ask_children cfg (enter LEADER_STATE_ENVELOPE_RECIPIENT lc)
       (\<lambda>env ch. milter_manager_children_envelope_recipient env ch recipient)"

definition milter_manager_leader_data ::
    "leader_configuration \<Rightarrow> session \<Rightarrow> milter_status \<times> session" where
  "milter_manager_leader_data cfg lc =
     ask_children cfg (enter LEADER_STATE_DATA lc) milter_manager_children_data"

definition milter_manager_leader_unknown ::
    "leader_configuration \<Rightarrow> session \<Rightarrow> bytes \<Rightarrow> milter_status \<times> session" where
  "milter_manager_leader_unknown cfg lc command =
     ask_children cfg (enter LEADER_STATE_UNKNOWN lc)
       (\<lambda>env ch. milter_manager_children_unknown env ch command)"

definition milter_manager_leader_header ::
    "leader_configuration \<Rightarrow> session \<Rightarrow> bytes \<Rightarrow> bytes \<Rightarrow> milter_status \<times> session" where
  "milter_manager_leader_header cfg lc name value =
     ask_children cfg (enter LEADER_STATE_HEADER lc)
       (\<lambda>env ch. milter_manager_children_header env ch name (Some value))"

definition milter_manager_leader_end_of_header ::
    "leader_configuration \<Rightarrow> session \<Rightarrow> milter_status \<times> session" where
  "milter_manager_leader_end_of_header cfg lc =
     ask_children cfg (enter LEADER_STATE_END_OF_HEADER lc) milter_manager_children_end_of_header"

definition milter_manager_leader_body ::
    "leader_configuration \<Rightarrow> session \<Rightarrow> bytes \<Rightarrow> milter_status \<times> session" where
  "milter_manager_leader_body cfg lc chunk =
     ask_children cfg (enter LEADER_STATE_BODY lc)
       (\<lambda>env ch. milter_manager_children_body env ch chunk)"

definition is_replied_state :: "leader_state \<Rightarrow> bool" where
  "is_replied_state st \<longleftrightarrow>
     st \<notin> {LEADER_STATE_NEGOTIATE, LEADER_STATE_CONNECT, LEADER_STATE_HELO,
       LEADER_STATE_ENVELOPE_FROM, LEADER_STATE_ENVELOPE_RECIPIENT, LEADER_STATE_DATA,
       LEADER_STATE_UNKNOWN, LEADER_STATE_HEADER, LEADER_STATE_END_OF_HEADER, LEADER_STATE_BODY,
       LEADER_STATE_END_OF_MESSAGE, LEADER_STATE_QUIT, LEADER_STATE_ABORT}"

definition milter_manager_leader_end_of_message ::
    "leader_configuration \<Rightarrow> session \<Rightarrow> bytes option \<Rightarrow> milter_status \<times> session" where
  "milter_manager_leader_end_of_message cfg lc chunk =
     (case lc of (l, c) \<Rightarrow>
        let l = (if is_replied_state (leader_state l)
                 then set_leader_state LEADER_STATE_END_OF_MESSAGE l
                 else l\<lparr>sent_end_of_message := True\<rparr>)
        in ask_children cfg (l, c) (\<lambda>env ch. milter_manager_children_end_of_message env ch chunk))"

definition milter_manager_leader_quit ::
    "leader_configuration \<Rightarrow> session \<Rightarrow> milter_status \<times> session" where
  "milter_manager_leader_quit cfg lc =
     tell_children cfg (enter LEADER_STATE_QUIT lc) milter_manager_children_quit"

definition milter_manager_leader_abort ::
    "leader_configuration \<Rightarrow> session \<Rightarrow> milter_status \<times> session" where
  "milter_manager_leader_abort cfg lc =
     tell_children cfg (enter LEADER_STATE_ABORT lc) milter_manager_children_abort"

definition milter_manager_leader_define_macro ::
    "leader_configuration \<Rightarrow> milter_command \<Rightarrow> macro_table \<Rightarrow> leader \<Rightarrow> leader" where
  "milter_manager_leader_define_macro cfg command macros l =
     (case leader_children l of
        None \<Rightarrow> l
      | Some ch \<Rightarrow>
          l\<lparr>leader_children := Some (snd (milter_manager_children_define_macro ch command macros))\<rparr>)"

definition milter_manager_leader_timeout :: "leader_configuration \<Rightarrow> session \<Rightarrow> session" where
  "milter_manager_leader_timeout cfg lc = snd (milter_manager_leader_quit cfg lc)"

text \<open>The connection is only asked about while a milter's answer is awaited.\<close>

definition milter_manager_leader_check_connection ::
    "leader_configuration \<Rightarrow> session \<Rightarrow> bool \<times> session" where
  "milter_manager_leader_check_connection cfg lc =
     (case lc of (l, c) \<Rightarrow>
        if \<not> leader_processing l \<or>
           (case leader_children l of
              None \<Rightarrow> False | Some ch \<Rightarrow> \<not> milter_manager_children_is_waiting_reply ch)
        then (True, lc)
        else if cfg_connection_check cfg l then (True, lc)
        else
          let lc = leader_reply lc (fallback_status_at_disconnect cfg);
              lc = snd (tell_children cfg lc milter_manager_children_abort);
              lc = snd (tell_children cfg lc milter_manager_children_quit)
          in (False, lc))"

subsection \<open>The owner of the client context\<close>

text \<open>The callbacks of \<open>milter-manager.c\<close>; once they are disconnected nobody answers.\<close>

definition cb_client_command :: "leader_configuration \<Rightarrow> leader client_handler" where
  "cb_client_command cfg command l c =
     (let lc = (l, c)
      in if \<not> leader_attached l then (MILTER_STATUS_NOT_CHANGE, l, c)
         else case command of
           Client_connect host_name address \<Rightarrow> milter_manager_leader_connect cfg lc host_name address
         | Client_helo fqdn \<Rightarrow> milter_manager_leader_helo cfg lc fqdn
         | Client_envelope_from sender \<Rightarrow> milter_manager_leader_envelope_from cfg lc sender
         | Client_envelope_recipient recipient \<Rightarrow>
             milter_manager_leader_envelope_recipient cfg lc recipient
         | Client_unknown command \<Rightarrow> milter_manager_leader_unknown cfg lc command
         | Client_data \<Rightarrow> milter_manager_leader_data cfg lc
         | Client_header name value \<Rightarrow> milter_manager_leader_header cfg lc name value
         | Client_end_of_header \<Rightarrow> milter_manager_leader_end_of_header cfg lc
         | Client_body chunk \<Rightarrow> milter_manager_leader_body cfg lc chunk
         | Client_end_of_message chunk \<Rightarrow> milter_manager_leader_end_of_message cfg lc chunk
         | Client_abort _ \<Rightarrow> milter_manager_leader_abort cfg lc)"

definition cb_client_negotiate :: "leader_configuration \<Rightarrow> leader negotiate_handler" where
  "cb_client_negotiate cfg args l c =
     (if \<not> leader_attached l then (MILTER_STATUS_NOT_CHANGE, args, l, c)
      else case milter_manager_leader_negotiate cfg (l, c) (Some (fst args)) of
             (status, l, c) \<Rightarrow> (status, args, l, c))"

definition cb_client_define_macro ::
    "leader_configuration \<Rightarrow> milter_command \<Rightarrow> macro_table \<Rightarrow> leader \<Rightarrow> leader" where
  "cb_client_define_macro cfg command macros l =
     (if leader_attached l then milter_manager_leader_define_macro cfg command macros l else l)"

definition setup_context_signals :: "leader_configuration \<Rightarrow> leader client_owner" where
  "setup_context_signals cfg =
     \<lparr>command_handlers = [cb_client_command cfg], negotiate_handlers = [cb_client_negotiate cfg],
      macro_handlers = [cb_client_define_macro cfg]\<rparr>"

text \<open>The context's own handlers of \<open>timeout\<close> and \<open>finished\<close> run after the callbacks.\<close>

definition cb_client_timeout :: "leader_configuration \<Rightarrow> session \<Rightarrow> session" where
  "cb_client_timeout cfg lc =
     (case lc of (l, c) \<Rightarrow>
        (case (if leader_attached l
               then milter_manager_leader_timeout cfg (l, client_emit Client_timed_out c)
               else (l, client_emit Client_timed_out c)) of
           (l, c) \<Rightarrow> (l, client_shutdown c)))"

definition cb_client_finished :: "leader_configuration \<Rightarrow> session \<Rightarrow> session" where
  "cb_client_finished cfg lc =
     (case (if leader_attached (fst lc) then snd (milter_manager_leader_quit cfg lc) else lc) of
        (l, c) \<Rightarrow> (l, client_finished c))"

text \<open>An input of the children, such as a milter's answer, and the packets from the MTA.\<close>

definition session_children ::
    "leader_configuration \<Rightarrow> (children_environment \<Rightarrow> children \<Rightarrow> children) \<Rightarrow> session \<Rightarrow> session" where
  "session_children cfg f lc =
     (case leader_children (fst lc) of
        None \<Rightarrow> lc
      | Some ch \<Rightarrow> snd (with_children cfg (\<lambda>ch. ((), f (cfg_environment cfg) ch)) ch lc))"

definition session_receive ::
    "((bytes \<rightharpoonup> bytes) \<Rightarrow> macro_table) \<Rightarrow> leader_configuration \<Rightarrow> command_signal \<Rightarrow> session \<Rightarrow> session" where
  "session_receive order cfg = client_receive order (setup_context_signals cfg)"

end
