(* ===== verification/Client_Context_Spec.thy ===== *)
theory Client_Context_Spec
  imports Client_Context_Commands Reply_Spec Command_Spec
begin

text \<open>
  What a milter built on \<open>milter-client-context.c\<close> says on the wire. A milter is given by
  its answers (a status, after some requests made on the context); the specification is a
  machine that knows neither packets nor buffers, and the theorem says that the context
  between the two decoders implements it.
\<close>

subsection \<open>The writer\<close>

text \<open>All bytes handed to the agent, those kept back included.\<close>

definition wire :: "client_context \<Rightarrow> bytes" where
  "wire c = concat (client_written c) @ buffered_packets c"

definition steady :: "client_context \<Rightarrow> bool" where
  "steady c \<longleftrightarrow> client_writer c = Writer_open \<and> \<not> client_crashed c \<and>
     (buffering c \<or> buffered_packets c = [])"

definition packets :: "reply_call list \<Rightarrow> bytes" where
  "packets rs = concat (map (frame \<circ> reply_bytes) rs)"

lemma packets_simps [simp]:
  "packets [] = []" "packets (r # rs) = frame (reply_bytes r) @ packets rs"
  "packets (rs @ rs') = packets rs @ packets rs'"
  by (simp_all add: packets_def)

lemma client_flush_open:
  assumes "client_writer c = Writer_open" and "buffering c \<or> buffered_packets c = []"
  shows "client_flush c = (True, c\<lparr>
     client_written := client_written c @ (if buffering c then [buffered_packets c] else []),
     buffered_packets := [], buffering := False, client_timeout := client_timeout c \<or> buffering c\<rparr>)"
  using assms by (cases c) (auto simp: client_flush_def write_packet_without_error_handling_def
      milter_agent_write_packet_def writer_write_def writer_works_def client_disable_timeout_def Let_def)

lemma client_write_packet_open:
  assumes "client_writer c = Writer_open" and "buffering c \<or> buffered_packets c = []"
  shows "client_write_packet c (Some p) = (True, c\<lparr>
     client_written := client_written c @ [p] @ (if buffering c then [buffered_packets c] else []),
     buffered_packets := [], buffering := False, client_timeout := True\<rparr>)"
  using assms by (simp add: client_write_packet_def write_packet_without_error_handling_def
      milter_agent_write_packet_def writer_write_def client_disable_timeout_def Let_def
      client_flush_open)

lemma write_packet_on_end_of_message_open:
  assumes "steady c"
  shows "\<exists>c'. write_packet_on_end_of_message c packet = (True, c') \<and> steady c' \<and>
     wire c' = wire c @ (case packet of None \<Rightarrow> [] | Some p \<Rightarrow> p) \<and>
     client_state c' = client_state c \<and> client_option c' = client_option c \<and>
     prepared_reply c' = prepared_reply c \<and>
     client_quarantine_reason c' = client_quarantine_reason c"
  using assms by (auto simp: write_packet_on_end_of_message_def client_flush_open steady_def wire_def Let_def)

subsection \<open>The specification\<close>

datatype request =
    Ask_reply nat "bytes option" "bytes option"
  | Ask_add_header "bytes option" "bytes option"
  | Ask_insert_header u32 "bytes option" "bytes option"
  | Ask_change_header "bytes option" u32 "bytes option"
  | Ask_delete_header "bytes option" u32
  | Ask_change_from "bytes option" "bytes option"
  | Ask_add_recipient "bytes option" "bytes option"
  | Ask_delete_recipient "bytes option"
  | Ask_replace_body bytes
  | Ask_quarantine "bytes option"

record 's milter =
  answer_command :: "client_command \<Rightarrow> 's \<Rightarrow> milter_status \<times> request list \<times> 's"
  answer_negotiate ::
    "milter_option \<times> macros_requests \<Rightarrow> 's \<Rightarrow> milter_status \<times> (milter_option \<times> macros_requests) \<times> 's"

record milter_machine =
  machine_state :: client_context_state
  machine_option :: "milter_option option"
  machine_reply :: client_reply
  machine_quarantine :: "bytes option"

definition machine_of :: "client_context \<Rightarrow> milter_machine" where
  "machine_of c =
     \<lparr>machine_state = client_state c, machine_option = client_option c,
      machine_reply = prepared_reply c, machine_quarantine = client_quarantine_reason c\<rparr>"

definition permits :: "milter_machine \<Rightarrow> u32 \<Rightarrow> bool" where
  "permits a flags \<longleftrightarrow> machine_state a = CLIENT_CONTEXT_STATE_END_OF_MESSAGE \<and>
     (case machine_option a of None \<Rightarrow> False | Some opt \<Rightarrow> action opt AND flags = flags)"

text \<open>A request with a name, if it is permitted.\<close>

definition named_call ::
    "milter_machine \<Rightarrow> u32 \<Rightarrow> bytes option \<Rightarrow> (bytes \<Rightarrow> reply_call) \<Rightarrow> reply_call list" where
  "named_call a flags name call =
     (case name of None \<Rightarrow> [] | Some n \<Rightarrow> if n \<noteq> [] \<and> permits a flags then [call n] else [])"

function body_packets :: "bytes \<Rightarrow> bytes list" where
  "body_packets b =
     (if b = [] then [] else take MILTER_CHUNK_SIZE b # body_packets (drop MILTER_CHUNK_SIZE b))"
  by pat_completeness auto
termination
  by (relation "measure length") (auto simp: MILTER_CHUNK_SIZE_def)

declare body_packets.simps [simp del]

fun request_calls :: "milter_machine \<Rightarrow> request \<Rightarrow> reply_call list" where
  "request_calls a (Ask_reply code ec m) = []"
| "request_calls a (Ask_add_header n v) =
     (if v = None then [] else named_call a MILTER_ACTION_ADD_HEADERS n (\<lambda>n. Rep_add_header n v))"
| "request_calls a (Ask_insert_header i n v) =
     (if v = None then [] else named_call a MILTER_ACTION_ADD_HEADERS n (\<lambda>n. Rep_insert_header i n v))"
| "request_calls a (Ask_change_header n i v) =
     named_call a MILTER_ACTION_CHANGE_HEADERS n (\<lambda>n. Rep_change_header n i v)"
| "request_calls a (Ask_delete_header n i) =
     named_call a MILTER_ACTION_CHANGE_HEADERS n (\<lambda>n. Rep_delete_header n i)"
| "request_calls a (Ask_change_from s p) =
     named_call a MILTER_ACTION_CHANGE_ENVELOPE_FROM s (\<lambda>s. Rep_change_from s p)"
| "request_calls a (Ask_add_recipient r p) =
     named_call a MILTER_ACTION_ADD_ENVELOPE_RECIPIENT r (\<lambda>r. Rep_add_recipient r p)"
| "request_calls a (Ask_delete_recipient r) =
     named_call a MILTER_ACTION_DELETE_ENVELOPE_RECIPIENT r Rep_delete_recipient"
| "request_calls a (Ask_replace_body b) =
     (if permits a MILTER_ACTION_CHANGE_BODY then map Rep_replace_body (body_packets b) else [])"
| "request_calls a (Ask_quarantine reason) = []"

fun request_effect :: "request \<Rightarrow> milter_machine \<Rightarrow> milter_machine" where
  "request_effect (Ask_reply code ec m) a =
     a\<lparr>machine_reply := snd (milter_client_context_set_reply (machine_reply a) code ec m)\<rparr>"
| "request_effect (Ask_quarantine reason) a = a\<lparr>machine_quarantine := reason\<rparr>"
| "request_effect _ a = a"

fun requests_run :: "milter_machine \<Rightarrow> request list \<Rightarrow> reply_call list \<times> milter_machine" where
  "requests_run a [] = ([], a)"
| "requests_run a (r # rs) =
     (case requests_run (request_effect r a) rs of (calls, a') \<Rightarrow> (request_calls a r @ calls, a'))"

text \<open>The final reply: a prepared reply code takes the place of any refusal.\<close>

definition refusal_call :: "client_reply \<Rightarrow> reply_call \<Rightarrow> reply_call" where
  "refusal_call r plain =
     (case milter_client_context_format_reply r of None \<Rightarrow> plain | Some line \<Rightarrow> Rep_reply_code line)"

definition final_calls :: "client_reply \<Rightarrow> milter_status \<Rightarrow> reply_call list" where
  "final_calls r status =
     (case status of
        MILTER_STATUS_CONTINUE \<Rightarrow> [Rep_continue]
      | MILTER_STATUS_TEMPORARY_FAILURE \<Rightarrow> [refusal_call r Rep_temporary_failure]
      | MILTER_STATUS_REJECT \<Rightarrow> [refusal_call r Rep_reject]
      | MILTER_STATUS_ACCEPT \<Rightarrow> [Rep_accept]
      | MILTER_STATUS_DISCARD \<Rightarrow> [Rep_discard]
      | MILTER_STATUS_SKIP \<Rightarrow> [Rep_skip]
      | _ \<Rightarrow> [])"

definition quarantine_calls :: "bytes option \<Rightarrow> reply_call list \<Rightarrow> reply_call list" where
  "quarantine_calls reason final =
     (case reason of
        None \<Rightarrow> final
      | Some q \<Rightarrow> if q = [] \<or> final = [] then final else Rep_quarantine q # final)"

definition accumulated :: "milter_status \<Rightarrow> milter_status" where
  "accumulated status = (if status = MILTER_STATUS_NOT_CHANGE then MILTER_STATUS_DEFAULT else status)"

text \<open>One command, which leads from \<open>st\<close> to \<open>replied\<close>.\<close>

definition machine_command ::
    "'s milter \<Rightarrow> client_context_state \<Rightarrow> client_context_state \<Rightarrow> client_command \<Rightarrow>
     's \<times> milter_machine \<Rightarrow> reply_call list \<times> 's \<times> milter_machine" where
  "machine_command m st replied command sa =
     (let a = (snd sa)\<lparr>machine_state := st\<rparr>;
          a = (if st = CLIENT_CONTEXT_STATE_END_OF_MESSAGE then a\<lparr>machine_quarantine := None\<rparr> else a);
          (status, requests, s) = answer_command m command (fst sa);
          (calls, a) = requests_run a requests;
          final = final_calls (machine_reply a)
                    (default_status MILTER_STATUS_CONTINUE (accumulated status));
          final = (if st = CLIENT_CONTEXT_STATE_END_OF_MESSAGE
                   then quarantine_calls (machine_quarantine a) final else final)
      in (calls @ final, s, a\<lparr>machine_state := replied\<rparr>))"

definition machine_negotiate ::
    "'s milter \<Rightarrow> milter_option \<Rightarrow> 's \<times> milter_machine \<Rightarrow> reply_call list \<times> 's \<times> milter_machine" where
  "machine_negotiate m opt sa =
     (let (status, (opt', requests), s) = answer_negotiate m (opt, milter_macros_requests_new) (fst sa);
          status = default_status MILTER_STATUS_ALL_OPTIONS (accumulated status);
          opt = (if status = MILTER_STATUS_CONTINUE then opt' else milter_option_copy opt);
          calls = (if status = MILTER_STATUS_CONTINUE \<or> status = MILTER_STATUS_ALL_OPTIONS
                   then [Rep_negotiate opt (Some requests)]
                   else if status = MILTER_STATUS_REJECT then [Rep_reject] else [])
      in (calls, s, (snd sa)\<lparr>machine_state := CLIENT_CONTEXT_STATE_NEGOTIATE_REPLIED,
                             machine_option := Some opt\<rparr>))"

definition machine_abort ::
    "'s milter \<Rightarrow> 's \<times> milter_machine \<Rightarrow> reply_call list \<times> 's \<times> milter_machine" where
  "machine_abort m sa =
     (let a = (snd sa)\<lparr>machine_state := CLIENT_CONTEXT_STATE_ABORT\<rparr>;
          (status, requests, s) = answer_command m (Client_abort (machine_state (snd sa))) (fst sa);
          (calls, a) = requests_run a requests
      in (calls, s, a\<lparr>machine_state := CLIENT_CONTEXT_STATE_ABORT_REPLIED\<rparr>))"

definition machine_step ::
    "'s milter \<Rightarrow> command_signal \<Rightarrow> 's \<times> milter_machine \<Rightarrow> reply_call list \<times> 's \<times> milter_machine" where
  "machine_step m sig sa =
     (case sig of
        Sig_negotiate opt \<Rightarrow> machine_negotiate m opt sa
      | Sig_define_macro command macros \<Rightarrow> ([], sa)
      | Sig_connect host_name address \<Rightarrow>
          machine_command m CLIENT_CONTEXT_STATE_CONNECT CLIENT_CONTEXT_STATE_CONNECT_REPLIED
            (Client_connect host_name address) sa
      | Sig_helo fqdn \<Rightarrow>
          machine_command m CLIENT_CONTEXT_STATE_HELO CLIENT_CONTEXT_STATE_HELO_REPLIED (Client_helo fqdn) sa
      | Sig_envelope_from sender \<Rightarrow>
          machine_command m CLIENT_CONTEXT_STATE_ENVELOPE_FROM CLIENT_CONTEXT_STATE_ENVELOPE_FROM_REPLIED
            (Client_envelope_from sender) sa
      | Sig_envelope_recipient recipient \<Rightarrow>
          machine_command m CLIENT_CONTEXT_STATE_ENVELOPE_RECIPIENT
            CLIENT_CONTEXT_STATE_ENVELOPE_RECIPIENT_REPLIED (Client_envelope_recipient recipient) sa
      | Sig_data \<Rightarrow>
          machine_command m CLIENT_CONTEXT_STATE_DATA CLIENT_CONTEXT_STATE_DATA_REPLIED Client_data sa
      | Sig_header name value \<Rightarrow>
          machine_command m CLIENT_CONTEXT_STATE_HEADER CLIENT_CONTEXT_STATE_HEADER_REPLIED
            (Client_header name value) sa
      | Sig_end_of_header \<Rightarrow>
          machine_command m CLIENT_CONTEXT_STATE_END_OF_HEADER CLIENT_CONTEXT_STATE_END_OF_HEADER_REPLIED
            Client_end_of_header sa
      | Sig_body chunk \<Rightarrow>
          machine_command m CLIENT_CONTEXT_STATE_BODY CLIENT_CONTEXT_STATE_BODY_REPLIED (Client_body chunk) sa
      | Sig_end_of_message chunk \<Rightarrow>
          machine_command m CLIENT_CONTEXT_STATE_END_OF_MESSAGE CLIENT_CONTEXT_STATE_END_OF_MESSAGE_REPLIED
            (Client_end_of_message chunk) sa
      | Sig_abort \<Rightarrow> machine_abort m sa
      | Sig_quit \<Rightarrow> ([], fst sa, (snd sa)\<lparr>machine_state := CLIENT_CONTEXT_STATE_QUIT\<rparr>)
      | Sig_unknown command \<Rightarrow>
          machine_command m CLIENT_CONTEXT_STATE_UNKNOWN CLIENT_CONTEXT_STATE_UNKNOWN_REPLIED
            (Client_unknown command) sa)"

fun machine_run ::
    "'s milter \<Rightarrow> command_signal list \<Rightarrow> 's \<times> milter_machine \<Rightarrow> reply_call list \<times> 's \<times> milter_machine" where
  "machine_run m [] sa = ([], sa)"
| "machine_run m (sig # sigs) sa =
     (case machine_step m sig sa of (calls, sa) \<Rightarrow>
        (case machine_run m sigs sa of (calls', sa) \<Rightarrow> (calls @ calls', sa)))"

subsection \<open>A milter on a context\<close>

fun perform :: "request \<Rightarrow> client_context \<Rightarrow> client_context" where
  "perform (Ask_reply code ec m) c =
     c\<lparr>prepared_reply := snd (milter_client_context_set_reply (prepared_reply c) code ec m)\<rparr>"
| "perform (Ask_add_header n v) c = snd (snd (milter_client_context_add_header c n v))"
| "perform (Ask_insert_header i n v) c = snd (snd (milter_client_context_insert_header c i n v))"
| "perform (Ask_change_header n i v) c = snd (snd (milter_client_context_change_header c n i v))"
| "perform (Ask_delete_header n i) c = snd (snd (milter_client_context_delete_header c n i))"
| "perform (Ask_change_from s p) c = snd (snd (milter_client_context_change_from c s p))"
| "perform (Ask_add_recipient r p) c = snd (snd (milter_client_context_add_recipient c r p))"
| "perform (Ask_delete_recipient r) c = snd (snd (milter_client_context_delete_recipient c r))"
| "perform (Ask_replace_body b) c = snd (snd (milter_client_context_replace_body c b))"
| "perform (Ask_quarantine reason) c = snd (milter_client_context_quarantine c reason)"

definition milter_owner :: "'s milter \<Rightarrow> 's client_owner" where
  "milter_owner m =
     \<lparr>command_handlers = [\<lambda>command s c.
        case answer_command m command s of (status, requests, s) \<Rightarrow> (status, s, fold perform requests c)],
      negotiate_handlers = [\<lambda>args s c.
        case answer_negotiate m args s of (status, args, s) \<Rightarrow> (status, args, s, c)],
      macro_handlers = []\<rparr>"

definition answers_at_once :: "'s milter \<Rightarrow> bool" where
  "answers_at_once m \<longleftrightarrow>
     (\<forall>command s. fst (answer_command m command s) \<noteq> MILTER_STATUS_PROGRESS) \<and>
     (\<forall>args s. fst (answer_negotiate m args s) \<noteq> MILTER_STATUS_PROGRESS)"

subsection \<open>Requests\<close>

text \<open>The context has sent \<open>rs\<close> and is otherwise as the machine \<open>a\<close> has it.\<close>

definition sent :: "reply_call list \<Rightarrow> milter_machine \<Rightarrow> client_context \<Rightarrow> client_context \<Rightarrow> bool" where
  "sent rs a c c' \<longleftrightarrow> steady c' \<and> wire c' = wire c @ packets rs \<and> machine_of c' = a"

lemma sent_nil: "steady c \<Longrightarrow> sent [] (machine_of c) c c"
  by (simp add: sent_def)

lemma sent_trans: "sent rs a c c' \<Longrightarrow> sent rs' a' c' c'' \<Longrightarrow> sent (rs @ rs') a' c c''"
  by (simp add: sent_def)

lemma sent_steady: "sent rs a c c' \<Longrightarrow> steady c'"
  by (simp add: sent_def)

lemma sent_machine: "sent rs a c c' \<Longrightarrow> machine_of c' = a"
  by (simp add: sent_def)

lemma encode_call:
  assumes "wf_reply_call r" and "\<not> is_Rep_negotiate r \<or> enc_buffer e = []"
  obtains e' where "encode_reply_call e r = Ok (e', Some (frame (reply_bytes r)))"
  using encode_reply_call_packet [OF assms] by blast

lemma on_end_of_message_sent:
  assumes "steady c" and "machine_of c = a"
  shows "sent [r] a c (snd (write_packet_on_end_of_message (c\<lparr>client_encoder := e\<rparr>)
      (Some (frame (reply_bytes r)))))"
proof -
  have "steady (c\<lparr>client_encoder := e\<rparr>)" using assms(1) by (simp add: steady_def)
  from write_packet_on_end_of_message_open [OF this, of "Some (frame (reply_bytes r))"] show ?thesis
    using assms(2) by (auto simp: sent_def machine_of_def wire_def)
qed

lemma modify_sent:
  assumes "steady c" and "wf_reply_call r" and "\<not> is_Rep_negotiate r"
    and "permits (machine_of c) flags"
    and "\<And>e. Ok (encode e) = encode_reply_call e r"
  shows "sent [r] (machine_of c) c (snd (snd (modify flags c encode)))"
proof -
  from encode_call [of r "client_encoder c"] assms(2,3) obtain e' where
    "encode_reply_call (client_encoder c) r = Ok (e', Some (frame (reply_bytes r)))" by auto
  with assms(5) have e: "encode (client_encoder c) = (e', Some (frame (reply_bytes r)))"
    by (metis result.inject(1))
  have "client_state c = CLIENT_CONTEXT_STATE_END_OF_MESSAGE"
    "validate_action flags (client_option c) = None"
    using assms(4) by (auto simp: permits_def machine_of_def validate_action_def split: option.splits)
  then have "snd (snd (modify flags c encode)) =
      snd (write_packet_on_end_of_message (c\<lparr>client_encoder := e'\<rparr>) (Some (frame (reply_bytes r))))"
    by (simp add: modify_def validate_state_def e case_prod_beta Let_def)
  with on_end_of_message_sent [OF assms(1) refl] show ?thesis by simp
qed

lemma modify_refused:
  assumes "steady c" and "\<not> permits (machine_of c) flags"
  shows "sent [] (machine_of c) c (snd (snd (modify flags c encode)))"
  using assms by (auto simp: modify_def validate_state_def permits_def validate_action_def
      machine_of_def sent_def split: option.splits)

lemma modify_nothing:
  assumes "steady c" and "\<And>e. snd (encode e) = None"
  shows "sent [] (machine_of c) c (snd (snd (modify flags c encode)))"
proof -
  have "steady (c\<lparr>client_encoder := fst (encode (client_encoder c))\<rparr>)"
    using assms(1) by (simp add: steady_def)
  from write_packet_on_end_of_message_open [OF this, of None] show ?thesis
    using assms by (auto simp: modify_def sent_def machine_of_def wire_def case_prod_beta Let_def
        split: option.splits)
qed

text \<open>A named modification, whatever its name.\<close>

lemma modify_named:
  assumes "steady c" and "\<forall>r \<in> set (named_call (machine_of c) flags name call). wf_reply_call r"
    and "name \<noteq> None" and "\<And>n. \<not> is_Rep_negotiate (call n)"
    and "\<And>e n. name = Some n \<Longrightarrow> n \<noteq> [] \<Longrightarrow> Ok (encode e) = encode_reply_call e (call n)"
    and "\<And>e. name = Some [] \<Longrightarrow> snd (encode e) = None"
  shows "sent (named_call (machine_of c) flags name call) (machine_of c) c (snd (snd (modify flags c encode)))"
proof -
  obtain n where n: "name = Some n" using assms(3) by auto
  show ?thesis
  proof (cases "n \<noteq> [] \<and> permits (machine_of c) flags")
    case True
    with assms n modify_sent [OF assms(1), of "call n" flags encode] show ?thesis
      by (simp add: named_call_def)
  next
    case False
    then consider "\<not> permits (machine_of c) flags" | "n = []" by auto
    then show ?thesis
      by cases (use False n assms(1,6) modify_refused [OF assms(1), of flags encode]
          modify_nothing [OF assms(1), of encode flags] in \<open>simp_all add: named_call_def\<close>)
  qed
qed

text \<open>The chunks of a new body.\<close>

lemma body_packets_simps [simp]:
  "body_packets [] = []"
  "b \<noteq> [] \<Longrightarrow> body_packets b = take MILTER_CHUNK_SIZE b # body_packets (drop MILTER_CHUNK_SIZE b)"
  by (simp_all add: body_packets.simps [of "[]"] body_packets.simps [of b])

lemma encode_replace_body:
  assumes "b \<noteq> []"
  obtains e' where "milter_reply_encoder_encode_replace_body e (Some b) =
    (e', Some (frame (reply_bytes (Rep_replace_body b))), min MILTER_CHUNK_SIZE (length b))"
proof -
  obtain e' where "encode_reply_call e (Rep_replace_body b) =
      Ok (e', Some (frame (reply_bytes (Rep_replace_body b))))"
    using encode_call [of "Rep_replace_body b" e] assms by auto
  moreover obtain x y z where r: "milter_reply_encoder_encode_replace_body e (Some b) = (x, y, z)"
    by (cases "milter_reply_encoder_encode_replace_body e (Some b)") auto
  moreover from r have "z = min MILTER_CHUNK_SIZE (length b)"
    using replace_body_packed_size [OF assms, of e] by simp
  ultimately show ?thesis using that by simp
qed

lemma replace_body_sent:
  assumes "steady c"
  shows "\<exists>c'. replace_body_loop c b = (True, c') \<and>
    sent (map Rep_replace_body (body_packets b)) (machine_of c) c c'"
  using assms
proof (induction c b rule: replace_body_loop.induct)
  case (1 c b)
  show ?case
  proof (cases "b = []")
    case True
    then show ?thesis using sent_nil [OF 1(2)] by (simp add: replace_body_loop.simps)
  next
    case False
    then obtain e where e: "milter_reply_encoder_encode_replace_body (client_encoder c) (Some b) =
        (e, Some (frame (reply_bytes (Rep_replace_body b))), min MILTER_CHUNK_SIZE (length b))"
      using encode_replace_body by blast
    let ?n = "min MILTER_CHUNK_SIZE (length b)"
    let ?c = "c\<lparr>client_encoder := e\<rparr>"
    have pos: "?n \<noteq> 0" using False by (simp add: MILTER_CHUNK_SIZE_def)
    have st: "steady ?c" using 1(2) by (simp add: steady_def)
    obtain d where d: "write_packet_on_end_of_message ?c (Some (frame (reply_bytes (Rep_replace_body b)))) =
        (True, d)" using write_packet_on_end_of_message_open [OF st] by blast
    then have one: "sent [Rep_replace_body b] (machine_of c) c d"
      using on_end_of_message_sent [OF 1(2) refl, of "Rep_replace_body b" e] by simp
    have "drop ?n b = drop MILTER_CHUNK_SIZE b" by (simp add: min_def)
    with 1(1) [OF False refl e [symmetric] refl refl pos d [symmetric] refl sent_steady [OF one]]
    obtain d' where rest: "replace_body_loop d (drop MILTER_CHUNK_SIZE b) = (True, d')"
      "sent (map Rep_replace_body (body_packets (drop MILTER_CHUNK_SIZE b))) (machine_of d) d d'" by auto
    have "replace_body_loop c b = (True, d')"
      using False e pos d rest(1) \<open>drop ?n b = drop MILTER_CHUNK_SIZE b\<close>
      by (subst replace_body_loop.simps) (simp add: Let_def)
    moreover have "packets [Rep_replace_body (take MILTER_CHUNK_SIZE b)] = packets [Rep_replace_body b]"
      by simp
    ultimately show ?thesis
      using one rest(2) False by (simp add: sent_def)
  qed
qed

lemma replace_body_refused:
  assumes "steady c" and "\<not> permits (machine_of c) MILTER_ACTION_CHANGE_BODY"
  shows "sent [] (machine_of c) c (snd (snd (milter_client_context_replace_body c b)))"
  using assms by (auto simp: milter_client_context_replace_body_def validate_state_def permits_def
      validate_action_def machine_of_def sent_def split: option.splits)

lemma replace_body_permitted:
  assumes "steady c" and "permits (machine_of c) MILTER_ACTION_CHANGE_BODY"
  shows "sent (map Rep_replace_body (body_packets b)) (machine_of c) c
    (snd (snd (milter_client_context_replace_body c b)))"
  using replace_body_sent [OF assms(1), of b] assms(2)
  by (auto simp: milter_client_context_replace_body_def validate_state_def permits_def
      validate_action_def machine_of_def split: option.splits)

lemma wf_body_packets:
  "\<forall>r \<in> set (map Rep_replace_body (body_packets b)). wf_reply_call r"
proof (induction b rule: body_packets.induct)
  case (1 b)
  then show ?case by (cases "b = []") (simp_all add: MILTER_CHUNK_SIZE_def)
qed

lemmas modification_defs = milter_client_context_add_header_def milter_client_context_insert_header_def
  milter_client_context_change_header_def milter_client_context_delete_header_def
  milter_client_context_change_from_def milter_client_context_add_recipient_def
  milter_client_context_delete_recipient_def

lemma empty_name_no_packet [simp]:
  "snd (milter_reply_encoder_encode_add_header e (Some []) v) = None"
  "snd (milter_reply_encoder_encode_insert_header e i (Some []) v) = None"
  "snd (milter_reply_encoder_encode_change_header e (Some []) i v) = None"
  "snd (milter_reply_encoder_encode_delete_header e (Some []) i) = None"
  by (simp_all add: reply_encoder_defs)

lemma request_effect_machine [simp]:
  "machine_state (request_effect r a) = machine_state a"
  "machine_option (request_effect r a) = machine_option a"
  by (cases r; simp)+

lemma sent_none: "steady c \<Longrightarrow> sent (named_call a flags None call) (machine_of c) c c"
  by (simp add: named_call_def sent_nil)

lemma sent_empty: "steady c \<Longrightarrow> sent (named_call a flags (Some []) call) (machine_of c) c c"
  by (simp add: named_call_def sent_nil)

lemma perform_sent:
  assumes "steady c" and "\<forall>x \<in> set (request_calls (machine_of c) r). wf_reply_call x"
  shows "sent (request_calls (machine_of c) r) (request_effect r (machine_of c)) c (perform r c)"
proof (cases r)
  case (Ask_reply code ec m)
  then show ?thesis using assms(1) by (simp add: sent_def steady_def wire_def machine_of_def)
next
  case (Ask_quarantine reason)
  then show ?thesis using assms(1)
    by (simp add: sent_def steady_def wire_def machine_of_def milter_client_context_quarantine_def)
next
  case (Ask_add_header n v)
  then show ?thesis using assms
    by (cases "n = None \<or> v = None")
      (auto simp: modification_defs sent_none sent_nil intro!: modify_named)
next
  case (Ask_insert_header i n v)
  then show ?thesis using assms
    by (cases "n = None \<or> v = None")
      (auto simp: modification_defs sent_none sent_nil intro!: modify_named)
next
  case (Ask_change_header n i v)
  then show ?thesis using assms
    by (cases "n = None") (auto simp: modification_defs sent_none intro!: modify_named)
next
  case (Ask_delete_header n i)
  then show ?thesis using assms
    by (cases "n = None") (auto simp: modification_defs sent_none intro!: modify_named)
next
  case (Ask_change_from s p)
  then show ?thesis using assms
    by (cases s; cases "s = Some []")
      (auto simp: modification_defs sent_none sent_empty intro!: modify_named)
next
  case (Ask_add_recipient x p)
  then show ?thesis using assms
    by (cases x; cases "x = Some []")
      (auto simp: modification_defs sent_none sent_empty intro!: modify_named)
next
  case (Ask_delete_recipient x)
  then show ?thesis using assms
    by (cases x; cases "x = Some []")
      (auto simp: modification_defs sent_none sent_empty intro!: modify_named)
next
  case (Ask_replace_body b)
  then show ?thesis
    using replace_body_refused [OF assms(1)] replace_body_permitted [OF assms(1)] by simp
qed

lemma requests_sent:
  assumes "steady c" and "requests_run (machine_of c) rs = (calls, a)"
    and "\<forall>x \<in> set calls. wf_reply_call x"
  shows "sent calls a c (fold perform rs c)"
  using assms
proof (induction rs arbitrary: c calls)
  case Nil
  then show ?case by (simp add: sent_def)
next
  case (Cons r rs)
  obtain calls' where run: "requests_run (request_effect r (machine_of c)) rs = (calls', a)"
    and calls: "calls = request_calls (machine_of c) r @ calls'"
    using Cons.prems(2) by (auto split: prod.splits)
  have one: "sent (request_calls (machine_of c) r) (request_effect r (machine_of c)) c (perform r c)"
    using perform_sent [OF Cons.prems(1)] Cons.prems(3) calls by simp
  have "sent calls' a (perform r c) (fold perform rs (perform r c))"
    using Cons.IH [OF sent_steady [OF one]] run sent_machine [OF one] Cons.prems(3) calls by simp
  with one show ?case unfolding calls by (simp add: sent_trans)
qed

subsection \<open>Replies\<close>

definition idle :: "client_context \<Rightarrow> bool" where
  "idle c \<longleftrightarrow> steady c \<and> buffered_packets c = []"

lemma plain_call_packet:
  assumes "encode_reply_call e r = Ok (apsnd Some p)" and "wf_reply_call r" and "\<not> is_Rep_negotiate r"
  shows "snd p = frame (reply_bytes r)"
proof -
  obtain e' where "encode_reply_call e r = Ok (e', Some (frame (reply_bytes r)))"
    using encode_call [of r e] assms(2,3) by blast
  with assms(1) show ?thesis by (simp add: prod_eq_iff)
qed

lemma reply_code_packet:
  assumes "wf_reply_call (Rep_reply_code line)"
  shows "snd (milter_reply_encoder_encode_reply_code e (Some line)) =
    Some (frame (reply_bytes (Rep_reply_code line)))"
proof -
  obtain e' where "encode_reply_call e (Rep_reply_code line) =
      Ok (e', Some (frame (reply_bytes (Rep_reply_code line))))"
    using encode_call [of "Rep_reply_code line" e] assms by (metis reply_call.disc(3))
  then show ?thesis by simp
qed

lemma plain_packets:
  "snd (milter_reply_encoder_encode_continue e) = frame (reply_bytes Rep_continue)"
  "snd (milter_reply_encoder_encode_temporary_failure e) = frame (reply_bytes Rep_temporary_failure)"
  "snd (milter_reply_encoder_encode_reject e) = frame (reply_bytes Rep_reject)"
  "snd (milter_reply_encoder_encode_accept e) = frame (reply_bytes Rep_accept)"
  "snd (milter_reply_encoder_encode_discard e) = frame (reply_bytes Rep_discard)"
  "snd (milter_reply_encoder_encode_skip e) = frame (reply_bytes Rep_skip)"
  by (rule plain_call_packet; simp)+

lemma create_reply_packet_calls:
  assumes "\<forall>x \<in> set (final_calls r status). wf_reply_call x"
  shows "snd (create_reply_packet e r status) =
    (if final_calls r status = [] then None else Some (packets (final_calls r status)))"
  using assms by (cases status)
    (simp_all add: create_reply_packet_def final_calls_def refusal_call_def plain_packets
      reply_code_packet del: reply_bytes.simps split: option.splits)

lemma client_write_packet_idle:
  assumes "idle c"
  shows "\<exists>c'. client_write_packet c (Some p) = (True, c') \<and> idle c' \<and> wire c' = wire c @ p \<and>
    machine_of c' = machine_of c \<and> client_status c' = client_status c"
  using assms by (simp add: client_write_packet_open idle_def steady_def wire_def machine_of_def)

lemma client_reply_sent:
  assumes "idle c" and "\<forall>x \<in> set (final_calls (machine_reply (machine_of c)) status). wf_reply_call x"
  shows "idle (snd (client_reply_status c status)) \<and>
    sent (final_calls (machine_reply (machine_of c)) status) (machine_of c) c
      (snd (client_reply_status c status))"
proof -
  let ?r = "prepared_reply c" and ?e = "client_encoder c"
  let ?c = "c\<lparr>client_encoder := fst (create_reply_packet ?e ?r status)\<rparr>"
  have r: "machine_reply (machine_of c) = ?r" by (simp add: machine_of_def)
  have idle: "idle ?c" "wire ?c = wire c" "machine_of ?c = machine_of c"
    using assms(1) by (simp_all add: idle_def steady_def wire_def machine_of_def)
  have snd: "snd (create_reply_packet ?e ?r status) =
      (if final_calls ?r status = [] then None else Some (packets (final_calls ?r status)))"
    using create_reply_packet_calls assms(2) unfolding r by blast
  show ?thesis
  proof (cases "final_calls ?r status = []")
    case True
    with idle snd show ?thesis
      by (simp add: client_reply_status_def case_prod_beta Let_def r sent_def idle_def)
  next
    case False
    with client_write_packet_idle [OF idle(1), of "packets (final_calls ?r status)"] snd idle(2,3)
    show ?thesis
      by (auto simp: client_reply_status_def case_prod_beta Let_def r sent_def idle_def)
  qed
qed

lemma set_state_facts [simp]:
  "machine_of (milter_client_context_set_state c st) = (machine_of c)\<lparr>machine_state := st\<rparr>"
  "wire (milter_client_context_set_state c st) = wire c"
  "steady (milter_client_context_set_state c st) = steady c"
  "buffered_packets (milter_client_context_set_state c st) = buffered_packets c"
  "client_state (milter_client_context_set_state c st) = st"
  "client_option (milter_client_context_set_state c st) = client_option c"
  "client_encoder (milter_client_context_set_state c st) = client_encoder c"
  by (simp_all add: milter_client_context_set_state_def machine_of_def wire_def steady_def Let_def)

lemma status_facts [simp]:
  "machine_of (c\<lparr>client_status := st\<rparr>) = machine_of c" "wire (c\<lparr>client_status := st\<rparr>) = wire c"
  "steady (c\<lparr>client_status := st\<rparr>) = steady c"
  by (simp_all add: machine_of_def wire_def steady_def)

lemma received_facts [simp]:
  "machine_of (received st c) = (machine_of c)\<lparr>machine_state := st\<rparr>"
  "wire (received st c) = wire c" "steady (received st c) = steady c"
  "buffered_packets (received st c) = buffered_packets c"
  "client_encoder (received st c) = client_encoder c"
  by (simp_all add: received_def client_disable_timeout_def client_ensure_message_result_def
      milter_client_context_set_state_def machine_of_def wire_def steady_def Let_def)

lemma set_macro_context_facts [simp]:
  "machine_of (set_macro_context command c) = machine_of c"
  "wire (set_macro_context command c) = wire c" "steady (set_macro_context command c) = steady c"
  "buffered_packets (set_macro_context command c) = buffered_packets c"
  by (simp_all add: set_macro_context_def machine_of_def wire_def steady_def)

lemma simple_response_sent:
  assumes "idle c"
    and "\<forall>x \<in> set (final_calls (machine_reply (machine_of c)) (default_status MILTER_STATUS_CONTINUE status)).
      wf_reply_call x"
  shows "idle (simple_response replied c status) \<and>
    sent (final_calls (machine_reply (machine_of c)) (default_status MILTER_STATUS_CONTINUE status))
      ((machine_of c)\<lparr>machine_state := replied\<rparr>) c (simple_response replied c status)"
proof -
  let ?st = "default_status MILTER_STATUS_CONTINUE status"
  let ?c = "milter_client_context_set_state (c\<lparr>client_status := ?st\<rparr>) replied"
  have "idle ?c" using assms(1) by (simp add: idle_def)
  from client_reply_sent [OF this, of ?st] assms(2) show ?thesis
    by (simp add: simple_response_def Let_def sent_def)
qed

lemma client_flush_idle:
  assumes "steady c"
  shows "\<exists>c'. client_flush c = (True, c') \<and> idle c' \<and> wire c' = wire c \<and> machine_of c' = machine_of c"
  using assms by (auto simp: client_flush_open steady_def idle_def wire_def machine_of_def)

lemma quarantine_packet:
  assumes "q \<noteq> []" and "wf_reply_call (Rep_quarantine q)"
  shows "snd (milter_reply_encoder_encode_quarantine e (Some q)) =
    Some (frame (reply_bytes (Rep_quarantine q)))"
proof -
  obtain e' where "encode_reply_call e (Rep_quarantine q) =
      Ok (e', Some (frame (reply_bytes (Rep_quarantine q))))"
    using encode_call [of "Rep_quarantine q" e] assms(2) by (metis reply_call.disc(17))
  then show ?thesis by simp
qed

lemma reply_on_end_of_message_sent:
  fixes status :: milter_status
  assumes "steady c"
  defines "final \<equiv> quarantine_calls (machine_quarantine (machine_of c))
      (final_calls (machine_reply (machine_of c)) status)"
  assumes "\<forall>x \<in> set final. wf_reply_call x"
  shows "idle (snd (reply_on_end_of_message c status)) \<and>
    sent final (machine_of c) c (snd (reply_on_end_of_message c status))"
proof -
  obtain d where d: "client_flush c = (True, d)" "idle d" "wire d = wire c" "machine_of d = machine_of c"
    using client_flush_idle [OF assms(1)] by blast
  let ?r = "prepared_reply d" and ?e = "client_encoder d"
  let ?d = "d\<lparr>client_encoder := fst (create_reply_packet ?e ?r status)\<rparr>"
  let ?fin = "final_calls ?r status"
  have eq: "prepared_reply d = machine_reply (machine_of c)"
    "client_quarantine_reason d = machine_quarantine (machine_of c)"
    unfolding d(4) [symmetric] by (simp_all add: machine_of_def)
  have final: "final = quarantine_calls (client_quarantine_reason d) ?fin"
    unfolding final_def eq ..
  then have wf: "\<forall>x \<in> set ?fin. wf_reply_call x"
    using assms(3) by (auto simp: quarantine_calls_def split: option.splits if_splits)
  have d': "idle ?d" "wire ?d = wire c" "machine_of ?d = machine_of c"
    using d(2-4) by (simp_all add: idle_def steady_def wire_def machine_of_def)
  have snd: "snd (create_reply_packet ?e ?r status) = (if ?fin = [] then None else Some (packets ?fin))"
    by (rule create_reply_packet_calls [OF wf])
  show ?thesis
  proof (cases "?fin = []")
    case True
    with d d' snd final show ?thesis
      by (auto simp: reply_on_end_of_message_def case_prod_beta Let_def sent_def idle_def
          quarantine_calls_def split: option.splits)
  next
    case False
    show ?thesis
    proof (cases "client_quarantine_reason d")
      case None
      with False d d' snd final client_write_packet_idle [OF d'(1), of "packets ?fin"] show ?thesis
        by (auto simp: reply_on_end_of_message_def case_prod_beta Let_def sent_def idle_def
            quarantine_calls_def)
    next
      case (Some q)
      let ?q = "milter_reply_encoder_encode_quarantine (client_encoder ?d) (Some q)"
      let ?p = "(case snd ?q of None \<Rightarrow> [] | Some q \<Rightarrow> q) @ packets ?fin"
      have p: "?p = packets final"
        using Some False final assms(3) quarantine_packet [of q]
        by (cases "q = []") (auto simp: quarantine_calls_def milter_reply_encoder_encode_quarantine_def)
      have "idle (?d\<lparr>client_encoder := fst ?q\<rparr>)" "wire (?d\<lparr>client_encoder := fst ?q\<rparr>) = wire c"
        "machine_of (?d\<lparr>client_encoder := fst ?q\<rparr>) = machine_of c"
        using d' by (simp_all add: idle_def steady_def wire_def machine_of_def)
      with client_write_packet_idle [of "?d\<lparr>client_encoder := fst ?q\<rparr>" ?p] d(1) snd Some False p
      show ?thesis
        by (auto simp: reply_on_end_of_message_def case_prod_beta Let_def sent_def idle_def)
    qed
  qed
qed

subsection \<open>Commands\<close>

lemma requests_run_state:
  "requests_run a rs = (calls, a') \<Longrightarrow>
     machine_state a' = machine_state a \<and> machine_option a' = machine_option a"
  by (induction rs arbitrary: a calls) (auto split: prod.splits)

lemma perform_outside:
  "client_state c \<noteq> CLIENT_CONTEXT_STATE_END_OF_MESSAGE \<Longrightarrow>
     buffered_packets (perform r c) = buffered_packets c \<and> client_state (perform r c) = client_state c"
  by (cases r) (auto simp: modification_defs modify_def validate_state_def
      milter_client_context_replace_body_def milter_client_context_quarantine_def split: option.splits)

lemma performs_outside:
  "client_state c \<noteq> CLIENT_CONTEXT_STATE_END_OF_MESSAGE \<Longrightarrow>
     buffered_packets (fold perform rs c) = buffered_packets c"
  by (induction rs arbitrary: c) (simp_all add: perform_outside)

lemma requests_idle:
  assumes "idle c" and "client_state c \<noteq> CLIENT_CONTEXT_STATE_END_OF_MESSAGE"
    and "requests_run (machine_of c) rs = (calls, a)" and "\<forall>x \<in> set calls. wf_reply_call x"
  shows "idle (fold perform rs c) \<and> sent calls a c (fold perform rs c)"
  using assms requests_sent [of c rs calls a] performs_outside [OF assms(2)]
  by (simp add: idle_def sent_def)

lemma ask_milter:
  assumes "answer_command m command s = (status, requests, s')"
  shows "\<exists>status'. ask_owner (milter_owner m) command s c = (status', s', fold perform requests c) \<and>
     ((\<forall>st. command \<noteq> Client_abort st) \<longrightarrow> status' = accumulated status) \<and>
     (status \<noteq> MILTER_STATUS_PROGRESS \<longrightarrow> status' \<noteq> MILTER_STATUS_PROGRESS)"
  using assms by (cases command) (auto simp: ask_owner_def milter_owner_def default_command_def
      status_accumulator_def accumulated_def Let_def)

lemma accumulated_progress [simp]:
  "status \<noteq> MILTER_STATUS_PROGRESS \<Longrightarrow> accumulated status \<noteq> MILTER_STATUS_PROGRESS"
  by (simp add: accumulated_def)

text \<open>A command up to the end of the body.\<close>

lemma command_sent:
  assumes "answers_at_once m" and "idle c" and "machine_of c = a\<lparr>machine_state := st\<rparr>"
    and "st \<noteq> CLIENT_CONTEXT_STATE_END_OF_MESSAGE" and "\<forall>st. command \<noteq> Client_abort st"
    and "machine_command m st replied command (s, a) = (calls, s', a')"
    and "\<forall>x \<in> set calls. wf_reply_call x"
  shows "\<exists>c'. answer_with (simple_response replied) (ask_owner (milter_owner m) command s c) = (s', c') \<and>
    idle c' \<and> sent calls a' c c'"
proof -
  obtain status requests s1 where ans: "answer_command m command s = (status, requests, s1)"
    by (cases "answer_command m command s")
  obtain calls1 a1 where run: "requests_run (machine_of c) requests = (calls1, a1)"
    by (cases "requests_run (machine_of c) requests")
  let ?status = "accumulated status"
  let ?final = "final_calls (machine_reply a1) (default_status MILTER_STATUS_CONTINUE ?status)"
  have res: "calls = calls1 @ ?final" "s' = s1" "a' = a1\<lparr>machine_state := replied\<rparr>"
    using assms(4,6) ans run assms(3) by (simp_all add: machine_command_def)
  let ?d = "fold perform requests c"
  have "client_state c = machine_state (machine_of c)" by (simp add: machine_of_def)
  then have st: "client_state c \<noteq> CLIENT_CONTEXT_STATE_END_OF_MESSAGE"
    using assms(3,4) by simp
  have one: "idle ?d" "sent calls1 a1 c ?d"
    using requests_idle [OF assms(2) st run] assms(7) res(1) by simp_all
  have two: "idle (simple_response replied ?d ?status)"
    "sent ?final (a1\<lparr>machine_state := replied\<rparr>) ?d (simple_response replied ?d ?status)"
    using simple_response_sent [OF one(1), of ?status replied] assms(7) res(1) sent_machine [OF one(2)]
    by simp_all
  have "ask_owner (milter_owner m) command s c = (?status, s1, ?d)"
    using ask_milter [OF ans, of c] assms(5) by auto
  moreover have "?status \<noteq> MILTER_STATUS_PROGRESS"
    using assms(1) ans by (metis accumulated_progress answers_at_once_def fst_conv)
  ultimately show ?thesis
    using res two sent_trans [OF one(2) two(2)] by (simp add: answer_with_def)
qed

lemma end_of_message_response_sent:
  fixes status :: milter_status
  assumes "steady c"
  defines "final \<equiv> quarantine_calls (machine_quarantine (machine_of c))
      (final_calls (machine_reply (machine_of c)) (default_status MILTER_STATUS_CONTINUE status))"
  assumes "\<forall>x \<in> set final. wf_reply_call x"
  shows "idle (end_of_message_response c status) \<and>
    sent final ((machine_of c)\<lparr>machine_state := CLIENT_CONTEXT_STATE_END_OF_MESSAGE_REPLIED\<rparr>) c
      (end_of_message_response c status)"
proof -
  let ?st = "default_status MILTER_STATUS_CONTINUE status"
  let ?c = "milter_client_context_set_state (c\<lparr>client_status := ?st\<rparr>)
      CLIENT_CONTEXT_STATE_END_OF_MESSAGE_REPLIED"
  have st: "steady ?c" using assms(1) by simp
  have emit: "wire (client_emit_message_processed_signal d) = wire d"
    "machine_of (client_emit_message_processed_signal d) = machine_of d"
    "steady (client_emit_message_processed_signal d) = steady d"
    "buffered_packets (client_emit_message_processed_signal d) = buffered_packets d" for d
    by (simp_all add: client_emit_message_processed_signal_def client_emit_def wire_def machine_of_def
        steady_def Let_def split: option.split)
  from reply_on_end_of_message_sent [OF st, of ?st] assms(3) emit show ?thesis
    by (simp add: end_of_message_response_def final_def Let_def sent_def idle_def)
qed

lemma end_of_message_sent:
  assumes "answers_at_once m" and "idle c"
    and "machine_command m CLIENT_CONTEXT_STATE_END_OF_MESSAGE CLIENT_CONTEXT_STATE_END_OF_MESSAGE_REPLIED
      (Client_end_of_message chunk) (s, machine_of c) = (calls, s', a')"
    and "\<forall>x \<in> set calls. wf_reply_call x"
  shows "\<exists>c'. client_cb_decoder_end_of_message (milter_owner m) chunk (s, c) = (s', c') \<and>
    idle c' \<and> sent calls a' c c'"
proof -
  let ?command = "Client_end_of_message chunk"
  let ?c = "(set_macro_context MILTER_COMMAND_END_OF_MESSAGE
      (received CLIENT_CONTEXT_STATE_END_OF_MESSAGE c))\<lparr>client_quarantine_reason := None\<rparr>"
  have no_q: "machine_of (x\<lparr>client_quarantine_reason := None\<rparr>) = (machine_of x)\<lparr>machine_quarantine := None\<rparr>"
    "steady (x\<lparr>client_quarantine_reason := None\<rparr>) = steady x"
    "wire (x\<lparr>client_quarantine_reason := None\<rparr>) = wire x" for x
    by (simp_all add: machine_of_def steady_def wire_def)
  have c: "steady ?c" "wire ?c = wire c"
    "machine_of ?c = (machine_of c)\<lparr>machine_state := CLIENT_CONTEXT_STATE_END_OF_MESSAGE,
       machine_quarantine := None\<rparr>"
    using assms(2) by (simp_all add: no_q idle_def)
  obtain status requests s1 where ans: "answer_command m ?command s = (status, requests, s1)"
    by (cases "answer_command m ?command s")
  obtain calls1 a1 where run: "requests_run (machine_of ?c) requests = (calls1, a1)"
    by (cases "requests_run (machine_of ?c) requests")
  let ?status = "accumulated status"
  let ?final = "quarantine_calls (machine_quarantine a1)
      (final_calls (machine_reply a1) (default_status MILTER_STATUS_CONTINUE ?status))"
  have res: "calls = calls1 @ ?final" "s' = s1"
    "a' = a1\<lparr>machine_state := CLIENT_CONTEXT_STATE_END_OF_MESSAGE_REPLIED\<rparr>"
    using assms(3) ans run c(3) by (simp_all add: machine_command_def)
  let ?d = "fold perform requests ?c"
  have one: "sent calls1 a1 ?c ?d"
    using requests_sent [OF c(1) run] assms(4) res(1) by simp
  have two: "idle (end_of_message_response ?d ?status)"
    "sent ?final a' ?d (end_of_message_response ?d ?status)"
    using end_of_message_response_sent [OF sent_steady [OF one], of ?status] assms(4) res
      sent_machine [OF one] by simp_all
  have "ask_owner (milter_owner m) ?command s ?c = (?status, s1, ?d)"
    using ask_milter [OF ans, of ?c] by auto
  moreover have "?status \<noteq> MILTER_STATUS_PROGRESS"
    using assms(1) ans by (metis accumulated_progress answers_at_once_def fst_conv)
  moreover have "sent calls a' c (end_of_message_response ?d ?status)"
    using sent_trans [OF one two(2)] c(2) res(1) by (simp add: sent_def)
  ultimately show ?thesis
    using res(2) two(1) by (simp add: answer_with_def client_cb_decoder_end_of_message_def)
qed

lemma abort_sent:
  assumes "answers_at_once m" and "idle c" and "machine_abort m (s, machine_of c) = (calls, s', a')"
    and "\<forall>x \<in> set calls. wf_reply_call x"
  shows "\<exists>c'. client_cb_decoder_abort (milter_owner m) (s, c) = (s', c') \<and> idle c' \<and> sent calls a' c c'"
proof -
  let ?c = "client_disable_timeout (milter_client_context_set_state c CLIENT_CONTEXT_STATE_ABORT)"
  let ?command = "Client_abort (client_state c)"
  have dis: "machine_of (client_disable_timeout x) = machine_of x" "wire (client_disable_timeout x) = wire x"
    "steady (client_disable_timeout x) = steady x"
    "buffered_packets (client_disable_timeout x) = buffered_packets x" for x
    by (simp_all add: client_disable_timeout_def machine_of_def wire_def steady_def)
  have res: "machine_of (milter_client_context_reset_message_related_data x) = machine_of x"
    "wire (milter_client_context_reset_message_related_data x) = wire x"
    "steady (milter_client_context_reset_message_related_data x) = steady x"
    "buffered_packets (milter_client_context_reset_message_related_data x) = buffered_packets x" for x
    by (simp_all add: milter_client_context_reset_message_related_data_def machine_of_def wire_def
        steady_def client_dispose_message_result_def milter_client_context_clear_mail_transaction_shelf_def)
  have abort: "machine_of (abort_response x st) =
      (machine_of x)\<lparr>machine_state := CLIENT_CONTEXT_STATE_ABORT_REPLIED\<rparr>"
    "wire (abort_response x st) = wire x" "steady (abort_response x st) = steady x"
    "buffered_packets (abort_response x st) = buffered_packets x" for x st
    by (simp_all add: abort_response_def Let_def)
  have c: "idle ?c" "wire ?c = wire c"
    "machine_of ?c = (machine_of c)\<lparr>machine_state := CLIENT_CONTEXT_STATE_ABORT\<rparr>"
    using assms(2) by (simp_all add: dis idle_def)
  obtain status requests s1 where ans: "answer_command m ?command s = (status, requests, s1)"
    by (cases "answer_command m ?command s")
  obtain calls1 a1 where run: "requests_run (machine_of ?c) requests = (calls1, a1)"
    by (cases "requests_run (machine_of ?c) requests")
  have st: "machine_state (machine_of c) = client_state c" by (simp add: machine_of_def)
  have eq: "calls = calls1" "s' = s1" "a' = a1\<lparr>machine_state := CLIENT_CONTEXT_STATE_ABORT_REPLIED\<rparr>"
    using assms(3) ans run c(3) by (simp_all add: machine_abort_def st)
  let ?d = "fold perform requests ?c"
  have "client_state ?c \<noteq> CLIENT_CONTEXT_STATE_END_OF_MESSAGE"
    by (simp add: client_disable_timeout_def)
  from requests_idle [OF c(1) this run] assms(4) eq(1) have one: "idle ?d" "sent calls1 a1 ?c ?d" by simp_all
  have "status \<noteq> MILTER_STATUS_PROGRESS" using assms(1) ans by (metis answers_at_once_def fst_conv)
  then obtain status' where
    "ask_owner (milter_owner m) ?command s ?c = (status', s1, ?d)" "status' \<noteq> MILTER_STATUS_PROGRESS"
    using ask_milter [OF ans, of ?c] by auto
  then show ?thesis
    using one eq c(2) sent_machine [OF one(2)]
    by (simp add: client_cb_decoder_abort_def answer_with_def Let_def sent_def idle_def abort res)
qed

lemma negotiate_sent:
  assumes "answers_at_once m" and "idle c" and "enc_buffer (client_encoder c) = []"
    and "machine_negotiate m opt (s, machine_of c) = (calls, s', a')"
    and "\<forall>x \<in> set calls. wf_reply_call x"
  shows "\<exists>c'. client_cb_decoder_negotiate (milter_owner m) opt (s, c) = (s', c') \<and>
    idle c' \<and> sent calls a' c c'"
proof -
  obtain status opt' requests s1 where
    ans: "answer_negotiate m (opt, milter_macros_requests_new) s = (status, (opt', requests), s1)"
    by (cases "answer_negotiate m (opt, milter_macros_requests_new) s") auto
  let ?st = "default_status MILTER_STATUS_ALL_OPTIONS (accumulated status)"
  let ?opt = "if ?st = MILTER_STATUS_CONTINUE then opt' else milter_option_copy opt"
  let ?c = "milter_client_context_set_option (received CLIENT_CONTEXT_STATE_NEGOTIATE c)
      (Some (milter_option_copy opt))"
  let ?d = "(milter_client_context_set_state (?c\<lparr>client_status := ?st\<rparr>)
      CLIENT_CONTEXT_STATE_NEGOTIATE_REPLIED)\<lparr>client_option := Some ?opt\<rparr>"
  have d: "idle ?d" "wire ?d = wire c" "enc_buffer (client_encoder ?d) = []"
    "machine_of ?d = (machine_of c)\<lparr>machine_state := CLIENT_CONTEXT_STATE_NEGOTIATE_REPLIED,
       machine_option := Some ?opt\<rparr>" "client_option ?d = Some ?opt"
    using assms(2,3) by (simp_all add: idle_def steady_def wire_def machine_of_def
        milter_client_context_set_option_def received_def client_disable_timeout_def
        client_ensure_message_result_def milter_client_context_set_state_def)
  have keep: "(milter_client_context_set_state (?c\<lparr>client_status := ?st\<rparr>)
      CLIENT_CONTEXT_STATE_NEGOTIATE_REPLIED)\<lparr>client_option := Some (milter_option_copy opt)\<rparr> =
      milter_client_context_set_state (?c\<lparr>client_status := ?st\<rparr>) CLIENT_CONTEXT_STATE_NEGOTIATE_REPLIED"
    by (simp add: milter_client_context_set_option_def milter_client_context_set_state_def)
  have "accumulated status \<noteq> MILTER_STATUS_PROGRESS"
    using assms(1) ans by (metis accumulated_progress answers_at_once_def fst_conv)
  moreover have "emit_negotiate (negotiate_handlers (milter_owner m) @ [default_negotiate])
      (opt, milter_macros_requests_new) MILTER_STATUS_DEFAULT s ?c =
      (accumulated status, (opt', requests), s1, ?c)"
    using ans by (simp add: milter_owner_def default_negotiate_def status_accumulator_def
        accumulated_def Let_def)
  ultimately have run: "client_cb_decoder_negotiate (milter_owner m) opt (s, c) =
      (s1, negotiate_response ?c (Some opt') (Some requests) (accumulated status))"
    by (simp add: client_cb_decoder_negotiate_def)
  have res: "calls = (if ?st = MILTER_STATUS_CONTINUE \<or> ?st = MILTER_STATUS_ALL_OPTIONS
        then [Rep_negotiate ?opt (Some requests)]
        else if ?st = MILTER_STATUS_REJECT then [Rep_reject] else [])" "s' = s1"
    "a' = machine_of ?d"
    using assms(4) ans unfolding d(4) by (simp_all add: machine_negotiate_def Let_def)
  have resp: "negotiate_response ?c (Some opt') (Some requests) (accumulated status) =
     (if ?st = MILTER_STATUS_CONTINUE \<or> ?st = MILTER_STATUS_ALL_OPTIONS
         then (case milter_reply_encoder_encode_negotiate (client_encoder ?d) (Some ?opt) (Some requests) of
                 Ok (e, packet) \<Rightarrow> snd (client_write_packet (?d\<lparr>client_encoder := e\<rparr>) (Some packet))
               | _ \<Rightarrow> crash ?d)
         else if ?st = MILTER_STATUS_REJECT
         then (case milter_reply_encoder_encode_reject (client_encoder ?d) of
                 (e, packet) \<Rightarrow> snd (client_write_packet (?d\<lparr>client_encoder := e\<rparr>) (Some packet)))
         else ?d)"
  proof (cases "?st = MILTER_STATUS_CONTINUE")
    case True
    then show ?thesis
      unfolding negotiate_response_def milter_client_context_set_option_def Let_def
      by (simp cong: result.case_cong)
  next
    case False
    let ?e = "milter_client_context_set_state (?c\<lparr>client_status := ?st\<rparr>)
        CLIENT_CONTEXT_STATE_NEGOTIATE_REPLIED"
    have de: "?d = ?e" using keep False by simp
    have "client_option ?e = Some ?opt" using d(5) unfolding de .
    with False show ?thesis
      unfolding de unfolding negotiate_response_def milter_client_context_set_option_def Let_def
      by (simp cong: result.case_cong)
  qed
  have idle_enc: "idle (?d\<lparr>client_encoder := e\<rparr>)" "wire (?d\<lparr>client_encoder := e\<rparr>) = wire c"
    "machine_of (?d\<lparr>client_encoder := e\<rparr>) = machine_of ?d" for e
    using d(1,2) by (simp_all add: idle_def steady_def wire_def machine_of_def)
  have written: "idle (snd (client_write_packet (?d\<lparr>client_encoder := e\<rparr>) (Some (frame (reply_bytes r))))) \<and>
      sent [r] a' c (snd (client_write_packet (?d\<lparr>client_encoder := e\<rparr>) (Some (frame (reply_bytes r)))))"
    for e r using client_write_packet_idle [OF idle_enc(1), of e "frame (reply_bytes r)"] idle_enc(2,3)
    by (auto simp: sent_def idle_def res(3))
  consider (offer) "?st = MILTER_STATUS_CONTINUE \<or> ?st = MILTER_STATUS_ALL_OPTIONS"
    | (reject) "?st = MILTER_STATUS_REJECT"
    | (nothing) "?st \<notin> {MILTER_STATUS_CONTINUE, MILTER_STATUS_ALL_OPTIONS, MILTER_STATUS_REJECT}" by blast
  then show ?thesis
  proof cases
    case offer
    then have calls: "calls = [Rep_negotiate ?opt (Some requests)]" using res(1) by argo
    with assms(5) have wf: "wf_reply_call (Rep_negotiate ?opt (Some requests))" by simp
    obtain e where "encode_reply_call (client_encoder ?d) (Rep_negotiate ?opt (Some requests)) =
        Ok (e, Some (frame (reply_bytes (Rep_negotiate ?opt (Some requests)))))"
      using encode_call [OF wf, of "client_encoder ?d"] d(3) by blast
    then have "milter_reply_encoder_encode_negotiate (client_encoder ?d) (Some ?opt) (Some requests) =
        Ok (e, frame (reply_bytes (Rep_negotiate ?opt (Some requests))))"
      by (cases "milter_reply_encoder_encode_negotiate (client_encoder ?d) (Some ?opt) (Some requests)") (simp_all add: prod_eq_iff)
    with written [of e "Rep_negotiate ?opt (Some requests)"] offer run res(2) calls resp show ?thesis
      by (simp del: reply_bytes.simps)
  next
    case reject
    then have "calls = [Rep_reject]" using res(1) by simp
    with written [of "fst (milter_reply_encoder_encode_reject (client_encoder ?d))" Rep_reject]
      reject run res(2) resp plain_packets(3) [of "client_encoder ?d"] show ?thesis
      by (simp add: case_prod_beta del: reply_bytes.simps)
  next
    case nothing
    with run res resp d(1,2) show ?thesis by (simp add: sent_def idle_def)
  qed
qed

end
