(* ===== verification/Client_Session.thy ===== *)
theory Client_Session
  imports Client_Context_Spec
begin

text \<open>
  A whole session of a milter: the MTA's commands through the command codec, the client
  context, and the context's replies through the reply codec back to the MTA.
\<close>

subsection \<open>The context implements the machine\<close>

definition session_answer ::
    "reply_call list \<Rightarrow> 's \<Rightarrow> milter_machine \<Rightarrow> client_context \<Rightarrow> 's \<times> client_context \<Rightarrow> bool" where
  "session_answer calls s a c r \<longleftrightarrow> fst r = s \<and> idle (snd r) \<and> sent calls a c (snd r)"

lemma session_answerI:
  "\<exists>c'. r = (s, c') \<and> idle c' \<and> sent calls a c c' \<Longrightarrow> session_answer calls s a c r"
  by (auto simp: session_answer_def)

lemma command_answer:
  assumes "answers_at_once m" and "idle d" and "machine_of d = (machine_of c)\<lparr>machine_state := st\<rparr>"
    and "wire d = wire c" and "st \<noteq> CLIENT_CONTEXT_STATE_END_OF_MESSAGE"
    and "\<forall>st. command \<noteq> Client_abort st"
    and "machine_command m st replied command (s, machine_of c) = (calls, s', a')"
    and "\<forall>x \<in> set calls. wf_reply_call x"
  shows "session_answer calls s' a' c
    (answer_with (simple_response replied) (ask_owner (milter_owner m) command s d))"
  using command_sent [OF assms(1-3,5-8)] assms(4) by (auto simp: session_answer_def sent_def)

lemmas decoder_callbacks = client_cb_decoder_connect_def client_cb_decoder_helo_def
  client_cb_decoder_envelope_from_def client_cb_decoder_envelope_recipient_def
  client_cb_decoder_unknown_def client_cb_decoder_data_def client_cb_decoder_header_def
  client_cb_decoder_end_of_header_def client_cb_decoder_body_def

lemma idle_received [simp]: "idle (received st c) = idle c"
  by (simp add: idle_def)

lemma idle_set_macro_context [simp]: "idle (set_macro_context command c) = idle c"
  by (simp add: idle_def)

lemma define_macro_answer:
  "idle c \<Longrightarrow> session_answer [] s (machine_of c) c
     (client_cb_decoder_define_macro (milter_owner m) command macros (s, c))"
  by (simp add: session_answer_def client_cb_decoder_define_macro_def milter_owner_def sent_def idle_def
      steady_def wire_def machine_of_def client_disable_timeout_def client_emit_def Let_def)

lemma receive_answer:
  assumes "answers_at_once m" and "idle c" and "sig \<noteq> Sig_quit"
    and "(\<exists>opt. sig = Sig_negotiate opt) \<longrightarrow> enc_buffer (client_encoder c) = []"
    and "machine_step m sig (s, machine_of c) = (calls, s', a')"
    and "\<forall>x \<in> set calls. wf_reply_call x"
  shows "session_answer calls s' a' c (client_receive order (milter_owner m) sig (s, c))"
proof (cases sig)
  case (Sig_negotiate opt)
  then show ?thesis
    using assms negotiate_sent [of m c opt s calls s' a']
    by (auto simp: machine_step_def client_receive_def intro: session_answerI)
next
  case (Sig_define_macro command macros)
  then show ?thesis
    using assms(2,5) define_macro_answer [of c s m command "order macros"]
    by (simp add: machine_step_def client_receive_def)
next
  case (Sig_end_of_message chunk)
  then show ?thesis
    using assms end_of_message_sent [of m c chunk s calls s' a']
    by (auto simp: machine_step_def client_receive_def intro: session_answerI)
next
  case Sig_abort
  then show ?thesis
    using assms abort_sent [of m c s calls s' a']
    by (auto simp: machine_step_def client_receive_def intro: session_answerI)
next
  case Sig_quit
  then show ?thesis using assms(3) by simp
qed (use assms in \<open>auto simp: machine_step_def client_receive_def decoder_callbacks simple_responses
      intro!: command_answer\<close>)

lemma session_run:
  assumes "answers_at_once m" and "idle c" and "Sig_quit \<notin> set sigs"
    and "\<forall>sig \<in> set sigs. \<forall>opt. sig \<noteq> Sig_negotiate opt"
    and "machine_run m sigs (s, machine_of c) = (calls, s', a')"
    and "\<forall>x \<in> set calls. wf_reply_call x"
  shows "session_answer calls s' a' c (fold (client_receive order (milter_owner m)) sigs (s, c))"
  using assms(2-6)
proof (induction sigs arbitrary: c s calls)
  case Nil
  then show ?case by (simp add: session_answer_def sent_def idle_def)
next
  case (Cons sig sigs)
  obtain calls1 s1 a1 where one: "machine_step m sig (s, machine_of c) = (calls1, s1, a1)"
    by (cases "machine_step m sig (s, machine_of c)") auto
  obtain calls2 where rest: "machine_run m sigs (s1, a1) = (calls2, s', a')" "calls = calls1 @ calls2"
    using Cons.prems(4) one by (auto split: prod.splits)
  let ?r = "client_receive order (milter_owner m) sig (s, c)"
  have "session_answer calls1 s1 a1 c ?r"
    using receive_answer [OF assms(1) Cons.prems(1) _ _ one, of order] Cons.prems(2,3,5) rest(2) by auto
  then have r: "fst ?r = s1" "idle (snd ?r)" "sent calls1 a1 c (snd ?r)" "machine_of (snd ?r) = a1"
    by (simp_all add: session_answer_def sent_def)
  have "session_answer calls2 s' a' (snd ?r)
      (fold (client_receive order (milter_owner m)) sigs (s1, snd ?r))"
    using Cons.IH [OF r(2)] Cons.prems(2,3,5) rest r(4) by simp
  moreover have "?r = (s1, snd ?r)" using r(1) by (simp add: prod_eq_iff)
  ultimately show ?case
    using r(3) rest(2) by (simp add: session_answer_def sent_def)
qed

text \<open>The negotiation comes first, if there is one.\<close>

lemma session_run_first:
  assumes "answers_at_once m" and "idle c" and "enc_buffer (client_encoder c) = []"
    and "Sig_quit \<notin> set sigs" and "\<forall>sig \<in> set (tl sigs). \<forall>opt. sig \<noteq> Sig_negotiate opt"
    and "machine_run m sigs (s, machine_of c) = (calls, s', a')"
    and "\<forall>x \<in> set calls. wf_reply_call x"
  shows "session_answer calls s' a' c (fold (client_receive order (milter_owner m)) sigs (s, c))"
proof (cases sigs)
  case Nil
  then show ?thesis using session_run [OF assms(1,2) assms(4), of s calls s' a' order] assms(6,7) by simp
next
  case (Cons sig sigs')
  obtain calls1 s1 a1 where one: "machine_step m sig (s, machine_of c) = (calls1, s1, a1)"
    by (cases "machine_step m sig (s, machine_of c)") auto
  obtain calls2 where rest: "machine_run m sigs' (s1, a1) = (calls2, s', a')" "calls = calls1 @ calls2"
    using assms(6) one Cons by (auto split: prod.splits)
  let ?r = "client_receive order (milter_owner m) sig (s, c)"
  have "session_answer calls1 s1 a1 c ?r"
    using receive_answer [OF assms(1,2) _ _ one, of order] assms(3,4,7) rest(2) Cons by auto
  then have r: "fst ?r = s1" "idle (snd ?r)" "sent calls1 a1 c (snd ?r)" "machine_of (snd ?r) = a1"
    by (simp_all add: session_answer_def sent_def)
  have "session_answer calls2 s' a' (snd ?r)
      (fold (client_receive order (milter_owner m)) sigs' (s1, snd ?r))"
    using session_run [OF assms(1) r(2), of sigs' s1 calls2 s' a' order] assms(4,5,7) rest r(4) Cons by simp
  moreover have "?r = (s1, snd ?r)" using r(1) by (simp add: prod_eq_iff)
  ultimately show ?thesis
    using r(3) rest(2) Cons by (simp add: session_answer_def sent_def)
qed

text \<open>A new context, whatever size the client has set for the packets kept back.\<close>

definition context_with_buffer :: "nat \<Rightarrow> client_context" where
  "context_with_buffer n = milter_client_context_set_packet_buffer_size milter_client_context_init n"

lemma init_idle [simp]:
  "idle milter_client_context_init" "wire milter_client_context_init = []"
  "enc_buffer (client_encoder milter_client_context_init) = []"
  by (simp_all add: milter_client_context_init_def idle_def steady_def wire_def milter_encoder_new_def)

lemma buffer_idle [simp]:
  "idle (context_with_buffer n)" "wire (context_with_buffer n) = []"
  "enc_buffer (client_encoder (context_with_buffer n)) = []"
  "machine_of (context_with_buffer n) = machine_of milter_client_context_init"
  by (simp_all add: context_with_buffer_def milter_client_context_set_packet_buffer_size_def machine_of_def
      milter_client_context_init_def idle_def steady_def wire_def milter_encoder_new_def)

definition milter_machine_init :: milter_machine where
  "milter_machine_init = machine_of milter_client_context_init"

subsection \<open>From the MTA's commands to the replies it reads\<close>

text \<open>The callbacks of the decoder's signals run while the reader feeds it.\<close>

definition run_session ::
    "platform \<Rightarrow> ((bytes \<rightharpoonup> bytes) \<Rightarrow> macro_table) \<Rightarrow> 's client_owner \<Rightarrow> bytes list \<Rightarrow>
     's \<times> client_context \<Rightarrow> 's \<times> client_context" where
  "run_session P order owner chunks sc =
     (case run_reader (decode_command P) milter_decoder_new chunks of
        Agent d sigs errs \<Rightarrow> fold (client_receive order owner) sigs sc
      | Agent_crashed f sigs \<Rightarrow> fold (client_receive order owner) sigs sc)"

lemma signal_quit: "signal_of_command c = Sig_quit \<longleftrightarrow> c = Cmd_quit"
  by (cases c) auto

lemma signal_negotiate: "signal_of_command c = Sig_negotiate opt \<longleftrightarrow> c = Cmd_negotiate opt"
  by (cases c) auto

text \<open>An owner that does what a milter says, however it is put together.\<close>

definition acts_as :: "((bytes \<rightharpoonup> bytes) \<Rightarrow> macro_table) \<Rightarrow> 's client_owner \<Rightarrow> 's milter \<Rightarrow> bool" where
  "acts_as order owner m \<longleftrightarrow> client_receive order owner = client_receive order (milter_owner m)"

lemma acts_as_milter: "acts_as order (milter_owner m) m"
  by (simp add: acts_as_def)

text \<open>The end of a session shuts the writer down; what has been written stays as it is.\<close>

lemma machine_run_append:
  "machine_run m (xs @ ys) sa =
     (case machine_run m xs sa of (calls, sa) \<Rightarrow>
        (case machine_run m ys sa of (calls', sa) \<Rightarrow> (calls @ calls', sa)))"
  by (induction xs arbitrary: sa) (auto split: prod.splits)

lemma quit_receives:
  "fst (client_receive order owner Sig_quit sc) = fst sc"
  "client_written (snd (client_receive order owner Sig_quit sc)) = client_written (snd sc)"
  "buffered_packets (snd (client_receive order owner Sig_quit sc)) = buffered_packets (snd sc)"
  by (simp_all add: client_receive_def client_cb_decoder_quit_def client_shutdown_def
      milter_client_context_set_state_def)

lemma session_run_quit:
  assumes "answers_at_once m" and "idle c" and "enc_buffer (client_encoder c) = []"
    and "Sig_quit \<notin> set (butlast sigs)" and "\<forall>sig \<in> set (tl sigs). \<forall>opt. sig \<noteq> Sig_negotiate opt"
    and "machine_run m sigs (s, machine_of c) = (calls, s', a')"
    and "\<forall>x \<in> set calls. wf_reply_call x"
    and "fold (client_receive order (milter_owner m)) sigs (s, c) = (t, d)"
  shows "t = s' \<and> buffered_packets d = [] \<and> concat (client_written d) = wire c @ packets calls"
proof (cases "Sig_quit \<in> set sigs")
  case False
  then have "session_answer calls s' a' c (t, d)"
    using session_run_first [OF assms(1-3) _ assms(5-7), of order] assms(8) by simp
  then show ?thesis by (auto simp: session_answer_def idle_def sent_def wire_def)
next
  case True
  define front where "front = butlast sigs"
  from True have "sigs \<noteq> []" by auto
  then have parts: "sigs = front @ [last sigs]" by (simp add: front_def)
  moreover from this have "set sigs = insert (last sigs) (set front)" by (metis list.simps(15) rotate1.simps(2) set_rotate1)
  ultimately have sigs: "sigs = front @ [Sig_quit]" using True assms(4) by (auto simp: front_def)
  obtain a where front: "machine_run m front (s, machine_of c) = (calls, s', a)"
    using assms(6) unfolding sigs machine_run_append by (auto simp: machine_step_def split: prod.splits)
  have offers: "\<forall>sig \<in> set (tl front). \<forall>opt. sig \<noteq> Sig_negotiate opt"
    using assms(5) unfolding sigs by (cases front) auto
  obtain t0 d0 where r: "fold (client_receive order (milter_owner m)) front (s, c) = (t0, d0)"
    by (rule prod.exhaust)
  have "session_answer calls s' a c (t0, d0)"
    using session_run_first [OF assms(1-3) _ offers front assms(7), of order] assms(4) r
    unfolding front_def [symmetric] by simp
  moreover have "(t, d) = client_receive order (milter_owner m) Sig_quit (t0, d0)"
    using assms(8) r unfolding sigs by simp
  then have "t = t0" "client_written d = client_written d0" "buffered_packets d = buffered_packets d0"
    using quit_receives [of order "milter_owner m" "(t0, d0)"] by (metis fst_conv snd_conv)+
  ultimately show ?thesis by (auto simp: session_answer_def idle_def sent_def wire_def)
qed

lemma session_replies:
  assumes "platform_laws P" and "wf_session P cs" and "Cmd_quit \<notin> set (butlast cs)"
    and "concat chunks = concat (encode_commands P milter_encoder_new cs)"
    and "answers_at_once m" and owner: "acts_as order owner m"
    and "machine_run m (map signal_of_command cs) (s, milter_machine_init) = (calls, s', a')"
    and "wf_replies calls"
    and "run_session P order owner chunks (s, context_with_buffer n) = (t, c)"
    and "concat chunks' = concat (client_written c)"
  shows "t = s' \<and> buffered_packets c = [] \<and> (\<exists>d. run_reader decode_reply milter_decoder_new chunks' =
       Agent d (map signal_of_reply calls) [] \<and> dec_state d = IN_START \<and> dec_buffer d = [])"
proof -
  let ?sigs = "map signal_of_command cs"
  have "concat chunks = stream (map (command_body P) cs)"
    using assms(1,2,4) by (simp add: encode_commands_stream)
  from commands.chunked_stream [OF session_packets [OF assms(1,2)] this]
  obtain d where "run_reader (decode_command P) milter_decoder_new chunks = Agent d ?sigs []" by blast
  then have run: "fold (client_receive order (milter_owner m)) ?sigs (s, context_with_buffer n) = (t, c)"
    using assms(9) owner by (simp add: run_session_def acts_as_def)
  have last_only: "Sig_quit \<notin> set (butlast ?sigs)"
    using assms(3) by (force simp: signal_quit map_butlast [symmetric] dest: sym)
  have "\<forall>sig \<in> set (tl ?sigs). \<forall>opt. sig \<noteq> Sig_negotiate opt"
  proof -
    have "\<forall>c \<in> set (tl cs). \<not> is_Cmd_negotiate c" using assms(2) unfolding wf_session_def by blast
    then show ?thesis unfolding map_tl [symmetric] by (auto simp: signal_negotiate)
  qed
  note one_offer = this
  have wf: "\<forall>x \<in> set calls. wf_reply_call x" using assms(8) unfolding wf_replies_def by blast
  have machine: "machine_run m ?sigs (s, machine_of (context_with_buffer n)) = (calls, s', a')"
    using assms(7) by (simp add: milter_machine_init_def)
  note ends = session_run_quit [OF assms(5) buffer_idle(1,3) last_only one_offer machine wf run]
  then have "concat chunks' = stream (map reply_bytes calls)"
    using assms(10) by (simp add: packets_def stream_def)
  with ends show ?thesis using replies.chunked_stream [OF reply_packets [OF assms(8)]] by blast
qed


subsection \<open>A sample session\<close>

text \<open>A milter that tags a message and refuses it; its first request comes too early.\<close>

definition sample_milter :: "unit milter" where
  "sample_milter =
     \<lparr>answer_command = \<lambda>command s.
        (case command of
           Client_helo fqdn \<Rightarrow> (MILTER_STATUS_CONTINUE, [Ask_add_header (Some ''X'') (Some ''early'')], s)
         | Client_end_of_message chunk \<Rightarrow>
             (MILTER_STATUS_REJECT,
              [Ask_quarantine (Some ''q''), Ask_add_header (Some ''X'') (Some ''y''),
               Ask_delete_recipient (Some ''r''), Ask_reply 550 (Some ''5.7.1'') (Some ''no'')], s)
         | _ \<Rightarrow> (MILTER_STATUS_NOT_CHANGE, [], s)),
      answer_negotiate = \<lambda>args s. (MILTER_STATUS_DEFAULT, args, s)\<rparr>"

definition sample_commands :: "command list" where
  "sample_commands =
     [Cmd_negotiate \<lparr>version = 6, action = 1, step = 0\<rparr>, Cmd_helo ''a'', Cmd_data, Cmd_end_of_message None,
      Cmd_quit]"

lemma sample_commands_wf: "wf_session sample_platform sample_commands"
  by (simp add: wf_session_def sample_commands_def sample_simps action_flags_mask_def step_mask_values)

definition sample_calls :: "reply_call list" where
  "sample_calls =
     [Rep_negotiate \<lparr>version = 6, action = 1, step = 0\<rparr> (Some []), Rep_continue, Rep_continue,
      Rep_add_header ''X'' (Some ''y''), Rep_quarantine ''q'', Rep_reply_code ''550 5.7.1 no'']"

lemma sample_calls_wf: "wf_replies sample_calls"
  by (simp add: wf_replies_def sample_calls_def wf_requests_def wf_option_def
      wf_reply_line_def is_digit_def wf_string_def optional_string_def action_flags_mask_def
      step_mask_values encode_staged_def staged_def)

lemma sample_reply:
  "milter_client_context_set_reply no_reply 550 (Some ''5.7.1'') (Some ''no'') =
     (True, \<lparr>reply_code_number = 550, extended_reply_code = Some ''5.7.1'', reply_message = Some ''no''\<rparr>)"
  "milter_client_context_format_reply
     \<lparr>reply_code_number = 550, extended_reply_code = Some ''5.7.1'', reply_message = Some ''no''\<rparr> =
   Some ''550 5.7.1 no''"
  by code_simp+

lemma sample_machine_run:
  "machine_run sample_milter (map signal_of_command sample_commands) ((), milter_machine_init) =
     (sample_calls, (), \<lparr>machine_state = CLIENT_CONTEXT_STATE_QUIT,
        machine_option = Some \<lparr>version = 6, action = 1, step = 0\<rparr>,
        machine_reply = \<lparr>reply_code_number = 550, extended_reply_code = Some ''5.7.1'',
          reply_message = Some ''no''\<rparr>, machine_quarantine = Some ''q''\<rparr>)"
  by (simp add: sample_commands_def machine_step_def machine_negotiate_def machine_command_def
      sample_milter_def milter_machine_init_def machine_of_def milter_client_context_init_def
      accumulated_def default_status_def final_calls_def quarantine_calls_def refusal_call_def
      named_call_def permits_def MILTER_ACTION_ADD_HEADERS_def
      MILTER_ACTION_DELETE_ENVELOPE_RECIPIENT_def sample_reply sample_calls_def
      milter_option_copy_def milter_option_new_def action_flags_mask_def step_mask_values
      milter_macros_requests_new_def Let_def)


end
