(* ===== verification/Children_Message_Spec.thy ===== *)
theory Children_Message_Spec
  imports Children_Message Sample_Platform "HOL-Library.Sublist"
begin

text \<open>
  What the signals at the end of a message amount to: a receiver that applies the header
  signals to the message it has obtains the headers the milters wanted, and the body
  signals carry the body in chunks of the right size.
\<close>

subsection \<open>A receiver of header signals\<close>

text \<open>The other side keeps its headers as \<open>milter-headers.c\<close> does.\<close>

fun apply_header_event :: "children_event \<Rightarrow> milter_headers \<Rightarrow> milter_headers" where
  "apply_header_event (Children_add_header n v) hs = milter_headers_add_header hs n v"
| "apply_header_event (Children_insert_header i n v) hs = milter_headers_insert_header hs i n v"
| "apply_header_event (Children_change_header n k v) hs = snd (milter_headers_change_header hs n k v)"
| "apply_header_event (Children_delete_header n k) hs = snd (milter_headers_delete_header hs n k)"
| "apply_header_event _ hs = hs"

abbreviation original_index :: "milter_headers \<Rightarrow> milter_header \<Rightarrow> nat option" where
  "original_index \<equiv> milter_headers_index_in_same_header_name"

lemma original_index_Some:
  "original_index hs t = Some k \<Longrightarrow> 0 < k \<and> k \<le> length (named (header_name t) hs) \<and>
     named (header_name t) hs ! (k - 1) = t"
  using index_loop_Some [of hs t 0 k] by (simp add: milter_headers_index_in_same_header_name_def)

lemma original_index_member: "t \<in> set hs \<Longrightarrow> \<exists>k. original_index hs t = Some k"
  by (simp add: index_loop_member milter_headers_index_in_same_header_name_def)

lemma distinct_named: "distinct hs \<Longrightarrow> distinct (named n hs)"
  by (simp add: named_def)

text \<open>
  The original headers \<open>P\<close> that have not been dealt with are in the receiver's list \<open>S\<close> at
  the index among those of their name that they have in the original list \<open>G\<close>.
\<close>

definition tracks :: "milter_headers \<Rightarrow> milter_headers \<Rightarrow> milter_headers \<Rightarrow> bool" where
  "tracks G P S \<longleftrightarrow> distinct G \<and> subseq P G \<and>
     (\<forall>h \<in> set P. \<forall>k. original_index G h = Some k \<longrightarrow>
        k \<le> length (named (header_name h) S) \<and> named (header_name h) S ! (k - 1) = h)"

lemma subseq_set: "subseq xs ys \<Longrightarrow> set xs \<subseteq> set ys"
  by (induction rule: list_emb.induct) auto

lemma subseq_distinct: "subseq xs ys \<Longrightarrow> distinct ys \<Longrightarrow> distinct xs"
  by (induction rule: list_emb.induct) (auto dest: subseq_set)

lemma tracks_init: "distinct G \<Longrightarrow> tracks G G G"
  using original_index_Some by (auto simp: tracks_def)

lemma tracks_distinct: "tracks G P S \<Longrightarrow> distinct P"
  by (auto simp: tracks_def dest: subseq_distinct)

lemma tracks_member: "tracks G P S \<Longrightarrow> h \<in> set P \<Longrightarrow> \<exists>k. original_index G h = Some k"
  unfolding tracks_def by (meson original_index_member subseq_set subsetD)

lemma tracks_subseq:
  assumes "tracks G P S" and "subseq Q P"
  shows "tracks G Q S"
  using assms by (auto simp: tracks_def dest: subseq_set intro: subseq_order.trans)

lemma subseq_remove1: "subseq (remove1 x xs) xs"
  by (induction xs) auto

lemma tracks_insert:
  assumes "tracks G P S" and "n \<notin> header_name ` set P"
  shows "tracks G P (milter_headers_insert_header S i n v)"
proof -
  have "named m (milter_headers_insert_header S i n v) = named m S" if "m \<noteq> n" for m
  proof -
    have "named m (take i S @ drop i S) = named m (take i S) @ named m (drop i S)"
      by (rule named_simps)
    with that show ?thesis by (simp add: milter_headers_insert_header_def)
  qed
  moreover have "header_name h \<noteq> n" if "h \<in> set P" for h using assms(2) that by blast
  ultimately show ?thesis using assms(1) by (simp add: tracks_def)
qed

text \<open>Where a tracked header is.\<close>

lemma tracks_split:
  assumes "tracks G P S" and "g \<in> set P" and "original_index G g = Some k"
  obtains i where "milter_headers_lookup_by_name_with_index S (header_name g) k = Some i"
    and "i < length S" and "S = take i S @ g # drop (Suc i) S"
    and "length (named (header_name g) (take i S)) = k - 1"
proof -
  from assms have "0 < k" "k \<le> length (named (header_name g) S)" "named (header_name g) S ! (k - 1) = g"
    using original_index_Some by (auto simp: tracks_def)
  from lookup_named [OF this(1,2)] this(3) show thesis using that by metis
qed

lemma original_index_inj:
  assumes "original_index G g = Some k" and "original_index G h = Some k"
    and "header_name g = header_name h"
  shows "g = h"
  using original_index_Some [OF assms(1)] original_index_Some [OF assms(2)] assms(3) by simp

lemma tracks_change:
  assumes "tracks G P S" and "g \<in> set P" and "original_index G g = Some k" and "v \<noteq> None"
  defines "S' \<equiv> snd (milter_headers_change_header S (header_name g) k v)"
  shows "tracks G (remove1 g P) S'"
    and "add_mset g (mset S') = add_mset (milter_header_new (header_name g) v) (mset S)"
proof -
  let ?n = "header_name g" and ?new = "milter_header_new (header_name g) v"
  from tracks_split [OF assms(1-3)] obtain i
    where i: "milter_headers_lookup_by_name_with_index S ?n k = Some i" "i < length S"
      "S = take i S @ g # drop (Suc i) S" "length (named ?n (take i S)) = k - 1" by metis
  have "S ! i = g" using i(2,3) by (metis length_take min.absorb4 nth_append_length)
  then have "milter_header_change_value (S ! i) v = ?new"
    by (simp add: milter_header_change_value_def milter_header_new_def)
  moreover obtain y where "v = Some y" using assms(4) by blast
  ultimately have S': "S' = take i S @ ?new # drop (Suc i) S"
    using i(1,2) by (simp add: S'_def milter_headers_change_header_def upd_conv_take_nth_drop)
  have "mset S = mset (take i S @ g # drop (Suc i) S)" using i(3) by simp
  then show "add_mset g (mset S') = add_mset ?new (mset S)" by (simp add: S')
  have named: "named m S' = (if m = ?n then (named m S)[k - 1 := ?new] else named m S)" for m
  proof -
    have "named m S = named m (take i S) @ named m (g # drop (Suc i) S)"
      using arg_cong [OF i(3), of "named m"] by simp
    then show ?thesis using i(4)
      by (cases "m = ?n") (simp_all add: S' list_update_append)
  qed
  have "k \<le> length (named ?n S')" for m using assms(1-3) by (auto simp: tracks_def named)
  show "tracks G (remove1 g P) S'"
    unfolding tracks_def
  proof (intro conjI ballI allI impI)
    from assms(1) have sub: "subseq P G" and "distinct G" by (simp_all add: tracks_def)
    then show "distinct G" by simp
    show "subseq (remove1 g P) G" by (rule subseq_order.trans [OF subseq_remove1 sub])
    fix h j assume h: "h \<in> set (remove1 g P)" and j: "original_index G h = Some j"
    have "h \<in> set P" "h \<noteq> g" using h tracks_distinct [OF assms(1)] by auto
    with assms(1) j have old: "j \<le> length (named (header_name h) S)" "named (header_name h) S ! (j - 1) = h"
      by (auto simp: tracks_def)
    show "j \<le> length (named (header_name h) S')" using old(1) by (auto simp: named)
    have "j \<noteq> k" if "header_name h = ?n"
      using original_index_inj [of G g k h] assms(3) j that \<open>h \<noteq> g\<close> by auto
    moreover have "0 < j" "0 < k" using original_index_Some [OF j] original_index_Some [OF assms(3)] by auto
    ultimately show "named (header_name h) S' ! (j - 1) = h" using old(2) by (auto simp: named)
  qed
qed

lemma original_index_order:
  assumes "distinct G" and "subseq (Q @ [g]) G" and "h \<in> set Q" and "header_name h = header_name g"
    and "original_index G h = Some j" and "original_index G g = Some k"
  shows "j < k"
proof -
  let ?n = "header_name g" let ?L = "named ?n G"
  from assms(3) obtain q r where "Q = q @ h # r" by (meson split_list)
  then have "subseq [h, g] (Q @ [g])"
    by (metis append.left_neutral append_Cons append_assoc list_emb_append2 subseq_Cons2_iff
        subseq_order.order_refl)
  with assms(2) have "subseq [h, g] G" by (blast intro: subseq_order.trans)
  then have "subseq (filter (\<lambda>x. header_name x = ?n) [h, g]) ?L"
    unfolding named_def by (rule subseq_filter)
  then have "subseq [h, g] ?L" using assms(4) by simp
  then obtain us vs where L: "?L = us @ h # vs" "g \<in> set vs"
    by (auto dest!: list_emb_ConsD simp: subseq_singleton_left)
  then obtain a where a: "a < length vs" "vs ! a = g" by (meson in_set_conv_nth)
  have d: "distinct ?L" using assms(1) by (rule distinct_named)
  have "?L ! length us = h" "?L ! (length us + 1 + a) = g" "length us + 1 + a < length ?L"
    using L(1) a by (simp_all add: nth_append)
  moreover have "?L ! (j - 1) = h" "?L ! (k - 1) = g" "0 < j" "j \<le> length ?L" "0 < k" "k \<le> length ?L"
    using original_index_Some [OF assms(5)] original_index_Some [OF assms(6)] assms(4) by auto
  moreover from this have "j - 1 < length ?L" "k - 1 < length ?L" "length us < length ?L"
    using L(1) by (linarith, linarith, simp)
  ultimately have "j - 1 = length us" "k - 1 = length us + 1 + a"
    using nth_eq_iff_index_eq [OF d] by metis+
  then show ?thesis using \<open>0 < j\<close> \<open>0 < k\<close> by simp
qed

lemma tracks_delete:
  assumes "tracks G (Q @ [g]) S" and "original_index G g = Some k"
  defines "S' \<equiv> snd (milter_headers_delete_header S (header_name g) k)"
  shows "tracks G Q S'" and "add_mset g (mset S') = mset S"
proof -
  let ?n = "header_name g"
  from tracks_split [OF assms(1) _ assms(2)] obtain i
    where i: "milter_headers_lookup_by_name_with_index S ?n k = Some i" "i < length S"
      "S = take i S @ g # drop (Suc i) S" "length (named ?n (take i S)) = k - 1" by auto
  have S': "S' = take i S @ drop (Suc i) S"
    using i(1) by (simp add: S'_def milter_headers_delete_header_def)
  have "mset S = mset (take i S @ g # drop (Suc i) S)" using i(3) by simp
  then show "add_mset g (mset S') = mset S" by (simp add: S')
  have S: "named m S = named m (take i S) @ named m (g # drop (Suc i) S)" for m
    using arg_cong [OF i(3), of "named m"] by simp
  have k: "0 < k" using original_index_Some [OF assms(2)] by simp
  have "\<forall>h \<in> set Q. \<forall>j. original_index G h = Some j \<longrightarrow>
      j \<le> length (named (header_name h) S') \<and> named (header_name h) S' ! (j - 1) = h"
  proof (intro ballI allI impI)
    fix h j assume h: "h \<in> set Q" and j: "original_index G h = Some j"
    from assms(1) h j have old: "j \<le> length (named (header_name h) S)" "named (header_name h) S ! (j - 1) = h"
      by (auto simp: tracks_def)
    define as where "as = named (header_name h) (take i S)"
    define bs where "bs = named (header_name h) (drop (Suc i) S)"
    have new: "named (header_name h) S' = as @ bs" by (simp add: S' as_def bs_def)
    have j0: "0 < j" using original_index_Some [OF j] by simp
    show "j \<le> length (named (header_name h) S') \<and> named (header_name h) S' ! (j - 1) = h"
    proof (cases "header_name h = ?n")
      case True
      have "j < k" using assms(1,2) h j True
        by (intro original_index_order [of G Q g h]) (auto simp: tracks_def)
      moreover have "length as = k - 1" using i(4) True by (simp add: as_def)
      ultimately have lt: "j - 1 < length as" using j0 by linarith
      have "named (header_name h) S = as @ g # bs"
        using S [of "header_name h"] True by (simp add: as_def bs_def)
      with old lt show ?thesis by (simp add: new nth_append)
    next
      case False
      then have "named (header_name h) S = as @ bs"
        using S [of "header_name h"] by (simp add: as_def bs_def)
      with old show ?thesis by (simp add: new)
    qed
  qed
  moreover from assms(1) have sub: "subseq (Q @ [g]) G" and "distinct G" by (simp_all add: tracks_def)
  moreover have "subseq Q (Q @ [g])" by (simp add: subseq_rev_drop_many)
  from subseq_order.trans [OF this sub] have "subseq Q G" .
  ultimately show "tracks G Q S'" by (simp add: tracks_def)
qed

subsection \<open>All signals\<close>

lemma tracks_signal:
  assumes "tracks G P S" and "header_value h \<noteq> None" and "header_signal G P i h = (evs, P')"
  defines "S' \<equiv> fold apply_header_event evs S"
  shows "tracks G P' S' \<and> mset S' + mset P = add_mset h (mset S) + mset P'"
proof (cases "h \<in> set P")
  case True
  then have "evs = []" "P' = remove1 h P" using assms(3) by (simp_all add: header_signal_def)
  with True tracks_subseq [OF assms(1) subseq_remove1] show ?thesis by (simp add: S'_def)
next
  case False
  show ?thesis
  proof (cases "milter_headers_lookup_by_name P (header_name h)")
    case None
    with False assms(3) have ev: "evs = [Children_insert_header i (header_name h) (header_value h)]" "P' = P"
      by (simp_all add: header_signal_def)
    have "mset S = mset (take i S @ drop i S)" by simp
    then have "mset S' = add_mset h (mset S)"
      unfolding mset_append by (simp add: S'_def ev milter_headers_insert_header_def)
    moreover have "header_name h \<notin> header_name ` set P"
      using None milter_headers_lookup_by_name_None by blast
    ultimately show ?thesis using tracks_insert [OF assms(1)] by (simp add: S'_def ev)
  next
    case (Some g)
    then have g: "g \<in> set P" "header_name g = header_name h"
      using milter_headers_lookup_by_name_Some by blast+
    from tracks_member [OF assms(1) g(1)] obtain k where k: "original_index G g = Some k" by blast
    with False Some assms(3) g have
      ev: "evs = [Children_change_header (header_name g) k (header_value h)]" "P' = remove1 g P"
      by (simp_all add: header_signal_def)
    note change = tracks_change [OF assms(1) g(1) k assms(2)]
    have S': "S' = snd (milter_headers_change_header S (header_name g) k (header_value h))"
      by (simp add: S'_def ev)
    have "add_mset g (mset S') = add_mset h (mset S)"
      using change(2) by (simp add: S' g(2))
    moreover have "mset P = add_mset g (mset (remove1 g P))" using g(1) by simp
    ultimately have "mset S' + mset P = add_mset h (mset S) + mset (remove1 g P)"
      by (metis union_mset_add_mset_left union_mset_add_mset_right)
    with change(1) show ?thesis by (simp add: S' ev)
  qed
qed

lemma tracks_signals:
  assumes "tracks G P S" and "\<forall>h \<in> set hs. header_value h \<noteq> None"
    and "header_signals G P i hs = (evs, P')"
  shows "tracks G P' (fold apply_header_event evs S) \<and>
    mset (fold apply_header_event evs S) + mset P = mset hs + mset S + mset P'"
  using assms
proof (induction hs arbitrary: P S i evs P')
  case (Cons h hs)
  obtain evs1 Q where e1: "header_signal G P i h = (evs1, Q)" by fastforce
  obtain evs2 R where e2: "header_signals G Q (i + 1) hs = (evs2, R)" by fastforce
  from Cons.prems(3) e1 e2 have e: "header_signal G P i h = (evs1, Q)"
    "header_signals G Q (i + 1) hs = (evs2, P')" "evs = evs1 @ evs2" by simp_all
  let ?T = "fold apply_header_event evs1 S"
  have T: "tracks G Q ?T" "mset ?T + mset P = add_mset h (mset S) + mset Q"
    using tracks_signal [OF Cons.prems(1) _ e(1)] Cons.prems(2) by simp_all
  from Cons.IH [OF T(1) _ e(2)] Cons.prems(2)
  have "tracks G P' (fold apply_header_event evs2 ?T)"
    and ih: "mset (fold apply_header_event evs2 ?T) + mset Q = mset hs + mset ?T + mset P'"
    by simp_all
  let ?U = "mset (fold apply_header_event evs2 ?T)"
  have "(?U + mset P) + mset Q = (?U + mset Q) + mset P" by (simp add: ac_simps)
  also have "\<dots> = (mset ?T + mset P) + (mset hs + mset P')" by (subst ih) (simp add: ac_simps)
  also have "\<dots> = (mset (h # hs) + mset S + mset P') + mset Q" using T(2) by (simp add: ac_simps)
  finally have "?U + mset P = mset (h # hs) + mset S + mset P'" by (rule add_right_imp_eq)
  with \<open>tracks G P' (fold apply_header_event evs2 ?T)\<close> e(3) show ?case by simp
qed simp

lemma tracks_deletes:
  assumes "tracks G P S"
  shows "mset (fold apply_header_event (delete_signals G P) S) + mset P = mset S"
  using assms
proof (induction P arbitrary: S rule: rev_induct)
  case Nil
  then show ?case by (simp add: delete_signals_def)
next
  case (snoc g P)
  from tracks_member [OF snoc.prems, of g] obtain k where k: "original_index G g = Some k" by auto
  from tracks_delete [OF snoc.prems k] snoc.IH k show ?case
    by (simp add: delete_signals_def)
qed

text \<open>
  C7: applied one after the other, the signals the manager emits for the headers turn the
  original headers into the ones its milters have made of them (the order apart), unless a header of
  the original message occurs twice with the same value, or a header its milters leave has no value at
  all - as one they have inserted with an empty value has: such a header may be lost
  (\<open>valueless_header_lost\<close>).
\<close>

theorem header_difference_applied:
  assumes "distinct original" and "\<forall>h \<in> set hs. header_value h \<noteq> None"
  shows "mset (fold apply_header_event (header_difference original hs) original) = mset hs"
proof -
  obtain evs P where e: "header_signals original original 0 hs = (evs, P)" by fastforce
  let ?S = "fold apply_header_event evs original"
  from tracks_signals [OF tracks_init [OF assms(1)] assms(2) e]
  have "tracks original P ?S" "mset ?S + mset original = mset hs + mset original + mset P" by simp_all
  with tracks_deletes [of original P ?S] e show ?thesis
    by (simp add: header_difference_def ac_simps)
qed

theorem header_difference_applied_witness:
  "mset (fold apply_header_event (header_difference
       [milter_header_new ''A'' (Some ''1''), milter_header_new ''B'' (Some ''2''),
        milter_header_new ''A'' (Some ''3'')]
       [milter_header_new ''C'' (Some ''0''), milter_header_new ''A'' (Some ''3''),
        milter_header_new ''B'' (Some ''4'')])
      [milter_header_new ''A'' (Some ''1''), milter_header_new ''B'' (Some ''2''),
       milter_header_new ''A'' (Some ''3'')]) =
   mset [milter_header_new ''C'' (Some ''0''), milter_header_new ''A'' (Some ''3''),
        milter_header_new ''B'' (Some ''4'')]"
  by (rule header_difference_applied) (simp_all add: milter_header_new_def)

text \<open>
  A header that occurs twice with the same value is not told apart: when the milters
  change both, the receiver changes the first one twice and keeps the second.
\<close>

theorem duplicate_header_changed_once:
  assumes "x \<noteq> v" and "y \<noteq> v" and "x \<noteq> None" and "y \<noteq> None"
  shows "fold apply_header_event
      (header_difference [milter_header_new n v, milter_header_new n v]
         [milter_header_new n x, milter_header_new n y])
      [milter_header_new n v, milter_header_new n v] =
    [milter_header_new n y, milter_header_new n v]"
  using assms
  by (auto simp: header_difference_def header_signal_def delete_signals_def milter_header_new_def
      milter_headers_lookup_by_name_def milter_headers_index_in_same_header_name_def
      milter_headers_change_header_def milter_headers_lookup_by_name_with_index_def
      milter_header_change_value_def)

theorem duplicate_header_changed_once_witness:
  "fold apply_header_event
      (header_difference [milter_header_new ''Received'' (Some ''a''), milter_header_new ''Received'' (Some ''a'')]
         [milter_header_new ''Received'' (Some ''b''), milter_header_new ''Received'' (Some ''c'')])
      [milter_header_new ''Received'' (Some ''a''), milter_header_new ''Received'' (Some ''a'')] =
    [milter_header_new ''Received'' (Some ''c''), milter_header_new ''Received'' (Some ''a'')]"
  by (rule duplicate_header_changed_once) simp_all

text \<open>
  A header whose value a milter replaces by none at all - it deletes the header and inserts it again
  with an empty value, which arrives as none - is reported as changed to no value, and that is a deletion.
\<close>

theorem valueless_header_lost:
  assumes "v \<noteq> None"
  shows "header_difference [milter_header_new n v] [milter_header_new n None] =
      [Children_change_header n 1 None]"
    and "fold apply_header_event
      (header_difference [milter_header_new n v] [milter_header_new n None]) [milter_header_new n v] = []"
  using assms
  by (auto simp: header_difference_def header_signal_def delete_signals_def milter_header_new_def
      milter_headers_lookup_by_name_def milter_headers_index_in_same_header_name_def
      milter_headers_change_header_def milter_headers_lookup_by_name_with_index_def
      milter_header_change_value_def milter_headers_delete_header_def)

subsection \<open>Body chunks\<close>

lemma body_chunks_0:
  assumes "offset < length b"
  shows "body_chunks 0 b offset = None"
proof (cases "body_chunks 0 b offset")
  case (Some cs)
  moreover have "body_chunks 0 b offset =
      Option.bind (body_chunks 0 b offset) (\<lambda>chunks. Some ([] # chunks))"
    using assms by (subst (1) body_chunks.simps) simp
  ultimately have "cs = [] # cs" by simp
  then show ?thesis by (metis not_Cons_self2)
qed

lemma body_chunks_Some:
  assumes "0 < n"
  shows "\<exists>cs. body_chunks n b offset = Some cs \<and> concat cs = drop offset b \<and>
     (\<forall>c \<in> set cs. 0 < length c \<and> length c \<le> n)"
proof (induction "length b - offset" arbitrary: offset rule: less_induct)
  case less
  show ?case
  proof (cases "offset < length b")
    case True
    let ?w = "min (length b - offset) n"
    have "0 < ?w" using True assms by simp
    then have "length b - (offset + ?w) < length b - offset" using True by linarith
    from less [OF this] obtain cs where
      cs: "body_chunks n b (offset + ?w) = Some cs" "concat cs = drop (offset + ?w) b"
      "\<forall>c \<in> set cs. 0 < length c \<and> length c \<le> n" by blast
    have "body_chunks n b offset = Some (take ?w (drop offset b) # cs)"
      using True cs(1) by (subst body_chunks.simps) (simp add: Let_def)
    moreover have "concat (take ?w (drop offset b) # cs) = drop offset b"
      using cs(2) append_take_drop_id [of ?w "drop offset b"] by (simp add: add.commute)
    moreover have "\<forall>c \<in> set (take ?w (drop offset b) # cs). 0 < length c \<and> length c \<le> n"
      using cs(3) True assms by auto
    ultimately show ?thesis by blast
  qed (simp add: body_chunks.simps)
qed

definition children_quiet :: "children_environment \<Rightarrow> bool" where
  "children_quiet env \<longleftrightarrow> (\<forall>ev ch. env_observe env ev ch = ch)"

lemma children_emit_quiet [simp]:
  "children_quiet env \<Longrightarrow>
     children_emit env ev ch = ch\<lparr>children_emitted := children_emitted ch @ [ev]\<rparr>"
  by (simp add: children_emit_def children_quiet_def)

lemma fold_emit_quiet [simp]:
  assumes "children_quiet env"
  shows "fold (children_emit env) evs ch = ch\<lparr>children_emitted := children_emitted ch @ evs\<rparr>"
    "fold (\<lambda>c. children_emit env (f c)) cs ch =
       ch\<lparr>children_emitted := children_emitted ch @ map f cs\<rparr>"
  using assms by (induction evs arbitrary: ch, simp, simp) (induction cs arbitrary: ch, simp_all)

text \<open>The body that is kept, in memory or in the file.\<close>

definition kept_body :: "children \<Rightarrow> bytes" where
  "kept_body ch =
     (case children_body ch of
        Some b \<Rightarrow> b
      | None \<Rightarrow> (case children_body_file ch of None \<Rightarrow> [] | Some f \<Rightarrow> file_content f))"

lemma kept_body_update [simp]:
  "kept_body (ch\<lparr>replaced_body_for_each_child := x, replaced_body := y\<rparr>) = kept_body ch"
  by (simp add: kept_body_def split: option.split)

definition body_coherent :: "children \<Rightarrow> bool" where
  "body_coherent ch \<longleftrightarrow>
     (children_body ch = None \<or> children_body_file ch = None) \<and>
     (case children_body_file ch of None \<Rightarrow> True | Some f \<Rightarrow> file_position f = length (file_content f))"

definition file_works :: "children_environment \<Rightarrow> bool" where
  "file_works env \<longleftrightarrow> (\<forall>x. env_file env x)"

lemma write_body_kept:
  assumes "file_works env" and "body_coherent ch"
  shows "\<exists>ch'. write_body env ch chunk = (True, ch') \<and> kept_body ch' = kept_body ch @ chunk \<and>
     body_coherent ch' \<and>
     ch' = ch\<lparr>children_body := children_body ch', children_body_file := children_body_file ch'\<rparr>"
  using assms
  by (cases "children_body ch"; cases "children_body_file ch")
    (auto simp: write_body_def write_body_to_string_def write_body_to_file_def open_body_file_def
      write_file_def kept_body_def body_coherent_def file_works_def Let_def)

lemma emit_replace_body_quiet:
  assumes "children_quiet env" and "file_works env" and "0 < env_chunk_size env"
  shows "\<exists>cs ch'. emit_replace_body_signal env ch = (True, ch') \<and>
     children_emitted ch' = children_emitted ch @ map Children_replace_body cs \<and>
     concat cs = kept_body ch \<and> (\<forall>c \<in> set cs. 0 < length c \<and> length c \<le> env_chunk_size env) \<and>
     ch' = ch\<lparr>children_emitted := children_emitted ch', children_body_file := children_body_file ch'\<rparr>"
proof -
  obtain cs where cs: "body_chunks (env_chunk_size env) (kept_body ch) 0 = Some cs"
    "concat cs = kept_body ch" "\<forall>c \<in> set cs. 0 < length c \<and> length c \<le> env_chunk_size env"
    using body_chunks_Some [OF assms(3), of "kept_body ch" 0] by auto
  have none: "cs = []" if "children_body ch = None" "children_body_file ch = None"
    using that cs(1) by (simp add: kept_body_def body_chunks.simps)
  show ?thesis
    using cs assms(1,2) none
    by (cases "children_body ch"; cases "children_body_file ch")
      (auto simp: emit_replace_body_signal_def emit_replace_body_signal_string_def emit_chunks_def
        emit_replace_body_signal_file_def kept_body_def file_works_def intro!: exI [of _ cs])
qed

lemma at_message_end_replies:
  assumes "ctx_state (context_of ch i) = SERVER_CONTEXT_STATE_END_OF_MESSAGE"
    and "\<not> is_evaluation_mode ch i"
  shows "at_message_end env ch i f = f ch"
  using assms by (simp add: at_message_end_def is_end_of_message_state_def)

text \<open>A child that replaces the body does so with one or more chunks.\<close>

definition replace_body_with ::
    "children_environment \<Rightarrow> nat \<Rightarrow> bytes list \<Rightarrow> children \<Rightarrow> children" where
  "replace_body_with env i cs ch = fold (\<lambda>c ch. cb_replace_body env ch i c) cs ch"

lemma replace_body_chunk:
  fixes c :: bytes
  assumes "file_works env" and "body_coherent ch"
    and "ctx_state (context_of ch i) = SERVER_CONTEXT_STATE_END_OF_MESSAGE"
    and "\<not> is_evaluation_mode ch i"
  defines "ch' \<equiv> cb_replace_body env ch i c"
  shows "kept_body ch' = (if replaced_body_for_each_child ch then kept_body ch else []) @ c"
    and "body_coherent ch'" and "replaced_body ch'" and "replaced_body_for_each_child ch'"
    and "milters ch' = milters ch" and "children_emitted ch' = children_emitted ch"
    and "original_headers ch' = original_headers ch" and "children_failure ch' = children_failure ch"
proof -
  let ?d = "if replaced_body_for_each_child ch then ch else dispose_body_related_data ch"
  have "body_coherent ?d" using assms(2) by (simp add: body_coherent_def dispose_body_related_data_def)
  from write_body_kept [OF assms(1) this, of c] obtain e
    where e: "write_body env ?d c = (True, e)" "kept_body e = kept_body ?d @ c" "body_coherent e"
      "e = ?d\<lparr>children_body := children_body e, children_body_file := children_body_file e\<rparr>" by blast
  have ch': "ch' = e\<lparr>replaced_body_for_each_child := True, replaced_body := True\<rparr>"
    using e(1) assms(3,4) by (simp add: ch'_def cb_replace_body_def at_message_end_replies Let_def)
  have d: "milters ?d = milters ch" "children_emitted ?d = children_emitted ch"
    "original_headers ?d = original_headers ch" "children_failure ?d = children_failure ch"
    "kept_body ?d = (if replaced_body_for_each_child ch then kept_body ch else [])"
    by (simp_all add: dispose_body_related_data_def kept_body_def)
  have e': "milters e = milters ?d" "children_emitted e = children_emitted ?d"
    "original_headers e = original_headers ?d" "children_failure e = children_failure ?d"
    by (subst e(4), simp)+
  show "kept_body ch' = (if replaced_body_for_each_child ch then kept_body ch else []) @ c"
    using e(2) d(5) by (simp add: ch')
  show "body_coherent ch'" using e(3) by (simp add: ch' body_coherent_def)
  show "replaced_body ch'" "replaced_body_for_each_child ch'" "milters ch' = milters ch"
    "children_emitted ch' = children_emitted ch" "original_headers ch' = original_headers ch"
    "children_failure ch' = children_failure ch"
    using e' d by (simp_all add: ch')
qed

lemma replace_body_chunks:
  fixes cs :: "bytes list"
  assumes "file_works env" and "body_coherent ch"
    and "ctx_state (context_of ch i) = SERVER_CONTEXT_STATE_END_OF_MESSAGE"
    and "\<not> is_evaluation_mode ch i" and "replaced_body_for_each_child ch"
  defines "ch' \<equiv> replace_body_with env i cs ch"
  shows "kept_body ch' = kept_body ch @ concat cs \<and> body_coherent ch' \<and>
    children_emitted ch' = children_emitted ch \<and> (cs \<noteq> [] \<longrightarrow> replaced_body ch')"
  using assms(2-5) unfolding ch'_def replace_body_with_def
proof (induction cs arbitrary: ch)
  case Nil
  then show ?case by simp
next
  case (Cons c cs)
  note one = replace_body_chunk [OF assms(1) Cons.prems(1-3), of c]
  have "context_of (cb_replace_body env ch i c) i = context_of ch i"
    "is_evaluation_mode (cb_replace_body env ch i c) i = is_evaluation_mode ch i"
    using one(5) by (simp_all add: context_of_def is_evaluation_mode_def)
  with Cons.IH [OF one(2) _ _ one(4)] Cons.prems one show ?case by (cases cs) auto
qed


definition sample_children_environment :: children_environment where
  "sample_children_environment =
     \<lparr>env_call = \<lambda>i call ch. (True, ch), env_observe = \<lambda>ev ch. ch, env_file = \<lambda>x. True,
      env_chunk_size = 3, env_establish = \<lambda>i. True, env_privilege = False,
      env_launch = \<lambda>i. Launch_skipped, env_system = sample_platform, env_continue = \<lambda>i ch. ch, env_pending = \<lambda>r ch. (False, ch)\<rparr>"

lemma sample_children_environment [simp]:
  "children_quiet sample_children_environment" "file_works sample_children_environment"
  "env_chunk_size sample_children_environment = 3"
  by (simp_all add: sample_children_environment_def children_quiet_def file_works_def)

definition sample_child :: "server_context_state \<Rightarrow> child" where
  "sample_child st =
     \<lparr>child_context = milter_server_context_init
        \<lparr>ctx_state := st, negotiated := True, processing_message := True,
         ctx_option := Some milter_option_new_empty\<rparr>,
      child_fallback_status = MILTER_STATUS_ACCEPT, child_evaluation_mode = False,
      child_connected = True\<rparr>"

definition sample_children :: "server_context_state \<Rightarrow> nat \<Rightarrow> children" where
  "sample_children st n =
     milter_manager_children_init\<lparr>milters := replicate n (sample_child st),
       children_option := Some milter_option_new_empty\<rparr>"


text \<open>
  The configuration accepts a chunk size of 0, and with it a replaced body that is not
  empty never comes to an end: the loop emits empty chunks for ever.
\<close>

theorem chunk_size_zero_loops:
  assumes "children_body ch = Some b" and "b \<noteq> []" and "env_chunk_size env = 0"
    and "children_failure ch = None"
  shows "children_failure (snd (emit_replace_body_signal env ch)) = Some Endless_loop"
  using assms by (simp add: emit_replace_body_signal_def emit_replace_body_signal_string_def
      emit_chunks_def body_chunks_0 fail_def)

theorem chunk_size_zero_loops_witness:
  "children_failure (snd (emit_replace_body_signal
     (sample_children_environment\<lparr>env_chunk_size := 0\<rparr>)
     (milter_manager_children_init\<lparr>children_body := Some ''x''\<rparr>))) = Some Endless_loop"
  by (rule chunk_size_zero_loops [where b = "''x''"]) (simp_all add: milter_manager_children_init_def)

subsection \<open>After the reply\<close>

lemma emit_header_signals_quiet:
  assumes "children_quiet env"
  shows "replaced_body (emit_header_signals env original ch) = replaced_body ch"
    "milters (emit_header_signals env original ch) = milters ch"
  using assms by (simp_all add: emit_header_signals_def fail_def split: option.split)

lemma emit_replace_body_signal_fields:
  assumes "children_quiet env"
  shows "replaced_body (snd (emit_replace_body_signal env ch)) = replaced_body ch"
    "milters (snd (emit_replace_body_signal env ch)) = milters ch"
  using assms by (simp_all add: emit_replace_body_signal_def emit_replace_body_signal_string_def
      emit_chunks_def emit_replace_body_signal_file_def body_error_def fail_def split: option.split)

lemma message_reply_fields:
  assumes "children_quiet env" and "\<not> emitted_reply_for_message_oriented_command ch"
  defines "ch' \<equiv> emit_reply_for_message_oriented_command env ch SERVER_CONTEXT_STATE_END_OF_MESSAGE"
  shows "children_headers ch' = None" and "original_headers ch' = None" and "change_from ch' = None"
    and "quarantine_reason ch' = None" and "children_body ch' = None" and "children_body_file ch' = None"
    and "replaced_body ch' = replaced_body ch" and "milters ch' = milters ch"
proof -
  define a where "a = emit_signals_on_end_of_message env
      (ch\<lparr>emitted_reply_for_message_oriented_command := True\<rparr>)"
  have a: "replaced_body a = replaced_body ch" "milters a = milters ch"
    using assms(1) emit_header_signals_quiet [OF assms(1)] emit_replace_body_signal_fields [OF assms(1)]
    by (simp_all add: a_def emit_signals_on_end_of_message_def Let_def split: option.split)
  have "ch' = emit_reply_status_of_state env a SERVER_CONTEXT_STATE_END_OF_MESSAGE"
    using assms(2) by (simp add: ch'_def a_def emit_reply_for_message_oriented_command_def)
  then show "children_headers ch' = None" "original_headers ch' = None" "change_from ch' = None"
    "quarantine_reason ch' = None" "children_body ch' = None" "children_body_file ch' = None"
    "replaced_body ch' = replaced_body ch" "milters ch' = milters ch"
    using assms(1) a by (simp_all add: emit_reply_status_of_state_def Let_def
        dispose_message_related_data_def dispose_body_related_data_def
        dispose_pending_message_request_def dispose_reply_related_data_def)
qed

text \<open>
  A milter that sends one more header modification after the reply that ended its
  message crashes the manager: the headers are gone, and the context of that milter is
  still in the state that allows modifications.
\<close>

theorem late_modification_crashes:
  assumes "children_quiet env" and "\<not> emitted_reply_for_message_oriented_command ch"
    and "ctx_state (context_of ch i) = SERVER_CONTEXT_STATE_END_OF_MESSAGE"
    and "\<not> is_evaluation_mode ch i"
  defines "ch' \<equiv> emit_reply_for_message_oriented_command env ch SERVER_CONTEXT_STATE_END_OF_MESSAGE"
  shows "children_failure ch' = None \<Longrightarrow>
     children_failure (cb_delete_header env ch' i name index) = Some Null_pointer \<and>
     children_failure (cb_add_header env ch' i name value) = Some Null_pointer"
proof -
  assume f: "children_failure ch' = None"
  note m = message_reply_fields [OF assms(1,2), folded ch'_def]
  have c: "ctx_state (context_of ch' i) = SERVER_CONTEXT_STATE_END_OF_MESSAGE" "\<not> is_evaluation_mode ch' i"
    using assms(3,4) m(8) by (simp_all add: context_of_def is_evaluation_mode_def)
  obtain v d where n: "normalize_header_value ch' i value = (v, d)" by fastforce
  then have "d = ch' \<or> d = fail Null_pointer ch'"
    by (auto simp: normalize_header_value_def need_header_value_leading_space_conversion_def Let_def
        split: option.splits if_splits)
  with f m(1) c n show ?thesis
    by (auto simp: cb_delete_header_def cb_add_header_def at_message_end_replies edit_headers_def fail_def)
qed

theorem late_modification_crashes_witness:
  "children_failure (cb_delete_header sample_children_environment
     (emit_reply_for_message_oriented_command sample_children_environment
        (sample_children SERVER_CONTEXT_STATE_END_OF_MESSAGE 1) SERVER_CONTEXT_STATE_END_OF_MESSAGE)
     0 ''Subject'' 1) = Some Null_pointer"
proof -
  let ?ch = "sample_children SERVER_CONTEXT_STATE_END_OF_MESSAGE 1"
  have "\<not> emitted_reply_for_message_oriented_command ?ch"
    "ctx_state (context_of ?ch 0) = SERVER_CONTEXT_STATE_END_OF_MESSAGE" "\<not> is_evaluation_mode ?ch 0"
    by (simp_all add: sample_children_def sample_child_def milter_manager_children_init_def
        context_of_def is_evaluation_mode_def)
  moreover have "children_failure (emit_reply_for_message_oriented_command sample_children_environment
      ?ch SERVER_CONTEXT_STATE_END_OF_MESSAGE) = None"
    by (simp add: sample_children_def milter_manager_children_init_def Let_def
        emit_reply_for_message_oriented_command_def emit_signals_on_end_of_message_def
        emit_reply_status_of_state_def get_reply_status_for_state_def
        dispose_message_related_data_def dispose_body_related_data_def
        dispose_pending_message_request_def)
  ultimately show ?thesis
    using late_modification_crashes [of sample_children_environment ?ch 0 "''Subject''" 1] by simp
qed

text \<open>
  That some milter has replaced the body of a message is never forgotten: the body of
  every later message of the session is sent back to the MTA as a replacement, although
  no milter asked for it.
\<close>

theorem replaced_body_sticks:
  fixes b :: bytes
  assumes "children_quiet env" and "file_works env" and "0 < env_chunk_size env"
    and "\<not> emitted_reply_for_message_oriented_command ch" and "replaced_body ch"
  defines "ch1 \<equiv> emit_reply_for_message_oriented_command env ch SERVER_CONTEXT_STATE_END_OF_MESSAGE"
  defines "ch2 \<equiv> snd (write_body env ch1 b)"
  shows "\<exists>ds. children_emitted (emit_signals_on_end_of_message env ch2) =
       children_emitted ch2 @ map Children_replace_body ds \<and> concat ds = b"
proof -
  note m = message_reply_fields [OF assms(1,4), folded ch1_def]
  have "body_coherent ch1" "kept_body ch1 = []" using m by (simp_all add: body_coherent_def kept_body_def)
  from write_body_kept [OF assms(2) this(1), of b] this(2) have
    w: "kept_body ch2 = b" "ch2 = ch1\<lparr>children_body := children_body ch2, children_body_file := children_body_file ch2\<rparr>"
    unfolding ch2_def by auto
  have f: "replaced_body ch2" "original_headers ch2 = None" "change_from ch2 = None"
    "quarantine_reason ch2 = None" using m assms(5) by (subst w(2), simp)+
  from emit_replace_body_quiet [OF assms(1-3), of ch2] w(1) obtain ds ch'
    where e: "emit_replace_body_signal env ch2 = (True, ch')"
      "children_emitted ch' = children_emitted ch2 @ map Children_replace_body ds" "concat ds = b"
      "ch' = ch2\<lparr>children_emitted := children_emitted ch', children_body_file := children_body_file ch'\<rparr>"
    by blast
  have "original_headers ch' = None" "change_from ch' = None" "quarantine_reason ch' = None"
    using f by (subst e(4), simp)+
  with e(1-3) f show ?thesis
    by (intro exI [of _ ds]) (simp add: emit_signals_on_end_of_message_def Let_def)
qed

theorem replaced_body_sticks_witness:
  "\<exists>ds. children_emitted (emit_signals_on_end_of_message sample_children_environment
       (snd (write_body sample_children_environment
          (emit_reply_for_message_oriented_command sample_children_environment
             (milter_manager_children_init\<lparr>replaced_body := True\<rparr>) SERVER_CONTEXT_STATE_END_OF_MESSAGE)
          ''second''))) = map Children_replace_body ds \<and> concat ds = ''second''"
proof -
  let ?ch = "milter_manager_children_init\<lparr>replaced_body := True\<rparr>"
  let ?ch2 = "snd (write_body sample_children_environment (emit_reply_for_message_oriented_command
      sample_children_environment ?ch SERVER_CONTEXT_STATE_END_OF_MESSAGE) ''second'')"
  have "children_emitted ?ch2 = []"
    by (simp add: milter_manager_children_init_def emit_reply_for_message_oriented_command_def
        emit_signals_on_end_of_message_def emit_replace_body_signal_def Let_def
        emit_replace_body_signal_file_def emit_reply_status_of_state_def
        get_reply_status_for_state_def dispose_message_related_data_def
        dispose_body_related_data_def dispose_pending_message_request_def write_body_def
        write_body_to_string_def MAX_ON_MEMORY_BODY_SIZE_def)
  then show ?thesis
    using replaced_body_sticks [of sample_children_environment ?ch "''second''"]
    by (simp add: milter_manager_children_init_def)
qed

end
