(* ===== verification/Children_Spec.thy ===== *)
theory Children_Spec
  imports Children_Negotiation Children_Message_Spec
begin

text \<open>
  What the manager's children promise together: one negotiated option and one reply per
  command, whatever the order in which the milters answer.
\<close>

subsection \<open>Negotiation\<close>

lemma expire_child_fields [simp]:
  "children_emitted (expire_child ch i) = children_emitted ch"
  "reply_queue (expire_child ch i) = reply_queue ch"
  by (simp_all add: expire_child_def update_context_def Let_def)

lemma check_fallback_emitted [simp]:
  "children_emitted (check_fallback_status_on_negotiate ch) = children_emitted ch"
proof -
  have "children_emitted (fold (\<lambda>i ch. if \<not> negotiated (context_of ch i) then ch
      else expire_child (ch\<lparr>all_expired_as_fallback_on_negotiated := True\<rparr>) i) is ch) =
      children_emitted ch" for "is" ch
    by (induction "is" arbitrary: ch) simp_all
  then show ?thesis by (simp add: check_fallback_status_on_negotiate_def Let_def)
qed

type_synonym negotiate_answer = "nat \<times> milter_option \<times> macros_requests option"

definition negotiate_answers ::
    "children_environment \<Rightarrow> negotiate_answer list \<Rightarrow> children \<Rightarrow> children" where
  "negotiate_answers env answers ch =
     fold (\<lambda>(i, opt, requests) ch. cb_negotiate_reply env ch i opt requests) answers ch"

definition removed_steps :: "children \<Rightarrow> u32" where
  "removed_steps ch = MILTER_STEP_NO_EVENT_MASK OR
     (MILTER_STEP_YES_MASK AND NOT (initial_yes_steps ch AND requested_yes_steps ch))"

lemma negotiate_answer_step:
  fixes i :: nat and opt :: milter_option and requests :: "macros_requests option"
  assumes "children_quiet env" and "children_option ch = Some own" and "\<not> children_finished ch"
  defines "ch' \<equiv> cb_negotiate_reply env ch i opt requests"
    and "merged \<equiv> snd (milter_option_merge own opt)"
    and "requested \<equiv> requested_yes_steps ch OR milter_option_get_step_yes opt"
  shows "remove1 i (reply_queue ch) \<noteq> [] \<Longrightarrow>
      children_emitted ch' = children_emitted ch \<and> children_option ch' = Some merged \<and>
      requested_yes_steps ch' = requested \<and> initial_yes_steps ch' = initial_yes_steps ch \<and>
      reply_queue ch' = remove1 i (reply_queue ch) \<and> \<not> children_finished ch'"
    and "remove1 i (reply_queue ch) = [] \<Longrightarrow>
      \<exists>m. children_emitted ch' = children_emitted ch @
        [Children_negotiate_reply (milter_option_remove_step merged
           (MILTER_STEP_NO_EVENT_MASK OR
             (MILTER_STEP_YES_MASK AND NOT (initial_yes_steps ch AND requested)))) m]"
  using assms(1-3) unfolding ch'_def merged_def requested_def
  by (simp_all add: cb_negotiate_reply_def remove_queue_in_negotiate_def reply_negotiate_def Let_def
      split: option.split)

lemma negotiate_answers_result:
  assumes "children_quiet env" and "children_option ch = Some own" and "\<not> children_finished ch"
    and "answers \<noteq> []" and "mset (map fst answers) = mset (reply_queue ch)"
  shows "\<exists>m. children_emitted (negotiate_answers env answers ch) = children_emitted ch @
     [Children_negotiate_reply (milter_option_remove_step
        (merge_all own (map (fst \<circ> snd) answers))
        (MILTER_STEP_NO_EVENT_MASK OR (MILTER_STEP_YES_MASK AND NOT (initial_yes_steps ch AND
           (requested_yes_steps ch OR
            foldr (OR) (map (milter_option_get_step_yes \<circ> fst \<circ> snd) answers) 0))))) m]"
  using assms(2-5)
proof (induction answers arbitrary: ch own)
  case Nil
  then show ?case by simp
next
  case (Cons a answers)
  obtain i opt requests where a: "a = (i, opt, requests)" using prod_cases3 by blast
  let ?ch = "cb_negotiate_reply env ch i opt requests"
  have run: "negotiate_answers env (a # answers) ch = negotiate_answers env answers ?ch"
    by (simp add: negotiate_answers_def a)
  have q: "mset (remove1 i (reply_queue ch)) = mset (map fst answers)"
    using Cons.prems(4) by (simp add: a) (metis add_mset_remove_trivial)
  show ?case
  proof (cases "answers = []")
    case True
    then have "mset (remove1 i (reply_queue ch)) = {#}" using q by (simp only: list.map mset.simps)
    then have "remove1 i (reply_queue ch) = []" by (simp only: mset_zero_iff)
    from negotiate_answer_step(2) [OF assms(1) Cons.prems(1,2) this, of opt requests] True
    show ?thesis by (simp add: run a) (simp add: negotiate_answers_def)
  next
    case False
    then have "remove1 i (reply_queue ch) \<noteq> []" using q by (metis map_is_Nil_conv mset_zero_iff_right)
    note step = negotiate_answer_step(1) [OF assms(1) Cons.prems(1,2) this, of opt requests]
    from Cons.IH [of ?ch "snd (milter_option_merge own opt)"] step False q show ?thesis
      unfolding run by (simp add: a or.assoc)
  qed
qed

lemma bit_foldr_or:
  "bit (foldr (OR) xs (a :: u32)) n \<longleftrightarrow> bit a n \<or> (\<exists>x \<in> set xs. bit x n)"
  by (induction xs) (auto simp: bit_or_iff)

lemma bit_and_not:
  fixes a b :: u32
  shows "bit (a AND NOT b) n \<longleftrightarrow> bit a n \<and> \<not> bit b n"
  using bit_imp_le_length [of a n] by (auto simp: bit_and_iff bit_not_iff)

lemma step_remove_step: "step (milter_option_remove_step opt s) = step opt AND NOT s"
  by (simp add: milter_option_remove_step_def)

lemma no_event_reply_disjoint:
  "bit MILTER_STEP_NO_EVENT_MASK n \<Longrightarrow> \<not> bit MILTER_STEP_NO_REPLY_MASK n"
  "bit MILTER_STEP_NO_EVENT_MASK n \<Longrightarrow> \<not> bit MILTER_STEP_YES_MASK n"
  "bit MILTER_STEP_NO_REPLY_MASK n \<Longrightarrow> \<not> bit MILTER_STEP_YES_MASK n"
proof -
  have "MILTER_STEP_NO_EVENT_MASK AND MILTER_STEP_NO_REPLY_MASK = 0"
    "MILTER_STEP_NO_EVENT_MASK AND MILTER_STEP_YES_MASK = 0"
    "MILTER_STEP_NO_REPLY_MASK AND MILTER_STEP_YES_MASK = 0"
    by (simp_all add: step_mask_values)
  then have "\<not> bit (MILTER_STEP_NO_EVENT_MASK AND MILTER_STEP_NO_REPLY_MASK) n"
    "\<not> bit (MILTER_STEP_NO_EVENT_MASK AND MILTER_STEP_YES_MASK) n"
    "\<not> bit (MILTER_STEP_NO_REPLY_MASK AND MILTER_STEP_YES_MASK) n" by simp_all
  then show "bit MILTER_STEP_NO_EVENT_MASK n \<Longrightarrow> \<not> bit MILTER_STEP_NO_REPLY_MASK n"
    "bit MILTER_STEP_NO_EVENT_MASK n \<Longrightarrow> \<not> bit MILTER_STEP_YES_MASK n"
    "bit MILTER_STEP_NO_REPLY_MASK n \<Longrightarrow> \<not> bit MILTER_STEP_YES_MASK n"
    by (auto simp: bit_and_iff)
qed

text \<open>
  C29: when the last milter has answered the negotiation, and not before, the manager
  answers the MTA once. It asks for every event; it renounces a reply exactly if the MTA
  offered that and every milter renounces it; it uses an extension exactly if the MTA
  offered it and some milter wants it; and it reserves every action that some milter or
  the MTA's offer names. The order of the answers does not matter.
\<close>

theorem negotiation_result:
  assumes "children_quiet env" and "children_option ch = Some opt" and "\<not> children_finished ch"
    and "initial_yes_steps ch = milter_option_get_step_yes opt" and "requested_yes_steps ch = 0"
    and "answers \<noteq> []" and "mset (map fst answers) = mset (reply_queue ch)"
    and "\<forall>(i, o', q) \<in> set answers. version o' \<le> version opt"
  shows "\<exists>o' m. children_emitted (negotiate_answers env answers ch) =
       children_emitted ch @ [Children_negotiate_reply o' m] \<and>
     version o' = version opt \<and>
     (\<forall>n. bit (action o') n \<longleftrightarrow> bit (action opt) n \<or> (\<exists>(i, r, q) \<in> set answers. bit (action r) n)) \<and>
     (\<forall>n. bit (step o') n \<longleftrightarrow> bit (step opt) n \<and>
        (bit MILTER_STEP_NO_REPLY_MASK n \<and> (\<forall>(i, r, q) \<in> set answers. bit (step r) n) \<or>
         bit MILTER_STEP_YES_MASK n \<and> (\<exists>(i, r, q) \<in> set answers. bit (step r) n)))"
proof -
  let ?rs = "map (fst \<circ> snd) answers"
  let ?merged = "merge_all opt ?rs"
  let ?gone = "MILTER_STEP_NO_EVENT_MASK OR (MILTER_STEP_YES_MASK AND NOT (initial_yes_steps ch AND
      (requested_yes_steps ch OR foldr (OR) (map (milter_option_get_step_yes \<circ> fst \<circ> snd) answers) 0)))"
  let ?o = "milter_option_remove_step ?merged ?gone"
  have v: "\<forall>s \<in> set ?rs. version s \<le> version opt" using assms(8) by auto
  have act: "bit (action ?o) n \<longleftrightarrow> bit (action opt) n \<or> (\<exists>(i, r, q) \<in> set answers. bit (action r) n)" for n
    by (auto simp: milter_option_remove_step_def action_merge_all [OF v] bit_foldr_or
        case_prod_beta)
  have yes: "bit (foldr (OR) (map (milter_option_get_step_yes \<circ> fst \<circ> snd) answers) 0) n \<longleftrightarrow>
      bit MILTER_STEP_YES_MASK n \<and> (\<exists>(i, r, q) \<in> set answers. bit (step r) n)" for n
    by (auto simp: bit_foldr_or milter_option_get_step_yes_def bit_and_iff case_prod_beta)
  have st: "bit (step ?o) n \<longleftrightarrow> bit (step opt) n \<and>
        (bit MILTER_STEP_NO_REPLY_MASK n \<and> (\<forall>(i, r, q) \<in> set answers. bit (step r) n) \<or>
         bit MILTER_STEP_YES_MASK n \<and> (\<exists>(i, r, q) \<in> set answers. bit (step r) n))" for n
  proof -
    have "bit (step ?o) n \<longleftrightarrow> bit (step ?merged) n \<and> \<not> bit ?gone n"
      using bit_and_not [of "step ?merged" ?gone n]
      by (simp only: step_remove_step)
    moreover have "bit (step ?merged) n \<longleftrightarrow>
       (bit MILTER_STEP_NO_EVENT_MASK n \<or> bit MILTER_STEP_NO_REPLY_MASK n) \<and> bit (step opt) n \<and>
         (\<forall>(i, r, q) \<in> set answers. bit (step r) n) \<or>
       bit MILTER_STEP_YES_MASK n \<and> (bit (step opt) n \<or> (\<exists>(i, r, q) \<in> set answers. bit (step r) n))"
      using bit_step_merge_all [OF _ v, of n] assms(6)
      by (simp add: MILTER_STEP_NO_MASK_def bit_or_iff case_prod_beta)
    moreover have "bit ?gone n \<longleftrightarrow> bit MILTER_STEP_NO_EVENT_MASK n \<or>
       bit MILTER_STEP_YES_MASK n \<and> \<not> (bit (step opt) n \<and> (\<exists>(i, r, q) \<in> set answers. bit (step r) n))"
      using yes [of n] unfolding bit_or_iff bit_and_not assms(4,5) milter_option_get_step_yes_def
      by (auto simp: bit_and_iff)
    ultimately show ?thesis using no_event_reply_disjoint [of n] by metis
  qed
  from negotiate_answers_result [OF assms(1-3,6,7)] obtain m where
    "children_emitted (negotiate_answers env answers ch) =
      children_emitted ch @ [Children_negotiate_reply ?o m]" by blast
  moreover have "version ?o = version opt" by (simp add: milter_option_remove_step_def)
  ultimately show ?thesis using act st by blast
qed

theorem negotiation_result_witness:
  "\<exists>o' m. children_emitted (negotiate_answers sample_children_environment
       [(1, \<lparr>version = 6, action = 4, step = 0x480\<rparr>, None),
        (0, \<lparr>version = 2, action = 1, step = 0x080\<rparr>, None)]
       (sample_children SERVER_CONTEXT_STATE_NEGOTIATE 2\<lparr>reply_queue := [0, 1],
          children_option := Some \<lparr>version = 6, action = 1, step = 0x4FF\<rparr>, initial_yes_steps := 0x400\<rparr>)) =
       [Children_negotiate_reply o' m] \<and>
     version o' = 6 \<and> bit (action o') 2 \<and> bit (step o') 7 \<and> bit (step o') 10 \<and> \<not> bit (step o') 0"
proof -
  let ?opt = "\<lparr>version = 6, action = 1, step = 0x4FF\<rparr>"
  let ?answers = "[(1, \<lparr>version = 6, action = 4, step = 0x480\<rparr>, None),
      (0, \<lparr>version = 2, action = 1, step = 0x080\<rparr>, None)] :: negotiate_answer list"
  let ?ch = "sample_children SERVER_CONTEXT_STATE_NEGOTIATE 2\<lparr>reply_queue := [0, 1],
      children_option := Some ?opt, initial_yes_steps := 0x400\<rparr>"
  have "initial_yes_steps ?ch = milter_option_get_step_yes ?opt" "requested_yes_steps ?ch = 0"
    "mset (map fst ?answers) = mset (reply_queue ?ch)" "\<not> children_finished ?ch"
    "children_emitted ?ch = []"
    by (simp_all add: milter_option_get_step_yes_def step_mask_values sample_children_def
        milter_manager_children_init_def MILTER_STEP_NONE_def)
  with negotiation_result [of sample_children_environment ?ch ?opt ?answers]
  obtain o' m where r: "children_emitted (negotiate_answers sample_children_environment ?answers ?ch) =
      [Children_negotiate_reply o' m]" "version o' = 6"
    "\<And>n. bit (action o') n \<longleftrightarrow> bit (1 :: u32) n \<or> bit (4 :: u32) n \<or> bit (1 :: u32) n"
    "\<And>n. bit (step o') n \<longleftrightarrow> bit (0x4FF :: u32) n \<and>
      (bit MILTER_STEP_NO_REPLY_MASK n \<and> bit (0x480 :: u32) n \<and> bit (0x080 :: u32) n \<or>
       bit MILTER_STEP_YES_MASK n \<and> (bit (0x480 :: u32) n \<or> bit (0x080 :: u32) n))" by auto
  have "bit (action o') 2" "bit (step o') 7" "bit (step o') 10" "\<not> bit (step o') 0"
    unfolding r(3,4) step_mask_values by (simp_all add: bit_numeral_rec)
  with r(1,2) show ?thesis by blast
qed

subsection \<open>One reply per command\<close>

datatype verdict =
    Says_continue
  | Says_accept
  | Says_reject
  | Says_temporary_failure
  | Says_discard

fun deliver :: "children_environment \<Rightarrow> nat \<times> verdict \<Rightarrow> children \<Rightarrow> children" where
  "deliver env (i, Says_continue) ch = cb_continue env ch i"
| "deliver env (i, Says_accept) ch = cb_accept env ch i"
| "deliver env (i, Says_reject) ch = cb_reject env ch i"
| "deliver env (i, Says_temporary_failure) ch = cb_temporary_failure env ch i"
| "deliver env (i, Says_discard) ch = cb_discard env ch i"

text \<open>What an answer counts as: in evaluation mode a milter cannot refuse a message.\<close>

definition verdict_status :: "children \<Rightarrow> nat \<times> verdict \<Rightarrow> milter_status" where
  "verdict_status ch a =
     (case a of (i, v) \<Rightarrow>
        case v of
          Says_continue \<Rightarrow> MILTER_STATUS_CONTINUE
        | Says_accept \<Rightarrow> MILTER_STATUS_ACCEPT
        | _ \<Rightarrow>
            if is_evaluation_mode ch i then MILTER_STATUS_ACCEPT
            else (case v of
                    Says_reject \<Rightarrow> MILTER_STATUS_REJECT
                  | Says_temporary_failure \<Rightarrow> MILTER_STATUS_TEMPORARY_FAILURE
                  | _ \<Rightarrow> MILTER_STATUS_DISCARD))"

definition broadcast_state :: "server_context_state \<Rightarrow> bool" where
  "broadcast_state st \<longleftrightarrow>
     st \<in> {SERVER_CONTEXT_STATE_ENVELOPE_FROM, SERVER_CONTEXT_STATE_ENVELOPE_RECIPIENT,
           SERVER_CONTEXT_STATE_DATA}"

definition ends_message :: "server_context_state \<Rightarrow> verdict \<Rightarrow> bool" where
  "ends_message st v \<longleftrightarrow> v \<noteq> Says_continue \<and>
     (v = Says_accept \<or> st \<noteq> SERVER_CONTEXT_STATE_ENVELOPE_RECIPIENT)"

lemma deliver_eq:
  assumes "broadcast_state st" and "ctx_state (context_of ch i) = st"
  shows "deliver env (i, v) ch =
    (let ch = compile_reply_status ch st (verdict_status ch (i, v))
     in removed env i (if ends_message st v then set_message_processing i False ch else ch))"
  using assms
  by (cases v) (auto simp: broadcast_state_def cb_continue_def cb_accept_def cb_reject_def
      cb_temporary_failure_def cb_discard_def verdict_status_def ends_message_def handle_status_def
      Let_def removed_def)

definition silent_calls :: "children_environment \<Rightarrow> bool" where
  "silent_calls env \<longleftrightarrow>
     (\<forall>i c ch. children_emitted (snd (env_call env i c ch)) = children_emitted ch)"

lemma call_child_emitted [simp]:
  "silent_calls env \<Longrightarrow> children_emitted (snd (call_child env i c ch)) = children_emitted ch"
  by (simp add: silent_calls_def call_child_def)

lemma abort_emitted [simp]:
  assumes "silent_calls env"
  shows "children_emitted (abort_all_children env ch) = children_emitted ch"
proof -
  have 1: "children_emitted (snd (fold (abort_child env) is (b, ch))) = children_emitted ch" for "is" b ch
  proof (induction "is" arbitrary: b ch)
    case (Cons i "is")
    obtain b' d where d: "abort_child env i (b, ch) = (b', d)" by fastforce
    moreover have "children_emitted (snd (abort_child env i (b, ch))) = children_emitted ch"
      using assms by (simp add: abort_child_def case_prod_beta)
    ultimately show ?case using Cons.IH [of b' d] by simp
  qed simp
  have 2: "children_emitted (fold (\<lambda>i ch. if milter_server_context_is_quitted (context_of ch i) then ch
      else update_context i milter_server_context_reset_message_related_data ch) is ch) =
      children_emitted ch" for "is" ch
    by (induction "is" arbitrary: ch) (simp_all add: update_context_def)
  show ?thesis
    by (simp add: abort_all_children_def milter_manager_children_abort_def Let_def case_prod_beta 2
        dispose_message_related_data_def dispose_body_related_data_def 1
        dispose_pending_message_request_def set_state_def)
qed

lemma rank_verdict: "0 < status_rank (verdict_status ch a)"
  by (auto simp: verdict_status_def status_rank_def split: prod.split verdict.split)

lemma compiled_status:
  assumes "0 < status_rank s"
  shows "get_reply_status_for_state (compile_reply_status ch st s) st =
    (if status_rank (get_reply_status_for_state ch st) < status_rank s then s
     else get_reply_status_for_state ch st)"
proof -
  have "s \<noteq> MILTER_STATUS_DEFAULT" using assms by (auto simp: status_rank_def)
  then have "get_reply_status_for_state (compile_reply_status ch st s) st =
      (if milter_status_compare (get_reply_status_for_state ch st) s < 0 then s
       else get_reply_status_for_state ch st)"
    by (simp add: compile_reply_status_def milter_manager_children_is_important_status_def
        get_reply_status_for_state_def)
  moreover have "milter_status_compare c s < 0 \<longleftrightarrow> status_rank c < status_rank s" for c
    using status_rank_inj [of s c] assms
    by (cases "status_rank s" "status_rank c" rule: linorder_cases) (auto simp: milter_status_compare_rank)
  ultimately show ?thesis by simp
qed

text \<open>While the answers come in: what must hold, and what stays as it is.\<close>

definition collecting :: "server_context_state \<Rightarrow> children \<Rightarrow> bool" where
  "collecting st ch \<longleftrightarrow>
     processing_state ch = st \<and> pending_message_request ch = None \<and>
     (\<forall>i \<in> set (reply_queue ch). ctx_state (context_of ch i) = st)"

definition awaiting :: "server_context_state \<Rightarrow> children \<Rightarrow> bool" where
  "awaiting st ch \<longleftrightarrow>
     processing_state ch = st \<and> pending_message_request ch = None \<and> children_reply_code ch = 0 \<and>
     (\<forall>i \<in> set (reply_queue ch). ctx_state (context_of ch i) = st)"

lemma awaiting_collecting: "awaiting st ch \<longleftrightarrow> collecting st ch \<and> children_reply_code ch = 0"
  by (auto simp: awaiting_def collecting_def)

text \<open>The reply code that is held, and the answer to the MTA that takes it into account.\<close>

type_synonym held_code = "nat \<times> bytes option \<times> bytes option"

definition held_reply :: "children \<Rightarrow> held_code" where
  "held_reply ch = (children_reply_code ch, reply_extended_code ch, reply_message ch)"

definition reply_with_code :: "held_code \<Rightarrow> milter_status \<Rightarrow> children_event" where
  "reply_with_code h status =
     (case h of (code, extended_code, message) \<Rightarrow>
        if status = MILTER_STATUS_TEMPORARY_FAILURE \<and> code div 100 = 4 \<or>
           status = MILTER_STATUS_REJECT \<and> code div 100 = 5
        then Children_reply_code code extended_code message
        else status_to_signal status)"

lemma context_of_update_context:
  "context_of (update_context i f ch) j =
     (if i = j \<and> i < length (milters ch) then f (context_of ch i) else context_of ch j)"
  by (cases "i < length (milters ch)") (auto simp: context_of_def update_context_def nth_list_update not_less
      list_update_beyond)

lemma evaluation_update_context [simp]:
  "is_evaluation_mode (update_context i f ch) j = is_evaluation_mode ch j"
  by (cases "i < length (milters ch)") (auto simp: is_evaluation_mode_def update_context_def nth_list_update not_less
      list_update_beyond)

lemma context_of_set_processing [simp]:
  "ctx_state (context_of (set_message_processing i p ch) j) = ctx_state (context_of ch j)"
  "is_evaluation_mode (set_message_processing i p ch) j = is_evaluation_mode ch j"
  by (simp_all add: set_message_processing_def context_of_update_context
      milter_server_context_set_processing_message_def)

lemma set_processing_fields [simp]:
  "processing_state (set_message_processing i p ch) = processing_state ch"
  "pending_message_request (set_message_processing i p ch) = pending_message_request ch"
  "children_reply_code (set_message_processing i p ch) = children_reply_code ch"
  "held_reply (set_message_processing i p ch) = held_reply ch"
  "reply_queue (set_message_processing i p ch) = reply_queue ch"
  "reply_statuses (set_message_processing i p ch) = reply_statuses ch"
  "children_emitted (set_message_processing i p ch) = children_emitted ch"
  by (simp_all add: set_message_processing_def update_context_def held_reply_def)

lemma compile_fields [simp]:
  "processing_state (compile_reply_status ch st s) = processing_state ch"
  "pending_message_request (compile_reply_status ch st s) = pending_message_request ch"
  "children_reply_code (compile_reply_status ch st s) = children_reply_code ch"
  "held_reply (compile_reply_status ch st s) = held_reply ch"
  "reply_queue (compile_reply_status ch st s) = reply_queue ch"
  "milters (compile_reply_status ch st s) = milters ch"
  "children_emitted (compile_reply_status ch st s) = children_emitted ch"
  by (simp_all add: compile_reply_status_def held_reply_def)

lemma deliver_step_held:
  fixes v :: verdict
  assumes "children_quiet env" and "silent_calls env" and "broadcast_state st" and "collecting st ch"
    and "i \<in> set (reply_queue ch)"
  defines "ch' \<equiv> deliver env (i, v) ch"
    and "best \<equiv> get_reply_status_for_state
      (compile_reply_status ch st (verdict_status ch (i, v))) st"
  shows "remove1 i (reply_queue ch) \<noteq> [] \<Longrightarrow>
      collecting st ch' \<and> reply_queue ch' = remove1 i (reply_queue ch) \<and>
      children_emitted ch' = children_emitted ch \<and> get_reply_status_for_state ch' st = best \<and>
      held_reply ch' = held_reply ch \<and>
      (\<forall>j. is_evaluation_mode ch' j = is_evaluation_mode ch j)"
    and "remove1 i (reply_queue ch) = [] \<Longrightarrow>
      children_emitted ch' = children_emitted ch @ [reply_with_code (held_reply ch) best]"
proof -
  let ?c = "compile_reply_status ch st (verdict_status ch (i, v))"
  let ?d = "if ends_message st v then set_message_processing i False ?c else ?c"
  have eq: "ch' = removed env i ?d"
    using assms(4,5) deliver_eq [OF assms(3), of ch i env v]
    by (simp add: ch'_def collecting_def Let_def)
  have ctx: "ctx_state (context_of ?c j) = ctx_state (context_of ch j)"
    "is_evaluation_mode ?c j = is_evaluation_mode ch j" for j
    by (simp_all add: context_of_def is_evaluation_mode_def)
  have best: "get_reply_status_for_state ?d st = best"
    by (simp add: best_def get_reply_status_for_state_def)
  have f: "processing_state ?d = st" "pending_message_request ?d = None" "held_reply ?d = held_reply ch"
    "reply_queue ?d = reply_queue ch" "children_emitted ?d = children_emitted ch"
    using assms(4) by (simp_all add: collecting_def)
  have ev: "is_evaluation_mode ?d j = is_evaluation_mode ch j"
    "ctx_state (context_of ?d j) = ctx_state (context_of ch j)" for j
    using ctx by simp_all
  have kept: "get_reply_status_for_state (?d\<lparr>reply_queue := q\<rparr>) st = best" for q
    using best by (simp add: get_reply_status_for_state_def)
  show "collecting st ch' \<and> reply_queue ch' = remove1 i (reply_queue ch) \<and>
      children_emitted ch' = children_emitted ch \<and> get_reply_status_for_state ch' st = best \<and>
      held_reply ch' = held_reply ch \<and>
      (\<forall>j. is_evaluation_mode ch' j = is_evaluation_mode ch j)" if "remove1 i (reply_queue ch) \<noteq> []"
  proof -
    from that f have ch': "ch' = ?d\<lparr>reply_queue := remove1 i (reply_queue ch)\<rparr>"
      by (simp add: eq removed_def remove_child_from_queue_def Let_def)
    have "\<forall>j \<in> set (remove1 i (reply_queue ch)). ctx_state (context_of ?d j) = st"
      using assms(4) ev(2) set_remove1_subset by (fastforce simp: collecting_def)
    with f ev kept show ?thesis
      unfolding ch' collecting_def by (simp add: context_of_def is_evaluation_mode_def held_reply_def)
  qed
  show "children_emitted ch' = children_emitted ch @ [reply_with_code (held_reply ch) best]"
    if "remove1 i (reply_queue ch) = []"
  proof -
    have "best \<noteq> MILTER_STATUS_NOT_CHANGE"
      using compiled_status [OF rank_verdict, of ch st ch "(i, v)"] rank_verdict [of ch "(i, v)"]
      by (auto simp: best_def status_rank_def split: if_splits)
    moreover have "st \<noteq> SERVER_CONTEXT_STATE_END_OF_MESSAGE" using assms(3) by (auto simp: broadcast_state_def)
    moreover from that f have "ch' = after_last_reply env best (?d\<lparr>reply_queue := []\<rparr>)"
      using kept by (simp add: eq removed_def remove_child_from_queue_def Let_def)
    moreover have "children_reply_code ?d = children_reply_code ch" "reply_extended_code ?d = reply_extended_code ch"
      "reply_message ?d = reply_message ch" using f(3) by (simp_all add: held_reply_def)
    ultimately show ?thesis
      using f kept assms(1,2) by (auto simp: after_last_reply_def emit_reply_status_of_state_def
          reply_with_code_def held_reply_def dispose_reply_related_data_def Let_def)
  qed
qed

lemma deliver_step:
  fixes v :: verdict
  assumes "children_quiet env" and "silent_calls env" and "broadcast_state st" and "awaiting st ch"
    and "i \<in> set (reply_queue ch)"
  defines "ch' \<equiv> deliver env (i, v) ch"
    and "best \<equiv> get_reply_status_for_state
      (compile_reply_status ch st (verdict_status ch (i, v))) st"
  shows "remove1 i (reply_queue ch) \<noteq> [] \<Longrightarrow>
      awaiting st ch' \<and> reply_queue ch' = remove1 i (reply_queue ch) \<and>
      children_emitted ch' = children_emitted ch \<and> get_reply_status_for_state ch' st = best \<and>
      (\<forall>j. is_evaluation_mode ch' j = is_evaluation_mode ch j)"
    and "remove1 i (reply_queue ch) = [] \<Longrightarrow>
      children_emitted ch' = children_emitted ch @ [status_to_signal best]"
  using deliver_step_held [OF assms(1-3) _ assms(5), of v] assms(4)
  unfolding ch'_def best_def awaiting_collecting by (auto simp: held_reply_def reply_with_code_def)

text \<open>An answer may come with a reply code, which takes the place of the one held so far.\<close>

datatype answer =
    Plain verdict
  | With_code nat "bytes option" "bytes option"

fun plain_verdict :: "answer \<Rightarrow> verdict" where
  "plain_verdict (Plain v) = v"
| "plain_verdict (With_code code extended_code message) =
     (if code div 100 = 4 then Says_temporary_failure else Says_reject)"

fun deliver_answer :: "children_environment \<Rightarrow> nat \<times> answer \<Rightarrow> children \<Rightarrow> children" where
  "deliver_answer env (i, Plain v) ch = deliver env (i, v) ch"
| "deliver_answer env (i, With_code code extended_code message) ch =
     cb_reply_code env ch i code extended_code message"

definition deliver_all ::
    "children_environment \<Rightarrow> (nat \<times> answer) list \<Rightarrow> children \<Rightarrow> children" where
  "deliver_all env answers ch = fold (deliver_answer env) answers ch"

fun hold_code :: "nat \<times> answer \<Rightarrow> held_code \<Rightarrow> held_code" where
  "hold_code (i, Plain v) h = h"
| "hold_code (i, With_code code extended_code message) h = (code, extended_code, message)"

definition answer_status :: "children \<Rightarrow> nat \<times> answer \<Rightarrow> milter_status" where
  "answer_status ch a = verdict_status ch (fst a, plain_verdict (snd a))"

definition set_held :: "held_code \<Rightarrow> children \<Rightarrow> children" where
  "set_held h ch = ch\<lparr>children_reply_code := fst h, reply_extended_code := fst (snd h),
     reply_message := snd (snd h)\<rparr>"

lemma set_held_fields [simp]:
  "reply_queue (set_held h ch) = reply_queue ch" "children_emitted (set_held h ch) = children_emitted ch"
  "held_reply (set_held h ch) = h" "collecting st (set_held h ch) = collecting st ch"
  "verdict_status (set_held h ch) = verdict_status ch"
  "get_reply_status_for_state (compile_reply_status (set_held h ch) st s) st =
     get_reply_status_for_state (compile_reply_status ch st s) st"
  "is_evaluation_mode (set_held h ch) j = is_evaluation_mode ch j"
  by (auto simp: set_held_def held_reply_def collecting_def verdict_status_def is_evaluation_mode_def
      context_of_def compile_reply_status_def get_reply_status_for_state_def fun_eq_iff
      milter_manager_children_is_important_status_def split: verdict.split)

lemma deliver_answer_eq:
  "deliver_answer env (i, a) ch =
     deliver env (i, plain_verdict a) (set_held (hold_code (i, a) (held_reply ch)) ch)"
  by (cases a) (simp_all add: cb_reply_code_def set_held_def held_reply_def dispose_reply_related_data_def)

lemmas deliver_answer_step = deliver_step_held [of _ _ "set_held h ch" for h ch, simplified]

text \<open>The highest status of a list, as the children compute it.\<close>

definition compiled :: "milter_status list \<Rightarrow> milter_status \<Rightarrow> milter_status" where
  "compiled = fold (\<lambda>s cur. if status_rank cur < status_rank s then s else cur)"

lemma compiled_max:
  "compiled ss cur \<in> insert cur (set ss) \<and>
   (\<forall>s \<in> insert cur (set ss). status_rank s \<le> status_rank (compiled ss cur))"
proof (induction ss arbitrary: cur)
  case Nil
  then show ?case by (simp add: compiled_def)
next
  case (Cons s ss)
  let ?cur = "if status_rank cur < status_rank s then s else cur"
  have c: "compiled (s # ss) cur = compiled ss ?cur" by (simp add: compiled_def)
  from Cons.IH [of ?cur] have "status_rank cur \<le> status_rank ?cur \<and> status_rank s \<le> status_rank ?cur \<and>
      status_rank ?cur \<le> status_rank (compiled ss ?cur)" by auto
  with Cons.IH [of ?cur] show ?case unfolding c by (auto split: if_splits intro: order.trans)
qed

lemma deliver_all_compiled:
  assumes "children_quiet env" and "silent_calls env" and "broadcast_state st"
    and "collecting st ch" and "answers \<noteq> []" and "mset (map fst answers) = mset (reply_queue ch)"
  shows "children_emitted (deliver_all env answers ch) = children_emitted ch @
     [reply_with_code (fold hold_code answers (held_reply ch))
        (compiled (map (answer_status ch) answers) (get_reply_status_for_state ch st))]"
  using assms(4-6)
proof (induction answers arbitrary: ch)
  case Nil
  then show ?case by simp
next
  case (Cons a answers)
  obtain i v where a: "a = (i, v)" by fastforce
  let ?ch = "deliver_answer env (i, v) ch"
  have i: "i \<in> set (reply_queue ch)"
    using Cons.prems(3) by (metis a fst_conv list.set_intros(1) list.simps(9) set_mset_mset)
  have "mset (remove1 i (reply_queue ch)) = mset (map fst answers)"
    using Cons.prems(3) by (simp add: a) (metis add_mset_remove_trivial)
  then have q: "mset (map fst answers) = mset (remove1 i (reply_queue ch))" ..
  note step = deliver_answer_step [where h = "hold_code (i, v) (held_reply ch)" and v = "plain_verdict v",
      OF assms(1-3) Cons.prems(1) i, folded deliver_answer_eq, unfolded compiled_status [OF rank_verdict]]
  show ?case
  proof (cases "answers = []")
    case True
    with q have "remove1 i (reply_queue ch) = []" by (simp only: list.map mset.simps mset_zero_iff_right)
    from step(2) [OF this] True show ?thesis by (simp add: deliver_all_def a compiled_def answer_status_def)
  next
    case False
    with q have "remove1 i (reply_queue ch) \<noteq> []" by (metis map_is_Nil_conv mset_zero_iff)
    note s = step(1) [OF this]
    have v: "answer_status ?ch b = answer_status ch b" for b
      using s by (simp add: answer_status_def verdict_status_def)
    from Cons.IH [of ?ch] s False q show ?thesis
      by (simp add: deliver_all_def a compiled_def v [abs_def] answer_status_def)
  qed
qed

text \<open>
  C6: a sender, recipient or DATA command that all its milters have been sent, with no other request
  of the MTA pending and no answer yet, is answered exactly once, by the answer of the last milter,
  with the most important of their answers - discard before reject before temporary failure before
  continue before accept, a reply code of class 4 counting as temporary failure and any other one as
  reject - in whatever order they arrive; the refusal of a milter in evaluation mode counts as accept.
  When that answer is a temporary failure or reject and the reply code that came last is of class 4 or
  5 respectively, the MTA is sent that reply code, whichever milter gave it - and when none came with
  these answers, the one that was left from an earlier command. (The observers of the children make no
  calls back, and the calls that abort the other milters emit nothing at once.)
\<close>

theorem one_reply_per_command:
  assumes "children_quiet env" and "silent_calls env" and "broadcast_state st" and "collecting st ch"
    and "answers \<noteq> []" and "mset (map fst answers) = mset (reply_queue ch)"
    and "get_reply_status_for_state ch st = MILTER_STATUS_NOT_CHANGE"
  shows "\<exists>a \<in> set answers.
     (\<forall>b \<in> set answers. status_rank (answer_status ch b) \<le> status_rank (answer_status ch a)) \<and>
     children_emitted (deliver_all env answers ch) = children_emitted ch @
       [reply_with_code (fold hold_code answers (held_reply ch)) (answer_status ch a)]"
proof -
  let ?ss = "map (answer_status ch) answers"
  let ?best = "compiled ?ss MILTER_STATUS_NOT_CHANGE"
  from compiled_max [of ?ss MILTER_STATUS_NOT_CHANGE]
  have max: "?best \<in> insert MILTER_STATUS_NOT_CHANGE (set ?ss)"
    "\<forall>s \<in> set ?ss. status_rank s \<le> status_rank ?best" by blast+
  obtain b bs where "answers = b # bs" using assms(5) by (cases answers) auto
  with max(2) rank_verdict [of ch "(fst b, plain_verdict (snd b))"] have "0 < status_rank ?best"
    by (fastforce simp: answer_status_def)
  then have "?best \<noteq> MILTER_STATUS_NOT_CHANGE" by (auto simp: status_rank_def)
  with max(1) obtain a where a: "a \<in> set answers" "?best = answer_status ch a" by auto
  with max(2) deliver_all_compiled [OF assms(1-6)] assms(7) show ?thesis by (intro bexI [of _ a]) auto
qed

text \<open>The code one milter gave is sent in the place of the plain answer of another.\<close>

theorem one_reply_per_command_witness:
  "children_emitted (deliver_all sample_children_environment
     [(1, With_code 451 None (Some ''later'')), (0, Plain Says_accept), (2, Plain Says_temporary_failure)]
     (sample_children SERVER_CONTEXT_STATE_DATA 3
        \<lparr>processing_state := SERVER_CONTEXT_STATE_DATA, reply_queue := [0, 1, 2],
         children_reply_code := 550\<rparr>)) =
   [Children_reply_code 451 None (Some ''later'')]"
proof -
  let ?ch = "sample_children SERVER_CONTEXT_STATE_DATA 3
        \<lparr>processing_state := SERVER_CONTEXT_STATE_DATA, reply_queue := [0, 1, 2], children_reply_code := 550\<rparr>"
  let ?answers = "[(1, With_code 451 None (Some ''later'')), (0, Plain Says_accept),
      (2, Plain Says_temporary_failure)] :: (nat \<times> answer) list"
  have "collecting SERVER_CONTEXT_STATE_DATA ?ch" "broadcast_state SERVER_CONTEXT_STATE_DATA"
    "get_reply_status_for_state ?ch SERVER_CONTEXT_STATE_DATA = MILTER_STATUS_NOT_CHANGE"
    "children_emitted ?ch = []" "mset (map fst ?answers) = mset (reply_queue ?ch)"
    by (simp_all add: sample_children_def sample_child_def milter_manager_children_init_def
        collecting_def context_of_def broadcast_state_def get_reply_status_for_state_def numeral_3_eq_3)
  moreover have "silent_calls sample_children_environment"
    by (simp add: silent_calls_def sample_children_environment_def)
  moreover have "answer_status ?ch (1, With_code 451 None (Some ''later'')) = MILTER_STATUS_TEMPORARY_FAILURE"
    "answer_status ?ch (0, Plain Says_accept) = MILTER_STATUS_ACCEPT"
    "answer_status ?ch (2, Plain Says_temporary_failure) = MILTER_STATUS_TEMPORARY_FAILURE"
    by (simp_all add: answer_status_def verdict_status_def sample_children_def sample_child_def
        is_evaluation_mode_def numeral_3_eq_3)
  ultimately show ?thesis
    using one_reply_per_command [of sample_children_environment SERVER_CONTEXT_STATE_DATA ?ch ?answers]
    by (auto simp: status_rank_def reply_with_code_def)
qed

end
