(* ===== verification/Leader_Spec.thy ===== *)
theory Leader_Spec
  imports Leader Client_Session Children_Spec Reply_Spec
begin

text \<open>
  The manager as a whole: an MTA's command goes through the client context and the leader
  to the milters, and their answers come back as one reply. The lemmas about the children
  (\<open>Children_Spec\<close>), the client context (\<open>Client_Context_Spec\<close>) and the reply codec
  (\<open>Reply_Spec\<close>) are put together here.
\<close>

subsection \<open>The leader's handlers leave the children alone\<close>

lemma leader_emit_children [simp]: "leader_children (fst (leader_emit ev lc)) = leader_children (fst lc)"
  by (simp add: leader_emit_def split: prod.split)

lemma leader_reply_children [simp]:
  "leader_children (fst (leader_reply lc status)) = leader_children (fst lc)"
  by (simp add: leader_reply_def set_leader_state_def split: prod.split option.split)

lemma emit_finished_children [simp]:
  "leader_children (fst (emit_finished lc)) = leader_children (fst lc)"
  by (simp add: emit_finished_def leader_emit_def leader_finished_def cb_leader_finished_def
      split: prod.split)

lemma unless_children [simp]:
  "leader_children (fst (unless_error l m)) = leader_children l"
  "leader_children (fst (unless_failed l m)) = leader_children l"
  by (simp_all add: unless_error_def unless_failed_def leader_crash_def
      split: prod.split option.split bool.split)

lemmas leader_callbacks = leader_cb_negotiate_reply_def leader_cb_add_header_def
  leader_cb_insert_header_def leader_cb_change_header_def leader_cb_delete_header_def
  leader_cb_change_from_def leader_cb_add_recipient_def leader_cb_delete_recipient_def
  leader_cb_replace_body_def leader_cb_progress_def leader_cb_quarantine_def leader_cb_abort_def

lemma leader_cb_reply_code_children [simp]:
  "leader_children (fst (leader_cb_reply_code lc code ec m)) = leader_children (fst lc)"
  by (simp add: leader_cb_reply_code_def split: prod.split bool.split)

lemma leader_cb_error_children [simp]:
  "leader_children (fst (leader_cb_error cfg lc e)) = leader_children (fst lc)"
  by (simp add: leader_cb_error_def Let_def)

lemma setup_children_signals_children [simp]:
  "leader_children (fst (setup_children_signals cfg ev lc)) = leader_children (fst lc)"
  by (cases lc; cases ev) (simp_all add: setup_children_signals_def leader_callbacks)

lemma fold_signals_children [simp]:
  "leader_children (fst (fold (setup_children_signals cfg) evs lc)) = leader_children (fst lc)"
  by (induction evs arbitrary: lc) simp_all

lemma with_children_silent:
  assumes "call ch = (r, ch')" and "children_emitted ch' = children_emitted ch"
  shows "with_children cfg call ch (l, c) = (r, l\<lparr>leader_children := Some ch'\<rparr>, c)"
  using assms by (simp add: with_children_def)

lemma with_children_one:
  assumes "call ch = (r, ch')" and "children_emitted ch' = children_emitted ch @ evs"
  shows "with_children cfg call ch (l, c) =
    (r, fold (setup_children_signals cfg) evs (l\<lparr>leader_children := Some ch'\<rparr>, c))"
  using assms by (simp add: with_children_def)

subsection \<open>A call to many children\<close>

text \<open>
  The milters take the command and answer later: a call puts the child's context into the
  state of the command and leaves its option alone.
\<close>

definition answers_later :: "children_environment \<Rightarrow> server_context_state \<Rightarrow> bool" where
  "answers_later env st \<longleftrightarrow> (\<forall>i call ch. \<exists>g. env_call env i call ch = (True, update_context i g ch) \<and>
     (\<forall>c. ctx_state (g c) = st \<and> ctx_option (g c) = ctx_option c))"

lemma answers_later_silent: "answers_later env st \<Longrightarrow> silent_calls env"
  unfolding silent_calls_def
proof (intro allI)
  fix i c ch
  assume "answers_later env st"
  then obtain g where "env_call env i c ch = (True, update_context i g ch)"
    unfolding answers_later_def by blast
  then show "children_emitted (snd (env_call env i c ch)) = children_emitted ch"
    by (simp add: update_context_def)
qed

text \<open>\<open>ch'\<close> is \<open>ch\<close> after some children have been called.\<close>

definition called :: "server_context_state \<Rightarrow> children \<Rightarrow> children \<Rightarrow> bool" where
  "called st ch ch' \<longleftrightarrow> (\<exists>ms cs. ch' = ch\<lparr>milters := ms, children_calls := cs\<rparr> \<and>
     length ms = length (milters ch)) \<and>
     (\<forall>i. is_evaluation_mode ch' i = is_evaluation_mode ch i) \<and>
     (\<forall>i. ctx_option (context_of ch' i) = ctx_option (context_of ch i)) \<and>
     (\<forall>i. ctx_state (context_of ch' i) \<in> {st, ctx_state (context_of ch i)})"

lemma called_refl: "called st ch ch"
proof -
  have "ch = ch\<lparr>milters := milters ch, children_calls := children_calls ch\<rparr>" by simp
  then show ?thesis unfolding called_def by blast
qed

lemma called_trans:
  assumes "called st a b" and "called st b c"
  shows "called st a c"
proof -
  from assms obtain ms cs ms' cs' where
    "b = a\<lparr>milters := ms, children_calls := cs\<rparr>" "length ms = length (milters a)"
    "c = b\<lparr>milters := ms', children_calls := cs'\<rparr>" "length ms' = length (milters b)"
    unfolding called_def by blast
  then have "c = a\<lparr>milters := ms', children_calls := cs'\<rparr>" "length ms' = length (milters a)" by simp_all
  with assms show ?thesis unfolding called_def by (metis insertE insertCI singletonD)
qed

lemma called_fields:
  assumes "called st ch ch'"
  shows "reply_queue ch' = reply_queue ch" "reply_statuses ch' = reply_statuses ch"
    "processing_state ch' = processing_state ch" "children_emitted ch' = children_emitted ch"
    "pending_message_request ch' = pending_message_request ch"
    "children_reply_code ch' = children_reply_code ch" "length (milters ch') = length (milters ch)"
proof -
  from assms obtain ms cs where "ch' = ch\<lparr>milters := ms, children_calls := cs\<rparr>"
    "length ms = length (milters ch)" unfolding called_def by blast
  then show "reply_queue ch' = reply_queue ch" "reply_statuses ch' = reply_statuses ch"
    "processing_state ch' = processing_state ch" "children_emitted ch' = children_emitted ch"
    "pending_message_request ch' = pending_message_request ch"
    "children_reply_code ch' = children_reply_code ch" "length (milters ch') = length (milters ch)"
    by simp_all
qed

lemma called_state:
  assumes "called st ch ch'" and "ctx_state (context_of ch i) = st"
  shows "ctx_state (context_of ch' i) = st"
  using assms unfolding called_def by (metis insertE singletonD)

lemma call_child_called:
  assumes "answers_later env st"
  obtains ch' where "call_child env i call ch = (True, ch')" "called st ch ch'"
    "i < length (milters ch) \<Longrightarrow> ctx_state (context_of ch' i) = st"
proof -
  let ?ch = "ch\<lparr>children_calls := children_calls ch @ [(i, call)]\<rparr>"
  from assms obtain g where g: "env_call env i call ?ch = (True, update_context i g ?ch)"
    "\<forall>c. ctx_state (g c) = st \<and> ctx_option (g c) = ctx_option c" unfolding answers_later_def by blast
  have ctx: "context_of ?ch j = context_of ch j" for j by (simp add: context_of_def)
  have "update_context i g ?ch = ch\<lparr>milters := milters (update_context i g ch),
      children_calls := children_calls ch @ [(i, call)]\<rparr>"
    "length (milters (update_context i g ch)) = length (milters ch)"
    by (simp_all add: update_context_def context_of_def)
  then have "\<exists>ms cs. update_context i g ?ch = ch\<lparr>milters := ms, children_calls := cs\<rparr> \<and>
      length ms = length (milters ch)" by blast
  moreover have "is_evaluation_mode ?ch j = is_evaluation_mode ch j" for j
    by (simp add: is_evaluation_mode_def)
  ultimately have "called st ch (update_context i g ?ch)"
    using g(2) by (simp add: called_def context_of_update_context ctx)
  moreover have "i < length (milters ch) \<Longrightarrow> ctx_state (context_of (update_context i g ?ch) i) = st"
    using g(2) by (simp add: context_of_update_context)
  ultimately show ?thesis using that g(1) by (simp add: call_child_def)
qed

lemma call_all:
  assumes "answers_later env st" and "\<forall>i \<in> set is. i < length (milters ch)"
  shows "\<exists>ch'. fold (\<lambda>i (success, ch). case call_child env i call ch of (ok, ch) \<Rightarrow> (success \<or> ok, ch))
       is (b, ch) = (b \<or> is \<noteq> [], ch') \<and> called st ch ch' \<and>
     (\<forall>i \<in> set is. ctx_state (context_of ch' i) = st)"
  using assms(2)
proof (induction "is" arbitrary: b ch)
  case Nil
  then show ?case using called_refl by auto
next
  case (Cons i "is")
  obtain ch1 where 1: "call_child env i call ch = (True, ch1)" "called st ch ch1"
    "ctx_state (context_of ch1 i) = st"
    using call_child_called [OF assms(1), of i call ch] Cons.prems by auto
  from Cons.IH [of ch1 True] Cons.prems called_fields(7) [OF 1(2)] obtain ch2 where
    2: "fold (\<lambda>i (success, ch). case call_child env i call ch of (ok, ch) \<Rightarrow> (success \<or> ok, ch))
       is (True, ch1) = (True, ch2)" "called st ch1 ch2" "\<forall>i \<in> set is. ctx_state (context_of ch2 i) = st"
    by auto
  have "ctx_state (context_of ch2 i) = st" by (rule called_state [OF 2(2) 1(3)])
  with 1(1) 2 called_trans [OF 1(2) 2(2)] show ?case by (intro exI [of _ ch2]) simp
qed

lemma nobody_pretends:
  assumes "\<forall>i \<in> set is. milter_server_context_need_reply (context_of ch i) st = Ok True"
  shows "fold (\<lambda>i ch. case child_need_reply ch i st of (need, ch) \<Rightarrow>
      if need then ch else cb_continue env ch i) is ch = ch"
  using assms by (induction "is") (simp_all add: child_need_reply_def)

lemma call_targets_later:
  assumes "answers_later env st" and "\<forall>i \<in> set is. i < length (milters ch)" and "is \<noteq> []"
    and "\<forall>i \<in> set is. milter_server_context_need_reply (context_of ch i) st = Ok True"
  obtains ch' where "call_targets env st call is ch = (True, ch')" "called st ch ch'"
    "\<forall>i \<in> set is. ctx_state (context_of ch' i) = st"
proof -
  from call_all [OF assms(1,2), of call False] assms(3) obtain ch' where
    c: "fold (\<lambda>i (success, ch). case call_child env i call ch of (ok, ch) \<Rightarrow> (success \<or> ok, ch))
       is (False, ch) = (True, ch')" "called st ch ch'" "\<forall>i \<in> set is. ctx_state (context_of ch' i) = st"
    by auto
  have "ctx_option (context_of ch' i) = ctx_option (context_of ch i)" for i
    using c(2) unfolding called_def by blast
  then have "\<forall>i \<in> set is. milter_server_context_need_reply (context_of ch' i) st = Ok True"
    using assms(4) by (simp add: milter_server_context_need_reply_def)
  from nobody_pretends [OF this] c(1) have "call_targets env st call is ch = (True, ch')"
    by (simp add: call_targets_def)
  with c(2,3) that show ?thesis by blast
qed

lemma queue_awaits:
  assumes "answers_later env st" and "pending_message_request ch = None" and "children_reply_code ch = 0"
    and "targets = filter (\<lambda>i. p (context_of ch i)) (all_children ch)" and "targets \<noteq> []"
    and "\<forall>i \<in> set targets. milter_server_context_need_reply (context_of ch i) st = Ok True"
  defines "q \<equiv> queue_children p (init_reply_queue ch st)"
  obtains ch' where "call_targets env st call (reply_queue q) q = (True, ch')" "awaiting st ch'"
    "reply_queue ch' = targets" "children_emitted ch' = children_emitted ch"
    "\<forall>a. verdict_status ch' a = verdict_status ch a"
    "get_reply_status_for_state ch' st = MILTER_STATUS_NOT_CHANGE"
proof -
  have ctx: "context_of (init_reply_queue ch st) i = context_of ch i" "context_of q i = context_of ch i"
    "is_evaluation_mode q i = is_evaluation_mode ch i" for i
    by (simp_all add: context_of_def is_evaluation_mode_def q_def queue_children_def
        init_reply_queue_def set_state_def)
  have all: "all_children (init_reply_queue ch st) = all_children ch"
    by (simp add: all_children_def init_reply_queue_def set_state_def)
  have q: "reply_queue q = targets" "processing_state q = st" "pending_message_request q = None"
    "children_reply_code q = 0" "children_emitted q = children_emitted ch"
    "length (milters q) = length (milters ch)"
    "reply_statuses q = (reply_statuses ch)(st \<mapsto> MILTER_STATUS_NOT_CHANGE)"
    using assms(2-4) ctx(1) all
    by (simp_all add: q_def queue_children_def) (simp_all add: init_reply_queue_def set_state_def)
  have in_range: "\<forall>i \<in> set (reply_queue q). i < length (milters q)"
    using q(1,6) assms(4) by (auto simp: all_children_def)
  have need: "\<forall>i \<in> set (reply_queue q). milter_server_context_need_reply (context_of q i) st = Ok True"
    using assms(6) q(1) ctx(2) by simp
  have ne: "reply_queue q \<noteq> []" using q(1) assms(5) by simp
  obtain ch' where ch': "call_targets env st call (reply_queue q) q = (True, ch')" "called st q ch'"
    "\<forall>i \<in> set (reply_queue q). ctx_state (context_of ch' i) = st"
    by (rule call_targets_later [OF assms(1) in_range ne need])
  have "is_evaluation_mode ch' i = is_evaluation_mode ch i" for i
    using ch'(2) ctx(3) unfolding called_def by blast
  then have "verdict_status ch' a = verdict_status ch a" for a
    by (cases a) (simp add: verdict_status_def)
  moreover have "awaiting st ch'"
    using called_fields [OF ch'(2)] q ch'(3) by (simp add: awaiting_def)
  moreover have "get_reply_status_for_state ch' st = MILTER_STATUS_NOT_CHANGE"
    using called_fields [OF ch'(2)] q by (simp add: get_reply_status_for_state_def)
  ultimately show ?thesis using that ch'(1) called_fields [OF ch'(2)] q by simp
qed

subsection \<open>The answers of the milters\<close>

definition answer_session :: "leader_configuration \<Rightarrow> nat \<times> verdict \<Rightarrow> session \<Rightarrow> session" where
  "answer_session cfg a = session_children cfg (\<lambda>env. deliver env a)"

lemma answer_session_eq:
  assumes "leader_children l = Some ch"
    and "children_emitted (deliver (cfg_environment cfg) a ch) = children_emitted ch @ evs"
  shows "answer_session cfg a (l, c) = fold (setup_children_signals cfg) evs
    (l\<lparr>leader_children := Some (deliver (cfg_environment cfg) a ch)\<rparr>, c)"
  using assms by (simp add: answer_session_def session_children_def with_children_def)

lemma session_answers:
  assumes "children_quiet env" and "silent_calls env" and "broadcast_state st"
    and "env = cfg_environment cfg"
    and "awaiting st ch" and "answers \<noteq> []" and "mset (map fst answers) = mset (reply_queue ch)"
    and "leader_children l = Some ch"
  shows "\<exists>ch'. fold (answer_session cfg) answers (l, c) = setup_children_signals cfg
     (status_to_signal (compiled (map (verdict_status ch) answers) (get_reply_status_for_state ch st)))
     (l\<lparr>leader_children := Some ch'\<rparr>, c)"
  using assms(5-8)
proof (induction answers arbitrary: ch l)
  case Nil
  then show ?case by simp
next
  case (Cons a answers)
  obtain i v where a: "a = (i, v)" by fastforce
  let ?ch = "deliver env (i, v) ch"
  have i: "i \<in> set (reply_queue ch)"
    using Cons.prems(3) by (metis a fst_conv list.set_intros(1) list.simps(9) set_mset_mset)
  have "mset (remove1 i (reply_queue ch)) = mset (map fst answers)"
    using Cons.prems(3) by (simp add: a) (metis add_mset_remove_trivial)
  then have q: "mset (map fst answers) = mset (remove1 i (reply_queue ch))" ..
  note step = deliver_step [OF assms(1-3) Cons.prems(1) i, of v, unfolded compiled_status [OF rank_verdict]]
  show ?case
  proof (cases "answers = []")
    case True
    with q have "remove1 i (reply_queue ch) = []" by (simp only: list.map mset.simps mset_zero_iff_right)
    from answer_session_eq [OF Cons.prems(4), of cfg a, unfolded a assms(4) [symmetric], OF step(2) [OF this], of c] True
    show ?thesis by (auto simp: a compiled_def)
  next
    case False
    with q have "remove1 i (reply_queue ch) \<noteq> []" by (metis map_is_Nil_conv mset_zero_iff)
    note s = step(1) [OF this]
    have v: "verdict_status ?ch b = verdict_status ch b" for b
      using s by (cases b) (simp add: verdict_status_def)
    let ?l = "l\<lparr>leader_children := Some ?ch\<rparr>"
    from s have "children_emitted ?ch = children_emitted ch @ []" by simp
    from answer_session_eq [OF Cons.prems(4), of cfg a, unfolded a assms(4) [symmetric], OF this, of c]
    have one: "answer_session cfg a (l, c) = (?l, c)" by (simp add: a)
    from Cons.IH [of ?ch ?l] s False q obtain ch' where
      "fold (answer_session cfg) answers (?l, c) = setup_children_signals cfg
         (status_to_signal (compiled (map (verdict_status ?ch) answers) (get_reply_status_for_state ?ch st)))
         (l\<lparr>leader_children := Some ch'\<rparr>, c)" by auto
    with s show ?thesis by (auto simp: one [unfolded a] a compiled_def v [abs_def])
  qed
qed

subsection \<open>The reply to the MTA\<close>

lemma set_message_status_signal:
  assumes "status \<in> {MILTER_STATUS_CONTINUE, MILTER_STATUS_ACCEPT, MILTER_STATUS_REJECT,
    MILTER_STATUS_TEMPORARY_FAILURE, MILTER_STATUS_DISCARD}"
  shows "setup_children_signals cfg (status_to_signal status) lc = leader_reply lc status"
  using assms by (auto simp: setup_children_signals_def status_to_signal_def)

lemma verdict_statuses:
  "verdict_status ch a \<in> {MILTER_STATUS_CONTINUE, MILTER_STATUS_ACCEPT, MILTER_STATUS_REJECT,
    MILTER_STATUS_TEMPORARY_FAILURE, MILTER_STATUS_DISCARD}"
  by (simp add: verdict_status_def split: prod.split verdict.split)

text \<open>The reply a final status stands for when no reply code is prepared.\<close>

definition plain_reply :: "milter_status \<Rightarrow> reply_call" where
  "plain_reply status =
     (case status of
        MILTER_STATUS_TEMPORARY_FAILURE \<Rightarrow> Rep_temporary_failure
      | MILTER_STATUS_REJECT \<Rightarrow> Rep_reject
      | MILTER_STATUS_ACCEPT \<Rightarrow> Rep_accept
      | MILTER_STATUS_DISCARD \<Rightarrow> Rep_discard
      | MILTER_STATUS_SKIP \<Rightarrow> Rep_skip
      | _ \<Rightarrow> Rep_continue)"

lemma plain_final_calls:
  assumes "reply_code_number r = 0"
    and "status \<in> {MILTER_STATUS_CONTINUE, MILTER_STATUS_ACCEPT, MILTER_STATUS_REJECT,
      MILTER_STATUS_TEMPORARY_FAILURE, MILTER_STATUS_DISCARD}"
  shows "final_calls r status = [plain_reply status]"
  using assms by (auto simp: final_calls_def plain_reply_def refusal_call_def
      milter_client_context_format_reply_def milter_utils_format_reply_code_def)

lemma plain_reply_wf [simp]: "wf_reply_call (plain_reply status)" "wf_replies [plain_reply status]"
  by (simp_all add: plain_reply_def wf_replies_def split: milter_status.split)

text \<open>\<open>bytes\<close> reads as exactly the signals \<open>sigs\<close>, however it is cut.\<close>

definition reads_as :: "bytes \<Rightarrow> reply_signal list \<Rightarrow> bool" where
  "reads_as b sigs \<longleftrightarrow> (\<forall>chunks. concat chunks = b \<longrightarrow>
     (\<exists>d. run_reader decode_reply milter_decoder_new chunks = Agent d sigs [] \<and>
        dec_state d = IN_START \<and> dec_buffer d = []))"

lemma packets_read:
  assumes "wf_replies rs"
  shows "reads_as (packets rs) (map signal_of_reply rs)"
  using replies.chunked_stream [OF reply_packets [OF assms]]
  by (simp add: reads_as_def packets_def stream_def)

text \<open>The two commands that go to all milters with nothing else to be done.\<close>

fun envelope_state :: "command_signal \<Rightarrow> server_context_state" where
  "envelope_state (Sig_envelope_from _) = SERVER_CONTEXT_STATE_ENVELOPE_FROM"
| "envelope_state _ = SERVER_CONTEXT_STATE_ENVELOPE_RECIPIENT"

fun envelope_targets :: "command_signal \<Rightarrow> children \<Rightarrow> nat list" where
  "envelope_targets (Sig_envelope_from _) ch =
     filter (\<lambda>i. alive (context_of ch i)) (all_children ch)"
| "envelope_targets _ ch =
     filter (\<lambda>i. milter_server_context_is_processing_message (context_of ch i)) (all_children ch)"

definition envelope_signal :: "command_signal \<Rightarrow> bool" where
  "envelope_signal sig \<longleftrightarrow>
     (case sig of Sig_envelope_from _ \<Rightarrow> True | Sig_envelope_recipient _ \<Rightarrow> True | _ \<Rightarrow> False)"

text \<open>What the leader's state must be while the milters have the command.\<close>

fun envelope_leader_state :: "command_signal \<Rightarrow> leader_state" where
  "envelope_leader_state (Sig_envelope_from _) = LEADER_STATE_ENVELOPE_FROM"
| "envelope_leader_state _ = LEADER_STATE_ENVELOPE_RECIPIENT"

lemma broadcast_envelope [simp]: "broadcast_state (envelope_state sig)"
  by (cases sig) (simp_all add: broadcast_state_def)

lemma idle_same:
  "idle (received st c)  = idle c" "idle (set_macro_context command c) = idle c"
  by (simp_all add: idle_def)

lemma prepared_received [simp]:
  "prepared_reply (received st c) = prepared_reply c"
  "prepared_reply (set_macro_context command c) = prepared_reply c"
  by (simp_all add: received_def set_macro_context_def client_disable_timeout_def
      client_ensure_message_result_def milter_client_context_set_state_def Let_def)

lemma envelope_asks:
  assumes "envelope_signal sig" and "leader_attached l" and "leader_children l = Some ch"
    and "answers_later (cfg_environment cfg) (envelope_state sig)"
    and "\<not> all_expired_as_fallback_on_negotiated ch"
    and "pending_message_request ch = None" and "children_reply_code ch = 0"
    and "envelope_targets sig ch \<noteq> []"
    and "\<forall>i \<in> set (envelope_targets sig ch).
      milter_server_context_need_reply (context_of ch i) (envelope_state sig) = Ok True"
  obtains ch' c' where "session_receive order cfg sig (l, c) =
      (l\<lparr>leader_state := envelope_leader_state sig, leader_children := Some ch'\<rparr>, c')"
    "idle c \<Longrightarrow> idle c'" "prepared_reply c' = prepared_reply c" "wire c' = wire c"
    "awaiting (envelope_state sig) ch'" "reply_queue ch' = envelope_targets sig ch"
    "\<forall>a. verdict_status ch' a = verdict_status ch a"
    "get_reply_status_for_state ch' (envelope_state sig) = MILTER_STATUS_NOT_CHANGE"
proof -
  let ?env = "cfg_environment cfg" and ?l = "l\<lparr>leader_state := envelope_leader_state sig\<rparr>"
  have with_call: "ask_children cfg (?l, d) call =
      (MILTER_STATUS_PROGRESS, l\<lparr>leader_state := envelope_leader_state sig, leader_children := Some ch'\<rparr>, d)"
    if "call ?env ch = (True, ch')" "children_emitted ch' = children_emitted ch" for call ch' d
    using with_children_silent [of "call ?env", OF that, of cfg ?l d] assms(3) by (simp add: ask_children_def)
  from assms(1) consider (sender) x where "sig = Sig_envelope_from x"
    | (recipient) x where "sig = Sig_envelope_recipient x"
    by (cases sig) (auto simp: envelope_signal_def)
  then show ?thesis
  proof cases
    case sender
    let ?st = "SERVER_CONTEXT_STATE_ENVELOPE_FROM"
    from sender assms(4,8,9) have a: "answers_later ?env ?st" "envelope_targets sig ch \<noteq> []"
      "\<forall>i \<in> set (envelope_targets sig ch). milter_server_context_need_reply (context_of ch i) ?st = Ok True"
      "envelope_targets sig ch = filter (\<lambda>i. alive (context_of ch i)) (all_children ch)" by simp_all
    obtain ch' where ch': "call_targets ?env ?st (Call_envelope_from x)
        (reply_queue (queue_children alive (init_reply_queue ch ?st)))
        (queue_children alive (init_reply_queue ch ?st)) = (True, ch')"
      "awaiting ?st ch'" "reply_queue ch' = envelope_targets sig ch"
      "children_emitted ch' = children_emitted ch" "\<forall>a. verdict_status ch' a = verdict_status ch a"
      "get_reply_status_for_state ch' ?st = MILTER_STATUS_NOT_CHANGE"
      by (rule queue_awaits [OF a(1) assms(6,7) a(4,2,3)])
    have "\<exists>i \<in> set (all_children ch). \<not> milter_server_context_is_quitted (context_of ch i)"
      using a(2,4) by (auto simp: alive_def filter_empty_conv)
    then have "milter_manager_children_envelope_from ?env ch x = (True, ch')"
      using ch'(1) assms(5) by (simp add: milter_manager_children_envelope_from_def send_to_alive_def
          milter_manager_children_check_alive_def Let_def)
    note asked = with_call [of "\<lambda>env ch. milter_manager_children_envelope_from env ch x", OF this ch'(4)]
    show ?thesis
      using ch'(2-6) assms(2)
      by (intro that [of ch' "set_macro_context MILTER_COMMAND_ENVELOPE_FROM
            (received CLIENT_CONTEXT_STATE_ENVELOPE_FROM c)"])
        (simp_all add: sender session_receive_def client_receive_def client_cb_decoder_envelope_from_def
          ask_owner_def setup_context_signals_def cb_client_command_def enter_def set_leader_state_def
          milter_manager_leader_envelope_from_def asked [unfolded sender, simplified]
          status_accumulator_def answer_with_def idle_same)
  next
    case recipient
    let ?st = "SERVER_CONTEXT_STATE_ENVELOPE_RECIPIENT"
    let ?p = milter_server_context_is_processing_message
    from recipient assms(4,8,9) have a: "answers_later ?env ?st" "envelope_targets sig ch \<noteq> []"
      "\<forall>i \<in> set (envelope_targets sig ch). milter_server_context_need_reply (context_of ch i) ?st = Ok True"
      "envelope_targets sig ch = filter (\<lambda>i. ?p (context_of ch i)) (all_children ch)" by simp_all
    obtain ch' where ch': "call_targets ?env ?st (Call_envelope_recipient x)
        (reply_queue (queue_children ?p (init_reply_queue ch ?st)))
        (queue_children ?p (init_reply_queue ch ?st)) = (True, ch')"
      "awaiting ?st ch'" "reply_queue ch' = envelope_targets sig ch"
      "children_emitted ch' = children_emitted ch" "\<forall>a. verdict_status ch' a = verdict_status ch a"
      "get_reply_status_for_state ch' ?st = MILTER_STATUS_NOT_CHANGE"
      by (rule queue_awaits [OF a(1) assms(6,7) a(4,2,3)])
    have "\<exists>i \<in> set (all_children ch). ?p (context_of ch i)"
      using a(2,4) by (auto simp: filter_empty_conv)
    then have "milter_manager_children_envelope_recipient ?env ch x = (True, ch')"
      using ch'(1) by (simp add: milter_manager_children_envelope_recipient_def
          milter_manager_children_check_processing_message_def Let_def)
    note asked = with_call [of "\<lambda>env ch. milter_manager_children_envelope_recipient env ch x", OF this ch'(4)]
    show ?thesis
      using ch'(2-6) assms(2)
      by (intro that [of ch' "set_macro_context MILTER_COMMAND_ENVELOPE_RECIPIENT
            (received CLIENT_CONTEXT_STATE_ENVELOPE_RECIPIENT c)"])
        (simp_all add: recipient session_receive_def client_receive_def
          client_cb_decoder_envelope_recipient_def
          ask_owner_def setup_context_signals_def cb_client_command_def enter_def set_leader_state_def
          milter_manager_leader_envelope_recipient_def asked [unfolded recipient, simplified]
          status_accumulator_def answer_with_def idle_same)
  qed
qed

lemma envelope_reply:
  assumes "leader_state l = envelope_leader_state sig" and "idle c"
    and "final_calls (prepared_reply c) status = [call]" and "wf_reply_call call"
    and "status \<noteq> MILTER_STATUS_DEFAULT"
  obtains l' c' where "leader_reply (l, c) status = (l', c')" "idle c'"
    "wire c' = wire c @ packets [call]"
    "leader_state l' = next_state l (envelope_leader_state sig)"
proof -
  have "\<exists>replied. leader_reply (l, c) status =
      (set_leader_state (next_state l (envelope_leader_state sig)) l, simple_response replied c status)"
    using assms(1) by (cases sig)
      (auto simp: leader_reply_def state_to_response_signal_name_def emit_response_def simple_responses)
  moreover have "default_status MILTER_STATUS_CONTINUE status = status"
    using assms(5) by (simp add: default_status_def)
  ultimately show ?thesis
    using simple_response_sent [OF assms(2), of status] assms(3,4) that
    by (fastforce simp: machine_of_def sent_def set_leader_state_def)
qed

lemma envelope_answered:
  assumes "envelope_signal sig" and "leader_attached l" and "leader_children l = Some ch"
    and "children_quiet (cfg_environment cfg)"
    and "answers_later (cfg_environment cfg) (envelope_state sig)"
    and "\<not> all_expired_as_fallback_on_negotiated ch"
    and "pending_message_request ch = None" and "children_reply_code ch = 0"
    and "envelope_targets sig ch \<noteq> []"
    and "\<forall>i \<in> set (envelope_targets sig ch).
      milter_server_context_need_reply (context_of ch i) (envelope_state sig) = Ok True"
    and "idle c"
    and "mset (map fst answers) = mset (envelope_targets sig ch)"
    and "fold (answer_session cfg) answers (session_receive order cfg sig (l, c)) = (l', c')"
  obtains a where "a \<in> set answers"
    "\<forall>b \<in> set answers. status_rank (verdict_status ch b) \<le> status_rank (verdict_status ch a)"
    "\<And>call. final_calls (prepared_reply c) (verdict_status ch a) = [call] \<Longrightarrow> wf_reply_call call \<Longrightarrow>
       idle c' \<and> wire c' = wire c @ packets [call] \<and> is_replied_state (leader_state l')"
proof -
  let ?env = "cfg_environment cfg" and ?st = "envelope_state sig"
  obtain ch1 c1 where received: "session_receive order cfg sig (l, c) =
      (l\<lparr>leader_state := envelope_leader_state sig, leader_children := Some ch1\<rparr>, c1)"
    and c1: "idle c1" "prepared_reply c1 = prepared_reply c" "wire c1 = wire c"
    and ch1: "awaiting ?st ch1" "reply_queue ch1 = envelope_targets sig ch"
      "\<forall>a. verdict_status ch1 a = verdict_status ch a"
      "get_reply_status_for_state ch1 ?st = MILTER_STATUS_NOT_CHANGE"
    using envelope_asks [OF assms(1-3,5-10), of order c] assms(11) by metis
  let ?l1 = "l\<lparr>leader_state := envelope_leader_state sig, leader_children := Some ch1\<rparr>"
  let ?ss = "map (verdict_status ch) answers"
  let ?best = "compiled ?ss MILTER_STATUS_NOT_CHANGE"
  have ne: "answers \<noteq> []" using assms(9,12) by auto
  have v: "verdict_status ch1 = verdict_status ch" using ch1(3) by blast
  obtain ch2 where answered: "fold (answer_session cfg) answers (?l1, c1) =
      setup_children_signals cfg (status_to_signal ?best) (?l1\<lparr>leader_children := Some ch2\<rparr>, c1)"
    using session_answers [OF assms(4) answers_later_silent [OF assms(5)] broadcast_envelope refl ch1(1) ne,
        of ?l1 c1] assms(12) ch1(2,4) v by auto
  from compiled_max [of ?ss MILTER_STATUS_NOT_CHANGE]
  have max: "?best \<in> insert MILTER_STATUS_NOT_CHANGE (set ?ss)"
    "\<forall>s \<in> set ?ss. status_rank s \<le> status_rank ?best" by blast+
  obtain b bs where "answers = b # bs" using ne by (cases answers) auto
  with max(2) rank_verdict [of ch b] have "0 < status_rank ?best" by fastforce
  then have "?best \<noteq> MILTER_STATUS_NOT_CHANGE" by (auto simp: status_rank_def)
  with max(1) obtain a where a: "a \<in> set answers" "?best = verdict_status ch a" by auto
  let ?v = "verdict_status ch a" and ?l2 = "?l1\<lparr>leader_children := Some ch2\<rparr>"
  have reply: "leader_reply (?l2, c1) ?v = (l', c')"
    using answered received assms(13) set_message_status_signal [OF verdict_statuses [of ch a]] a(2) by simp
  show ?thesis
  proof (rule that [OF a(1)])
    show "\<forall>b \<in> set answers. status_rank (verdict_status ch b) \<le> status_rank ?v" using max(2) a(2) by auto
    fix call
    assume call: "final_calls (prepared_reply c) ?v = [call]" "wf_reply_call call"
    have "?v \<noteq> MILTER_STATUS_DEFAULT" "leader_state ?l2 = envelope_leader_state sig"
      using verdict_statuses [of ch a] by auto
    with reply call c1 have "idle c'" "wire c' = wire c1 @ packets [call]"
      "leader_state l' = next_state ?l2 (envelope_leader_state sig)"
      using envelope_reply [of ?l2 sig c1 ?v call] by (metis prod.inject)+
    then show "idle c' \<and> wire c' = wire c @ packets [call] \<and> is_replied_state (leader_state l')"
      using c1(3) by (cases sig) (simp_all add: next_state_def is_replied_state_def)
  qed
qed

lemma idle_written: "idle c \<Longrightarrow> wire c = concat (client_written c)"
  by (simp add: idle_def wire_def)

text \<open>
  C4: as long as no reply code is involved, the manager answers like a single milter. The MTA names
  the sender or a recipient; milters take part in the message, and each of them wants to answer; none
  of the milters or the manager holds a reply code from before, and the milters give their answers
  without one and after they all have been asked (with reply codes it is as \<open>one_reply_per_command\<close>
  and \<open>stale_reply_code\<close> say); every command reaches its milter, no other request is pending, not all milters
  have expired in the negotiation, the connection to the MTA is open and nothing is kept back for it. Then the milters that take part are asked, and
  once each of them has given its answer, in whatever order, the MTA gets exactly one reply and nothing
  else: the most important of the answers, where the refusal of a milter in evaluation mode counts as
  accept. The leader is then ready for the next command.
\<close>

theorem manager_answers_once:
  assumes "envelope_signal sig" and "leader_attached l" and "leader_children l = Some ch"
    and "children_quiet (cfg_environment cfg)"
    and "answers_later (cfg_environment cfg) (envelope_state sig)"
    and "\<not> all_expired_as_fallback_on_negotiated ch"
    and "pending_message_request ch = None" and "children_reply_code ch = 0"
    and "envelope_targets sig ch \<noteq> []"
    and "\<forall>i \<in> set (envelope_targets sig ch).
      milter_server_context_need_reply (context_of ch i) (envelope_state sig) = Ok True"
    and "idle c" and "reply_code_number (prepared_reply c) = 0"
    and "mset (map fst answers) = mset (envelope_targets sig ch)"
    and "fold (answer_session cfg) answers (session_receive order cfg sig (l, c)) = (l', c')"
  shows "\<exists>a \<in> set answers.
     (\<forall>b \<in> set answers. status_rank (verdict_status ch b) \<le> status_rank (verdict_status ch a)) \<and>
     (\<exists>p. concat (client_written c') = concat (client_written c) @ p \<and>
       reads_as p [signal_of_reply (plain_reply (verdict_status ch a))]) \<and>
     is_replied_state (leader_state l') \<and> idle c'"
proof -
  obtain a where a: "a \<in> set answers"
    "\<forall>b \<in> set answers. status_rank (verdict_status ch b) \<le> status_rank (verdict_status ch a)"
    "\<And>call. final_calls (prepared_reply c) (verdict_status ch a) = [call] \<Longrightarrow> wf_reply_call call \<Longrightarrow>
       idle c' \<and> wire c' = wire c @ packets [call] \<and> is_replied_state (leader_state l')"
    by (rule envelope_answered [OF assms(1-11,13,14)]) blast
  let ?call = "plain_reply (verdict_status ch a)"
  from a(3) [OF plain_final_calls [OF assms(12) verdict_statuses]]
  have r: "idle c'" "wire c' = wire c @ packets [?call]" "is_replied_state (leader_state l')" by simp_all
  moreover have "reads_as (packets [?call]) [signal_of_reply ?call]"
    using packets_read [OF plain_reply_wf(2)] by simp
  ultimately show ?thesis
    using a(1,2) idle_written [OF r(1)] idle_written [OF assms(11)] by (intro bexI [of _ a]) auto
qed

subsection \<open>A sample session\<close>

definition sample_configuration :: leader_configuration where
  "sample_configuration =
     \<lparr>cfg_environment = sample_children_environment\<lparr>env_call := \<lambda>i call ch. (True, update_context i
        (\<lambda>c. c\<lparr>ctx_state := SERVER_CONTEXT_STATE_ENVELOPE_RECIPIENT\<rparr>) ch)\<rparr>,
      cfg_children = \<lambda>c. sample_children SERVER_CONTEXT_STATE_START 3,
      fallback_status = MILTER_STATUS_TEMPORARY_FAILURE,
      fallback_status_at_disconnect = MILTER_STATUS_TEMPORARY_FAILURE,
      cfg_connection_check = \<lambda>l. True\<rparr>"

definition sample_pair :: children where
  "sample_pair = sample_children SERVER_CONTEXT_STATE_ENVELOPE_FROM 2"

definition sample_leader :: leader where
  "sample_leader = milter_manager_leader_init\<lparr>leader_children := Some sample_pair\<rparr>"

lemma sample_session_facts:
  "leader_attached sample_leader" "leader_children sample_leader = Some sample_pair"
  "children_quiet (cfg_environment sample_configuration)"
  "answers_later (cfg_environment sample_configuration) (envelope_state (Sig_envelope_recipient r))"
  using sample_children_environment
  by (auto simp: sample_leader_def milter_manager_leader_init_def sample_configuration_def
      children_quiet_def answers_later_def)

lemma sample_pair_facts:
  "\<not> all_expired_as_fallback_on_negotiated sample_pair" "pending_message_request sample_pair = None"
  "children_reply_code sample_pair = 0"
  "envelope_targets (Sig_envelope_recipient r) sample_pair = [0, 1]"
  "\<forall>i \<in> set [0, 1]. milter_server_context_need_reply (context_of sample_pair i) st = Ok True"
  "is_evaluation_mode sample_pair 0 = False" "is_evaluation_mode sample_pair 1 = False"
  by (simp_all add: sample_pair_def sample_children_def sample_child_def milter_manager_children_init_def
      all_children_def context_of_def milter_server_context_is_processing_message_def is_evaluation_mode_def
      milter_server_context_need_reply_def milter_option_new_empty_def milter_server_context_init_def
      MILTER_STEP_NONE_def upt_rec numeral_2_eq_2 split: server_context_state.split)

lemma sample_targets:
  "envelope_targets (Sig_envelope_recipient r) sample_pair \<noteq> []"
  "\<forall>i \<in> set (envelope_targets (Sig_envelope_recipient r) sample_pair).
     milter_server_context_need_reply (context_of sample_pair i) (envelope_state (Sig_envelope_recipient r)) = Ok True"
  "mset (map fst [(1, v), (0, v')]) = mset (envelope_targets (Sig_envelope_recipient r) sample_pair)"
  unfolding sample_pair_facts(4) using sample_pair_facts(5) by auto

lemma sample_context:
  "client_written milter_client_context_init = []"
  "prepared_reply milter_client_context_init = no_reply" "reply_code_number no_reply = 0"
  by (simp_all add: milter_client_context_init_def no_reply_def)

theorem manager_answers_once_witness:
  "\<exists>p. concat (client_written (snd (fold (answer_session sample_configuration)
       [(1, Says_reject), (0, Says_continue)]
       (session_receive (\<lambda>m. []) sample_configuration (Sig_envelope_recipient ''<u@x>'')
         (sample_leader, milter_client_context_init))))) = p \<and> reads_as p [Sig_reject]"
proof -
  let ?sig = "Sig_envelope_recipient ''<u@x>''"
  obtain l' c' where run: "fold (answer_session sample_configuration)
      [(1, Says_reject), (0, Says_continue)]
      (session_receive (\<lambda>m. []) sample_configuration ?sig (sample_leader, milter_client_context_init)) =
      (l', c')" by fastforce
  have "verdict_status sample_pair (1, Says_reject) = MILTER_STATUS_REJECT"
    "verdict_status sample_pair (0, Says_continue) = MILTER_STATUS_CONTINUE"
    using sample_pair_facts(7) by (simp_all add: verdict_status_def)
  moreover have "envelope_signal ?sig" "reply_code_number (prepared_reply milter_client_context_init) = 0"
    by (simp_all add: envelope_signal_def sample_context)
  note manager_answers_once [OF this(1) sample_session_facts sample_pair_facts(1-3)
      sample_targets(1,2) init_idle(1) this(2) sample_targets(3) run]
  ultimately have "\<exists>p. concat (client_written c') = p \<and>
      reads_as p [signal_of_reply (plain_reply MILTER_STATUS_REJECT)]"
    by (auto simp: status_rank_def sample_context)
  with run show ?thesis by (simp add: plain_reply_def)
qed

end
