(* ===== verification/Leader_Faults.thy ===== *)
theory Leader_Faults
  imports Leader_Spec
begin

text \<open>
  Where the leader and the client context do not keep the promise of \<open>manager_answers_once\<close>:
  a reply code that outlives its command, a command that is answered twice, and a
  modification that crashes the manager when the MTA is gone.
\<close>

subsection \<open>A reply code outlives its command\<close>

lemma leader_reply_frame:
  "leader_reply (l, c) status = (l', c') \<Longrightarrow>
     leader_attached l' = leader_attached l \<and> leader_children l' = leader_children l"
  by (auto simp: leader_reply_def leader_emit_def set_leader_state_def split: option.splits)

lemma prepared_simple_response [simp]:
  assumes "idle c"
  shows "prepared_reply (simple_response replied c status) = prepared_reply c"
proof -
  let ?s = "default_status MILTER_STATUS_CONTINUE status"
  let ?d = "milter_client_context_set_state (c\<lparr>client_status := ?s\<rparr>) replied"
  have d: "client_writer ?d = Writer_open" "buffering ?d \<or> buffered_packets ?d = []"
    "prepared_reply ?d = prepared_reply c"
    using assms by (simp_all add: milter_client_context_set_state_def idle_def steady_def Let_def)
  then show ?thesis
    by (auto simp: simple_response_def client_reply_status_def Let_def client_write_packet_open
        split: prod.split option.split)
qed

lemma reply_code_sent:
  assumes "leader_state l = LEADER_STATE_ENVELOPE_RECIPIENT" and "idle c"
    and "milter_client_context_set_reply (prepared_reply c) code ec m = (True, r)"
    and "milter_client_context_format_reply r = Some line" and "wf_reply_call (Rep_reply_code line)"
  obtains l1 c1 where "setup_children_signals cfg (Children_reply_code code ec m) (l, c) = (l1, c1)"
    "idle c1" "wire c1 = wire c @ packets [Rep_reply_code line]" "prepared_reply c1 = r"
    "leader_attached l1 = leader_attached l" "leader_children l1 = leader_children l"
proof -
  let ?c = "c\<lparr>prepared_reply := r\<rparr>"
  let ?s = "if code div 100 = 4 then MILTER_STATUS_TEMPORARY_FAILURE else MILTER_STATUS_REJECT"
  let ?l = "set_leader_state LEADER_STATE_ENVELOPE_RECIPIENT_REPLIED l"
  let ?r = "simple_response CLIENT_CONTEXT_STATE_ENVELOPE_RECIPIENT_REPLIED ?c ?s"
  have run: "setup_children_signals cfg (Children_reply_code code ec m) (l, c) = (?l, ?r)"
    using assms(1,3) by (simp add: setup_children_signals_def leader_cb_reply_code_def leader_reply_def
        state_to_response_signal_name_def emit_response_def simple_responses next_state_def)
  have c: "idle ?c" "wire ?c = wire c" using assms(2) by (simp_all add: idle_def steady_def wire_def)
  have "default_status MILTER_STATUS_CONTINUE ?s = ?s" by (simp add: default_status_def)
  moreover have "final_calls r ?s = [Rep_reply_code line]"
    using assms(4) by (simp add: final_calls_def refusal_call_def)
  ultimately have "idle ?r" "wire ?r = wire c @ packets [Rep_reply_code line]"
    using simple_response_sent [OF c(1), of ?s CLIENT_CONTEXT_STATE_ENVELOPE_RECIPIENT_REPLIED] assms(5) c(2)
    by (simp_all add: machine_of_def sent_def)
  with run prepared_simple_response [OF c(1)] show ?thesis by (intro that [of ?l ?r]) (simp_all add: set_leader_state_def)
qed

text \<open>
  C40: a reply code that a milter gave for one recipient is not dropped when that recipient has been
  answered. When the next recipient is refused by a plain temporary failure, the MTA is sent the old
  code again, even when it means a permanent refusal: a mail that could have been delivered later is
  bounced.
\<close>

theorem stale_reply_code:
  assumes "envelope_signal sig" and "leader_attached l" and "leader_children l = Some ch"
    and "children_quiet (cfg_environment cfg)"
    and "answers_later (cfg_environment cfg) (envelope_state sig)"
    and "\<not> all_expired_as_fallback_on_negotiated ch"
    and "pending_message_request ch = None" and "children_reply_code ch = 0"
    and "envelope_targets sig ch \<noteq> []"
    and "\<forall>i \<in> set (envelope_targets sig ch).
      milter_server_context_need_reply (context_of ch i) (envelope_state sig) = Ok True"
    and "idle c" and "mset (map fst answers) = mset (envelope_targets sig ch)"
    and "leader_state l = LEADER_STATE_ENVELOPE_RECIPIENT"
    and "milter_client_context_set_reply (prepared_reply c) code ec m = (True, r)"
    and "milter_client_context_format_reply r = Some line" and "wf_replies [Rep_reply_code line]"
    and "\<forall>a \<in> set answers. verdict_status ch a \<in>
      {MILTER_STATUS_CONTINUE, MILTER_STATUS_ACCEPT, MILTER_STATUS_TEMPORARY_FAILURE}"
    and "\<exists>a \<in> set answers. verdict_status ch a = MILTER_STATUS_TEMPORARY_FAILURE"
    and "fold (answer_session cfg) answers (session_receive order cfg sig
      (setup_children_signals cfg (Children_reply_code code ec m) (l, c))) = (l', c')"
  shows "\<exists>p. concat (client_written c') = concat (client_written c) @ p \<and>
    reads_as p (replicate 2 (signal_of_reply (Rep_reply_code line)))"
proof -
  have wf: "wf_reply_call (Rep_reply_code line)" using assms(16) by (simp add: wf_replies_def)
  obtain l1 c1 where first: "setup_children_signals cfg (Children_reply_code code ec m) (l, c) = (l1, c1)"
    "idle c1" "wire c1 = wire c @ packets [Rep_reply_code line]" "prepared_reply c1 = r"
    "leader_attached l1 = leader_attached l" "leader_children l1 = leader_children l"
    by (rule reply_code_sent [OF assms(13,11,14,15) wf])
  from first(5,6) assms(2,3) have l1: "leader_attached l1" "leader_children l1 = Some ch" by simp_all
  note run = assms(19) [unfolded first(1)]
  obtain a where a: "a \<in> set answers"
    "\<forall>b \<in> set answers. status_rank (verdict_status ch b) \<le> status_rank (verdict_status ch a)"
    "\<And>call. final_calls (prepared_reply c1) (verdict_status ch a) = [call] \<Longrightarrow> wf_reply_call call \<Longrightarrow>
       idle c' \<and> wire c' = wire c1 @ packets [call] \<and> is_replied_state (leader_state l')"
    by (rule envelope_answered [OF assms(1) l1 assms(4-10) first(2) assms(12) run]) blast
  have "status_rank MILTER_STATUS_TEMPORARY_FAILURE \<le> status_rank (verdict_status ch a)"
    using assms(18) a(2) by force
  then have "verdict_status ch a = MILTER_STATUS_TEMPORARY_FAILURE"
    using assms(17) a(1) by (force simp: status_rank_def)
  then have "final_calls (prepared_reply c1) (verdict_status ch a) = [Rep_reply_code line]"
    using assms(15) by (simp add: first(4) final_calls_def refusal_call_def)
  with a(3) wf first(3) have "idle c'" "wire c' = wire c @ packets [Rep_reply_code line, Rep_reply_code line]"
    by simp_all
  moreover have "reads_as (packets [Rep_reply_code line, Rep_reply_code line])
      (map signal_of_reply [Rep_reply_code line, Rep_reply_code line])"
    by (rule packets_read) (use assms(16) in \<open>simp add: wf_replies_def\<close>)
  ultimately show ?thesis using idle_written [of c'] idle_written [OF assms(11)] by (auto simp: numeral_2_eq_2)
qed

lemma sample_reply_code:
  "milter_client_context_set_reply no_reply 550 (Some ''5.7.1'') (Some ''no'') =
     (True, \<lparr>reply_code_number = 550, extended_reply_code = Some ''5.7.1'', reply_message = Some ''no''\<rparr>)"
  "milter_client_context_format_reply
     \<lparr>reply_code_number = 550, extended_reply_code = Some ''5.7.1'', reply_message = Some ''no''\<rparr> =
     Some ''550 5.7.1 no''"
  using sample_reply by blast+

lemma sample_reply_line:
  "wf_replies [Rep_reply_code ''550 5.7.1 no'']"
  by (simp add: wf_replies_def wf_reply_line_def is_digit_def)

lemma sample_reply_signal:
  "signal_of_reply (Rep_reply_code ''550 5.7.1 no'') = Sig_reply_code 550 ''5.7.1'' (Some ''no'')"
  by (simp add: reply_line_signal_def Let_def digit_value_def numeral_2_eq_2)

theorem stale_reply_code_witness:
  "\<exists>p. concat (client_written (snd (fold (answer_session sample_configuration)
       [(1, Says_temporary_failure), (0, Says_continue)]
       (session_receive (\<lambda>m. []) sample_configuration (Sig_envelope_recipient ''<u@x>'')
         (setup_children_signals sample_configuration
           (Children_reply_code 550 (Some ''5.7.1'') (Some ''no''))
           (sample_leader\<lparr>leader_state := LEADER_STATE_ENVELOPE_RECIPIENT\<rparr>,
            milter_client_context_init)))))) = p \<and>
     reads_as p [Sig_reply_code 550 ''5.7.1'' (Some ''no''), Sig_reply_code 550 ''5.7.1'' (Some ''no'')]"
proof -
  let ?sig = "Sig_envelope_recipient ''<u@x>''"
  let ?l = "sample_leader\<lparr>leader_state := LEADER_STATE_ENVELOPE_RECIPIENT\<rparr>"
  let ?answers = "[(1, Says_temporary_failure), (0, Says_continue)]"
  obtain l' c' where run: "fold (answer_session sample_configuration) ?answers
      (session_receive (\<lambda>m. []) sample_configuration ?sig (setup_children_signals sample_configuration
        (Children_reply_code 550 (Some ''5.7.1'') (Some ''no'')) (?l, milter_client_context_init))) =
      (l', c')" by fastforce
  have l: "leader_attached ?l" "leader_children ?l = Some sample_pair"
    "leader_state ?l = LEADER_STATE_ENVELOPE_RECIPIENT" using sample_session_facts(1,2) by simp_all
  have v: "\<forall>a \<in> set ?answers. verdict_status sample_pair a \<in>
      {MILTER_STATUS_CONTINUE, MILTER_STATUS_ACCEPT, MILTER_STATUS_TEMPORARY_FAILURE}"
    "\<exists>a \<in> set ?answers. verdict_status sample_pair a = MILTER_STATUS_TEMPORARY_FAILURE"
    using sample_pair_facts(7) by (simp_all add: verdict_status_def)
  have "envelope_signal ?sig" by (simp add: envelope_signal_def)
  from stale_reply_code [OF this l(1,2) sample_session_facts(3,4) sample_pair_facts(1-3)
      sample_targets(1,2) init_idle(1) sample_targets(3) l(3)
      sample_reply_code(1) [folded sample_context(2)] sample_reply_code(2) sample_reply_line v run]
  have "\<exists>p. concat (client_written c') = p \<and>
      reads_as p (replicate 2 (signal_of_reply (Rep_reply_code ''550 5.7.1 no'')))"
    by (simp add: sample_context)
  with run show ?thesis unfolding sample_reply_signal by (simp add: numeral_2_eq_2)
qed

subsection \<open>Two replies to one command\<close>

text \<open>
  When no milter of the session is alive any more, the error of the children is
  answered by the leader, and the status the leader then returns is answered by the client
  context: the MTA gets two replies to its one command and takes the second one for the
  answer to its next command.
\<close>

theorem no_alive_milter_double_reply:
  assumes "leader_attached l" and "leader_children l = Some ch"
    and "children_quiet (cfg_environment cfg)"
    and "\<not> all_expired_as_fallback_on_negotiated ch"
    and "\<forall>i < length (milters ch). milter_server_context_is_quitted (context_of ch i)"
    and "idle c" and "reply_code_number (prepared_reply c) = 0"
    and "fallback_status cfg \<in> {MILTER_STATUS_CONTINUE, MILTER_STATUS_ACCEPT, MILTER_STATUS_REJECT,
      MILTER_STATUS_TEMPORARY_FAILURE, MILTER_STATUS_DISCARD}"
    and "session_receive order cfg (Sig_helo fqdn) (l, c) = (l', c')"
  shows "\<exists>p. concat (client_written c') = concat (client_written c) @ p \<and>
    reads_as p (replicate 2 (signal_of_reply (plain_reply (fallback_status cfg))))"
proof -
  let ?fb = "fallback_status cfg" and ?call = "plain_reply (fallback_status cfg)"
  let ?replied = "CLIENT_CONTEXT_STATE_HELO_REPLIED"
  let ?c = "set_macro_context MILTER_COMMAND_HELO (received CLIENT_CONTEXT_STATE_HELO c)"
  let ?e = "MILTER_MANAGER_CHILDREN_ERROR_NO_ALIVE_MILTER"
  let ?ch = "children_emit (cfg_environment cfg) (Children_error ?e) ch"
  let ?l = "set_leader_state LEADER_STATE_HELO_REPLIED
      (l\<lparr>leader_state := LEADER_STATE_HELO, leader_children := Some ?ch,
         leader_emitted := leader_emitted l @ [Leader_error (Leader_children_error ?e)]\<rparr>)"
  have "milter_manager_children_helo (cfg_environment cfg) ch fqdn = (False, ?ch)"
    using assms(4,5) by (auto simp: milter_manager_children_helo_def send_to_alive_def
        milter_manager_children_check_alive_def all_children_def)
  moreover have "children_emitted ?ch = children_emitted ch @ [Children_error ?e]"
    using assms(3) by (simp add: children_emit_def children_quiet_def)
  ultimately have asked: "milter_manager_leader_helo cfg (l, d) fqdn =
      (?fb, ?l, simple_response ?replied d ?fb)" for d
    using with_children_one [of "\<lambda>ch. milter_manager_children_helo (cfg_environment cfg) ch fqdn" ch False ?ch] assms(2)
    by (simp add: milter_manager_leader_helo_def enter_def ask_children_def set_leader_state_def
        setup_children_signals_def leader_cb_error_def leader_emit_def leader_reply_def Let_def
        state_to_response_signal_name_def emit_response_def simple_responses next_state_def)
  let ?d = "simple_response ?replied ?c ?fb"
  have "session_receive order cfg (Sig_helo fqdn) (l, c) = (?l, simple_response ?replied ?d ?fb)"
    using assms(1,8) asked
    by (auto simp: session_receive_def client_receive_def client_cb_decoder_helo_def ask_owner_def
        setup_context_signals_def cb_client_command_def status_accumulator_def default_command_def
        answer_with_def simple_responses Let_def)
  then have c': "c' = simple_response ?replied ?d ?fb" using assms(9) by simp
  have idle: "idle ?c" "wire ?c = wire c" "prepared_reply ?c = prepared_reply c"
    using assms(6) by (simp_all add: idle_same)
  have fb: "default_status MILTER_STATUS_CONTINUE ?fb = ?fb"
    using assms(8) by (auto simp: default_status_def)
  note final = plain_final_calls [OF assms(7,8)]
  have one: "idle ?d" "wire ?d = wire c @ packets [?call]" "prepared_reply ?d = prepared_reply c"
    using simple_response_sent [OF idle(1), of ?fb ?replied] final idle(2,3) fb
    by (simp_all add: machine_of_def sent_def)
  have "idle c'" "wire c' = wire c @ packets [?call, ?call]"
    using simple_response_sent [OF one(1), of ?fb ?replied] final one(2,3) fb
    by (simp_all add: machine_of_def sent_def c')
  moreover have "reads_as (packets [?call, ?call]) (map signal_of_reply [?call, ?call])"
    using plain_reply_wf(2) [of ?fb] by (intro packets_read) (simp add: wf_replies_def plain_reply_def split: milter_status.split)
  ultimately show ?thesis using idle_written [of c'] idle_written [OF assms(6)] by (auto simp: numeral_2_eq_2)
qed

theorem no_alive_milter_double_reply_witness:
  "\<exists>p. concat (client_written (snd (session_receive (\<lambda>m. []) sample_configuration (Sig_helo ''mx'')
       (milter_manager_leader_init\<lparr>leader_children :=
          Some (expire_child (sample_children SERVER_CONTEXT_STATE_CONNECT 1) 0)\<rparr>,
        milter_client_context_init)))) = p \<and>
     reads_as p [Sig_temporary_failure, Sig_temporary_failure]"
proof -
  let ?ch = "expire_child (sample_children SERVER_CONTEXT_STATE_CONNECT 1) 0"
  let ?l = "milter_manager_leader_init\<lparr>leader_children := Some ?ch\<rparr>"
  obtain l' c' where run: "session_receive (\<lambda>m. []) sample_configuration (Sig_helo ''mx'')
      (?l, milter_client_context_init) = (l', c')" by fastforce
  have l: "leader_attached ?l" "leader_children ?l = Some ?ch"
    by (simp_all add: milter_manager_leader_init_def)
  have ch: "\<not> all_expired_as_fallback_on_negotiated ?ch"
    "\<forall>i < length (milters ?ch). milter_server_context_is_quitted (context_of ?ch i)"
    by (simp_all add: expire_child_def sample_children_def sample_child_def milter_manager_children_init_def
        update_context_def context_of_def milter_server_context_is_quitted_def
        milter_server_context_set_quitted_def Let_def)
  have fb: "fallback_status sample_configuration = MILTER_STATUS_TEMPORARY_FAILURE"
    by (simp add: sample_configuration_def)
  have "\<exists>p. concat (client_written c') = p \<and>
      reads_as p (replicate 2 (signal_of_reply (plain_reply MILTER_STATUS_TEMPORARY_FAILURE)))"
    using no_alive_milter_double_reply [OF l sample_session_facts(3) ch init_idle(1) _ _ run]
    by (simp add: sample_context fb)
  with run show ?thesis by (simp add: plain_reply_def numeral_2_eq_2)
qed

subsection \<open>A modification that cannot be written\<close>

lemma closed_write_fails:
  assumes "client_writer c = Writer_closed" and "packet_buffer_size c < length (buffered_packets c @ p)"
  shows "fst (write_packet_on_end_of_message c (Some p)) = False"
  using assms by (simp add: write_packet_on_end_of_message_def client_flush_def Let_def
      write_packet_without_error_handling_def milter_agent_write_packet_def client_disable_timeout_def)

text \<open>
  A modification that the negotiated actions permit, but that can no longer be written
  because the MTA has gone away, crashes the manager when it deletes a header: the handler
  reads the message of an error that was never set. The same failure of an added header is
  ignored.
\<close>

theorem failed_modification_crashes:
  assumes "client_state c = CLIENT_CONTEXT_STATE_END_OF_MESSAGE" and "client_option c = Some opt"
    and "action opt AND MILTER_ACTION_CHANGE_HEADERS = MILTER_ACTION_CHANGE_HEADERS"
    and "action opt AND MILTER_ACTION_ADD_HEADERS = MILTER_ACTION_ADD_HEADERS"
    and "client_writer c = Writer_closed" and "packet_buffer_size c = 0"
    and "name \<noteq> []" and "\<not> leader_crashed l"
  shows "leader_crashed (fst (setup_children_signals cfg (Children_delete_header name index) (l, c))) \<and>
    \<not> leader_crashed (fst (setup_children_signals cfg (Children_add_header name (Some value)) (l, c)))"
proof (rule conjI)
  let ?e = "client_encoder c"
  obtain e' p where p: "milter_reply_encoder_encode_delete_header ?e (Some name) (of_nat index) =
      (e', Some p)" "p \<noteq> []"
    using assms(7) by (auto simp: milter_reply_encoder_encode_delete_header_def encode_reply_header_def
        Let_def milter_encoder_pack_eq frame_def)
  have "fst (write_packet_on_end_of_message (c\<lparr>client_encoder := e'\<rparr>) (Some p)) = False"
    using closed_write_fails [of "c\<lparr>client_encoder := e'\<rparr>" p] assms(5,6) p(2) by simp
  then obtain c' where "milter_client_context_delete_header c (Some name) (of_nat index) = (False, None, c')"
    using assms(1-3) p(1) by (cases "write_packet_on_end_of_message (c\<lparr>client_encoder := e'\<rparr>) (Some p)")
      (auto simp: milter_client_context_delete_header_def modify_def validate_state_def validate_action_def Let_def)
  then show "leader_crashed (fst (setup_children_signals cfg (Children_delete_header name index) (l, c)))"
    by (simp add: setup_children_signals_def leader_cb_delete_header_def unless_failed_def leader_crash_def)
  show "\<not> leader_crashed (fst (setup_children_signals cfg (Children_add_header name (Some value)) (l, c)))"
    using assms(8) by (simp add: setup_children_signals_def leader_cb_add_header_def unless_error_def
        leader_emit_def split: prod.split option.split)
qed

theorem failed_modification_crashes_witness:
  "\<exists>c. client_writer c = Writer_closed \<and>
     leader_crashed (fst (setup_children_signals sample_configuration
       (Children_delete_header ''Subject'' 1) (sample_leader, c)))"
proof -
  let ?c = "milter_client_context_init\<lparr>client_state := CLIENT_CONTEXT_STATE_END_OF_MESSAGE,
    client_option := Some \<lparr>version = 6, action = 0x1F, step = 0\<rparr>, client_writer := Writer_closed\<rparr>"
  have "leader_crashed (fst (setup_children_signals sample_configuration
      (Children_delete_header ''Subject'' 1) (sample_leader, ?c)))"
    by (rule failed_modification_crashes [where opt = "\<lparr>version = 6, action = 0x1F, step = 0\<rparr>", THEN conjunct1])
      (simp_all add: MILTER_ACTION_CHANGE_HEADERS_def MILTER_ACTION_ADD_HEADERS_def
        milter_client_context_init_def sample_leader_def milter_manager_leader_init_def)
  then show ?thesis by (intro exI [of _ ?c]) simp
qed

end
