(* ===== verification/Children_Replay.thy ===== *)
theory Children_Replay
  imports Children_Spec
begin

text \<open>
  The message phase: when a milter is done with a message, the next one gets the whole
  message again, as the milters before it have left it.
\<close>

subsection \<open>Milters that take every command\<close>

fun state_of_call :: "child_call \<Rightarrow> server_context_state" where
  "state_of_call (Call_negotiate opt) = SERVER_CONTEXT_STATE_NEGOTIATE"
| "state_of_call (Call_connect host a) = SERVER_CONTEXT_STATE_CONNECT"
| "state_of_call (Call_helo fqdn) = SERVER_CONTEXT_STATE_HELO"
| "state_of_call (Call_envelope_from sender) = SERVER_CONTEXT_STATE_ENVELOPE_FROM"
| "state_of_call (Call_envelope_recipient r) = SERVER_CONTEXT_STATE_ENVELOPE_RECIPIENT"
| "state_of_call Call_data = SERVER_CONTEXT_STATE_DATA"
| "state_of_call (Call_unknown command) = SERVER_CONTEXT_STATE_UNKNOWN"
| "state_of_call (Call_header n v) = SERVER_CONTEXT_STATE_HEADER"
| "state_of_call Call_end_of_header = SERVER_CONTEXT_STATE_END_OF_HEADER"
| "state_of_call (Call_body chunk) = SERVER_CONTEXT_STATE_BODY"
| "state_of_call (Call_end_of_message chunk) = SERVER_CONTEXT_STATE_END_OF_MESSAGE"
| "state_of_call Call_abort = SERVER_CONTEXT_STATE_ABORT"
| "state_of_call Call_quit = SERVER_CONTEXT_STATE_QUIT"

text \<open>The command is sent, the context is in its state, and the answer comes later.\<close>

definition obedient :: "children_environment \<Rightarrow> bool" where
  "obedient env \<longleftrightarrow>
     (\<forall>i c ch. env_call env i c ch =
        (True, update_context i (\<lambda>x. x\<lparr>ctx_state := state_of_call c\<rparr>) ch))"

text \<open>
  A milter \<open>j\<close> that is being served the message with the headers \<open>hs\<close> and the body \<open>b\<close>,
  after the MTA has sent all of it.
\<close>

definition no_conversion :: "children \<Rightarrow> nat \<Rightarrow> bool" where
  "no_conversion ch j \<longleftrightarrow>
     milter_server_context_is_enable_step (context_of ch j) MILTER_STEP_HEADER_VALUE_WITH_LEADING_SPACE \<or>
     (case children_option ch of None \<Rightarrow> False
      | Some opt \<Rightarrow> step opt AND MILTER_STEP_HEADER_VALUE_WITH_LEADING_SPACE = 0)"

lemma no_conversion [simp]:
  "no_conversion ch j \<Longrightarrow> need_header_value_leading_space_conversion ch j = (False, ch)"
  by (auto simp: no_conversion_def need_header_value_leading_space_conversion_def split: option.splits)

definition serving :: "nat \<Rightarrow> milter_headers \<Rightarrow> bytes \<Rightarrow> children \<Rightarrow> bool" where
  "serving j hs b ch \<longleftrightarrow>
     j < length (milters ch) \<and>
     no_conversion ch j \<and>
     (\<forall>st. milter_server_context_need_reply (context_of ch j) st = Ok True) \<and>
     \<not> skip_body (context_of ch j) \<and>
     children_headers ch = Some hs \<and> children_body ch = Some b \<and>
     command_queue ch = [MILTER_COMMAND_HEADER, MILTER_COMMAND_END_OF_HEADER, MILTER_COMMAND_BODY,
       MILTER_COMMAND_END_OF_MESSAGE] \<and>
     children_state ch = SERVER_CONTEXT_STATE_END_OF_MESSAGE \<and>
     command_waiting_child_queue ch \<noteq> [] \<and> end_of_message_chunk ch = None"

definition at :: "nat \<Rightarrow> server_context_state \<Rightarrow> children \<Rightarrow> bool" where
  "at j st ch \<longleftrightarrow> ctx_state (context_of ch j) = st"

text \<open>What a step changes, as far as the run of the message is concerned.\<close>

definition progress ::
    "nat \<Rightarrow> milter_headers \<Rightarrow> bytes \<Rightarrow> server_context_state \<Rightarrow> child_call list \<Rightarrow> children \<Rightarrow> children \<Rightarrow> bool" where
  "progress j hs b st calls ch ch' \<longleftrightarrow>
     serving j hs b ch' \<and> at j st ch' \<and>
     children_calls ch' = children_calls ch @ map (Pair j) calls \<and>
     children_emitted ch' = children_emitted ch"

lemma progress_trans:
  "progress j hs b st cs ch ch' \<Longrightarrow> progress j hs b st' cs' ch' ch'' \<Longrightarrow>
     progress j hs b st' (cs @ cs') ch ch''"
  by (simp add: progress_def)

definition header_call :: "milter_header \<Rightarrow> child_call" where
  "header_call h = Call_header (header_name h) (header_value h)"

lemma serving_update:
  assumes "serving j hs b ch"
    and "children_headers ch' = children_headers ch" and "children_body ch' = children_body ch"
    and "command_queue ch' = command_queue ch" and "children_state ch' = children_state ch"
    and "command_waiting_child_queue ch' = command_waiting_child_queue ch"
    and "end_of_message_chunk ch' = end_of_message_chunk ch"
    and "children_option ch' = children_option ch" and "length (milters ch') = length (milters ch)"
    and "ctx_option (context_of ch' j) = ctx_option (context_of ch j)"
    and "skip_body (context_of ch' j) = skip_body (context_of ch j)"
  shows "serving j hs b ch'"
proof -
  have "no_conversion ch' j = no_conversion ch j"
    using assms(8,10) by (simp add: no_conversion_def milter_server_context_is_enable_step_def)
  moreover have "milter_server_context_need_reply (context_of ch' j) st =
      milter_server_context_need_reply (context_of ch j) st" for st
    using assms(10) by (simp add: milter_server_context_need_reply_def)
  ultimately show ?thesis using assms by (simp add: serving_def)
qed

lemma call_obedient:
  assumes "obedient env"
  shows "call_child env j c ch = (True, update_context j (\<lambda>x. x\<lparr>ctx_state := state_of_call c\<rparr>)
    (ch\<lparr>children_calls := children_calls ch @ [(j, c)]\<rparr>))"
  using assms by (simp add: obedient_def call_child_def)

lemma update_context_fields [simp]:
  "children_headers (update_context i f ch) = children_headers ch"
  "children_body (update_context i f ch) = children_body ch"
  "command_queue (update_context i f ch) = command_queue ch"
  "children_state (update_context i f ch) = children_state ch"
  "command_waiting_child_queue (update_context i f ch) = command_waiting_child_queue ch"
  "end_of_message_chunk (update_context i f ch) = end_of_message_chunk ch"
  "children_option (update_context i f ch) = children_option ch"
  "length (milters (update_context i f ch)) = length (milters ch)"
  "children_calls (update_context i f ch) = children_calls ch"
  "children_emitted (update_context i f ch) = children_emitted ch"
  "processing_header_index (update_context i f ch) = processing_header_index ch"
  "sending_body (update_context i f ch) = sending_body ch"
  "sent_body_offset (update_context i f ch) = sent_body_offset ch"
  "processing_state (update_context i f ch) = processing_state ch"
  by (simp_all add: update_context_def)

text \<open>A call to the milter that is being served, after some bookkeeping.\<close>

lemma progress_call:
  assumes "serving j hs b ch"
    and "children_headers ch1 = children_headers ch" and "children_body ch1 = children_body ch"
    and "command_queue ch1 = command_queue ch" and "children_state ch1 = children_state ch"
    and "command_waiting_child_queue ch1 = command_waiting_child_queue ch"
    and "end_of_message_chunk ch1 = end_of_message_chunk ch"
    and "children_option ch1 = children_option ch" and "milters ch1 = milters ch"
    and "children_calls ch1 = children_calls ch" and "children_emitted ch1 = children_emitted ch"
  shows "progress j hs b (state_of_call c) [c] ch
    (update_context j (\<lambda>x. x\<lparr>ctx_state := state_of_call c\<rparr>)
      (ch1\<lparr>children_calls := children_calls ch1 @ [(j, c)]\<rparr>))"
proof -
  have len: "j < length (milters ch)" using assms(1) by (simp add: serving_def)
  let ?ch' = "update_context j (\<lambda>x. x\<lparr>ctx_state := state_of_call c\<rparr>)
      (ch1\<lparr>children_calls := children_calls ch1 @ [(j, c)]\<rparr>)"
  have ctx: "context_of (update_context j (\<lambda>x. x\<lparr>ctx_state := state_of_call c\<rparr>)
      (ch1\<lparr>children_calls := cs\<rparr>)) j = (context_of ch j)\<lparr>ctx_state := state_of_call c\<rparr>" for cs
    using len assms(9) by (simp add: context_of_update_context) (simp add: context_of_def)
  have "serving j hs b ?ch'"
    by (rule serving_update [OF assms(1)]) (simp_all add: assms ctx)
  then show ?thesis using assms by (simp add: progress_def at_def ctx)
qed

lemma compile_more [simp]:
  "children_headers (compile_reply_status ch st s) = children_headers ch"
  "children_body (compile_reply_status ch st s) = children_body ch"
  "command_queue (compile_reply_status ch st s) = command_queue ch"
  "children_state (compile_reply_status ch st s) = children_state ch"
  "command_waiting_child_queue (compile_reply_status ch st s) = command_waiting_child_queue ch"
  "end_of_message_chunk (compile_reply_status ch st s) = end_of_message_chunk ch"
  "children_option (compile_reply_status ch st s) = children_option ch"
  "children_calls (compile_reply_status ch st s) = children_calls ch"
  "processing_header_index (compile_reply_status ch st s) = processing_header_index ch"
  "sending_body (compile_reply_status ch st s) = sending_body ch"
  "sent_body_offset (compile_reply_status ch st s) = sent_body_offset ch"
  "context_of (compile_reply_status ch st s) j = context_of ch j"
  by (simp_all add: compile_reply_status_def context_of_def)

text \<open>Children whose answers are all awaited get no pretended \<open>continue\<close>.\<close>

lemma pretend_continue_needed:
  assumes "\<forall>st. milter_server_context_need_reply (context_of ch j) st = Ok True"
  shows "pretend_continue env ch j = ch"
  using assms by (simp add: pretend_continue_def child_need_reply_def)

lemma serving_compile:
  "serving j hs b ch \<Longrightarrow> serving j hs b (compile_reply_status ch st s)"
  by (rule serving_update) simp_all

lemma progress_serving: "progress j hs b st cs ch ch' \<Longrightarrow> serving j hs b ch'"
  by (simp add: progress_def)

lemma progress_from_compiled:
  "progress j hs b st cs (compile_reply_status ch st' s) ch' \<Longrightarrow> progress j hs b st cs ch ch'"
  by (simp add: progress_def)

lemma no_conversion_update:
  "no_conversion (ch\<lparr>processing_state := st, processing_header_index := n\<rparr>) j = no_conversion ch j"
  by (simp add: no_conversion_def context_of_def)

subsection \<open>Headers\<close>

lemma send_next_header:
  assumes "obedient env" and "serving j hs b ch" and "processing_header_index ch < length hs"
  shows "\<exists>ch'. send_next_header_to_child env ch j = (MILTER_STATUS_PROGRESS, ch') \<and>
     progress j hs b SERVER_CONTEXT_STATE_HEADER [header_call (hs ! processing_header_index ch)] ch ch' \<and>
     processing_header_index ch' = processing_header_index ch + 1"
proof -
  let ?k = "processing_header_index ch"
  let ?h = "hs ! ?k"
  let ?c = "header_call ?h"
  let ?ch1 = "ch\<lparr>processing_state := SERVER_CONTEXT_STATE_HEADER, processing_header_index := ?k + 1\<rparr>"
  let ?ch' = "update_context j (\<lambda>x. x\<lparr>ctx_state := state_of_call ?c\<rparr>)
      (?ch1\<lparr>children_calls := children_calls ?ch1 @ [(j, ?c)]\<rparr>)"
  have hs: "children_headers ch = Some hs" "no_conversion ch j" using assms(2) by (simp_all add: serving_def)
  have nth: "milter_headers_get_nth_header hs (?k + 1) = Some ?h"
    using assms(3) by (simp add: milter_headers_get_nth_header_def)
  have p: "progress j hs b (state_of_call ?c) [?c] ch ?ch'"
    by (rule progress_call [OF assms(2)]) simp_all
  then have "\<forall>st. milter_server_context_need_reply (context_of ?ch' j) st = Ok True"
    by (simp add: progress_def serving_def)
  from pretend_continue_needed [OF this, of env] hs nth
  have "send_next_header_to_child env ch j = (MILTER_STATUS_PROGRESS, ?ch')"
    by (simp add: send_next_header_to_child_def no_conversion_update call_obedient [OF assms(1)]
        header_call_def Let_def option.map_ident)
  moreover have "state_of_call ?c = SERVER_CONTEXT_STATE_HEADER" by (simp add: header_call_def)
  ultimately show ?thesis using p by (intro exI [of _ ?ch']) simp
qed

lemma continue_header:
  assumes "obedient env" and "serving j hs b ch" and "at j SERVER_CONTEXT_STATE_HEADER ch"
    and "processing_header_index ch < length hs"
  shows "progress j hs b SERVER_CONTEXT_STATE_HEADER [header_call (hs ! processing_header_index ch)] ch
      (cb_continue env ch j)"
    and "processing_header_index (cb_continue env ch j) = processing_header_index ch + 1"
proof -
  let ?c = "compile_reply_status ch SERVER_CONTEXT_STATE_HEADER MILTER_STATUS_CONTINUE"
  from send_next_header [OF assms(1) serving_compile [OF assms(2)], of SERVER_CONTEXT_STATE_HEADER
      MILTER_STATUS_CONTINUE] assms(4) obtain ch'
    where s: "send_next_header_to_child env ?c j = (MILTER_STATUS_PROGRESS, ch')"
      "progress j hs b SERVER_CONTEXT_STATE_HEADER [header_call (hs ! processing_header_index ch)] ?c ch'"
      "processing_header_index ch' = processing_header_index ch + 1" by auto
  have "cb_continue env ch j = ch'"
    using assms(2-4) s(1) by (simp add: cb_continue_def serving_def at_def Let_def
        less_server_context_state_def milter_headers_length_def handle_status_def)
  with s progress_from_compiled show "progress j hs b SERVER_CONTEXT_STATE_HEADER
      [header_call (hs ! processing_header_index ch)] ch (cb_continue env ch j)"
    "processing_header_index (cb_continue env ch j) = processing_header_index ch + 1" by blast+
qed

subsection \<open>The end of the headers\<close>

lemma next_command_serving:
  assumes "serving j hs b ch"
  shows "get_next_command ch SERVER_CONTEXT_STATE_HEADER = Some MILTER_COMMAND_END_OF_HEADER"
    "get_next_command ch SERVER_CONTEXT_STATE_END_OF_HEADER = Some MILTER_COMMAND_BODY"
    "get_next_command ch SERVER_CONTEXT_STATE_BODY = Some MILTER_COMMAND_END_OF_MESSAGE"
  using assms by (simp_all add: serving_def get_next_command_def state_to_command_def
      fetch_first_command_for_child_in_queue_def)

lemma continue_end_of_header:
  assumes "obedient env" and "serving j hs b ch" and "at j SERVER_CONTEXT_STATE_HEADER ch"
    and "processing_header_index ch = length hs"
  shows "progress j hs b SERVER_CONTEXT_STATE_END_OF_HEADER [Call_end_of_header] ch (cb_continue env ch j)"
proof -
  let ?c = "compile_reply_status ch SERVER_CONTEXT_STATE_HEADER MILTER_STATUS_CONTINUE"
  let ?ch1 = "?c\<lparr>processing_state := SERVER_CONTEXT_STATE_END_OF_HEADER\<rparr>"
  let ?ch' = "update_context j (\<lambda>x. x\<lparr>ctx_state := state_of_call Call_end_of_header\<rparr>)
      (?ch1\<lparr>children_calls := children_calls ?ch1 @ [(j, Call_end_of_header)]\<rparr>)"
  have p: "progress j hs b (state_of_call Call_end_of_header) [Call_end_of_header] ch ?ch'"
    by (rule progress_call [OF assms(2)]) simp_all
  then have "\<forall>st. milter_server_context_need_reply (context_of ?ch' j) st = Ok True"
    by (simp add: progress_def serving_def)
  from pretend_continue_needed [OF this, of env]
  have "send_command_to_child env ?c j MILTER_COMMAND_END_OF_HEADER = (MILTER_STATUS_PROGRESS, ?ch')"
    by (simp add: send_command_to_child_def call_obedient [OF assms(1)] Let_def)
  moreover have "get_next_command ?c SERVER_CONTEXT_STATE_HEADER = Some MILTER_COMMAND_END_OF_HEADER"
    by (rule next_command_serving(1) [OF serving_compile [OF assms(2)]])
  ultimately have "send_next_command env ?c j SERVER_CONTEXT_STATE_HEADER = (MILTER_STATUS_PROGRESS, ?ch')"
    by (simp add: send_next_command_def)
  then have "cb_continue env ch j = ?ch'"
    using assms(2-4) by (simp add: cb_continue_def serving_def at_def Let_def
        less_server_context_state_def milter_headers_length_def handle_status_def)
  then show ?thesis using p by simp
qed

subsection \<open>The body\<close>

lemma init_waiting_serving:
  assumes "serving j hs b ch"
  shows "init_command_waiting_child_queue env ch MILTER_COMMAND_BODY = ch"
  using assms by (simp add: serving_def init_command_waiting_child_queue_def)

lemma sending_chunk:
  assumes "obedient env" and "serving j hs b ch" and "sent_body_offset ch < length b"
    and "sending_body ch"
  defines "w \<equiv> min (length b - sent_body_offset ch) (env_chunk_size env)"
  defines "chunk \<equiv> take w (drop (sent_body_offset ch) b)"
  shows "\<exists>ch'. send_body_to_child env ch j = (MILTER_STATUS_PROGRESS, ch') \<and>
    progress j hs b SERVER_CONTEXT_STATE_BODY [Call_body chunk] ch ch' \<and>
    sent_body_offset ch' = sent_body_offset ch + w \<and> sending_body ch'"
proof -
  let ?ch1 = "ch\<lparr>processing_state := SERVER_CONTEXT_STATE_BODY\<rparr>"
  let ?ch2 = "update_context j (\<lambda>x. x\<lparr>ctx_state := state_of_call (Call_body chunk)\<rparr>)
      (?ch1\<lparr>children_calls := children_calls ?ch1 @ [(j, Call_body chunk)]\<rparr>)"
  let ?ch' = "?ch2\<lparr>sent_body_offset := sent_body_offset ch + w\<rparr>"
  have p2: "progress j hs b (state_of_call (Call_body chunk)) [Call_body chunk] ch ?ch2"
    by (rule progress_call [OF assms(2)]) simp_all
  have "serving j hs b ?ch'"
    by (rule serving_update [OF progress_serving [OF p2]]) (simp_all add: context_of_def)
  then have sv: "serving j hs b ?ch'" .
  from p2 have p: "progress j hs b SERVER_CONTEXT_STATE_BODY [Call_body chunk] ch ?ch'"
    using sv by (simp add: progress_def at_def context_of_def)
  have "\<forall>st. milter_server_context_need_reply (context_of ?ch' j) st = Ok True"
    using sv by (simp add: serving_def)
  note pc = pretend_continue_needed [OF this, of env]
  have b: "children_body ch = Some b" "\<not> skip_body (context_of ?ch1 j)"
    using assms(2) by (simp_all add: serving_def context_of_def)
  have "send_body_to_child_string env ?ch1 j b = (MILTER_STATUS_PROGRESS, ?ch')"
    using assms(3) init_waiting_serving [OF sv, of env]
    by (simp add: send_body_to_child_string_def call_obedient [OF assms(1)] Let_def w_def chunk_def)
  with b pc have "send_body_to_child env ch j = (MILTER_STATUS_PROGRESS, ?ch')"
    by (simp add: send_body_to_child_def Let_def)
  with p assms(4) show ?thesis by (intro exI [of _ ?ch']) simp
qed

lemma continue_body_start:
  assumes "obedient env" and "serving j hs b ch" and "at j SERVER_CONTEXT_STATE_END_OF_HEADER ch"
    and "b \<noteq> []"
  defines "w \<equiv> min (length b) (env_chunk_size env)"
  shows "progress j hs b SERVER_CONTEXT_STATE_BODY [Call_body (take w b)] ch (cb_continue env ch j) \<and>
    sent_body_offset (cb_continue env ch j) = w \<and> sending_body (cb_continue env ch j)"
proof -
  let ?c = "compile_reply_status ch SERVER_CONTEXT_STATE_END_OF_HEADER MILTER_STATUS_CONTINUE"
  let ?i = "?c\<lparr>processing_state := SERVER_CONTEXT_STATE_BODY, replaced_body_for_each_child := False,
      sending_body := True, sent_body_offset := 0\<rparr>"
  have sv: "serving j hs b ?i"
    by (rule serving_update [OF serving_compile [OF assms(2)]]) (simp_all add: context_of_def)
  have "children_body ch = Some b" using assms(2) by (simp add: serving_def)
  then have "init_child_for_body env ?c j = (MILTER_STATUS_NOT_CHANGE, ?i)"
    by (simp add: init_child_for_body_def init_child_for_body_string_def Let_def)
  moreover from sending_chunk [OF assms(1) sv] assms(4) obtain ch' where
    s: "send_body_to_child env ?i j = (MILTER_STATUS_PROGRESS, ch')"
      "progress j hs b SERVER_CONTEXT_STATE_BODY [Call_body (take w b)] ?i ch'"
      "sent_body_offset ch' = w" "sending_body ch'" by (auto simp: w_def)
  moreover have "get_next_command ?c SERVER_CONTEXT_STATE_END_OF_HEADER = Some MILTER_COMMAND_BODY"
    by (rule next_command_serving(2) [OF serving_compile [OF assms(2)]])
  ultimately have "send_next_command env ?c j SERVER_CONTEXT_STATE_END_OF_HEADER =
      (MILTER_STATUS_PROGRESS, ch')"
    by (simp add: send_next_command_def send_command_to_child_def)
  then have "cb_continue env ch j = ch'"
    using assms(3) by (simp add: cb_continue_def at_def Let_def handle_status_def)
  with s show ?thesis by (simp add: progress_def)
qed

lemma continue_body:
  assumes "obedient env" and "serving j hs b ch" and "at j SERVER_CONTEXT_STATE_BODY ch"
    and "sending_body ch" and "sent_body_offset ch < length b"
  defines "w \<equiv> min (length b - sent_body_offset ch) (env_chunk_size env)"
  shows "progress j hs b SERVER_CONTEXT_STATE_BODY [Call_body (take w (drop (sent_body_offset ch) b))] ch
      (cb_continue env ch j) \<and>
    sent_body_offset (cb_continue env ch j) = sent_body_offset ch + w \<and>
    sending_body (cb_continue env ch j)"
proof -
  let ?c = "compile_reply_status ch SERVER_CONTEXT_STATE_BODY MILTER_STATUS_CONTINUE"
  from sending_chunk [OF assms(1) serving_compile [OF assms(2)], of SERVER_CONTEXT_STATE_BODY
      MILTER_STATUS_CONTINUE] assms(4,5) obtain ch' where
    s: "send_body_to_child env ?c j = (MILTER_STATUS_PROGRESS, ch')"
      "progress j hs b SERVER_CONTEXT_STATE_BODY [Call_body (take w (drop (sent_body_offset ch) b))] ?c ch'"
      "sent_body_offset ch' = sent_body_offset ch + w" "sending_body ch'" by (auto simp: w_def)
  have "cb_continue env ch j = ch'"
    using assms(2-4) s(1) by (simp add: cb_continue_def at_def serving_def Let_def handle_status_def
        less_server_context_state_def)
  with s show ?thesis by (simp add: progress_def)
qed

lemma continue_end_of_message:
  assumes "obedient env" and "serving j hs b ch" and "at j SERVER_CONTEXT_STATE_BODY ch"
    and "sending_body ch" and "length b \<le> sent_body_offset ch"
  shows "progress j hs b SERVER_CONTEXT_STATE_END_OF_MESSAGE [Call_end_of_message None] ch
      (cb_continue env ch j)"
proof -
  let ?c = "compile_reply_status ch SERVER_CONTEXT_STATE_BODY MILTER_STATUS_CONTINUE"
  let ?d = "?c\<lparr>processing_state := SERVER_CONTEXT_STATE_BODY, sending_body := False\<rparr>"
  let ?e = "?d\<lparr>processing_header_index := 0, processing_state := SERVER_CONTEXT_STATE_END_OF_MESSAGE\<rparr>"
  let ?ch' = "update_context j (\<lambda>x. x\<lparr>ctx_state := state_of_call (Call_end_of_message None)\<rparr>)
      (?e\<lparr>children_calls := children_calls ?e @ [(j, Call_end_of_message None)]\<rparr>)"
  have p: "progress j hs b (state_of_call (Call_end_of_message None)) [Call_end_of_message None] ch ?ch'"
    by (rule progress_call [OF assms(2)]) simp_all
  have b: "children_body ch = Some b" "end_of_message_chunk ch = None"
    "children_state ch = SERVER_CONTEXT_STATE_END_OF_MESSAGE"
    "\<not> skip_body (context_of (?c\<lparr>processing_state := SERVER_CONTEXT_STATE_BODY\<rparr>) j)"
    using assms(2) by (simp_all add: serving_def) (simp add: context_of_def compile_reply_status_def)
  then have 1: "send_body_to_child env ?c j = (MILTER_STATUS_NOT_CHANGE, ?d)"
    using assms(5) by (simp add: send_body_to_child_def send_body_to_child_string_def Let_def)
  have "serving j hs b ?d"
    by (rule serving_update [OF serving_compile [OF assms(2)]]) (simp_all add: context_of_def)
  from next_command_serving(3) [OF this] b(2)
  have 2: "send_next_command env ?d j SERVER_CONTEXT_STATE_BODY = (MILTER_STATUS_PROGRESS, ?ch')"
    by (simp add: send_next_command_def send_command_to_child_def call_obedient [OF assms(1)]
        end_of_message_argument_def Let_def)
  have "cb_continue env ch j = ?ch'"
    using assms(3,4) b(3) by (simp add: cb_continue_def at_def Let_def 1 2 handle_status_def
        less_server_context_state_def)
  then show ?thesis using p by simp
qed

subsection \<open>The whole message\<close>

definition continue_times :: "children_environment \<Rightarrow> nat \<Rightarrow> nat \<Rightarrow> children \<Rightarrow> children" where
  "continue_times env j n ch = ((\<lambda>ch. cb_continue env ch j) ^^ n) ch"

lemma continue_times_simps [simp]:
  "continue_times env j 0 ch = ch"
  "continue_times env j (Suc n) ch = continue_times env j n (cb_continue env ch j)"
  by (simp_all add: continue_times_def funpow_Suc_right del: funpow.simps)

lemma continue_times_add:
  "continue_times env j (m + n) ch = continue_times env j n (continue_times env j m ch)"
  by (induction m arbitrary: ch) simp_all

lemma progress_nil: "serving j hs b ch \<Longrightarrow> at j st ch \<Longrightarrow> progress j hs b st [] ch ch"
  by (simp add: progress_def)

lemma progress_at: "progress j hs b st cs ch ch' \<Longrightarrow> at j st ch'"
  by (simp add: progress_def)

lemma headers_run:
  assumes "obedient env" and "serving j hs b ch" and "at j SERVER_CONTEXT_STATE_HEADER ch"
    and "processing_header_index ch + m = length hs"
  shows "progress j hs b SERVER_CONTEXT_STATE_HEADER
      (map header_call (drop (processing_header_index ch) hs)) ch (continue_times env j m ch) \<and>
    processing_header_index (continue_times env j m ch) = length hs"
  using assms(2-4)
proof (induction m arbitrary: ch)
  case 0
  then show ?case by (simp add: progress_nil)
next
  case (Suc m)
  let ?k = "processing_header_index ch"
  note one = continue_header [OF assms(1) Suc.prems(1,2)]
  have k: "?k < length hs" using Suc.prems(3) by simp
  note rest = Suc.IH [OF progress_serving [OF one(1) [OF k]] progress_at [OF one(1) [OF k]]]
  have "drop ?k hs = hs ! ?k # drop (Suc ?k) hs" using k by (rule Cons_nth_drop_Suc [symmetric])
  with rest one(2) [OF k] Suc.prems(3) progress_trans [OF one(1) [OF k]] show ?case by force
qed

lemma body_run:
  assumes "obedient env" and "serving j hs b ch" and "at j SERVER_CONTEXT_STATE_BODY ch"
    and "sending_body ch" and "body_chunks (env_chunk_size env) b (sent_body_offset ch) = Some cs"
  shows "progress j hs b SERVER_CONTEXT_STATE_BODY (map Call_body cs) ch
      (continue_times env j (length cs) ch) \<and>
    length b \<le> sent_body_offset (continue_times env j (length cs) ch) \<and>
    sending_body (continue_times env j (length cs) ch)"
  using assms(2-5)
proof (induction cs arbitrary: ch)
  case Nil
  have "length b \<le> sent_body_offset ch"
  proof (rule ccontr)
    assume "\<not> length b \<le> sent_body_offset ch"
    with Nil.prems(4) show False
      by (subst (asm) body_chunks.simps) (auto simp: Let_def Option.bind_eq_Some_conv)
  qed
  with Nil show ?case by (simp add: progress_nil)
next
  case (Cons c cs)
  have lt: "sent_body_offset ch < length b"
    using Cons.prems(4) by (subst (asm) body_chunks.simps) (simp split: if_splits)
  let ?w = "min (length b - sent_body_offset ch) (env_chunk_size env)"
  have c: "c = take ?w (drop (sent_body_offset ch) b)"
    "body_chunks (env_chunk_size env) b (sent_body_offset ch + ?w) = Some cs"
    using Cons.prems(4) lt by (subst (asm) body_chunks.simps; auto simp: Let_def Option.bind_eq_Some_conv)+
  note one = continue_body [OF assms(1) Cons.prems(1-3) lt, folded c(1)]
  with Cons.IH [of "cb_continue env ch j"] c(2) progress_serving progress_at
  have rest: "progress j hs b SERVER_CONTEXT_STATE_BODY (map Call_body cs) (cb_continue env ch j)
      (continue_times env j (length cs) (cb_continue env ch j))"
    "length b \<le> sent_body_offset (continue_times env j (length cs) (cb_continue env ch j))"
    "sending_body (continue_times env j (length cs) (cb_continue env ch j))" by metis+
  from one have "progress j hs b SERVER_CONTEXT_STATE_BODY [Call_body c] ch (cb_continue env ch j)" by simp
  from progress_trans [OF this rest(1)] rest(2,3) show ?case by simp
qed

text \<open>The first command to the next child: its first header.\<close>

lemma first_command:
  assumes "obedient env" and "serving j hs b ch" and "hs \<noteq> []"
    and "command_waiting_child_queue ch = i # j # rest"
  defines "ch' \<equiv> snd (send_first_command_to_next_child env ch i)"
  shows "progress j hs b SERVER_CONTEXT_STATE_HEADER [header_call (hd hs)] ch ch' \<and>
    processing_header_index ch' = 1"
proof -
  let ?d = "ch\<lparr>processing_header_index := 0, command_waiting_child_queue := j # rest\<rparr>"
  have sv: "serving j hs b ?d"
    using assms(2) by (simp add: serving_def context_of_def no_conversion_def)
  from send_next_header [OF assms(1) sv] assms(3) obtain e where
    e: "send_next_header_to_child env ?d j = (MILTER_STATUS_PROGRESS, e)"
      "progress j hs b SERVER_CONTEXT_STATE_HEADER [header_call (hs ! 0)] ?d e"
      "processing_header_index e = 1" by auto
  have "command_queue ch = [MILTER_COMMAND_HEADER, MILTER_COMMAND_END_OF_HEADER, MILTER_COMMAND_BODY,
       MILTER_COMMAND_END_OF_MESSAGE]" using assms(2) by (simp add: serving_def)
  then have "ch' = e"
    using e(1) assms(4) by (simp add: ch'_def send_first_command_to_next_child_def Let_def
        get_first_child_in_command_waiting_child_queue_def
        fetch_first_command_for_child_in_queue_def send_command_to_child_def)
  with e assms(3) show ?thesis by (simp add: progress_def hd_conv_nth)
qed

lemma headers_replayed:
  assumes "obedient env" and "serving j hs b ch" and "hs \<noteq> []"
    and "command_waiting_child_queue ch = i # j # rest"
  shows "progress j hs b SERVER_CONTEXT_STATE_END_OF_HEADER (map header_call hs @ [Call_end_of_header])
      ch (continue_times env j (length hs) (snd (send_first_command_to_next_child env ch i)))"
proof -
  let ?a = "snd (send_first_command_to_next_child env ch i)"
  note first = first_command [OF assms]
  obtain n where n: "length hs = Suc n" using assms(3) by (cases hs) auto
  from headers_run [OF assms(1) progress_serving progress_at, OF conjunct1 [OF first] conjunct1 [OF first], of n]
  have run: "progress j hs b SERVER_CONTEXT_STATE_HEADER (map header_call (drop 1 hs)) ?a
      (continue_times env j n ?a)" "processing_header_index (continue_times env j n ?a) = length hs"
    using first n by simp_all
  from continue_end_of_header [OF assms(1) progress_serving [OF run(1)] progress_at [OF run(1)] run(2)]
  have eoh: "progress j hs b SERVER_CONTEXT_STATE_END_OF_HEADER [Call_end_of_header]
      (continue_times env j n ?a) (continue_times env j (length hs) ?a)"
    using continue_times_add [of env j n 1 ?a] n by simp
  have "([header_call (hd hs)] @ map header_call (drop 1 hs)) @ [Call_end_of_header] =
      map header_call hs @ [Call_end_of_header]"
    using assms(3) by (cases hs) simp_all
  with progress_trans [OF progress_trans [OF conjunct1 [OF first] run(1)] eoh] show ?thesis
    by (simp only:)
qed

text \<open>Two milters that take every command; the first is done with the message.\<close>

definition obedient_environment :: children_environment where
  "obedient_environment = sample_children_environment
     \<lparr>env_call := \<lambda>i c ch. (True, update_context i (\<lambda>x. x\<lparr>ctx_state := state_of_call c\<rparr>) ch)\<rparr>"

definition two_milters :: "milter_headers \<Rightarrow> bytes \<Rightarrow> children" where
  "two_milters hs b =
     sample_children SERVER_CONTEXT_STATE_END_OF_MESSAGE 2
       \<lparr>children_headers := Some hs, children_body := Some b,
        command_queue := [MILTER_COMMAND_HEADER, MILTER_COMMAND_END_OF_HEADER, MILTER_COMMAND_BODY,
          MILTER_COMMAND_END_OF_MESSAGE],
        children_state := SERVER_CONTEXT_STATE_END_OF_MESSAGE, command_waiting_child_queue := [0, 1]\<rparr>"

lemma obedient_environment [simp]:
  "obedient obedient_environment" "children_quiet obedient_environment"
  "env_chunk_size obedient_environment = 3"
  by (simp_all add: obedient_environment_def obedient_def children_quiet_def
      sample_children_environment_def)

lemma no_option_needs_reply:
  "ctx_option c = Some milter_option_new_empty \<Longrightarrow> milter_server_context_need_reply c st = Ok True"
  by (cases st) (simp_all add: milter_server_context_need_reply_def milter_option_new_empty_def
      MILTER_STEP_NONE_def)

lemma two_milters [simp]:
  "serving (Suc 0) hs b (two_milters hs b)" "command_waiting_child_queue (two_milters hs b) = [0, 1]"
  "children_calls (two_milters hs b) = []" "children_emitted (two_milters hs b) = []"
  by (simp_all add: serving_def two_milters_def sample_children_def sample_child_def
      milter_manager_children_init_def context_of_def no_conversion_def no_option_needs_reply
      numeral_2_eq_2)
    (simp_all add: milter_option_new_empty_def MILTER_STEP_NONE_def milter_server_context_init_def)

text \<open>
  C9: the MTA has sent a whole message with at least one header and a body that is not empty now, which
  is kept in memory, and no chunk came with its end. A milter is done with the message and the next one
  is served: it takes every command, answers each of them with continue (none of them without reply, and
  it does not skip the body), and its header values need no conversion of leading spaces. Then that
  milter is sent the headers as they are by then, one by one, the end of the headers, the body as it is
  by then in non-empty chunks of at most the configured size (which is positive), and the end of the
  message, each when it has answered the one before, and the MTA hears nothing of it. (For an empty body
  see \<open>empty_body_bypasses_milters\<close>.)
\<close>

theorem message_replayed:
  assumes "obedient env" and "0 < env_chunk_size env" and "serving j hs b ch"
    and "hs \<noteq> []" and "b \<noteq> []" and "command_waiting_child_queue ch = i # j # rest"
  shows "\<exists>cs ch'. ch' = continue_times env j (length hs + length cs + 1)
       (snd (send_first_command_to_next_child env ch i)) \<and>
     concat cs = b \<and> (\<forall>c \<in> set cs. 0 < length c \<and> length c \<le> env_chunk_size env) \<and>
     children_calls ch' = children_calls ch @ map (Pair j)
       (map header_call hs @ [Call_end_of_header] @ map Call_body cs @ [Call_end_of_message None]) \<and>
     children_emitted ch' = children_emitted ch"
proof -
  let ?a = "continue_times env j (length hs) (snd (send_first_command_to_next_child env ch i))"
  note h = headers_replayed [OF assms(1,3,4,6)]
  obtain cs where cs: "body_chunks (env_chunk_size env) b 0 = Some cs" "concat cs = b"
    "\<forall>c \<in> set cs. 0 < length c \<and> length c \<le> env_chunk_size env"
    using body_chunks_Some [OF assms(2), of b 0] by auto
  let ?w = "min (length b) (env_chunk_size env)"
  obtain c ds where ds: "cs = c # ds" using cs(2) assms(5) by (cases cs) auto
  have c: "c = take ?w b" "body_chunks (env_chunk_size env) b ?w = Some ds"
    using cs(1) assms(5) by (subst (asm) body_chunks.simps; auto simp: Let_def Option.bind_eq_Some_conv ds)+
  let ?b = "cb_continue env ?a j"
  from continue_body_start [OF assms(1) progress_serving [OF h] progress_at [OF h] assms(5)] c(1)
  have start: "progress j hs b SERVER_CONTEXT_STATE_BODY [Call_body c] ?a ?b"
    "sent_body_offset ?b = ?w" "sending_body ?b" by simp_all
  let ?c = "continue_times env j (length ds) ?b"
  from body_run [OF assms(1) progress_serving [OF start(1)] progress_at [OF start(1)] start(3)] c(2) start(2)
  have run: "progress j hs b SERVER_CONTEXT_STATE_BODY (map Call_body ds) ?b ?c"
    "length b \<le> sent_body_offset ?c" "sending_body ?c" by simp_all
  let ?d = "cb_continue env ?c j"
  from continue_end_of_message [OF assms(1) progress_serving [OF run(1)] progress_at [OF run(1)] run(3,2)]
  have eom: "progress j hs b SERVER_CONTEXT_STATE_END_OF_MESSAGE [Call_end_of_message None] ?c ?d" .
  have "continue_times env j (length hs + length cs + 1) (snd (send_first_command_to_next_child env ch i)) =
      continue_times env j (Suc (length ds + 1)) ?a"
    using continue_times_add [of env j "length hs" "length cs + 1"] by (simp add: ds)
  also have "\<dots> = ?d"
    using continue_times_add [of env j "length ds" 1 ?b] by simp
  finally have d: "?d = continue_times env j (length hs + length cs + 1)
      (snd (send_first_command_to_next_child env ch i))" ..
  from progress_trans [OF progress_trans [OF progress_trans [OF h start(1)] run(1)] eom]
  have "progress j hs b SERVER_CONTEXT_STATE_END_OF_MESSAGE (map header_call hs @ [Call_end_of_header] @
      map Call_body cs @ [Call_end_of_message None]) ch ?d" by (simp add: ds)
  with d cs(2,3) show ?thesis by (intro exI [of _ cs] exI [of _ ?d]) (simp add: progress_def)
qed

theorem message_replayed_witness:
  "\<exists>cs. concat cs = ''abcdefg'' \<and> (\<forall>c \<in> set cs. 0 < length c \<and> length c \<le> 3) \<and>
     children_calls (continue_times obedient_environment 1 (2 + length cs + 1)
       (snd (send_first_command_to_next_child obedient_environment
         (two_milters [\<lparr>header_name = ''Subject'', header_value = Some ''x''\<rparr>,
           \<lparr>header_name = ''To'', header_value = Some ''y''\<rparr>] ''abcdefg'') 0))) =
     [(1, Call_header ''Subject'' (Some ''x'')), (1, Call_header ''To'' (Some ''y'')),
      (1, Call_end_of_header)] @ map (\<lambda>c. (1, Call_body c)) cs @ [(1, Call_end_of_message None)]"
proof -
  let ?hs = "[\<lparr>header_name = ''Subject'', header_value = Some ''x''\<rparr>,
           \<lparr>header_name = ''To'', header_value = Some ''y''\<rparr>]"
  from message_replayed [of obedient_environment 1 ?hs "''abcdefg''" "two_milters ?hs ''abcdefg''" 0 "[]"]
  show ?thesis by (auto simp: header_call_def comp_def)
qed

text \<open>
  C39: the MTA has sent a whole message with at least one header, whose body has become empty - a milter
  may replace it by an empty one -, and no chunk came with its end. A milter is done with the message and
  the next one, which takes every command, answers all of them with continue and needs no conversion of
  its header values, is served. It gets the headers and the end of the headers only: when it has answered
  those, nothing more is sent to it or to any other milter, neither a body nor the end of the message, but
  the manager gives the MTA, which waits for the answer to the end of its message, the answer continue.
\<close>

theorem empty_body_bypasses_milters:
  assumes "obedient env" and "children_quiet env" and "serving j hs [] ch" and "hs \<noteq> []"
    and "command_waiting_child_queue ch = i # j # rest"
  shows "\<exists>ch'. ch' = continue_times env j (length hs + 1)
       (snd (send_first_command_to_next_child env ch i)) \<and>
     children_calls ch' = children_calls ch @ map (Pair j) (map header_call hs @ [Call_end_of_header]) \<and>
     children_emitted ch' = children_emitted ch @ [Children_continue]"
proof -
  let ?a = "continue_times env j (length hs) (snd (send_first_command_to_next_child env ch i))"
  note h = headers_replayed [OF assms(1,3,4,5)]
  let ?c = "compile_reply_status ?a SERVER_CONTEXT_STATE_END_OF_HEADER MILTER_STATUS_CONTINUE"
  let ?i = "?c\<lparr>processing_state := SERVER_CONTEXT_STATE_BODY, replaced_body_for_each_child := False,
      sending_body := True, sent_body_offset := 0\<rparr>"
  have sv: "serving j hs [] ?i"
    by (rule serving_update [OF serving_compile [OF progress_serving [OF h]]]) (simp_all add: context_of_def)
  have body: "children_body ?a = Some []" using progress_serving [OF h] by (simp add: serving_def)
  then have init: "init_child_for_body env ?c j = (MILTER_STATUS_NOT_CHANGE, ?i)"
    by (simp add: init_child_for_body_def init_child_for_body_string_def Let_def)
  have "\<not> skip_body (context_of (?i\<lparr>processing_state := SERVER_CONTEXT_STATE_BODY\<rparr>) j)"
    using sv by (simp add: serving_def context_of_def)
  then have send: "send_body_to_child env ?i j = (MILTER_STATUS_NOT_CHANGE, ?i\<lparr>sending_body := False\<rparr>)"
    using body by (simp add: send_body_to_child_def send_body_to_child_string_def Let_def)
  have "get_next_command ?c SERVER_CONTEXT_STATE_END_OF_HEADER = Some MILTER_COMMAND_BODY"
    by (rule next_command_serving(2) [OF serving_compile [OF progress_serving [OF h]]])
  with init send have next_command: "send_next_command env ?c j SERVER_CONTEXT_STATE_END_OF_HEADER =
      (MILTER_STATUS_NOT_CHANGE, ?i\<lparr>sending_body := False\<rparr>)"
    by (simp add: send_next_command_def send_command_to_child_def)
  have "cb_continue env ?a j = handle_status env (?i\<lparr>sending_body := False\<rparr>) MILTER_STATUS_NOT_CHANGE"
    using progress_at [OF h] next_command by (simp add: cb_continue_def at_def Let_def)
  then have "children_calls (cb_continue env ?a j) = children_calls ?a"
    "children_emitted (cb_continue env ?a j) = children_emitted ?a @ [Children_continue]"
    using assms(2) by (simp_all add: handle_status_def status_to_signal_def)
  moreover have "continue_times env j (length hs + 1) (snd (send_first_command_to_next_child env ch i)) =
      cb_continue env ?a j"
    using continue_times_add [of env j "length hs" 1] by simp
  ultimately show ?thesis using h by (simp add: progress_def)
qed

theorem empty_body_bypasses_milters_witness:
  "children_emitted (continue_times obedient_environment 1 2
     (snd (send_first_command_to_next_child obedient_environment
       (two_milters [\<lparr>header_name = ''Subject'', header_value = Some ''x''\<rparr>] []) 0))) =
   [Children_continue]"
proof -
  let ?hs = "[\<lparr>header_name = ''Subject'', header_value = Some ''x''\<rparr>]"
  from empty_body_bypasses_milters [of obedient_environment 1 ?hs "two_milters ?hs []" 0 "[]"]
  show ?thesis by (simp add: numeral_2_eq_2)
qed

end
