(* ===== verification/Control_Protocol.thy ===== *)
theory Control_Protocol
  imports Decoder Encoder
begin

text \<open>
  The manager's two small protocols, both on top of \<open>milter-encoder.c\<close> and
  \<open>milter-decoder.c\<close>: the control socket, on which a controller asks for the configuration
  (\<open>milter-manager-control-*.c\<close>), and the pipe to the process launcher
  (\<open>milter-manager-launch-*.c\<close>). Their replies share the base of \<open>milter-manager-reply-*.c\<close>.
  A packet is a word, a NUL and the rest. The controller's side in the manager is
  \<open>milter-manager-controller-context.c\<close>.
\<close>

subsection \<open>Words\<close>

definition MILTER_MANAGER_CONTROL_COMMAND_SET_CONFIGURATION :: bytes where
  "MILTER_MANAGER_CONTROL_COMMAND_SET_CONFIGURATION = ''set-configuration''"
definition MILTER_MANAGER_CONTROL_COMMAND_GET_CONFIGURATION :: bytes where
  "MILTER_MANAGER_CONTROL_COMMAND_GET_CONFIGURATION = ''get-configuration''"
definition MILTER_MANAGER_CONTROL_COMMAND_RELOAD :: bytes where
  "MILTER_MANAGER_CONTROL_COMMAND_RELOAD = ''reload''"
definition MILTER_MANAGER_CONTROL_COMMAND_GET_STATUS :: bytes where
  "MILTER_MANAGER_CONTROL_COMMAND_GET_STATUS = ''get-status''"
definition MILTER_MANAGER_REPLY_SUCCESS :: bytes where "MILTER_MANAGER_REPLY_SUCCESS = ''success''"
definition MILTER_MANAGER_REPLY_FAILURE :: bytes where "MILTER_MANAGER_REPLY_FAILURE = ''failure''"
definition MILTER_MANAGER_REPLY_ERROR :: bytes where "MILTER_MANAGER_REPLY_ERROR = ''error''"
definition MILTER_MANAGER_CONTROL_REPLY_CONFIGURATION :: bytes where
  "MILTER_MANAGER_CONTROL_REPLY_CONFIGURATION = ''configuration''"
definition MILTER_MANAGER_CONTROL_REPLY_STATUS :: bytes where
  "MILTER_MANAGER_CONTROL_REPLY_STATUS = ''status''"
definition MILTER_MANAGER_LAUNCH_COMMAND_LAUNCH :: bytes where
  "MILTER_MANAGER_LAUNCH_COMMAND_LAUNCH = ''launch''"

lemmas protocol_words = MILTER_MANAGER_CONTROL_COMMAND_SET_CONFIGURATION_def
  MILTER_MANAGER_CONTROL_COMMAND_GET_CONFIGURATION_def MILTER_MANAGER_CONTROL_COMMAND_RELOAD_def
  MILTER_MANAGER_CONTROL_COMMAND_GET_STATUS_def MILTER_MANAGER_REPLY_SUCCESS_def
  MILTER_MANAGER_REPLY_FAILURE_def MILTER_MANAGER_REPLY_ERROR_def
  MILTER_MANAGER_CONTROL_REPLY_CONFIGURATION_def MILTER_MANAGER_CONTROL_REPLY_STATUS_def
  MILTER_MANAGER_LAUNCH_COMMAND_LAUNCH_def

subsection \<open>Encoders\<close>

definition encode_word :: "milter_encoder \<Rightarrow> bytes \<Rightarrow> bytes \<Rightarrow> milter_encoder \<times> bytes" where
  "encode_word e word rest =
     (let e = milter_encoder_clear_buffer e;
          e = append_bytes word e;
          e = append_bytes [NUL] e;
          e = append_bytes rest e
      in milter_encoder_pack e)"

definition milter_manager_control_command_encoder_encode_set_configuration ::
    "milter_encoder \<Rightarrow> bytes \<Rightarrow> milter_encoder \<times> bytes" where
  "milter_manager_control_command_encoder_encode_set_configuration e configuration =
     encode_word e MILTER_MANAGER_CONTROL_COMMAND_SET_CONFIGURATION configuration"

definition milter_manager_control_command_encoder_encode_reload ::
    "milter_encoder \<Rightarrow> milter_encoder \<times> bytes" where
  "milter_manager_control_command_encoder_encode_reload e =
     encode_word e MILTER_MANAGER_CONTROL_COMMAND_RELOAD []"

definition milter_manager_control_command_encoder_encode_get_status ::
    "milter_encoder \<Rightarrow> milter_encoder \<times> bytes" where
  "milter_manager_control_command_encoder_encode_get_status e =
     encode_word e MILTER_MANAGER_CONTROL_COMMAND_GET_STATUS []"

text \<open>Messages are C strings.\<close>

definition milter_manager_reply_encoder_encode_success ::
    "milter_encoder \<Rightarrow> milter_encoder \<times> bytes" where
  "milter_manager_reply_encoder_encode_success e = encode_word e MILTER_MANAGER_REPLY_SUCCESS []"

definition milter_manager_reply_encoder_encode_failure ::
    "milter_encoder \<Rightarrow> bytes \<Rightarrow> milter_encoder \<times> bytes" where
  "milter_manager_reply_encoder_encode_failure e message =
     encode_word e MILTER_MANAGER_REPLY_FAILURE message"

definition milter_manager_reply_encoder_encode_error ::
    "milter_encoder \<Rightarrow> bytes \<Rightarrow> milter_encoder \<times> bytes" where
  "milter_manager_reply_encoder_encode_error e message =
     encode_word e MILTER_MANAGER_REPLY_ERROR message"

definition milter_manager_control_reply_encoder_encode_success ::
    "milter_encoder \<Rightarrow> milter_encoder \<times> bytes" where
  "milter_manager_control_reply_encoder_encode_success e =
     milter_manager_reply_encoder_encode_success e"

definition milter_manager_control_reply_encoder_encode_failure ::
    "milter_encoder \<Rightarrow> bytes \<Rightarrow> milter_encoder \<times> bytes" where
  "milter_manager_control_reply_encoder_encode_failure e message =
     milter_manager_reply_encoder_encode_failure e message"

definition milter_manager_control_reply_encoder_encode_error ::
    "milter_encoder \<Rightarrow> bytes \<Rightarrow> milter_encoder \<times> bytes" where
  "milter_manager_control_reply_encoder_encode_error e message =
     milter_manager_reply_encoder_encode_error e message"

definition milter_manager_control_reply_encoder_encode_configuration ::
    "milter_encoder \<Rightarrow> bytes \<Rightarrow> milter_encoder \<times> bytes" where
  "milter_manager_control_reply_encoder_encode_configuration e configuration =
     encode_word e MILTER_MANAGER_CONTROL_REPLY_CONFIGURATION configuration"

definition milter_manager_control_reply_encoder_encode_status ::
    "milter_encoder \<Rightarrow> bytes \<Rightarrow> milter_encoder \<times> bytes" where
  "milter_manager_control_reply_encoder_encode_status e status =
     encode_word e MILTER_MANAGER_CONTROL_REPLY_STATUS status"

definition milter_manager_launch_command_encoder_encode_launch ::
    "milter_encoder \<Rightarrow> bytes \<Rightarrow> bytes option \<Rightarrow> milter_encoder \<times> bytes" where
  "milter_manager_launch_command_encoder_encode_launch e command_line user_name =
     encode_word e MILTER_MANAGER_LAUNCH_COMMAND_LAUNCH
       (command_line @ [NUL] @ (case user_name of None \<Rightarrow> [] | Some u \<Rightarrow> u))"

lemmas control_encoders =
  milter_manager_control_command_encoder_encode_set_configuration_def
  milter_manager_control_command_encoder_encode_reload_def
  milter_manager_control_command_encoder_encode_get_status_def
  milter_manager_reply_encoder_encode_success_def milter_manager_reply_encoder_encode_failure_def
  milter_manager_reply_encoder_encode_error_def
  milter_manager_control_reply_encoder_encode_success_def
  milter_manager_control_reply_encoder_encode_failure_def
  milter_manager_control_reply_encoder_encode_error_def
  milter_manager_control_reply_encoder_encode_configuration_def
  milter_manager_control_reply_encoder_encode_status_def
  milter_manager_launch_command_encoder_encode_launch_def

subsection \<open>Decoders\<close>

text \<open>
  What the \<open>decode\<close> methods share: find the word, refuse silently when it is empty, and go
  on with the memory behind it and the length of what belongs to the packet.
\<close>

definition decode_word ::
    "(bytes \<Rightarrow> bytes \<Rightarrow> int \<Rightarrow> (gerror option \<times> 's) result) \<Rightarrow> 's handler" where
  "decode_word go_on buffer len =
     (let m = milter_decoder_get_buffer buffer
      in bind_result (milter_decoder_decode_null_terminated_value m len) (\<lambda>n.
           if n = 0 then Refused None
           else go_on (cstr m) (drop (n + 1) m) (len - int n - 1)))"

definition no_content :: "'s \<Rightarrow> bytes \<Rightarrow> int \<Rightarrow> (gerror option \<times> 's) result" where
  "no_content sig content len =
     bind_result (milter_decoder_check_command_length content len 0
                    MILTER_DECODER_COMPARE_EXACT) (\<lambda>_. Ok (None, sig))"

datatype control_command =
    Control_set_configuration bytes
  | Control_get_configuration
  | Control_reload
  | Control_get_status

definition decode_set_configuration :: "bytes \<Rightarrow> int \<Rightarrow> (gerror option \<times> control_command) result" where
  "decode_set_configuration content len =
     bind_result (read_bytes content len) (\<lambda>c. Ok (None, Control_set_configuration c))"

definition decode_get_configuration :: "bytes \<Rightarrow> int \<Rightarrow> (gerror option \<times> control_command) result" where
  "decode_get_configuration = no_content Control_get_configuration"

definition decode_reload :: "bytes \<Rightarrow> int \<Rightarrow> (gerror option \<times> control_command) result" where
  "decode_reload = no_content Control_reload"

definition decode_get_status :: "bytes \<Rightarrow> int \<Rightarrow> (gerror option \<times> control_command) result" where
  "decode_get_status = no_content Control_get_status"

definition decode_control_command :: "control_command handler" where
  "decode_control_command = decode_word (\<lambda>word content len.
     if word = MILTER_MANAGER_CONTROL_COMMAND_SET_CONFIGURATION
     then decode_set_configuration content len
     else if word = MILTER_MANAGER_CONTROL_COMMAND_GET_CONFIGURATION
     then decode_get_configuration content len
     else if word = MILTER_MANAGER_CONTROL_COMMAND_RELOAD then decode_reload content len
     else if word = MILTER_MANAGER_CONTROL_COMMAND_GET_STATUS then decode_get_status content len
     else Refused (Some UNEXPECTED_COMMAND))"

datatype control_reply =
    Manager_success
  | Manager_failure bytes
  | Manager_error bytes
  | Control_configuration bytes

definition decode_success :: "bytes \<Rightarrow> int \<Rightarrow> (gerror option \<times> control_reply) result" where
  "decode_success = no_content Manager_success"

text \<open>The messages are passed on as C strings, whatever the length of the packet.\<close>

definition decode_failure :: "bytes \<Rightarrow> int \<Rightarrow> (gerror option \<times> control_reply) result" where
  "decode_failure content len = Ok (None, Manager_failure (cstr content))"

definition decode_error :: "bytes \<Rightarrow> int \<Rightarrow> (gerror option \<times> control_reply) result" where
  "decode_error content len = Ok (None, Manager_error (cstr content))"

definition decode_manager_reply :: "control_reply handler" where
  "decode_manager_reply = decode_word (\<lambda>word content len.
     if word = MILTER_MANAGER_REPLY_SUCCESS then decode_success content len
     else if word = MILTER_MANAGER_REPLY_FAILURE then decode_failure content len
     else if word = MILTER_MANAGER_REPLY_ERROR then decode_error content len
     else Refused (Some UNEXPECTED_REPLY))"

definition decode_configuration :: "bytes \<Rightarrow> int \<Rightarrow> (gerror option \<times> control_reply) result" where
  "decode_configuration content len =
     bind_result (read_bytes content len) (\<lambda>c. Ok (None, Control_configuration c))"

text \<open>The parent class is asked first, and its error dropped. There is no branch for a status.\<close>

definition decode_control_reply :: "control_reply handler" where
  "decode_control_reply buffer len = decode_word (\<lambda>word content content_len.
     case decode_manager_reply buffer len of
       Ok r \<Rightarrow> Ok r
     | Fault f \<Rightarrow> Fault f
     | Refused _ \<Rightarrow>
         if word = MILTER_MANAGER_CONTROL_REPLY_CONFIGURATION
         then decode_configuration content content_len
         else Refused (Some UNEXPECTED_REPLY)) buffer len"

datatype launch_command = Launch_launch bytes "bytes option"

definition decode_launch :: "bytes \<Rightarrow> int \<Rightarrow> (gerror option \<times> launch_command) result" where
  "decode_launch content len =
     bind_result (milter_decoder_decode_null_terminated_value content len) (\<lambda>n.
       if n = 0 then Refused None
       else Ok (None, Launch_launch (cstr content)
              (if int n < len - 1 then Some (cstr (drop (n + 1) content)) else None)))"

definition decode_launch_command :: "launch_command handler" where
  "decode_launch_command = decode_word (\<lambda>word content len.
     if word = MILTER_MANAGER_LAUNCH_COMMAND_LAUNCH then decode_launch content len
     else Refused (Some UNEXPECTED_COMMAND))"

subsection \<open>The controller context\<close>

text \<open>
  What the context asks of the configuration, as a record over the configuration's state
  \<open>'s\<close>: a failed save leaves a message.
\<close>

record 's configuration_operations =
  save_custom :: "bytes \<Rightarrow> 's \<Rightarrow> bytes option \<times> 's"
  to_xml :: "'s \<Rightarrow> bytes"
  reload :: "'s \<Rightarrow> bool \<times> 's"

record controller_context =
  controller_encoder :: milter_encoder
  controller_connected :: bool
  controller_written :: "bytes list"

definition milter_manager_controller_context_init :: controller_context where
  "milter_manager_controller_context_init =
     \<lparr>controller_encoder = milter_encoder_new, controller_connected = True, controller_written = []\<rparr>"

text \<open>A packet that cannot be written is only logged.\<close>

definition controller_write :: "milter_encoder \<times> bytes \<Rightarrow> controller_context \<Rightarrow> controller_context" where
  "controller_write ep c =
     c\<lparr>controller_encoder := fst ep,
        controller_written := controller_written c @ (if controller_connected c then [snd ep] else [])\<rparr>"

definition controller_cb_decoder_set_configuration ::
    "'s configuration_operations \<Rightarrow> bytes \<Rightarrow> 's \<times> controller_context \<Rightarrow> 's \<times> controller_context" where
  "controller_cb_decoder_set_configuration ops configuration sc =
     (case save_custom ops configuration (fst sc) of
        (None, s) \<Rightarrow>
          (s, controller_write (milter_manager_control_reply_encoder_encode_success
                (controller_encoder (snd sc))) (snd sc))
      | (Some message, s) \<Rightarrow>
          (s, controller_write (milter_manager_control_reply_encoder_encode_error
                (controller_encoder (snd sc))
                (''failed to save custom configuration file: '' @ message)) (snd sc)))"

definition controller_cb_decoder_get_configuration ::
    "'s configuration_operations \<Rightarrow> 's \<times> controller_context \<Rightarrow> 's \<times> controller_context" where
  "controller_cb_decoder_get_configuration ops sc =
     (fst sc, controller_write (milter_manager_control_reply_encoder_encode_configuration
        (controller_encoder (snd sc)) (cstr (to_xml ops (fst sc)))) (snd sc))"

text \<open>A reload that fails is reported as a success.\<close>

definition controller_cb_decoder_reload ::
    "'s configuration_operations \<Rightarrow> 's \<times> controller_context \<Rightarrow> 's \<times> controller_context" where
  "controller_cb_decoder_reload ops sc =
     (snd (reload ops (fst sc)), controller_write
        (milter_manager_control_reply_encoder_encode_success (controller_encoder (snd sc))) (snd sc))"

definition collect_status :: bytes where "collect_status = ''FIXME''"

definition controller_cb_decoder_get_status ::
    "'s \<times> controller_context \<Rightarrow> 's \<times> controller_context" where
  "controller_cb_decoder_get_status sc =
     (fst sc, controller_write (milter_manager_control_reply_encoder_encode_status
        (controller_encoder (snd sc)) collect_status) (snd sc))"

definition controller_receive ::
    "'s configuration_operations \<Rightarrow> control_command \<Rightarrow> 's \<times> controller_context \<Rightarrow>
     's \<times> controller_context" where
  "controller_receive ops command =
     (case command of
        Control_set_configuration configuration \<Rightarrow>
          controller_cb_decoder_set_configuration ops configuration
      | Control_get_configuration \<Rightarrow> controller_cb_decoder_get_configuration ops
      | Control_reload \<Rightarrow> controller_cb_decoder_reload ops
      | Control_get_status \<Rightarrow> controller_cb_decoder_get_status)"

end
