(* ===== verification/Control_Session.thy ===== *)
theory Control_Session
  imports Control_Protocol Framing
begin

text \<open>
  What the control and launch protocols guarantee: the decoders are instances of the
  framing interface, and a conversation on the control socket is followed from the
  commands to the replies the controller reads.
\<close>

subsection \<open>Packets\<close>

definition word_packet :: "bytes \<Rightarrow> bytes \<Rightarrow> bytes" where
  "word_packet word rest = word @ NUL # rest"

lemma encode_word_frame: "snd (encode_word e word rest) = frame (word_packet word rest)"
  by (simp add: encode_word_def milter_encoder_pack_eq word_packet_def Let_def)

lemma decode_word_packet:
  assumes "c_string word" and "word \<noteq> []"
  shows "decode_word go_on (word_packet word rest @ r) (int (length (word_packet word rest))) =
     go_on word (rest @ r @ [NUL]) (int (length rest))"
proof -
  have "milter_decoder_decode_null_terminated_value (word @ NUL # rest @ r @ [NUL])
      (int (length (word_packet word rest))) = Ok (length word)"
    using assms(1) by (intro terminated_value_Ok) (simp_all add: word_packet_def)
  with assms show ?thesis
    by (simp add: decode_word_def word_packet_def milter_decoder_get_buffer_def)
qed

lemma no_content_empty [simp]: "no_content sig r 0 = Ok (None, sig)"
  by (simp add: no_content_def milter_decoder_check_command_length_def)

lemma read_bytes_all: "read_bytes (rest @ r) (int (length rest)) = Ok rest"
  by (simp add: read_bytes_def)

lemma word_strings [simp]:
  "c_string MILTER_MANAGER_CONTROL_COMMAND_SET_CONFIGURATION"
  "c_string MILTER_MANAGER_CONTROL_COMMAND_GET_CONFIGURATION"
  "c_string MILTER_MANAGER_CONTROL_COMMAND_RELOAD" "c_string MILTER_MANAGER_CONTROL_COMMAND_GET_STATUS"
  "c_string MILTER_MANAGER_REPLY_SUCCESS" "c_string MILTER_MANAGER_REPLY_FAILURE"
  "c_string MILTER_MANAGER_REPLY_ERROR" "c_string MILTER_MANAGER_CONTROL_REPLY_CONFIGURATION"
  "c_string MILTER_MANAGER_CONTROL_REPLY_STATUS" "c_string MILTER_MANAGER_LAUNCH_COMMAND_LAUNCH"
  "MILTER_MANAGER_CONTROL_COMMAND_SET_CONFIGURATION \<noteq> []"
  "MILTER_MANAGER_CONTROL_COMMAND_GET_CONFIGURATION \<noteq> []"
  "MILTER_MANAGER_CONTROL_COMMAND_RELOAD \<noteq> []" "MILTER_MANAGER_CONTROL_COMMAND_GET_STATUS \<noteq> []"
  "MILTER_MANAGER_REPLY_SUCCESS \<noteq> []" "MILTER_MANAGER_REPLY_FAILURE \<noteq> []"
  "MILTER_MANAGER_REPLY_ERROR \<noteq> []" "MILTER_MANAGER_CONTROL_REPLY_CONFIGURATION \<noteq> []"
  "MILTER_MANAGER_CONTROL_REPLY_STATUS \<noteq> []" "MILTER_MANAGER_LAUNCH_COMMAND_LAUNCH \<noteq> []"
  by (simp_all add: protocol_words)

fun control_command_packet :: "control_command \<Rightarrow> bytes" where
  "control_command_packet (Control_set_configuration c) =
     word_packet MILTER_MANAGER_CONTROL_COMMAND_SET_CONFIGURATION c"
| "control_command_packet Control_get_configuration =
     word_packet MILTER_MANAGER_CONTROL_COMMAND_GET_CONFIGURATION []"
| "control_command_packet Control_reload = word_packet MILTER_MANAGER_CONTROL_COMMAND_RELOAD []"
| "control_command_packet Control_get_status = word_packet MILTER_MANAGER_CONTROL_COMMAND_GET_STATUS []"

fun control_reply_packet :: "control_reply \<Rightarrow> bytes" where
  "control_reply_packet Manager_success = word_packet MILTER_MANAGER_REPLY_SUCCESS []"
| "control_reply_packet (Manager_failure m) = word_packet MILTER_MANAGER_REPLY_FAILURE m"
| "control_reply_packet (Manager_error m) = word_packet MILTER_MANAGER_REPLY_ERROR m"
| "control_reply_packet (Control_configuration c) =
     word_packet MILTER_MANAGER_CONTROL_REPLY_CONFIGURATION c"

definition wf_control_reply :: "control_reply \<Rightarrow> bool" where
  "wf_control_reply r \<longleftrightarrow> length (control_reply_packet r) < 2 ^ 24 \<and>
     (case r of Manager_failure m \<Rightarrow> c_string m | Manager_error m \<Rightarrow> c_string m | _ \<Rightarrow> True)"

definition wf_control_command :: "control_command \<Rightarrow> bool" where
  "wf_control_command c \<longleftrightarrow> length (control_command_packet c) < 2 ^ 24"

lemma decode_control_command_valid:
  "decode_control_command (control_command_packet c @ r) (int (length (control_command_packet c))) =
     Ok (None, c)"
proof (cases c)
  case (Control_set_configuration x)
  then show ?thesis
    by (simp add: decode_control_command_def decode_word_packet decode_set_configuration_def
        read_bytes_all)
qed (simp_all add: decode_control_command_def decode_word_packet decode_get_configuration_def
    decode_reload_def decode_get_status_def, simp_all add: protocol_words)

lemma cstr_at_end: "c_string m \<Longrightarrow> starts_nul r \<Longrightarrow> cstr (m @ r @ [NUL]) = m"
  using starts_nul_append_NUL by (metis cstr_terminated)

lemma decode_manager_reply_word:
  assumes "c_string word" and "word \<noteq> []"
  shows "decode_manager_reply (word_packet word rest @ r) (int (length (word_packet word rest))) =
    (if word = MILTER_MANAGER_REPLY_SUCCESS then decode_success (rest @ r @ [NUL]) (int (length rest))
     else if word = MILTER_MANAGER_REPLY_FAILURE then decode_failure (rest @ r @ [NUL]) (int (length rest))
     else if word = MILTER_MANAGER_REPLY_ERROR then decode_error (rest @ r @ [NUL]) (int (length rest))
     else Refused (Some UNEXPECTED_REPLY))"
  by (simp add: decode_manager_reply_def decode_word_packet [OF assms])

lemma decode_control_reply_word:
  assumes "c_string word" and "word \<noteq> []"
  shows "decode_control_reply (word_packet word rest @ r) (int (length (word_packet word rest))) =
    (case decode_manager_reply (word_packet word rest @ r) (int (length (word_packet word rest))) of
       Ok x \<Rightarrow> Ok x
     | Fault f \<Rightarrow> Fault f
     | Refused _ \<Rightarrow>
         if word = MILTER_MANAGER_CONTROL_REPLY_CONFIGURATION
         then decode_configuration (rest @ r @ [NUL]) (int (length rest))
         else Refused (Some UNEXPECTED_REPLY))"
  by (simp add: decode_control_reply_def decode_word_packet [OF assms])

lemmas reply_word_decoders = decode_control_reply_word decode_manager_reply_word decode_success_def
  decode_failure_def decode_error_def decode_configuration_def

lemma decode_control_reply_valid:
  assumes "wf_control_reply c" and "starts_nul r"
  shows "decode_control_reply (control_reply_packet c @ r) (int (length (control_reply_packet c))) =
     Ok (None, c)"
proof (cases c)
  case Manager_success
  then show ?thesis by (simp add: reply_word_decoders)
next
  case (Manager_failure m)
  then show ?thesis using assms cstr_at_end [of m r]
    by (simp add: reply_word_decoders wf_control_reply_def) (simp add: protocol_words)
next
  case (Manager_error m)
  then show ?thesis using assms cstr_at_end [of m r]
    by (simp add: reply_word_decoders wf_control_reply_def) (simp add: protocol_words)
next
  case (Control_configuration x)
  then show ?thesis using read_bytes_all [of x "r @ [NUL]"]
    by (simp add: reply_word_decoders) (simp add: protocol_words)
qed

interpretation control_commands: packet_handler decode_control_command
    "\<lambda>p c. wf_control_command c \<and> p = control_command_packet c"
  by unfold_locales (auto simp: decode_control_command_valid wf_control_command_def)

interpretation control_replies: packet_handler decode_control_reply
    "\<lambda>p c. wf_control_reply c \<and> p = control_reply_packet c"
  by unfold_locales (auto simp: decode_control_reply_valid wf_control_reply_def)

subsection \<open>A conversation\<close>

text \<open>The manager has no encoder for \<open>get-configuration\<close>; it takes the packet from elsewhere.\<close>

fun encode_control_command :: "milter_encoder \<Rightarrow> control_command \<Rightarrow> milter_encoder \<times> bytes" where
  "encode_control_command e (Control_set_configuration c) =
     milter_manager_control_command_encoder_encode_set_configuration e c"
| "encode_control_command e Control_get_configuration =
     encode_word e MILTER_MANAGER_CONTROL_COMMAND_GET_CONFIGURATION []"
| "encode_control_command e Control_reload = milter_manager_control_command_encoder_encode_reload e"
| "encode_control_command e Control_get_status =
     milter_manager_control_command_encoder_encode_get_status e"

fun encode_control_commands :: "milter_encoder \<Rightarrow> control_command list \<Rightarrow> bytes list" where
  "encode_control_commands e [] = []"
| "encode_control_commands e (c # cs) =
     (case encode_control_command e c of (e', p) \<Rightarrow> p # encode_control_commands e' cs)"

lemma encode_control_command_frame: "snd (encode_control_command e c) = frame (control_command_packet c)"
  by (cases c) (simp_all add: control_encoders encode_word_frame)

lemma encode_control_commands_stream:
  "concat (encode_control_commands e cs) = stream (map control_command_packet cs)"
proof (induction cs arbitrary: e)
  case (Cons c cs)
  obtain e' p where "encode_control_command e c = (e', p)" by fastforce
  with encode_control_command_frame [of e c] Cons.IH show ?case by simp
qed simp

definition run_controller ::
    "'s configuration_operations \<Rightarrow> bytes list \<Rightarrow> 's \<times> controller_context \<Rightarrow> 's \<times> controller_context" where
  "run_controller ops chunks sc =
     (case run_reader decode_control_command milter_decoder_new chunks of
        Agent d commands errs \<Rightarrow> fold (controller_receive ops) commands sc
      | Agent_crashed f commands \<Rightarrow> fold (controller_receive ops) commands sc)"

text \<open>What the controller is to be told for a command that is not \<open>get-status\<close>.\<close>

definition control_answer :: "'s configuration_operations \<Rightarrow> control_command \<Rightarrow> 's \<Rightarrow> control_reply \<times> 's" where
  "control_answer ops c s =
     (case c of
        Control_set_configuration conf \<Rightarrow>
          (case save_custom ops conf s of
             (None, s) \<Rightarrow> (Manager_success, s)
           | (Some m, s) \<Rightarrow>
               (Manager_error (''failed to save custom configuration file: '' @ m), s))
      | Control_get_configuration \<Rightarrow> (Control_configuration (cstr (to_xml ops s)), s)
      | _ \<Rightarrow> (Manager_success, snd (reload ops s)))"

fun control_answers ::
    "'s configuration_operations \<Rightarrow> control_command list \<Rightarrow> 's \<Rightarrow> control_reply list \<times> 's" where
  "control_answers ops [] s = ([], s)"
| "control_answers ops (c # cs) s =
     (case control_answer ops c s of (r, s) \<Rightarrow>
        (case control_answers ops cs s of (rs, s) \<Rightarrow> (r # rs, s)))"

lemma controller_receive_answer:
  assumes "c \<noteq> Control_get_status" and "controller_connected x" and "control_answer ops c s = (r, s')"
  shows "\<exists>e. controller_receive ops c (s, x) =
     (s', x\<lparr>controller_encoder := e, controller_written := controller_written x @ [frame (control_reply_packet r)]\<rparr>)"
  using assms
  by (cases c) (auto simp: controller_receive_def control_answer_def controller_write_def
      controller_cb_decoder_set_configuration_def controller_cb_decoder_get_configuration_def
      controller_cb_decoder_reload_def control_encoders encode_word_frame split: prod.splits option.splits)

lemma controller_answers:
  assumes "Control_get_status \<notin> set cs" and "controller_connected x"
    and "control_answers ops cs s = (rs, s')"
  shows "fst (fold (controller_receive ops) cs (s, x)) = s' \<and>
    controller_written (snd (fold (controller_receive ops) cs (s, x))) =
      controller_written x @ map (frame \<circ> control_reply_packet) rs"
  using assms
proof (induction cs arbitrary: s x rs)
  case (Cons c cs)
  obtain r s1 where r: "control_answer ops c s = (r, s1)" by fastforce
  obtain rs1 where rs: "control_answers ops cs s1 = (rs1, s')" "rs = r # rs1"
    using Cons.prems(3) r by (auto split: prod.splits)
  from controller_receive_answer [OF _ Cons.prems(2) r] Cons.prems(1) obtain e where
    "controller_receive ops c (s, x) = (s1, x\<lparr>controller_encoder := e,
       controller_written := controller_written x @ [frame (control_reply_packet r)]\<rparr>)" by auto
  with Cons.IH [OF _ _ rs(1), of "x\<lparr>controller_encoder := e,
       controller_written := controller_written x @ [frame (control_reply_packet r)]\<rparr>"] Cons.prems(1,2)
  show ?case by (simp add: rs(2))
qed simp

text \<open>
  C17: a controller that saves, fetches or reloads the configuration gets, however the two
  byte streams are cut, exactly one reply for each command, in their order: success, the
  configuration as it is at that point, or the reason why it could not be saved.
\<close>

theorem control_session:
  assumes "\<forall>c \<in> set cs. wf_control_command c" and "Control_get_status \<notin> set cs"
    and "concat chunks = concat (encode_control_commands milter_encoder_new cs)"
    and "control_answers ops cs s = (replies, s')" and "\<forall>r \<in> set replies. wf_control_reply r"
    and "run_controller ops chunks (s, milter_manager_controller_context_init) = (t, c)"
    and "concat chunks' = concat (controller_written c)"
  shows "t = s' \<and> (\<exists>d. run_reader decode_control_reply milter_decoder_new chunks' = Agent d replies [] \<and>
     dec_state d = IN_START \<and> dec_buffer d = [])"
proof -
  let ?init = milter_manager_controller_context_init
  have "list_all2 (\<lambda>p c. wf_control_command c \<and> p = control_command_packet c)
      (map control_command_packet cs) cs"
    using assms(1) by (simp add: list_all2_map1 list_all2_same)
  from control_commands.chunked_stream [OF this assms(3) [unfolded encode_control_commands_stream]]
  have "fold (controller_receive ops) cs (s, ?init) = (t, c)"
    using assms(6) by (auto simp: run_controller_def)
  with controller_answers [OF assms(2) _ assms(4), of ?init]
  have "t = s'" "controller_written c = map (frame \<circ> control_reply_packet) replies"
    by (simp_all add: milter_manager_controller_context_init_def)
  moreover from this(2) assms(7) have "concat chunks' = stream (map control_reply_packet replies)"
    by (simp add: stream_def)
  moreover have "list_all2 (\<lambda>p c. wf_control_reply c \<and> p = control_reply_packet c)
      (map control_reply_packet replies) replies"
    using assms(5) by (simp add: list_all2_map1 list_all2_same)
  ultimately show ?thesis using control_replies.chunked_stream by blast
qed

definition sample_operations :: "bytes configuration_operations" where
  "sample_operations =
     \<lparr>save_custom = \<lambda>conf s. if conf = [] then (Some ''empty'', s) else (None, conf),
      to_xml = \<lambda>s. ''<c>'' @ s @ ''</c>'', reload = \<lambda>s. (True, s)\<rparr>"

theorem control_session_witness:
  "\<exists>d. run_reader decode_control_reply milter_decoder_new
       [concat (controller_written (snd (run_controller sample_operations
          [concat (encode_control_commands milter_encoder_new
             [Control_set_configuration ''a'', Control_set_configuration [], Control_get_configuration])]
          ([], milter_manager_controller_context_init))))] =
     Agent d [Manager_success, Manager_error ''failed to save custom configuration file: empty'',
       Control_configuration ''<c>a</c>''] [] \<and> dec_state d = IN_START \<and> dec_buffer d = []"
proof -
  let ?cs = "[Control_set_configuration ''a'', Control_set_configuration [], Control_get_configuration]"
  let ?rs = "[Manager_success, Manager_error ''failed to save custom configuration file: empty'',
       Control_configuration ''<c>a</c>'']"
  let ?in = "[concat (encode_control_commands milter_encoder_new ?cs)]"
  obtain t c where run: "run_controller sample_operations ?in ([], milter_manager_controller_context_init) = (t, c)"
    by fastforce
  have "control_answers sample_operations ?cs [] = (?rs, ''a'')"
    by (simp add: sample_operations_def control_answer_def)
  moreover have "\<forall>c \<in> set ?cs. wf_control_command c" "\<forall>r \<in> set ?rs. wf_control_reply r"
    by (simp_all add: wf_control_command_def wf_control_reply_def word_packet_def protocol_words)
  moreover have "Control_get_status \<notin> set ?cs" by simp
  ultimately show ?thesis
    using control_session [of ?cs ?in sample_operations "[]" ?rs "''a''" t c "[concat (controller_written c)]"] run
    by simp
qed

subsection \<open>A status\<close>

text \<open>
  The controller's decoder cannot read the manager's answer to \<open>get-status\<close>: it
  reports an unexpected reply, emits nothing, and nothing sent after it is ever read.
\<close>

theorem status_reply_unreadable:
  "\<exists>d e. run_reader decode_control_reply milter_decoder_new
       (controller_written (snd (controller_receive ops Control_get_status
          (s, milter_manager_controller_context_init))) @ chunks) = Agent d [] [UNEXPECTED_REPLY] \<and>
     dec_state d = IN_ERROR"
proof -
  let ?p = "word_packet MILTER_MANAGER_CONTROL_REPLY_STATUS collect_status"
  let ?n = "int (length ?p)"
  let ?d = "\<lparr>dec_state = IN_COMMAND_CONTENT, dec_buffer = ?p, dec_command_length = ?n, dec_tag = 0\<rparr>"
  have h: "decode_control_reply ?p ?n = Refused (Some UNEXPECTED_REPLY)"
    using decode_control_reply_word [of MILTER_MANAGER_CONTROL_REPLY_STATUS collect_status "[]"]
      decode_manager_reply_word [of MILTER_MANAGER_CONTROL_REPLY_STATUS collect_status "[]"]
    by simp (simp add: protocol_words)
  have "length ?p < 2 ^ 24" by (simp add: word_packet_def protocol_words collect_status_def)
  then have "milter_decoder_decode decode_control_reply milter_decoder_new (frame ?p) =
      decode_loop decode_control_reply ?d None []"
    using command_length_of_frame [of ?p]
    by (simp add: milter_decoder_decode_def milter_decoder_new_def loop_start loop_length frame_def)
  also have "\<dots> = Returned (?d\<lparr>dec_state := IN_ERROR\<rparr>) False (Some UNEXPECTED_REPLY) []"
    by (subst loop_content) (simp_all add: h set_error_def)
  finally have "milter_decoder_decode decode_control_reply milter_decoder_new (frame ?p) = \<dots>" .
  moreover have "controller_written (snd (controller_receive ops Control_get_status
       (s, milter_manager_controller_context_init))) = [frame ?p]"
    by (simp add: controller_receive_def controller_cb_decoder_get_status_def controller_write_def
        control_encoders encode_word_frame milter_manager_controller_context_init_def)
  ultimately show ?thesis by (simp add: cb_reader_flow_def run_reader_in_error)
qed

end
