(* ===== verification/Process_Launcher.thy ===== *)
theory Process_Launcher
  imports Control_Session
begin

text \<open>
  \<open>milter-manager-process-launcher.c\<close>: the privileged process that starts milters on the
  manager's request, one packet per request, and answers each. What it asks of the operating
  system - the password database, splitting a command line, starting a process, changing
  its identity - is the record \<open>process_system\<close>. The output of the milters, which is only
  logged, is left out.
\<close>

subsection \<open>State\<close>

record password =
  pw_name :: bytes
  pw_uid :: nat
  pw_gid :: nat

record credentials =
  cred_uid :: nat
  cred_gid :: nat
  cred_groups :: "nat list"

datatype launch_error =
    LAUNCHER_ERROR_ALREADY_LAUNCHED
  | CHILD_ERROR_INVALID_USER_NAME
  | LAUNCHER_ERROR_BAD_COMMAND_STRING
  | LAUNCHER_ERROR_START_FAILURE

text \<open>
  \<open>sys_message\<close> is the text of an error for a command line and a user. A process may be
  started, or not, depending on the processes that run, so \<open>sys_spawn\<close> sees a time.
\<close>

record process_system =
  sys_getpwnam :: "bytes \<Rightarrow> password option"
  sys_parse_argv :: "bytes \<Rightarrow> bytes list option"
  sys_spawn :: "nat \<Rightarrow> bytes list \<Rightarrow> int option"
  sys_setgid :: "nat \<Rightarrow> bool"
  sys_initgroups :: "bytes \<Rightarrow> nat \<Rightarrow> nat list option"
  sys_setuid :: "nat \<Rightarrow> bool"
  sys_message :: "launch_error \<Rightarrow> bytes \<Rightarrow> bytes option \<Rightarrow> bytes"

record process_data =
  process_pid :: int
  process_command_line :: bytes
  process_user_name :: "bytes option"
  process_credentials :: credentials

record process_launcher =
  launcher_processes :: "process_data list"
  launcher_credentials :: credentials
  launcher_time :: nat
  launcher_encoder :: milter_encoder
  launcher_connected :: bool
  launcher_written :: "bytes list"

definition milter_manager_process_launcher_init :: "credentials \<Rightarrow> process_launcher" where
  "milter_manager_process_launcher_init cr =
     \<lparr>launcher_processes = [], launcher_credentials = cr, launcher_time = 0,
      launcher_encoder = milter_encoder_new, launcher_connected = True, launcher_written = []\<rparr>"

subsection \<open>Launching\<close>

definition is_already_launched :: "process_launcher \<Rightarrow> bytes \<Rightarrow> bool" where
  "is_already_launched l command_line \<longleftrightarrow>
     find (\<lambda>p. process_command_line p = command_line) (launcher_processes l) \<noteq> None"

text \<open>
  \<open>setup_child\<close> runs in the new process before the milter's program. A step that fails is
  logged and ends it; the program is started all the same.
\<close>

definition setup_child :: "process_system \<Rightarrow> password option \<Rightarrow> credentials \<Rightarrow> credentials" where
  "setup_child sys password cr =
     (case password of
        None \<Rightarrow> cr
      | Some p \<Rightarrow>
          if \<not> sys_setgid sys (pw_gid p) then cr
          else
            let cr = cr\<lparr>cred_gid := pw_gid p\<rparr>
            in case sys_initgroups sys (pw_name p) (pw_gid p) of
                 None \<Rightarrow> cr
               | Some groups \<Rightarrow>
                   let cr = cr\<lparr>cred_groups := groups\<rparr>
                   in if \<not> sys_setuid sys (pw_uid p) then cr else cr\<lparr>cred_uid := pw_uid p\<rparr>)"

definition launch ::
    "process_system \<Rightarrow> process_launcher \<Rightarrow> bytes \<Rightarrow> bytes option \<Rightarrow>
     launch_error option \<times> process_launcher" where
  "launch sys l command_line user_name =
     (if is_already_launched l command_line then (Some LAUNCHER_ERROR_ALREADY_LAUNCHED, l)
      else
        let password = (case user_name of None \<Rightarrow> None | Some u \<Rightarrow> sys_getpwnam sys u)
        in if user_name \<noteq> None \<and> password = None then (Some CHILD_ERROR_INVALID_USER_NAME, l)
           else case sys_parse_argv sys command_line of
             None \<Rightarrow> (Some LAUNCHER_ERROR_BAD_COMMAND_STRING, l)
           | Some argv \<Rightarrow>
               (case sys_spawn sys (launcher_time l) argv of
                  None \<Rightarrow> (Some LAUNCHER_ERROR_START_FAILURE, l)
                | Some pid \<Rightarrow>
                    (None, l\<lparr>launcher_processes :=
                        \<lparr>process_pid = pid, process_command_line = command_line,
                         process_user_name = user_name,
                         process_credentials = setup_child sys password (launcher_credentials l)\<rparr>
                        # launcher_processes l\<rparr>)))"

definition launcher_write :: "milter_encoder \<times> bytes \<Rightarrow> process_launcher \<Rightarrow> process_launcher" where
  "launcher_write ep l =
     l\<lparr>launcher_encoder := fst ep,
        launcher_written := launcher_written l @ (if launcher_connected l then [snd ep] else [])\<rparr>"

definition cb_decoder_launch ::
    "process_system \<Rightarrow> bytes \<Rightarrow> bytes option \<Rightarrow> process_launcher \<Rightarrow> process_launcher" where
  "cb_decoder_launch sys command_line user_name l =
     (case launch sys l command_line user_name of
        (Some e, l) \<Rightarrow> launcher_write (milter_manager_reply_encoder_encode_error
          (launcher_encoder l) (sys_message sys e command_line user_name)) l
      | (None, l) \<Rightarrow> launcher_write (milter_manager_reply_encoder_encode_success
          (launcher_encoder l)) l)"

text \<open>The first process in the list with the pid of the one that has ended is forgotten.\<close>

definition child_watch_func :: "int \<Rightarrow> process_launcher \<Rightarrow> process_launcher" where
  "child_watch_func pid l =
     (case find (\<lambda>p. process_pid p = pid) (launcher_processes l) of
        None \<Rightarrow> l
      | Some p \<Rightarrow> l\<lparr>launcher_processes := remove1 p (launcher_processes l)\<rparr>)"

subsection \<open>Running\<close>

datatype launcher_input =
    Launcher_command launch_command
  | Launcher_child_ended int

definition launcher_step :: "process_system \<Rightarrow> launcher_input \<Rightarrow> process_launcher \<Rightarrow> process_launcher" where
  "launcher_step sys i l =
     (let l = l\<lparr>launcher_time := launcher_time l + 1\<rparr>
      in case i of
           Launcher_command (Launch_launch command_line user_name) \<Rightarrow>
             cb_decoder_launch sys command_line user_name l
         | Launcher_child_ended pid \<Rightarrow> child_watch_func pid l)"

definition launcher_run :: "process_system \<Rightarrow> launcher_input list \<Rightarrow> process_launcher \<Rightarrow> process_launcher" where
  "launcher_run sys = fold (launcher_step sys)"

subsection \<open>No milter runs twice\<close>

definition launcher_invariant :: "process_launcher \<Rightarrow> bool" where
  "launcher_invariant l \<longleftrightarrow> distinct (map process_command_line (launcher_processes l))"

lemma launcher_write_processes [simp]:
  "launcher_processes (launcher_write ep l) = launcher_processes l"
  by (simp add: launcher_write_def)

lemma launch_invariant:
  assumes "launcher_invariant l"
  shows "launcher_invariant (snd (launch sys l command_line user_name))"
  using assms by (auto simp: launch_def launcher_invariant_def is_already_launched_def find_None_iff
      Let_def split: option.split)

lemma launcher_step_invariant:
  assumes "launcher_invariant l"
  shows "launcher_invariant (launcher_step sys i l)"
proof (cases i)
  case (Launcher_command c)
  obtain command_line user_name where c: "c = Launch_launch command_line user_name" by (cases c)
  let ?l = "l\<lparr>launcher_time := launcher_time l + 1\<rparr>"
  have "launcher_invariant ?l" using assms by (simp add: launcher_invariant_def)
  from launch_invariant [OF this, of sys command_line user_name] show ?thesis
    by (auto simp: Launcher_command c launcher_step_def cb_decoder_launch_def launcher_invariant_def
        split: prod.split option.split)
next
  case (Launcher_child_ended pid)
  have "distinct (map f (remove1 x xs))" if "distinct (map f xs)" for f :: "process_data \<Rightarrow> bytes" and x xs
    using that by (induction xs) (auto dest: notin_set_remove1 subsetD [OF set_remove1_subset])
  with assms show ?thesis
    by (auto simp: Launcher_child_ended launcher_step_def child_watch_func_def launcher_invariant_def
        Let_def split: option.split)
qed

text \<open>
  C19: whatever requests come in and whichever processes end, no command line is ever running
  twice at the launcher's hand.
\<close>

theorem launched_once:
  "distinct (map process_command_line (launcher_processes
     (launcher_run sys inputs (milter_manager_process_launcher_init cr))))"
proof -
  have "launcher_invariant (fold (launcher_step sys) inputs l)" if "launcher_invariant l" for l
    using that by (induction inputs arbitrary: l) (simp_all add: launcher_step_invariant)
  moreover have "launcher_invariant (milter_manager_process_launcher_init cr)"
    by (simp add: launcher_invariant_def milter_manager_process_launcher_init_def)
  ultimately show ?thesis by (simp add: launcher_run_def launcher_invariant_def)
qed

subsection \<open>A conversation\<close>

fun launch_command_packet :: "launch_command \<Rightarrow> bytes" where
  "launch_command_packet (Launch_launch command_line user_name) =
     word_packet MILTER_MANAGER_LAUNCH_COMMAND_LAUNCH
       (command_line @ [NUL] @ (case user_name of None \<Rightarrow> [] | Some u \<Rightarrow> u))"

definition wf_launch_command :: "launch_command \<Rightarrow> bool" where
  "wf_launch_command c \<longleftrightarrow> length (launch_command_packet c) < 2 ^ 24 \<and>
     (case c of Launch_launch command_line user_name \<Rightarrow>
        c_string command_line \<and> command_line \<noteq> [] \<and>
        (case user_name of None \<Rightarrow> True | Some u \<Rightarrow> c_string u \<and> u \<noteq> []))"

lemma decode_launch_valid:
  assumes "c_string command_line" and "command_line \<noteq> []" and "starts_nul r"
    and "case user_name of None \<Rightarrow> True | Some u \<Rightarrow> c_string u \<and> u \<noteq> []"
  defines "rest \<equiv> command_line @ [NUL] @ (case user_name of None \<Rightarrow> [] | Some u \<Rightarrow> u)"
  shows "decode_launch (rest @ r @ [NUL]) (int (length rest)) =
     Ok (None, Launch_launch command_line user_name)"
proof -
  have "milter_decoder_decode_null_terminated_value (rest @ r @ [NUL]) (int (length rest)) =
      Ok (length command_line)"
    using assms(1) unfolding rest_def by (simp add: terminated_value_Ok)
  then show ?thesis
    using assms(1-4) cstr_at_end [of _ r]
    by (auto simp: decode_launch_def rest_def split: option.split)
qed

lemma decode_launch_command_valid:
  assumes "wf_launch_command c" and "starts_nul r"
  shows "decode_launch_command (launch_command_packet c @ r) (int (length (launch_command_packet c))) =
     Ok (None, c)"
proof (cases c)
  case (Launch_launch command_line user_name)
  with assms have "decode_launch
       ((command_line @ [NUL] @ (case user_name of None \<Rightarrow> [] | Some u \<Rightarrow> u)) @ r @ [NUL])
       (int (length (command_line @ [NUL] @ (case user_name of None \<Rightarrow> [] | Some u \<Rightarrow> u)))) =
     Ok (None, Launch_launch command_line user_name)"
    by (intro decode_launch_valid) (auto simp: wf_launch_command_def)
  then show ?thesis
    by (simp only: Launch_launch launch_command_packet.simps decode_launch_command_def
        decode_word_packet word_strings not_False_eq_True if_True simp_thms)
qed

definition manager_reply_valid :: "bytes \<Rightarrow> control_reply \<Rightarrow> bool" where
  "manager_reply_valid p r \<longleftrightarrow>
     wf_control_reply r \<and> p = control_reply_packet r \<and> (\<forall>c. r \<noteq> Control_configuration c)"

lemma decode_manager_reply_valid:
  assumes "manager_reply_valid p r" and "starts_nul q"
  shows "decode_manager_reply (p @ q) (int (length p)) = Ok (None, r)"
  using assms cstr_at_end [of "[]" q]
  by (cases r) (simp_all add: manager_reply_valid_def wf_control_reply_def reply_word_decoders,
      simp_all add: protocol_words)

interpretation launch_commands: packet_handler decode_launch_command
    "\<lambda>p c. wf_launch_command c \<and> p = launch_command_packet c"
  by unfold_locales (auto simp: decode_launch_command_valid wf_launch_command_def)

interpretation manager_replies: packet_handler decode_manager_reply manager_reply_valid
  by unfold_locales (auto simp: decode_manager_reply_valid manager_reply_valid_def wf_control_reply_def)

text \<open>
  The launcher's loop: bytes of the manager arrive, and processes end. A chunk runs the decoder, whose
  signals launch; a crash of the decoder ends the launcher.
\<close>

datatype launcher_event =
    Arrives bytes
  | Process_ended int

fun launcher_loop ::
    "process_system \<Rightarrow> launcher_event list \<Rightarrow> milter_decoder \<Rightarrow> process_launcher \<Rightarrow> process_launcher" where
  "launcher_loop sys [] d l = l"
| "launcher_loop sys (Arrives chunk # evs) d l =
     (case cb_reader_flow decode_launch_command d chunk of
        Agent d commands errs \<Rightarrow> launcher_loop sys evs d (launcher_run sys (map Launcher_command commands) l)
      | Agent_crashed f commands \<Rightarrow> launcher_run sys (map Launcher_command commands) l)"
| "launcher_loop sys (Process_ended pid # evs) d l =
     launcher_loop sys evs d (launcher_step sys (Launcher_child_ended pid) l)"

definition run_launcher ::
    "process_system \<Rightarrow> launcher_event list \<Rightarrow> process_launcher \<Rightarrow> process_launcher" where
  "run_launcher sys evs = launcher_loop sys evs milter_decoder_new"

fun arriving :: "launcher_event list \<Rightarrow> bytes" where
  "arriving [] = []"
| "arriving (Arrives chunk # evs) = chunk @ arriving evs"
| "arriving (Process_ended pid # evs) = arriving evs"

fun encode_launch_commands :: "milter_encoder \<Rightarrow> launch_command list \<Rightarrow> bytes list" where
  "encode_launch_commands e [] = []"
| "encode_launch_commands e (Launch_launch command_line user_name # cs) =
     (case milter_manager_launch_command_encoder_encode_launch e command_line user_name of
        (e', p) \<Rightarrow> p # encode_launch_commands e' cs)"

lemma encode_launch_commands_stream:
  "concat (encode_launch_commands e cs) = stream (map launch_command_packet cs)"
proof (induction cs arbitrary: e)
  case (Cons c cs)
  obtain command_line user_name where c: "c = Launch_launch command_line user_name" by (cases c)
  obtain e' p where p: "milter_manager_launch_command_encoder_encode_launch e command_line user_name = (e', p)"
    by fastforce
  then have "p = frame (launch_command_packet c)"
    by (metis c encode_word_frame launch_command_packet.simps
        milter_manager_launch_command_encoder_encode_launch_def snd_conv)
  with p c Cons.IH show ?case by simp
qed simp

text \<open>
  The specification knows neither packets nor the decoder. A request is dealt with as soon as its last
  byte has arrived, that is, when no more bytes are still to come than those of the requests after it.
\<close>

fun dealt_with :: "nat \<Rightarrow> launch_command list \<Rightarrow> launch_command list \<times> launch_command list" where
  "dealt_with r [] = ([], [])"
| "dealt_with r (c # cs) =
     (if r \<le> length (concat (encode_launch_commands milter_encoder_new cs))
      then apfst (Cons c) (dealt_with r cs) else ([], c # cs))"

fun happenings :: "launcher_event list \<Rightarrow> launch_command list \<Rightarrow> launcher_input list" where
  "happenings [] cs = []"
| "happenings (Arrives chunk # evs) cs =
     (case dealt_with (length (arriving evs)) cs of (done, rest) \<Rightarrow>
        map Launcher_command done @ happenings evs rest)"
| "happenings (Process_ended pid # evs) cs = Launcher_child_ended pid # happenings evs cs"

text \<open>
  It keeps the milters that run, each with its process and command line, and counts the steps: a
  milter that runs is refused, any other is started if the system can; one that ends is forgotten.
\<close>

type_synonym milter_table = "(int \<times> bytes) list"

fun forget :: "int \<Rightarrow> milter_table \<Rightarrow> milter_table" where
  "forget pid [] = []"
| "forget pid (m # ms) = (if fst m = pid then ms else m # forget pid ms)"

definition launch_answer ::
    "process_system \<Rightarrow> nat \<Rightarrow> launch_command \<Rightarrow> milter_table \<Rightarrow> control_reply \<times> milter_table" where
  "launch_answer sys t c running =
     (case c of Launch_launch command_line user_name \<Rightarrow>
        let refuse = \<lambda>e. (Manager_error (sys_message sys e command_line user_name), running)
        in if command_line \<in> snd ` set running then refuse LAUNCHER_ERROR_ALREADY_LAUNCHED
           else if user_name \<noteq> None \<and> sys_getpwnam sys (the user_name) = None
           then refuse CHILD_ERROR_INVALID_USER_NAME
           else case sys_parse_argv sys command_line of
             None \<Rightarrow> refuse LAUNCHER_ERROR_BAD_COMMAND_STRING
           | Some argv \<Rightarrow>
               (case sys_spawn sys t argv of
                  None \<Rightarrow> refuse LAUNCHER_ERROR_START_FAILURE
                | Some pid \<Rightarrow> (Manager_success, (pid, command_line) # running)))"

fun launch_answers ::
    "process_system \<Rightarrow> nat \<Rightarrow> launcher_input list \<Rightarrow> milter_table \<Rightarrow> control_reply list \<times> milter_table" where
  "launch_answers sys t [] running = ([], running)"
| "launch_answers sys t (Launcher_command c # inputs) running =
     (case launch_answer sys (t + 1) c running of (r, running) \<Rightarrow>
        apfst (Cons r) (launch_answers sys (t + 1) inputs running))"
| "launch_answers sys t (Launcher_child_ended pid # inputs) running =
     launch_answers sys (t + 1) inputs (forget pid running)"

definition running_milter :: "process_data \<Rightarrow> int \<times> bytes" where
  "running_milter p = (process_pid p, process_command_line p)"

definition running_milters :: "process_launcher \<Rightarrow> milter_table" where
  "running_milters l = map running_milter (launcher_processes l)"

lemma already_launched_running:
  "is_already_launched l c \<longleftrightarrow> c \<in> snd ` set (running_milters l)"
  by (force simp: is_already_launched_def running_milters_def running_milter_def find_None_iff)

lemma running_milters_simps [simp]:
  "running_milters (l\<lparr>launcher_time := t\<rparr>) = running_milters l"
  "running_milters (l\<lparr>launcher_encoder := e\<rparr>) = running_milters l"
  "running_milters (l\<lparr>launcher_written := w\<rparr>) = running_milters l"
  "running_milters (l\<lparr>launcher_processes := ps\<rparr>) = map running_milter ps"
  "map running_milter (launcher_processes l) = running_milters l"
  "is_already_launched (l\<lparr>launcher_time := t\<rparr>) c = is_already_launched l c"
  by (simp_all add: running_milters_def is_already_launched_def)

lemma forget_ended:
  "forget pid (map running_milter ps) =
     map running_milter (case find (\<lambda>p. process_pid p = pid) ps of None \<Rightarrow> ps | Some p \<Rightarrow> remove1 p ps)"
proof (induction ps)
  case (Cons p ps)
  have "q \<noteq> p" if "find (\<lambda>p. process_pid p = pid) ps = Some q" "process_pid p \<noteq> pid" for q
    using that by (auto simp: find_Some_iff)
  with Cons.IH show ?case by (auto simp: running_milter_def split: option.splits)
qed simp

lemma launcher_step_answer:
  assumes "launcher_connected l"
    and "launch_answer sys (launcher_time l + 1) c (running_milters l) = (r, running)"
  shows "\<exists>l'. launcher_step sys (Launcher_command c) l = l' \<and> running_milters l' = running \<and>
     launcher_connected l' \<and> launcher_time l' = launcher_time l + 1 \<and>
     launcher_written l' = launcher_written l @ [frame (control_reply_packet r)]"
  using assms
  by (cases c) (auto simp: launcher_step_def cb_decoder_launch_def launch_def launch_answer_def Let_def
      already_launched_running launcher_write_def control_encoders encode_word_frame running_milter_def
      split: option.splits if_splits)

lemma child_ended_step:
  "running_milters (launcher_step sys (Launcher_child_ended pid) l) = forget pid (running_milters l)"
  "launcher_connected (launcher_step sys (Launcher_child_ended pid) l) = launcher_connected l"
  "launcher_time (launcher_step sys (Launcher_child_ended pid) l) = launcher_time l + 1"
  "launcher_written (launcher_step sys (Launcher_child_ended pid) l) = launcher_written l"
  using forget_ended [of pid "launcher_processes l"]
  by (auto simp: launcher_step_def child_watch_func_def Let_def split: option.splits)

lemma launcher_answers:
  assumes "launcher_connected l" and "launch_answers sys (launcher_time l) inputs (running_milters l) = (rs, running)"
  shows "running_milters (launcher_run sys inputs l) = running \<and>
    launcher_written (launcher_run sys inputs l) = launcher_written l @ map (frame \<circ> control_reply_packet) rs"
  using assms
proof (induction inputs arbitrary: l rs)
  case (Cons i inputs)
  show ?case
  proof (cases i)
    case (Launcher_command c)
    obtain r run1 where r: "launch_answer sys (launcher_time l + 1) c (running_milters l) = (r, run1)"
      by fastforce
    obtain rs1 where rs: "launch_answers sys (launcher_time l + 1) inputs run1 = (rs1, running)" "rs = r # rs1"
      using Cons.prems(2) r Launcher_command by (cases "launch_answers sys (launcher_time l + 1) inputs run1") auto
    from launcher_step_answer [OF Cons.prems(1) r] Cons.IH [of "launcher_step sys i l" rs1] rs Launcher_command
    show ?thesis by (simp add: launcher_run_def)
  next
    case (Launcher_child_ended pid)
    with Cons.prems Cons.IH [of "launcher_step sys i l" rs] show ?thesis
      by (simp add: launcher_run_def child_ended_step)
  qed
qed (simp add: launcher_run_def)

lemma launch_answer_no_configuration: "fst (launch_answer sys t c running) \<noteq> Control_configuration x"
  by (cases c) (simp add: launch_answer_def Let_def split: option.split)

lemma launch_answers_no_configuration:
  "r \<in> set (fst (launch_answers sys t inputs running)) \<Longrightarrow> r \<noteq> Control_configuration x"
proof (induction sys t inputs running rule: launch_answers.induct)
  case (2 sys t c inputs running)
  obtain r' run1 where r': "launch_answer sys (t + 1) c running = (r', run1)" by fastforce
  then have "r' \<noteq> Control_configuration x" using launch_answer_no_configuration by (metis fst_conv)
  with 2 r' show ?case by auto
qed simp_all

subsubsection \<open>The bytes against the specification\<close>

definition requests_in :: "launcher_input list \<Rightarrow> nat" where
  "requests_in inputs = length (filter (\<lambda>i. \<exists>c. i = Launcher_command c) inputs)"

lemma launch_answers_length: "length (fst (launch_answers sys t inputs running)) = requests_in inputs"
  by (induction sys t inputs running rule: launch_answers.induct)
    (auto simp: requests_in_def split: prod.split)

lemma still_to_come:
  assumes "in_step d rest ps"
  shows "length rest \<le> length (stream ps)"
    and "waiting d \<Longrightarrow> ps = p # qs \<Longrightarrow> length (stream qs) < length rest"
proof -
  show "length rest \<le> length (stream ps)"
    using assms by (auto simp: in_step_def stream_def frame_def split: decode_state.splits
        dest!: arg_cong [where f = length])
  show "length (stream qs) < length rest" if "waiting d" "ps = p # qs"
    using assms that by (auto simp: in_step_def waiting_def stream_def frame_def split: decode_state.splits
        dest!: arg_cong [where f = length])
qed

lemma dealt_with_split:
  assumes "rest \<noteq> [] \<Longrightarrow> length (concat (encode_launch_commands milter_encoder_new (tl rest))) < r"
    and "r \<le> length (concat (encode_launch_commands milter_encoder_new rest))"
  shows "dealt_with r (done @ rest) = (done, rest)"
proof (induction "done")
  case Nil
  show ?case using assms by (cases rest) simp_all
next
  case (Cons c cs)
  have "length (concat (encode_launch_commands milter_encoder_new rest)) \<le>
      length (concat (encode_launch_commands milter_encoder_new (cs @ rest)))"
    by (simp add: encode_launch_commands_stream stream_def)
  with Cons assms(2) show ?case by simp
qed

lemma launch_packets_map:
  "list_all2 (\<lambda>p c. wf_launch_command c \<and> p = launch_command_packet c) ps cs \<Longrightarrow>
     ps = map launch_command_packet cs"
  by (induction rule: list_all2_induct) simp_all

lemma launcher_loop_happenings:
  assumes "in_step d (arriving evs) (map launch_command_packet cs)" and "waiting d"
    and "\<forall>c \<in> set cs. wf_launch_command c"
  shows "launcher_loop sys evs d l = launcher_run sys (happenings evs cs) l \<and>
    requests_in (happenings evs cs) = length cs"
  using assms
proof (induction evs arbitrary: d cs l)
  case Nil
  from in_step_drained [of d "map launch_command_packet cs"] Nil(1,2) show ?case
    by (simp add: launcher_run_def requests_in_def)
next
  case (Cons ev evs)
  show ?case
  proof (cases ev)
    case (Arrives chunk)
    have "list_all2 (\<lambda>p c. wf_launch_command c \<and> p = launch_command_packet c) (map launch_command_packet cs) cs"
      using Cons.prems(3) by (simp add: list_all2_map1 list_all2_same)
    note packets = this
    have "in_step d (chunk @ arriving evs) (map launch_command_packet cs)" using Cons.prems(1) Arrives by simp
    from launch_commands.decode_in_step [OF this Cons.prems(2) packets] obtain d' ps' cs1 where *:
      "launch_commands.delivered (map launch_command_packet cs) cs (arriving evs) d' ps' cs1"
      "milter_decoder_decode decode_launch_command d chunk = Returned d' True None cs1" by blast
    then obtain cs2 where cs: "cs = cs1 @ cs2" "ps' = map launch_command_packet cs2"
      and d': "in_step d' (arriving evs) (map launch_command_packet cs2)" "waiting d'"
      using launch_packets_map by (auto simp: launch_commands.delivered_def)
    have "dealt_with (length (arriving evs)) (cs1 @ cs2) = (cs1, cs2)"
    proof (rule dealt_with_split)
      show "length (concat (encode_launch_commands milter_encoder_new (tl cs2))) < length (arriving evs)"
        if "cs2 \<noteq> []"
        using still_to_come(2) [OF d'] that by (cases cs2) (simp_all add: encode_launch_commands_stream)
      show "length (arriving evs) \<le> length (concat (encode_launch_commands milter_encoder_new cs2))"
        using still_to_come(1) [OF d'(1)] by (simp add: encode_launch_commands_stream)
    qed
    moreover have "launcher_loop sys evs d' k = launcher_run sys (happenings evs cs2) k \<and>
        requests_in (happenings evs cs2) = length cs2" for k
      using Cons.IH [OF d'] Cons.prems(3) cs(1) by simp
    ultimately show ?thesis using *(2) cs(1) Arrives
      by (simp add: cb_reader_flow_def launcher_run_def requests_in_def)
  next
    case (Process_ended pid)
    with Cons.prems Cons.IH [of d cs "launcher_step sys (Launcher_child_ended pid) l"] show ?thesis
      by (simp add: launcher_run_def requests_in_def)
  qed
qed

text \<open>
  C18: requests whose command lines and user names are non-empty C strings and whose packets are shorter
  than \<open>2 ^ 24\<close> bytes reach the launcher in whatever pieces, and between the pieces processes end in
  whatever order. As long as the answers are well formed, the manager reads exactly one answer for
  each request, in their order and however they are cut: a request that has arrived is refused if a
  milter with its command line is running by then, or with the reason if the system cannot start it,
  and is told success otherwise; and the milters that run in the end are the ones that were started and
  have not ended. (A request without a command line is never answered, nor is any after it:
  \<open>empty_request_unanswered\<close>.)
\<close>

theorem launcher_session:
  assumes "\<forall>c \<in> set cs. wf_launch_command c"
    and "arriving evs = concat (encode_launch_commands milter_encoder_new cs)"
    and "launch_answers sys 0 (happenings evs cs) [] = (replies, running)"
    and "\<forall>r \<in> set replies. wf_control_reply r"
    and "run_launcher sys evs (milter_manager_process_launcher_init cr) = l"
    and "concat chunks' = concat (launcher_written l)"
  shows "running_milters l = running \<and> length replies = length cs \<and>
    (\<exists>d. run_reader decode_manager_reply milter_decoder_new chunks' = Agent d replies [] \<and>
       dec_state d = IN_START \<and> dec_buffer d = [])"
proof -
  let ?init = "milter_manager_process_launcher_init cr"
  have "in_step milter_decoder_new (arriving evs) (map launch_command_packet cs)" "waiting milter_decoder_new"
    using in_step_new assms(2) by (simp_all add: encode_launch_commands_stream)
  from launcher_loop_happenings [OF this assms(1)]
  have l: "l = launcher_run sys (happenings evs cs) ?init" "requests_in (happenings evs cs) = length cs"
    using assms(5) by (auto simp: run_launcher_def)
  have "launcher_connected ?init"
    and "launch_answers sys (launcher_time ?init) (happenings evs cs) (running_milters ?init) = (replies, running)"
    using assms(3) by (simp_all add: milter_manager_process_launcher_init_def running_milters_def)
  from launcher_answers [OF this] have milters: "running_milters l = running"
    and written: "launcher_written l = map (frame \<circ> control_reply_packet) replies"
    by (simp_all add: l milter_manager_process_launcher_init_def)
  have "length replies = length cs"
    using launch_answers_length [of sys 0 "happenings evs cs" "[]"] assms(3) l(2) by simp
  moreover have "list_all2 manager_reply_valid (map control_reply_packet replies) replies"
    using assms(4) launch_answers_no_configuration [of _ sys 0 "happenings evs cs" "[]"] assms(3)
    by (auto simp: list_all2_map1 list_all2_same manager_reply_valid_def)
  moreover from written assms(6) have "concat chunks' = stream (map control_reply_packet replies)"
    by (simp add: stream_def)
  ultimately show ?thesis using manager_replies.chunked_stream milters by blast
qed

definition sample_system :: process_system where
  "sample_system =
     \<lparr>sys_getpwnam = \<lambda>u. if u = ''milter'' then Some \<lparr>pw_name = u, pw_uid = 101, pw_gid = 101\<rparr> else None,
      sys_parse_argv = \<lambda>c. Some [c],
      sys_spawn = \<lambda>t argv. Some (int t + 1000),
      sys_setgid = \<lambda>g. g = 101,
      sys_initgroups = \<lambda>u g. None,
      sys_setuid = \<lambda>u. True,
      sys_message = \<lambda>e c u. ''cannot launch '' @ c\<rparr>"

text \<open>The first milter ends between two pieces of the request that names it again.\<close>

theorem launcher_session_witness:
  "\<exists>evs l d. arriving evs = concat (encode_launch_commands milter_encoder_new
       [Launch_launch ''a'' (Some ''milter''), Launch_launch ''b'' (Some ''x''), Launch_launch ''a'' None]) \<and>
     run_launcher sample_system evs
       (milter_manager_process_launcher_init \<lparr>cred_uid = 0, cred_gid = 0, cred_groups = []\<rparr>) = l \<and>
     running_milters l = [(1004, ''a'')] \<and>
     run_reader decode_manager_reply milter_decoder_new [concat (launcher_written l)] =
       Agent d [Manager_success, Manager_error ''cannot launch b'', Manager_success] [] \<and>
     dec_state d = IN_START \<and> dec_buffer d = []"
proof -
  let ?cs = "[Launch_launch ''a'' (Some ''milter''), Launch_launch ''b'' (Some ''x''), Launch_launch ''a'' None]"
  let ?rs = "[Manager_success, Manager_error ''cannot launch b'', Manager_success]"
  let ?s = "concat (encode_launch_commands milter_encoder_new ?cs)"
  let ?n = "length (concat (encode_launch_commands milter_encoder_new (take 2 ?cs))) + 3"
  let ?evs = "[Arrives (take ?n ?s), Process_ended 1001, Arrives (drop ?n ?s)]"
  let ?cr = "\<lparr>cred_uid = 0, cred_gid = 0, cred_groups = []\<rparr>"
  have lengths: "length (concat (encode_launch_commands milter_encoder_new cs)) =
      sum_list (map (\<lambda>c. 4 + length (launch_command_packet c)) cs)" for cs
    unfolding encode_launch_commands_stream by (induction cs) (simp_all add: stream_def frame_def)
  have packets: "length (launch_command_packet (?cs ! i)) = [15, 10, 9] ! i" if "i < 3" for i
    using that by (auto simp: word_packet_def protocol_words less_Suc_eq numeral_3_eq_3)
  have "happenings ?evs ?cs = [Launcher_command (?cs ! 0), Launcher_command (?cs ! 1),
      Launcher_child_ended 1001, Launcher_command (?cs ! 2)]"
    using packets [of 0] packets [of 1] packets [of 2] by (simp add: lengths del: encode_launch_commands.simps launch_command_packet.simps)
  then have "launch_answers sample_system 0 (happenings ?evs ?cs) [] = (?rs, [(1004, ''a'')])"
    by (simp only:) (simp add: sample_system_def launch_answer_def)
  moreover have "\<forall>c \<in> set ?cs. wf_launch_command c" "\<forall>r \<in> set ?rs. wf_control_reply r"
    by (simp_all add: wf_launch_command_def wf_control_reply_def word_packet_def protocol_words)
  moreover have "arriving ?evs = ?s" by (simp del: encode_launch_commands.simps)
  ultimately show ?thesis
    using launcher_session [of ?cs ?evs sample_system ?rs "[(1004, ''a'')]" ?cr
        "run_launcher sample_system ?evs (milter_manager_process_launcher_init ?cr)"
        "[concat (launcher_written (run_launcher sample_system ?evs (milter_manager_process_launcher_init ?cr)))]"]
    by (intro exI [of _ ?evs]) simp
qed

text \<open>
  A request with an empty command line is refused without an error: it is not answered, and
  whatever arrives after it is not read.
\<close>

lemma loop_in_error:
  "dec_state d = IN_ERROR \<Longrightarrow> launcher_written (launcher_loop sys evs d l) = launcher_written l"
proof (induction evs arbitrary: d l)
  case (Cons ev evs)
  then show ?case
    by (cases ev) (auto simp: cb_reader_flow_def decode_in_error launcher_run_def child_ended_step)
qed simp

theorem empty_request_unanswered:
  fixes user_name :: "bytes option"
  defines "p \<equiv> launch_command_packet (Launch_launch [] user_name)"
  assumes "length p < 2 ^ 24"
  shows "launcher_written (run_launcher sys (Arrives (frame p) # evs) l) = launcher_written l"
proof -
  let ?n = "int (length p)"
  let ?d = "\<lparr>dec_state = IN_COMMAND_CONTENT, dec_buffer = p, dec_command_length = ?n, dec_tag = 0\<rparr>"
  let ?rest = "[NUL] @ (case user_name of None \<Rightarrow> [] | Some u \<Rightarrow> u)"
  have "milter_decoder_decode_null_terminated_value (?rest @ [NUL]) (int (length ?rest)) = Ok 0"
    using terminated_value_Ok [of "[]" "int (length ?rest)" "(case user_name of None \<Rightarrow> [] | Some u \<Rightarrow> u) @ [NUL]"]
    by simp
  then have "decode_launch (?rest @ [NUL]) (int (length ?rest)) = Refused None"
    by (simp add: decode_launch_def)
  then have h: "decode_launch_command p ?n = Refused None"
    using decode_word_packet [of MILTER_MANAGER_LAUNCH_COMMAND_LAUNCH
        "\<lambda>word content len. if word = MILTER_MANAGER_LAUNCH_COMMAND_LAUNCH then decode_launch content len
           else Refused (Some UNEXPECTED_COMMAND)" ?rest "[]"]
    by (simp add: p_def decode_launch_command_def)
  have "milter_decoder_decode decode_launch_command milter_decoder_new (frame p) =
      decode_loop decode_launch_command ?d None []"
    using command_length_of_frame [OF assms(2)]
    by (simp add: milter_decoder_decode_def milter_decoder_new_def loop_start loop_length frame_def)
  also have "\<dots> = Returned (?d\<lparr>dec_state := IN_ERROR\<rparr>) False None []"
    by (subst loop_content) (simp_all add: h)
  finally show ?thesis
    by (simp add: run_launcher_def cb_reader_flow_def loop_in_error launcher_run_def)
qed

theorem empty_request_unanswered_witness:
  "launcher_written (run_launcher sample_system
     [Arrives (frame (launch_command_packet (Launch_launch [] None))),
      Arrives (frame (launch_command_packet (Launch_launch ''a'' None)))]
     (milter_manager_process_launcher_init cr)) = []"
  using empty_request_unanswered [of None sample_system
      "[Arrives (frame (launch_command_packet (Launch_launch ''a'' None)))]"
      "milter_manager_process_launcher_init cr"]
  by (simp add: word_packet_def protocol_words milter_manager_process_launcher_init_def)

subsection \<open>Whose milter it is\<close>

text \<open>
  A milter that is to run as another user and whose groups cannot be set runs with the
  launcher's own user, and the manager is told that it was launched.
\<close>

theorem launch_keeps_privileges:
  assumes "\<not> is_already_launched l command_line" and "sys_getpwnam sys user_name = Some p"
    and "sys_parse_argv sys command_line = Some argv" and "sys_spawn sys (launcher_time l) argv = Some pid"
    and "\<not> sys_setgid sys (pw_gid p) \<or> sys_initgroups sys (pw_name p) (pw_gid p) = None \<or>
      \<not> sys_setuid sys (pw_uid p)"
  shows "\<exists>q. launch sys l command_line (Some user_name) =
      (None, l\<lparr>launcher_processes := q # launcher_processes l\<rparr>) \<and>
    process_user_name q = Some user_name \<and>
    cred_uid (process_credentials q) = cred_uid (launcher_credentials l)"
  using assms by (auto simp: launch_def setup_child_def Let_def split: option.splits)

theorem launch_keeps_privileges_witness:
  "\<exists>q. launch sample_system
      (milter_manager_process_launcher_init \<lparr>cred_uid = 0, cred_gid = 0, cred_groups = []\<rparr>)
      ''m'' (Some ''milter'') = (None, (milter_manager_process_launcher_init
        \<lparr>cred_uid = 0, cred_gid = 0, cred_groups = []\<rparr>)\<lparr>launcher_processes := [q]\<rparr>) \<and>
    process_user_name q = Some ''milter'' \<and> cred_uid (process_credentials q) = 0"
  using launch_keeps_privileges [of "milter_manager_process_launcher_init
      \<lparr>cred_uid = 0, cred_gid = 0, cred_groups = []\<rparr>" "''m''" sample_system "''milter''"
      "\<lparr>pw_name = ''milter'', pw_uid = 101, pw_gid = 101\<rparr>" "[''m'']" 1000]
  by (simp add: sample_system_def milter_manager_process_launcher_init_def is_already_launched_def)

end
