(* ===== verification/Esmtp.thy ===== *)
theory Esmtp
  imports Prelude
begin

text \<open>
  \<open>milter/core/milter-esmtp.c\<close>: the arguments of MAIL FROM and RCPT TO, a path and ESMTP
  parameters. The parsers take the memory at \<open>argument + index\<close> and return the position
  they have come to, relative to it; the memory of an argument ends with its NUL.
\<close>

subsection \<open>Characters\<close>

definition g_ascii_isalnum :: "char \<Rightarrow> bool" where
  "g_ascii_isalnum c \<longleftrightarrow> (let n = of_char c :: nat in
     48 \<le> n \<and> n \<le> 57 \<or> 65 \<le> n \<and> n \<le> 90 \<or> 97 \<le> n \<and> n \<le> 122)"

definition g_ascii_isspace :: "char \<Rightarrow> bool" where
  "g_ascii_isspace c \<longleftrightarrow> (of_char c :: nat) \<in> {9, 10, 12, 13, 32}"

definition g_ascii_iscntrl :: "char \<Rightarrow> bool" where
  "g_ascii_iscntrl c \<longleftrightarrow> (of_char c :: nat) < 32 \<or> (of_char c :: nat) = 127"

definition g_ascii_isgraph :: "char \<Rightarrow> bool" where
  "g_ascii_isgraph c \<longleftrightarrow> 33 \<le> (of_char c :: nat) \<and> (of_char c :: nat) \<le> 126"

definition IS_ATOM_TEXT :: "char \<Rightarrow> bool" where
  "IS_ATOM_TEXT c \<longleftrightarrow> g_ascii_isalnum c \<or> (let n = of_char c :: nat in
     n = 33 \<or> 35 \<le> n \<and> n \<le> 39 \<or> n = 42 \<or> n = 43 \<or> n = 45 \<or> n = 47 \<or> n = 61 \<or> n = 63 \<or>
     94 \<le> n \<and> n \<le> 96 \<or> 123 \<le> n \<and> n \<le> 126)"

text \<open>A \<open>gchar\<close> from 128 on is negative.\<close>

definition IS_TEXT :: "char \<Rightarrow> bool" where
  "IS_TEXT c \<longleftrightarrow> (let n = of_char c :: nat in
     1 \<le> n \<and> n \<le> 9 \<or> n = 11 \<or> n = 12 \<or> 14 \<le> n \<and> n \<le> 126)"

lemmas character_classes = g_ascii_isalnum_def g_ascii_isspace_def g_ascii_iscntrl_def
  g_ascii_isgraph_def IS_ATOM_TEXT_def IS_TEXT_def

subsection \<open>Loops\<close>

fun scan_while :: "(char \<Rightarrow> bool) \<Rightarrow> bytes \<Rightarrow> nat result" where
  "scan_while P [] = Fault Overread"
| "scan_while P (c # p) = (if P c then bind_result (scan_while P p) (\<lambda>n. Ok (Suc n)) else Ok 0)"

lemma drop_eq_Cons_length: "drop n p = c # q \<Longrightarrow> length q < length p"
  by (metis Suc_le_lessD diff_le_self length_Cons length_drop)

text \<open>The \<open>do ... while\<close> over the dots, after the index has been incremented.\<close>

function scan_dotted :: "(char \<Rightarrow> bool) \<Rightarrow> bytes \<Rightarrow> nat result" where
  "scan_dotted P p =
     (case scan_while P p of
        Ok n \<Rightarrow>
          (case drop n p of
             [] \<Rightarrow> Fault Overread
           | c # q \<Rightarrow> if c = CHR ''.'' then bind_result (scan_dotted P q) (\<lambda>k. Ok (n + 1 + k)) else Ok n)
      | Refused e \<Rightarrow> Refused e
      | Fault f \<Rightarrow> Fault f)"
  by pat_completeness auto
termination
proof (relation "measure (length \<circ> snd)")
  fix p :: bytes and n c q assume "drop n p = c # q"
  then show "((P, q), P, p) \<in> measure (length \<circ> snd)" for P :: "char \<Rightarrow> bool"
    by (simp add: drop_eq_Cons_length)
qed simp

declare scan_dotted.simps [simp del]

text \<open>
  The loop inside brackets or quotes. NUL is a control character, so it does not stop at
  the end of the argument.
\<close>

fun scan_quoted :: "(char \<Rightarrow> bool) \<Rightarrow> bytes \<Rightarrow> nat result" where
  "scan_quoted stop [] = Fault Overread"
| "scan_quoted stop (c # p) =
     (if stop c then Ok 0
      else if c = CHR 0x5C
      then (case p of
              [] \<Rightarrow> Fault Overread
            | d # q \<Rightarrow>
                if IS_TEXT d then bind_result (scan_quoted stop q) (\<lambda>n. Ok (n + 2))
                else Refused (Some INVALID_FORMAT))
      else if g_ascii_isspace c then Ok 0
      else if g_ascii_iscntrl c \<or> g_ascii_isgraph c
      then bind_result (scan_quoted stop p) (\<lambda>n. Ok (Suc n))
      else Ok 0)"

definition closed_by :: "char \<Rightarrow> bytes \<Rightarrow> nat \<Rightarrow> nat result" where
  "closed_by close p n =
     (case drop n p of
        [] \<Rightarrow> Fault Overread
      | c # _ \<Rightarrow> if c = close then Ok (n + 2) else Refused (Some INVALID_FORMAT))"

subsection \<open>Paths\<close>

abbreviation domain_text :: "char \<Rightarrow> bool" where
  "domain_text c \<equiv> g_ascii_isalnum c \<or> c = CHR ''-''"

definition parse_domain :: "bytes \<Rightarrow> nat result" where
  "parse_domain domain =
     (case domain of
        [] \<Rightarrow> Fault Overread
      | c # p \<Rightarrow>
          if c = CHR ''[''
          then bind_result (scan_quoted (\<lambda>c. c = CHR ''['' \<or> c = CHR '']'') p) (closed_by (CHR '']'') p)
          else if \<not> g_ascii_isalnum c then Refused (Some INVALID_FORMAT)
          else bind_result (scan_dotted domain_text p) (\<lambda>n. Ok (Suc n)))"

function parse_source_route :: "bytes \<Rightarrow> nat result" where
  "parse_source_route source_route =
     (case source_route of
        [] \<Rightarrow> Fault Overread
      | c # p \<Rightarrow>
          if c \<noteq> CHR ''@'' then Ok 0
          else
            (case parse_domain p of
               Ok n \<Rightarrow>
                 (case drop n p of
                    [] \<Rightarrow> Fault Overread
                  | d # q \<Rightarrow>
                      if d = CHR '','' then bind_result (parse_source_route q) (\<lambda>k. Ok (n + 2 + k))
                      else Ok (n + 1))
             | Refused e \<Rightarrow> Refused e
             | Fault f \<Rightarrow> Fault f))"
  by pat_completeness auto
termination
proof (relation "measure length")
  fix p :: bytes and source_route c n d q assume "source_route = c # p" and "drop n p = d # q"
  then show "(q, source_route) \<in> measure length"
    by (simp add: drop_eq_Cons_length less_SucI)
qed simp

declare parse_source_route.simps [simp del]

definition parse_local_part :: "bytes \<Rightarrow> nat result" where
  "parse_local_part local_part =
     (case local_part of
        [] \<Rightarrow> Fault Overread
      | c # p \<Rightarrow>
          if c = CHR 0x22
          then bind_result (scan_quoted (\<lambda>c. c = CHR 0x22) p) (closed_by (CHR 0x22) p)
          else scan_dotted IS_ATOM_TEXT local_part)"

definition parse_mailbox :: "bytes \<Rightarrow> nat result" where
  "parse_mailbox argument =
     bind_result (parse_local_part argument) (\<lambda>n.
       case drop n argument of
         [] \<Rightarrow> Fault Overread
       | c # p \<Rightarrow>
           if c \<noteq> CHR ''@'' then Refused (Some INVALID_FORMAT)
           else
             (case p of
                [] \<Rightarrow> Fault Overread
              | d # q \<Rightarrow>
                  if d = NUL then Refused (Some INVALID_FORMAT)
                  else
                    (case q of
                       [] \<Rightarrow> Fault Overread
                     | e # _ \<Rightarrow>
                         if e = NUL then Refused (Some INVALID_FORMAT)
                         else bind_result (parse_domain p) (\<lambda>k. Ok (n + 1 + k)))))"

definition postmaster_path :: bytes where "postmaster_path = ''<Postmaster>''"

text \<open>The part between the brackets: an optional source route and a mailbox.\<close>

definition parse_path_content :: "bytes \<Rightarrow> nat result" where
  "parse_path_content p =
     bind_result (parse_source_route p) (\<lambda>r.
     bind_result
       (if r = 0 then Ok 0
        else case drop r p of
               [] \<Rightarrow> Fault Overread
             | c # _ \<Rightarrow> if c = CHR '':'' then Ok (r + 1) else Refused (Some INVALID_FORMAT)) (\<lambda>i.
     bind_result (parse_mailbox (drop i p)) (\<lambda>k. Ok (i + k))))"

definition parse_path :: "bool \<Rightarrow> bytes \<Rightarrow> (nat \<times> bytes option) result" where
  "parse_path accept_postmaster_path path =
     (case path of
        [] \<Rightarrow> Fault Overread
      | c # p \<Rightarrow>
          if c \<noteq> CHR ''<'' then Ok (0, None)
          else
            (case p of
               [] \<Rightarrow> Fault Overread
             | d # _ \<Rightarrow>
                 if d = CHR ''>'' then Ok (2, None)
                 else if accept_postmaster_path \<and> take (length postmaster_path) path = postmaster_path
                 then Ok (length postmaster_path, Some postmaster_path)
                 else bind_result (parse_path_content p) (\<lambda>i.
                        case drop i p of
                          [] \<Rightarrow> Fault Overread
                        | e # _ \<Rightarrow>
                            if e = CHR ''>'' then Ok (i + 2, Some (take (i + 2) path))
                            else Refused (Some INVALID_FORMAT))))"

subsection \<open>Parameters\<close>

text \<open>
  The caller's hash table. The strings of an entry may have been freed: \<open>merge_parameters\<close>
  copies the pointers of a table that is released afterwards.
\<close>

datatype esmtp_parameter = Parameter "bytes option" | Freed_parameter

type_synonym esmtp_parameters = "bytes \<Rightarrow> esmtp_parameter option"

definition parse_parameter :: "bytes \<Rightarrow> (nat \<times> bytes \<times> bytes option) result" where
  "parse_parameter keyword =
     (case keyword of
        [] \<Rightarrow> Fault Overread
      | c # p \<Rightarrow>
          if c = NUL \<or> \<not> g_ascii_isalnum c then Refused (Some INVALID_FORMAT)
          else bind_result (scan_while domain_text p) (\<lambda>n.
            let keyword_length = n + 1
            in case drop keyword_length keyword of
                 [] \<Rightarrow> Fault Overread
               | d # value \<Rightarrow>
                   if d = CHR ''=''
                   then bind_result (scan_while (\<lambda>c. g_ascii_isgraph c \<and> c \<noteq> CHR ''='') value) (\<lambda>j.
                          Ok (keyword_length + 1 + j, take keyword_length keyword, Some (take j value)))
                   else Ok (keyword_length, take keyword_length keyword, None)))"

function parse_parameters ::
    "bytes \<Rightarrow> esmtp_parameters option \<Rightarrow> (nat \<times> esmtp_parameters option) result" where
  "parse_parameters argument parameters =
     (case argument of
        [] \<Rightarrow> Fault Overread
      | c # p \<Rightarrow>
          if c \<noteq> CHR '' '' then Ok (0, parameters)
          else
            (case parse_parameter p of
               Ok (i, keyword, value) \<Rightarrow>
                 bind_result (parse_parameters (drop i p)
                     (Some ((case parameters of None \<Rightarrow> Map.empty | Some t \<Rightarrow> t)
                        (keyword \<mapsto> Parameter value)))) (\<lambda>(k, t). Ok (i + 1 + k, t))
             | Refused e \<Rightarrow> Refused e
             | Fault f \<Rightarrow> Fault f))"
  by pat_completeness auto
termination by (relation "measure (length \<circ> fst)") auto

declare parse_parameters.simps [simp del]

definition merge_parameters :: "esmtp_parameters \<Rightarrow> esmtp_parameters \<Rightarrow> esmtp_parameters" where
  "merge_parameters destination source =
     (\<lambda>k. if source k = None then destination k else Some Freed_parameter)"

definition store_parameters ::
    "esmtp_parameters option option \<Rightarrow> esmtp_parameters option \<Rightarrow> esmtp_parameters option option" where
  "store_parameters parameters parsed =
     (case parameters of
        None \<Rightarrow> None
      | Some None \<Rightarrow> Some parsed
      | Some (Some t) \<Rightarrow> Some (Some (case parsed of None \<Rightarrow> t | Some p \<Rightarrow> merge_parameters t p)))"

text \<open>
  \<open>want_path\<close> is \<open>path != NULL\<close>; \<open>parameters\<close> is \<open>None\<close> for a \<open>NULL\<close> pointer and else what
  it points at. The result is what \<open>*path\<close> is set to, if it is set, and the final
  \<open>*parameters\<close>.
\<close>

definition milter_esmtp_parse_envelope_command_argument ::
    "bool \<Rightarrow> bytes option \<Rightarrow> bool \<Rightarrow> esmtp_parameters option option \<Rightarrow>
     (bytes option \<times> esmtp_parameters option option) result" where
  "milter_esmtp_parse_envelope_command_argument accept_postmaster_path argument want_path parameters =
     (case argument of
        None \<Rightarrow> Refused (Some INVALID_FORMAT)
      | Some s \<Rightarrow>
          let m = s @ [NUL]
          in if hd m \<noteq> CHR ''<'' then Refused (Some INVALID_FORMAT)
             else bind_result (parse_path accept_postmaster_path m) (\<lambda>(i, path).
                  bind_result (parse_parameters (drop i m) None) (\<lambda>(k, parsed).
                    if hd (drop (i + k) m) \<noteq> NUL then Refused (Some INVALID_FORMAT)
                    else Ok (if want_path then path else None, store_parameters parameters parsed))))"

definition milter_esmtp_parse_mail_from_argument ::
    "bytes option \<Rightarrow> bool \<Rightarrow> esmtp_parameters option option \<Rightarrow>
     (bytes option \<times> esmtp_parameters option option) result" where
  "milter_esmtp_parse_mail_from_argument = milter_esmtp_parse_envelope_command_argument False"

definition milter_esmtp_parse_rcpt_to_argument ::
    "bytes option \<Rightarrow> bool \<Rightarrow> esmtp_parameters option option \<Rightarrow>
     (bytes option \<times> esmtp_parameters option option) result" where
  "milter_esmtp_parse_rcpt_to_argument = milter_esmtp_parse_envelope_command_argument True"

end
