(* ===== verification/Esmtp_Spec.thy ===== *)
theory Esmtp_Spec
  imports Esmtp
begin

text \<open>
  The language the ESMTP parsers accept, as a grammar, and that they accept it: every
  argument of the grammar is parsed to its path and its parameters, and no other is.
\<close>

subsection \<open>Grammar\<close>

definition domain_name :: "bytes \<Rightarrow> bool" where
  "domain_name s \<longleftrightarrow> s \<noteq> [] \<and> g_ascii_isalnum (hd s) \<and> (\<forall>c \<in> set s. domain_text c \<or> c = CHR ''.'')"

fun quoted_text :: "(char \<Rightarrow> bool) \<Rightarrow> bytes \<Rightarrow> bool" where
  "quoted_text stop [] = True"
| "quoted_text stop (c # s) =
     (\<not> stop c \<and>
      (if c = CHR 0x5C then (case s of [] \<Rightarrow> False | d # t \<Rightarrow> IS_TEXT d \<and> quoted_text stop t)
       else \<not> g_ascii_isspace c \<and> (g_ascii_iscntrl c \<or> g_ascii_isgraph c) \<and> quoted_text stop s))"

inductive esmtp_domain :: "bytes \<Rightarrow> bool" where
  name: "domain_name s \<Longrightarrow> esmtp_domain s"
| literal: "quoted_text (\<lambda>c. c = CHR ''['' \<or> c = CHR '']'') t \<Longrightarrow> esmtp_domain (CHR ''['' # t @ '']'')"

inductive esmtp_local_part :: "bytes \<Rightarrow> bool" where
  dotted: "\<forall>c \<in> set s. IS_ATOM_TEXT c \<or> c = CHR ''.'' \<Longrightarrow> esmtp_local_part s"
| quoted: "quoted_text (\<lambda>c. c = CHR 0x22) t \<Longrightarrow> esmtp_local_part (CHR 0x22 # t @ [CHR 0x22])"

inductive esmtp_source_route :: "bytes \<Rightarrow> bool" where
  no_route: "esmtp_source_route []"
| last_host: "esmtp_domain d \<Longrightarrow> esmtp_source_route (CHR ''@'' # d)"
| more_hosts: "esmtp_domain d \<Longrightarrow> esmtp_source_route r \<Longrightarrow> esmtp_source_route (CHR ''@'' # d @ CHR '','' # r)"

inductive esmtp_mailbox :: "bytes \<Rightarrow> bool" where
  mailbox: "esmtp_local_part l \<Longrightarrow> esmtp_domain d \<Longrightarrow> esmtp_mailbox (l @ CHR ''@'' # d)"

inductive esmtp_path :: "bool \<Rightarrow> bytes \<Rightarrow> bytes option \<Rightarrow> bool" for accept_postmaster where
  empty_path: "esmtp_path accept_postmaster ''<>'' None"
| postmaster: "accept_postmaster \<Longrightarrow> esmtp_path accept_postmaster postmaster_path (Some postmaster_path)"
| direct: "esmtp_mailbox m \<Longrightarrow> hd m \<noteq> CHR ''@'' \<Longrightarrow> p = CHR ''<'' # m @ ''>'' \<Longrightarrow>
    esmtp_path accept_postmaster p (Some p)"
| routed: "esmtp_source_route r \<Longrightarrow> r \<noteq> [] \<Longrightarrow> esmtp_mailbox m \<Longrightarrow> p = CHR ''<'' # r @ CHR '':'' # m @ ''>'' \<Longrightarrow>
    esmtp_path accept_postmaster p (Some p)"

fun parameter_text :: "bytes \<times> bytes option \<Rightarrow> bytes" where
  "parameter_text (k, None) = CHR '' '' # k"
| "parameter_text (k, Some v) = CHR '' '' # k @ CHR ''='' # v"

fun wf_parameter :: "bytes \<times> bytes option \<Rightarrow> bool" where
  "wf_parameter (k, v) \<longleftrightarrow> k \<noteq> [] \<and> g_ascii_isalnum (hd k) \<and> (\<forall>c \<in> set k. domain_text c) \<and>
     (\<forall>c \<in> set (case v of None \<Rightarrow> [] | Some v \<Rightarrow> v). g_ascii_isgraph c \<and> c \<noteq> CHR ''='')"

text \<open>A parameter given twice has the value given last.\<close>

fun parameter_table :: "(bytes \<times> bytes option) list \<Rightarrow> esmtp_parameters option \<Rightarrow> esmtp_parameters option" where
  "parameter_table [] t = t"
| "parameter_table ((k, v) # ps) t =
     parameter_table ps (Some ((case t of None \<Rightarrow> Map.empty | Some t \<Rightarrow> t)(k \<mapsto> Parameter v)))"

definition esmtp_argument ::
    "bool \<Rightarrow> bytes \<Rightarrow> bytes option \<Rightarrow> (bytes \<times> bytes option) list \<Rightarrow> bool" where
  "esmtp_argument accept_postmaster s path ps \<longleftrightarrow>
     (\<exists>p. esmtp_path accept_postmaster p path \<and> (\<forall>x \<in> set ps. wf_parameter x) \<and>
        s = p @ concat (map parameter_text ps))"

subsection \<open>Loops\<close>

lemma bind_result_assoc: "bind_result (bind_result r f) g = bind_result r (\<lambda>x. bind_result (f x) g)"
  by (cases r) simp_all

lemma scan_dotted_Cons:
  "scan_dotted P (c # p) =
     (if P c \<or> c = CHR ''.'' then bind_result (scan_dotted P p) (\<lambda>n. Ok (Suc n)) else Ok 0)"
proof (cases "P c")
  case True
  then show ?thesis
    by (cases "scan_while P p") (simp_all add: scan_dotted.simps [of P "c # p"] scan_dotted.simps [of P p]
        bind_result_assoc split: list.split result.split)
qed (simp add: scan_dotted.simps [of P "c # p"])

lemma scan_dotted_eq: "scan_dotted P p = scan_while (\<lambda>c. P c \<or> c = CHR ''.'') p"
  by (induction p) (simp_all add: scan_dotted_Cons scan_dotted.simps [of P "[]"])

lemma scan_while_stops:
  "\<forall>c \<in> set a. P c \<Longrightarrow> \<not> P d \<Longrightarrow> scan_while P (a @ d # r) = Ok (length a)"
  by (induction a) simp_all

lemma scan_while_sound:
  assumes "scan_while P (t @ [NUL]) = Ok n" and "\<not> P NUL"
  shows "n \<le> length t \<and> (\<forall>c \<in> set (take n t). P c)"
  using assms by (induction t arbitrary: n) (auto split: if_splits)

lemma scan_quoted_stops:
  assumes "quoted_text stop t" and "stop d"
  shows "scan_quoted stop (t @ d # r) = Ok (length t)"
  using assms by (induction stop t rule: quoted_text.induct) (auto split: list.splits)

lemma scan_quoted_sound:
  assumes "scan_quoted stop (t @ [NUL]) = Ok n" and "c_string t" and "\<not> stop NUL"
  shows "n \<le> length t \<and> quoted_text stop (take n t)"
  using assms
proof (induction stop t arbitrary: n rule: quoted_text.induct)
  case (1 stop)
  then show ?case by (simp add: character_classes)
next
  case (2 stop c s)
  then show ?case by (cases s) (auto split: if_splits simp: IS_TEXT_def)
qed

subsection \<open>Paths\<close>

lemma parse_domain_stops:
  assumes "esmtp_domain d" and "\<not> domain_text e" and "e \<noteq> CHR ''.''"
  shows "parse_domain (d @ e # r) = Ok (length d)"
  using assms(1)
proof cases
  case name
  then obtain c s where d: "d = c # s" "g_ascii_isalnum c" "\<forall>c \<in> set s. domain_text c \<or> c = CHR ''.''"
    by (cases d) (auto simp: domain_name_def)
  then have "c \<noteq> CHR ''[''" by (auto simp: character_classes)
  with d assms(2,3) show ?thesis by (simp add: parse_domain_def scan_dotted_eq scan_while_stops)
next
  case (literal t)
  then show ?thesis by (simp add: parse_domain_def scan_quoted_stops closed_by_def)
qed

lemma parse_domain_sound:
  assumes "parse_domain (t @ [NUL]) = Ok n" and "c_string t"
  shows "n \<le> length t \<and> esmtp_domain (take n t)"
proof (cases t)
  case (Cons c s)
  show ?thesis
  proof (cases "c = CHR ''[''")
    case True
    with assms Cons obtain k where k: "scan_quoted (\<lambda>c. c = CHR ''['' \<or> c = CHR '']'') (s @ [NUL]) = Ok k"
      and close: "closed_by (CHR '']'') (s @ [NUL]) k = Ok n"
      by (auto simp: parse_domain_def)
    from k assms(2) Cons have s: "k \<le> length s" "quoted_text (\<lambda>c. c = CHR ''['' \<or> c = CHR '']'') (take k s)"
      by (auto dest: scan_quoted_sound)
    from close s(1) obtain q where n: "n = k + 2" and q: "drop k s = CHR '']'' # q"
      by (cases "drop k s") (auto simp: closed_by_def split: if_splits)
    then have "take (Suc k) s = take k s @ '']''"
      by (metis append_take_drop_id drop_eq_Nil linorder_not_less list.distinct(1) nth_via_drop s(1) take_Suc_conv_app_nth)
    moreover have "k < length s" using q by (metis drop_eq_Nil linorder_not_less list.distinct(1))
    ultimately show ?thesis using literal [OF s(2)] by (simp add: Cons True n)
  next
    case False
    with assms Cons have alnum: "g_ascii_isalnum c"
      and n: "\<exists>k. scan_while (\<lambda>c. domain_text c \<or> c = CHR ''.'') (s @ [NUL]) = Ok k \<and> n = Suc k"
      by (auto simp: parse_domain_def scan_dotted_eq split: if_splits)
    from n obtain k where "k \<le> length s" "\<forall>c \<in> set (take k s). domain_text c \<or> c = CHR ''.''" "n = Suc k"
      by (auto dest!: scan_while_sound simp: character_classes)
    with alnum show ?thesis by (auto simp: Cons domain_name_def intro!: name)
  qed
qed (use assms in \<open>simp add: parse_domain_def character_classes\<close>)

lemma domain_not_Nil: "esmtp_domain d \<Longrightarrow> d \<noteq> []"
  by (auto elim: esmtp_domain.cases simp: domain_name_def)

lemma parse_local_part_stops:
  assumes "esmtp_local_part l"
  shows "parse_local_part (l @ CHR ''@'' # r) = Ok (length l)"
  using assms
proof cases
  case dotted
  have at: "\<not> IS_ATOM_TEXT (CHR ''@'')" by (simp add: character_classes)
  have "hd (l @ CHR ''@'' # r) \<noteq> CHR 0x22"
    using dotted by (cases l) (auto simp: character_classes)
  with dotted at scan_while_stops [of l "\<lambda>c. IS_ATOM_TEXT c \<or> c = CHR ''.''" "CHR ''@''" r]
  show ?thesis by (cases l) (simp_all add: parse_local_part_def scan_dotted_eq)
next
  case (quoted t)
  then show ?thesis by (simp add: parse_local_part_def scan_quoted_stops closed_by_def)
qed

lemma parse_local_part_sound:
  assumes "parse_local_part (t @ [NUL]) = Ok n" and "c_string t"
  shows "n \<le> length t \<and> esmtp_local_part (take n t)"
proof (cases "t \<noteq> [] \<and> hd t = CHR 0x22")
  case True
  then obtain s where t: "t = CHR 0x22 # s" by (cases t) auto
  with assms obtain k where k: "scan_quoted (\<lambda>c. c = CHR 0x22) (s @ [NUL]) = Ok k"
    and close: "closed_by (CHR 0x22) (s @ [NUL]) k = Ok n"
    by (auto simp: parse_local_part_def)
  from k assms(2) t have s: "k \<le> length s" "quoted_text (\<lambda>c. c = CHR 0x22) (take k s)"
    by (auto dest: scan_quoted_sound)
  from close s(1) obtain q where n: "n = k + 2" and q: "drop k s = CHR 0x22 # q"
    by (cases "drop k s") (auto simp: closed_by_def split: if_splits)
  have "k < length s" using q by (metis drop_eq_Nil linorder_not_less list.distinct(1))
  then have "take (Suc k) s = take k s @ [CHR 0x22]"
    using q by (simp add: take_Suc_conv_app_nth nth_via_drop)
  with \<open>k < length s\<close> quoted [OF s(2)] show ?thesis by (simp add: t n)
next
  case False
  with assms have "scan_while (\<lambda>c. IS_ATOM_TEXT c \<or> c = CHR ''.'') (t @ [NUL]) = Ok n"
    by (cases t) (auto simp: parse_local_part_def scan_dotted_eq)
  then show ?thesis by (auto dest!: scan_while_sound simp: character_classes intro!: dotted)
qed

lemma domain_stoppers [simp]:
  "\<not> g_ascii_isalnum (CHR '','')" "\<not> g_ascii_isalnum (CHR '':'')" "\<not> g_ascii_isalnum (CHR ''>'')"
  by (simp_all add: character_classes)

lemma parse_source_route_stops:
  assumes "esmtp_source_route r"
  shows "parse_source_route (r @ CHR '':'' # q) = Ok (length r)"
  using assms
proof induction
  case no_route
  show ?case by (simp add: parse_source_route.simps [of "CHR '':'' # q"])
qed (simp_all add: parse_source_route.simps [of "CHR ''@'' # p" for p] parse_domain_stops)

lemma c_string_take_drop [simp]: "c_string t \<Longrightarrow> c_string (take n t)" "c_string t \<Longrightarrow> c_string (drop n t)"
  by (auto simp: c_string_def dest: in_set_takeD in_set_dropD)

lemma parse_source_route_sound:
  assumes "parse_source_route (t @ [NUL]) = Ok n" and "c_string t"
  shows "n \<le> length t \<and> esmtp_source_route (take n t) \<and> (n = 0 \<longrightarrow> hd (t @ [NUL]) \<noteq> CHR ''@'')"
  using assms
proof (induction "length t" arbitrary: t n rule: less_induct)
  case less
  show ?case
  proof (cases "t \<noteq> [] \<and> hd t = CHR ''@''")
    case False
    then show ?thesis using less.prems(1)
      by (cases t) (auto simp: parse_source_route.simps [of "_ # _"] parse_source_route.simps [of "[_]"]
          no_route)
  next
    case True
    then obtain s where t: "t = CHR ''@'' # s" by (cases t) auto
    from less.prems t obtain k where k: "parse_domain (s @ [NUL]) = Ok k"
      by (auto simp: parse_source_route.simps [of "_ # _"] split: result.splits)
    with less.prems(2) t have d: "k \<le> length s" "esmtp_domain (take k s)"
      by (auto dest: parse_domain_sound)
    show ?thesis
    proof (cases "drop k s \<noteq> [] \<and> hd (drop k s) = CHR '',''")
      case False
      then have "n = k + 1" using less.prems(1) k d(1)
        by (cases "drop k s") (simp_all add: t parse_source_route.simps [of "_ # _"])
      with d last_host show ?thesis by (simp add: t)
    next
      case True
      then obtain q where q: "drop k s = CHR '','' # q" by (cases "drop k s") auto
      have s: "s = take k s @ CHR '','' # q" using q by (metis append_take_drop_id)
      from q k d(1) less.prems(1) obtain j where j: "parse_source_route (q @ [NUL]) = Ok j" "n = k + 2 + j"
        by (auto simp: t parse_source_route.simps [of "CHR ''@'' # s @ [NUL]"])
      have "length q < length t" "c_string q"
        using less.prems(2) q by (simp_all add: t drop_eq_Cons_length less_SucI)
          (metis c_string_Cons c_string_take_drop(2) q)
      from less.hyps [OF this(1) j(1) this(2)] have r: "j \<le> length q" "esmtp_source_route (take j q)"
        by auto
      have "take (Suc k + j) s = take k s @ CHR '','' # take j q" using d(1) by (subst s) (simp add: min_absorb2)
      moreover have "length s = k + 1 + length q" using d(1) by (subst s) (simp add: min_absorb2)
      ultimately show ?thesis using more_hosts [OF d(2) r(2)] r(1) by (simp add: t j(2))
    qed
  qed
qed

lemma parse_mailbox_stops:
  assumes "esmtp_mailbox m" and "c_string m"
  shows "parse_mailbox (m @ CHR ''>'' # r) = Ok (length m)"
  using assms(1)
proof cases
  case (mailbox l d)
  obtain c s where d: "d = c # s" using domain_not_Nil [OF mailbox(3)] by (cases d) auto
  have "c \<noteq> NUL" "hd (s @ CHR ''>'' # r) \<noteq> NUL"
    using assms(2) by (simp_all add: mailbox(1) d) (cases s; simp)
  moreover obtain e q where "s @ CHR ''>'' # r = e # q" by (cases s) auto
  ultimately show ?thesis
    using parse_domain_stops [OF mailbox(3), of "CHR ''>''" r]
    by (simp add: parse_mailbox_def mailbox(1) parse_local_part_stops [OF mailbox(2)] d)
qed

lemma parse_mailbox_sound:
  assumes "parse_mailbox (t @ [NUL]) = Ok n" and "c_string t"
  shows "n \<le> length t \<and> esmtp_mailbox (take n t)"
proof -
  from assms(1) obtain k where k: "parse_local_part (t @ [NUL]) = Ok k" by (auto simp: parse_mailbox_def)
  with assms(2) have l: "k \<le> length t" "esmtp_local_part (take k t)"
    by (auto dest: parse_local_part_sound)
  from assms(1) k l(1) obtain s where s: "drop k t = CHR ''@'' # s"
    by (cases "drop k t") (auto simp: parse_mailbox_def split: if_splits)
  with assms(1) k l(1) obtain j where j: "parse_domain (s @ [NUL]) = Ok j" "n = k + 1 + j"
    by (auto simp: parse_mailbox_def split: if_splits list.splits)
  have "c_string s" using assms(2) s by (metis c_string_Cons c_string_take_drop(2))
  with j(1) have d: "j \<le> length s" "esmtp_domain (take j s)" by (auto dest: parse_domain_sound)
  have t: "t = take k t @ CHR ''@'' # s" using s by (metis append_take_drop_id)
  have "take n t = take k t @ CHR ''@'' # take j s"
    using l(1) by (subst t) (simp add: j(2) min_absorb2)
  moreover have "n \<le> length t" using d(1) l(1) j(2) arg_cong [OF s, of length] by simp
  ultimately show ?thesis using mailbox [OF l(2) d(2)] by simp
qed

lemma source_route_head: "esmtp_source_route r \<Longrightarrow> r \<noteq> [] \<Longrightarrow> hd r = CHR ''@''"
  by (auto elim: esmtp_source_route.cases)

lemma mailbox_not_Nil: "esmtp_mailbox m \<Longrightarrow> m \<noteq> []"
  by (auto elim: esmtp_mailbox.cases)

lemma parse_path_content_stops:
  assumes "esmtp_source_route r" and "esmtp_mailbox m" and "c_string m"
    and "if r = [] then hd m \<noteq> CHR ''@'' \<and> x = m else x = r @ CHR '':'' # m"
  shows "parse_path_content (x @ CHR ''>'' # q) = Ok (length x)"
proof (cases "r = []")
  case True
  obtain c s where "m = c # s" using mailbox_not_Nil [OF assms(2)] by (cases m) auto
  with True assms have "parse_source_route (x @ CHR ''>'' # q) = Ok 0"
    by (simp add: parse_source_route.simps [of "c # p" for p])
  with True assms show ?thesis by (simp add: parse_path_content_def parse_mailbox_stops)
next
  case False
  with assms parse_source_route_stops [OF assms(1), of "m @ CHR ''>'' # q"] show ?thesis
    by (simp add: parse_path_content_def parse_mailbox_stops)
qed

lemma parse_path_content_sound:
  assumes "parse_path_content (t @ [NUL]) = Ok n" and "c_string t"
  shows "n \<le> length t \<and> (\<exists>r m. esmtp_source_route r \<and> esmtp_mailbox m \<and>
    (if r = [] then hd m \<noteq> CHR ''@'' \<and> take n t = m else take n t = r @ CHR '':'' # m))"
proof -
  from assms(1) obtain i where i: "parse_source_route (t @ [NUL]) = Ok i"
    by (auto simp: parse_path_content_def)
  with assms(2) have r: "i \<le> length t" "esmtp_source_route (take i t)"
    "i = 0 \<Longrightarrow> hd (t @ [NUL]) \<noteq> CHR ''@''" by (auto dest: parse_source_route_sound)
  show ?thesis
  proof (cases "i = 0")
    case True
    with assms(1) i have m: "parse_mailbox (t @ [NUL]) = Ok n" by (auto simp: parse_path_content_def)
    with assms(2) have n: "n \<le> length t" "esmtp_mailbox (take n t)" by (auto dest: parse_mailbox_sound)
    from mailbox_not_Nil [OF n(2)] r(3) [OF True] have "hd (take n t) \<noteq> CHR ''@''"
      by (cases t; cases n) auto
    with n no_route show ?thesis by (intro conjI exI [of _ "[]"] exI [of _ "take n t"]) simp_all
  next
    case False
    with assms(1) i r(1) obtain s where s: "drop i t = CHR '':'' # s"
      by (cases "drop i t") (auto simp: parse_path_content_def split: if_splits)
    then have s': "drop (Suc i) t = s" by (metis drop_Suc list.sel(3) tl_drop)
    have "Suc i \<le> length t" using arg_cong [OF s, of length] by simp
    with assms(1) i r(1) s False s' obtain k where k: "parse_mailbox (s @ [NUL]) = Ok k" "n = i + 1 + k"
      by (auto simp: parse_path_content_def split: if_splits)
    have "c_string s" using assms(2) s' by auto
    with k(1) have m: "k \<le> length s" "esmtp_mailbox (take k s)" by (auto dest: parse_mailbox_sound)
    have t: "t = take i t @ CHR '':'' # s" using s by (metis append_take_drop_id)
    have "take n t = take i t @ CHR '':'' # take k s" using r(1) by (subst t) (simp add: k(2) min_absorb2)
    moreover have "n \<le> length t" using m(1) k(2) arg_cong [OF s, of length] by simp
    moreover have "take i t \<noteq> []" using False r(1) by (cases t) auto
    ultimately show ?thesis using r(2) m(2) by (intro conjI exI [of _ "take i t"] exI [of _ "take k s"]) simp_all
  qed
qed

lemma local_part_closes:
  assumes "esmtp_local_part l" and e: "l @ CHR ''@'' # r = s @ CHR ''>'' # q"
    and "\<forall>c \<in> set s. IS_ATOM_TEXT c \<or> c = CHR ''.''"
  shows False
proof -
  have head: "hd (s @ CHR ''>'' # q) \<noteq> CHR 0x22"
    using assms(3) by (cases s) (auto simp: character_classes)
  have "parse_local_part (s @ CHR ''>'' # q) = Ok (length s)"
    using head scan_while_stops [of s "\<lambda>c. IS_ATOM_TEXT c \<or> c = CHR ''.''" "CHR ''>''" q] assms(3)
    by (cases s) (simp_all add: parse_local_part_def scan_dotted_eq, simp_all add: character_classes)
  then have "length s = length l" using parse_local_part_stops [OF assms(1), of r] by (simp add: e)
  with e show False by simp
qed

lemma local_part_head:
  assumes "esmtp_local_part l" and "x = l @ CHR ''@'' # r"
  shows "hd x \<noteq> CHR ''>'' \<and> (l \<noteq> [] \<longrightarrow> hd x \<noteq> CHR ''@'') \<and>
    take (length postmaster_path) (CHR ''<'' # x) \<noteq> postmaster_path"
proof -
  have "take (length postmaster_path) (CHR ''<'' # x) \<noteq> postmaster_path"
  proof
    assume "take (length postmaster_path) (CHR ''<'' # x) = postmaster_path"
    then have "CHR ''<'' # x = postmaster_path @ drop (length postmaster_path) (CHR ''<'' # x)"
      by (metis append_take_drop_id)
    then have "l @ CHR ''@'' # r = ''Postmaster'' @ CHR ''>'' # drop (length postmaster_path) (CHR ''<'' # x)"
      by (simp add: postmaster_path_def assms(2))
    from local_part_closes [OF assms(1) this] show False by (simp add: character_classes)
  qed
  moreover obtain c z where x: "x = c # z" using assms(2) by (metis append_is_Nil_conv list.distinct(1) neq_Nil_conv)
  moreover have "c \<noteq> CHR ''>''" using local_part_closes [OF assms(1), of r "[]" z] assms(2) x by auto
  moreover have "c \<noteq> CHR ''@''" if "l \<noteq> []"
  proof -
    from assms(1) that have "hd l \<noteq> CHR ''@''"
    proof cases
      case dotted
      with hd_in_set [OF that] show ?thesis by (auto simp: character_classes)
    qed simp
    with that assms(2) x show ?thesis by (cases l) auto
  qed
  ultimately show ?thesis by simp
qed

lemma direct_head:
  assumes "esmtp_source_route r" and "esmtp_mailbox m"
    and "if r = [] then hd m \<noteq> CHR ''@'' \<and> x = m else x = r @ CHR '':'' # m"
  shows "hd (x @ q) \<noteq> CHR ''>'' \<and>
    take (length postmaster_path) (CHR ''<'' # x @ CHR ''>'' # q) \<noteq> postmaster_path"
proof (cases "r = []")
  case True
  from assms(2) show ?thesis
  proof cases
    case (mailbox l d)
    with local_part_head [OF mailbox(2), of "x @ CHR ''>'' # q" "d @ CHR ''>'' # q"] True assms(3)
    have "hd (x @ CHR ''>'' # q) \<noteq> CHR ''>''" "x \<noteq> []"
      "take (length postmaster_path) (CHR ''<'' # x @ CHR ''>'' # q) \<noteq> postmaster_path"
      by (simp_all add: mailbox(1))
    then show ?thesis by simp
  qed
next
  case False
  with assms(3) source_route_head [OF assms(1)] show ?thesis by (cases r) (auto simp: postmaster_path_def)
qed

lemma parse_path_stops:
  assumes "esmtp_path accept p path" and "c_string p"
  shows "parse_path accept (p @ q) = Ok (length p, path)"
proof -
  have content: "parse_path accept (CHR ''<'' # x @ CHR ''>'' # q) =
      Ok (length x + 2, Some (CHR ''<'' # x @ ''>''))"
    if x: "esmtp_source_route r" "esmtp_mailbox m" "c_string m"
      "if r = [] then hd m \<noteq> CHR ''@'' \<and> x = m else x = r @ CHR '':'' # m" for x r m
  proof -
    have "x \<noteq> []" using x(4) mailbox_not_Nil [OF x(2)] by (auto split: if_splits)
    then obtain c s where "x = c # s" by (cases x) auto
    moreover have "take (length x + 2) (CHR ''<'' # x @ CHR ''>'' # q) = CHR ''<'' # x @ ''>''" by simp
    ultimately show ?thesis using direct_head [OF x(1,2,4), of q] parse_path_content_stops [OF x, of q]
      by (simp add: parse_path_def del: take_append)
  qed
  from assms(1) show ?thesis
  proof cases
    case (direct m)
    with content [OF no_route, of m m] assms(2) show ?thesis by simp
  next
    case (routed r m)
    with content [of r m "r @ CHR '':'' # m"] assms(2) show ?thesis by simp
  qed (simp_all add: parse_path_def postmaster_path_def)
qed

lemma parse_path_cases [consumes 1, case_names empty postmaster content]:
  assumes parsed: "parse_path accept (CHR ''<'' # p) = Ok (n, path)"
  obtains s where "p = CHR ''>'' # s" and "n = 2" and "path = None"
  | "accept" and "take (length postmaster_path) (CHR ''<'' # p) = postmaster_path"
    and "n = length postmaster_path" and "path = Some postmaster_path"
  | i s where "parse_path_content p = Ok i" and "drop i p = CHR ''>'' # s"
    and "n = i + 2" and "path = Some (take (i + 2) (CHR ''<'' # p))"
proof (cases p)
  case Nil
  with parsed have False by (simp add: parse_path_def)
  then show thesis ..
next
  case (Cons d z)
  show thesis
  proof (cases "d = CHR ''>''")
    case True
    with parsed Cons have "n = 2" "path = None" by (simp_all add: parse_path_def)
    with that(1) Cons True show thesis by blast
  next
    case False
    show thesis
    proof (cases "accept \<and> take (length postmaster_path) (CHR ''<'' # p) = postmaster_path")
      case True
      with parsed Cons False have "n = length postmaster_path" "path = Some postmaster_path"
        by (simp_all add: parse_path_def)
      with that(2) True show thesis by blast
    next
      case post: False
      with parsed Cons False have e: "bind_result (parse_path_content p) (\<lambda>i. case drop i p of
            [] \<Rightarrow> Fault Overread
          | e # _ \<Rightarrow> if e = CHR ''>'' then Ok (i + 2, Some (take (i + 2) (CHR ''<'' # p)))
                     else Refused (Some INVALID_FORMAT)) = Ok (n, path)"
        by (auto simp: parse_path_def simp del: bind_result_Ok_iff split: if_split_asm)
      then obtain i where i: "parse_path_content p = Ok i" by (auto simp del: take_Suc_Cons)
      with e obtain s where "drop i p = CHR ''>'' # s" "n = i + 2" "path = Some (take (i + 2) (CHR ''<'' # p))"
        by (cases "drop i p") (auto split: if_splits simp del: take_Suc_Cons)
      with i that(3) show thesis by blast
    qed
  qed
qed

lemma parse_path_sound:
  assumes "parse_path accept (CHR ''<'' # t @ [NUL]) = Ok (n, path)" and "c_string t"
  shows "n \<le> length t + 1 \<and> esmtp_path accept (take n (CHR ''<'' # t)) path"
proof -
  let ?m = "CHR ''<'' # t @ [NUL]"
  from assms(1) show ?thesis
  proof (cases rule: parse_path_cases)
    case empty
    then show ?thesis using empty_path [of accept] by (cases t) auto
  next
    case postmaster
    have "11 \<le> length t"
    proof (rule ccontr)
      assume "\<not> 11 \<le> length t"
      then have "take (length postmaster_path) ?m = ?m" by (simp only: take_all_iff) (simp add: postmaster_path_def)
      with postmaster(2) have "NUL \<in> set postmaster_path" by (metis Cons_eq_appendI in_set_conv_decomp)
      then show False by (simp add: postmaster_path_def)
    qed
    then have n: "length postmaster_path \<le> length (CHR ''<'' # t)" by (simp add: postmaster_path_def)
    then have "take (length postmaster_path) (CHR ''<'' # t) = postmaster_path"
      using postmaster(2) by (metis append_Cons take_append append_Nil2 diff_is_0_eq take_0)
    with n esmtp_path.postmaster [OF postmaster(1)] show ?thesis by (simp add: postmaster(3,4))
  next
    case (content i s)
    from parse_path_content_sound [OF content(1) assms(2)] obtain r m where i: "i \<le> length t"
      and x: "esmtp_source_route r" "esmtp_mailbox m"
        "if r = [] then hd m \<noteq> CHR ''@'' \<and> take i t = m else take i t = r @ CHR '':'' # m"
      by blast
    from i content(2) obtain q where q: "drop i t = CHR ''>'' # q" by (cases "drop i t") auto
    then have t: "t = take i t @ CHR ''>'' # q" by (metis append_take_drop_id)
    have "i < length t" using q by (metis drop_eq_Nil linorder_not_less list.distinct(1))
    then have p: "take n (CHR ''<'' # t) = CHR ''<'' # take i t @ ''>''"
      using q by (simp add: content(3) take_Suc_conv_app_nth nth_via_drop)
    have "esmtp_path accept (CHR ''<'' # take i t @ ''>'') (Some (CHR ''<'' # take i t @ ''>''))"
      using x direct [of m "CHR ''<'' # m @ ''>''" accept]
        routed [of r m "CHR ''<'' # r @ CHR '':'' # m @ ''>''" accept]
      by (cases "r = []") simp_all
    moreover have "take (i + 2) ?m = CHR ''<'' # take i t @ ''>''"
      using \<open>i < length t\<close> q by (simp add: take_Suc_conv_app_nth nth_via_drop)
    ultimately show ?thesis using \<open>i < length t\<close> p content(3,4) by simp
  qed
qed

subsection \<open>Parameters\<close>

lemma equals_sign [simp]: "\<not> domain_text (CHR ''='')" "\<not> domain_text (CHR '' '')" "\<not> domain_text NUL"
  "\<not> g_ascii_isgraph (CHR '' '')" "\<not> g_ascii_isgraph NUL" "\<not> g_ascii_isalnum NUL"
  by (simp_all add: character_classes)

lemma scan_text_stops:
  assumes "\<forall>c \<in> set k. domain_text c" and "d \<in> {NUL, CHR '' '', CHR ''=''}"
  shows "scan_while domain_text (k @ d # r) = Ok (length k)"
  using scan_while_stops [OF assms(1), of d r] assms(2) equals_sign by auto

lemma parse_parameter_stops:
  assumes "wf_parameter (k, v)" and "d = NUL \<or> d = CHR '' ''" and "CHR '' '' # x = parameter_text (k, v)"
  shows "parse_parameter (x @ d # r) = Ok (length x, k, v)"
proof -
  obtain c s where k: "k = c # s" using assms(1) by (cases k) auto
  with assms(1) have c: "g_ascii_isalnum c" "c \<noteq> NUL" "\<forall>c \<in> set s. domain_text c"
    by (auto simp: character_classes)
  show ?thesis
  proof (cases v)
    case None
    then have x: "x = c # s" using assms(3) by (simp add: k)
    have "scan_while domain_text (s @ d # r) = Ok (length s)"
      by (rule scan_text_stops [OF c(3)]) (use assms(2) in auto)
    moreover have "d \<noteq> CHR ''=''" using assms(2) by auto
    ultimately show ?thesis using c(1,2) by (simp add: parse_parameter_def x k None)
  next
    case (Some w)
    have "scan_while (\<lambda>c. g_ascii_isgraph c \<and> c \<noteq> CHR ''='') (w @ d # r) = Ok (length w)"
    proof (rule scan_while_stops)
      show "\<forall>c \<in> set w. g_ascii_isgraph c \<and> c \<noteq> CHR ''=''" using assms(1) by (simp add: Some)
      show "\<not> (g_ascii_isgraph d \<and> d \<noteq> CHR ''='')" using assms(2) equals_sign by metis
    qed
    moreover have "x = c # s @ CHR ''='' # w" using assms(3) by (simp add: k Some)
    moreover have "scan_while domain_text (s @ CHR ''='' # w @ d # r) = Ok (length s)"
      by (rule scan_text_stops [OF c(3)]) simp
    ultimately show ?thesis using c(1,2) by (simp add: parse_parameter_def k Some)
  qed
qed

lemma parse_parameters_stops:
  assumes "\<forall>x \<in> set ps. wf_parameter x"
  shows "parse_parameters (concat (map parameter_text ps) @ [NUL]) t =
    Ok (length (concat (map parameter_text ps)), parameter_table ps t)"
  using assms
proof (induction ps arbitrary: t)
  case Nil
  show ?case by (simp add: parse_parameters.simps [of "[NUL]"])
next
  case (Cons x ps)
  obtain k v where x: "x = (k, v)" by fastforce
  obtain s where s: "parameter_text (k, v) = CHR '' '' # s" by (cases v) auto
  obtain d r where r: "concat (map parameter_text ps) @ [NUL] = d # r" "d = NUL \<or> d = CHR '' ''"
  proof (cases ps)
    case (Cons y ys)
    obtain k' v' where "y = (k', v')" by fastforce
    then obtain z where "parameter_text y = CHR '' '' # z" by (cases v') auto
    with that Cons show thesis by auto
  qed (use that in auto)
  have "parse_parameter (s @ d # r) = Ok (length s, k, v)"
    using Cons.prems x s r(2) by (intro parse_parameter_stops) auto
  with Cons.IH [of "Some ((case t of None \<Rightarrow> Map.empty | Some t \<Rightarrow> t)(k \<mapsto> Parameter v))"] Cons.prems
  show ?case by (simp add: x s r(1) parse_parameters.simps [of "CHR '' '' # p" for p])
qed

lemma parse_parameter_sound:
  assumes "parse_parameter (t @ [NUL]) = Ok (n, k, v)" and "c_string t"
  shows "n \<le> length t \<and> wf_parameter (k, v) \<and> CHR '' '' # take n t = parameter_text (k, v)"
proof -
  from assms obtain c s i where t: "t = c # s" "g_ascii_isalnum c"
    and i: "scan_while domain_text (s @ [NUL]) = Ok i"
    by (cases t) (auto simp: parse_parameter_def split: if_splits)
  then have s: "i \<le> length s" "\<forall>c \<in> set (take i s). domain_text c"
    by (auto dest: scan_while_sound)
  show ?thesis
  proof (cases "drop i s \<noteq> [] \<and> hd (drop i s) = CHR ''=''")
    case True
    then obtain w where w: "drop i s = CHR ''='' # w" by (cases "drop i s") auto
    then have s_eq: "s = take i s @ CHR ''='' # w" by (metis append_take_drop_id)
    from w assms(1) i s(1) t obtain j where
      j: "scan_while (\<lambda>c. g_ascii_isgraph c \<and> c \<noteq> CHR ''='') (w @ [NUL]) = Ok j"
      and n: "n = i + 2 + j" "k = c # take i s" "v = Some (take j (w @ [NUL]))"
      by (auto simp: parse_parameter_def split: if_splits)
    from j have "j \<le> length w" "\<forall>c \<in> set (take j w). g_ascii_isgraph c \<and> c \<noteq> CHR ''=''"
      by (auto dest: scan_while_sound)
    moreover have "take (Suc (i + j)) s = take i s @ CHR ''='' # take j w"
      using s(1) by (subst s_eq) (simp add: min_absorb2)
    moreover have "length s = i + 1 + length w" using s(1) arg_cong [OF w, of length] by simp
    ultimately show ?thesis using s(2) by (auto simp: t n)
  next
    case False
    with assms(1) i s(1) t have "n = i + 1" "k = c # take i s" "v = None"
      by (cases "drop i s"; auto simp: parse_parameter_def split: if_splits)+
    with s show ?thesis by (auto simp: t)
  qed
qed

lemma parse_parameters_sound:
  assumes "parse_parameters (t @ [NUL]) tbl = Ok (n, tbl')" and "c_string t"
  shows "n \<le> length t \<and> (\<exists>ps. (\<forall>x \<in> set ps. wf_parameter x) \<and>
    take n t = concat (map parameter_text ps) \<and> tbl' = parameter_table ps tbl)"
  using assms
proof (induction "length t" arbitrary: t n tbl rule: less_induct)
  case less
  show ?case
  proof (cases "t \<noteq> [] \<and> hd t = CHR '' ''")
    case False
    then have "n = 0" "tbl' = tbl" using less.prems(1)
      by (cases t; simp add: parse_parameters.simps [of "_ # _"] parse_parameters.simps [of "[_]"])+
    then show ?thesis by (intro conjI exI [of _ "[]"]) simp_all
  next
    case True
    then obtain s where t: "t = CHR '' '' # s" by (cases t) auto
    from less.prems(1) t obtain i k v where p: "parse_parameter (s @ [NUL]) = Ok (i, k, v)"
      by (auto simp: parse_parameters.simps [of "_ # _"] split: result.splits)
    have "c_string s" using less.prems(2) t by simp
    from parse_parameter_sound [OF p this] have s: "i \<le> length s" "wf_parameter (k, v)"
      "CHR '' '' # take i s = parameter_text (k, v)" by blast+
    let ?tbl = "Some ((case tbl of None \<Rightarrow> Map.empty | Some t \<Rightarrow> t)(k \<mapsto> Parameter v))"
    from less.prems(1) t p s(1) obtain j where
      j: "parse_parameters (drop i s @ [NUL]) ?tbl = Ok (j, tbl')" "n = i + 1 + j"
      by (auto simp: parse_parameters.simps [of "CHR '' '' # s @ [NUL]"])
    have "length (drop i s) < length t" "c_string (drop i s)" using less.prems(2) by (auto simp: t)
    from less.hyps [OF this(1) j(1) this(2)] obtain ps where ps: "j \<le> length (drop i s)"
      "\<forall>x \<in> set ps. wf_parameter x" "take j (drop i s) = concat (map parameter_text ps)"
      "tbl' = parameter_table ps ?tbl" by auto
    have "take n t = parameter_text (k, v) @ concat (map parameter_text ps)"
      using s(1) by (simp add: t j(2) s(3) [symmetric] ps(3) [symmetric] take_add)
    with ps s(1,2) show ?thesis
      by (intro conjI exI [of _ "(k, v) # ps"]) (auto simp: t j(2))
  qed
qed

subsection \<open>Arguments\<close>

lemma esmtp_path_head: "esmtp_path accept p path \<Longrightarrow> \<exists>t. p = CHR ''<'' # t"
  by (auto elim!: esmtp_path.cases simp: postmaster_path_def)

lemma parse_argument_Ok:
  "milter_esmtp_parse_envelope_command_argument accept (Some s) want parameters = Ok (path, table) \<longleftrightarrow>
     hd (s @ [NUL]) = CHR ''<'' \<and>
     (\<exists>n p k parsed. parse_path accept (s @ [NUL]) = Ok (n, p) \<and>
        parse_parameters (drop n (s @ [NUL])) None = Ok (k, parsed) \<and>
        hd (drop (n + k) (s @ [NUL])) = NUL \<and>
        path = (if want then p else None) \<and> table = store_parameters parameters parsed)"
proof -
  define m where "m = s @ [NUL]"
  show ?thesis
    unfolding milter_esmtp_parse_envelope_command_argument_def option.case Let_def m_def [symmetric]
    by (auto split: if_splits prod.splits)
qed

lemma parse_argument_iff:
  assumes "c_string s"
  shows "milter_esmtp_parse_envelope_command_argument accept (Some s) True (Some None) = Ok (path, table) \<longleftrightarrow>
    (\<exists>ps. esmtp_argument accept s path ps \<and> table = Some (parameter_table ps None))"
    (is "?parsed \<longleftrightarrow> ?grammar")
proof
  assume ?grammar
  then obtain p ps where p: "esmtp_path accept p path" and ps: "\<forall>x \<in> set ps. wf_parameter x"
    and s: "s = p @ concat (map parameter_text ps)" and table: "table = Some (parameter_table ps None)"
    by (auto simp: esmtp_argument_def)
  obtain t where t: "p = CHR ''<'' # t" using esmtp_path_head [OF p] by auto
  have "c_string p" using assms s by simp
  from parse_path_stops [OF p this, of "concat (map parameter_text ps) @ [NUL]"]
    parse_parameters_stops [OF ps, of None]
  show ?parsed
    by (simp add: parse_argument_Ok store_parameters_def s table t)
next
  assume ?parsed
  then obtain n k tbl where n: "parse_path accept (s @ [NUL]) = Ok (n, path)"
    and k: "parse_parameters (drop n (s @ [NUL])) None = Ok (k, tbl)" and table: "table = Some tbl"
    and last: "hd (drop (n + k) (s @ [NUL])) = NUL" and "hd (s @ [NUL]) = CHR ''<''"
    by (auto simp: parse_argument_Ok store_parameters_def)
  then obtain t where s: "s = CHR ''<'' # t" by (cases s) auto
  have "c_string t" using assms s by simp
  from parse_path_sound [OF _ this] n have p: "n \<le> length s" "esmtp_path accept (take n s) path"
    by (auto simp: s)
  have rest: "drop n (s @ [NUL]) = drop n s @ [NUL]" using p(1) by simp
  have "c_string (drop n s)" using assms by simp
  from parse_parameters_sound [OF k [unfolded rest] this]
  obtain ps where ps: "k \<le> length (drop n s)" "\<forall>x \<in> set ps. wf_parameter x"
    "take k (drop n s) = concat (map parameter_text ps)" "table = Some (parameter_table ps None)"
    unfolding table by blast
  have "hd (drop k (drop n s @ [NUL])) = NUL"
    using last by (metis add.commute drop_drop rest)
  have "drop k (drop n s) = []"
  proof (cases "drop k (drop n s)")
    case (Cons c q)
    then have "c = NUL" using \<open>hd (drop k (drop n s @ [NUL])) = NUL\<close> by simp
    moreover have "c_string (drop k (drop n s))" using assms by simp
    ultimately show ?thesis using Cons by simp
  qed
  then have "s = take n s @ concat (map parameter_text ps)"
    by (metis append_Nil2 append_take_drop_id ps(3))
  with p(2) ps(2,4) show ?grammar by (auto simp: esmtp_argument_def)
qed

text \<open>
  C25: an argument of RCPT TO is accepted exactly if it is of the grammar: an empty path,
  \<open><Postmaster>\<close>, or a mailbox in brackets with or without a source route, followed by
  parameters; the path is then returned as written - for the empty path, none -, and the table has the
  parameters, the last value winning.
\<close>

theorem rcpt_to_grammar:
  assumes "c_string s"
  shows "milter_esmtp_parse_rcpt_to_argument (Some s) True (Some None) = Ok (path, table) \<longleftrightarrow>
    (\<exists>ps. esmtp_argument True s path ps \<and> table = Some (parameter_table ps None))"
  unfolding milter_esmtp_parse_rcpt_to_argument_def by (rule parse_argument_iff [OF assms])

lemma sample_rcpt_argument:
  "esmtp_argument True ''<@a,@b:joe@[1.2]> NOTIFY=NEVER X'' (Some ''<@a,@b:joe@[1.2]>'')
     [(''NOTIFY'', Some ''NEVER''), (''X'', None)]"
proof -
  have domains: "esmtp_domain ''a''" "esmtp_domain ''b''"
    by (auto intro!: esmtp_domain.name simp: domain_name_def character_classes)
  have literal: "esmtp_domain ''[1.2]''"
    using esmtp_domain.literal [of "''1.2''"] by (simp add: character_classes)
  have route: "esmtp_source_route ''@a,@b''"
    using more_hosts [OF domains(1) last_host [OF domains(2)]] by simp
  have "esmtp_local_part ''joe''"
    by (rule esmtp_local_part.dotted) (simp add: character_classes)
  from mailbox [OF this literal] have "esmtp_mailbox ''joe@[1.2]''" by simp
  from routed [OF route _ this refl] have "esmtp_path True ''<@a,@b:joe@[1.2]>'' (Some ''<@a,@b:joe@[1.2]>'')"
    by simp
  then show ?thesis unfolding esmtp_argument_def
    by (intro exI [of _ "''<@a,@b:joe@[1.2]>''"]) (simp add: character_classes)
qed

theorem rcpt_to_grammar_witness:
  "milter_esmtp_parse_rcpt_to_argument (Some ''<@a,@b:joe@[1.2]> NOTIFY=NEVER X'') True (Some None) =
     Ok (Some ''<@a,@b:joe@[1.2]>'',
       Some (Some [''NOTIFY'' \<mapsto> Parameter (Some ''NEVER''), ''X'' \<mapsto> Parameter None]))"
  using rcpt_to_grammar [of "''<@a,@b:joe@[1.2]> NOTIFY=NEVER X''" "Some ''<@a,@b:joe@[1.2]>''"]
    sample_rcpt_argument by fastforce

subsection \<open>Reading past the end\<close>

lemma quoted_overread:
  assumes "quoted_text stop t" and "\<not> stop NUL"
  shows "scan_quoted stop (t @ [NUL]) = Fault Overread"
  using assms
proof (induction stop t rule: quoted_text.induct)
  case (1 stop)
  then show ?case by (simp add: character_classes)
next
  case (2 stop c s)
  then show ?case by (cases s) (auto split: if_splits)
qed

text \<open>
  The parsers take the NUL at the end of the argument for one of the control characters
  that a domain literal may contain: with a literal that is not closed they read on behind
  the end of the argument, whatever was asked for.
\<close>

theorem unclosed_literal_overreads:
  assumes "esmtp_local_part l" and "l \<noteq> []" and "c_string t" and "t \<noteq> []"
    and "quoted_text (\<lambda>c. c = CHR ''['' \<or> c = CHR '']'') t"
  shows "milter_esmtp_parse_envelope_command_argument accept (Some (CHR ''<'' # l @ ''@['' @ t)) want parameters
    = Fault Overread"
proof -
  let ?x = "l @ CHR ''@'' # CHR ''['' # t @ [NUL]"
  have dom: "parse_domain (CHR ''['' # t @ [NUL]) = Fault Overread"
    using quoted_overread [OF assms(5)] by (simp add: parse_domain_def)
  obtain c s where t: "t = c # s" "c \<noteq> NUL" using assms(3,4) by (cases t) auto
  have "parse_local_part ?x = Ok (length l)" by (rule parse_local_part_stops [OF assms(1)])
  with dom have mailbox: "parse_mailbox ?x = Fault Overread"
    by (simp add: parse_mailbox_def t)
  obtain d z where d: "?x = d # z" by (cases l) auto
  have head: "d \<noteq> CHR ''@''" "d \<noteq> CHR ''>''"
    "take (length postmaster_path) (CHR ''<'' # d # z) \<noteq> postmaster_path"
    using local_part_head [OF assms(1) refl, of "CHR ''['' # t @ [NUL]"] assms(2) by (simp_all add: d)
  then have "parse_source_route ?x = Ok 0" by (simp add: d parse_source_route.simps [of "d # z"])
  with mailbox have "parse_path_content ?x = Fault Overread" by (simp add: parse_path_content_def)
  with head have "parse_path accept (CHR ''<'' # ?x) = Fault Overread"
    unfolding d by (simp add: parse_path_def del: take_Suc_Cons)
  then show ?thesis by (simp add: milter_esmtp_parse_envelope_command_argument_def)
qed

theorem unclosed_literal_overreads_witness:
  "milter_esmtp_parse_envelope_command_argument False (Some ''<joe@[1'') True None = Fault Overread"
proof -
  have "esmtp_local_part ''joe''"
    by (rule esmtp_local_part.dotted) (simp add: character_classes)
  then show ?thesis
    using unclosed_literal_overreads [of "''joe''" "''1''" False True None] by (simp add: character_classes)
qed

subsection \<open>Parameters that are already there\<close>

text \<open>
  When the caller's table exists already, the parameters of the argument are entered
  with their strings freed: all of them, and they replace what was there.
\<close>

theorem merged_parameters_freed:
  assumes "milter_esmtp_parse_envelope_command_argument accept (Some s) want (Some None) =
      Ok (path, Some (Some parsed))"
  shows "milter_esmtp_parse_envelope_command_argument accept (Some s) want (Some (Some table)) =
      Ok (path, Some (Some (\<lambda>k. if parsed k = None then table k else Some Freed_parameter)))"
  using assms by (force simp: parse_argument_Ok store_parameters_def merge_parameters_def)

theorem merged_parameters_freed_witness:
  "milter_esmtp_parse_envelope_command_argument False (Some ''<> A=1'') False
       (Some (Some [''B'' \<mapsto> Parameter None])) =
     Ok (None, Some (Some [''B'' \<mapsto> Parameter None, ''A'' \<mapsto> Freed_parameter]))"
proof -
  have parsed: "milter_esmtp_parse_envelope_command_argument False (Some ''<> A=1'') False (Some None) =
      Ok (None, Some (Some [''A'' \<mapsto> Parameter (Some ''1'')]))"
    by (simp add: milter_esmtp_parse_envelope_command_argument_def parse_path_def parse_parameters.simps
        parse_parameter_def store_parameters_def character_classes)
  show ?thesis by (simp add: merged_parameters_freed [OF parsed]) (auto intro!: ext)
qed

end
