(* ===== verification/Connection.thy ===== *)
theory Connection
  imports Reply_Code Command_Decoder Sample_Platform "HOL-Library.Sublist"
begin

text \<open>
  \<open>milter/core/milter-connection.c\<close>: the addresses of sockets as text
  (\<open>unix:PATH\<close>, \<open>inet:PORT@HOST\<close>, \<open>inet6:PORT@HOST\<close>), both ways, and opening a socket to
  listen on. Ports are in host order here. Looking up a host name and the system calls are
  parameters.
\<close>

subsection \<open>Addresses\<close>

text \<open>An IPv6 address has its port, flow information, address and scope, in the order of the struct.\<close>

datatype connection_address =
    Address_unix bytes
  | Address_inet u16 u32
  | Address_inet6 u16 u32 "128 word" u32
  | Address_unspec
  | Address_unexpected nat

definition milter_connection_address_to_spec ::
    "platform \<Rightarrow> connection_address option \<Rightarrow> bytes option" where
  "milter_connection_address_to_spec P address =
     (case address of
        None \<Rightarrow> None
      | Some (Address_unix path) \<Rightarrow> Some (''unix:'' @ cstr path)
      | Some (Address_inet port a) \<Rightarrow> Some (''inet:'' @ decimal (unat port) @ ''@['' @ inet_ntop4 P a @ '']'')
      | Some (Address_inet6 port flow a scope) \<Rightarrow> Some (''inet6:'' @ decimal (unat port) @ ''@['' @ inet_ntop6 P a @ '']'')
      | Some Address_unspec \<Rightarrow> Some ''unknown''
      | Some (Address_unexpected family) \<Rightarrow> Some (''unexpected:'' @ decimal family))"

subsection \<open>Parsing\<close>

text \<open>
  One protocol family: how its addresses are read and looked up, and the address of any
  interface.
\<close>

record 'a protocol_family =
  family_pton :: "bytes \<Rightarrow> 'a option"
  family_getaddrinfo :: "bytes \<Rightarrow> 'a option"
  family_any :: 'a

definition PF_INET :: "platform \<Rightarrow> (bytes \<Rightarrow> u32 option) \<Rightarrow> u32 protocol_family" where
  "PF_INET P getaddrinfo =
     \<lparr>family_pton = inet_pton4 P, family_getaddrinfo = getaddrinfo, family_any = 0\<rparr>"

definition PF_INET6 ::
    "platform \<Rightarrow> (bytes \<Rightarrow> 128 word option) \<Rightarrow> (128 word) protocol_family" where
  "PF_INET6 P getaddrinfo =
     \<lparr>family_pton = inet_pton6 P, family_getaddrinfo = getaddrinfo, family_any = 0\<rparr>"

definition parse_connection_spec_host :: "'a protocol_family \<Rightarrow> bytes \<Rightarrow> 'a result" where
  "parse_connection_spec_host pf host =
     (if host \<noteq> [] \<and> hd host = CHR ''[''
      then
        let host = tl host
        in if host = [] \<or> last host \<noteq> CHR '']'' then Refused (Some INVALID_FORMAT)
           else (case family_pton pf (butlast host) of
                   None \<Rightarrow> Refused (Some INVALID_FORMAT)
                 | Some a \<Rightarrow> Ok a)
      else
        (case family_getaddrinfo pf host of
           None \<Rightarrow> Refused (Some INVALID_FORMAT)
         | Some a \<Rightarrow> Ok a))"

text \<open>
  \<open>atoi\<close> is \<open>(int) strtol\<close>: the number stops at the largest \<open>long\<close> and is cut to 32 bits.
\<close>

definition atoi_int :: "bytes \<Rightarrow> int" where
  "atoi_int p = sint (word_of_int (min (int (atoi p)) (2 ^ 63 - 1)) :: 32 word)"

fun scan_port :: "'a protocol_family \<Rightarrow> bytes \<Rightarrow> 'a result" where
  "scan_port pf [] = Ok (family_any pf)"
| "scan_port pf (c # p) =
     (if c = CHR ''@'' then parse_connection_spec_host pf p
      else if \<not> is_digit c then Refused (Some INVALID_FORMAT)
      else scan_port pf p)"

definition parse_connection_spec_port_and_host ::
    "'a protocol_family \<Rightarrow> bytes \<Rightarrow> (int \<times> 'a) result" where
  "parse_connection_spec_port_and_host pf port =
     bind_result (scan_port pf port) (\<lambda>address.
       let port_number = atoi_int port
       in if port_number > 65535 then Refused (Some INVALID_FORMAT) else Ok (port_number, address))"

text \<open>
  The rest of \<open>spec\<close> behind its first colon; \<open>want_address\<close> is that the caller has passed
  pointers for the address. \<open>g_htons\<close> keeps sixteen bits of the port. The path of a Unix
  socket is copied with \<open>strcpy\<close>.
\<close>

datatype connection_domain = DOMAIN_UNIX | DOMAIN_INET | DOMAIN_INET6

definition milter_connection_parse_spec ::
    "platform \<Rightarrow> (bytes \<Rightarrow> u32 option) \<Rightarrow> (bytes \<Rightarrow> 128 word option) \<Rightarrow> bytes option \<Rightarrow> bool \<Rightarrow>
     (connection_domain \<times> connection_address option) result" where
  "milter_connection_parse_spec P getaddrinfo4 getaddrinfo6 spec want_address =
     (case spec of
        None \<Rightarrow> Refused (Some INVALID_FORMAT)
      | Some s \<Rightarrow>
          let content = tl (dropWhile (\<lambda>c. c \<noteq> CHR '':'') s)
          in if CHR '':'' \<notin> set s then Refused (Some INVALID_FORMAT)
             else if content = [] then Refused (Some INVALID_FORMAT)
             else if prefix ''unix:'' s \<or> prefix ''local:'' s
             then if want_address
                  then if length content + 1 > sun_path_size then Fault Overflow
                       else Ok (DOMAIN_UNIX, Some (Address_unix content))
                  else Ok (DOMAIN_UNIX, None)
             else if prefix ''inet:'' s
             then bind_result (parse_connection_spec_port_and_host (PF_INET P getaddrinfo4) content)
                    (\<lambda>(port_number, a). Ok (DOMAIN_INET,
                       if want_address then Some (Address_inet (word_of_int port_number) a) else None))
             else if prefix ''inet6:'' s
             then bind_result (parse_connection_spec_port_and_host (PF_INET6 P getaddrinfo6) content)
                    (\<lambda>(port_number, a). Ok (DOMAIN_INET6,
                       if want_address then Some (Address_inet6 (word_of_int port_number) 0 a 0) else None))
             else Refused (Some INVALID_FORMAT))"

subsection \<open>Listening\<close>

datatype connection_error =
    CONNECTION_ERROR_FORMAT gerror
  | MILTER_CONNECTION_ERROR_UNIX_SOCKET
  | MILTER_CONNECTION_ERROR_SOCKET_FAILURE
  | MILTER_CONNECTION_ERROR_SET_SOCKET_OPTION_FAILURE
  | MILTER_CONNECTION_ERROR_BIND_FAILURE
  | MILTER_CONNECTION_ERROR_LISTEN_FAILURE

datatype system_call =
    Sys_unlink bytes | Sys_socket connection_domain | Sys_setsockopt
  | Sys_bind connection_address | Sys_listen nat | Sys_close

text \<open>
  \<open>works\<close> tells whether a call succeeds; the calls made are returned with the outcome:
  the address listened on, or the error.
\<close>

definition milter_connection_listen ::
    "platform \<Rightarrow> (bytes \<Rightarrow> u32 option) \<Rightarrow> (bytes \<Rightarrow> 128 word option) \<Rightarrow> (bytes \<Rightarrow> bool) \<Rightarrow>
     (system_call \<Rightarrow> bool) \<Rightarrow> nat \<Rightarrow> bytes option \<Rightarrow> int \<Rightarrow> bool \<Rightarrow>
     ((connection_error + connection_address) \<times> system_call list) result" where
  "milter_connection_listen P getaddrinfo4 getaddrinfo6 file_exists works default_backlog spec backlog
       remove_unix_socket =
     (case milter_connection_parse_spec P getaddrinfo4 getaddrinfo6 spec True of
        Fault f \<Rightarrow> Fault f
      | Refused e \<Rightarrow> Ok (Inl (CONNECTION_ERROR_FORMAT (case e of None \<Rightarrow> INVALID_FORMAT | Some e \<Rightarrow> e)), [])
      | Ok (_, None) \<Rightarrow> Fault Null_dereference
      | Ok (domain, Some address) \<Rightarrow>
          let backlog = (if backlog \<le> 0 then default_backlog else nat backlog);
              unlinks = (case address of
                 Address_unix path \<Rightarrow>
                   if remove_unix_socket \<and> file_exists path then [Sys_unlink path] else []
               | _ \<Rightarrow> []);
              open_calls = unlinks @ [Sys_socket domain]
          in Ok (if \<not> list_all works unlinks
                 then (Inl MILTER_CONNECTION_ERROR_UNIX_SOCKET, unlinks)
                 else if \<not> works (Sys_socket domain)
                 then (Inl MILTER_CONNECTION_ERROR_SOCKET_FAILURE, open_calls)
                 else if \<not> works Sys_setsockopt
                 then (Inl MILTER_CONNECTION_ERROR_SET_SOCKET_OPTION_FAILURE,
                       open_calls @ [Sys_setsockopt, Sys_close])
                 else if \<not> works (Sys_bind address)
                 then (Inl MILTER_CONNECTION_ERROR_BIND_FAILURE,
                       open_calls @ [Sys_setsockopt, Sys_bind address, Sys_close])
                 else if \<not> works (Sys_listen backlog)
                 then (Inl MILTER_CONNECTION_ERROR_LISTEN_FAILURE,
                       open_calls @ [Sys_setsockopt, Sys_bind address, Sys_listen backlog, Sys_close])
                 else (Inr address,
                       open_calls @ [Sys_setsockopt, Sys_bind address, Sys_listen backlog])))"

subsection \<open>What is parsed\<close>

lemma is_digit_decimal: "\<forall>c \<in> set (decimal n). is_digit c"
proof (induction n rule: decimal.induct)
  case (1 n)
  then show ?case
    using digit_char [of n] digit_char [of "n mod 10"]
    by (subst decimal.simps) auto
qed

lemma decimal_not_Nil [simp]: "decimal n \<noteq> []"
  by (subst decimal.simps) simp

lemma takeWhile_decimal: "r = [] \<or> \<not> is_digit (hd r) \<Longrightarrow> takeWhile is_digit (decimal n @ r) = decimal n"
  using is_digit_decimal [of n] by (cases r) (auto simp: takeWhile_append)

lemma atoi_decimal:
  assumes "r = [] \<or> \<not> is_digit (hd r)"
  shows "atoi (decimal n @ r) = n"
proof -
  have "foldl (\<lambda>n c. n * 10 + digit_value c) 0 (decimal n) = n"
  proof (induction n rule: decimal.induct)
    case (1 n)
    then show ?case
      using digit_char [of n] digit_char [of "n mod 10"] by (subst decimal.simps) auto
  qed
  then show ?thesis by (simp add: atoi_def takeWhile_decimal [OF assms])
qed

lemma scan_port_digits:
  assumes "\<forall>c \<in> set d. is_digit c"
  shows "scan_port pf (d @ CHR ''@'' # host) = parse_connection_spec_host pf host"
    and "scan_port pf d = Ok (family_any pf)"
  using assms by (induction d) (auto simp: is_digit_def)

lemma atoi_int_small: "int (atoi p) < 2 ^ 31 \<Longrightarrow> atoi_int p = int (atoi p)"
proof -
  assume a: "int (atoi p) < 2 ^ 31"
  then have "signed_take_bit 31 (int (atoi p)) = int (atoi p)"
    by (intro signed_take_bit_int_eq_self) simp_all
  with a show ?thesis by (simp add: atoi_int_def min_def signed_of_nat)
qed

lemma parse_printed_host:
  assumes "family_pton pf host = Some a"
  shows "parse_connection_spec_port_and_host pf (decimal (unat (port :: u16)) @ ''@['' @ host @ '']'') =
     Ok (int (unat port), a)"
proof -
  let ?s = "decimal (unat port) @ CHR ''@'' # CHR ''['' # host @ '']''"
  have "atoi ?s = unat port" by (rule atoi_decimal) (simp add: is_digit_def)
  moreover have "unat port < 2 ^ 16" using unsigned_less [of port] by simp
  ultimately have "atoi_int ?s = int (unat port)" 
    using atoi_int_small [of ?s] unsigned_less [of port, where ?'a = int] by simp
  with assms unsigned_less [of port, where ?'a = int] show ?thesis
    by (simp add: parse_connection_spec_port_and_host_def scan_port_digits(1) [OF is_digit_decimal]
        parse_connection_spec_host_def Let_def)
qed

fun family_of :: "connection_address \<Rightarrow> connection_domain" where
  "family_of (Address_inet port a) = DOMAIN_INET"
| "family_of (Address_inet6 port flow a scope) = DOMAIN_INET6"
| "family_of _ = DOMAIN_UNIX"

fun without_scope :: "connection_address \<Rightarrow> connection_address" where
  "without_scope (Address_inet6 port flow a scope) = Address_inet6 port 0 a 0"
| "without_scope address = address"

text \<open>
  C27: the address of a Unix, IPv4 or IPv6 socket, written as a spec, is parsed to the same address and
  to its own protocol family, but for the flow information and the scope of an IPv6 address, which are
  lost - so a link-local address loses its interface -, provided the C library reads the addresses
  it prints and the path of a Unix socket is a C string that is not empty and fits.
\<close>

theorem connection_spec_roundtrip:
  assumes "\<forall>a. inet_pton4 P (inet_ntop4 P a) = Some a" and "\<forall>a. inet_pton6 P (inet_ntop6 P a) = Some a"
    and "case address of Address_unix path \<Rightarrow> c_string path \<and> path \<noteq> [] \<and> length path < sun_path_size
         | Address_inet _ _ \<Rightarrow> True | Address_inet6 _ _ _ _ \<Rightarrow> True | _ \<Rightarrow> False"
  shows "milter_connection_parse_spec P getaddrinfo4 getaddrinfo6
      (milter_connection_address_to_spec P (Some address)) True =
    Ok (family_of address, Some (without_scope address))"
proof (cases address)
  case (Address_inet port a)
  have "parse_connection_spec_port_and_host (PF_INET P getaddrinfo4)
      (decimal (unat port) @ ''@['' @ inet_ntop4 P a @ '']'') = Ok (int (unat port), a)"
    by (rule parse_printed_host) (simp add: PF_INET_def assms(1))
  then show ?thesis
    by (simp add: Address_inet milter_connection_address_to_spec_def milter_connection_parse_spec_def)
next
  case (Address_inet6 port flow a scope)
  have "parse_connection_spec_port_and_host (PF_INET6 P getaddrinfo6)
      (decimal (unat port) @ ''@['' @ inet_ntop6 P a @ '']'') = Ok (int (unat port), a)"
    by (rule parse_printed_host) (simp add: PF_INET6_def assms(2))
  then show ?thesis
    by (simp add: Address_inet6 milter_connection_address_to_spec_def milter_connection_parse_spec_def)
qed (use assms(3) in \<open>simp_all add: milter_connection_address_to_spec_def milter_connection_parse_spec_def\<close>)

theorem connection_spec_roundtrip_witness:
  "milter_connection_parse_spec sample_platform (\<lambda>_. None) (\<lambda>_. None)
      (milter_connection_address_to_spec sample_platform (Some (Address_inet6 10025 7 1 3))) True =
    Ok (DOMAIN_INET6, Some (Address_inet6 10025 0 1 0))"
  using connection_spec_roundtrip [of sample_platform "Address_inet6 10025 7 1 3" "\<lambda>_. None" "\<lambda>_. None"]
  by (simp add: sample_platform_def scan_print_bits)

text \<open>
  A port that is too large is not refused when its low 32 bits, as a signed number,
  are not: the socket gets the low 16 bits of it.
\<close>

theorem port_wraps:
  assumes "n < 2 ^ 63" and "sint (word_of_nat n :: 32 word) \<le> 65535"
  shows "milter_connection_parse_spec P getaddrinfo4 getaddrinfo6 (Some (''inet:'' @ decimal n)) True =
    Ok (DOMAIN_INET, Some (Address_inet (word_of_nat n) 0))"
proof -
  have "atoi (decimal n) = n" using atoi_decimal [of "[]" n] by simp
  with assms(1) have port: "atoi_int (decimal n) = sint (word_of_nat n :: 32 word)"
    by (simp add: atoi_int_def min_def)
  have "(word_of_int (sint (word_of_nat n :: 32 word)) :: u16) = word_of_nat n"
    by (rule bit_word_eqI) (simp add: bit_simps)
  with assms(2) port show ?thesis
    by (simp add: milter_connection_parse_spec_def parse_connection_spec_port_and_host_def PF_INET_def
        scan_port_digits(2) [OF is_digit_decimal])
qed

theorem port_wraps_witness:
  "milter_connection_parse_spec P getaddrinfo4 getaddrinfo6 (Some ''inet:4294967321'') True =
    Ok (DOMAIN_INET, Some (Address_inet 25 0))"
proof -
  have "decimal 4294967321 = ''4294967321''"
    by (simp add: decimal.simps) (simp add: char_of_def bit_0)
  then show ?thesis using port_wraps [of 4294967321 P getaddrinfo4 getaddrinfo6] by simp
qed

text \<open>
  When listening fails, whatever call it is that fails, no socket is left open; when it
  works, the address was bound before listening and the socket is still open.
\<close>

theorem listen_closes_on_failure:
  assumes "milter_connection_listen P getaddrinfo4 getaddrinfo6 file_exists works default_backlog spec
      backlog remove_unix_socket = Ok (outcome, calls)"
  shows "case outcome of
      Inl _ \<Rightarrow> (\<exists>domain. Sys_socket domain \<in> set calls \<and> works (Sys_socket domain)) \<longleftrightarrow> Sys_close \<in> set calls
    | Inr address \<Rightarrow> Sys_close \<notin> set calls \<and> list_all works calls \<and>
        (\<exists>domain others n. calls = others @ [Sys_socket domain, Sys_setsockopt, Sys_bind address, Sys_listen n])"
  using assms
  by (auto simp: milter_connection_listen_def Let_def
      split: result.splits prod.splits option.splits if_splits connection_address.splits)

theorem listen_closes_on_failure_witness:
  "case Inl MILTER_CONNECTION_ERROR_BIND_FAILURE :: connection_error + connection_address of
      Inl _ \<Rightarrow> Sys_close \<in> set [Sys_socket DOMAIN_INET, Sys_setsockopt, Sys_bind (Address_inet 25 0), Sys_close]
    | Inr _ \<Rightarrow> False"
proof -
  let ?works = "\<lambda>c. c \<noteq> Sys_bind (Address_inet 25 0)"
  have "milter_connection_listen sample_platform (\<lambda>_. None) (\<lambda>_. None) (\<lambda>_. False) ?works 128
      (Some ''inet:25'') 0 False = Ok (Inl MILTER_CONNECTION_ERROR_BIND_FAILURE,
        [Sys_socket DOMAIN_INET, Sys_setsockopt, Sys_bind (Address_inet 25 0), Sys_close])"
    by (simp add: milter_connection_listen_def milter_connection_parse_spec_def PF_INET_def
        parse_connection_spec_port_and_host_def atoi_int_def atoi_def is_digit_def digit_value_def)
  from listen_closes_on_failure [OF this] show ?thesis by auto
qed

end
