(* ===== verification/Egg.thy ===== *)
theory Egg
  imports Connection Complex_Main
begin

text \<open>
  What the configuration says of one milter: \<open>milter-manager-egg.c\<close>, the conditions under which it
  applies (\<open>milter-manager-applicable-condition.c\<close>), and the child that is hatched from it for a
  session (\<open>milter-manager-child.c\<close>). An object is the record of its private structure; the getters
  are its selectors. Strings that may be \<open>NULL\<close> are options.
\<close>

subsection \<open>Connection specs\<close>

text \<open>The platform and the resolver that \<open>milter_connection_parse_spec\<close> asks.\<close>

record network =
  net_platform :: platform
  net_getaddrinfo4 :: "bytes \<Rightarrow> u32 option"
  net_getaddrinfo6 :: "bytes \<Rightarrow> 128 word option"

definition parse_spec :: "network \<Rightarrow> bytes \<Rightarrow> (connection_domain \<times> connection_address option) result" where
  "parse_spec net spec =
     milter_connection_parse_spec (net_platform net) (net_getaddrinfo4 net) (net_getaddrinfo6 net) (Some spec) True"

subsection \<open>Conditions\<close>

record applicable_condition =
  condition_name :: "bytes option"
  condition_description :: "bytes option"
  condition_data :: "bytes option"

definition milter_manager_applicable_condition_init :: applicable_condition where
  "milter_manager_applicable_condition_init =
     \<lparr>condition_name = None, condition_description = None, condition_data = None\<rparr>"

definition milter_manager_applicable_condition_set_name ::
    "applicable_condition \<Rightarrow> bytes option \<Rightarrow> applicable_condition" where
  "milter_manager_applicable_condition_set_name c name = c\<lparr>condition_name := name\<rparr>"

definition milter_manager_applicable_condition_set_description ::
    "applicable_condition \<Rightarrow> bytes option \<Rightarrow> applicable_condition" where
  "milter_manager_applicable_condition_set_description c description =
     c\<lparr>condition_description := description\<rparr>"

definition milter_manager_applicable_condition_set_data ::
    "applicable_condition \<Rightarrow> bytes option \<Rightarrow> applicable_condition" where
  "milter_manager_applicable_condition_set_data c data = c\<lparr>condition_data := data\<rparr>"

definition milter_manager_applicable_condition_new :: "bytes option \<Rightarrow> applicable_condition" where
  "milter_manager_applicable_condition_new name =
     milter_manager_applicable_condition_set_name milter_manager_applicable_condition_init name"

subsection \<open>Children\<close>

text \<open>
  The child's own fields and those it has of the server context: its name, timeouts and the
  address it is to be connected to.
\<close>

record manager_child =
  child_name :: "bytes option"
  child_connection_timeout :: real
  child_writing_timeout :: real
  child_reading_timeout :: real
  child_end_of_message_timeout :: real
  child_user_name :: "bytes option"
  child_command :: "bytes option"
  child_command_options :: "bytes option"
  child_working_directory :: "bytes option"
  child_search_path :: bool
  manager_child_fallback_status :: milter_status
  manager_child_evaluation_mode :: bool
  child_spec :: "bytes option"
  child_address :: "connection_address option"

definition milter_manager_child_init :: manager_child where
  "milter_manager_child_init =
     \<lparr>child_name = None, child_connection_timeout = 300, child_writing_timeout = 10,
      child_reading_timeout = 10, child_end_of_message_timeout = 300, child_user_name = None,
      child_command = None, child_command_options = None, child_working_directory = None,
      child_search_path = True, manager_child_fallback_status = MILTER_STATUS_ACCEPT,
      manager_child_evaluation_mode = False, child_spec = None, child_address = None\<rparr>"

definition milter_manager_child_get_command_line_string :: "manager_child \<Rightarrow> bytes option" where
  "milter_manager_child_get_command_line_string c =
     (case child_command c of
        None \<Rightarrow> None
      | Some command \<Rightarrow>
          (case child_command_options c of
             Some options \<Rightarrow> Some (command @ '' '' @ options)
           | None \<Rightarrow> Some command))"

definition milter_manager_child_set_evaluation_mode :: "manager_child \<Rightarrow> bool \<Rightarrow> manager_child" where
  "milter_manager_child_set_evaluation_mode c mode = c\<lparr>manager_child_evaluation_mode := mode\<rparr>"

text \<open>\<open>milter_server_context_set_connection_spec\<close> on a child: the spec is stored even if it is bad.\<close>

definition milter_server_context_set_connection_spec ::
    "network \<Rightarrow> manager_child \<Rightarrow> bytes \<Rightarrow> (bool \<times> manager_child) result" where
  "milter_server_context_set_connection_spec net c spec =
     (let c = c\<lparr>child_address := None, child_spec := Some spec\<rparr>
      in case parse_spec net spec of
           Ok (_, address) \<Rightarrow> Ok (True, c\<lparr>child_address := address\<rparr>)
         | Refused _ \<Rightarrow> Ok (False, c)
         | Fault f \<Rightarrow> Fault f)"

subsection \<open>Eggs\<close>

record egg =
  egg_name :: "bytes option"
  egg_description :: "bytes option"
  egg_enabled :: bool
  egg_connection_spec :: "bytes option"
  egg_connection_timeout :: real
  egg_writing_timeout :: real
  egg_reading_timeout :: real
  egg_end_of_message_timeout :: real
  egg_user_name :: "bytes option"
  egg_command :: "bytes option"
  egg_command_options :: "bytes option"
  egg_applicable_conditions :: "applicable_condition list"
  egg_fallback_status :: milter_status
  egg_evaluation_mode :: bool

text \<open>The default timeouts are those of a server context less a leeway of three seconds.\<close>

definition milter_manager_egg_init :: egg where
  "milter_manager_egg_init =
     \<lparr>egg_name = None, egg_description = None, egg_enabled = True, egg_connection_spec = None,
      egg_connection_timeout = 300 - 3, egg_writing_timeout = 10 - 3, egg_reading_timeout = 10 - 3,
      egg_end_of_message_timeout = 300 - 3, egg_user_name = None, egg_command = None,
      egg_command_options = None, egg_applicable_conditions = [],
      egg_fallback_status = MILTER_STATUS_ACCEPT, egg_evaluation_mode = False\<rparr>"

definition milter_manager_egg_set_name :: "egg \<Rightarrow> bytes option \<Rightarrow> egg" where
  "milter_manager_egg_set_name e name = e\<lparr>egg_name := name\<rparr>"

definition milter_manager_egg_new :: "bytes option \<Rightarrow> egg" where
  "milter_manager_egg_new name = milter_manager_egg_set_name milter_manager_egg_init name"

definition milter_manager_egg_set_description :: "egg \<Rightarrow> bytes option \<Rightarrow> egg" where
  "milter_manager_egg_set_description e description = e\<lparr>egg_description := description\<rparr>"

definition milter_manager_egg_set_enabled :: "egg \<Rightarrow> bool \<Rightarrow> egg" where
  "milter_manager_egg_set_enabled e enabled = e\<lparr>egg_enabled := enabled\<rparr>"

definition milter_manager_egg_set_connection_spec ::
    "network \<Rightarrow> egg \<Rightarrow> bytes option \<Rightarrow> (bool \<times> egg) result" where
  "milter_manager_egg_set_connection_spec net e spec =
     (case spec of
        None \<Rightarrow> Ok (True, e\<lparr>egg_connection_spec := None\<rparr>)
      | Some s \<Rightarrow>
          (case parse_spec net s of
             Ok _ \<Rightarrow> Ok (True, e\<lparr>egg_connection_spec := Some s\<rparr>)
           | Refused _ \<Rightarrow> Ok (False, e)
           | Fault f \<Rightarrow> Fault f))"

definition milter_manager_egg_set_connection_timeout :: "egg \<Rightarrow> real \<Rightarrow> egg" where
  "milter_manager_egg_set_connection_timeout e t = e\<lparr>egg_connection_timeout := t\<rparr>"

definition milter_manager_egg_set_writing_timeout :: "egg \<Rightarrow> real \<Rightarrow> egg" where
  "milter_manager_egg_set_writing_timeout e t = e\<lparr>egg_writing_timeout := t\<rparr>"

definition milter_manager_egg_set_reading_timeout :: "egg \<Rightarrow> real \<Rightarrow> egg" where
  "milter_manager_egg_set_reading_timeout e t = e\<lparr>egg_reading_timeout := t\<rparr>"

definition milter_manager_egg_set_end_of_message_timeout :: "egg \<Rightarrow> real \<Rightarrow> egg" where
  "milter_manager_egg_set_end_of_message_timeout e t = e\<lparr>egg_end_of_message_timeout := t\<rparr>"

definition milter_manager_egg_set_user_name :: "egg \<Rightarrow> bytes option \<Rightarrow> egg" where
  "milter_manager_egg_set_user_name e user_name = e\<lparr>egg_user_name := user_name\<rparr>"

definition milter_manager_egg_set_command :: "egg \<Rightarrow> bytes option \<Rightarrow> egg" where
  "milter_manager_egg_set_command e command = e\<lparr>egg_command := command\<rparr>"

definition milter_manager_egg_set_command_options :: "egg \<Rightarrow> bytes option \<Rightarrow> egg" where
  "milter_manager_egg_set_command_options e options = e\<lparr>egg_command_options := options\<rparr>"

definition milter_manager_egg_set_fallback_status :: "egg \<Rightarrow> milter_status \<Rightarrow> egg" where
  "milter_manager_egg_set_fallback_status e status = e\<lparr>egg_fallback_status := status\<rparr>"

definition milter_manager_egg_set_evaluation_mode :: "egg \<Rightarrow> bool \<Rightarrow> egg" where
  "milter_manager_egg_set_evaluation_mode e mode = e\<lparr>egg_evaluation_mode := mode\<rparr>"

definition milter_manager_egg_add_applicable_condition :: "egg \<Rightarrow> applicable_condition \<Rightarrow> egg" where
  "milter_manager_egg_add_applicable_condition e c =
     e\<lparr>egg_applicable_conditions := egg_applicable_conditions e @ [c]\<rparr>"

definition milter_manager_egg_clear_applicable_conditions :: "egg \<Rightarrow> egg" where
  "milter_manager_egg_clear_applicable_conditions e = e\<lparr>egg_applicable_conditions := []\<rparr>"

text \<open>The conditions that are told, in their order, that they apply to \<open>child\<close>.\<close>

definition milter_manager_egg_attach_applicable_conditions ::
    "egg \<Rightarrow> 'c \<Rightarrow> (applicable_condition \<times> 'c) list" where
  "milter_manager_egg_attach_applicable_conditions e child =
     map (\<lambda>c. (c, child)) (egg_applicable_conditions e)"

subsection \<open>Hatching\<close>

text \<open>
  The child, if there is one, and whether \<open>hatched\<close> is emitted. Without a connection spec
  there is no child; with one that cannot be parsed there is.
\<close>

definition milter_manager_egg_hatch :: "network \<Rightarrow> egg \<Rightarrow> (manager_child option \<times> bool) result" where
  "milter_manager_egg_hatch net e =
     (let child = milter_manager_child_init
        \<lparr>child_name := egg_name e,
         child_connection_timeout := egg_connection_timeout e,
         child_writing_timeout := egg_writing_timeout e,
         child_reading_timeout := egg_reading_timeout e,
         child_end_of_message_timeout := egg_end_of_message_timeout e,
         child_user_name := egg_user_name e,
         child_command := egg_command e,
         child_command_options := egg_command_options e,
         manager_child_fallback_status := egg_fallback_status e,
         manager_child_evaluation_mode := egg_evaluation_mode e\<rparr>
      in case egg_connection_spec e of
           None \<Rightarrow> Ok (None, False)
         | Some spec \<Rightarrow>
             bind_result (milter_server_context_set_connection_spec net child spec)
               (\<lambda>(success, child). Ok (Some child, success)))"

subsection \<open>Merging\<close>

text \<open>
  \<open>other_egg\<close> is \<open>None\<close> for the egg itself: its conditions are then gone before they are
  copied.
\<close>

definition milter_manager_egg_merge :: "network \<Rightarrow> egg \<Rightarrow> egg option \<Rightarrow> (bool \<times> egg) result" where
  "milter_manager_egg_merge net e other_egg =
     (let other = (case other_egg of None \<Rightarrow> e | Some o' \<Rightarrow> o')
      in bind_result
           (if egg_connection_spec other = None then Ok (True, e)
            else milter_manager_egg_set_connection_spec net e (egg_connection_spec other))
           (\<lambda>(success, e).
              if \<not> success then Ok (False, e)
              else
                let e = milter_manager_egg_set_connection_timeout e (egg_connection_timeout other);
                    e = milter_manager_egg_set_writing_timeout e (egg_writing_timeout other);
                    e = milter_manager_egg_set_reading_timeout e (egg_reading_timeout other);
                    e = milter_manager_egg_set_end_of_message_timeout e (egg_end_of_message_timeout other);
                    e = (if egg_description other = None then e
                         else milter_manager_egg_set_description e (egg_description other));
                    e = milter_manager_egg_set_enabled e (egg_enabled other);
                    e = (if egg_user_name other = None then e
                         else milter_manager_egg_set_user_name e (egg_user_name other));
                    e = (if egg_command other = None then e
                         else milter_manager_egg_set_command_options
                                (milter_manager_egg_set_command e (egg_command other))
                                (egg_command_options other));
                    e = milter_manager_egg_clear_applicable_conditions e;
                    conditions = (case other_egg of None \<Rightarrow> [] | Some o' \<Rightarrow> egg_applicable_conditions o')
                in Ok (True, fold (\<lambda>c e. milter_manager_egg_add_applicable_condition e c) conditions e)))"

lemmas egg_setters = milter_manager_egg_set_name_def milter_manager_egg_set_description_def
  milter_manager_egg_set_enabled_def milter_manager_egg_set_connection_timeout_def
  milter_manager_egg_set_writing_timeout_def milter_manager_egg_set_reading_timeout_def
  milter_manager_egg_set_end_of_message_timeout_def milter_manager_egg_set_user_name_def
  milter_manager_egg_set_command_def milter_manager_egg_set_command_options_def
  milter_manager_egg_set_fallback_status_def milter_manager_egg_set_evaluation_mode_def
  milter_manager_egg_clear_applicable_conditions_def

subsection \<open>XML\<close>

text \<open>
  \<open>xml_escape\<close> is GLib's \<open>g_markup_escape_text\<close>, \<open>xml_status\<close> gives the nick names of the
  statuses, which the build generates, and \<open>xml_egg\<close> what the handlers of \<open>to-xml\<close> add at an
  indentation.
\<close>

record xml_environment =
  xml_escape :: "bytes \<Rightarrow> bytes"
  xml_status :: "milter_status \<Rightarrow> bytes"
  xml_egg :: "egg \<Rightarrow> nat \<Rightarrow> bytes"

fun milter_utils_append_indent :: "bytes \<Rightarrow> nat \<Rightarrow> bytes" where
  "milter_utils_append_indent string 0 = string"
| "milter_utils_append_indent string (Suc n) = milter_utils_append_indent (string @ '' '') n"

text \<open>A \<open>NULL\<close> content is not escaped, and printed as \<open>(null)\<close>.\<close>

definition milter_utils_xml_append_text_element ::
    "xml_environment \<Rightarrow> bytes \<Rightarrow> bytes \<Rightarrow> bytes option \<Rightarrow> nat \<Rightarrow> bytes" where
  "milter_utils_xml_append_text_element env string name content indent =
     milter_utils_append_indent string indent @ ''<'' @ name @ ''>'' @
       (case content of None \<Rightarrow> ''(null)'' | Some c \<Rightarrow> xml_escape env c) @
       ''</'' @ name @ ''>'' @ [CHR 0x0A]"

definition milter_utils_xml_append_boolean_element ::
    "xml_environment \<Rightarrow> bytes \<Rightarrow> bytes \<Rightarrow> bool \<Rightarrow> nat \<Rightarrow> bytes" where
  "milter_utils_xml_append_boolean_element env string name b indent =
     milter_utils_xml_append_text_element env string name (Some (if b then ''true'' else ''false'')) indent"

definition milter_utils_xml_append_enum_element ::
    "xml_environment \<Rightarrow> bytes \<Rightarrow> bytes \<Rightarrow> milter_status \<Rightarrow> nat \<Rightarrow> bytes" where
  "milter_utils_xml_append_enum_element env string name status indent =
     milter_utils_xml_append_text_element env string name (Some (xml_status env status)) indent"

definition append_optional_element ::
    "xml_environment \<Rightarrow> bytes \<Rightarrow> bytes option \<Rightarrow> nat \<Rightarrow> bytes \<Rightarrow> bytes" where
  "append_optional_element env name content indent string =
     (if content = None then string
      else milter_utils_xml_append_text_element env string name content indent)"

definition append_line :: "bytes \<Rightarrow> nat \<Rightarrow> bytes \<Rightarrow> bytes" where
  "append_line line indent string = milter_utils_append_indent string indent @ line @ [CHR 0x0A]"

definition milter_manager_egg_to_xml_string :: "xml_environment \<Rightarrow> egg \<Rightarrow> bytes \<Rightarrow> nat \<Rightarrow> bytes" where
  "milter_manager_egg_to_xml_string env e string indent =
     (let string = append_line ''<milter>'' indent string;
          string = append_optional_element env ''name'' (egg_name e) (indent + 2) string;
          string = append_optional_element env ''description'' (egg_description e) (indent + 2) string;
          string = milter_utils_xml_append_boolean_element env string ''enabled'' (egg_enabled e) (indent + 2);
          string = milter_utils_xml_append_enum_element env string ''fallback-status''
                     (egg_fallback_status e) (indent + 2);
          string = milter_utils_xml_append_boolean_element env string ''evaluation-mode''
                     (egg_evaluation_mode e) (indent + 2);
          string = append_optional_element env ''connection-spec'' (egg_connection_spec e) (indent + 2) string;
          string = append_optional_element env ''command'' (egg_command e) (indent + 2) string;
          string = append_optional_element env ''command-options'' (egg_command_options e) (indent + 2) string;
          string =
            (if egg_applicable_conditions e = [] then string
             else
               append_line ''</applicable-conditions>'' (indent + 2)
                 (fold (\<lambda>c string. milter_utils_xml_append_text_element env string
                          ''applicable-condition'' (condition_name c) (indent + 4))
                   (egg_applicable_conditions e)
                   (append_line ''<applicable-conditions>'' (indent + 2) string)))
      in append_line ''</milter>'' indent (string @ xml_egg env e (indent + 2)))"

definition milter_manager_egg_to_xml :: "xml_environment \<Rightarrow> egg \<Rightarrow> bytes" where
  "milter_manager_egg_to_xml env e = milter_manager_egg_to_xml_string env e [] 0"

end
