(* ===== verification/Event_Loop.thy ===== *)
theory Event_Loop
  imports Prelude
begin

unbundle bit_operations_syntax

text \<open>
  \<open>milter-event-loop.c\<close> and \<open>milter-libev-event-loop.c\<close>: the loop that calls the callbacks
  of a client and its contexts. A watcher is registered under an id, a 32-bit counter that
  wraps; the condition a channel is watched for is translated to libev's and back. libev
  itself, which decides when a watcher is called, is not under \<open>src/milter\<close>: a caller names
  the watcher that is ready.
\<close>

datatype event_loop_backend =
    MILTER_CLIENT_EVENT_LOOP_BACKEND_DEFAULT
  | MILTER_CLIENT_EVENT_LOOP_BACKEND_GLIB
  | MILTER_CLIENT_EVENT_LOOP_BACKEND_LIBEV

subsection \<open>Conditions\<close>

datatype io_condition = G_IO_IN | G_IO_PRI | G_IO_OUT | G_IO_ERR | G_IO_HUP | G_IO_NVAL

definition EV_READ :: u32 where "EV_READ = 0x01"
definition EV_WRITE :: u32 where "EV_WRITE = 0x02"
definition EV_ERROR :: u32 where "EV_ERROR = 0x80000000"

abbreviation error_conditions :: "io_condition set" where
  "error_conditions \<equiv> {G_IO_ERR, G_IO_HUP, G_IO_NVAL}"

text \<open>A \<open>short\<close> is promoted to an \<open>int\<close>, and an \<open>int\<close> stored in a \<open>short\<close> loses its upper half.\<close>

definition or_short :: "u16 \<Rightarrow> u32 \<Rightarrow> u16" where
  "or_short e flag = ucast (scast e OR flag)"

definition evcond_from_g_io_condition :: "io_condition set \<Rightarrow> u16" where
  "evcond_from_g_io_condition condition =
     (let e = 0;
          e = (if G_IO_IN \<in> condition \<or> G_IO_PRI \<in> condition then or_short e EV_READ else e);
          e = (if G_IO_OUT \<in> condition then or_short e EV_WRITE else e);
          e = (if G_IO_ERR \<in> condition \<or> G_IO_HUP \<in> condition \<or> G_IO_NVAL \<in> condition
               then or_short e EV_ERROR else e)
      in e)"

definition evcond_to_g_io_condition :: "u16 \<Rightarrow> io_condition set" where
  "evcond_to_g_io_condition event =
     (if scast event AND EV_READ \<noteq> 0 then {G_IO_IN} else {}) \<union>
     (if scast event AND EV_WRITE \<noteq> 0 then {G_IO_OUT} else {}) \<union>
     (if scast event AND EV_ERROR \<noteq> 0 then error_conditions else {})"

text \<open>A condition translated to libev's and back is read as readable for the two readable
  ones, as writable for the writable one, and every error condition is gone: the flag that
  stands for an error does not fit the \<open>short\<close> it is stored in. So a channel watched for
  errors only is watched for nothing, and the error libev reports for a bad descriptor reaches
  the callback as readable and writable.\<close>

theorem error_conditions_lost:
  "evcond_to_g_io_condition (evcond_from_g_io_condition condition) =
     (if G_IO_IN \<in> condition \<or> G_IO_PRI \<in> condition then {G_IO_IN} else {}) \<union>
     (if G_IO_OUT \<in> condition then {G_IO_OUT} else {}) \<and>
   evcond_from_g_io_condition error_conditions = 0 \<and>
   evcond_to_g_io_condition (ucast (EV_ERROR OR EV_READ OR EV_WRITE)) = {G_IO_IN, G_IO_OUT}"
  by (auto simp: evcond_to_g_io_condition_def evcond_from_g_io_condition_def Let_def or_short_def
      EV_READ_def EV_WRITE_def EV_ERROR_def split: if_splits)

subsection \<open>The loop\<close>

text \<open>An interval is a number of milliseconds.\<close>

datatype 'c watcher =
    Io_watcher int u16 (callback: 'c)
  | Child_watcher int (callback: 'c)
  | Timer_watcher int (callback: 'c)
  | Idle_watcher (callback: 'c)

record 'c event_loop =
  loop_depth :: u32
  loop_id :: u32
  loop_watchers :: "u32 \<rightharpoonup> 'c watcher"

definition milter_libev_event_loop_new :: "'c event_loop" where
  "milter_libev_event_loop_new = \<lparr>loop_depth = 0, loop_id = 0, loop_watchers = Map.empty\<rparr>"

text \<open>The \<open>while (TRUE)\<close> of \<open>add_watcher\<close> skips 0 and the ids in use.\<close>

partial_function (option) next_watcher_id :: "(u32 \<rightharpoonup> 'w) \<Rightarrow> u32 \<Rightarrow> u32 option" where
  "next_watcher_id ws tag =
     (if tag + 1 = 0 then next_watcher_id ws (tag + 1)
      else if ws (tag + 1) \<noteq> None then next_watcher_id ws (tag + 1)
      else Some (tag + 1))"

definition add_watcher :: "'c event_loop \<Rightarrow> 'c watcher \<Rightarrow> (u32 \<times> 'c event_loop) option" where
  "add_watcher l w =
     (case next_watcher_id (loop_watchers l) (loop_id l) of
        None \<Rightarrow> None
      | Some tag \<Rightarrow> Some (tag, l\<lparr>loop_id := tag, loop_watchers := (loop_watchers l)(tag \<mapsto> w)\<rparr>))"

definition remove_watcher :: "'c event_loop \<Rightarrow> u32 \<Rightarrow> bool \<times> 'c event_loop" where
  "remove_watcher l tag =
     (loop_watchers l tag \<noteq> None, l\<lparr>loop_watchers := (loop_watchers l)(tag := None)\<rparr>)"

definition watch_io_full ::
    "'c event_loop \<Rightarrow> int \<Rightarrow> io_condition set \<Rightarrow> 'c \<Rightarrow> (u32 \<times> 'c event_loop) option" where
  "watch_io_full l fd condition f =
     (if fd = -1 then Some (0, l)
      else add_watcher l (Io_watcher fd (evcond_from_g_io_condition condition) f))"

definition watch_child_full :: "'c event_loop \<Rightarrow> int \<Rightarrow> 'c \<Rightarrow> (u32 \<times> 'c event_loop) option" where
  "watch_child_full l pid f = add_watcher l (Child_watcher pid f)"

definition add_timeout_full :: "'c event_loop \<Rightarrow> int \<Rightarrow> 'c \<Rightarrow> (u32 \<times> 'c event_loop) option" where
  "add_timeout_full l interval f =
     (if interval < 0 then Some (0, l) else add_watcher l (Timer_watcher interval f))"

definition add_idle_full :: "'c event_loop \<Rightarrow> 'c \<Rightarrow> (u32 \<times> 'c event_loop) option" where
  "add_idle_full l f = add_watcher l (Idle_watcher f)"

text \<open>
  \<open>io_func\<close>, \<open>timer_func\<close>, \<open>idle_func\<close> and \<open>child_func\<close>: the watcher's function is called
  and, when it does not want to be kept, the watcher is removed under the id it had. \<open>call\<close>
  runs a callback on the whole state, of which the loop is the part \<open>get\<close> reads and \<open>upd\<close>
  changes; \<open>None\<close> is a callback that does not return. The function of a child's watcher returns
  nothing and the watcher is removed: its callback does not want to be kept.
\<close>

definition dispatch_watcher ::
    "('c \<Rightarrow> 's \<Rightarrow> (bool \<times> 's) option) \<Rightarrow> ('s \<Rightarrow> 'c event_loop) \<Rightarrow>
     (('c event_loop \<Rightarrow> 'c event_loop) \<Rightarrow> 's \<Rightarrow> 's) \<Rightarrow> u32 \<Rightarrow> 's \<Rightarrow> 's option" where
  "dispatch_watcher call get upd tag s =
     (case loop_watchers (get s) tag of
        None \<Rightarrow> Some s
      | Some w \<Rightarrow>
          (case call (callback w) s of
             None \<Rightarrow> None
           | Some (keep, s) \<Rightarrow>
               Some (if keep then s else upd (\<lambda>l. snd (remove_watcher l tag)) s)))"

subsection \<open>Running and quitting\<close>

definition milter_event_loop_is_running :: "'c event_loop \<Rightarrow> bool" where
  "milter_event_loop_is_running l \<longleftrightarrow> 0 < loop_depth l"

definition milter_event_loop_quit :: "'c event_loop \<Rightarrow> 'c event_loop" where
  "milter_event_loop_quit l =
     (if 0 < loop_depth l then l\<lparr>loop_depth := loop_depth l - 1\<rparr> else l)"

text \<open>\<open>iterate n\<close> is what the callbacks of the \<open>n\<close>th iteration do to the loop.\<close>

partial_function (option) iterate_while ::
    "(nat \<Rightarrow> 'c event_loop \<Rightarrow> 'c event_loop) \<Rightarrow> u32 \<Rightarrow> nat \<Rightarrow> 'c event_loop \<Rightarrow> 'c event_loop option" where
  "iterate_while iterate depth n l =
     (if depth < loop_depth l then iterate_while iterate depth (n + 1) (iterate n l) else Some l)"

definition milter_event_loop_run_without_custom ::
    "(nat \<Rightarrow> 'c event_loop \<Rightarrow> 'c event_loop) \<Rightarrow> 'c event_loop \<Rightarrow> 'c event_loop option" where
  "milter_event_loop_run_without_custom iterate l =
     iterate_while iterate (loop_depth l) 0 (l\<lparr>loop_depth := loop_depth l + 1\<rparr>)"

subsection \<open>Watcher ids\<close>

lemma next_watcher_id_sound:
  assumes "next_watcher_id ws tag = Some tag'"
  shows "tag' \<noteq> 0 \<and> ws tag' = None"
  by (rule next_watcher_id.raw_induct [OF _ assms]) (auto split: if_splits)

text \<open>The ids from the counter on are tried in order, so a free one is reached.\<close>

lemma next_watcher_id_finds:
  assumes "free \<noteq> 0" and "ws free = None"
  shows "\<exists>tag'. next_watcher_id ws tag = Some tag'"
proof (induction "unat (free - (tag + 1))" arbitrary: tag rule: less_induct)
  case less
  show ?case
  proof (cases "tag + 1 = 0 \<or> ws (tag + 1) \<noteq> None")
    case True
    with assms have "free - (tag + 1) \<noteq> 0" by (metis eq_iff_diff_eq_0)
    then have "unat (free - (tag + 1 + 1)) < unat (free - (tag + 1))"
      using measure_unat [of "free - (tag + 1)"] by (simp add: diff_diff_eq)
    from less [OF this] show ?thesis using True by (subst next_watcher_id.simps) auto
  next
    case False
    then show ?thesis by (subst next_watcher_id.simps) auto
  qed
qed

text \<open>
  What a client of the loop relies on: an added watcher gets an id that is not 0, which
  stands for no watcher, and that no other watcher has; removing an id touches no other.
\<close>

locale event_source =
  fixes add :: "'l \<Rightarrow> 'w \<Rightarrow> (u32 \<times> 'l) option"
    and rm :: "'l \<Rightarrow> u32 \<Rightarrow> bool \<times> 'l"
    and look :: "'l \<Rightarrow> u32 \<Rightarrow> 'w option"
  assumes add_new: "add l w = Some (tag, l') \<Longrightarrow> tag \<noteq> 0 \<and> look l tag = None \<and> look l' = (look l)(tag \<mapsto> w)"
    and add_room: "tag \<noteq> 0 \<Longrightarrow> look l tag = None \<Longrightarrow> add l w \<noteq> None"
    and rm_found: "fst (rm l tag) \<longleftrightarrow> look l tag \<noteq> None"
    and rm_only: "look (snd (rm l tag)) = (look l)(tag := None)"
begin

lemma add_keeps: "add l w = Some (tag, l') \<Longrightarrow> look l other = Some v \<Longrightarrow> look l' other = Some v"
  using add_new by fastforce

lemma add_rm: "add l w = Some (tag, l') \<Longrightarrow> look (snd (rm l' tag)) = look l"
  using add_new [of l w tag l'] rm_only [of l' tag] by (auto simp: fun_eq_iff)

lemma rm_stale: "look l tag = None \<Longrightarrow> look (snd (rm l tag)) = look l"
  using rm_only [of l tag] by auto

lemma add_full: "add l w = None \<longleftrightarrow> (\<forall>tag. tag \<noteq> 0 \<longrightarrow> look l tag \<noteq> None)"
proof
  assume full: "\<forall>tag. tag \<noteq> 0 \<longrightarrow> look l tag \<noteq> None"
  show "add l w = None"
  proof (cases "add l w")
    case (Some r)
    then show ?thesis using add_new [of l w "fst r" "snd r"] full by auto
  qed
qed (use add_room in blast)

end

interpretation libev: event_source add_watcher remove_watcher loop_watchers
proof
  fix l :: "'c event_loop" and w tag l'
  assume "add_watcher l w = Some (tag, l')"
  then show "tag \<noteq> 0 \<and> loop_watchers l tag = None \<and> loop_watchers l' = (loop_watchers l)(tag \<mapsto> w)"
    using next_watcher_id_sound [of "loop_watchers l" "loop_id l"]
    by (auto simp: add_watcher_def split: option.splits)
next
  fix l :: "'c event_loop" and w tag
  assume "tag \<noteq> 0" and "loop_watchers l tag = None"
  from next_watcher_id_finds [of tag "loop_watchers l" "loop_id l", OF this] show "add_watcher l w \<noteq> None"
    by (auto simp: add_watcher_def)
qed (simp_all add: remove_watcher_def)

lemma add_watcher_frame:
  "add_watcher l w = Some (tag, l') \<Longrightarrow> loop_depth l' = loop_depth l"
  by (auto simp: add_watcher_def split: option.splits)

lemma remove_watcher_frame [simp]: "loop_depth (snd (remove_watcher l tag)) = loop_depth l"
  by (simp add: remove_watcher_def)

text \<open>C38: registering a watcher ends exactly when an id other than 0 is free, however often the
  counter has wrapped; the watcher gets a free id and removing that id restores the table.\<close>

theorem watcher_ids:
  "(case add_watcher l w of
      None \<Rightarrow> {tag. loop_watchers l tag = None} \<subseteq> {0}
    | Some (tag, l') \<Rightarrow> tag \<noteq> 0 \<and> loop_watchers l tag = None \<and> loop_watchers l' = (loop_watchers l)(tag \<mapsto> w) \<and>
        fst (remove_watcher l' tag) \<and> loop_watchers (snd (remove_watcher l' tag)) = loop_watchers l)"
proof (cases "add_watcher l w")
  case None
  then show ?thesis using libev.add_full [of l w] by auto
next
  case (Some r)
  obtain tag l' where r: "r = (tag, l')" by force
  then show ?thesis
    using Some libev.add_new [of l w tag l'] libev.add_rm [of l w tag l'] libev.rm_found [of l' tag] by simp
qed

subsection \<open>Nested runs\<close>

lemma iterate_while_steps:
  assumes "\<forall>n l. n < k \<longrightarrow> loop_depth (iterate n l) = loop_depth l"
    and "n \<le> k" and "loop_depth l = depth + 1" and "depth + 1 \<noteq> 0"
    and "\<forall>l. loop_depth (iterate k l) = loop_depth (milter_event_loop_quit l)"
  shows "\<exists>l'. iterate_while iterate depth n l = Some l' \<and> loop_depth l' = depth"
  using assms(2,3)
proof (induction "k - n" arbitrary: n l)
  have less: "depth < depth + 1" using assms(4) by (simp add: word_less_nat_alt unatSuc add.commute)
  {
    case 0
    then have [simp]: "n = k" by simp
    have "loop_depth (iterate k l) = depth"
      using assms(5) 0(3) assms(4) by (simp add: milter_event_loop_quit_def word_gt_0)
    then show ?case using 0(3) less
      by (subst iterate_while.simps) (simp add: iterate_while.simps)
  next
    case (Suc m)
    then have "n < k" by simp
    with Suc.hyps(1) [of "n + 1" "iterate n l"] Suc.prems Suc.hyps(2) assms(1)
    show ?case using less by (subst iterate_while.simps) simp
  }
qed

text \<open>A run that is started inside another and whose callbacks quit in the \<open>k\<close>th iteration
  returns after it, and the outer run goes on: the depth is the one the run was started at.\<close>

theorem quit_ends_innermost:
  assumes "\<forall>n l. n < k \<longrightarrow> loop_depth (iterate n l) = loop_depth l"
    and "\<forall>l. loop_depth (iterate k l) = loop_depth (milter_event_loop_quit l)"
    and "loop_depth l \<noteq> - 1"
  shows "\<exists>l'. milter_event_loop_run_without_custom iterate l = Some l' \<and> loop_depth l' = loop_depth l \<and>
    (milter_event_loop_is_running l' \<longleftrightarrow> milter_event_loop_is_running l)"
proof -
  have "loop_depth l + 1 \<noteq> 0" using assms(3) by (metis add_eq_0_iff2)
  from iterate_while_steps [OF assms(1) _ _ this assms(2), of 0 "l\<lparr>loop_depth := loop_depth l + 1\<rparr>"]
  show ?thesis by (auto simp: milter_event_loop_run_without_custom_def milter_event_loop_is_running_def)
qed

theorem quit_ends_innermost_witness:
  "\<exists>l'. milter_event_loop_run_without_custom (\<lambda>n. if n < 3 then (\<lambda>l. l) else milter_event_loop_quit)
      (milter_libev_event_loop_new\<lparr>loop_depth := 1\<rparr> :: unit event_loop) = Some l' \<and> loop_depth l' = 1"
  using quit_ends_innermost [of 3 "\<lambda>n. if n < 3 then (\<lambda>l. l) else milter_event_loop_quit"
      "milter_libev_event_loop_new\<lparr>loop_depth := 1\<rparr> :: unit event_loop"]
  by (auto simp: milter_libev_event_loop_new_def)

end
