(* ===== verification/Configuration.thy ===== *)
theory Configuration
  imports Egg Leader Control_Protocol Event_Loop
begin

text \<open>
  \<open>milter-manager-configuration.c\<close>: the settings of the manager, the eggs and the applicable
  conditions, loading and saving, and the children of a session. The loaders themselves are
  virtual methods that the Ruby bindings implement; they, the file system and the values fixed
  when the program is built are parameters.
\<close>

subsection \<open>Environment\<close>

datatype configuration_error =
    MILTER_MANAGER_CONFIGURATION_ERROR_NOT_IMPLEMENTED
  | MILTER_MANAGER_CONFIGURATION_ERROR_NOT_EXIST
  | MILTER_MANAGER_CONFIGURATION_ERROR_UNKNOWN
  | MILTER_MANAGER_CONFIGURATION_ERROR_SAVE

record configuration_build =
  CONFIG_DIR :: bytes
  CONFIG_FILE_NAME :: bytes
  CUSTOM_CONFIG_FILE_NAME :: bytes
  MILTER_MANAGER_DEFAULT_CONNECTION_SPEC :: "bytes option"
  MILTER_MANAGER_PACKAGE_PLATFORM :: "bytes option"
  MILTER_MANAGER_PACKAGE_OPTIONS :: "bytes option"
  MILTER_MANAGER_DEFAULT_EFFECTIVE_USER :: "bytes option"
  MILTER_MANAGER_DEFAULT_EFFECTIVE_GROUP :: "bytes option"
  MILTER_MANAGER_DEFAULT_PID_FILE :: "bytes option"
  MILTER_MANAGER_DEFAULT_SOCKET_GROUP :: "bytes option"

text \<open>Regular files with their content; \<open>g_file_set_contents\<close> works where it may write.\<close>

record file_system =
  fs_files :: "bytes \<Rightarrow> bytes option"
  fs_writable :: "bytes \<Rightarrow> bool"
  g_build_filename :: "bytes \<Rightarrow> bytes \<Rightarrow> bytes"
  g_path_is_absolute :: "bytes \<Rightarrow> bool"
  fs_modified :: "bytes \<Rightarrow> nat option"

subsection \<open>State\<close>

record configuration =
  load_paths :: "bytes list"
  config_eggs :: "egg list"
  config_applicable_conditions :: "applicable_condition list"
  privilege_mode :: bool
  controller_connection_spec :: "bytes option"
  manager_connection_spec :: "bytes option"
  config_fallback_status :: milter_status
  config_fallback_status_at_disconnect :: milter_status
  package_platform :: "bytes option"
  package_options :: "bytes option"
  effective_user :: "bytes option"
  effective_group :: "bytes option"
  manager_unix_socket_mode :: u32
  controller_unix_socket_mode :: u32
  manager_unix_socket_group :: "bytes option"
  controller_unix_socket_group :: "bytes option"
  remove_manager_unix_socket_on_close :: bool
  remove_controller_unix_socket_on_close :: bool
  remove_manager_unix_socket_on_create :: bool
  remove_controller_unix_socket_on_create :: bool
  config_daemon :: bool
  pid_file :: "bytes option"
  maintenance_interval :: u32
  suspend_time_on_unacceptable :: u32
  max_connections :: u32
  max_file_descriptors :: u32
  custom_configuration_directory :: "bytes option"
  config_locations :: "bytes \<Rightarrow> (bytes \<times> int) option"
  connection_check_interval :: u32
  config_event_loop_backend :: event_loop_backend
  n_workers :: u32
  default_packet_buffer_size :: u32
  use_syslog :: bool
  syslog_facility :: "bytes option"
  config_chunk_size :: u32
  max_pending_finished_sessions :: u32

text \<open>A fresh object is zeroed; the properties with \<open>G_PARAM_CONSTRUCT\<close> then get their defaults.\<close>

definition milter_manager_configuration_init :: "configuration_build \<Rightarrow> bytes option \<Rightarrow> configuration" where
  "milter_manager_configuration_init build config_dir_env =
     \<lparr>load_paths = (case config_dir_env of None \<Rightarrow> [] | Some d \<Rightarrow> [d]) @ [CONFIG_DIR build],
      config_eggs = [], config_applicable_conditions = [], privilege_mode = False,
      controller_connection_spec = None,
      manager_connection_spec = MILTER_MANAGER_DEFAULT_CONNECTION_SPEC build,
      config_fallback_status = MILTER_STATUS_ACCEPT,
      config_fallback_status_at_disconnect = MILTER_STATUS_TEMPORARY_FAILURE,
      package_platform = MILTER_MANAGER_PACKAGE_PLATFORM build,
      package_options = MILTER_MANAGER_PACKAGE_OPTIONS build,
      effective_user = MILTER_MANAGER_DEFAULT_EFFECTIVE_USER build,
      effective_group = MILTER_MANAGER_DEFAULT_EFFECTIVE_GROUP build,
      manager_unix_socket_mode = 432, controller_unix_socket_mode = 432,
      manager_unix_socket_group = MILTER_MANAGER_DEFAULT_SOCKET_GROUP build,
      controller_unix_socket_group = None, remove_manager_unix_socket_on_close = True,
      remove_controller_unix_socket_on_close = True, remove_manager_unix_socket_on_create = True,
      remove_controller_unix_socket_on_create = True, config_daemon = False,
      pid_file = MILTER_MANAGER_DEFAULT_PID_FILE build, maintenance_interval = 10,
      suspend_time_on_unacceptable = 5, max_connections = 0, max_file_descriptors = 0,
      custom_configuration_directory = None, config_locations = Map.empty,
      connection_check_interval = 0,
      config_event_loop_backend = MILTER_CLIENT_EVENT_LOOP_BACKEND_DEFAULT, n_workers = 0,
      default_packet_buffer_size = 0, use_syslog = True, syslog_facility = None,
      config_chunk_size = of_nat MILTER_CHUNK_SIZE, max_pending_finished_sessions = 0\<rparr>"

subsection \<open>Setters\<close>

definition milter_manager_configuration_set_privilege_mode :: "configuration \<Rightarrow> bool \<Rightarrow> configuration" where
  "milter_manager_configuration_set_privilege_mode c x = c\<lparr>privilege_mode := x\<rparr>"

definition milter_manager_configuration_set_controller_connection_spec ::
    "configuration \<Rightarrow> bytes option \<Rightarrow> configuration" where
  "milter_manager_configuration_set_controller_connection_spec c x = c\<lparr>controller_connection_spec := x\<rparr>"

definition milter_manager_configuration_set_manager_connection_spec ::
    "configuration \<Rightarrow> bytes option \<Rightarrow> configuration" where
  "milter_manager_configuration_set_manager_connection_spec c x = c\<lparr>manager_connection_spec := x\<rparr>"

definition milter_manager_configuration_set_effective_user ::
    "configuration \<Rightarrow> bytes option \<Rightarrow> configuration" where
  "milter_manager_configuration_set_effective_user c x = c\<lparr>effective_user := x\<rparr>"

definition milter_manager_configuration_set_effective_group ::
    "configuration \<Rightarrow> bytes option \<Rightarrow> configuration" where
  "milter_manager_configuration_set_effective_group c x = c\<lparr>effective_group := x\<rparr>"

definition milter_manager_configuration_set_manager_unix_socket_mode ::
    "configuration \<Rightarrow> u32 \<Rightarrow> configuration" where
  "milter_manager_configuration_set_manager_unix_socket_mode c x = c\<lparr>manager_unix_socket_mode := x\<rparr>"

definition milter_manager_configuration_set_controller_unix_socket_mode ::
    "configuration \<Rightarrow> u32 \<Rightarrow> configuration" where
  "milter_manager_configuration_set_controller_unix_socket_mode c x = c\<lparr>controller_unix_socket_mode := x\<rparr>"

definition milter_manager_configuration_set_manager_unix_socket_group ::
    "configuration \<Rightarrow> bytes option \<Rightarrow> configuration" where
  "milter_manager_configuration_set_manager_unix_socket_group c x = c\<lparr>manager_unix_socket_group := x\<rparr>"

definition milter_manager_configuration_set_controller_unix_socket_group ::
    "configuration \<Rightarrow> bytes option \<Rightarrow> configuration" where
  "milter_manager_configuration_set_controller_unix_socket_group c x = c\<lparr>controller_unix_socket_group := x\<rparr>"

definition milter_manager_configuration_set_remove_manager_unix_socket_on_close ::
    "configuration \<Rightarrow> bool \<Rightarrow> configuration" where
  "milter_manager_configuration_set_remove_manager_unix_socket_on_close c x =
     c\<lparr>remove_manager_unix_socket_on_close := x\<rparr>"

definition milter_manager_configuration_set_remove_controller_unix_socket_on_close ::
    "configuration \<Rightarrow> bool \<Rightarrow> configuration" where
  "milter_manager_configuration_set_remove_controller_unix_socket_on_close c x =
     c\<lparr>remove_controller_unix_socket_on_close := x\<rparr>"

definition milter_manager_configuration_set_remove_manager_unix_socket_on_create ::
    "configuration \<Rightarrow> bool \<Rightarrow> configuration" where
  "milter_manager_configuration_set_remove_manager_unix_socket_on_create c x =
     c\<lparr>remove_manager_unix_socket_on_create := x\<rparr>"

definition milter_manager_configuration_set_remove_controller_unix_socket_on_create ::
    "configuration \<Rightarrow> bool \<Rightarrow> configuration" where
  "milter_manager_configuration_set_remove_controller_unix_socket_on_create c x =
     c\<lparr>remove_controller_unix_socket_on_create := x\<rparr>"

definition milter_manager_configuration_set_daemon :: "configuration \<Rightarrow> bool \<Rightarrow> configuration" where
  "milter_manager_configuration_set_daemon c x = c\<lparr>config_daemon := x\<rparr>"

definition milter_manager_configuration_set_pid_file :: "configuration \<Rightarrow> bytes option \<Rightarrow> configuration" where
  "milter_manager_configuration_set_pid_file c x = c\<lparr>pid_file := x\<rparr>"

definition milter_manager_configuration_set_maintenance_interval :: "configuration \<Rightarrow> u32 \<Rightarrow> configuration" where
  "milter_manager_configuration_set_maintenance_interval c x = c\<lparr>maintenance_interval := x\<rparr>"

definition milter_manager_configuration_set_suspend_time_on_unacceptable ::
    "configuration \<Rightarrow> u32 \<Rightarrow> configuration" where
  "milter_manager_configuration_set_suspend_time_on_unacceptable c x = c\<lparr>suspend_time_on_unacceptable := x\<rparr>"

definition milter_manager_configuration_set_max_connections :: "configuration \<Rightarrow> u32 \<Rightarrow> configuration" where
  "milter_manager_configuration_set_max_connections c x = c\<lparr>max_connections := x\<rparr>"

definition milter_manager_configuration_set_max_file_descriptors :: "configuration \<Rightarrow> u32 \<Rightarrow> configuration" where
  "milter_manager_configuration_set_max_file_descriptors c x = c\<lparr>max_file_descriptors := x\<rparr>"

definition milter_manager_configuration_set_custom_configuration_directory ::
    "configuration \<Rightarrow> bytes option \<Rightarrow> configuration" where
  "milter_manager_configuration_set_custom_configuration_directory c x =
     c\<lparr>custom_configuration_directory := x\<rparr>"

definition milter_manager_configuration_set_fallback_status ::
    "configuration \<Rightarrow> milter_status \<Rightarrow> configuration" where
  "milter_manager_configuration_set_fallback_status c x = c\<lparr>config_fallback_status := x\<rparr>"

definition milter_manager_configuration_set_fallback_status_at_disconnect ::
    "configuration \<Rightarrow> milter_status \<Rightarrow> configuration" where
  "milter_manager_configuration_set_fallback_status_at_disconnect c x =
     c\<lparr>config_fallback_status_at_disconnect := x\<rparr>"

definition milter_manager_configuration_set_package_platform ::
    "configuration \<Rightarrow> bytes option \<Rightarrow> configuration" where
  "milter_manager_configuration_set_package_platform c x = c\<lparr>package_platform := x\<rparr>"

definition milter_manager_configuration_set_package_options ::
    "configuration \<Rightarrow> bytes option \<Rightarrow> configuration" where
  "milter_manager_configuration_set_package_options c x = c\<lparr>package_options := x\<rparr>"

definition milter_manager_configuration_set_connection_check_interval ::
    "configuration \<Rightarrow> u32 \<Rightarrow> configuration" where
  "milter_manager_configuration_set_connection_check_interval c x = c\<lparr>connection_check_interval := x\<rparr>"

definition milter_manager_configuration_set_event_loop_backend ::
    "configuration \<Rightarrow> event_loop_backend \<Rightarrow> configuration" where
  "milter_manager_configuration_set_event_loop_backend c x = c\<lparr>config_event_loop_backend := x\<rparr>"

definition milter_manager_configuration_set_n_workers :: "configuration \<Rightarrow> u32 \<Rightarrow> configuration" where
  "milter_manager_configuration_set_n_workers c x = c\<lparr>n_workers := x\<rparr>"

definition milter_manager_configuration_set_default_packet_buffer_size ::
    "configuration \<Rightarrow> u32 \<Rightarrow> configuration" where
  "milter_manager_configuration_set_default_packet_buffer_size c x = c\<lparr>default_packet_buffer_size := x\<rparr>"

definition milter_manager_configuration_set_use_syslog :: "configuration \<Rightarrow> bool \<Rightarrow> configuration" where
  "milter_manager_configuration_set_use_syslog c x = c\<lparr>use_syslog := x\<rparr>"

definition milter_manager_configuration_set_syslog_facility ::
    "configuration \<Rightarrow> bytes option \<Rightarrow> configuration" where
  "milter_manager_configuration_set_syslog_facility c x = c\<lparr>syslog_facility := x\<rparr>"

definition milter_manager_configuration_set_chunk_size :: "configuration \<Rightarrow> u32 \<Rightarrow> configuration" where
  "milter_manager_configuration_set_chunk_size c x = c\<lparr>config_chunk_size := min x (of_nat MILTER_CHUNK_SIZE)\<rparr>"

definition milter_manager_configuration_set_max_pending_finished_sessions ::
    "configuration \<Rightarrow> u32 \<Rightarrow> configuration" where
  "milter_manager_configuration_set_max_pending_finished_sessions c x =
     c\<lparr>max_pending_finished_sessions := x\<rparr>"

subsection \<open>Load paths\<close>

definition milter_manager_configuration_append_load_path :: "configuration \<Rightarrow> bytes \<Rightarrow> configuration" where
  "milter_manager_configuration_append_load_path c path = c\<lparr>load_paths := load_paths c @ [path]\<rparr>"

definition milter_manager_configuration_prepend_load_path :: "configuration \<Rightarrow> bytes \<Rightarrow> configuration" where
  "milter_manager_configuration_prepend_load_path c path = c\<lparr>load_paths := path # load_paths c\<rparr>"

definition milter_manager_configuration_clear_load_paths :: "configuration \<Rightarrow> configuration" where
  "milter_manager_configuration_clear_load_paths c = c\<lparr>load_paths := []\<rparr>"

definition find_file :: "file_system \<Rightarrow> configuration \<Rightarrow> bytes \<Rightarrow> bytes option" where
  "find_file fs c file_name =
     (if g_path_is_absolute fs file_name then Some file_name
      else find (\<lambda>path. fs_files fs path \<noteq> None) (map (\<lambda>dir. g_build_filename fs dir file_name) (load_paths c)))"

subsection \<open>Eggs and conditions\<close>

text \<open>
  The two lists are searched alike. \<open>g_str_equal\<close> reads both names, so an object without a
  name is a \<open>NULL\<close> dereference when it is reached.
\<close>

fun find_named :: "('a \<Rightarrow> bytes option) \<Rightarrow> bytes \<Rightarrow> 'a list \<Rightarrow> 'a option result" where
  "find_named nm name [] = Ok None"
| "find_named nm name (x # xs) =
     (case nm x of
        None \<Rightarrow> Fault Null_dereference
      | Some n \<Rightarrow> if n = name then Ok (Some x) else find_named nm name xs)"

fun remove_named :: "('a \<Rightarrow> bytes option) \<Rightarrow> bytes \<Rightarrow> 'a list \<Rightarrow> 'a list result" where
  "remove_named nm name [] = Ok []"
| "remove_named nm name (x # xs) =
     (case nm x of
        None \<Rightarrow> Fault Null_dereference
      | Some n \<Rightarrow> if n = name then Ok xs else bind_result (remove_named nm name xs) (\<lambda>ys. Ok (x # ys)))"

definition milter_manager_configuration_add_egg :: "configuration \<Rightarrow> egg option \<Rightarrow> configuration" where
  "milter_manager_configuration_add_egg c e =
     (case e of None \<Rightarrow> c | Some e \<Rightarrow> c\<lparr>config_eggs := config_eggs c @ [e]\<rparr>)"

definition milter_manager_configuration_find_egg :: "configuration \<Rightarrow> bytes \<Rightarrow> egg option result" where
  "milter_manager_configuration_find_egg c name = find_named egg_name name (config_eggs c)"

definition milter_manager_configuration_remove_egg_by_name ::
    "configuration \<Rightarrow> bytes \<Rightarrow> configuration result" where
  "milter_manager_configuration_remove_egg_by_name c name =
     bind_result (remove_named egg_name name (config_eggs c)) (\<lambda>es. Ok (c\<lparr>config_eggs := es\<rparr>))"

definition milter_manager_configuration_remove_egg :: "configuration \<Rightarrow> egg \<Rightarrow> configuration result" where
  "milter_manager_configuration_remove_egg c e =
     (case egg_name e of
        Some name \<Rightarrow> milter_manager_configuration_remove_egg_by_name c name
      | None \<Rightarrow> if config_eggs c = [] then Ok c else Fault Null_dereference)"

definition milter_manager_configuration_clear_eggs :: "configuration \<Rightarrow> configuration" where
  "milter_manager_configuration_clear_eggs c = c\<lparr>config_eggs := []\<rparr>"

definition milter_manager_configuration_add_applicable_condition ::
    "configuration \<Rightarrow> applicable_condition option \<Rightarrow> configuration" where
  "milter_manager_configuration_add_applicable_condition c x =
     (case x of
        None \<Rightarrow> c
      | Some x \<Rightarrow> c\<lparr>config_applicable_conditions := config_applicable_conditions c @ [x]\<rparr>)"

definition milter_manager_configuration_find_applicable_condition ::
    "configuration \<Rightarrow> bytes \<Rightarrow> applicable_condition option result" where
  "milter_manager_configuration_find_applicable_condition c name =
     find_named condition_name name (config_applicable_conditions c)"

definition milter_manager_configuration_remove_applicable_condition_by_name ::
    "configuration \<Rightarrow> bytes \<Rightarrow> configuration result" where
  "milter_manager_configuration_remove_applicable_condition_by_name c name =
     bind_result (remove_named condition_name name (config_applicable_conditions c))
       (\<lambda>xs. Ok (c\<lparr>config_applicable_conditions := xs\<rparr>))"

definition milter_manager_configuration_remove_applicable_condition ::
    "configuration \<Rightarrow> applicable_condition \<Rightarrow> configuration result" where
  "milter_manager_configuration_remove_applicable_condition c x =
     (case condition_name x of
        Some name \<Rightarrow> milter_manager_configuration_remove_applicable_condition_by_name c name
      | None \<Rightarrow> if config_applicable_conditions c = [] then Ok c else Fault Null_dereference)"

definition milter_manager_configuration_clear_applicable_conditions :: "configuration \<Rightarrow> configuration" where
  "milter_manager_configuration_clear_applicable_conditions c = c\<lparr>config_applicable_conditions := []\<rparr>"

subsection \<open>Clearing\<close>

definition clear_controller :: "configuration \<Rightarrow> configuration" where
  "clear_controller c = c\<lparr>controller_connection_spec := None, controller_unix_socket_group := None\<rparr>"

definition clear_manager :: "configuration_build \<Rightarrow> configuration \<Rightarrow> configuration" where
  "clear_manager build c =
     c\<lparr>manager_connection_spec := MILTER_MANAGER_DEFAULT_CONNECTION_SPEC build,
       privilege_mode := False, config_daemon := False,
       config_fallback_status := MILTER_STATUS_ACCEPT,
       config_fallback_status_at_disconnect := MILTER_STATUS_TEMPORARY_FAILURE,
       maintenance_interval := 10, suspend_time_on_unacceptable := 5,
       max_connections := 0, max_file_descriptors := 0, connection_check_interval := 0,
       config_event_loop_backend := MILTER_CLIENT_EVENT_LOOP_BACKEND_GLIB, n_workers := 0,
       default_packet_buffer_size := 0, config_chunk_size := of_nat MILTER_CHUNK_SIZE,
       max_pending_finished_sessions := 0\<rparr>"

text \<open>Only what is set is set back.\<close>

definition clear_package :: "configuration_build \<Rightarrow> configuration \<Rightarrow> configuration" where
  "clear_package build c =
     (let c = (if package_platform c = None then c
               else c\<lparr>package_platform := MILTER_MANAGER_PACKAGE_PLATFORM build\<rparr>)
      in if package_options c = None then c
         else c\<lparr>package_options := MILTER_MANAGER_PACKAGE_OPTIONS build\<rparr>)"

definition clear_account :: "configuration_build \<Rightarrow> configuration \<Rightarrow> configuration" where
  "clear_account build c =
     c\<lparr>effective_user := MILTER_MANAGER_DEFAULT_EFFECTIVE_USER build,
       effective_group := MILTER_MANAGER_DEFAULT_EFFECTIVE_GROUP build\<rparr>"

definition clear_process :: "configuration_build \<Rightarrow> configuration \<Rightarrow> configuration" where
  "clear_process build c = c\<lparr>pid_file := MILTER_MANAGER_DEFAULT_PID_FILE build\<rparr>"

definition clear_configuration :: "configuration \<Rightarrow> configuration" where
  "clear_configuration c = c\<lparr>custom_configuration_directory := None, config_locations := Map.empty\<rparr>"

definition clear_socket :: "configuration_build \<Rightarrow> configuration \<Rightarrow> configuration" where
  "clear_socket build c =
     c\<lparr>manager_unix_socket_group := MILTER_MANAGER_DEFAULT_SOCKET_GROUP build,
       manager_unix_socket_mode := 432, controller_unix_socket_mode := 432,
       remove_manager_unix_socket_on_close := True, remove_controller_unix_socket_on_close := True,
       remove_manager_unix_socket_on_create := True, remove_controller_unix_socket_on_create := True\<rparr>"

definition clear_log :: "configuration \<Rightarrow> configuration" where
  "clear_log c = c\<lparr>use_syslog := True, syslog_facility := None\<rparr>"

text \<open>
  The virtual methods of the class, where it has them; one that fails says why. An error of
  another domain than the configuration's is known by its code only.
\<close>

datatype load_error = Configuration_error configuration_error | Foreign_error int

fun error_code :: "load_error \<Rightarrow> int" where
  "error_code (Configuration_error MILTER_MANAGER_CONFIGURATION_ERROR_NOT_IMPLEMENTED) = 0"
| "error_code (Configuration_error MILTER_MANAGER_CONFIGURATION_ERROR_NOT_EXIST) = 1"
| "error_code (Configuration_error MILTER_MANAGER_CONFIGURATION_ERROR_UNKNOWN) = 2"
| "error_code (Configuration_error MILTER_MANAGER_CONFIGURATION_ERROR_SAVE) = 3"
| "error_code (Foreign_error code) = code"

record configuration_class =
  class_load :: "(bytes \<Rightarrow> configuration \<Rightarrow> load_error option \<times> configuration) option"
  class_load_custom :: "(bytes \<Rightarrow> configuration \<Rightarrow> load_error option \<times> configuration) option"
  class_clear :: "(configuration \<Rightarrow> load_error option \<times> configuration) option"

definition cleared :: "configuration_build \<Rightarrow> configuration \<Rightarrow> configuration" where
  "cleared build c =
     clear_log (clear_socket build (clear_configuration (clear_process build (clear_account build
       (clear_package build (clear_manager build (clear_controller
         (milter_manager_configuration_clear_applicable_conditions
           (milter_manager_configuration_clear_eggs c)))))))))"

definition milter_manager_configuration_clear ::
    "configuration_build \<Rightarrow> configuration_class \<Rightarrow> configuration \<Rightarrow> load_error option \<times> configuration" where
  "milter_manager_configuration_clear build cls c =
     (let c = cleared build c
      in case class_clear cls of None \<Rightarrow> (None, c) | Some f \<Rightarrow> f c)"

text \<open>What is asked for when the object is made is cleared again.\<close>

definition milter_manager_configuration_new ::
    "configuration_build \<Rightarrow> configuration_class \<Rightarrow> bytes option \<Rightarrow> (configuration \<Rightarrow> configuration) \<Rightarrow> configuration" where
  "milter_manager_configuration_new build cls config_dir_env properties =
     snd (milter_manager_configuration_clear build cls
       (properties (milter_manager_configuration_init build config_dir_env)))"

subsection \<open>Loading\<close>

definition load_with ::
    "(bytes \<Rightarrow> configuration \<Rightarrow> load_error option \<times> configuration) option \<Rightarrow> file_system \<Rightarrow>
     configuration \<Rightarrow> bytes \<Rightarrow> load_error option \<times> configuration" where
  "load_with method fs c file_name =
     (case method of
        None \<Rightarrow> (Some (Configuration_error MILTER_MANAGER_CONFIGURATION_ERROR_NOT_IMPLEMENTED), c)
      | Some f \<Rightarrow>
          (case find_file fs c file_name of
             None \<Rightarrow> (Some (Configuration_error MILTER_MANAGER_CONFIGURATION_ERROR_NOT_EXIST), c)
           | Some full_path \<Rightarrow> f full_path c))"

definition milter_manager_configuration_load ::
    "configuration_class \<Rightarrow> file_system \<Rightarrow> configuration \<Rightarrow> bytes \<Rightarrow> load_error option \<times> configuration" where
  "milter_manager_configuration_load cls = load_with (class_load cls)"

definition milter_manager_configuration_load_custom ::
    "configuration_class \<Rightarrow> file_system \<Rightarrow> configuration \<Rightarrow> bytes \<Rightarrow> load_error option \<times> configuration" where
  "milter_manager_configuration_load_custom cls = load_with (class_load_custom cls)"

text \<open>The error's domain is not looked at.\<close>

definition unless_not_exist :: "load_error option \<times> configuration \<Rightarrow> load_error option \<times> configuration" where
  "unless_not_exist r =
     (case r of
        (None, c) \<Rightarrow> (None, c)
      | (Some e, c) \<Rightarrow> if error_code e = 1 then (None, c) else (Some e, c))"

definition milter_manager_configuration_load_if_exist ::
    "configuration_class \<Rightarrow> file_system \<Rightarrow> configuration \<Rightarrow> bytes \<Rightarrow> load_error option \<times> configuration" where
  "milter_manager_configuration_load_if_exist cls fs c file_name =
     unless_not_exist (milter_manager_configuration_load cls fs c file_name)"

definition milter_manager_configuration_load_custom_if_exist ::
    "configuration_class \<Rightarrow> file_system \<Rightarrow> configuration \<Rightarrow> bytes \<Rightarrow> load_error option \<times> configuration" where
  "milter_manager_configuration_load_custom_if_exist cls fs c file_name =
     unless_not_exist (milter_manager_configuration_load_custom cls fs c file_name)"

definition milter_manager_configuration_reload ::
    "configuration_build \<Rightarrow> configuration_class \<Rightarrow> file_system \<Rightarrow> configuration \<Rightarrow>
     load_error option \<times> configuration" where
  "milter_manager_configuration_reload build cls fs c =
     (case milter_manager_configuration_clear build cls c of
        (Some e, c) \<Rightarrow> (Some e, c)
      | (None, c) \<Rightarrow>
          (case milter_manager_configuration_load cls fs c (CONFIG_FILE_NAME build) of
             (Some e, c) \<Rightarrow> (Some e, c)
           | (None, c) \<Rightarrow>
               milter_manager_configuration_load_custom_if_exist cls fs c (CUSTOM_CONFIG_FILE_NAME build)))"

fun save_in :: "file_system \<Rightarrow> bytes list \<Rightarrow> bytes \<Rightarrow> bytes \<Rightarrow> file_system option" where
  "save_in fs [] file_name content = None"
| "save_in fs (dir # dirs) file_name content =
     (let full_path = g_build_filename fs dir file_name
      in if fs_writable fs full_path
         then Some (fs\<lparr>fs_files := (fs_files fs)(full_path \<mapsto> content)\<rparr>)
         else save_in fs dirs file_name content)"

definition milter_manager_configuration_save_custom ::
    "configuration_build \<Rightarrow> file_system \<Rightarrow> configuration \<Rightarrow> bytes \<Rightarrow> load_error option \<times> file_system" where
  "milter_manager_configuration_save_custom build fs c content =
     (case save_in fs (load_paths c) (CUSTOM_CONFIG_FILE_NAME build) content of
        None \<Rightarrow> (Some (Configuration_error MILTER_MANAGER_CONFIGURATION_ERROR_SAVE), fs)
      | Some fs \<Rightarrow> (None, fs))"

subsection \<open>Locations\<close>

definition milter_manager_configuration_set_location ::
    "configuration \<Rightarrow> bytes \<Rightarrow> bytes option \<Rightarrow> int \<Rightarrow> configuration" where
  "milter_manager_configuration_set_location c key file line =
     c\<lparr>config_locations := (config_locations c)(key := map_option (\<lambda>f. (f, line)) file)\<rparr>"

definition milter_manager_configuration_reset_location :: "configuration \<Rightarrow> bytes \<Rightarrow> configuration" where
  "milter_manager_configuration_reset_location c key =
     milter_manager_configuration_set_location c key None (- 1)"

definition milter_manager_configuration_get_location :: "configuration \<Rightarrow> bytes \<Rightarrow> (bytes \<times> int) option" where
  "milter_manager_configuration_get_location c key = config_locations c key"

subsection \<open>XML\<close>

definition condition_to_xml :: "xml_environment \<Rightarrow> nat \<Rightarrow> applicable_condition \<Rightarrow> bytes \<Rightarrow> bytes" where
  "condition_to_xml env indent c string =
     append_line ''</applicable-condition>'' (indent + 4)
       (append_optional_element env ''description'' (condition_description c) (indent + 6)
         (milter_utils_xml_append_text_element env
           (append_line ''<applicable-condition>'' (indent + 4) string) ''name'' (condition_name c) (indent + 6)))"

text \<open>\<open>to_xml_signal\<close> is what the handlers of the configuration's own \<open>to-xml\<close> add.\<close>

definition milter_manager_configuration_to_xml_string ::
    "configuration_build \<Rightarrow> xml_environment \<Rightarrow> (nat \<Rightarrow> bytes) \<Rightarrow> file_system \<Rightarrow> configuration \<Rightarrow> bytes \<Rightarrow> nat \<Rightarrow>
     bytes" where
  "milter_manager_configuration_to_xml_string build env to_xml_signal fs c string indent =
     (let string = append_line ''<configuration>'' indent string;
          string =
            (case find_file fs c (CUSTOM_CONFIG_FILE_NAME build) of
               None \<Rightarrow> string
             | Some full_path \<Rightarrow>
                 (case fs_modified fs full_path of
                    None \<Rightarrow> string
                  | Some mtime \<Rightarrow>
                      milter_utils_xml_append_text_element env string ''last-modified''
                        (Some (decimal mtime)) (indent + 2)));
          string =
            (if config_applicable_conditions c = [] then string
             else append_line ''</applicable-conditions>'' (indent + 2)
                    (fold (condition_to_xml env indent) (config_applicable_conditions c)
                      (append_line ''<applicable-conditions>'' (indent + 2) string)));
          string =
            (if config_eggs c = [] then string
             else append_line ''</milters>'' (indent + 2)
                    (fold (\<lambda>e string. milter_manager_egg_to_xml_string env e string (indent + 2 + 2))
                      (config_eggs c) (append_line ''<milters>'' (indent + 2) string)))
      in append_line ''</configuration>'' indent (string @ to_xml_signal (indent + 2)))"

definition milter_manager_configuration_to_xml ::
    "configuration_build \<Rightarrow> xml_environment \<Rightarrow> (nat \<Rightarrow> bytes) \<Rightarrow> file_system \<Rightarrow> configuration \<Rightarrow> bytes" where
  "milter_manager_configuration_to_xml build env to_xml_signal fs c =
     milter_manager_configuration_to_xml_string build env to_xml_signal fs c [] 0"

subsection \<open>The children of a session\<close>

text \<open>What the children see of a child that has just been hatched.\<close>

definition child_of_manager_child :: "manager_child \<Rightarrow> child" where
  "child_of_manager_child m =
     \<lparr>child_context = milter_server_context_init, child_fallback_status = manager_child_fallback_status m,
      child_evaluation_mode = manager_child_evaluation_mode m, child_connected = False\<rparr>"

text \<open>The conditions attached are listed with the place of the child among the children.\<close>

definition setup_egg ::
    "network \<Rightarrow> egg \<Rightarrow> (children \<times> (applicable_condition \<times> nat) list) result \<Rightarrow>
     (children \<times> (applicable_condition \<times> nat) list) result" where
  "setup_egg net e r =
     bind_result r (\<lambda>(ch, attached).
       if \<not> egg_enabled e then Ok (ch, attached)
       else bind_result (milter_manager_egg_hatch net e) (\<lambda>(child, _).
         case child of
           None \<Rightarrow> Ok (ch, attached)
         | Some m \<Rightarrow>
             Ok (milter_manager_children_add_child ch (Some (child_of_manager_child m)),
                 attached @ milter_manager_egg_attach_applicable_conditions e (length (milters ch)))))"

definition milter_manager_configuration_setup_children ::
    "network \<Rightarrow> configuration \<Rightarrow> children \<Rightarrow> (children \<times> (applicable_condition \<times> nat) list) result" where
  "milter_manager_configuration_setup_children net c ch = fold (setup_egg net) (config_eggs c) (Ok (ch, []))"

subsection \<open>Clients of the configuration\<close>

text \<open>
  The leader's view: the children are set up when a session starts, and the leader, the
  children and their chunks follow the settings. Egg specs that overflow a socket address
  were refused or fatal when they were set.
\<close>

definition configured_leader ::
    "network \<Rightarrow> children_environment \<Rightarrow> (leader \<Rightarrow> bool) \<Rightarrow> configuration \<Rightarrow> leader_configuration" where
  "configured_leader net env connection_check c =
     \<lparr>cfg_environment = env\<lparr>env_chunk_size := unat (config_chunk_size c), env_privilege := privilege_mode c\<rparr>,
      cfg_children = (\<lambda>_. case milter_manager_configuration_setup_children net c milter_manager_children_init of
         Ok (ch, _) \<Rightarrow> ch | _ \<Rightarrow> milter_manager_children_init),
      fallback_status = config_fallback_status c,
      fallback_status_at_disconnect = config_fallback_status_at_disconnect c,
      cfg_connection_check = connection_check\<rparr>"

text \<open>The controller's view; \<open>message\<close> is the text of an error.\<close>

definition controlled_configuration ::
    "configuration_build \<Rightarrow> configuration_class \<Rightarrow> xml_environment \<Rightarrow> (nat \<Rightarrow> bytes) \<Rightarrow> (load_error \<Rightarrow> bytes) \<Rightarrow>
     (file_system \<times> configuration) configuration_operations" where
  "controlled_configuration build cls env to_xml_signal message =
     \<lparr>save_custom = (\<lambda>content (fs, c).
        (case milter_manager_configuration_save_custom build fs c content of
           (e, fs) \<Rightarrow> (map_option message e, (fs, c)))),
      to_xml = (\<lambda>(fs, c). milter_manager_configuration_to_xml build env to_xml_signal fs c),
      reload = (\<lambda>(fs, c).
        (case milter_manager_configuration_reload build cls fs c of (e, c) \<Rightarrow> (e = None, (fs, c))))\<rparr>"

end
