(* ===== verification/Configuration_Spec.thy ===== *)
theory Configuration_Spec
  imports Configuration Control_Session
begin

text \<open>
  What the configuration guarantees: the lists of eggs and conditions behave as registries of
  names (one interface, two interpretations), the children of a session are those of the
  enabled eggs, clearing forgets everything but the load paths, the XML is balanced; and what
  a failed reload and a save in the wrong directory do.
\<close>

subsection \<open>Registries\<close>

text \<open>A list of named things in an object, as its clients use it.\<close>

locale named_registry =
  fixes items :: "'c \<Rightarrow> 'i list"
    and name_of :: "'i \<Rightarrow> bytes option"
    and add :: "'c \<Rightarrow> 'i \<Rightarrow> 'c"
    and find_item :: "'c \<Rightarrow> bytes \<Rightarrow> 'i option result"
    and remove_item :: "'c \<Rightarrow> bytes \<Rightarrow> 'c result"
  assumes items_add: "items (add c x) = items c @ [x]"
    and find_item: "find_item c n = find_named name_of n (items c)"
    and remove_item: "remove_named name_of n (items c) = Ok xs \<Longrightarrow>
      \<exists>c'. remove_item c n = Ok c' \<and> items c' = xs"
begin

definition all_named :: "'c \<Rightarrow> bool" where
  "all_named c \<longleftrightarrow> None \<notin> name_of ` set (items c)"

definition item_names :: "'c \<Rightarrow> bytes set" where
  "item_names c = {n. Some n \<in> name_of ` set (items c)}"

lemma find_named_append:
  assumes "None \<notin> name_of ` set xs"
  shows "find_named name_of n (xs @ ys) =
    (if Some n \<in> name_of ` set xs then find_named name_of n xs else find_named name_of n ys)"
  using assms by (induction xs) (auto split: option.split)

lemma find_named_absent:
  "None \<notin> name_of ` set xs \<Longrightarrow> Some n \<notin> name_of ` set xs \<Longrightarrow> find_named name_of n xs = Ok None"
  by (induction xs) (auto split: option.split)

lemma remove_named_append:
  assumes "None \<notin> name_of ` set xs" and "Some n \<notin> name_of ` set xs" and "name_of x = Some n"
  shows "remove_named name_of n (xs @ [x]) = Ok xs"
  using assms by (induction xs) (auto split: option.split)

lemma find_added:
  assumes "all_named c" and "n \<notin> item_names c" and "name_of x = Some n"
  shows "find_item (add c x) n = Ok (Some x)"
  using assms by (simp add: find_item items_add find_named_append all_named_def item_names_def)

lemma find_other:
  assumes "all_named c" and "name_of x = Some n" and "m \<noteq> n"
  shows "find_item (add c x) m = find_item c m"
  using assms find_named_absent [of "items c" m]
  by (simp add: find_item items_add find_named_append all_named_def)

lemma remove_added:
  assumes "all_named c" and "n \<notin> item_names c" and "name_of x = Some n"
  shows "\<exists>c'. remove_item (add c x) n = Ok c' \<and> items c' = items c \<and> find_item c' n = Ok None"
proof -
  have "remove_named name_of n (items (add c x)) = Ok (items c)"
    using assms by (simp add: items_add remove_named_append all_named_def item_names_def)
  from remove_item [OF this] obtain c' where "remove_item (add c x) n = Ok c'" "items c' = items c" by auto
  with assms find_named_absent [of "items c" n] show ?thesis
    by (auto simp: find_item all_named_def item_names_def)
qed

end

interpretation eggs: named_registry config_eggs egg_name
    "\<lambda>c e. milter_manager_configuration_add_egg c (Some e)" milter_manager_configuration_find_egg
    milter_manager_configuration_remove_egg_by_name
  by unfold_locales (simp_all add: milter_manager_configuration_add_egg_def
      milter_manager_configuration_find_egg_def milter_manager_configuration_remove_egg_by_name_def)

interpretation conditions: named_registry config_applicable_conditions condition_name
    "\<lambda>c x. milter_manager_configuration_add_applicable_condition c (Some x)"
    milter_manager_configuration_find_applicable_condition
    milter_manager_configuration_remove_applicable_condition_by_name
  by unfold_locales (simp_all add: milter_manager_configuration_add_applicable_condition_def
      milter_manager_configuration_find_applicable_condition_def
      milter_manager_configuration_remove_applicable_condition_by_name_def)

text \<open>
  In a configuration whose eggs all have names, an egg that is added under a new name is
  found under it, the other names find what they found, and removing it by its name leaves
  the eggs there were.
\<close>

theorem egg_registry:
  assumes "None \<notin> egg_name ` set (config_eggs c)" and "Some n \<notin> egg_name ` set (config_eggs c)"
    and "egg_name e = Some n"
  defines "c1 \<equiv> milter_manager_configuration_add_egg c (Some e)"
  shows "milter_manager_configuration_find_egg c1 n = Ok (Some e) \<and>
    (\<forall>m. m = n \<or> milter_manager_configuration_find_egg c1 m = milter_manager_configuration_find_egg c m) \<and>
    (\<exists>c2. milter_manager_configuration_remove_egg c1 e = Ok c2 \<and> config_eggs c2 = config_eggs c)"
proof -
  have c: "eggs.all_named c" "n \<notin> eggs.item_names c"
    using assms(1,2) by (auto simp: eggs.all_named_def eggs.item_names_def)
  from eggs.find_added [OF this assms(3)] eggs.find_other [OF c(1) assms(3)] eggs.remove_added [OF c assms(3)]
  show ?thesis
    by (auto simp: c1_def milter_manager_configuration_remove_egg_def assms(3))
qed

theorem egg_registry_witness:
  "milter_manager_configuration_find_egg
     (milter_manager_configuration_add_egg (milter_manager_configuration_clear_eggs c)
       (Some (milter_manager_egg_new (Some ''clamav'')))) ''clamav'' =
   Ok (Some (milter_manager_egg_new (Some ''clamav'')))"
  using egg_registry [of "milter_manager_configuration_clear_eggs c" "''clamav''"
      "milter_manager_egg_new (Some ''clamav'')"]
  by (simp add: milter_manager_configuration_clear_eggs_def milter_manager_egg_new_def egg_setters)

subsection \<open>The children of a session\<close>

definition hatches :: "egg \<Rightarrow> bool" where
  "hatches e \<longleftrightarrow> egg_enabled e \<and> egg_connection_spec e \<noteq> None"

definition hatched_child :: "egg \<Rightarrow> child" where
  "hatched_child e =
     \<lparr>child_context = milter_server_context_init, child_fallback_status = egg_fallback_status e,
      child_evaluation_mode = egg_evaluation_mode e, child_connected = False\<rparr>"

definition fits :: "network \<Rightarrow> egg \<Rightarrow> bool" where
  "fits net e \<longleftrightarrow> (\<forall>spec. egg_connection_spec e = Some spec \<longrightarrow> (\<forall>f. parse_spec net spec \<noteq> Fault f))"

lemma hatch_cases:
  assumes "fits net e"
  shows "(case egg_connection_spec e of
      None \<Rightarrow> milter_manager_egg_hatch net e = Ok (None, False)
    | Some spec \<Rightarrow> (\<exists>m success. milter_manager_egg_hatch net e = Ok (Some m, success) \<and>
        child_of_manager_child m = hatched_child e))"
  using assms
  by (auto simp: fits_def milter_manager_egg_hatch_def milter_server_context_set_connection_spec_def Let_def
      child_of_manager_child_def hatched_child_def milter_manager_child_init_def
      split: option.split result.splits)

lemma setup_egg_step:
  assumes "fits net e"
  shows "setup_egg net e (Ok (ch, attached)) =
    (if hatches e
     then Ok (milter_manager_children_add_child ch (Some (hatched_child e)),
            attached @ milter_manager_egg_attach_applicable_conditions e (length (milters ch)))
     else Ok (ch, attached))"
  using hatch_cases [OF assms] by (auto simp: setup_egg_def hatches_def split: option.splits)

text \<open>
  C20: a session gets one child for every enabled egg that has a connection spec, in the order
  of the configuration, with the egg's fallback status and evaluation mode, and each of the
  egg's conditions is attached to that child.
\<close>

theorem session_children:
  assumes "\<forall>e \<in> set (config_eggs c). fits net e"
  shows "milter_manager_configuration_setup_children net c ch =
    Ok (ch\<lparr>milters := milters ch @ map hatched_child (filter hatches (config_eggs c))\<rparr>,
      concat (map (\<lambda>(i, e). map (\<lambda>x. (x, i)) (egg_applicable_conditions e))
        (enumerate (length (milters ch)) (filter hatches (config_eggs c)))))"
proof -
  have "fold (setup_egg net) es (Ok (ch, attached)) =
      Ok (ch\<lparr>milters := milters ch @ map hatched_child (filter hatches es)\<rparr>,
        attached @ concat (map (\<lambda>(i, e). map (\<lambda>x. (x, i)) (egg_applicable_conditions e))
          (enumerate (length (milters ch)) (filter hatches es))))"
    if "\<forall>e \<in> set es. fits net e" for es attached
    using that
    by (induction es arbitrary: ch attached)
      (simp_all add: setup_egg_step milter_manager_children_add_child_def
        milter_manager_egg_attach_applicable_conditions_def)
  from this [OF assms, of "[]"] show ?thesis
    by (simp add: milter_manager_configuration_setup_children_def)
qed

definition sample_network :: network where
  "sample_network =
     \<lparr>net_platform = sample_platform, net_getaddrinfo4 = \<lambda>_. None, net_getaddrinfo6 = \<lambda>_. None\<rparr>"

definition sample_egg :: "bytes \<Rightarrow> bool \<Rightarrow> egg" where
  "sample_egg name enabled =
     (milter_manager_egg_new (Some name))
       \<lparr>egg_enabled := enabled, egg_connection_spec := Some ''unix:/tmp/m'',
        egg_applicable_conditions := [milter_manager_applicable_condition_new (Some ''remote'')]\<rparr>"

definition sample_build :: configuration_build where
  "sample_build =
     \<lparr>CONFIG_DIR = ''/etc'', CONFIG_FILE_NAME = ''milter.conf'', CUSTOM_CONFIG_FILE_NAME = ''custom.conf'',
      MILTER_MANAGER_DEFAULT_CONNECTION_SPEC = Some ''inet:10025'',
      MILTER_MANAGER_PACKAGE_PLATFORM = Some ''debian'', MILTER_MANAGER_PACKAGE_OPTIONS = None,
      MILTER_MANAGER_DEFAULT_EFFECTIVE_USER = None, MILTER_MANAGER_DEFAULT_EFFECTIVE_GROUP = None,
      MILTER_MANAGER_DEFAULT_PID_FILE = None, MILTER_MANAGER_DEFAULT_SOCKET_GROUP = None\<rparr>"

lemma sample_egg_fits: "fits sample_network (sample_egg name enabled)"
  by (simp add: fits_def sample_egg_def sample_network_def parse_spec_def milter_connection_parse_spec_def
      sun_path_size_def)

theorem session_children_witness:
  "milter_manager_configuration_setup_children sample_network
     ((milter_manager_configuration_init sample_build None)
        \<lparr>config_eggs := [sample_egg ''a'' True, sample_egg ''b'' False]\<rparr>) milter_manager_children_init =
   Ok (milter_manager_children_init\<lparr>milters := [hatched_child (sample_egg ''a'' True)]\<rparr>,
     [(milter_manager_applicable_condition_new (Some ''remote''), 0)])"
  using session_children [of "(milter_manager_configuration_init sample_build None)
        \<lparr>config_eggs := [sample_egg ''a'' True, sample_egg ''b'' False]\<rparr>" sample_network
        milter_manager_children_init] sample_egg_fits
  by (simp add: hatches_def sample_egg_def milter_manager_children_init_def)

subsection \<open>Clearing and reloading\<close>

lemma cleared_fields [simp]:
  "config_eggs (cleared build c) = []" "load_paths (cleared build c) = load_paths c"
  "config_fallback_status (cleared build c) = MILTER_STATUS_ACCEPT"
  by (simp_all add: cleared_def clear_log_def clear_socket_def clear_configuration_def clear_process_def
      clear_account_def clear_package_def clear_manager_def clear_controller_def Let_def
      milter_manager_configuration_clear_eggs_def milter_manager_configuration_clear_applicable_conditions_def)

text \<open>
  The settings a configuration is made with are forgotten when it is made: whatever the
  properties set, as long as they leave the load paths and do not unset the package's
  platform and options, the configuration is the one that has its defaults.
\<close>

theorem new_ignores_properties:
  fixes build cls env properties
  defines "c \<equiv> milter_manager_configuration_init build env"
  assumes "load_paths (properties c) = load_paths c"
    and "package_platform (properties c) = None \<longleftrightarrow> package_platform c = None"
    and "package_options (properties c) = None \<longleftrightarrow> package_options c = None"
  shows "milter_manager_configuration_new build cls env properties =
    milter_manager_configuration_new build cls env id"
proof -
  have "cleared build (properties c) = cleared build c"
    using assms(2-4)
    by (cases "properties c") (simp add: c_def milter_manager_configuration_init_def cleared_def clear_log_def
        clear_socket_def clear_configuration_def clear_process_def clear_account_def clear_package_def
        clear_manager_def clear_controller_def Let_def milter_manager_configuration_clear_eggs_def
        milter_manager_configuration_clear_applicable_conditions_def)
  then show ?thesis
    by (simp add: milter_manager_configuration_new_def milter_manager_configuration_clear_def c_def)
qed

theorem new_ignores_properties_witness:
  "milter_manager_configuration_new sample_build cls None
     (\<lambda>c. milter_manager_configuration_set_privilege_mode c True) =
   milter_manager_configuration_new sample_build cls None id"
  using new_ignores_properties [of "\<lambda>c. milter_manager_configuration_set_privilege_mode c True" sample_build None cls]
  by (simp add: milter_manager_configuration_set_privilege_mode_def)

text \<open>
  What the class of the configuration does when it is cleared, if anything: it may forget what it keeps
  itself, and may fail, but leaves the milters, the fallback status and the load paths as they are.
  (The Ruby module's \<open>real_clear\<close> calls the method \<open>clear\<close>, which forgets hooks, a connection
  checker and the settings of a database.)
\<close>

definition clears_only_its_own :: "configuration_class \<Rightarrow> bool" where
  "clears_only_its_own cls \<longleftrightarrow>
     (\<forall>clear c. class_clear cls = Some clear \<longrightarrow>
        config_eggs (snd (clear c)) = config_eggs c \<and> load_paths (snd (clear c)) = load_paths c \<and>
        config_fallback_status (snd (clear c)) = config_fallback_status c)"

lemma clear_leaves:
  assumes "clears_only_its_own cls" and "milter_manager_configuration_clear build cls c = (e, d)"
  shows "config_eggs d = []" and "load_paths d = load_paths c"
    and "config_fallback_status d = MILTER_STATUS_ACCEPT"
  using assms unfolding clears_only_its_own_def milter_manager_configuration_clear_def Let_def
  by (auto split: option.splits dest!: spec [of _ "cleared build c"])

text \<open>
  C26: when no directory of the load path has the configuration file any more, or clearing fails, a
  controller that asks for a reload is told that it has worked, and from then on no session has a
  milter: mail is accepted unfiltered. The class of the configuration can load files, and clears
  nothing but what it keeps itself.
\<close>

theorem failed_reload_drops_milters:
  assumes "class_load cls = Some f" and "clears_only_its_own cls"
    and "\<not> g_path_is_absolute fs (CONFIG_FILE_NAME build)"
    and "(\<forall>dir \<in> set (load_paths c). fs_files fs (g_build_filename fs dir (CONFIG_FILE_NAME build)) = None) \<or>
      fst (milter_manager_configuration_clear build cls c) \<noteq> None"
    and "controller_connected x"
  shows "\<exists>c' x'. controller_receive (controlled_configuration build cls xml signal message) Control_reload
        ((fs, c), x) = ((fs, c'), x') \<and>
      controller_written x' = controller_written x @ [frame (control_reply_packet Manager_success)] \<and>
      (\<forall>net env check client. milters (cfg_children (configured_leader net env check c') client) = []) \<and>
      (\<forall>net env check. Leader.fallback_status (configured_leader net env check c') = MILTER_STATUS_ACCEPT)"
proof -
  obtain e d where clear: "milter_manager_configuration_clear build cls c = (e, d)" by fastforce
  note d = clear_leaves [OF assms(2) clear]
  have "e = None \<Longrightarrow> find_file fs d (CONFIG_FILE_NAME build) = None"
    using assms(3,4) d(2) clear by (auto simp: find_file_def find_None_iff)
  then obtain e' where "milter_manager_configuration_reload build cls fs c = (Some e', d)"
    using assms(1) clear by (cases e) (simp_all add: milter_manager_configuration_reload_def
        milter_manager_configuration_load_def load_with_def)
  moreover have "milters milter_manager_children_init = []" by (simp add: milter_manager_children_init_def)
  ultimately show ?thesis
    using assms(5) d
    by (simp add: controller_receive_def controller_cb_decoder_reload_def controlled_configuration_def
        controller_write_def control_encoders encode_word_frame configured_leader_def
        milter_manager_configuration_setup_children_def)
qed

definition sample_files :: "(bytes \<Rightarrow> bytes option) \<Rightarrow> (bytes \<Rightarrow> bool) \<Rightarrow> file_system" where
  "sample_files files writable =
     \<lparr>fs_files = files, fs_writable = writable, g_build_filename = \<lambda>dir name. dir @ ''/'' @ name,
      g_path_is_absolute = \<lambda>name. name \<noteq> [] \<and> hd name = CHR ''/'', fs_modified = \<lambda>_. None\<rparr>"

theorem failed_reload_drops_milters_witness:
  "\<forall>xml signal message env check client.
     \<exists>c' x'. controller_receive (controlled_configuration sample_build
        \<lparr>class_load = Some (\<lambda>path c. (None, c)), class_load_custom = Some (\<lambda>path c. (None, c)),
          class_clear = Some (\<lambda>c. (None, c))\<rparr>
        xml signal message) Control_reload
        ((sample_files Map.empty (\<lambda>_. True), (milter_manager_configuration_init sample_build None)
           \<lparr>config_eggs := [sample_egg ''a'' True]\<rparr>), milter_manager_controller_context_init) =
      ((sample_files Map.empty (\<lambda>_. True), c'), x') \<and>
      controller_written x' = [frame (control_reply_packet Manager_success)] \<and>
      milters (cfg_children (configured_leader sample_network env check c') client) = []"
  (is "\<forall>xml signal message env check client. ?P xml signal message env check client")
proof (intro allI)
  fix xml signal message env check client
  show "?P xml signal message env check client"
    using failed_reload_drops_milters [of "\<lparr>class_load = Some (\<lambda>path c. (None, c)), class_load_custom = Some (\<lambda>path c. (None, c)),
        class_clear = Some (\<lambda>c. (None, c))\<rparr>" "\<lambda>path c. (None, c)" "sample_files Map.empty (\<lambda>_. True)" sample_build
        "(milter_manager_configuration_init sample_build None)\<lparr>config_eggs := [sample_egg ''a'' True]\<rparr>"
        milter_manager_controller_context_init xml signal message]
    by (fastforce simp: sample_files_def sample_build_def milter_manager_controller_context_init_def
        clears_only_its_own_def)
qed

subsection \<open>Saving\<close>

text \<open>
  What a controller saves is what a reload finds if the first directory of the load path
  can be written; if it cannot, and has a file of its own, saving succeeds in a later
  directory and the reload still finds the old file.
\<close>

theorem saved_configuration_found:
  assumes "load_paths c = dir # dirs" and "\<not> g_path_is_absolute fs (CUSTOM_CONFIG_FILE_NAME build)"
  defines "path \<equiv> g_build_filename fs dir (CUSTOM_CONFIG_FILE_NAME build)"
  shows "(if fs_writable fs path
     then (\<exists>fs'. milter_manager_configuration_save_custom build fs c content = (None, fs') \<and>
        find_file fs' c (CUSTOM_CONFIG_FILE_NAME build) = Some path \<and> fs_files fs' path = Some content)
     else \<forall>old fs'. fs_files fs path = Some old \<longrightarrow>
        milter_manager_configuration_save_custom build fs c content = (None, fs') \<longrightarrow>
        find_file fs' c (CUSTOM_CONFIG_FILE_NAME build) = Some path \<and>
        (path \<notin> (\<lambda>d. g_build_filename fs d (CUSTOM_CONFIG_FILE_NAME build)) ` set dirs \<longrightarrow>
          fs_files fs' path = Some old))"
proof (cases "fs_writable fs path")
  case True
  then show ?thesis
    using assms by (simp add: milter_manager_configuration_save_custom_def find_file_def Let_def)
next
  case False
  have saved: "\<exists>p. p \<in> (\<lambda>d. g_build_filename fs d name) ` set ds \<and> fs' = fs\<lparr>fs_files := (fs_files fs)(p \<mapsto> content)\<rparr>"
    if "save_in fs ds name content = Some fs'" for ds fs' name
    using that by (induction ds) (auto simp: Let_def split: if_splits)
  show ?thesis
  proof (simp only: False if_False, intro allI impI)
    fix old fs' assume old: "fs_files fs path = Some old"
      and save: "milter_manager_configuration_save_custom build fs c content = (None, fs')"
    then have "save_in fs dirs (CUSTOM_CONFIG_FILE_NAME build) content = Some fs'"
      using False assms(1) by (auto simp: milter_manager_configuration_save_custom_def path_def Let_def
          split: option.splits)
    from saved [OF this] obtain p where p: "p \<in> (\<lambda>d. g_build_filename fs d (CUSTOM_CONFIG_FILE_NAME build)) ` set dirs"
      "fs' = fs\<lparr>fs_files := (fs_files fs)(p \<mapsto> content)\<rparr>" by auto
    with old assms show "find_file fs' c (CUSTOM_CONFIG_FILE_NAME build) = Some path \<and>
        (path \<notin> (\<lambda>d. g_build_filename fs d (CUSTOM_CONFIG_FILE_NAME build)) ` set dirs \<longrightarrow>
          fs_files fs' path = Some old)"
      by (auto simp: find_file_def)
  qed
qed

theorem saved_configuration_found_witness:
  "let fs = sample_files [''/ro/custom.conf'' \<mapsto> ''old''] (\<lambda>path. path = ''/etc/custom.conf'');
       c = milter_manager_configuration_init sample_build (Some ''/ro'');
       fs' = snd (milter_manager_configuration_save_custom sample_build fs c ''new'')
   in fst (milter_manager_configuration_save_custom sample_build fs c ''new'') = None \<and>
      find_file fs' c ''custom.conf'' = Some ''/ro/custom.conf'' \<and> fs_files fs' ''/ro/custom.conf'' = Some ''old''"
  using saved_configuration_found [of "milter_manager_configuration_init sample_build (Some ''/ro'')" "''/ro''"
      "[''/etc'']" "sample_files [''/ro/custom.conf'' \<mapsto> ''old''] (\<lambda>path. path = ''/etc/custom.conf'')"
      sample_build "''new''"]
  by (simp add: sample_files_def sample_build_def milter_manager_configuration_init_def
      milter_manager_configuration_save_custom_def Let_def)

subsection \<open>Merging\<close>

lemma fold_add_conditions:
  "fold (\<lambda>c e. milter_manager_egg_add_applicable_condition e c) cs e =
     e\<lparr>egg_applicable_conditions := egg_applicable_conditions e @ cs\<rparr>"
  by (induction cs arbitrary: e) (simp_all add: milter_manager_egg_add_applicable_condition_def)

text \<open>
  Merging takes over what the other egg has set, its timeouts, whether it is enabled and
  its conditions, but neither its fallback status nor its evaluation mode; an egg merged with
  itself loses its conditions.
\<close>

theorem egg_merge_result:
  assumes "egg_connection_spec other = Some spec" and "parse_spec net spec = Ok address"
  shows "milter_manager_egg_merge net e (Some other) = Ok (True,
      e\<lparr>egg_connection_spec := Some spec,
        egg_description := (if egg_description other = None then egg_description e else egg_description other),
        egg_enabled := egg_enabled other,
        egg_connection_timeout := egg_connection_timeout other,
        egg_writing_timeout := egg_writing_timeout other,
        egg_reading_timeout := egg_reading_timeout other,
        egg_end_of_message_timeout := egg_end_of_message_timeout other,
        egg_user_name := (if egg_user_name other = None then egg_user_name e else egg_user_name other),
        egg_command := (if egg_command other = None then egg_command e else egg_command other),
        egg_command_options :=
          (if egg_command other = None then egg_command_options e else egg_command_options other),
        egg_applicable_conditions := egg_applicable_conditions other\<rparr>) \<and>
    (\<exists>e'. milter_manager_egg_merge net other None = Ok (True, e') \<and> egg_applicable_conditions e' = [])"
  using assms
  by (simp add: milter_manager_egg_merge_def milter_manager_egg_set_connection_spec_def Let_def egg_setters
      fold_add_conditions)

theorem egg_merge_result_witness:
  "\<exists>e'. milter_manager_egg_merge sample_network (sample_egg ''a'' True) (Some (sample_egg ''b'' False)) =
     Ok (True, e') \<and> egg_name e' = Some ''a'' \<and> \<not> egg_enabled e'"
proof -
  have "parse_spec sample_network ''unix:/tmp/m'' = Ok (DOMAIN_UNIX, Some (Address_unix ''/tmp/m''))"
    by (simp add: parse_spec_def sample_network_def milter_connection_parse_spec_def sun_path_size_def)
  from egg_merge_result [OF _ this, of "sample_egg ''b'' False" "sample_egg ''a'' True"] show ?thesis
    by (auto simp: sample_egg_def milter_manager_egg_new_def egg_setters)
qed

end
