(* ===== verification/Configuration_XML.thy ===== *)
theory Configuration_XML
  imports Configuration_Spec
begin

text \<open>
  The XML that \<open>milter_manager_configuration_to_xml\<close> makes of a configuration is balanced:
  every element is closed, by its own name and in the right order.
\<close>

subsection \<open>Reading tags\<close>

text \<open>
  A reader of tags: \<open>In_text\<close> is outside of one, \<open>In_tag\<close> has read a part of one, and the
  list has the elements that are open. It has no state behind a tag that closes another
  element than the innermost, or a bracket out of place.
\<close>

datatype xml_mode = In_text | In_tag bytes

type_synonym xml_state = "(xml_mode \<times> bytes list) option"

fun xml_step :: "char \<Rightarrow> xml_state \<Rightarrow> xml_state" where
  "xml_step c None = None"
| "xml_step c (Some (In_text, open_tags)) =
     (if c = CHR ''<'' then Some (In_tag [], open_tags)
      else if c = CHR ''>'' then None else Some (In_text, open_tags))"
| "xml_step c (Some (In_tag tag, open_tags)) =
     (if c = CHR ''<'' then None
      else if c = CHR ''>''
      then (if tag \<noteq> [] \<and> hd tag = CHR ''/''
            then (if open_tags \<noteq> [] \<and> hd open_tags = tl tag then Some (In_text, tl open_tags) else None)
            else Some (In_text, tag # open_tags))
      else Some (In_tag (tag @ [c]), open_tags))"

definition read_xml :: "bytes \<Rightarrow> xml_state \<Rightarrow> xml_state" where
  "read_xml s = fold xml_step s"

definition tag_free :: "bytes \<Rightarrow> bool" where
  "tag_free s \<longleftrightarrow> CHR ''<'' \<notin> set s \<and> CHR ''>'' \<notin> set s"

text \<open>\<open>open_at tags s\<close>: after \<open>s\<close> the elements \<open>tags\<close> are open, the innermost first.\<close>

definition open_at :: "bytes list \<Rightarrow> bytes \<Rightarrow> bool" where
  "open_at tags s \<longleftrightarrow> read_xml s (Some (In_text, [])) = Some (In_text, tags)"

lemma read_xml_append [simp]: "read_xml (s @ t) st = read_xml t (read_xml s st)"
  by (simp add: read_xml_def)

lemma read_xml_simps [simp]: "read_xml [] st = st" "read_xml (c # s) st = read_xml s (xml_step c st)"
  by (simp_all add: read_xml_def)

lemma tag_free_Cons [simp]: "tag_free (c # s) \<longleftrightarrow> c \<noteq> CHR ''<'' \<and> c \<noteq> CHR ''>'' \<and> tag_free s"
  by (auto simp: tag_free_def)

lemma tag_free_Nil [simp]: "tag_free []"
  by (simp add: tag_free_def)

lemma read_text [simp]: "tag_free s \<Longrightarrow> read_xml s (Some (In_text, tags)) = Some (In_text, tags)"
  by (induction s) auto

lemma read_tag [simp]: "tag_free s \<Longrightarrow> read_xml s (Some (In_tag t, tags)) = Some (In_tag (t @ s), tags)"
  by (induction s arbitrary: t) auto

lemma append_indent_eq: "milter_utils_append_indent s n = s @ replicate n CHR '' ''"
  by (induction s n rule: milter_utils_append_indent.induct) (simp_all add: replicate_app_Cons_same)

lemma tag_free_indent [simp]: "tag_free (replicate n CHR '' '')"
  by (induction n) simp_all

lemma open_line:
  "open_at tags s \<Longrightarrow> tag_free name \<Longrightarrow> hd name \<noteq> CHR ''/'' \<Longrightarrow> name \<noteq> [] \<Longrightarrow>
    open_at (name # tags) (append_line (CHR ''<'' # name @ ''>'') n s)"
  by (simp add: open_at_def append_line_def append_indent_eq)

lemma close_line:
  "open_at (name # tags) s \<Longrightarrow> tag_free name \<Longrightarrow>
    open_at tags (append_line (CHR ''<'' # CHR ''/'' # name @ ''>'') n s)"
  by (simp add: open_at_def append_line_def append_indent_eq)

lemma text_element:
  assumes "open_at tags s" and "tag_free name" and "hd name \<noteq> CHR ''/''" and "name \<noteq> []"
    and "\<forall>c. content = Some c \<longrightarrow> tag_free (xml_escape env c)"
  shows "open_at tags (milter_utils_xml_append_text_element env s name content n)"
  using assms
  by (cases content) (simp_all add: open_at_def milter_utils_xml_append_text_element_def append_indent_eq)

definition escapes :: "xml_environment \<Rightarrow> bool" where
  "escapes env \<longleftrightarrow> (\<forall>c. tag_free (xml_escape env c))"

definition balanced :: "bytes \<Rightarrow> bool" where
  "balanced s \<longleftrightarrow> (\<forall>tags. read_xml s (Some (In_text, tags)) = Some (In_text, tags))"

lemma open_at_balanced: "open_at tags s \<Longrightarrow> balanced t \<Longrightarrow> open_at tags (s @ t)"
  by (simp add: open_at_def balanced_def)

lemma text_element_escaped:
  "escapes env \<Longrightarrow> open_at tags s \<Longrightarrow> tag_free name \<Longrightarrow> hd name \<noteq> CHR ''/'' \<Longrightarrow> name \<noteq> [] \<Longrightarrow>
    open_at tags (milter_utils_xml_append_text_element env s name content n)"
  by (rule text_element) (auto simp: escapes_def)

lemma optional_element:
  "escapes env \<Longrightarrow> open_at tags s \<Longrightarrow> tag_free name \<Longrightarrow> hd name \<noteq> CHR ''/'' \<Longrightarrow> name \<noteq> [] \<Longrightarrow>
    open_at tags (append_optional_element env name content n s)"
  by (simp add: append_optional_element_def text_element_escaped)

lemmas elements = milter_utils_xml_append_boolean_element_def milter_utils_xml_append_enum_element_def

lemma open_at_fold:
  "open_at tags s \<Longrightarrow> (\<And>x s. open_at tags s \<Longrightarrow> open_at tags (f x s)) \<Longrightarrow> open_at tags (fold f xs s)"
  by (induction xs arbitrary: s) simp_all

lemma enclosed:
  assumes "open_at tags s" and "tag_free name" and "hd name \<noteq> CHR ''/''" and "name \<noteq> []"
    and "\<And>x s. open_at (name # tags) s \<Longrightarrow> open_at (name # tags) (f x s)"
  shows "open_at tags (append_line (CHR ''<'' # CHR ''/'' # name @ ''>'') n
    (fold f xs (append_line (CHR ''<'' # name @ ''>'') m s)))"
  by (rule close_line, rule open_at_fold, rule open_line) (use assms in auto)

lemma optional_enclosed:
  assumes "open_at tags s" and "tag_free name" and "hd name \<noteq> CHR ''/''" and "name \<noteq> []"
    and "\<And>x s. open_at (name # tags) s \<Longrightarrow> open_at (name # tags) (f x s)"
  shows "open_at tags (if xs = [] then s else append_line (CHR ''<'' # CHR ''/'' # name @ ''>'') n
    (fold f xs (append_line (CHR ''<'' # name @ ''>'') m s)))"
proof (cases "xs = []")
  case False
  then show ?thesis by (simp only: if_False) (rule enclosed [OF assms])
qed (use assms(1) in simp)

lemma egg_xml:
  assumes "escapes env" and "\<forall>e n. balanced (xml_egg env e n)" and "open_at tags s"
  shows "open_at tags (milter_manager_egg_to_xml_string env e s n)"
proof -
  note element = text_element_escaped [OF assms(1)] optional_element [OF assms(1)]
  have conditions: "open_at tags' (if cs = [] then s' else append_line ''</applicable-conditions>'' (n + 2)
      (fold (\<lambda>c string. milter_utils_xml_append_text_element env string ''applicable-condition''
         (condition_name c) (n + 4)) cs (append_line ''<applicable-conditions>'' (n + 2) s')))"
    if "open_at tags' s'" for tags' s' cs
    using optional_enclosed [OF that, of "''applicable-conditions''"
        "\<lambda>c string. milter_utils_xml_append_text_element env string ''applicable-condition'' (condition_name c) (n + 4)"
        cs "n + 2" "n + 2"] by (simp add: element cong: if_cong split del: if_split)
  have start: "open_at (''milter'' # tags) (append_line ''<milter>'' n s)"
    using open_line [OF assms(3), of "''milter''" n] by simp
  have close: "open_at tags (append_line ''</milter>'' n (s' @ xml_egg env e (n + 2)))"
    if "open_at (''milter'' # tags) s'" for s'
    using close_line [OF open_at_balanced [OF that], of "xml_egg env e (n + 2)" n] assms(2) by simp
  show ?thesis
    unfolding milter_manager_egg_to_xml_string_def Let_def elements
    by (rule close, rule conditions) (simp add: element start)
qed

text \<open>
  C28: the XML that a controller is shown is balanced, whatever the names, descriptions, specs
  and commands of the milters are, provided GLib's escaping leaves no angle bracket and the
  handlers of \<open>to-xml\<close> add balanced text.
\<close>

theorem configuration_xml_balanced:
  assumes "escapes env" and "\<forall>e n. balanced (xml_egg env e n)" and "\<forall>n. balanced (signal n)"
  shows "read_xml (milter_manager_configuration_to_xml build env signal fs c) (Some (In_text, [])) =
    Some (In_text, [])"
proof -
  note element = text_element_escaped [OF assms(1)] optional_element [OF assms(1)]
  define conf where "conf = [''configuration'']"
  have start: "open_at conf (append_line ''<configuration>'' 0 [])"
    using open_line [of "[]" "[]" "''configuration''" 0] by (simp add: open_at_def conf_def)
  have modified: "open_at conf (case find_file fs c (CUSTOM_CONFIG_FILE_NAME build) of None \<Rightarrow> s
      | Some p \<Rightarrow> (case fs_modified fs p of None \<Rightarrow> s | Some t \<Rightarrow>
          milter_utils_xml_append_text_element env s ''last-modified'' (Some (decimal t)) n))"
    if "open_at conf s" for s n
    using that by (simp add: element split: option.split)
  have condition: "open_at tags (condition_to_xml env n x s)" if "open_at tags s" for tags x s n
    using that close_line [of "''applicable-condition''" tags] open_line [of tags s "''applicable-condition''"]
    by (simp add: condition_to_xml_def element)
  have conditions: "open_at conf (if xs = [] then s else append_line ''</applicable-conditions>'' m
      (fold (condition_to_xml env n) xs (append_line ''<applicable-conditions>'' m s)))"
    if "open_at conf s" for s xs m n
    using optional_enclosed [OF that, of "''applicable-conditions''" "condition_to_xml env n" xs m m]
    by (simp add: condition cong: if_cong split del: if_split)
  have eggs: "open_at conf (if xs = [] then s else append_line ''</milters>'' m
      (fold (\<lambda>e string. milter_manager_egg_to_xml_string env e string n) xs (append_line ''<milters>'' m s)))"
    if "open_at conf s" for s xs m n
    using optional_enclosed [OF that, of "''milters''"
        "\<lambda>e string. milter_manager_egg_to_xml_string env e string n" xs m m] egg_xml [OF assms(1,2)]
    by (simp cong: if_cong split del: if_split)
  have close: "open_at [] (append_line ''</configuration>'' 0 (s @ signal n))" if "open_at conf s" for s n
    using close_line [of "''configuration''" "[]" "s @ signal n" 0] that assms(3)
    by (simp add: conf_def open_at_balanced)
  show ?thesis
    unfolding milter_manager_configuration_to_xml_def milter_manager_configuration_to_xml_string_def
      Let_def open_at_def [symmetric]
    by (intro close eggs conditions modified start)
qed

definition sample_escape :: "bytes \<Rightarrow> bytes" where
  "sample_escape s = concat (map (\<lambda>c. if c = CHR ''<'' then ''&lt;'' else if c = CHR ''>'' then ''&gt;''
     else if c = CHR ''&'' then ''&amp;'' else [c]) s)"

lemma sample_escape_tag_free: "tag_free (sample_escape s)"
  by (induction s) (auto simp: sample_escape_def tag_free_def)

theorem configuration_xml_balanced_witness:
  "read_xml (milter_manager_configuration_to_xml sample_build
      \<lparr>xml_escape = sample_escape, xml_status = \<lambda>_. ''accept'', xml_egg = \<lambda>_ _. []\<rparr> (\<lambda>_. [])
      (sample_files Map.empty (\<lambda>_. True))
      ((milter_manager_configuration_init sample_build None)\<lparr>config_eggs := [sample_egg ''<a>'' True]\<rparr>))
    (Some (In_text, [])) = Some (In_text, [])"
  by (rule configuration_xml_balanced) (simp_all add: escapes_def balanced_def sample_escape_tag_free)

end
