(* ===== verification/Client.thy ===== *)
theory Client
  imports Event_Loop Connection Process_Launcher
begin

text \<open>
  \<open>milter/client/milter-client.c\<close>, first part: the state of a client, its settings, the
  socket it listens on, and the privileges it drops. The manager is a subclass of the
  client (\<open>Manager\<close>), so the state is an extensible record and the methods a subclass may
  override are the record \<open>client_class\<close>. What is asked of the operating system is the record
  \<open>client_system\<close>. Reference counts, the mutex and what is only logged are left out; the mode
  with one thread per session, which no caller can select, is not modelled.
\<close>

subsection \<open>State\<close>

datatype milter_client_error =
    MILTER_CLIENT_ERROR_UNIX_SOCKET
  | MILTER_CLIENT_ERROR_RUNNING
  | MILTER_CLIENT_ERROR_NOT_LISTENED_YET
  | MILTER_CLIENT_ERROR_IO_ERROR
  | MILTER_CLIENT_ERROR_PASSWORD_ENTRY
  | MILTER_CLIENT_ERROR_GROUP_ENTRY
  | MILTER_CLIENT_ERROR_DROP_PRIVILEGE
  | MILTER_CLIENT_ERROR_DAEMONIZE
  | MILTER_CLIENT_ERROR_DETACH_IO
  | MILTER_CLIENT_ERROR_PROCESS
  | MILTER_CLIENT_ERROR_PID_FILE
  | MILTER_CONNECTION_ERROR_ACCEPT_FAILURE
  | Client_connection_error connection_error

text \<open>The functions the client registers; the last is whatever a subclass registers.\<close>

datatype client_callback =
    SINGLE_THREAD_SINGLE_LOOP_ACCEPT_WATCH_FUNC
  | SINGLE_THREAD_ACCEPT_WATCH_FUNC
  | WORKER_ACCEPT_WATCH_FUNC
  | ACCEPT_ERROR_WATCH_FUNC
  | WORKER_WATCH_MASTER
  | WATCH_WORKER_PROCESS
  | SINGLE_THREAD_FINISHER nat
  | SINGLE_THREAD_CB_IDLE_CLIENT_CHANNEL_SETUP int
  | Subclass_callback

datatype client_signal =
    Signal_connection_established nat
  | Signal_listen_started connection_address
  | Signal_maintain
  | Signal_sessions_finished u32
  | Signal_event_loop_created
  | Signal_workers_created nat
  | Signal_worker_created
  | Signal_error milter_client_error
  | Signal_session_error nat

datatype client_call =
    Call_chown bytes "nat option" "nat option"
  | Call_chmod bytes u32
  | Call_unlink bytes

text \<open>
  A session's \<open>MilterClientProcessData\<close> is a number; \<open>finished_handlers\<close> are those whose
  \<open>finished_handler_id\<close> is connected. A channel is its descriptor. \<open>client_signals\<close> and
  \<open>client_calls\<close> record what was emitted and which files were changed, in order.
\<close>

record milter_client =
  listening_channel :: "int option"
  accept_loop :: "client_callback event_loop option"
  event_loop :: "client_callback event_loop option"
  accept_watch_id :: u32
  accept_error_watch_id :: u32
  client_connection_spec :: "bytes option"
  processing_data :: "nat list"
  finished_handlers :: "nat list"
  next_process_data :: nat
  n_processing_sessions :: u32
  n_processed_sessions :: u32
  client_maintenance_interval :: u32
  client_timeout :: u32
  listen_channel :: "int option"
  listen_backlog :: int
  quitting :: bool
  client_unix_socket_mode :: u32
  default_unix_socket_mode :: u32
  client_unix_socket_group :: "bytes option"
  default_unix_socket_group :: "bytes option"
  default_remove_unix_socket_on_close :: bool
  remove_unix_socket_on_create :: bool
  client_suspend_time_on_unacceptable :: u32
  client_max_connections :: u32
  workers_control :: "int option"
  workers_n_process :: u32
  workers_id :: u32
  workers_pids :: "int list"
  client_address :: "connection_address option"
  client_effective_user :: "bytes option"
  client_effective_group :: "bytes option"
  finisher_id :: u32
  finished_data :: "nat list option"
  syslog_logger :: "(bytes option \<times> bytes option) option"
  client_event_loop_backend :: event_loop_backend
  client_packet_buffer_size :: u32
  client_pid_file :: "bytes option"
  remove_pid_file_on_exit :: bool
  client_syslog_identify :: "bytes option"
  client_syslog_facility :: "bytes option"
  client_run_as_daemon :: bool
  daemonized :: bool
  client_max_pending_finished_sessions :: u32
  client_signals :: "client_signal list"
  client_calls :: "client_call list"

definition milter_client_init :: milter_client where
  "milter_client_init =
     \<lparr>listening_channel = None, accept_loop = None, event_loop = None, accept_watch_id = 0,
      accept_error_watch_id = 0, client_connection_spec = None, processing_data = [],
      finished_handlers = [], next_process_data = 0, n_processing_sessions = 0,
      n_processed_sessions = 0, client_maintenance_interval = 0, client_timeout = 7210,
      listen_channel = None, listen_backlog = -1, quitting = False, client_unix_socket_mode = 0,
      default_unix_socket_mode = 432, client_unix_socket_group = None,
      default_unix_socket_group = None, default_remove_unix_socket_on_close = True,
      remove_unix_socket_on_create = True, client_suspend_time_on_unacceptable = 5,
      client_max_connections = 0, workers_control = None, workers_n_process = 0, workers_id = 0,
      workers_pids = [], client_address = None, client_effective_user = None,
      client_effective_group = None, finisher_id = 0, finished_data = None, syslog_logger = None,
      client_event_loop_backend = MILTER_CLIENT_EVENT_LOOP_BACKEND_DEFAULT,
      client_packet_buffer_size = 0, client_pid_file = None, remove_pid_file_on_exit = True,
      client_syslog_identify = None, client_syslog_facility = None, client_run_as_daemon = False,
      daemonized = False, client_max_pending_finished_sessions = 0, client_signals = [],
      client_calls = []\<rparr>"

subsection \<open>Methods\<close>

text \<open>A method that is \<open>None\<close> is not overridden; the last group handles the
  client's signals and runs what a subclass has registered in the event loop.\<close>

record 's client_class =
  class_get_connection_spec :: "'s \<Rightarrow> bytes option"
  class_set_connection_spec :: "bytes option \<Rightarrow> 's \<Rightarrow> (gerror option option \<times> 's) result"
  class_get_unix_socket_mode :: "'s \<Rightarrow> u32"
  class_set_unix_socket_mode :: "u32 \<Rightarrow> 's \<Rightarrow> 's"
  class_get_unix_socket_group :: "'s \<Rightarrow> bytes option"
  class_set_unix_socket_group :: "bytes option \<Rightarrow> 's \<Rightarrow> 's"
  class_is_remove_unix_socket_on_close :: "('s \<Rightarrow> bool) option"
  class_get_suspend_time_on_unacceptable :: "('s \<Rightarrow> u32) option"
  class_set_suspend_time_on_unacceptable :: "(u32 \<Rightarrow> 's \<Rightarrow> 's) option"
  class_get_max_connections :: "('s \<Rightarrow> u32) option"
  class_set_max_connections :: "(u32 \<Rightarrow> 's \<Rightarrow> 's) option"
  class_get_effective_user :: "'s \<Rightarrow> bytes option"
  class_set_effective_user :: "bytes option \<Rightarrow> 's \<Rightarrow> 's"
  class_get_effective_group :: "'s \<Rightarrow> bytes option"
  class_set_effective_group :: "bytes option \<Rightarrow> 's \<Rightarrow> 's"
  class_get_maintenance_interval :: "('s \<Rightarrow> u32) option"
  class_set_maintenance_interval :: "(u32 \<Rightarrow> 's \<Rightarrow> 's) option"
  class_get_n_workers :: "'s \<Rightarrow> u32"
  class_set_n_workers :: "u32 \<Rightarrow> 's \<Rightarrow> 's"
  class_get_event_loop_backend :: "'s \<Rightarrow> event_loop_backend"
  class_set_event_loop_backend :: "event_loop_backend \<Rightarrow> 's \<Rightarrow> 's"
  class_get_default_packet_buffer_size :: "('s \<Rightarrow> u32) option"
  class_set_default_packet_buffer_size :: "(u32 \<Rightarrow> 's \<Rightarrow> 's) option"
  class_get_pid_file :: "'s \<Rightarrow> bytes option"
  class_set_pid_file :: "bytes option \<Rightarrow> 's \<Rightarrow> 's"
  class_is_run_as_daemon :: "'s \<Rightarrow> bool"
  class_set_run_as_daemon :: "bool \<Rightarrow> 's \<Rightarrow> 's"
  class_get_max_pending_finished_sessions :: "'s \<Rightarrow> u32"
  class_set_max_pending_finished_sessions :: "u32 \<Rightarrow> 's \<Rightarrow> 's"
  class_connection_established :: "nat \<Rightarrow> 's \<Rightarrow> 's"
  class_sessions_finished :: "u32 \<Rightarrow> 's \<Rightarrow> 's"
  class_maintain :: "'s \<Rightarrow> 's"
  class_event_loop_created :: "'s \<Rightarrow> 's"
  class_callback :: "'s \<Rightarrow> bool \<times> 's"

definition client_emit :: "client_signal \<Rightarrow> 'a milter_client_scheme \<Rightarrow> 'a milter_client_scheme" where
  "client_emit x c = c\<lparr>client_signals := client_signals c @ [x]\<rparr>"

text \<open>The methods of the client's own class.\<close>

definition get_connection_spec :: "'a milter_client_scheme \<Rightarrow> bytes option" where
  "get_connection_spec c = client_connection_spec c"

text \<open>The result is the error, if the spec is refused.\<close>

definition set_connection_spec ::
    "platform \<Rightarrow> (bytes \<Rightarrow> u32 option) \<Rightarrow> (bytes \<Rightarrow> 128 word option) \<Rightarrow> bytes option \<Rightarrow>
     'a milter_client_scheme \<Rightarrow> (gerror option option \<times> 'a milter_client_scheme) result" where
  "set_connection_spec P getaddrinfo4 getaddrinfo6 spec c =
     (let c = c\<lparr>client_connection_spec := None\<rparr>
      in case spec of
           None \<Rightarrow> Ok (None, c)
         | Some s \<Rightarrow>
             (case milter_connection_parse_spec P getaddrinfo4 getaddrinfo6 (Some s) False of
                Ok _ \<Rightarrow> Ok (None, c\<lparr>client_connection_spec := Some s\<rparr>)
              | Refused e \<Rightarrow> Ok (Some e, c)
              | Fault f \<Rightarrow> Fault f))"

definition get_unix_socket_mode :: "'a milter_client_scheme \<Rightarrow> u32" where
  "get_unix_socket_mode c = client_unix_socket_mode c"

definition set_unix_socket_mode :: "u32 \<Rightarrow> 'a milter_client_scheme \<Rightarrow> 'a milter_client_scheme" where
  "set_unix_socket_mode x c = c\<lparr>client_unix_socket_mode := x\<rparr>"

definition get_unix_socket_group :: "'a milter_client_scheme \<Rightarrow> bytes option" where
  "get_unix_socket_group c = client_unix_socket_group c"

definition set_unix_socket_group :: "bytes option \<Rightarrow> 'a milter_client_scheme \<Rightarrow> 'a milter_client_scheme" where
  "set_unix_socket_group x c = c\<lparr>client_unix_socket_group := x\<rparr>"

definition get_effective_user :: "'a milter_client_scheme \<Rightarrow> bytes option" where
  "get_effective_user c = client_effective_user c"

definition set_effective_user :: "bytes option \<Rightarrow> 'a milter_client_scheme \<Rightarrow> 'a milter_client_scheme" where
  "set_effective_user x c = c\<lparr>client_effective_user := x\<rparr>"

definition get_effective_group :: "'a milter_client_scheme \<Rightarrow> bytes option" where
  "get_effective_group c = client_effective_group c"

definition set_effective_group :: "bytes option \<Rightarrow> 'a milter_client_scheme \<Rightarrow> 'a milter_client_scheme" where
  "set_effective_group x c = c\<lparr>client_effective_group := x\<rparr>"

definition get_event_loop_backend :: "'a milter_client_scheme \<Rightarrow> event_loop_backend" where
  "get_event_loop_backend c = client_event_loop_backend c"

definition set_event_loop_backend :: "event_loop_backend \<Rightarrow> 'a milter_client_scheme \<Rightarrow> 'a milter_client_scheme" where
  "set_event_loop_backend x c = c\<lparr>client_event_loop_backend := x\<rparr>"

definition get_n_workers :: "'a milter_client_scheme \<Rightarrow> u32" where
  "get_n_workers c = workers_n_process c"

definition set_n_workers :: "u32 \<Rightarrow> 'a milter_client_scheme \<Rightarrow> 'a milter_client_scheme" where
  "set_n_workers x c = c\<lparr>workers_n_process := x\<rparr>"

definition get_pid_file :: "'a milter_client_scheme \<Rightarrow> bytes option" where
  "get_pid_file c = client_pid_file c"

definition set_pid_file :: "bytes option \<Rightarrow> 'a milter_client_scheme \<Rightarrow> 'a milter_client_scheme" where
  "set_pid_file x c = c\<lparr>client_pid_file := x\<rparr>"

definition is_run_as_daemon :: "'a milter_client_scheme \<Rightarrow> bool" where
  "is_run_as_daemon c = client_run_as_daemon c"

definition set_run_as_daemon :: "bool \<Rightarrow> 'a milter_client_scheme \<Rightarrow> 'a milter_client_scheme" where
  "set_run_as_daemon x c = c\<lparr>client_run_as_daemon := x\<rparr>"

definition get_max_pending_finished_sessions :: "'a milter_client_scheme \<Rightarrow> u32" where
  "get_max_pending_finished_sessions c = client_max_pending_finished_sessions c"

definition set_max_pending_finished_sessions :: "u32 \<Rightarrow> 'a milter_client_scheme \<Rightarrow> 'a milter_client_scheme" where
  "set_max_pending_finished_sessions x c = c\<lparr>client_max_pending_finished_sessions := x\<rparr>"

definition milter_client_class ::
    "platform \<Rightarrow> (bytes \<Rightarrow> u32 option) \<Rightarrow> (bytes \<Rightarrow> 128 word option) \<Rightarrow>
     'a milter_client_scheme client_class" where
  "milter_client_class P getaddrinfo4 getaddrinfo6 =
     \<lparr>class_get_connection_spec = get_connection_spec,
      class_set_connection_spec = set_connection_spec P getaddrinfo4 getaddrinfo6,
      class_get_unix_socket_mode = get_unix_socket_mode,
      class_set_unix_socket_mode = set_unix_socket_mode,
      class_get_unix_socket_group = get_unix_socket_group,
      class_set_unix_socket_group = set_unix_socket_group,
      class_is_remove_unix_socket_on_close = None,
      class_get_suspend_time_on_unacceptable = None,
      class_set_suspend_time_on_unacceptable = None,
      class_get_max_connections = None,
      class_set_max_connections = None,
      class_get_effective_user = get_effective_user,
      class_set_effective_user = set_effective_user,
      class_get_effective_group = get_effective_group,
      class_set_effective_group = set_effective_group,
      class_get_maintenance_interval = None,
      class_set_maintenance_interval = None,
      class_get_n_workers = get_n_workers,
      class_set_n_workers = set_n_workers,
      class_get_event_loop_backend = get_event_loop_backend,
      class_set_event_loop_backend = set_event_loop_backend,
      class_get_default_packet_buffer_size = None,
      class_set_default_packet_buffer_size = None,
      class_get_pid_file = get_pid_file,
      class_set_pid_file = set_pid_file,
      class_is_run_as_daemon = is_run_as_daemon,
      class_set_run_as_daemon = set_run_as_daemon,
      class_get_max_pending_finished_sessions = get_max_pending_finished_sessions,
      class_set_max_pending_finished_sessions = set_max_pending_finished_sessions,
      class_connection_established = (\<lambda>_ c. c),
      class_sessions_finished = (\<lambda>_ c. c),
      class_maintain = (\<lambda>c. c),
      class_event_loop_created = (\<lambda>c. c),
      class_callback = (\<lambda>c. (False, c))\<rparr>"

subsection \<open>Settings\<close>

definition milter_client_get_connection_spec :: "'a milter_client_scheme client_class \<Rightarrow> 'a milter_client_scheme \<Rightarrow> bytes option" where
  "milter_client_get_connection_spec klass c = class_get_connection_spec klass c"

definition milter_client_set_connection_spec ::
    "'a milter_client_scheme client_class \<Rightarrow> bytes option \<Rightarrow> 'a milter_client_scheme \<Rightarrow>
     (gerror option option \<times> 'a milter_client_scheme) result" where
  "milter_client_set_connection_spec klass spec c = class_set_connection_spec klass spec c"

definition milter_client_get_default_unix_socket_mode :: "'a milter_client_scheme \<Rightarrow> u32" where
  "milter_client_get_default_unix_socket_mode c = default_unix_socket_mode c"

definition milter_client_set_default_unix_socket_mode :: "u32 \<Rightarrow> 'a milter_client_scheme \<Rightarrow> 'a milter_client_scheme" where
  "milter_client_set_default_unix_socket_mode x c = c\<lparr>default_unix_socket_mode := x\<rparr>"

definition milter_client_get_default_unix_socket_group :: "'a milter_client_scheme \<Rightarrow> bytes option" where
  "milter_client_get_default_unix_socket_group c = default_unix_socket_group c"

definition milter_client_set_default_unix_socket_group :: "bytes option \<Rightarrow> 'a milter_client_scheme \<Rightarrow> 'a milter_client_scheme" where
  "milter_client_set_default_unix_socket_group x c = c\<lparr>default_unix_socket_group := x\<rparr>"

definition milter_client_get_default_remove_unix_socket_on_close :: "'a milter_client_scheme \<Rightarrow> bool" where
  "milter_client_get_default_remove_unix_socket_on_close c = default_remove_unix_socket_on_close c"

definition milter_client_set_default_remove_unix_socket_on_close :: "bool \<Rightarrow> 'a milter_client_scheme \<Rightarrow> 'a milter_client_scheme" where
  "milter_client_set_default_remove_unix_socket_on_close x c = c\<lparr>default_remove_unix_socket_on_close := x\<rparr>"

definition milter_client_is_remove_unix_socket_on_create :: "'a milter_client_scheme \<Rightarrow> bool" where
  "milter_client_is_remove_unix_socket_on_create c = remove_unix_socket_on_create c"

definition milter_client_set_remove_unix_socket_on_create :: "bool \<Rightarrow> 'a milter_client_scheme \<Rightarrow> 'a milter_client_scheme" where
  "milter_client_set_remove_unix_socket_on_create x c = c\<lparr>remove_unix_socket_on_create := x\<rparr>"

definition milter_client_is_remove_pid_file_on_exit :: "'a milter_client_scheme \<Rightarrow> bool" where
  "milter_client_is_remove_pid_file_on_exit c = remove_pid_file_on_exit c"

definition milter_client_set_remove_pid_file_on_exit :: "bool \<Rightarrow> 'a milter_client_scheme \<Rightarrow> 'a milter_client_scheme" where
  "milter_client_set_remove_pid_file_on_exit x c = c\<lparr>remove_pid_file_on_exit := x\<rparr>"

definition milter_client_set_listen_backlog :: "int \<Rightarrow> 'a milter_client_scheme \<Rightarrow> 'a milter_client_scheme" where
  "milter_client_set_listen_backlog x c = c\<lparr>listen_backlog := x\<rparr>"

definition milter_client_set_timeout :: "u32 \<Rightarrow> 'a milter_client_scheme \<Rightarrow> 'a milter_client_scheme" where
  "milter_client_set_timeout x c = c\<lparr>client_timeout := x\<rparr>"

text \<open>A mode of 0 and a group that is not set stand for the defaults.\<close>

definition milter_client_get_unix_socket_mode :: "'a milter_client_scheme client_class \<Rightarrow> 'a milter_client_scheme \<Rightarrow> u32" where
  "milter_client_get_unix_socket_mode klass c =
     (let mode = class_get_unix_socket_mode klass c
      in if mode = 0 then milter_client_get_default_unix_socket_mode c else mode)"

definition milter_client_set_unix_socket_mode ::
    "'a milter_client_scheme client_class \<Rightarrow> u32 \<Rightarrow> 'a milter_client_scheme \<Rightarrow> 'a milter_client_scheme" where
  "milter_client_set_unix_socket_mode klass x c = class_set_unix_socket_mode klass x c"

definition milter_client_get_unix_socket_group ::
    "'a milter_client_scheme client_class \<Rightarrow> 'a milter_client_scheme \<Rightarrow> bytes option" where
  "milter_client_get_unix_socket_group klass c =
     (case class_get_unix_socket_group klass c of
        None \<Rightarrow> milter_client_get_default_unix_socket_group c
      | Some g \<Rightarrow> Some g)"

definition milter_client_set_unix_socket_group ::
    "'a milter_client_scheme client_class \<Rightarrow> bytes option \<Rightarrow> 'a milter_client_scheme \<Rightarrow> 'a milter_client_scheme" where
  "milter_client_set_unix_socket_group klass x c = class_set_unix_socket_group klass x c"

definition milter_client_is_remove_unix_socket_on_close :: "'a milter_client_scheme client_class \<Rightarrow> 'a milter_client_scheme \<Rightarrow> bool" where
  "milter_client_is_remove_unix_socket_on_close klass c =
     (case class_is_remove_unix_socket_on_close klass of
        Some f \<Rightarrow> f c
      | None \<Rightarrow> milter_client_get_default_remove_unix_socket_on_close c)"

definition milter_client_get_suspend_time_on_unacceptable :: "'a milter_client_scheme client_class \<Rightarrow> 'a milter_client_scheme \<Rightarrow> u32" where
  "milter_client_get_suspend_time_on_unacceptable klass c =
     (case class_get_suspend_time_on_unacceptable klass of Some f \<Rightarrow> f c | None \<Rightarrow> client_suspend_time_on_unacceptable c)"

definition milter_client_set_suspend_time_on_unacceptable ::
    "'a milter_client_scheme client_class \<Rightarrow> u32 \<Rightarrow> 'a milter_client_scheme \<Rightarrow> 'a milter_client_scheme" where
  "milter_client_set_suspend_time_on_unacceptable klass x c =
     (case class_set_suspend_time_on_unacceptable klass of Some f \<Rightarrow> f x c | None \<Rightarrow> c\<lparr>client_suspend_time_on_unacceptable := x\<rparr>)"

definition milter_client_get_max_connections :: "'a milter_client_scheme client_class \<Rightarrow> 'a milter_client_scheme \<Rightarrow> u32" where
  "milter_client_get_max_connections klass c =
     (case class_get_max_connections klass of Some f \<Rightarrow> f c | None \<Rightarrow> client_max_connections c)"

definition milter_client_set_max_connections ::
    "'a milter_client_scheme client_class \<Rightarrow> u32 \<Rightarrow> 'a milter_client_scheme \<Rightarrow> 'a milter_client_scheme" where
  "milter_client_set_max_connections klass x c =
     (case class_set_max_connections klass of Some f \<Rightarrow> f x c | None \<Rightarrow> c\<lparr>client_max_connections := x\<rparr>)"

definition milter_client_get_effective_user :: "'a milter_client_scheme client_class \<Rightarrow> 'a milter_client_scheme \<Rightarrow> bytes option" where
  "milter_client_get_effective_user klass c = class_get_effective_user klass c"

definition milter_client_set_effective_user ::
    "'a milter_client_scheme client_class \<Rightarrow> bytes option \<Rightarrow> 'a milter_client_scheme \<Rightarrow> 'a milter_client_scheme" where
  "milter_client_set_effective_user klass x c = class_set_effective_user klass x c"

definition milter_client_get_effective_group :: "'a milter_client_scheme client_class \<Rightarrow> 'a milter_client_scheme \<Rightarrow> bytes option" where
  "milter_client_get_effective_group klass c = class_get_effective_group klass c"

definition milter_client_set_effective_group ::
    "'a milter_client_scheme client_class \<Rightarrow> bytes option \<Rightarrow> 'a milter_client_scheme \<Rightarrow> 'a milter_client_scheme" where
  "milter_client_set_effective_group klass x c = class_set_effective_group klass x c"

definition milter_client_get_maintenance_interval :: "'a milter_client_scheme client_class \<Rightarrow> 'a milter_client_scheme \<Rightarrow> u32" where
  "milter_client_get_maintenance_interval klass c =
     (case class_get_maintenance_interval klass of Some f \<Rightarrow> f c | None \<Rightarrow> client_maintenance_interval c)"

definition milter_client_set_maintenance_interval ::
    "'a milter_client_scheme client_class \<Rightarrow> u32 \<Rightarrow> 'a milter_client_scheme \<Rightarrow> 'a milter_client_scheme" where
  "milter_client_set_maintenance_interval klass x c =
     (case class_set_maintenance_interval klass of Some f \<Rightarrow> f x c | None \<Rightarrow> c\<lparr>client_maintenance_interval := x\<rparr>)"

definition milter_client_get_event_loop_backend :: "'a milter_client_scheme client_class \<Rightarrow> 'a milter_client_scheme \<Rightarrow> event_loop_backend" where
  "milter_client_get_event_loop_backend klass c = class_get_event_loop_backend klass c"

definition milter_client_set_event_loop_backend ::
    "'a milter_client_scheme client_class \<Rightarrow> event_loop_backend \<Rightarrow> 'a milter_client_scheme \<Rightarrow> 'a milter_client_scheme" where
  "milter_client_set_event_loop_backend klass x c = class_set_event_loop_backend klass x c"

definition milter_client_get_n_workers :: "'a milter_client_scheme client_class \<Rightarrow> 'a milter_client_scheme \<Rightarrow> u32" where
  "milter_client_get_n_workers klass c = class_get_n_workers klass c"

definition milter_client_set_n_workers ::
    "'a milter_client_scheme client_class \<Rightarrow> u32 \<Rightarrow> 'a milter_client_scheme \<Rightarrow> 'a milter_client_scheme" where
  "milter_client_set_n_workers klass x c = class_set_n_workers klass x c"

definition milter_client_get_default_packet_buffer_size :: "'a milter_client_scheme client_class \<Rightarrow> 'a milter_client_scheme \<Rightarrow> u32" where
  "milter_client_get_default_packet_buffer_size klass c =
     (case class_get_default_packet_buffer_size klass of Some f \<Rightarrow> f c | None \<Rightarrow> client_packet_buffer_size c)"

definition milter_client_set_default_packet_buffer_size ::
    "'a milter_client_scheme client_class \<Rightarrow> u32 \<Rightarrow> 'a milter_client_scheme \<Rightarrow> 'a milter_client_scheme" where
  "milter_client_set_default_packet_buffer_size klass x c =
     (case class_set_default_packet_buffer_size klass of Some f \<Rightarrow> f x c | None \<Rightarrow> c\<lparr>client_packet_buffer_size := x\<rparr>)"

definition milter_client_get_pid_file :: "'a milter_client_scheme client_class \<Rightarrow> 'a milter_client_scheme \<Rightarrow> bytes option" where
  "milter_client_get_pid_file klass c = class_get_pid_file klass c"

definition milter_client_set_pid_file ::
    "'a milter_client_scheme client_class \<Rightarrow> bytes option \<Rightarrow> 'a milter_client_scheme \<Rightarrow> 'a milter_client_scheme" where
  "milter_client_set_pid_file klass x c = class_set_pid_file klass x c"

definition milter_client_is_run_as_daemon :: "'a milter_client_scheme client_class \<Rightarrow> 'a milter_client_scheme \<Rightarrow> bool" where
  "milter_client_is_run_as_daemon klass c = class_is_run_as_daemon klass c"

definition milter_client_set_run_as_daemon ::
    "'a milter_client_scheme client_class \<Rightarrow> bool \<Rightarrow> 'a milter_client_scheme \<Rightarrow> 'a milter_client_scheme" where
  "milter_client_set_run_as_daemon klass x c = class_set_run_as_daemon klass x c"

definition milter_client_get_max_pending_finished_sessions :: "'a milter_client_scheme client_class \<Rightarrow> 'a milter_client_scheme \<Rightarrow> u32" where
  "milter_client_get_max_pending_finished_sessions klass c = class_get_max_pending_finished_sessions klass c"

definition milter_client_set_max_pending_finished_sessions ::
    "'a milter_client_scheme client_class \<Rightarrow> u32 \<Rightarrow> 'a milter_client_scheme \<Rightarrow> 'a milter_client_scheme" where
  "milter_client_set_max_pending_finished_sessions klass x c = class_set_max_pending_finished_sessions klass x c"

subsection \<open>Syslog\<close>

text \<open>A logger is the identity and facility it was started with; \<open>prgname\<close> is the program's name.\<close>

definition milter_client_stop_syslog :: "'a milter_client_scheme \<Rightarrow> 'a milter_client_scheme" where
  "milter_client_stop_syslog c = c\<lparr>syslog_logger := None\<rparr>"

definition milter_client_start_syslog :: "bytes option \<Rightarrow> 'a milter_client_scheme \<Rightarrow> 'a milter_client_scheme" where
  "milter_client_start_syslog prgname c =
     (let c = milter_client_stop_syslog c;
          identify = (case client_syslog_identify c of None \<Rightarrow> prgname | Some i \<Rightarrow> Some i)
      in c\<lparr>syslog_logger := Some (identify, client_syslog_facility c)\<rparr>)"

definition milter_client_get_syslog_enabled :: "'a milter_client_scheme \<Rightarrow> bool" where
  "milter_client_get_syslog_enabled c \<longleftrightarrow> syslog_logger c \<noteq> None"

definition milter_client_set_syslog_identify ::
    "bytes option \<Rightarrow> bytes option \<Rightarrow> 'a milter_client_scheme \<Rightarrow> 'a milter_client_scheme" where
  "milter_client_set_syslog_identify prgname identify c =
     (if client_syslog_identify c = identify then c
      else
        let c = c\<lparr>client_syslog_identify := identify\<rparr>
        in if milter_client_get_syslog_enabled c then milter_client_start_syslog prgname c else c)"

definition milter_client_set_syslog_facility ::
    "bytes option \<Rightarrow> bytes option \<Rightarrow> 'a milter_client_scheme \<Rightarrow> 'a milter_client_scheme" where
  "milter_client_set_syslog_facility prgname facility c =
     (if client_syslog_facility c = facility then c
      else
        let c = c\<lparr>client_syslog_facility := facility\<rparr>
        in if milter_client_get_syslog_enabled c then milter_client_start_syslog prgname c else c)"

text \<open>The case of \<open>set_property\<close> for \<open>start-syslog\<close>.\<close>

definition set_property_start_syslog :: "bytes option \<Rightarrow> bool \<Rightarrow> 'a milter_client_scheme \<Rightarrow> 'a milter_client_scheme" where
  "set_property_start_syslog prgname on c =
     (if on then milter_client_start_syslog prgname c else milter_client_start_syslog prgname c)"

subsection \<open>Event loop\<close>

text \<open>Whatever the backend, the loop is one of \<open>Event_Loop\<close>.\<close>

definition milter_client_create_event_loop ::
    "'a milter_client_scheme client_class \<Rightarrow> 'a milter_client_scheme \<Rightarrow>
     client_callback event_loop \<times> 'a milter_client_scheme" where
  "milter_client_create_event_loop klass c =
     (milter_libev_event_loop_new,
      class_event_loop_created klass (client_emit Signal_event_loop_created c))"

definition milter_client_get_event_loop ::
    "'a milter_client_scheme client_class \<Rightarrow> 'a milter_client_scheme \<Rightarrow> 'a milter_client_scheme" where
  "milter_client_get_event_loop klass c =
     (case event_loop c of
        Some _ \<Rightarrow> c
      | None \<Rightarrow>
          (case milter_client_create_event_loop klass c of
             (l, c) \<Rightarrow> c\<lparr>event_loop := Some l\<rparr>))"

subsection \<open>Listening\<close>

record client_system =
  csys_platform :: platform
  csys_getaddrinfo4 :: "bytes \<Rightarrow> u32 option"
  csys_getaddrinfo6 :: "bytes \<Rightarrow> 128 word option"
  csys_file_exists :: "bytes \<Rightarrow> bool"
  csys_works :: "system_call \<Rightarrow> bool"
  csys_default_backlog :: nat
  csys_listen_fd :: int
  csys_getpwnam :: "bytes \<Rightarrow> password option"
  csys_getgrnam :: "bytes \<Rightarrow> (bytes \<times> nat) option"
  csys_chown :: "bytes \<Rightarrow> nat option \<Rightarrow> nat option \<Rightarrow> bool"
  csys_chmod :: "bytes \<Rightarrow> u32 \<Rightarrow> bool"
  csys_unlink :: "bytes \<Rightarrow> bool"
  csys_setgid :: "credentials \<Rightarrow> nat \<Rightarrow> bool"
  csys_initgroups :: "credentials \<Rightarrow> bytes \<Rightarrow> nat \<Rightarrow> nat list option"
  csys_setuid :: "credentials \<Rightarrow> nat \<Rightarrow> bool"
  csys_file_set_contents :: "bytes \<Rightarrow> bool"

definition client_call :: "client_call \<Rightarrow> 'a milter_client_scheme \<Rightarrow> 'a milter_client_scheme" where
  "client_call x c = c\<lparr>client_calls := client_calls c @ [x]\<rparr>"

definition change_unix_socket_group ::
    "'a milter_client_scheme client_class \<Rightarrow> client_system \<Rightarrow> bytes \<Rightarrow>
     'a milter_client_scheme \<Rightarrow> 'a milter_client_scheme" where
  "change_unix_socket_group klass sys path c =
     (case milter_client_get_unix_socket_group klass c of
        None \<Rightarrow> c
      | Some socket_group \<Rightarrow>
          (case csys_getgrnam sys socket_group of
             None \<Rightarrow> client_emit (Signal_error MILTER_CLIENT_ERROR_UNIX_SOCKET) c
           | Some (_, gid) \<Rightarrow>
               if csys_chown sys path None (Some gid)
               then client_call (Call_chown path None (Some gid)) c
               else client_emit (Signal_error MILTER_CLIENT_ERROR_UNIX_SOCKET) c))"

definition change_unix_socket_mode ::
    "'a milter_client_scheme client_class \<Rightarrow> client_system \<Rightarrow> bytes \<Rightarrow>
     'a milter_client_scheme \<Rightarrow> 'a milter_client_scheme" where
  "change_unix_socket_mode klass sys path c =
     (let mode = milter_client_get_unix_socket_mode klass c
      in if csys_chmod sys path mode then client_call (Call_chmod path mode) c
         else client_emit (Signal_error MILTER_CLIENT_ERROR_UNIX_SOCKET) c)"

definition listen_started ::
    "'a milter_client_scheme client_class \<Rightarrow> client_system \<Rightarrow> connection_address \<Rightarrow>
     'a milter_client_scheme \<Rightarrow> 'a milter_client_scheme" where
  "listen_started klass sys address c =
     (case address of
        Address_unix path \<Rightarrow>
          change_unix_socket_mode klass sys path (change_unix_socket_group klass sys path c)
      | _ \<Rightarrow> c)"

definition milter_client_listen_channel ::
    "'a milter_client_scheme client_class \<Rightarrow> client_system \<Rightarrow> 'a milter_client_scheme \<Rightarrow>
     ((milter_client_error + int) \<times> 'a milter_client_scheme) result" where
  "milter_client_listen_channel klass sys c =
     (let c = c\<lparr>client_address := None\<rparr>
      in case milter_connection_listen (csys_platform sys) (csys_getaddrinfo4 sys) (csys_getaddrinfo6 sys)
             (csys_file_exists sys) (csys_works sys) (csys_default_backlog sys)
             (milter_client_get_connection_spec klass c) (listen_backlog c)
             (remove_unix_socket_on_create c) of
           Fault f \<Rightarrow> Fault f
         | Refused e \<Rightarrow> Refused e
         | Ok (Inl e, _) \<Rightarrow> Ok (Inl (Client_connection_error e), c)
         | Ok (Inr address, _) \<Rightarrow>
             Ok (Inr (csys_listen_fd sys),
                 listen_started klass sys address
                   (client_emit (Signal_listen_started address) (c\<lparr>client_address := Some address\<rparr>))))"

definition milter_client_listen ::
    "'a milter_client_scheme client_class \<Rightarrow> client_system \<Rightarrow> 'a milter_client_scheme \<Rightarrow>
     (milter_client_error option \<times> 'a milter_client_scheme) result" where
  "milter_client_listen klass sys c =
     (case milter_client_listen_channel klass sys c of
        Ok (Inr fd, c) \<Rightarrow> Ok (None, c\<lparr>listen_channel := Some fd\<rparr>)
      | Ok (Inl e, c) \<Rightarrow> Ok (Some e, c)
      | Refused e \<Rightarrow> Refused e
      | Fault f \<Rightarrow> Fault f)"

subsection \<open>Privileges\<close>

definition find_password :: "client_system \<Rightarrow> bytes option \<Rightarrow> milter_client_error + password" where
  "find_password sys effective_user =
     (case csys_getpwnam sys (case effective_user of None \<Rightarrow> ''nobody'' | Some u \<Rightarrow> u) of
        None \<Rightarrow> Inl MILTER_CLIENT_ERROR_PASSWORD_ENTRY
      | Some p \<Rightarrow> Inr p)"

text \<open>
  The outcome is whether the function returns \<open>TRUE\<close> and the error it has set, which need
  not go together: the first error set is kept.
\<close>

definition switch_user ::
    "'a milter_client_scheme client_class \<Rightarrow> client_system \<Rightarrow> credentials \<Rightarrow> 'a milter_client_scheme \<Rightarrow>
     bool \<times> milter_client_error option \<times> credentials \<times> 'a milter_client_scheme" where
  "switch_user klass sys cr c =
     (case find_password sys (milter_client_get_effective_user klass c) of
        Inl e \<Rightarrow> (False, Some e, cr, c)
      | Inr p \<Rightarrow>
          let (e, c) =
            (case client_address c of
               Some (Address_unix path) \<Rightarrow>
                 if csys_chown sys path (Some (pw_uid p)) None
                 then (None, client_call (Call_chown path (Some (pw_uid p)) None) c)
                 else (Some MILTER_CLIENT_ERROR_DROP_PRIVILEGE, c)
             | _ \<Rightarrow> (None, c))
          in if \<not> csys_setuid sys cr (pw_uid p)
             then (False, Some (case e of Some e \<Rightarrow> e | None \<Rightarrow> MILTER_CLIENT_ERROR_DROP_PRIVILEGE), cr, c)
             else (True, e, cr\<lparr>cred_uid := pw_uid p\<rparr>, c))"

definition switch_group ::
    "'a milter_client_scheme client_class \<Rightarrow> client_system \<Rightarrow> credentials \<Rightarrow> 'a milter_client_scheme \<Rightarrow>
     bool \<times> milter_client_error option \<times> credentials" where
  "switch_group klass sys cr c =
     (case milter_client_get_effective_group klass c of
        None \<Rightarrow> (True, None, cr)
      | Some effective_group \<Rightarrow>
          (case csys_getgrnam sys effective_group of
             None \<Rightarrow> (False, Some MILTER_CLIENT_ERROR_GROUP_ENTRY, cr)
           | Some (_, gid) \<Rightarrow>
               if \<not> csys_setgid sys cr gid then (False, Some MILTER_CLIENT_ERROR_GROUP_ENTRY, cr)
               else
                 let cr = cr\<lparr>cred_gid := gid\<rparr>
                 in case find_password sys (milter_client_get_effective_user klass c) of
                      Inl e \<Rightarrow> (False, Some e, cr)
                    | Inr p \<Rightarrow>
                        (case csys_initgroups sys cr (pw_name p) gid of
                           None \<Rightarrow> (False, Some MILTER_CLIENT_ERROR_GROUP_ENTRY, cr)
                         | Some groups \<Rightarrow> (True, None, cr\<lparr>cred_groups := groups\<rparr>))))"

definition milter_client_drop_privilege ::
    "'a milter_client_scheme client_class \<Rightarrow> client_system \<Rightarrow> credentials \<Rightarrow> 'a milter_client_scheme \<Rightarrow>
     bool \<times> milter_client_error option \<times> credentials \<times> 'a milter_client_scheme" where
  "milter_client_drop_privilege klass sys cr c =
     (if cred_uid cr \<noteq> 0 then (True, None, cr, c)
      else case switch_group klass sys cr c of
        (False, e, cr) \<Rightarrow> (False, e, cr, c)
      | (True, _, cr) \<Rightarrow> switch_user klass sys cr c)"

subsection \<open>Becoming a daemon\<close>

text \<open>\<open>Process_exits\<close>: the process ends there, as the parent of a fork does.\<close>

datatype 'r process_outcome = Process_goes_on 'r | Process_exits

record daemon_system =
  dsys_fork :: int
  dsys_setsid :: bool
  dsys_fork_again :: int
  dsys_chdir :: bool
  dsys_detach_io :: bool

definition milter_client_daemonize ::
    "daemon_system \<Rightarrow> 'a milter_client_scheme \<Rightarrow>
     (milter_client_error option \<times> 'a milter_client_scheme) process_outcome" where
  "milter_client_daemonize d c =
     (if dsys_fork d = -1 then Process_goes_on (Some MILTER_CLIENT_ERROR_DAEMONIZE, c)
      else if dsys_fork d \<noteq> 0 then Process_exits
      else if \<not> dsys_setsid d then Process_goes_on (Some MILTER_CLIENT_ERROR_DAEMONIZE, c)
      else if dsys_fork_again d = -1 then Process_goes_on (Some MILTER_CLIENT_ERROR_DAEMONIZE, c)
      else if dsys_fork_again d \<noteq> 0 then Process_exits
      else
        let c = c\<lparr>daemonized := True\<rparr>
        in if \<not> dsys_chdir d then Process_goes_on (Some MILTER_CLIENT_ERROR_DAEMONIZE, c)
           else if \<not> dsys_detach_io d then Process_goes_on (Some MILTER_CLIENT_ERROR_DETACH_IO, c)
           else Process_goes_on (None, c))"

subsection \<open>Running\<close>

definition milter_client_cleanup ::
    "'a milter_client_scheme client_class \<Rightarrow> client_system \<Rightarrow> bytes option \<Rightarrow> 'a milter_client_scheme \<Rightarrow>
     bool \<times> milter_client_error option \<times> 'a milter_client_scheme" where
  "milter_client_cleanup klass sys pid_file c =
     (let c = c\<lparr>listening_channel := None\<rparr>;
          (success, e, c) =
            (case client_address c of
               Some (Address_unix path) \<Rightarrow>
                 if \<not> milter_client_is_remove_unix_socket_on_close klass c then (True, None, c)
                 else if csys_unlink sys path then (True, None, client_call (Call_unlink path) c)
                 else (False, Some MILTER_CLIENT_ERROR_UNIX_SOCKET, c)
             | _ \<Rightarrow> (True, None, c))
      in case pid_file of
           None \<Rightarrow> (success, e, c)
         | Some path \<Rightarrow>
             if \<not> milter_client_is_remove_pid_file_on_exit c then (success, e, c)
             else if csys_unlink sys path then (success, e, client_call (Call_unlink path) c)
             else (False, Some (case e of Some e \<Rightarrow> e | None \<Rightarrow> MILTER_CLIENT_ERROR_PID_FILE), c))"

text \<open>\<open>run_loop\<close> is \<open>milter_client_run_loop\<close>, which runs until the client is shut down.\<close>

definition milter_client_run ::
    "'a milter_client_scheme client_class \<Rightarrow> client_system \<Rightarrow> daemon_system \<Rightarrow>
     ('a milter_client_scheme \<Rightarrow> bool \<times> milter_client_error option \<times> 'a milter_client_scheme) \<Rightarrow>
     'a milter_client_scheme \<Rightarrow>
     (bool \<times> milter_client_error option \<times> 'a milter_client_scheme) process_outcome" where
  "milter_client_run klass sys d run_loop c =
     (case (if milter_client_is_run_as_daemon klass c \<and> \<not> daemonized c
            then milter_client_daemonize d c else Process_goes_on (None, c)) of
        Process_exits \<Rightarrow> Process_exits
      | Process_goes_on (Some e, c) \<Rightarrow> Process_goes_on (False, Some e, c)
      | Process_goes_on (None, c) \<Rightarrow>
          let pid_file = milter_client_get_pid_file klass c
          in if (case pid_file of None \<Rightarrow> False | Some path \<Rightarrow> \<not> csys_file_set_contents sys path)
             then Process_goes_on (False, Some MILTER_CLIENT_ERROR_PID_FILE, c)
             else case run_loop c of
               (success, e, c) \<Rightarrow>
                 (case milter_client_cleanup klass sys pid_file c of
                    (True, _, c) \<Rightarrow> Process_goes_on (success, e, c)
                  | (False, e', c) \<Rightarrow> Process_goes_on (success, if success then e' else e, c)))"

subsection \<open>What dropping privileges gives\<close>

text \<open>
  C22: a client that runs as root and says it has dropped its privileges runs as the effective user, or
  as \<open>nobody\<close>. When an effective group is set, its group is that one and its supplementary groups are
  those the system gives to the user with it; when none is, they are still root's. A socket path it
  could not give to the user does not stop it, and is then reported with success.
\<close>

theorem privileges_dropped:
  assumes "cred_uid cr = 0"
    and "milter_client_drop_privilege klass sys cr c = (True, e, cr', c')"
  shows "\<exists>p. csys_getpwnam sys (case milter_client_get_effective_user klass c of
            None \<Rightarrow> ''nobody'' | Some u \<Rightarrow> u) = Some p \<and> cred_uid cr' = pw_uid p \<and>
      (case milter_client_get_effective_group klass c of
         None \<Rightarrow> cred_gid cr' = cred_gid cr \<and> cred_groups cr' = cred_groups cr
       | Some g \<Rightarrow> \<exists>name gid groups. csys_getgrnam sys g = Some (name, gid) \<and> cred_gid cr' = gid \<and>
           csys_initgroups sys (cr\<lparr>cred_gid := gid\<rparr>) (pw_name p) gid = Some groups \<and>
           cred_groups cr' = groups) \<and>
      (e \<noteq> None \<longleftrightarrow> (\<exists>path. client_address c = Some (Address_unix path) \<and>
         \<not> csys_chown sys path (Some (pw_uid p)) None))"
proof -
  obtain cr1 where group: "switch_group klass sys cr c = (True, None, cr1)"
    and user: "switch_user klass sys cr1 c = (True, e, cr', c')"
    using assms by (auto simp: milter_client_drop_privilege_def switch_group_def Let_def
        split: prod.splits bool.splits option.splits sum.splits if_splits)
  obtain p where p: "csys_getpwnam sys (case milter_client_get_effective_user klass c of
            None \<Rightarrow> ''nobody'' | Some u \<Rightarrow> u) = Some p" and cr': "cr' = cr1\<lparr>cred_uid := pw_uid p\<rparr>"
    and e: "e \<noteq> None \<longleftrightarrow> (\<exists>path. client_address c = Some (Address_unix path) \<and>
         \<not> csys_chown sys path (Some (pw_uid p)) None)"
    using user by (auto simp: switch_user_def find_password_def Let_def
        split: option.splits sum.splits if_splits connection_address.splits prod.splits)
  from group p have "case milter_client_get_effective_group klass c of
         None \<Rightarrow> cr1 = cr
       | Some g \<Rightarrow> \<exists>name gid groups. csys_getgrnam sys g = Some (name, gid) \<and>
           csys_initgroups sys (cr\<lparr>cred_gid := gid\<rparr>) (pw_name p) gid = Some groups \<and>
           cr1 = cr\<lparr>cred_gid := gid, cred_groups := groups\<rparr>"
    by (auto simp: switch_group_def find_password_def Let_def split: option.splits sum.splits if_splits)
  with p cr' e show ?thesis by (auto split: option.splits)
qed

definition sample_client_system :: client_system where
  "sample_client_system =
     \<lparr>csys_platform = sample_platform, csys_getaddrinfo4 = (\<lambda>_. None), csys_getaddrinfo6 = (\<lambda>_. None),
      csys_file_exists = (\<lambda>_. False), csys_works = (\<lambda>_. True), csys_default_backlog = 128,
      csys_listen_fd = 3,
      csys_getpwnam = (\<lambda>u. if u = ''nobody'' then Some \<lparr>pw_name = u, pw_uid = 99, pw_gid = 98\<rparr> else None),
      csys_getgrnam = (\<lambda>_. None), csys_chown = (\<lambda>_ _ _. False), csys_chmod = (\<lambda>_ _. True),
      csys_unlink = (\<lambda>_. True), csys_setgid = (\<lambda>cr _. cred_uid cr = 0),
      csys_initgroups = (\<lambda>cr _ gid. if cred_uid cr = 0 then Some [gid] else None),
      csys_setuid = (\<lambda>cr _. cred_uid cr = 0), csys_file_set_contents = (\<lambda>_. True)\<rparr>"

definition sample_client_class :: "milter_client client_class" where
  "sample_client_class = milter_client_class sample_platform (\<lambda>_. None) (\<lambda>_. None)"

theorem privileges_dropped_witness:
  "milter_client_drop_privilege sample_client_class sample_client_system
      \<lparr>cred_uid = 0, cred_gid = 0, cred_groups = [0]\<rparr>
      (milter_client_init\<lparr>client_address := Some (Address_unix ''/s'')\<rparr>) =
    (True, Some MILTER_CLIENT_ERROR_DROP_PRIVILEGE, \<lparr>cred_uid = 99, cred_gid = 0, cred_groups = [0]\<rparr>,
     milter_client_init\<lparr>client_address := Some (Address_unix ''/s'')\<rparr>) \<and>
   cred_groups \<lparr>cred_uid = 99, cred_gid = 0, cred_groups = [0]\<rparr> = [0]"
proof -
  let ?c = "milter_client_init\<lparr>client_address := Some (Address_unix ''/s'')\<rparr>"
  let ?cr = "\<lparr>cred_uid = 0, cred_gid = 0, cred_groups = [0]\<rparr>"
  let ?cr' = "\<lparr>cred_uid = 99, cred_gid = 0, cred_groups = [0]\<rparr>"
  have drop: "milter_client_drop_privilege sample_client_class sample_client_system ?cr ?c =
      (True, Some MILTER_CLIENT_ERROR_DROP_PRIVILEGE, ?cr', ?c)"
    by (simp add: milter_client_drop_privilege_def switch_group_def switch_user_def find_password_def
        sample_client_class_def milter_client_class_def milter_client_get_effective_group_def
        milter_client_get_effective_user_def get_effective_group_def get_effective_user_def
        sample_client_system_def milter_client_init_def)
  have "cred_uid ?cr = 0" by simp
  from privileges_dropped [OF this drop] have "cred_groups ?cr' = cred_groups ?cr"
    by (auto simp: sample_client_class_def milter_client_class_def milter_client_get_effective_group_def
        get_effective_group_def milter_client_init_def)
  with drop show ?thesis by simp
qed

end
