(* ===== verification/Client_Sessions.thy ===== *)
theory Client_Sessions
  imports Client
begin

text \<open>
  \<open>milter/client/milter-client.c\<close>, second part: accepting connections, the sessions that are
  processed, and shutting down, in the mode with a single event loop, the mode with a second
  loop for accepting, and in a worker process. An input names the watcher the event loop
  calls, or a session whose context has finished; what the operating system answers during
  it is the record \<open>world\<close>. A step that never returns is \<open>None\<close>.
\<close>

subsection \<open>The event loop of the client\<close>

text \<open>The functions of \<open>milter-event-loop.c\<close> do nothing on a \<open>NULL\<close> loop.\<close>

definition in_event_loop ::
    "(client_callback event_loop \<Rightarrow> (u32 \<times> client_callback event_loop) option) \<Rightarrow>
     'a milter_client_scheme \<Rightarrow> (u32 \<times> 'a milter_client_scheme) option" where
  "in_event_loop add c =
     (case event_loop c of
        None \<Rightarrow> Some (0, c)
      | Some l \<Rightarrow> map_option (\<lambda>(tag, l). (tag, c\<lparr>event_loop := Some l\<rparr>)) (add l))"

definition in_accept_loop ::
    "(client_callback event_loop \<Rightarrow> (u32 \<times> client_callback event_loop) option) \<Rightarrow>
     'a milter_client_scheme \<Rightarrow> (u32 \<times> 'a milter_client_scheme) option" where
  "in_accept_loop add c =
     (case accept_loop c of
        None \<Rightarrow> Some (0, c)
      | Some l \<Rightarrow> map_option (\<lambda>(tag, l). (tag, c\<lparr>accept_loop := Some l\<rparr>)) (add l))"

definition change_event_loop ::
    "(client_callback event_loop \<Rightarrow> client_callback event_loop) \<Rightarrow>
     'a milter_client_scheme \<Rightarrow> 'a milter_client_scheme" where
  "change_event_loop f c = c\<lparr>event_loop := map_option f (event_loop c)\<rparr>"

definition change_accept_loop ::
    "(client_callback event_loop \<Rightarrow> client_callback event_loop) \<Rightarrow>
     'a milter_client_scheme \<Rightarrow> 'a milter_client_scheme" where
  "change_accept_loop f c = c\<lparr>accept_loop := map_option f (accept_loop c)\<rparr>"

definition event_loop_remove :: "u32 \<Rightarrow> 'a milter_client_scheme \<Rightarrow> 'a milter_client_scheme" where
  "event_loop_remove tag = change_event_loop (\<lambda>l. snd (remove_watcher l tag))"

definition accept_loop_remove :: "u32 \<Rightarrow> 'a milter_client_scheme \<Rightarrow> 'a milter_client_scheme" where
  "accept_loop_remove tag = change_accept_loop (\<lambda>l. snd (remove_watcher l tag))"

subsection \<open>Counting sessions\<close>

definition milter_client_session_started :: "'a milter_client_scheme \<Rightarrow> 'a milter_client_scheme" where
  "milter_client_session_started c = c\<lparr>n_processing_sessions := n_processing_sessions c + 1\<rparr>"

definition milter_client_session_finished :: "'a milter_client_scheme \<Rightarrow> 'a milter_client_scheme" where
  "milter_client_session_finished c =
     c\<lparr>n_processing_sessions := n_processing_sessions c - 1,
       n_processed_sessions := n_processed_sessions c + 1\<rparr>"

definition milter_client_get_n_processing_sessions :: "'a milter_client_scheme \<Rightarrow> u32" where
  "milter_client_get_n_processing_sessions c = n_processing_sessions c"

definition milter_client_is_processing :: "'a milter_client_scheme \<Rightarrow> bool" where
  "milter_client_is_processing c \<longleftrightarrow> 0 < n_processing_sessions c"

definition milter_client_set_n_processing_sessions ::
    "u32 \<Rightarrow> 'a milter_client_scheme \<Rightarrow> 'a milter_client_scheme" where
  "milter_client_set_n_processing_sessions n c = c\<lparr>n_processing_sessions := n\<rparr>"

definition milter_client_set_n_processed_sessions ::
    "u32 \<Rightarrow> 'a milter_client_scheme \<Rightarrow> 'a milter_client_scheme" where
  "milter_client_set_n_processed_sessions n c = c\<lparr>n_processed_sessions := n\<rparr>"

definition milter_client_need_maintain ::
    "'a milter_client_scheme client_class \<Rightarrow> 'a milter_client_scheme \<Rightarrow> u32 \<Rightarrow> bool" where
  "milter_client_need_maintain klass c n_finished_sessions =
     (if n_processing_sessions c = 0 \<and> 0 < n_finished_sessions then True
      else
        let interval = milter_client_get_maintenance_interval klass c
        in if interval = 0 then False
           else n_processed_sessions c mod interval < n_finished_sessions)"

subsection \<open>Finishing sessions\<close>

definition dispose_process_data_finished_handler ::
    "nat \<Rightarrow> 'a milter_client_scheme \<Rightarrow> 'a milter_client_scheme" where
  "dispose_process_data_finished_handler d c =
     c\<lparr>finished_handlers := remove1 d (finished_handlers c)\<rparr>"

definition finish_processing :: "nat \<Rightarrow> 'a milter_client_scheme \<Rightarrow> 'a milter_client_scheme" where
  "finish_processing d c =
     (let c = milter_client_session_finished (c\<lparr>processing_data := remove1 d (processing_data c)\<rparr>);
          c = (if quitting c \<and> event_loop c \<noteq> None \<and> n_processing_sessions c = 0
               then change_event_loop milter_event_loop_quit c else c)
      in dispose_process_data_finished_handler d c)"

definition dispose_finished_data ::
    "'a milter_client_scheme client_class \<Rightarrow> 'a milter_client_scheme \<Rightarrow> 'a milter_client_scheme" where
  "dispose_finished_data klass c =
     (case finished_data c of
        None \<Rightarrow> c
      | Some ds \<Rightarrow>
          let before = n_processed_sessions c;
              c = (fold finish_processing ds c)\<lparr>finished_data := None\<rparr>;
              n_finished_sessions = n_processed_sessions c - before;
              c = class_sessions_finished klass n_finished_sessions
                    (client_emit (Signal_sessions_finished n_finished_sessions) c)
          in if milter_client_need_maintain klass c n_finished_sessions
             then class_maintain klass (client_emit Signal_maintain c)
             else c)"

definition dispose_finisher :: "'a milter_client_scheme \<Rightarrow> 'a milter_client_scheme" where
  "dispose_finisher c =
     (if 0 < finisher_id c then (event_loop_remove (finisher_id c) c)\<lparr>finisher_id := 0\<rparr> else c)"

definition single_thread_finisher ::
    "'a milter_client_scheme client_class \<Rightarrow> 'a milter_client_scheme \<Rightarrow> bool \<times> 'a milter_client_scheme" where
  "single_thread_finisher klass c = (False, dispose_finished_data klass (c\<lparr>finisher_id := 0\<rparr>))"

definition single_thread_cb_finished ::
    "'a milter_client_scheme client_class \<Rightarrow> nat \<Rightarrow> 'a milter_client_scheme \<Rightarrow>
     'a milter_client_scheme option" where
  "single_thread_cb_finished klass d c =
     (let c = dispose_process_data_finished_handler d c;
          ds = (case finished_data c of None \<Rightarrow> [] | Some ds \<Rightarrow> ds) @ [d];
          c = c\<lparr>finished_data := Some ds\<rparr>;
          max_pending = milter_client_get_max_pending_finished_sessions klass c
      in if 0 < max_pending \<and> unat max_pending < length ds
         then Some (dispose_finished_data klass (dispose_finisher c))
         else if finisher_id c = 0
         then map_option (\<lambda>(tag, c). c\<lparr>finisher_id := tag\<rparr>)
                (in_event_loop (\<lambda>l. add_idle_full l (SINGLE_THREAD_FINISHER d)) c)
         else Some c)"

subsection \<open>Starting sessions\<close>

text \<open>The packet buffer size and the timeout a new context is given.\<close>

definition milter_client_create_context :: "'a milter_client_scheme \<Rightarrow> u32 \<times> u32" where
  "milter_client_create_context c = (client_packet_buffer_size c, client_timeout c)"

text \<open>\<open>started\<close>: whether \<open>milter_client_start_context\<close> works.\<close>

definition single_thread_client_channel_setup ::
    "'a milter_client_scheme client_class \<Rightarrow> bool \<Rightarrow> 'a milter_client_scheme \<Rightarrow>
     'a milter_client_scheme option" where
  "single_thread_client_channel_setup klass started c =
     (let d = next_process_data c;
          c = c\<lparr>next_process_data := d + 1, finished_handlers := d # finished_handlers c,
                processing_data := d # processing_data c\<rparr>
      in if started
         then Some (class_connection_established klass d (client_emit (Signal_connection_established d) c))
         else single_thread_cb_finished klass d (client_emit (Signal_session_error d) c))"

definition single_thread_process_client_channel ::
    "int \<Rightarrow> 'a milter_client_scheme \<Rightarrow> 'a milter_client_scheme option" where
  "single_thread_process_client_channel fd c =
     map_option snd
       (in_event_loop (\<lambda>l. add_idle_full l (SINGLE_THREAD_CB_IDLE_CLIENT_CHANNEL_SETUP fd)) c)"

subsection \<open>Shutting down\<close>

definition dispose_accept_watchers :: "'a milter_client_scheme \<Rightarrow> 'a milter_client_scheme" where
  "dispose_accept_watchers c =
     (let remove = (\<lambda>tag c. if accept_loop c \<noteq> None then accept_loop_remove tag c
                            else event_loop_remove tag c);
          c = (if 0 < accept_watch_id c
               then (remove (accept_watch_id c) c)\<lparr>accept_watch_id := 0\<rparr> else c)
      in if 0 < accept_error_watch_id c
         then (remove (accept_error_watch_id c) c)\<lparr>accept_error_watch_id := 0\<rparr> else c)"

definition milter_client_shutdown :: "'a milter_client_scheme \<Rightarrow> 'a milter_client_scheme" where
  "milter_client_shutdown c =
     (if quitting c then c
      else
        let c = change_accept_loop milter_event_loop_quit (c\<lparr>quitting := True\<rparr>);
            c = (dispose_accept_watchers c)\<lparr>workers_control := None, listening_channel := None\<rparr>
        in if n_processing_sessions c = 0 then change_event_loop milter_event_loop_quit c else c)"

subsection \<open>Accepting\<close>

datatype errno = EAGAIN | EMFILE | Other_errno

datatype accept_result = Accepted int | Not_accepted errno

text \<open>
  What the operating system answers during a call: to \<open>accept\<close>, to starting the session, to
  reading the master's pipe. \<open>world_others n\<close> is what other threads do to the client while
  the caller sleeps for the \<open>n\<close>th time; with a single thread it does nothing. A message that is
  logged does not change \<open>errno\<close>.
\<close>

record 's world =
  world_accept :: accept_result
  world_started :: bool
  world_control_eof :: bool
  world_others :: "nat \<Rightarrow> 's \<Rightarrow> 's"

partial_function (option) suspend_accepting ::
    "u32 \<Rightarrow> (nat \<Rightarrow> 'a milter_client_scheme \<Rightarrow> 'a milter_client_scheme) \<Rightarrow> nat \<Rightarrow>
     'a milter_client_scheme \<Rightarrow> 'a milter_client_scheme option" where
  "suspend_accepting max_connections others n c =
     (if 0 < max_connections \<and> max_connections \<le> n_processing_sessions c
      then suspend_accepting max_connections others (n + 1) (others n c)
      else Some c)"

definition accept_connection_fd ::
    "'a milter_client_scheme client_class \<Rightarrow> 'a milter_client_scheme world \<Rightarrow> 'a milter_client_scheme \<Rightarrow>
     (accept_result \<times> 'a milter_client_scheme) option" where
  "accept_connection_fd klass w c =
     (case suspend_accepting (milter_client_get_max_connections klass c) (world_others w) 0 c of
        None \<Rightarrow> None
      | Some c \<Rightarrow>
          Some (world_accept w,
            case world_accept w of
              Accepted _ \<Rightarrow> milter_client_session_started c
            | Not_accepted EAGAIN \<Rightarrow> c
            | Not_accepted _ \<Rightarrow> client_emit (Signal_error MILTER_CONNECTION_ERROR_ACCEPT_FAILURE) c))"

definition single_thread_single_loop_accept_watch_func ::
    "'a milter_client_scheme client_class \<Rightarrow> 'a milter_client_scheme world \<Rightarrow> 'a milter_client_scheme \<Rightarrow>
     (bool \<times> 'a milter_client_scheme) option" where
  "single_thread_single_loop_accept_watch_func klass w c =
     (case accept_connection_fd klass w c of
        None \<Rightarrow> None
      | Some (Accepted _, c) \<Rightarrow>
          map_option (Pair True) (single_thread_client_channel_setup klass (world_started w) c)
      | Some (Not_accepted _, c) \<Rightarrow> Some (True, c))"

definition single_thread_accept_watch_func ::
    "'a milter_client_scheme client_class \<Rightarrow> 'a milter_client_scheme world \<Rightarrow> 'a milter_client_scheme \<Rightarrow>
     (bool \<times> 'a milter_client_scheme) option" where
  "single_thread_accept_watch_func klass w c =
     (case accept_connection_fd klass w c of
        None \<Rightarrow> None
      | Some (Accepted fd, c) \<Rightarrow> map_option (Pair True) (single_thread_process_client_channel fd c)
      | Some (Not_accepted _, c) \<Rightarrow> Some (True, c))"

definition worker_accept_watch_func ::
    "'a milter_client_scheme client_class \<Rightarrow> 'a milter_client_scheme world \<Rightarrow> 'a milter_client_scheme \<Rightarrow>
     (bool \<times> 'a milter_client_scheme) option" where
  "worker_accept_watch_func klass w c =
     (case accept_connection_fd klass w c of
        None \<Rightarrow> None
      | Some (Accepted fd, c) \<Rightarrow> map_option (Pair True) (single_thread_process_client_channel fd c)
      | Some (Not_accepted e, c) \<Rightarrow> Some (e = EAGAIN, c))"

definition accept_error_watch_func :: "'a milter_client_scheme \<Rightarrow> bool \<times> 'a milter_client_scheme" where
  "accept_error_watch_func c =
     (False, milter_client_shutdown (client_emit (Signal_error MILTER_CLIENT_ERROR_IO_ERROR) c))"

definition worker_watch_master ::
    "'a milter_client_scheme world \<Rightarrow> 'a milter_client_scheme \<Rightarrow> bool \<times> 'a milter_client_scheme" where
  "worker_watch_master w c =
     (if world_control_eof w
      then (False, milter_client_shutdown (c\<lparr>listening_channel := None, listen_channel := None\<rparr>))
      else (True, c))"

subsection \<open>What the loops call\<close>

definition call_client_callback ::
    "'a milter_client_scheme client_class \<Rightarrow> 'a milter_client_scheme world \<Rightarrow> client_callback \<Rightarrow>
     'a milter_client_scheme \<Rightarrow> (bool \<times> 'a milter_client_scheme) option" where
  "call_client_callback klass w cb c =
     (case cb of
        SINGLE_THREAD_SINGLE_LOOP_ACCEPT_WATCH_FUNC \<Rightarrow> single_thread_single_loop_accept_watch_func klass w c
      | SINGLE_THREAD_ACCEPT_WATCH_FUNC \<Rightarrow> single_thread_accept_watch_func klass w c
      | WORKER_ACCEPT_WATCH_FUNC \<Rightarrow> worker_accept_watch_func klass w c
      | ACCEPT_ERROR_WATCH_FUNC \<Rightarrow> Some (accept_error_watch_func c)
      | WORKER_WATCH_MASTER \<Rightarrow> Some (worker_watch_master w c)
      | WATCH_WORKER_PROCESS \<Rightarrow> Some (False, c)
      | SINGLE_THREAD_FINISHER d \<Rightarrow> Some (single_thread_finisher klass c)
      | SINGLE_THREAD_CB_IDLE_CLIENT_CHANNEL_SETUP fd \<Rightarrow>
          map_option (Pair False) (single_thread_client_channel_setup klass (world_started w) c)
      | Subclass_callback \<Rightarrow> Some (class_callback klass c))"

definition loop_of :: "client_callback event_loop option \<Rightarrow> client_callback event_loop" where
  "loop_of l = (case l of Some l \<Rightarrow> l | None \<Rightarrow> milter_libev_event_loop_new)"

datatype 's client_event =
    Dispatch_event_loop u32 "'s world"
  | Dispatch_accept_loop u32 "'s world"
  | Session_finished nat
  | Shutdown_requested

definition client_step ::
    "'a milter_client_scheme client_class \<Rightarrow> 'a milter_client_scheme client_event \<Rightarrow>
     'a milter_client_scheme \<Rightarrow> 'a milter_client_scheme option" where
  "client_step klass ev c =
     (case ev of
        Dispatch_event_loop tag w \<Rightarrow>
          dispatch_watcher (call_client_callback klass w) (\<lambda>c. loop_of (event_loop c)) change_event_loop tag c
      | Dispatch_accept_loop tag w \<Rightarrow>
          dispatch_watcher (call_client_callback klass w) (\<lambda>c. loop_of (accept_loop c)) change_accept_loop tag c
      | Session_finished d \<Rightarrow>
          if d \<in> set (finished_handlers c) then single_thread_cb_finished klass d c else Some c
      | Shutdown_requested \<Rightarrow> Some (milter_client_shutdown c))"

text \<open>Inputs are consumed while the event loop runs.\<close>

definition client_is_running :: "'a milter_client_scheme \<Rightarrow> bool" where
  "client_is_running c \<longleftrightarrow> milter_event_loop_is_running (loop_of (event_loop c))"

fun client_loop ::
    "'a milter_client_scheme client_class \<Rightarrow> 'a milter_client_scheme client_event list \<Rightarrow>
     'a milter_client_scheme \<Rightarrow> 'a milter_client_scheme option" where
  "client_loop klass [] c = Some c"
| "client_loop klass (ev # evs) c =
     (if client_is_running c
      then (case client_step klass ev c of None \<Rightarrow> None | Some c \<Rightarrow> client_loop klass evs c)
      else Some c)"

text \<open>The \<open>depth++\<close> of \<open>milter_event_loop_run_without_custom\<close>.\<close>

definition enter_loop :: "client_callback event_loop \<Rightarrow> client_callback event_loop" where
  "enter_loop l = l\<lparr>loop_depth := loop_depth l + 1\<rparr>"

subsection \<open>Preparing and running\<close>

datatype client_watch_loop = Watch_event_loop | Watch_accept_loop

definition watch_listening_channel ::
    "client_watch_loop \<Rightarrow> io_condition set \<Rightarrow> client_callback \<Rightarrow> 'a milter_client_scheme \<Rightarrow>
     (u32 \<times> 'a milter_client_scheme) option" where
  "watch_listening_channel which conditions cb c =
     (let add = (\<lambda>l. watch_io_full l (case listening_channel c of Some fd \<Rightarrow> fd | None \<Rightarrow> -1) conditions cb)
      in case which of Watch_event_loop \<Rightarrow> in_event_loop add c | Watch_accept_loop \<Rightarrow> in_accept_loop add c)"

definition watch_accepting ::
    "client_watch_loop \<Rightarrow> client_callback \<Rightarrow> 'a milter_client_scheme \<Rightarrow> 'a milter_client_scheme option" where
  "watch_accepting which cb c =
     (case watch_listening_channel which {G_IO_IN, G_IO_PRI} cb c of
        None \<Rightarrow> None
      | Some (tag, c) \<Rightarrow>
          (case watch_listening_channel which error_conditions ACCEPT_ERROR_WATCH_FUNC
                  (c\<lparr>accept_watch_id := tag\<rparr>) of
             None \<Rightarrow> None
           | Some (tag, c) \<Rightarrow> Some (c\<lparr>accept_error_watch_id := tag\<rparr>)))"

text \<open>
  \<open>None\<close>: the call never returns. The error, if there is one, comes with the state it was
  found in; a memory fault when the address is parsed is a \<open>Fault\<close>.
\<close>

definition milter_client_prepare ::
    "'a milter_client_scheme client_class \<Rightarrow> client_system \<Rightarrow> client_watch_loop \<Rightarrow> client_callback \<Rightarrow>
     'a milter_client_scheme \<Rightarrow> (milter_client_error option \<times> 'a milter_client_scheme) result option" where
  "milter_client_prepare klass sys which accept_func c =
     (if listening_channel c \<noteq> None \<or> 0 < n_processing_sessions c
      then Some (Ok (Some MILTER_CLIENT_ERROR_RUNNING, c))
      else
        let c = c\<lparr>quitting := False\<rparr>
        in case (case listen_channel c of
                   Some fd \<Rightarrow> Ok (Inr fd, c)
                 | None \<Rightarrow> milter_client_listen_channel klass sys c) of
             Fault f \<Rightarrow> Some (Fault f)
           | Refused e \<Rightarrow> Some (Refused e)
           | Ok (Inl e, c) \<Rightarrow> Some (Ok (Some e, c))
           | Ok (Inr fd, c) \<Rightarrow>
               map_option (\<lambda>c. Ok (None, c)) (watch_accepting which accept_func (c\<lparr>listening_channel := Some fd\<rparr>)))"

definition single_thread_single_loop_run ::
    "'a milter_client_scheme client_class \<Rightarrow> client_system \<Rightarrow> 'a milter_client_scheme client_event list \<Rightarrow>
     'a milter_client_scheme \<Rightarrow> (milter_client_error option \<times> 'a milter_client_scheme) result option" where
  "single_thread_single_loop_run klass sys evs c =
     (case milter_client_prepare klass sys Watch_event_loop SINGLE_THREAD_SINGLE_LOOP_ACCEPT_WATCH_FUNC
             (milter_client_get_event_loop klass c) of
        Some (Ok (None, c)) \<Rightarrow> map_option (\<lambda>c. Ok (None, c)) (client_loop klass evs (change_event_loop enter_loop c))
      | r \<Rightarrow> r)"

definition run_worker ::
    "'a milter_client_scheme client_class \<Rightarrow> 'a milter_client_scheme client_event list \<Rightarrow>
     'a milter_client_scheme \<Rightarrow> (milter_client_error option \<times> 'a milter_client_scheme) option" where
  "run_worker klass evs c =
     (if listening_channel c \<noteq> None \<or> 0 < n_processing_sessions c
      then Some (Some MILTER_CLIENT_ERROR_RUNNING, c)
      else case listen_channel c of
        None \<Rightarrow> Some (Some MILTER_CLIENT_ERROR_NOT_LISTENED_YET, c)
      | Some fd \<Rightarrow>
          (case watch_accepting Watch_event_loop WORKER_ACCEPT_WATCH_FUNC
                  (milter_client_get_event_loop klass (c\<lparr>listening_channel := Some fd, quitting := False\<rparr>)) of
             None \<Rightarrow> None
           | Some c \<Rightarrow> map_option (Pair None) (client_loop klass evs (change_event_loop enter_loop c))))"

end
