(* ===== verification/Client_Sessions_Spec.thy ===== *)
theory Client_Sessions_Spec
  imports Client_Sessions
begin

text \<open>
  The sessions of a client: they are counted, their data is not used after it is freed, and a
  client that is shut down stops when the last one has ended. What the client relies on from a
  subclass is the locale \<open>client_methods\<close>.
\<close>

subsection \<open>What a subclass may do\<close>

text \<open>The watchers of a loop that are the client's own.\<close>

definition client_watchers :: "client_callback event_loop \<Rightarrow> u32 \<rightharpoonup> client_callback watcher" where
  "client_watchers l tag =
     (case loop_watchers l tag of
        Some w \<Rightarrow> if callback w = Subclass_callback then None else Some w
      | None \<Rightarrow> None)"

abbreviation own_watchers :: "'a milter_client_scheme \<Rightarrow> u32 \<rightharpoonup> client_callback watcher" where
  "own_watchers c \<equiv> client_watchers (loop_of (event_loop c))"

definition same_sessions :: "'a milter_client_scheme \<Rightarrow> 'a milter_client_scheme \<Rightarrow> bool" where
  "same_sessions c c' \<longleftrightarrow>
     processing_data c' = processing_data c \<and> finished_handlers c' = finished_handlers c \<and>
     next_process_data c' = next_process_data c \<and>
     n_processing_sessions c' = n_processing_sessions c \<and>
     n_processed_sessions c' = n_processed_sessions c \<and>
     quitting c' = quitting c \<and> finisher_id c' = finisher_id c \<and> finished_data c' = finished_data c \<and>
     accept_watch_id c' = accept_watch_id c \<and> accept_error_watch_id c' = accept_error_watch_id c \<and>
     accept_loop c' = accept_loop c \<and>
     (case event_loop c of
        None \<Rightarrow> True
      | Some l \<Rightarrow> (case event_loop c' of
            None \<Rightarrow> False
          | Some l' \<Rightarrow> loop_depth l' = loop_depth l \<and> client_watchers l' = client_watchers l))"

locale client_methods =
  fixes klass :: "'a milter_client_scheme client_class"
  assumes connection_established: "same_sessions c (class_connection_established klass d c)"
    and sessions_finished: "same_sessions c (class_sessions_finished klass n c)"
    and maintain: "same_sessions c (class_maintain klass c)"
    and callback: "same_sessions c (snd (class_callback klass c))"

subsection \<open>The invariant\<close>

definition finished_list :: "'a milter_client_scheme \<Rightarrow> nat list" where
  "finished_list c = (case finished_data c of None \<Rightarrow> [] | Some ds \<Rightarrow> ds)"

text \<open>
  The sessions whose data is allocated are those that still run, whose handler is connected,
  and those that wait to be freed.
\<close>

definition session_table :: "nat list \<Rightarrow> 'a milter_client_scheme \<Rightarrow> bool" where
  "session_table ds c \<longleftrightarrow>
     distinct (processing_data c) \<and> (\<forall>d \<in> set (processing_data c). d < next_process_data c) \<and>
     distinct (finished_handlers c) \<and> distinct ds \<and>
     set (processing_data c) = set (finished_handlers c) \<union> set ds \<and> set (finished_handlers c) \<inter> set ds = {} \<and>
     word_of_nat (next_process_data c) = n_processed_sessions c + word_of_nat (length (processing_data c))"

text \<open>
  A watcher that is being called is still registered, and removed when it returns: \<open>stale\<close> is
  that watcher, or 0.
\<close>

abbreviation own_but :: "u32 \<Rightarrow> 'a milter_client_scheme \<Rightarrow> u32 \<rightharpoonup> client_callback watcher" where
  "own_but stale c \<equiv> (own_watchers c)(stale := None)"

definition pending_setups :: "(u32 \<rightharpoonup> client_callback watcher) \<Rightarrow> u32 set" where
  "pending_setups W = {tag. \<exists>w fd. W tag = Some w \<and> callback w = SINGLE_THREAD_CB_IDLE_CLIENT_CHANNEL_SETUP fd}"

definition sessions :: "u32 \<Rightarrow> 'a milter_client_scheme \<Rightarrow> nat" where
  "sessions stale c = length (processing_data c) + card (pending_setups (own_but stale c))"

definition depth_ok :: "'a milter_client_scheme \<Rightarrow> bool" where
  "depth_ok c \<longleftrightarrow>
     event_loop c \<noteq> None \<and>
     loop_depth (loop_of (event_loop c)) = (if quitting c \<and> n_processing_sessions c = 0 then 0 else 1)"

definition is_accept_func :: "client_callback \<Rightarrow> bool" where
  "is_accept_func cb \<longleftrightarrow>
     cb \<in> {SINGLE_THREAD_SINGLE_LOOP_ACCEPT_WATCH_FUNC, SINGLE_THREAD_ACCEPT_WATCH_FUNC, WORKER_ACCEPT_WATCH_FUNC}"

text \<open>\<open>registered P W tag\<close>: the watcher of \<open>tag\<close>, if it is not 0, and no other, has a callback in \<open>P\<close>.\<close>

definition registered ::
    "(client_callback \<Rightarrow> bool) \<Rightarrow> (u32 \<rightharpoonup> client_callback watcher) \<Rightarrow> u32 \<Rightarrow> bool" where
  "registered P W tag \<longleftrightarrow>
     (\<forall>tag' w. W tag' = Some w \<and> P (callback w) \<longrightarrow> tag' = tag) \<and>
     (tag \<noteq> 0 \<longrightarrow> (\<exists>w. W tag = Some w \<and> P (callback w)))"

definition is_finisher :: "client_callback \<Rightarrow> bool" where
  "is_finisher cb \<longleftrightarrow> (\<exists>d. cb = SINGLE_THREAD_FINISHER d)"

definition watchers_base :: "u32 \<Rightarrow> 'a milter_client_scheme \<Rightarrow> bool" where
  "watchers_base stale c \<longleftrightarrow>
     accept_loop c = None \<and> own_watchers c 0 = None \<and>
     registered is_accept_func (own_but stale c) (accept_watch_id c) \<and>
     registered (\<lambda>cb. cb = ACCEPT_ERROR_WATCH_FUNC) (own_but stale c) (accept_error_watch_id c) \<and>
     registered is_finisher (own_but stale c) (finisher_id c) \<and>
     (quitting c \<longrightarrow> accept_watch_id c = 0 \<and> accept_error_watch_id c = 0)"

text \<open>The finisher is registered exactly when sessions wait for it, and its data is one of theirs.\<close>

definition watchers_ok :: "u32 \<Rightarrow> 'a milter_client_scheme \<Rightarrow> bool" where
  "watchers_ok stale c \<longleftrightarrow>
     watchers_base stale c \<and> (finisher_id c = 0 \<longleftrightarrow> finished_data c = None) \<and>
     (\<forall>tag w d. own_but stale c tag = Some w \<and> callback w = SINGLE_THREAD_FINISHER d \<longrightarrow>
        d \<in> set (finished_list c))"

definition client_ok_but :: "u32 \<Rightarrow> 'a milter_client_scheme \<Rightarrow> bool" where
  "client_ok_but stale c \<longleftrightarrow>
     session_table (finished_list c) c \<and> n_processing_sessions c = word_of_nat (sessions stale c) \<and>
     sessions stale c < 2 ^ 32 \<and> depth_ok c \<and> watchers_ok stale c"

abbreviation client_ok :: "'a milter_client_scheme \<Rightarrow> bool" where
  "client_ok \<equiv> client_ok_but 0"

subsection \<open>Watchers\<close>

lemma client_watchers_add:
  assumes "add_watcher l w = Some (tag, l')" and "callback w \<noteq> Subclass_callback"
  shows "client_watchers l' = (client_watchers l)(tag \<mapsto> w)" and "tag \<noteq> 0" and "client_watchers l tag = None"
    and "loop_depth l' = loop_depth l"
  using libev.add_new [OF assms(1)] assms(2) add_watcher_frame [OF assms(1)]
  by (auto simp: client_watchers_def fun_eq_iff)

lemma client_watchers_remove [simp]:
  "client_watchers (snd (remove_watcher l tag)) = (client_watchers l)(tag := None)"
  by (auto simp: client_watchers_def remove_watcher_def fun_eq_iff)

lemma client_watchers_depth [simp]: "client_watchers (l\<lparr>loop_depth := n\<rparr>) = client_watchers l"
  by (simp add: client_watchers_def fun_eq_iff)

lemma client_watchers_quit [simp]: "client_watchers (milter_event_loop_quit l) = client_watchers l"
  by (simp add: milter_event_loop_quit_def)

lemma client_watchers_new [simp]: "client_watchers milter_libev_event_loop_new = Map.empty"
  by (simp add: client_watchers_def milter_libev_event_loop_new_def fun_eq_iff)

lemma registered_add_other:
  "registered P W t \<Longrightarrow> W tag = None \<Longrightarrow> \<not> P (callback w) \<Longrightarrow> registered P (W(tag \<mapsto> w)) t"
  by (auto simp: registered_def)

lemma registered_add:
  "registered P W 0 \<Longrightarrow> W 0 = None \<Longrightarrow> tag \<noteq> 0 \<Longrightarrow> P (callback w) \<Longrightarrow> registered P (W(tag \<mapsto> w)) tag"
  by (auto simp: registered_def) 

lemma registered_remove: "registered P W t \<Longrightarrow> registered P (W(t := None)) 0"
  by (auto simp: registered_def)

lemma registered_remove_other:
  "registered P W t \<Longrightarrow> (\<And>w. W tag = Some w \<Longrightarrow> \<not> P (callback w)) \<Longrightarrow> registered P (W(tag := None)) t"
  by (fastforce simp: registered_def)

lemma registered_remove_zero: "registered P W 0 \<Longrightarrow> registered P (W(tag := None)) 0"
  by (auto simp: registered_def)

lemma pending_setups_add:
  "W tag = None \<Longrightarrow> card (pending_setups (W(tag \<mapsto> w))) = card (pending_setups W) +
     (case callback w of SINGLE_THREAD_CB_IDLE_CLIENT_CHANNEL_SETUP _ \<Rightarrow> 1 | _ \<Rightarrow> 0)"
proof -
  assume none: "W tag = None"
  have "pending_setups (W(tag \<mapsto> w)) =
      (case callback w of SINGLE_THREAD_CB_IDLE_CLIENT_CHANNEL_SETUP _ \<Rightarrow> insert tag (pending_setups W)
       | _ \<Rightarrow> pending_setups W)"
    using none by (auto simp: pending_setups_def split: client_callback.splits)
  moreover have "tag \<notin> pending_setups W" using none by (simp add: pending_setups_def)
  ultimately show ?thesis by (simp split: client_callback.splits)
qed

lemma pending_setups_remove:
  "card (pending_setups W) = card (pending_setups (W(tag := None))) +
     (case W tag of None \<Rightarrow> 0
      | Some w \<Rightarrow> (case callback w of SINGLE_THREAD_CB_IDLE_CLIENT_CHANNEL_SETUP _ \<Rightarrow> 1 | _ \<Rightarrow> 0))"
proof (cases "W tag")
  case None
  then show ?thesis by (simp add: fun_upd_idem)
next
  case (Some w)
  have "W = (W(tag := None))(tag \<mapsto> w)" using Some by auto
  then show ?thesis using Some pending_setups_add [of "W(tag := None)" tag w] by simp
qed

lemma pending_setups_remove_other:
  "(\<And>w fd. W tag = Some w \<Longrightarrow> callback w \<noteq> SINGLE_THREAD_CB_IDLE_CLIENT_CHANNEL_SETUP fd) \<Longrightarrow>
   card (pending_setups (W(tag := None))) = card (pending_setups W)"
  using pending_setups_remove [of W tag] by (auto split: option.splits client_callback.splits)

subsection \<open>Fields\<close>

lemmas session_fields = client_emit_def change_event_loop_def milter_client_session_started_def
  milter_client_session_finished_def dispose_process_data_finished_handler_def

lemma loop_of_Some [simp]: "loop_of (Some l) = l"
  by (simp add: loop_of_def)

lemma same_sessions_refl [simp]: "same_sessions c c"
  by (simp add: same_sessions_def split: option.splits)

text \<open>The invariant looks at nothing a subclass may change.\<close>

lemma same_sessions_own:
  "same_sessions c c' \<Longrightarrow> event_loop c \<noteq> None \<Longrightarrow>
     event_loop c' \<noteq> None \<and> own_watchers c' = own_watchers c \<and>
     loop_depth (loop_of (event_loop c')) = loop_depth (loop_of (event_loop c))"
  by (auto simp: same_sessions_def split: option.splits)

lemma same_sessions_ok:
  assumes "same_sessions c c'" and "client_ok_but stale c"
  shows "client_ok_but stale c'" and "sessions stale c' = sessions stale c" and "own_watchers c' = own_watchers c"
proof -
  have loop: "event_loop c \<noteq> None" using assms(2) by (auto simp: client_ok_but_def depth_ok_def)
  from same_sessions_own [OF assms(1) loop]
  show own: "own_watchers c' = own_watchers c" by simp
  from same_sessions_own [OF assms(1) loop] loop
  have depth: "\<exists>l l'. event_loop c' = Some l' \<and> event_loop c = Some l \<and> loop_depth l' = loop_depth l" by auto
  from assms(1) own show s: "sessions stale c' = sessions stale c" by (simp add: same_sessions_def sessions_def)
  have fields: "processing_data c' = processing_data c" "finished_handlers c' = finished_handlers c"
    "next_process_data c' = next_process_data c" "n_processing_sessions c' = n_processing_sessions c"
    "n_processed_sessions c' = n_processed_sessions c"
    "quitting c' = quitting c" "finisher_id c' = finisher_id c" "finished_data c' = finished_data c"
    "accept_watch_id c' = accept_watch_id c" "accept_error_watch_id c' = accept_error_watch_id c"
    "accept_loop c' = accept_loop c"
    using assms(1) by (simp_all add: same_sessions_def)
  have "depth_ok c'" using depth assms(2) fields by (auto simp: client_ok_but_def depth_ok_def)
  moreover have "watchers_ok stale c'" using assms(2) fields own
    by (simp add: client_ok_but_def watchers_ok_def watchers_base_def finished_list_def)
  ultimately show "client_ok_but stale c'" using assms(2) fields s
    by (simp add: client_ok_but_def session_table_def finished_list_def)
qed

lemma same_sessions_emit [simp]: "same_sessions c (client_emit x c)"
  by (auto simp: same_sessions_def client_emit_def split: option.splits)

lemma same_sessions_trans: "same_sessions a b \<Longrightarrow> same_sessions b c \<Longrightarrow> same_sessions a c"
  by (auto simp: same_sessions_def split: option.splits)

subsection \<open>Ending sessions\<close>

lemma word_pred_zero:
  assumes "(n :: u32) = word_of_nat k" and "0 < k" and "k < 2 ^ 32"
  shows "n - 1 = word_of_nat (k - 1)" and "n - 1 = 0 \<longleftrightarrow> k = 1" and "n \<noteq> 0"
proof -
  have unat: "unat (word_of_nat j :: u32) = j" if "j \<le> k" for j
    using that assms(3) by (simp add: unat_of_nat)
  show "n - 1 = word_of_nat (k - 1)" using assms by (simp add: of_nat_diff)
  then have "unat (n - 1) = k - 1" using unat [of "k - 1"] by simp
  then show "n - 1 = 0 \<longleftrightarrow> k = 1" using assms(2) unat_eq_zero [of "n - 1"] by linarith
  show "n \<noteq> 0" using unat [of k] assms by auto
qed

lemma finish_processing_eq:
  "finish_processing d c =
     c\<lparr>processing_data := remove1 d (processing_data c),
       n_processing_sessions := n_processing_sessions c - 1,
       n_processed_sessions := n_processed_sessions c + 1,
       event_loop := (if quitting c \<and> n_processing_sessions c - 1 = 0
                      then map_option milter_event_loop_quit (event_loop c) else event_loop c),
       finished_handlers := remove1 d (finished_handlers c)\<rparr>"
  by (cases c; cases "event_loop c") (simp_all add: finish_processing_def session_fields Let_def)

lemma finish_processing_frame [simp]:
  "own_watchers (finish_processing d c) = own_watchers c"
  "accept_watch_id (finish_processing d c) = accept_watch_id c"
  "accept_error_watch_id (finish_processing d c) = accept_error_watch_id c"
  "accept_loop (finish_processing d c) = accept_loop c"
  "finisher_id (finish_processing d c) = finisher_id c"
  "finished_data (finish_processing d c) = finished_data c"
  "quitting (finish_processing d c) = quitting c"
  "next_process_data (finish_processing d c) = next_process_data c"
  "client_signals (finish_processing d c) = client_signals c"
  "n_processed_sessions (finish_processing d c) = n_processed_sessions c + 1"
  "processing_data (finish_processing d c) = remove1 d (processing_data c)"
  "finished_handlers (finish_processing d c) = remove1 d (finished_handlers c)"
  "n_processing_sessions (finish_processing d c) = n_processing_sessions c - 1"
  by (simp_all add: finish_processing_eq loop_of_def split: option.split)

text \<open>What holds of the sessions while those in \<open>ds\<close> are freed one after the other.\<close>

definition freeing :: "u32 \<Rightarrow> nat list \<Rightarrow> 'a milter_client_scheme \<Rightarrow> bool" where
  "freeing stale ds c \<longleftrightarrow>
     session_table ds c \<and> n_processing_sessions c = word_of_nat (sessions stale c) \<and>
     sessions stale c < 2 ^ 32 \<and> depth_ok c"

lemma finish_processing_freeing:
  assumes "freeing stale (d # ds) c"
  shows "freeing stale ds (finish_processing d c)"
    and "sessions stale (finish_processing d c) + 1 = sessions stale c"
proof -
  have d: "d \<in> set (processing_data c)" and "distinct (processing_data c)" and "d \<notin> set (finished_handlers c)"
    using assms by (auto simp: freeing_def session_table_def)
  then have len: "length (remove1 d (processing_data c)) + 1 = length (processing_data c)"
    by (simp add: length_remove1) (metis Suc_pred length_pos_if_in_set)
  then show s: "sessions stale (finish_processing d c) + 1 = sessions stale c" by (simp add: sessions_def)
  then have s1: "sessions stale c - 1 = sessions stale (finish_processing d c)" by simp
  have n: "n_processing_sessions c = word_of_nat (sessions stale c)" "0 < sessions stale c"
    "sessions stale c < 2 ^ 32"
    using assms s by (auto simp: freeing_def)
  note pred = word_pred_zero [OF n]
  have table: "session_table ds (finish_processing d c)"
    using assms len [symmetric] by (auto simp: freeing_def session_table_def remove1_idem)
  obtain l where l: "event_loop c = Some l" "loop_depth l = 1"
    using assms pred(3) by (auto simp: freeing_def depth_ok_def)
  have "depth_ok (finish_processing d c)"
    unfolding depth_ok_def
    using l pred by (simp add: finish_processing_eq milter_event_loop_quit_def)
  with table s n pred(1) [unfolded s1] show "freeing stale ds (finish_processing d c)"
    by (simp add: freeing_def)
qed

lemma fold_finish_freeing:
  "freeing stale ds c \<Longrightarrow> freeing stale [] (fold finish_processing ds c) \<and>
     sessions stale (fold finish_processing ds c) + length ds = sessions stale c"
  by (induction ds arbitrary: c) (use finish_processing_freeing in \<open>fastforce+\<close>)

lemma fold_finish_frame:
  "own_watchers (fold finish_processing ds c) = own_watchers c \<and>
   accept_watch_id (fold finish_processing ds c) = accept_watch_id c \<and>
   accept_error_watch_id (fold finish_processing ds c) = accept_error_watch_id c \<and>
   accept_loop (fold finish_processing ds c) = accept_loop c \<and>
   finisher_id (fold finish_processing ds c) = finisher_id c \<and>
   quitting (fold finish_processing ds c) = quitting c \<and>
   next_process_data (fold finish_processing ds c) = next_process_data c \<and>
   n_processed_sessions (fold finish_processing ds c) = n_processed_sessions c + word_of_nat (length ds)"
  by (induction ds arbitrary: c) (simp_all add: algebra_simps)

text \<open>A state whose finished sessions are about to be freed, the finisher being gone.\<close>

definition to_be_freed :: "u32 \<Rightarrow> 'a milter_client_scheme \<Rightarrow> bool" where
  "to_be_freed stale c \<longleftrightarrow> freeing stale (finished_list c) c \<and> finisher_id c = 0 \<and> watchers_base stale c"

lemma registered_zero: "registered P W 0 \<Longrightarrow> W 0 = None \<Longrightarrow> W tag = Some w \<Longrightarrow> \<not> P (callback w)"
  by (auto simp: registered_def)

definition free_finished :: "'a milter_client_scheme \<Rightarrow> 'a milter_client_scheme" where
  "free_finished c = (fold finish_processing (finished_list c) c)\<lparr>finished_data := None\<rparr>"

lemma free_finished_ok:
  assumes "to_be_freed stale c"
  shows "client_ok_but stale (free_finished c)" and "own_watchers (free_finished c) = own_watchers c"
    and "sessions stale (free_finished c) + length (finished_list c) = sessions stale c"
proof -
  let ?c = "fold finish_processing (finished_list c) c"
  note frame = fold_finish_frame [of "finished_list c" c]
  have freed: "freeing stale [] ?c" "sessions stale ?c + length (finished_list c) = sessions stale c"
    using fold_finish_freeing assms by (auto simp: to_be_freed_def)
  show own: "own_watchers (free_finished c) = own_watchers c"
    using frame by (simp add: free_finished_def)
  show "sessions stale (free_finished c) + length (finished_list c) = sessions stale c"
    using freed(2) by (simp add: sessions_def free_finished_def)
  have "watchers_ok stale (free_finished c)"
  proof -
    have "\<not> is_finisher (callback w)" if "own_but stale c tag = Some w" for tag w
    proof (rule registered_zero [where W = "own_but stale c"])
      show "registered is_finisher (own_but stale c) 0" "own_but stale c 0 = None"
        using assms by (auto simp: to_be_freed_def watchers_base_def)
    qed (fact that)
    then have "\<forall>tag w d. own_but stale c tag = Some w \<and> callback w = SINGLE_THREAD_FINISHER d \<longrightarrow> False"
      unfolding is_finisher_def by blast
    with assms own frame show ?thesis
      by (simp add: watchers_ok_def watchers_base_def to_be_freed_def free_finished_def) (metis (full_types))
  qed
  moreover have "session_table [] (free_finished c)" "depth_ok (free_finished c)"
    using freed(1) by (simp_all add: freeing_def free_finished_def session_table_def depth_ok_def)
  ultimately show "client_ok_but stale (free_finished c)" using freed(1)
    by (simp add: client_ok_but_def freeing_def free_finished_def finished_list_def sessions_def)
qed

text \<open>The session \<open>d\<close> has ended and waits to be freed.\<close>

definition ended :: "nat \<Rightarrow> 'a milter_client_scheme \<Rightarrow> 'a milter_client_scheme" where
  "ended d c = (dispose_process_data_finished_handler d c)\<lparr>finished_data := Some (finished_list c @ [d])\<rparr>"

lemma ended_fields [simp]:
  "n_processed_sessions (ended d c) = n_processed_sessions c"
  "processing_data (ended d c) = processing_data c" "next_process_data (ended d c) = next_process_data c"
  "n_processing_sessions (ended d c) = n_processing_sessions c" "quitting (ended d c) = quitting c"
  "event_loop (ended d c) = event_loop c" "accept_loop (ended d c) = accept_loop c"
  "accept_watch_id (ended d c) = accept_watch_id c" "finisher_id (ended d c) = finisher_id c"
  "accept_error_watch_id (ended d c) = accept_error_watch_id c"
  "finished_data (ended d c) = Some (finished_list c @ [d])"
  "finished_list (ended d c) = finished_list c @ [d]"
  "finished_handlers (ended d c) = remove1 d (finished_handlers c)"
  by (simp_all add: ended_def dispose_process_data_finished_handler_def finished_list_def)

lemma ended_sessions [simp]: "sessions stale (ended d c) = sessions stale c"
  by (simp add: sessions_def)

lemma ended_freeing:
  assumes "client_ok_but stale c" and "d \<in> set (finished_handlers c)"
  shows "freeing stale (finished_list (ended d c)) (ended d c)"
  using assms by (auto simp: freeing_def client_ok_but_def session_table_def depth_ok_def)

definition stale_ok :: "u32 \<Rightarrow> 'a milter_client_scheme \<Rightarrow> bool" where
  "stale_ok stale c \<longleftrightarrow> stale = 0 \<or> own_watchers c stale \<noteq> None"

lemma registered_not_stale: "registered P (own_but stale c) tag \<Longrightarrow> tag \<noteq> 0 \<Longrightarrow> tag \<noteq> stale"
  by (cases "tag = stale") (simp_all add: registered_def)

lemma dispose_finisher_eq:
  "dispose_finisher c =
     c\<lparr>event_loop := (if finisher_id c = 0 then event_loop c
                      else map_option (\<lambda>l. snd (remove_watcher l (finisher_id c))) (event_loop c)),
       finisher_id := 0\<rparr>"
  by (cases c) (simp add: dispose_finisher_def event_loop_remove_def change_event_loop_def word_gt_0)

lemma dispose_finisher_fields [simp]:
  "processing_data (dispose_finisher c) = processing_data c"
  "next_process_data (dispose_finisher c) = next_process_data c"
  "n_processed_sessions (dispose_finisher c) = n_processed_sessions c"
  "n_processing_sessions (dispose_finisher c) = n_processing_sessions c"
  "quitting (dispose_finisher c) = quitting c" "accept_loop (dispose_finisher c) = accept_loop c"
  "accept_watch_id (dispose_finisher c) = accept_watch_id c" "finisher_id (dispose_finisher c) = 0"
  "accept_error_watch_id (dispose_finisher c) = accept_error_watch_id c"
  "finished_data (dispose_finisher c) = finished_data c"
  "finished_handlers (dispose_finisher c) = finished_handlers c"
  "event_loop (dispose_finisher c) = None \<longleftrightarrow> event_loop c = None"
  "loop_depth (loop_of (event_loop (dispose_finisher c))) = loop_depth (loop_of (event_loop c))"
  by (cases "event_loop c"; simp add: dispose_finisher_eq loop_of_def)+

lemma dispose_finisher_own:
  "own_watchers (dispose_finisher c) =
     (if finisher_id c = 0 then own_watchers c else (own_watchers c)(finisher_id c := None))"
  by (cases "event_loop c") (simp_all add: dispose_finisher_eq loop_of_def)

lemma is_finisher_simps [simp]:
  "is_finisher (SINGLE_THREAD_FINISHER d)" "\<not> is_finisher ACCEPT_ERROR_WATCH_FUNC"
  "\<not> is_finisher (SINGLE_THREAD_CB_IDLE_CLIENT_CHANNEL_SETUP fd)"
  "\<not> is_accept_func (SINGLE_THREAD_FINISHER d)" "\<not> is_accept_func ACCEPT_ERROR_WATCH_FUNC"
  "\<not> is_accept_func (SINGLE_THREAD_CB_IDLE_CLIENT_CHANNEL_SETUP fd)"
  by (simp_all add: is_finisher_def is_accept_func_def)

lemma is_finisher_not:
  "is_finisher cb \<Longrightarrow> \<not> is_accept_func cb \<and> cb \<noteq> ACCEPT_ERROR_WATCH_FUNC \<and>
     cb \<noteq> SINGLE_THREAD_CB_IDLE_CLIENT_CHANNEL_SETUP fd"
  by (auto simp: is_finisher_def is_accept_func_def)

lemma dispose_finisher_to_be_freed:
  assumes ok: "watchers_base stale c" and free: "freeing stale (finished_list c) c"
  shows "to_be_freed stale (dispose_finisher c)" and "stale_ok stale c \<Longrightarrow> stale_ok stale (dispose_finisher c)"
    and "sessions stale (dispose_finisher c) = sessions stale c"
proof -
  let ?f = "finisher_id c"
  have reg: "registered is_finisher (own_but stale c) ?f" using ok by (simp add: watchers_base_def)
  have fin: "\<And>w. own_but stale c ?f = Some w \<Longrightarrow> is_finisher (callback w)" if "?f \<noteq> 0"
    using reg that by (auto simp: registered_def)
  have own: "own_but stale (dispose_finisher c) = (if ?f = 0 then own_but stale c else (own_but stale c)(?f := None))"
    by (auto simp: dispose_finisher_own)
  have card: "card (pending_setups (own_but stale (dispose_finisher c))) = card (pending_setups (own_but stale c))"
    unfolding own using fin is_finisher_not by (auto intro!: pending_setups_remove_other)
  then show s: "sessions stale (dispose_finisher c) = sessions stale c" by (simp add: sessions_def)
  show "stale_ok stale c \<Longrightarrow> stale_ok stale (dispose_finisher c)"
    using registered_not_stale [OF reg] by (auto simp: stale_ok_def dispose_finisher_own)
  have "freeing stale (finished_list c) (dispose_finisher c)"
    using free by (simp add: freeing_def s session_table_def depth_ok_def)
  moreover have "registered is_accept_func (own_but stale (dispose_finisher c)) (accept_watch_id c)"
    "registered (\<lambda>cb. cb = ACCEPT_ERROR_WATCH_FUNC) (own_but stale (dispose_finisher c)) (accept_error_watch_id c)"
    unfolding own using ok fin is_finisher_not
    by (auto simp: watchers_base_def intro!: registered_remove_other)
  moreover have "registered is_finisher (own_but stale (dispose_finisher c)) 0"
    unfolding own using reg registered_remove [OF reg] by auto
  ultimately show "to_be_freed stale (dispose_finisher c)"
    using ok by (simp add: to_be_freed_def watchers_base_def finished_list_def dispose_finisher_own)
qed

text \<open>A watcher of the client's own is added.\<close>

lemma in_event_loop_add:
  assumes "in_event_loop (\<lambda>l. add_watcher l w) c = Some (tag, c')" and "event_loop c \<noteq> None"
    and "callback w \<noteq> Subclass_callback" and "stale_ok stale c"
  obtains l where "c' = c\<lparr>event_loop := Some l\<rparr>" and "own_watchers c' = (own_watchers c)(tag \<mapsto> w)"
    and "tag \<noteq> 0" and "own_watchers c tag = None" and "own_but stale c' = (own_but stale c)(tag \<mapsto> w)"
    and "loop_depth l = loop_depth (loop_of (event_loop c))" and "stale_ok stale c'"
proof -
  from assms(1,2) obtain l0 l where l: "event_loop c = Some l0" "add_watcher l0 w = Some (tag, l)"
    "c' = c\<lparr>event_loop := Some l\<rparr>"
    by (auto simp: in_event_loop_def)
  note add = client_watchers_add [OF l(2) assms(3)]
  have "tag \<noteq> stale" using add(2,3) assms(4) l(1) by (auto simp: stale_ok_def)
  with l add assms(4) show ?thesis by (intro that [of l]) (auto simp: stale_ok_def fun_upd_twist)
qed

lemma finished_list_nonempty: "finished_list c = [] \<Longrightarrow> finished_data c \<noteq> None \<Longrightarrow> finished_data c = Some []"
  by (auto simp: finished_list_def)

text \<open>The finisher is registered for a first session that has ended.\<close>

lemma finisher_added:
  assumes ok: "client_ok_but stale c" and d: "d \<in> set (finished_handlers c)" and stale: "stale_ok stale c"
    and no: "finisher_id c = 0"
    and add: "in_event_loop (\<lambda>l. add_idle_full l (SINGLE_THREAD_FINISHER d)) (ended d c) = Some (tag, c')"
  shows "client_ok_but stale (c'\<lparr>finisher_id := tag\<rparr>)" and "stale_ok stale (c'\<lparr>finisher_id := tag\<rparr>)"
    and "sessions stale (c'\<lparr>finisher_id := tag\<rparr>) = sessions stale c"
proof -
  let ?w = "Idle_watcher (SINGLE_THREAD_FINISHER d)" and ?c = "c'\<lparr>finisher_id := tag\<rparr>"
  have "event_loop (ended d c) \<noteq> None" using ok by (simp add: client_ok_but_def depth_ok_def)
  moreover have "stale_ok stale (ended d c)" using stale by (simp add: stale_ok_def)
  ultimately obtain l where l: "c' = (ended d c)\<lparr>event_loop := Some l\<rparr>"
    "own_watchers c' = (own_watchers c)(tag \<mapsto> ?w)" "tag \<noteq> 0" "own_watchers c tag = None"
    "own_but stale c' = (own_but stale c)(tag \<mapsto> ?w)" "loop_depth l = loop_depth (loop_of (event_loop c))"
    "stale_ok stale c'"
    using in_event_loop_add [of ?w "ended d c" tag c' stale] add unfolding add_idle_full_def by force
  have own: "own_but stale ?c = (own_but stale c)(tag \<mapsto> ?w)" using l(5) by simp
  have free: "own_but stale c tag = None" using l(4) by simp
  show s: "sessions stale ?c = sessions stale c"
    unfolding sessions_def own using pending_setups_add [of "own_but stale c" tag ?w] l by simp
  show "stale_ok stale ?c" using l(7) by (simp add: stale_ok_def)
  have base: "watchers_base stale c" using ok by (simp add: client_ok_but_def watchers_ok_def)
  have none: "registered is_finisher (own_but stale c) 0" using base no by (simp add: watchers_base_def)
  have zero: "own_but stale c 0 = None" using base by (simp add: watchers_base_def)
  have ids: "finisher_id ?c = tag" "accept_watch_id ?c = accept_watch_id c"
    "accept_error_watch_id ?c = accept_error_watch_id c" "finished_list ?c = finished_list c @ [d]"
    using l(1) by (simp_all add: finished_list_def)
  have reg: "registered is_finisher (own_but stale ?c) (finisher_id ?c)"
    unfolding own ids by (rule registered_add [OF none zero l(3)]) simp
  have acc: "registered is_accept_func (own_but stale ?c) (accept_watch_id ?c)"
    unfolding own ids by (rule registered_add_other) (use base free in \<open>simp_all add: watchers_base_def\<close>)
  have err: "registered (\<lambda>cb. cb = ACCEPT_ERROR_WATCH_FUNC) (own_but stale ?c) (accept_error_watch_id ?c)"
    unfolding own ids by (rule registered_add_other) (use base free in \<open>simp_all add: watchers_base_def\<close>)
  have "watchers_base stale ?c"
    using reg acc err base l by (simp add: watchers_base_def)
  moreover have "\<forall>t w' d'. own_but stale ?c t = Some w' \<and> callback w' = SINGLE_THREAD_FINISHER d' \<longrightarrow>
      d' \<in> set (finished_list ?c)"
  proof (intro allI impI)
    fix t w' d'
    assume a: "own_but stale ?c t = Some w' \<and> callback w' = SINGLE_THREAD_FINISHER d'"
    then have "t = tag" using reg by (auto simp: registered_def is_finisher_def)
    with a own have "w' = ?w" by (metis fun_upd_same option.inject)
    with a show "d' \<in> set (finished_list ?c)" by (simp add: ids)
  qed
  ultimately have "watchers_ok stale ?c"
    using l(1,3) by (simp add: watchers_ok_def)
  moreover have "session_table (finished_list ?c) ?c" "n_processing_sessions ?c = word_of_nat (sessions stale c)"
    "sessions stale c < 2 ^ 32" "depth_ok ?c"
    using ended_freeing [OF ok d] l by (auto simp: freeing_def session_table_def depth_ok_def finished_list_def)
  ultimately show "client_ok_but stale ?c" by (simp add: client_ok_but_def s)
qed

text \<open>Another session ends while the finisher is registered.\<close>

lemma ended_ok:
  assumes ok: "client_ok_but stale c" and d: "d \<in> set (finished_handlers c)" and some: "finisher_id c \<noteq> 0"
  shows "client_ok_but stale (ended d c)"
  using ended_freeing [OF ok d] ok some
  by (auto simp: client_ok_but_def freeing_def watchers_ok_def watchers_base_def)

text \<open>A session is counted before its data is made; the invariant is one session short.\<close>

definition one_more :: "u32 \<Rightarrow> 'a milter_client_scheme \<Rightarrow> bool" where
  "one_more stale c \<longleftrightarrow>
     session_table (finished_list c) c \<and> n_processing_sessions c = word_of_nat (sessions stale c + 1) \<and>
     sessions stale c + 1 < 2 ^ 32 \<and> depth_ok c \<and> watchers_ok stale c"

lemma started_one_more:
  assumes ok: "client_ok_but stale c" and "sessions stale c + 1 < 2 ^ 32" and "\<not> quitting c"
  shows "one_more stale (milter_client_session_started c)"
proof -
  let ?c = "milter_client_session_started c"
  have s: "sessions stale ?c = sessions stale c"
    by (simp add: sessions_def milter_client_session_started_def)
  have "session_table (finished_list ?c) ?c" "depth_ok ?c" "watchers_ok stale ?c"
    using ok assms(3)
    by (simp_all add: client_ok_but_def milter_client_session_started_def session_table_def depth_ok_def
        watchers_ok_def watchers_base_def finished_list_def)
  moreover have "n_processing_sessions ?c = word_of_nat (sessions stale ?c + 1)"
    using ok unfolding s by (simp add: client_ok_but_def milter_client_session_started_def)
  ultimately show ?thesis using assms(2) s by (simp add: one_more_def)
qed

definition with_new_data :: "'a milter_client_scheme \<Rightarrow> 'a milter_client_scheme" where
  "with_new_data c =
     c\<lparr>next_process_data := next_process_data c + 1,
       finished_handlers := next_process_data c # finished_handlers c,
       processing_data := next_process_data c # processing_data c\<rparr>"

lemma with_new_data_ok:
  assumes "one_more stale c"
  shows "client_ok_but stale (with_new_data c)" and "sessions stale (with_new_data c) = sessions stale c + 1"
    and "next_process_data c \<in> set (finished_handlers (with_new_data c))"
    and "own_watchers (with_new_data c) = own_watchers c"
proof -
  show s: "sessions stale (with_new_data c) = sessions stale c + 1" by (simp add: sessions_def with_new_data_def)
  show "next_process_data c \<in> set (finished_handlers (with_new_data c))"
    "own_watchers (with_new_data c) = own_watchers c" by (simp_all add: with_new_data_def)
  have table: "session_table (finished_list c) c" using assms by (simp add: one_more_def)
  have fresh: "next_process_data c \<notin> set (processing_data c)" using table by (auto simp: session_table_def)
  then have "next_process_data c \<notin> set (finished_handlers c)" "next_process_data c \<notin> set (finished_list c)"
    using table by (auto simp: session_table_def)
  moreover have "finished_list (with_new_data c) = finished_list c"
    by (simp add: with_new_data_def finished_list_def)
  ultimately have "session_table (finished_list (with_new_data c)) (with_new_data c)"
    using fresh table by (auto simp: session_table_def with_new_data_def less_Suc_eq)
  moreover have "depth_ok (with_new_data c)" "watchers_ok stale (with_new_data c)"
    using assms by (simp_all add: one_more_def with_new_data_def depth_ok_def watchers_ok_def
        watchers_base_def finished_list_def)
  moreover have "n_processing_sessions (with_new_data c) = n_processing_sessions c"
    by (simp add: with_new_data_def)
  ultimately show "client_ok_but stale (with_new_data c)"
    using assms s by (simp add: client_ok_but_def one_more_def)
qed

lemma setup_added:
  assumes one: "one_more stale c" and stale: "stale_ok stale c"
    and add: "single_thread_process_client_channel fd c = Some c'"
  shows "client_ok_but stale c'" and "stale_ok stale c'" and "sessions stale c' = sessions stale c + 1"
proof -
  let ?w = "Idle_watcher (SINGLE_THREAD_CB_IDLE_CLIENT_CHANNEL_SETUP fd)"
  have loop: "event_loop c \<noteq> None" using one by (simp add: one_more_def depth_ok_def)
  from add obtain tag where "in_event_loop (\<lambda>l. add_watcher l ?w) c = Some (tag, c')"
    by (auto simp: single_thread_process_client_channel_def add_idle_full_def)
  from in_event_loop_add [OF this loop _ stale] obtain l where l: "c' = c\<lparr>event_loop := Some l\<rparr>"
    "own_watchers c' = (own_watchers c)(tag \<mapsto> ?w)" "tag \<noteq> 0" "own_watchers c tag = None"
    "own_but stale c' = (own_but stale c)(tag \<mapsto> ?w)" "loop_depth l = loop_depth (loop_of (event_loop c))"
    "stale_ok stale c'" by auto
  show "stale_ok stale c'" by fact
  have free: "own_but stale c tag = None" using l(4) by simp
  show s: "sessions stale c' = sessions stale c + 1"
    unfolding sessions_def l(5) using pending_setups_add [of "own_but stale c" tag ?w] l(1,4) by simp
  have base: "watchers_base stale c" using one by (simp add: one_more_def watchers_ok_def)
  have "registered P (own_but stale c') t" if "registered P (own_but stale c) t" "\<not> P (callback ?w)" for P t
    unfolding l(5) by (rule registered_add_other [OF that(1) free that(2)])
  with base l(1-4) have "watchers_base stale c'" by (simp add: watchers_base_def)
  moreover have "d \<in> set (finished_list c')"
    if "own_but stale c' t = Some w" "callback w = SINGLE_THREAD_FINISHER d" for t w d
  proof -
    have "own_but stale c t = Some w" using that l(5) by (auto split: if_splits)
    with that(2) one l(1) show ?thesis by (simp add: one_more_def watchers_ok_def finished_list_def)
  qed
  moreover have "finisher_id c' = 0 \<longleftrightarrow> finished_data c' = None"
    using one l(1) by (simp add: one_more_def watchers_ok_def)
  ultimately have "watchers_ok stale c'" unfolding watchers_ok_def by blast
  moreover have "session_table (finished_list c') c'" "depth_ok c'"
    using one l(1,6) by (simp_all add: one_more_def session_table_def depth_ok_def finished_list_def)
  ultimately show "client_ok_but stale c'" using one s l(1) by (simp add: client_ok_but_def one_more_def)
qed

text \<open>Shutting down, in the modes with one loop.\<close>

definition remove_if :: "u32 \<Rightarrow> client_callback event_loop \<Rightarrow> client_callback event_loop" where
  "remove_if tag l = (if tag = 0 then l else snd (remove_watcher l tag))"

lemma remove_if_own: "client_watchers l 0 = None \<Longrightarrow> client_watchers (remove_if tag l) = (client_watchers l)(tag := None)"
  by (auto simp: remove_if_def)

lemma remove_if_depth [simp]: "loop_depth (remove_if tag l) = loop_depth l"
  by (simp add: remove_if_def)

lemma remove_if_fun:
  "remove_if 0 = (\<lambda>l. l)" "tag \<noteq> 0 \<Longrightarrow> remove_if tag = (\<lambda>l. snd (remove_watcher l tag))"
  by (simp_all add: remove_if_def fun_eq_iff)

lemma accept_ids_idem:
  "accept_watch_id c = 0 \<Longrightarrow> c\<lparr>accept_watch_id := 0\<rparr> = c"
  "accept_error_watch_id c = 0 \<Longrightarrow> c\<lparr>accept_error_watch_id := 0\<rparr> = c"
  by (cases c; simp)+

lemma change_event_loop_ident: "change_event_loop (\<lambda>l. l) c = c"
  by (cases c) (simp add: change_event_loop_def option.map_ident)

lemma change_event_loop_ids:
  "accept_loop (change_event_loop f c) = accept_loop c"
  "accept_watch_id (change_event_loop f c) = accept_watch_id c"
  "accept_error_watch_id (change_event_loop f c) = accept_error_watch_id c"
  "change_event_loop f (c\<lparr>accept_watch_id := x\<rparr>) = (change_event_loop f c)\<lparr>accept_watch_id := x\<rparr>"
  by (simp_all add: change_event_loop_def)

lemma dispose_accept_watchers_eq:
  assumes "accept_loop c = None"
  shows "dispose_accept_watchers c =
    (change_event_loop (remove_if (accept_error_watch_id c))
      (change_event_loop (remove_if (accept_watch_id c)) c))\<lparr>accept_watch_id := 0, accept_error_watch_id := 0\<rparr>"
  using assms
  by (cases "accept_watch_id c = 0"; cases "accept_error_watch_id c = 0")
    (simp_all add: dispose_accept_watchers_def Let_def event_loop_remove_def remove_if_fun word_gt_0
      change_event_loop_ident accept_ids_idem change_event_loop_ids)

lemma shutdown_eq:
  assumes "accept_loop c = None" and "\<not> quitting c"
  shows "milter_client_shutdown c =
    c\<lparr>quitting := True, listening_channel := None, accept_watch_id := 0, accept_error_watch_id := 0,
      workers_control := None,
      event_loop := map_option (\<lambda>l. (if n_processing_sessions c = 0 then milter_event_loop_quit else (\<lambda>l. l))
        (remove_if (accept_error_watch_id c) (remove_if (accept_watch_id c) l))) (event_loop c)\<rparr>"
proof -
  have "change_accept_loop milter_event_loop_quit (c\<lparr>quitting := True\<rparr>) = c\<lparr>quitting := True\<rparr>"
    using assms(1) by (cases c) (simp add: change_accept_loop_def)
  then show ?thesis
    using assms dispose_accept_watchers_eq [of "c\<lparr>quitting := True\<rparr>"]
    by (simp add: milter_client_shutdown_def Let_def change_event_loop_def option.map_comp comp_def)
qed

lemma shutdown_ok:
  assumes ok: "client_ok c"
  shows "client_ok (milter_client_shutdown c)" and "sessions 0 (milter_client_shutdown c) = sessions 0 c"
    and "quitting (milter_client_shutdown c)"
    and "own_watchers (milter_client_shutdown c) tag = Some w \<Longrightarrow> own_watchers c tag = Some w"
proof -
  let ?c = "milter_client_shutdown c"
  have all: "client_ok ?c \<and> sessions 0 ?c = sessions 0 c \<and> quitting ?c \<and>
    (\<forall>w. own_watchers ?c tag = Some w \<longrightarrow> own_watchers c tag = Some w)"
  proof (cases "quitting c")
    case True
    then show ?thesis using ok by (simp add: milter_client_shutdown_def)
  next
    case False
    have base: "watchers_base 0 c" and w: "watchers_ok 0 c" and n: "n_processing_sessions c = word_of_nat (sessions 0 c)"
      using ok by (simp_all add: client_ok_but_def watchers_ok_def)
    then have none: "accept_loop c = None" "own_watchers c 0 = None" by (simp_all add: watchers_base_def)
    note eq = shutdown_eq [OF none(1) False]
    obtain l where l: "event_loop c = Some l" "loop_depth l = 1"
      using ok False by (auto simp: client_ok_but_def depth_ok_def)
    let ?a = "accept_watch_id c" and ?e = "accept_error_watch_id c"
    have own: "own_watchers ?c = (own_watchers c)(?a := None, ?e := None)"
      using none(2) l by (auto simp: eq remove_if_own)
    have reg: "registered is_accept_func (own_watchers c) ?a" "registered (\<lambda>cb. cb = ACCEPT_ERROR_WATCH_FUNC) (own_watchers c) ?e"
      "registered is_finisher (own_watchers c) (finisher_id c)"
      using base none(2) by (simp_all add: watchers_base_def fun_upd_idem)
    have other: "\<not> is_finisher (callback w) \<and> callback w \<noteq> SINGLE_THREAD_CB_IDLE_CLIENT_CHANNEL_SETUP fd"
      if "own_watchers c tag = Some w" "tag = ?a \<or> tag = ?e" for tag w fd
    proof -
      have "tag \<noteq> 0" using that(1) none(2) by auto
      with that reg(1,2) show ?thesis
        by (auto simp: registered_def is_accept_func_def is_finisher_def)
    qed
    have keep: "registered P ((own_watchers c)(?a := None, ?e := None)) t"
      if "registered P (own_watchers c) t"
        "\<And>tag w. own_watchers c tag = Some w \<Longrightarrow> tag = ?a \<or> tag = ?e \<Longrightarrow> \<not> P (callback w)" for P t
      by (rule registered_remove_other, rule registered_remove_other [OF that(1)])
        (use that(2) in \<open>auto split: if_splits\<close>)
    have card: "card (pending_setups (own_watchers ?c)) = card (pending_setups (own_watchers c))"
      unfolding own
      by (subst pending_setups_remove_other, use other in \<open>fastforce split: if_splits\<close>)
        (rule pending_setups_remove_other, use other in blast)
    have zero: "own_but 0 ?c = own_watchers ?c" "own_but 0 c = own_watchers c"
      using own none(2) by (auto simp: fun_upd_idem)
    have s: "sessions 0 ?c = sessions 0 c"
      unfolding sessions_def zero card by (simp add: eq)
    have "registered is_accept_func (own_watchers ?c) 0"
      unfolding own using registered_remove_zero [OF registered_remove [OF reg(1)]] by simp
    moreover have "registered (\<lambda>cb. cb = ACCEPT_ERROR_WATCH_FUNC) (own_watchers ?c) 0"
      unfolding own by (rule registered_remove, rule registered_remove_other [OF reg(2)])
        (use reg(1) none(2) in \<open>auto simp: registered_def is_accept_func_def\<close>)
    moreover have "registered is_finisher (own_watchers ?c) (finisher_id c)"
      unfolding own by (rule keep [OF reg(3)]) (use other in blast)
    ultimately have "watchers_base 0 ?c"
      unfolding watchers_base_def zero using own none by (simp add: eq)
    moreover have "\<forall>tag w d. own_but 0 ?c tag = Some w \<and> callback w = SINGLE_THREAD_FINISHER d \<longrightarrow>
        d \<in> set (finished_list ?c)"
      using w unfolding watchers_ok_def zero own by (auto simp: eq finished_list_def split: if_splits)
    ultimately have "watchers_ok 0 ?c" using w by (simp add: watchers_ok_def eq)
    moreover have "depth_ok ?c" using l by (simp add: depth_ok_def eq milter_event_loop_quit_def)
    moreover have "session_table (finished_list ?c) ?c"
      using ok by (simp add: client_ok_but_def eq session_table_def finished_list_def)
    ultimately have "client_ok ?c" using ok s n by (simp add: client_ok_but_def eq)
    moreover have "\<forall>w. own_watchers ?c tag = Some w \<longrightarrow> own_watchers c tag = Some w"
      unfolding own by (auto split: if_splits)
    ultimately show ?thesis using s by (simp add: eq)
  qed
  then show "client_ok ?c" "sessions 0 ?c = sessions 0 c" "quitting ?c" by blast+
  show "own_watchers ?c tag = Some w \<Longrightarrow> own_watchers c tag = Some w" using all by blast
qed

text \<open>Removing the watcher that has been called, and one that nothing depends on.\<close>

lemma change_event_loop_remove [simp]:
  "event_loop c \<noteq> None \<Longrightarrow> own_watchers (event_loop_remove tag c) = own_but tag c"
  "processing_data (event_loop_remove tag c) = processing_data c"
  "finished_handlers (event_loop_remove tag c) = finished_handlers c"
  "next_process_data (event_loop_remove tag c) = next_process_data c"
  "n_processed_sessions (event_loop_remove tag c) = n_processed_sessions c"
  "n_processing_sessions (event_loop_remove tag c) = n_processing_sessions c"
  "quitting (event_loop_remove tag c) = quitting c" "finisher_id (event_loop_remove tag c) = finisher_id c"
  "finished_data (event_loop_remove tag c) = finished_data c"
  "accept_watch_id (event_loop_remove tag c) = accept_watch_id c"
  "accept_error_watch_id (event_loop_remove tag c) = accept_error_watch_id c"
  "accept_loop (event_loop_remove tag c) = accept_loop c"
  "event_loop (event_loop_remove tag c) = None \<longleftrightarrow> event_loop c = None"
  "event_loop c \<noteq> None \<Longrightarrow>
     loop_depth (loop_of (event_loop (event_loop_remove tag c))) = loop_depth (loop_of (event_loop c))"
  by (auto simp: event_loop_remove_def change_event_loop_def)

lemma stale_removed:
  assumes ok: "client_ok_but tag c"
  shows "client_ok (event_loop_remove tag c)" and "sessions 0 (event_loop_remove tag c) = sessions tag c"
proof -
  have loop: "event_loop c \<noteq> None" using ok by (simp add: client_ok_but_def depth_ok_def)
  have zero: "own_watchers c 0 = None" using ok by (simp add: client_ok_but_def watchers_ok_def watchers_base_def)
  have own: "own_but 0 (event_loop_remove tag c) = own_but tag c"
    using loop zero by (auto simp: fun_upd_idem)
  show s: "sessions 0 (event_loop_remove tag c) = sessions tag c" unfolding sessions_def own by simp
  have "finished_list (event_loop_remove tag c) = finished_list c" by (simp add: finished_list_def)
  with ok own s loop zero show "client_ok (event_loop_remove tag c)"
    by (simp add: client_ok_but_def session_table_def depth_ok_def watchers_ok_def watchers_base_def)
qed

lemma other_removed:
  assumes ok: "client_ok c"
    and other: "\<And>w. own_watchers c tag = Some w \<Longrightarrow> \<not> is_finisher (callback w) \<and> \<not> is_accept_func (callback w) \<and>
      callback w \<noteq> ACCEPT_ERROR_WATCH_FUNC \<and> (\<forall>fd. callback w \<noteq> SINGLE_THREAD_CB_IDLE_CLIENT_CHANNEL_SETUP fd)"
  shows "client_ok (event_loop_remove tag c)" and "sessions 0 (event_loop_remove tag c) = sessions 0 c"
proof -
  have zero: "own_watchers c 0 = None" using ok by (simp add: client_ok_but_def watchers_ok_def watchers_base_def)
  then have own0: "own_but 0 c = own_watchers c" by auto
  have card: "card (pending_setups (own_but tag c)) = card (pending_setups (own_watchers c))"
    by (rule pending_setups_remove_other) (use other in blast)
  have s: "sessions tag c = sessions 0 c" unfolding sessions_def own0 card by simp
  have reg: "registered P (own_but tag c) t" if "registered P (own_watchers c) t"
      "\<And>w. own_watchers c tag = Some w \<Longrightarrow> \<not> P (callback w)" for P t
    by (rule registered_remove_other [OF that])
  have "watchers_base tag c"
    using ok own0 reg other by (simp add: client_ok_but_def watchers_ok_def watchers_base_def)
  moreover have "\<forall>t w d. own_but tag c t = Some w \<and> callback w = SINGLE_THREAD_FINISHER d \<longrightarrow>
      d \<in> set (finished_list c)"
    using ok own0 unfolding client_ok_but_def watchers_ok_def by (auto split: if_splits)
  ultimately have "watchers_ok tag c" using ok by (simp add: client_ok_but_def watchers_ok_def)
  then have "client_ok_but tag c" using ok by (simp add: client_ok_but_def s)
  from stale_removed [OF this] s show "client_ok (event_loop_remove tag c)"
    "sessions 0 (event_loop_remove tag c) = sessions 0 c" by simp_all
qed

text \<open>
  The inputs of a single-threaded client: nothing else changes it while it sleeps, and, where
  the caller wants it, the listening socket of a worker does not fail.
\<close>

definition single_threaded :: "'a milter_client_scheme world \<Rightarrow> bool" where
  "single_threaded w \<longleftrightarrow> (\<forall>n c. world_others w n c = c)"

definition accept_works :: "'a milter_client_scheme world \<Rightarrow> bool" where
  "accept_works w \<longleftrightarrow> (case world_accept w of Accepted _ \<Rightarrow> True | Not_accepted e \<Rightarrow> e = EAGAIN)"

fun allowed_event :: "'a milter_client_scheme client_event \<Rightarrow> bool" where
  "allowed_event (Dispatch_event_loop tag w) \<longleftrightarrow> single_threaded w \<and> accept_works w"
| "allowed_event (Dispatch_accept_loop tag w) \<longleftrightarrow> single_threaded w \<and> accept_works w"
| "allowed_event _ \<longleftrightarrow> True"

lemma suspend_single:
  assumes "\<forall>n c. others n c = c" and "suspend_accepting m others n c = Some c'"
  shows "c' = c \<and> \<not> (0 < m \<and> m \<le> n_processing_sessions c)"
proof (rule suspend_accepting.raw_induct [where P = "\<lambda>m others n c c'. (\<forall>n c. others n c = c) \<longrightarrow>
    c' = c \<and> \<not> (0 < m \<and> m \<le> n_processing_sessions c)", THEN mp, OF _ assms(2) assms(1)])
  fix sus and m :: u32 and others :: "nat \<Rightarrow> 'a milter_client_scheme \<Rightarrow> 'a milter_client_scheme" and n c r
  assume IH: "\<And>m others n c r. sus m others n c = Some r \<Longrightarrow>
      (\<forall>n c. others n c = c) \<longrightarrow> r = c \<and> \<not> (0 < m \<and> m \<le> n_processing_sessions c)"
    and run: "(if 0 < m \<and> m \<le> n_processing_sessions c then sus m others (n + 1) (others n c) else Some c) = Some r"
  show "(\<forall>n c. others n c = c) \<longrightarrow> r = c \<and> \<not> (0 < m \<and> m \<le> n_processing_sessions c)"
  proof
    assume id: "\<forall>n c. others n c = c"
    show "r = c \<and> \<not> (0 < m \<and> m \<le> n_processing_sessions c)"
      using run id IH [of m others "n + 1" c r] by (cases "0 < m \<and> m \<le> n_processing_sessions c") auto
  qed
qed

lemma accept_outcome:
  assumes "accept_connection_fd klass w c = Some (r, c')" and "single_threaded w"
  shows "r = world_accept w \<and>
    (case r of Accepted _ \<Rightarrow> c' = milter_client_session_started c
     | Not_accepted _ \<Rightarrow> same_sessions c c')"
  using assms suspend_single [of "world_others w" "milter_client_get_max_connections klass c" 0 c]
  by (auto simp: accept_connection_fd_def single_threaded_def split: option.splits accept_result.splits errno.splits)

context client_methods
begin

lemma dispose_finished_data_same: "same_sessions (free_finished c) (dispose_finished_data klass c)"
proof (cases "finished_data c")
  case None
  then have "free_finished c = c" by (cases c) (simp add: free_finished_def finished_list_def)
  with None show ?thesis by (simp add: dispose_finished_data_def)
next
  case (Some ds)
  then have free: "(fold finish_processing ds c)\<lparr>finished_data := None\<rparr> = free_finished c"
    by (simp add: free_finished_def finished_list_def)
  have sf: "same_sessions (free_finished c) (class_sessions_finished klass n (client_emit x (free_finished c)))" for n x
    by (rule same_sessions_trans [OF same_sessions_emit sessions_finished])
  then have "same_sessions (free_finished c) (class_maintain klass (client_emit y
      (class_sessions_finished klass n (client_emit x (free_finished c)))))" for n x y
    by (meson same_sessions_trans same_sessions_emit maintain)
  with sf Some free show ?thesis
    by (simp add: dispose_finished_data_def Let_def)
qed

lemma dispose_finished_data_ok:
  assumes "to_be_freed stale c"
  shows "client_ok_but stale (dispose_finished_data klass c)"
    and "own_watchers (dispose_finished_data klass c) = own_watchers c"
    and "sessions stale (dispose_finished_data klass c) + length (finished_list c) = sessions stale c"
  using same_sessions_ok [OF dispose_finished_data_same free_finished_ok(1) [OF assms]]
    free_finished_ok [OF assms] by simp_all

lemma cb_finished_cases:
  assumes "single_thread_cb_finished klass d c = Some c'"
  shows "c' = dispose_finished_data klass (dispose_finisher (ended d c)) \<or>
    (\<exists>tag c1. finisher_id c = 0 \<and> c' = c1\<lparr>finisher_id := tag\<rparr> \<and>
      in_event_loop (\<lambda>l. add_idle_full l (SINGLE_THREAD_FINISHER d)) (ended d c) = Some (tag, c1)) \<or>
    (finisher_id c \<noteq> 0 \<and> c' = ended d c)"
proof -
  let ?m = "milter_client_get_max_pending_finished_sessions klass (ended d c)"
  have fin: "(case finished_data (dispose_process_data_finished_handler d c) of None \<Rightarrow> [] | Some ds \<Rightarrow> ds) =
      finished_list c"
    by (simp add: finished_list_def dispose_process_data_finished_handler_def)
  have "(if 0 < ?m \<and> unat ?m < length (finished_list c @ [d])
      then Some (dispose_finished_data klass (dispose_finisher (ended d c)))
      else if finisher_id c = 0
      then map_option (\<lambda>(tag, c). c\<lparr>finisher_id := tag\<rparr>)
             (in_event_loop (\<lambda>l. add_idle_full l (SINGLE_THREAD_FINISHER d)) (ended d c))
      else Some (ended d c)) = Some c'"
    using assms [unfolded single_thread_cb_finished_def Let_def fin, folded ended_def]
    by (simp cong: if_cong split del: if_split)
  then show ?thesis by (auto split: if_splits)
qed

lemma cb_finished_ok:
  assumes ok: "client_ok_but stale c" and d: "d \<in> set (finished_handlers c)" and stale: "stale_ok stale c"
    and run: "single_thread_cb_finished klass d c = Some c'"
  shows "client_ok_but stale c' \<and> stale_ok stale c' \<and> sessions stale c' \<le> sessions stale c"
  using cb_finished_cases [OF run]
proof (elim disjE exE conjE)
  assume c': "c' = dispose_finished_data klass (dispose_finisher (ended d c))"
  have "to_be_freed stale (dispose_finisher (ended d c))" "stale_ok stale (dispose_finisher (ended d c))"
    "sessions stale (dispose_finisher (ended d c)) = sessions stale c"
    using dispose_finisher_to_be_freed [of stale "ended d c"] ended_freeing [OF ok d] ok stale
    by (simp_all add: client_ok_but_def watchers_ok_def watchers_base_def stale_ok_def)
  then show ?thesis using c' dispose_finished_data_ok [of stale "dispose_finisher (ended d c)"]
    by (auto simp: stale_ok_def)
next
  fix tag c1
  assume "finisher_id c = 0" "c' = c1\<lparr>finisher_id := tag\<rparr>"
    "in_event_loop (\<lambda>l. add_idle_full l (SINGLE_THREAD_FINISHER d)) (ended d c) = Some (tag, c1)"
  with finisher_added [OF ok d stale] show ?thesis by simp
next
  assume "finisher_id c \<noteq> 0" "c' = ended d c"
  with ended_ok [OF ok d] stale show ?thesis by (simp add: stale_ok_def)
qed

lemma setup_ok:
  assumes one: "one_more stale c" and stale: "stale_ok stale c"
    and run: "single_thread_client_channel_setup klass started c = Some c'"
  shows "client_ok_but stale c' \<and> stale_ok stale c' \<and> sessions stale c' \<le> sessions stale c + 1"
proof -
  let ?d = "next_process_data c" and ?c = "with_new_data c"
  note new = with_new_data_ok [OF one]
  have emit: "client_ok_but stale (client_emit x ?c)" "own_watchers (client_emit x ?c) = own_watchers ?c"
    "sessions stale (client_emit x ?c) = sessions stale ?c" for x
    using same_sessions_ok [OF same_sessions_emit new(1)] by auto
  have stale': "stale_ok stale (client_emit x ?c)" for x using stale emit(2) new(4) by (simp add: stale_ok_def)
  show ?thesis
  proof (cases started)
    case True
    with run have "c' = class_connection_established klass ?d (client_emit (Signal_connection_established ?d) ?c)"
      by (simp add: single_thread_client_channel_setup_def with_new_data_def Let_def)
    then show ?thesis
      using same_sessions_ok [OF connection_established emit(1)] emit new(2) stale' by (simp add: stale_ok_def)
  next
    case False
    with run have "single_thread_cb_finished klass ?d (client_emit (Signal_session_error ?d) ?c) = Some c'"
      by (simp add: single_thread_client_channel_setup_def with_new_data_def Let_def)
    from cb_finished_ok [OF emit(1) _ stale' this] new(3) emit(3) new(2) show ?thesis
      by (simp add: client_emit_def)
  qed
qed

lemma accept_ok:
  assumes ok: "client_ok c" and room: "sessions 0 c + 1 < 2 ^ 32" and w: "single_threaded w" "accept_works w"
    and running: "\<not> quitting c"
  shows "single_thread_single_loop_accept_watch_func klass w c = Some (keep, c') \<Longrightarrow>
      keep \<and> client_ok c' \<and> sessions 0 c' \<le> sessions 0 c + 1"
    and "single_thread_accept_watch_func klass w c = Some (keep, c') \<Longrightarrow>
      keep \<and> client_ok c' \<and> sessions 0 c' \<le> sessions 0 c + 1"
    and "worker_accept_watch_func klass w c = Some (keep, c') \<Longrightarrow>
      keep \<and> client_ok c' \<and> sessions 0 c' \<le> sessions 0 c + 1"
proof -
  have stale: "stale_ok 0 x" for x :: "'a milter_client_scheme" by (simp add: stale_ok_def)
  let ?c = "milter_client_session_started c"
  have one: "one_more 0 ?c" by (rule started_one_more [OF ok room running])
  have s: "sessions 0 ?c = sessions 0 c" by (simp add: sessions_def milter_client_session_started_def)
  note same = same_sessions_ok(1,2) [OF _ ok]
  show "keep \<and> client_ok c' \<and> sessions 0 c' \<le> sessions 0 c + 1"
    if "single_thread_single_loop_accept_watch_func klass w c = Some (keep, c')"
  proof -
    from that obtain r c1 where acc: "accept_connection_fd klass w c = Some (r, c1)"
      by (auto simp: single_thread_single_loop_accept_watch_func_def split: option.splits)
    show ?thesis
    proof (cases r)
      case (Accepted fd)
      with accept_outcome [OF acc w(1)] have "c1 = ?c" by simp
      with that acc Accepted setup_ok [OF one stale, of "world_started w" c'] s show ?thesis
        by (auto simp: single_thread_single_loop_accept_watch_func_def)
    next
      case (Not_accepted e)
      with accept_outcome [OF acc w(1)] have "same_sessions c c1" by simp
      with that acc Not_accepted same [of c1] show ?thesis
        by (simp add: single_thread_single_loop_accept_watch_func_def)
    qed
  qed
  show "keep \<and> client_ok c' \<and> sessions 0 c' \<le> sessions 0 c + 1"
    if "single_thread_accept_watch_func klass w c = Some (keep, c')"
  proof -
    from that obtain r c1 where acc: "accept_connection_fd klass w c = Some (r, c1)"
      by (auto simp: single_thread_accept_watch_func_def split: option.splits)
    show ?thesis
    proof (cases r)
      case (Accepted fd)
      with accept_outcome [OF acc w(1)] have "c1 = ?c" by simp
      with that acc Accepted setup_added [OF one stale, of fd c'] s show ?thesis
        by (auto simp: single_thread_accept_watch_func_def)
    next
      case (Not_accepted e)
      with accept_outcome [OF acc w(1)] have "same_sessions c c1" by simp
      with that acc Not_accepted same [of c1] show ?thesis
        by (simp add: single_thread_accept_watch_func_def)
    qed
  qed
  show "keep \<and> client_ok c' \<and> sessions 0 c' \<le> sessions 0 c + 1"
    if "worker_accept_watch_func klass w c = Some (keep, c')"
  proof -
    from that obtain r c1 where acc: "accept_connection_fd klass w c = Some (r, c1)"
      by (auto simp: worker_accept_watch_func_def split: option.splits)
    show ?thesis
    proof (cases r)
      case (Accepted fd)
      with accept_outcome [OF acc w(1)] have "c1 = ?c" by simp
      with that acc Accepted setup_added [OF one stale, of fd c'] s show ?thesis
        by (auto simp: worker_accept_watch_func_def)
    next
      case (Not_accepted e)
      with accept_outcome [OF acc w(1)] w(2) have "same_sessions c c1" "e = EAGAIN"
        by (auto simp: accept_works_def split: accept_result.splits)
      with that acc Not_accepted same [of c1] show ?thesis
        by (simp add: worker_accept_watch_func_def)
    qed
  qed
qed

lemma finisher_freed:
  assumes ok: "client_ok c" and w: "own_watchers c tag = Some w" "callback w = SINGLE_THREAD_FINISHER d"
  shows "to_be_freed tag (c\<lparr>finisher_id := 0\<rparr>)" and "sessions tag (c\<lparr>finisher_id := 0\<rparr>) = sessions 0 c"
proof -
  let ?c = "c\<lparr>finisher_id := 0\<rparr>"
  have base: "watchers_base 0 c" using ok by (simp add: client_ok_but_def watchers_ok_def)
  then have own0: "own_but 0 c = own_watchers c" by (auto simp: watchers_base_def)
  have reg: "registered is_finisher (own_watchers c) (finisher_id c)"
    "registered is_accept_func (own_watchers c) (accept_watch_id c)"
    "registered (\<lambda>cb. cb = ACCEPT_ERROR_WATCH_FUNC) (own_watchers c) (accept_error_watch_id c)"
    using base unfolding watchers_base_def own0 by auto
  then have tag: "tag = finisher_id c" using w by (auto simp: registered_def)
  show s: "sessions tag ?c = sessions 0 c"
  proof -
    have "card (pending_setups ((own_watchers c)(tag := None))) = card (pending_setups (own_watchers c))"
      by (rule pending_setups_remove_other) (use w in auto)
    then show ?thesis unfolding sessions_def own0 by simp
  qed
  have "registered is_finisher (own_but tag ?c) 0" using registered_remove [OF reg(1)] tag by simp
  moreover have "registered is_accept_func (own_but tag ?c) (accept_watch_id c)"
    using registered_remove_other [OF reg(2), of tag] w by simp
  moreover have "registered (\<lambda>cb. cb = ACCEPT_ERROR_WATCH_FUNC) (own_but tag ?c) (accept_error_watch_id c)"
    using registered_remove_other [OF reg(3), of tag] w by simp
  ultimately have "watchers_base tag ?c" using base by (simp add: watchers_base_def)
  moreover have "freeing tag (finished_list ?c) ?c"
    using ok s by (simp add: client_ok_but_def freeing_def session_table_def depth_ok_def finished_list_def)
  ultimately show "to_be_freed tag ?c" by (simp add: to_be_freed_def)
qed

lemma finisher_ok:
  assumes ok: "client_ok c" and w: "own_watchers c tag = Some w" "callback w = SINGLE_THREAD_FINISHER d"
  shows "client_ok (event_loop_remove tag (snd (single_thread_finisher klass c)))"
    and "sessions 0 (event_loop_remove tag (snd (single_thread_finisher klass c))) \<le> sessions 0 c"
proof -
  note free = finisher_freed [OF ok w]
  from dispose_finished_data_ok [OF free(1)] free(2)
  have "client_ok_but tag (snd (single_thread_finisher klass c)) \<and>
      sessions tag (snd (single_thread_finisher klass c)) \<le> sessions 0 c"
    by (simp add: single_thread_finisher_def)
  with stale_removed show "client_ok (event_loop_remove tag (snd (single_thread_finisher klass c)))"
    "sessions 0 (event_loop_remove tag (snd (single_thread_finisher klass c))) \<le> sessions 0 c" by fastforce+
qed

lemma idle_setup_one_more:
  assumes ok: "client_ok c" and w: "own_watchers c tag = Some w" "callback w = SINGLE_THREAD_CB_IDLE_CLIENT_CHANNEL_SETUP fd"
  shows "one_more tag c" and "sessions tag c + 1 = sessions 0 c"
proof -
  have base: "watchers_base 0 c" using ok by (simp add: client_ok_but_def watchers_ok_def)
  then have own0: "own_but 0 c = own_watchers c" by (auto simp: watchers_base_def)
  show s: "sessions tag c + 1 = sessions 0 c"
    unfolding sessions_def own0 using pending_setups_remove [of "own_watchers c" tag] w by simp
  have reg: "registered P (own_but tag c) t" if "registered P (own_but 0 c) t" "\<not> P (callback w)" for P t
    by (rule registered_remove_other) (use that w own0 in auto)
  have "watchers_base tag c" using base w reg by (simp add: watchers_base_def)
  moreover have "\<forall>t w d. own_but tag c t = Some w \<and> callback w = SINGLE_THREAD_FINISHER d \<longrightarrow>
      d \<in> set (finished_list c)"
    using ok own0 unfolding client_ok_but_def watchers_ok_def by (auto split: if_splits)
  ultimately have "watchers_ok tag c" using ok by (simp add: client_ok_but_def watchers_ok_def)
  with ok show "one_more tag c" unfolding one_more_def s by (simp add: client_ok_but_def)
qed

lemma idle_setup_ok:
  assumes ok: "client_ok c" and w: "own_watchers c tag = Some w" "callback w = SINGLE_THREAD_CB_IDLE_CLIENT_CHANNEL_SETUP fd"
    and run: "single_thread_client_channel_setup klass started c = Some c'"
  shows "client_ok (event_loop_remove tag c')" and "sessions 0 (event_loop_remove tag c') \<le> sessions 0 c"
proof -
  note one = idle_setup_one_more [OF ok w]
  have stale: "stale_ok tag c" using w by (simp add: stale_ok_def)
  from setup_ok [OF one(1) stale run] one(2) have "client_ok_but tag c' \<and> sessions tag c' \<le> sessions 0 c" by simp
  with stale_removed show "client_ok (event_loop_remove tag c')"
    "sessions 0 (event_loop_remove tag c') \<le> sessions 0 c" by fastforce+
qed

lemma accept_error_ok:
  assumes ok: "client_ok c" and w: "own_watchers c tag = Some w" "callback w = ACCEPT_ERROR_WATCH_FUNC"
  shows "client_ok (event_loop_remove tag (snd (accept_error_watch_func c)))"
    and "sessions 0 (event_loop_remove tag (snd (accept_error_watch_func c))) \<le> sessions 0 c"
proof -
  let ?c = "client_emit (Signal_error MILTER_CLIENT_ERROR_IO_ERROR) c"
  note emit = same_sessions_ok [OF same_sessions_emit ok, of "Signal_error MILTER_CLIENT_ERROR_IO_ERROR"]
  note down = shutdown_ok [OF emit(1)]
  have gone: "own_watchers (milter_client_shutdown ?c) tag = None"
  proof (cases "own_watchers (milter_client_shutdown ?c) tag")
    case (Some w')
    then have "own_watchers c tag = Some w'" using down(4) [OF Some] emit(3) by simp
    with w have "callback w' = ACCEPT_ERROR_WATCH_FUNC" by simp
    moreover have "registered (\<lambda>cb. cb = ACCEPT_ERROR_WATCH_FUNC) (own_but 0 (milter_client_shutdown ?c)) 0"
      "own_watchers (milter_client_shutdown ?c) 0 = None"
      using down(1,3) by (auto simp: client_ok_but_def watchers_ok_def watchers_base_def)
    moreover have "own_but 0 (milter_client_shutdown ?c) tag = Some w'"
      using Some calculation(3) by auto
    ultimately show ?thesis
      using registered_zero [of "\<lambda>cb. cb = ACCEPT_ERROR_WATCH_FUNC" "own_but 0 (milter_client_shutdown ?c)" tag w']
      by simp
  qed
  from other_removed [OF down(1), of tag] gone down(2) emit(2)
  show "client_ok (event_loop_remove tag (snd (accept_error_watch_func c)))"
    "sessions 0 (event_loop_remove tag (snd (accept_error_watch_func c))) \<le> sessions 0 c"
    by (simp_all add: accept_error_watch_func_def)
qed

lemma dispatch_ok:
  assumes ok: "client_ok c" and room: "sessions 0 c + 1 < 2 ^ 32" and w: "single_threaded w" "accept_works w"
    and at: "loop_watchers (loop_of (event_loop c)) tag = Some x"
    and run: "call_client_callback klass w (callback x) c = Some (keep, c1)"
  shows "client_ok (if keep then c1 else event_loop_remove tag c1) \<and>
    sessions 0 (if keep then c1 else event_loop_remove tag c1) \<le> sessions 0 c + 1"
proof (cases "callback x = Subclass_callback")
  case True
  then have none: "own_watchers c tag = None" using at by (simp add: client_watchers_def)
  from True run have "c1 = snd (class_callback klass c)" by (simp add: call_client_callback_def)
  with callback [of c] have "same_sessions c c1" by simp
  note same = same_sessions_ok [OF this ok]
  with other_removed [OF same(1), of tag] none show ?thesis by auto
next
  case False
  then have own: "own_watchers c tag = Some x" using at by (simp add: client_watchers_def)
  have base: "watchers_base 0 c" using ok by (simp add: client_ok_but_def watchers_ok_def)
  then have tag: "tag \<noteq> 0" using own by (auto simp: watchers_base_def)
  have running: "\<not> quitting c" if "is_accept_func (callback x)"
  proof
    assume "quitting c"
    then have "registered is_accept_func (own_but 0 c) 0" "own_but 0 c tag = Some x"
      using base own tag by (auto simp: watchers_base_def)
    with registered_zero [of is_accept_func "own_but 0 c" tag x] that show False by simp
  qed
  note accept = accept_ok [OF ok room w running, of keep c1]
  note emit = same_sessions_ok [OF _ ok]
  show ?thesis
  proof (cases "callback x")
    case SINGLE_THREAD_SINGLE_LOOP_ACCEPT_WATCH_FUNC
    with run accept(1) show ?thesis by (simp add: call_client_callback_def is_accept_func_def)
  next
    case SINGLE_THREAD_ACCEPT_WATCH_FUNC
    with run accept(2) show ?thesis by (simp add: call_client_callback_def is_accept_func_def)
  next
    case WORKER_ACCEPT_WATCH_FUNC
    with run accept(3) show ?thesis by (simp add: call_client_callback_def is_accept_func_def)
  next
    case ACCEPT_ERROR_WATCH_FUNC
    with run accept_error_ok [OF ok own] show ?thesis
      by (auto simp: call_client_callback_def accept_error_watch_func_def)
  next
    case WORKER_WATCH_MASTER
    let ?c = "c\<lparr>listening_channel := None, listen_channel := None\<rparr>"
    have "same_sessions c ?c" by (auto simp: same_sessions_def split: option.splits)
    note closed = emit [OF this]
    note down = shutdown_ok [OF closed(1)]
    have "\<not> is_finisher (callback x') \<and> \<not> is_accept_func (callback x') \<and> callback x' \<noteq> ACCEPT_ERROR_WATCH_FUNC \<and>
        (\<forall>fd. callback x' \<noteq> SINGLE_THREAD_CB_IDLE_CLIENT_CHANNEL_SETUP fd)"
      if "own_watchers (milter_client_shutdown ?c) tag = Some x'" for x'
      using down(4) [OF that] own closed(3) WORKER_WATCH_MASTER by (auto simp: is_finisher_def is_accept_func_def)
    from other_removed [OF down(1) this] run WORKER_WATCH_MASTER ok down(2) closed(2) show ?thesis
      by (auto simp: call_client_callback_def worker_watch_master_def split: if_splits)
  next
    case WATCH_WORKER_PROCESS
    with run other_removed [OF ok, of tag] own ok show ?thesis
      by (auto simp: call_client_callback_def is_finisher_def is_accept_func_def)
  next
    case (SINGLE_THREAD_FINISHER d)
    with run finisher_ok [OF ok own, of d] show ?thesis
      by (auto simp: call_client_callback_def single_thread_finisher_def)
  next
    case (SINGLE_THREAD_CB_IDLE_CLIENT_CHANNEL_SETUP fd)
    with run idle_setup_ok [OF ok own, of fd "world_started w" c1] show ?thesis
      by (auto simp: call_client_callback_def)
  next
    case Subclass_callback
    with False show ?thesis by simp
  qed
qed

lemma step_ok:
  assumes ok: "client_ok c" and room: "sessions 0 c + 1 < 2 ^ 32" and ev: "allowed_event ev"
    and run: "client_step klass ev c = Some c'"
  shows "client_ok c' \<and> sessions 0 c' \<le> sessions 0 c + 1"
proof (cases ev)
  case (Dispatch_event_loop tag w)
  show ?thesis
  proof (cases "loop_watchers (loop_of (event_loop c)) tag")
    case None
    with run Dispatch_event_loop ok show ?thesis by (simp add: client_step_def dispatch_watcher_def)
  next
    case (Some x)
    from run Dispatch_event_loop Some obtain keep c1 where
      "call_client_callback klass w (callback x) c = Some (keep, c1)"
      "c' = (if keep then c1 else event_loop_remove tag c1)"
      by (auto simp: client_step_def dispatch_watcher_def event_loop_remove_def split: option.splits if_splits)
    note this
    moreover from dispatch_ok [OF ok room _ _ Some this(1)] ev Dispatch_event_loop
    have "client_ok (if keep then c1 else event_loop_remove tag c1) \<and>
        sessions 0 (if keep then c1 else event_loop_remove tag c1) \<le> sessions 0 c + 1" by simp
    ultimately show ?thesis by simp
  qed
next
  case (Dispatch_accept_loop tag w)
  have "accept_loop c = None" using ok by (simp add: client_ok_but_def watchers_ok_def watchers_base_def)
  with run Dispatch_accept_loop ok show ?thesis
    by (simp add: client_step_def dispatch_watcher_def loop_of_def milter_libev_event_loop_new_def)
next
  case (Session_finished d)
  with run ok cb_finished_ok [OF ok, of d c'] show ?thesis
    by (auto simp: client_step_def stale_ok_def split: if_splits)
next
  case Shutdown_requested
  with run shutdown_ok [OF ok] show ?thesis by (auto simp: client_step_def)
qed

lemma loop_ok:
  assumes "client_ok c" and "sessions 0 c + length evs < 2 ^ 32" and "\<forall>ev \<in> set evs. allowed_event ev"
    and "client_loop klass evs c = Some c'"
  shows "client_ok c'"
  using assms
proof (induction evs arbitrary: c)
  case (Cons ev evs)
  show ?case
  proof (cases "client_is_running c")
    case True
    then obtain c1 where c1: "client_step klass ev c = Some c1" "client_loop klass evs c1 = Some c'"
      using Cons.prems(4) by (auto split: option.splits)
    have "client_ok c1 \<and> sessions 0 c1 \<le> sessions 0 c + 1"
      by (rule step_ok [OF Cons.prems(1) _ _ c1(1)]) (use Cons.prems in simp_all)
    with Cons.IH [OF _ _ _ c1(2)] Cons.prems show ?thesis by simp
  next
    case False
    with Cons.prems show ?thesis by simp
  qed
qed simp

end

end
