(* ===== verification/Client_Sessions_Run.thy ===== *)
theory Client_Sessions_Run
  imports Client_Sessions_Spec
begin

text \<open>
  Runs of a client, from the state in which it was made: the properties of its sessions and of
  its shutdown, and what happens when it may not accept another connection.
\<close>

subsection \<open>Being prepared\<close>

text \<open>A client that has not been run: its loop holds at most the watchers of a worker.\<close>

definition client_idle :: "'a milter_client_scheme \<Rightarrow> bool" where
  "client_idle c \<longleftrightarrow>
     event_loop c \<noteq> None \<and> accept_loop c = None \<and> own_watchers c 0 = None \<and>
     (\<forall>tag w. own_watchers c tag = Some w \<longrightarrow> callback w \<in> {WORKER_WATCH_MASTER, WATCH_WORKER_PROCESS}) \<and>
     loop_depth (loop_of (event_loop c)) = 0 \<and> processing_data c = [] \<and> finished_handlers c = [] \<and>
     finished_data c = None \<and> finisher_id c = 0 \<and> accept_watch_id c = 0 \<and> accept_error_watch_id c = 0 \<and>
     n_processing_sessions c = 0 \<and> n_processed_sessions c = word_of_nat (next_process_data c) \<and> \<not> quitting c"

lemma same_sessions_idle: "same_sessions c c' \<Longrightarrow> client_idle c \<Longrightarrow> client_idle c'"
  using same_sessions_own [of c c'] by (auto simp: client_idle_def same_sessions_def)

lemma watch_listening_add:
  assumes "watch_listening_channel Watch_event_loop conds cb c = Some (tag, c')" and "event_loop c \<noteq> None"
    and "cb \<noteq> Subclass_callback"
  shows "(tag = 0 \<and> c' = c) \<or>
    (\<exists>l fd ev. c' = c\<lparr>event_loop := Some l\<rparr> \<and> own_watchers c' = (own_watchers c)(tag \<mapsto> Io_watcher fd ev cb) \<and>
      tag \<noteq> 0 \<and> own_watchers c tag = None \<and> loop_depth l = loop_depth (loop_of (event_loop c)))"
proof -
  obtain l0 where l0: "event_loop c = Some l0" using assms(2) by auto
  define fd where "fd = (case listening_channel c of Some fd \<Rightarrow> fd | None \<Rightarrow> -1)"
  show ?thesis
  proof (cases "fd = -1")
    case True
    then have "tag = 0" "c' = c\<lparr>event_loop := Some l0\<rparr>" using assms(1) l0
      by (simp_all add: watch_listening_channel_def in_event_loop_def watch_io_full_def fd_def [symmetric])
    moreover have "c\<lparr>event_loop := Some l0\<rparr> = c" using l0 by (cases c) simp
    ultimately show ?thesis by metis
  next
    case False
    then have add: "in_event_loop (\<lambda>l. add_watcher l (Io_watcher fd (evcond_from_g_io_condition conds) cb)) c = Some (tag, c')"
      using assms(1) by (simp add: watch_listening_channel_def watch_io_full_def fd_def [symmetric])
    have stale: "stale_ok 0 c" by (simp add: stale_ok_def)
    show ?thesis
    proof (rule in_event_loop_add [OF add assms(2) _ stale])
      show "callback (Io_watcher fd (evcond_from_g_io_condition conds) cb) \<noteq> Subclass_callback"
        using assms(3) by simp
    qed blast
  qed
qed

lemma watch_accepting_ok:
  assumes idle: "client_idle c" and acc: "is_accept_func cb" and run: "watch_accepting Watch_event_loop cb c = Some c'"
  shows "client_ok (change_event_loop enter_loop c')" and "sessions 0 (change_event_loop enter_loop c') = 0"
proof -
  have cb: "cb \<noteq> Subclass_callback" "cb \<noteq> ACCEPT_ERROR_WATCH_FUNC" "\<not> is_finisher cb"
    "\<And>fd. cb \<noteq> SINGLE_THREAD_CB_IDLE_CLIENT_CHANNEL_SETUP fd"
    using acc by (auto simp: is_accept_func_def is_finisher_def)
  have loop: "event_loop c \<noteq> None" using idle by (simp add: client_idle_def)
  obtain t1 c1 where 1: "watch_listening_channel Watch_event_loop {G_IO_IN, G_IO_PRI} cb c = Some (t1, c1)"
    using run by (auto simp: watch_accepting_def split: option.splits)
  let ?c1 = "c1\<lparr>accept_watch_id := t1\<rparr>"
  obtain t2 c2 where 2: "watch_listening_channel Watch_event_loop error_conditions ACCEPT_ERROR_WATCH_FUNC ?c1 = Some (t2, c2)"
    and c': "c' = c2\<lparr>accept_error_watch_id := t2\<rparr>"
    using run 1 by (auto simp: watch_accepting_def split: option.splits)
  note add1 = watch_listening_add [OF 1 loop cb(1)]
  then have loop1: "event_loop ?c1 \<noteq> None" using loop by auto
  note add2 = watch_listening_add [OF 2 loop1, simplified]
  let ?W = "own_watchers c" and ?W1 = "own_watchers c1" and ?W2 = "own_watchers c'"
  have w0: "callback w \<in> {WORKER_WATCH_MASTER, WATCH_WORKER_PROCESS}" if "?W tag = Some w" for tag w
    using idle that by (auto simp: client_idle_def)
  have zero: "?W 0 = None" using idle by (simp add: client_idle_def)
  have W1: "?W1 = ?W \<and> t1 = 0 \<or> (\<exists>fd ev. ?W1 = ?W(t1 \<mapsto> Io_watcher fd ev cb)) \<and> t1 \<noteq> 0"
    using add1 by auto
  have W2: "?W2 = ?W1 \<and> t2 = 0 \<or>
      (\<exists>fd ev. ?W2 = ?W1(t2 \<mapsto> Io_watcher fd ev ACCEPT_ERROR_WATCH_FUNC)) \<and> t2 \<noteq> 0 \<and> ?W1 t2 = None"
    using add2 c' by auto
  have zero2: "?W2 0 = None" using zero W1 W2 by auto
  have fields: "accept_watch_id c' = t1" "accept_error_watch_id c' = t2" "finisher_id c' = 0" "finished_data c' = None"
    "processing_data c' = []" "finished_handlers c' = []" "n_processing_sessions c' = 0" "\<not> quitting c'"
    "accept_loop c' = None" "n_processed_sessions c' = word_of_nat (next_process_data c')" "event_loop c' \<noteq> None"
    "loop_depth (loop_of (event_loop c')) = 0"
    using add1 add2 c' idle by (auto simp: client_idle_def)
  have reg: "registered is_accept_func ?W2 t1" "registered (\<lambda>cb. cb = ACCEPT_ERROR_WATCH_FUNC) ?W2 t2"
    "registered is_finisher ?W2 0"
    using W1 W2 w0 acc cb by (fastforce simp: registered_def is_accept_func_def is_finisher_def split: if_splits)+
  have nopend: "callback w \<noteq> SINGLE_THREAD_CB_IDLE_CLIENT_CHANNEL_SETUP fd" if "?W2 tag = Some w" for tag w fd
    using W1 W2 w0 cb that by (fastforce split: if_splits)
  let ?c = "change_event_loop enter_loop c'"
  have own: "own_watchers ?c = ?W2" "own_but 0 ?c = ?W2"
    using fields(11) zero2 by (auto simp: change_event_loop_def enter_loop_def)
  show s: "sessions 0 ?c = 0"
    unfolding sessions_def own pending_setups_def using nopend fields by (auto simp: change_event_loop_def)
  have "own_but 0 c' = ?W2" using zero2 by (simp add: fun_upd_idem)
  then have "watchers_base 0 ?c"
    unfolding watchers_base_def own using fields reg zero2 by (simp add: change_event_loop_def)
  moreover have "\<forall>tag w d. own_but 0 ?c tag = Some w \<and> callback w = SINGLE_THREAD_FINISHER d \<longrightarrow>
      d \<in> set (finished_list ?c)"
    unfolding own(1) \<open>own_but 0 c' = ?W2\<close>
    using registered_zero [OF reg(3) zero2] unfolding is_finisher_def by blast
  ultimately have "watchers_ok 0 ?c"
    using fields by (simp add: watchers_ok_def change_event_loop_def)
  moreover have "depth_ok ?c" using fields by (auto simp: depth_ok_def change_event_loop_def enter_loop_def)
  ultimately show "client_ok ?c"
    using fields s by (simp add: client_ok_but_def session_table_def change_event_loop_def finished_list_def)
qed

lemma same_sessions_update [simp]:
  "same_sessions c (c\<lparr>client_address := a\<rparr>)" "same_sessions c (client_call x c)"
  "same_sessions c (c\<lparr>listening_channel := ch\<rparr>)"
  by (auto simp: same_sessions_def client_call_def split: option.splits)

lemma listen_started_same: "same_sessions c (listen_started klass sys address c)"
proof -
  have "same_sessions c (change_unix_socket_group klass sys path c)" for path and c :: "'a milter_client_scheme"
    by (simp add: change_unix_socket_group_def split: option.split)
  moreover have "same_sessions c (change_unix_socket_mode klass sys path c)" for path and c :: "'a milter_client_scheme"
    by (simp add: change_unix_socket_mode_def Let_def)
  ultimately have "same_sessions c (change_unix_socket_mode klass sys path (change_unix_socket_group klass sys path c))" for path
    using same_sessions_trans by blast
  then show ?thesis by (simp add: listen_started_def split: connection_address.split)
qed

lemma listen_channel_same:
  assumes "milter_client_listen_channel klass sys c = Ok (r, c')"
  shows "same_sessions c c'"
proof -
  let ?d = "\<lambda>address. c\<lparr>client_address := None, client_address := Some address\<rparr>"
  have "same_sessions c (?d address)" for address by simp
  then have "same_sessions c (listen_started klass sys address (client_emit x (?d address)))" for address x
    using same_sessions_trans [OF _ same_sessions_emit] same_sessions_trans [OF _ listen_started_same] by blast
  then show ?thesis using assms
    by (auto simp: milter_client_listen_channel_def Let_def split: result.splits prod.splits sum.splits)
qed

lemma prepared_ok:
  assumes idle: "client_idle c" and acc: "is_accept_func cb"
    and run: "milter_client_prepare klass sys Watch_event_loop cb c = Some (Ok (None, c'))"
  shows "client_ok (change_event_loop enter_loop c')" and "sessions 0 (change_event_loop enter_loop c') = 0"
proof -
  have quit: "c\<lparr>quitting := False\<rparr> = c" using idle by (cases c) (simp add: client_idle_def)
  let ?r = "case listen_channel c of Some fd \<Rightarrow> Ok (Inr fd, c) | None \<Rightarrow> milter_client_listen_channel klass sys c"
  have prepared: "\<exists>fd c1. ?r = Ok (Inr fd, c1) \<and> watch_accepting Watch_event_loop cb (c1\<lparr>listening_channel := Some fd\<rparr>) = Some c'"
    using run unfolding milter_client_prepare_def Let_def quit
    by (auto split: if_splits result.splits sum.splits prod.splits)
  have "\<exists>fd c1. same_sessions c c1 \<and> watch_accepting Watch_event_loop cb (c1\<lparr>listening_channel := Some fd\<rparr>) = Some c'"
  proof (cases "listen_channel c")
    case (Some fd)
    with prepared have "same_sessions c c \<and>
        watch_accepting Watch_event_loop cb (c\<lparr>listening_channel := Some fd\<rparr>) = Some c'" by simp
    then show ?thesis by blast
  qed (use prepared listen_channel_same [of klass sys c] in auto)
  then obtain fd c1 where c1: "same_sessions c c1"
    "watch_accepting Watch_event_loop cb (c1\<lparr>listening_channel := Some fd\<rparr>) = Some c'" by blast
  have "client_idle (c1\<lparr>listening_channel := Some fd\<rparr>)"
    using same_sessions_idle [OF _ idle] c1(1) same_sessions_trans same_sessions_update(3) by blast
  from watch_accepting_ok [OF this acc c1(2)]
  show "client_ok (change_event_loop enter_loop c')" "sessions 0 (change_event_loop enter_loop c') = 0" by simp_all
qed

lemma get_event_loop_idle: "event_loop c \<noteq> None \<Longrightarrow> milter_client_get_event_loop klass c = c"
  by (auto simp: milter_client_get_event_loop_def)

text \<open>A run of a client with a single loop, or of a worker.\<close>

definition client_ran ::
    "'a milter_client_scheme client_class \<Rightarrow> client_system \<Rightarrow> 'a milter_client_scheme client_event list \<Rightarrow>
     'a milter_client_scheme \<Rightarrow> 'a milter_client_scheme \<Rightarrow> bool" where
  "client_ran klass sys evs c c' \<longleftrightarrow>
     single_thread_single_loop_run klass sys evs c = Some (Ok (None, c')) \<or>
     run_worker klass evs c = Some (None, c')"

lemma ran_ok:
  assumes methods: "client_methods klass" and idle: "client_idle c" and len: "length evs < 2 ^ 32"
    and ev: "\<forall>ev \<in> set evs. allowed_event ev" and run: "client_ran klass sys evs c c'"
  shows "client_ok c'"
proof -
  have loop: "event_loop c \<noteq> None" using idle by (simp add: client_idle_def)
  have "\<exists>c1. client_ok c1 \<and> sessions 0 c1 = 0 \<and> client_loop klass evs c1 = Some c'"
    using run unfolding client_ran_def
  proof
    assume "single_thread_single_loop_run klass sys evs c = Some (Ok (None, c'))"
    then obtain c0 where "milter_client_prepare klass sys Watch_event_loop
        SINGLE_THREAD_SINGLE_LOOP_ACCEPT_WATCH_FUNC c = Some (Ok (None, c0))"
      "client_loop klass evs (change_event_loop enter_loop c0) = Some c'"
      by (auto simp: single_thread_single_loop_run_def get_event_loop_idle [OF loop]
          split: option.splits result.splits prod.splits)
    with prepared_ok [OF idle _ this(1)] show ?thesis by (auto simp: is_accept_func_def)
  next
    assume worker: "run_worker klass evs c = Some (None, c')"
    then obtain fd where "listen_channel c = Some fd" by (auto simp: run_worker_def split: if_splits option.splits)
    let ?c = "c\<lparr>listening_channel := Some fd, quitting := False\<rparr>"
    have "?c = c\<lparr>listening_channel := Some fd\<rparr>" using idle by (cases c) (simp add: client_idle_def)
    moreover have "client_idle (c\<lparr>listening_channel := Some fd\<rparr>)"
      using same_sessions_idle [OF same_sessions_update(3) idle] .
    ultimately have idle': "client_idle ?c" by simp
    then have "event_loop ?c \<noteq> None" by (simp add: client_idle_def)
    with worker \<open>listen_channel c = Some fd\<close> obtain c0 where
      "watch_accepting Watch_event_loop WORKER_ACCEPT_WATCH_FUNC ?c = Some c0"
      "client_loop klass evs (change_event_loop enter_loop c0) = Some c'"
      by (auto simp: run_worker_def get_event_loop_idle split: if_splits option.splits)
    with watch_accepting_ok [OF idle' _ this(1)] show ?thesis by (auto simp: is_accept_func_def)
  qed
  then obtain c1 where "client_ok c1" "sessions 0 c1 = 0" "client_loop klass evs c1 = Some c'" by blast
  with client_methods.loop_ok [OF methods, of c1 evs c'] len ev show ?thesis by simp
qed

lemma ok_own: "client_ok c \<Longrightarrow> own_but 0 c = own_watchers c"
  by (simp add: client_ok_but_def watchers_ok_def watchers_base_def fun_upd_idem)

text \<open>C10: whatever happens while a client runs, its counters agree with its sessions: those being
  processed are the ones whose data is allocated and the accepted connections not set up yet,
  every other one that was set up has been counted as processed, and the data of a session
  either has its handler connected or waits, once, to be freed. The finisher is registered
  exactly when some wait, and its own data is among theirs.\<close>

theorem sessions_accounted:
  assumes "client_methods klass" and "client_idle c" and "length evs < 2 ^ 32"
    and "\<forall>ev \<in> set evs. allowed_event ev" and "client_ran klass sys evs c c'"
  shows "unat (n_processing_sessions c') = length (processing_data c') + card (pending_setups (own_watchers c')) \<and>
    word_of_nat (next_process_data c') = n_processed_sessions c' + word_of_nat (length (processing_data c')) \<and>
    distinct (processing_data c') \<and> distinct (finished_list c') \<and>
    set (processing_data c') = set (finished_handlers c') \<union> set (finished_list c') \<and>
    set (finished_handlers c') \<inter> set (finished_list c') = {} \<and>
    (case finished_data c' of
       None \<Rightarrow> finisher_id c' = 0
     | Some ds \<Rightarrow> \<exists>w d. own_watchers c' (finisher_id c') = Some w \<and> callback w = SINGLE_THREAD_FINISHER d \<and> d \<in> set ds)"
proof -
  note ok = ran_ok [OF assms]
  have n: "n_processing_sessions c' = word_of_nat (sessions 0 c')" "sessions 0 c' < 2 ^ 32"
    and base: "watchers_base 0 c'" and iff: "finisher_id c' = 0 \<longleftrightarrow> finished_data c' = None"
    and data: "\<forall>tag w d. own_but 0 c' tag = Some w \<and> callback w = SINGLE_THREAD_FINISHER d \<longrightarrow>
      d \<in> set (finished_list c')"
    using ok unfolding client_ok_but_def watchers_ok_def by blast+
  have "unat (n_processing_sessions c') = sessions 0 c'" using n by (simp add: unat_of_nat)
  then have "unat (n_processing_sessions c') = length (processing_data c') + card (pending_setups (own_watchers c'))"
    unfolding sessions_def ok_own [OF ok] .
  moreover have "case finished_data c' of
       None \<Rightarrow> finisher_id c' = 0
     | Some ds \<Rightarrow> \<exists>w d. own_watchers c' (finisher_id c') = Some w \<and> callback w = SINGLE_THREAD_FINISHER d \<and> d \<in> set ds"
  proof (cases "finished_data c'")
    case (Some ds)
    then have "finisher_id c' \<noteq> 0" using iff by simp
    moreover have "registered is_finisher (own_watchers c') (finisher_id c')"
      using base unfolding watchers_base_def ok_own [OF ok] by blast
    ultimately obtain w d where w: "own_watchers c' (finisher_id c') = Some w" "callback w = SINGLE_THREAD_FINISHER d"
      unfolding registered_def is_finisher_def by blast
    then have "d \<in> set ds" using data Some unfolding ok_own [OF ok] by (auto simp: finished_list_def)
    with w Some show ?thesis by auto
  qed (use iff in simp)
  ultimately show ?thesis using ok unfolding client_ok_but_def session_table_def by blast
qed

text \<open>C11: a client that has been shut down accepts no more connections and its loop runs exactly
  as long as a session is being processed: it does not stop before the last has ended, and not
  go on after it. A client that has not been shut down runs.\<close>

theorem shutdown_waits_for_sessions:
  assumes "client_methods klass" and "client_idle c" and "length evs < 2 ^ 32"
    and "\<forall>ev \<in> set evs. allowed_event ev" and "client_ran klass sys evs c c'"
  shows "(client_is_running c' \<longleftrightarrow> \<not> quitting c' \<or> 0 < n_processing_sessions c') \<and>
    (quitting c' \<longrightarrow> (\<forall>tag w. own_watchers c' tag = Some w \<longrightarrow> \<not> is_accept_func (callback w)))"
proof -
  note ok = ran_ok [OF assms]
  then have "depth_ok c'" and base: "watchers_base 0 c'" by (simp_all add: client_ok_but_def watchers_ok_def)
  then have "client_is_running c' \<longleftrightarrow> \<not> quitting c' \<or> 0 < n_processing_sessions c'"
    by (auto simp: depth_ok_def client_is_running_def milter_event_loop_is_running_def word_gt_0)
  moreover have "\<not> is_accept_func (callback w)" if "quitting c'" "own_watchers c' tag = Some w" for tag w
  proof (rule registered_zero [where W = "own_watchers c'" and tag = tag])
    show "own_watchers c' tag = Some w" by (fact that)
    show "registered is_accept_func (own_watchers c') 0" "own_watchers c' 0 = None"
      using base that(1) unfolding watchers_base_def ok_own [OF ok] by auto
  qed
  ultimately show ?thesis by blast
qed

subsection \<open>Waiting at the limit\<close>

lemma suspend_returns:
  assumes "\<not> (0 < m \<and> m \<le> n_processing_sessions (fold others [n..<n + k] c))"
  shows "\<exists>c'. suspend_accepting m others n c = Some c'"
  using assms
proof (induction k arbitrary: n c)
  case 0
  then show ?case by (subst suspend_accepting.simps) auto
next
  case (Suc k)
  have upt: "[n..<n + Suc k] = n # [n + 1..<n + 1 + k]" by (simp add: upt_conv_Cons del: upt_Suc)
  have "\<exists>c'. suspend_accepting m others (n + 1) (others n c) = Some c'"
    using Suc.prems unfolding upt by (intro Suc.IH) (simp del: upt_Suc)
  then show ?case by (subst suspend_accepting.simps) simp
qed

lemma suspend_returned:
  assumes "suspend_accepting m others n c = Some c'"
  shows "\<exists>k. \<not> (0 < m \<and> m \<le> n_processing_sessions (fold others [n..<n + k] c)) \<and> c' = fold others [n..<n + k] c"
proof (rule suspend_accepting.raw_induct [OF _ assms])
  fix sus and m :: u32 and others :: "nat \<Rightarrow> 'a milter_client_scheme \<Rightarrow> 'a milter_client_scheme" and n c r
  let ?P = "\<lambda>m others n c r. \<exists>k. \<not> (0 < m \<and> m \<le> n_processing_sessions (fold others [n..<n + k] c)) \<and>
      r = fold others [n..<n + k] c"
  assume IH: "\<And>m others n c r. sus m others n c = Some r \<Longrightarrow> ?P m others n c r"
    and run: "(if 0 < m \<and> m \<le> n_processing_sessions c then sus m others (n + 1) (others n c) else Some c) = Some r"
  show "?P m others n c r"
  proof (cases "0 < m \<and> m \<le> n_processing_sessions c")
    case True
    with run IH [of m others "n + 1" "others n c" r] obtain k where
      k: "\<not> (0 < m \<and> m \<le> n_processing_sessions (fold others [n + 1..<n + 1 + k] (others n c)))"
      "r = fold others [n + 1..<n + 1 + k] (others n c)" by auto
    have upt: "[n..<n + Suc k] = n # [n + 1..<n + 1 + k]" by (simp add: upt_conv_Cons del: upt_Suc)
    have "\<not> (0 < m \<and> m \<le> n_processing_sessions (fold others [n..<n + Suc k] c)) \<and>
        r = fold others [n..<n + Suc k] c"
      unfolding upt using k by simp
    then show ?thesis by blast
  next
    case False
    with run show ?thesis by (intro exI [of _ 0]) simp
  qed
qed

text \<open>Accepting returns exactly when, after some number of sleeps, other threads have brought
  the number of sessions below the limit. In the modes with a single thread nothing else runs
  while it sleeps: at the limit it never returns, and no session it waits for can end.\<close>

theorem accepting_waits_for_others:
  "(accept_connection_fd klass w c \<noteq> None \<longleftrightarrow>
      milter_client_get_max_connections klass c = 0 \<or>
      (\<exists>k. n_processing_sessions (fold (world_others w) [0..<k] c) < milter_client_get_max_connections klass c)) \<and>
   (single_threaded w \<longrightarrow> (accept_connection_fd klass w c = None \<longleftrightarrow>
      0 < milter_client_get_max_connections klass c \<and>
      milter_client_get_max_connections klass c \<le> n_processing_sessions c))"
proof -
  let ?m = "milter_client_get_max_connections klass c" and ?o = "world_others w"
  have returns: "accept_connection_fd klass w c \<noteq> None \<longleftrightarrow> suspend_accepting ?m ?o 0 c \<noteq> None"
    by (simp add: accept_connection_fd_def split: option.splits)
  have "suspend_accepting ?m ?o 0 c \<noteq> None \<longleftrightarrow> (\<exists>k. \<not> (0 < ?m \<and> ?m \<le> n_processing_sessions (fold ?o [0..<k] c)))"
    using suspend_returns [of ?m ?o 0 _ c] suspend_returned [of ?m ?o 0 c] by fastforce
  also have "\<dots> \<longleftrightarrow> ?m = 0 \<or> (\<exists>k. n_processing_sessions (fold ?o [0..<k] c) < ?m)"
    by (auto simp: word_gt_0 not_le)
  finally have all: "accept_connection_fd klass w c \<noteq> None \<longleftrightarrow>
      ?m = 0 \<or> (\<exists>k. n_processing_sessions (fold ?o [0..<k] c) < ?m)" using returns by simp
  moreover have "n_processing_sessions (fold ?o [0..<k] c) = n_processing_sessions c" if "single_threaded w" for k
    using that by (induction k) (simp_all add: single_threaded_def)
  ultimately show ?thesis by (auto simp: word_gt_0 not_less)
qed

text \<open>A worker that fails to accept a connection, for any reason but that there is none, is
  not called for the next: its watcher is gone while it still listens and runs.\<close>

theorem worker_stops_accepting:
  assumes "loop_watchers (loop_of (event_loop c)) tag = Some x" and "callback x = WORKER_ACCEPT_WATCH_FUNC"
    and "event_loop c \<noteq> None" and "single_threaded w" and "world_accept w = Not_accepted e" and "e \<noteq> EAGAIN"
    and "client_step klass (Dispatch_event_loop tag w) c = Some c'"
  shows "loop_watchers (loop_of (event_loop c')) tag = None \<and> listening_channel c' = listening_channel c \<and>
    quitting c' = quitting c \<and> accept_watch_id c' = accept_watch_id c \<and> client_is_running c' = client_is_running c"
proof -
  obtain c1 where acc: "accept_connection_fd klass w c = Some (Not_accepted e, c1)"
    using assms(1,2,5,7)
    by (auto simp: client_step_def dispatch_watcher_def call_client_callback_def worker_accept_watch_func_def
        accept_connection_fd_def split: option.splits)
  then have c1: "c1 = client_emit (Signal_error MILTER_CONNECTION_ERROR_ACCEPT_FAILURE) c"
    using assms(4-6) suspend_single [of "world_others w" "milter_client_get_max_connections klass c" 0 c]
    by (auto simp: accept_connection_fd_def single_threaded_def split: option.splits errno.splits)
  have "c' = event_loop_remove tag c1"
    using assms(1,2,6,7) acc
    by (simp add: client_step_def dispatch_watcher_def call_client_callback_def worker_accept_watch_func_def
        event_loop_remove_def)
  then show ?thesis using assms(3)
    by (auto simp: c1 event_loop_remove_def change_event_loop_def client_emit_def remove_watcher_def
        client_is_running_def milter_event_loop_is_running_def)
qed

subsection \<open>Maintenance\<close>

text \<open>The client is to be maintained when it has become idle, or when the number of sessions
  processed has passed a multiple of the interval while the last ones were freed.\<close>

theorem maintenance_due:
  assumes "n \<le> n_processed_sessions c"
  shows "milter_client_need_maintain klass c n \<longleftrightarrow>
    (n_processing_sessions c = 0 \<and> n \<noteq> 0) \<or>
    (\<exists>m. let i = unat (milter_client_get_maintenance_interval klass c)
         in i \<noteq> 0 \<and> unat (n_processed_sessions c) - unat n < m * i \<and> m * i \<le> unat (n_processed_sessions c))"
proof -
  let ?i = "unat (milter_client_get_maintenance_interval klass c)" and ?p = "unat (n_processed_sessions c)"
  have n: "unat n \<le> ?p" using assms by (simp add: word_le_nat_alt)
  have "(\<exists>m. ?i \<noteq> 0 \<and> ?p - unat n < m * ?i \<and> m * ?i \<le> ?p) \<longleftrightarrow> ?i \<noteq> 0 \<and> ?p mod ?i < unat n"
  proof safe
    fix m assume m: "0 < ?i" "?p - unat n < m * ?i" "m * ?i \<le> ?p"
    then have "m \<le> ?p div ?i" by (simp add: less_eq_div_iff_mult_less_eq)
    then have "m * ?i \<le> ?p div ?i * ?i" by simp
    moreover have "?p div ?i * ?i + ?p mod ?i = ?p" by simp
    ultimately show "?p mod ?i < unat n" using m n by linarith
  next
    assume a: "0 < ?i" "?p mod ?i < unat n"
    have "?p div ?i * ?i + ?p mod ?i = ?p" by simp
    with a n show "\<exists>m. ?i \<noteq> 0 \<and> ?p - unat n < m * ?i \<and> m * ?i \<le> ?p"
      by (intro exI [of _ "?p div ?i"]) linarith
  qed
  then show ?thesis
    by (auto simp: milter_client_need_maintain_def Let_def word_gt_0 word_less_nat_alt unat_mod unat_eq_0)
qed

subsection \<open>Draining\<close>

text \<open>How much is left to do, not counting the watcher that is being called.\<close>

definition work :: "u32 \<Rightarrow> 'a milter_client_scheme \<Rightarrow> nat" where
  "work stale c = 3 * card (pending_setups (own_but stale c)) + 2 * length (finished_handlers c) +
     (if finished_data c = None then 0 else 1)"

lemma same_sessions_work: "same_sessions c c' \<Longrightarrow> event_loop c \<noteq> None \<Longrightarrow> work stale c' = work stale c"
  using same_sessions_own [of c c'] by (simp add: work_def same_sessions_def)

lemma fold_finish_handlers:
  "set ds \<inter> set (finished_handlers c) = {} \<Longrightarrow> finished_handlers (fold finish_processing ds c) = finished_handlers c"
  by (induction ds arbitrary: c) (simp_all add: remove1_idem)

lemma free_finished_work:
  assumes "to_be_freed stale c"
  shows "work stale (free_finished c) = 3 * card (pending_setups (own_but stale c)) + 2 * length (finished_handlers c)"
proof -
  have "set (finished_list c) \<inter> set (finished_handlers c) = {}"
    using assms by (auto simp: to_be_freed_def freeing_def session_table_def)
  from fold_finish_handlers [OF this] show ?thesis
    using free_finished_ok(2) [OF assms] by (simp add: work_def free_finished_def)
qed

lemma card_pending_le: "card (pending_setups (W(tag := None))) \<le> card (pending_setups W)"
  using pending_setups_remove [of W tag] by simp

lemma work_removed:
  assumes "event_loop c \<noteq> None" and "own_watchers c 0 = None"
  shows "work 0 (event_loop_remove tag c) = work tag c"
proof -
  have "own_but 0 (event_loop_remove tag c) = own_but tag c" using assms by (auto simp: fun_upd_idem)
  then show ?thesis unfolding work_def by simp
qed

text \<open>The inputs that bring a session to its end: its context finishes, the finisher or the set-up
  of an accepted connection is called.\<close>

fun effective :: "'a milter_client_scheme \<Rightarrow> 'a milter_client_scheme client_event \<Rightarrow> bool" where
  "effective c (Session_finished d) \<longleftrightarrow> d \<in> set (finished_handlers c)"
| "effective c (Dispatch_event_loop tag w) \<longleftrightarrow>
     (case own_watchers c tag of
        None \<Rightarrow> False
      | Some x \<Rightarrow> is_finisher (callback x) \<or> tag \<in> pending_setups (own_watchers c))"
| "effective c _ \<longleftrightarrow> False"

lemma own_watchers_loop:
  "own_watchers c tag = Some x \<Longrightarrow> loop_watchers (loop_of (event_loop c)) tag = Some x \<and> callback x \<noteq> Subclass_callback"
  by (auto simp: client_watchers_def split: option.splits if_splits)

context client_methods
begin

lemma dispose_finished_data_work:
  assumes "to_be_freed stale c"
  shows "work stale (dispose_finished_data klass c) =
    3 * card (pending_setups (own_but stale c)) + 2 * length (finished_handlers c)"
proof -
  have "event_loop (free_finished c) \<noteq> None"
    using free_finished_ok(1) [OF assms] by (simp add: client_ok_but_def depth_ok_def)
  from same_sessions_work [OF dispose_finished_data_same this] free_finished_work [OF assms] show ?thesis by simp
qed

lemma cb_finished_work:
  assumes ok: "client_ok_but stale c" and d: "d \<in> set (finished_handlers c)" and stale: "stale_ok stale c"
    and run: "single_thread_cb_finished klass d c = Some c'"
  shows "work stale c' < work stale c"
proof -
  have len: "length (remove1 d (finished_handlers c)) + 1 = length (finished_handlers c)"
    using d by (simp add: length_remove1) (metis Suc_pred length_pos_if_in_set)
  have stale': "stale_ok stale (ended d c)" using stale by (simp add: stale_ok_def)
  from cb_finished_cases [OF run] show ?thesis
  proof (elim disjE exE conjE)
    assume c': "c' = dispose_finished_data klass (dispose_finisher (ended d c))"
    have base: "watchers_base stale (ended d c)"
      using ok by (simp add: client_ok_but_def watchers_ok_def watchers_base_def)
    note free = dispose_finisher_to_be_freed [OF base ended_freeing [OF ok d]]
    have "sessions stale (dispose_finisher (ended d c)) = sessions stale (ended d c)" by (rule free(3))
    then have "card (pending_setups (own_but stale (dispose_finisher (ended d c)))) = card (pending_setups (own_but stale c))"
      by (simp add: sessions_def)
    then show ?thesis using dispose_finished_data_work [OF free(1)] len by (simp add: c' work_def)
  next
    fix tag c1
    assume no: "finisher_id c = 0" and c': "c' = c1\<lparr>finisher_id := tag\<rparr>"
      and add: "in_event_loop (\<lambda>l. add_idle_full l (SINGLE_THREAD_FINISHER d)) (ended d c) = Some (tag, c1)"
    have none: "finished_data c = None" using ok no by (simp add: client_ok_but_def watchers_ok_def)
    have s: "sessions stale c' = sessions stale c"
      unfolding c' by (rule finisher_added(3) [OF ok d stale no add])
    have fields: "processing_data c' = processing_data c" "finished_handlers c' = remove1 d (finished_handlers c)"
      "finished_data c' \<noteq> None"
      using add by (auto simp: c' in_event_loop_def split: option.splits)
    have "card (pending_setups (own_but stale c')) = card (pending_setups (own_but stale c))"
      using s fields(1) by (simp add: sessions_def)
    then show ?thesis using len none fields by (simp add: work_def)
  next
    assume "c' = ended d c"
    then show ?thesis using len by (simp add: work_def)
  qed
qed

lemma setup_work:
  assumes one: "one_more stale c" and stale: "stale_ok stale c"
    and run: "single_thread_client_channel_setup klass started c = Some c'"
  shows "work stale c' \<le> work stale c + 2"
proof -
  let ?d = "next_process_data c" and ?c = "with_new_data c"
  note new = with_new_data_ok [OF one]
  have w: "work stale ?c = work stale c + 2" by (simp add: work_def with_new_data_def)
  have loop: "event_loop ?c \<noteq> None" using new(1) by (simp add: client_ok_but_def depth_ok_def)
  have emit: "client_ok_but stale (client_emit x ?c)" "work stale (client_emit x ?c) = work stale c + 2" for x
    using same_sessions_ok(1) [OF same_sessions_emit new(1)] same_sessions_work [OF same_sessions_emit loop] w by simp_all
  have loop': "event_loop (client_emit x ?c) \<noteq> None" for x using loop by (simp add: client_emit_def)
  have stale': "stale_ok stale (client_emit x ?c)" for x
    using stale new(4) by (simp add: stale_ok_def client_emit_def)
  show ?thesis
  proof (cases started)
    case True
    with run have "c' = class_connection_established klass ?d (client_emit (Signal_connection_established ?d) ?c)"
      by (simp add: single_thread_client_channel_setup_def with_new_data_def Let_def)
    then show ?thesis using same_sessions_work [OF connection_established loop'] emit(2) by simp
  next
    case False
    with run have "single_thread_cb_finished klass ?d (client_emit (Signal_session_error ?d) ?c) = Some c'"
      by (simp add: single_thread_client_channel_setup_def with_new_data_def Let_def)
    from cb_finished_work [OF emit(1) _ stale' this] new(3) emit(2) show ?thesis by (simp add: client_emit_def)
  qed
qed

lemma finisher_work:
  assumes ok: "client_ok c" and x: "own_watchers c tag = Some x" "callback x = SINGLE_THREAD_FINISHER d"
  shows "work 0 (event_loop_remove tag (snd (single_thread_finisher klass c))) < work 0 c"
proof -
  let ?c = "c\<lparr>finisher_id := 0\<rparr>" and ?c' = "snd (single_thread_finisher klass c)"
  note free = finisher_freed [OF ok x]
  have some: "finished_data c \<noteq> None"
  proof -
    have "registered is_finisher (own_watchers c) (finisher_id c)" "finisher_id c = 0 \<longleftrightarrow> finished_data c = None"
      "own_watchers c 0 = None"
      using ok unfolding client_ok_but_def watchers_ok_def watchers_base_def ok_own [OF ok] by blast+
    with x show ?thesis unfolding registered_def by (metis is_finisher_simps(1) option.distinct(1))
  qed
  have c': "?c' = dispose_finished_data klass ?c" by (simp add: single_thread_finisher_def)
  have "event_loop ?c' \<noteq> None" "own_watchers ?c' 0 = None"
    using dispose_finished_data_ok(1) [OF free(1)] unfolding c'
    by (simp_all add: client_ok_but_def depth_ok_def watchers_ok_def watchers_base_def)
  note work_removed [OF this, of tag]
  also have "work tag ?c' = 3 * card (pending_setups (own_but tag c)) + 2 * length (finished_handlers c)"
    unfolding c' using dispose_finished_data_work [OF free(1)] by simp
  also have "\<dots> < work 0 c"
    using if_not_P [OF some, of 0 "1::nat"] card_pending_le [of "own_watchers c" tag] unfolding work_def ok_own [OF ok] by simp
  finally show ?thesis .
qed

lemma idle_setup_work:
  assumes ok: "client_ok c" and x: "own_watchers c tag = Some x"
      "callback x = SINGLE_THREAD_CB_IDLE_CLIENT_CHANNEL_SETUP fd"
    and run: "single_thread_client_channel_setup klass started c = Some c'"
  shows "work 0 (event_loop_remove tag c') < work 0 c"
proof -
  note one = idle_setup_one_more [OF ok x]
  have stale: "stale_ok tag c" using x by (simp add: stale_ok_def)
  have ok': "client_ok_but tag c'" using setup_ok [OF one(1) stale run] by blast
  have "event_loop c' \<noteq> None" "own_watchers c' 0 = None"
    using ok' by (simp_all add: client_ok_but_def depth_ok_def watchers_ok_def watchers_base_def)
  from work_removed [OF this, of tag] have "work 0 (event_loop_remove tag c') = work tag c'" .
  moreover have "work tag c + 3 = work 0 c"
    unfolding work_def ok_own [OF ok] using pending_setups_remove [of "own_watchers c" tag] x by simp
  ultimately show ?thesis using setup_work [OF one(1) stale run] by simp
qed

lemma effective_work:
  assumes ok: "client_ok c" and ev: "effective c ev" and run: "client_step klass ev c = Some c'"
  shows "work 0 c' < work 0 c"
proof (cases ev)
  case (Session_finished d)
  then show ?thesis using ev run cb_finished_work [OF ok, of d c'] by (simp add: client_step_def stale_ok_def)
next
  case (Dispatch_event_loop tag w)
  then obtain x where x: "own_watchers c tag = Some x" using ev by (auto split: option.splits)
  note at = own_watchers_loop [OF this]
  have "is_finisher (callback x) \<or> tag \<in> pending_setups (own_watchers c)" using ev Dispatch_event_loop x by simp
  then show ?thesis
  proof
    assume "is_finisher (callback x)"
    then obtain d where d: "callback x = SINGLE_THREAD_FINISHER d" by (auto simp: is_finisher_def)
    then have "c' = event_loop_remove tag (snd (single_thread_finisher klass c))"
      using run Dispatch_event_loop at
      by (simp add: client_step_def dispatch_watcher_def call_client_callback_def single_thread_finisher_def
          event_loop_remove_def)
    then show ?thesis using finisher_work [OF ok x d] by simp
  next
    assume "tag \<in> pending_setups (own_watchers c)"
    then obtain fd where fd: "callback x = SINGLE_THREAD_CB_IDLE_CLIENT_CHANNEL_SETUP fd"
      using x by (auto simp: pending_setups_def)
    then obtain c1 where "single_thread_client_channel_setup klass (world_started w) c = Some c1"
      "c' = event_loop_remove tag c1"
      using run Dispatch_event_loop at
      by (auto simp: client_step_def dispatch_watcher_def call_client_callback_def event_loop_remove_def
          split: option.splits)
    then show ?thesis using idle_setup_work [OF ok x fd] by simp
  qed
qed (use ev in simp_all)

end

lemma session_left:
  assumes ok: "client_ok c" and "0 < n_processing_sessions c"
  shows "\<exists>ev. effective c ev"
proof -
  have "sessions 0 c \<noteq> 0"
  proof
    assume "sessions 0 c = 0"
    then have "n_processing_sessions c = 0" using ok by (simp add: client_ok_but_def)
    with assms(2) show False by simp
  qed
  then have "pending_setups (own_watchers c) \<noteq> {} \<or> set (processing_data c) \<noteq> {}"
    unfolding sessions_def ok_own [OF ok] by auto
  moreover have "set (processing_data c) = set (finished_handlers c) \<union> set (finished_list c)"
    using ok by (simp add: client_ok_but_def session_table_def)
  ultimately consider "pending_setups (own_watchers c) \<noteq> {}" | "finished_handlers c \<noteq> []" | "finished_list c \<noteq> []"
    by auto
  then show ?thesis
  proof cases
    case 1
    then obtain tag x where "tag \<in> pending_setups (own_watchers c)" "own_watchers c tag = Some x"
      by (auto simp: pending_setups_def)
    then have "effective c (Dispatch_event_loop tag w)" for w by simp
    then show ?thesis by blast
  next
    case 2
    then have "effective c (Session_finished (hd (finished_handlers c)))" by simp
    then show ?thesis by blast
  next
    case 3
    then have "finished_data c \<noteq> None" by (cases "finished_data c") (auto simp: finished_list_def)
    moreover have "registered is_finisher (own_watchers c) (finisher_id c)"
      "finisher_id c = 0 \<longleftrightarrow> finished_data c = None"
      using ok unfolding client_ok_but_def watchers_ok_def watchers_base_def ok_own [OF ok] by blast+
    ultimately obtain x where "own_watchers c (finisher_id c) = Some x" "is_finisher (callback x)"
      by (auto simp: registered_def)
    then have "effective c (Dispatch_event_loop (finisher_id c) w)" for w by simp
    then show ?thesis by blast
  qed
qed

text \<open>C12: shutting down ends. While the loop of a client that has been shut down still runs, a
  session can end, an accepted connection be set up or the finisher be called; each of them
  lowers a measure, and when none is possible any more the loop has stopped.\<close>

theorem shutdown_ends:
  assumes "client_methods klass" and "client_idle c" and "length evs < 2 ^ 32"
    and "\<forall>ev \<in> set evs. allowed_event ev" and "client_ran klass sys evs c c'" and "quitting c'"
  shows "(client_is_running c' \<longrightarrow> (\<exists>ev. effective c' ev)) \<and>
    (\<forall>ev c''. effective c' ev \<and> client_step klass ev c' = Some c'' \<longrightarrow> work 0 c'' < work 0 c')"
proof -
  note ok = ran_ok [OF assms(1-5)]
  have "0 < n_processing_sessions c'" if "client_is_running c'"
    using ok that assms(6)
    by (auto simp: client_ok_but_def depth_ok_def client_is_running_def milter_event_loop_is_running_def
        word_gt_0 split: if_splits)
  with session_left [OF ok] client_methods.effective_work [OF assms(1) ok] show ?thesis by blast
qed

subsection \<open>The client's own class, and a run of it\<close>

interpretation base_client: client_methods "milter_client_class P getaddrinfo4 getaddrinfo6"
  for P getaddrinfo4 getaddrinfo6
  by unfold_locales (simp_all add: milter_client_class_def)

lemma next_watcher_id_next [simp]: "tag + 1 \<noteq> 0 \<Longrightarrow> ws (tag + 1) = None \<Longrightarrow> next_watcher_id ws tag = Some (tag + 1)"
  by (subst next_watcher_id.simps) simp

definition sample_client :: milter_client where
  "sample_client = milter_client_init\<lparr>event_loop := Some milter_libev_event_loop_new, listen_channel := Some 3\<rparr>"

definition sample_world :: "milter_client world" where
  "sample_world = \<lparr>world_accept = Accepted 4, world_started = True, world_control_eof = False,
     world_others = (\<lambda>_ c. c)\<rparr>"

lemma sample_client_idle: "client_idle sample_client"
  by (simp add: client_idle_def sample_client_def milter_client_init_def)
    (simp add: milter_libev_event_loop_new_def)

text \<open>A connection is accepted, the client is shut down, the session ends and is freed.\<close>

definition sample_events :: "milter_client client_event list" where
  "sample_events = [Dispatch_event_loop 1 sample_world, Shutdown_requested]"

definition sample_prepared :: milter_client where
  "sample_prepared = sample_client\<lparr>listening_channel := Some 3, accept_watch_id := 1, accept_error_watch_id := 2,
     event_loop := Some \<lparr>loop_depth = 1, loop_id = 2,
       loop_watchers = [1 \<mapsto> Io_watcher 3 1 SINGLE_THREAD_SINGLE_LOOP_ACCEPT_WATCH_FUNC,
                        2 \<mapsto> Io_watcher 3 0 ACCEPT_ERROR_WATCH_FUNC]\<rparr>\<rparr>"

definition sample_stopping :: milter_client where
  "sample_stopping = sample_client\<lparr>quitting := True, n_processing_sessions := 1, next_process_data := 1,
     processing_data := [0], finished_handlers := [0], client_signals := [Signal_connection_established 0],
     event_loop := Some \<lparr>loop_depth = 1, loop_id = 2, loop_watchers = Map.empty\<rparr>\<rparr>"

lemma sample_run: "client_ran sample_client_class sample_client_system sample_events sample_client sample_stopping"
proof -
  have no_condition: "(2147483648 :: u16) = 0" by simp
  have prepare: "milter_client_prepare sample_client_class sample_client_system Watch_event_loop
      SINGLE_THREAD_SINGLE_LOOP_ACCEPT_WATCH_FUNC sample_client =
    Some (Ok (None, sample_prepared\<lparr>event_loop := Some ((the (event_loop sample_prepared))\<lparr>loop_depth := 0\<rparr>)\<rparr>))"
    by (simp add: milter_client_prepare_def sample_client_def milter_client_init_def watch_accepting_def
        watch_listening_channel_def in_event_loop_def watch_io_full_def add_watcher_def
        milter_libev_event_loop_new_def sample_prepared_def evcond_from_g_io_condition_def or_short_def
        EV_READ_def EV_ERROR_def no_condition)
  have accept: "client_step sample_client_class (Dispatch_event_loop 1 sample_world) sample_prepared =
    Some (sample_prepared\<lparr>n_processing_sessions := 1, next_process_data := 1, processing_data := [0],
      finished_handlers := [0], client_signals := [Signal_connection_established 0]\<rparr>)" (is "_ = Some ?c")
    by (simp add: client_step_def dispatch_watcher_def sample_prepared_def call_client_callback_def
        single_thread_single_loop_accept_watch_func_def accept_connection_fd_def sample_world_def
        suspend_accepting.simps [of 0] milter_client_get_max_connections_def sample_client_class_def
        milter_client_class_def sample_client_def milter_client_init_def milter_client_session_started_def
        single_thread_client_channel_setup_def client_emit_def)
  have down: "milter_client_shutdown ?c = sample_stopping"
    by (simp add: milter_client_shutdown_def change_accept_loop_def sample_prepared_def sample_client_def
        milter_client_init_def dispose_accept_watchers_def event_loop_remove_def change_event_loop_def
        remove_watcher_def sample_stopping_def fun_upd_twist fun_upd_idem word_gt_0)
  have "milter_client_get_event_loop sample_client_class sample_client = sample_client"
    by (rule get_event_loop_idle) (simp add: sample_client_def)
  moreover have "change_event_loop enter_loop
      (sample_prepared\<lparr>event_loop := Some ((the (event_loop sample_prepared))\<lparr>loop_depth := 0\<rparr>)\<rparr>) = sample_prepared"
    by (simp add: change_event_loop_def enter_loop_def sample_prepared_def)
  moreover have "client_is_running sample_prepared" "client_is_running ?c"
    by (simp_all add: client_is_running_def milter_event_loop_is_running_def sample_prepared_def)
  then have "client_loop sample_client_class sample_events sample_prepared = Some sample_stopping"
    using accept down by (simp add: sample_events_def) (simp add: client_step_def)
  ultimately show ?thesis
    by (simp add: client_ran_def single_thread_single_loop_run_def prepare)
qed

lemma sample_allowed: "\<forall>ev \<in> set sample_events. allowed_event ev"
  by (simp add: sample_events_def single_threaded_def accept_works_def sample_world_def)

lemma sample_class_methods: "client_methods sample_client_class"
  unfolding sample_client_class_def by (rule base_client.client_methods_axioms)

theorem sessions_accounted_witness:
  "unat (n_processing_sessions sample_stopping) = 1 \<and> set (processing_data sample_stopping) =
     set (finished_handlers sample_stopping) \<union> set (finished_list sample_stopping)"
proof -
  have "length sample_events < 2 ^ 32" by (simp add: sample_events_def)
  from sessions_accounted [OF sample_class_methods sample_client_idle this sample_allowed sample_run]
  show ?thesis by (simp add: sample_stopping_def)
qed

theorem shutdown_waits_for_sessions_witness:
  "client_is_running sample_stopping \<and> own_watchers sample_stopping 1 = None"
proof -
  have "length sample_events < 2 ^ 32" by (simp add: sample_events_def)
  from shutdown_waits_for_sessions [OF sample_class_methods sample_client_idle this sample_allowed sample_run]
  have "client_is_running sample_stopping" by (simp add: sample_stopping_def)
  then show ?thesis by (simp add: sample_stopping_def client_watchers_def)
qed

theorem shutdown_ends_witness:
  "\<exists>ev. effective sample_stopping ev"
proof -
  have "length sample_events < 2 ^ 32" "quitting sample_stopping" "client_is_running sample_stopping"
    by (simp_all add: sample_events_def sample_stopping_def client_is_running_def milter_event_loop_is_running_def)
  with shutdown_ends [OF sample_class_methods sample_client_idle _ sample_allowed sample_run] show ?thesis
    by blast
qed

theorem accepting_waits_for_others_witness:
  "accept_connection_fd sample_client_class sample_world (sample_client\<lparr>client_max_connections := 1, n_processing_sessions := 1\<rparr>) = None"
proof -
  have "single_threaded sample_world" by (simp add: single_threaded_def sample_world_def)
  moreover have "milter_client_get_max_connections sample_client_class
      (sample_client\<lparr>client_max_connections := 1, n_processing_sessions := 1\<rparr>) = 1"
    by (simp add: milter_client_get_max_connections_def sample_client_class_def milter_client_class_def)
  ultimately show ?thesis
    using accepting_waits_for_others [of sample_client_class sample_world
        "sample_client\<lparr>client_max_connections := 1, n_processing_sessions := 1\<rparr>"] by simp
qed

theorem maintenance_due_witness:
  "milter_client_need_maintain sample_client_class
     (sample_client\<lparr>client_maintenance_interval := 10, n_processed_sessions := 21, n_processing_sessions := 3\<rparr>) 2"
proof -
  let ?c = "sample_client\<lparr>client_maintenance_interval := 10, n_processed_sessions := 21, n_processing_sessions := 3\<rparr>"
  have i: "milter_client_get_maintenance_interval sample_client_class ?c = 10"
    by (simp add: milter_client_get_maintenance_interval_def sample_client_class_def milter_client_class_def)
  have "2 \<le> n_processed_sessions ?c" by simp
  from maintenance_due [OF this, of sample_client_class] i show ?thesis
    by (auto simp: Let_def intro: exI [of _ "2 :: nat"])
qed

theorem worker_stops_accepting_witness:
  "loop_watchers (loop_of (event_loop (event_loop_remove 1 (client_emit (Signal_error MILTER_CONNECTION_ERROR_ACCEPT_FAILURE)
      (sample_client\<lparr>event_loop := Some \<lparr>loop_depth = 1, loop_id = 2,
         loop_watchers = [1 \<mapsto> Io_watcher 3 1 WORKER_ACCEPT_WATCH_FUNC]\<rparr>\<rparr>))))) 1 = None"
proof -
  let ?c = "sample_client\<lparr>event_loop := Some \<lparr>loop_depth = 1, loop_id = 2,
      loop_watchers = [1 \<mapsto> Io_watcher 3 1 WORKER_ACCEPT_WATCH_FUNC]\<rparr>\<rparr>"
  let ?w = "sample_world\<lparr>world_accept := Not_accepted EMFILE\<rparr>"
  have step: "client_step sample_client_class (Dispatch_event_loop 1 ?w) ?c =
      Some (event_loop_remove 1 (client_emit (Signal_error MILTER_CONNECTION_ERROR_ACCEPT_FAILURE) ?c))"
    by (simp add: client_step_def dispatch_watcher_def call_client_callback_def worker_accept_watch_func_def
        accept_connection_fd_def sample_world_def suspend_accepting.simps [of 0] event_loop_remove_def
        milter_client_get_max_connections_def sample_client_class_def milter_client_class_def
        sample_client_def milter_client_init_def)
  show ?thesis
    using worker_stops_accepting [OF _ _ _ _ _ _ step, of "Io_watcher 3 1 WORKER_ACCEPT_WATCH_FUNC" EMFILE]
    by (simp add: single_threaded_def sample_world_def)
qed

end
