(* ===== verification/Manager.thy ===== *)
theory Manager
  imports Configuration Client_Sessions
begin

text \<open>
  \<open>milter-manager.c\<close>: the manager is a client whose settings are those of its configuration and
  that has a leader for every session. A leader is named by the number of its session. A timer
  checks, 30 at a time, whether the MTA of a leader is still there. The observers of the
  configuration, which the Ruby bindings implement, are a parameter.
\<close>

record manager = milter_client +
  manager_configuration :: configuration
  manager_leaders :: "nat list"
  next_connection_checked_leader :: "nat option"
  connection_checking :: bool
  launcher_read_channel :: "int option"
  launcher_write_channel :: "int option"
  periodical_connection_checker_id :: u32
  current_periodical_connection_check_interval :: u32
  finished_leaders :: "nat list"
  is_custom_n_workers :: bool
  is_custom_run_as_daemon :: bool
  is_custom_max_pending_finished_sessions :: bool
  manager_sessions :: "nat \<Rightarrow> session"
  checked_leaders :: "nat list"

text \<open>\<open>manager_sessions\<close> are the leaders and contexts themselves; \<open>checked_leaders\<close> records the
  leaders that were checked, in order.\<close>

definition milter_manager_init :: "configuration \<Rightarrow> manager" where
  "milter_manager_init configuration =
     milter_client.extend milter_client_init
       \<lparr>manager_configuration = configuration, manager_leaders = [], next_connection_checked_leader = None,
        connection_checking = False, launcher_read_channel = None, launcher_write_channel = None,
        periodical_connection_checker_id = 0, current_periodical_connection_check_interval = 0,
        finished_leaders = [], is_custom_n_workers = False, is_custom_run_as_daemon = False,
        is_custom_max_pending_finished_sessions = False,
        manager_sessions = (\<lambda>_. (milter_manager_leader_init, milter_client_context_init)),
        checked_leaders = []\<rparr>"

definition milter_manager_new :: "bytes option \<Rightarrow> configuration \<Rightarrow> manager" where
  "milter_manager_new prgname configuration =
     set_property_start_syslog prgname True
       (milter_client_set_syslog_facility prgname (Some ''mail'')
         (milter_client_set_syslog_identify prgname (Some ''milter-manager'')
           (milter_manager_init configuration)))"

record manager_environment =
  menv_network :: network
  menv_children :: children_environment
  menv_connection_check :: "leader \<Rightarrow> bool"
  menv_maintain :: "configuration \<Rightarrow> configuration"
  menv_event_loop_created :: "configuration \<Rightarrow> configuration"
  menv_connected :: "nat \<Rightarrow> configuration \<Rightarrow> configuration"

abbreviation change_configuration :: "(configuration \<Rightarrow> configuration) \<Rightarrow> manager \<Rightarrow> manager" where
  "change_configuration f c \<equiv> c\<lparr>manager_configuration := f (manager_configuration c)\<rparr>"

definition milter_manager_get_configuration :: "manager \<Rightarrow> configuration" where
  "milter_manager_get_configuration c = manager_configuration c"

definition milter_manager_get_leaders :: "manager \<Rightarrow> nat list" where
  "milter_manager_get_leaders c = manager_leaders c"

definition milter_manager_set_launcher_channel :: "int option \<Rightarrow> int option \<Rightarrow> manager \<Rightarrow> manager" where
  "milter_manager_set_launcher_channel read_channel write_channel c =
     c\<lparr>launcher_write_channel := write_channel, launcher_read_channel := read_channel\<rparr>"

subsection \<open>Settings\<close>

definition manager_get_connection_spec :: "manager \<Rightarrow> bytes option" where
  "manager_get_connection_spec c =
     (case manager_connection_spec (manager_configuration c) of
        Some spec \<Rightarrow> Some spec
      | None \<Rightarrow> get_connection_spec c)"

definition manager_set_connection_spec ::
    "platform \<Rightarrow> (bytes \<Rightarrow> u32 option) \<Rightarrow> (bytes \<Rightarrow> 128 word option) \<Rightarrow> bytes option \<Rightarrow> manager \<Rightarrow>
     (gerror option option \<times> manager) result" where
  "manager_set_connection_spec P getaddrinfo4 getaddrinfo6 spec c =
     (case set_connection_spec P getaddrinfo4 getaddrinfo6 spec c of
        Ok (None, c) \<Rightarrow>
          Ok (None, change_configuration
                (\<lambda>conf. milter_manager_configuration_set_manager_connection_spec conf spec) c)
      | r \<Rightarrow> r)"

definition manager_get_unix_socket_mode :: "manager \<Rightarrow> u32" where
  "manager_get_unix_socket_mode c =
     (let mode = manager_unix_socket_mode (manager_configuration c)
      in if mode = 0 then get_unix_socket_mode c else mode)"

definition manager_set_unix_socket_mode :: "u32 \<Rightarrow> manager \<Rightarrow> manager" where
  "manager_set_unix_socket_mode mode c =
     change_configuration (\<lambda>conf. milter_manager_configuration_set_manager_unix_socket_mode conf mode)
       (set_unix_socket_mode mode c)"

definition manager_get_unix_socket_group :: "manager \<Rightarrow> bytes option" where
  "manager_get_unix_socket_group c =
     (case manager_unix_socket_group (manager_configuration c) of
        None \<Rightarrow> get_unix_socket_group c
      | Some x \<Rightarrow> Some x)"

definition manager_set_unix_socket_group :: "bytes option \<Rightarrow> manager \<Rightarrow> manager" where
  "manager_set_unix_socket_group x c =
     change_configuration (\<lambda>conf. milter_manager_configuration_set_manager_unix_socket_group conf x) (set_unix_socket_group x c)"

definition manager_get_effective_user :: "manager \<Rightarrow> bytes option" where
  "manager_get_effective_user c =
     (case effective_user (manager_configuration c) of
        None \<Rightarrow> get_effective_user c
      | Some x \<Rightarrow> Some x)"

definition manager_set_effective_user :: "bytes option \<Rightarrow> manager \<Rightarrow> manager" where
  "manager_set_effective_user x c =
     change_configuration (\<lambda>conf. milter_manager_configuration_set_effective_user conf x) (set_effective_user x c)"

definition manager_get_effective_group :: "manager \<Rightarrow> bytes option" where
  "manager_get_effective_group c =
     (case effective_group (manager_configuration c) of
        None \<Rightarrow> get_effective_group c
      | Some x \<Rightarrow> Some x)"

definition manager_set_effective_group :: "bytes option \<Rightarrow> manager \<Rightarrow> manager" where
  "manager_set_effective_group x c =
     change_configuration (\<lambda>conf. milter_manager_configuration_set_effective_group conf x) (set_effective_group x c)"

definition manager_get_pid_file :: "manager \<Rightarrow> bytes option" where
  "manager_get_pid_file c =
     (case pid_file (manager_configuration c) of
        None \<Rightarrow> get_pid_file c
      | Some x \<Rightarrow> Some x)"

definition manager_set_pid_file :: "bytes option \<Rightarrow> manager \<Rightarrow> manager" where
  "manager_set_pid_file x c =
     change_configuration (\<lambda>conf. milter_manager_configuration_set_pid_file conf x) (set_pid_file x c)"

definition manager_is_remove_unix_socket_on_close :: "manager \<Rightarrow> bool" where
  "manager_is_remove_unix_socket_on_close c = remove_manager_unix_socket_on_close (manager_configuration c)"

definition manager_get_suspend_time_on_unacceptable :: "manager \<Rightarrow> u32" where
  "manager_get_suspend_time_on_unacceptable c = suspend_time_on_unacceptable (manager_configuration c)"

definition manager_set_suspend_time_on_unacceptable :: "u32 \<Rightarrow> manager \<Rightarrow> manager" where
  "manager_set_suspend_time_on_unacceptable x =
     change_configuration (\<lambda>conf. milter_manager_configuration_set_suspend_time_on_unacceptable conf x)"

definition manager_get_max_connections :: "manager \<Rightarrow> u32" where
  "manager_get_max_connections c = max_connections (manager_configuration c)"

definition manager_set_max_connections :: "u32 \<Rightarrow> manager \<Rightarrow> manager" where
  "manager_set_max_connections x =
     change_configuration (\<lambda>conf. milter_manager_configuration_set_max_connections conf x)"

definition manager_get_maintenance_interval :: "manager \<Rightarrow> u32" where
  "manager_get_maintenance_interval c = maintenance_interval (manager_configuration c)"

definition manager_set_maintenance_interval :: "u32 \<Rightarrow> manager \<Rightarrow> manager" where
  "manager_set_maintenance_interval x =
     change_configuration (\<lambda>conf. milter_manager_configuration_set_maintenance_interval conf x)"

definition manager_get_default_packet_buffer_size :: "manager \<Rightarrow> u32" where
  "manager_get_default_packet_buffer_size c = default_packet_buffer_size (manager_configuration c)"

definition manager_set_default_packet_buffer_size :: "u32 \<Rightarrow> manager \<Rightarrow> manager" where
  "manager_set_default_packet_buffer_size x =
     change_configuration (\<lambda>conf. milter_manager_configuration_set_default_packet_buffer_size conf x)"

definition manager_get_n_workers :: "manager \<Rightarrow> u32" where
  "manager_get_n_workers c =
     (if is_custom_n_workers c then get_n_workers c
      else n_workers (manager_configuration c))"

definition manager_set_n_workers :: "u32 \<Rightarrow> manager \<Rightarrow> manager" where
  "manager_set_n_workers x c =
     change_configuration (\<lambda>conf. milter_manager_configuration_set_n_workers conf x)
       (set_n_workers x (c\<lparr>is_custom_n_workers := True\<rparr>))"

definition manager_is_run_as_daemon :: "manager \<Rightarrow> bool" where
  "manager_is_run_as_daemon c =
     (if is_custom_run_as_daemon c then is_run_as_daemon c
      else config_daemon (manager_configuration c))"

definition manager_set_run_as_daemon :: "bool \<Rightarrow> manager \<Rightarrow> manager" where
  "manager_set_run_as_daemon x c =
     change_configuration (\<lambda>conf. milter_manager_configuration_set_daemon conf x)
       (set_run_as_daemon x (c\<lparr>is_custom_run_as_daemon := True\<rparr>))"

definition manager_get_max_pending_finished_sessions :: "manager \<Rightarrow> u32" where
  "manager_get_max_pending_finished_sessions c =
     (if is_custom_max_pending_finished_sessions c then get_max_pending_finished_sessions c
      else max_pending_finished_sessions (manager_configuration c))"

definition manager_set_max_pending_finished_sessions :: "u32 \<Rightarrow> manager \<Rightarrow> manager" where
  "manager_set_max_pending_finished_sessions x c =
     change_configuration (\<lambda>conf. milter_manager_configuration_set_max_pending_finished_sessions conf x)
       (set_max_pending_finished_sessions x (c\<lparr>is_custom_max_pending_finished_sessions := True\<rparr>))"

definition manager_get_event_loop_backend :: "manager \<Rightarrow> event_loop_backend" where
  "manager_get_event_loop_backend c =
     (let backend = get_event_loop_backend c
      in if backend = MILTER_CLIENT_EVENT_LOOP_BACKEND_DEFAULT
         then config_event_loop_backend (manager_configuration c) else backend)"

definition manager_set_event_loop_backend :: "event_loop_backend \<Rightarrow> manager \<Rightarrow> manager" where
  "manager_set_event_loop_backend backend c =
     change_configuration (\<lambda>conf. milter_manager_configuration_set_event_loop_backend conf backend)
       (set_event_loop_backend backend c)"

subsection \<open>Observers\<close>

definition manager_maintain :: "manager_environment \<Rightarrow> manager \<Rightarrow> manager" where
  "manager_maintain e = change_configuration (menv_maintain e)"

definition manager_event_loop_created :: "manager_environment \<Rightarrow> manager \<Rightarrow> manager" where
  "manager_event_loop_created e = change_configuration (menv_event_loop_created e)"

definition dispose_finished_leaders :: "manager \<Rightarrow> manager" where
  "dispose_finished_leaders c = c\<lparr>finished_leaders := []\<rparr>"

definition manager_sessions_finished :: "u32 \<Rightarrow> manager \<Rightarrow> manager" where
  "manager_sessions_finished n_finished_sessions c = dispose_finished_leaders c"

text \<open>\<open>milter_client_get_event_loop\<close> of a manager.\<close>

definition manager_with_event_loop :: "manager_environment \<Rightarrow> manager \<Rightarrow> manager" where
  "manager_with_event_loop e c =
     (case event_loop c of
        Some _ \<Rightarrow> c
      | None \<Rightarrow>
          (manager_event_loop_created e (client_emit Signal_event_loop_created c))
            \<lparr>event_loop := Some milter_libev_event_loop_new\<rparr>)"

subsection \<open>The connection checker\<close>

definition dispose_periodical_connection_checker :: "manager_environment \<Rightarrow> manager \<Rightarrow> manager" where
  "dispose_periodical_connection_checker e c =
     (let c = c\<lparr>current_periodical_connection_check_interval := 0\<rparr>
      in if periodical_connection_checker_id c = 0 then c
         else (event_loop_remove (periodical_connection_checker_id c) (manager_with_event_loop e c))
                \<lparr>periodical_connection_checker_id := 0\<rparr>)"

text \<open>A loop with a watcher under every id, in which no free one is found, is left as it is.\<close>

definition start_periodical_connection_checker :: "manager_environment \<Rightarrow> manager \<Rightarrow> manager" where
  "start_periodical_connection_checker e c =
     (let interval = connection_check_interval (manager_configuration c)
      in if 0 < interval then
           if periodical_connection_checker_id c = 0 \<or>
              interval \<noteq> current_periodical_connection_check_interval c
           then
             let c = manager_with_event_loop e
                   ((dispose_periodical_connection_checker e c)
                     \<lparr>current_periodical_connection_check_interval := interval\<rparr>)
             in case in_event_loop (\<lambda>l. add_timeout_full l (1000 * uint interval) Subclass_callback) c of
                  None \<Rightarrow> c
                | Some (tag, c) \<Rightarrow> c\<lparr>periodical_connection_checker_id := tag\<rparr>
           else c
         else dispose_periodical_connection_checker e c)"

text \<open>The list from a leader's node on.\<close>

definition from_leader :: "nat \<Rightarrow> nat list \<Rightarrow> nat list" where
  "from_leader d = dropWhile (\<lambda>d'. d' \<noteq> d)"

definition node_leader :: "nat list \<Rightarrow> nat option" where
  "node_leader nodes = (case nodes of [] \<Rightarrow> None | d # _ \<Rightarrow> Some d)"

definition manager_cb_leader_finished :: "manager_environment \<Rightarrow> nat \<Rightarrow> manager \<Rightarrow> manager" where
  "manager_cb_leader_finished e d c =
     (let c = (if connection_checking c then c
               else
                 let c = (if d \<in> set (manager_leaders c)
                          then c\<lparr>next_connection_checked_leader :=
                                   (if next_connection_checked_leader c = Some d
                                    then node_leader (tl (from_leader d (manager_leaders c)))
                                    else next_connection_checked_leader c),
                                 manager_leaders := remove1 d (manager_leaders c)\<rparr>
                          else c)
                 in if manager_leaders c = [] then dispose_periodical_connection_checker e c else c)
      in c\<lparr>finished_leaders := d # finished_leaders c\<rparr>)"

text \<open>Whatever a session does, its leader's observer is called when it finishes.\<close>

definition session_changed :: "manager_environment \<Rightarrow> nat \<Rightarrow> session \<Rightarrow> manager \<Rightarrow> manager" where
  "session_changed e d lc c =
     (let finished = leader_attached (fst (manager_sessions c d)) \<and> \<not> leader_attached (fst lc);
          c = c\<lparr>manager_sessions := (manager_sessions c)(d := lc)\<rparr>
      in if finished then manager_cb_leader_finished e d c else c)"

definition leader_configuration_of :: "manager_environment \<Rightarrow> manager \<Rightarrow> leader_configuration" where
  "leader_configuration_of e c =
     configured_leader (menv_network e) (menv_children e) (menv_connection_check e) (manager_configuration c)"

fun check_leaders :: "manager_environment \<Rightarrow> nat \<Rightarrow> nat list \<Rightarrow> manager \<Rightarrow> nat list \<times> manager" where
  "check_leaders e n [] c = ([], c)"
| "check_leaders e 0 nodes c = (nodes, c)"
| "check_leaders e (Suc n) (d # nodes) c =
     (case milter_manager_leader_check_connection (leader_configuration_of e c) (manager_sessions c d) of
        (still_there, lc) \<Rightarrow>
          let c = session_changed e d lc (c\<lparr>checked_leaders := checked_leaders c @ [d]\<rparr>);
              c = (if still_there then c else c\<lparr>manager_leaders := remove1 d (manager_leaders c)\<rparr>)
          in check_leaders e n nodes c)"

definition n_leaders_per_connection_check :: nat where
  "n_leaders_per_connection_check = 30"

definition connection_check :: "manager_environment \<Rightarrow> manager \<Rightarrow> bool \<times> manager" where
  "connection_check e c =
     (let c = c\<lparr>connection_checking := True\<rparr>;
          nodes = (case next_connection_checked_leader c of
                     None \<Rightarrow> manager_leaders c
                   | Some d \<Rightarrow> from_leader d (manager_leaders c))
      in case check_leaders e n_leaders_per_connection_check nodes c of
           (nodes, c) \<Rightarrow>
             let c = c\<lparr>next_connection_checked_leader := node_leader nodes, connection_checking := False\<rparr>
             in (manager_leaders c \<noteq> [], c))"

subsection \<open>A session starts\<close>

definition setup_session :: "manager_environment \<Rightarrow> nat \<Rightarrow> manager \<Rightarrow> manager" where
  "setup_session e d c =
     (let c = c\<lparr>manager_sessions := (manager_sessions c)(d := (milter_manager_leader_init, milter_client_context_init)),
                manager_leaders := d # manager_leaders c\<rparr>
      in change_configuration (menv_connected e d) c)"

definition manager_connection_established :: "manager_environment \<Rightarrow> nat \<Rightarrow> manager \<Rightarrow> manager" where
  "manager_connection_established e d c = start_periodical_connection_checker e (setup_session e d c)"

subsection \<open>The class\<close>

definition milter_manager_class ::
    "manager_environment \<Rightarrow> platform \<Rightarrow> (bytes \<Rightarrow> u32 option) \<Rightarrow> (bytes \<Rightarrow> 128 word option) \<Rightarrow>
     manager client_class" where
  "milter_manager_class e P getaddrinfo4 getaddrinfo6 =
     \<lparr>class_get_connection_spec = manager_get_connection_spec,
      class_set_connection_spec = manager_set_connection_spec P getaddrinfo4 getaddrinfo6,
      class_get_unix_socket_mode = manager_get_unix_socket_mode,
      class_set_unix_socket_mode = manager_set_unix_socket_mode,
      class_get_unix_socket_group = manager_get_unix_socket_group,
      class_set_unix_socket_group = manager_set_unix_socket_group,
      class_is_remove_unix_socket_on_close = Some manager_is_remove_unix_socket_on_close,
      class_get_suspend_time_on_unacceptable = Some manager_get_suspend_time_on_unacceptable,
      class_set_suspend_time_on_unacceptable = Some manager_set_suspend_time_on_unacceptable,
      class_get_max_connections = Some manager_get_max_connections,
      class_set_max_connections = Some manager_set_max_connections,
      class_get_effective_user = manager_get_effective_user,
      class_set_effective_user = manager_set_effective_user,
      class_get_effective_group = manager_get_effective_group,
      class_set_effective_group = manager_set_effective_group,
      class_get_maintenance_interval = Some manager_get_maintenance_interval,
      class_set_maintenance_interval = Some manager_set_maintenance_interval,
      class_get_n_workers = manager_get_n_workers,
      class_set_n_workers = manager_set_n_workers,
      class_get_event_loop_backend = manager_get_event_loop_backend,
      class_set_event_loop_backend = manager_set_event_loop_backend,
      class_get_default_packet_buffer_size = Some manager_get_default_packet_buffer_size,
      class_set_default_packet_buffer_size = Some manager_set_default_packet_buffer_size,
      class_get_pid_file = manager_get_pid_file,
      class_set_pid_file = manager_set_pid_file,
      class_is_run_as_daemon = manager_is_run_as_daemon,
      class_set_run_as_daemon = manager_set_run_as_daemon,
      class_get_max_pending_finished_sessions = manager_get_max_pending_finished_sessions,
      class_set_max_pending_finished_sessions = manager_set_max_pending_finished_sessions,
      class_connection_established = manager_connection_established e,
      class_sessions_finished = manager_sessions_finished,
      class_maintain = manager_maintain e,
      class_event_loop_created = manager_event_loop_created e,
      class_callback = connection_check e\<rparr>"

lemma manager_with_event_loop_eq:
  "manager_with_event_loop e = milter_client_get_event_loop (milter_manager_class e P getaddrinfo4 getaddrinfo6)"
  by (rule ext) (simp add: manager_with_event_loop_def milter_client_get_event_loop_def
      milter_client_create_event_loop_def milter_manager_class_def split: option.split)

subsection \<open>Reloading\<close>

definition apply_syslog_parameters :: "bytes option \<Rightarrow> manager \<Rightarrow> manager" where
  "apply_syslog_parameters prgname c =
     (if use_syslog (manager_configuration c)
      then if milter_client_get_syslog_enabled c
           then milter_client_set_syslog_facility prgname (syslog_facility (manager_configuration c)) c
           else milter_client_start_syslog prgname c
      else milter_client_stop_syslog c)"

text \<open>A setting that was made on the client itself; the location it had in a file is forgotten.\<close>

definition apply_parameter ::
    "'p \<Rightarrow> bool \<Rightarrow> (configuration \<Rightarrow> 'p \<Rightarrow> configuration) \<Rightarrow> bytes \<Rightarrow> configuration \<Rightarrow> configuration" where
  "apply_parameter x given store key conf =
     (if given then milter_manager_configuration_reset_location (store conf x) key else conf)"

definition apply_custom_parameters :: "manager \<Rightarrow> manager" where
  "apply_custom_parameters c =
     (let conf = manager_configuration c;
          conf = apply_parameter (get_connection_spec c) (get_connection_spec c \<noteq> None)
                   milter_manager_configuration_set_manager_connection_spec ''manager.connection_spec'' conf;
          conf = apply_parameter (get_pid_file c) (get_pid_file c \<noteq> None)
                   milter_manager_configuration_set_pid_file ''manager.pid_file'' conf;
          conf = apply_parameter (get_effective_user c) (get_effective_user c \<noteq> None)
                   milter_manager_configuration_set_effective_user ''security.effective_user'' conf;
          conf = apply_parameter (get_effective_group c) (get_effective_group c \<noteq> None)
                   milter_manager_configuration_set_effective_group ''security.effective_grourp'' conf;
          conf = apply_parameter (get_unix_socket_mode c) (get_unix_socket_mode c \<noteq> 0)
                   milter_manager_configuration_set_manager_unix_socket_mode ''manager.unix_socket_mode'' conf;
          conf = apply_parameter (get_unix_socket_group c) (get_unix_socket_group c \<noteq> None)
                   milter_manager_configuration_set_manager_unix_socket_group ''manager.unix_socket_group'' conf;
          conf = apply_parameter (get_n_workers c) (is_custom_n_workers c)
                   milter_manager_configuration_set_n_workers ''manager.n_workers'' conf;
          conf = apply_parameter (get_event_loop_backend c)
                   (get_event_loop_backend c \<noteq> MILTER_CLIENT_EVENT_LOOP_BACKEND_DEFAULT)
                   milter_manager_configuration_set_event_loop_backend ''manager.event_loop_backend'' conf;
          conf = apply_parameter (get_max_pending_finished_sessions c) (is_custom_max_pending_finished_sessions c)
                   milter_manager_configuration_set_max_pending_finished_sessions
                   ''manager.max_pending_finished_sessions'' conf
      in c\<lparr>manager_configuration := conf\<rparr>)"

definition milter_manager_reload ::
    "configuration_build \<Rightarrow> configuration_class \<Rightarrow> file_system \<Rightarrow> bytes option \<Rightarrow> manager \<Rightarrow>
     load_error option \<times> manager" where
  "milter_manager_reload build cls fs prgname c =
     (case milter_manager_configuration_reload build cls fs (manager_configuration c) of
        (e, conf) \<Rightarrow>
          (e, apply_custom_parameters (apply_syslog_parameters prgname (c\<lparr>manager_configuration := conf\<rparr>))))"

end
