(* ===== verification/Manager_Spec.thy ===== *)
theory Manager_Spec
  imports Manager
begin

text \<open>
  The connection checker of the manager: every leader is checked in turn, whatever sessions
  start and end meanwhile, but a checker that ended because the last leader had gone is not
  started again. What a reload does to the settings.
\<close>

subsection \<open>Steps\<close>

text \<open>
  What the client and the event loop call. The checker is called while its watcher is
  registered, which is removed when the checker does not want to be kept.
\<close>

datatype manager_event =
    Session_established nat
  | Session_changed nat session
  | Checker_called
  | Sessions_freed u32

definition checker_registered :: "manager \<Rightarrow> bool" where
  "checker_registered c \<longleftrightarrow>
     (\<exists>w. loop_watchers (loop_of (event_loop c)) (periodical_connection_checker_id c) = Some w \<and>
          callback w = Subclass_callback)"

definition call_checker :: "manager_environment \<Rightarrow> manager \<Rightarrow> manager" where
  "call_checker e c =
     (case connection_check e c of
        (keep, c') \<Rightarrow> if keep then c' else event_loop_remove (periodical_connection_checker_id c) c')"

inductive manager_step :: "manager_environment \<Rightarrow> manager \<Rightarrow> manager_event \<Rightarrow> manager \<Rightarrow> bool"
  for e :: manager_environment
  where
    established: "d \<notin> set (manager_leaders c) \<Longrightarrow>
      manager_step e c (Session_established d) (manager_connection_established e d c)"
  | changed: "manager_step e c (Session_changed d lc) (session_changed e d lc c)"
  | checked: "checker_registered c \<Longrightarrow> manager_step e c Checker_called (call_checker e c)"
  | freed: "manager_step e c (Sessions_freed n) (manager_sessions_finished n c)"

inductive_simps manager_step_simps [simp]:
  "manager_step e c (Session_established d) c'"
  "manager_step e c (Session_changed d lc) c'"
  "manager_step e c Checker_called c'"
  "manager_step e c (Sessions_freed n) c'"

inductive manager_run :: "manager_environment \<Rightarrow> manager \<Rightarrow> manager_event list \<Rightarrow> manager \<Rightarrow> bool"
  for e :: manager_environment
  where
    run_nil: "manager_run e c [] c"
  | run_cons: "manager_step e c ev c1 \<Longrightarrow> manager_run e c1 evs c' \<Longrightarrow> manager_run e c (ev # evs) c'"

inductive_simps manager_run_simps [simp]:
  "manager_run e c [] c'"
  "manager_run e c (ev # evs) c'"

text \<open>The call of the checker is the step of the client's event loop.\<close>

lemma checker_step:
  "checker_registered c \<Longrightarrow>
   client_step (milter_manager_class e P getaddrinfo4 getaddrinfo6)
     (Dispatch_event_loop (periodical_connection_checker_id c) w) c = Some (call_checker e c)"
  by (auto simp: checker_registered_def client_step_def dispatch_watcher_def call_client_callback_def
      call_checker_def milter_manager_class_def event_loop_remove_def split: prod.split)

subsection \<open>The list of leaders\<close>

definition manager_ok :: "manager \<Rightarrow> bool" where
  "manager_ok c \<longleftrightarrow>
     distinct (manager_leaders c) \<and> \<not> connection_checking c \<and>
     (\<forall>d. next_connection_checked_leader c = Some d \<longrightarrow> d \<in> set (manager_leaders c))"

text \<open>The leaders the checker has not come to since it started at the head of the list.\<close>

definition unvisited :: "manager \<Rightarrow> nat list" where
  "unvisited c =
     (case next_connection_checked_leader c of
        None \<Rightarrow> manager_leaders c
      | Some d \<Rightarrow> from_leader d (manager_leaders c))"

lemma from_leader_append [simp]: "d \<notin> set pre \<Longrightarrow> from_leader d (pre @ d # ds) = d # ds"
  by (induction pre) (auto simp: from_leader_def)

lemma from_leader_Cons [simp]: "from_leader d (d' # ds) = (if d' = d then d' # ds else from_leader d ds)"
  by (simp add: from_leader_def)

lemma unvisited_suffix:
  assumes "manager_ok c"
  obtains pre where "manager_leaders c = pre @ unvisited c" "distinct (pre @ unvisited c)"
    "next_connection_checked_leader c = None \<and> pre = [] \<or>
     (\<exists>d ds. next_connection_checked_leader c = Some d \<and> unvisited c = d # ds)"
proof (cases "next_connection_checked_leader c")
  case None
  then show ?thesis using assms that [of "[]"] by (simp add: unvisited_def manager_ok_def)
next
  case (Some d)
  then obtain pre ds where "manager_leaders c = pre @ d # ds" "d \<notin> set pre"
    using assms by (auto simp: manager_ok_def dest: split_list_first)
  then show ?thesis using Some assms that [of pre] by (simp add: unvisited_def manager_ok_def)
qed

lemma unvisited_node:
  assumes "distinct (pre @ nodes)" and "manager_leaders c = pre @ nodes"
    and "next_connection_checked_leader c = node_leader nodes" and "nodes \<noteq> []"
  shows "unvisited c = nodes"
  using assms by (cases nodes) (auto simp: unvisited_def node_leader_def)

subsection \<open>What each step does to the list\<close>

lemma with_event_loop_frame [simp]:
  "manager_leaders (manager_with_event_loop e c) = manager_leaders c"
  "next_connection_checked_leader (manager_with_event_loop e c) = next_connection_checked_leader c"
  "connection_checking (manager_with_event_loop e c) = connection_checking c"
  "checked_leaders (manager_with_event_loop e c) = checked_leaders c"
  by (simp_all add: manager_with_event_loop_def manager_event_loop_created_def client_emit_def split: option.split)

lemma loop_remove_frame [simp]:
  "manager_leaders (event_loop_remove tag c) = manager_leaders c"
  "next_connection_checked_leader (event_loop_remove tag c) = next_connection_checked_leader c"
  "connection_checking (event_loop_remove tag c) = connection_checking c"
  "checked_leaders (event_loop_remove tag c) = checked_leaders c"
  by (simp_all add: event_loop_remove_def change_event_loop_def)

lemma dispose_checker_frame [simp]:
  "manager_leaders (dispose_periodical_connection_checker e c) = manager_leaders c"
  "next_connection_checked_leader (dispose_periodical_connection_checker e c) = next_connection_checked_leader c"
  "connection_checking (dispose_periodical_connection_checker e c) = connection_checking c"
  "checked_leaders (dispose_periodical_connection_checker e c) = checked_leaders c"
  by (simp_all add: dispose_periodical_connection_checker_def Let_def)

lemma start_checker_frame [simp]:
  "manager_leaders (start_periodical_connection_checker e c) = manager_leaders c"
  "next_connection_checked_leader (start_periodical_connection_checker e c) = next_connection_checked_leader c"
  "connection_checking (start_periodical_connection_checker e c) = connection_checking c"
  "checked_leaders (start_periodical_connection_checker e c) = checked_leaders c"
  by (auto simp: start_periodical_connection_checker_def in_event_loop_def Let_def split: option.splits)

lemma established_frame [simp]:
  "manager_leaders (manager_connection_established e d c) = d # manager_leaders c"
  "next_connection_checked_leader (manager_connection_established e d c) = next_connection_checked_leader c"
  "connection_checking (manager_connection_established e d c) = connection_checking c"
  "checked_leaders (manager_connection_established e d c) = checked_leaders c"
  by (simp_all add: manager_connection_established_def setup_session_def Let_def)

lemma freed_frame [simp]:
  "manager_leaders (manager_sessions_finished n c) = manager_leaders c"
  "next_connection_checked_leader (manager_sessions_finished n c) = next_connection_checked_leader c"
  "connection_checking (manager_sessions_finished n c) = connection_checking c"
  "checked_leaders (manager_sessions_finished n c) = checked_leaders c"
  by (simp_all add: manager_sessions_finished_def dispose_finished_leaders_def)

text \<open>Either nothing happens to the list or the leader's node is taken out of it.\<close>

lemma session_changed_leaders:
  fixes e :: manager_environment and d :: nat and lc :: session and c :: manager
  assumes "\<not> connection_checking c"
  defines "c' \<equiv> session_changed e d lc c"
  shows "checked_leaders c' = checked_leaders c" and "\<not> connection_checking c'"
    and "manager_leaders c' = manager_leaders c \<and>
        next_connection_checked_leader c' = next_connection_checked_leader c \<or>
      \<not> leader_attached (fst lc) \<and> d \<in> set (manager_leaders c) \<and>
        manager_leaders c' = remove1 d (manager_leaders c) \<and>
        next_connection_checked_leader c' =
          (if next_connection_checked_leader c = Some d then node_leader (tl (from_leader d (manager_leaders c)))
           else next_connection_checked_leader c)"
  using assms(1) by (simp_all add: c'_def session_changed_def manager_cb_leader_finished_def Let_def)

text \<open>While the checker runs, its own loop is the only one to take nodes out.\<close>

lemma session_changed_checking:
  fixes e :: manager_environment and d :: nat and lc :: session and c :: manager
  assumes "connection_checking c"
  defines "c' \<equiv> session_changed e d lc c"
  shows "manager_leaders c' = manager_leaders c" "connection_checking c'" "checked_leaders c' = checked_leaders c"
    "event_loop c' = event_loop c" "periodical_connection_checker_id c' = periodical_connection_checker_id c"
    "current_periodical_connection_check_interval c' = current_periodical_connection_check_interval c"
    "manager_configuration c' = manager_configuration c"
  using assms(1) by (simp_all add: c'_def session_changed_def manager_cb_leader_finished_def Let_def)

lemma check_leaders_spec:
  assumes "connection_checking c" and "distinct (manager_leaders c)" and "manager_leaders c = pre @ nodes"
  shows "\<exists>pre' c'. check_leaders e n nodes c = (drop n nodes, c') \<and> connection_checking c' \<and>
    manager_leaders c' = pre' @ drop n nodes \<and> distinct (manager_leaders c') \<and>
    set pre \<subseteq> set pre' \<and> set pre' \<subseteq> set pre \<union> set (take n nodes) \<and>
    length (manager_leaders c') \<le> length (manager_leaders c) \<and>
    checked_leaders c' = checked_leaders c @ take n nodes \<and>
    event_loop c' = event_loop c \<and> periodical_connection_checker_id c' = periodical_connection_checker_id c \<and>
    current_periodical_connection_check_interval c' = current_periodical_connection_check_interval c \<and>
    manager_configuration c' = manager_configuration c"
  using assms
proof (induction e n nodes c arbitrary: pre rule: check_leaders.induct)
  case (3 e n d nodes c)
  obtain still_there lc where check: "milter_manager_leader_check_connection (leader_configuration_of e c)
      (manager_sessions c d) = (still_there, lc)" by (rule prod.exhaust)
  let ?c = "session_changed e d lc (c\<lparr>checked_leaders := checked_leaders c @ [d]\<rparr>)"
  let ?c1 = "if still_there then ?c else ?c\<lparr>manager_leaders := remove1 d (manager_leaders ?c)\<rparr>"
  have "connection_checking (c\<lparr>checked_leaders := checked_leaders c @ [d]\<rparr>)" using 3 by simp
  note same = session_changed_checking [OF this, of e d lc, simplified]
  have leaders: "manager_leaders ?c1 = (if still_there then pre @ [d] else pre) @ nodes"
    using 3(3,4) same(1) by (auto simp: remove1_append)
  have "connection_checking ?c1" "distinct (manager_leaders ?c1)"
    using same(1,2) 3(3,4) leaders by auto
  from "3.IH" [OF check [symmetric] refl refl this leaders]
  show ?case using check 3(4) leaders same by (auto simp: Let_def)
qed auto

lemma checker_leaders:
  assumes "manager_ok c"
  defines "nodes \<equiv> drop n_leaders_per_connection_check (unvisited c)"
  shows "\<exists>pre. manager_leaders (call_checker e c) = pre @ nodes \<and> distinct (pre @ nodes) \<and>
      set pre \<subseteq> set (manager_leaders c) \<and>
      set (manager_leaders c) \<subseteq> set (pre @ nodes) \<union> set (take n_leaders_per_connection_check (unvisited c)) \<and>
      length (manager_leaders (call_checker e c)) \<le> length (manager_leaders c)"
    and "next_connection_checked_leader (call_checker e c) = node_leader nodes"
    and "\<not> connection_checking (call_checker e c)"
    and "checked_leaders (call_checker e c) =
      checked_leaders c @ take n_leaders_per_connection_check (unvisited c)"
proof -
  obtain pre where pre: "manager_leaders c = pre @ unvisited c" "distinct (pre @ unvisited c)"
    using unvisited_suffix [OF assms(1)] by metis
  let ?c = "c\<lparr>connection_checking := True\<rparr>"
  have "connection_checking ?c" "distinct (manager_leaders ?c)" "manager_leaders ?c = pre @ unvisited c"
    using pre by simp_all
  from check_leaders_spec [OF this, of e n_leaders_per_connection_check] obtain pre' c' where
    run: "check_leaders e n_leaders_per_connection_check (unvisited c) ?c = (nodes, c')"
      "manager_leaders c' = pre' @ nodes" "distinct (pre' @ nodes)" "set pre \<subseteq> set pre'"
      "set pre' \<subseteq> set pre \<union> set (take n_leaders_per_connection_check (unvisited c))"
      "length (manager_leaders c') \<le> length (manager_leaders c)"
      "checked_leaders c' = checked_leaders c @ take n_leaders_per_connection_check (unvisited c)"
    unfolding nodes_def by auto
  have nodes: "(case next_connection_checked_leader ?c of None \<Rightarrow> manager_leaders ?c
      | Some d \<Rightarrow> from_leader d (manager_leaders ?c)) = unvisited c"
    by (simp add: unvisited_def split: option.split)
  have call: "connection_check e c =
      (manager_leaders c' \<noteq> [],
       c'\<lparr>next_connection_checked_leader := node_leader nodes, connection_checking := False\<rparr>)"
    unfolding connection_check_def Let_def nodes run(1) by simp
  then have frame: "manager_leaders (call_checker e c) = manager_leaders c'"
    "next_connection_checked_leader (call_checker e c) = node_leader nodes"
    "\<not> connection_checking (call_checker e c)" "checked_leaders (call_checker e c) = checked_leaders c'"
    by (simp_all add: call_checker_def)
  have "set pre' \<subseteq> set (manager_leaders c)"
    using run(5) pre(1) set_take_subset [of _ "unvisited c"] by auto
  moreover have "set (unvisited c) = set (take n_leaders_per_connection_check (unvisited c)) \<union> set nodes"
    unfolding nodes_def by (metis append_take_drop_id set_append)
  then have "set (manager_leaders c) \<subseteq> set (pre' @ nodes) \<union> set (take n_leaders_per_connection_check (unvisited c))"
    using run(4) pre(1) by auto
  ultimately show "\<exists>pre. manager_leaders (call_checker e c) = pre @ nodes \<and> distinct (pre @ nodes) \<and>
      set pre \<subseteq> set (manager_leaders c) \<and>
      set (manager_leaders c) \<subseteq> set (pre @ nodes) \<union> set (take n_leaders_per_connection_check (unvisited c)) \<and>
      length (manager_leaders (call_checker e c)) \<le> length (manager_leaders c)"
    using run(2,3,6) frame(1) by auto
  show "next_connection_checked_leader (call_checker e c) = node_leader nodes"
    "\<not> connection_checking (call_checker e c)"
    "checked_leaders (call_checker e c) = checked_leaders c @ take n_leaders_per_connection_check (unvisited c)"
    using frame run(7) by simp_all
qed

subsection \<open>The order of the checks\<close>

text \<open>
  How many checks may come before that of \<open>d\<close>, if there are never more than \<open>N\<close> leaders: those
  up to its place in the list or, when the checker has passed it, those up to the end and then
  up to its place again.
\<close>

definition checks_before :: "nat \<Rightarrow> nat \<Rightarrow> manager \<Rightarrow> nat" where
  "checks_before N d c =
     (case next_connection_checked_leader c of
        None \<Rightarrow> N
      | Some _ \<Rightarrow>
          if d \<in> set (unvisited c) then length (takeWhile (\<lambda>d'. d' \<noteq> d) (unvisited c)) + 1
          else length (unvisited c) + N + n_leaders_per_connection_check - 1)"

lemma takeWhile_place: "d \<in> set ds \<Longrightarrow> length (takeWhile (\<lambda>d'. d' \<noteq> d) ds) < length ds"
  by (induction ds) auto

lemma takeWhile_drop:
  "d \<in> set (drop n ds) \<Longrightarrow> d \<notin> set (take n ds) \<Longrightarrow>
   length (takeWhile (\<lambda>d'. d' \<noteq> d) (drop n ds)) + n = length (takeWhile (\<lambda>d'. d' \<noteq> d) ds)"
proof (induction ds arbitrary: n)
  case (Cons a ds)
  then show ?case by (cases n) auto
qed simp

lemma takeWhile_remove1:
  "length (takeWhile (\<lambda>d'. d' \<noteq> d) (remove1 x ds)) \<le> length (takeWhile (\<lambda>d'. d' \<noteq> d) ds)" if "x \<noteq> d"
  using that by (induction ds) auto

lemma unvisited_length: "manager_ok c \<Longrightarrow> length (unvisited c) \<le> length (manager_leaders c)"
  using unvisited_suffix [of c] by (metis length_append le_add2)

text \<open>A step that neither checks \<open>d\<close> nor ends its session.\<close>

lemma checked_step:
  assumes ok: "manager_ok c" and d: "d \<in> set (manager_leaders c)" and N: "length (manager_leaders c) \<le> N"
    and not_checked: "d \<notin> set (take n_leaders_per_connection_check (unvisited c))"
  shows "manager_ok (call_checker e c)" and "d \<in> set (manager_leaders (call_checker e c))"
    and "checks_before N d (call_checker e c) + n_leaders_per_connection_check \<le> checks_before N d c"
proof -
  let ?k = n_leaders_per_connection_check and ?c = "call_checker e c"
  have k: "0 < ?k" by (simp add: n_leaders_per_connection_check_def)
  define nodes where "nodes = drop ?k (unvisited c)"
  note spec = checker_leaders [OF ok, of e, folded nodes_def]
  obtain pre where pre: "manager_leaders ?c = pre @ nodes" "distinct (pre @ nodes)"
    "set (manager_leaders c) \<subseteq> set (pre @ nodes) \<union> set (take ?k (unvisited c))"
    using spec(1) by blast
  show "d \<in> set (manager_leaders ?c)" using pre d not_checked by auto
  show "manager_ok ?c"
    using pre spec(2,3) by (auto simp: manager_ok_def node_leader_def split: list.splits)
  have unvisited: "unvisited ?c = nodes" if "nodes \<noteq> []"
    using unvisited_node [OF pre(2,1) spec(2) that] .
  obtain pre0 where pre0: "manager_leaders c = pre0 @ unvisited c" "distinct (pre0 @ unvisited c)"
    and start: "next_connection_checked_leader c = None \<and> pre0 = [] \<or>
     (\<exists>d ds. next_connection_checked_leader c = Some d \<and> unvisited c = d # ds)"
    using unvisited_suffix [OF ok] by metis
  have split: "d \<in> set (unvisited c) \<longleftrightarrow> d \<in> set nodes"
    using not_checked unfolding nodes_def by (metis Un_iff append_take_drop_id set_append)
  have len: "length nodes = length (unvisited c) - ?k" by (simp add: nodes_def)
  have visited: "length (unvisited c) \<le> N" using unvisited_length [OF ok] N by simp
  show "checks_before N d ?c + ?k \<le> checks_before N d c"
  proof (cases "d \<in> set (unvisited c)")
    case True
    then have "d \<in> set nodes" "nodes \<noteq> []" using split by auto
    then have here: "checks_before N d ?c = length (takeWhile (\<lambda>d'. d' \<noteq> d) nodes) + 1"
      using unvisited spec(2) by (auto simp: checks_before_def node_leader_def split: list.splits)
    have "length (takeWhile (\<lambda>d'. d' \<noteq> d) nodes) + ?k = length (takeWhile (\<lambda>d'. d' \<noteq> d) (unvisited c))"
      using takeWhile_drop [of d ?k "unvisited c"] \<open>d \<in> set nodes\<close> not_checked by (simp add: nodes_def)
    moreover have "length (takeWhile (\<lambda>d'. d' \<noteq> d) (unvisited c)) < N"
      using takeWhile_place [OF True] visited by simp
    ultimately show ?thesis using here True by (auto simp: checks_before_def split: option.split)
  next
    case False
    then have "pre0 \<noteq> []" using pre0 d by auto
    with start have some: "next_connection_checked_leader c \<noteq> None" "unvisited c \<noteq> []" by auto
    then have before: "checks_before N d c = length (unvisited c) + N + ?k - 1"
      using False by (auto simp: checks_before_def)
    show ?thesis
    proof (cases "nodes = []")
      case True
      then have "checks_before N d ?c = N" using spec(2) by (simp add: checks_before_def node_leader_def)
      then show ?thesis using before some(2) k by (cases "unvisited c") auto
    next
      case nonempty: False
      then have "checks_before N d ?c = length nodes + N + ?k - 1"
        using unvisited [OF nonempty] split False spec(2)
        by (auto simp: checks_before_def node_leader_def split: list.splits)
      moreover have "?k \<le> length (unvisited c)" using nonempty len by (cases nodes) simp_all
      ultimately show ?thesis using before len k by simp
    qed
  qed
qed

text \<open>Taking a node out advances the checker past it and brings \<open>d\<close> no further back.\<close>

lemma removed_leader:
  assumes ok: "manager_ok c" and x: "x \<in> set (manager_leaders c)"
    and leaders: "manager_leaders c' = remove1 x (manager_leaders c)"
    and "next": "next_connection_checked_leader c' =
      (if next_connection_checked_leader c = Some x then node_leader (tl (from_leader x (manager_leaders c)))
       else next_connection_checked_leader c)"
    and idle: "\<not> connection_checking c'"
  shows "manager_ok c'" and "x \<noteq> d \<Longrightarrow> checks_before N d c' \<le> checks_before N d c"
proof -
  obtain pre where pre: "manager_leaders c = pre @ unvisited c" "distinct (pre @ unvisited c)"
    "next_connection_checked_leader c = None \<and> pre = [] \<or>
     (\<exists>y ys. next_connection_checked_leader c = Some y \<and> unvisited c = y # ys)"
    using unvisited_suffix [OF ok] by metis
  have "manager_ok c' \<and> (x \<noteq> d \<longrightarrow> checks_before N d c' \<le> checks_before N d c)"
  proof (cases "next_connection_checked_leader c")
    case None
    then have "next_connection_checked_leader c' = None" using "next" by simp
    then show ?thesis using ok idle leaders None by (simp add: manager_ok_def checks_before_def)
  next
    case (Some y)
    then obtain ys where ys: "unvisited c = y # ys" using pre(3) by auto
    have dist: "y \<notin> set pre" "y \<notin> set ys" "distinct pre" "distinct ys" "set pre \<inter> set ys = {}"
      using pre(2) ys by auto
    define pre' where "pre' = remove1 x pre"
    define nodes where "nodes = (if x = y then ys else if x \<in> set pre then y # ys else y # remove1 x ys)"
    have leaders': "manager_leaders c' = pre' @ nodes"
      using leaders pre(1) ys dist x by (auto simp: pre'_def nodes_def remove1_append remove1_idem)
    have distinct': "distinct (pre' @ nodes)"
      using pre(2) ys dist by (auto simp: pre'_def nodes_def dest: notin_set_remove1 set_remove1_subset [THEN subsetD])
    have next': "next_connection_checked_leader c' = node_leader nodes"
      using "next" Some ys pre(1) dist by (auto simp: nodes_def node_leader_def)
    have ok': "manager_ok c'"
      using leaders' distinct' next' idle by (auto simp: manager_ok_def node_leader_def split: list.splits)
    show ?thesis
    proof (cases "nodes = []")
      case True
      then have "x = y" "ys = []" by (auto simp: nodes_def split: if_splits)
      then have "x \<noteq> d \<longrightarrow> checks_before N d c = 1 + N + n_leaders_per_connection_check - 1"
        using Some ys by (simp add: checks_before_def)
      then show ?thesis using ok' next' True by (simp add: checks_before_def node_leader_def)
    next
      case False
      have u: "unvisited c' = nodes" using unvisited_node [OF distinct' leaders' next' False] .
      have "checks_before N d c' \<le> checks_before N d c" if "x \<noteq> d"
      proof -
        have "d \<in> set nodes \<longleftrightarrow> d \<in> set (unvisited c)"
          using that ys by (auto simp: nodes_def in_set_remove1)
        moreover have "length nodes \<le> length (unvisited c)" using ys by (simp add: nodes_def length_remove1)
        moreover have "length (takeWhile (\<lambda>d'. d' \<noteq> d) nodes) \<le> length (takeWhile (\<lambda>d'. d' \<noteq> d) (unvisited c))"
          using that ys takeWhile_remove1 [of x d ys] by (simp add: nodes_def)
        ultimately show ?thesis
          using u next' False Some by (auto simp: checks_before_def node_leader_def split: list.splits)
      qed
      then show ?thesis using ok' by simp
    qed
  qed
  then show "manager_ok c'" "x \<noteq> d \<Longrightarrow> checks_before N d c' \<le> checks_before N d c" by simp_all
qed

fun established_sessions :: "manager_event \<Rightarrow> nat" where
  "established_sessions (Session_established d) = 1"
| "established_sessions ev = 0"

fun ends_session :: "nat \<Rightarrow> manager_event \<Rightarrow> bool" where
  "ends_session d (Session_changed d' lc) \<longleftrightarrow> d' = d \<and> \<not> leader_attached (fst lc)"
| "ends_session d ev \<longleftrightarrow> False"

lemma manager_step_ok:
  assumes ok: "manager_ok c" and step: "manager_step e c ev c'"
  shows "manager_ok c'" and "\<exists>ds. checked_leaders c' = checked_leaders c @ ds"
    and "length (manager_leaders c') \<le> length (manager_leaders c) + established_sessions ev"
proof -
  have idle: "\<not> connection_checking c" using ok by (simp add: manager_ok_def)
  have "manager_ok c' \<and> (\<exists>ds. checked_leaders c' = checked_leaders c @ ds) \<and>
    length (manager_leaders c') \<le> length (manager_leaders c) + established_sessions ev"
  proof (cases ev)
    case (Session_changed x lc)
    then have c': "c' = session_changed e x lc c" using step by simp
    note changed = session_changed_leaders [OF idle, of e x lc, folded c']
    from changed(3) show ?thesis
    proof
      assume "manager_leaders c' = manager_leaders c \<and>
        next_connection_checked_leader c' = next_connection_checked_leader c"
      then show ?thesis using ok changed(1,2) by (simp add: manager_ok_def)
    next
      assume "\<not> leader_attached (fst lc) \<and> x \<in> set (manager_leaders c) \<and>
          manager_leaders c' = remove1 x (manager_leaders c) \<and>
          next_connection_checked_leader c' =
            (if next_connection_checked_leader c = Some x then node_leader (tl (from_leader x (manager_leaders c)))
             else next_connection_checked_leader c)"
      with removed_leader(1) [OF ok _ _ _ changed(2), of x] changed(1)
      show ?thesis by (simp add: length_remove1)
    qed
  next
    case (Session_established x)
    then show ?thesis using ok step by (simp add: manager_ok_def)
  next
    case Checker_called
    then have c': "c' = call_checker e c" using step by simp
    note spec = checker_leaders [OF ok, of e, folded c']
    obtain pre where pre: "manager_leaders c' = pre @ drop n_leaders_per_connection_check (unvisited c)"
      "distinct (pre @ drop n_leaders_per_connection_check (unvisited c))"
      "length (manager_leaders c') \<le> length (manager_leaders c)"
      using spec(1) by blast
    have "manager_ok c'" unfolding manager_ok_def
      using pre(1,2) spec(2,3) by (cases "drop n_leaders_per_connection_check (unvisited c)") (auto simp: node_leader_def)
    then show ?thesis using pre(3) spec(4) by simp
  next
    case (Sessions_freed n)
    then show ?thesis using ok step by (simp add: manager_ok_def)
  qed
  then show "manager_ok c'" "\<exists>ds. checked_leaders c' = checked_leaders c @ ds"
    "length (manager_leaders c') \<le> length (manager_leaders c) + established_sessions ev" by simp_all
qed

lemma manager_run_ok:
  "manager_run e c evs c' \<Longrightarrow> manager_ok c \<Longrightarrow>
   manager_ok c' \<and> (\<exists>ds. checked_leaders c' = checked_leaders c @ ds)"
proof (induction rule: manager_run.induct)
  case (run_cons c ev c1 evs c')
  with manager_step_ok [OF run_cons.prems run_cons.hyps(1)] show ?case by fastforce
qed simp

lemma other_step:
  assumes ok: "manager_ok c" and d: "d \<in> set (manager_leaders c)"
    and step: "manager_step e c ev c'" and ev: "ev \<noteq> Checker_called" "\<not> ends_session d ev"
  shows "d \<in> set (manager_leaders c')" and "checks_before N d c' \<le> checks_before N d c"
proof -
  have "d \<in> set (manager_leaders c') \<and> checks_before N d c' \<le> checks_before N d c"
  proof (cases ev)
    case (Session_established x)
    then have c': "c' = manager_connection_established e x c" and x: "x \<notin> set (manager_leaders c)"
      using step by simp_all
    have "unvisited c' = unvisited c" if "next_connection_checked_leader c = Some y" for y
      using that x c' ok by (auto simp: unvisited_def manager_ok_def)
    then have "checks_before N d c' = checks_before N d c"
      using c' by (simp add: checks_before_def split: option.split)
    then show ?thesis using d c' by simp
  next
    case (Session_changed x lc)
    then have c': "c' = session_changed e x lc c" using step by simp
    have "\<not> connection_checking c" using ok by (simp add: manager_ok_def)
    note changed = session_changed_leaders [OF this, of e x lc, folded c']
    from changed(3) show ?thesis
    proof
      assume "manager_leaders c' = manager_leaders c \<and>
        next_connection_checked_leader c' = next_connection_checked_leader c"
      moreover from this have "unvisited c' = unvisited c" by (simp add: unvisited_def split: option.split)
      ultimately show ?thesis using d by (simp add: checks_before_def split: option.split)
    next
      assume *: "\<not> leader_attached (fst lc) \<and> x \<in> set (manager_leaders c) \<and>
          manager_leaders c' = remove1 x (manager_leaders c) \<and>
          next_connection_checked_leader c' =
            (if next_connection_checked_leader c = Some x then node_leader (tl (from_leader x (manager_leaders c)))
             else next_connection_checked_leader c)"
      then have "x \<noteq> d" using ev(2) Session_changed by auto
      with removed_leader(2) [OF ok _ _ _ changed(2), of x d N] * d show ?thesis by (simp add: in_set_remove1)
    qed
  next
    case (Sessions_freed n)
    then have c': "c' = manager_sessions_finished n c" using step by simp
    then have "unvisited c' = unvisited c" by (simp add: unvisited_def split: option.split)
    then show ?thesis using d c' by (simp add: checks_before_def split: option.split)
  qed (use ev in simp)
  then show "d \<in> set (manager_leaders c')" "checks_before N d c' \<le> checks_before N d c" by simp_all
qed

abbreviation checks :: "manager_event list \<Rightarrow> nat" where
  "checks evs \<equiv> length (filter (\<lambda>ev. ev = Checker_called) evs)"

abbreviation arrivals :: "manager_event list \<Rightarrow> nat" where
  "arrivals evs \<equiv> sum_list (map established_sessions evs)"

lemma run_checks:
  assumes "manager_run e c evs c'" and "manager_ok c" and "d \<in> set (manager_leaders c)"
    and "length (manager_leaders c) + arrivals evs \<le> N" and "\<forall>ev \<in> set evs. \<not> ends_session d ev"
  shows "\<exists>ds. checked_leaders c' = checked_leaders c @ ds \<and>
    (d \<in> set ds \<or> n_leaders_per_connection_check * checks evs < checks_before N d c)"
  using assms
proof (induction rule: manager_run.induct)
  case (run_nil c)
  have "0 < length (manager_leaders c)" using run_nil by (cases "manager_leaders c") auto
  then have "0 < N" using run_nil.prems(3) by linarith
  then have "0 < checks_before N d c"
    using run_nil by (auto simp: checks_before_def n_leaders_per_connection_check_def split: option.split)
  then show ?case by simp
next
  case (run_cons c ev c1 evs c')
  note ok1 = manager_step_ok [OF run_cons.prems(1) run_cons.hyps(1)]
  have N1: "length (manager_leaders c1) + arrivals evs \<le> N" and N0: "length (manager_leaders c) \<le> N"
    using ok1(3) run_cons.prems(3) by simp_all
  obtain ds where ds: "checked_leaders c1 = checked_leaders c @ ds" using ok1(2) by blast
  have rest: "\<exists>ds'. checked_leaders c' = checked_leaders c1 @ ds' \<and>
      (d \<in> set ds' \<or> n_leaders_per_connection_check * checks evs < checks_before N d c1)"
    if "d \<in> set (manager_leaders c1)"
    using run_cons.IH ok1(1) that N1 run_cons.prems(4) by simp
  show ?case
  proof (cases "ev = Checker_called")
    case True
    then have c1: "c1 = call_checker e c" using run_cons.hyps(1) by simp
    show ?thesis
    proof (cases "d \<in> set (take n_leaders_per_connection_check (unvisited c))")
      case True
      then have "d \<in> set ds" using checker_leaders(4) [OF run_cons.prems(1), of e] ds c1 by simp
      moreover obtain ds' where "checked_leaders c' = checked_leaders c1 @ ds'"
        using manager_run_ok [OF run_cons.hyps(2) ok1(1)] by blast
      ultimately show ?thesis using ds by auto
    next
      case False
      note step = checked_step [OF run_cons.prems(1,2) N0 False, of e, folded c1]
      from rest [OF step(2)] step(3) ds \<open>ev = Checker_called\<close> show ?thesis by auto
    qed
  next
    case False
    have quiet: "\<not> ends_session d ev" using run_cons.prems(4) by simp
    note step = other_step [OF run_cons.prems(1,2) run_cons.hyps(1) False quiet]
    from rest [OF step(1)] step(2) [of N] ds False show ?thesis by auto
  qed
qed

text \<open>C13: however many sessions start and end meanwhile, the checker comes to every leader whose
  session goes on: at the latest after it has been called so often that 30 leaders a call
  make up two rounds of all leaders there were or came.\<close>

theorem every_leader_checked:
  assumes "manager_run e c evs c'" and "manager_ok c" and "d \<in> set (manager_leaders c)"
    and "\<forall>ev \<in> set evs. \<not> ends_session d ev"
    and "2 * (length (manager_leaders c) + arrivals evs) + 29 \<le> 30 * checks evs"
  shows "\<exists>ds. checked_leaders c' = checked_leaders c @ ds \<and> d \<in> set ds"
proof -
  let ?N = "length (manager_leaders c) + arrivals evs"
  obtain ds where ds: "checked_leaders c' = checked_leaders c @ ds"
    "d \<in> set ds \<or> n_leaders_per_connection_check * checks evs < checks_before ?N d c"
    using run_checks [OF assms(1-3) order_refl assms(4)] by blast
  have "length (unvisited c) \<le> ?N" using unvisited_length [OF assms(2)] by simp
  moreover have "length (takeWhile (\<lambda>d'. d' \<noteq> d) (unvisited c)) < length (unvisited c)" if "d \<in> set (unvisited c)"
    using takeWhile_place [OF that] .
  ultimately have "checks_before ?N d c \<le> 2 * ?N + 29"
    by (auto simp: checks_before_def n_leaders_per_connection_check_def split: option.split)
  then show ?thesis using ds assms(5) by (auto simp: n_leaders_per_connection_check_def)
qed

subsection \<open>A checker that has ended\<close>

text \<open>The id of the checker is kept although nothing is registered under it.\<close>

definition checker_stale :: "manager \<Rightarrow> bool" where
  "checker_stale c \<longleftrightarrow>
     periodical_connection_checker_id c \<noteq> 0 \<and>
     loop_watchers (loop_of (event_loop c)) (periodical_connection_checker_id c) = None \<and>
     current_periodical_connection_check_interval c = connection_check_interval (manager_configuration c) \<and>
     0 < connection_check_interval (manager_configuration c)"

lemma stale_step:
  assumes stale: "checker_stale c" and step: "manager_step e c ev c'" and quiet: "\<forall>d. \<not> ends_session d ev"
    and hook: "\<forall>d conf. connection_check_interval (menv_connected e d conf) = connection_check_interval conf"
  shows "checker_stale c'" and "ev \<noteq> Checker_called"
    and "length (manager_leaders c') = length (manager_leaders c) + established_sessions ev"
proof -
  show "ev \<noteq> Checker_called" using stale step by (auto simp: checker_stale_def checker_registered_def)
  show "length (manager_leaders c') = length (manager_leaders c) + established_sessions ev"
  proof (cases ev)
    case (Session_changed x lc)
    then have "leader_attached (fst lc)" using quiet by auto
    then show ?thesis using step Session_changed by (simp add: session_changed_def Let_def)
  qed (use step \<open>ev \<noteq> Checker_called\<close> in auto)
  show "checker_stale c'"
  proof (cases ev)
    case (Session_established x)
    then have "c' = manager_connection_established e x c" using step by simp
    also have "\<dots> = setup_session e x c"
      using stale hook by (simp add: manager_connection_established_def start_periodical_connection_checker_def
          setup_session_def checker_stale_def Let_def)
    finally show ?thesis using stale hook by (simp add: checker_stale_def setup_session_def Let_def)
  next
    case (Session_changed x lc)
    then have "leader_attached (fst lc)" using quiet by auto
    then show ?thesis using stale step Session_changed by (simp add: session_changed_def checker_stale_def Let_def)
  next
    case (Sessions_freed n)
    then show ?thesis using stale step
      by (simp add: checker_stale_def manager_sessions_finished_def dispose_finished_leaders_def)
  qed (use \<open>ev \<noteq> Checker_called\<close> in simp)
qed

lemma stale_run:
  assumes "manager_run e c evs c'" and "checker_stale c" and "\<forall>ev \<in> set evs. \<forall>d. \<not> ends_session d ev"
    and hook: "\<forall>d conf. connection_check_interval (menv_connected e d conf) = connection_check_interval conf"
  shows "checker_stale c' \<and> checks evs = 0 \<and>
    length (manager_leaders c') = length (manager_leaders c) + arrivals evs"
  using assms(1-3)
proof (induction rule: manager_run.induct)
  case (run_cons c ev c1 evs c')
  then have "\<forall>d. \<not> ends_session d ev" by simp
  from stale_step [OF run_cons.prems(1) run_cons.hyps(1) this hook] run_cons show ?case by simp
qed simp

lemma check_one:
  "check_leaders e n_leaders_per_connection_check [d] c =
     (case milter_manager_leader_check_connection (leader_configuration_of e c) (manager_sessions c d) of
        (still_there, lc) \<Rightarrow>
          let c = session_changed e d lc (c\<lparr>checked_leaders := checked_leaders c @ [d]\<rparr>)
          in ([], if still_there then c else c\<lparr>manager_leaders := remove1 d (manager_leaders c)\<rparr>))"
proof -
  have thirty: "n_leaders_per_connection_check = Suc 29" by (simp add: n_leaders_per_connection_check_def)
  show ?thesis unfolding thirty check_leaders.simps by (simp add: Let_def)
qed

lemma lost_leader:
  assumes ok: "manager_ok c" and leaders: "manager_leaders c = [d]"
    and check: "milter_manager_leader_check_connection (leader_configuration_of e c) (manager_sessions c d) = (False, lc)"
  shows "manager_leaders (call_checker e c) = []"
    and "event_loop (call_checker e c) = event_loop (event_loop_remove (periodical_connection_checker_id c) c)"
    and "periodical_connection_checker_id (call_checker e c) = periodical_connection_checker_id c"
    and "current_periodical_connection_check_interval (call_checker e c) = current_periodical_connection_check_interval c"
    and "manager_configuration (call_checker e c) = manager_configuration c"
proof -
  let ?c = "c\<lparr>connection_checking := True\<rparr>"
  let ?c1 = "session_changed e d lc (?c\<lparr>checked_leaders := checked_leaders ?c @ [d]\<rparr>)"
  have nodes: "(case next_connection_checked_leader ?c of None \<Rightarrow> manager_leaders ?c
      | Some d \<Rightarrow> from_leader d (manager_leaders ?c)) = [d]"
    using ok leaders by (auto simp: manager_ok_def split: option.split)
  have started: "connection_checking (?c\<lparr>checked_leaders := checked_leaders ?c @ [d]\<rparr>)" by simp
  note same = session_changed_checking [OF started, of e d lc, simplified]
  have config: "leader_configuration_of e ?c = leader_configuration_of e c" by (simp add: leader_configuration_of_def)
  have "check_leaders e n_leaders_per_connection_check [d] ?c = ([], ?c1\<lparr>manager_leaders := []\<rparr>)"
    using check config same(1) leaders unfolding check_one by simp
  then have "connection_check e c =
      (False, ?c1\<lparr>manager_leaders := [], next_connection_checked_leader := None, connection_checking := False\<rparr>)"
    unfolding connection_check_def Let_def nodes by (simp add: node_leader_def)
  then have c': "call_checker e c = event_loop_remove (periodical_connection_checker_id c)
      (?c1\<lparr>manager_leaders := [], next_connection_checked_leader := None, connection_checking := False\<rparr>)"
    by (simp add: call_checker_def)
  show "manager_leaders (call_checker e c) = []"
    "event_loop (call_checker e c) = event_loop (event_loop_remove (periodical_connection_checker_id c) c)"
    "periodical_connection_checker_id (call_checker e c) = periodical_connection_checker_id c"
    "current_periodical_connection_check_interval (call_checker e c) = current_periodical_connection_check_interval c"
    "manager_configuration (call_checker e c) = manager_configuration c"
    unfolding c' using same by (simp_all add: event_loop_remove_def change_event_loop_def)
qed

text \<open>C37: when the connection of the only leader is found lost, the checker ends, but its id is
  kept: as long as no session ends in another way, no session that starts afterwards is ever
  checked, however many there are.\<close>

theorem checker_not_restarted:
  assumes "manager_ok c" and "manager_leaders c = [d]" and "checker_registered c"
    and "periodical_connection_checker_id c \<noteq> 0"
    and "current_periodical_connection_check_interval c = connection_check_interval (manager_configuration c)"
    and "0 < connection_check_interval (manager_configuration c)"
    and "milter_manager_leader_check_connection (leader_configuration_of e c) (manager_sessions c d) = (False, lc)"
    and "\<forall>d conf. connection_check_interval (menv_connected e d conf) = connection_check_interval conf"
    and "manager_run e c (Checker_called # evs) c'" and "\<forall>ev \<in> set evs. \<forall>d. \<not> ends_session d ev"
  shows "length (manager_leaders c') = arrivals evs \<and> checks evs = 0 \<and> \<not> checker_registered c'"
proof -
  note lost = lost_leader [OF assms(1,2,7)]
  have "checker_stale (call_checker e c)"
    using assms(3-6) unfolding checker_stale_def lost
    by (auto simp: checker_registered_def event_loop_remove_def change_event_loop_def remove_watcher_def
        milter_libev_event_loop_new_def loop_of_def split: option.splits)
  with stale_run [of e "call_checker e c" evs c'] assms(8-10) lost(1)
  show ?thesis by (auto simp: checker_stale_def checker_registered_def)
qed

subsection \<open>Reloading\<close>

lemma apply_syslog_frame [simp]:
  "manager_configuration (apply_syslog_parameters prgname c) = manager_configuration c"
  "get_connection_spec (apply_syslog_parameters prgname c) = get_connection_spec c"
  "get_pid_file (apply_syslog_parameters prgname c) = get_pid_file c"
  "get_effective_user (apply_syslog_parameters prgname c) = get_effective_user c"
  "get_effective_group (apply_syslog_parameters prgname c) = get_effective_group c"
  "get_unix_socket_mode (apply_syslog_parameters prgname c) = get_unix_socket_mode c"
  "get_unix_socket_group (apply_syslog_parameters prgname c) = get_unix_socket_group c"
  "get_n_workers (apply_syslog_parameters prgname c) = get_n_workers c"
  "get_event_loop_backend (apply_syslog_parameters prgname c) = get_event_loop_backend c"
  "is_custom_n_workers (apply_syslog_parameters prgname c) = is_custom_n_workers c"
  "is_custom_max_pending_finished_sessions (apply_syslog_parameters prgname c) =
     is_custom_max_pending_finished_sessions c"
  "get_max_pending_finished_sessions (apply_syslog_parameters prgname c) = get_max_pending_finished_sessions c"
  "is_custom_run_as_daemon (apply_syslog_parameters prgname c) = is_custom_run_as_daemon c"
  "client_run_as_daemon (apply_syslog_parameters prgname c) = client_run_as_daemon c"
  "client_packet_buffer_size (apply_syslog_parameters prgname c) = client_packet_buffer_size c"
  by (simp_all add: apply_syslog_parameters_def milter_client_set_syslog_facility_def milter_client_start_syslog_def
      milter_client_stop_syslog_def get_connection_spec_def get_pid_file_def get_effective_user_def
      get_effective_group_def get_unix_socket_mode_def get_unix_socket_group_def get_n_workers_def
      get_event_loop_backend_def get_max_pending_finished_sessions_def Let_def)

lemma apply_syslog_enabled:
  "milter_client_get_syslog_enabled (apply_syslog_parameters prgname c) \<longleftrightarrow> use_syslog (manager_configuration c)"
  by (simp add: apply_syslog_parameters_def milter_client_set_syslog_facility_def milter_client_start_syslog_def
      milter_client_stop_syslog_def milter_client_get_syslog_enabled_def Let_def)

lemma apply_parameter_fields [simp]:
  "manager_connection_spec (apply_parameter x given store key conf) = (if given then manager_connection_spec (store conf x) else manager_connection_spec conf)"
  "pid_file (apply_parameter x given store key conf) = (if given then pid_file (store conf x) else pid_file conf)"
  "effective_user (apply_parameter x given store key conf) = (if given then effective_user (store conf x) else effective_user conf)"
  "effective_group (apply_parameter x given store key conf) = (if given then effective_group (store conf x) else effective_group conf)"
  "manager_unix_socket_mode (apply_parameter x given store key conf) = (if given then manager_unix_socket_mode (store conf x) else manager_unix_socket_mode conf)"
  "manager_unix_socket_group (apply_parameter x given store key conf) = (if given then manager_unix_socket_group (store conf x) else manager_unix_socket_group conf)"
  "n_workers (apply_parameter x given store key conf) = (if given then n_workers (store conf x) else n_workers conf)"
  "config_event_loop_backend (apply_parameter x given store key conf) = (if given then config_event_loop_backend (store conf x) else config_event_loop_backend conf)"
  "max_pending_finished_sessions (apply_parameter x given store key conf) = (if given then max_pending_finished_sessions (store conf x) else max_pending_finished_sessions conf)"
  "max_connections (apply_parameter x given store key conf) = (if given then max_connections (store conf x) else max_connections conf)"
  "suspend_time_on_unacceptable (apply_parameter x given store key conf) = (if given then suspend_time_on_unacceptable (store conf x) else suspend_time_on_unacceptable conf)"
  "maintenance_interval (apply_parameter x given store key conf) = (if given then maintenance_interval (store conf x) else maintenance_interval conf)"
  "default_packet_buffer_size (apply_parameter x given store key conf) = (if given then default_packet_buffer_size (store conf x) else default_packet_buffer_size conf)"
  "config_daemon (apply_parameter x given store key conf) = (if given then config_daemon (store conf x) else config_daemon conf)"
  "remove_manager_unix_socket_on_close (apply_parameter x given store key conf) = (if given then remove_manager_unix_socket_on_close (store conf x) else remove_manager_unix_socket_on_close conf)"
  "use_syslog (apply_parameter x given store key conf) = (if given then use_syslog (store conf x) else use_syslog conf)"
  by (simp_all add: apply_parameter_def milter_manager_configuration_reset_location_def
      milter_manager_configuration_set_location_def)

lemmas configuration_setters = milter_manager_configuration_set_manager_connection_spec_def
  milter_manager_configuration_set_pid_file_def milter_manager_configuration_set_effective_user_def
  milter_manager_configuration_set_effective_group_def
  milter_manager_configuration_set_manager_unix_socket_mode_def
  milter_manager_configuration_set_manager_unix_socket_group_def milter_manager_configuration_set_n_workers_def
  milter_manager_configuration_set_event_loop_backend_def
  milter_manager_configuration_set_max_pending_finished_sessions_def

lemmas manager_getters = manager_get_connection_spec_def manager_get_pid_file_def manager_get_effective_user_def
  manager_get_effective_group_def manager_get_unix_socket_mode_def manager_get_unix_socket_group_def
  manager_get_n_workers_def manager_get_event_loop_backend_def manager_get_max_pending_finished_sessions_def
  manager_get_max_connections_def manager_get_suspend_time_on_unacceptable_def
  manager_get_maintenance_interval_def manager_get_default_packet_buffer_size_def

lemmas client_getters = get_connection_spec_def get_pid_file_def get_effective_user_def get_effective_group_def
  get_unix_socket_mode_def get_unix_socket_group_def get_n_workers_def get_event_loop_backend_def
  get_max_pending_finished_sessions_def

text \<open>What the settings on the manager itself make of a configuration.\<close>

definition with_own_settings :: "manager \<Rightarrow> configuration \<Rightarrow> configuration" where
  "with_own_settings c conf = manager_configuration (apply_custom_parameters (c\<lparr>manager_configuration := conf\<rparr>))"

lemma with_own_settings_fields:
  "manager_connection_spec (with_own_settings c conf) =
     (if get_connection_spec c \<noteq> None then get_connection_spec c else manager_connection_spec conf)"
  "pid_file (with_own_settings c conf) = (if get_pid_file c \<noteq> None then get_pid_file c else pid_file conf)"
  "effective_user (with_own_settings c conf) =
     (if get_effective_user c \<noteq> None then get_effective_user c else effective_user conf)"
  "effective_group (with_own_settings c conf) =
     (if get_effective_group c \<noteq> None then get_effective_group c else effective_group conf)"
  "manager_unix_socket_mode (with_own_settings c conf) =
     (if get_unix_socket_mode c \<noteq> 0 then get_unix_socket_mode c else manager_unix_socket_mode conf)"
  "manager_unix_socket_group (with_own_settings c conf) =
     (if get_unix_socket_group c \<noteq> None then get_unix_socket_group c else manager_unix_socket_group conf)"
  "n_workers (with_own_settings c conf) = (if is_custom_n_workers c then get_n_workers c else n_workers conf)"
  "config_event_loop_backend (with_own_settings c conf) =
     (if get_event_loop_backend c \<noteq> MILTER_CLIENT_EVENT_LOOP_BACKEND_DEFAULT then get_event_loop_backend c
      else config_event_loop_backend conf)"
  "max_pending_finished_sessions (with_own_settings c conf) =
     (if is_custom_max_pending_finished_sessions c then get_max_pending_finished_sessions c
      else max_pending_finished_sessions conf)"
  "max_connections (with_own_settings c conf) = max_connections conf"
  "suspend_time_on_unacceptable (with_own_settings c conf) = suspend_time_on_unacceptable conf"
  "maintenance_interval (with_own_settings c conf) = maintenance_interval conf"
  "default_packet_buffer_size (with_own_settings c conf) = default_packet_buffer_size conf"
  "config_daemon (with_own_settings c conf) = config_daemon conf"
  "remove_manager_unix_socket_on_close (with_own_settings c conf) = remove_manager_unix_socket_on_close conf"
  by (simp_all add: with_own_settings_def apply_custom_parameters_def configuration_setters client_getters Let_def)

text \<open>
  C21: after a reload, whether it worked or not, a setting that was made on the manager itself is
  in force again, whatever the files say, if it is the address, the pid file, the user, the group, the
  mode or group of the socket, the number of workers, the kind of event loop, the limit of pending
  sessions, or whether to run as a daemon; where none was made it is that of the files. Whether the
  socket is removed at the end, the limit of connections, the time for which accepting is suspended,
  the maintenance interval and the packet buffer size the manager names are those of the files; the
  packet buffer size that sessions really get is what it was before; and the log is on exactly if the
  files say so.
\<close>

theorem reload_settings:
  "(case milter_manager_configuration_reload build cls fs (manager_configuration c) of
      (err, conf) \<Rightarrow>
        \<exists>c'. milter_manager_reload build cls fs prgname c = (err, c') \<and>
          manager_get_connection_spec c' =
            (case get_connection_spec c of None \<Rightarrow> manager_connection_spec conf | Some x \<Rightarrow> Some x) \<and>
          manager_get_pid_file c' = (case get_pid_file c of None \<Rightarrow> pid_file conf | Some x \<Rightarrow> Some x) \<and>
          manager_get_effective_user c' =
            (case get_effective_user c of None \<Rightarrow> effective_user conf | Some x \<Rightarrow> Some x) \<and>
          manager_get_effective_group c' =
            (case get_effective_group c of None \<Rightarrow> effective_group conf | Some x \<Rightarrow> Some x) \<and>
          manager_get_unix_socket_mode c' =
            (if get_unix_socket_mode c = 0 then manager_unix_socket_mode conf else get_unix_socket_mode c) \<and>
          manager_get_unix_socket_group c' =
            (case get_unix_socket_group c of None \<Rightarrow> manager_unix_socket_group conf | Some x \<Rightarrow> Some x) \<and>
          manager_get_n_workers c' = (if is_custom_n_workers c then get_n_workers c else n_workers conf) \<and>
          manager_get_event_loop_backend c' =
            (if get_event_loop_backend c = MILTER_CLIENT_EVENT_LOOP_BACKEND_DEFAULT
             then config_event_loop_backend conf else get_event_loop_backend c) \<and>
          manager_get_max_pending_finished_sessions c' =
            (if is_custom_max_pending_finished_sessions c then get_max_pending_finished_sessions c
             else max_pending_finished_sessions conf) \<and>
          manager_is_run_as_daemon c' = (if is_custom_run_as_daemon c then is_run_as_daemon c else config_daemon conf) \<and>
          manager_is_remove_unix_socket_on_close c' = remove_manager_unix_socket_on_close conf \<and>
          manager_get_max_connections c' = max_connections conf \<and>
          manager_get_suspend_time_on_unacceptable c' = suspend_time_on_unacceptable conf \<and>
          manager_get_maintenance_interval c' = maintenance_interval conf \<and>
          manager_get_default_packet_buffer_size c' = default_packet_buffer_size conf \<and>
          fst (milter_client_create_context c') = fst (milter_client_create_context c) \<and>
          (milter_client_get_syslog_enabled c' \<longleftrightarrow> use_syslog conf))"
proof -
  obtain err conf where reload:
    "milter_manager_configuration_reload build cls fs (manager_configuration c) = (err, conf)"
    by (rule prod.exhaust)
  define c1 where "c1 = apply_syslog_parameters prgname (c\<lparr>manager_configuration := conf\<rparr>)"
  define c' where "c' = apply_custom_parameters c1"
  have c1: "manager_configuration c1 = conf" by (simp add: c1_def)
  have own: "get_connection_spec c1 = get_connection_spec c" "get_pid_file c1 = get_pid_file c"
    "get_effective_user c1 = get_effective_user c" "get_effective_group c1 = get_effective_group c"
    "get_unix_socket_mode c1 = get_unix_socket_mode c" "get_unix_socket_group c1 = get_unix_socket_group c"
    "get_n_workers c1 = get_n_workers c" "get_event_loop_backend c1 = get_event_loop_backend c"
    "get_max_pending_finished_sessions c1 = get_max_pending_finished_sessions c"
    "is_custom_n_workers c1 = is_custom_n_workers c"
    "is_custom_max_pending_finished_sessions c1 = is_custom_max_pending_finished_sessions c"
    unfolding c1_def apply_syslog_frame by (simp_all add: client_getters)
  have c': "c' = c1\<lparr>manager_configuration := with_own_settings c1 conf\<rparr>"
    using c1 by (cases c1) (simp add: c'_def with_own_settings_def apply_custom_parameters_def Let_def client_getters)
  have own': "get_connection_spec c' = get_connection_spec c" "get_pid_file c' = get_pid_file c"
    "get_effective_user c' = get_effective_user c" "get_effective_group c' = get_effective_group c"
    "get_unix_socket_mode c' = get_unix_socket_mode c" "get_unix_socket_group c' = get_unix_socket_group c"
    "get_n_workers c' = get_n_workers c" "get_event_loop_backend c' = get_event_loop_backend c"
    "get_max_pending_finished_sessions c' = get_max_pending_finished_sessions c"
    "is_custom_n_workers c' = is_custom_n_workers c"
    "is_custom_max_pending_finished_sessions c' = is_custom_max_pending_finished_sessions c"
    unfolding own [symmetric] unfolding c' by (simp_all add: client_getters)
  have daemon: "is_custom_run_as_daemon c' = is_custom_run_as_daemon c" "is_run_as_daemon c' = is_run_as_daemon c"
    "client_packet_buffer_size c' = client_packet_buffer_size c"
    by (simp_all add: c' c1_def is_run_as_daemon_def)
  have conf': "manager_configuration c' = with_own_settings c1 conf" by (simp add: c')
  have "milter_client_get_syslog_enabled c' \<longleftrightarrow> milter_client_get_syslog_enabled c1"
    by (simp add: c' milter_client_get_syslog_enabled_def)
  also have "\<dots> \<longleftrightarrow> use_syslog conf" by (simp add: c1_def apply_syslog_enabled)
  finally have log: "milter_client_get_syslog_enabled c' \<longleftrightarrow> use_syslog conf" .
  have "milter_manager_reload build cls fs prgname c = (err, c')"
    by (simp add: milter_manager_reload_def reload c'_def c1_def)
  then show ?thesis
    unfolding reload
    by (simp add: manager_getters manager_is_run_as_daemon_def manager_is_remove_unix_socket_on_close_def
        milter_client_create_context_def own' conf' daemon with_own_settings_fields own log Let_def split: option.split)
qed

text \<open>The buffer size a session gets is not the one that is set on a manager.\<close>

lemma packet_buffer_size_ignored:
  "milter_client_create_context (milter_client_set_default_packet_buffer_size
       (milter_manager_class e P getaddrinfo4 getaddrinfo6) n c) = milter_client_create_context c"
  by (simp add: milter_client_create_context_def milter_client_set_default_packet_buffer_size_def
      milter_manager_class_def manager_set_default_packet_buffer_size_def)

subsection \<open>A manager with one session\<close>

definition sample_manager :: "configuration \<Rightarrow> bool \<Rightarrow> manager" where
  "sample_manager conf processing =
     (milter_manager_init (conf\<lparr>connection_check_interval := 5\<rparr>))
       \<lparr>event_loop := Some \<lparr>loop_depth = 1, loop_id = 1, loop_watchers = [1 \<mapsto> Timer_watcher 5000 Subclass_callback]\<rparr>,
        manager_leaders := [1], periodical_connection_checker_id := 1,
        current_periodical_connection_check_interval := 5,
        manager_sessions := (\<lambda>_. (milter_manager_leader_init\<lparr>leader_processing := processing\<rparr>,
          milter_client_context_init))\<rparr>"

lemmas sample_manager_simps = sample_manager_def milter_manager_init_def milter_client_init_def
  milter_client.defs manager.defs

lemma sample_manager_ok:
  "manager_ok (sample_manager conf processing)" "manager_leaders (sample_manager conf processing) = [1]"
  "checker_registered (sample_manager conf processing)"
  by (simp_all add: manager_ok_def checker_registered_def loop_of_def sample_manager_simps)

text \<open>A session that has not been negotiated yet is left alone.\<close>

lemma sample_check:
  "call_checker e ((sample_manager conf False)\<lparr>checked_leaders := ds\<rparr>) =
     (sample_manager conf False)\<lparr>checked_leaders := ds @ [1]\<rparr>"
proof -
  let ?c = "(sample_manager conf False)\<lparr>checked_leaders := ds, connection_checking := True\<rparr>"
  let ?s = "(milter_manager_leader_init, milter_client_context_init)"
  have fresh: "milter_manager_leader_check_connection cfg ?s = (True, ?s)" for cfg
    by (simp add: milter_manager_leader_check_connection_def milter_manager_leader_init_def)
  have init: "milter_manager_leader_init\<lparr>leader_processing := False\<rparr> = milter_manager_leader_init"
    by (simp add: milter_manager_leader_init_def)
  have session: "manager_sessions ?c = (\<lambda>_. ?s)" by (simp add: sample_manager_simps init)
  have "session_changed e 1 ?s (?c\<lparr>checked_leaders := ds @ [1]\<rparr>) = ?c\<lparr>checked_leaders := ds @ [1]\<rparr>"
    by (simp add: session_changed_def sample_manager_simps init fun_upd_idem)
  then have "check_leaders e n_leaders_per_connection_check [1] ?c = ([], ?c\<lparr>checked_leaders := ds @ [1]\<rparr>)"
    unfolding check_one by (simp add: session fresh)
  moreover have "manager_leaders ?c = [1]" "next_connection_checked_leader ?c = None"
    by (simp_all add: sample_manager_simps)
  ultimately have "connection_check e ((sample_manager conf False)\<lparr>checked_leaders := ds\<rparr>) =
      (True, ?c\<lparr>checked_leaders := ds @ [1], next_connection_checked_leader := None, connection_checking := False\<rparr>)"
    by (simp add: connection_check_def node_leader_def)
  then show ?thesis by (simp add: call_checker_def sample_manager_simps)
qed

theorem every_leader_checked_witness:
  "\<forall>e conf. checked_leaders ((sample_manager conf False)\<lparr>checked_leaders := [1, 1]\<rparr>) = [1, 1] \<and>
     (\<exists>ds. [1, 1] = [] @ ds \<and> 1 \<in> set ds \<and>
        manager_run e (sample_manager conf False) [Checker_called, Checker_called]
          ((sample_manager conf False)\<lparr>checked_leaders := [1, 1]\<rparr>))"
proof (intro allI)
  fix e conf
  let ?c = "sample_manager conf False"
  have c: "?c = ?c\<lparr>checked_leaders := []\<rparr>" by (simp add: sample_manager_simps)
  have one: "call_checker e ?c = ?c\<lparr>checked_leaders := [1]\<rparr>" using sample_check [where ds = "[]" and e = e and conf = conf] c by simp
  have "checker_registered (?c\<lparr>checked_leaders := [1]\<rparr>)" by (simp add: checker_registered_def loop_of_def sample_manager_simps)
  then have run: "manager_run e ?c [Checker_called, Checker_called] (?c\<lparr>checked_leaders := [1, 1]\<rparr>)"
    using sample_manager_ok(3) one sample_check [where ds = "[1]" and e = e and conf = conf] by simp
  have "checked_leaders ?c = []" by (simp add: sample_manager_simps)
  with every_leader_checked [OF run sample_manager_ok(1), of 1] sample_manager_ok(2)
  have "\<exists>ds. [1, 1] = [] @ ds \<and> 1 \<in> set ds" by simp
  with run show "checked_leaders (?c\<lparr>checked_leaders := [1, 1]\<rparr>) = [1, 1] \<and>
      (\<exists>ds. [1, 1] = [] @ ds \<and> 1 \<in> set ds \<and>
        manager_run e ?c [Checker_called, Checker_called] (?c\<lparr>checked_leaders := [1, 1]\<rparr>))"
    by (simp del: manager_run_simps)
qed

definition sample_manager_environment :: "network \<Rightarrow> children_environment \<Rightarrow> manager_environment" where
  "sample_manager_environment net env =
     \<lparr>menv_network = net, menv_children = env, menv_connection_check = (\<lambda>_. False), menv_maintain = (\<lambda>c. c),
      menv_event_loop_created = (\<lambda>c. c), menv_connected = (\<lambda>_ c. c)\<rparr>"

theorem checker_not_restarted_witness:
  "\<forall>net env conf. \<exists>c'. manager_run (sample_manager_environment net env) (sample_manager conf True)
       [Checker_called, Session_established 2] c' \<and>
     length (manager_leaders c') = 1 \<and> \<not> checker_registered c'"
proof (intro allI)
  fix net env conf
  let ?e = "sample_manager_environment net env" and ?c = "sample_manager conf True"
  obtain lc where check:
    "milter_manager_leader_check_connection (leader_configuration_of ?e ?c) (manager_sessions ?c 1) = (False, lc)"
    by (simp add: milter_manager_leader_check_connection_def leader_configuration_of_def configured_leader_def
        sample_manager_environment_def sample_manager_simps milter_manager_leader_init_def Let_def)
  note lost = lost_leader [OF sample_manager_ok(1,2) check]
  let ?c' = "manager_connection_established ?e 2 (call_checker ?e ?c)"
  have run: "manager_run ?e ?c [Checker_called, Session_established 2] ?c'"
    using sample_manager_ok(3) lost(1) by simp
  have fields: "periodical_connection_checker_id ?c \<noteq> 0"
    "current_periodical_connection_check_interval ?c = connection_check_interval (manager_configuration ?c)"
    "0 < connection_check_interval (manager_configuration ?c)"
    by (simp_all add: sample_manager_simps)
  have hook: "\<forall>d conf. connection_check_interval (menv_connected ?e d conf) = connection_check_interval conf"
    by (simp add: sample_manager_environment_def)
  from checker_not_restarted [OF sample_manager_ok(1-3) fields check hook run] run
  show "\<exists>c'. manager_run ?e ?c [Checker_called, Session_established 2] c' \<and>
     length (manager_leaders c') = 1 \<and> \<not> checker_registered c'"
    by fastforce
qed

end
