(* ===== verification/Writer.thy ===== *)
theory Writer
  imports Event_Loop "HOL-Library.Monad_Syntax"
begin

text \<open>
  \<open>milter-writer.c\<close>: what an agent writes is kept in a buffer, which a watcher of the event
  loop hands to the channel when it is writable; a flush that is asked for meanwhile is done
  once the data before it has been handed over. The callbacks of the writer's signals may use
  the writer again. What the channel answers is a parameter of a step.
\<close>

subsection \<open>State\<close>

datatype writer_error = MILTER_WRITER_ERROR_NO_CHANNEL | MILTER_WRITER_ERROR_IO_ERROR | MILTER_WRITER_ERROR_NOT_READY

datatype writer_callback =
    WRITE_WATCH_FUNC
  | FLUSH_WATCH_FUNC
  | WRITER_ERROR_WATCH_FUNC
  | Callback_of_others

datatype writer_signal = Writer_flushed | Writer_error writer_error | Writer_finished

text \<open>
  \<open>writer_started\<close>: \<open>priv->loop\<close> is set; the loop itself outlives that. \<open>writer_signals\<close>,
  \<open>writer_accepted\<close> and \<open>writer_sent\<close> are the history: the signals, the bytes taken by
  \<open>milter_writer_write\<close> and those handed to the channel.
\<close>

record milter_writer =
  writer_io_channel :: "int option"
  writer_started :: bool
  writer_loop :: "writer_callback event_loop"
  writer_buffer :: bytes
  flush_point :: nat
  writer_writing :: bool
  write_watch_id :: u32
  flush_watch_id :: u32
  writer_error_watch_id :: u32
  writer_tag :: u32
  writer_signals :: "writer_signal list"
  writer_accepted :: bytes
  writer_sent :: bytes

definition milter_writer_init :: "writer_callback event_loop \<Rightarrow> milter_writer" where
  "milter_writer_init loop =
     \<lparr>writer_io_channel = None, writer_started = False, writer_loop = loop, writer_buffer = [], flush_point = 0,
      writer_writing = False, write_watch_id = 0, flush_watch_id = 0, writer_error_watch_id = 0,
      writer_tag = 0, writer_signals = [], writer_accepted = [], writer_sent = []\<rparr>"

definition milter_writer_io_channel_new :: "writer_callback event_loop \<Rightarrow> int \<Rightarrow> milter_writer" where
  "milter_writer_io_channel_new loop fd = (milter_writer_init loop)\<lparr>writer_io_channel := Some fd\<rparr>"

definition writer_emit :: "writer_signal \<Rightarrow> milter_writer \<Rightarrow> milter_writer" where
  "writer_emit x w = w\<lparr>writer_signals := writer_signals w @ [x]\<rparr>"

definition writer_watch :: "io_condition set \<Rightarrow> writer_callback \<Rightarrow> milter_writer \<Rightarrow> (u32 \<times> milter_writer) option" where
  "writer_watch condition f w =
     map_option (\<lambda>(tag, l). (tag, w\<lparr>writer_loop := l\<rparr>))
       (watch_io_full (writer_loop w) (case writer_io_channel w of Some fd \<Rightarrow> fd | None \<Rightarrow> -1) condition f)"

definition writer_unwatch :: "u32 \<Rightarrow> milter_writer \<Rightarrow> milter_writer" where
  "writer_unwatch tag w = w\<lparr>writer_loop := snd (remove_watcher (writer_loop w) tag)\<rparr>"

subsection \<open>Watchers\<close>

definition clear_write_watch_id :: "milter_writer \<Rightarrow> milter_writer" where
  "clear_write_watch_id w =
     (if write_watch_id w \<noteq> 0 then (writer_unwatch (write_watch_id w) w)\<lparr>write_watch_id := 0\<rparr> else w)"

definition clear_flush_watch_id :: "milter_writer \<Rightarrow> milter_writer" where
  "clear_flush_watch_id w =
     (if flush_watch_id w \<noteq> 0 then (writer_unwatch (flush_watch_id w) w)\<lparr>flush_watch_id := 0\<rparr> else w)"

definition writer_clear_watch_id :: "milter_writer \<Rightarrow> milter_writer" where
  "writer_clear_watch_id w =
     (let w = clear_flush_watch_id (clear_write_watch_id w);
          w = (if writer_error_watch_id w \<noteq> 0
               then (writer_unwatch (writer_error_watch_id w) w)\<lparr>writer_error_watch_id := 0\<rparr> else w)
      in w\<lparr>writer_started := False\<rparr>)"

definition request_flush :: "milter_writer \<Rightarrow> milter_writer option" where
  "request_flush w =
     (if flush_watch_id w = 0
      then do { (tag, w) \<leftarrow> writer_watch {G_IO_OUT} FLUSH_WATCH_FUNC w; Some (w\<lparr>flush_watch_id := tag\<rparr>) }
      else Some w)"

subsection \<open>Operations\<close>

definition milter_writer_write :: "bytes \<Rightarrow> milter_writer \<Rightarrow> (writer_error option \<times> milter_writer) option" where
  "milter_writer_write chunk w =
     (if writer_io_channel w = None then Some (Some MILTER_WRITER_ERROR_NO_CHANNEL, w)
      else if \<not> writer_started w then Some (Some MILTER_WRITER_ERROR_NOT_READY, w)
      else if chunk = [] then Some (None, w)
      else
        let w = w\<lparr>writer_buffer := writer_buffer w @ chunk, writer_accepted := writer_accepted w @ chunk\<rparr>
        in if write_watch_id w = 0
           then do { (tag, w) \<leftarrow> writer_watch {G_IO_OUT} WRITE_WATCH_FUNC w; Some (None, w\<lparr>write_watch_id := tag\<rparr>) }
           else Some (None, w))"

definition milter_writer_flush :: "milter_writer \<Rightarrow> (writer_error option \<times> milter_writer) option" where
  "milter_writer_flush w =
     (if writer_io_channel w = None then Some (Some MILTER_WRITER_ERROR_NO_CHANNEL, w)
      else if \<not> writer_started w then Some (Some MILTER_WRITER_ERROR_NOT_READY, w)
      else if 0 < write_watch_id w then Some (None, w\<lparr>flush_point := length (writer_buffer w)\<rparr>)
      else map_option (Pair None) (request_flush w))"

definition writer_watch_io_channel :: "milter_writer \<Rightarrow> milter_writer option" where
  "writer_watch_io_channel w =
     do { (tag, w) \<leftarrow> writer_watch error_conditions WRITER_ERROR_WATCH_FUNC w;
          let w = w\<lparr>writer_error_watch_id := tag\<rparr>;
          Some (if 0 < tag then w\<lparr>writer_started := True\<rparr> else w) }"

definition milter_writer_start :: "milter_writer \<Rightarrow> milter_writer option" where
  "milter_writer_start w =
     (if writer_io_channel w \<noteq> None \<and> writer_error_watch_id w = 0 then writer_watch_io_channel w else Some w)"

definition milter_writer_is_watching :: "milter_writer \<Rightarrow> bool" where
  "milter_writer_is_watching w \<longleftrightarrow> 0 < writer_error_watch_id w"

text \<open>What the channel answers: how much it takes, whether that fails, and how a flush ends.\<close>

datatype flush_status = Flush_normal | Flush_again | Flush_error

record channel =
  channel_takes :: nat
  channel_write_error :: bool
  channel_flush :: flush_status

definition io_error :: writer_signal where
  "io_error = Writer_error MILTER_WRITER_ERROR_IO_ERROR"

definition hand_over :: "nat \<Rightarrow> milter_writer \<Rightarrow> milter_writer" where
  "hand_over n w = w\<lparr>writer_buffer := drop n (writer_buffer w), writer_sent := writer_sent w @ take n (writer_buffer w)\<rparr>"

text \<open>
  The signals of a shutdown are emitted when the loop is gone: a callback that uses the writer
  then is refused.
\<close>

definition flush_buffer_on_shutdown :: "channel \<Rightarrow> milter_writer \<Rightarrow> milter_writer" where
  "flush_buffer_on_shutdown ch w =
     (if writer_buffer w = [] then w
      else if writer_writing w then w
      else
        let w = hand_over (min (channel_takes ch) (length (writer_buffer w))) w
        in if channel_write_error ch then writer_emit io_error w
           else writer_emit Writer_flushed
             (if channel_flush ch = Flush_error then writer_emit io_error w else w))"

definition milter_writer_shutdown :: "channel \<Rightarrow> milter_writer \<Rightarrow> milter_writer" where
  "milter_writer_shutdown ch w =
     (if writer_error_watch_id w = 0 then w
      else
        let w = writer_clear_watch_id w
        in case writer_io_channel w of
             None \<Rightarrow> w
           | Some _ \<Rightarrow> (flush_buffer_on_shutdown ch w)\<lparr>writer_io_channel := None\<rparr>)"

definition writer_dispose :: "milter_writer \<Rightarrow> milter_writer" where
  "writer_dispose w = (writer_clear_watch_id w)\<lparr>writer_io_channel := None, writer_buffer := []\<rparr>"

definition milter_writer_get_tag :: "milter_writer \<Rightarrow> u32" where
  "milter_writer_get_tag w = writer_tag w"

definition milter_writer_set_tag :: "u32 \<Rightarrow> milter_writer \<Rightarrow> milter_writer" where
  "milter_writer_set_tag tag w = w\<lparr>writer_tag := tag\<rparr>"

subsection \<open>Callbacks of the writer's signals\<close>

text \<open>An observer answers a signal with calls of the writer; errors they return are its own matter.\<close>

datatype writer_call = Call_write bytes | Call_flush | Call_shutdown channel

definition writer_called :: "writer_call \<Rightarrow> milter_writer \<Rightarrow> milter_writer option" where
  "writer_called call w =
     (case call of
        Call_write chunk \<Rightarrow> map_option snd (milter_writer_write chunk w)
      | Call_flush \<Rightarrow> map_option snd (milter_writer_flush w)
      | Call_shutdown ch \<Rightarrow> Some (milter_writer_shutdown ch w))"

fun writer_calls :: "writer_call list \<Rightarrow> milter_writer \<Rightarrow> milter_writer option" where
  "writer_calls [] w = Some w"
| "writer_calls (call # calls) w = do { w \<leftarrow> writer_called call w; writer_calls calls w }"

type_synonym writer_observer = "writer_signal \<Rightarrow> milter_writer \<Rightarrow> writer_call list"

definition writer_notify :: "writer_observer \<Rightarrow> writer_signal \<Rightarrow> milter_writer \<Rightarrow> milter_writer option" where
  "writer_notify obs x w = (let w = writer_emit x w in writer_calls (obs x w) w)"

subsection \<open>What the loop calls\<close>

definition flush_watch_func :: "writer_observer \<Rightarrow> channel \<Rightarrow> milter_writer \<Rightarrow> (bool \<times> milter_writer) option" where
  "flush_watch_func obs ch w =
     (case channel_flush ch of
        Flush_error \<Rightarrow> do { w \<leftarrow> writer_notify obs io_error w; Some (False, w\<lparr>flush_watch_id := 0\<rparr>) }
      | Flush_again \<Rightarrow> Some (True, w)
      | Flush_normal \<Rightarrow> do { w \<leftarrow> writer_notify obs Writer_flushed w; Some (False, w\<lparr>flush_watch_id := 0\<rparr>) })"

text \<open>Taking \<open>n\<close> bytes out of the buffer reaches the flush point or brings it nearer.\<close>

definition written :: "nat \<Rightarrow> milter_writer \<Rightarrow> milter_writer option" where
  "written n w =
     (if n = 0 then Some w
      else
        let need_flush = 0 < flush_point w \<and> flush_point w \<le> n;
            w = (hand_over n w)\<lparr>flush_point := flush_point w - n\<rparr>
        in if need_flush \<and> writer_started w then request_flush w else Some w)"

definition write_watch_func :: "writer_observer \<Rightarrow> channel \<Rightarrow> milter_writer \<Rightarrow> (bool \<times> milter_writer) option" where
  "write_watch_func obs ch w =
     (if writer_buffer w = [] then Some (False, w\<lparr>write_watch_id := 0\<rparr>)
      else do {
        w \<leftarrow> written (min (channel_takes ch) (length (writer_buffer w))) w;
        if channel_write_error ch
        then do { w \<leftarrow> writer_notify obs io_error w; Some (False, w\<lparr>write_watch_id := 0\<rparr>) }
        else Some (True, w) })"

definition writer_error_watch_func :: "writer_observer \<Rightarrow> milter_writer \<Rightarrow> (bool \<times> milter_writer) option" where
  "writer_error_watch_func obs w =
     do {
       w \<leftarrow> writer_notify obs io_error w;
       let w = clear_flush_watch_id (clear_write_watch_id (w\<lparr>writer_error_watch_id := 0\<rparr>));
       w \<leftarrow> writer_notify obs Writer_finished w;
       Some (False, w) }"

definition call_writer_callback ::
    "writer_observer \<Rightarrow> channel \<Rightarrow> writer_callback \<Rightarrow> milter_writer \<Rightarrow> (bool \<times> milter_writer) option" where
  "call_writer_callback obs ch cb w =
     (case cb of
        WRITE_WATCH_FUNC \<Rightarrow> write_watch_func obs ch w
      | FLUSH_WATCH_FUNC \<Rightarrow> flush_watch_func obs ch w
      | WRITER_ERROR_WATCH_FUNC \<Rightarrow> writer_error_watch_func obs w
      | Callback_of_others \<Rightarrow> Some (True, w))"

definition dispatch_writer :: "writer_observer \<Rightarrow> channel \<Rightarrow> u32 \<Rightarrow> milter_writer \<Rightarrow> milter_writer option" where
  "dispatch_writer obs ch =
     dispatch_watcher (call_writer_callback obs ch) writer_loop (\<lambda>f w. w\<lparr>writer_loop := f (writer_loop w)\<rparr>)"

end
