(* ===== verification/Writer_Spec.thy ===== *)
theory Writer_Spec
  imports Writer
begin

text \<open>
  What is written arrives complete and in order, whatever else is done with the writer; a
  flush is reported after the data before it has been handed to the channel, but one that is
  asked for between the last byte and the removal of the write watcher is forgotten.
\<close>

subsection \<open>Steps\<close>

datatype writer_input =
    Started
  | Called writer_call
  | Dispatched writer_callback channel

inductive writer_step :: "writer_observer \<Rightarrow> milter_writer \<Rightarrow> writer_input \<Rightarrow> milter_writer \<Rightarrow> bool"
  for obs :: writer_observer
  where
    started: "milter_writer_start w = Some w' \<Longrightarrow> writer_step obs w Started w'"
  | called: "writer_called call w = Some w' \<Longrightarrow> writer_step obs w (Called call) w'"
  | dispatched: "loop_watchers (writer_loop w) tag = Some x \<Longrightarrow> dispatch_writer obs ch tag w = Some w' \<Longrightarrow>
      writer_step obs w (Dispatched (callback x) ch) w'"

inductive_simps writer_step_simps:
  "writer_step obs w Started w'"
  "writer_step obs w (Called call) w'"
  "writer_step obs w (Dispatched cb ch) w'"

inductive writer_run :: "writer_observer \<Rightarrow> milter_writer \<Rightarrow> writer_input list \<Rightarrow> milter_writer \<Rightarrow> bool"
  for obs :: writer_observer
  where
    writer_run_nil: "writer_run obs w [] w"
  | writer_run_cons: "writer_step obs w i w1 \<Longrightarrow> writer_run obs w1 is w' \<Longrightarrow> writer_run obs w (i # is) w'"

inductive_simps writer_run_simps [simp]:
  "writer_run obs w [] w'"
  "writer_run obs w (i # is) w'"

lemma writer_run_invariant:
  assumes "writer_run obs w inputs w'" and "P w"
    and step: "\<And>w i w'. P w \<Longrightarrow> i \<in> I \<Longrightarrow> writer_step obs w i w' \<Longrightarrow> P w'" and "set inputs \<subseteq> I"
  shows "P w'"
  using assms(1,2,4)
proof (induction rule: writer_run.induct)
  case (writer_run_cons w i w1 inputs w')
  have "P w1" by (rule step [OF writer_run_cons.prems(1) _ writer_run_cons.hyps(1)]) (use writer_run_cons.prems in auto)
  then show ?case by (rule writer_run_cons.IH) (use writer_run_cons.prems in auto)
qed

subsection \<open>Nothing is lost or reordered\<close>

definition in_order :: "milter_writer \<Rightarrow> bool" where
  "in_order w \<longleftrightarrow> writer_accepted w = writer_sent w @ writer_buffer w"

lemma watch_frame:
  assumes "writer_watch condition f w = Some (tag, w')"
  shows "\<exists>l. w' = w\<lparr>writer_loop := l\<rparr>"
  using assms by (auto simp: writer_watch_def)

lemma in_order_update [simp]:
  "in_order (w\<lparr>writer_loop := l\<rparr>) = in_order w"
  "in_order (w\<lparr>write_watch_id := t\<rparr>) = in_order w"
  "in_order (w\<lparr>flush_watch_id := t\<rparr>) = in_order w"
  "in_order (w\<lparr>writer_error_watch_id := t\<rparr>) = in_order w"
  "in_order (w\<lparr>writer_started := b\<rparr>) = in_order w"
  "in_order (w\<lparr>flush_point := n\<rparr>) = in_order w"
  "in_order (w\<lparr>writer_io_channel := ch\<rparr>) = in_order w"
  "in_order (writer_emit x w) = in_order w"
  "in_order (writer_unwatch t w) = in_order w"
  by (simp_all add: in_order_def writer_emit_def writer_unwatch_def)

lemma in_order_hand_over [simp]: "in_order w \<Longrightarrow> in_order (hand_over n w)"
  by (simp add: in_order_def hand_over_def)

lemma in_order_watch: "writer_watch condition f w = Some (tag, w') \<Longrightarrow> in_order w' = in_order w"
  using watch_frame by fastforce

lemma in_order_request_flush: "request_flush w = Some w' \<Longrightarrow> in_order w' = in_order w"
  by (auto simp: request_flush_def in_order_watch split: if_splits Option.bind_splits)

lemma in_order_clear [simp]:
  "in_order (clear_write_watch_id w) = in_order w" "in_order (clear_flush_watch_id w) = in_order w"
  "in_order (writer_clear_watch_id w) = in_order w"
  by (simp_all add: clear_write_watch_id_def clear_flush_watch_id_def writer_clear_watch_id_def Let_def)

lemma in_order_called:
  assumes "writer_called call w = Some w'" and "in_order w"
  shows "in_order w'"
proof (cases call)
  case (Call_write chunk)
  have "in_order (w\<lparr>writer_buffer := writer_buffer w @ chunk, writer_accepted := writer_accepted w @ chunk\<rparr>)"
    using assms(2) by (simp add: in_order_def)
  then show ?thesis
    using assms Call_write
    by (auto simp: writer_called_def milter_writer_write_def Let_def in_order_watch split: if_splits Option.bind_splits)
next
  case Call_flush
  then show ?thesis
    using assms by (auto simp: writer_called_def milter_writer_flush_def in_order_request_flush split: if_splits)
next
  case (Call_shutdown ch)
  then have "w' = milter_writer_shutdown ch w" using assms(1) by (simp add: writer_called_def)
  then show ?thesis using assms(2)
    by (simp add: milter_writer_shutdown_def flush_buffer_on_shutdown_def Let_def split: option.split)
qed

lemma in_order_calls: "writer_calls calls w = Some w' \<Longrightarrow> in_order w \<Longrightarrow> in_order w'"
  by (induction calls arbitrary: w) (auto simp: in_order_called split: Option.bind_splits)

lemma in_order_notify: "writer_notify obs x w = Some w' \<Longrightarrow> in_order w \<Longrightarrow> in_order w'"
  by (auto simp: writer_notify_def Let_def intro: in_order_calls)

lemma in_order_written: "written n w = Some w' \<Longrightarrow> in_order w \<Longrightarrow> in_order w'"
  by (auto simp: written_def Let_def in_order_request_flush split: if_splits)

lemma in_order_callback:
  assumes "call_writer_callback obs ch cb w = Some (keep, w')" and "in_order w"
  shows "in_order w'"
proof (cases cb)
  case WRITE_WATCH_FUNC
  then show ?thesis using assms
    by (auto simp: call_writer_callback_def write_watch_func_def split: if_splits Option.bind_splits
        dest!: in_order_written in_order_notify)
next
  case FLUSH_WATCH_FUNC
  then show ?thesis using assms
    by (auto simp: call_writer_callback_def flush_watch_func_def split: flush_status.splits Option.bind_splits
        dest!: in_order_notify)
next
  case WRITER_ERROR_WATCH_FUNC
  then obtain w1 where "writer_notify obs io_error w = Some w1"
    "writer_notify obs Writer_finished
       (clear_flush_watch_id (clear_write_watch_id (w1\<lparr>writer_error_watch_id := 0\<rparr>))) = Some w'"
    using assms by (auto simp: call_writer_callback_def writer_error_watch_func_def Let_def split: Option.bind_splits)
  then show ?thesis using assms(2) in_order_notify by fastforce
qed (use assms in \<open>simp add: call_writer_callback_def\<close>)

lemma in_order_step:
  assumes "writer_step obs w i w'" and "in_order w"
  shows "in_order w'"
  using assms(1)
proof cases
  case started
  then show ?thesis using assms(2)
    by (auto simp: milter_writer_start_def writer_watch_io_channel_def Let_def in_order_watch
        split: if_splits Option.bind_splits)
next
  case (called call)
  then show ?thesis using in_order_called assms(2) by blast
next
  case (dispatched tag x ch)
  then show ?thesis using assms(2)
    by (auto simp: dispatch_writer_def dispatch_watcher_def dest: in_order_callback split: option.splits if_splits)
qed

lemma run_in_order:
  assumes "writer_run obs (milter_writer_io_channel_new loop fd) inputs w"
  shows "in_order w"
proof (rule writer_run_invariant [OF assms, where I = UNIV])
  show "in_order (milter_writer_io_channel_new loop fd)"
    by (simp add: in_order_def milter_writer_io_channel_new_def milter_writer_init_def)
qed (auto intro: in_order_step)

text \<open>C14: whatever is done with a writer - writing, flushing and shutting down, also from the
  callbacks of its own signals, and however much of it the channel takes at a time - the bytes
  the channel was handed and those in the buffer are, in order, those that were written.\<close>

theorem written_in_order:
  assumes "writer_run obs (milter_writer_io_channel_new loop fd) inputs w"
  shows "writer_accepted w = writer_sent w @ writer_buffer w"
  using run_in_order [OF assms] by (simp add: in_order_def)

subsection \<open>Flushing\<close>

text \<open>Inputs that come while nothing fails and the writer is not shut down.\<close>

fun smooth :: "writer_input \<Rightarrow> bool" where
  "smooth Started \<longleftrightarrow> True"
| "smooth (Called (Call_shutdown ch)) \<longleftrightarrow> False"
| "smooth (Called call) \<longleftrightarrow> True"
| "smooth (Dispatched cb ch) \<longleftrightarrow>
     cb \<noteq> WRITER_ERROR_WATCH_FUNC \<and> \<not> channel_write_error ch \<and> channel_flush ch \<noteq> Flush_error"

text \<open>The callbacks of the writer's signals may write, as those of the agents do.\<close>

definition only_writes :: "writer_observer \<Rightarrow> bool" where
  "only_writes obs \<longleftrightarrow> (\<forall>x w. \<forall>call \<in> set (obs x w). \<exists>chunk. call = Call_write chunk)"

definition flush_owed :: "milter_writer \<Rightarrow> bool" where
  "flush_owed w \<longleftrightarrow> 0 < flush_point w \<or> flush_watch_id w \<noteq> 0"

definition flush_ok :: "milter_writer \<Rightarrow> bool" where
  "flush_ok w \<longleftrightarrow>
     (\<exists>fd. writer_io_channel w = Some fd \<and> fd \<noteq> -1) \<and> loop_watchers (writer_loop w) 0 = None \<and>
     (\<forall>tag x. loop_watchers (writer_loop w) tag = Some x \<and> callback x = FLUSH_WATCH_FUNC \<longrightarrow> tag = flush_watch_id w) \<and>
     (flush_watch_id w \<noteq> 0 \<longrightarrow>
       (\<exists>x. loop_watchers (writer_loop w) (flush_watch_id w) = Some x \<and> callback x = FLUSH_WATCH_FUNC)) \<and>
     flush_point w \<le> length (writer_buffer w) \<and> (0 < flush_point w \<longrightarrow> writer_started w) \<and>
     (write_watch_id w = 0 \<longrightarrow> writer_buffer w = [])"

lemma watch_new:
  assumes "writer_watch condition f w = Some (tag, w')" and "writer_io_channel w = Some fd" and "fd \<noteq> -1"
  shows "\<exists>l x. w' = w\<lparr>writer_loop := l\<rparr> \<and> tag \<noteq> 0 \<and> loop_watchers (writer_loop w) tag = None \<and>
    loop_watchers l = (loop_watchers (writer_loop w))(tag \<mapsto> x) \<and> callback x = f"
proof -
  obtain l where l: "add_watcher (writer_loop w) (Io_watcher fd (evcond_from_g_io_condition condition) f) = Some (tag, l)"
    and w': "w' = w\<lparr>writer_loop := l\<rparr>"
    using assms by (auto simp: writer_watch_def watch_io_full_def)
  from libev.add_new [OF l] w' show ?thesis
    by (intro exI [of _ l] exI [of _ "Io_watcher fd (evcond_from_g_io_condition condition) f"]) simp
qed

text \<open>What writing changes.\<close>

definition wrote :: "milter_writer \<Rightarrow> milter_writer \<Rightarrow> bool" where
  "wrote w w' \<longleftrightarrow>
     (\<exists>chunk l tag. w' = w\<lparr>writer_buffer := writer_buffer w @ chunk, writer_accepted := writer_accepted w @ chunk,
          writer_loop := l, write_watch_id := tag\<rparr> \<and>
        (tag = 0 \<longrightarrow> write_watch_id w = 0 \<and> chunk = []) \<and>
        (\<forall>t. loop_watchers l t = loop_watchers (writer_loop w) t \<or>
          t \<noteq> 0 \<and> loop_watchers (writer_loop w) t = None \<and>
          (\<exists>x. loop_watchers l t = Some x \<and> callback x = WRITE_WATCH_FUNC)))"

lemma wrote_refl: "wrote w w"
  unfolding wrote_def
  by (rule exI [of _ "[]"], rule exI [of _ "writer_loop w"], rule exI [of _ "write_watch_id w"]) simp

lemma wrote_trans:
  assumes "wrote w w1" and "wrote w1 w2"
  shows "wrote w w2"
proof -
  obtain c1 l1 t1 where 1: "w1 = w\<lparr>writer_buffer := writer_buffer w @ c1, writer_accepted := writer_accepted w @ c1,
      writer_loop := l1, write_watch_id := t1\<rparr>"
    and tag1: "t1 = 0 \<longrightarrow> write_watch_id w = 0 \<and> c1 = []"
    and loop1: "\<forall>t. loop_watchers l1 t = loop_watchers (writer_loop w) t \<or>
      t \<noteq> 0 \<and> loop_watchers (writer_loop w) t = None \<and>
      (\<exists>x. loop_watchers l1 t = Some x \<and> callback x = WRITE_WATCH_FUNC)"
    using assms(1) unfolding wrote_def by blast
  obtain c2 l2 t2 where 2: "w2 = w1\<lparr>writer_buffer := writer_buffer w1 @ c2, writer_accepted := writer_accepted w1 @ c2,
      writer_loop := l2, write_watch_id := t2\<rparr>"
    and tag2: "t2 = 0 \<longrightarrow> write_watch_id w1 = 0 \<and> c2 = []"
    and loop2: "\<forall>t. loop_watchers l2 t = loop_watchers l1 t \<or>
      t \<noteq> 0 \<and> loop_watchers l1 t = None \<and>
      (\<exists>x. loop_watchers l2 t = Some x \<and> callback x = WRITE_WATCH_FUNC)"
    using assms(2) unfolding wrote_def 1 by auto
  have "w2 = w\<lparr>writer_buffer := writer_buffer w @ (c1 @ c2), writer_accepted := writer_accepted w @ (c1 @ c2),
      writer_loop := l2, write_watch_id := t2\<rparr>"
    using 1 2 by simp
  moreover have "t2 = 0 \<longrightarrow> write_watch_id w = 0 \<and> c1 @ c2 = []" using tag1 tag2 1 by simp
  moreover have "\<forall>t. loop_watchers l2 t = loop_watchers (writer_loop w) t \<or>
      t \<noteq> 0 \<and> loop_watchers (writer_loop w) t = None \<and>
      (\<exists>x. loop_watchers l2 t = Some x \<and> callback x = WRITE_WATCH_FUNC)"
    using loop1 loop2 by metis
  ultimately show ?thesis unfolding wrote_def by blast
qed

lemma wrote_write:
  assumes "milter_writer_write chunk w = Some (e, w')" and "writer_io_channel w = Some fd" and "fd \<noteq> -1"
  shows "wrote w w'"
proof -
  let ?w = "w\<lparr>writer_buffer := writer_buffer w @ chunk, writer_accepted := writer_accepted w @ chunk\<rparr>"
  consider "w' = w" | "w' = ?w" "write_watch_id w \<noteq> 0" | tag w1 where "writer_watch {G_IO_OUT} WRITE_WATCH_FUNC ?w = Some (tag, w1)"
      "w' = w1\<lparr>write_watch_id := tag\<rparr>"
    using assms by (auto simp: milter_writer_write_def Let_def split: if_splits Option.bind_splits)
  then show ?thesis
  proof cases
    case 2
    then have "w' = w\<lparr>writer_buffer := writer_buffer w @ chunk, writer_accepted := writer_accepted w @ chunk,
        writer_loop := writer_loop w, write_watch_id := write_watch_id w\<rparr>" by simp
    with 2(2) show ?thesis unfolding wrote_def by blast
  next
    case 3
    from watch_new [OF 3(1)] assms(2,3) obtain l x where
      l: "w1 = ?w\<lparr>writer_loop := l\<rparr>" "tag \<noteq> 0" "loop_watchers (writer_loop w) tag = None"
        "loop_watchers l = (loop_watchers (writer_loop w))(tag \<mapsto> x)" "callback x = WRITE_WATCH_FUNC"
      by auto
    then have "w' = w\<lparr>writer_buffer := writer_buffer w @ chunk, writer_accepted := writer_accepted w @ chunk,
        writer_loop := l, write_watch_id := tag\<rparr>" using 3(2) by simp
    moreover have "\<forall>t. loop_watchers l t = loop_watchers (writer_loop w) t \<or>
          t \<noteq> 0 \<and> loop_watchers (writer_loop w) t = None \<and>
          (\<exists>x. loop_watchers l t = Some x \<and> callback x = WRITE_WATCH_FUNC)"
      using l by simp
    ultimately show ?thesis using l(2) unfolding wrote_def by blast
  qed (simp add: wrote_refl)
qed

lemma wrote_frame:
  assumes "wrote w w'"
  shows "writer_io_channel w' = writer_io_channel w" "writer_signals w' = writer_signals w"
    "flush_point w' = flush_point w" "flush_watch_id w' = flush_watch_id w" "writer_sent w' = writer_sent w"
    "\<exists>chunk. writer_accepted w' = writer_accepted w @ chunk"
  using assms by (auto simp: wrote_def)

lemma wrote_calls:
  assumes "writer_calls calls w = Some w'" and "\<forall>call \<in> set calls. \<exists>chunk. call = Call_write chunk"
    and "writer_io_channel w = Some fd" and "fd \<noteq> -1"
  shows "wrote w w'"
  using assms(1-3)
proof (induction calls arbitrary: w)
  case (Cons call calls)
  then obtain chunk w1 where "call = Call_write chunk" "writer_called call w = Some w1" "writer_calls calls w1 = Some w'"
    by (auto split: Option.bind_splits)
  then have w1: "wrote w w1" "writer_calls calls w1 = Some w'"
    using wrote_write [OF _ Cons.prems(3) assms(4)] by (auto simp: writer_called_def)
  moreover have "wrote w1 w'" using Cons.IH [OF w1(2)] Cons.prems wrote_frame(1) [OF w1(1)] by simp
  ultimately show ?case using wrote_trans by blast
qed (simp add: wrote_refl)

lemma wrote_ok:
  assumes "wrote w w'" and "flush_ok w"
  shows "flush_ok w'"
proof -
  obtain chunk l tag where w': "w' = w\<lparr>writer_buffer := writer_buffer w @ chunk, writer_accepted := writer_accepted w @ chunk,
      writer_loop := l, write_watch_id := tag\<rparr>"
    and tag: "tag = 0 \<longrightarrow> write_watch_id w = 0 \<and> chunk = []"
    and l: "\<And>t. loop_watchers l t = loop_watchers (writer_loop w) t \<or>
      t \<noteq> 0 \<and> loop_watchers (writer_loop w) t = None \<and>
      (\<exists>x. loop_watchers l t = Some x \<and> callback x = WRITE_WATCH_FUNC)"
    using assms(1) unfolding wrote_def by blast
  have "loop_watchers l 0 = None" using l [of 0] assms(2) by (auto simp: flush_ok_def)
  moreover have "t = flush_watch_id w" if "loop_watchers l t = Some x" "callback x = FLUSH_WATCH_FUNC" for t x
  proof -
    have "loop_watchers (writer_loop w) t = Some x" using l [of t] that by auto
    with that(2) show ?thesis using assms(2) unfolding flush_ok_def by blast
  qed
  moreover have "\<exists>x. loop_watchers l (flush_watch_id w) = Some x \<and> callback x = FLUSH_WATCH_FUNC"
    if "flush_watch_id w \<noteq> 0"
    using l [of "flush_watch_id w"] that assms(2) by (auto simp: flush_ok_def)
  moreover have "tag = 0 \<longrightarrow> writer_buffer w @ chunk = []" using tag assms(2) by (simp add: flush_ok_def)
  moreover have "\<exists>fd. writer_io_channel w = Some fd \<and> fd \<noteq> -1"
    "flush_point w \<le> length (writer_buffer w @ chunk)" "0 < flush_point w \<longrightarrow> writer_started w"
    using assms(2) by (auto simp: flush_ok_def)
  ultimately show ?thesis unfolding w' flush_ok_def by simp
qed

lemma wrote_notify:
  assumes "writer_notify obs x w = Some w'" and "only_writes obs" and "writer_io_channel w = Some fd" and "fd \<noteq> -1"
  shows "wrote (writer_emit x w) w'"
  by (rule wrote_calls [where calls = "obs x (writer_emit x w)", OF _ _ _ assms(4)])
    (use assms in \<open>auto simp: writer_notify_def Let_def only_writes_def writer_emit_def\<close>)

lemma requested_flush:
  assumes "request_flush w = Some w'" and "flush_ok w"
  shows "flush_ok w'" "flush_watch_id w' \<noteq> 0" "\<exists>l tag. w' = w\<lparr>writer_loop := l, flush_watch_id := tag\<rparr>"
proof -
  have "flush_ok w' \<and> flush_watch_id w' \<noteq> 0 \<and> (\<exists>l tag. w' = w\<lparr>writer_loop := l, flush_watch_id := tag\<rparr>)"
  proof (cases "flush_watch_id w = 0")
    case True
    then obtain tag w1 where w1: "writer_watch {G_IO_OUT} FLUSH_WATCH_FUNC w = Some (tag, w1)"
      "w' = w1\<lparr>flush_watch_id := tag\<rparr>"
      using assms(1) by (auto simp: request_flush_def split: Option.bind_splits)
    obtain fd where fd: "writer_io_channel w = Some fd" "fd \<noteq> -1" using assms(2) by (auto simp: flush_ok_def)
    from watch_new [OF w1(1) fd] obtain l x where
      l: "w1 = w\<lparr>writer_loop := l\<rparr>" "tag \<noteq> 0" "loop_watchers l = (loop_watchers (writer_loop w))(tag \<mapsto> x)"
        "callback x = FLUSH_WATCH_FUNC" by blast
    then show ?thesis using assms(2) True w1(2) by (auto simp: flush_ok_def)
  next
    case False
    then have "w' = w" using assms(1) by (simp add: request_flush_def)
    moreover have "w = w\<lparr>writer_loop := writer_loop w, flush_watch_id := flush_watch_id w\<rparr>" by simp
    ultimately show ?thesis using False assms(2) by metis
  qed
  then show "flush_ok w'" "flush_watch_id w' \<noteq> 0" "\<exists>l tag. w' = w\<lparr>writer_loop := l, flush_watch_id := tag\<rparr>"
    by blast+
qed

subsection \<open>One step of a writer to which nothing bad happens\<close>

text \<open>\<open>pending_mark w = Some m\<close>: a flush waits until \<open>m\<close> bytes have been handed over.\<close>

definition pending_mark :: "milter_writer \<Rightarrow> nat option" where
  "pending_mark w =
     (if 0 < flush_point w \<and> flush_watch_id w = 0 then Some (length (writer_sent w) + flush_point w) else None)"

definition flush_step :: "milter_writer \<Rightarrow> milter_writer \<Rightarrow> bool" where
  "flush_step w w' \<longleftrightarrow>
     flush_ok w' \<and>
     (\<exists>new sent chunk. writer_signals w' = writer_signals w @ new \<and> writer_sent w' = writer_sent w @ sent \<and>
        writer_accepted w' = writer_accepted w @ chunk \<and>
        (Writer_flushed \<in> set new \<longrightarrow> flush_watch_id w \<noteq> 0) \<and>
        (flush_owed w \<longrightarrow> Writer_flushed \<in> set new \<or> flush_owed w') \<and>
        (flush_owed w' \<longrightarrow> flush_owed w) \<and>
        (\<forall>m. pending_mark w = Some m \<longrightarrow> pending_mark w' = Some m \<or> m \<le> length (writer_sent w')))"

lemma flush_step_wrote:
  assumes "wrote w w'" and "flush_ok w"
  shows "flush_step w w'"
proof -
  note frame = wrote_frame [OF assms(1)]
  have "flush_owed w' \<longleftrightarrow> flush_owed w" "pending_mark w' = pending_mark w"
    using frame by (simp_all add: flush_owed_def pending_mark_def)
  then show ?thesis using wrote_ok [OF assms] frame unfolding flush_step_def by auto
qed

lemma written_step:
  assumes ok: "flush_ok w" and run: "written n w = Some w'" and n: "n \<le> length (writer_buffer w)"
  shows "flush_step w w'"
proof (cases "n = 0")
  case True
  then have "w' = w" using run by (simp add: written_def)
  then show ?thesis using flush_step_wrote [OF wrote_refl ok] by simp
next
  case False
  define w1 where "w1 = (hand_over n w)\<lparr>flush_point := flush_point w - n\<rparr>"
  have ok1: "flush_ok w1" using ok n by (auto simp: w1_def hand_over_def flush_ok_def)
  have sent: "length (writer_sent w1) = length (writer_sent w) + n" "flush_watch_id w1 = flush_watch_id w"
    "flush_point w1 = flush_point w - n" "writer_signals w1 = writer_signals w"
    "writer_accepted w1 = writer_accepted w" "writer_sent w1 = writer_sent w @ take n (writer_buffer w)"
    using n by (simp_all add: w1_def hand_over_def)
  show ?thesis
  proof (cases "0 < flush_point w \<and> flush_point w \<le> n")
    case True
    then have "writer_started w" using ok by (simp add: flush_ok_def)
    then have "request_flush w1 = Some w'"
      using run False True by (simp add: written_def w1_def hand_over_def Let_def)
    note req = requested_flush [OF this ok1]
    obtain l tag where w': "w' = w1\<lparr>writer_loop := l, flush_watch_id := tag\<rparr>" using req(3) by blast
    show ?thesis
      using req(1,2) True sent unfolding flush_step_def flush_owed_def pending_mark_def
      by (auto simp: w')
  next
    case reached: False
    then have w': "w' = w1" using run False by (auto simp: written_def w1_def Let_def split: if_splits)
    have "flush_owed w1 \<longleftrightarrow> flush_owed w" "pending_mark w1 = pending_mark w"
      using reached sent by (auto simp: flush_owed_def pending_mark_def)
    then show ?thesis using ok1 sent unfolding flush_step_def w' by auto
  qed
qed

lemma removed_ok:
  assumes "flush_ok w" and "loop_watchers (writer_loop w) tag = Some x" and "callback x \<noteq> FLUSH_WATCH_FUNC"
  shows "flush_ok (w\<lparr>writer_loop := snd (remove_watcher (writer_loop w) tag)\<rparr>)"
  using assms by (auto simp: flush_ok_def remove_watcher_def)

lemma smooth_dispatch:
  assumes ok: "flush_ok w" and obs: "only_writes obs" and x: "loop_watchers (writer_loop w) tag = Some x"
    and smooth: "smooth (Dispatched (callback x) ch)" and run: "dispatch_writer obs ch tag w = Some w'"
  shows "flush_step w w'"
proof -
  obtain fd where fd: "writer_io_channel w = Some fd" "fd \<noteq> -1" using ok by (auto simp: flush_ok_def)
  obtain keep w1 where call: "call_writer_callback obs ch (callback x) w = Some (keep, w1)"
    and w': "w' = (if keep then w1 else w1\<lparr>writer_loop := snd (remove_watcher (writer_loop w1) tag)\<rparr>)"
    using run x by (auto simp: dispatch_writer_def dispatch_watcher_def split: option.splits prod.splits)
  show ?thesis
  proof (cases "callback x")
    case WRITE_WATCH_FUNC
    then have "writer_buffer w = [] \<and> keep = False \<and> w1 = w\<lparr>write_watch_id := 0\<rparr> \<or>
        keep \<and> written (min (channel_takes ch) (length (writer_buffer w))) w = Some w1"
      using call smooth
      by (auto simp: call_writer_callback_def write_watch_func_def split: if_splits Option.bind_splits)
    then show ?thesis
    proof
      assume empty: "writer_buffer w = [] \<and> keep = False \<and> w1 = w\<lparr>write_watch_id := 0\<rparr>"
      have "flush_ok (w\<lparr>writer_loop := snd (remove_watcher (writer_loop w) tag)\<rparr>)"
        using removed_ok [OF ok x] WRITE_WATCH_FUNC by simp
      then have "flush_ok w'" using empty w' by (simp add: flush_ok_def)
      then show ?thesis using empty w' by (simp add: flush_step_def flush_owed_def pending_mark_def)
    next
      assume "keep \<and> written (min (channel_takes ch) (length (writer_buffer w))) w = Some w1"
      then show ?thesis using written_step [OF ok, of _ w1] w' by auto
    qed
  next
    case FLUSH_WATCH_FUNC
    then have tag: "tag = flush_watch_id w" "flush_watch_id w \<noteq> 0" using ok x by (auto simp: flush_ok_def)
    have "keep \<and> w1 = w \<or>
        \<not> keep \<and> (\<exists>w2. writer_notify obs Writer_flushed w = Some w2 \<and> w1 = w2\<lparr>flush_watch_id := 0\<rparr>)"
      using call smooth FLUSH_WATCH_FUNC
      by (auto simp: call_writer_callback_def flush_watch_func_def split: flush_status.splits Option.bind_splits)
    then show ?thesis
    proof
      assume "keep \<and> w1 = w"
      then show ?thesis using flush_step_wrote [OF wrote_refl ok] w' by simp
    next
      assume "\<not> keep \<and> (\<exists>w2. writer_notify obs Writer_flushed w = Some w2 \<and> w1 = w2\<lparr>flush_watch_id := 0\<rparr>)"
      then obtain w2 where w2: "writer_notify obs Writer_flushed w = Some w2" "w1 = w2\<lparr>flush_watch_id := 0\<rparr>" "\<not> keep"
        by blast
      have "flush_ok (writer_emit Writer_flushed w)" using ok by (simp add: flush_ok_def writer_emit_def)
      from wrote_ok [OF wrote_notify [OF w2(1) obs fd] this] have ok2: "flush_ok w2" .
      note frame = wrote_frame [OF wrote_notify [OF w2(1) obs fd]]
      have w'2: "w' = w2\<lparr>flush_watch_id := 0, writer_loop := snd (remove_watcher (writer_loop w2) tag)\<rparr>"
        using w' w2 by simp
      have "flush_ok w'"
        using ok2 tag frame(4) unfolding w'2 by (auto simp: flush_ok_def remove_watcher_def writer_emit_def)
      moreover have "writer_signals w' = writer_signals w @ [Writer_flushed]" "writer_sent w' = writer_sent w"
        "\<exists>chunk. writer_accepted w' = writer_accepted w @ chunk"
        using frame by (simp_all add: w'2 writer_emit_def)
      ultimately show ?thesis
        using tag unfolding flush_step_def by (auto simp: flush_owed_def pending_mark_def)
    qed
  next
    case Callback_of_others
    then show ?thesis using call w' flush_step_wrote [OF wrote_refl ok] by (simp add: call_writer_callback_def)
  qed (use smooth in simp)
qed

subsection \<open>Runs\<close>

lemma started_ok:
  assumes "milter_writer_start w = Some w'" and "flush_ok w"
  shows "flush_ok w' \<and> flush_step w w'"
proof -
  consider "w' = w" | tag w1 where "writer_watch error_conditions WRITER_ERROR_WATCH_FUNC w = Some (tag, w1)"
    "w' = (if 0 < tag then w1\<lparr>writer_error_watch_id := tag, writer_started := True\<rparr>
           else w1\<lparr>writer_error_watch_id := tag\<rparr>)"
    using assms(1) by (auto simp: milter_writer_start_def writer_watch_io_channel_def Let_def split: if_splits Option.bind_splits)
  then show ?thesis
  proof cases
    case 1
    then show ?thesis using flush_step_wrote [OF wrote_refl assms(2)] assms(2) by simp
  next
    case 2
    obtain fd where fd: "writer_io_channel w = Some fd" "fd \<noteq> -1" using assms(2) by (auto simp: flush_ok_def)
    from watch_new [OF 2(1) fd] obtain l x where
      l: "w1 = w\<lparr>writer_loop := l\<rparr>" "tag \<noteq> 0" "loop_watchers (writer_loop w) tag = None"
        "loop_watchers l = (loop_watchers (writer_loop w))(tag \<mapsto> x)" "callback x = WRITER_ERROR_WATCH_FUNC" by blast
    then have w': "w' = w\<lparr>writer_loop := l, writer_error_watch_id := tag, writer_started := True\<rparr>"
      using 2(2) by (simp add: word_gt_0)
    have "flush_ok w'" using assms(2) l(2-5) unfolding w' by (auto simp: flush_ok_def)
    then show ?thesis by (simp add: flush_step_def w' flush_owed_def pending_mark_def)
  qed
qed

lemma smooth_step:
  assumes ok: "flush_ok w" and obs: "only_writes obs" and step: "writer_step obs w i w'"
    and smooth: "smooth i" and no_flush: "i \<noteq> Called Call_flush"
  shows "flush_step w w'"
  using step
proof cases
  case started
  then show ?thesis using started_ok [OF _ ok] by blast
next
  case (called call)
  obtain fd where fd: "writer_io_channel w = Some fd" "fd \<noteq> -1" using ok by (auto simp: flush_ok_def)
  from called smooth no_flush obtain chunk where "call = Call_write chunk" by (cases call) auto
  then obtain e where "milter_writer_write chunk w = Some (e, w')"
    using called by (auto simp: writer_called_def)
  from flush_step_wrote [OF wrote_write [OF this fd] ok] show ?thesis .
next
  case (dispatched tag x ch)
  then show ?thesis using smooth_dispatch [OF ok obs] smooth by blast
qed

lemma flushed_ok:
  assumes "milter_writer_flush w = Some (e, w')" and "flush_ok w"
  shows "flush_ok w'"
proof (cases "writer_io_channel w = None \<or> \<not> writer_started w")
  case True
  then have "w' = w" using assms(1) by (auto simp: milter_writer_flush_def split: if_splits)
  then show ?thesis using assms(2) by simp
next
  case ready: False
  show ?thesis
  proof (cases "0 < write_watch_id w")
    case True
    then have "w' = w\<lparr>flush_point := length (writer_buffer w)\<rparr>"
      using assms(1) ready by (auto simp: milter_writer_flush_def)
    then show ?thesis using assms(2) ready unfolding flush_ok_def by simp
  next
    case False
    then have "request_flush w = Some w'" using assms(1) ready by (auto simp: milter_writer_flush_def)
    then show ?thesis using requested_flush(1) assms(2) by blast
  qed
qed

lemma smooth_step_ok:
  assumes ok: "flush_ok w" and obs: "only_writes obs" and step: "writer_step obs w i w'" and smooth: "smooth i"
  shows "flush_ok w'"
proof (cases "i = Called Call_flush")
  case True
  then show ?thesis using step flushed_ok [OF _ ok] by (auto simp: writer_step_simps writer_called_def)
next
  case False
  from smooth_step [OF ok obs step smooth False] show ?thesis by (simp add: flush_step_def)
qed

text \<open>A sequence of steps without a flush.\<close>

lemma smooth_run:
  assumes "writer_run obs w inputs w'" and "flush_ok w" and "only_writes obs"
    and "\<forall>i \<in> set inputs. smooth i \<and> i \<noteq> Called Call_flush"
  shows "\<exists>new sent chunk. writer_signals w' = writer_signals w @ new \<and> writer_sent w' = writer_sent w @ sent \<and>
    writer_accepted w' = writer_accepted w @ chunk \<and>
    (\<not> flush_owed w \<longrightarrow> Writer_flushed \<notin> set new) \<and>
    (flush_owed w \<longrightarrow> Writer_flushed \<in> set new \<or> flush_owed w') \<and>
    (\<forall>m. pending_mark w = Some m \<longrightarrow> Writer_flushed \<notin> set new \<or> m \<le> length (writer_sent w'))"
  using assms(1,2,4)
proof (induction rule: writer_run.induct)
  case (writer_run_cons w i w1 inputs w')
  have "flush_step w w1" using smooth_step [OF writer_run_cons.prems(1) assms(3) writer_run_cons.hyps(1)] writer_run_cons.prems(2)
    by simp
  then obtain new1 sent1 chunk1 where 1: "flush_ok w1" "writer_signals w1 = writer_signals w @ new1"
    "writer_sent w1 = writer_sent w @ sent1" "Writer_flushed \<in> set new1 \<longrightarrow> flush_watch_id w \<noteq> 0"
    "flush_owed w \<longrightarrow> Writer_flushed \<in> set new1 \<or> flush_owed w1" "flush_owed w1 \<longrightarrow> flush_owed w"
    "\<forall>m. pending_mark w = Some m \<longrightarrow> pending_mark w1 = Some m \<or> m \<le> length (writer_sent w1)"
    "writer_accepted w1 = writer_accepted w @ chunk1"
    unfolding flush_step_def by blast
  have later: "\<forall>i \<in> set inputs. smooth i \<and> i \<noteq> Called Call_flush" using writer_run_cons.prems(2) by simp
  obtain new2 sent2 chunk2 where
    2: "writer_signals w' = writer_signals w1 @ new2" "writer_sent w' = writer_sent w1 @ sent2"
      "\<not> flush_owed w1 \<longrightarrow> Writer_flushed \<notin> set new2"
      "flush_owed w1 \<longrightarrow> Writer_flushed \<in> set new2 \<or> flush_owed w'"
      "\<forall>m. pending_mark w1 = Some m \<longrightarrow> Writer_flushed \<notin> set new2 \<or> m \<le> length (writer_sent w')"
      "writer_accepted w' = writer_accepted w1 @ chunk2"
    using writer_run_cons.IH [OF 1(1) later] by blast
  show ?case
  proof (intro exI conjI allI impI)
    show "writer_signals w' = writer_signals w @ (new1 @ new2)" "writer_sent w' = writer_sent w @ (sent1 @ sent2)"
      "writer_accepted w' = writer_accepted w @ (chunk1 @ chunk2)"
      using 1 2 by simp_all
    show "Writer_flushed \<notin> set (new1 @ new2)" if "\<not> flush_owed w"
      using that 1(4,6) 2(3) by (auto simp: flush_owed_def)
    show "Writer_flushed \<in> set (new1 @ new2) \<or> flush_owed w'" if "flush_owed w"
      using that 1(5) 2(4) by auto
    fix m assume m: "pending_mark w = Some m"
    then have "Writer_flushed \<notin> set new1" using 1(4) by (auto simp: pending_mark_def split: if_splits)
    moreover have "length (writer_sent w1) \<le> length (writer_sent w')" using 2(2) by simp
    ultimately show "Writer_flushed \<notin> set (new1 @ new2) \<or> m \<le> length (writer_sent w')"
      using 1(7) 2(5) m by fastforce
  qed
qed simp

text \<open>A loop in which only other objects have watchers.\<close>

definition foreign_loop :: "writer_callback event_loop \<Rightarrow> bool" where
  "foreign_loop loop \<longleftrightarrow>
     loop_watchers loop 0 = None \<and> (\<forall>tag x. loop_watchers loop tag = Some x \<longrightarrow> callback x = Callback_of_others)"

lemma new_writer_ok: "foreign_loop loop \<Longrightarrow> fd \<noteq> -1 \<Longrightarrow> flush_ok (milter_writer_io_channel_new loop fd)"
  by (auto simp: flush_ok_def foreign_loop_def milter_writer_io_channel_new_def milter_writer_init_def)

lemma smooth_run_ok:
  assumes "writer_run obs w inputs w'" and "flush_ok w" and "only_writes obs" and "\<forall>i \<in> set inputs. smooth i"
  shows "flush_ok w'"
  by (rule writer_run_invariant [where P = flush_ok and I = "set inputs", OF assms(1,2)])
    (use assms(3,4) smooth_step_ok in blast)+

text \<open>
  C15: as long as nothing fails, the writer is not shut down and the callbacks of its signals only write: a
  flush that is asked for, with no further one asked for afterwards, stays due until a flush is
  reported; and if no earlier one was under way, that is only after everything written before has been
  handed to the channel - with one exception: asked for when all has been handed over, the watcher
  for writing is still registered and no flush is under way, it is accepted and forgotten, and
  nothing is ever reported. (A callback that asks for a flush when one is reported to it is
  forgotten in the same way: \<open>flush_from_callback_forgotten\<close>.)
\<close>

theorem flush_after_data:
  assumes "foreign_loop loop" and "fd \<noteq> -1" and "only_writes obs"
    and "writer_run obs (milter_writer_io_channel_new loop fd) before w" and "\<forall>i \<in> set before. smooth i"
    and "milter_writer_flush w = Some (None, w1)"
    and "writer_run obs w1 after w'" and "\<forall>i \<in> set after. smooth i \<and> i \<noteq> Called Call_flush"
  shows "\<exists>new. writer_signals w' = writer_signals w @ new \<and>
    (if write_watch_id w \<noteq> 0 \<and> writer_buffer w = [] \<and> flush_watch_id w = 0
     then Writer_flushed \<notin> set new
     else (Writer_flushed \<in> set new \<or> flush_owed w') \<and>
       (flush_watch_id w = 0 \<and> Writer_flushed \<in> set new \<longrightarrow> (\<exists>more. writer_sent w' = writer_accepted w @ more)))"
proof -
  have ok: "flush_ok w" using smooth_run_ok [OF assms(4) new_writer_ok [OF assms(1,2)] assms(3,5)] .
  then have ok1: "flush_ok w1" using flushed_ok [OF assms(6)] by simp
  have order: "writer_accepted w = writer_sent w @ writer_buffer w"
    using run_in_order [OF assms(4)] by (simp add: in_order_def)
  from smooth_run [OF assms(7) ok1 assms(3,8)] obtain new sent chunk where
    run: "writer_signals w' = writer_signals w1 @ new" "writer_sent w' = writer_sent w1 @ sent"
      "\<not> flush_owed w1 \<longrightarrow> Writer_flushed \<notin> set new"
      "flush_owed w1 \<longrightarrow> Writer_flushed \<in> set new \<or> flush_owed w'"
      "\<forall>m. pending_mark w1 = Some m \<longrightarrow> Writer_flushed \<notin> set new \<or> m \<le> length (writer_sent w')"
      "writer_accepted w' = writer_accepted w1 @ chunk" by blast
  have "writer_called Call_flush w = Some w1" using assms(6) by (simp add: writer_called_def)
  then have "in_order w1" using in_order_called order by (simp add: in_order_def)
  then have "in_order w'"
    by (rule writer_run_invariant [where P = in_order and I = UNIV, OF assms(7)]) (auto intro: in_order_step)
  then have order': "writer_accepted w1 @ chunk = writer_sent w' @ writer_buffer w'"
    using run(6) by (simp add: in_order_def)
  consider (point) "write_watch_id w \<noteq> 0" "w1 = w\<lparr>flush_point := length (writer_buffer w)\<rparr>"
    | (now) "write_watch_id w = 0" "request_flush w = Some w1"
    using assms(6) by (auto simp: milter_writer_flush_def word_gt_0 split: if_splits)
  then show ?thesis
  proof cases
    case point
    have owed: "flush_owed w1 \<longleftrightarrow> \<not> (writer_buffer w = [] \<and> flush_watch_id w = 0)"
      by (simp add: point(2) flush_owed_def)
    have "\<exists>more. writer_sent w' = writer_accepted w @ more"
      if "flush_watch_id w = 0" "writer_buffer w \<noteq> []" "Writer_flushed \<in> set new"
    proof -
      have "pending_mark w1 = Some (length (writer_accepted w))"
        using that order by (simp add: point(2) pending_mark_def)
      then have long: "length (writer_accepted w) \<le> length (writer_sent w')" using run(5) that(3) by blast
      have "writer_accepted w @ chunk = writer_sent w' @ writer_buffer w'" using order' by (simp add: point(2))
      with long show ?thesis by (auto simp: append_eq_append_conv2 dest: sym)
    qed
    then show ?thesis using run(1,3,4) owed point(1) by (auto simp: point(2))
  next
    case now
    obtain l tag where w1: "w1 = w\<lparr>writer_loop := l, flush_watch_id := tag\<rparr>" "tag \<noteq> 0"
      using requested_flush [OF now(2) ok] by auto
    have "writer_buffer w = []" using ok now(1) by (simp add: flush_ok_def)
    then have "writer_sent w' = writer_accepted w @ sent" using run(2) order by (simp add: w1)
    moreover have "flush_owed w1" using w1 by (simp add: flush_owed_def)
    ultimately show ?thesis using run(1,4) now(1) by (auto simp: w1(1))
  qed
qed

text \<open>
  A flush that is asked for by the callback to which one is reported is forgotten: the id of the watcher
  that reports is still set, so none is registered, and it is cleared afterwards.
\<close>

theorem flush_from_callback_forgotten:
  fixes w :: milter_writer
  defines "r \<equiv> writer_emit Writer_flushed w"
  assumes "channel_flush ch = Flush_normal" and "obs Writer_flushed r = [Call_flush]"
    and "writer_io_channel w \<noteq> None" and "writer_started w" and "write_watch_id w = 0"
    and "flush_watch_id w \<noteq> 0" and "flush_point w = 0"
  shows "milter_writer_flush r = Some (None, r)"
    and "\<exists>w'. flush_watch_func obs ch w = Some (False, w') \<and>
      writer_signals w' = writer_signals w @ [Writer_flushed] \<and> \<not> flush_owed w'"
proof -
  have r: "writer_io_channel r \<noteq> None" "writer_started r" "write_watch_id r = 0" "flush_watch_id r \<noteq> 0"
    "flush_point r = 0" "writer_signals r = writer_signals w @ [Writer_flushed]"
    using assms(4-8) by (simp_all add: r_def writer_emit_def)
  show forgotten: "milter_writer_flush r = Some (None, r)"
    using r by (simp add: milter_writer_flush_def request_flush_def)
  have "writer_notify obs Writer_flushed w = Some r"
    using forgotten assms(3) by (simp add: writer_notify_def Let_def r_def [symmetric] writer_called_def)
  then show "\<exists>w'. flush_watch_func obs ch w = Some (False, w') \<and>
      writer_signals w' = writer_signals w @ [Writer_flushed] \<and> \<not> flush_owed w'"
    using r assms(2) by (simp add: flush_watch_func_def flush_owed_def)
qed

subsection \<open>A writer on a loop of its own\<close>

lemma watcher_id_next: "tag + 1 \<noteq> 0 \<Longrightarrow> ws (tag + 1) = None \<Longrightarrow> next_watcher_id ws tag = Some (tag + 1)"
  by (subst next_watcher_id.simps) simp

definition silent :: writer_observer where
  "silent = (\<lambda>_ _. [])"

abbreviation sample_writer :: milter_writer where
  "sample_writer \<equiv> milter_writer_io_channel_new milter_libev_event_loop_new 3"

definition sample_channel :: "nat \<Rightarrow> channel" where
  "sample_channel n = \<lparr>channel_takes = n, channel_write_error = False, channel_flush = Flush_normal\<rparr>"

definition sample_written :: "bytes \<Rightarrow> bytes \<Rightarrow> milter_writer" where
  "sample_written sent buffer =
     sample_writer\<lparr>writer_started := True, writer_error_watch_id := 1, write_watch_id := 2, writer_buffer := buffer,
       writer_accepted := sent @ buffer, writer_sent := sent,
       writer_loop := \<lparr>loop_depth = 0, loop_id = 2,
         loop_watchers = [1 \<mapsto> Io_watcher 3 0 WRITER_ERROR_WATCH_FUNC, 2 \<mapsto> Io_watcher 3 2 WRITE_WATCH_FUNC]\<rparr>\<rparr>"

lemmas sample_writer_simps = milter_writer_io_channel_new_def milter_writer_init_def milter_libev_event_loop_new_def
  sample_written_def

lemma sample_writer_prepared: "writer_run silent sample_writer [Started, Called (Call_write ''ab'')] (sample_written [] ''ab'')"
proof -
  have no_condition: "(2147483648 :: u16) = 0" by simp
  let ?w = "sample_writer\<lparr>writer_started := True, writer_error_watch_id := 1,
      writer_loop := \<lparr>loop_depth = 0, loop_id = 1, loop_watchers = [1 \<mapsto> Io_watcher 3 0 WRITER_ERROR_WATCH_FUNC]\<rparr>\<rparr>"
  have "milter_writer_start sample_writer = Some ?w"
    by (simp add: milter_writer_start_def writer_watch_io_channel_def writer_watch_def watch_io_full_def add_watcher_def
        watcher_id_next sample_writer_simps evcond_from_g_io_condition_def or_short_def EV_ERROR_def no_condition)
  moreover have "writer_called (Call_write ''ab'') ?w = Some (sample_written [] ''ab'')"
    by (simp add: writer_called_def milter_writer_write_def writer_watch_def watch_io_full_def add_watcher_def
        watcher_id_next sample_writer_simps evcond_from_g_io_condition_def or_short_def EV_WRITE_def)
  ultimately show ?thesis by (auto simp: writer_step_simps)
qed

lemma sample_write_watch:
  "dispatch_writer silent (sample_channel n) 2 (sample_written sent buffer) =
     (if buffer = []
      then Some ((sample_written sent buffer)\<lparr>write_watch_id := 0,
        writer_loop := snd (remove_watcher (writer_loop (sample_written sent buffer)) 2)\<rparr>)
      else Some (sample_written (sent @ take n buffer) (drop n buffer)))"
  by (simp add: dispatch_writer_def dispatch_watcher_def call_writer_callback_def write_watch_func_def written_def
      hand_over_def sample_channel_def sample_writer_simps)
    (auto simp: min_def)

lemma sample_write_step:
  "dispatch_writer silent (sample_channel n) 2 (sample_written sent buffer) = Some w \<Longrightarrow>
   writer_step silent (sample_written sent buffer) (Dispatched WRITE_WATCH_FUNC (sample_channel n)) w"
  using dispatched [of "sample_written sent buffer" 2 "Io_watcher 3 2 WRITE_WATCH_FUNC" silent "sample_channel n" w]
  by (simp add: sample_writer_simps)

lemma sample_sent:
  "writer_run silent sample_writer
     [Started, Called (Call_write ''ab''), Dispatched WRITE_WATCH_FUNC (sample_channel (Suc n))]
     (sample_written (take (Suc n) ''ab'') (drop (Suc n) ''ab''))"
  using sample_writer_prepared sample_write_step [of "Suc n" "[]" "''ab''"] by (auto simp: sample_write_watch)

theorem written_in_order_witness:
  "writer_accepted (sample_written ''a'' ''b'') = writer_sent (sample_written ''a'' ''b'') @ writer_buffer (sample_written ''a'' ''b'') \<and>
   writer_sent (sample_written ''a'' ''b'') = ''a''"
proof -
  have "writer_run silent sample_writer
     [Started, Called (Call_write ''ab''), Dispatched WRITE_WATCH_FUNC (sample_channel (Suc 0))] (sample_written ''a'' ''b'')"
    using sample_sent [of 0] by simp
  from written_in_order [OF this] show ?thesis by (simp add: sample_writer_simps)
qed

text \<open>All is written; the flush that is asked for then is accepted and forgotten.\<close>

theorem flush_after_data_witness:
  "milter_writer_flush (sample_written ''ab'' []) = Some (None, sample_written ''ab'' []) \<and>
   (\<exists>w new. writer_run silent (sample_written ''ab'' []) [Dispatched WRITE_WATCH_FUNC (sample_channel 1)] w \<and>
      writer_signals w = writer_signals (sample_written ''ab'' []) @ new \<and> Writer_flushed \<notin> set new)"
proof -
  let ?w = "sample_written ''ab'' []"
  have before: "writer_run silent sample_writer
     [Started, Called (Call_write ''ab''), Dispatched WRITE_WATCH_FUNC (sample_channel (Suc 1))] ?w"
    using sample_sent [of 1] by simp
  have smooth: "\<forall>i \<in> set [Started, Called (Call_write ''ab''), Dispatched WRITE_WATCH_FUNC (sample_channel (Suc 1))].
      smooth i" by (simp add: sample_channel_def)
  have flush: "milter_writer_flush ?w = Some (None, ?w)"
    by (simp add: milter_writer_flush_def sample_writer_simps)
  obtain w where "dispatch_writer silent (sample_channel 1) 2 ?w = Some w" by (simp add: sample_write_watch)
  then have after: "writer_run silent ?w [Dispatched WRITE_WATCH_FUNC (sample_channel 1)] w"
    using sample_write_step [of 1 "''ab''" "[]"] by simp
  have foreign: "foreign_loop milter_libev_event_loop_new" "(3 :: int) \<noteq> -1" "only_writes silent"
    by (simp_all add: foreign_loop_def milter_libev_event_loop_new_def only_writes_def silent_def)
  have "write_watch_id ?w \<noteq> 0" "writer_buffer ?w = []" "flush_watch_id ?w = 0" by (simp_all add: sample_writer_simps)
  with flush_after_data [OF foreign before smooth flush after] flush after
  show ?thesis by (auto simp: sample_channel_def)
qed

end
