(* ===== verification/Reader.thy ===== *)
theory Reader
  imports Event_Loop "HOL-Library.Monad_Syntax"
begin

text \<open>
  \<open>milter-reader.c\<close>: what the channel of an agent delivers is passed on, a chunk at a time, until
  the channel ends or fails or the reader is shut down, and then the end is reported. The
  callbacks of the reader's signals may shut it down. What the channel delivers is a parameter
  of a step.
\<close>

subsection \<open>State\<close>

datatype reader_callback = READ_WATCH_FUNC | READER_ERROR_WATCH_FUNC | Callback_of_other

datatype reader_signal = Reader_flow (flowed: bytes) | Reader_error | Reader_finished

text \<open>\<open>reader_started\<close>: \<open>priv->loop\<close> is set. \<open>reader_signals\<close> records what was emitted.\<close>

record reader =
  reader_io_channel :: "int option"
  reader_started :: bool
  reader_loop :: "reader_callback event_loop"
  read_watch_id :: u32
  reader_error_watch_id :: u32
  reader_processing :: bool
  shutdown_requested :: bool
  reader_tag :: u32
  reader_signals :: "reader_signal list"

definition milter_reader_init :: "reader_callback event_loop \<Rightarrow> reader" where
  "milter_reader_init loop =
     \<lparr>reader_io_channel = None, reader_started = False, reader_loop = loop, read_watch_id = 0,
      reader_error_watch_id = 0, reader_processing = False, shutdown_requested = False, reader_tag = 0,
      reader_signals = []\<rparr>"

definition milter_reader_io_channel_new :: "reader_callback event_loop \<Rightarrow> int \<Rightarrow> reader" where
  "milter_reader_io_channel_new loop fd = (milter_reader_init loop)\<lparr>reader_io_channel := Some fd\<rparr>"

definition reader_emit :: "reader_signal \<Rightarrow> reader \<Rightarrow> reader" where
  "reader_emit x r = r\<lparr>reader_signals := reader_signals r @ [x]\<rparr>"

definition reader_watch :: "io_condition set \<Rightarrow> reader_callback \<Rightarrow> reader \<Rightarrow> (u32 \<times> reader) option" where
  "reader_watch condition f r =
     map_option (\<lambda>(tag, l). (tag, r\<lparr>reader_loop := l\<rparr>))
       (watch_io_full (reader_loop r) (case reader_io_channel r of Some fd \<Rightarrow> fd | None \<Rightarrow> -1) condition f)"

definition reader_unwatch :: "u32 \<Rightarrow> reader \<Rightarrow> reader" where
  "reader_unwatch tag r = r\<lparr>reader_loop := snd (remove_watcher (reader_loop r) tag)\<rparr>"

subsection \<open>Finishing\<close>

definition reader_clear_watch_id :: "reader \<Rightarrow> reader" where
  "reader_clear_watch_id r =
     (let r = (if read_watch_id r \<noteq> 0 then (reader_unwatch (read_watch_id r) r)\<lparr>read_watch_id := 0\<rparr> else r);
          r = (if reader_error_watch_id r \<noteq> 0
               then (reader_unwatch (reader_error_watch_id r) r)\<lparr>reader_error_watch_id := 0\<rparr> else r)
      in r\<lparr>reader_started := False\<rparr>)"

text \<open>A callback of the signal that shut the reader down would find nothing to do: its watcher is gone.\<close>

definition reader_finish :: "reader \<Rightarrow> reader" where
  "reader_finish r = reader_emit Reader_finished (reader_clear_watch_id (r\<lparr>shutdown_requested := False\<rparr>))"

definition milter_reader_shutdown :: "reader \<Rightarrow> reader" where
  "milter_reader_shutdown r =
     (if read_watch_id r = 0 then r
      else if shutdown_requested r then r
      else
        let r = r\<lparr>shutdown_requested := True\<rparr>
        in if reader_processing r then r
           else reader_finish (reader_clear_watch_id (r\<lparr>reader_io_channel := None\<rparr>)))"

text \<open>An observer says whether the callbacks of a signal shut the reader down.\<close>

type_synonym reader_observer = "reader_signal \<Rightarrow> reader \<Rightarrow> bool"

definition reader_notify :: "reader_observer \<Rightarrow> reader_signal \<Rightarrow> reader \<Rightarrow> reader" where
  "reader_notify obs x r = (let r = reader_emit x r in if obs x r then milter_reader_shutdown r else r)"

subsection \<open>What the loop calls\<close>

datatype read_status = Read_normal | Read_again | Read_eof | Read_failed

definition read_from_channel :: "reader_observer \<Rightarrow> bytes \<times> read_status \<Rightarrow> reader \<Rightarrow> bool \<times> reader" where
  "read_from_channel obs chunk r =
     (case chunk of
        (stream, status) \<Rightarrow>
          let r = (if status = Read_failed then reader_notify obs Reader_error (r\<lparr>shutdown_requested := True\<rparr>) else r);
              r = (if stream \<noteq> [] then reader_notify obs (Reader_flow stream) r else r)
          in (status \<noteq> Read_failed \<and> status \<noteq> Read_eof, r))"

text \<open>
  The first chunk is what the channel delivers, the others are what it has buffered, which is read
  as well while the last read allows it. A shutdown that is asked for meanwhile is not looked at.
\<close>

fun read_buffered :: "reader_observer \<Rightarrow> (bytes \<times> read_status) list \<Rightarrow> bool \<times> reader \<Rightarrow> bool \<times> reader" where
  "read_buffered obs [] (keep, r) = (keep, r)"
| "read_buffered obs (chunk # chunks) (keep, r) =
     (if keep then read_buffered obs chunks (read_from_channel obs chunk r) else (keep, r))"

definition read_watch_func ::
    "reader_observer \<Rightarrow> bytes \<times> read_status \<Rightarrow> (bytes \<times> read_status) list \<Rightarrow> reader \<Rightarrow> bool \<times> reader" where
  "read_watch_func obs chunk buffered r =
     (let r = r\<lparr>reader_processing := True\<rparr>;
          (keep, r) = (if \<not> shutdown_requested r
                       then read_buffered obs buffered (read_from_channel obs chunk r) else (True, r));
          keep = (keep \<and> \<not> shutdown_requested r);
          r = (if \<not> keep then reader_finish (reader_clear_watch_id (r\<lparr>read_watch_id := 0\<rparr>)) else r)
      in (keep, r\<lparr>reader_processing := False\<rparr>))"

definition reader_error_watch_func :: "reader_observer \<Rightarrow> io_condition set \<Rightarrow> reader \<Rightarrow> bool \<times> reader" where
  "reader_error_watch_func obs condition r =
     (let r = (if \<not> shutdown_requested r \<and> G_IO_HUP \<in> condition then r\<lparr>shutdown_requested := True\<rparr> else r);
          error = (G_IO_ERR \<in> condition \<or>
                   \<not> shutdown_requested r \<and> (G_IO_HUP \<in> condition \<or> G_IO_NVAL \<in> condition));
          r = (if error then reader_notify obs Reader_error (r\<lparr>shutdown_requested := True\<rparr>) else r)
      in (False, reader_finish (reader_clear_watch_id (r\<lparr>reader_error_watch_id := 0\<rparr>))))"

subsection \<open>Starting\<close>

definition reader_watch_io_channel :: "reader \<Rightarrow> reader option" where
  "reader_watch_io_channel r =
     do { (tag, r) \<leftarrow> reader_watch {G_IO_IN, G_IO_PRI} READ_WATCH_FUNC r;
          let r = r\<lparr>read_watch_id := tag\<rparr>;
          if tag = 0 then Some r
          else do {
            (tag, r) \<leftarrow> reader_watch error_conditions READER_ERROR_WATCH_FUNC r;
            let r = r\<lparr>reader_error_watch_id := tag\<rparr>;
            Some (if tag = 0 then (reader_unwatch (read_watch_id r) r)\<lparr>read_watch_id := 0\<rparr>
                  else r\<lparr>reader_started := True\<rparr>) } }"

definition milter_reader_start :: "reader \<Rightarrow> reader option" where
  "milter_reader_start r =
     (if reader_io_channel r \<noteq> None \<and> read_watch_id r = 0 then reader_watch_io_channel r else Some r)"

definition reader_dispose :: "reader \<Rightarrow> reader" where
  "reader_dispose r = (reader_clear_watch_id r)\<lparr>reader_io_channel := None\<rparr>"

definition milter_reader_is_watching :: "reader \<Rightarrow> bool" where
  "milter_reader_is_watching r \<longleftrightarrow> 0 < read_watch_id r"

definition milter_reader_get_tag :: "reader \<Rightarrow> u32" where
  "milter_reader_get_tag r = reader_tag r"

definition milter_reader_set_tag :: "u32 \<Rightarrow> reader \<Rightarrow> reader" where
  "milter_reader_set_tag tag r = r\<lparr>reader_tag := tag\<rparr>"

subsection \<open>Steps\<close>

datatype reader_input =
    Channel_readable "bytes \<times> read_status" "(bytes \<times> read_status) list"
  | Channel_failed "io_condition set"
  | Shutdown_called

fun serves :: "reader_input \<Rightarrow> reader_callback \<Rightarrow> bool" where
  "serves (Channel_readable chunk buffered) cb \<longleftrightarrow> cb = READ_WATCH_FUNC"
| "serves (Channel_failed condition) cb \<longleftrightarrow> cb = READER_ERROR_WATCH_FUNC"
| "serves Shutdown_called cb \<longleftrightarrow> False"

definition call_reader_callback :: "reader_observer \<Rightarrow> reader_input \<Rightarrow> reader \<Rightarrow> bool \<times> reader" where
  "call_reader_callback obs i r =
     (case i of
        Channel_readable chunk buffered \<Rightarrow> read_watch_func obs chunk buffered r
      | Channel_failed condition \<Rightarrow> reader_error_watch_func obs condition r
      | Shutdown_called \<Rightarrow> (True, r))"

text \<open>The loop calls a watcher that is registered for the input.\<close>

inductive reader_step :: "reader_observer \<Rightarrow> reader \<Rightarrow> reader_input \<Rightarrow> reader \<Rightarrow> bool"
  for obs :: reader_observer
  where
    dispatched: "loop_watchers (reader_loop r) tag = Some x \<Longrightarrow> serves i (callback x) \<Longrightarrow>
      dispatch_watcher (\<lambda>cb r. Some (call_reader_callback obs i r)) reader_loop
        (\<lambda>f r. r\<lparr>reader_loop := f (reader_loop r)\<rparr>) tag r = Some r' \<Longrightarrow>
      reader_step obs r i r'"
  | shut_down: "reader_step obs r Shutdown_called (milter_reader_shutdown r)"

inductive reader_run :: "reader_observer \<Rightarrow> reader \<Rightarrow> reader_input list \<Rightarrow> reader \<Rightarrow> bool"
  for obs :: reader_observer
  where
    reader_run_nil: "reader_run obs r [] r"
  | reader_run_cons: "reader_step obs r i r1 \<Longrightarrow> reader_run obs r1 inputs r' \<Longrightarrow> reader_run obs r (i # inputs) r'"

inductive_simps reader_run_simps [simp]:
  "reader_run obs r [] r'"
  "reader_run obs r (i # inputs) r'"

end
