(* ===== verification/Reader_Spec.thy ===== *)
theory Reader_Spec
  imports Reader
begin

text \<open>
  What the channel of a reader delivers is passed on in order until it ends, and the end is
  reported exactly once, after which the reader has no watcher left.
\<close>

subsection \<open>The two states of a reader\<close>

definition own_reader_watchers :: "reader \<Rightarrow> u32 set" where
  "own_reader_watchers r = {tag. \<exists>x. loop_watchers (reader_loop r) tag = Some x \<and> callback x \<noteq> Callback_of_other}"

definition reader_active :: "reader \<Rightarrow> bool" where
  "reader_active r \<longleftrightarrow>
     read_watch_id r \<noteq> 0 \<and> reader_error_watch_id r \<noteq> 0 \<and> read_watch_id r \<noteq> reader_error_watch_id r \<and>
     own_reader_watchers r = {read_watch_id r, reader_error_watch_id r} \<and>
     (\<exists>x. loop_watchers (reader_loop r) (read_watch_id r) = Some x \<and> callback x = READ_WATCH_FUNC) \<and>
     (\<exists>x. loop_watchers (reader_loop r) (reader_error_watch_id r) = Some x \<and> callback x = READER_ERROR_WATCH_FUNC) \<and>
     \<not> shutdown_requested r \<and> \<not> reader_processing r"

definition reader_idle :: "reader \<Rightarrow> bool" where
  "reader_idle r \<longleftrightarrow> read_watch_id r = 0 \<and> reader_error_watch_id r = 0 \<and> own_reader_watchers r = {}"

lemma own_reader_remove:
  "own_reader_watchers (r\<lparr>reader_loop := snd (remove_watcher l tag)\<rparr>) = own_reader_watchers (r\<lparr>reader_loop := l\<rparr>) - {tag}"
  by (auto simp: own_reader_watchers_def remove_watcher_def)

lemma own_reader_frame [simp]:
  "own_reader_watchers (r\<lparr>read_watch_id := t\<rparr>) = own_reader_watchers r"
  "own_reader_watchers (r\<lparr>reader_error_watch_id := t\<rparr>) = own_reader_watchers r"
  "own_reader_watchers (r\<lparr>reader_started := b\<rparr>) = own_reader_watchers r"
  "own_reader_watchers (r\<lparr>shutdown_requested := b\<rparr>) = own_reader_watchers r"
  "own_reader_watchers (r\<lparr>reader_processing := b\<rparr>) = own_reader_watchers r"
  "own_reader_watchers (r\<lparr>reader_io_channel := ch\<rparr>) = own_reader_watchers r"
  "own_reader_watchers (r\<lparr>reader_signals := xs\<rparr>) = own_reader_watchers r"
  by (simp_all add: own_reader_watchers_def)

text \<open>Clearing the ids removes the watchers they stand for.\<close>

lemma cleared_reader:
  "own_reader_watchers (reader_clear_watch_id r) = own_reader_watchers r -
     ((if read_watch_id r \<noteq> 0 then {read_watch_id r} else {}) \<union>
      (if reader_error_watch_id r \<noteq> 0 then {reader_error_watch_id r} else {}))"
  "read_watch_id (reader_clear_watch_id r) = 0" "reader_error_watch_id (reader_clear_watch_id r) = 0"
  "reader_signals (reader_clear_watch_id r) = reader_signals r"
  by (auto simp: reader_clear_watch_id_def reader_unwatch_def Let_def own_reader_remove)

lemma finished_reader:
  "own_reader_watchers (reader_finish (reader_clear_watch_id r)) = own_reader_watchers (reader_clear_watch_id r)"
  "read_watch_id (reader_finish (reader_clear_watch_id r)) = 0"
  "reader_error_watch_id (reader_finish (reader_clear_watch_id r)) = 0"
  "reader_signals (reader_finish (reader_clear_watch_id r)) = reader_signals r @ [Reader_finished]"
  by (simp_all add: reader_finish_def reader_emit_def cleared_reader)

text \<open>A reader that is freed while it is active leaves no watcher that would call it.\<close>

lemma disposed_reader: "reader_active r \<Longrightarrow> reader_idle (reader_dispose r)"
  by (simp add: reader_dispose_def reader_idle_def cleared_reader reader_active_def)

subsection \<open>One call of the reader\<close>

text \<open>What the chunks are turned into: those after the end or a failure are not read.\<close>

fun read_signals :: "(bytes \<times> read_status) list \<Rightarrow> reader_signal list" where
  "read_signals [] = []"
| "read_signals ((stream, status) # chunks) =
     (if status = Read_failed then [Reader_error] else []) @
     (if stream \<noteq> [] then [Reader_flow stream] else []) @
     (if status = Read_failed \<or> status = Read_eof then [] else read_signals chunks)"

fun reads_end :: "(bytes \<times> read_status) list \<Rightarrow> bool" where
  "reads_end [] \<longleftrightarrow> False"
| "reads_end ((stream, status) # chunks) \<longleftrightarrow> status = Read_failed \<or> status = Read_eof \<or> reads_end chunks"

lemma notify_processing:
  assumes "reader_processing r"
  shows "\<exists>b. reader_notify obs x r = r\<lparr>reader_signals := reader_signals r @ [x], shutdown_requested := b\<rparr>"
proof (cases "shutdown_requested (reader_notify obs x r)")
  case True
  with assms show ?thesis
    by (intro exI [of _ True])
      (cases r; auto simp: reader_notify_def reader_emit_def milter_reader_shutdown_def Let_def split: if_splits)
next
  case False
  with assms show ?thesis
    by (intro exI [of _ False])
      (cases r; auto simp: reader_notify_def reader_emit_def milter_reader_shutdown_def Let_def split: if_splits)
qed

lemma read_one:
  assumes "reader_processing r"
  shows "\<exists>b. read_from_channel obs (stream, status) r =
    (status \<noteq> Read_failed \<and> status \<noteq> Read_eof,
     r\<lparr>reader_signals := reader_signals r @ (if status = Read_failed then [Reader_error] else []) @
         (if stream \<noteq> [] then [Reader_flow stream] else []), shutdown_requested := b\<rparr>)"
proof -
  obtain b1 where b1: "(if status = Read_failed then reader_notify obs Reader_error (r\<lparr>shutdown_requested := True\<rparr>) else r) =
      r\<lparr>reader_signals := reader_signals r @ (if status = Read_failed then [Reader_error] else []), shutdown_requested := b1\<rparr>"
      (is "_ = ?r1")
  proof (cases "status = Read_failed")
    case True
    then show ?thesis using that notify_processing [of "r\<lparr>shutdown_requested := True\<rparr>" obs Reader_error] assms by auto
  next
    case False
    then show ?thesis using that [of "shutdown_requested r"] by simp
  qed
  obtain b2 where "(if stream \<noteq> [] then reader_notify obs (Reader_flow stream) ?r1 else ?r1) =
      ?r1\<lparr>reader_signals := reader_signals ?r1 @ (if stream \<noteq> [] then [Reader_flow stream] else []), shutdown_requested := b2\<rparr>"
  proof (cases "stream = []")
    case True
    then show ?thesis using that [of b1] by simp
  next
    case False
    then show ?thesis using that notify_processing [of ?r1 obs "Reader_flow stream"] assms by auto
  qed
  then show ?thesis by (auto simp: read_from_channel_def b1 Let_def)
qed

lemma read_many:
  assumes "reader_processing r"
  shows "\<exists>b. read_buffered obs chunks (True, r) =
    (\<not> reads_end chunks, r\<lparr>reader_signals := reader_signals r @ read_signals chunks, shutdown_requested := b\<rparr>)"
  using assms
proof (induction chunks arbitrary: r)
  case Nil
  then show ?case by (auto intro: exI [of _ "shutdown_requested r"])
next
  case (Cons chunk chunks)
  obtain stream status where chunk: "chunk = (stream, status)" by (rule prod.exhaust)
  obtain b where b: "read_from_channel obs (stream, status) r =
    (status \<noteq> Read_failed \<and> status \<noteq> Read_eof,
     r\<lparr>reader_signals := reader_signals r @ (if status = Read_failed then [Reader_error] else []) @
         (if stream \<noteq> [] then [Reader_flow stream] else []), shutdown_requested := b\<rparr>)" (is "_ = (?keep, ?r)")
    using read_one [OF Cons.prems] by blast
  show ?case
  proof (cases "status = Read_failed \<or> status = Read_eof")
    case True
    then have "read_buffered obs chunks (?keep, ?r) = (False, ?r)" by (cases chunks) auto
    then show ?thesis using True b chunk by auto
  next
    case False
    have "reader_processing ?r" using Cons.prems by simp
    from Cons.IH [OF this] False b chunk show ?thesis by auto
  qed
qed

text \<open>A call of an active reader passes on what there is and leaves it active or finishes it.\<close>

definition reader_served :: "reader_input \<Rightarrow> reader \<Rightarrow> reader \<Rightarrow> bool" where
  "reader_served i r r' \<longleftrightarrow>
     (\<exists>new. Reader_finished \<notin> set new \<and>
        (case i of Channel_readable chunk buffered \<Rightarrow> new = read_signals (chunk # buffered)
         | _ \<Rightarrow> set new \<subseteq> {Reader_error}) \<and>
        (reader_active r' \<and> reader_signals r' = reader_signals r @ new \<or>
         reader_idle r' \<and> reader_signals r' = reader_signals r @ new @ [Reader_finished]))"

lemma read_signals_not_finished: "Reader_finished \<notin> set (read_signals chunks)"
  by (induction chunks rule: read_signals.induct) auto

lemma active_watcher:
  assumes "reader_active r" and "loop_watchers (reader_loop r) tag = Some x" and "callback x \<noteq> Callback_of_other"
  shows "tag = read_watch_id r \<and> callback x = READ_WATCH_FUNC \<or>
    tag = reader_error_watch_id r \<and> callback x = READER_ERROR_WATCH_FUNC"
proof -
  have "tag \<in> own_reader_watchers r" using assms(2,3) by (auto simp: own_reader_watchers_def)
  then show ?thesis using assms by (auto simp: reader_active_def)
qed

lemma read_step:
  assumes act: "reader_active r"
    and step: "dispatch_watcher (\<lambda>cb r. Some (call_reader_callback obs (Channel_readable chunk buffered) r)) reader_loop
      (\<lambda>f r. r\<lparr>reader_loop := f (reader_loop r)\<rparr>) (read_watch_id r) r = Some r'"
  shows "reader_served (Channel_readable chunk buffered) r r'"
proof -
  let ?p = "r\<lparr>reader_processing := True\<rparr>"
  have "read_buffered obs buffered (read_from_channel obs chunk ?p) = read_buffered obs (chunk # buffered) (True, ?p)"
    by simp
  moreover obtain b where "read_buffered obs (chunk # buffered) (True, ?p) =
      (\<not> reads_end (chunk # buffered),
       ?p\<lparr>reader_signals := reader_signals ?p @ read_signals (chunk # buffered), shutdown_requested := b\<rparr>)"
    using read_many [of ?p obs "chunk # buffered"] by auto
  ultimately have read: "read_buffered obs buffered (read_from_channel obs chunk ?p) =
      (\<not> reads_end (chunk # buffered),
       ?p\<lparr>reader_signals := reader_signals r @ read_signals (chunk # buffered), shutdown_requested := b\<rparr>)" (is "_ = (?keep, ?q)")
    by simp
  have idle: "\<not> shutdown_requested r" using act by (simp add: reader_active_def)
  obtain x where x: "loop_watchers (reader_loop r) (read_watch_id r) = Some x" using act by (auto simp: reader_active_def)
  show ?thesis
  proof (cases "?keep \<and> \<not> b")
    case True
    then have "read_watch_func obs chunk buffered r = (True, ?q\<lparr>reader_processing := False\<rparr>)"
      using idle by (simp add: read_watch_func_def read)
    then have "r' = ?q\<lparr>reader_processing := False\<rparr>"
      using step x by (simp add: dispatch_watcher_def call_reader_callback_def)
    moreover from this have "reader_active r'" using act True by (simp add: reader_active_def)
    ultimately show ?thesis using read_signals_not_finished unfolding reader_served_def by simp
  next
    case False
    let ?f = "reader_finish (reader_clear_watch_id (?q\<lparr>read_watch_id := 0\<rparr>))\<lparr>reader_processing := False\<rparr>"
    have "read_watch_func obs chunk buffered r = (False, ?f)"
      using idle False by (auto simp: read_watch_func_def read)
    then have r': "r' = ?f\<lparr>reader_loop := snd (remove_watcher (reader_loop ?f) (read_watch_id r))\<rparr>"
      using step x by (simp add: dispatch_watcher_def call_reader_callback_def)
    have "own_reader_watchers ?f = own_reader_watchers r - {reader_error_watch_id r}"
      using act by (simp add: finished_reader cleared_reader reader_active_def)
    then have "own_reader_watchers r' = {}"
      unfolding r' own_reader_remove using act by (auto simp: reader_active_def)
    then have "reader_idle r'" by (simp add: reader_idle_def r' finished_reader)
    moreover have "reader_signals r' = reader_signals r @ read_signals (chunk # buffered) @ [Reader_finished]"
      by (simp add: r' finished_reader)
    ultimately show ?thesis using read_signals_not_finished unfolding reader_served_def by simp
  qed
qed

lemma error_step:
  assumes act: "reader_active r"
    and step: "dispatch_watcher (\<lambda>cb r. Some (call_reader_callback obs (Channel_failed condition) r)) reader_loop
      (\<lambda>f r. r\<lparr>reader_loop := f (reader_loop r)\<rparr>) (reader_error_watch_id r) r = Some r'"
  shows "reader_served (Channel_failed condition) r r'"
proof -
  let ?h = "if G_IO_HUP \<in> condition then r\<lparr>shutdown_requested := True\<rparr> else r"
  have notify: "reader_notify obs Reader_error q = q\<lparr>reader_signals := reader_signals q @ [Reader_error]\<rparr>"
    if "shutdown_requested q" for q
    using that by (simp add: reader_notify_def reader_emit_def milter_reader_shutdown_def Let_def)
  obtain new b where q: "reader_error_watch_func obs condition r =
      (False, reader_finish (reader_clear_watch_id
        (r\<lparr>reader_signals := reader_signals r @ new, shutdown_requested := b, reader_error_watch_id := 0\<rparr>)))"
    and new: "set new \<subseteq> {Reader_error}"
  proof (cases "G_IO_ERR \<in> condition \<or> \<not> shutdown_requested ?h \<and> (G_IO_HUP \<in> condition \<or> G_IO_NVAL \<in> condition)")
    case True
    then show ?thesis using that [of True "[Reader_error]"] act
      by (cases r) (auto simp: reader_error_watch_func_def reader_active_def notify Let_def split: if_splits)
  next
    case False
    then show ?thesis using that [of "shutdown_requested ?h" "[]"] act
      by (cases r) (auto simp: reader_error_watch_func_def reader_active_def Let_def split: if_splits)
  qed
  let ?q = "r\<lparr>reader_signals := reader_signals r @ new, shutdown_requested := b, reader_error_watch_id := 0\<rparr>"
  let ?f = "reader_finish (reader_clear_watch_id ?q)"
  obtain x where x: "loop_watchers (reader_loop r) (reader_error_watch_id r) = Some x"
    using act by (auto simp: reader_active_def)
  have r': "r' = ?f\<lparr>reader_loop := snd (remove_watcher (reader_loop ?f) (reader_error_watch_id r))\<rparr>"
    using step x q by (simp add: dispatch_watcher_def call_reader_callback_def)
  have "own_reader_watchers ?f = own_reader_watchers r - {read_watch_id r}"
    using act by (simp add: finished_reader cleared_reader reader_active_def)
  then have "own_reader_watchers r' = {}"
    unfolding r' own_reader_remove using act by (auto simp: reader_active_def)
  then have "reader_idle r'" by (simp add: reader_idle_def r' finished_reader)
  moreover have "reader_signals r' = reader_signals r @ new @ [Reader_finished]" by (simp add: r' finished_reader)
  ultimately show ?thesis using new unfolding reader_served_def by auto
qed

lemma active_step:
  assumes step: "reader_step obs r i r'" and act: "reader_active r"
  shows "reader_served i r r'"
  using step
proof cases
  case (dispatched tag x)
  show ?thesis
  proof (cases i)
    case (Channel_readable chunk buffered)
    then have "tag = read_watch_id r" using active_watcher [OF act dispatched(1)] dispatched(2) by auto
    then show ?thesis using read_step [OF act] dispatched(3) Channel_readable by simp
  next
    case (Channel_failed condition)
    then have "tag = reader_error_watch_id r" using active_watcher [OF act dispatched(1)] dispatched(2) by auto
    then show ?thesis using error_step [OF act] dispatched(3) Channel_failed by simp
  qed (use dispatched in simp)
next
  case shut_down
  let ?q = "r\<lparr>shutdown_requested := True, reader_io_channel := None\<rparr>"
  have r': "r' = reader_finish (reader_clear_watch_id ?q)"
    using shut_down act by (simp add: milter_reader_shutdown_def reader_active_def Let_def)
  have "reader_idle r'" using act
    by (simp add: r' reader_idle_def finished_reader cleared_reader reader_active_def)
  moreover have "reader_signals r' = reader_signals r @ [] @ [Reader_finished]" by (simp add: r' finished_reader)
  ultimately show ?thesis using shut_down unfolding reader_served_def by (intro exI [of _ "[]"]) simp
qed

text \<open>Nothing reaches a reader that has finished.\<close>

lemma idle_step:
  assumes step: "reader_step obs r i r'" and idle: "reader_idle r"
  shows "r' = r \<and> i = Shutdown_called"
  using step
proof cases
  case (dispatched tag x)
  then have "tag \<in> own_reader_watchers r" by (cases i) (auto simp: own_reader_watchers_def)
  then show ?thesis using idle by (simp add: reader_idle_def)
next
  case shut_down
  then show ?thesis using idle by (simp add: reader_idle_def milter_reader_shutdown_def)
qed

subsection \<open>Runs\<close>

fun signal_bytes :: "reader_signal \<Rightarrow> bytes" where
  "signal_bytes (Reader_flow stream) = stream"
| "signal_bytes x = []"

fun input_bytes :: "reader_input \<Rightarrow> bytes" where
  "input_bytes (Channel_readable chunk buffered) = concat (map signal_bytes (read_signals (chunk # buffered)))"
| "input_bytes i = []"

lemma served_bytes:
  assumes "reader_served i r r'"
  obtains new where "Reader_finished \<notin> set new" "concat (map signal_bytes new) = input_bytes i"
    "reader_active r' \<and> reader_signals r' = reader_signals r @ new \<or>
     reader_idle r' \<and> reader_signals r' = reader_signals r @ new @ [Reader_finished]"
proof -
  from assms obtain new where new: "Reader_finished \<notin> set new"
    "(case i of Channel_readable chunk buffered \<Rightarrow> new = read_signals (chunk # buffered) | _ \<Rightarrow> set new \<subseteq> {Reader_error})"
    "reader_active r' \<and> reader_signals r' = reader_signals r @ new \<or>
     reader_idle r' \<and> reader_signals r' = reader_signals r @ new @ [Reader_finished]"
    unfolding reader_served_def by blast
  have "concat (map signal_bytes new) = []" if "set new \<subseteq> {Reader_error}" using that by (auto simp: concat_eq_Nil_conv)
  then have "concat (map signal_bytes new) = input_bytes i" using new(2) by (cases i) auto
  then show ?thesis using that new by blast
qed

lemma idle_run:
  "reader_run obs r inputs r' \<Longrightarrow> reader_idle r \<Longrightarrow> r' = r \<and> concat (map input_bytes inputs) = []"
proof (induction rule: reader_run.induct)
  case (reader_run_cons r i r1 inputs r')
  then show ?case using idle_step [OF reader_run_cons.hyps(1)] by simp
qed simp

lemma active_run:
  assumes "reader_run obs r inputs r'" and "reader_active r"
  shows "\<exists>new. Reader_finished \<notin> set new \<and> concat (map signal_bytes new) = concat (map input_bytes inputs) \<and>
    (reader_active r' \<and> reader_signals r' = reader_signals r @ new \<or>
     reader_idle r' \<and> reader_signals r' = reader_signals r @ new @ [Reader_finished])"
  using assms
proof (induction rule: reader_run.induct)
  case (reader_run_nil r)
  then show ?case by (intro exI [of _ "[]"]) simp
next
  case (reader_run_cons r i r1 inputs r')
  obtain new where new: "Reader_finished \<notin> set new" "concat (map signal_bytes new) = input_bytes i"
    "reader_active r1 \<and> reader_signals r1 = reader_signals r @ new \<or>
     reader_idle r1 \<and> reader_signals r1 = reader_signals r @ new @ [Reader_finished]"
    using served_bytes [OF active_step [OF reader_run_cons.hyps(1) reader_run_cons.prems]] by blast
  from new(3) show ?case
  proof
    assume act: "reader_active r1 \<and> reader_signals r1 = reader_signals r @ new"
    with reader_run_cons.IH obtain more where "Reader_finished \<notin> set more"
      "concat (map signal_bytes more) = concat (map input_bytes inputs)"
      "reader_active r' \<and> reader_signals r' = reader_signals r1 @ more \<or>
       reader_idle r' \<and> reader_signals r' = reader_signals r1 @ more @ [Reader_finished]" by blast
    then show ?thesis using act new(1,2) by (intro exI [of _ "new @ more"]) auto
  next
    assume idle: "reader_idle r1 \<and> reader_signals r1 = reader_signals r @ new @ [Reader_finished]"
    with idle_run [OF reader_run_cons.hyps(2)] new(1,2) show ?thesis by (intro exI [of _ new]) auto
  qed
qed

definition foreign_reader_loop :: "reader_callback event_loop \<Rightarrow> bool" where
  "foreign_reader_loop loop \<longleftrightarrow> (\<forall>tag x. loop_watchers loop tag = Some x \<longrightarrow> callback x = Callback_of_other)"

lemma started_reader:
  assumes "foreign_reader_loop loop" and "fd \<noteq> -1"
    and "milter_reader_start (milter_reader_io_channel_new loop fd) = Some r"
  shows "reader_active r \<and> reader_signals r = []"
proof -
  let ?r = "milter_reader_io_channel_new loop fd"
  obtain t1 l1 where 1: "add_watcher loop (Io_watcher fd (evcond_from_g_io_condition {G_IO_IN, G_IO_PRI}) READ_WATCH_FUNC) = Some (t1, l1)"
    and run1: "do { (tag, r) \<leftarrow> reader_watch error_conditions READER_ERROR_WATCH_FUNC (?r\<lparr>reader_loop := l1, read_watch_id := t1\<rparr>);
            let r = r\<lparr>reader_error_watch_id := tag\<rparr>;
            Some (if tag = 0 then (reader_unwatch (read_watch_id r) r)\<lparr>read_watch_id := 0\<rparr>
                  else r\<lparr>reader_started := True\<rparr>) } = Some r"
  proof -
    have new: "reader_io_channel ?r = Some fd" "read_watch_id ?r = 0" "reader_loop ?r = loop"
      by (simp_all add: milter_reader_io_channel_new_def milter_reader_init_def)
    obtain t1 l1 where w: "add_watcher loop (Io_watcher fd (evcond_from_g_io_condition {G_IO_IN, G_IO_PRI}) READ_WATCH_FUNC) = Some (t1, l1)"
      using assms(2,3) new
      by (auto simp: milter_reader_start_def reader_watch_io_channel_def reader_watch_def watch_io_full_def split: Option.bind_splits)
    then have "t1 \<noteq> 0" using libev.add_new by blast
    then show ?thesis
      using that [OF w] assms(2,3) new w
      by (simp add: milter_reader_start_def reader_watch_io_channel_def reader_watch_def watch_io_full_def)
  qed
  note first = libev.add_new [OF 1]
  let ?r1 = "?r\<lparr>reader_loop := l1, read_watch_id := t1\<rparr>"
  have "reader_io_channel ?r1 = Some fd" by (simp add: milter_reader_io_channel_new_def)
  then obtain t2 l2 where 2: "add_watcher l1 (Io_watcher fd (evcond_from_g_io_condition error_conditions) READER_ERROR_WATCH_FUNC) = Some (t2, l2)"
    using run1 assms(2) by (auto simp: reader_watch_def watch_io_full_def split: Option.bind_splits)
  note second = libev.add_new [OF 2]
  have r: "r = ?r1\<lparr>reader_loop := l2, reader_error_watch_id := t2, reader_started := True\<rparr>"
    using run1 2 second assms(2) by (simp add: reader_watch_def watch_io_full_def milter_reader_io_channel_new_def)
  have "own_reader_watchers r = {t1, t2}"
    using first second assms(1) by (auto simp: r own_reader_watchers_def foreign_reader_loop_def)
  then show ?thesis using first second
    by (auto simp: r reader_active_def milter_reader_io_channel_new_def milter_reader_init_def)
qed

text \<open>C16: a reader that has been started passes on everything its channel delivers, in order and up to
  the end of the channel or a failure, and reports exactly once that it has finished: while it
  watches the channel it has not, and when it does not any more, that report was the last
  signal and none of its watchers is left in the loop.\<close>

theorem reader_finishes_once:
  assumes "foreign_reader_loop loop" and "fd \<noteq> -1"
    and "milter_reader_start (milter_reader_io_channel_new loop fd) = Some r" and "reader_run obs r inputs r'"
  shows "\<exists>before. Reader_finished \<notin> set before \<and>
    concat (map signal_bytes before) = concat (map input_bytes inputs) \<and>
    reader_signals r' = before @ (if milter_reader_is_watching r' then [] else [Reader_finished]) \<and>
    (\<not> milter_reader_is_watching r' \<longrightarrow> own_reader_watchers r' = {})"
proof -
  from started_reader [OF assms(1-3)] have r: "reader_active r" "reader_signals r = []" by simp_all
  obtain new where new: "Reader_finished \<notin> set new" "concat (map signal_bytes new) = concat (map input_bytes inputs)"
    "reader_active r' \<and> reader_signals r' = new \<or> reader_idle r' \<and> reader_signals r' = new @ [Reader_finished]"
    using active_run [OF assms(4) r(1)] r(2) by auto
  have "milter_reader_is_watching r' \<longleftrightarrow> reader_active r'"
    using new(3) by (auto simp: milter_reader_is_watching_def reader_active_def reader_idle_def word_gt_0)
  moreover have "\<not> (reader_active r' \<and> reader_idle r')" by (simp add: reader_active_def reader_idle_def)
  ultimately show ?thesis using new by (intro exI [of _ new]) (auto simp: reader_idle_def)
qed

subsection \<open>A reader on a loop of its own\<close>

definition sample_reader :: "bool \<Rightarrow> reader_signal list \<Rightarrow> reader" where
  "sample_reader started signals =
     \<lparr>reader_io_channel = Some 3, reader_started = started,
      reader_loop = \<lparr>loop_depth = 0, loop_id = 2,
        loop_watchers = (if started then [1 \<mapsto> Io_watcher 3 1 READ_WATCH_FUNC, 2 \<mapsto> Io_watcher 3 0 READER_ERROR_WATCH_FUNC]
          else Map.empty)\<rparr>,
      read_watch_id = (if started then 1 else 0), reader_error_watch_id = (if started then 2 else 0),
      reader_processing = False, shutdown_requested = False, reader_tag = 0, reader_signals = signals\<rparr>"

lemma sample_started:
  "milter_reader_start (milter_reader_io_channel_new milter_libev_event_loop_new 3) = Some (sample_reader True [])"
proof -
  have next_id: "tag + 1 \<noteq> 0 \<Longrightarrow> ws (tag + 1) = None \<Longrightarrow> next_watcher_id ws tag = Some (tag + 1)"
    for ws :: "u32 \<Rightarrow> reader_callback watcher option" and tag
    by (subst next_watcher_id.simps) simp
  have no_condition: "(2147483648 :: u16) = 0" by simp
  show ?thesis
    by (simp add: milter_reader_start_def reader_watch_io_channel_def reader_watch_def watch_io_full_def add_watcher_def
        next_id milter_reader_io_channel_new_def milter_reader_init_def milter_libev_event_loop_new_def sample_reader_def
        evcond_from_g_io_condition_def or_short_def EV_READ_def EV_ERROR_def no_condition)
qed

lemma sample_read_step:
  assumes "dispatch_watcher (\<lambda>cb r. Some (call_reader_callback obs (Channel_readable chunk buffered) r)) reader_loop
      (\<lambda>f r. r\<lparr>reader_loop := f (reader_loop r)\<rparr>) 1 (sample_reader True signals) = Some r'"
  shows "reader_step obs (sample_reader True signals) (Channel_readable chunk buffered) r'"
  by (rule reader_step.dispatched [where tag = 1 and x = "Io_watcher 3 1 READ_WATCH_FUNC"])
    (use assms in \<open>simp_all add: sample_reader_def\<close>)

theorem reader_finishes_once_witness:
  "\<exists>r'. reader_run (\<lambda>_ _. False) (sample_reader True [])
       [Channel_readable (''ab'', Read_normal) [(''c'', Read_again)], Channel_readable ([], Read_eof) []] r' \<and>
     reader_signals r' = [Reader_flow ''ab'', Reader_flow ''c'', Reader_finished] \<and> own_reader_watchers r' = {}"
proof -
  let ?inputs = "[Channel_readable (''ab'', Read_normal) [(''c'', Read_again)], Channel_readable ([], Read_eof) []]"
  let ?final = "sample_reader False [Reader_flow ''ab'', Reader_flow ''c'', Reader_finished]"
  have "reader_step (\<lambda>_ _. False) (sample_reader True []) (hd ?inputs) (sample_reader True [Reader_flow ''ab'', Reader_flow ''c''])"
    unfolding list.sel
    by (rule sample_read_step)
      (simp add: sample_reader_def dispatch_watcher_def call_reader_callback_def read_watch_func_def read_from_channel_def
        reader_notify_def reader_emit_def)
  moreover have "reader_step (\<lambda>_ _. False) (sample_reader True [Reader_flow ''ab'', Reader_flow ''c''])
      (Channel_readable ([], Read_eof) []) ?final"
    by (rule sample_read_step)
      (simp add: sample_reader_def dispatch_watcher_def call_reader_callback_def read_watch_func_def read_from_channel_def
        reader_finish_def reader_clear_watch_id_def reader_unwatch_def remove_watcher_def reader_emit_def Let_def)
  ultimately have run: "reader_run (\<lambda>_ _. False) (sample_reader True []) ?inputs ?final" by auto
  have foreign: "foreign_reader_loop milter_libev_event_loop_new" "(3 :: int) \<noteq> -1"
    by (simp_all add: foreign_reader_loop_def milter_libev_event_loop_new_def)
  have "\<not> milter_reader_is_watching ?final" by (simp add: milter_reader_is_watching_def sample_reader_def)
  then have "own_reader_watchers ?final = {}"
    using reader_finishes_once [OF foreign sample_started run] by blast
  moreover have "reader_signals ?final = [Reader_flow ''ab'', Reader_flow ''c'', Reader_finished]"
    by (simp add: sample_reader_def)
  ultimately show ?thesis using run by blast
qed

end
