(* ===== verification/Libmilter.thy ===== *)
theory Libmilter
  imports Client_Context_Commands Connection "HOL-Library.Monad_Syntax"
begin

text \<open>
  \<open>libmilter/libmilter-compatible.c\<close>, the session: the interface of Sendmail's libmilter on top
  of a client context. A filter is a description with callbacks; a callback gets the session's
  context, uses it through the \<open>smfi_\<close> functions and returns an \<open>SMFIS_\<close> status. \<open>None\<close> as the
  result of a callback or a function stands for a crash. The process around the sessions is in
  \<open>Libmilter_Main\<close>.
\<close>

subsection \<open>Status codes\<close>

definition MI_SUCCESS :: int where "MI_SUCCESS = 0"
definition MI_FAILURE :: int where "MI_FAILURE = -1"

definition SMFIS_CONTINUE :: int where "SMFIS_CONTINUE = 0"
definition SMFIS_REJECT :: int where "SMFIS_REJECT = 1"
definition SMFIS_DISCARD :: int where "SMFIS_DISCARD = 2"
definition SMFIS_ACCEPT :: int where "SMFIS_ACCEPT = 3"
definition SMFIS_TEMPFAIL :: int where "SMFIS_TEMPFAIL = 4"
definition SMFIS_NOREPLY :: int where "SMFIS_NOREPLY = 7"
definition SMFIS_SKIP :: int where "SMFIS_SKIP = 8"
definition SMFIS_ALL_OPTS :: int where "SMFIS_ALL_OPTS = 10"

lemmas smfis_codes = SMFIS_CONTINUE_def SMFIS_REJECT_def SMFIS_DISCARD_def SMFIS_ACCEPT_def
  SMFIS_TEMPFAIL_def SMFIS_NOREPLY_def SMFIS_SKIP_def SMFIS_ALL_OPTS_def

definition libmilter_compatible_convert_status_to :: "int \<Rightarrow> milter_status" where
  "libmilter_compatible_convert_status_to status =
     (if status = SMFIS_CONTINUE then MILTER_STATUS_CONTINUE
      else if status = SMFIS_REJECT then MILTER_STATUS_REJECT
      else if status = SMFIS_DISCARD then MILTER_STATUS_DISCARD
      else if status = SMFIS_ACCEPT then MILTER_STATUS_ACCEPT
      else if status = SMFIS_TEMPFAIL then MILTER_STATUS_TEMPORARY_FAILURE
      else if status = SMFIS_NOREPLY then MILTER_STATUS_NO_REPLY
      else if status = SMFIS_SKIP then MILTER_STATUS_SKIP
      else if status = SMFIS_ALL_OPTS then MILTER_STATUS_ALL_OPTIONS
      else MILTER_STATUS_DEFAULT)"

definition libmilter_compatible_convert_status_from :: "milter_status \<Rightarrow> int" where
  "libmilter_compatible_convert_status_from status =
     (case status of
        MILTER_STATUS_CONTINUE \<Rightarrow> SMFIS_CONTINUE
      | MILTER_STATUS_REJECT \<Rightarrow> SMFIS_REJECT
      | MILTER_STATUS_DISCARD \<Rightarrow> SMFIS_DISCARD
      | MILTER_STATUS_ACCEPT \<Rightarrow> SMFIS_ACCEPT
      | MILTER_STATUS_TEMPORARY_FAILURE \<Rightarrow> SMFIS_TEMPFAIL
      | MILTER_STATUS_NO_REPLY \<Rightarrow> SMFIS_NOREPLY
      | MILTER_STATUS_SKIP \<Rightarrow> SMFIS_SKIP
      | MILTER_STATUS_ALL_OPTIONS \<Rightarrow> SMFIS_ALL_OPTS
      | _ \<Rightarrow> 0)"

subsection \<open>The context of a session\<close>

text \<open>The private data is a pointer, a number that only the filter interprets.\<close>

record smfi_context =
  smfi_client_context :: "client_context option"
  private_data :: "64 word"

definition smfi_context_new :: "client_context \<Rightarrow> smfi_context" where
  "smfi_context_new c = \<lparr>smfi_client_context = Some c, private_data = 0\<rparr>"

text \<open>An operation on the client context, which says whether it worked.\<close>

definition on_client_context ::
    "smfi_context \<Rightarrow> (client_context \<Rightarrow> bool \<times> client_context) \<Rightarrow> int \<times> smfi_context" where
  "on_client_context x f =
     (case smfi_client_context x of
        None \<Rightarrow> (MI_FAILURE, x)
      | Some c \<Rightarrow>
          (case f c of (ok, c) \<Rightarrow>
             (if ok then MI_SUCCESS else MI_FAILURE, x\<lparr>smfi_client_context := Some c\<rparr>)))"

definition modified :: "modification \<Rightarrow> bool \<times> client_context" where
  "modified m = (case m of (ok, e, c) \<Rightarrow> (ok, c))"

definition smfi_getsymval :: "smfi_context \<Rightarrow> bytes option \<Rightarrow> smfi_context \<times> bytes option" where
  "smfi_getsymval x name =
     (case smfi_client_context x of
        None \<Rightarrow> (x, None)
      | Some c \<Rightarrow>
          (case milter_protocol_agent_get_macro (client_agent c) name of (agent, value) \<Rightarrow>
             (x\<lparr>smfi_client_context := Some (c\<lparr>client_agent := agent\<rparr>)\<rparr>, value)))"

text \<open>\<open>atoi\<close> of the C library: blanks and a sign in front, then digits, cut to 32 bits.\<close>

definition is_space :: "char \<Rightarrow> bool" where
  "is_space c \<longleftrightarrow> c \<in> {CHR '' '', CHR 0x09, CHR 0x0A, CHR 0x0B, CHR 0x0C, CHR 0x0D}"

definition c_atoi :: "bytes \<Rightarrow> u32" where
  "c_atoi s =
     (case dropWhile is_space s of
        [] \<Rightarrow> 0
      | c # p \<Rightarrow>
          if c = CHR ''-'' then word_of_int (max (- int (atoi p)) (- (2 ^ 63)))
          else word_of_int (min (int (atoi (if c = CHR ''+'' then p else c # p))) (2 ^ 63 - 1)))"

definition smfi_setreply ::
    "smfi_context \<Rightarrow> bytes option \<Rightarrow> bytes option \<Rightarrow> bytes option \<Rightarrow> (int \<times> smfi_context) option" where
  "smfi_setreply x return_code extended_code message =
     (if smfi_client_context x = None then Some (MI_FAILURE, x)
      else case return_code of
             None \<Rightarrow> None
           | Some code \<Rightarrow> Some (on_client_context x (\<lambda>c.
               case milter_client_context_set_reply (prepared_reply c) (unat (c_atoi code)) extended_code message of
                 (ok, r) \<Rightarrow> (ok, c\<lparr>prepared_reply := r\<rparr>))))"

definition MAXREPLYLEN :: nat where "MAXREPLYLEN = 980"

text \<open>
  The loop over the lines: the text put together so far, \<open>None\<close> when a line is refused. A line
  feed is put between two lines.
\<close>

fun join_reply_lines :: "bytes \<Rightarrow> bytes list \<Rightarrow> bytes option" where
  "join_reply_lines string [] = Some string"
| "join_reply_lines string (message # messages) =
     (if MAXREPLYLEN < length message then None
      else if CHR 0x0D \<in> set message then None
      else join_reply_lines (string @ message @ (if messages = [] then [] else [CHR 0x0A])) messages)"

definition smfi_setmlreply ::
    "smfi_context \<Rightarrow> bytes option \<Rightarrow> bytes option \<Rightarrow> bytes list \<Rightarrow> (int \<times> smfi_context) option" where
  "smfi_setmlreply x return_code extended_code messages =
     (case join_reply_lines [] messages of
        None \<Rightarrow> Some (MI_FAILURE, x)
      | Some string \<Rightarrow>
          if string \<noteq> [] then smfi_setreply x return_code extended_code (Some string)
          else Some (MI_SUCCESS, x))"

definition smfi_addheader :: "smfi_context \<Rightarrow> bytes option \<Rightarrow> bytes option \<Rightarrow> int \<times> smfi_context" where
  "smfi_addheader x name value =
     on_client_context x (\<lambda>c. modified (milter_client_context_add_header c name value))"

text \<open>The index is an \<open>int\<close> that the client context takes as an unsigned number.\<close>

definition smfi_chgheader ::
    "smfi_context \<Rightarrow> bytes option \<Rightarrow> int \<Rightarrow> bytes option \<Rightarrow> int \<times> smfi_context" where
  "smfi_chgheader x name index value =
     on_client_context x (\<lambda>c. modified (milter_client_context_change_header c name (word_of_int index) value))"

definition smfi_insheader ::
    "smfi_context \<Rightarrow> int \<Rightarrow> bytes option \<Rightarrow> bytes option \<Rightarrow> int \<times> smfi_context" where
  "smfi_insheader x index name value =
     on_client_context x (\<lambda>c. modified (milter_client_context_insert_header c (word_of_int index) name value))"

definition smfi_chgfrom :: "smfi_context \<Rightarrow> bytes option \<Rightarrow> bytes option \<Rightarrow> int \<times> smfi_context" where
  "smfi_chgfrom x mail arguments =
     on_client_context x (\<lambda>c. modified (milter_client_context_change_from c mail arguments))"

definition smfi_addrcpt :: "smfi_context \<Rightarrow> bytes option \<Rightarrow> int \<times> smfi_context" where
  "smfi_addrcpt x recipient =
     on_client_context x (\<lambda>c. modified (milter_client_context_add_recipient c recipient None))"

definition smfi_addrcpt_par :: "smfi_context \<Rightarrow> bytes option \<Rightarrow> bytes option \<Rightarrow> int \<times> smfi_context" where
  "smfi_addrcpt_par x recipient args =
     on_client_context x (\<lambda>c. modified (milter_client_context_add_recipient c recipient args))"

definition smfi_delrcpt :: "smfi_context \<Rightarrow> bytes option \<Rightarrow> int \<times> smfi_context" where
  "smfi_delrcpt x recipient =
     on_client_context x (\<lambda>c. modified (milter_client_context_delete_recipient c recipient))"

definition smfi_progress :: "smfi_context \<Rightarrow> int \<times> smfi_context" where
  "smfi_progress x = on_client_context x milter_client_context_progress"

text \<open>The bytes of the new body are as many as its size says.\<close>

definition smfi_replacebody :: "smfi_context \<Rightarrow> bytes \<Rightarrow> int \<times> smfi_context" where
  "smfi_replacebody x new_body =
     on_client_context x (\<lambda>c. modified (milter_client_context_replace_body c new_body))"

definition smfi_quarantine :: "smfi_context \<Rightarrow> bytes option \<Rightarrow> int \<times> smfi_context" where
  "smfi_quarantine x reason = on_client_context x (\<lambda>c. milter_client_context_quarantine c reason)"

definition smfi_setpriv :: "smfi_context \<Rightarrow> 64 word \<Rightarrow> int \<times> smfi_context" where
  "smfi_setpriv x data = (MI_SUCCESS, x\<lparr>private_data := data\<rparr>)"

definition smfi_getpriv :: "smfi_context \<Rightarrow> 64 word" where
  "smfi_getpriv x = private_data x"

text \<open>
  The table of requests is the agent's; when it has none, the one that is filled is a new one,
  which nobody keeps. \<open>state\<close> is used as the number of a command; an entry under a number that
  is none is left out. \<open>g_strsplit\<close> of \<open>NULL\<close> is \<open>NULL\<close>, which is read.
\<close>

definition smfi_setsymlist :: "smfi_context \<Rightarrow> int \<Rightarrow> bytes option \<Rightarrow> (int \<times> smfi_context) option" where
  "smfi_setsymlist x st macros =
     (case smfi_client_context x of
        None \<Rightarrow> Some (MI_FAILURE, x)
      | Some c \<Rightarrow>
          (case macros of
             None \<Rightarrow> None
           | Some macros \<Rightarrow>
               Some (MI_SUCCESS,
                 (case milter_protocol_agent_get_macros_requests (client_agent c) of
                    None \<Rightarrow> x
                  | Some requests \<Rightarrow>
                      (case (if 0 \<le> st \<and> st < 256 then command_of_char (char_of (nat st)) else None) of
                         None \<Rightarrow> x
                       | Some command \<Rightarrow>
                           let requests = milter_macros_requests_set_symbols_string_array requests command
                                            (g_strsplit macros CHR '' '');
                               agent = (client_agent c)\<lparr>agent_macros_requests := Some requests\<rparr>
                           in x\<lparr>smfi_client_context := Some (c\<lparr>client_agent := agent\<rparr>)\<rparr>)))))"

subsection \<open>The filter\<close>

text \<open>
  The description, with \<open>'c\<close> for the type of a callback that has been given its arguments and
  \<open>'n\<close> for the callback of the negotiation. The arguments of MAIL and RCPT are a vector.
\<close>

record ('c, 'n) smfi_desc =
  xxfi_name :: "bytes option"
  xxfi_version :: int
  xxfi_flags :: "64 word"
  xxfi_connect :: "(bytes \<Rightarrow> sockaddr \<Rightarrow> 'c) option"
  xxfi_helo :: "(bytes \<Rightarrow> 'c) option"
  xxfi_envfrom :: "(bytes list \<Rightarrow> 'c) option"
  xxfi_envrcpt :: "(bytes list \<Rightarrow> 'c) option"
  xxfi_header :: "(bytes \<Rightarrow> bytes \<Rightarrow> 'c) option"
  xxfi_eoh :: "'c option"
  xxfi_body :: "(bytes \<Rightarrow> 'c) option"
  xxfi_eom :: "'c option"
  xxfi_abort :: "'c option"
  xxfi_close :: "'c option"
  xxfi_unknown :: "(bytes \<Rightarrow> 'c) option"
  xxfi_data :: "'c option"
  xxfi_negotiate :: "'n option"

type_synonym 's callback = "'s \<Rightarrow> smfi_context \<Rightarrow> (int \<times> 's \<times> smfi_context) option"

text \<open>
  The callback of the negotiation gets the actions and the steps offered and answers with those
  it wants. The context it is given is not the session's: the handler has one parameter less
  than the signal has arguments, so what it passes on is the object of the macro requests. A
  callback that uses it has no defined behaviour; the callbacks here do not.
\<close>

type_synonym 's negotiate_callback =
  "64 word \<Rightarrow> 64 word \<Rightarrow> 's \<Rightarrow> (int \<times> 64 word \<times> 64 word \<times> 's) option"

type_synonym 's filter_desc = "('s callback, 's negotiate_callback) smfi_desc"

subsection \<open>Handlers of the context's signals\<close>

text \<open>
  A handler works on the filter's own state and the private data of the session, and on the
  client context.
\<close>

definition call_xxfi ::
    "'s callback \<Rightarrow> 's \<times> 64 word \<Rightarrow> client_context \<Rightarrow> (int \<times> ('s \<times> 64 word) \<times> client_context) option" where
  "call_xxfi callback sp c =
     (case callback (fst sp) \<lparr>smfi_client_context = Some c, private_data = snd sp\<rparr> of
        None \<Rightarrow> None
      | Some (status, s, x) \<Rightarrow>
          Some (status, (s, private_data x), (case smfi_client_context x of Some c \<Rightarrow> c | None \<Rightarrow> c)))"

definition xxfi_answer ::
    "'s callback option \<Rightarrow> 's \<times> 64 word \<Rightarrow> client_context \<Rightarrow> milter_status \<times> ('s \<times> 64 word) \<times> client_context" where
  "xxfi_answer callback sp c =
     (case callback of
        None \<Rightarrow> (MILTER_STATUS_DEFAULT, sp, c)
      | Some callback \<Rightarrow>
          (case call_xxfi callback sp c of
             None \<Rightarrow> (MILTER_STATUS_DEFAULT, sp, crash c)
           | Some (status, sp, c) \<Rightarrow> (libmilter_compatible_convert_status_to status, sp, c)))"

definition smfi_cb_negotiate :: "'s filter_desc \<Rightarrow> ('s \<times> 64 word) negotiate_handler" where
  "smfi_cb_negotiate d args sp c =
     (case xxfi_negotiate d of
        None \<Rightarrow> (MILTER_STATUS_DEFAULT, args, sp, c)
      | Some callback \<Rightarrow>
          (case callback (ucast (action (fst args))) (ucast (step (fst args))) (fst sp) of
             None \<Rightarrow> (MILTER_STATUS_DEFAULT, args, sp, crash c)
           | Some (status, action_out, step_out, s) \<Rightarrow>
               let opt = (if status = SMFIS_CONTINUE
                          then milter_option_set_step
                                 (milter_option_set_action (fst args) (ucast action_out)) (ucast step_out)
                          else fst args)
               in (libmilter_compatible_convert_status_to status, (opt, snd args), (s, snd sp), c)))"

definition smfi_cb_connect ::
    "'s filter_desc \<Rightarrow> bytes \<Rightarrow> sockaddr \<Rightarrow> 's \<times> 64 word \<Rightarrow> client_context \<Rightarrow>
     milter_status \<times> ('s \<times> 64 word) \<times> client_context" where
  "smfi_cb_connect d host_name address =
     xxfi_answer (map_option (\<lambda>f. f host_name address) (xxfi_connect d))"

definition smfi_cb_helo ::
    "'s filter_desc \<Rightarrow> bytes \<Rightarrow> 's \<times> 64 word \<Rightarrow> client_context \<Rightarrow>
     milter_status \<times> ('s \<times> 64 word) \<times> client_context" where
  "smfi_cb_helo d fqdn = xxfi_answer (map_option (\<lambda>f. f fqdn) (xxfi_helo d))"

definition smfi_cb_envelope_from ::
    "'s filter_desc \<Rightarrow> bytes \<Rightarrow> 's \<times> 64 word \<Rightarrow> client_context \<Rightarrow>
     milter_status \<times> ('s \<times> 64 word) \<times> client_context" where
  "smfi_cb_envelope_from d sender = xxfi_answer (map_option (\<lambda>f. f [sender]) (xxfi_envfrom d))"

definition smfi_cb_envelope_recipient ::
    "'s filter_desc \<Rightarrow> bytes \<Rightarrow> 's \<times> 64 word \<Rightarrow> client_context \<Rightarrow>
     milter_status \<times> ('s \<times> 64 word) \<times> client_context" where
  "smfi_cb_envelope_recipient d recipient =
     xxfi_answer (map_option (\<lambda>f. f [recipient]) (xxfi_envrcpt d))"

definition smfi_cb_data ::
    "'s filter_desc \<Rightarrow> 's \<times> 64 word \<Rightarrow> client_context \<Rightarrow>
     milter_status \<times> ('s \<times> 64 word) \<times> client_context" where
  "smfi_cb_data d = xxfi_answer (xxfi_data d)"

definition smfi_cb_unknown ::
    "'s filter_desc \<Rightarrow> bytes \<Rightarrow> 's \<times> 64 word \<Rightarrow> client_context \<Rightarrow>
     milter_status \<times> ('s \<times> 64 word) \<times> client_context" where
  "smfi_cb_unknown d command = xxfi_answer (map_option (\<lambda>f. f command) (xxfi_unknown d))"

definition smfi_cb_header ::
    "'s filter_desc \<Rightarrow> bytes \<Rightarrow> bytes \<Rightarrow> 's \<times> 64 word \<Rightarrow> client_context \<Rightarrow>
     milter_status \<times> ('s \<times> 64 word) \<times> client_context" where
  "smfi_cb_header d name value = xxfi_answer (map_option (\<lambda>f. f name value) (xxfi_header d))"

definition smfi_cb_end_of_header ::
    "'s filter_desc \<Rightarrow> 's \<times> 64 word \<Rightarrow> client_context \<Rightarrow>
     milter_status \<times> ('s \<times> 64 word) \<times> client_context" where
  "smfi_cb_end_of_header d = xxfi_answer (xxfi_eoh d)"

definition smfi_cb_body ::
    "'s filter_desc \<Rightarrow> bytes \<Rightarrow> 's \<times> 64 word \<Rightarrow> client_context \<Rightarrow>
     milter_status \<times> ('s \<times> 64 word) \<times> client_context" where
  "smfi_cb_body d chunk = xxfi_answer (map_option (\<lambda>f. f chunk) (xxfi_body d))"

text \<open>The last chunk of the body goes to the callback for the body first.\<close>

definition smfi_cb_end_of_message ::
    "'s filter_desc \<Rightarrow> bytes option \<Rightarrow> 's \<times> 64 word \<Rightarrow> client_context \<Rightarrow>
     milter_status \<times> ('s \<times> 64 word) \<times> client_context" where
  "smfi_cb_end_of_message d chunk sp c =
     (case (chunk, xxfi_body d) of
        (Some (b # bs), Some body) \<Rightarrow>
          (case call_xxfi (body (b # bs)) sp c of
             None \<Rightarrow> (MILTER_STATUS_DEFAULT, sp, crash c)
           | Some (status, sp, c) \<Rightarrow>
               if status \<in> {SMFIS_REJECT, SMFIS_DISCARD, SMFIS_ACCEPT, SMFIS_TEMPFAIL}
               then (libmilter_compatible_convert_status_to status, sp, c)
               else xxfi_answer (xxfi_eom d) sp c)
      | _ \<Rightarrow> xxfi_answer (xxfi_eom d) sp c)"

definition CLIENT_CONTEXT_STATE_IN_MESSAGE_PROCESSING :: "client_context_state \<Rightarrow> bool" where
  "CLIENT_CONTEXT_STATE_IN_MESSAGE_PROCESSING st \<longleftrightarrow>
     st \<in> {CLIENT_CONTEXT_STATE_ENVELOPE_FROM, CLIENT_CONTEXT_STATE_ENVELOPE_FROM_REPLIED,
           CLIENT_CONTEXT_STATE_ENVELOPE_RECIPIENT, CLIENT_CONTEXT_STATE_ENVELOPE_RECIPIENT_REPLIED,
           CLIENT_CONTEXT_STATE_DATA, CLIENT_CONTEXT_STATE_DATA_REPLIED,
           CLIENT_CONTEXT_STATE_UNKNOWN, CLIENT_CONTEXT_STATE_UNKNOWN_REPLIED,
           CLIENT_CONTEXT_STATE_HEADER, CLIENT_CONTEXT_STATE_HEADER_REPLIED,
           CLIENT_CONTEXT_STATE_END_OF_HEADER, CLIENT_CONTEXT_STATE_END_OF_HEADER_REPLIED,
           CLIENT_CONTEXT_STATE_BODY, CLIENT_CONTEXT_STATE_BODY_REPLIED}"

definition smfi_cb_abort ::
    "'s filter_desc \<Rightarrow> client_context_state \<Rightarrow> 's \<times> 64 word \<Rightarrow> client_context \<Rightarrow>
     milter_status \<times> ('s \<times> 64 word) \<times> client_context" where
  "smfi_cb_abort d st sp c =
     (if CLIENT_CONTEXT_STATE_IN_MESSAGE_PROCESSING st then xxfi_answer (xxfi_abort d) sp c
      else (MILTER_STATUS_DEFAULT, sp, c))"

definition smfi_cb_finished ::
    "'s filter_desc \<Rightarrow> 's \<times> 64 word \<Rightarrow> client_context \<Rightarrow> ('s \<times> 64 word) \<times> client_context" where
  "smfi_cb_finished d sp c = snd (xxfi_answer (xxfi_close d) sp c)"

text \<open>
  A handler is connected to one signal, and only when the filter has the callback. A handler
  for commands is asked about every command: it leaves alone what is not its signal.
\<close>

definition connect_signal :: "bool \<Rightarrow> 'h \<Rightarrow> 'h list" where
  "connect_signal wanted handler = (if wanted then [handler] else [])"

definition smfi_context_attach_to_client_context :: "'s filter_desc \<Rightarrow> ('s \<times> 64 word) client_owner" where
  "smfi_context_attach_to_client_context d =
     \<lparr>command_handlers =
        connect_signal (xxfi_connect d \<noteq> None)
          (\<lambda>command sp c. case command of Client_connect host_name address \<Rightarrow> smfi_cb_connect d host_name address sp c
             | _ \<Rightarrow> (MILTER_STATUS_NOT_CHANGE, sp, c)) @
        connect_signal (xxfi_helo d \<noteq> None)
          (\<lambda>command sp c. case command of Client_helo fqdn \<Rightarrow> smfi_cb_helo d fqdn sp c
             | _ \<Rightarrow> (MILTER_STATUS_NOT_CHANGE, sp, c)) @
        connect_signal (xxfi_envfrom d \<noteq> None)
          (\<lambda>command sp c. case command of Client_envelope_from sender \<Rightarrow> smfi_cb_envelope_from d sender sp c
             | _ \<Rightarrow> (MILTER_STATUS_NOT_CHANGE, sp, c)) @
        connect_signal (xxfi_envrcpt d \<noteq> None)
          (\<lambda>command sp c. case command of Client_envelope_recipient recipient \<Rightarrow> smfi_cb_envelope_recipient d recipient sp c
             | _ \<Rightarrow> (MILTER_STATUS_NOT_CHANGE, sp, c)) @
        connect_signal (xxfi_data d \<noteq> None)
          (\<lambda>command sp c. case command of Client_data \<Rightarrow> smfi_cb_data d sp c
             | _ \<Rightarrow> (MILTER_STATUS_NOT_CHANGE, sp, c)) @
        connect_signal (xxfi_unknown d \<noteq> None)
          (\<lambda>command sp c. case command of Client_unknown line \<Rightarrow> smfi_cb_unknown d line sp c
             | _ \<Rightarrow> (MILTER_STATUS_NOT_CHANGE, sp, c)) @
        connect_signal (xxfi_header d \<noteq> None)
          (\<lambda>command sp c. case command of Client_header name value \<Rightarrow> smfi_cb_header d name value sp c
             | _ \<Rightarrow> (MILTER_STATUS_NOT_CHANGE, sp, c)) @
        connect_signal (xxfi_eoh d \<noteq> None)
          (\<lambda>command sp c. case command of Client_end_of_header \<Rightarrow> smfi_cb_end_of_header d sp c
             | _ \<Rightarrow> (MILTER_STATUS_NOT_CHANGE, sp, c)) @
        connect_signal (xxfi_body d \<noteq> None)
          (\<lambda>command sp c. case command of Client_body chunk \<Rightarrow> smfi_cb_body d chunk sp c
             | _ \<Rightarrow> (MILTER_STATUS_NOT_CHANGE, sp, c)) @
        connect_signal (xxfi_eom d \<noteq> None)
          (\<lambda>command sp c. case command of Client_end_of_message chunk \<Rightarrow> smfi_cb_end_of_message d chunk sp c
             | _ \<Rightarrow> (MILTER_STATUS_NOT_CHANGE, sp, c)) @
        connect_signal (xxfi_abort d \<noteq> None)
          (\<lambda>command sp c. case command of Client_abort st \<Rightarrow> smfi_cb_abort d st sp c
             | _ \<Rightarrow> (MILTER_STATUS_NOT_CHANGE, sp, c)),
      negotiate_handlers = connect_signal (xxfi_negotiate d \<noteq> None) (smfi_cb_negotiate d),
      macro_handlers = []\<rparr>"

end
