(* ===== verification/Libmilter_Spec.thy ===== *)
theory Libmilter_Spec
  imports Libmilter Client_Session
begin

text \<open>
  What a filter written for libmilter says on the wire. The callbacks of a filter here are
  scripts: a status and the calls made before. The handlers that \<open>libmilter-compatible.c\<close>
  connects make such a filter the milter one reads off its description, so that the session of
  \<open>Client_Session\<close> holds for it.
\<close>

subsection \<open>Scripts\<close>

datatype smfi_call =
    Call_setreply bytes "bytes option" "bytes option"
  | Call_setmlreply bytes "bytes option" "bytes list"
  | Call_addheader "bytes option" "bytes option"
  | Call_chgheader "bytes option" int "bytes option"
  | Call_insheader int "bytes option" "bytes option"
  | Call_chgfrom "bytes option" "bytes option"
  | Call_addrcpt "bytes option"
  | Call_addrcpt_par "bytes option" "bytes option"
  | Call_delrcpt "bytes option"
  | Call_replacebody bytes
  | Call_quarantine "bytes option"
  | Call_setpriv "64 word"

fun perform_call :: "smfi_call \<Rightarrow> smfi_context \<Rightarrow> (int \<times> smfi_context) option" where
  "perform_call (Call_setreply code ec m) x = smfi_setreply x (Some code) ec m"
| "perform_call (Call_setmlreply code ec ms) x = smfi_setmlreply x (Some code) ec ms"
| "perform_call (Call_addheader n v) x = Some (smfi_addheader x n v)"
| "perform_call (Call_chgheader n i v) x = Some (smfi_chgheader x n i v)"
| "perform_call (Call_insheader i n v) x = Some (smfi_insheader x i n v)"
| "perform_call (Call_chgfrom m a) x = Some (smfi_chgfrom x m a)"
| "perform_call (Call_addrcpt r) x = Some (smfi_addrcpt x r)"
| "perform_call (Call_addrcpt_par r a) x = Some (smfi_addrcpt_par x r a)"
| "perform_call (Call_delrcpt r) x = Some (smfi_delrcpt x r)"
| "perform_call (Call_replacebody b) x = Some (smfi_replacebody x b)"
| "perform_call (Call_quarantine q) x = Some (smfi_quarantine x q)"
| "perform_call (Call_setpriv p) x = Some (smfi_setpriv x p)"

fun perform_calls :: "smfi_call list \<Rightarrow> smfi_context \<Rightarrow> smfi_context option" where
  "perform_calls [] x = Some x"
| "perform_calls (call # calls) x =
     (case perform_call call x of None \<Rightarrow> None | Some (result, x) \<Rightarrow> perform_calls calls x)"

type_synonym 's script = "'s \<Rightarrow> 64 word \<Rightarrow> int \<times> smfi_call list \<times> 's"
type_synonym 's filter_script =
  "('s script, 64 word \<Rightarrow> 64 word \<Rightarrow> 's \<Rightarrow> int \<times> 64 word \<times> 64 word \<times> 's) smfi_desc"

definition run_script :: "'s script \<Rightarrow> 's callback" where
  "run_script f s x =
     (case f s (smfi_getpriv x) of (status, calls, s) \<Rightarrow>
        map_option (\<lambda>x. (status, s, x)) (perform_calls calls x))"

definition filter_of :: "'s filter_script \<Rightarrow> 's filter_desc" where
  "filter_of d =
     \<lparr>xxfi_name = xxfi_name d, xxfi_version = xxfi_version d, xxfi_flags = xxfi_flags d,
      xxfi_connect = map_option (\<lambda>f h a. run_script (f h a)) (xxfi_connect d),
      xxfi_helo = map_option (\<lambda>f h. run_script (f h)) (xxfi_helo d),
      xxfi_envfrom = map_option (\<lambda>f a. run_script (f a)) (xxfi_envfrom d),
      xxfi_envrcpt = map_option (\<lambda>f a. run_script (f a)) (xxfi_envrcpt d),
      xxfi_header = map_option (\<lambda>f n v. run_script (f n v)) (xxfi_header d),
      xxfi_eoh = map_option run_script (xxfi_eoh d),
      xxfi_body = map_option (\<lambda>f b. run_script (f b)) (xxfi_body d),
      xxfi_eom = map_option run_script (xxfi_eom d),
      xxfi_abort = map_option run_script (xxfi_abort d),
      xxfi_close = map_option run_script (xxfi_close d),
      xxfi_unknown = map_option (\<lambda>f l. run_script (f l)) (xxfi_unknown d),
      xxfi_data = map_option run_script (xxfi_data d),
      xxfi_negotiate = map_option (\<lambda>f actions steps s. Some (f actions steps s)) (xxfi_negotiate d)\<rparr>"

subsection \<open>The milter a filter is\<close>

definition reply_request :: "bytes \<Rightarrow> bytes option \<Rightarrow> bytes option \<Rightarrow> request" where
  "reply_request code ec m = Ask_reply (unat (c_atoi code)) ec m"

fun requests_of :: "smfi_call \<Rightarrow> request list" where
  "requests_of (Call_setreply code ec m) = [reply_request code ec m]"
| "requests_of (Call_setmlreply code ec ms) =
     (case join_reply_lines [] ms of
        None \<Rightarrow> []
      | Some m \<Rightarrow> if m = [] then [] else [reply_request code ec (Some m)])"
| "requests_of (Call_addheader n v) = [Ask_add_header n v]"
| "requests_of (Call_chgheader n i v) = [Ask_change_header n (word_of_int i) v]"
| "requests_of (Call_insheader i n v) = [Ask_insert_header (word_of_int i) n v]"
| "requests_of (Call_chgfrom m a) = [Ask_change_from m a]"
| "requests_of (Call_addrcpt r) = [Ask_add_recipient r None]"
| "requests_of (Call_addrcpt_par r a) = [Ask_add_recipient r a]"
| "requests_of (Call_delrcpt r) = [Ask_delete_recipient r]"
| "requests_of (Call_replacebody b) = [Ask_replace_body b]"
| "requests_of (Call_quarantine q) = [Ask_quarantine q]"
| "requests_of (Call_setpriv p) = []"

fun private_after :: "smfi_call \<Rightarrow> 64 word \<Rightarrow> 64 word" where
  "private_after (Call_setpriv p) q = p"
| "private_after call q = q"

type_synonym 's answer = "int \<times> request list \<times> ('s \<times> 64 word)"

definition script_answer :: "'s script \<Rightarrow> 's \<times> 64 word \<Rightarrow> 's answer" where
  "script_answer f sp =
     (case f (fst sp) (snd sp) of (status, calls, s) \<Rightarrow>
        (status, concat (map requests_of calls), (s, fold private_after calls (snd sp))))"

definition said :: "'s answer \<Rightarrow> milter_status \<times> request list \<times> ('s \<times> 64 word)" where
  "said a = (case a of (status, rest) \<Rightarrow> (libmilter_compatible_convert_status_to status, rest))"

text \<open>A callback that is missing leaves the answer open.\<close>

definition answer_if_any :: "'s script option \<Rightarrow> 's \<times> 64 word \<Rightarrow> milter_status \<times> request list \<times> ('s \<times> 64 word)" where
  "answer_if_any f sp =
     (case f of None \<Rightarrow> (MILTER_STATUS_DEFAULT, [], sp) | Some f \<Rightarrow> said (script_answer f sp))"

text \<open>
  The last chunk goes to the callback for the body, whose refusal or acceptance is the answer;
  otherwise the callback for the end of the message answers. Without the latter neither is called.
\<close>

definition end_of_message_answer ::
    "'s filter_script \<Rightarrow> bytes option \<Rightarrow> 's \<times> 64 word \<Rightarrow> milter_status \<times> request list \<times> ('s \<times> 64 word)" where
  "end_of_message_answer d chunk sp =
     (case xxfi_eom d of
        None \<Rightarrow> (MILTER_STATUS_DEFAULT, [], sp)
      | Some eom \<Rightarrow>
          (case (chunk, xxfi_body d) of
             (Some (b # bs), Some body) \<Rightarrow>
               (case script_answer (body (b # bs)) sp of (status, requests, sp) \<Rightarrow>
                  if status \<in> {SMFIS_REJECT, SMFIS_DISCARD, SMFIS_ACCEPT, SMFIS_TEMPFAIL}
                  then said (status, requests, sp)
                  else (case said (script_answer eom sp) of (status, requests', sp) \<Rightarrow> (status, requests @ requests', sp)))
           | _ \<Rightarrow> said (script_answer eom sp)))"

definition milter_of :: "'s filter_script \<Rightarrow> ('s \<times> 64 word) milter" where
  "milter_of d =
     \<lparr>answer_command = \<lambda>command.
        (case command of
           Client_connect h a \<Rightarrow> answer_if_any (map_option (\<lambda>f. f h a) (xxfi_connect d))
         | Client_helo fqdn \<Rightarrow> answer_if_any (map_option (\<lambda>f. f fqdn) (xxfi_helo d))
         | Client_envelope_from sender \<Rightarrow> answer_if_any (map_option (\<lambda>f. f [sender]) (xxfi_envfrom d))
         | Client_envelope_recipient r \<Rightarrow> answer_if_any (map_option (\<lambda>f. f [r]) (xxfi_envrcpt d))
         | Client_unknown l \<Rightarrow> answer_if_any (map_option (\<lambda>f. f l) (xxfi_unknown d))
         | Client_data \<Rightarrow> answer_if_any (xxfi_data d)
         | Client_header n v \<Rightarrow> answer_if_any (map_option (\<lambda>f. f n v) (xxfi_header d))
         | Client_end_of_header \<Rightarrow> answer_if_any (xxfi_eoh d)
         | Client_body chunk \<Rightarrow> answer_if_any (map_option (\<lambda>f. f chunk) (xxfi_body d))
         | Client_end_of_message chunk \<Rightarrow> end_of_message_answer d chunk
         | Client_abort st \<Rightarrow>
             answer_if_any (if CLIENT_CONTEXT_STATE_IN_MESSAGE_PROCESSING st then xxfi_abort d else None)),
      answer_negotiate = \<lambda>args sp.
        (case xxfi_negotiate d of
           None \<Rightarrow> (MILTER_STATUS_DEFAULT, args, sp)
         | Some f \<Rightarrow>
             (case f (ucast (action (fst args))) (ucast (step (fst args))) (fst sp) of
                (status, actions, steps, s) \<Rightarrow>
                  (libmilter_compatible_convert_status_to status,
                   (if status = SMFIS_CONTINUE
                    then (fst args)\<lparr>action := ucast actions, step := ucast steps\<rparr> else fst args, snd args),
                   (s, snd sp))))\<rparr>"

text \<open>No status of libmilter is converted to \<open>PROGRESS\<close>.\<close>

lemma convert_not_progress [simp]: "libmilter_compatible_convert_status_to status \<noteq> MILTER_STATUS_PROGRESS"
  by (simp add: libmilter_compatible_convert_status_to_def)

lemma said_not_progress [simp]: "fst (said a) \<noteq> MILTER_STATUS_PROGRESS"
  by (simp add: said_def split: prod.split)

lemma answer_if_any_not_progress [simp]: "fst (answer_if_any f sp) \<noteq> MILTER_STATUS_PROGRESS"
  by (simp add: answer_if_any_def split: option.split)

lemma end_of_message_not_progress [simp]: "fst (end_of_message_answer d chunk sp) \<noteq> MILTER_STATUS_PROGRESS"
  by (auto simp: end_of_message_answer_def said_def split: option.splits list.splits prod.splits)

lemma filter_answers_at_once: "answers_at_once (milter_of d)"
  by (auto simp: answers_at_once_def milter_of_def split: client_command.splits option.splits prod.splits)

subsection \<open>The handlers do what the milter says\<close>

lemma on_client_context_Some [simp]:
  "on_client_context \<lparr>smfi_client_context = Some c, private_data = p\<rparr> f =
     (if fst (f c) then MI_SUCCESS else MI_FAILURE, \<lparr>smfi_client_context = Some (snd (f c)), private_data = p\<rparr>)"
  by (simp add: on_client_context_def split: prod.split)

lemma modified_simps [simp]: "snd (modified m) = snd (snd m)"
  by (simp add: modified_def split: prod.split)

lemma setreply_performed:
  "\<exists>result. smfi_setreply \<lparr>smfi_client_context = Some c, private_data = p\<rparr> (Some code) ec m =
     Some (result, \<lparr>smfi_client_context = Some (perform (reply_request code ec m) c), private_data = p\<rparr>)"
  by (simp add: smfi_setreply_def reply_request_def split: prod.split)

lemma call_performed:
  "\<exists>result. perform_call call \<lparr>smfi_client_context = Some c, private_data = p\<rparr> =
     Some (result, \<lparr>smfi_client_context = Some (fold perform (requests_of call) c), private_data = private_after call p\<rparr>)"
proof (cases call)
  case (Call_setmlreply code ec ms)
  then show ?thesis
    using setreply_performed [of c p code ec] by (auto simp: smfi_setmlreply_def split: option.splits)
qed (use setreply_performed in \<open>simp_all add: smfi_addheader_def smfi_chgheader_def smfi_insheader_def smfi_chgfrom_def
    smfi_addrcpt_def smfi_addrcpt_par_def smfi_delrcpt_def smfi_replacebody_def smfi_quarantine_def smfi_setpriv_def\<close>)

lemma calls_performed:
  "perform_calls calls \<lparr>smfi_client_context = Some c, private_data = p\<rparr> =
     Some \<lparr>smfi_client_context = Some (fold perform (concat (map requests_of calls)) c),
           private_data = fold private_after calls p\<rparr>"
proof (induction calls arbitrary: c p)
  case (Cons call calls)
  from call_performed [of call c p] Cons show ?case by auto
qed simp

lemma script_called:
  "call_xxfi (run_script f) sp c =
     (case script_answer f sp of (status, requests, sp) \<Rightarrow> Some (status, sp, fold perform requests c))"
  by (simp add: call_xxfi_def run_script_def script_answer_def smfi_getpriv_def calls_performed split: prod.split)

lemma script_answered:
  "xxfi_answer (map_option run_script f) sp c =
     (case answer_if_any f sp of (status, requests, sp) \<Rightarrow> (status, sp, fold perform requests c))"
  by (simp add: xxfi_answer_def answer_if_any_def script_called said_def split: option.split prod.split)

text \<open>A handler of another signal changes nothing.\<close>

lemma emit_other:
  assumes "\<And>sp c. h command sp c = (MILTER_STATUS_NOT_CHANGE, sp, c)"
    and "acc \<in> {MILTER_STATUS_DEFAULT, MILTER_STATUS_CONTINUE, MILTER_STATUS_ALL_OPTIONS}"
  shows "emit_command (connect_signal wanted h @ hs) command acc sp c = emit_command hs command acc sp c"
  using assms by (auto simp: connect_signal_def status_accumulator_def Let_def)

text \<open>What a signal comes to when its one handler gives the answer \<open>r\<close>.\<close>

definition outcome ::
    "client_command \<Rightarrow> milter_status \<times> request list \<times> 's \<Rightarrow> client_context \<Rightarrow> milter_status \<times> 's \<times> client_context" where
  "outcome command r c =
     (case r of (status, requests, s) \<Rightarrow>
        (case status_accumulator MILTER_STATUS_DEFAULT status of (acc, go_on) \<Rightarrow>
           if go_on then emit_command [default_command] command acc s (fold perform requests c)
           else (acc, s, fold perform requests c)))"

lemma milter_asked: "ask_owner (milter_owner m) command s c = outcome command (answer_command m command s) c"
  by (simp add: ask_owner_def milter_owner_def outcome_def split: prod.split)

lemma emit_own:
  assumes own: "\<And>sp c. wanted \<Longrightarrow> h command sp c = (case ans sp of (status, requests, sp) \<Rightarrow> (status, sp, fold perform requests c))"
    and absent: "\<not> wanted \<Longrightarrow> ans = (\<lambda>sp. (MILTER_STATUS_DEFAULT, [], sp))"
    and rest: "\<And>acc sp c. acc \<in> {MILTER_STATUS_DEFAULT, MILTER_STATUS_CONTINUE, MILTER_STATUS_ALL_OPTIONS} \<Longrightarrow>
      emit_command hs command acc sp c = emit_command [default_command] command acc sp c"
  shows "emit_command (connect_signal wanted h @ hs) command MILTER_STATUS_DEFAULT sp c = outcome command (ans sp) c"
proof (cases wanted)
  case True
  obtain status requests sp' where "ans sp = (status, requests, sp')" by (cases "ans sp")
  with True own rest show ?thesis by (auto simp: connect_signal_def status_accumulator_def outcome_def Let_def)
next
  case False
  with absent rest show ?thesis by (simp add: connect_signal_def status_accumulator_def outcome_def Let_def)
qed

lemmas smfi_handlers = smfi_cb_connect_def smfi_cb_helo_def smfi_cb_envelope_from_def
  smfi_cb_envelope_recipient_def smfi_cb_data_def smfi_cb_unknown_def smfi_cb_header_def
  smfi_cb_end_of_header_def smfi_cb_body_def

lemma end_of_message_handled:
  assumes "xxfi_eom d \<noteq> None"
  shows "smfi_cb_end_of_message (filter_of d) chunk sp c =
    (case end_of_message_answer d chunk sp of (status, requests, sp) \<Rightarrow> (status, sp, fold perform requests c))"
proof -
  obtain eom where eom: "xxfi_eom d = Some eom" using assms by auto
  have eom': "xxfi_answer (Some (run_script eom)) sp c =
      (case said (script_answer eom sp) of (status, requests, sp) \<Rightarrow> (status, sp, fold perform requests c))" for sp c
    using script_answered [of "Some eom" sp c] by (simp add: answer_if_any_def)
  show ?thesis
    by (auto simp: smfi_cb_end_of_message_def end_of_message_answer_def eom filter_of_def eom' script_called said_def
      split: option.splits list.splits prod.splits)
qed

lemma abort_handled:
  "smfi_cb_abort (filter_of d) st sp c =
    (case answer_if_any (if CLIENT_CONTEXT_STATE_IN_MESSAGE_PROCESSING st then xxfi_abort d else None) sp of
       (status, requests, sp) \<Rightarrow> (status, sp, fold perform requests c))"
  using script_answered [of "xxfi_abort d" sp c] by (simp add: smfi_cb_abort_def filter_of_def answer_if_any_def)

lemma answer_if_any_simps [simp]:
  "answer_if_any None = (\<lambda>sp. (MILTER_STATUS_DEFAULT, [], sp))"
  "answer_if_any (Some f) = (\<lambda>sp. said (script_answer f sp))"
  by (auto simp: answer_if_any_def)

lemma xxfi_answer_simps [simp]:
  "xxfi_answer (Some (run_script f)) sp c =
     (case said (script_answer f sp) of (status, requests, sp) \<Rightarrow> (status, sp, fold perform requests c))"
  using script_answered [of "Some f" sp c] by simp

lemma end_of_message_absent:
  "xxfi_eom d = None \<Longrightarrow> end_of_message_answer d chunk = (\<lambda>sp. (MILTER_STATUS_DEFAULT, [], sp))"
  by (auto simp: end_of_message_answer_def)

lemma filter_of_fields [simp]:
  "xxfi_connect (filter_of d) = map_option (\<lambda>f h a. run_script (f h a)) (xxfi_connect d)"
  "xxfi_helo (filter_of d) = map_option (\<lambda>f h. run_script (f h)) (xxfi_helo d)"
  "xxfi_envfrom (filter_of d) = map_option (\<lambda>f a. run_script (f a)) (xxfi_envfrom d)"
  "xxfi_envrcpt (filter_of d) = map_option (\<lambda>f a. run_script (f a)) (xxfi_envrcpt d)"
  "xxfi_header (filter_of d) = map_option (\<lambda>f n v. run_script (f n v)) (xxfi_header d)"
  "xxfi_eoh (filter_of d) = map_option run_script (xxfi_eoh d)"
  "xxfi_body (filter_of d) = map_option (\<lambda>f b. run_script (f b)) (xxfi_body d)"
  "xxfi_eom (filter_of d) = map_option run_script (xxfi_eom d)"
  "xxfi_abort (filter_of d) = map_option run_script (xxfi_abort d)"
  "xxfi_unknown (filter_of d) = map_option (\<lambda>f l. run_script (f l)) (xxfi_unknown d)"
  "xxfi_data (filter_of d) = map_option run_script (xxfi_data d)"
  "xxfi_negotiate (filter_of d) = map_option (\<lambda>f actions steps s. Some (f actions steps s)) (xxfi_negotiate d)"
  by (simp_all add: filter_of_def)

text \<open>One command: the handlers of the other signals drop out.\<close>

lemma filter_asked:
  "ask_owner (smfi_context_attach_to_client_context (filter_of d)) command sp c =
   ask_owner (milter_owner (milter_of d)) command sp c"
proof -
  have "emit_command (command_handlers (smfi_context_attach_to_client_context (filter_of d)) @ [default_command])
      command MILTER_STATUS_DEFAULT sp c = outcome command (answer_command (milter_of d) command sp) c"
    apply (cases command)
    apply (simp_all add: smfi_context_attach_to_client_context_def milter_of_def emit_other
        del: emit_command.simps split del: if_split)
    apply (rule emit_own; auto simp: smfi_handlers end_of_message_handled end_of_message_absent abort_handled
        emit_other simp del: emit_command.simps)+
    done
  then show ?thesis unfolding milter_asked by (simp add: ask_owner_def)
qed

lemma filter_negotiates:
  "emit_negotiate (negotiate_handlers (smfi_context_attach_to_client_context (filter_of d)) @ [default_negotiate])
     args MILTER_STATUS_DEFAULT sp c =
   emit_negotiate (negotiate_handlers (milter_owner (milter_of d)) @ [default_negotiate])
     args MILTER_STATUS_DEFAULT sp c"
proof (cases "xxfi_negotiate d")
  case None
  then show ?thesis
    by (simp add: smfi_context_attach_to_client_context_def connect_signal_def milter_owner_def milter_of_def
        status_accumulator_def)
next
  case (Some f)
  obtain status actions steps s' where "f (ucast (action (fst args))) (ucast (step (fst args))) (fst sp) =
      (status, actions, steps, s')" by (metis prod_cases4)
  with Some show ?thesis
    by (auto simp: smfi_context_attach_to_client_context_def connect_signal_def milter_owner_def milter_of_def
        smfi_cb_negotiate_def milter_option_set_step_def milter_option_set_action_def status_accumulator_def Let_def)
qed

lemma filter_acts: "acts_as order (smfi_context_attach_to_client_context (filter_of d)) (milter_of d)"
proof -
  have macros: "macro_handlers (smfi_context_attach_to_client_context (filter_of d)) = []"
    "macro_handlers (milter_owner (milter_of d)) = []"
    by (simp_all add: smfi_context_attach_to_client_context_def milter_owner_def)
  have "client_receive order (smfi_context_attach_to_client_context (filter_of d)) sig sc =
      client_receive order (milter_owner (milter_of d)) sig sc" for sig sc
    by (cases sig)
      (simp_all add: client_receive_def decoder_callbacks client_cb_decoder_negotiate_def
        client_cb_decoder_define_macro_def client_cb_decoder_end_of_message_def client_cb_decoder_abort_def
        filter_asked filter_negotiates macros)
  then show ?thesis unfolding acts_as_def by (intro ext)
qed


subsection \<open>A sample filter\<close>

text \<open>Its callback for the body notes the last chunk; the one for the end tags and refuses.\<close>

definition sample_filter :: "unit filter_script" where
  "sample_filter =
     \<lparr>xxfi_name = Some ''sample'', xxfi_version = 2, xxfi_flags = 1, xxfi_connect = None, xxfi_helo = None,
      xxfi_envfrom = None, xxfi_envrcpt = None, xxfi_header = None, xxfi_eoh = None,
      xxfi_body = Some (\<lambda>chunk s p. (SMFIS_CONTINUE, [Call_setpriv (of_nat (length chunk))], s)),
      xxfi_eom = Some (\<lambda>s p. (SMFIS_REJECT,
        [Call_addheader (Some ''X'') (Some (if p = 2 then ''y'' else ''n'')),
         Call_setmlreply ''550'' (Some ''5.7.1'') [''no'', ''way'']], s)),
      xxfi_abort = None, xxfi_close = None, xxfi_unknown = None, xxfi_data = None, xxfi_negotiate = None\<rparr>"

definition sample_filter_commands :: "command list" where
  "sample_filter_commands =
     [Cmd_negotiate \<lparr>version = 6, action = 1, step = 0\<rparr>, Cmd_helo ''a'', Cmd_end_of_message (Some ''bc''),
      Cmd_quit]"

definition two_lines :: bytes where
  "two_lines = ''550 5.7.1 no'' @ [CHR 0x0D, CHR 0x0A] @ ''550 5.7.1 way''"

definition sample_filter_calls :: "reply_call list" where
  "sample_filter_calls =
     [Rep_negotiate \<lparr>version = 6, action = 1, step = 0\<rparr> (Some []), Rep_continue,
      Rep_add_header ''X'' (Some ''y''), Rep_reply_code two_lines]"

lemma sample_filter_commands_wf: "wf_session sample_platform sample_filter_commands"
  by (simp add: wf_session_def sample_filter_commands_def sample_simps action_flags_mask_def step_mask_values)

lemma sample_filter_calls_wf: "wf_replies sample_filter_calls"
  by (simp add: wf_replies_def sample_filter_calls_def two_lines_def wf_requests_def wf_option_def
      wf_reply_line_def is_digit_def wf_string_def optional_string_def action_flags_mask_def
      step_mask_values encode_staged_def staged_def)

lemma sample_filter_reply:
  "milter_client_context_set_reply no_reply (unat (c_atoi ''550'')) (Some ''5.7.1'') (Some (''no'' @ [CHR 0x0A] @ ''way'')) =
     (True, \<lparr>reply_code_number = 550, extended_reply_code = Some ''5.7.1'',
        reply_message = Some (''no'' @ [CHR 0x0A] @ ''way'')\<rparr>)"
  "milter_client_context_format_reply
     \<lparr>reply_code_number = 550, extended_reply_code = Some ''5.7.1'',
      reply_message = Some (''no'' @ [CHR 0x0A] @ ''way'')\<rparr> = Some two_lines"
  by code_simp+

lemma sample_filter_run:
  "machine_run (milter_of sample_filter) (map signal_of_command sample_filter_commands) (((), 0), milter_machine_init) =
     (sample_filter_calls, ((), 2), \<lparr>machine_state = CLIENT_CONTEXT_STATE_QUIT,
        machine_option = Some \<lparr>version = 6, action = 1, step = 0\<rparr>,
        machine_reply = \<lparr>reply_code_number = 550, extended_reply_code = Some ''5.7.1'',
          reply_message = Some (''no'' @ [CHR 0x0A] @ ''way'')\<rparr>, machine_quarantine = None\<rparr>)"
proof -
  have reply: "join_reply_lines [] [''no'', ''way''] = Some (''no'' @ [CHR 0x0A] @ ''way'')"
    by (simp add: MAXREPLYLEN_def)
  show ?thesis
    using sample_filter_reply
    by (simp add: sample_filter_commands_def machine_step_def machine_negotiate_def machine_command_def
        sample_filter_def milter_of_def end_of_message_answer_def said_def script_answer_def reply_request_def
        milter_machine_init_def machine_of_def milter_client_context_init_def
        libmilter_compatible_convert_status_to_def smfis_codes MAXREPLYLEN_def
        accumulated_def default_status_def final_calls_def quarantine_calls_def refusal_call_def
        named_call_def permits_def MILTER_ACTION_ADD_HEADERS_def sample_filter_calls_def
        milter_option_copy_def milter_option_new_def action_flags_mask_def step_mask_values
        milter_macros_requests_new_def Let_def)
qed


subsection \<open>What gets lost\<close>

text \<open>
  A filter that has no callback for the end of a message never sees the last chunk of the body,
  whatever its callback for the body would make of it: it is as if there were none.
\<close>

theorem last_chunk_lost:
  "xxfi_eom d = None \<Longrightarrow>
   ask_owner (smfi_context_attach_to_client_context d) (Client_end_of_message chunk) sp c =
     (MILTER_STATUS_DEFAULT, sp, c)"
  by (simp add: ask_owner_def smfi_context_attach_to_client_context_def emit_other connect_signal_def
      default_command_def status_accumulator_def)

theorem last_chunk_lost_witness:
  "ask_owner (smfi_context_attach_to_client_context (filter_of (sample_filter\<lparr>xxfi_eom := None\<rparr>)))
     (Client_end_of_message (Some ''bc'')) ((), 0) milter_client_context_init =
   (MILTER_STATUS_DEFAULT, ((), 0), milter_client_context_init)"
  by (rule last_chunk_lost) (simp add: filter_of_def)

text \<open>
  No filter gets a macro request through: the handler of the negotiation passes the requests on
  untouched, and \<open>smfi_setsymlist\<close> reports success without leaving a trace, because nobody gives
  the agent of a client context a table of requests.
\<close>

theorem macro_requests_lost:
  "fst (snd (emit_negotiate (negotiate_handlers (smfi_context_attach_to_client_context d) @ [default_negotiate])
     (opt, requests) MILTER_STATUS_DEFAULT sp c)) = (opt', requests') \<Longrightarrow> requests' = requests"
  "agent_macros_requests (client_agent c) = None \<Longrightarrow>
   smfi_setsymlist \<lparr>smfi_client_context = Some c, private_data = p\<rparr> st (Some macros) =
     Some (MI_SUCCESS, \<lparr>smfi_client_context = Some c, private_data = p\<rparr>)"
proof -
  show "requests' = requests"
    if "fst (snd (emit_negotiate (negotiate_handlers (smfi_context_attach_to_client_context d) @ [default_negotiate])
      (opt, requests) MILTER_STATUS_DEFAULT sp c)) = (opt', requests')"
    using that by (auto simp: smfi_context_attach_to_client_context_def connect_signal_def smfi_cb_negotiate_def
        default_negotiate_def status_accumulator_def Let_def split: option.splits if_splits prod.splits)
  show "smfi_setsymlist \<lparr>smfi_client_context = Some c, private_data = p\<rparr> st (Some macros) =
     Some (MI_SUCCESS, \<lparr>smfi_client_context = Some c, private_data = p\<rparr>)"
    if "agent_macros_requests (client_agent c) = None"
    using that by (simp add: smfi_setsymlist_def milter_protocol_agent_get_macros_requests_def)
qed

subsection \<open>Replies of several lines\<close>

lemma joined_lines:
  "join_reply_lines acc lines =
     (if \<exists>m \<in> set lines. MAXREPLYLEN < length m \<or> CHR 0x0D \<in> set m then None
      else Some (acc @ join_char CHR 0x0A lines))"
proof (induction lines arbitrary: acc)
  case (Cons m lines)
  show ?case
  proof (cases lines)
    case (Cons l ls)
    then show ?thesis using Cons.IH [of "acc @ m @ [CHR 0x0A]"] by auto
  qed auto
qed simp

fun crlf_lines :: "bytes list \<Rightarrow> bytes" where
  "crlf_lines [] = []"
| "crlf_lines [l] = l"
| "crlf_lines (l # l' # ls) = l @ [CHR 0x0D, CHR 0x0A] @ crlf_lines (l' # ls)"

definition numbered_line :: "nat \<Rightarrow> bytes option \<Rightarrow> bytes \<Rightarrow> bytes" where
  "numbered_line code ec text =
     decimal code @ (case ec of None \<Rightarrow> [] | Some ec \<Rightarrow> '' '' @ ec) @ (if text = [] then [] else '' '' @ text)"

lemma three_digits: "400 \<le> n \<Longrightarrow> n < 600 \<Longrightarrow> format_3u n = decimal n"
proof -
  assume "400 \<le> n" "n < 600"
  then have "\<not> n < 10" "\<not> n div 10 < 10" "n div 10 div 10 < 10" by linarith+
  then show ?thesis
    by (simp add: format_3u_def decimal.simps [of n] decimal.simps [of "n div 10"] decimal.simps [of "n div 10 div 10"])
qed

lemma numbered_lines:
  assumes "400 \<le> n" and "n < 600" and "\<forall>m \<in> set lines. CHR 0x0D \<notin> set m"
  shows "format_reply_lines n ec lines = crlf_lines (map (numbered_line n ec) lines)"
  using assms(3)
proof (induction lines rule: crlf_lines.induct)
  case 1
  show ?case by simp
next
  case (2 m)
  then have "strip_cr m = m" by (cases m rule: rev_cases) (auto simp: strip_cr_def)
  with assms show ?case by (simp add: format_reply_line_def numbered_line_def three_digits)
next
  case (3 m m' ms)
  then have "strip_cr m = m" by (cases m rule: rev_cases) (auto simp: strip_cr_def)
  with assms 3 show ?case by (simp add: format_reply_line_def numbered_line_def three_digits)
qed

definition code_accepted :: "nat \<Rightarrow> bytes option \<Rightarrow> bool" where
  "code_accepted n ec \<longleftrightarrow> 400 \<le> n \<and> n < 600 \<and>
     (case ec of None \<Rightarrow> True | Some e \<Rightarrow> extended_code_parse e = Some (n div 100))"

lemma set_reply_accepted:
  "milter_client_context_set_reply r n ec m =
     (if code_accepted n ec
      then (True, \<lparr>reply_code_number = n, extended_reply_code = ec, reply_message = m\<rparr>) else (False, r))"
  by (auto simp: milter_client_context_set_reply_def code_accepted_def split: option.splits)

lemma join_char_Nil: "join_char c lines = [] \<longleftrightarrow> lines = [] \<or> lines = [[]]"
  by (cases "(c, lines)" rule: join_char.cases) auto

text \<open>
  C23: for arguments without a line feed, \<open>smfi_setmlreply\<close> refuses a line of more than 980 bytes or
  with a carriage return, changing nothing, and a code that is not of class 4 or 5 or contradicts its
  extended code. Otherwise the reply of the next refusal has one line for each of its arguments, in order,
  each with the code and the extended code. Called without a line, or with a single empty one, it
  reports success and prepares nothing, whatever the code - where its documentation says that a code
  that is neither 4xx nor 5xx fails.
\<close>

theorem multi_line_reply:
  assumes "\<forall>m \<in> set lines. CHR 0x0A \<notin> set m"
    and "smfi_setmlreply \<lparr>smfi_client_context = Some c, private_data = p\<rparr> (Some code) ec lines = Some (result, x)"
  shows "if (\<exists>m \<in> set lines. MAXREPLYLEN < length m \<or> CHR 0x0D \<in> set m) \<or>
      lines \<noteq> [] \<and> lines \<noteq> [[]] \<and> \<not> code_accepted (unat (c_atoi code)) ec
    then result = MI_FAILURE \<and> x = \<lparr>smfi_client_context = Some c, private_data = p\<rparr>
    else result = MI_SUCCESS \<and>
      (if lines = [] \<or> lines = [[]] then x = \<lparr>smfi_client_context = Some c, private_data = p\<rparr>
       else \<exists>r. x = \<lparr>smfi_client_context = Some (c\<lparr>prepared_reply := r\<rparr>), private_data = p\<rparr> \<and>
         milter_client_context_format_reply r =
           Some (crlf_lines (map (numbered_line (unat (c_atoi code)) ec) lines)))"
proof (cases "(\<exists>m \<in> set lines. MAXREPLYLEN < length m \<or> CHR 0x0D \<in> set m) \<or> lines = [] \<or> lines = [[]]")
  case True
  with assms(2) show ?thesis
    by (auto simp: smfi_setmlreply_def joined_lines join_char_Nil split: if_splits)
next
  case False
  let ?n = "unat (c_atoi code)" and ?m = "join_char CHR 0x0A lines"
  let ?r = "\<lparr>reply_code_number = ?n, extended_reply_code = ec, reply_message = Some ?m\<rparr>"
  have m: "?m \<noteq> []" using False by (simp add: join_char_Nil)
  have run: "smfi_setreply \<lparr>smfi_client_context = Some c, private_data = p\<rparr> (Some code) ec (Some ?m) = Some (result, x)"
    using assms(2) False m by (simp add: smfi_setmlreply_def joined_lines split: if_splits)
  show ?thesis
  proof (cases "code_accepted ?n ec")
    case True
    then have "result = MI_SUCCESS" "x = \<lparr>smfi_client_context = Some (c\<lparr>prepared_reply := ?r\<rparr>), private_data = p\<rparr>"
      using run by (simp_all add: smfi_setreply_def set_reply_accepted)
    moreover have "milter_client_context_format_reply ?r = Some (crlf_lines (map (numbered_line ?n ec) lines))"
      using numbered_lines [of ?n lines ec] True False m assms(1)
      by (simp add: milter_client_context_format_reply_def milter_utils_format_reply_code_def g_strsplit_def
          split_join_char code_accepted_def)
    ultimately show ?thesis using True False by (simp, intro exI [of _ ?r] conjI) simp_all
  next
    case False': False
    then have "result = MI_FAILURE" "x = \<lparr>smfi_client_context = Some c, private_data = p\<rparr>"
      using run by (simp_all add: smfi_setreply_def set_reply_accepted)
    with False' False show ?thesis by simp
  qed
qed

theorem multi_line_reply_witness:
  "\<exists>r. smfi_setmlreply \<lparr>smfi_client_context = Some milter_client_context_init, private_data = 0\<rparr>
      (Some ''550'') (Some ''5.7.1'') [''no'', ''way''] =
      Some (MI_SUCCESS, \<lparr>smfi_client_context = Some (milter_client_context_init\<lparr>prepared_reply := r\<rparr>), private_data = 0\<rparr>) \<and>
    milter_client_context_format_reply r = Some two_lines"
proof -
  let ?x = "\<lparr>smfi_client_context = Some milter_client_context_init, private_data = 0\<rparr>"
  let ?lines = "[''no'', ''way'']"
  have code: "unat (c_atoi ''550'') = 550" "code_accepted 550 (Some ''5.7.1'')" "decimal 550 = ''550''"
    by code_simp+
  have lines: "\<forall>m \<in> set ?lines. CHR 0x0A \<notin> set m" by simp
  obtain result x where run: "smfi_setmlreply ?x (Some ''550'') (Some ''5.7.1'') ?lines = Some (result, x)"
    by (simp add: smfi_setmlreply_def MAXREPLYLEN_def smfi_setreply_def)
  from multi_line_reply [OF lines run] run show ?thesis
    by (auto simp: code MAXREPLYLEN_def numbered_line_def two_lines_def)
qed

text \<open>The status codes of libmilter are those of the library, in both directions.\<close>

theorem status_roundtrip:
  "status \<in> {SMFIS_CONTINUE, SMFIS_REJECT, SMFIS_DISCARD, SMFIS_ACCEPT, SMFIS_TEMPFAIL, SMFIS_NOREPLY, SMFIS_SKIP,
     SMFIS_ALL_OPTS} \<Longrightarrow>
   libmilter_compatible_convert_status_from (libmilter_compatible_convert_status_to status) = status"
  by (auto simp: libmilter_compatible_convert_status_to_def libmilter_compatible_convert_status_from_def smfis_codes)

end
