(* ===== verification/Libmilter_Main.thy ===== *)
theory Libmilter_Main
  imports Libmilter Client_Sessions
begin

text \<open>
  \<open>libmilter/libmilter-compatible.c\<close>, the process: what a filter's program sets before it calls
  \<open>smfi_main\<close>, which makes a client of it and runs it. The static variables of the file are a
  record; \<open>core_initialized\<close> is that of \<open>milter-core.c\<close>. \<open>Fault\<close> is a crash.
\<close>

subsection \<open>State\<close>

record 's libmilter =
  libmilter_client :: "milter_client option"
  filter_description :: "'s filter_desc option"
  libmilter_connection_spec :: "bytes option"
  libmilter_listen_channel :: "int option"
  libmilter_listen_backlog :: int
  libmilter_timeout :: u32
  libmilter_initialized :: bool
  core_initialized :: bool
  log_target_level :: u32

definition libmilter_start :: "'s libmilter" where
  "libmilter_start =
     \<lparr>libmilter_client = None, filter_description = None, libmilter_connection_spec = None,
      libmilter_listen_channel = None, libmilter_listen_backlog = -1, libmilter_timeout = 7210,
      libmilter_initialized = False, core_initialized = False, log_target_level = 0\<rparr>"

definition libmilter_compatible_initialize :: "'s libmilter \<Rightarrow> 's libmilter" where
  "libmilter_compatible_initialize l =
     (if libmilter_initialized l then l else l\<lparr>libmilter_initialized := True, core_initialized := True\<rparr>)"

definition libmilter_compatible_reset :: "'s libmilter \<Rightarrow> 's libmilter" where
  "libmilter_compatible_reset l =
     l\<lparr>libmilter_client := None, filter_description := None, libmilter_connection_spec := None,
       libmilter_listen_channel := None, libmilter_listen_backlog := -1, libmilter_timeout := 7210\<rparr>"

subsection \<open>Settings\<close>

definition filter_description_free :: "'s libmilter \<Rightarrow> 's libmilter" where
  "filter_description_free l = l\<lparr>filter_description := None\<rparr>"

definition SMFI_VERSION :: u32 where "SMFI_VERSION = 0x01000001"

definition smfi_register :: "'s filter_desc \<Rightarrow> 's libmilter \<Rightarrow> int \<times> 's libmilter" where
  "smfi_register description l =
     (if xxfi_version description \<notin> {uint SMFI_VERSION, 2, 3, 4} then (MI_FAILURE, l)
      else
        let description = (if xxfi_name description = None
                           then description\<lparr>xxfi_name := Some ''Unknown''\<rparr> else description)
        in (MI_SUCCESS, (filter_description_free l)\<lparr>filter_description := Some description\<rparr>))"

definition smfi_setbacklog :: "int \<Rightarrow> 's libmilter \<Rightarrow> int \<times> 's libmilter" where
  "smfi_setbacklog backlog l =
     (let l = libmilter_compatible_initialize l
      in if backlog \<le> 0 then (MI_FAILURE, l) else (MI_SUCCESS, l\<lparr>libmilter_listen_backlog := backlog\<rparr>))"

definition smfi_setdbg :: "int \<Rightarrow> 's libmilter \<Rightarrow> int \<times> 's libmilter" where
  "smfi_setdbg level l =
     (let l = libmilter_compatible_initialize l;
          target_level =
            (if level > 0 then 0x02 else 0) OR (if level > 1 then 0x04 else 0) OR
            (if level > 2 then 0x08 else 0) OR (if level > 3 then 0x10 else 0) OR
            (if level > 4 then 0x20 else 0) OR (if level > 5 then 0x40 else 0)
      in (MI_SUCCESS, l\<lparr>log_target_level := target_level\<rparr>))"

text \<open>The parameter has the name of the static variable: the assignment is to itself.\<close>

definition smfi_settimeout :: "int \<Rightarrow> 's libmilter \<Rightarrow> int \<times> 's libmilter" where
  "smfi_settimeout timeout l = (MI_SUCCESS, libmilter_compatible_initialize l)"

definition smfi_setconn ::
    "platform \<Rightarrow> (bytes \<Rightarrow> u32 option) \<Rightarrow> (bytes \<Rightarrow> 128 word option) \<Rightarrow> bytes option \<Rightarrow>
     's libmilter \<Rightarrow> (int \<times> 's libmilter) result" where
  "smfi_setconn P getaddrinfo4 getaddrinfo6 spec l =
     (let l = libmilter_compatible_initialize l
      in case spec of
           None \<Rightarrow> Ok (MI_FAILURE, l)
         | Some spec \<Rightarrow>
             let normalized_spec = (if CHR '':'' \<in> set spec then spec else ''unix:'' @ spec)
             in case milter_connection_parse_spec P getaddrinfo4 getaddrinfo6 (Some normalized_spec) False of
                  Fault f \<Rightarrow> Fault f
                | Refused e \<Rightarrow> Ok (MI_FAILURE, l)
                | Ok _ \<Rightarrow> Ok (MI_SUCCESS, l\<lparr>libmilter_connection_spec := Some normalized_spec\<rparr>))"

definition smfi_version :: "u32 \<times> u32 \<times> u32" where
  "smfi_version =
     (drop_bit 24 (SMFI_VERSION AND 0x7f000000), drop_bit 8 (SMFI_VERSION AND 0x007fff00),
      SMFI_VERSION AND 0x0000007f)"

definition smfi_opensocket ::
    "client_system \<Rightarrow> bool \<Rightarrow> 's libmilter \<Rightarrow> (int \<times> system_call list \<times> 's libmilter) result" where
  "smfi_opensocket sys remove_socket l =
     (if filter_description l = None then Ok (MI_FAILURE, [], l)
      else if libmilter_connection_spec l = None then Ok (MI_FAILURE, [], l)
      else
        let l = libmilter_compatible_initialize l
        in case milter_connection_listen (csys_platform sys) (csys_getaddrinfo4 sys) (csys_getaddrinfo6 sys)
                  (csys_file_exists sys) (csys_works sys) (csys_default_backlog sys)
                  (libmilter_connection_spec l) (libmilter_listen_backlog l) remove_socket of
             Fault f \<Rightarrow> Fault f
           | Refused e \<Rightarrow> Refused e
           | Ok (Inl e, calls) \<Rightarrow> Ok (MI_FAILURE, calls, l)
           | Ok (Inr address, calls) \<Rightarrow>
               Ok (MI_SUCCESS, calls, l\<lparr>libmilter_listen_channel := Some (csys_listen_fd sys)\<rparr>))"

subsection \<open>Running\<close>

definition milter_client_set_listen_channel :: "int option \<Rightarrow> milter_client \<Rightarrow> milter_client" where
  "milter_client_set_listen_channel channel c = c\<lparr>listen_channel := channel\<rparr>"

text \<open>
  The environment variable; \<open>backend_of_nick\<close> is the generated table of names.
\<close>

definition setup_milter_client_event_loop_backend ::
    "(bytes \<Rightarrow> event_loop_backend option) \<Rightarrow> milter_client client_class \<Rightarrow> bytes option \<Rightarrow>
     milter_client \<Rightarrow> milter_client" where
  "setup_milter_client_event_loop_backend backend_of_nick klass backend_env c =
     (case backend_env of
        None \<Rightarrow> c
      | Some nick \<Rightarrow>
          (case backend_of_nick nick of
             None \<Rightarrow> c
           | Some backend \<Rightarrow> milter_client_set_event_loop_backend klass backend c))"

definition setup_milter_client ::
    "(bytes \<Rightarrow> event_loop_backend option) \<Rightarrow> milter_client client_class \<Rightarrow> bytes option \<Rightarrow>
     's libmilter \<Rightarrow> milter_client \<Rightarrow> milter_client result" where
  "setup_milter_client backend_of_nick klass backend_env l c =
     (case milter_client_set_connection_spec klass (libmilter_connection_spec l)
             (setup_milter_client_event_loop_backend backend_of_nick klass backend_env c) of
        Fault f \<Rightarrow> Fault f
      | Refused e \<Rightarrow> Refused e
      | Ok (e, c) \<Rightarrow>
          Ok (milter_client_set_timeout (libmilter_timeout l)
               (milter_client_set_listen_backlog (libmilter_listen_backlog l)
                 (milter_client_set_listen_channel (libmilter_listen_channel l) c))))"

text \<open>
  A session that starts: its context is attached with the description that is registered then.
\<close>

definition cb_connection_established :: "'s libmilter \<Rightarrow> ('s \<times> 64 word) client_owner result" where
  "cb_connection_established l =
     (case filter_description l of
        None \<Rightarrow> Fault Null_dereference
      | Some d \<Rightarrow> Ok (smfi_context_attach_to_client_context d))"

text \<open>
  \<open>run\<close> is \<open>milter_client_run\<close>, which says whether it worked and what error it set. The message
  of the error is logged when it did not.
\<close>

definition smfi_main ::
    "(bytes \<Rightarrow> event_loop_backend option) \<Rightarrow> milter_client client_class \<Rightarrow> bytes option \<Rightarrow>
     (milter_client \<Rightarrow> bool \<times> milter_client_error option \<times> milter_client) \<Rightarrow>
     's libmilter \<Rightarrow> (int \<times> 's libmilter) result" where
  "smfi_main backend_of_nick klass backend_env run l =
     (let l = libmilter_compatible_initialize l
      in case setup_milter_client backend_of_nick klass backend_env l milter_client_init of
           Fault f \<Rightarrow> Fault f
         | Refused e \<Rightarrow> Refused e
         | Ok c \<Rightarrow>
             (case run c of
                (success, e, c) \<Rightarrow>
                  if \<not> success \<and> e = None then Fault Null_dereference
                  else Ok (if success then MI_SUCCESS else MI_FAILURE,
                           (libmilter_compatible_reset l)\<lparr>core_initialized := False\<rparr>)))"

definition smfi_stop :: "'s libmilter \<Rightarrow> int \<times> 's libmilter" where
  "smfi_stop l =
     (let l = libmilter_compatible_initialize l
      in (MI_SUCCESS, l\<lparr>libmilter_client := map_option milter_client_shutdown (libmilter_client l)\<rparr>))"

subsection \<open>What the client runs with\<close>

text \<open>
  The calls a program makes before \<open>smfi_main\<close>, and what they return. Each opening of a socket has
  the answers of the system at that time.
\<close>

datatype 's setting =
    Register "'s filter_desc"
  | Setconn "bytes option"
  | Setbacklog int
  | Settimeout int
  | Setdbg int
  | Opensocket client_system bool

definition apply_setting ::
    "platform \<Rightarrow> (bytes \<Rightarrow> u32 option) \<Rightarrow> (bytes \<Rightarrow> 128 word option) \<Rightarrow> 's setting \<Rightarrow>
     's libmilter \<Rightarrow> (int \<times> 's libmilter) result" where
  "apply_setting P getaddrinfo4 getaddrinfo6 setting l =
     (case setting of
        Register d \<Rightarrow> Ok (smfi_register d l)
      | Setconn spec \<Rightarrow> smfi_setconn P getaddrinfo4 getaddrinfo6 spec l
      | Setbacklog backlog \<Rightarrow> Ok (smfi_setbacklog backlog l)
      | Settimeout timeout \<Rightarrow> Ok (smfi_settimeout timeout l)
      | Setdbg level \<Rightarrow> Ok (smfi_setdbg level l)
      | Opensocket sys remove_socket \<Rightarrow>
          bind_result (smfi_opensocket sys remove_socket l) (\<lambda>(code, calls, l). Ok (code, l)))"

fun apply_settings ::
    "platform \<Rightarrow> (bytes \<Rightarrow> u32 option) \<Rightarrow> (bytes \<Rightarrow> 128 word option) \<Rightarrow> 's setting list \<Rightarrow>
     's libmilter \<Rightarrow> (int list \<times> 's libmilter) result" where
  "apply_settings P getaddrinfo4 getaddrinfo6 [] l = Ok ([], l)"
| "apply_settings P getaddrinfo4 getaddrinfo6 (x # xs) l =
     bind_result (apply_setting P getaddrinfo4 getaddrinfo6 x l) (\<lambda>(code, l).
       bind_result (apply_settings P getaddrinfo4 getaddrinfo6 xs l) (\<lambda>(codes, l). Ok (code # codes, l)))"

text \<open>The values that are in range, and the specifications that can be parsed.\<close>

fun accepted_backlogs :: "'s setting list \<Rightarrow> int list" where
  "accepted_backlogs [] = []"
| "accepted_backlogs (x # xs) =
     (case x of Setbacklog n \<Rightarrow> if n \<le> 0 then [] else [n] | _ \<Rightarrow> []) @ accepted_backlogs xs"

definition normalized :: "bytes \<Rightarrow> bytes" where
  "normalized spec = (if CHR '':'' \<in> set spec then spec else ''unix:'' @ spec)"

definition parses ::
    "platform \<Rightarrow> (bytes \<Rightarrow> u32 option) \<Rightarrow> (bytes \<Rightarrow> 128 word option) \<Rightarrow> bytes \<Rightarrow> bool" where
  "parses P getaddrinfo4 getaddrinfo6 spec \<longleftrightarrow>
     (case milter_connection_parse_spec P getaddrinfo4 getaddrinfo6 (Some spec) False of
        Ok _ \<Rightarrow> True | _ \<Rightarrow> False)"

fun accepted_specs ::
    "platform \<Rightarrow> (bytes \<Rightarrow> u32 option) \<Rightarrow> (bytes \<Rightarrow> 128 word option) \<Rightarrow> 's setting list \<Rightarrow> bytes list" where
  "accepted_specs P getaddrinfo4 getaddrinfo6 [] = []"
| "accepted_specs P getaddrinfo4 getaddrinfo6 (x # xs) =
     (case x of
        Setconn (Some spec) \<Rightarrow>
          if parses P getaddrinfo4 getaddrinfo6 (normalized spec) then [normalized spec] else []
      | _ \<Rightarrow> []) @ accepted_specs P getaddrinfo4 getaddrinfo6 xs"

text \<open>What a call returns, unless it opens a socket.\<close>

definition returned ::
    "platform \<Rightarrow> (bytes \<Rightarrow> u32 option) \<Rightarrow> (bytes \<Rightarrow> 128 word option) \<Rightarrow> 's setting \<Rightarrow> int \<Rightarrow> bool" where
  "returned P getaddrinfo4 getaddrinfo6 x code \<longleftrightarrow>
     (case x of
        Register d \<Rightarrow> code = (if xxfi_version d \<in> {uint SMFI_VERSION, 2, 3, 4} then MI_SUCCESS else MI_FAILURE)
      | Setconn spec \<Rightarrow> code = (if accepted_specs P getaddrinfo4 getaddrinfo6 [x] \<noteq> [] then MI_SUCCESS else MI_FAILURE)
      | Setbacklog n \<Rightarrow> code = (if accepted_backlogs [x] \<noteq> [] then MI_SUCCESS else MI_FAILURE)
      | Settimeout n \<Rightarrow> code = MI_SUCCESS
      | Setdbg n \<Rightarrow> code = MI_SUCCESS
      | Opensocket sys remove_socket \<Rightarrow> code \<in> {MI_SUCCESS, MI_FAILURE})"

text \<open>The sockets that were opened.\<close>

fun opened :: "'s setting list \<Rightarrow> int list \<Rightarrow> int list" where
  "opened (x # xs) (code # codes) =
     (case x of Opensocket sys r \<Rightarrow> if code = MI_SUCCESS then [csys_listen_fd sys] else [] | _ \<Rightarrow> [])
       @ opened xs codes"
| "opened _ _ = []"

definition last_of :: "'a list \<Rightarrow> 'a option \<Rightarrow> 'a option" where
  "last_of xs x = (if xs = [] then x else Some (last xs))"

lemma last_of_simps [simp]: "last_of [] x = x" "last_of (y # ys) x = last_of ys (Some y)"
  by (simp_all add: last_of_def)

lemma last_of_append [simp]: "last_of (xs @ ys) x = last_of ys (last_of xs x)"
  by (induction xs arbitrary: x) simp_all

lemma initialize_frame [simp]:
  "libmilter_connection_spec (libmilter_compatible_initialize l) = libmilter_connection_spec l"
  "libmilter_listen_backlog (libmilter_compatible_initialize l) = libmilter_listen_backlog l"
  "libmilter_timeout (libmilter_compatible_initialize l) = libmilter_timeout l"
  "filter_description (libmilter_compatible_initialize l) = filter_description l"
  by (simp_all add: libmilter_compatible_initialize_def)

lemma initialize_channel [simp]:
  "libmilter_listen_channel (libmilter_compatible_initialize l) = libmilter_listen_channel l"
  by (simp add: libmilter_compatible_initialize_def)

text \<open>A socket is opened with what has been set by then.\<close>

definition opened_with :: "client_system \<Rightarrow> bool \<Rightarrow> bytes option \<Rightarrow> int \<Rightarrow> bool" where
  "opened_with sys remove_socket spec backlog \<longleftrightarrow>
     (\<exists>address calls. milter_connection_listen (csys_platform sys) (csys_getaddrinfo4 sys) (csys_getaddrinfo6 sys)
        (csys_file_exists sys) (csys_works sys) (csys_default_backlog sys) spec backlog remove_socket =
          Ok (Inr address, calls))"

lemma setting_applied:
  assumes "apply_setting P getaddrinfo4 getaddrinfo6 x l = Ok (code, l')"
  shows "libmilter_connection_spec l' =
      last_of (accepted_specs P getaddrinfo4 getaddrinfo6 [x]) (libmilter_connection_spec l)"
    and "Some (libmilter_listen_backlog l') = last_of (accepted_backlogs [x]) (Some (libmilter_listen_backlog l))"
    and "libmilter_timeout l' = libmilter_timeout l"
    and "libmilter_listen_channel l' = last_of (opened [x] [code]) (libmilter_listen_channel l)"
    and "returned P getaddrinfo4 getaddrinfo6 x code"
    and "x = Opensocket sys r \<Longrightarrow> code = MI_SUCCESS \<Longrightarrow>
      opened_with sys r (libmilter_connection_spec l) (libmilter_listen_backlog l)"
proof -
  have codes: "MI_SUCCESS \<noteq> MI_FAILURE" by (simp add: MI_SUCCESS_def MI_FAILURE_def)
  have "libmilter_connection_spec l' =
      last_of (accepted_specs P getaddrinfo4 getaddrinfo6 [x]) (libmilter_connection_spec l) \<and>
    Some (libmilter_listen_backlog l') = last_of (accepted_backlogs [x]) (Some (libmilter_listen_backlog l)) \<and>
    libmilter_timeout l' = libmilter_timeout l \<and>
    libmilter_listen_channel l' = last_of (opened [x] [code]) (libmilter_listen_channel l) \<and>
    returned P getaddrinfo4 getaddrinfo6 x code \<and>
    (\<forall>sys r. x = Opensocket sys r \<longrightarrow> code = MI_SUCCESS \<longrightarrow>
      opened_with sys r (libmilter_connection_spec l) (libmilter_listen_backlog l))"
  proof (cases x)
    case (Register d)
    with assms show ?thesis
      by (auto simp: apply_setting_def smfi_register_def filter_description_free_def returned_def Let_def
          split: if_splits)
  next
    case (Setconn spec)
    with assms show ?thesis
      by (auto simp: apply_setting_def smfi_setconn_def normalized_def [symmetric] parses_def returned_def Let_def
          split: option.splits result.splits)
  next
    case (Opensocket sys r)
    with assms codes show ?thesis
      by (auto simp: apply_setting_def smfi_opensocket_def returned_def opened_with_def Let_def
          split: if_splits result.splits sum.splits)
  qed (use assms in \<open>auto simp: apply_setting_def smfi_setbacklog_def smfi_settimeout_def smfi_setdbg_def
      returned_def Let_def\<close>)
  then show "libmilter_connection_spec l' =
      last_of (accepted_specs P getaddrinfo4 getaddrinfo6 [x]) (libmilter_connection_spec l)"
    "Some (libmilter_listen_backlog l') = last_of (accepted_backlogs [x]) (Some (libmilter_listen_backlog l))"
    "libmilter_timeout l' = libmilter_timeout l"
    "libmilter_listen_channel l' = last_of (opened [x] [code]) (libmilter_listen_channel l)"
    "returned P getaddrinfo4 getaddrinfo6 x code"
    "x = Opensocket sys r \<Longrightarrow> code = MI_SUCCESS \<Longrightarrow>
      opened_with sys r (libmilter_connection_spec l) (libmilter_listen_backlog l)" by auto
qed

lemma accepted_Cons:
  "accepted_specs P getaddrinfo4 getaddrinfo6 (x # xs) =
     accepted_specs P getaddrinfo4 getaddrinfo6 [x] @ accepted_specs P getaddrinfo4 getaddrinfo6 xs"
  "accepted_backlogs (x # xs) = accepted_backlogs [x] @ accepted_backlogs xs"
  "opened (x # xs) (code # codes) = opened [x] [code] @ opened xs codes"
  by simp_all

text \<open>What \<open>i\<close> calls have set, after what was set before them.\<close>

definition set_by ::
    "platform \<Rightarrow> (bytes \<Rightarrow> u32 option) \<Rightarrow> (bytes \<Rightarrow> 128 word option) \<Rightarrow> 's setting list \<Rightarrow>
     bytes option \<times> int \<Rightarrow> bytes option \<times> int" where
  "set_by P getaddrinfo4 getaddrinfo6 xs before =
     (last_of (accepted_specs P getaddrinfo4 getaddrinfo6 xs) (fst before),
      the (last_of (accepted_backlogs xs) (Some (snd before))))"

lemma set_by_Cons:
  "set_by P getaddrinfo4 getaddrinfo6 (x # xs) before =
     set_by P getaddrinfo4 getaddrinfo6 xs (set_by P getaddrinfo4 getaddrinfo6 [x] before)"
proof -
  have "last_of (accepted_backlogs [x]) (Some n) \<noteq> None" for n by (simp add: last_of_def)
  then show ?thesis unfolding set_by_def accepted_Cons(1) [of _ _ _ x xs] accepted_Cons(2) [of x xs] last_of_append
    by (simp del: accepted_specs.simps accepted_backlogs.simps)
qed

lemma settings_applied:
  assumes "apply_settings P getaddrinfo4 getaddrinfo6 xs l = Ok (codes, l')"
  shows "(libmilter_connection_spec l', libmilter_listen_backlog l') =
      set_by P getaddrinfo4 getaddrinfo6 xs (libmilter_connection_spec l, libmilter_listen_backlog l) \<and>
   libmilter_timeout l' = libmilter_timeout l \<and>
   libmilter_listen_channel l' = last_of (opened xs codes) (libmilter_listen_channel l) \<and>
   list_all2 (returned P getaddrinfo4 getaddrinfo6) xs codes \<and>
   (\<forall>i < length xs. \<forall>sys r. xs ! i = Opensocket sys r \<and> codes ! i = MI_SUCCESS \<longrightarrow>
      (case set_by P getaddrinfo4 getaddrinfo6 (take i xs) (libmilter_connection_spec l, libmilter_listen_backlog l) of
         (spec, backlog) \<Rightarrow> opened_with sys r spec backlog))"
  using assms
proof (induction xs arbitrary: l codes)
  case Nil
  then show ?case by (simp add: set_by_def)
next
  case (Cons x xs)
  obtain code l1 codes1 where one: "apply_setting P getaddrinfo4 getaddrinfo6 x l = Ok (code, l1)"
    and rest: "apply_settings P getaddrinfo4 getaddrinfo6 xs l1 = Ok (codes1, l')" and codes: "codes = code # codes1"
    using Cons.prems
    by auto
  note s = setting_applied [OF one]
  have upto: "(libmilter_connection_spec l1, libmilter_listen_backlog l1) =
      set_by P getaddrinfo4 getaddrinfo6 [x] (libmilter_connection_spec l, libmilter_listen_backlog l)"
    using s(1,2) by (simp add: set_by_def) (metis option.sel)
  note ih = Cons.IH [OF rest, unfolded upto]
  have "(\<forall>i < length (x # xs). \<forall>sys r. (x # xs) ! i = Opensocket sys r \<and> codes ! i = MI_SUCCESS \<longrightarrow>
      (case set_by P getaddrinfo4 getaddrinfo6 (take i (x # xs)) (libmilter_connection_spec l, libmilter_listen_backlog l) of
         (spec, backlog) \<Rightarrow> opened_with sys r spec backlog))"
  proof (intro allI impI)
    fix i sys r
    assume i: "i < length (x # xs)" "(x # xs) ! i = Opensocket sys r \<and> codes ! i = MI_SUCCESS"
    show "case set_by P getaddrinfo4 getaddrinfo6 (take i (x # xs)) (libmilter_connection_spec l, libmilter_listen_backlog l) of
         (spec, backlog) \<Rightarrow> opened_with sys r spec backlog"
    proof (cases i)
      case 0
      with i s(6) [of sys r] show ?thesis by (simp add: codes set_by_def)
    next
      case (Suc j)
      with i ih show ?thesis
        by (simp add: codes set_by_Cons [of _ _ _ x "take j xs"])
    qed
  qed
  with ih s(3-5) show ?case
    by (simp add: codes set_by_Cons [of _ _ _ x xs] accepted_Cons(3) [of x xs] del: opened.simps)
qed

lemma accepted_specs_parse: "s \<in> set (accepted_specs P getaddrinfo4 getaddrinfo6 xs) \<Longrightarrow> parses P getaddrinfo4 getaddrinfo6 s"
  by (induction xs) (auto split: setting.splits option.splits if_splits)



subsection \<open>Around the run\<close>

text \<open>A program that runs a filter it has not registered crashes with its first session.\<close>

theorem unregistered_filter_crashes:
  "filter_description l = None \<Longrightarrow> cb_connection_established l = Fault Null_dereference"
  by (simp add: cb_connection_established_def)

text \<open>
  After \<open>smfi_main\<close> everything that was set is gone, and the library is shut down but taken for
  initialized: no later call initializes it again.
\<close>

theorem second_run_not_initialized:
  assumes "smfi_main backend_of_nick klass env run l = Ok (result, l')"
    and "apply_settings P getaddrinfo4 getaddrinfo6 xs l' = Ok (codes, l'')"
  shows "filter_description l' = None \<and> libmilter_connection_spec l' = None \<and> \<not> core_initialized l''"
proof -
  have l': "libmilter_initialized l' \<and> \<not> core_initialized l' \<and> filter_description l' = None \<and>
      libmilter_connection_spec l' = None"
    using assms(1) by (auto simp: smfi_main_def libmilter_compatible_reset_def libmilter_compatible_initialize_def
        Let_def split: result.splits prod.splits if_splits)
  have "libmilter_initialized l'' \<and> \<not> core_initialized l''"
    if "apply_settings P getaddrinfo4 getaddrinfo6 xs k = Ok (codes, l'')" "libmilter_initialized k \<and> \<not> core_initialized k" for k codes
    using that
  proof (induction xs arbitrary: k codes)
    case (Cons x xs)
    obtain code k1 codes1 where one: "apply_setting P getaddrinfo4 getaddrinfo6 x k = Ok (code, k1)"
      and rest: "apply_settings P getaddrinfo4 getaddrinfo6 xs k1 = Ok (codes1, l'')"
      using Cons.prems(1) by auto
    have "libmilter_initialized k1 \<and> \<not> core_initialized k1"
      using one Cons.prems(2)
      by (cases x) (auto simp: apply_setting_def smfi_register_def filter_description_free_def smfi_setconn_def
          smfi_setbacklog_def smfi_settimeout_def smfi_setdbg_def smfi_opensocket_def
          libmilter_compatible_initialize_def Let_def
          split: if_splits option.splits result.splits sum.splits)
    then show ?case using Cons.IH [OF rest] by simp
  qed simp
  with l' assms(2) show ?thesis by blast
qed

end
