(* ===== verification/Spec2Isabelle.thy ===== *)
theory Spec2Isabelle
  imports Server_Context_Wire Leader_Faults Macros_Requests Children_Message_Spec
    Children_Replay Process_Launcher Esmtp_Spec Configuration_XML Client_Sessions_Run Manager_Spec
    Writer_Spec Reader_Spec Libmilter_Spec Libmilter_Main
begin

text \<open>
  \<^bold>\<open>milter manager.\<close> An MTA hands a mail, command by command, to a \<^emph>\<open>milter\<close>, which answers
  each command and may modify the mail at its end. The program plays one milter towards the
  MTA and is itself the client of any number of milters. A session runs through these parts
  (files under \<open>src/milter\<close>):

  \<^item> \<open>core\<close>: the wire protocol, with the codecs of the commands (MTA to milter) and of the
    replies (milter to MTA), options, macros, headers;
  \<^item> \<open>client\<close>: the side that receives commands and sends replies - a milter, and the manager
    towards the MTA;
  \<^item> \<open>server\<close>: the side that sends commands and receives replies - the manager towards one of
    its milters, one server context each;
  \<^item> \<open>manager\<close>: the children, which make the milters of a session look like one, the leader,
    which ties them to the client side, the manager itself, a client whose settings are its
    configuration, and the sockets of the controller and the launcher.

  \<^bold>\<open>Theories and what they model.\<close> Strings and packets are \<open>char list\<close>s, integers of the
  wire and option words are words of their width, an object is the record of its private
  structure, a handler a function from the state to the state, and a signal emitted is
  appended to a list in the state. A function that may crash or refuse returns \<open>Ok\<close>,
  \<open>Refused\<close> (with the \<open>GError\<close> it sets, or none) or \<open>Fault\<close> (out of bounds access, \<open>NULL\<close>
  dereference).

  \<^item> \<open>Prelude\<close>: the result type, big-endian numbers, C strings, the platform record (the C
    library's functions that are not part of the program: address parsing, collation) and
    its laws; \<open>Sample_Platform\<close> is an instance on which the laws are proved.
  \<^item> \<open>Protocol\<close> (\<open>milter-protocol.h\<close>, \<open>milter-utils.c\<close>), \<open>Options\<close> (\<open>milter-option.c\<close>),
    \<open>Headers\<close> (\<open>milter-headers.c\<close>), \<open>Macros_Requests\<close> (\<open>milter-macros-requests.c\<close>).
  \<^item> \<open>Encoder\<close>, \<open>Command_Encoder\<close>, \<open>Reply_Encoder\<close>; \<open>Decoder\<close> (the incremental decoder of
    \<open>milter-decoder.c\<close> and the agent's reader loop), \<open>Command_Decoder\<close>, \<open>Reply_Decoder\<close>.
    \<open>Framing\<close> has what holds for every decoder; its locales state the interface between
    the base class and a subclass (\<open>decode\<close> hands one message to its handler), and are
    interpreted on the command and the reply decoder in \<open>Command_Codec\<close>, \<open>Command_Spec\<close>,
    \<open>Reply_Codec\<close> and \<open>Reply_Spec\<close>: streams decode to the commands or replies they
    encode however they are cut into reads, and nothing outside the buffer is read unless
    the peer sends one of the malformed packets the theorems name.
  \<^item> \<open>Reply_Code\<close>, \<open>Client_Context\<close>, \<open>Client_Context_Commands\<close> (\<open>milter-client-context.c\<close>, with
    \<open>milter-agent.c\<close>): the side that plays a milter. The owner of a context answers its
    signals, may ask for modifications meanwhile, or answers later. \<open>Client_Context_Spec\<close>
    states as a small machine what a context sends for what its owner says, and refines it;
    \<open>Client_Session\<close> ties this to both codecs.
  \<^item> \<open>Libmilter\<close>, \<open>Libmilter_Main\<close> (\<open>libmilter/libmilter-compatible.c\<close>): Sendmail's interface on top
    of a client context, for filters written for it. \<open>Libmilter_Spec\<close> reads off a filter's
    description the milter it is, whose session is that of \<open>Client_Session\<close>.
  \<^item> \<open>Protocol_Agent\<close> (\<open>milter-protocol-agent.c\<close>): the macro tables and the cache of the
    available macros. \<open>Message_Result\<close> (\<open>milter-message-result.c\<close>).
  \<^item> \<open>Server_Context\<close>, \<open>Server_Context_Commands\<close>, \<open>Server_Context_Replies\<close>
    (\<open>milter-server-context.c\<close>): the conversation with one milter; \<open>server_step\<close> takes one
    input - a command of the owner, a finished write, an answer, a timer. \<open>Server_Context_Spec\<close>
    has its safety and its flow control, \<open>Server_Context_Wire\<close> ties it to the command codec.
  \<^item> \<open>Children\<close>, \<open>Children_Message\<close>, \<open>Children_Flow\<close>, \<open>Children_Replies\<close>, \<open>Children_Negotiation\<close>
    (\<open>milter-manager-children.c\<close>): the commands up to the end of the recipients go to all
    milters at once and their answers are combined; a message goes to one milter after the
    other, each of which sees what the ones before have made of it.
    \<open>Children_Message_Spec\<close> has the modifications reported at the end of a message,
    \<open>Children_Spec\<close> the combination of answers, \<open>Children_Replay\<close> the way of a message.
  \<^item> \<open>Leader\<close> (\<open>milter-manager-leader.c\<close>, and the callbacks of \<open>milter-manager.c\<close>): the owner of
    the client context towards the MTA, which passes commands to the children and their
    signals back. \<open>Leader_Spec\<close> follows a command from the MTA through all parts and back;
    \<open>Leader_Faults\<close> has what goes wrong on that way.
  \<^item> \<open>Egg\<close>, \<open>Configuration\<close> (\<open>milter-manager-egg.c\<close>, \<open>milter-manager-applicable-condition.c\<close>,
    \<open>milter-manager-child.c\<close>, \<open>milter-manager-configuration.c\<close>): the settings and the milters of
    a session that are made from them. \<open>Configuration_Spec\<close> says which milters a session
    gets, when each is bypassed, and what a reload leaves; \<open>Configuration_XML\<close> that the text sent to
    a controller is balanced. \<open>Esmtp\<close> (\<open>milter-esmtp.c\<close>) parses the arguments of MAIL and RCPT
    and \<open>Esmtp_Spec\<close> compares it with the grammar; \<open>Connection\<close> (\<open>milter-connection.c\<close>) has the
    specs of sockets.
  \<^item> \<open>Control_Protocol\<close> (\<open>milter-manager-control-*.c\<close>, \<open>milter-manager-launch-*.c\<close>,
    \<open>milter-manager-reply-*.c\<close>, \<open>milter-manager-controller-context.c\<close>) and \<open>Process_Launcher\<close>
    (\<open>milter-manager-process-launcher.c\<close>) have the protocols and the two servers;
    \<open>Control_Session\<close> refines a session of a controller to requests and answers. They interpret
    the locales of \<open>Framing\<close> again.
  \<^item> \<open>Event_Loop\<close> (\<open>milter-event-loop.c\<close>, \<open>milter-libev-event-loop.c\<close>): the table of watchers,
    whose contract is the locale \<open>event_source\<close>, and nested runs. \<open>Writer\<close>, \<open>Reader\<close>
    (\<open>milter-writer.c\<close>, \<open>milter-reader.c\<close>) are the buffered ends of a channel, with watchers in such
    a table; an input is what the channel answers and a call of the owner. \<open>Writer_Spec\<close> and
    \<open>Reader_Spec\<close> show that bytes are neither lost nor reordered, when a flush is reported, and that
    the end is reported once. \<open>Client\<close>, \<open>Client_Sessions\<close>
    (\<open>milter-client.c\<close>): settings and their virtual methods, listening, privileges; accepting,
    setting up and freeing sessions, shutting down. An input is the watcher the loop calls
    and what the system answers. The locale \<open>client_methods\<close> is what the client relies on from
    a subclass; \<open>Client_Sessions_Spec\<close> has the invariant and \<open>Client_Sessions_Run\<close> runs from the
    start. \<open>Manager\<close> (\<open>milter-manager.c\<close>) is the manager as a client; \<open>Manager_Spec\<close> has the order
    in which the leaders are checked and what a reload does to the settings. The manager is not an
    interpretation of \<open>client_methods\<close>: the id of its connection checker may be stale, and then
    it would remove whatever watcher got that id after the counter has wrapped.

  \<^bold>\<open>Bounds.\<close> The decoder's loop is bounded by the length of its buffer, which every round
  shortens or leaves the loop. Callbacks are parameters: \<open>env_call\<close> says what a milter does when it
  is called, \<open>env_observe\<close> what the observers of a signal do. A \<open>continue\<close> that the children
  emit on behalf of a milter leads back into their handlers; \<open>connected\<close> ties this knot up
  to a given depth and records \<open>Recursion_limit\<close> beyond it, and the theorems hold for every
  environment with the properties they name.

  A run of a client is a list of inputs, so it ends; that a shutdown does is a measure that
  the inputs still possible lower. Searches that may not end, the sleep of \<open>accept_connection_fd\<close> and
  the search for a free watcher id, are partial functions.

  \<^bold>\<open>Not modelled.\<close> The GLib event loop, logging, option parsing, the
  forking of workers, dynamic modules and GObject glue are input and output, calls of the
  system or registration code; what they deliver appears as the inputs of the step functions
  above. The test tools under \<open>tool\<close> are clients of the libraries, with a mail parser and a
  sequence of commands of their own, and are left out. So are the mode of the client with threads,
  which no caller enables, the time stamps and the object of the session result. libev, GLib, the
  C library, the loaders of the configuration and the observers of its signals (the Ruby bindings)
  are parameters.
\<close>

end
